(* ===== verification/PyPrelude.thy ===== *)
theory PyPrelude
  imports Complex_Main "HOL-Library.Char_ord" "HOL-Library.List_Lexorder"
begin

text \<open>
  The part of Python that every modelled module uses: exceptions as values, JSON documents
  (what \<open>json.loads\<close> returns and \<open>json.dumps\<close> accepts), the coercions \<open>str\<close>, \<open>int\<close>,
  \<open>float\<close>, \<open>bool\<close> on them, and the string methods the sources call.

  Conventions. A Python \<open>int\<close> is an \<open>int\<close>. A finite Python \<open>float\<close> is the rational number
  it denotes: comparisons are exact, sums and quotients are not rounded. A string is the
  list of its characters; the sources restrict themselves to ASCII in everything they parse.
  \<open>OutOfModel\<close> is not a Python exception: it marks an input on which the model makes no
  statement (the \<open>repr\<close> of a float or a container inside an identifier field, a number
  written as a string in a float field). No document written by the modelled code reaches it.
\<close>

named_theorems py_simps "evaluation of the Python primitives"
named_theorems state_sets "the state names and state sets of the lifecycles"

section \<open>Exceptions and results\<close>

datatype exn =
    TypeError
  | ValueError
  | KeyError
  | AttributeError
  | ZeroDivisionError
  | RuntimeError string
  | RedisError
  | SetupLifecycleError string
  | SetupTransitionConflict string
  | ZoneWatchError string
  | TradePlanError string
  | TradePlanBuildRejected string
  | ProtectiveStopError string string
  | InvalidOperation
  | IndexError
  | OutOfModel

type_synonym 'a res = "exn + 'a"

fun res_bind :: "'a res \<Rightarrow> ('a \<Rightarrow> 'b res) \<Rightarrow> 'b res" where
  "res_bind (Inl e) f = Inl e"
| "res_bind (Inr a) f = f a"

lemma res_bind_Inr_iff:
  "res_bind m f = Inr b \<longleftrightarrow> (\<exists>a. m = Inr a \<and> f a = Inr b)"
  by (cases m) auto

fun res_map_list :: "('a \<Rightarrow> 'b res) \<Rightarrow> 'a list \<Rightarrow> 'b list res" where
  "res_map_list f [] = Inr []"
| "res_map_list f (x # xs) =
     res_bind (f x) (\<lambda>y. res_bind (res_map_list f xs) (\<lambda>ys. Inr (y # ys)))"

lemma res_map_list_Inr:
  "(\<And>x. x \<in> set xs \<Longrightarrow> f x = Inr (g x)) \<Longrightarrow> res_map_list f xs = Inr (map g xs)"
  by (induction xs) auto

section \<open>Strings\<close>

definition char_upper :: "char \<Rightarrow> char" where
  "char_upper c =
     (if of_char c \<ge> (97::int) \<and> of_char c \<le> (122::int)
      then char_of (of_char c - 32 :: int) else c)"

definition char_lower :: "char \<Rightarrow> char" where
  "char_lower c =
     (if of_char c \<ge> (65::int) \<and> of_char c \<le> (90::int)
      then char_of (of_char c + 32 :: int) else c)"

definition char_space :: "char \<Rightarrow> bool" where
  "char_space c \<longleftrightarrow> c = CHR '' '' \<or> (of_char c \<ge> (9::int) \<and> of_char c \<le> (13::int)) \<or>
     (of_char c \<ge> (28::int) \<and> of_char c \<le> (31::int))"

definition str_upper :: "string \<Rightarrow> string" where
  "str_upper s = map char_upper s"

definition str_lower :: "string \<Rightarrow> string" where
  "str_lower s = map char_lower s"

definition str_strip :: "string \<Rightarrow> string" where
  "str_strip s = rev (dropWhile char_space (rev (dropWhile char_space s)))"

fun str_startswith :: "string \<Rightarrow> string \<Rightarrow> bool" where
  "str_startswith s [] = True"
| "str_startswith [] (c # p) = False"
| "str_startswith (x # s) (c # p) = (x = c \<and> str_startswith s p)"

fun str_contains :: "string \<Rightarrow> string \<Rightarrow> bool" where
  "str_contains [] p = (p = [])"
| "str_contains (x # s) p = (str_startswith (x # s) p \<or> str_contains s p)"

text \<open>\<open>s.partition(c)\<close>: the part before the first \<open>c\<close> and the part after it.\<close>

fun str_partition :: "char \<Rightarrow> string \<Rightarrow> string \<times> string" where
  "str_partition c [] = ([], [])"
| "str_partition c (x # s) =
     (if x = c then ([], s) else (let (a, b) = str_partition c s in (x # a, b)))"

text \<open>\<open>s.split(c)\<close> for a one-character separator.\<close>

fun str_split :: "char \<Rightarrow> string \<Rightarrow> string list" where
  "str_split c [] = [[]]"
| "str_split c (x # s) =
     (if x = c then [] # str_split c s
      else (case str_split c s of [] \<Rightarrow> [[x]] | w # ws \<Rightarrow> (x # w) # ws))"

text \<open>\<open>s.rsplit(c, 1)[-1]\<close>: what follows the last \<open>c\<close>.\<close>

definition str_after_last :: "char \<Rightarrow> string \<Rightarrow> string" where
  "str_after_last c s = rev (takeWhile (\<lambda>x. x \<noteq> c) (rev s))"

text \<open>\<open>d.setdefault(k, []).append(v)\<close> on a dict of lists.\<close>

fun dict_append :: "'k \<Rightarrow> 'v \<Rightarrow> ('k \<times> 'v list) list \<Rightarrow> ('k \<times> 'v list) list" where
  "dict_append k v [] = [(k, [v])]"
| "dict_append k v ((k', vs) # d) =
     (if k' = k then (k', vs @ [v]) # d else (k', vs) # dict_append k v d)"

section \<open>Decimal integers\<close>

definition digit_char :: "nat \<Rightarrow> char" where
  "digit_char d = char_of (48 + d)"

fun str_nat :: "nat \<Rightarrow> string" where
  "str_nat n = (if n < 10 then [digit_char n] else str_nat (n div 10) @ [digit_char (n mod 10)])"

declare str_nat.simps [simp del]

definition str_int :: "int \<Rightarrow> string" where
  "str_int i = (if i < 0 then CHR ''-'' # str_nat (nat (- i)) else str_nat (nat i))"

definition is_digit :: "char \<Rightarrow> bool" where
  "is_digit c \<longleftrightarrow> of_char c \<ge> (48::nat) \<and> of_char c \<le> (57::nat)"

definition parse_nat :: "string \<Rightarrow> nat option" where
  "parse_nat s =
     (if s \<noteq> [] \<and> list_all is_digit s
      then Some (foldl (\<lambda>a c. 10 * a + (of_char c - 48)) 0 s) else None)"

text \<open>\<open>int(text)\<close>: optional blanks around an optionally signed digit string.\<close>

definition parse_int :: "string \<Rightarrow> int option" where
  "parse_int s =
     (case str_strip s of
        [] \<Rightarrow> None
      | c # t \<Rightarrow>
          if c = CHR ''-'' then map_option (\<lambda>n. - int n) (parse_nat t)
          else if c = CHR ''+'' then map_option int (parse_nat t)
          else map_option int (parse_nat (c # t)))"

lemma digit_char_props:
  assumes "d < 10"
  shows "is_digit (digit_char d)" "(of_char (digit_char d) :: nat) - 48 = d"
    "\<not> char_space (digit_char d)" "digit_char d \<noteq> CHR ''-''" "digit_char d \<noteq> CHR ''+''"
proof -
  have oc: "(of_char (digit_char d) :: nat) = 48 + d"
    using assms by (simp add: digit_char_def)
  show "is_digit (digit_char d)" "(of_char (digit_char d) :: nat) - 48 = d"
    using oc assms by (simp_all add: is_digit_def)
  have "(of_char CHR ''-'' :: nat) = 45" "(of_char CHR ''+'' :: nat) = 43"
    "(of_char CHR '' '' :: nat) = 32" by simp_all
  moreover have "(of_char (digit_char d) :: int) = 48 + int d"
    using oc by (metis of_nat_add of_nat_numeral of_nat_of_char)
  ultimately show "\<not> char_space (digit_char d)" "digit_char d \<noteq> CHR ''-''" "digit_char d \<noteq> CHR ''+''"
    using oc by (auto simp: char_space_def)
qed

lemma str_nat_nonempty: "str_nat n \<noteq> []"
  by (subst str_nat.simps) simp

lemma str_nat_digits: "list_all (\<lambda>c. \<exists>d<10. c = digit_char d) (str_nat n)"
proof (induction n rule: str_nat.induct)
  case (1 n)
  then show ?case
    by (subst str_nat.simps) (cases "n < 10"; force)
qed

lemma parse_nat_str_nat: "parse_nat (str_nat n) = Some n"
proof -
  have digits: "list_all is_digit (str_nat n)"
    using str_nat_digits[of n] by (auto simp: list_all_iff digit_char_props)
  have "foldl (\<lambda>a c. 10 * a + (of_char c - 48)) 0 (str_nat n) = n"
  proof (induction n rule: str_nat.induct)
    case (1 n)
    then show ?case
      by (subst str_nat.simps) (cases "n < 10"; simp add: digit_char_props)
  qed
  with digits show ?thesis by (simp add: parse_nat_def str_nat_nonempty)
qed

lemma strip_nospace: "list_all (\<lambda>c. \<not> char_space c) s \<Longrightarrow> str_strip s = s"
proof -
  have dw: "dropWhile char_space t = t" if "list_all (\<lambda>c. \<not> char_space c) t" for t
    using that by (cases t) auto
  assume "list_all (\<lambda>c. \<not> char_space c) s"
  then show ?thesis by (simp add: str_strip_def dw)
qed

lemma parse_int_str_int [py_simps]: "parse_int (str_int i) = Some i"
proof -
  have nosp: "list_all (\<lambda>c. \<not> char_space c) (str_nat m)" for m
    using str_nat_digits[of m] by (auto simp: list_all_iff digit_char_props)
  have nosp_int: "list_all (\<lambda>c. \<not> char_space c) (str_int i)"
    using nosp by (auto simp: str_int_def char_space_def)
  have head: "\<exists>d t. d < 10 \<and> str_nat m = digit_char d # t" for m
    using str_nat_digits[of m] str_nat_nonempty[of m] by (cases "str_nat m") auto
  show ?thesis
  proof (cases "i < 0")
    case True
    then show ?thesis
      using nosp_int
      by (simp add: parse_int_def strip_nospace) (simp add: str_int_def parse_nat_str_nat)
  next
    case False
    obtain d t where dt: "d < 10" "str_nat (nat i) = digit_char d # t" using head by blast
    with False have "str_int i = digit_char d # t" by (simp add: str_int_def)
    moreover have "parse_nat (digit_char d # t) = Some (nat i)"
      using dt(2) parse_nat_str_nat by metis
    ultimately show ?thesis
      using nosp_int dt False by (simp add: parse_int_def strip_nospace digit_char_props)
  qed
qed

section \<open>JSON documents\<close>

datatype json =
    JNull
  | JBool bool
  | JInt int
  | JFloat rat
  | JStr string
  | JList "json list"
  | JObj "(string \<times> json) list"

text \<open>\<open>data[k]\<close> on a decoded document: \<open>TypeError\<close> unless it is a dict.\<close>

fun jindex :: "json \<Rightarrow> string \<Rightarrow> json res" where
  "jindex (JObj kv) k = (case map_of kv k of None \<Rightarrow> Inl KeyError | Some v \<Rightarrow> Inr v)"
| "jindex _ k = Inl TypeError"

text \<open>\<open>data.get(k)\<close>, \<open>data.get(k, d)\<close>: \<open>AttributeError\<close> unless it is a dict.\<close>

fun jget :: "json \<Rightarrow> string \<Rightarrow> json res" where
  "jget (JObj kv) k = Inr (case map_of kv k of None \<Rightarrow> JNull | Some v \<Rightarrow> v)"
| "jget _ k = Inl AttributeError"

fun jget_default :: "json \<Rightarrow> string \<Rightarrow> json \<Rightarrow> json res" where
  "jget_default (JObj kv) k d = Inr (case map_of kv k of None \<Rightarrow> d | Some v \<Rightarrow> v)"
| "jget_default _ k d = Inl AttributeError"

fun py_truthy :: "json \<Rightarrow> bool" where
  "py_truthy JNull = False"
| "py_truthy (JBool b) = b"
| "py_truthy (JInt i) = (i \<noteq> 0)"
| "py_truthy (JFloat q) = (q \<noteq> 0)"
| "py_truthy (JStr s) = (s \<noteq> [])"
| "py_truthy (JList xs) = (xs \<noteq> [])"
| "py_truthy (JObj kv) = (kv \<noteq> [])"

text \<open>\<open>a or b\<close> on values.\<close>

definition py_or :: "json \<Rightarrow> json \<Rightarrow> json" where
  "py_or a b = (if py_truthy a then a else b)"

fun py_str :: "json \<Rightarrow> string res" where
  "py_str (JStr s) = Inr s"
| "py_str (JInt i) = Inr (str_int i)"
| "py_str (JBool b) = Inr (if b then ''True'' else ''False'')"
| "py_str JNull = Inr ''None''"
| "py_str _ = Inl OutOfModel"

fun py_int :: "json \<Rightarrow> int res" where
  "py_int (JInt i) = Inr i"
| "py_int (JBool b) = Inr (if b then 1 else 0)"
| "py_int (JFloat q) = Inr (if q < 0 then \<lceil>q\<rceil> else \<lfloor>q\<rfloor>)"
| "py_int (JStr s) = (case parse_int s of Some i \<Rightarrow> Inr i | None \<Rightarrow> Inl ValueError)"
| "py_int _ = Inl TypeError"

fun py_float :: "json \<Rightarrow> rat res" where
  "py_float (JFloat q) = Inr q"
| "py_float (JInt i) = Inr (of_int i)"
| "py_float (JBool b) = Inr (if b then 1 else 0)"
| "py_float (JStr s) = Inl OutOfModel"
| "py_float _ = Inl TypeError"

text \<open>\<open>try: int(v) except (TypeError, ValueError): None\<close>.\<close>

definition as_int :: "json \<Rightarrow> int option" where
  "as_int v = (case py_int v of Inr i \<Rightarrow> Some i | Inl e \<Rightarrow> None)"

text \<open>\<open>str(value or "")\<close>.\<close>

definition text_or_empty :: "json \<Rightarrow> string res" where
  "text_or_empty v = py_str (py_or v (JStr []))"

text \<open>Dicts in order of insertion: \<open>d.get(k)\<close>, \<open>d[k] = v\<close> and \<open>d.update(other)\<close>.\<close>

definition dict_get :: "(string \<times> json) list \<Rightarrow> string \<Rightarrow> json" where
  "dict_get d k = (case map_of d k of None \<Rightarrow> JNull | Some v \<Rightarrow> v)"

fun dict_set :: "string \<Rightarrow> 'v \<Rightarrow> (string \<times> 'v) list \<Rightarrow> (string \<times> 'v) list" where
  "dict_set k v [] = [(k, v)]"
| "dict_set k v ((k', w) # d) = (if k' = k then (k, v) # d else (k', w) # dict_set k v d)"

definition dict_update :: "(string \<times> 'v) list \<Rightarrow> (string \<times> 'v) list \<Rightarrow> (string \<times> 'v) list" where
  "dict_update d other = fold (\<lambda>(k, v). dict_set k v) other d"

lemma dict_set_get [simp]: "map_of (dict_set k v d) k' = (if k' = k then Some v else map_of d k')"
  by (induction d) auto

text \<open>\<open>round(x)\<close> and \<open>round(x, n)\<close>, half to even.\<close>

definition round_half_even_int :: "rat \<Rightarrow> int" where
  "round_half_even_int q =
     (let f = \<lfloor>q\<rfloor>; d = q - of_int f in if d > 1 / 2 \<or> d = 1 / 2 \<and> odd f then f + 1 else f)"

definition py_round :: "nat \<Rightarrow> rat \<Rightarrow> rat" where
  "py_round n q = of_int (round_half_even_int (q * 10 ^ n)) / 10 ^ n"

text \<open>\<open>quantize\<close> to \<open>n\<close> places with \<open>ROUND_HALF_UP\<close> (a tie goes away from zero), \<open>ROUND_FLOOR\<close> and
  \<open>ROUND_CEILING\<close>.\<close>

definition quantize_half_up :: "nat \<Rightarrow> rat \<Rightarrow> rat" where
  "quantize_half_up n q =
     (let k = \<lfloor>\<bar>q\<bar> * 10 ^ n + 1 / 2\<rfloor> in (if q < 0 then - of_int k else of_int k) / 10 ^ n)"

definition quantize_floor :: "nat \<Rightarrow> rat \<Rightarrow> rat" where
  "quantize_floor n q = of_int \<lfloor>q * 10 ^ n\<rfloor> / 10 ^ n"

definition quantize_ceiling :: "nat \<Rightarrow> rat \<Rightarrow> rat" where
  "quantize_ceiling n q = of_int \<lceil>q * 10 ^ n\<rceil> / 10 ^ n"

lemma quantize_half_up_mono:
  assumes "a \<le> b"
  shows "quantize_half_up n a \<le> quantize_half_up n b"
proof -
  define k where "k = (\<lambda>x :: rat. \<lfloor>\<bar>x\<bar> * 10 ^ n + 1 / 2\<rfloor>)"
  have up: "k x \<le> k y" if "\<bar>x\<bar> \<le> \<bar>y\<bar>" for x y
    using that unfolding k_def by (intro floor_mono add_right_mono mult_right_mono) simp_all
  have nonneg: "0 \<le> k x" for x using mult_nonneg_nonneg [of "\<bar>x\<bar>" "10 ^ n"] by (simp add: k_def)
  have "(if a < 0 then - k a else k a) \<le> (if b < 0 then - k b else k b)"
    using assms up [of a b] up [of b a] nonneg [of a] nonneg [of b] by (cases "a < 0"; cases "b < 0") simp_all
  then have "(if a < 0 then - of_int (k a) else of_int (k a)) \<le> (if b < 0 then - of_int (k b) else of_int (k b) :: rat)"
    by (simp split: if_splits flip: of_int_minus)
  then show ?thesis unfolding quantize_half_up_def Let_def k_def by (rule divide_right_mono) simp
qed

lemma quantize_half_up_near: "\<bar>quantize_half_up n q - q\<bar> \<le> 1 / (2 * 10 ^ n)"
proof -
  define k where "k = \<lfloor>\<bar>q\<bar> * 10 ^ n + 1 / 2\<rfloor>"
  have k: "of_int k \<le> \<bar>q\<bar> * 10 ^ n + 1 / 2" "\<bar>q\<bar> * 10 ^ n + 1 / 2 < of_int k + 1" by (simp_all add: k_def) linarith
  have s: "0 < (10 :: rat) ^ n" by simp
  have "\<bar>of_int k / 10 ^ n - \<bar>q\<bar>\<bar> = \<bar>of_int k - \<bar>q\<bar> * 10 ^ n\<bar> / 10 ^ n"
  proof -
    have "of_int k / 10 ^ n - \<bar>q\<bar> = (of_int k - \<bar>q\<bar> * 10 ^ n) / (10 ^ n :: rat)" by (simp add: diff_divide_distrib)
    then show ?thesis by simp
  qed
  also have "\<dots> \<le> (1 / 2) / 10 ^ n"
  proof (rule divide_right_mono)
    have "\<bar>of_int k - y\<bar> \<le> 1 / 2" if "of_int k \<le> y + 1 / 2" "y + 1 / 2 < of_int k + 1" for y :: rat using that by linarith
    from this [OF k] show "\<bar>of_int k - \<bar>q\<bar> * 10 ^ n\<bar> \<le> 1 / 2" .
  qed simp
  finally have "\<bar>of_int k / 10 ^ n - \<bar>q\<bar>\<bar> \<le> 1 / (2 * 10 ^ n)" by simp
  then show ?thesis
    unfolding quantize_half_up_def Let_def k_def [symmetric] by (cases "q < 0") (simp_all add: abs_minus_commute minus_divide_left [symmetric])
qed

lemma quantize_directed: "quantize_floor n q \<le> q" "q \<le> quantize_ceiling n q"
  by (simp_all add: quantize_floor_def quantize_ceiling_def pos_divide_le_eq pos_le_divide_eq)

text \<open>The items of \<open>for x in (a or ())\<close>.\<close>

fun py_iter :: "json \<Rightarrow> json list res" where
  "py_iter (JList xs) = Inr xs"
| "py_iter (JStr s) = Inr (map (\<lambda>c. JStr [c]) s)"
| "py_iter (JObj kv) = Inr (map (\<lambda>p. JStr (fst p)) kv)"
| "py_iter _ = Inl TypeError"

definition py_iter_or_empty :: "json \<Rightarrow> json list res" where
  "py_iter_or_empty a = (if py_truthy a then py_iter a else Inr [])"

text \<open>\<open>tuple(str(item) for item in (a or ()))\<close>.\<close>

definition str_tuple :: "json \<Rightarrow> string list res" where
  "str_tuple a = res_bind (py_iter_or_empty a) (res_map_list py_str)"

text \<open>\<open>dict(value)\<close>; a non-empty list of pairs is outside the model.\<close>

fun py_dict :: "json \<Rightarrow> (string \<times> json) list res" where
  "py_dict (JObj kv) = Inr kv"
| "py_dict (JList xs) = (if xs = [] then Inr [] else Inl OutOfModel)"
| "py_dict (JStr s) = (if s = [] then Inr [] else Inl ValueError)"
| "py_dict _ = Inl TypeError"

text \<open>\<open>getattr(section, name, default) or default\<close>: zero reads as the default.\<close>

definition or_default :: "'a :: zero option \<Rightarrow> 'a \<Rightarrow> 'a" where
  "or_default v d = (case v of None \<Rightarrow> d | Some x \<Rightarrow> if x = 0 then d else x)"

text \<open>Optional values: a field that is \<open>None\<close> or a value, and back.\<close>

definition j_opt_str :: "string option \<Rightarrow> json" where
  "j_opt_str x = (case x of None \<Rightarrow> JNull | Some s \<Rightarrow> JStr s)"

definition j_opt_int :: "int option \<Rightarrow> json" where
  "j_opt_int x = (case x of None \<Rightarrow> JNull | Some i \<Rightarrow> JInt i)"

definition j_opt_float :: "rat option \<Rightarrow> json" where
  "j_opt_float x = (case x of None \<Rightarrow> JNull | Some q \<Rightarrow> JFloat q)"

text \<open>
  A dataclass field annotated \<open>str | None\<close> (\<open>int | None\<close>) and filled by a bare
  \<open>data.get(k)\<close>: the value is taken over as it is. The model keeps the annotated types and
  leaves other values out.
\<close>

fun field_opt_str :: "json \<Rightarrow> string option res" where
  "field_opt_str JNull = Inr None"
| "field_opt_str (JStr s) = Inr (Some s)"
| "field_opt_str _ = Inl OutOfModel"

fun field_opt_int :: "json \<Rightarrow> int option res" where
  "field_opt_int JNull = Inr None"
| "field_opt_int (JInt i) = Inr (Some i)"
| "field_opt_int _ = Inl OutOfModel"

text \<open>\<open>None if x is None else f(x)\<close>.\<close>

definition opt_via :: "(json \<Rightarrow> 'a res) \<Rightarrow> json \<Rightarrow> 'a option res" where
  "opt_via f x = (if x = JNull then Inr None else res_bind (f x) (\<lambda>y. Inr (Some y)))"

lemma field_opt_roundtrip [simp]:
  "field_opt_str (j_opt_str x) = Inr x" "field_opt_int (j_opt_int y) = Inr y"
  "opt_via py_int (j_opt_int y) = Inr y" "opt_via py_str (j_opt_str x) = Inr x"
  "opt_via py_float (j_opt_float z) = Inr z"
  by (cases x; cases y; cases z;
      simp add: j_opt_str_def j_opt_int_def j_opt_float_def opt_via_def)+

lemma str_tuple_list [simp]: "str_tuple (JList (map JStr xs)) = Inr xs"
proof -
  have "res_map_list py_str (map JStr xs) = Inr xs" by (induction xs) auto
  then show ?thesis by (cases xs) (simp_all add: str_tuple_def py_iter_or_empty_def)
qed

lemma char_upper_idem [simp]: "char_upper (char_upper c) = char_upper c"
  by (auto simp: char_upper_def of_char_of take_bit_int_eq_self)

lemma str_upper_idem [simp]: "str_upper (str_upper s) = str_upper s"
  by (simp add: str_upper_def)

lemma str_upper_nil [simp]: "str_upper s = [] \<longleftrightarrow> s = []"
  by (simp add: str_upper_def)

lemma str_int_nonempty: "str_int i \<noteq> []"
  by (simp add: str_int_def str_nat_nonempty)

lemma py_str_truthy: "py_truthy a \<Longrightarrow> py_str a = Inr s \<Longrightarrow> s \<noteq> []"
  by (cases a) (auto simp: str_int_nonempty split: if_splits)

section \<open>Lists\<close>

lemma filter_id_when: "(\<And>x. x \<in> set xs \<Longrightarrow> P x) \<Longrightarrow> filter P xs = xs"
  by (induction xs) auto

lemma strip_strip: "str_strip (str_strip s) = str_strip s"
proof -
  have dw: "dropWhile P (dropWhile P xs) = dropWhile P xs" for P and xs :: string
    by (induction xs) auto
  have keep: "dropWhile P (rev (dropWhile P (rev (dropWhile P xs)))) = rev (dropWhile P (rev (dropWhile P xs)))" for P and xs :: string
  proof (cases "dropWhile P xs")
    case (Cons x ys)
    then have "\<not> P x" by (metis hd_dropWhile list.distinct(1) list.sel(1))
    then have "\<exists>zs. rev (dropWhile P (rev (x # ys))) = x # zs"
    proof (cases "\<exists>z\<in>set ys. \<not> P z")
      case True
      then obtain z where "z \<in> set (rev ys)" "\<not> P z" by auto
      then show ?thesis by (simp add: dropWhile_append1)
    next
      case False
      then have "dropWhile P (rev ys @ [x]) = [x]" using \<open>\<not> P x\<close> by (subst dropWhile_append2) auto
      then show ?thesis by simp
    qed
    then show ?thesis using \<open>\<not> P x\<close> Cons by auto
  next
    case Nil
    show ?thesis unfolding Nil by simp
  qed
  show ?thesis by (simp add: str_strip_def keep dw)
qed

lemma startswith_append [simp]: "str_startswith (p @ s) p"
  by (induction p) auto

lemma startswith_iff: "str_startswith s p \<longleftrightarrow> (\<exists>t. s = p @ t)"
  by (induction s p rule: str_startswith.induct) auto

lemma sep_eq:
  "c \<notin> set a \<Longrightarrow> c \<notin> set a' \<Longrightarrow> a @ c # b = a' @ c # b' \<longleftrightarrow> a = a' \<and> b = b'"
proof (induction a arbitrary: a')
  case Nil
  then show ?case by (cases a') auto
next
  case (Cons x a)
  then show ?case by (cases a') auto
qed

end
