(* ===== verification/RedisModel.thy ===== *)
theory RedisModel
  imports PyPrelude "HOL-Library.Product_Lexorder"
begin

text \<open>
  The boundary between the algo-bot and Redis. A coroutine of the sources is a
  \<open>prog\<close>: a tree of Redis commands, each followed by a continuation on the reply; an
  \<open>await\<close> on the client is one \<open>Call\<close> node, and between two nodes other tasks may run.

  Redis itself is a parameter: a function \<open>exec\<close> from a command and a server state to a
  reply and the next server state, and a view \<open>ks\<close> of the server state as a keyspace. The
  locale \<open>redis\<close> states what the Redis manual documents of the commands the sources use,
  and nothing else; the locale \<open>redis_any\<close> weakens it to a server and a network that may
  lose a request or a reply. The three Lua scripts are source code of the repository and
  are translated here, since \<open>EVAL\<close> runs them.
\<close>

section \<open>Keyspace\<close>

text \<open>
  A stored text is either a JSON document (identified with the document, since every stored
  document was written by \<open>json.dumps\<close>) or another text. A string value remembers the
  \<open>EX\<close> it was last set with; a stream keeps every payload that was appended to it.
\<close>

datatype rtext = Txt string | Doc json

datatype rvalue =
    VStr rtext "int option"
  | VZSet "(string \<times> int) list"
  | VSet "string list"
  | VHash "(string \<times> int) list"
  | VList "rtext list"
  | VStream "rtext list"

type_synonym keyspace = "string \<Rightarrow> rvalue option"

definition k_text :: "keyspace \<Rightarrow> string \<Rightarrow> rtext option" where
  "k_text K k = (case K k of Some (VStr t e) \<Rightarrow> Some t | _ \<Rightarrow> None)"

definition k_zset :: "keyspace \<Rightarrow> string \<Rightarrow> (string \<times> int) list" where
  "k_zset K k = (case K k of Some (VZSet z) \<Rightarrow> z | _ \<Rightarrow> [])"

definition k_set :: "keyspace \<Rightarrow> string \<Rightarrow> string list" where
  "k_set K k = (case K k of Some (VSet s) \<Rightarrow> s | _ \<Rightarrow> [])"

definition k_hash :: "keyspace \<Rightarrow> string \<Rightarrow> (string \<times> int) list" where
  "k_hash K k = (case K k of Some (VHash h) \<Rightarrow> h | _ \<Rightarrow> [])"

definition k_list :: "keyspace \<Rightarrow> string \<Rightarrow> rtext list" where
  "k_list K k = (case K k of Some (VList h) \<Rightarrow> h | _ \<Rightarrow> [])"

definition k_stream :: "keyspace \<Rightarrow> string \<Rightarrow> rtext list" where
  "k_stream K k = (case K k of Some (VStream h) \<Rightarrow> h | _ \<Rightarrow> [])"

lemmas keyspace_views = k_text_def k_zset_def k_set_def k_hash_def k_list_def k_stream_def

text \<open>A collection that becomes empty is removed from the keyspace.\<close>

definition put_zset :: "keyspace \<Rightarrow> string \<Rightarrow> (string \<times> int) list \<Rightarrow> keyspace" where
  "put_zset K k z = K(k := if z = [] then None else Some (VZSet z))"

definition put_set :: "keyspace \<Rightarrow> string \<Rightarrow> string list \<Rightarrow> keyspace" where
  "put_set K k s = K(k := if s = [] then None else Some (VSet s))"

definition assoc_put :: "'k \<Rightarrow> 'v \<Rightarrow> ('k \<times> 'v) list \<Rightarrow> ('k \<times> 'v) list" where
  "assoc_put k v xs = filter (\<lambda>p. fst p \<noteq> k) xs @ [(k, v)]"

definition assoc_del :: "'k \<Rightarrow> ('k \<times> 'v) list \<Rightarrow> ('k \<times> 'v) list" where
  "assoc_del k xs = filter (\<lambda>p. fst p \<noteq> k) xs"

definition add_member :: "string list \<Rightarrow> string \<Rightarrow> string list" where
  "add_member s m = (if m \<in> set s then s else s @ [m])"

definition del_member :: "string list \<Rightarrow> string \<Rightarrow> string list" where
  "del_member s m = filter (\<lambda>x. x \<noteq> m) s"

lemma map_of_assoc_put [simp]: "map_of (assoc_put k v xs) = (map_of xs)(k \<mapsto> v)"
proof
  fix x
  show "map_of (assoc_put k v xs) x = ((map_of xs)(k \<mapsto> v)) x"
    by (induction xs) (auto simp: assoc_put_def)
qed

lemma map_of_assoc_del [simp]: "map_of (assoc_del k xs) = (map_of xs)(k := None)"
proof
  fix x
  show "map_of (assoc_del k xs) x = ((map_of xs)(k := None)) x"
    by (induction xs) (auto simp: assoc_del_def)
qed

lemma set_add_member [simp]: "set (add_member s m) = insert m (set s)"
  by (auto simp: add_member_def)

lemma set_del_member [simp]: "set (del_member s m) = set s - {m}"
  by (auto simp: del_member_def)

lemma k_put_zset [simp]:
  "k_zset (put_zset K k z) k' = (if k' = k then z else k_zset K k')"
  "k_text (put_zset K k z) k' = (if k' = k then None else k_text K k')"
  by (simp_all add: put_zset_def k_zset_def k_text_def)

lemma k_put_set [simp]:
  "k_set (put_set K k s) k' = (if k' = k then s else k_set K k')"
  "k_text (put_set K k s) k' = (if k' = k then None else k_text K k')"
  by (simp_all add: put_set_def k_set_def k_text_def)

lemma k_text_upd:
  "k_text (K(k := v)) k' =
     (if k' = k then (case v of Some (VStr t e) \<Rightarrow> Some t | _ \<Rightarrow> None) else k_text K k')"
  by (simp add: k_text_def)

lemma k_zset_upd:
  "k_zset (K(k := v)) k' =
     (if k' = k then (case v of Some (VZSet z) \<Rightarrow> z | _ \<Rightarrow> []) else k_zset K k')"
  by (simp add: k_zset_def)

lemma k_set_upd:
  "k_set (K(k := v)) k' =
     (if k' = k then (case v of Some (VSet z) \<Rightarrow> z | _ \<Rightarrow> []) else k_set K k')"
  by (simp add: k_set_def)

section \<open>Commands and replies\<close>

datatype script = TRANSITION_LUA | CAS_SAVE_LUA | PUBLISH_PLAN_LUA | SAVE_STATUS_LUA

datatype rarg = AInt int | AStr string | ADoc json

datatype redis_cmd =
    GET string
  | SET string rtext "int option" bool    \<comment> \<open>key, value, EX, NX\<close>
  | DEL string
  | DELS "string list"                    \<comment> \<open>DEL with several keys\<close>
  | EXISTS string
  | MGET "string list"
  | ZADD string string int
  | ZREM string string
  | ZRANGEBYSCORE string int nat          \<comment> \<open>key, from minus infinity to this score, LIMIT 0 n\<close>
  | SADD string "string list"
  | SREM string "string list"
  | SMEMBERS string
  | SCAN string                           \<comment> \<open>every key with this prefix\<close>
  | HINCRBY string string int
  | RPUSH string rtext
  | LTRIM_LAST string nat                 \<comment> \<open>LTRIM key -n -1\<close>
  | EXPIRE string int
  | XADD string rtext
  | EVAL script "string list" "rarg list"
  | PIPE "redis_cmd list"                 \<comment> \<open>a MULTI/EXEC pipeline\<close>

datatype redis_reply =
    ROk
  | RNil
  | RInt int
  | RBulk rtext
  | RStrs "string list"
  | RVals "rtext option list"
  | RId                                   \<comment> \<open>a stream id chosen by the server\<close>
  | RExc                                  \<comment> \<open>the client raises\<close>

section \<open>The Lua scripts\<close>

text \<open>
  \<open>tostring(decoded[k] or '')\<close>: nil and false give the empty string; a JSON null is a
  userdata value, a container a table. Only names of states and symbols are compared with it.
\<close>

definition lua_field_str :: "(string \<times> json) list \<Rightarrow> string \<Rightarrow> string" where
  "lua_field_str kv k =
     (case map_of kv k of
        None \<Rightarrow> []
      | Some (JStr s) \<Rightarrow> s
      | Some (JInt i) \<Rightarrow> str_int i
      | Some (JBool b) \<Rightarrow> (if b then ''true'' else [])
      | Some JNull \<Rightarrow> ''userdata: NULL''
      | Some (JFloat q) \<Rightarrow> ''number''
      | Some (JList xs) \<Rightarrow> ''table''
      | Some (JObj ob) \<Rightarrow> ''table'')"

text \<open>\<open>tonumber(current['revision'] or 0)\<close>.\<close>

definition lua_field_num :: "(string \<times> json) list \<Rightarrow> string \<Rightarrow> int option" where
  "lua_field_num kv k =
     (case map_of kv k of
        None \<Rightarrow> Some 0
      | Some (JInt i) \<Rightarrow> Some i
      | Some (JStr s) \<Rightarrow> parse_int s
      | Some (JBool b) \<Rightarrow> (if b then None else Some 0)
      | Some (JFloat q) \<Rightarrow> (if q = of_int \<lfloor>q\<rfloor> then Some \<lfloor>q\<rfloor> else None)
      | _ \<Rightarrow> None)"

definition lua_transition ::
  "string \<Rightarrow> string \<Rightarrow> string \<Rightarrow> json \<Rightarrow> int \<Rightarrow> keyspace \<Rightarrow> redis_reply \<times> keyspace" where
  "lua_transition key src target payload ttl K =
     (case K key of
        None \<Rightarrow> (RStrs [''missing'', []], K)
      | Some (VStr (Doc (JObj kv)) e) \<Rightarrow>
          (let current_state = lua_field_str kv ''state'' in
           if current_state = target then (RStrs [''already_at_target'', current_state], K)
           else if current_state \<noteq> src then (RStrs [''conflict'', current_state], K)
           else (RStrs [''changed'', current_state], K(key \<mapsto> VStr (Doc payload) (Some ttl))))
      | Some (VStr (Doc (JList xs)) e) \<Rightarrow>
          (if target = [] then (RStrs [''already_at_target'', []], K)
           else if src \<noteq> [] then (RStrs [''conflict'', []], K)
           else (RStrs [''changed'', []], K(key \<mapsto> VStr (Doc payload) (Some ttl))))
      | Some (VStr t e) \<Rightarrow> (RStrs [''missing'', []], K)
      | Some _ \<Rightarrow> (RExc, K))"

text \<open>
  \<open>SADD\<close> and \<open>SREM\<close> from a script, in order: a key of another type makes the script fail, and
  what it wrote so far stays.
\<close>

definition is_set_key :: "keyspace \<Rightarrow> string \<Rightarrow> bool" where
  "is_set_key K k \<longleftrightarrow> (case K k of None \<Rightarrow> True | Some (VSet z) \<Rightarrow> True | _ \<Rightarrow> False)"

fun lua_set_calls :: "(bool \<times> string) list \<Rightarrow> string \<Rightarrow> keyspace \<Rightarrow> bool \<times> keyspace" where
  "lua_set_calls [] m K = (True, K)"
| "lua_set_calls ((add, k) # xs) m K =
     (if is_set_key K k
      then lua_set_calls xs m
             (put_set K k (if add then add_member (k_set K k) m else del_member (k_set K k) m))
      else (False, K))"

text \<open>The write half of the compare-and-swap script, after the revision check.\<close>

definition lua_cas_write ::
  "string \<Rightarrow> string \<Rightarrow> string \<Rightarrow> json \<Rightarrow> int \<Rightarrow> string \<Rightarrow> bool \<Rightarrow> string \<Rightarrow> string option \<Rightarrow>
   keyspace \<Rightarrow> redis_reply \<times> keyspace" where
  "lua_cas_write key global_key symbol_key payload ttl zone_id indexed prefix previous_symbol K =
     (let moved = (case previous_symbol of
                     None \<Rightarrow> []
                   | Some psym \<Rightarrow>
                       (let old_symbol_key = prefix @ str_upper psym in
                        if old_symbol_key \<noteq> symbol_key then [(False, old_symbol_key)] else []));
          (ok, K') = lua_set_calls (moved @ [(indexed, global_key), (indexed, symbol_key)]) zone_id
                       (K(key \<mapsto> VStr (Doc payload) (Some ttl)))
      in (if ok then RInt 1 else RExc, K'))"

definition lua_cas_save ::
  "string \<Rightarrow> string \<Rightarrow> string \<Rightarrow> int \<Rightarrow> json \<Rightarrow> int \<Rightarrow> string \<Rightarrow> bool \<Rightarrow> string \<Rightarrow>
   keyspace \<Rightarrow> redis_reply \<times> keyspace" where
  "lua_cas_save key global_key symbol_key expected payload ttl zone_id indexed prefix K =
     (if expected < 0
      then (case K key of
              None \<Rightarrow> lua_cas_write key global_key symbol_key payload ttl zone_id indexed prefix None K
            | Some (VStr t e) \<Rightarrow> (RInt 0, K)
            | Some _ \<Rightarrow> (RExc, K))
      else (case K key of
              None \<Rightarrow> (RInt (-1), K)
            | Some (VStr (Doc (JObj kv)) e) \<Rightarrow>
                (if lua_field_num kv ''revision'' \<noteq> Some expected then (RInt 0, K)
                 else lua_cas_write key global_key symbol_key payload ttl zone_id indexed prefix
                        (if map_of kv ''symbol'' \<in> {None, Some (JBool False)} then None
                         else Some (lua_field_str kv ''symbol'')) K)
            | Some _ \<Rightarrow> (RExc, K)))"

definition lua_publish_plan ::
  "string \<Rightarrow> string \<Rightarrow> string \<Rightarrow> string \<Rightarrow> json \<Rightarrow> int \<Rightarrow> int \<Rightarrow> keyspace \<Rightarrow> redis_reply \<times> keyspace" where
  "lua_publish_plan plan_k state_k stream_k dedup_k payload ttl dedup_ttl K =
     (if K dedup_k \<noteq> None then (RBulk (Txt ''existing''), K)
      else if K plan_k \<noteq> None
      then (RBulk (Txt ''existing''), K(dedup_k \<mapsto> VStr (Txt ''1'') (Some dedup_ttl)))
      else (let K1 = K(dedup_k \<mapsto> VStr (Txt ''1'') (Some dedup_ttl),
                       plan_k \<mapsto> VStr (Doc payload) (Some ttl),
                       state_k \<mapsto> VStr (Txt ''published'') (Some ttl))
            in (case K1 stream_k of
                  None \<Rightarrow> (RId, K1(stream_k \<mapsto> VStream [Doc payload]))
                | Some (VStream l) \<Rightarrow> (RId, K1(stream_k \<mapsto> VStream (l @ [Doc payload])))
                | Some _ \<Rightarrow> (RExc, K1))))"

text \<open>
  The status a card shows: its priority and its line. A stored text that is no JSON table is a line
  of an older format, whose priority is found by its words.
\<close>

definition lua_plain_priority :: "string \<Rightarrow> rat" where
  "lua_plain_priority current =
     (if str_contains current ''ORDER ACTIVATED'' \<or> str_contains current ''POSITION ACTIVATED'' \<or>
         str_contains current ''ORDER FILLED'' then 150
      else if str_contains current ''PLAN EXPIRED'' \<or> str_contains current ''PLAN CANCELLED'' \<or>
         str_contains current ''PLAN REJECTED'' \<or> str_contains current ''TERMINAL'' then 200
      else if str_contains current ''PLAN PUBLISHED'' then 100
      else if str_contains current ''WAITING RETEST'' then 30
      else if str_contains current ''PREFLIGHT'' then 20
      else if str_contains current ''QUEUED'' then 10
      else if str_contains current ''ANALYSIS ONLY'' then 0
      else -1)"

definition lua_priority :: "(string \<times> json) list \<Rightarrow> rat" where
  "lua_priority kv =
     (case map_of kv ''priority'' of
        Some (JInt i) \<Rightarrow> of_int i
      | Some (JFloat q) \<Rightarrow> q
      | Some (JStr s) \<Rightarrow> (case parse_int s of Some i \<Rightarrow> of_int i | None \<Rightarrow> -1)
      | _ \<Rightarrow> -1)"

fun lua_status_of :: "rtext \<Rightarrow> rat \<times> string" where
  "lua_status_of (Doc (JObj kv)) = (lua_priority kv, lua_field_str kv ''status_line'')"
| "lua_status_of (Doc (JList xs)) = (-1, [])"
| "lua_status_of (Doc (JStr s)) = (lua_plain_priority s, CHR 0x22 # s @ [CHR 0x22])"
| "lua_status_of (Doc (JInt i)) = (-1, str_int i)"
| "lua_status_of (Doc (JBool b)) = (-1, if b then ''true'' else ''false'')"
| "lua_status_of (Doc JNull) = (-1, ''null'')"
| "lua_status_of (Doc (JFloat q)) = (-1, ''number'')"
| "lua_status_of (Txt t) = (lua_plain_priority t, t)"

definition lua_save_status ::
  "string \<Rightarrow> json \<Rightarrow> int \<Rightarrow> string \<Rightarrow> int \<Rightarrow> keyspace \<Rightarrow> redis_reply \<times> keyspace" where
  "lua_save_status key payload next_priority next_line ttl K =
     (case (case K key of None \<Rightarrow> Some (-1, []) | Some (VStr t e) \<Rightarrow> Some (lua_status_of t) | Some _ \<Rightarrow> None) of
        None \<Rightarrow> (RExc, K)
      | Some (current_priority, current_line) \<Rightarrow>
          (if current_priority > of_int next_priority then (RInt 0, K)
           else if current_priority = of_int next_priority \<and> current_line = next_line then (RInt 2, K)
           else (RInt 1, K(key \<mapsto> VStr (Doc payload) (Some ttl)))))"

definition lua_eval ::
  "script \<Rightarrow> string list \<Rightarrow> rarg list \<Rightarrow> keyspace \<Rightarrow> redis_reply \<times> keyspace" where
  "lua_eval s keys args K =
     (case (s, keys, args) of
        (TRANSITION_LUA, [k], [AStr src, AStr target, ADoc payload, AInt ttl]) \<Rightarrow>
          lua_transition k src target payload ttl K
      | (CAS_SAVE_LUA, [k, g, sk],
           [AInt expected, ADoc payload, AInt ttl, AStr zone_id, AInt indexed, AStr prefix]) \<Rightarrow>
          lua_cas_save k g sk expected payload ttl zone_id (indexed = 1) prefix K
      | (PUBLISH_PLAN_LUA, [pk, sk, st, dk], [ADoc payload, AInt ttl, AInt maxlen, AInt dedup_ttl]) \<Rightarrow>
          lua_publish_plan pk sk st dk payload ttl dedup_ttl K
      | (SAVE_STATUS_LUA, [k], [ADoc payload, AInt priority, AStr line, AInt ttl]) \<Rightarrow>
          lua_save_status k payload priority line ttl K
      | _ \<Rightarrow> (RExc, K))"

section \<open>Documented effect of the commands\<close>

text \<open>
  \<open>kstep c K\<close>: the reply to \<open>c\<close> and the keyspace after it, with one choice fixed where
  the manual leaves it to the server (the order of \<open>SMEMBERS\<close> and \<open>SCAN\<close>; a stream id is
  the marker \<open>RId\<close>). A command on a key of another type raises and changes nothing.
\<close>

definition zrange_upto :: "(string \<times> int) list \<Rightarrow> int \<Rightarrow> nat \<Rightarrow> string list" where
  "zrange_upto z hi n =
     take n (map fst (sort_key (\<lambda>(m, s). (s, m)) (filter (\<lambda>(m, s). s \<le> hi) z)))"

definition scan_keys :: "keyspace \<Rightarrow> string \<Rightarrow> string list" where
  "scan_keys K p = (SOME xs. set xs = {k \<in> dom K. str_startswith k p})"

text \<open>A real server holds finitely many keys; neither definition is evaluated by the witnesses.\<close>

definition finite_keys :: "keyspace \<Rightarrow> bool" where
  "finite_keys K = finite (dom K)"

declare scan_keys_def [code del] finite_keys_def [code del]

fun kstep :: "redis_cmd \<Rightarrow> keyspace \<Rightarrow> redis_reply \<times> keyspace" where
  "kstep (GET k) K =
     (case K k of None \<Rightarrow> (RNil, K) | Some (VStr t e) \<Rightarrow> (RBulk t, K) | Some _ \<Rightarrow> (RExc, K))"
| "kstep (SET k t ex nx) K =
     (if nx \<and> K k \<noteq> None then (RNil, K) else (ROk, K(k \<mapsto> VStr t ex)))"
| "kstep (DEL k) K = (RInt (if K k = None then 0 else 1), K(k := None))"
| "kstep (DELS keys) K = (RInt (int (card {k \<in> set keys. K k \<noteq> None})), (\<lambda>k. if k \<in> set keys then None else K k))"
| "kstep (EXISTS k) K = (RInt (if K k = None then 0 else 1), K)"
| "kstep (MGET keys) K = (RVals (map (k_text K) keys), K)"
| "kstep (ZADD k m s) K =
     (case K k of None \<Rightarrow> (RInt 1, put_zset K k [(m, s)])
      | Some (VZSet z) \<Rightarrow> (RInt (if m \<in> fst ` set z then 0 else 1), put_zset K k (assoc_put m s z))
      | Some _ \<Rightarrow> (RExc, K))"
| "kstep (ZREM k m) K =
     (case K k of None \<Rightarrow> (RInt 0, K)
      | Some (VZSet z) \<Rightarrow> (RInt (if m \<in> fst ` set z then 1 else 0), put_zset K k (assoc_del m z))
      | Some _ \<Rightarrow> (RExc, K))"
| "kstep (ZRANGEBYSCORE k hi n) K =
     (case K k of None \<Rightarrow> (RStrs [], K)
      | Some (VZSet z) \<Rightarrow> (RStrs (zrange_upto z hi n), K)
      | Some _ \<Rightarrow> (RExc, K))"
| "kstep (SADD k ms) K =
     (case K k of None \<Rightarrow> (RInt (int (length (remdups ms))), put_set K k (foldl add_member [] ms))
      | Some (VSet s) \<Rightarrow> (RInt (int (length (remdups (filter (\<lambda>m. m \<notin> set s) ms)))),
                           put_set K k (foldl add_member s ms))
      | Some _ \<Rightarrow> (RExc, K))"
| "kstep (SREM k ms) K =
     (case K k of None \<Rightarrow> (RInt 0, K)
      | Some (VSet s) \<Rightarrow> (RInt (int (length (remdups (filter (\<lambda>m. m \<in> set s) ms)))),
                           put_set K k (foldl del_member s ms))
      | Some _ \<Rightarrow> (RExc, K))"
| "kstep (SMEMBERS k) K =
     (case K k of None \<Rightarrow> (RStrs [], K) | Some (VSet s) \<Rightarrow> (RStrs (remdups s), K) | Some _ \<Rightarrow> (RExc, K))"
| "kstep (SCAN p) K = (if finite_keys K then (RStrs (scan_keys K p), K) else (RExc, K))"
| "kstep (HINCRBY k f n) K =
     (case K k of None \<Rightarrow> (RInt n, K(k \<mapsto> VHash [(f, n)]))
      | Some (VHash h) \<Rightarrow>
          (let v = (case map_of h f of None \<Rightarrow> n | Some m \<Rightarrow> m + n)
           in (RInt v, K(k \<mapsto> VHash (assoc_put f v h))))
      | Some _ \<Rightarrow> (RExc, K))"
| "kstep (RPUSH k t) K =
     (case K k of None \<Rightarrow> (RInt 1, K(k \<mapsto> VList [t]))
      | Some (VList l) \<Rightarrow> (RInt (int (length l) + 1), K(k \<mapsto> VList (l @ [t])))
      | Some _ \<Rightarrow> (RExc, K))"
| "kstep (LTRIM_LAST k n) K =
     (case K k of None \<Rightarrow> (ROk, K)
      | Some (VList l) \<Rightarrow> (ROk, K(k \<mapsto> VList (drop (length l - n) l)))
      | Some _ \<Rightarrow> (RExc, K))"
| "kstep (EXPIRE k n) K =
     (case K k of None \<Rightarrow> (RInt 0, K)
      | Some (VStr t e) \<Rightarrow> (RInt 1, K(k \<mapsto> VStr t (Some n)))
      | Some _ \<Rightarrow> (RInt 1, K))"
| "kstep (XADD k t) K =
     (case K k of None \<Rightarrow> (RId, K(k \<mapsto> VStream [t]))
      | Some (VStream l) \<Rightarrow> (RId, K(k \<mapsto> VStream (l @ [t])))
      | Some _ \<Rightarrow> (RExc, K))"
| "kstep (EVAL s keys args) K = lua_eval s keys args K"
| "kstep (PIPE []) K = (ROk, K)"
| "kstep (PIPE (c # cs)) K =
     (if cs = [] then kstep c K
      else (let r = kstep c K; r' = kstep (PIPE cs) (snd r)
            in (if fst r = RExc then RExc else fst r', snd r')))"

definition keff :: "redis_cmd \<Rightarrow> keyspace \<Rightarrow> keyspace" where
  "keff c K = snd (kstep c K)"

text \<open>
  The replies the manual allows: the members of a set and the keys of a scan come in any
  order, a stream id is any text the server picks (never the text \<open>existing\<close>).
\<close>

definition reply_ok :: "redis_cmd \<Rightarrow> keyspace \<Rightarrow> redis_reply \<Rightarrow> bool" where
  "reply_ok c K r =
     (case (fst (kstep c K), c) of
        (RId, _) \<Rightarrow> (\<exists>i. r = RBulk (Txt i) \<and> i \<noteq> ''existing'')
      | (RStrs xs, SMEMBERS k) \<Rightarrow> (\<exists>ys. r = RStrs ys \<and> distinct ys \<and> set ys = set xs)
      | (RStrs xs, SCAN p) \<Rightarrow> (\<exists>ys. r = RStrs ys \<and> set ys = set xs)
      | (r0, _) \<Rightarrow> r = r0)"

section \<open>Programs\<close>

datatype 'a prog =
    Done 'a
  | Raise exn
  | Call redis_cmd "redis_reply \<Rightarrow> 'a prog"

primrec pbind :: "'a prog \<Rightarrow> ('a \<Rightarrow> 'b prog) \<Rightarrow> 'b prog" where
  "pbind (Done a) f = f a"
| "pbind (Raise e) f = Raise e"
| "pbind (Call c k) f = Call c (\<lambda>r. pbind (k r) f)"

text \<open>\<open>try: p except E as e: h(e)\<close>; \<open>h\<close> re-raises what it does not handle.\<close>

primrec pcatch :: "'a prog \<Rightarrow> (exn \<Rightarrow> 'a prog) \<Rightarrow> 'a prog" where
  "pcatch (Done a) h = Done a"
| "pcatch (Raise e) h = h e"
| "pcatch (Call c k) h = Call c (\<lambda>r. pcatch (k r) h)"

definition of_res :: "'a res \<Rightarrow> 'a prog" where
  "of_res x = (case x of Inl e \<Rightarrow> Raise e | Inr a \<Rightarrow> Done a)"

definition rcall :: "redis_cmd \<Rightarrow> redis_reply prog" where
  "rcall c = Call c (\<lambda>r. if r = RExc then Raise RedisError else Done r)"

definition run_cmd :: "redis_cmd \<Rightarrow> unit prog" where
  "run_cmd c = pbind (rcall c) (\<lambda>_. Done ())"

definition rget :: "string \<Rightarrow> rtext option prog" where
  "rget k = pbind (rcall (GET k)) (\<lambda>r. case r of RBulk t \<Rightarrow> Done (Some t) | _ \<Rightarrow> Done None)"

definition rmembers :: "string \<Rightarrow> string list prog" where
  "rmembers k =
     pbind (rcall (SMEMBERS k)) (\<lambda>r. case r of RStrs xs \<Rightarrow> Done xs | _ \<Rightarrow> Done [])"

definition rmget :: "string list \<Rightarrow> rtext option list prog" where
  "rmget keys =
     pbind (rcall (MGET keys)) (\<lambda>r. case r of RVals xs \<Rightarrow> Done xs | _ \<Rightarrow> Done [])"

text \<open>\<open>await client.set(k, v, ex=e, nx=True)\<close>: truthy when the key was set.\<close>

definition rset_nx :: "string \<Rightarrow> rtext \<Rightarrow> int \<Rightarrow> bool prog" where
  "rset_nx k t e = pbind (rcall (SET k t (Some e) True)) (\<lambda>r. Done (r = ROk))"

text \<open>\<open>json.loads\<close> of a stored text.\<close>

fun json_loads :: "rtext \<Rightarrow> json res" where
  "json_loads (Doc j) = Inr j"
| "json_loads (Txt s) = Inl ValueError"

text \<open>A \<open>for\<close> loop over a list whose body talks to Redis.\<close>

primrec pfor :: "'a list \<Rightarrow> ('a \<Rightarrow> 'b \<Rightarrow> 'b prog) \<Rightarrow> 'b \<Rightarrow> 'b prog" where
  "pfor [] body acc = Done acc"
| "pfor (x # xs) body acc = pbind (body x acc) (\<lambda>acc'. pfor xs body acc')"

lemma pbind_Done [simp]: "pbind p Done = p"
  by (induction p) auto

lemma pbind_assoc [simp]: "pbind (pbind p f) g = pbind p (\<lambda>x. pbind (f x) g)"
  by (induction p) auto

lemma of_res_simps [simp]: "of_res (Inl e) = Raise e" "of_res (Inr a) = Done a"
  by (simp_all add: of_res_def)

subsection \<open>Running one program alone\<close>

primrec run ::
  "(redis_cmd \<Rightarrow> 'r \<Rightarrow> redis_reply \<times> 'r) \<Rightarrow> 'a prog \<Rightarrow> 'r \<Rightarrow> 'a res \<times> 'r" where
  "run exec (Done a) = (\<lambda>s. (Inr a, s))"
| "run exec (Raise e) = (\<lambda>s. (Inl e, s))"
| "run exec (Call c k) = (\<lambda>s. run exec (k (fst (exec c s))) (snd (exec c s)))"

lemma run_pbind:
  "run exec (pbind p f) s =
     (case run exec p s of (Inl e, s') \<Rightarrow> (Inl e, s') | (Inr a, s') \<Rightarrow> run exec (f a) s')"
  by (induction p arbitrary: s) auto

lemma run_to_unit:
  "snd (run exec (pbind p (\<lambda>_. Done ())) s) = snd (run exec p s)"
  "fst (run exec (pbind p (\<lambda>_. Done ())) s) = Inr () \<longleftrightarrow> (\<exists>a. fst (run exec p s) = Inr a)"
  by (auto simp: run_pbind split: prod.splits sum.splits)

lemma run_pcatch:
  "run exec (pcatch p h) s =
     (case run exec p s of (Inl e, s') \<Rightarrow> run exec (h e) s' | (Inr a, s') \<Rightarrow> (Inr a, s'))"
  by (induction p arbitrary: s) auto

subsection \<open>Every command a program can issue\<close>

primrec all_calls :: "(redis_cmd \<Rightarrow> bool) \<Rightarrow> 'a prog \<Rightarrow> bool" where
  "all_calls P (Done a) = True"
| "all_calls P (Raise e) = True"
| "all_calls P (Call c k) = (P c \<and> (\<forall>r. all_calls P (k r)))"

lemma all_calls_pbind [intro]:
  "all_calls P p \<Longrightarrow> (\<And>a. all_calls P (f a)) \<Longrightarrow> all_calls P (pbind p f)"
  by (induction p) auto

lemma all_calls_pcatch [intro]:
  "all_calls P p \<Longrightarrow> (\<And>e. all_calls P (h e)) \<Longrightarrow> all_calls P (pcatch p h)"
  by (induction p) auto

lemma all_calls_of_res [simp]: "all_calls P (of_res x)"
  by (cases x) auto

lemma all_calls_rcall [simp]: "all_calls P (rcall c) = P c"
  by (simp add: rcall_def)

lemma all_calls_pfor:
  "(\<And>x acc. x \<in> set xs \<Longrightarrow> all_calls P (body x acc)) \<Longrightarrow> all_calls P (pfor xs body acc)"
  by (induction xs arbitrary: acc) auto

lemma all_calls_rget: "P (GET k) \<Longrightarrow> all_calls P (rget k)"
  unfolding rget_def by (intro all_calls_pbind) (auto split: redis_reply.splits)

lemma all_calls_rmembers: "P (SMEMBERS k) \<Longrightarrow> all_calls P (rmembers k)"
  unfolding rmembers_def by (intro all_calls_pbind) (auto split: redis_reply.splits)

lemma all_calls_rmget: "P (MGET keys) \<Longrightarrow> all_calls P (rmget keys)"
  unfolding rmget_def by (intro all_calls_pbind) (auto split: redis_reply.splits)

lemma all_calls_rset_nx: "P (SET k t (Some e) True) \<Longrightarrow> all_calls P (rset_nx k t e)"
  unfolding rset_nx_def by (intro all_calls_pbind) auto

lemma all_calls_run_cmd: "P c \<Longrightarrow> all_calls P (run_cmd c)"
  unfolding run_cmd_def by (intro all_calls_pbind) auto

lemma all_calls_mono: "all_calls P p \<Longrightarrow> (\<And>c. P c \<Longrightarrow> Q c) \<Longrightarrow> all_calls Q p"
  by (induction p) auto

lemmas all_calls_basic =
  all_calls_rget all_calls_rmembers all_calls_rmget all_calls_rset_nx all_calls_run_cmd

end
