(* ===== verification/RedisRuns.thy ===== *)
theory RedisRuns
  imports RedisModel
begin

text \<open>
  How programs run against Redis. \<open>redis_any\<close>: a server behind a network that may lose a
  request or its reply; enough for safety under interleaving. \<open>redis\<close>: no faults, and
  replies as documented; functional behaviour of one coroutine is stated over it. Interleaving:
  any number of coroutines, one command at a time, with keys expiring in between.
\<close>

named_theorems redis_run "running a program one command further"
named_theorems redis_eff "the keyspace after a command"

section \<open>Key types\<close>

definition str_key :: "keyspace \<Rightarrow> string \<Rightarrow> bool" where
  "str_key K k \<longleftrightarrow> (case K k of None \<Rightarrow> True | Some (VStr t e) \<Rightarrow> True | _ \<Rightarrow> False)"

definition zset_key :: "keyspace \<Rightarrow> string \<Rightarrow> bool" where
  "zset_key K k \<longleftrightarrow> (case K k of None \<Rightarrow> True | Some (VZSet z) \<Rightarrow> True | _ \<Rightarrow> False)"

definition set_key :: "keyspace \<Rightarrow> string \<Rightarrow> bool" where
  "set_key K k \<longleftrightarrow> (case K k of None \<Rightarrow> True | Some (VSet z) \<Rightarrow> True | _ \<Rightarrow> False)"

definition hash_key :: "keyspace \<Rightarrow> string \<Rightarrow> bool" where
  "hash_key K k \<longleftrightarrow> (case K k of None \<Rightarrow> True | Some (VHash z) \<Rightarrow> True | _ \<Rightarrow> False)"

definition stream_key :: "keyspace \<Rightarrow> string \<Rightarrow> bool" where
  "stream_key K k \<longleftrightarrow> (case K k of None \<Rightarrow> True | Some (VStream z) \<Rightarrow> True | _ \<Rightarrow> False)"

lemmas key_types = str_key_def zset_key_def set_key_def hash_key_def stream_key_def

lemma key_types_upd [simp]:
  "str_key (K(k \<mapsto> VStr t e)) k' = (k' = k \<or> str_key K k')"
  "k' \<noteq> k \<Longrightarrow> zset_key (K(k := v)) k' = zset_key K k'"
  "k' \<noteq> k \<Longrightarrow> str_key (K(k := v)) k' = str_key K k'"
  "k' \<noteq> k \<Longrightarrow> set_key (K(k := v)) k' = set_key K k'"
  "k' \<noteq> k \<Longrightarrow> hash_key (K(k := v)) k' = hash_key K k'"
  "k' \<noteq> k \<Longrightarrow> stream_key (K(k := v)) k' = stream_key K k'"
  by (auto simp: key_types)

lemma key_types_put [simp]:
  "zset_key (put_zset K k z) k' = (k' = k \<or> zset_key K k')"
  "str_key (put_zset K k z) k' = (if k' = k then z = [] else str_key K k')"
  "set_key (put_set K k s) k' = (k' = k \<or> set_key K k')"
  "str_key (put_set K k s) k' = (if k' = k then s = [] else str_key K k')"
  by (auto simp: key_types put_zset_def put_set_def)

lemma put_other [simp]:
  "k' \<noteq> k \<Longrightarrow> put_zset K k z k' = K k'"
  "k' \<noteq> k \<Longrightarrow> put_set K k s k' = K k'"
  by (simp_all add: put_zset_def put_set_def)

section \<open>The service\<close>

locale redis_any =
  fixes exec :: "redis_cmd \<Rightarrow> 'r \<Rightarrow> redis_reply \<times> 'r"
    and ks :: "'r \<Rightarrow> keyspace"
  assumes serve:
    "(reply_ok c (ks s) (fst (exec c s)) \<and> ks (snd (exec c s)) = keff c (ks s)) \<or>
     (fst (exec c s) = RExc \<and> (ks (snd (exec c s)) = ks s \<or> ks (snd (exec c s)) = keff c (ks s)))"
begin

lemma eff_or_lost: "ks (snd (exec c s)) = ks s \<or> ks (snd (exec c s)) = keff c (ks s)"
  using serve[of c s] by auto

end

locale redis =
  fixes exec :: "redis_cmd \<Rightarrow> 'r \<Rightarrow> redis_reply \<times> 'r"
    and ks :: "'r \<Rightarrow> keyspace"
  assumes eff: "ks (snd (exec c s)) = keff c (ks s)"
    and reply: "reply_ok c (ks s) (fst (exec c s))"

sublocale redis \<subseteq> redis_any
  by unfold_locales (simp add: eff reply)

context redis
begin

lemma reply_det:
  assumes "fst (kstep c (ks s)) = r" "r \<noteq> RId" "\<And>xs. r \<noteq> RStrs xs"
  shows "fst (exec c s) = r"
  using reply[of c s] assms
  by (auto simp: reply_ok_def split: redis_reply.splits redis_cmd.splits)

lemma reply_strs:
  assumes "fst (kstep c (ks s)) = RStrs xs" "\<And>k. c \<noteq> SMEMBERS k" "\<And>k. c \<noteq> SCAN k"
  shows "fst (exec c s) = RStrs xs"
  using reply[of c s] assms by (auto simp: reply_ok_def split: redis_cmd.splits)

lemma ks_read [simp, redis_eff]:
  "ks (snd (exec (GET k) s)) = ks s"
  "ks (snd (exec (EXISTS k) s)) = ks s"
  "ks (snd (exec (MGET l) s)) = ks s"
  "ks (snd (exec (ZRANGEBYSCORE k hi n) s)) = ks s"
  "ks (snd (exec (SMEMBERS k) s)) = ks s"
  "ks (snd (exec (SCAN p) s)) = ks s"
  by (simp_all add: eff keff_def split: option.splits rvalue.splits)

lemma ks_write [redis_eff]:
  "ks (snd (exec (SET k t e nx) s)) = (if nx \<and> ks s k \<noteq> None then ks s else (ks s)(k \<mapsto> VStr t e))"
  "ks (snd (exec (DEL k) s)) = (ks s)(k := None)"
  "zset_key (ks s) k \<Longrightarrow>
     ks (snd (exec (ZADD k m sc) s)) = put_zset (ks s) k (assoc_put m sc (k_zset (ks s) k))"
  "zset_key (ks s) k \<Longrightarrow>
     ks (snd (exec (ZREM k m) s)) = put_zset (ks s) k (assoc_del m (k_zset (ks s) k))"
  "set_key (ks s) k \<Longrightarrow>
     ks (snd (exec (SADD k ms) s)) = put_set (ks s) k (foldl add_member (k_set (ks s) k) ms)"
  by (auto simp: eff keff_def zset_key_def set_key_def k_zset_def k_set_def put_zset_def put_set_def
      assoc_put_def assoc_del_def fun_upd_idem
      split: option.splits rvalue.splits)

lemma foldl_del_nil: "foldl del_member [] ms = []"
  by (induction ms) (simp_all add: del_member_def)

lemma ks_srem [redis_eff]:
  "set_key (ks s) k \<Longrightarrow>
     ks (snd (exec (SREM k ms) s)) = put_set (ks s) k (foldl del_member (k_set (ks s) k) ms)"
  by (auto simp: eff keff_def set_key_def k_set_def put_set_def foldl_del_nil fun_upd_idem
      split: option.splits rvalue.splits)

lemma run_get [redis_run]:
  "str_key (ks s) k \<Longrightarrow>
   run exec (pbind (rget k) f) s = run exec (f (k_text (ks s) k)) (snd (exec (GET k) s))"
  by (auto simp: rget_def rcall_def str_key_def k_text_def reply_det split: option.splits rvalue.splits)

lemma run_get_last [redis_run]:
  "str_key (ks s) k \<Longrightarrow>
   run exec (rget k) s = (Inr (k_text (ks s) k), snd (exec (GET k) s))"
  using run_get[of s k Done] by simp

lemma run_get_wrongtype:
  "\<not> str_key (ks s) k \<Longrightarrow>
   run exec (pbind (rget k) f) s = (Inl RedisError, snd (exec (GET k) s))"
  by (auto simp: rget_def rcall_def str_key_def reply_det split: option.splits rvalue.splits)

lemma run_set [redis_run]:
  "run exec (pbind (run_cmd (SET k t e False)) f) s = run exec (f ()) (snd (exec (SET k t e False) s))"
  by (simp add: run_cmd_def rcall_def reply_det)

lemma run_set_nx [redis_run]:
  "run exec (pbind (rset_nx k t e) f) s =
     run exec (f (ks s k = None)) (snd (exec (SET k t (Some e) True) s))"
  by (cases "ks s k") (simp_all add: rset_nx_def rcall_def reply_det)

lemma run_del [redis_run]:
  "run exec (pbind (run_cmd (DEL k)) f) s = run exec (f ()) (snd (exec (DEL k) s))"
  by (cases "ks s k") (simp_all add: run_cmd_def rcall_def reply_det)

lemma run_zadd [redis_run]:
  "zset_key (ks s) k \<Longrightarrow>
   run exec (pbind (run_cmd (ZADD k m sc)) f) s = run exec (f ()) (snd (exec (ZADD k m sc) s))"
  by (cases "ks s k")
     (auto simp: run_cmd_def rcall_def reply_det zset_key_def split: rvalue.splits)

lemma run_zrem [redis_run]:
  "zset_key (ks s) k \<Longrightarrow>
   run exec (pbind (run_cmd (ZREM k m)) f) s = run exec (f ()) (snd (exec (ZREM k m) s))"
  by (cases "ks s k")
     (auto simp: run_cmd_def rcall_def reply_det zset_key_def split: rvalue.splits)

lemma run_sadd [redis_run]:
  "set_key (ks s) k \<Longrightarrow>
   run exec (pbind (run_cmd (SADD k ms)) f) s = run exec (f ()) (snd (exec (SADD k ms) s))"
  by (cases "ks s k")
     (auto simp: run_cmd_def rcall_def reply_det set_key_def split: rvalue.splits)

lemma run_srem [redis_run]:
  "set_key (ks s) k \<Longrightarrow>
   run exec (pbind (run_cmd (SREM k ms)) f) s = run exec (f ()) (snd (exec (SREM k ms) s))"
  by (cases "ks s k")
     (auto simp: run_cmd_def rcall_def reply_det set_key_def split: rvalue.splits)

lemma run_mget [redis_run]:
  "run exec (pbind (rmget keys) f) s =
     run exec (f (map (k_text (ks s)) keys)) (snd (exec (MGET keys) s))"
  by (simp add: rmget_def rcall_def reply_det)

lemma run_members:
  assumes "set_key (ks s) k"
  shows "\<exists>xs. distinct xs \<and> set xs = set (k_set (ks s) k) \<and>
     run exec (pbind (rmembers k) f) s = run exec (f xs) (snd (exec (SMEMBERS k) s))"
proof -
  have "fst (kstep (SMEMBERS k) (ks s)) = RStrs (remdups (k_set (ks s) k))"
    using assms by (auto simp: set_key_def k_set_def split: option.splits rvalue.splits)
  then have "\<exists>ys. fst (exec (SMEMBERS k) s) = RStrs ys \<and> distinct ys \<and> set ys = set (k_set (ks s) k)"
    using reply[of "SMEMBERS k" s] by (auto simp: reply_ok_def)
  then show ?thesis by (auto simp: rmembers_def rcall_def)
qed

lemma run_last [redis_run]:
  "run exec (run_cmd (SET k t e False)) s = (Inr (), snd (exec (SET k t e False) s))"
  "run exec (run_cmd (DEL k)) s = (Inr (), snd (exec (DEL k) s))"
  "run exec (rset_nx k t ttl) s = (Inr (ks s k = None), snd (exec (SET k t (Some ttl) True) s))"
  "run exec (rmget keys) s = (Inr (map (k_text (ks s)) keys), snd (exec (MGET keys) s))"
  using run_set[of k t e Done s] run_del[of k Done s] run_set_nx[of k t ttl Done s]
    run_mget[of keys Done s]
  by simp_all

lemma run_zset_last [redis_run]:
  assumes "zset_key (ks s) k"
  shows "run exec (run_cmd (ZADD k m sc)) s = (Inr (), snd (exec (ZADD k m sc) s))"
    "run exec (run_cmd (ZREM k m)) s = (Inr (), snd (exec (ZREM k m) s))"
  using run_zadd[OF assms, of m sc Done] run_zrem[OF assms, of m Done] by simp_all

lemma run_sset_last [redis_run]:
  assumes "set_key (ks s) k"
  shows "run exec (run_cmd (SADD k ms)) s = (Inr (), snd (exec (SADD k ms) s))"
    "run exec (run_cmd (SREM k ms)) s = (Inr (), snd (exec (SREM k ms) s))"
  using run_sadd[OF assms, of ms Done] run_srem[OF assms, of ms Done] by simp_all

lemma run_xadd [redis_run]:
  assumes "stream_key (ks s) k"
  shows "run exec (pbind (run_cmd (XADD k t)) f) s = run exec (f ()) (snd (exec (XADD k t) s))"
proof -
  have "fst (kstep (XADD k t) (ks s)) = RId"
    using assms by (auto simp: stream_key_def split: option.splits rvalue.splits)
  then have "fst (exec (XADD k t) s) \<noteq> RExc"
    using reply[of "XADD k t" s] by (auto simp: reply_ok_def)
  then show ?thesis by (simp add: run_cmd_def rcall_def)
qed

lemma run_hincrby [redis_run]:
  assumes "hash_key (ks s) k"
  shows "run exec (pbind (run_cmd (HINCRBY k h n)) f) s = run exec (f ()) (snd (exec (HINCRBY k h n) s))"
proof -
  have "\<exists>i. fst (kstep (HINCRBY k h n) (ks s)) = RInt i"
    using assms by (auto simp: hash_key_def Let_def split: option.splits rvalue.splits)
  then have "fst (exec (HINCRBY k h n) s) \<noteq> RExc"
    using reply[of "HINCRBY k h n" s] by (auto simp: reply_ok_def)
  then show ?thesis by (simp add: run_cmd_def rcall_def)
qed

lemma run_counters_last [redis_run]:
  "stream_key (ks s) k \<Longrightarrow> run exec (run_cmd (XADD k t)) s = (Inr (), snd (exec (XADD k t) s))"
  "hash_key (ks s) k \<Longrightarrow> run exec (run_cmd (HINCRBY k h n)) s = (Inr (), snd (exec (HINCRBY k h n) s))"
  using run_xadd[of s k t Done] run_hincrby[of s k h n Done] by simp_all

lemma ks_xadd [redis_eff]:
  "stream_key (ks s) k \<Longrightarrow> ks (snd (exec (XADD k t) s)) = (ks s)(k \<mapsto> VStream (k_stream (ks s) k @ [t]))"
  by (auto simp: eff keff_def stream_key_def k_stream_def split: option.splits rvalue.splits)

lemma ks_hincrby_other: "k' \<noteq> k \<Longrightarrow> ks (snd (exec (HINCRBY k h n) s)) k' = ks s k'"
  by (auto simp: eff keff_def Let_def split: option.splits rvalue.splits)

lemma ks_hincrby_type: "hash_key (ks s) k \<Longrightarrow> hash_key (ks (snd (exec (HINCRBY k h n) s))) k"
  by (auto simp: eff keff_def Let_def hash_key_def split: option.splits rvalue.splits)

lemma run_dels [redis_run]:
  "run exec (pbind (run_cmd (DELS keys)) f) s = run exec (f ()) (snd (exec (DELS keys) s))"
  by (simp add: run_cmd_def rcall_def reply_det)

lemma ks_dels [redis_eff]:
  "ks (snd (exec (DELS keys) s)) = (\<lambda>k. if k \<in> set keys then None else ks s k)"
  by (simp add: eff keff_def)

lemma run_expire_set [redis_run]:
  assumes "set_key (ks s) k"
  shows "run exec (pbind (run_cmd (EXPIRE k n)) f) s = run exec (f ()) (snd (exec (EXPIRE k n) s))"
    "ks (snd (exec (EXPIRE k n) s)) = ks s"
  using assms
  by (cases "ks s k"; auto simp: run_cmd_def rcall_def reply_det set_key_def eff keff_def split: rvalue.splits)+

lemma run_dels_last [redis_run]: "run exec (run_cmd (DELS keys)) s = (Inr (), snd (exec (DELS keys) s))"
  using run_dels[of keys Done s] by simp

lemma run_rcall_det:
  assumes "fst (kstep c (ks s)) = r" "r \<noteq> RId" "\<And>xs. r \<noteq> RStrs xs"
  shows "run exec (pbind (rcall c) f) s =
     (if r = RExc then (Inl RedisError, snd (exec c s)) else run exec (f r) (snd (exec c s)))"
  using reply_det[OF assms] by (simp add: rcall_def)

lemma run_rcall_strs:
  assumes "fst (kstep c (ks s)) = RStrs xs" "\<And>k. c \<noteq> SMEMBERS k" "\<And>k. c \<noteq> SCAN k"
  shows "run exec (pbind (rcall c) f) s = run exec (f (RStrs xs)) (snd (exec c s))"
  using reply_strs[OF assms] by (simp add: rcall_def)

end

section \<open>An instance of the service\<close>

text \<open>A server whose state is the keyspace itself, replying as \<open>kstep\<close> does.\<close>

definition mem_exec :: "redis_cmd \<Rightarrow> keyspace \<Rightarrow> redis_reply \<times> keyspace" where
  "mem_exec c K =
     (case kstep c K of (RId, K') \<Rightarrow> (RBulk (Txt ''1-0''), K') | x \<Rightarrow> x)"

interpretation mem: redis mem_exec "\<lambda>K. K"
proof
  fix c and K :: keyspace
  show "snd (mem_exec c K) = keff c K"
    by (auto simp: mem_exec_def keff_def split: prod.splits redis_reply.splits)
  show "reply_ok c K (fst (mem_exec c K))"
    by (cases "kstep c K")
       (auto simp: mem_exec_def reply_ok_def
         split: redis_reply.splits redis_cmd.splits option.splits rvalue.splits)
qed

section \<open>Frames\<close>

text \<open>The keys a command may write.\<close>

fun may_write :: "redis_cmd \<Rightarrow> string \<Rightarrow> bool" where
  "may_write (GET k) x = False"
| "may_write (EXISTS k) x = False"
| "may_write (MGET l) x = False"
| "may_write (ZRANGEBYSCORE k hi n) x = False"
| "may_write (SMEMBERS k) x = False"
| "may_write (SCAN p) x = False"
| "may_write (SET k t e nx) x = (x = k)"
| "may_write (DEL k) x = (x = k)"
| "may_write (DELS keys) x = (x \<in> set keys)"
| "may_write (ZADD k m sc) x = (x = k)"
| "may_write (ZREM k m) x = (x = k)"
| "may_write (SADD k ms) x = (x = k)"
| "may_write (SREM k ms) x = (x = k)"
| "may_write (HINCRBY k f n) x = (x = k)"
| "may_write (RPUSH k t) x = (x = k)"
| "may_write (LTRIM_LAST k n) x = (x = k)"
| "may_write (EXPIRE k n) x = (x = k)"
| "may_write (XADD k t) x = (x = k)"
| "may_write (EVAL sc keys args) x =
     (x \<in> set keys \<or> sc = CAS_SAVE_LUA \<and> (\<exists>p\<in>set args. case p of AStr q \<Rightarrow> str_startswith x q | _ \<Rightarrow> False))"
| "may_write (PIPE cs) x = list_ex (\<lambda>c. may_write c x) cs"

lemma lua_set_calls_frame: "x \<notin> snd ` set calls \<Longrightarrow> snd (lua_set_calls calls m K) x = K x"
  by (induction calls m K rule: lua_set_calls.induct) (auto simp: put_set_def)

lemma lua_frames:
  "x \<noteq> k \<Longrightarrow> snd (lua_transition k src tgt p ttl K) x = K x"
  "x \<notin> {pk, sk, st, dk} \<Longrightarrow> snd (lua_publish_plan pk sk st dk p ttl dttl K) x = K x"
  "x \<noteq> k \<Longrightarrow> snd (lua_save_status k p np line ttl K) x = K x"
  by (auto simp: lua_transition_def lua_publish_plan_def lua_save_status_def Let_def
      split: option.split rvalue.split rtext.split json.split prod.split)

lemma lua_cas_frame:
  assumes "x \<notin> {key, gk, sk}" "\<not> str_startswith x prefix"
  shows "snd (lua_cas_save key gk sk expected p ttl zid ix prefix K) x = K x"
proof -
  have "x \<noteq> prefix @ y" "prefix @ y \<noteq> x" for y using assms(2) by (auto simp: startswith_iff)
  then have "snd (lua_cas_write key gk sk p ttl zid ix prefix psym K') x = K' x" for psym K'
    using assms(1)
    by (cases psym) (simp_all add: lua_cas_write_def Let_def case_prod_unfold lua_set_calls_frame)
  then show ?thesis
    by (auto simp: lua_cas_save_def split: option.split rvalue.split rtext.split json.split)
qed

lemma keff_frame: "\<not> may_write c x \<Longrightarrow> keff c K x = K x"
proof (induction c x arbitrary: K rule: may_write.induct)
  case (19 sc keys args x)
  then show ?case
    using lua_frames lua_cas_frame
    by (auto simp: keff_def lua_eval_def split: script.split list.split rarg.split)
next
  case (20 cs x)
  then show ?case
    by (induction cs arbitrary: K) (auto simp: keff_def Let_def)
qed (auto simp: keff_def Let_def put_zset_def put_set_def split: option.split rvalue.split)

context redis_any
begin

lemma run_frame:
  "all_calls (\<lambda>c. \<not> may_write c x) p \<Longrightarrow> ks (snd (run exec p s)) x = ks s x"
proof (induction p arbitrary: s)
  case (Call c k)
  then have c: "\<not> may_write c x" and k: "all_calls (\<lambda>c. \<not> may_write c x) (k (fst (exec c s)))" by simp_all
  have "ks (snd (exec c s)) x = ks s x" using eff_or_lost[of c s] keff_frame[OF c] by auto
  with Call.IH[OF _ k] show ?case by simp
qed simp_all

end
context redis_any
begin

lemma run_keeps:
  assumes "all_calls P p" "I (ks s)" "\<And>c K. P c \<Longrightarrow> I K \<Longrightarrow> I (keff c K)"
  shows "I (ks (snd (run exec p s)))"
  using assms(1,2)
proof (induction p arbitrary: s)
  case (Call c k)
  then have "P c" and k: "all_calls P (k (fst (exec c s)))" by simp_all
  with Call.prems(2) have "I (ks (snd (exec c s)))" using eff_or_lost[of c s] assms(3) by auto
  with Call.IH[OF _ k] show ?case by simp
qed simp_all

end

section \<open>Interleaving\<close>

text \<open>
  \<open>istep\<close>: one coroutine issues its next command, or a key with a time-to-live expires.
\<close>

inductive istep ::
  "(redis_cmd \<Rightarrow> 'r \<Rightarrow> redis_reply \<times> 'r) \<Rightarrow> ('r \<Rightarrow> keyspace) \<Rightarrow>
   'r \<times> 'a prog list \<Rightarrow> 'r \<times> 'a prog list \<Rightarrow> bool"
  for exec ks where
  call: "i < length ps \<Longrightarrow> ps ! i = Call c k \<Longrightarrow>
     istep exec ks (s, ps) (snd (exec c s), ps[i := k (fst (exec c s))])"
| expire: "ks s key = Some (VStr t (Some ttl)) \<Longrightarrow> ks s' = (ks s)(key := None) \<Longrightarrow>
     istep exec ks (s, ps) (s', ps)"

inductive_cases istepE [consumes 1, case_names call expire]: "istep exec ks (s, ps) (s', ps')"

abbreviation isteps where
  "isteps exec ks \<equiv> (istep exec ks)\<^sup>*\<^sup>*"

text \<open>A schedule: the indices of the coroutines whose next command runs, in order.\<close>

fun sched ::
  "(redis_cmd \<Rightarrow> 'r \<Rightarrow> redis_reply \<times> 'r) \<Rightarrow> nat list \<Rightarrow> 'r \<times> 'a prog list \<Rightarrow>
   ('r \<times> 'a prog list) option" where
  "sched exec [] c = Some c"
| "sched exec (i # xs) (s, ps) =
     (if i < length ps
      then (case ps ! i of
              Call c k \<Rightarrow> sched exec xs (snd (exec c s), ps[i := k (fst (exec c s))])
            | _ \<Rightarrow> None)
      else None)"

lemma sched_isteps: "sched exec xs c = Some c' \<Longrightarrow> isteps exec ks c c'"
proof (induction exec xs c rule: sched.induct)
  case (2 exec i xs s ps)
  then obtain c k where ik: "i < length ps" "ps ! i = Call c k"
    by (auto split: if_splits prog.splits)
  with 2 have "isteps exec ks (snd (exec c s), ps[i := k (fst (exec c s))]) c'" by simp
  with istep.call[of i ps c k exec ks s, OF ik] show ?case by (meson converse_rtranclp_into_rtranclp)
qed simp

lemma sched_istep:
  assumes "sched exec [i] c = Some c'"
  shows "istep exec ks c c'"
proof (cases c)
  case (Pair s ps)
  with assms obtain com k where "i < length ps" "ps ! i = Call com k"
    "c' = (snd (exec com s), ps[i := k (fst (exec com s))])"
    by (auto split: if_splits prog.splits)
  with Pair istep.call[of i ps com k exec ks s] show ?thesis by simp
qed

text \<open>Evaluating a schedule in two halves, looking at the keyspace after each.\<close>

lemma sched_views:
  assumes "map_option (\<lambda>c. (v (fst c), map_option (\<lambda>c'. w (fst c')) (sched exec ys c)))
      (sched exec xs c0) = Some (a, Some b)"
  obtains c1 c2 where "sched exec xs c0 = Some c1" "sched exec ys c1 = Some c2"
    "v (fst c1) = a" "w (fst c2) = b"
  using assms by (auto simp: map_option_case split: option.splits)

context redis_any
begin

lemma istep_calls:
  assumes "istep exec ks (s, ps) (s', ps')" "\<forall>p\<in>set ps. all_calls P p"
  shows "\<forall>p\<in>set ps'. all_calls P p"
  using assms(1)
proof (cases rule: istepE)
  case (call i c k)
  with assms(2) have "all_calls P (Call c k)" by (metis nth_mem)
  then have "all_calls P (k (fst (exec c s)))" by simp
  with assms(2) call show ?thesis
    by (auto dest!: set_update_subset_insert[THEN subsetD])
qed (use assms in auto)

text \<open>
  What every allowed command guarantees of the keyspace before and after it (\<open>R\<close>), and what
  expiry guarantees, every step of an interleaving guarantees.
\<close>

lemma istep_action:
  assumes step: "istep exec ks (s, ps) (s', ps')"
    and calls: "\<forall>p\<in>set ps. all_calls P p"
    and refl: "\<And>K. R K K"
    and cmd: "\<And>c. P c \<Longrightarrow> R (ks s) (keff c (ks s))"
    and exp: "\<And>key t ttl. ks s key = Some (VStr t (Some ttl)) \<Longrightarrow> R (ks s) ((ks s)(key := None))"
  shows "R (ks s) (ks s')"
  using step
proof (cases rule: istepE)
  case (call i c k)
  with calls have "all_calls P (Call c k)" by (metis nth_mem)
  then have "P c" by simp
  with call eff_or_lost[of c s] cmd[of c] refl show ?thesis by auto
next
  case (expire key t ttl)
  with exp[of key t ttl] show ?thesis by simp
qed

lemma isteps_invariant:
  assumes steps: "isteps exec ks (s, ps) (s', ps')"
    and calls: "\<forall>p\<in>set ps. all_calls P p"
    and init: "I (ks s)"
    and cmd: "\<And>c K. P c \<Longrightarrow> I K \<Longrightarrow> I (keff c K)"
    and exp: "\<And>K key t ttl. I K \<Longrightarrow> K key = Some (VStr t (Some ttl)) \<Longrightarrow> I (K(key := None))"
  shows "I (ks s') \<and> (\<forall>p\<in>set ps'. all_calls P p)"
  using steps
proof (induction rule: rtranclp_induct2)
  case refl
  with init calls show ?case by simp
next
  case (step s1 ps1 s2 ps2)
  then have inv: "I (ks s1)" and ok: "\<forall>p\<in>set ps1. all_calls P p" by auto
  have "I (ks s1) \<longrightarrow> I (ks s2)"
    by (rule istep_action[OF step.hyps(2) ok, where R = "\<lambda>K K'. I K \<longrightarrow> I K'"])
       (use cmd exp in auto)
  with inv istep_calls[OF step.hyps(2) ok] show ?case by simp
qed

end

text \<open>The same without expiry.\<close>

context redis_any
begin

lemma sched_invariant:
  assumes "sched exec xs (s, ps) = Some (s', ps')" "\<forall>p\<in>set ps. all_calls P p" "I (ks s)"
    and cmd: "\<And>c K. P c \<Longrightarrow> I K \<Longrightarrow> I (keff c K)"
  shows "I (ks s')"
  using assms(1-3)
proof (induction xs arbitrary: s ps)
  case (Cons i xs)
  then obtain c k where ik: "i < length ps" "ps ! i = Call c k"
    "sched exec xs (snd (exec c s), ps[i := k (fst (exec c s))]) = Some (s', ps')"
    by (auto split: if_splits prog.splits)
  with Cons.prems have c: "all_calls P (Call c k)" by (metis nth_mem)
  have "I (ks (snd (exec c s)))" using eff_or_lost[of c s] c cmd Cons.prems(3) by auto
  moreover have "\<forall>p\<in>set (ps[i := k (fst (exec c s))]). all_calls P p"
    using c Cons.prems(2) set_update_subset_insert[of ps i] by fastforce
  ultimately show ?case using Cons.IH[OF ik(3)] by blast
qed simp

end

section \<open>A logic for tasks that share the store\<close>

text \<open>
  What a task may assume of the replies grows with a history \<open>h\<close> that other tasks extend
  (\<open>le\<close>): \<open>cmd h c\<close> says that \<open>c\<close> may be issued after \<open>h\<close>, \<open>rep h c r\<close> what the reply \<open>r\<close> to
  \<open>c\<close> then tells. \<open>task_ok\<close> is the weakest condition under which a program only issues such
  commands and establishes \<open>Q\<close> when it returns.
\<close>

primrec task_ok ::
  "('h \<Rightarrow> 'h \<Rightarrow> bool) \<Rightarrow> ('h \<Rightarrow> redis_cmd \<Rightarrow> bool) \<Rightarrow> ('h \<Rightarrow> redis_cmd \<Rightarrow> redis_reply \<Rightarrow> bool) \<Rightarrow>
   'a prog \<Rightarrow> ('a \<Rightarrow> 'h \<Rightarrow> bool) \<Rightarrow> 'h \<Rightarrow> bool" where
  "task_ok le cmd rep (Done a) = (\<lambda>Q h. Q a h)"
| "task_ok le cmd rep (Raise e) = (\<lambda>Q h. True)"
| "task_ok le cmd rep (Call c k) =
     (\<lambda>Q h. cmd h c \<and> (\<forall>h' r. le h h' \<longrightarrow> rep h' c r \<longrightarrow> task_ok le cmd rep (k r) Q h'))"

locale task_logic =
  fixes le :: "'h \<Rightarrow> 'h \<Rightarrow> bool"
    and cmd :: "'h \<Rightarrow> redis_cmd \<Rightarrow> bool"
    and rep :: "'h \<Rightarrow> redis_cmd \<Rightarrow> redis_reply \<Rightarrow> bool"
    and Inv :: "'h \<Rightarrow> keyspace \<Rightarrow> bool"
  assumes le_refl: "le h h"
    and le_trans: "le h0 h1 \<Longrightarrow> le h1 h2 \<Longrightarrow> le h0 h2"
    and cmd_mono: "cmd h c \<Longrightarrow> le h h' \<Longrightarrow> cmd h' c"
    and answer: "cmd h c \<Longrightarrow> Inv h K \<Longrightarrow> reply_ok c K r \<Longrightarrow>
      \<exists>h'. le h h' \<and> Inv h' (keff c K) \<and> rep h' c r"
    and failure: "rep h c RExc"
begin

abbreviation ok where "ok \<equiv> task_ok le cmd rep"

lemma ok_bind: "ok p (\<lambda>a h. ok (f a) Q h) h \<Longrightarrow> ok (pbind p f) Q h"
  by (induction p arbitrary: h) auto

lemma ok_weaken: "ok p Q h \<Longrightarrow> (\<And>a h'. Q a h' \<Longrightarrow> Q' a h') \<Longrightarrow> ok p Q' h"
  by (induction p arbitrary: h) auto

lemma ok_catch: "ok p Q h \<Longrightarrow> (\<And>e h'. ok (hdl e) Q h') \<Longrightarrow> ok (pcatch p hdl) Q h"
  by (induction p arbitrary: h) auto

lemma ok_of_res: "(\<And>a. x = Inr a \<Longrightarrow> Q a h) \<Longrightarrow> ok (of_res x) Q h"
  by (cases x) auto

lemma ok_mono: "ok p (\<lambda>_ _. True) h \<Longrightarrow> le h h' \<Longrightarrow> ok p (\<lambda>_ _. True) h'"
  by (induction p arbitrary: h h') (auto intro: cmd_mono le_trans)

lemma ok_rcall: "cmd h c \<Longrightarrow> (\<And>h' r. le h h' \<Longrightarrow> rep h' c r \<Longrightarrow> Q r h') \<Longrightarrow> ok (rcall c) Q h"
  by (simp add: rcall_def)

lemma ok_get:
  assumes "cmd h (GET k)" "\<And>h'. le h h' \<Longrightarrow> Q None h'"
    "\<And>h' t. le h h' \<Longrightarrow> rep h' (GET k) (RBulk t) \<Longrightarrow> Q (Some t) h'"
  shows "ok (rget k) Q h"
  unfolding rget_def
  by (intro ok_bind ok_rcall assms(1)) (use assms(2,3) in \<open>auto split: redis_reply.split\<close>)

text \<open>One command of one task, against a server that may fail.\<close>

lemma pool_call:
  assumes "redis_any exec ks" "i < length ps" "ps ! i = Call c k"
    and "Inv h (ks s)" "\<forall>p\<in>set ps. ok p (\<lambda>_ _. True) h"
  shows "\<exists>h'. le h h' \<and> Inv h' (ks (snd (exec c s))) \<and>
     (\<forall>p\<in>set (ps[i := k (fst (exec c s))]). ok p (\<lambda>_ _. True) h')"
proof -
  have call: "ok (Call c k) (\<lambda>_ _. True) h" using assms(2,3,5) by (metis nth_mem)
  then have c: "cmd h c" by simp
  have "reply_ok c (ks s) (fst (mem_exec c (ks s)))" by (rule mem.reply)
  then obtain r0 where r0: "reply_ok c (ks s) r0" by blast
  have "\<exists>h'. le h h' \<and> Inv h' (ks (snd (exec c s))) \<and> rep h' c (fst (exec c s))"
    using redis_any.serve[OF assms(1), of c s] answer[OF c assms(4)] answer[OF c assms(4) r0]
      assms(4) failure le_refl by metis
  then obtain h' where h': "le h h'" "Inv h' (ks (snd (exec c s)))" "rep h' c (fst (exec c s))" by blast
  have "ok p (\<lambda>_ _. True) h'" if "p \<in> set (ps[i := k (fst (exec c s))])" for p
  proof -
    have "p = k (fst (exec c s)) \<or> p \<in> set ps"
      using that set_update_subset_insert[of ps i] by blast
    then show ?thesis using call h' assms(5) ok_mono by auto
  qed
  with h' show ?thesis by blast
qed

lemma sched_tasks:
  assumes "redis_any exec ks" "sched exec xs (s, ps) = Some (s', ps')"
    and "Inv h (ks s)" "\<forall>p\<in>set ps. ok p (\<lambda>_ _. True) h"
  shows "\<exists>h'. le h h' \<and> Inv h' (ks s') \<and> (\<forall>p\<in>set ps'. ok p (\<lambda>_ _. True) h')"
  using assms(2-4)
proof (induction xs arbitrary: s ps h)
  case (Cons i xs)
  then obtain c k where ik: "i < length ps" "ps ! i = Call c k"
    "sched exec xs (snd (exec c s), ps[i := k (fst (exec c s))]) = Some (s', ps')"
    by (auto split: if_splits prog.splits)
  from pool_call[OF assms(1) ik(1,2) Cons.prems(2,3)] Cons.IH[OF ik(3)] show ?case
    using le_trans by blast
qed (use le_refl in auto)

lemma isteps_tasks:
  assumes "redis_any exec ks" "isteps exec ks (s, ps) (s', ps')"
    and "Inv h (ks s)" "\<forall>p\<in>set ps. ok p (\<lambda>_ _. True) h"
    and exp: "\<And>h K key t ttl. Inv h K \<Longrightarrow> K key = Some (VStr t (Some ttl)) \<Longrightarrow> Inv h (K(key := None))"
  shows "\<exists>h'. le h h' \<and> Inv h' (ks s') \<and> (\<forall>p\<in>set ps'. ok p (\<lambda>_ _. True) h')"
  using assms(2)
proof (induction rule: rtranclp_induct2)
  case refl
  then show ?case using assms(3,4) le_refl by blast
next
  case (step s1 ps1 s2 ps2)
  then obtain h1 where h1: "le h h1" "Inv h1 (ks s1)" "\<forall>p\<in>set ps1. ok p (\<lambda>_ _. True) h1" by blast
  from step.hyps(2) show ?case
  proof (cases rule: istepE)
    case (call i c k)
    with pool_call[OF assms(1) call(1,2) h1(2,3)] h1(1) le_trans show ?thesis by blast
  next
    case (expire key t ttl)
    have "Inv h1 (ks s2)"
      using exp[OF h1(2), of key t ttl] by (simp only: expire)
    with h1 expire(1) show ?thesis by (intro exI[of _ h1]) (simp only: simp_thms)
  qed
qed

end

end
