(* ===== verification/SetupLifecycle.thy ===== *)
theory SetupLifecycle
  imports RedisRuns
begin

text \<open>
  The analysis-side setup state machine (\<open>app/autotrade/setup_lifecycle.py\<close>): the
  transition graph, the record and its JSON form, the expiry index, and every coroutine that
  creates, moves, expires or rearms a setup or claims its thesis. The clock is read once per
  operation and passed as \<open>now\<close>; \<open>reason_code\<close> arguments only occur in error texts and
  are dropped. \<open>fallback\<close> is the test-only client attribute that replaces the Lua script by
  a read-compare-write.
\<close>

section \<open>States and the transition graph\<close>

definition DISCOVERED :: string where [state_sets]: "DISCOVERED = ''discovered''"
definition WATCHING :: string where [state_sets]: "WATCHING = ''watching''"
definition TOUCHED :: string where [state_sets]: "TOUCHED = ''touched''"
definition FORMING :: string where [state_sets]: "FORMING = ''forming''"
definition CONFIRMED :: string where [state_sets]: "CONFIRMED = ''confirmed''"
definition READY_EVENT_ENQUEUED :: string where
  [state_sets]: "READY_EVENT_ENQUEUED = ''ready_event_enqueued''"
definition WORKER_ACKNOWLEDGED :: string where
  [state_sets]: "WORKER_ACKNOWLEDGED = ''worker_acknowledged''"
definition ARMED_WAITING_TRIGGER :: string where
  [state_sets]: "ARMED_WAITING_TRIGGER = ''armed_waiting_trigger''"
definition PLAN_BUILT :: string where [state_sets]: "PLAN_BUILT = ''plan_built''"
definition PLAN_PUBLISHED :: string where [state_sets]: "PLAN_PUBLISHED = ''plan_published''"
definition ARMED :: string where [state_sets]: "ARMED = ''armed''"
definition CANCELLED :: string where [state_sets]: "CANCELLED = ''cancelled''"
definition INVALIDATED :: string where [state_sets]: "INVALIDATED = ''invalidated''"
definition EXPIRED :: string where [state_sets]: "EXPIRED = ''expired''"
definition CONSUMED :: string where [state_sets]: "CONSUMED = ''consumed''"

definition SETUP_STATES :: "string set" where
  [state_sets]: "SETUP_STATES =
     {DISCOVERED, WATCHING, TOUCHED, FORMING, CONFIRMED, PLAN_BUILT, PLAN_PUBLISHED, ARMED,
      CANCELLED, INVALIDATED, EXPIRED, CONSUMED}"

definition LEGACY_PRE_PLAN_STATES :: "string set" where
  [state_sets]: "LEGACY_PRE_PLAN_STATES =
     {READY_EVENT_ENQUEUED, WORKER_ACKNOWLEDGED, ARMED_WAITING_TRIGGER}"

definition ANALYSIS_ONLY_STATES :: "string set" where
  [state_sets]: "ANALYSIS_ONLY_STATES = {DISCOVERED, WATCHING, TOUCHED, FORMING}"

definition TERMINAL_STATES :: "string set" where
  [state_sets]: "TERMINAL_STATES = {CANCELLED, INVALIDATED, EXPIRED, CONSUMED}"

definition TRANSITIONS :: "string \<rightharpoonup> string set" where
  [state_sets]: "TRANSITIONS =
     [DISCOVERED \<mapsto> {WATCHING, INVALIDATED, EXPIRED},
      WATCHING \<mapsto> {TOUCHED, INVALIDATED, EXPIRED},
      TOUCHED \<mapsto> {FORMING, WATCHING, INVALIDATED, EXPIRED},
      FORMING \<mapsto> {CONFIRMED, WATCHING, INVALIDATED, EXPIRED},
      CONFIRMED \<mapsto> {PLAN_BUILT, INVALIDATED, EXPIRED},
      READY_EVENT_ENQUEUED \<mapsto> {PLAN_BUILT, INVALIDATED, EXPIRED},
      WORKER_ACKNOWLEDGED \<mapsto> {PLAN_BUILT, INVALIDATED, EXPIRED},
      ARMED_WAITING_TRIGGER \<mapsto> {PLAN_BUILT, INVALIDATED, EXPIRED},
      PLAN_BUILT \<mapsto> {PLAN_PUBLISHED, CANCELLED},
      PLAN_PUBLISHED \<mapsto> {ARMED, CANCELLED, EXPIRED, CONSUMED},
      ARMED \<mapsto> {CONSUMED, CANCELLED, EXPIRED},
      CANCELLED \<mapsto> {}, INVALIDATED \<mapsto> {}, EXPIRED \<mapsto> {}, CONSUMED \<mapsto> {}]"

text \<open>\<open>_TRANSITIONS.get(state, frozenset())\<close>.\<close>

definition allowed_from :: "string \<Rightarrow> string set" where
  "allowed_from st = (case TRANSITIONS st of None \<Rightarrow> {} | Some A \<Rightarrow> A)"

definition normalize_setup_state :: "string option \<Rightarrow> string" where
  "normalize_setup_state st =
     (let value = (case st of None \<Rightarrow> [] | Some s \<Rightarrow> s)
      in if value \<in> LEGACY_PRE_PLAN_STATES then CONFIRMED else value)"

definition is_publishable_setup_state :: "string option \<Rightarrow> bool" where
  "is_publishable_setup_state st \<longleftrightarrow> normalize_setup_state st \<in> {CONFIRMED, PLAN_BUILT}"

definition PUBLICATION_WON_STATES :: "string set" where
  [state_sets]: "PUBLICATION_WON_STATES = {PLAN_BUILT, PLAN_PUBLISHED, ARMED}"

definition SETUP_AUDIT_RETENTION_SECONDS :: int where
  "SETUP_AUDIT_RETENTION_SECONDS = 24 * 3600"

definition TERMINAL_SETUP_RETENTION_SECONDS :: int where
  "TERMINAL_SETUP_RETENTION_SECONDS = 24 * 3600"

section \<open>Keys and records\<close>

definition setup_key :: "string \<Rightarrow> string" where
  "setup_key setup_id = ''analysis:setup:'' @ setup_id"

definition active_thesis_key :: "string \<Rightarrow> string \<Rightarrow> string" where
  "active_thesis_key symbol thesis_id = ''analysis:active_thesis:'' @ symbol @ '':'' @ thesis_id"

definition setup_expiry_index_key :: string where
  "setup_expiry_index_key = ''analysis:setup_expiry''"

record setup_record =
  sr_setup_id :: string
  sr_thesis_id :: string
  sr_symbol :: string
  sr_state :: string
  sr_source_structure_id :: "string option"
  sr_formation_timeframe :: "string option"
  sr_confirmation_timeframe :: "string option"
  sr_formation_bar_ts :: "int option"
  sr_confirmation_bar_ts :: "int option"
  sr_last_emitted_card_state :: "string option"
  sr_telegram_message_id :: "int option"
  sr_expires_at :: "int option"
  sr_invalidation_condition :: "string option"
  sr_created_at :: int
  sr_updated_at :: int

definition setup_to_dict :: "setup_record \<Rightarrow> json" where
  "setup_to_dict r = JObj
     [(''setup_id'', JStr (sr_setup_id r)),
      (''thesis_id'', JStr (sr_thesis_id r)),
      (''symbol'', JStr (sr_symbol r)),
      (''state'', JStr (sr_state r)),
      (''source_structure_id'', j_opt_str (sr_source_structure_id r)),
      (''formation_timeframe'', j_opt_str (sr_formation_timeframe r)),
      (''confirmation_timeframe'', j_opt_str (sr_confirmation_timeframe r)),
      (''formation_bar_ts'', j_opt_int (sr_formation_bar_ts r)),
      (''confirmation_bar_ts'', j_opt_int (sr_confirmation_bar_ts r)),
      (''last_emitted_card_state'', j_opt_str (sr_last_emitted_card_state r)),
      (''telegram_message_id'', j_opt_int (sr_telegram_message_id r)),
      (''expires_at'', j_opt_int (sr_expires_at r)),
      (''invalidation_condition'', j_opt_str (sr_invalidation_condition r)),
      (''created_at'', JInt (sr_created_at r)),
      (''updated_at'', JInt (sr_updated_at r))]"

definition idx_str :: "json \<Rightarrow> string \<Rightarrow> string res" where
  "idx_str data k = res_bind (jindex data k) py_str"

definition get_opt_str :: "json \<Rightarrow> string \<Rightarrow> string option res" where
  "get_opt_str data k = res_bind (jget data k) field_opt_str"

definition get_opt_int :: "json \<Rightarrow> string \<Rightarrow> int option res" where
  "get_opt_int data k = res_bind (jget data k) field_opt_int"

definition get_int_default :: "json \<Rightarrow> string \<Rightarrow> int \<Rightarrow> int res" where
  "get_int_default data k d = res_bind (jget_default data k (JInt d)) py_int"

definition setup_from_dict :: "int \<Rightarrow> json \<Rightarrow> setup_record res" where
  "setup_from_dict now data =
     res_bind (idx_str data ''setup_id'') (\<lambda>setup_id.
     res_bind (idx_str data ''thesis_id'') (\<lambda>thesis_id.
     res_bind (idx_str data ''symbol'') (\<lambda>symbol.
     res_bind (idx_str data ''state'') (\<lambda>state.
     res_bind (get_opt_str data ''source_structure_id'') (\<lambda>source_structure_id.
     res_bind (get_opt_str data ''formation_timeframe'') (\<lambda>formation_timeframe.
     res_bind (get_opt_str data ''confirmation_timeframe'') (\<lambda>confirmation_timeframe.
     res_bind (get_opt_int data ''formation_bar_ts'') (\<lambda>formation_bar_ts.
     res_bind (get_opt_int data ''confirmation_bar_ts'') (\<lambda>confirmation_bar_ts.
     res_bind (get_opt_str data ''last_emitted_card_state'') (\<lambda>last_emitted_card_state.
     res_bind (get_opt_int data ''telegram_message_id'') (\<lambda>telegram_message_id.
     res_bind (get_opt_int data ''expires_at'') (\<lambda>expires_at.
     res_bind (get_opt_str data ''invalidation_condition'') (\<lambda>invalidation_condition.
     res_bind (get_int_default data ''created_at'' now) (\<lambda>created_at.
     res_bind (get_int_default data ''updated_at'' now) (\<lambda>updated_at.
     Inr \<lparr>sr_setup_id = setup_id, sr_thesis_id = thesis_id, sr_symbol = symbol,
          sr_state = state, sr_source_structure_id = source_structure_id,
          sr_formation_timeframe = formation_timeframe,
          sr_confirmation_timeframe = confirmation_timeframe,
          sr_formation_bar_ts = formation_bar_ts,
          sr_confirmation_bar_ts = confirmation_bar_ts,
          sr_last_emitted_card_state = last_emitted_card_state,
          sr_telegram_message_id = telegram_message_id, sr_expires_at = expires_at,
          sr_invalidation_condition = invalidation_condition,
          sr_created_at = created_at, sr_updated_at = updated_at\<rparr>)))))))))))))))"

text \<open>The keyword arguments \<open>**field_updates\<close> that \<open>replace\<close> accepts beside the state.\<close>

datatype setup_field =
    F_thesis_id string
  | F_symbol string
  | F_source_structure_id "string option"
  | F_formation_timeframe "string option"
  | F_confirmation_timeframe "string option"
  | F_formation_bar_ts "int option"
  | F_confirmation_bar_ts "int option"
  | F_last_emitted_card_state "string option"
  | F_telegram_message_id "int option"
  | F_expires_at "int option"
  | F_invalidation_condition "string option"

fun apply_setup_field :: "setup_field \<Rightarrow> setup_record \<Rightarrow> setup_record" where
  "apply_setup_field (F_thesis_id x) r = r\<lparr>sr_thesis_id := x\<rparr>"
| "apply_setup_field (F_symbol x) r = r\<lparr>sr_symbol := x\<rparr>"
| "apply_setup_field (F_source_structure_id x) r = r\<lparr>sr_source_structure_id := x\<rparr>"
| "apply_setup_field (F_formation_timeframe x) r = r\<lparr>sr_formation_timeframe := x\<rparr>"
| "apply_setup_field (F_confirmation_timeframe x) r = r\<lparr>sr_confirmation_timeframe := x\<rparr>"
| "apply_setup_field (F_formation_bar_ts x) r = r\<lparr>sr_formation_bar_ts := x\<rparr>"
| "apply_setup_field (F_confirmation_bar_ts x) r = r\<lparr>sr_confirmation_bar_ts := x\<rparr>"
| "apply_setup_field (F_last_emitted_card_state x) r = r\<lparr>sr_last_emitted_card_state := x\<rparr>"
| "apply_setup_field (F_telegram_message_id x) r = r\<lparr>sr_telegram_message_id := x\<rparr>"
| "apply_setup_field (F_expires_at x) r = r\<lparr>sr_expires_at := x\<rparr>"
| "apply_setup_field (F_invalidation_condition x) r = r\<lparr>sr_invalidation_condition := x\<rparr>"

definition replace_setup ::
  "setup_record \<Rightarrow> string \<Rightarrow> int \<Rightarrow> setup_field list \<Rightarrow> setup_record" where
  "replace_setup r new_state now updates =
     fold apply_setup_field updates (r\<lparr>sr_state := new_state, sr_updated_at := now\<rparr>)"

section \<open>Operations\<close>

definition ttl_for :: "int \<Rightarrow> setup_record \<Rightarrow> int" where
  "ttl_for now r =
     (if sr_state r \<in> TERMINAL_STATES then TERMINAL_SETUP_RETENTION_SECONDS
      else (case sr_expires_at r of
              Some e \<Rightarrow> max SETUP_AUDIT_RETENTION_SECONDS (e - now + SETUP_AUDIT_RETENTION_SECONDS)
            | None \<Rightarrow> 86400))"

definition sync_expiry_index :: "setup_record \<Rightarrow> unit prog" where
  "sync_expiry_index r =
     (if sr_state r \<in> TERMINAL_STATES
      then run_cmd (ZREM setup_expiry_index_key (sr_setup_id r))
      else (case sr_expires_at r of
              None \<Rightarrow> run_cmd (ZREM setup_expiry_index_key (sr_setup_id r))
            | Some e \<Rightarrow> run_cmd (ZADD setup_expiry_index_key (sr_setup_id r) e)))"

definition save_setup :: "int \<Rightarrow> setup_record \<Rightarrow> unit prog" where
  "save_setup now r =
     pbind (run_cmd (SET (setup_key (sr_setup_id r)) (Doc (setup_to_dict r))
                       (Some (ttl_for now r)) False)) (\<lambda>_.
     sync_expiry_index r)"

definition load_setup :: "int \<Rightarrow> string \<Rightarrow> setup_record option prog" where
  "load_setup now setup_id =
     pbind (rget (setup_key setup_id)) (\<lambda>raw.
     case raw of
       None \<Rightarrow> Done None
     | Some t \<Rightarrow> pbind (of_res (res_bind (json_loads t) (setup_from_dict now)))
                   (\<lambda>r. Done (Some r)))"

definition new_setup ::
  "int \<Rightarrow> string \<Rightarrow> string \<Rightarrow> string \<Rightarrow> string option \<Rightarrow> string option \<Rightarrow> int option \<Rightarrow>
   string option \<Rightarrow> setup_record" where
  "new_setup now setup_id thesis_id symbol source_structure_id formation_timeframe expires_at
     invalidation_condition =
     \<lparr>sr_setup_id = setup_id, sr_thesis_id = thesis_id, sr_symbol = symbol,
      sr_state = DISCOVERED, sr_source_structure_id = source_structure_id,
      sr_formation_timeframe = formation_timeframe, sr_confirmation_timeframe = None,
      sr_formation_bar_ts = None, sr_confirmation_bar_ts = None,
      sr_last_emitted_card_state = None, sr_telegram_message_id = None,
      sr_expires_at = expires_at, sr_invalidation_condition = invalidation_condition,
      sr_created_at = now, sr_updated_at = now\<rparr>"

definition create_setup ::
  "int \<Rightarrow> string \<Rightarrow> string \<Rightarrow> string \<Rightarrow> string option \<Rightarrow> string option \<Rightarrow> int option \<Rightarrow>
   string option \<Rightarrow> (setup_record \<times> bool) prog" where
  "create_setup now setup_id thesis_id symbol source_structure_id formation_timeframe expires_at
     invalidation_condition =
     pbind (load_setup now setup_id) (\<lambda>existing.
     case existing of
       Some r \<Rightarrow> Done (r, False)
     | None \<Rightarrow>
         (let record = new_setup now setup_id thesis_id symbol source_structure_id
                         formation_timeframe expires_at invalidation_condition
          in pbind (save_setup now record) (\<lambda>_. Done (record, True))))"

text \<open>The best-effort path that replaces the script under a test client.\<close>

definition transition_fallback ::
  "int \<Rightarrow> string \<Rightarrow> string \<Rightarrow> setup_record \<Rightarrow> setup_record \<Rightarrow> (setup_record \<times> bool) prog" where
  "transition_fallback now setup_id new_state record updated =
     pbind (load_setup now setup_id) (\<lambda>current.
     case current of
       None \<Rightarrow> Raise (SetupLifecycleError ''unknown setup_id'')
     | Some c \<Rightarrow>
         if sr_state c = new_state then Done (c, False)
         else if sr_state c \<noteq> sr_state record
         then Raise (SetupTransitionConflict (sr_state c))
         else pbind (save_setup now updated) (\<lambda>_. Done (updated, True)))"

definition transition_eval ::
  "bool \<Rightarrow> int \<Rightarrow> string \<Rightarrow> string \<Rightarrow> setup_record \<Rightarrow> setup_record \<Rightarrow>
   ((string \<times> string) + (setup_record \<times> bool)) prog" where
  "transition_eval fallback now setup_id new_state record updated =
     pcatch
       (pbind (rcall (EVAL TRANSITION_LUA [setup_key setup_id]
                 [AStr (sr_state record), AStr new_state, ADoc (setup_to_dict updated),
                  AInt (ttl_for now updated)])) (\<lambda>r.
        case r of RStrs [outcome, actual_state] \<Rightarrow> Done (Inl (outcome, actual_state))
        | _ \<Rightarrow> Raise ValueError))
       (\<lambda>e. if \<not> fallback then Raise e
            else pbind (transition_fallback now setup_id new_state record updated)
                   (\<lambda>res. Done (Inr res)))"

definition transition_setup ::
  "bool \<Rightarrow> int \<Rightarrow> string \<Rightarrow> string \<Rightarrow> setup_field list \<Rightarrow> (setup_record \<times> bool) prog" where
  "transition_setup fallback now setup_id new_state updates =
     (if new_state \<notin> SETUP_STATES then Raise (SetupLifecycleError ''unknown setup state'')
      else pbind (load_setup now setup_id) (\<lambda>loaded.
      case loaded of
        None \<Rightarrow> Raise (SetupLifecycleError ''unknown setup_id'')
      | Some record \<Rightarrow>
          if sr_state record = new_state then Done (record, False)
          else if new_state \<notin> allowed_from (sr_state record)
          then Raise (SetupLifecycleError ''illegal setup transition'')
          else (let updated = replace_setup record new_state now updates in
            pbind (transition_eval fallback now setup_id new_state record updated) (\<lambda>res.
            case res of
              Inr early \<Rightarrow> Done early
            | Inl (outcome, actual_state) \<Rightarrow>
                if outcome = ''changed''
                then pbind (sync_expiry_index updated) (\<lambda>_. Done (updated, True))
                else if outcome = ''already_at_target''
                then pbind (load_setup now setup_id) (\<lambda>current.
                       Done (case current of Some c \<Rightarrow> c | None \<Rightarrow> updated, False))
                else if outcome = ''missing''
                then Raise (SetupLifecycleError ''unknown setup_id'')
                else Raise (SetupTransitionConflict actual_state)))))"

definition expire_setup ::
  "bool \<Rightarrow> int \<Rightarrow> string \<Rightarrow> (setup_record option \<times> string) prog" where
  "expire_setup fallback now setup_id =
     pbind (load_setup now setup_id) (\<lambda>loaded.
     case loaded of
       None \<Rightarrow> Done (None, ''missing'')
     | Some record \<Rightarrow>
         if sr_state record \<in> TERMINAL_STATES then Done (Some record, ''already_terminal'')
         else if sr_state record \<in> PUBLICATION_WON_STATES
         then Done (Some record, ''publication_won'')
         else pbind (transition_setup fallback now setup_id EXPIRED []) (\<lambda>(updated, changed).
                Done (Some updated, if changed then ''transitioned'' else ''already_terminal'')))"

definition rearm_setup :: "int \<Rightarrow> string \<Rightarrow> string \<Rightarrow> setup_record prog" where
  "rearm_setup now setup_id rearm_condition =
     (if rearm_condition = [] then Raise (SetupLifecycleError ''empty rearm_condition'')
      else pbind (load_setup now setup_id) (\<lambda>loaded.
      case loaded of
        None \<Rightarrow> Raise (SetupLifecycleError ''unknown setup_id'')
      | Some record \<Rightarrow>
          if sr_state record \<notin> {INVALIDATED, EXPIRED}
          then Raise (SetupLifecycleError ''not invalidated/expired'')
          else (let updated = record\<lparr>sr_state := DISCOVERED, sr_invalidation_condition := None,
                                     sr_expires_at := None, sr_updated_at := now\<rparr>
                in pbind (save_setup now updated) (\<lambda>_. Done updated))))"

definition claim_active_thesis :: "string \<Rightarrow> string \<Rightarrow> string \<Rightarrow> int \<Rightarrow> bool prog" where
  "claim_active_thesis symbol thesis_id setup_id ttl =
     (let key = active_thesis_key symbol thesis_id in
      pbind (rset_nx key (Txt setup_id) ttl) (\<lambda>claimed.
      if claimed then Done True
      else pbind (rget key) (\<lambda>current. Done (current = Some (Txt setup_id)))))"

definition release_active_thesis :: "string \<Rightarrow> string \<Rightarrow> string \<Rightarrow> unit prog" where
  "release_active_thesis symbol thesis_id setup_id =
     (let key = active_thesis_key symbol thesis_id in
      pbind (rget key) (\<lambda>current.
      if current = Some (Txt setup_id) then run_cmd (DEL key) else Done ()))"

section \<open>Lemmas\<close>

subsection \<open>The graph\<close>

definition setup_path :: "string \<Rightarrow> string \<Rightarrow> bool" where
  "setup_path = (\<lambda>a b. b \<in> allowed_from a)\<^sup>*\<^sup>*"

lemma allowed_from_eval:
  "allowed_from st =
     (if st = DISCOVERED then {WATCHING, INVALIDATED, EXPIRED}
      else if st = WATCHING then {TOUCHED, INVALIDATED, EXPIRED}
      else if st = TOUCHED then {FORMING, WATCHING, INVALIDATED, EXPIRED}
      else if st = FORMING then {CONFIRMED, WATCHING, INVALIDATED, EXPIRED}
      else if st = CONFIRMED \<or> st \<in> LEGACY_PRE_PLAN_STATES then {PLAN_BUILT, INVALIDATED, EXPIRED}
      else if st = PLAN_BUILT then {PLAN_PUBLISHED, CANCELLED}
      else if st = PLAN_PUBLISHED then {ARMED, CANCELLED, EXPIRED, CONSUMED}
      else if st = ARMED then {CONSUMED, CANCELLED, EXPIRED} else {})"
  by (simp add: allowed_from_def state_sets)

lemma setup_path_closed:
  assumes "setup_path a b" "a \<in> S" "\<And>x. x \<in> S \<Longrightarrow> allowed_from x \<subseteq> S"
  shows "b \<in> S"
  using assms(1,2) unfolding setup_path_def
  by (induction rule: rtranclp_induct) (use assms(3) in auto)

lemma allowed_from_simps:
  "allowed_from DISCOVERED = {WATCHING, INVALIDATED, EXPIRED}"
  "allowed_from WATCHING = {TOUCHED, INVALIDATED, EXPIRED}"
  "allowed_from TOUCHED = {FORMING, WATCHING, INVALIDATED, EXPIRED}"
  "allowed_from FORMING = {CONFIRMED, WATCHING, INVALIDATED, EXPIRED}"
  "allowed_from CONFIRMED = {PLAN_BUILT, INVALIDATED, EXPIRED}"
  "allowed_from PLAN_BUILT = {PLAN_PUBLISHED, CANCELLED}"
  "allowed_from PLAN_PUBLISHED = {ARMED, CANCELLED, EXPIRED, CONSUMED}"
  "allowed_from ARMED = {CONSUMED, CANCELLED, EXPIRED}"
  "allowed_from CANCELLED = {}" "allowed_from INVALIDATED = {}"
  "allowed_from EXPIRED = {}" "allowed_from CONSUMED = {}"
  by (simp_all add: allowed_from_def state_sets)

lemma terminal_no_edge: "a \<in> TERMINAL_STATES \<Longrightarrow> allowed_from a = {}"
  by (auto simp: allowed_from_simps TERMINAL_STATES_def)

lemma allowed_from_states: "allowed_from a \<subseteq> SETUP_STATES"
  by (simp add: allowed_from_eval SETUP_STATES_def)

lemma terminal_closed: "a \<in> TERMINAL_STATES \<Longrightarrow> setup_path a b \<Longrightarrow> b = a"
  using setup_path_closed[of a b "{a}"] terminal_no_edge[of a] by auto

lemma published_closed:
  assumes "x \<in> PUBLICATION_WON_STATES \<union> {CANCELLED, EXPIRED, CONSUMED}"
  shows "allowed_from x \<subseteq> PUBLICATION_WON_STATES \<union> {CANCELLED, EXPIRED, CONSUMED}"
  using assms by (auto simp: allowed_from_simps PUBLICATION_WON_STATES_def)

lemma setup_json_roundtrip: "setup_from_dict now (setup_to_dict r) = Inr r"
  by (simp add: setup_to_dict_def setup_from_dict_def idx_str_def get_opt_str_def get_opt_int_def
      get_int_default_def)

lemma setup_keys [simp]:
  "setup_key sid \<noteq> setup_expiry_index_key" "setup_expiry_index_key \<noteq> setup_key sid"
  "setup_key sid = setup_key sid' \<longleftrightarrow> sid = sid'"
  "active_thesis_key a b \<noteq> setup_key sid" "setup_key sid \<noteq> active_thesis_key a b"
  "active_thesis_key a b \<noteq> setup_expiry_index_key" "setup_expiry_index_key \<noteq> active_thesis_key a b"
  by (auto simp: setup_key_def setup_expiry_index_key_def active_thesis_key_def)

lemma fold_fields [simp]:
  "sr_setup_id (fold apply_setup_field ups r) = sr_setup_id r"
  "sr_state (fold apply_setup_field ups r) = sr_state r"
proof (induction ups arbitrary: r)
  case (Cons u ups)
  have "sr_setup_id (apply_setup_field u r) = sr_setup_id r"
    "sr_state (apply_setup_field u r) = sr_state r" by (cases u; simp)+
  { case 1 show ?case using Cons.IH(1)[of "apply_setup_field u r"] by (cases u) auto }
  { case 2 show ?case using Cons.IH(2)[of "apply_setup_field u r"] by (cases u) auto }
qed auto

lemma replace_setup_simps [simp]:
  "sr_setup_id (replace_setup r st now ups) = sr_setup_id r"
  "sr_state (replace_setup r st now ups) = st"
  by (simp_all add: replace_setup_def)

definition setup_at :: "keyspace \<Rightarrow> string \<Rightarrow> setup_record \<Rightarrow> bool" where
  "setup_at K sid r \<longleftrightarrow> k_text K (setup_key sid) = Some (Doc (setup_to_dict r))"

lemma setup_at_str_key: "setup_at K sid r \<Longrightarrow> str_key K (setup_key sid)"
  by (auto simp: setup_at_def k_text_def str_key_def split: option.splits rvalue.splits)

definition index_put :: "setup_record \<Rightarrow> keyspace \<Rightarrow> keyspace" where
  "index_put r K =
     put_zset K setup_expiry_index_key
       (case (if sr_state r \<in> TERMINAL_STATES then None else sr_expires_at r) of
          None \<Rightarrow> assoc_del (sr_setup_id r) (k_zset K setup_expiry_index_key)
        | Some e \<Rightarrow> assoc_put (sr_setup_id r) e (k_zset K setup_expiry_index_key))"

definition store_setup :: "int \<Rightarrow> string \<Rightarrow> setup_record \<Rightarrow> keyspace \<Rightarrow> keyspace" where
  "store_setup now sid r K =
     index_put r (K(setup_key sid \<mapsto> VStr (Doc (setup_to_dict r)) (Some (ttl_for now r))))"

definition transition_spec ::
  "int \<Rightarrow> string \<Rightarrow> setup_record \<Rightarrow> string \<Rightarrow> setup_field list \<Rightarrow> keyspace \<Rightarrow>
   (setup_record \<times> bool) res \<times> keyspace" where
  "transition_spec now sid r new_state updates K =
     (if new_state \<notin> SETUP_STATES then (Inl (SetupLifecycleError ''unknown setup state''), K)
      else if sr_state r = new_state then (Inr (r, False), K)
      else if new_state \<notin> allowed_from (sr_state r)
      then (Inl (SetupLifecycleError ''illegal setup transition''), K)
      else (let u = replace_setup r new_state now updates
            in (Inr (u, True), store_setup now sid u K)))"

definition rearmed :: "int \<Rightarrow> setup_record \<Rightarrow> setup_record" where
  "rearmed now r = r\<lparr>sr_state := DISCOVERED, sr_invalidation_condition := None,
                     sr_expires_at := None, sr_updated_at := now\<rparr>"

context redis
begin

lemma run_load_setup [redis_run]:
  "setup_at (ks s) sid r \<Longrightarrow>
   run exec (pbind (load_setup now sid) f) s = run exec (f (Some r)) (snd (exec (GET (setup_key sid)) s))"
  using setup_at_str_key[of "ks s" sid r]
  by (simp add: load_setup_def redis_run setup_at_def setup_json_roundtrip)

lemma run_load_missing [redis_run]:
  "ks s (setup_key sid) = None \<Longrightarrow>
   run exec (pbind (load_setup now sid) f) s = run exec (f None) (snd (exec (GET (setup_key sid)) s))"
  by (simp add: load_setup_def redis_run str_key_def k_text_def)

lemma run_sync:
  "zset_key (ks s) setup_expiry_index_key \<Longrightarrow>
   \<exists>s'. run exec (pbind (sync_expiry_index r) f) s = run exec (f ()) s' \<and> ks s' = index_put r (ks s)"
  by (auto simp: sync_expiry_index_def redis_run redis_eff index_put_def split: option.splits
      intro!: exI)

lemma run_save:
  "zset_key (ks s) setup_expiry_index_key \<Longrightarrow>
   \<exists>s'. run exec (pbind (save_setup now r) f) s = run exec (f ()) s' \<and>
     ks s' = store_setup now (sr_setup_id r) r (ks s)"
  using run_sync[of "snd (exec (SET (setup_key (sr_setup_id r)) (Doc (setup_to_dict r)) (Some (ttl_for now r)) False) s)"]
  by (auto simp: save_setup_def redis_run redis_eff store_setup_def)

lemma eval_transition:
  fixes p :: json and ttl :: int
  assumes "setup_at (ks s) sid r" "sr_state r = src" "src \<noteq> tgt"
  defines "c \<equiv> EVAL TRANSITION_LUA [setup_key sid] [AStr src, AStr tgt, ADoc p, AInt ttl]"
  shows "fst (exec c s) = RStrs [''changed'', src]"
    "ks (snd (exec c s)) = (ks s)(setup_key sid \<mapsto> VStr (Doc p) (Some ttl))"
proof -
  obtain e where "ks s (setup_key sid) = Some (VStr (Doc (setup_to_dict r)) e)"
    using assms(1) by (auto simp: setup_at_def k_text_def split: option.splits rvalue.splits)
  then have *: "kstep c (ks s) = (RStrs [''changed'', src], (ks s)(setup_key sid \<mapsto> VStr (Doc p) (Some ttl)))"
    using assms(2,3) by (simp add: c_def lua_eval_def lua_transition_def setup_to_dict_def lua_field_str_def)
  then show "fst (exec c s) = RStrs [''changed'', src]"
    by (intro reply_strs) (simp_all add: c_def)
  show "ks (snd (exec c s)) = (ks s)(setup_key sid \<mapsto> VStr (Doc p) (Some ttl))"
    using * by (simp add: eff keff_def)
qed

lemma run_transition:
  assumes "setup_at (ks s) sid r" "zset_key (ks s) setup_expiry_index_key"
  shows "fst (run exec (transition_setup fb now sid st ups) s) = fst (transition_spec now sid r st ups (ks s))"
    "ks (snd (run exec (transition_setup fb now sid st ups) s)) = snd (transition_spec now sid r st ups (ks s))"
proof -
  let ?s = "snd (exec (GET (setup_key sid)) s)"
  let ?u = "replace_setup r st now ups"
  let ?c = "EVAL TRANSITION_LUA [setup_key sid] [AStr (sr_state r), AStr st, ADoc (setup_to_dict ?u), AInt (ttl_for now ?u)]"
  have at: "setup_at (ks ?s) sid r" using assms by simp
  have "fst (run exec (transition_setup fb now sid st ups) s) = fst (transition_spec now sid r st ups (ks s)) \<and>
    ks (snd (run exec (transition_setup fb now sid st ups) s)) = snd (transition_spec now sid r st ups (ks s))"
  proof (cases "st \<in> SETUP_STATES \<and> sr_state r \<noteq> st \<and> st \<in> allowed_from (sr_state r)")
    case True
    then have ne: "sr_state r \<noteq> st" by simp
    note ev = eval_transition[OF at refl ne, of "setup_to_dict ?u" "ttl_for now ?u"]
    have z: "zset_key (ks (snd (exec ?c ?s))) setup_expiry_index_key"
      using assms(2) by (simp add: ev)
    obtain s' where s': "run exec (pbind (sync_expiry_index ?u) (\<lambda>_. Done (?u, True))) (snd (exec ?c ?s)) = (Inr (?u, True), s')"
      "ks s' = index_put ?u (ks (snd (exec ?c ?s)))"
      using run_sync[OF z, of ?u "\<lambda>_. Done (?u, True)"] by auto
    show ?thesis
      using True assms s'
      by (simp add: transition_setup_def run_load_setup transition_eval_def rcall_def ev Let_def
          transition_spec_def store_setup_def)
  next
    case False
    then show ?thesis
      using assms by (auto simp: transition_setup_def run_load_setup transition_spec_def Let_def)
  qed
  then show "fst (run exec (transition_setup fb now sid st ups) s) = fst (transition_spec now sid r st ups (ks s))"
    "ks (snd (run exec (transition_setup fb now sid st ups) s)) = snd (transition_spec now sid r st ups (ks s))"
    by auto
qed


lemma run_transition_missing:
  assumes "ks s (setup_key sid) = None"
  shows "fst (run exec (transition_setup fb now sid st ups) s) =
      Inl (SetupLifecycleError
        (if st \<in> SETUP_STATES then ''unknown setup_id'' else ''unknown setup state''))"
    "ks (snd (run exec (transition_setup fb now sid st ups) s)) = ks s"
  using assms by (simp_all add: transition_setup_def run_load_missing)

lemma run_create:
  assumes "ks s (setup_key sid) = None" "zset_key (ks s) setup_expiry_index_key"
  shows "fst (run exec (create_setup now sid th sy ss tf ex ic) s) =
      Inr (new_setup now sid th sy ss tf ex ic, True)"
    "ks (snd (run exec (create_setup now sid th sy ss tf ex ic) s)) =
      store_setup now sid (new_setup now sid th sy ss tf ex ic) (ks s)"
proof -
  let ?r = "new_setup now sid th sy ss tf ex ic"
  have sid: "sr_setup_id ?r = sid" by (simp add: new_setup_def)
  obtain s' where "run exec (pbind (save_setup now ?r) (\<lambda>_. Done (?r, True)))
       (snd (exec (GET (setup_key sid)) s)) = (Inr (?r, True), s')"
    "ks s' = store_setup now sid ?r (ks s)"
    using run_save[of "snd (exec (GET (setup_key sid)) s)" now ?r "\<lambda>_. Done (?r, True)"] assms(2)
    by (auto simp: sid)
  then show "fst (run exec (create_setup now sid th sy ss tf ex ic) s) = Inr (?r, True)"
    "ks (snd (run exec (create_setup now sid th sy ss tf ex ic) s)) = store_setup now sid ?r (ks s)"
    using assms(1) by (simp_all add: create_setup_def run_load_missing Let_def)
qed

lemma run_create_existing:
  assumes "setup_at (ks s) sid r"
  shows "fst (run exec (create_setup now sid th sy ss tf ex ic) s) = Inr (r, False)"
    "ks (snd (run exec (create_setup now sid th sy ss tf ex ic) s)) = ks s"
  using assms by (simp_all add: create_setup_def run_load_setup)

lemma run_expire:
  assumes "setup_at (ks s) sid r" "zset_key (ks s) setup_expiry_index_key"
  shows "fst (run exec (expire_setup fb now sid) s) =
     (if sr_state r \<in> TERMINAL_STATES then Inr (Some r, ''already_terminal'')
      else if sr_state r \<in> PUBLICATION_WON_STATES then Inr (Some r, ''publication_won'')
      else if EXPIRED \<in> allowed_from (sr_state r)
      then Inr (Some (replace_setup r EXPIRED now []), ''transitioned'')
      else Inl (SetupLifecycleError ''illegal setup transition''))"
    "ks (snd (run exec (expire_setup fb now sid) s)) =
     (if sr_state r \<notin> TERMINAL_STATES \<union> PUBLICATION_WON_STATES \<and> EXPIRED \<in> allowed_from (sr_state r)
      then store_setup now sid (replace_setup r EXPIRED now []) (ks s) else ks s)"
proof -
  let ?s = "snd (exec (GET (setup_key sid)) s)"
  have "setup_at (ks ?s) sid r" "zset_key (ks ?s) setup_expiry_index_key" using assms by simp_all
  note tr = run_transition[OF this, of fb now EXPIRED "[]"]
  have ne: "sr_state r \<notin> TERMINAL_STATES \<Longrightarrow> sr_state r \<noteq> EXPIRED" by (auto simp: TERMINAL_STATES_def)
  have es: "EXPIRED \<in> SETUP_STATES" by (simp add: SETUP_STATES_def)
  obtain x t where xt: "run exec (transition_setup fb now sid EXPIRED []) ?s = (x, t)" by force
  have "run exec (expire_setup fb now sid) s = run exec
     (if sr_state r \<in> TERMINAL_STATES then Done (Some r, ''already_terminal'')
      else if sr_state r \<in> PUBLICATION_WON_STATES then Done (Some r, ''publication_won'')
      else pbind (transition_setup fb now sid EXPIRED []) (\<lambda>(updated, changed).
             Done (Some updated, if changed then ''transitioned'' else ''already_terminal''))) ?s"
    using assms(1) by (simp add: expire_setup_def run_load_setup)
  also have "\<dots> = (if sr_state r \<in> TERMINAL_STATES then (Inr (Some r, ''already_terminal''), ?s)
      else if sr_state r \<in> PUBLICATION_WON_STATES then (Inr (Some r, ''publication_won''), ?s)
      else (case x of Inl e \<Rightarrow> (Inl e, t) | Inr (u, ch) \<Rightarrow>
             (Inr (Some u, if ch then ''transitioned'' else ''already_terminal''), t)))"
    using xt by (auto simp: run_pbind split: sum.splits)
  finally have *: "run exec (expire_setup fb now sid) s = \<dots>" .
  show "fst (run exec (expire_setup fb now sid) s) =
     (if sr_state r \<in> TERMINAL_STATES then Inr (Some r, ''already_terminal'')
      else if sr_state r \<in> PUBLICATION_WON_STATES then Inr (Some r, ''publication_won'')
      else if EXPIRED \<in> allowed_from (sr_state r)
      then Inr (Some (replace_setup r EXPIRED now []), ''transitioned'')
      else Inl (SetupLifecycleError ''illegal setup transition''))"
    using * tr xt ne es by (auto simp: transition_spec_def Let_def)
  show "ks (snd (run exec (expire_setup fb now sid) s)) =
     (if sr_state r \<notin> TERMINAL_STATES \<union> PUBLICATION_WON_STATES \<and> EXPIRED \<in> allowed_from (sr_state r)
      then store_setup now sid (replace_setup r EXPIRED now []) (ks s) else ks s)"
    using * tr xt ne es by (auto simp: transition_spec_def Let_def)
qed

lemma run_expire_missing:
  assumes "ks s (setup_key sid) = None"
  shows "fst (run exec (expire_setup fb now sid) s) = Inr (None, ''missing'')"
    "ks (snd (run exec (expire_setup fb now sid) s)) = ks s"
  using assms by (simp_all add: expire_setup_def run_load_missing)

lemma run_rearm:
  assumes "setup_at (ks s) sid r" "zset_key (ks s) setup_expiry_index_key" "sr_setup_id r = sid"
    "cond \<noteq> []" "sr_state r \<in> {INVALIDATED, EXPIRED}"
  shows "fst (run exec (rearm_setup now sid cond) s) = Inr (rearmed now r)"
    "ks (snd (run exec (rearm_setup now sid cond) s)) = store_setup now sid (rearmed now r) (ks s)"
proof -
  have sid: "sr_setup_id (rearmed now r) = sid" using assms(3) by (simp add: rearmed_def)
  obtain s' where "run exec (pbind (save_setup now (rearmed now r)) (\<lambda>_. Done (rearmed now r)))
       (snd (exec (GET (setup_key sid)) s)) = (Inr (rearmed now r), s')"
    "ks s' = store_setup now sid (rearmed now r) (ks s)"
    using run_save[of "snd (exec (GET (setup_key sid)) s)" now "rearmed now r" "\<lambda>_. Done (rearmed now r)"]
      assms(2) by (auto simp: sid)
  then show "fst (run exec (rearm_setup now sid cond) s) = Inr (rearmed now r)"
    "ks (snd (run exec (rearm_setup now sid cond) s)) = store_setup now sid (rearmed now r) (ks s)"
    using assms by (auto simp: rearm_setup_def run_load_setup Let_def rearmed_def)
qed

lemma run_rearm_refused:
  assumes "setup_at (ks s) sid r" "cond = [] \<or> sr_state r \<notin> {INVALIDATED, EXPIRED}"
  shows "\<exists>e. fst (run exec (rearm_setup now sid cond) s) = Inl e"
    "ks (snd (run exec (rearm_setup now sid cond) s)) = ks s"
  using assms by (auto simp: rearm_setup_def run_load_setup)

lemma run_rearm_missing:
  assumes "ks s (setup_key sid) = None"
  shows "\<exists>e. fst (run exec (rearm_setup now sid cond) s) = Inl e"
    "ks (snd (run exec (rearm_setup now sid cond) s)) = ks s"
  using assms by (auto simp: rearm_setup_def run_load_missing)

end

subsection \<open>The store invariant\<close>

definition due :: "setup_record \<Rightarrow> int option" where
  "due r = (if sr_state r \<in> TERMINAL_STATES then None else sr_expires_at r)"

definition setup_store_ok :: "keyspace \<Rightarrow> bool" where
  "setup_store_ok K \<longleftrightarrow> zset_key K setup_expiry_index_key \<and>
     (\<forall>sid. K (setup_key sid) = None \<or>
        (\<exists>r. setup_at K sid r \<and> sr_setup_id r = sid \<and>
             map_of (k_zset K setup_expiry_index_key) sid = due r))"

lemma setup_to_dict_inject: "setup_to_dict a = setup_to_dict b \<Longrightarrow> a = b"
  by (metis setup_json_roundtrip sum.inject(2))

lemma store_setup_views:
  "setup_at (store_setup now sid r K) sid' r' \<longleftrightarrow> (if sid' = sid then r' = r else setup_at K sid' r')"
  "map_of (k_zset (store_setup now sid r K) setup_expiry_index_key) =
     (map_of (k_zset K setup_expiry_index_key))(sr_setup_id r := due r)"
  "k \<noteq> setup_expiry_index_key \<Longrightarrow> k \<noteq> setup_key sid \<Longrightarrow> store_setup now sid r K k = K k"
  "(store_setup now sid r K) (setup_key sid') = None \<longleftrightarrow> sid' \<noteq> sid \<and> K (setup_key sid') = None"
  "zset_key (store_setup now sid r K) setup_expiry_index_key"
proof -
  show "setup_at (store_setup now sid r K) sid' r' \<longleftrightarrow> (if sid' = sid then r' = r else setup_at K sid' r')"
    by (auto simp: setup_at_def store_setup_def index_put_def k_text_upd dest: setup_to_dict_inject)
  show "map_of (k_zset (store_setup now sid r K) setup_expiry_index_key) =
     (map_of (k_zset K setup_expiry_index_key))(sr_setup_id r := due r)"
    by (auto simp: store_setup_def index_put_def due_def k_zset_upd split: option.splits)
qed (auto simp: store_setup_def index_put_def)

lemma setup_store_ok_store:
  assumes "setup_store_ok K" "sr_setup_id r = sid"
  shows "setup_store_ok (store_setup now sid r K)"
  using assms store_setup_views(5)[of now sid r K]
  unfolding setup_store_ok_def store_setup_views(1,2,4) by (auto 0 4)

lemma setup_store_cases:
  assumes "setup_store_ok K"
  obtains "K (setup_key sid) = None"
  | r where "setup_at K sid r" "sr_setup_id r = sid" "map_of (k_zset K setup_expiry_index_key) sid = due r"
proof -
  from assms have "K (setup_key sid) = None \<or> (\<exists>r. setup_at K sid r \<and> sr_setup_id r = sid \<and>
      map_of (k_zset K setup_expiry_index_key) sid = due r)"
    by (simp add: setup_store_ok_def)
  then show thesis using that by auto
qed

lemma setup_at_inject: "setup_at K sid a \<Longrightarrow> setup_at K sid b \<Longrightarrow> a = b"
  by (auto simp: setup_at_def dest: setup_to_dict_inject)

lemma setup_store_okD:
  assumes "setup_store_ok K" "setup_at K sid r"
  shows "zset_key K setup_expiry_index_key" "sr_setup_id r = sid"
    "map_of (k_zset K setup_expiry_index_key) sid = due r"
proof -
  show "zset_key K setup_expiry_index_key" using assms(1) by (simp add: setup_store_ok_def)
  have "K (setup_key sid) \<noteq> None" using assms(2) by (auto simp: setup_at_def k_text_def split: option.splits)
  with assms show "sr_setup_id r = sid" "map_of (k_zset K setup_expiry_index_key) sid = due r"
    by (auto elim!: setup_store_cases[of K sid] dest: setup_at_inject)
qed

context redis
begin

lemma transition_store_ok:
  assumes "setup_store_ok (ks s)"
  shows "setup_store_ok (ks (snd (run exec (transition_setup fb now sid st ups) s)))"
  using assms
proof (cases rule: setup_store_cases[of _ sid])
  case 1
  with assms show ?thesis by (simp add: run_transition_missing)
next
  case (2 r)
  have "zset_key (ks s) setup_expiry_index_key" using assms by (simp add: setup_store_ok_def)
  with 2 assms show ?thesis
    by (simp add: run_transition transition_spec_def Let_def setup_store_ok_store)
qed

lemma expire_store_ok:
  assumes "setup_store_ok (ks s)"
  shows "setup_store_ok (ks (snd (run exec (expire_setup fb now sid) s)))"
  using assms
proof (cases rule: setup_store_cases[of _ sid])
  case 1
  with assms show ?thesis by (simp add: run_expire_missing)
next
  case (2 r)
  have "zset_key (ks s) setup_expiry_index_key" using assms by (simp add: setup_store_ok_def)
  with 2 assms show ?thesis by (simp add: run_expire setup_store_ok_store)
qed

lemma create_store_ok:
  assumes "setup_store_ok (ks s)"
  shows "setup_store_ok (ks (snd (run exec (create_setup now sid th sy ss tf ex ic) s)))"
  using assms
proof (cases rule: setup_store_cases[of _ sid])
  case 1
  moreover have "zset_key (ks s) setup_expiry_index_key" using assms by (simp add: setup_store_ok_def)
  moreover have "sr_setup_id (new_setup now sid th sy ss tf ex ic) = sid" by (simp add: new_setup_def)
  ultimately show ?thesis using assms by (simp add: run_create setup_store_ok_store)
next
  case (2 r)
  with assms show ?thesis by (simp add: run_create_existing)
qed

lemma rearm_store_ok:
  assumes "setup_store_ok (ks s)"
  shows "setup_store_ok (ks (snd (run exec (rearm_setup now sid cond) s)))"
  using assms
proof (cases rule: setup_store_cases[of _ sid])
  case 1
  with assms show ?thesis by (simp add: run_rearm_missing)
next
  case (2 r)
  have z: "zset_key (ks s) setup_expiry_index_key" using assms by (simp add: setup_store_ok_def)
  show ?thesis
  proof (cases "cond = [] \<or> sr_state r \<notin> {INVALIDATED, EXPIRED}")
    case True
    with run_rearm_refused[OF 2(1)] assms show ?thesis by simp
  next
    case False
    then have "cond \<noteq> []" "sr_state r \<in> {INVALIDATED, EXPIRED}" by auto
    from run_rearm(2)[OF 2(1) z 2(2) this] assms 2(2) show ?thesis
      by (simp add: setup_store_ok_store rearmed_def)
  qed
qed

end


subsection \<open>Theses\<close>

context redis
begin

lemma run_claim_free:
  assumes "ks s (active_thesis_key sy th) = None"
  shows "fst (run exec (claim_active_thesis sy th sid ttl) s) = Inr True"
    "ks (snd (run exec (claim_active_thesis sy th sid ttl) s)) =
       (ks s)(active_thesis_key sy th \<mapsto> VStr (Txt sid) (Some ttl))"
  using assms by (simp_all add: claim_active_thesis_def redis_run redis_eff Let_def)

lemma run_claim_held:
  assumes "ks s (active_thesis_key sy th) = Some (VStr (Txt owner) e)"
  shows "fst (run exec (claim_active_thesis sy th sid ttl) s) = Inr (sid = owner)"
    "ks (snd (run exec (claim_active_thesis sy th sid ttl) s)) = ks s"
proof -
  have "str_key (ks s) (active_thesis_key sy th)" using assms by (simp add: str_key_def)
  with assms show "fst (run exec (claim_active_thesis sy th sid ttl) s) = Inr (sid = owner)"
    "ks (snd (run exec (claim_active_thesis sy th sid ttl) s)) = ks s"
    by (auto simp: claim_active_thesis_def redis_run redis_eff Let_def k_text_def)
qed

lemma run_release:
  assumes "ks s (active_thesis_key sy th) = Some (VStr (Txt owner) e)"
  shows "fst (run exec (pbind (release_active_thesis sy th sid) (\<lambda>_. Done ())) s) = Inr ()"
    "ks (snd (run exec (pbind (release_active_thesis sy th sid) (\<lambda>_. Done ())) s)) =
       (if sid = owner then (ks s)(active_thesis_key sy th := None) else ks s)"
proof -
  have "str_key (ks s) (active_thesis_key sy th)" using assms by (simp add: str_key_def)
  with assms show "fst (run exec (pbind (release_active_thesis sy th sid) (\<lambda>_. Done ())) s) = Inr ()"
    "ks (snd (run exec (pbind (release_active_thesis sy th sid) (\<lambda>_. Done ())) s)) =
       (if sid = owner then (ks s)(active_thesis_key sy th := None) else ks s)"
    by (auto simp: release_active_thesis_def redis_run redis_eff Let_def k_text_def)
qed

end

subsection \<open>Interleaved coroutines\<close>

definition stored_state :: "keyspace \<Rightarrow> string \<Rightarrow> string option" where
  "stored_state K sid =
     (case k_text K (setup_key sid) of
        Some (Doc (JObj kv)) \<Rightarrow> Some (lua_field_str kv ''state'') | _ \<Rightarrow> None)"

datatype setup_task =
    T_transition int string string "setup_field list"
  | T_expire int string
  | T_claim string string string int
  | T_release string string string

fun task_prog :: "setup_task \<Rightarrow> unit prog" where
  "task_prog (T_transition now sid st ups) = pbind (transition_setup False now sid st ups) (\<lambda>_. Done ())"
| "task_prog (T_expire now sid) = pbind (expire_setup False now sid) (\<lambda>_. Done ())"
| "task_prog (T_claim sy th sid ttl) = pbind (claim_active_thesis sy th sid ttl) (\<lambda>_. Done ())"
| "task_prog (T_release sy th sid) = release_active_thesis sy th sid"

text \<open>The writes these coroutines can issue on a setup record or a thesis claim.\<close>

fun setup_safe_cmd :: "redis_cmd \<Rightarrow> bool" where
  "setup_safe_cmd (GET k) = True"
| "setup_safe_cmd (ZADD k m sc) = (k = setup_expiry_index_key)"
| "setup_safe_cmd (ZREM k m) = (k = setup_expiry_index_key)"
| "setup_safe_cmd (SET k t e nx) = (\<exists>sy th. k = active_thesis_key sy th)"
| "setup_safe_cmd (DEL k) = (\<exists>sy th. k = active_thesis_key sy th)"
| "setup_safe_cmd (EVAL s keys args) =
     (\<exists>sid src r ttl. s = TRANSITION_LUA \<and> keys = [setup_key sid] \<and>
        args = [AStr src, AStr (sr_state r), ADoc (setup_to_dict r), AInt ttl] \<and>
        sr_state r \<in> allowed_from src)"
| "setup_safe_cmd _ = False"

lemma all_calls_load_setup: "all_calls setup_safe_cmd (load_setup now sid)"
  unfolding load_setup_def
  by (intro all_calls_pbind all_calls_rget) (auto split: option.splits)

lemma all_calls_sync: "all_calls setup_safe_cmd (sync_expiry_index r)"
  by (auto simp: sync_expiry_index_def intro!: all_calls_run_cmd split: option.splits)

lemma all_calls_transition_eval:
  assumes "sr_state u = st" "st \<in> allowed_from (sr_state r)"
  shows "all_calls setup_safe_cmd (transition_eval False now sid st r u)"
proof -
  have "setup_safe_cmd (EVAL TRANSITION_LUA [setup_key sid]
      [AStr (sr_state r), AStr st, ADoc (setup_to_dict u), AInt (ttl_for now u)])"
    using assms by auto
  then show ?thesis
    unfolding transition_eval_def
    by (intro all_calls_pcatch all_calls_pbind) (auto split: redis_reply.splits list.splits)
qed

lemma all_calls_transition: "all_calls setup_safe_cmd (transition_setup False now sid st ups)"
  unfolding transition_setup_def Let_def
  by (auto intro!: all_calls_pbind all_calls_load_setup all_calls_sync all_calls_transition_eval
      split: option.splits sum.splits)

lemma all_calls_expire: "all_calls setup_safe_cmd (expire_setup False now sid)"
  unfolding expire_setup_def
  by (auto intro!: all_calls_pbind all_calls_load_setup all_calls_transition split: option.splits)

lemma all_calls_task: "all_calls setup_safe_cmd (task_prog t)"
proof (cases t)
  case (T_claim sy th sid ttl)
  then show ?thesis
    by (auto simp: claim_active_thesis_def Let_def intro!: all_calls_pbind all_calls_basic exI)
next
  case (T_release sy th sid)
  then show ?thesis
    by (auto simp: release_active_thesis_def Let_def intro!: all_calls_pbind all_calls_basic exI)
qed (auto intro!: all_calls_pbind all_calls_transition all_calls_expire)

definition state_step :: "keyspace \<Rightarrow> keyspace \<Rightarrow> string \<Rightarrow> bool" where
  "state_step K K' sid \<longleftrightarrow>
     stored_state K' sid = stored_state K sid \<or> stored_state K' sid = None \<or>
     (\<exists>a b. stored_state K sid = Some a \<and> stored_state K' sid = Some b \<and> b \<in> allowed_from a)"

lemma stored_state_other:
  "K' (setup_key sid) = K (setup_key sid) \<Longrightarrow> stored_state K' sid = stored_state K sid"
  by (simp add: stored_state_def k_text_def)

lemma setup_key_not_index: "setup_key sid \<noteq> setup_expiry_index_key" by simp

lemma stored_state_doc [simp]:
  "stored_state (K(setup_key sid \<mapsto> VStr (Doc (setup_to_dict r)) e)) sid = Some (sr_state r)"
  by (simp add: stored_state_def k_text_def setup_to_dict_def lua_field_str_def)

lemma stored_state_at: "setup_at K sid r \<Longrightarrow> stored_state K sid = Some (sr_state r)"
  by (simp add: setup_at_def stored_state_def setup_to_dict_def lua_field_str_def)

lemma stored_state_obj:
  "K (setup_key sid) = Some (VStr (Doc (JObj kv)) e) \<Longrightarrow>
   stored_state K sid = Some (lua_field_str kv ''state'')"
  by (simp add: stored_state_def k_text_def)

lemma allowed_from_nonempty: "b \<in> allowed_from a \<Longrightarrow> a \<noteq> []"
  by (auto simp: allowed_from_def state_sets split: if_splits)

lemma lua_transition_other:
  "k \<noteq> key \<Longrightarrow> snd (lua_transition key src tgt p ttl K) k = K k"
  by (simp add: lua_transition_def Let_def split: option.split rvalue.split rtext.split json.split)

lemma lua_transition_non_object:
  assumes "\<And>kv e. K key \<noteq> Some (VStr (Doc (JObj kv)) e)" "src \<noteq> []"
  shows "snd (lua_transition key src tgt p ttl K) = K"
  using assms(1)
  by (simp add: lua_transition_def assms(2) split: option.split rvalue.split rtext.split json.split)

lemma lua_transition_state_step:
  assumes "sr_state r \<in> allowed_from src"
  shows "state_step K (snd (lua_transition (setup_key sid') src (sr_state r) (setup_to_dict r) ttl K)) sid"
proof (cases "sid' = sid")
  case False
  then have "stored_state (snd (lua_transition (setup_key sid') src (sr_state r) (setup_to_dict r) ttl K)) sid =
      stored_state K sid"
    by (intro stored_state_other lua_transition_other) simp
  then show ?thesis by (simp add: state_step_def)
next
  case True
  show ?thesis
  proof (cases "\<exists>kv e. K (setup_key sid) = Some (VStr (Doc (JObj kv)) e)")
    case True
    then obtain kv e where "K (setup_key sid) = Some (VStr (Doc (JObj kv)) e)" by blast
    with assms \<open>sid' = sid\<close> show ?thesis
      by (simp add: lua_transition_def Let_def state_step_def stored_state_obj)
  next
    case False
    with allowed_from_nonempty[OF assms] \<open>sid' = sid\<close> show ?thesis
      by (simp add: lua_transition_non_object state_step_def)
  qed
qed

lemma safe_cmd_state_step: "setup_safe_cmd c \<Longrightarrow> state_step K (keff c K) sid"
proof (induction c rule: setup_safe_cmd.induct)
  case (6 s keys args)
  then show ?case using lua_transition_state_step by (auto simp: keff_def lua_eval_def)
qed (auto simp: state_step_def keff_def intro!: stored_state_other split: option.splits rvalue.splits)

lemma expiry_state_step: "state_step K (K(key := None)) sid"
  by (auto simp: state_step_def stored_state_def k_text_def)

lemma state_step_refl: "state_step K K sid"
  by (simp add: state_step_def)

context redis_any
begin

lemma interleaved_state_step:
  assumes "isteps exec ks (s, map task_prog ts) (s1, ps1)" "istep exec ks (s1, ps1) (s2, ps2)"
  shows "state_step (ks s1) (ks s2) sid"
proof -
  have "\<forall>p\<in>set (map task_prog ts). all_calls setup_safe_cmd p" using all_calls_task by auto
  from isteps_invariant[OF assms(1) this, of "\<lambda>_. True"]
  have "\<forall>p\<in>set ps1. all_calls setup_safe_cmd p" by simp
  then show ?thesis
    by (rule istep_action[OF assms(2), where R = "\<lambda>K K'. state_step K K' sid"])
       (auto intro: safe_cmd_state_step expiry_state_step simp: state_step_refl)
qed

end

section \<open>Properties\<close>

text \<open>A store holding one setup, for concrete instances.\<close>

definition demo_setup :: setup_record where
  "demo_setup = new_setup 100 ''s1'' ''t1'' ''XAUUSD'' None None (Some 900) None"

definition demo_store :: keyspace where
  "demo_store = store_setup 100 ''s1'' demo_setup Map.empty"

lemma demo_store_simps [simp]:
  "setup_at demo_store ''s1'' demo_setup" "zset_key demo_store setup_expiry_index_key"
  "sr_setup_id demo_setup = ''s1''" "sr_state demo_setup = DISCOVERED"
  by (simp_all add: demo_store_def demo_setup_def new_setup_def store_setup_views)

lemma discovered_not_watching: "DISCOVERED \<noteq> WATCHING"
  by (simp add: state_sets)

lemma demo_due [simp]: "due demo_setup = Some 900"
  by (simp add: due_def demo_setup_def new_setup_def state_sets)

lemma empty_store_ok: "setup_store_ok Map.empty"
  by (simp add: setup_store_ok_def zset_key_def)

lemma demo_store_ok: "setup_store_ok demo_store"
  unfolding demo_store_def by (rule setup_store_ok_store[OF empty_store_ok]) simp

text \<open>Along the transition graph a terminal setup never moves again, and a setup whose plan
  build has begun only moves among the publication states, CANCELLED, EXPIRED and CONSUMED: it
  never falls back to an analysis-only state, CONFIRMED or INVALIDATED.\<close>

theorem setup_graph_sound:
  assumes "setup_path a b"
  shows "(a \<in> TERMINAL_STATES \<longrightarrow> b = a) \<and>
     (a \<in> PUBLICATION_WON_STATES \<longrightarrow>
        b \<in> PUBLICATION_WON_STATES \<union> {CANCELLED, EXPIRED, CONSUMED} \<and>
        b \<notin> ANALYSIS_ONLY_STATES \<union> {CONFIRMED, INVALIDATED})"
proof -
  have "b \<in> PUBLICATION_WON_STATES \<union> {CANCELLED, EXPIRED, CONSUMED}" if "a \<in> PUBLICATION_WON_STATES"
    by (rule setup_path_closed[OF assms]) (use that published_closed in auto)
  moreover have "(PUBLICATION_WON_STATES \<union> {CANCELLED, EXPIRED, CONSUMED}) \<inter>
      (ANALYSIS_ONLY_STATES \<union> {CONFIRMED, INVALIDATED}) = {}"
    by (simp add: state_sets)
  ultimately show ?thesis using terminal_closed[OF _ assms] by blast
qed

lemma setup_graph_sound_witness:
  "ARMED \<notin> ANALYSIS_ONLY_STATES \<union> {CONFIRMED, INVALIDATED}"
proof -
  have "setup_path PLAN_PUBLISHED ARMED"
    unfolding setup_path_def by (rule r_into_rtranclp) (simp add: allowed_from_simps)
  from setup_graph_sound[OF this] show ?thesis by (simp add: PUBLICATION_WON_STATES_def)
qed

text \<open>Reading back the JSON document written for a setup gives the same record, whatever
  the clock says.\<close>

theorem setup_roundtrip: "setup_from_dict now (setup_to_dict r) = Inr r"
  by (rule setup_json_roundtrip)

text \<open>A stored setup outlives its business expiry: its time-to-live is at least a day, and
  a setup that is not terminal survives its \<open>expires_at\<close> by at least the audit retention, so
  the sweeper always finds the record of a due setup.\<close>

theorem setup_ttl_outlives_expiry:
  "86400 \<le> ttl_for now r \<and>
   (\<forall>e. due r = Some e \<longrightarrow> e + SETUP_AUDIT_RETENTION_SECONDS \<le> now + ttl_for now r)"
  by (auto simp: ttl_for_def due_def SETUP_AUDIT_RETENTION_SECONDS_def max_def
      TERMINAL_SETUP_RETENTION_SECONDS_def split: option.split)

lemma setup_ttl_outlives_expiry_witness:
  "900 + 86400 \<le> 100 + ttl_for 100 demo_setup"
  using setup_ttl_outlives_expiry[of 100 demo_setup]
  by (simp add: SETUP_AUDIT_RETENTION_SECONDS_def)

text \<open>C2. Run alone, \<open>transition_setup\<close> does exactly what its specification says on every
  branch: unknown state and illegal edge raise and change nothing, a setup already at the target
  is returned unchanged, and a legal edge stores the updated record and its index entry. The
  load, the script and the index update together implement one atomic step.\<close>

theorem transition_refines_spec:
  assumes "redis exec ks" "setup_at (ks s) sid r" "zset_key (ks s) setup_expiry_index_key"
  shows "(fst (run exec (transition_setup fb now sid st ups) s),
          ks (snd (run exec (transition_setup fb now sid st ups) s))) =
         transition_spec now sid r st ups (ks s)"
  using redis.run_transition[OF assms] by (simp add: prod_eq_iff)

lemma transition_refines_spec_witness:
  "fst (run mem_exec (transition_setup False 200 ''s1'' WATCHING []) demo_store) =
     Inr (replace_setup demo_setup WATCHING 200 [], True)"
  using transition_refines_spec[OF mem.redis_axioms, of demo_store "''s1''" demo_setup False 200 WATCHING "[]"]
  by (simp add: transition_spec_def Let_def prod_eq_iff SETUP_STATES_def allowed_from_simps
      discovered_not_watching)

text \<open>The operations of the module as one type, and a sequence of them, failures included.\<close>

datatype setup_op =
    Op_create int string string string "string option" "string option" "int option" "string option"
  | Op_transition int string string "setup_field list"
  | Op_expire int string
  | Op_rearm int string string

fun op_prog :: "bool \<Rightarrow> setup_op \<Rightarrow> unit prog" where
  "op_prog fb (Op_create now sid th sy ss tf ex ic) =
     pbind (create_setup now sid th sy ss tf ex ic) (\<lambda>_. Done ())"
| "op_prog fb (Op_transition now sid st ups) =
     pbind (transition_setup fb now sid st ups) (\<lambda>_. Done ())"
| "op_prog fb (Op_expire now sid) = pbind (expire_setup fb now sid) (\<lambda>_. Done ())"
| "op_prog fb (Op_rearm now sid cond) = pbind (rearm_setup now sid cond) (\<lambda>_. Done ())"

text \<open>C8. In every store reached by operations run one after the other, the expiry index agrees
  with the records: a setup has an entry exactly when it is active and has an expiry, and the
  entry is that expiry.\<close>

theorem setup_store_invariant:
  assumes "redis exec ks" "setup_store_ok (ks s)"
  shows "setup_store_ok (ks (foldl (\<lambda>s opn. snd (run exec (op_prog fb opn) s)) s ops))"
  using assms(2)
proof (induction ops arbitrary: s)
  case (Cons opn ops)
  have "setup_store_ok (ks (snd (run exec (op_prog fb opn) s)))"
    using Cons.prems
    by (cases opn) (simp_all add: run_to_unit redis.transition_store_ok[OF assms(1)]
        redis.expire_store_ok[OF assms(1)] redis.create_store_ok[OF assms(1)]
        redis.rearm_store_ok[OF assms(1)])
  from Cons.IH[OF this] show ?case by simp
qed simp

lemma setup_store_invariant_witness:
  "setup_store_ok (foldl (\<lambda>s opn. snd (run mem_exec (op_prog False opn) s)) Map.empty
     [Op_create 1 ''s1'' ''t'' ''XAUUSD'' None None (Some 9) None, Op_expire 10 ''s1''])"
  using setup_store_invariant[where ks = "\<lambda>K. K", OF mem.redis_axioms empty_store_ok] .

text \<open>\<open>expire_setup\<close> terminates, and its answer and effect follow the stored state: a missing
  or terminal setup and one whose publication has begun are left alone with the outcome that
  says so, a setup in any other state of the graph becomes EXPIRED and leaves the expiry index.
  The publication race is decided in favour of publication.\<close>

theorem expire_outcomes:
  assumes "redis exec ks" "setup_at (ks s) sid r" "zset_key (ks s) setup_expiry_index_key"
    "sr_state r \<in> SETUP_STATES \<union> LEGACY_PRE_PLAN_STATES"
  shows "fst (run exec (expire_setup fb now sid) s) =
      Inr (if sr_state r \<in> TERMINAL_STATES then (Some r, ''already_terminal'')
           else if sr_state r \<in> PUBLICATION_WON_STATES then (Some r, ''publication_won'')
           else (Some (replace_setup r EXPIRED now []), ''transitioned'')) \<and>
     ks (snd (run exec (expire_setup fb now sid) s)) =
       (if sr_state r \<in> TERMINAL_STATES \<union> PUBLICATION_WON_STATES then ks s
        else store_setup now sid (replace_setup r EXPIRED now []) (ks s))"
proof -
  have "EXPIRED \<in> allowed_from (sr_state r)"
    if "sr_state r \<notin> TERMINAL_STATES \<union> PUBLICATION_WON_STATES"
    using assms(4) that by (auto simp: allowed_from_eval SETUP_STATES_def TERMINAL_STATES_def
        PUBLICATION_WON_STATES_def)
  then show ?thesis
    using redis.run_expire[OF assms(1,2,3), of fb now] by (auto simp: prod_eq_iff)
qed

lemma expire_outcomes_witness:
  "fst (run mem_exec (expire_setup False 1000 ''s1'') demo_store) =
     Inr (Some (replace_setup demo_setup EXPIRED 1000 []), ''transitioned'')"
proof -
  have st: "sr_state demo_setup \<in> SETUP_STATES \<union> LEGACY_PRE_PLAN_STATES"
    "sr_state demo_setup \<notin> TERMINAL_STATES \<union> PUBLICATION_WON_STATES"
    unfolding demo_store_simps by (simp_all add: state_sets)
  from expire_outcomes[where ks = "\<lambda>K. K", OF mem.redis_axioms demo_store_simps(1,2) st(1)] st(2)
  show ?thesis by simp
qed

text \<open>\<open>rearm_setup\<close> is the only way out of INVALIDATED or EXPIRED and nothing else: with a
  condition given it takes such a setup back to DISCOVERED without an expiry; without a
  condition, or from any other state, it raises and changes nothing.\<close>

theorem rearm_gate:
  assumes "redis exec ks" "setup_store_ok (ks s)" "setup_at (ks s) sid r"
  shows "(if cond \<noteq> [] \<and> sr_state r \<in> {INVALIDATED, EXPIRED}
          then fst (run exec (rearm_setup now sid cond) s) = Inr (rearmed now r) \<and>
               setup_at (ks (snd (run exec (rearm_setup now sid cond) s))) sid (rearmed now r)
          else (\<exists>e. fst (run exec (rearm_setup now sid cond) s) = Inl e) \<and>
               ks (snd (run exec (rearm_setup now sid cond) s)) = ks s)"
proof (cases "cond \<noteq> [] \<and> sr_state r \<in> {INVALIDATED, EXPIRED}")
  case True
  have z: "zset_key (ks s) setup_expiry_index_key" "sr_setup_id r = sid"
    using setup_store_okD[OF assms(2,3)] by simp_all
  with True redis.run_rearm[OF assms(1,3) z] show ?thesis by (simp add: store_setup_views)
next
  case False
  with redis.run_rearm_refused[OF assms(1,3), of cond now] show ?thesis by auto
qed

lemma rearm_gate_witness:
  "\<exists>e. fst (run mem_exec (rearm_setup 1000 ''s1'' ''price back'') demo_store) = Inl e"
proof -
  have "sr_state demo_setup \<notin> {INVALIDATED, EXPIRED}"
    unfolding demo_store_simps by (simp add: state_sets)
  with rearm_gate[OF mem.redis_axioms, of demo_store "''s1''" demo_setup "''price back''" 1000]
  show ?thesis by (simp add: demo_store_ok)
qed

text \<open>C1. Whatever the interleaving of any number of transitions, expiries and thesis claims, with
  lost requests and keys expiring in between, every single step leaves the stored state of every
  setup alone, forgets it, or moves it along one edge of the transition graph.\<close>

theorem interleaving_follows_graph:
  assumes "redis_any exec ks" "isteps exec ks (s, map task_prog ts) (s1, ps1)"
    "istep exec ks (s1, ps1) (s2, ps2)"
    "stored_state (ks s1) sid = Some a" "stored_state (ks s2) sid = Some b" "a \<noteq> b"
  shows "b \<in> allowed_from a"
  using redis_any.interleaved_state_step[OF assms(1-3), of sid] assms(4-6)
  by (simp add: state_step_def)

definition race_tasks :: "setup_task list" where
  "race_tasks = [T_expire 1000 ''s1'', T_transition 1000 ''s1'' WATCHING []]"

lemma interleaving_follows_graph_witness:
  "\<exists>s1 ps1 s2 ps2. isteps mem_exec (\<lambda>K. K) (demo_store, map task_prog race_tasks) (s1, ps1) \<and>
     istep mem_exec (\<lambda>K. K) (s1, ps1) (s2, ps2) \<and>
     stored_state s1 ''s1'' = Some DISCOVERED \<and> stored_state s2 ''s1'' = Some EXPIRED \<and>
     EXPIRED \<in> allowed_from DISCOVERED"
proof -
  have "map_option (\<lambda>c. (stored_state (fst c) ''s1'',
        map_option (\<lambda>c'. stored_state (fst c') ''s1'') (sched mem_exec [0] c)))
      (sched mem_exec [0, 1, 0] (demo_store, map task_prog race_tasks)) =
      Some (Some DISCOVERED, Some (Some EXPIRED))"
    by code_simp
  then obtain c1 c2 where c: "sched mem_exec [0, 1, 0] (demo_store, map task_prog race_tasks) = Some c1"
    "sched mem_exec [0] c1 = Some c2" "stored_state (fst c1) ''s1'' = Some DISCOVERED"
    "stored_state (fst c2) ''s1'' = Some EXPIRED"
    by (elim sched_views)
  obtain s1 ps1 s2 ps2 where p: "c1 = (s1, ps1)" "c2 = (s2, ps2)" by (meson surj_pair)
  have st: "isteps mem_exec (\<lambda>K. K) (demo_store, map task_prog race_tasks) (s1, ps1)"
    "istep mem_exec (\<lambda>K. K) (s1, ps1) (s2, ps2)"
    using sched_isteps[OF c(1), of "\<lambda>K. K"] sched_istep[OF c(2), of "\<lambda>K. K"] by (simp_all add: p)
  have "DISCOVERED \<noteq> EXPIRED" by (simp add: state_sets)
  from interleaving_follows_graph[OF mem.redis_any_axioms st, of "''s1''"] this c st
  show ?thesis by (auto simp: p)
qed

text \<open>C40. Two tasks creating the same setup are not serialised: \<open>create_setup\<close> reads, then writes
  unconditionally. Whatever the two are asked to create: let one creation of a setup that is not stored make its read and
  nothing else; let a second creation then run to its end, and an invalidation after it, so that the setup is stored as
  INVALIDATED. When the first creation goes on it still writes on the strength of its old read: it returns its own record
  as newly created, and that record is what is stored, in state DISCOVERED, which is no edge of the graph. No key expires
  and no request is lost.\<close>

theorem create_race_resurrects:
  assumes "redis exec ks" "ks s (setup_key sid) = None" "zset_key (ks s) setup_expiry_index_key"
    "late = new_setup now1 sid th1 sy1 src1 tf1 ex1 inv1" "rival = new_setup now2 sid th2 sy2 src2 tf2 ex2 inv2"
  shows "\<exists>s1 s2 s3 s4 rest.
     sched exec [0] (s, [create_setup now1 sid th1 sy1 src1 tf1 ex1 inv1]) = Some (s1, [rest]) \<and>
     run exec (create_setup now2 sid th2 sy2 src2 tf2 ex2 inv2) s1 = (Inr (rival, True), s2) \<and>
     run exec (transition_setup fb now3 sid INVALIDATED []) s2 = (Inr (replace_setup rival INVALIDATED now3 [], True), s3) \<and>
     stored_state (ks s3) sid = Some INVALIDATED \<and>
     run exec rest s3 = (Inr (late, True), s4) \<and>
     setup_at (ks s4) sid late \<and> stored_state (ks s4) sid = Some DISCOVERED \<and> DISCOVERED \<notin> allowed_from INVALIDATED"
proof -
  note r = redis.run_create[OF assms(1)] redis.run_save[OF assms(1)] redis.reply_det[OF assms(1)] redis.ks_read[OF assms(1)]
  define rest where "rest = pbind (save_setup now1 late) (\<lambda>_. Done (late, True))"
  define s1 where "s1 = snd (exec (GET (setup_key sid)) s)"
  have ids: "sr_setup_id late = sid" "sr_setup_id rival = sid" "sr_state late = DISCOVERED" "sr_state rival = DISCOVERED"
    by (simp_all add: assms(4,5) new_setup_def)
  have "fst (exec (GET (setup_key sid)) s) = RNil" by (rule r(4)) (use assms(2) in simp_all)
  then have read: "sched exec [0] (s, [create_setup now1 sid th1 sy1 src1 tf1 ex1 inv1]) = Some (s1, [rest])"
    by (simp add: create_setup_def load_setup_def rget_def rcall_def s1_def rest_def assms(4) Let_def)
  have k1: "ks s1 = ks s" by (simp add: s1_def r(5))
  then have n1: "ks s1 (setup_key sid) = None" "zset_key (ks s1) setup_expiry_index_key" using assms(2,3) by simp_all
  define s2 where "s2 = snd (run exec (create_setup now2 sid th2 sy2 src2 tf2 ex2 inv2) s1)"
  have c: "run exec (create_setup now2 sid th2 sy2 src2 tf2 ex2 inv2) s1 = (Inr (rival, True), s2)"
    "ks s2 = store_setup now2 sid rival (ks s)"
    using r(1)[OF n1] r(2)[OF n1] by (simp_all add: prod_eq_iff s2_def assms(5) k1)
  have at2: "setup_at (ks s2) sid rival" "zset_key (ks s2) setup_expiry_index_key" by (simp_all add: c(2) store_setup_views)
  define dead where "dead = replace_setup rival INVALIDATED now3 []"
  define s3 where "s3 = snd (run exec (transition_setup fb now3 sid INVALIDATED []) s2)"
  have step: "INVALIDATED \<in> SETUP_STATES" "INVALIDATED \<in> allowed_from DISCOVERED" "INVALIDATED \<noteq> DISCOVERED"
    "DISCOVERED \<notin> allowed_from INVALIDATED"
    by (simp_all add: allowed_from_eval SETUP_STATES_def) (simp_all add: state_sets)
  have t: "run exec (transition_setup fb now3 sid INVALIDATED []) s2 = (Inr (dead, True), s3)"
    "ks s3 = store_setup now3 sid dead (ks s2)"
    using redis.run_transition[OF assms(1) at2, of fb now3 INVALIDATED "[]"] step(3)[THEN not_sym]
    by (simp_all add: transition_spec_def ids(4) step dead_def s3_def Let_def prod_eq_iff)
  have at3: "setup_at (ks s3) sid dead" "zset_key (ks s3) setup_expiry_index_key" by (simp_all add: t(2) store_setup_views)
  obtain s4 where w: "run exec rest s3 = (Inr (late, True), s4)" "ks s4 = store_setup now1 sid late (ks s3)"
    using r(3)[OF at3(2), of now1 late "\<lambda>_. Done (late, True)"] by (auto simp: rest_def ids(1))
  have at4: "setup_at (ks s4) sid late" by (simp add: w(2) store_setup_views)
  have "sr_state dead = INVALIDATED" by (simp add: dead_def)
  then have "stored_state (ks s3) sid = Some INVALIDATED" "stored_state (ks s4) sid = Some DISCOVERED"
    using stored_state_at[OF at3(1)] stored_state_at[OF at4] ids(3) by simp_all
  with read c(1) t(1) w(1) at4 step(4) show ?thesis unfolding dead_def by blast
qed

lemma create_race_resurrects_witness:
  "\<exists>K1 K2 K3 K4 rest.
     sched mem_exec [0] (Map.empty, [create_setup 1 ''s1'' ''t'' ''XAUUSD'' None None None None]) = Some (K1, [rest]) \<and>
     run mem_exec (create_setup 2 ''s1'' ''t'' ''XAUUSD'' None None None None) K1 =
       (Inr (new_setup 2 ''s1'' ''t'' ''XAUUSD'' None None None None, True), K2) \<and>
     run mem_exec (transition_setup False 3 ''s1'' INVALIDATED []) K2 =
       (Inr (replace_setup (new_setup 2 ''s1'' ''t'' ''XAUUSD'' None None None None) INVALIDATED 3 [], True), K3) \<and>
     run mem_exec rest K3 = (Inr (new_setup 1 ''s1'' ''t'' ''XAUUSD'' None None None None, True), K4) \<and>
     stored_state K3 ''s1'' = Some INVALIDATED \<and> stored_state K4 ''s1'' = Some DISCOVERED"
proof -
  have z: "zset_key Map.empty setup_expiry_index_key" "Map.empty (setup_key ''s1'') = (None :: rvalue option)"
    by (simp_all add: zset_key_def)
  from create_race_resurrects[where ks = "\<lambda>K. K" and fb = False and ?now1.0 = 1 and ?now2.0 = 2 and ?now3.0 = 3
      and ?th1.0 = "''t''" and ?th2.0 = "''t''" and ?sy1.0 = "''XAUUSD''" and ?sy2.0 = "''XAUUSD''" and ?src1.0 = None
      and ?src2.0 = None and ?tf1.0 = None and ?tf2.0 = None and ?ex1.0 = None and ?ex2.0 = None and ?inv1.0 = None
      and ?inv2.0 = None, OF mem.redis_axioms z(2,1) refl refl]
  show ?thesis by blast
qed

end
