(* ===== verification/ZoneWatch.thy ===== *)
theory ZoneWatch
  imports RedisRuns
begin

text \<open>
  Retained zones (\<open>app/autotrade/zone_watch.py\<close>): the record and its JSON form, the
  revision-checked compare-and-swap every write goes through (\<open>_cas_save\<close>, the Lua script is
  in \<open>RedisModel\<close>), the retry loop \<open>_mutate\<close>, the retest-episode operations built on it, and
  the membership indexes with their rebuilding and listing. \<open>sha\<close> is \<open>hashlib.sha256\<close> with
  \<open>hexdigest\<close>, a parameter; the clock is passed as \<open>now\<close>; \<open>reason_code\<close> is dropped where it
  only occurs in an error text. Constants shared by name with the setup lifecycle carry the
  suffix \<open>_zw\<close>.
\<close>

section \<open>States\<close>

definition DISCOVERED_zw :: string where [state_sets]: "DISCOVERED_zw = ''discovered''"
definition WATCHING_RETEST :: string where [state_sets]: "WATCHING_RETEST = ''watching_retest''"
definition EVALUATING :: string where [state_sets]: "EVALUATING = ''evaluating''"
definition PUBLISHED_LOCKED :: string where
  [state_sets]: "PUBLISHED_LOCKED = ''published_locked''"
definition CONSUMED_zw :: string where [state_sets]: "CONSUMED_zw = ''consumed''"
definition INVALIDATED_zw :: string where [state_sets]: "INVALIDATED_zw = ''invalidated''"
definition EXPIRED_zw :: string where [state_sets]: "EXPIRED_zw = ''expired''"

definition ZONE_WATCH_STATES :: "string list" where
  "ZONE_WATCH_STATES =
     [DISCOVERED_zw, WATCHING_RETEST, EVALUATING, PUBLISHED_LOCKED, CONSUMED_zw,
      INVALIDATED_zw, EXPIRED_zw]"

definition TERMINAL_ZONE_WATCH_STATES :: "string set" where
  "TERMINAL_ZONE_WATCH_STATES = {INVALIDATED_zw, EXPIRED_zw, CONSUMED_zw}"

definition LOCKED_ZONE_WATCH_STATES :: "string set" where
  "LOCKED_ZONE_WATCH_STATES = {PUBLISHED_LOCKED}"

definition TRANSITIONS_zw :: "string \<rightharpoonup> string set" where
  "TRANSITIONS_zw =
     [DISCOVERED_zw \<mapsto> {WATCHING_RETEST, EVALUATING, INVALIDATED_zw, EXPIRED_zw},
      WATCHING_RETEST \<mapsto> {EVALUATING, PUBLISHED_LOCKED, INVALIDATED_zw, EXPIRED_zw},
      EVALUATING \<mapsto> {WATCHING_RETEST, PUBLISHED_LOCKED, INVALIDATED_zw, EXPIRED_zw},
      PUBLISHED_LOCKED \<mapsto> {CONSUMED_zw, WATCHING_RETEST, INVALIDATED_zw, EXPIRED_zw},
      CONSUMED_zw \<mapsto> {}, INVALIDATED_zw \<mapsto> {}, EXPIRED_zw \<mapsto> {}]"

text \<open>\<open>_TRANSITIONS.get(state, frozenset())\<close>.\<close>

definition allowed_from_zw :: "string \<Rightarrow> string set" where
  "allowed_from_zw st = (case TRANSITIONS_zw st of None \<Rightarrow> {} | Some A \<Rightarrow> A)"

definition GRADE_A :: string where "GRADE_A = ''A''"
definition GRADE_B :: string where "GRADE_B = ''B''"
definition GRADE_C :: string where "GRADE_C = ''C''"

definition ACTIVE_WATCHLIST_GRADES :: "string set" where
  "ACTIVE_WATCHLIST_GRADES = {GRADE_A, GRADE_B}"

definition ZONE_WATCH_VERSION :: int where "ZONE_WATCH_VERSION = 3"
definition ZONE_WATCH_RETENTION_SECONDS :: int where
  "ZONE_WATCH_RETENTION_SECONDS = 7 * 24 * 3600"
definition DOWNGRADE_AFTER_TOUCHES :: int where "DOWNGRADE_AFTER_TOUCHES = 2"
definition MAX_CAS_RETRIES :: nat where "MAX_CAS_RETRIES = 12"
definition ZONE_WATCH_INDEX_BUILD_TTL_SECONDS :: int where
  "ZONE_WATCH_INDEX_BUILD_TTL_SECONDS = 300"

section \<open>Keys\<close>

definition ZONE_WATCH_INDEX_KEY :: string where
  "ZONE_WATCH_INDEX_KEY = ''analysis:zone_watch:index''"

definition ZONE_WATCH_INDEX_BUILT_KEY :: string where
  "ZONE_WATCH_INDEX_BUILT_KEY = ''analysis:zone_watch:index_built''"

definition ZONE_WATCH_SYMBOL_INDEX_PREFIX :: string where
  "ZONE_WATCH_SYMBOL_INDEX_PREFIX = ZONE_WATCH_INDEX_KEY @ '':''"

definition ZONE_WATCH_SYMBOL_INDEX_BUILT_PREFIX :: string where
  "ZONE_WATCH_SYMBOL_INDEX_BUILT_PREFIX = ''analysis:zone_watch:symbol_index_built:''"

definition zone_watch_key :: "string \<Rightarrow> string" where
  "zone_watch_key zone_id = ''analysis:zone_watch:'' @ zone_id"

definition zone_watch_symbol_index_key :: "string \<Rightarrow> string" where
  "zone_watch_symbol_index_key symbol =
     ZONE_WATCH_SYMBOL_INDEX_PREFIX @ str_upper (str_strip symbol)"

definition zone_watch_symbol_index_built_key :: "string \<Rightarrow> string" where
  "zone_watch_symbol_index_built_key symbol =
     ZONE_WATCH_SYMBOL_INDEX_BUILT_PREFIX @ str_upper (str_strip symbol)"

section \<open>Records\<close>

record zone_watch =
  zw_version :: int
  zw_zone_id :: string
  zw_symbol :: string
  zw_direction :: string
  zw_low :: rat
  zw_high :: rat
  zw_width :: rat
  zw_source_timeframe :: string
  zw_structural_sources :: "string list"
  zw_confluence_tags :: "string list"
  zw_grade :: string
  zw_score :: rat
  zw_freshness :: int
  zw_touch_count :: int
  zw_discovered_at :: int
  zw_last_confirmed_at :: int
  zw_last_touch_at :: "int option"
  zw_invalidation_price :: "rat option"
  zw_state :: string
  zw_market_map_id :: string
  zw_structure_signature :: string
  zw_updated_at :: int
  zw_technique_tags :: "string list"
  zw_revision :: int
  zw_inside :: bool
  zw_episode_id :: "string option"
  zw_zone_entered_at :: "int option"
  zw_zone_exited_at :: "int option"
  zw_last_evaluated_m1_ts :: "int option"
  zw_last_plan_id :: "string option"
  zw_last_rearm_reason :: "string option"

definition index_wants_record :: "zone_watch \<Rightarrow> bool" where
  "index_wants_record r \<longleftrightarrow>
     zw_grade r \<in> ACTIVE_WATCHLIST_GRADES \<and> zw_state r \<notin> TERMINAL_ZONE_WATCH_STATES \<and>
     zw_state r \<notin> LOCKED_ZONE_WATCH_STATES"

definition zw_to_dict :: "zone_watch \<Rightarrow> json" where
  "zw_to_dict r = JObj
     [(''version'', JInt (zw_version r)),
      (''zone_id'', JStr (zw_zone_id r)),
      (''symbol'', JStr (zw_symbol r)),
      (''direction'', JStr (zw_direction r)),
      (''low'', JFloat (zw_low r)),
      (''high'', JFloat (zw_high r)),
      (''width'', JFloat (zw_width r)),
      (''source_timeframe'', JStr (zw_source_timeframe r)),
      (''structural_sources'', JList (map JStr (zw_structural_sources r))),
      (''confluence_tags'', JList (map JStr (zw_confluence_tags r))),
      (''technique_tags'', JList (map JStr (zw_technique_tags r))),
      (''grade'', JStr (zw_grade r)),
      (''score'', JFloat (zw_score r)),
      (''freshness'', JInt (zw_freshness r)),
      (''touch_count'', JInt (zw_touch_count r)),
      (''discovered_at'', JInt (zw_discovered_at r)),
      (''last_confirmed_at'', JInt (zw_last_confirmed_at r)),
      (''last_touch_at'', j_opt_int (zw_last_touch_at r)),
      (''invalidation_price'', j_opt_float (zw_invalidation_price r)),
      (''state'', JStr (zw_state r)),
      (''market_map_id'', JStr (zw_market_map_id r)),
      (''structure_signature'', JStr (zw_structure_signature r)),
      (''updated_at'', JInt (zw_updated_at r)),
      (''revision'', JInt (zw_revision r)),
      (''inside'', JBool (zw_inside r)),
      (''episode_id'', j_opt_str (zw_episode_id r)),
      (''zone_entered_at'', j_opt_int (zw_zone_entered_at r)),
      (''zone_exited_at'', j_opt_int (zw_zone_exited_at r)),
      (''last_evaluated_m1_ts'', j_opt_int (zw_last_evaluated_m1_ts r)),
      (''last_plan_id'', j_opt_str (zw_last_plan_id r)),
      (''last_rearm_reason'', j_opt_str (zw_last_rearm_reason r))]"

definition get_or :: "json \<Rightarrow> string \<Rightarrow> json \<Rightarrow> (json \<Rightarrow> 'a res) \<Rightarrow> 'a res" where
  "get_or data k d f = res_bind (jget data k) (\<lambda>v. f (py_or v d))"

definition zw_from_dict :: "int \<Rightarrow> json \<Rightarrow> zone_watch res" where
  "zw_from_dict now data =
     res_bind (get_or data ''state'' (JStr DISCOVERED_zw) py_str) (\<lambda>state0.
     let raw_state = (if state0 = ''exhausted'' then EXPIRED_zw else state0) in
     res_bind (res_bind (jget_default data ''version'' (JInt ZONE_WATCH_VERSION)) py_int) (\<lambda>version.
     res_bind (res_bind (jindex data ''zone_id'') py_str) (\<lambda>zone_id.
     res_bind (res_bind (jindex data ''symbol'') py_str) (\<lambda>symbol.
     res_bind (res_bind (jindex data ''direction'') py_str) (\<lambda>direction.
     res_bind (res_bind (jindex data ''low'') py_float) (\<lambda>low.
     res_bind (res_bind (jindex data ''high'') py_float) (\<lambda>high.
     res_bind (res_bind (jget_default data ''width'' (JFloat (high - low))) py_float) (\<lambda>width.
     res_bind (get_or data ''source_timeframe'' (JStr []) py_str) (\<lambda>source_timeframe.
     res_bind (res_bind (jget data ''structural_sources'') str_tuple) (\<lambda>structural_sources.
     res_bind (res_bind (jget data ''confluence_tags'') str_tuple) (\<lambda>confluence_tags.
     res_bind (res_bind (jget data ''technique_tags'') str_tuple) (\<lambda>technique_tags.
     res_bind (get_or data ''grade'' (JStr GRADE_C) py_str) (\<lambda>grade.
     res_bind (get_or data ''score'' (JFloat 0) py_float) (\<lambda>score.
     res_bind (get_or data ''freshness'' (JInt 0) py_int) (\<lambda>freshness.
     res_bind (get_or data ''touch_count'' (JInt 0) py_int) (\<lambda>touch_count.
     res_bind (res_bind (jget_default data ''discovered_at'' (JInt now)) py_int) (\<lambda>discovered_at.
     res_bind (res_bind (jget_default data ''last_confirmed_at'' (JInt now)) py_int) (\<lambda>last_confirmed_at.
     res_bind (res_bind (jget data ''last_touch_at'') (opt_via py_int)) (\<lambda>last_touch_at.
     res_bind (res_bind (jget data ''invalidation_price'') (opt_via py_float)) (\<lambda>invalidation_price.
     res_bind (get_or data ''market_map_id'' (JStr []) py_str) (\<lambda>market_map_id.
     res_bind (get_or data ''structure_signature'' (JStr []) py_str) (\<lambda>structure_signature.
     res_bind (res_bind (jget_default data ''updated_at'' (JInt now)) py_int) (\<lambda>updated_at.
     res_bind (get_or data ''revision'' (JInt 0) py_int) (\<lambda>revision.
     res_bind (jget_default data ''inside'' (JBool False)) (\<lambda>inside.
     res_bind (res_bind (jget data ''episode_id'') (opt_via py_str)) (\<lambda>episode_id.
     res_bind (res_bind (jget data ''zone_entered_at'') (opt_via py_int)) (\<lambda>zone_entered_at.
     res_bind (res_bind (jget data ''zone_exited_at'') (opt_via py_int)) (\<lambda>zone_exited_at.
     res_bind (res_bind (jget data ''last_evaluated_m1_ts'') (opt_via py_int)) (\<lambda>last_evaluated_m1_ts.
     res_bind (res_bind (jget data ''last_plan_id'') (opt_via py_str)) (\<lambda>last_plan_id.
     res_bind (res_bind (jget data ''last_rearm_reason'') (opt_via py_str)) (\<lambda>last_rearm_reason.
     Inr \<lparr>zw_version = version, zw_zone_id = zone_id, zw_symbol = str_upper symbol,
          zw_direction = str_upper direction, zw_low = low, zw_high = high, zw_width = width,
          zw_source_timeframe = str_upper source_timeframe,
          zw_structural_sources = structural_sources, zw_confluence_tags = confluence_tags,
          zw_grade = str_upper grade, zw_score = score, zw_freshness = freshness,
          zw_touch_count = touch_count, zw_discovered_at = discovered_at,
          zw_last_confirmed_at = last_confirmed_at, zw_last_touch_at = last_touch_at,
          zw_invalidation_price = invalidation_price, zw_state = raw_state,
          zw_market_map_id = market_map_id, zw_structure_signature = structure_signature,
          zw_updated_at = updated_at, zw_technique_tags = technique_tags,
          zw_revision = revision, zw_inside = py_truthy inside, zw_episode_id = episode_id,
          zw_zone_entered_at = zone_entered_at, zw_zone_exited_at = zone_exited_at,
          zw_last_evaluated_m1_ts = last_evaluated_m1_ts, zw_last_plan_id = last_plan_id,
          zw_last_rearm_reason = last_rearm_reason\<rparr>)))))))))))))))))))))))))))))))"

section \<open>Reading and writing one zone\<close>

text \<open>\<open>try: ZoneWatch.from_dict(json.loads(text)) except (TypeError, ValueError, KeyError): None\<close>.\<close>

definition parse_zone_watch :: "int \<Rightarrow> rtext \<Rightarrow> zone_watch option res" where
  "parse_zone_watch now t =
     (case res_bind (json_loads t) (zw_from_dict now) of
        Inr r \<Rightarrow> Inr (Some r)
      | Inl e \<Rightarrow> if e \<in> {TypeError, ValueError, KeyError} then Inr None else Inl e)"

definition load_zone_watch :: "int \<Rightarrow> string \<Rightarrow> zone_watch option prog" where
  "load_zone_watch now zone_id =
     pbind (rget (zone_watch_key zone_id)) (\<lambda>raw.
     case raw of None \<Rightarrow> Done None | Some t \<Rightarrow> of_res (parse_zone_watch now t))"

text \<open>The best-effort write that replaces the script under a test client.\<close>

definition cas_save_fallback :: "int \<Rightarrow> zone_watch \<Rightarrow> int \<Rightarrow> bool prog" where
  "cas_save_fallback now record expected_revision =
     pbind (load_zone_watch now (zw_zone_id record)) (\<lambda>current.
     if (if expected_revision < 0 then current \<noteq> None
         else (case current of None \<Rightarrow> True | Some c \<Rightarrow> zw_revision c \<noteq> expected_revision))
     then Done False
     else pbind (run_cmd (SET (zone_watch_key (zw_zone_id record)) (Doc (zw_to_dict record))
                            (Some ZONE_WATCH_RETENTION_SECONDS) False)) (\<lambda>_.
          pbind (if index_wants_record record
                 then pbind (run_cmd (SADD ZONE_WATCH_INDEX_KEY [zw_zone_id record])) (\<lambda>_.
                      run_cmd (SADD (zone_watch_symbol_index_key (zw_symbol record)) [zw_zone_id record]))
                 else pbind (run_cmd (SREM ZONE_WATCH_INDEX_KEY [zw_zone_id record])) (\<lambda>_.
                      run_cmd (SREM (zone_watch_symbol_index_key (zw_symbol record)) [zw_zone_id record]))) (\<lambda>_.
          case current of
            None \<Rightarrow> Done True
          | Some c \<Rightarrow>
              if zw_symbol c \<noteq> zw_symbol record
              then pbind (run_cmd (SREM (zone_watch_symbol_index_key (zw_symbol c)) [zw_zone_id record]))
                     (\<lambda>_. Done True)
              else Done True)))"

definition cas_save :: "bool \<Rightarrow> int \<Rightarrow> zone_watch \<Rightarrow> int \<Rightarrow> bool prog" where
  "cas_save fallback now record expected_revision =
     pcatch
       (pbind (rcall (EVAL CAS_SAVE_LUA
            [zone_watch_key (zw_zone_id record), ZONE_WATCH_INDEX_KEY,
             zone_watch_symbol_index_key (zw_symbol record)]
            [AInt expected_revision, ADoc (zw_to_dict record), AInt ZONE_WATCH_RETENTION_SECONDS,
             AStr (zw_zone_id record), AInt (if index_wants_record record then 1 else 0),
             AStr ZONE_WATCH_SYMBOL_INDEX_PREFIX])) (\<lambda>r.
        case r of RInt n \<Rightarrow> Done (n = 1) | _ \<Rightarrow> Raise TypeError))
       (\<lambda>e. if \<not> fallback then Raise e else cas_save_fallback now record expected_revision)"

section \<open>The compare-and-swap loop\<close>

text \<open>A mutator returns the new record and a result, or raises.\<close>

type_synonym 'a mutator = "zone_watch \<Rightarrow> (zone_watch \<times> 'a) res"

primrec mutate_attempts ::
  "nat \<Rightarrow> bool \<Rightarrow> int \<Rightarrow> string \<Rightarrow> 'a mutator \<Rightarrow> (zone_watch \<times> 'a) prog" where
  "mutate_attempts 0 fallback now zone_id mutator = Raise (ZoneWatchError ''contention'')"
| "mutate_attempts (Suc n) fallback now zone_id mutator =
     pbind (load_zone_watch now zone_id) (\<lambda>loaded.
     case loaded of
       None \<Rightarrow> Raise (ZoneWatchError ''unknown zone_id'')
     | Some current \<Rightarrow>
         pbind (of_res (mutator current)) (\<lambda>(updated, result).
         if updated = current then Done (current, result)
         else (let updated' = updated\<lparr>zw_version := ZONE_WATCH_VERSION,
                                      zw_revision := zw_revision current + 1\<rparr>
               in pbind (cas_save fallback now updated' (zw_revision current)) (\<lambda>saved.
                  if saved then Done (updated', result)
                  else mutate_attempts n fallback now zone_id mutator))))"

definition mutate_zw :: "bool \<Rightarrow> int \<Rightarrow> string \<Rightarrow> 'a mutator \<Rightarrow> (zone_watch \<times> 'a) prog" where
  "mutate_zw = mutate_attempts MAX_CAS_RETRIES"

section \<open>Discovery\<close>

definition sorted_tags :: "string list \<Rightarrow> string list" where
  "sorted_tags xs = sort (remdups xs)"

text \<open>The arguments of \<open>discover_zone_watch\<close>.\<close>

record discovery =
  d_zone_id :: string
  d_symbol :: string
  d_direction :: string
  d_low :: rat
  d_high :: rat
  d_source_timeframe :: string
  d_structural_sources :: "string list"
  d_confluence_tags :: "string list"
  d_grade :: string
  d_score :: rat
  d_market_map_id :: string
  d_structure_signature :: string
  d_technique_tags :: "string list"

definition created_zone :: "int \<Rightarrow> discovery \<Rightarrow> zone_watch" where
  "created_zone ts d =
     \<lparr>zw_version = ZONE_WATCH_VERSION, zw_zone_id = d_zone_id d,
      zw_symbol = str_upper (d_symbol d), zw_direction = str_upper (d_direction d),
      zw_low = d_low d, zw_high = d_high d, zw_width = d_high d - d_low d,
      zw_source_timeframe = str_upper (d_source_timeframe d),
      zw_structural_sources = sorted_tags (d_structural_sources d),
      zw_confluence_tags = sorted_tags (d_confluence_tags d),
      zw_grade = str_upper (d_grade d), zw_score = d_score d, zw_freshness = 0,
      zw_touch_count = 0, zw_discovered_at = ts, zw_last_confirmed_at = ts,
      zw_last_touch_at = None, zw_invalidation_price = None, zw_state = DISCOVERED_zw,
      zw_market_map_id = d_market_map_id d,
      zw_structure_signature = d_structure_signature d, zw_updated_at = ts,
      zw_technique_tags = sorted_tags (d_technique_tags d), zw_revision = 0,
      zw_inside = False, zw_episode_id = None, zw_zone_entered_at = None,
      zw_zone_exited_at = None, zw_last_evaluated_m1_ts = None, zw_last_plan_id = None,
      zw_last_rearm_reason = None\<rparr>"

definition or_keep :: "'a list \<Rightarrow> 'a list \<Rightarrow> 'a list" where
  "or_keep new old = (if new \<noteq> [] then new else old)"

definition refreshed_zone :: "int \<Rightarrow> discovery \<Rightarrow> zone_watch \<Rightarrow> zone_watch" where
  "refreshed_zone ts d existing = existing
     \<lparr>zw_low := d_low d, zw_high := d_high d, zw_width := d_high d - d_low d,
      zw_source_timeframe :=
        or_keep (str_upper (d_source_timeframe d)) (zw_source_timeframe existing),
      zw_structural_sources := sorted_tags (d_structural_sources d),
      zw_confluence_tags := sorted_tags (d_confluence_tags d),
      zw_technique_tags :=
        or_keep (sorted_tags (d_technique_tags d)) (zw_technique_tags existing),
      zw_score := d_score d, zw_last_confirmed_at := ts,
      zw_market_map_id := or_keep (d_market_map_id d) (zw_market_map_id existing),
      zw_structure_signature :=
        or_keep (d_structure_signature d) (zw_structure_signature existing),
      zw_updated_at := ts, zw_version := ZONE_WATCH_VERSION,
      zw_revision := zw_revision existing + 1\<rparr>"

primrec discover_attempts ::
  "nat \<Rightarrow> bool \<Rightarrow> int \<Rightarrow> discovery \<Rightarrow> (zone_watch \<times> bool) prog" where
  "discover_attempts 0 fallback ts d = Raise (ZoneWatchError ''contention'')"
| "discover_attempts (Suc n) fallback ts d =
     pbind (load_zone_watch ts (d_zone_id d)) (\<lambda>loaded.
     case loaded of
       None \<Rightarrow>
         pbind (cas_save fallback ts (created_zone ts d) (-1)) (\<lambda>saved.
         if saved then Done (created_zone ts d, True) else discover_attempts n fallback ts d)
     | Some existing \<Rightarrow>
         pbind (cas_save fallback ts (refreshed_zone ts d existing) (zw_revision existing)) (\<lambda>saved.
         if saved then Done (refreshed_zone ts d existing, False)
         else discover_attempts n fallback ts d))"

definition discover_zone_watch :: "bool \<Rightarrow> int \<Rightarrow> discovery \<Rightarrow> (zone_watch \<times> bool) prog" where
  "discover_zone_watch fallback ts d =
     (if \<not> d_low d < d_high d then Raise (ZoneWatchError ''invalid zone bounds'')
      else discover_attempts MAX_CAS_RETRIES fallback ts d)"

section \<open>Operations on a zone\<close>

datatype zw_field = ZF_last_plan_id "string option" | ZF_last_rearm_reason "string option"

fun apply_zw_field :: "zw_field \<Rightarrow> zone_watch \<Rightarrow> zone_watch" where
  "apply_zw_field (ZF_last_plan_id x) r = r\<lparr>zw_last_plan_id := x\<rparr>"
| "apply_zw_field (ZF_last_rearm_reason x) r = r\<lparr>zw_last_rearm_reason := x\<rparr>"

definition transition_mutator :: "int \<Rightarrow> string \<Rightarrow> zw_field list \<Rightarrow> bool mutator" where
  "transition_mutator now new_state updates record =
     (if zw_state record = new_state then Inr (record, False)
      else if new_state \<notin> allowed_from_zw (zw_state record)
      then Inl (ZoneWatchError ''illegal zone watch transition'')
      else Inr (fold apply_zw_field updates
                  (record\<lparr>zw_state := new_state, zw_updated_at := now\<rparr>), True))"

definition transition_zone_watch ::
  "bool \<Rightarrow> int \<Rightarrow> string \<Rightarrow> string \<Rightarrow> zw_field list \<Rightarrow> (zone_watch \<times> bool) prog" where
  "transition_zone_watch fallback now zone_id new_state updates =
     (if new_state \<notin> set ZONE_WATCH_STATES
      then Raise (ZoneWatchError ''unknown zone watch state'')
      else mutate_zw fallback now zone_id (transition_mutator now new_state updates))"

definition grade_for_touch_count :: "int \<Rightarrow> string \<Rightarrow> string \<times> bool" where
  "grade_for_touch_count touch_count current_grade =
     (if touch_count \<ge> DOWNGRADE_AFTER_TOUCHES \<and> current_grade = GRADE_A
      then (GRADE_B, False) else (current_grade, False))"

definition episode_id :: "(string \<Rightarrow> string) \<Rightarrow> string \<Rightarrow> int \<Rightarrow> int \<Rightarrow> string" where
  "episode_id sha zone_id entered_at touch_count =
     sha (zone_id @ ''|'' @ str_int entered_at @ ''|'' @ str_int touch_count)"

definition presence_mutator ::
  "(string \<Rightarrow> string) \<Rightarrow> int \<Rightarrow> string \<Rightarrow> bool \<Rightarrow> bool \<Rightarrow> bool \<Rightarrow> bool mutator" where
  "presence_mutator sha ts zone_id inside htf_evidence decisive_break record = Inr
     (if zw_state record \<in> TERMINAL_ZONE_WATCH_STATES then (record, False)
      else if zw_state record \<in> LOCKED_ZONE_WATCH_STATES then (record, False)
      else if inside
      then (if zw_inside record
            then (record\<lparr>zw_state := (if zw_state record = WATCHING_RETEST then EVALUATING
                                      else zw_state record),
                         zw_updated_at := ts\<rparr>, False)
            else (let count = zw_touch_count record + 1 in
                  (record\<lparr>zw_state := EVALUATING,
                          zw_grade := fst (grade_for_touch_count count (zw_grade record)),
                          zw_touch_count := count, zw_last_touch_at := Some ts,
                          zw_inside := True, zw_episode_id := Some (episode_id sha zone_id ts count),
                          zw_zone_entered_at := Some ts, zw_zone_exited_at := None,
                          zw_last_evaluated_m1_ts := None, zw_updated_at := ts\<rparr>, True)))
      else if \<not> zw_inside record
      then (record\<lparr>zw_state := (if zw_state record = DISCOVERED_zw then WATCHING_RETEST
                                else zw_state record),
                   zw_updated_at := ts\<rparr>, False)
      else if decisive_break \<and> \<not> htf_evidence
      then (record\<lparr>zw_state := INVALIDATED_zw, zw_inside := False,
                   zw_zone_exited_at := Some ts,
                   zw_invalidation_price := zw_invalidation_price record,
                   zw_updated_at := ts\<rparr>, True)
      else (record\<lparr>zw_state := WATCHING_RETEST, zw_inside := False,
                   zw_zone_exited_at := Some ts, zw_updated_at := ts\<rparr>, True))"

definition record_zone_presence ::
  "(string \<Rightarrow> string) \<Rightarrow> bool \<Rightarrow> int \<Rightarrow> string \<Rightarrow> bool \<Rightarrow> bool \<Rightarrow> bool \<Rightarrow>
   (zone_watch \<times> bool) prog" where
  "record_zone_presence sha fallback ts zone_id inside htf_evidence decisive_break =
     mutate_zw fallback ts zone_id (presence_mutator sha ts zone_id inside htf_evidence decisive_break)"

definition touch_mutator :: "int \<Rightarrow> unit mutator" where
  "touch_mutator ts record = Inr
     (if zw_state record \<in> TERMINAL_ZONE_WATCH_STATES \<union> LOCKED_ZONE_WATCH_STATES then (record, ())
      else (let count = zw_touch_count record + 1 in
            (record\<lparr>zw_touch_count := count,
                    zw_grade := fst (grade_for_touch_count count (zw_grade record)),
                    zw_last_touch_at := Some ts, zw_updated_at := ts\<rparr>, ())))"

definition record_zone_touch :: "bool \<Rightarrow> int \<Rightarrow> string \<Rightarrow> zone_watch prog" where
  "record_zone_touch fallback ts zone_id =
     pbind (mutate_zw fallback ts zone_id (touch_mutator ts)) (\<lambda>(updated, _). Done updated)"

definition lock_zone_watch_published :: "bool \<Rightarrow> int \<Rightarrow> string \<Rightarrow> string \<Rightarrow> zone_watch prog" where
  "lock_zone_watch_published fallback now zone_id plan_id =
     pbind (transition_zone_watch fallback now zone_id PUBLISHED_LOCKED
              [ZF_last_plan_id (Some plan_id), ZF_last_rearm_reason None])
       (\<lambda>(updated, _). Done updated)"

definition consume_zone_watch :: "bool \<Rightarrow> int \<Rightarrow> string \<Rightarrow> string option \<Rightarrow> zone_watch prog" where
  "consume_zone_watch fallback now zone_id plan_id =
     pbind (transition_zone_watch fallback now zone_id CONSUMED_zw
              (case plan_id of None \<Rightarrow> [] | Some p \<Rightarrow> [ZF_last_plan_id (Some p)]))
       (\<lambda>(updated, _). Done updated)"

definition rearm_mutator ::
  "(string \<Rightarrow> string) \<Rightarrow> int \<Rightarrow> string \<Rightarrow> string \<Rightarrow> bool \<Rightarrow> bool mutator" where
  "rearm_mutator sha ts zone_id reason_code new_episode record =
     (if zw_state record = WATCHING_RETEST \<and> zw_last_rearm_reason record = Some reason_code
      then Inr (record, False)
      else if zw_state record \<noteq> PUBLISHED_LOCKED
      then Inl (ZoneWatchError ''illegal zone watch rearm'')
      else Inr (record\<lparr>zw_state := WATCHING_RETEST,
                       zw_inside := (if new_episode then False else zw_inside record),
                       zw_episode_id := (if new_episode
                         then Some (episode_id sha zone_id ts (zw_touch_count record))
                         else zw_episode_id record),
                       zw_zone_entered_at := (if new_episode then Some ts else zw_zone_entered_at record),
                       zw_last_rearm_reason := Some reason_code, zw_updated_at := ts\<rparr>, True))"

definition rearm_zone_watch ::
  "(string \<Rightarrow> string) \<Rightarrow> bool \<Rightarrow> int \<Rightarrow> string \<Rightarrow> string \<Rightarrow> bool \<Rightarrow> zone_watch prog" where
  "rearm_zone_watch sha fallback ts zone_id reason_code new_episode =
     (if reason_code = [] then Raise (ZoneWatchError ''rearm requires a reason_code'')
      else pbind (mutate_zw fallback ts zone_id (rearm_mutator sha ts zone_id reason_code new_episode))
             (\<lambda>(updated, _). Done updated))"

definition fill_outcomes :: "string set" where
  "fill_outcomes = {''fill'', ''filled'', ''order_filled'', ''opened''}"

definition retry_outcomes :: "string set" where
  "retry_outcomes = {''reject'', ''rejected'', ''plan_rejected'', ''expired'', ''cancelled'',
                     ''no_fill'', ''no-fill''}"

definition apply_zone_watch_plan_outcome ::
  "(string \<Rightarrow> string) \<Rightarrow> bool \<Rightarrow> int \<Rightarrow> string \<Rightarrow> string \<Rightarrow> string \<Rightarrow> string option \<Rightarrow>
   zone_watch option prog" where
  "apply_zone_watch_plan_outcome sha fallback now zone_id outcome reason_code plan_id =
     pbind (load_zone_watch now zone_id) (\<lambda>loaded.
     case loaded of
       None \<Rightarrow> Done None
     | Some record \<Rightarrow>
         (let normalized = str_lower (str_strip outcome) in
          if normalized \<in> fill_outcomes
          then (if zw_state record \<noteq> PUBLISHED_LOCKED then Done (Some record)
                else pbind (consume_zone_watch fallback now zone_id plan_id) (\<lambda>r. Done (Some r)))
          else if normalized \<in> retry_outcomes
          then (if zw_state record \<noteq> PUBLISHED_LOCKED then Done (Some record)
                else pbind (rearm_zone_watch sha fallback now zone_id
                              (or_keep reason_code (''plan_outcome_'' @ normalized)) False)
                       (\<lambda>r. Done (Some r)))
          else Done (Some record)))"

definition m1_mutator :: "int \<Rightarrow> int \<Rightarrow> unit mutator" where
  "m1_mutator now ts record = Inr
     (if (case zw_last_evaluated_m1_ts record of None \<Rightarrow> False | Some t \<Rightarrow> ts \<le> t)
      then (record, ())
      else (record\<lparr>zw_last_evaluated_m1_ts := Some ts, zw_updated_at := now\<rparr>, ()))"

definition mark_m1_evaluated :: "bool \<Rightarrow> int \<Rightarrow> string \<Rightarrow> int \<Rightarrow> zone_watch prog" where
  "mark_m1_evaluated fallback now zone_id bar_ts =
     pbind (mutate_zw fallback now zone_id (m1_mutator now bar_ts)) (\<lambda>(updated, _). Done updated)"

section \<open>Membership indexes\<close>

text \<open>
  \<open>scan_iter\<close> is one \<open>SCAN\<close> over the whole keyspace, so the loop below runs over the keys that
  exist when it starts. The key is its own namespace prefix followed by the rest, hence the
  last \<open>startswith\<close> test of the source always holds.
\<close>

definition rebuild_step :: "int \<Rightarrow> string \<Rightarrow> unit \<Rightarrow> unit prog" where
  "rebuild_step now key _ =
     (if key \<in> {ZONE_WATCH_INDEX_KEY, ZONE_WATCH_INDEX_BUILT_KEY} then Done ()
      else if str_startswith key ZONE_WATCH_SYMBOL_INDEX_PREFIX then Done ()
      else if str_startswith key ZONE_WATCH_SYMBOL_INDEX_BUILT_PREFIX then Done ()
      else if \<not> str_startswith key ''analysis:zone_watch:'' then Done ()
      else (let zone_id = str_after_last (CHR '':'') key in
        if zone_id \<in> {''index'', ''index_built''} then Done ()
        else pbind (load_zone_watch now zone_id) (\<lambda>loaded.
             case loaded of
               Some record \<Rightarrow>
                 if index_wants_record record
                 then pbind (run_cmd (SADD ZONE_WATCH_INDEX_KEY [zone_id])) (\<lambda>_.
                      run_cmd (SADD (zone_watch_symbol_index_key (zw_symbol record)) [zone_id]))
                 else run_cmd (SREM ZONE_WATCH_INDEX_KEY [zone_id])
             | None \<Rightarrow> run_cmd (SREM ZONE_WATCH_INDEX_KEY [zone_id]))))"

definition rebuild_zone_watch_index :: "int \<Rightarrow> unit prog" where
  "rebuild_zone_watch_index now =
     pbind (rset_nx ZONE_WATCH_INDEX_BUILT_KEY (Txt ''1'') ZONE_WATCH_INDEX_BUILD_TTL_SECONDS) (\<lambda>claimed.
     if \<not> claimed then Done ()
     else pbind (rcall (SCAN ''analysis:zone_watch:'')) (\<lambda>r.
          case r of RStrs keys \<Rightarrow> pfor keys (rebuild_step now) () | _ \<Rightarrow> Done ()))"

text \<open>What one member of the global index contributes to the migration.\<close>

record index_plan =
  ip_additions :: "(string \<times> string list) list"
  ip_stale_global :: "string list"
  ip_stale_symbol :: "(string \<times> string list) list"

definition classify_member :: "int \<Rightarrow> string \<times> rtext option \<Rightarrow> index_plan \<Rightarrow> index_plan res" where
  "classify_member now = (\<lambda>(zone_id, raw) p.
     case raw of
       None \<Rightarrow> Inr (p\<lparr>ip_stale_global := ip_stale_global p @ [zone_id]\<rparr>)
     | Some t \<Rightarrow>
         res_bind (parse_zone_watch now t) (\<lambda>parsed.
         case parsed of
           None \<Rightarrow> Inr (p\<lparr>ip_stale_global := ip_stale_global p @ [zone_id]\<rparr>)
         | Some record \<Rightarrow>
             (let symbol_key = zone_watch_symbol_index_key (zw_symbol record) in
              if index_wants_record record
              then Inr (p\<lparr>ip_additions := dict_append symbol_key zone_id (ip_additions p)\<rparr>)
              else Inr (p\<lparr>ip_stale_global := ip_stale_global p @ [zone_id],
                          ip_stale_symbol := dict_append symbol_key zone_id (ip_stale_symbol p)\<rparr>))))"

fun classify_members :: "int \<Rightarrow> (string \<times> rtext option) list \<Rightarrow> index_plan \<Rightarrow> index_plan res" where
  "classify_members now [] p = Inr p"
| "classify_members now (m # ms) p = res_bind (classify_member now m p) (classify_members now ms)"

definition ensure_symbol_zone_watch_index :: "int \<Rightarrow> string \<Rightarrow> unit prog" where
  "ensure_symbol_zone_watch_index now symbol =
     (let normalized_symbol = str_upper (str_strip symbol);
          built_key = zone_watch_symbol_index_built_key normalized_symbol in
      pbind (rget built_key) (\<lambda>marker.
      if marker \<noteq> None \<and> marker \<noteq> Some (Txt []) then Done ()
      else
        pbind (rmembers ZONE_WATCH_INDEX_KEY) (\<lambda>first.
        pbind (if first = []
               then pbind (rebuild_zone_watch_index now) (\<lambda>_. rmembers ZONE_WATCH_INDEX_KEY)
               else Done first) (\<lambda>zone_ids.
        pbind (if zone_ids \<noteq> []
               then pbind (rmget (map zone_watch_key zone_ids)) (\<lambda>raw_values.
                    of_res (classify_members now (zip zone_ids raw_values) \<lparr>ip_additions = [], ip_stale_global = [], ip_stale_symbol = []\<rparr>))
               else Done \<lparr>ip_additions = [], ip_stale_global = [], ip_stale_symbol = []\<rparr>) (\<lambda>plan.
        pbind (pfor (ip_additions plan) (\<lambda>(k, ids) _. run_cmd (SADD k ids)) ()) (\<lambda>_.
        pbind (pfor (ip_stale_symbol plan) (\<lambda>(k, ids) _. run_cmd (SREM k ids)) ()) (\<lambda>_.
        pbind (if ip_stale_global plan \<noteq> [] then run_cmd (SREM ZONE_WATCH_INDEX_KEY (ip_stale_global plan))
               else Done ()) (\<lambda>_.
        pfor (add_member (map (drop (length ZONE_WATCH_SYMBOL_INDEX_PREFIX) \<circ> fst) (ip_additions plan))
                normalized_symbol)
          (\<lambda>built_symbol _. run_cmd (SET (zone_watch_symbol_index_built_key built_symbol)
              (Txt ''1'') (Some ZONE_WATCH_INDEX_BUILD_TTL_SECONDS) False)) ()))))))))"

definition is_actively_watchable :: "zone_watch \<Rightarrow> bool" where
  "is_actively_watchable r = index_wants_record r"

fun mark_stale :: "string \<Rightarrow> string \<Rightarrow> (string \<times> string list) list \<Rightarrow> (string \<times> string list) list" where
  "mark_stale k m [] = [(k, [m])]"
| "mark_stale k m ((k', ms) # d) =
     (if k' = k then (k', add_member ms m) # d else (k', ms) # mark_stale k m d)"

text \<open>The loop over the members: the active records and the index entries to remove.\<close>

definition list_member ::
  "int \<Rightarrow> string option \<Rightarrow> string \<Rightarrow> string \<times> rtext option \<Rightarrow>
   zone_watch list \<times> (string \<times> string list) list \<Rightarrow>
   (zone_watch list \<times> (string \<times> string list) list) res" where
  "list_member now normalized_symbol index_key = (\<lambda>(zone_id, raw) (records, stale).
     case raw of
       None \<Rightarrow> Inr (records, mark_stale ZONE_WATCH_INDEX_KEY zone_id (mark_stale index_key zone_id stale))
     | Some t \<Rightarrow>
         res_bind (parse_zone_watch now t) (\<lambda>parsed.
         case parsed of
           None \<Rightarrow> Inr (records, mark_stale ZONE_WATCH_INDEX_KEY zone_id (mark_stale index_key zone_id stale))
         | Some record \<Rightarrow>
             Inr (if \<not> is_actively_watchable record
                  then (records,
                        mark_stale (zone_watch_symbol_index_key (zw_symbol record)) zone_id
                          (mark_stale ZONE_WATCH_INDEX_KEY zone_id (mark_stale index_key zone_id stale)))
                  else if normalized_symbol \<noteq> None \<and> normalized_symbol \<noteq> Some (zw_symbol record)
                  then (records, mark_stale index_key zone_id stale)
                  else (records @ [record], stale))))"

fun list_members ::
  "int \<Rightarrow> string option \<Rightarrow> string \<Rightarrow> (string \<times> rtext option) list \<Rightarrow>
   zone_watch list \<times> (string \<times> string list) list \<Rightarrow>
   (zone_watch list \<times> (string \<times> string list) list) res" where
  "list_members now symbol index_key [] acc = Inr acc"
| "list_members now symbol index_key (m # ms) acc =
     res_bind (list_member now symbol index_key m acc) (list_members now symbol index_key ms)"

definition list_active_zone_watches :: "int \<Rightarrow> string option \<Rightarrow> zone_watch list prog" where
  "list_active_zone_watches now symbol =
     (let normalized_symbol = map_option (\<lambda>x. str_upper (str_strip x)) symbol;
          index_key = (case normalized_symbol of None \<Rightarrow> ZONE_WATCH_INDEX_KEY
                       | Some n \<Rightarrow> zone_watch_symbol_index_key n) in
      pbind (case normalized_symbol of None \<Rightarrow> Done ()
             | Some n \<Rightarrow> ensure_symbol_zone_watch_index now n) (\<lambda>_.
      pbind (rmembers index_key) (\<lambda>first.
      pbind (if first = [] \<and> normalized_symbol = None
             then pbind (rebuild_zone_watch_index now) (\<lambda>_. rmembers ZONE_WATCH_INDEX_KEY)
             else Done first) (\<lambda>zone_ids.
      pbind (if zone_ids \<noteq> []
             then pbind (rmget (map zone_watch_key zone_ids)) (\<lambda>raw_values.
                  of_res (list_members now normalized_symbol index_key (zip zone_ids raw_values) ([], [])))
             else Done ([], [])) (\<lambda>(records, stale).
      pbind (pfor stale (\<lambda>(k, ids) _. run_cmd (SREM k ids)) ()) (\<lambda>_.
      Done (sort_key (\<lambda>r. (- zw_score r, zw_low r, zw_zone_id r)) records)))))))"

section \<open>JSON form\<close>

definition zw_normal :: "zone_watch \<Rightarrow> bool" where
  "zw_normal r \<longleftrightarrow>
     str_upper (zw_symbol r) = zw_symbol r \<and> str_upper (zw_direction r) = zw_direction r \<and>
     str_upper (zw_source_timeframe r) = zw_source_timeframe r \<and>
     str_upper (zw_grade r) = zw_grade r \<and> zw_grade r \<noteq> [] \<and>
     zw_state r \<noteq> [] \<and> zw_state r \<noteq> ''exhausted''"

lemma get_or_obj [simp]:
  "get_or (JObj kv) k d f = f (py_or (case map_of kv k of None \<Rightarrow> JNull | Some v \<Rightarrow> v) d)"
  by (simp add: get_or_def)

lemma py_or_simps:
  "py_or (JStr s) d = (if s = [] then d else JStr s)"
  "py_or (JInt i) d = (if i = 0 then d else JInt i)"
  "py_or (JFloat q) d = (if q = 0 then d else JFloat q)"
  by (simp_all add: py_or_def)

lemma zw_normal_roundtrip:
  assumes "zw_normal r"
  shows "zw_from_dict now (zw_to_dict r) = Inr r"
proof -
  have "get_or (zw_to_dict r) ''score'' (JFloat 0) py_float = Inr (zw_score r)"
    "get_or (zw_to_dict r) ''freshness'' (JInt 0) py_int = Inr (zw_freshness r)"
    "get_or (zw_to_dict r) ''touch_count'' (JInt 0) py_int = Inr (zw_touch_count r)"
    "get_or (zw_to_dict r) ''revision'' (JInt 0) py_int = Inr (zw_revision r)"
    "get_or (zw_to_dict r) ''market_map_id'' (JStr []) py_str = Inr (zw_market_map_id r)"
    "get_or (zw_to_dict r) ''structure_signature'' (JStr []) py_str = Inr (zw_structure_signature r)"
    "get_or (zw_to_dict r) ''source_timeframe'' (JStr []) py_str = Inr (zw_source_timeframe r)"
    "get_or (zw_to_dict r) ''grade'' (JStr GRADE_C) py_str = Inr (zw_grade r)"
    "get_or (zw_to_dict r) ''state'' (JStr DISCOVERED_zw) py_str = Inr (zw_state r)"
    using assms by (simp_all add: zw_to_dict_def py_or_simps zw_normal_def)
  note g = this
  have "jget_default (zw_to_dict r) ''version'' d = Inr (JInt (zw_version r))"
    "jindex (zw_to_dict r) ''zone_id'' = Inr (JStr (zw_zone_id r))"
    "jindex (zw_to_dict r) ''symbol'' = Inr (JStr (zw_symbol r))"
    "jindex (zw_to_dict r) ''direction'' = Inr (JStr (zw_direction r))"
    "jindex (zw_to_dict r) ''low'' = Inr (JFloat (zw_low r))"
    "jindex (zw_to_dict r) ''high'' = Inr (JFloat (zw_high r))"
    "jget_default (zw_to_dict r) ''width'' d = Inr (JFloat (zw_width r))"
    "jget (zw_to_dict r) ''structural_sources'' = Inr (JList (map JStr (zw_structural_sources r)))"
    "jget (zw_to_dict r) ''confluence_tags'' = Inr (JList (map JStr (zw_confluence_tags r)))"
    "jget (zw_to_dict r) ''technique_tags'' = Inr (JList (map JStr (zw_technique_tags r)))"
    "jget_default (zw_to_dict r) ''discovered_at'' d = Inr (JInt (zw_discovered_at r))"
    "jget_default (zw_to_dict r) ''last_confirmed_at'' d = Inr (JInt (zw_last_confirmed_at r))"
    "jget (zw_to_dict r) ''last_touch_at'' = Inr (j_opt_int (zw_last_touch_at r))"
    "jget (zw_to_dict r) ''invalidation_price'' = Inr (j_opt_float (zw_invalidation_price r))"
    "jget_default (zw_to_dict r) ''updated_at'' d = Inr (JInt (zw_updated_at r))"
    "jget_default (zw_to_dict r) ''inside'' d = Inr (JBool (zw_inside r))"
    "jget (zw_to_dict r) ''episode_id'' = Inr (j_opt_str (zw_episode_id r))"
    "jget (zw_to_dict r) ''zone_entered_at'' = Inr (j_opt_int (zw_zone_entered_at r))"
    "jget (zw_to_dict r) ''zone_exited_at'' = Inr (j_opt_int (zw_zone_exited_at r))"
    "jget (zw_to_dict r) ''last_evaluated_m1_ts'' = Inr (j_opt_int (zw_last_evaluated_m1_ts r))"
    "jget (zw_to_dict r) ''last_plan_id'' = Inr (j_opt_str (zw_last_plan_id r))"
    "jget (zw_to_dict r) ''last_rearm_reason'' = Inr (j_opt_str (zw_last_rearm_reason r))" for d
    by (simp_all add: zw_to_dict_def)
  note h = this
  show ?thesis
    using assms by (simp add: zw_from_dict_def g h zw_normal_def)
qed

lemma get_or_str_nonempty: "d \<noteq> [] \<Longrightarrow> get_or data k (JStr d) py_str = Inr s \<Longrightarrow> s \<noteq> []"
  by (cases data) (auto simp: get_or_def py_or_def res_bind_Inr_iff dest: py_str_truthy split: if_splits)

lemma res_bindE: "res_bind m f = Inr b \<Longrightarrow> (\<And>a. m = Inr a \<Longrightarrow> f a = Inr b \<Longrightarrow> P) \<Longrightarrow> P"
  by (cases m) auto

lemma zw_from_dict_normal:
  assumes "zw_from_dict now d = Inr r"
  shows "zw_normal r"
proof -
  obtain st gr sy di tf where st: "get_or d ''state'' (JStr DISCOVERED_zw) py_str = Inr st"
    and gr: "get_or d ''grade'' (JStr GRADE_C) py_str = Inr gr"
    and r: "zw_state r = (if st = ''exhausted'' then EXPIRED_zw else st)" "zw_grade r = str_upper gr"
      "zw_symbol r = str_upper sy" "zw_direction r = str_upper di" "zw_source_timeframe r = str_upper tf"
    using assms unfolding zw_from_dict_def Let_def
    apply (elim res_bindE)
    apply (drule Inr_inject)
    apply hypsubst
    subgoal premises p
      by (rule p(1)[OF p(2) p(24)]) (simp_all only: zone_watch.simps)
    done
  show ?thesis using get_or_str_nonempty[OF _ st] get_or_str_nonempty[OF _ gr]
    by (simp add: zw_normal_def r state_sets GRADE_C_def)
qed

lemma zw_to_dict_inject: "zw_normal a \<Longrightarrow> zw_normal b \<Longrightarrow> zw_to_dict a = zw_to_dict b \<Longrightarrow> a = b"
  by (metis zw_normal_roundtrip sum.inject(2))

definition zone_at :: "keyspace \<Rightarrow> string \<Rightarrow> zone_watch \<Rightarrow> bool" where
  "zone_at K zid r \<longleftrightarrow> k_text K (zone_watch_key zid) = Some (Doc (zw_to_dict r)) \<and> zw_normal r"

lemma zone_at_inject: "zone_at K zid a \<Longrightarrow> zone_at K zid b \<Longrightarrow> a = b"
  by (auto simp: zone_at_def intro: zw_to_dict_inject)

lemma zone_at_key: "zone_at K zid r \<Longrightarrow> \<exists>e. K (zone_watch_key zid) = Some (VStr (Doc (zw_to_dict r)) e)"
  by (auto simp: zone_at_def k_text_def split: option.splits rvalue.splits)

text \<open>A zone id that cannot collide with an index key.\<close>

definition zid_ok :: "string \<Rightarrow> bool" where
  "zid_ok zid \<longleftrightarrow> \<not> str_startswith zid ''index''"

lemma zone_keys [simp]:
  "zone_watch_key a = zone_watch_key b \<longleftrightarrow> a = b"
  "zid_ok a \<Longrightarrow> zone_watch_key a \<noteq> ZONE_WATCH_INDEX_KEY"
  "zid_ok a \<Longrightarrow> zone_watch_key a \<noteq> ZONE_WATCH_SYMBOL_INDEX_PREFIX @ s"
  "zid_ok a \<Longrightarrow> ZONE_WATCH_INDEX_KEY \<noteq> zone_watch_key a"
  "zid_ok a \<Longrightarrow> ZONE_WATCH_SYMBOL_INDEX_PREFIX @ s \<noteq> zone_watch_key a"
  "ZONE_WATCH_INDEX_KEY \<noteq> ZONE_WATCH_SYMBOL_INDEX_PREFIX @ s"
  "ZONE_WATCH_SYMBOL_INDEX_PREFIX @ s \<noteq> ZONE_WATCH_INDEX_KEY"
  by (auto simp: zone_watch_key_def ZONE_WATCH_INDEX_KEY_def ZONE_WATCH_SYMBOL_INDEX_PREFIX_def
      zid_ok_def)

definition index_keys_ok :: "keyspace \<Rightarrow> bool" where
  "index_keys_ok K \<longleftrightarrow>
     is_set_key K ZONE_WATCH_INDEX_KEY \<and> (\<forall>s. is_set_key K (ZONE_WATCH_SYMBOL_INDEX_PREFIX @ s))"

lemma is_set_key_put [simp]:
  "is_set_key (put_set K k z) k' = (k' = k \<or> is_set_key K k')"
  "k' \<noteq> k \<Longrightarrow> is_set_key (K(k := v)) k' = is_set_key K k'"
  by (auto simp: is_set_key_def put_set_def)

definition zw_symbol_key :: "zone_watch \<Rightarrow> string" where
  "zw_symbol_key r = zone_watch_symbol_index_key (zw_symbol r)"

lemma zw_symbol_key_prefix: "zw_symbol_key r = ZONE_WATCH_SYMBOL_INDEX_PREFIX @ str_upper (str_strip (zw_symbol r))"
  by (simp add: zw_symbol_key_def zone_watch_symbol_index_key_def)

text \<open>The script with the arguments \<open>_cas_save\<close> gives it.\<close>

definition zw_cas :: "string \<Rightarrow> int \<Rightarrow> zone_watch \<Rightarrow> keyspace \<Rightarrow> redis_reply \<times> keyspace" where
  "zw_cas zid expected u K =
     lua_cas_save (zone_watch_key zid) ZONE_WATCH_INDEX_KEY (zw_symbol_key u) expected (zw_to_dict u)
       ZONE_WATCH_RETENTION_SECONDS zid (index_wants_record u) ZONE_WATCH_SYMBOL_INDEX_PREFIX K"

definition zw_write :: "string \<Rightarrow> string option \<Rightarrow> zone_watch \<Rightarrow> keyspace \<Rightarrow> redis_reply \<times> keyspace" where
  "zw_write zid psym u K =
     lua_cas_write (zone_watch_key zid) ZONE_WATCH_INDEX_KEY (zw_symbol_key u) (zw_to_dict u)
       ZONE_WATCH_RETENTION_SECONDS zid (index_wants_record u) ZONE_WATCH_SYMBOL_INDEX_PREFIX psym K"

lemma zw_write_views:
  assumes "zid_ok zid" "index_keys_ok K"
  shows "fst (zw_write zid psym u K) = RInt 1"
    "index_keys_ok (snd (zw_write zid psym u K))"
    "zid_ok z \<Longrightarrow> k_text (snd (zw_write zid psym u K)) (zone_watch_key z) =
       (if z = zid then Some (Doc (zw_to_dict u)) else k_text K (zone_watch_key z))"
    "zid_ok z \<Longrightarrow> snd (zw_write zid psym u K) (zone_watch_key z) =
       (if z = zid then Some (VStr (Doc (zw_to_dict u)) (Some ZONE_WATCH_RETENTION_SECONDS)) else K (zone_watch_key z))"
    "m \<in> set (k_set (snd (zw_write zid psym u K)) ZONE_WATCH_INDEX_KEY) \<longleftrightarrow>
       (if m = zid then index_wants_record u else m \<in> set (k_set K ZONE_WATCH_INDEX_KEY))"
    "zid \<in> set (k_set (snd (zw_write zid psym u K)) (zw_symbol_key u)) \<longleftrightarrow> index_wants_record u"
    "m \<noteq> zid \<Longrightarrow> m \<in> set (k_set (snd (zw_write zid psym u K)) (ZONE_WATCH_SYMBOL_INDEX_PREFIX @ s)) \<longleftrightarrow>
       m \<in> set (k_set K (ZONE_WATCH_SYMBOL_INDEX_PREFIX @ s))"
  using assms
  by (auto simp: zw_write_def lua_cas_write_def Let_def index_keys_ok_def zw_symbol_key_prefix
      k_set_upd k_text_upd split: option.split)


lemma zw_dict_obj: "zw_to_dict r = JObj kv \<Longrightarrow>
    lua_field_num kv ''revision'' = Some (zw_revision r) \<and> map_of kv ''symbol'' = Some (JStr (zw_symbol r)) \<and>
    lua_field_str kv ''symbol'' = zw_symbol r"
  by (auto simp: zw_to_dict_def lua_field_num_def lua_field_str_def)

lemma zw_dict_is_obj: "\<exists>kv. zw_to_dict r = JObj kv"
  by (simp add: zw_to_dict_def)

lemma zw_cas_present:
  assumes "zone_at K zid c"
  shows "zw_cas zid expected u K =
    (if expected \<ge> 0 \<and> zw_revision c = expected then zw_write zid (Some (zw_symbol c)) u K else (RInt 0, K))"
proof -
  obtain kv where kv: "zw_to_dict c = JObj kv" using zw_dict_is_obj by blast
  from zone_at_key[OF assms] obtain e where "K (zone_watch_key zid) = Some (VStr (Doc (JObj kv)) e)"
    by (auto simp: kv)
  with zw_dict_obj[OF kv] show ?thesis by (simp add: zw_cas_def zw_write_def lua_cas_save_def)
qed

lemma zw_cas_absent:
  "K (zone_watch_key zid) = None \<Longrightarrow>
   zw_cas zid expected u K = (if expected < 0 then zw_write zid None u K else (RInt (-1), K))"
  by (simp add: zw_cas_def zw_write_def lua_cas_save_def)

lemma zw_cas_cases:
  obtains r where "zw_cas zid expected u K = (r, K)" "r \<noteq> RInt 1"
  | psym where "zw_cas zid expected u K = zw_write zid psym u K"
proof -
  have "(\<exists>r. zw_cas zid expected u K = (r, K) \<and> r \<noteq> RInt 1) \<or> (\<exists>psym. zw_cas zid expected u K = zw_write zid psym u K)"
    unfolding zw_cas_def zw_write_def lua_cas_save_def
    by (simp split: option.split rvalue.split rtext.split json.split) blast
  then show thesis using that by blast
qed

definition zw_index_ok :: "keyspace \<Rightarrow> bool" where
  "zw_index_ok K \<longleftrightarrow> index_keys_ok K \<and>
     (\<forall>zid r. zid_ok zid \<longrightarrow> zone_at K zid r \<longrightarrow>
        (zid \<in> set (k_set K ZONE_WATCH_INDEX_KEY) \<longleftrightarrow> index_wants_record r) \<and>
        (zid \<in> set (k_set K (zw_symbol_key r)) \<longleftrightarrow> index_wants_record r))"

lemma zw_write_at:
  assumes "zid_ok zid" "index_keys_ok K" "zid_ok z" "zw_normal u"
  shows "zone_at (snd (zw_write zid psym u K)) z r \<longleftrightarrow> (if z = zid then r = u else zone_at K z r)"
  using zw_write_views(3)[OF assms(1-3)] assms(4)
  by (auto simp: zone_at_def intro: zw_to_dict_inject)

lemma zw_index_ok_write:
  assumes "zw_index_ok K" "zid_ok zid" "zw_normal u"
  shows "zw_index_ok (snd (zw_write zid psym u K))"
proof -
  have k: "index_keys_ok K" using assms(1) by (simp add: zw_index_ok_def)
  note v = zw_write_views[OF assms(2) k, where psym = psym and u = u]
  show ?thesis
    unfolding zw_index_ok_def
  proof (intro conjI allI impI)
    show "index_keys_ok (snd (zw_write zid psym u K))" by (rule v(2))
    fix z r assume z: "zid_ok z" "zone_at (snd (zw_write zid psym u K)) z r"
    then have at: "if z = zid then r = u else zone_at K z r"
      using zw_write_at[OF assms(2) k z(1) assms(3)] by simp
    show "(z \<in> set (k_set (snd (zw_write zid psym u K)) ZONE_WATCH_INDEX_KEY)) = index_wants_record r"
      using at z(1) assms(1) by (auto simp: v(5) zw_index_ok_def split: if_splits)
    show "(z \<in> set (k_set (snd (zw_write zid psym u K)) (zw_symbol_key r))) = index_wants_record r"
      using at z(1) assms(1) v(6)
      by (cases "z = zid") (auto simp: zw_symbol_key_prefix v(7) zw_index_ok_def)
  qed
qed

lemma zw_index_ok_cas:
  assumes "zw_index_ok K" "zid_ok zid" "zw_normal u"
  shows "zw_index_ok (snd (zw_cas zid expected u K))"
  by (rule zw_cas_cases[of zid expected u K]) (use assms zw_index_ok_write in auto)

lemma zw_index_ok_expire:
  assumes "zw_index_ok K" "K key = Some (VStr t e)"
  shows "zw_index_ok (K(key := None))"
proof -
  have ne: "ZONE_WATCH_INDEX_KEY \<noteq> key" "ZONE_WATCH_SYMBOL_INDEX_PREFIX @ s \<noteq> key" for s
    using assms by (auto simp: zw_index_ok_def index_keys_ok_def is_set_key_def dest: spec[of _ s])
  have at: "zone_at (K(key := None)) z r \<Longrightarrow> zone_at K z r" for z r
    by (auto simp: zone_at_def k_text_upd split: if_splits)
  show ?thesis
    using assms(1) ne at by (auto simp: zw_index_ok_def index_keys_ok_def k_set_upd zw_symbol_key_prefix)
qed

section \<open>Tasks\<close>

datatype zw_task =
    ZT_discover discovery
  | ZT_transition string string "zw_field list"
  | ZT_presence string bool bool bool
  | ZT_touch string
  | ZT_lock string string
  | ZT_consume string "string option"
  | ZT_rearm string string bool
  | ZT_outcome string string string "string option"
  | ZT_m1 string int

fun zw_task_prog :: "(string \<Rightarrow> string) \<Rightarrow> int \<times> zw_task \<Rightarrow> unit prog" where
  "zw_task_prog sha (now, ZT_discover d) = pbind (discover_zone_watch False now d) (\<lambda>_. Done ())"
| "zw_task_prog sha (now, ZT_transition zid st ups) =
     pbind (transition_zone_watch False now zid st ups) (\<lambda>_. Done ())"
| "zw_task_prog sha (now, ZT_presence zid ins htf brk) =
     pbind (record_zone_presence sha False now zid ins htf brk) (\<lambda>_. Done ())"
| "zw_task_prog sha (now, ZT_touch zid) = pbind (record_zone_touch False now zid) (\<lambda>_. Done ())"
| "zw_task_prog sha (now, ZT_lock zid plan) =
     pbind (lock_zone_watch_published False now zid plan) (\<lambda>_. Done ())"
| "zw_task_prog sha (now, ZT_consume zid plan) =
     pbind (consume_zone_watch False now zid plan) (\<lambda>_. Done ())"
| "zw_task_prog sha (now, ZT_rearm zid reason fresh) =
     pbind (rearm_zone_watch sha False now zid reason fresh) (\<lambda>_. Done ())"
| "zw_task_prog sha (now, ZT_outcome zid outcome reason plan) =
     pbind (apply_zone_watch_plan_outcome sha False now zid outcome reason plan) (\<lambda>_. Done ())"
| "zw_task_prog sha (now, ZT_m1 zid ts) = pbind (mark_m1_evaluated False now zid ts) (\<lambda>_. Done ())"

fun zw_task_zone :: "zw_task \<Rightarrow> string" where
  "zw_task_zone (ZT_discover d) = d_zone_id d"
| "zw_task_zone (ZT_transition zid st ups) = zid"
| "zw_task_zone (ZT_presence zid ins htf brk) = zid"
| "zw_task_zone (ZT_touch zid) = zid"
| "zw_task_zone (ZT_lock zid plan) = zid"
| "zw_task_zone (ZT_consume zid plan) = zid"
| "zw_task_zone (ZT_rearm zid reason fresh) = zid"
| "zw_task_zone (ZT_outcome zid outcome reason plan) = zid"
| "zw_task_zone (ZT_m1 zid ts) = zid"

text \<open>
  The specification of a task: the record it stores when it runs atomically on a zone whose
  record is the argument, \<open>None\<close> when it writes nothing.
\<close>

definition bumped :: "zone_watch \<Rightarrow> zone_watch \<Rightarrow> zone_watch" where
  "bumped c u = u\<lparr>zw_version := ZONE_WATCH_VERSION, zw_revision := zw_revision c + 1\<rparr>"

definition mutated :: "'a mutator \<Rightarrow> zone_watch option \<Rightarrow> zone_watch option" where
  "mutated mutator stored =
     (case stored of None \<Rightarrow> None
      | Some c \<Rightarrow> (case mutator c of Inl e \<Rightarrow> None
                   | Inr (u, x) \<Rightarrow> if u = c then None else Some (bumped c u)))"

definition consume_fields :: "string option \<Rightarrow> zw_field list" where
  "consume_fields plan = (case plan of None \<Rightarrow> [] | Some p \<Rightarrow> [ZF_last_plan_id (Some p)])"

fun zw_task_next :: "(string \<Rightarrow> string) \<Rightarrow> int \<times> zw_task \<Rightarrow> zone_watch option \<Rightarrow> zone_watch option" where
  "zw_task_next sha (now, ZT_discover d) stored =
     (if \<not> d_low d < d_high d then None
      else (case stored of None \<Rightarrow> Some (created_zone now d) | Some c \<Rightarrow> Some (refreshed_zone now d c)))"
| "zw_task_next sha (now, ZT_transition zid st ups) stored =
     (if st \<in> set ZONE_WATCH_STATES then mutated (transition_mutator now st ups) stored else None)"
| "zw_task_next sha (now, ZT_presence zid ins htf brk) stored =
     mutated (presence_mutator sha now zid ins htf brk) stored"
| "zw_task_next sha (now, ZT_touch zid) stored = mutated (touch_mutator now) stored"
| "zw_task_next sha (now, ZT_lock zid plan) stored =
     mutated (transition_mutator now PUBLISHED_LOCKED
       [ZF_last_plan_id (Some plan), ZF_last_rearm_reason None]) stored"
| "zw_task_next sha (now, ZT_consume zid plan) stored =
     mutated (transition_mutator now CONSUMED_zw (consume_fields plan)) stored"
| "zw_task_next sha (now, ZT_rearm zid reason fresh) stored =
     (if reason = [] then None else mutated (rearm_mutator sha now zid reason fresh) stored)"
| "zw_task_next sha (now, ZT_outcome zid outcome reason plan) stored =
     (let normalized = str_lower (str_strip outcome) in
      if normalized \<in> fill_outcomes
      then mutated (transition_mutator now CONSUMED_zw (consume_fields plan)) stored
      else if normalized \<in> retry_outcomes
      then mutated (rearm_mutator sha now zid (or_keep reason (''plan_outcome_'' @ normalized)) False) stored
      else None)"
| "zw_task_next sha (now, ZT_m1 zid ts) stored = mutated (m1_mutator now ts) stored"

subsection \<open>Laws of the operations\<close>

text \<open>What every operation keeps of a zone (its identity), and the one way a state moves.\<close>

definition zone_step :: "zone_watch \<Rightarrow> zone_watch \<Rightarrow> bool" where
  "zone_step c u \<longleftrightarrow>
     zw_zone_id u = zw_zone_id c \<and> zw_symbol u = zw_symbol c \<and> zw_direction u = zw_direction c \<and>
     zw_revision u = zw_revision c + 1 \<and>
     (zw_state u = zw_state c \<or> zw_state u \<in> allowed_from_zw (zw_state c)) \<and>
     (zw_grade u = zw_grade c \<or> zw_grade c = GRADE_A \<and> zw_grade u = GRADE_B) \<and>
     zw_touch_count c \<le> zw_touch_count u \<and> zw_touch_count u \<le> zw_touch_count c + 1"

lemma fold_zw_fields [simp]:
  "zw_zone_id (fold apply_zw_field ups r) = zw_zone_id r"
  "zw_symbol (fold apply_zw_field ups r) = zw_symbol r"
  "zw_direction (fold apply_zw_field ups r) = zw_direction r"
  "zw_source_timeframe (fold apply_zw_field ups r) = zw_source_timeframe r"
  "zw_state (fold apply_zw_field ups r) = zw_state r"
  "zw_grade (fold apply_zw_field ups r) = zw_grade r"
  "zw_touch_count (fold apply_zw_field ups r) = zw_touch_count r"
proof (induction ups arbitrary: r)
  case (Cons f fs)
  { case 1 then show ?case by (cases f) (simp_all add: Cons.IH(1)) }
  { case 2 then show ?case by (cases f) (simp_all add: Cons.IH(2)) }
  { case 3 then show ?case by (cases f) (simp_all add: Cons.IH(3)) }
  { case 4 then show ?case by (cases f) (simp_all add: Cons.IH(4)) }
  { case 5 then show ?case by (cases f) (simp_all add: Cons.IH(5)) }
  { case 6 then show ?case by (cases f) (simp_all add: Cons.IH(6)) }
  { case 7 then show ?case by (cases f) (simp_all add: Cons.IH(7)) }
qed simp_all


lemma allowed_from_zw_simps:
  "allowed_from_zw DISCOVERED_zw = {WATCHING_RETEST, EVALUATING, INVALIDATED_zw, EXPIRED_zw}"
  "allowed_from_zw WATCHING_RETEST = {EVALUATING, PUBLISHED_LOCKED, INVALIDATED_zw, EXPIRED_zw}"
  "allowed_from_zw EVALUATING = {WATCHING_RETEST, PUBLISHED_LOCKED, INVALIDATED_zw, EXPIRED_zw}"
  "allowed_from_zw PUBLISHED_LOCKED = {CONSUMED_zw, WATCHING_RETEST, INVALIDATED_zw, EXPIRED_zw}"
  "allowed_from_zw CONSUMED_zw = {}" "allowed_from_zw INVALIDATED_zw = {}"
  "allowed_from_zw EXPIRED_zw = {}"
  by (simp_all add: allowed_from_zw_def TRANSITIONS_zw_def state_sets)

lemma zw_states_distinct: "distinct ZONE_WATCH_STATES"
  by (simp add: ZONE_WATCH_STATES_def state_sets)

lemmas zw_state_neq = zw_states_distinct[unfolded ZONE_WATCH_STATES_def, simplified]

lemma zw_states_normal: "st \<in> set ZONE_WATCH_STATES \<Longrightarrow> st \<noteq> [] \<and> st \<noteq> ''exhausted''"
  by (auto simp: ZONE_WATCH_STATES_def state_sets)

lemma allowed_from_zw_states: "b \<in> allowed_from_zw a \<Longrightarrow> b \<in> set ZONE_WATCH_STATES"
  by (auto simp: allowed_from_zw_def TRANSITIONS_zw_def ZONE_WATCH_STATES_def split: if_splits)

definition zw_valid :: "zone_watch \<Rightarrow> bool" where
  "zw_valid r \<longleftrightarrow> zw_normal r \<and> zw_state r \<in> set ZONE_WATCH_STATES \<and> 0 \<le> zw_revision r"

lemma grade_rule:
  "fst (grade_for_touch_count n g) = g \<or> g = GRADE_A \<and> fst (grade_for_touch_count n g) = GRADE_B"
  by (simp add: grade_for_touch_count_def)

text \<open>\<open>zone_step\<close> without the revision, which \<open>_mutate\<close> adds.\<close>

definition zone_move :: "zone_watch \<Rightarrow> zone_watch \<Rightarrow> bool" where
  "zone_move c u \<longleftrightarrow>
     zw_zone_id u = zw_zone_id c \<and> zw_symbol u = zw_symbol c \<and> zw_direction u = zw_direction c \<and>
     zw_source_timeframe u = zw_source_timeframe c \<and>
     (zw_state u = zw_state c \<or> zw_state u \<in> allowed_from_zw (zw_state c)) \<and>
     (zw_grade u = zw_grade c \<or> zw_grade c = GRADE_A \<and> zw_grade u = GRADE_B) \<and>
     zw_touch_count c \<le> zw_touch_count u \<and> zw_touch_count u \<le> zw_touch_count c + 1"

lemma transition_move: "transition_mutator now st ups c = Inr (u, x) \<Longrightarrow> zone_move c u"
  by (auto simp: transition_mutator_def zone_move_def split: if_splits)

lemma touch_move: "touch_mutator now c = Inr (u, x) \<Longrightarrow> zone_move c u"
  using grade_rule[of "zw_touch_count c + 1" "zw_grade c"]
  by (auto simp: touch_mutator_def zone_move_def Let_def split: if_splits)

lemma m1_move: "m1_mutator now ts c = Inr (u, x) \<Longrightarrow> zone_move c u"
  by (auto simp: m1_mutator_def zone_move_def split: if_splits)

lemma rearm_move: "rearm_mutator sha now zid reason fresh c = Inr (u, x) \<Longrightarrow> zone_move c u"
  by (auto simp: rearm_mutator_def zone_move_def allowed_from_zw_simps split: if_splits)

lemma active_states:
  "st \<in> set ZONE_WATCH_STATES \<Longrightarrow> st \<notin> TERMINAL_ZONE_WATCH_STATES \<Longrightarrow> st \<notin> LOCKED_ZONE_WATCH_STATES \<Longrightarrow>
   st = DISCOVERED_zw \<or> st = WATCHING_RETEST \<or> st = EVALUATING"
  by (auto simp: ZONE_WATCH_STATES_def TERMINAL_ZONE_WATCH_STATES_def LOCKED_ZONE_WATCH_STATES_def)

lemma presence_move:
  assumes "presence_mutator sha now zid ins htf brk c = Inr (u, x)" "zw_state c \<in> set ZONE_WATCH_STATES"
  shows "zone_move c u"
proof (cases "zw_state c \<in> TERMINAL_ZONE_WATCH_STATES \<or> zw_state c \<in> LOCKED_ZONE_WATCH_STATES")
  case True
  with assms(1) have "u = c" by (simp add: presence_mutator_def split: if_splits)
  then show ?thesis by (simp add: zone_move_def)
next
  case False
  with active_states[OF assms(2)]
  have "zw_state c = DISCOVERED_zw \<or> zw_state c = WATCHING_RETEST \<or> zw_state c = EVALUATING" by simp
  then have al: "EVALUATING = zw_state c \<or> EVALUATING \<in> allowed_from_zw (zw_state c)"
    "WATCHING_RETEST = zw_state c \<or> WATCHING_RETEST \<in> allowed_from_zw (zw_state c)"
    "INVALIDATED_zw \<in> allowed_from_zw (zw_state c)"
    by (auto simp: allowed_from_zw_simps)
  have u: "zw_state u \<in> {zw_state c, EVALUATING, WATCHING_RETEST, INVALIDATED_zw}"
    "zw_zone_id u = zw_zone_id c" "zw_symbol u = zw_symbol c" "zw_direction u = zw_direction c"
    "zw_source_timeframe u = zw_source_timeframe c"
    "zw_touch_count u = zw_touch_count c \<or> zw_touch_count u = zw_touch_count c + 1"
    "zw_grade u = zw_grade c \<or> zw_grade u = fst (grade_for_touch_count (zw_touch_count c + 1) (zw_grade c))"
    using assms(1) False by (auto simp: presence_mutator_def Let_def split: if_splits)
  have "zw_state u = zw_state c \<or> zw_state u \<in> allowed_from_zw (zw_state c)"
    using u(1) al by auto
  moreover have "zw_grade u = zw_grade c \<or> zw_grade c = GRADE_A \<and> zw_grade u = GRADE_B"
    using u(7) grade_rule by metis
  ultimately show ?thesis using u(2-6) by (auto simp: zone_move_def)
qed

lemma refreshed_step: "zone_step c (refreshed_zone now d c)"
  by (simp add: zone_step_def refreshed_zone_def)

lemma move_step: "zone_move c u \<Longrightarrow> zone_step c (bumped c u)"
  by (simp add: zone_move_def zone_step_def bumped_def)

lemma mutated_step:
  assumes "mutated m (Some c) = Some u" "\<And>w x. m c = Inr (w, x) \<Longrightarrow> zone_move c w" "zw_valid c"
  shows "zone_step c u \<and> zw_valid u"
proof -
  obtain w x where w: "m c = Inr (w, x)" "u = bumped c w"
    using assms(1) by (auto simp: mutated_def split: sum.splits if_splits)
  have mv: "zone_move c w" by (rule assms(2)[OF w(1)])
  then have "zw_state w \<in> set ZONE_WATCH_STATES"
    using assms(3) allowed_from_zw_states by (auto simp: zone_move_def zw_valid_def)
  moreover have "str_upper GRADE_B = GRADE_B" "GRADE_B \<noteq> []"
    by (simp_all add: GRADE_B_def str_upper_def char_upper_def)
  ultimately have "zw_valid u"
    using mv assms(3) zw_states_normal by (auto simp: zw_valid_def zw_normal_def zone_move_def w(2) bumped_def)
  with move_step[OF mv] w(2) show ?thesis by simp
qed

fun zw_task_wf :: "int \<times> zw_task \<Rightarrow> bool" where
  "zw_task_wf (now, ZT_discover d) = (zid_ok (d_zone_id d) \<and> d_grade d \<noteq> [])"
| "zw_task_wf (now, t) = zid_ok (zw_task_zone t)"

lemma or_keep_upper: "str_upper b = b \<Longrightarrow> str_upper (or_keep (str_upper a) b) = or_keep (str_upper a) b"
  by (simp add: or_keep_def)

lemma task_next_step:
  assumes "zw_task_next sha t (Some c) = Some u" "zw_valid c"
  shows "zone_step c u \<and> zw_valid u"
proof (cases t)
  case (Pair now k)
  note mt = mutated_step[OF _ _ assms(2)]
  have st: "zw_state c \<in> set ZONE_WATCH_STATES" using assms(2) by (simp add: zw_valid_def)
  show ?thesis
  proof (cases k)
    case (ZT_discover d)
    then have "u = refreshed_zone now d c" using assms(1) Pair by (auto split: if_splits)
    moreover have "zw_valid (refreshed_zone now d c)"
      using assms(2) by (simp add: zw_valid_def zw_normal_def refreshed_zone_def or_keep_upper)
    ultimately show ?thesis using refreshed_step by simp
  next
    case (ZT_outcome zid outcome reason plan)
    then show ?thesis
      using assms(1) Pair
      by (auto simp: Let_def split: if_splits intro!: mt intro: transition_move rearm_move)
  qed (use assms(1) Pair st in \<open>auto split: if_splits intro!: mt
      intro: transition_move rearm_move touch_move m1_move presence_move\<close>)
qed

lemma task_next_created:
  assumes "zw_task_next sha t None = Some u" "zw_task_wf t"
  shows "zw_valid u \<and> zw_zone_id u = zw_task_zone (snd t) \<and> zw_revision u = 0 \<and> zw_state u = DISCOVERED_zw"
  using assms
  by (cases t; cases "snd t")
     (auto simp: mutated_def created_zone_def zw_valid_def zw_normal_def ZONE_WATCH_STATES_def state_sets
       Let_def split: if_splits)


subsection \<open>What a task knows\<close>

definition cas_args :: "string \<Rightarrow> int \<Rightarrow> zone_watch \<Rightarrow> string list \<times> rarg list" where
  "cas_args zid e u =
     ([zone_watch_key zid, ZONE_WATCH_INDEX_KEY, zw_symbol_key u],
      [AInt e, ADoc (zw_to_dict u), AInt ZONE_WATCH_RETENTION_SECONDS, AStr zid,
       AInt (if index_wants_record u then 1 else 0), AStr ZONE_WATCH_SYMBOL_INDEX_PREFIX])"

fun zw_cmd :: "(string \<Rightarrow> string) \<Rightarrow> (int \<times> zw_task) list \<Rightarrow> zone_watch set \<Rightarrow> redis_cmd \<Rightarrow> bool" where
  "zw_cmd sha ts H (GET k) = True"
| "zw_cmd sha ts H (EVAL sc keys args) =
     (sc = CAS_SAVE_LUA \<and> (\<exists>t\<in>set ts. \<exists>u e. (keys, args) = cas_args (zw_zone_id u) e u \<and> zw_task_wf t \<and>
        zw_zone_id u = zw_task_zone (snd t) \<and>
        (e = -1 \<and> zw_task_next sha t None = Some u \<or>
         (\<exists>c\<in>H. zw_zone_id c = zw_zone_id u \<and> e = zw_revision c \<and> zw_task_next sha t (Some c) = Some u))))"
| "zw_cmd sha ts H _ = False"

definition zw_rep :: "zone_watch set \<Rightarrow> redis_cmd \<Rightarrow> redis_reply \<Rightarrow> bool" where
  "zw_rep H cm r \<longleftrightarrow>
     (\<forall>zid t. zid_ok zid \<longrightarrow> cm = GET (zone_watch_key zid) \<longrightarrow> r = RBulk t \<longrightarrow>
        (\<exists>c\<in>H. zw_zone_id c = zid \<and> zw_valid c \<and> t = Doc (zw_to_dict c)))"

definition zw_inv :: "zone_watch set \<Rightarrow> keyspace \<Rightarrow> bool" where
  "zw_inv H K \<longleftrightarrow> zw_index_ok K \<and> (\<forall>c\<in>H. zw_valid c \<and> zid_ok (zw_zone_id c)) \<and>
     (\<forall>zid. zid_ok zid \<longrightarrow> K (zone_watch_key zid) = None \<or>
        (\<exists>c\<in>H. zw_zone_id c = zid \<and> zone_at K zid c))"

text \<open>Without expiry a revision identifies the record, and the stored one is the newest.\<close>

definition zw_lin :: "zone_watch set \<Rightarrow> keyspace \<Rightarrow> bool" where
  "zw_lin H K \<longleftrightarrow> zw_inv H K \<and>
     (\<forall>c\<in>H. \<exists>r\<in>H. zw_zone_id r = zw_zone_id c \<and> zone_at K (zw_zone_id c) r \<and> zw_revision c \<le> zw_revision r) \<and>
     (\<forall>c\<in>H. \<forall>c'\<in>H. zw_zone_id c = zw_zone_id c' \<longrightarrow> zw_revision c = zw_revision c' \<longrightarrow> c = c')"

lemma zw_inv_stored:
  assumes "zw_inv H K" "zid_ok zid"
  obtains "K (zone_watch_key zid) = None" | c where "c \<in> H" "zw_zone_id c = zid" "zone_at K zid c"
proof -
  have "K (zone_watch_key zid) = None \<or> (\<exists>c\<in>H. zw_zone_id c = zid \<and> zone_at K zid c)"
    using assms by (simp add: zw_inv_def)
  then show thesis
  proof (elim disjE bexE conjE)
    assume "K (zone_watch_key zid) = None" then show thesis by (rule that(1))
  next
    fix c assume "c \<in> H" "zw_zone_id c = zid" "zone_at K zid c" then show thesis by (rule that(2))
  qed
qed

lemma zw_inv_valid: "zw_inv H K \<Longrightarrow> c \<in> H \<Longrightarrow> zw_valid c"
  by (simp add: zw_inv_def)

lemma keff_cas: "(keys, args) = cas_args zid e u \<Longrightarrow> keff (EVAL CAS_SAVE_LUA keys args) K = snd (zw_cas zid e u K)"
  by (auto simp: cas_args_def keff_def lua_eval_def zw_cas_def)

lemma zw_inv_write:
  assumes "zw_inv H K" "zid_ok (zw_zone_id u)" "zw_valid u"
  shows "zw_inv (insert u H) (snd (zw_write (zw_zone_id u) psym u K))"
proof -
  have k: "zw_index_ok K" "index_keys_ok K" "zw_normal u"
    using assms(1,3) by (simp_all add: zw_inv_def zw_index_ok_def zw_valid_def)
  note at = zw_write_at[OF assms(2) k(2) _ k(3)]
  note v = zw_write_views[OF assms(2) k(2)]
  show ?thesis
    using assms(1,2,3) zw_index_ok_write[OF k(1) assms(2) k(3)]
    by (auto simp: zw_inv_def at v(4))
qed

lemma zw_lin_write:
  assumes "zw_lin H K" "zid_ok (zw_zone_id u)" "zw_valid u"
    "\<And>c. c \<in> H \<Longrightarrow> zw_zone_id c = zw_zone_id u \<Longrightarrow> zw_revision c < zw_revision u"
  shows "zw_lin (insert u H) (snd (zw_write (zw_zone_id u) psym u K))"
proof -
  have inv: "zw_inv H K" using assms(1) by (simp add: zw_lin_def)
  have k: "index_keys_ok K" "zw_normal u"
    using inv assms(3) by (simp_all add: zw_inv_def zw_index_ok_def zw_valid_def)
  note at = zw_write_at[OF assms(2) k(1) _ k(2)]
  have ids: "\<And>c. c \<in> H \<Longrightarrow> zid_ok (zw_zone_id c)" using inv by (simp add: zw_inv_def)
  have "\<exists>r\<in>insert u H. zw_zone_id r = zw_zone_id c \<and>
      zone_at (snd (zw_write (zw_zone_id u) psym u K)) (zw_zone_id c) r \<and> zw_revision c \<le> zw_revision r"
    if "c \<in> insert u H" for c
  proof (cases "zw_zone_id c = zw_zone_id u")
    case True
    with that assms(4)[of c] show ?thesis by (auto simp: at assms(2) intro!: bexI[of _ u])
  next
    case False
    with that have "c \<in> H" by auto
    with assms(1) obtain r where "r \<in> H" "zw_zone_id r = zw_zone_id c" "zone_at K (zw_zone_id c) r"
      "zw_revision c \<le> zw_revision r" by (auto simp: zw_lin_def)
    with False ids[OF \<open>c \<in> H\<close>] show ?thesis by (auto simp: at intro!: bexI[of _ r])
  qed
  moreover have "\<forall>c\<in>insert u H. \<forall>c'\<in>insert u H. zw_zone_id c = zw_zone_id c' \<longrightarrow>
      zw_revision c = zw_revision c' \<longrightarrow> c = c'"
    using assms(1) assms(4) by (fastforce simp: zw_lin_def)
  ultimately show ?thesis using zw_inv_write[OF inv assms(2,3)] by (simp add: zw_lin_def)
qed

text \<open>The effect of one admissible compare-and-swap.\<close>

lemma cas_effect:
  assumes "zw_cmd sha ts H (EVAL sc keys args)" "zw_inv H K"
  obtains "keff (EVAL sc keys args) K = K"
  | t u psym where "t \<in> set ts" "zid_ok (zw_zone_id u)" "zw_zone_id u = zw_task_zone (snd t)" "zw_valid u"
    "keff (EVAL sc keys args) K = snd (zw_write (zw_zone_id u) psym u K)"
    "K (zone_watch_key (zw_zone_id u)) = None \<and> zw_task_next sha t None = Some u \<or>
     (\<exists>r c. r \<in> H \<and> c \<in> H \<and> zone_at K (zw_zone_id u) r \<and> zw_zone_id r = zw_zone_id u \<and>
        zw_zone_id c = zw_zone_id u \<and> zw_revision r = zw_revision c \<and>
        zw_task_next sha t (Some c) = Some u \<and> zw_revision u = zw_revision r + 1)"
proof -
  obtain t u e where t: "t \<in> set ts" "sc = CAS_SAVE_LUA" "(keys, args) = cas_args (zw_zone_id u) e u"
    "zw_task_wf t" "zw_zone_id u = zw_task_zone (snd t)"
    and e: "e = -1 \<and> zw_task_next sha t None = Some u \<or>
         (\<exists>c\<in>H. zw_zone_id c = zw_zone_id u \<and> e = zw_revision c \<and> zw_task_next sha t (Some c) = Some u)"
    using assms(1) unfolding zw_cmd.simps by blast
  have ok: "zid_ok (zw_zone_id u)" using t(4,5) by (cases t; cases "snd t") auto
  have k: "keff (EVAL sc keys args) K = snd (zw_cas (zw_zone_id u) e u K)"
    using keff_cas[OF t(3)] t(2) by simp
  have valid: "zw_valid u"
    using e
  proof (elim disjE conjE bexE)
    assume "zw_task_next sha t None = Some u"
    then show ?thesis using task_next_created[OF _ t(4)] by blast
  next
    fix c assume "c \<in> H" "zw_task_next sha t (Some c) = Some u"
    then show ?thesis using task_next_step assms(2) by (simp add: zw_inv_def)
  qed
  have pos: "e = -1 \<or> 0 \<le> e" using e assms(2) by (auto simp: zw_inv_def zw_valid_def)
  show thesis
  proof (cases rule: zw_inv_stored[OF assms(2) ok])
    case 1
    note c = zw_cas_absent[of K "zw_zone_id u" e u, OF 1]
    show thesis
    proof (cases "e < 0")
      case True
      have "zw_task_next sha t None = Some u"
        using e
      proof (elim disjE conjE bexE)
        fix c' assume "c' \<in> H" "e = zw_revision c'"
        with True zw_inv_valid[OF assms(2), of c'] show ?thesis by (simp add: zw_valid_def)
      qed
      with 1 True c k that(2)[OF t(1) ok t(5) valid, of None] show thesis by simp
    next
      case False
      with c k that(1) show thesis by simp
    qed
  next
    case (2 r)
    note c = zw_cas_present[OF 2(3), of e u]
    show thesis
    proof (cases "0 \<le> e \<and> zw_revision r = e")
      case True
      with e obtain c' where c': "c' \<in> H" "zw_zone_id c' = zw_zone_id u" "e = zw_revision c'"
        "zw_task_next sha t (Some c') = Some u" by auto
      then have "zw_revision u = zw_revision c' + 1"
        using task_next_step[OF c'(4)] assms(2) by (auto simp: zw_inv_def zone_step_def)
      with True c' 2 have "\<exists>r c. r \<in> H \<and> c \<in> H \<and> zone_at K (zw_zone_id u) r \<and>
          zw_zone_id r = zw_zone_id u \<and> zw_zone_id c = zw_zone_id u \<and> zw_revision r = zw_revision c \<and>
          zw_task_next sha t (Some c) = Some u \<and> zw_revision u = zw_revision r + 1"
        by (intro exI[of _ r] exI[of _ c'] conjI) simp_all
      with True c k show thesis
        by (intro that(2)[OF t(1) ok t(5) valid, of "Some (zw_symbol r)"] disjI2) simp_all
    next
      case False
      with k c that(1) show thesis by auto
    qed
  qed
qed


lemma zw_answer_read:
  assumes "zw_inv H K" "reply_ok (GET k) K r"
  shows "zw_rep H (GET k) r" "keff (GET k) K = K"
proof -
  show "keff (GET k) K = K" by (auto simp: keff_def split: option.splits rvalue.splits)
  show "zw_rep H (GET k) r"
    unfolding zw_rep_def
  proof (intro allI impI)
    fix zid t assume z: "zid_ok zid" "GET k = GET (zone_watch_key zid)" "r = RBulk t"
    then have k: "k = zone_watch_key zid" by simp
    show "\<exists>c\<in>H. zw_zone_id c = zid \<and> zw_valid c \<and> t = Doc (zw_to_dict c)"
    proof (cases rule: zw_inv_stored[OF assms(1) z(1)])
      case 1
      with assms(2) z show ?thesis by (simp add: reply_ok_def)
    next
      case (2 c)
      from zone_at_key[OF 2(3)] obtain e where "K k = Some (VStr (Doc (zw_to_dict c)) e)"
        unfolding k ..
      with assms(2) z(3) have "t = Doc (zw_to_dict c)" by (simp add: reply_ok_def)
      moreover have "zw_valid c" by (rule zw_inv_valid[OF assms(1) 2(1)])
      ultimately show ?thesis using 2 by blast
    qed
  qed
qed

interpretation zi: task_logic "(\<subseteq>)" "zw_cmd sha ts" zw_rep zw_inv for sha ts
proof
  fix h h' :: "zone_watch set" and c assume "zw_cmd sha ts h c" "h \<subseteq> h'"
  then show "zw_cmd sha ts h' c" by (cases c) (simp_all, blast)
next
  fix h K c r assume c: "zw_cmd sha ts h c" "zw_inv h K" "reply_ok c K r"
  show "\<exists>h'. h \<subseteq> h' \<and> zw_inv h' (keff c K) \<and> zw_rep h' c r"
  proof (cases c)
    case (GET k)
    with zw_answer_read[of h K k r] c have "zw_rep h c r" "keff c K = K" by simp_all
    with c(2) show ?thesis by (intro exI[of _ h]) (simp only: subset_refl simp_thms)
  next
    case (EVAL sc keys args)
    then have "zw_rep h' c r" for h' by (simp add: zw_rep_def)
    moreover have "\<exists>h'. h \<subseteq> h' \<and> zw_inv h' (keff c K)"
    proof (rule cas_effect[OF c(1)[unfolded EVAL] c(2)])
      assume "keff (EVAL sc keys args) K = K"
      with c(2) EVAL show ?thesis by auto
    next
      fix u psym
      assume "zid_ok (zw_zone_id u)" "zw_valid u"
        "keff (EVAL sc keys args) K = snd (zw_write (zw_zone_id u) psym u K)"
      then have "zw_inv (insert u h) (keff c K)"
        using zw_inv_write[OF c(2)] EVAL by (simp only:)
      then show ?thesis by blast
    qed
    ultimately show ?thesis by blast
  qed (use c(1) in simp_all)
qed (auto simp: zw_rep_def)

interpretation zl: task_logic "(\<subseteq>)" "zw_cmd sha ts" zw_rep zw_lin for sha ts
proof
  fix h K c r assume c: "zw_cmd sha ts h c" "zw_lin h K" "reply_ok c K r"
  then have inv: "zw_inv h K" by (simp add: zw_lin_def)
  show "\<exists>h'. h \<subseteq> h' \<and> zw_lin h' (keff c K) \<and> zw_rep h' c r"
  proof (cases c)
    case (GET k)
    with zw_answer_read[OF inv, of k r] c have "zw_rep h c r" "keff c K = K" by simp_all
    with c(2) show ?thesis by (intro exI[of _ h]) (simp only: subset_refl simp_thms)
  next
    case (EVAL sc keys args)
    then have "zw_rep h' c r" for h' by (simp add: zw_rep_def)
    moreover have "\<exists>h'. h \<subseteq> h' \<and> zw_lin h' (keff c K)"
    proof (rule cas_effect[OF c(1)[unfolded EVAL] inv])
      assume "keff (EVAL sc keys args) K = K"
      with c(2) EVAL show ?thesis by auto
    next
      fix t u psym
      assume u: "zid_ok (zw_zone_id u)" "zw_valid u"
        "keff (EVAL sc keys args) K = snd (zw_write (zw_zone_id u) psym u K)"
        "K (zone_watch_key (zw_zone_id u)) = None \<and> zw_task_next sha t None = Some u \<or>
         (\<exists>r c. r \<in> h \<and> c \<in> h \<and> zone_at K (zw_zone_id u) r \<and> zw_zone_id r = zw_zone_id u \<and>
        zw_zone_id c = zw_zone_id u \<and> zw_revision r = zw_revision c \<and>
        zw_task_next sha t (Some c) = Some u \<and> zw_revision u = zw_revision r + 1)"
      have "zw_revision c' < zw_revision u" if "c' \<in> h" "zw_zone_id c' = zw_zone_id u" for c'
      proof -
        note same = that(2)
        have "\<exists>r\<in>h. zw_zone_id r = zw_zone_id c' \<and> zone_at K (zw_zone_id c') r \<and> zw_revision c' \<le> zw_revision r"
          using c(2) that(1) by (simp add: zw_lin_def)
        then obtain r' where r': "zone_at K (zw_zone_id u) r'" "zw_revision c' \<le> zw_revision r'"
          unfolding same by (elim bexE conjE)
        then have "K (zone_watch_key (zw_zone_id u)) \<noteq> None" using zone_at_key by force
        with u(4) obtain r where "zone_at K (zw_zone_id u) r" "zw_revision u = zw_revision r + 1"
          by blast
        with r' zone_at_inject[OF r'(1)] show ?thesis by simp
      qed
      from zw_lin_write[OF c(2) u(1,2) this] u(3) EVAL
      have "zw_lin (insert u h) (keff c K)" by (simp only:)
      then show ?thesis by blast
    qed
    ultimately show ?thesis by blast
  qed (use c(1) in simp_all)
next
  fix h h' :: "zone_watch set" and c assume "zw_cmd sha ts h c" "h \<subseteq> h'"
  then show "zw_cmd sha ts h' c" by (rule zi.cmd_mono)
qed (auto simp: zw_rep_def)


abbreviation zok where "zok sha ts \<equiv> task_ok (\<subseteq>) (zw_cmd sha ts) zw_rep"

lemma zok_load:
  assumes "zid_ok zid" "\<And>h'. h \<subseteq> h' \<Longrightarrow> Q None h'"
    "\<And>h' c. h \<subseteq> h' \<Longrightarrow> c \<in> h' \<Longrightarrow> zw_valid c \<Longrightarrow> zw_zone_id c = zid \<Longrightarrow> Q (Some c) h'"
  shows "zok sha ts (load_zone_watch now zid) Q h"
  unfolding load_zone_watch_def
proof (intro zi.ok_bind zi.ok_get)
  fix h' t assume h: "h \<subseteq> h'" "zw_rep h' (GET (zone_watch_key zid)) (RBulk t)"
  with assms(1) obtain c where c: "c \<in> h'" "zw_zone_id c = zid" "zw_valid c" "t = Doc (zw_to_dict c)"
    by (auto simp: zw_rep_def)
  then have "parse_zone_watch now t = Inr (Some c)"
    by (simp add: parse_zone_watch_def zw_normal_roundtrip zw_valid_def)
  with assms(3)[OF h(1) c(1,3,2)] show "zok sha ts
     (case Some t of None \<Rightarrow> Done None | Some t \<Rightarrow> of_res (parse_zone_watch now t)) Q h'"
    by simp
qed (simp_all add: assms(2))

lemma zok_cas:
  assumes "t \<in> set ts" "zw_task_wf t" "zw_zone_id u = zw_task_zone (snd t)"
    "e = -1 \<and> zw_task_next sha t None = Some u \<or>
     (\<exists>c\<in>h. zw_zone_id c = zw_zone_id u \<and> e = zw_revision c \<and> zw_task_next sha t (Some c) = Some u)"
    "\<And>b h'. h \<subseteq> h' \<Longrightarrow> Q b h'"
  shows "zok sha ts (cas_save False now u e) Q h"
proof -
  have "zw_cmd sha ts h (EVAL CAS_SAVE_LUA
            [zone_watch_key (zw_zone_id u), ZONE_WATCH_INDEX_KEY, zone_watch_symbol_index_key (zw_symbol u)]
            [AInt e, ADoc (zw_to_dict u), AInt ZONE_WATCH_RETENTION_SECONDS,
             AStr (zw_zone_id u), AInt (if index_wants_record u then 1 else 0),
             AStr ZONE_WATCH_SYMBOL_INDEX_PREFIX])"
    unfolding zw_cmd.simps
    by (intro conjI bexI[of _ t] exI[of _ u] exI[of _ e] refl assms(1-4))
       (simp add: cas_args_def zw_symbol_key_def)
  then show ?thesis
    unfolding cas_save_def
    by (intro zi.ok_catch zi.ok_bind zi.ok_rcall) (auto simp: assms(5) split: redis_reply.split)
qed

lemma zok_mutate:
  assumes "t \<in> set ts" "zw_task_wf t" "zid = zw_task_zone (snd t)"
    and m: "\<And>c u x. m c = Inr (u, x) \<Longrightarrow> u \<noteq> c \<Longrightarrow> zw_task_next sha t (Some c) = Some (bumped c u)"
  shows "zok sha ts (mutate_attempts n False now zid m) (\<lambda>_ _. True) h"
proof (induction n arbitrary: h)
  case (Suc n)
  have ok: "zid_ok zid" using assms(2,3) by (cases t; cases "snd t") auto
  show ?case
    unfolding mutate_attempts.simps
  proof (intro zi.ok_bind zok_load ok)
    fix h' c assume c: "c \<in> h'" "zw_valid c" "zw_zone_id c = zid"
    show "zok sha ts (case Some c of None \<Rightarrow> Raise (ZoneWatchError ''unknown zone_id'')
         | Some current \<Rightarrow> pbind (of_res (m current)) (\<lambda>(updated, result).
             if updated = current then Done (current, result)
             else let updated' = updated\<lparr>zw_version := ZONE_WATCH_VERSION, zw_revision := zw_revision current + 1\<rparr>
                  in pbind (cas_save False now updated' (zw_revision current))
                       (\<lambda>saved. if saved then Done (updated', result)
                                else mutate_attempts n False now zid m))) (\<lambda>_ _. True) h'"
      unfolding option.case Let_def
    proof (intro zi.ok_bind zi.ok_of_res, clarsimp)
      fix u x assume u: "m c = Inr (u, x)" "u \<noteq> c"
      from m[OF this] have nx: "zw_task_next sha t (Some c) = Some (bumped c u)" .
      then have id: "zw_zone_id (bumped c u) = zid"
        using task_next_step[OF nx c(2)] c(3) by (simp add: zone_step_def)
      show "zok sha ts (pbind (cas_save False now (u\<lparr>zw_version := ZONE_WATCH_VERSION, zw_revision := zw_revision c + 1\<rparr>) (zw_revision c))
          (\<lambda>saved. if saved then Done (u\<lparr>zw_version := ZONE_WATCH_VERSION, zw_revision := zw_revision c + 1\<rparr>, x)
             else mutate_attempts n False now zid m)) (\<lambda>_ _. True) h'"
        unfolding bumped_def[symmetric]
        by (intro zi.ok_bind zok_cas[OF assms(1,2)])
           (use id assms(3) nx c Suc.IH in \<open>auto simp: bumped_def\<close>)
    qed
  qed simp
qed simp


lemma zok_discover:
  assumes "(now, ZT_discover d) \<in> set ts" "zw_task_wf (now, ZT_discover d)" "d_low d < d_high d"
  shows "zok sha ts (discover_attempts n False now d) (\<lambda>_ _. True) h"
proof (induction n arbitrary: h)
  case (Suc n)
  note cas = zok_cas[OF assms(1,2)]
  have ok: "zid_ok (d_zone_id d)" using assms(2) by simp
  show ?case
    unfolding discover_attempts.simps
  proof (intro zi.ok_bind zok_load ok)
    fix h'
    show "zok sha ts (case None of None \<Rightarrow> pbind (cas_save False now (created_zone now d) (-1))
             (\<lambda>saved. if saved then Done (created_zone now d, True) else discover_attempts n False now d)
         | Some existing \<Rightarrow> pbind (cas_save False now (refreshed_zone now d existing) (zw_revision existing))
             (\<lambda>saved. if saved then Done (refreshed_zone now d existing, False)
                else discover_attempts n False now d)) (\<lambda>_ _. True) h'"
      unfolding option.case
      by (intro zi.ok_bind cas) (use assms(3) Suc.IH in \<open>auto simp: created_zone_def\<close>)
  next
    fix h' c assume c: "c \<in> h'" "zw_valid c" "zw_zone_id c = d_zone_id d"
    show "zok sha ts (case Some c of None \<Rightarrow> pbind (cas_save False now (created_zone now d) (-1))
             (\<lambda>saved. if saved then Done (created_zone now d, True) else discover_attempts n False now d)
         | Some existing \<Rightarrow> pbind (cas_save False now (refreshed_zone now d existing) (zw_revision existing))
             (\<lambda>saved. if saved then Done (refreshed_zone now d existing, False)
                else discover_attempts n False now d)) (\<lambda>_ _. True) h'"
      unfolding option.case
      by (intro zi.ok_bind cas) (use assms(3) Suc.IH c in \<open>auto simp: refreshed_zone_def\<close>)
  qed
qed simp

lemma zok_unit: "zok sha ts p (\<lambda>_ _. True) h \<Longrightarrow> zok sha ts (pbind p (\<lambda>a. Done (f a))) (\<lambda>_ _. True) h"
  by (rule zi.ok_bind) (simp add: zi.ok_weaken)

lemma zok_consume:
  assumes "t \<in> set ts" "zw_task_wf t" "zid = zw_task_zone (snd t)"
    "\<And>c. zw_task_next sha t (Some c) = mutated (transition_mutator now CONSUMED_zw (consume_fields plan)) (Some c)"
  shows "zok sha ts (consume_zone_watch False now zid plan) (\<lambda>_ _. True) h"
proof -
  have "CONSUMED_zw \<in> set ZONE_WATCH_STATES" by (simp add: ZONE_WATCH_STATES_def)
  then show ?thesis
    unfolding consume_zone_watch_def transition_zone_watch_def mutate_zw_def consume_fields_def[symmetric]
    by (auto simp: case_prod_unfold assms(4) mutated_def intro!: zok_unit zok_mutate[OF assms(1-3)])
qed

lemma zok_rearm:
  assumes "t \<in> set ts" "zw_task_wf t" "zid = zw_task_zone (snd t)"
    "\<And>c. zw_task_next sha t (Some c) = mutated (rearm_mutator sha now zid reason fresh) (Some c)"
  shows "zok sha ts (rearm_zone_watch sha False now zid reason fresh) (\<lambda>_ _. True) h"
  unfolding rearm_zone_watch_def mutate_zw_def
  by (auto simp: case_prod_unfold assms(4) mutated_def intro!: zok_unit zok_mutate[OF assms(1-3)])

lemma zok_task:
  assumes "t \<in> set ts" "zw_task_wf t"
  shows "zok sha ts (zw_task_prog sha t) (\<lambda>_ _. True) h"
proof (cases t)
  case (Pair now k)
  note mut = zok_mutate[OF assms]
  show ?thesis
  proof (cases k)
    case (ZT_discover d)
    with assms Pair zok_discover[of now d ts sha MAX_CAS_RETRIES h] show ?thesis
      by (simp add: discover_zone_watch_def zok_unit)
  next
    case (ZT_transition zid st ups)
    with Pair show ?thesis
      by (auto simp: transition_zone_watch_def mutate_zw_def mutated_def intro!: zok_unit mut)
  next
    case (ZT_presence zid ins htf brk)
    with Pair show ?thesis
      by (auto simp: record_zone_presence_def mutate_zw_def mutated_def intro!: zok_unit mut)
  next
    case (ZT_touch zid)
    with Pair show ?thesis
      by (auto simp: record_zone_touch_def mutate_zw_def mutated_def case_prod_unfold intro!: zok_unit mut)
  next
    case (ZT_lock zid plan)
    with Pair show ?thesis
      by (auto simp: lock_zone_watch_published_def transition_zone_watch_def ZONE_WATCH_STATES_def
          mutate_zw_def mutated_def case_prod_unfold intro!: zok_unit mut)
  next
    case (ZT_consume zid plan)
    with assms Pair show ?thesis by (auto intro!: zok_unit zok_consume)
  next
    case (ZT_rearm zid reason fresh)
    with Pair show ?thesis
      by (auto simp: rearm_zone_watch_def mutate_zw_def mutated_def case_prod_unfold intro!: zok_unit mut)
  next
    case (ZT_m1 zid ts)
    with Pair show ?thesis
      by (auto simp: mark_m1_evaluated_def mutate_zw_def mutated_def case_prod_unfold intro!: zok_unit mut)
  next
    case (ZT_outcome zid outcome reason plan)
    have "zid_ok zid" using assms(2) Pair ZT_outcome by simp
    then show ?thesis
      unfolding Pair ZT_outcome zw_task_prog.simps apply_zone_watch_plan_outcome_def
      by (intro zok_unit zi.ok_bind zok_load)
         (use assms Pair ZT_outcome in \<open>auto simp: Let_def intro!: zok_consume zok_rearm zok_unit\<close>)
  qed
qed

text \<open>A store in which every zone with a usable id is a valid record and is indexed as it should be.\<close>

definition zw_store_ok :: "keyspace \<Rightarrow> bool" where
  "zw_store_ok K \<longleftrightarrow> zw_index_ok K \<and>
     (\<forall>zid. zid_ok zid \<longrightarrow> K (zone_watch_key zid) = None \<or>
        (\<exists>c. zone_at K zid c \<and> zw_zone_id c = zid \<and> zw_valid c))"

definition stored_zone :: "keyspace \<Rightarrow> string \<Rightarrow> zone_watch option" where
  "stored_zone K zid =
     (case k_text K (zone_watch_key zid) of None \<Rightarrow> None
      | Some t \<Rightarrow> (case parse_zone_watch 0 t of Inr r \<Rightarrow> r | Inl e \<Rightarrow> None))"

lemma stored_zone_at: "zone_at K zid c \<Longrightarrow> stored_zone K zid = Some c"
  by (simp add: zone_at_def stored_zone_def parse_zone_watch_def zw_normal_roundtrip)

lemma stored_zone_none: "K (zone_watch_key zid) = None \<Longrightarrow> stored_zone K zid = None"
  by (simp add: stored_zone_def k_text_def)

definition zones_in :: "keyspace \<Rightarrow> zone_watch set" where
  "zones_in K = {c. zid_ok (zw_zone_id c) \<and> zone_at K (zw_zone_id c) c \<and> zw_valid c}"

lemma zones_in_lin: "zw_store_ok K \<Longrightarrow> zw_lin (zones_in K) K"
  unfolding zw_lin_def zw_inv_def zw_store_ok_def zones_in_def
  by (auto dest: zone_at_inject) 


lemma zw_inv_store_ok: "zw_inv H K \<Longrightarrow> zw_store_ok K"
  by (fastforce simp: zw_inv_def zw_store_ok_def)

lemma zw_lin_inv: "zw_lin H K \<Longrightarrow> zw_inv H K"
  by (simp add: zw_lin_def)

lemma zw_inv_expire:
  assumes "zw_inv H K" "K key = Some (VStr t e)"
  shows "zw_inv H (K(key := None))"
proof -
  have "zone_at (K(key := None)) zid c = zone_at K zid c" if "key \<noteq> zone_watch_key zid" for zid c
    using that by (simp add: zone_at_def k_text_upd)
  then show ?thesis
    using assms zw_index_ok_expire[of K key t e] by (auto simp: zw_inv_def)
qed

lemma zone_tasks_store_ok:
  assumes "redis_any exec ks" "\<forall>t\<in>set ts. zw_task_wf t" "zw_store_ok (ks s)"
    "isteps exec ks (s, map (zw_task_prog sha) ts) (s', ps')"
  shows "zw_store_ok (ks s')"
proof -
  have "zw_inv (zones_in (ks s)) (ks s)" by (rule zw_lin_inv[OF zones_in_lin[OF assms(3)]])
  from zi.isteps_tasks[OF assms(1,4) this, of sha ts] assms(2) zok_task zw_inv_expire
  have "\<exists>h'. zw_inv h' (ks s')" by (fastforce)
  then show ?thesis using zw_inv_store_ok by blast
qed

text \<open>One step of a schedule: nothing, or one task applied atomically.\<close>

lemma zone_step_atomic:
  assumes "redis_any exec ks" "zw_lin h (ks s1)" "\<forall>p\<in>set ps1. zok sha ts p (\<lambda>_ _. True) h"
    "sched exec [i] (s1, ps1) = Some (s2, ps2)" "zid_ok zid"
  shows "stored_zone (ks s2) zid = stored_zone (ks s1) zid \<or>
    (\<exists>t\<in>set ts. zw_task_zone (snd t) = zid \<and>
       stored_zone (ks s2) zid = zw_task_next sha t (stored_zone (ks s1) zid))"
proof -
  obtain cm k where cm: "i < length ps1" "ps1 ! i = Call cm k" "s2 = snd (exec cm s1)"
    using assms(4) by (auto split: if_splits prog.splits)
  then have "zok sha ts (Call cm k) (\<lambda>_ _. True) h" using assms(3) by (metis nth_mem)
  then have c: "zw_cmd sha ts h cm" by simp
  have inv: "zw_inv h (ks s1)" by (rule zw_lin_inv[OF assms(2)])
  have "stored_zone (keff cm (ks s1)) zid = stored_zone (ks s1) zid \<or>
    (\<exists>t\<in>set ts. zw_task_zone (snd t) = zid \<and>
       stored_zone (keff cm (ks s1)) zid = zw_task_next sha t (stored_zone (ks s1) zid))"
  proof (cases cm)
    case (EVAL sc keys args)
    show ?thesis
    proof (rule cas_effect[OF c[unfolded EVAL] inv])
      assume "keff (EVAL sc keys args) (ks s1) = ks s1"
      then show ?thesis using EVAL by simp
    next
      fix t u psym
      assume u: "t \<in> set ts" "zid_ok (zw_zone_id u)" "zw_zone_id u = zw_task_zone (snd t)" "zw_valid u"
        "keff (EVAL sc keys args) (ks s1) = snd (zw_write (zw_zone_id u) psym u (ks s1))"
        "ks s1 (zone_watch_key (zw_zone_id u)) = None \<and> zw_task_next sha t None = Some u \<or>
     (\<exists>r c. r \<in> h \<and> c \<in> h \<and> zone_at (ks s1) (zw_zone_id u) r \<and> zw_zone_id r = zw_zone_id u \<and>
        zw_zone_id c = zw_zone_id u \<and> zw_revision r = zw_revision c \<and>
        zw_task_next sha t (Some c) = Some u \<and> zw_revision u = zw_revision r + 1)"
      have k: "index_keys_ok (ks s1)" using inv by (simp add: zw_inv_def zw_index_ok_def)
      note v = zw_write_views(3)[OF u(2) k assms(5), where psym = psym and u = u]
      show ?thesis
      proof (cases "zid = zw_zone_id u")
        case False
        with v EVAL u(5) show ?thesis by (simp add: stored_zone_def)
      next
        case True
        have "zw_task_next sha t (stored_zone (ks s1) zid) = Some u"
          using u(6)
        proof (elim disjE conjE exE)
          assume "ks s1 (zone_watch_key (zw_zone_id u)) = None" "zw_task_next sha t None = Some u"
          with True show ?thesis by (simp add: stored_zone_none)
        next
          fix r c assume rc: "r \<in> h" "c \<in> h" "zone_at (ks s1) (zw_zone_id u) r" "zw_zone_id r = zw_zone_id u"
            "zw_zone_id c = zw_zone_id u" "zw_revision r = zw_revision c" "zw_task_next sha t (Some c) = Some u"
          have "r = c"
            using assms(2) rc by (simp add: zw_lin_def)
          with rc True stored_zone_at[OF rc(3)] show ?thesis by simp
        qed
        moreover have "stored_zone (keff cm (ks s1)) zid = Some u"
          using v True EVAL u(4,5) by (intro stored_zone_at) (simp add: zone_at_def zw_valid_def)
        ultimately show ?thesis using u(1,3) True by auto
      qed
    qed
  next
    case (GET k)
    have "keff (GET k) (ks s1) = ks s1"
      by (auto simp: keff_def split: option.splits rvalue.splits)
    with GET show ?thesis by simp
  qed (use c in simp_all)
  moreover have "ks s2 = ks s1 \<or> ks s2 = keff cm (ks s1)"
    using redis_any.eff_or_lost[OF assms(1), of cm s1] cm(3) by simp
  ultimately show ?thesis by auto
qed


context redis
begin

lemma run_load_zone:
  assumes "zone_at (ks s) zid c"
  shows "run exec (pbind (load_zone_watch now zid) f) s = run exec (f (Some c)) (snd (exec (GET (zone_watch_key zid)) s))"
proof -
  have "str_key (ks s) (zone_watch_key zid)" "k_text (ks s) (zone_watch_key zid) = Some (Doc (zw_to_dict c))"
    "parse_zone_watch now (Doc (zw_to_dict c)) = Inr (Some c)"
    using assms zone_at_key[OF assms]
    by (auto simp: zone_at_def str_key_def parse_zone_watch_def zw_normal_roundtrip)
  then show ?thesis by (simp add: load_zone_watch_def run_get)
qed

lemma run_load_zone_missing:
  assumes "ks s (zone_watch_key zid) = None"
  shows "run exec (pbind (load_zone_watch now zid) f) s = run exec (f None) (snd (exec (GET (zone_watch_key zid)) s))"
  using assms by (simp add: load_zone_watch_def run_get str_key_def k_text_def)

lemma run_cas:
  assumes "kstep (EVAL CAS_SAVE_LUA (fst (cas_args (zw_zone_id u) e u)) (snd (cas_args (zw_zone_id u) e u))) (ks s) = (RInt n, K)"
  shows "\<exists>s'. run exec (pbind (cas_save fb now u e) f) s = run exec (f (n = 1)) s' \<and> ks s' = K"
proof -
  let ?c = "EVAL CAS_SAVE_LUA (fst (cas_args (zw_zone_id u) e u)) (snd (cas_args (zw_zone_id u) e u))"
  have r: "fst (exec ?c s) = RInt n" using assms by (intro reply_det) simp_all
  have k: "ks (snd (exec ?c s)) = K" using assms by (simp add: eff keff_def)
  have "cas_save fb now u e = pcatch
       (pbind (rcall ?c) (\<lambda>r. case r of RInt n \<Rightarrow> Done (n = 1) | _ \<Rightarrow> Raise TypeError))
       (\<lambda>x. if \<not> fb then Raise x else cas_save_fallback now u e)"
    by (simp add: cas_save_def cas_args_def zw_symbol_key_def)
  then show ?thesis
    using r k by (intro exI[of _ "snd (exec ?c s)"]) (simp add: rcall_def)
qed

lemma kstep_cas:
  "kstep (EVAL CAS_SAVE_LUA (fst (cas_args zid e u)) (snd (cas_args zid e u))) K = zw_cas zid e u K"
  by (simp add: cas_args_def lua_eval_def zw_cas_def)

lemma run_mutate:
  assumes "zone_at (ks s) zid c" "zid_ok zid" "index_keys_ok (ks s)" "0 \<le> zw_revision c"
    "\<And>u x. m c = Inr (u, x) \<Longrightarrow> zw_zone_id u = zid"
  shows "fst (run exec (mutate_zw fb now zid m) s) =
      (case m c of Inl e \<Rightarrow> Inl e | Inr (u, x) \<Rightarrow> Inr (if u = c then (c, x) else (bumped c u, x)))"
    "ks (snd (run exec (mutate_zw fb now zid m) s)) =
      (case mutated m (Some c) of None \<Rightarrow> ks s
       | Some u \<Rightarrow> snd (zw_write zid (Some (zw_symbol c)) u (ks s)))"
proof -
  let ?s = "snd (exec (GET (zone_watch_key zid)) s)"
  obtain k where n: "MAX_CAS_RETRIES = Suc k"
    by (rule that[of 11]) (simp add: MAX_CAS_RETRIES_def)
  have "fst (run exec (mutate_zw fb now zid m) s) =
      (case m c of Inl e \<Rightarrow> Inl e | Inr (u, x) \<Rightarrow> Inr (if u = c then (c, x) else (bumped c u, x))) \<and>
    ks (snd (run exec (mutate_zw fb now zid m) s)) =
      (case mutated m (Some c) of None \<Rightarrow> ks s
       | Some u \<Rightarrow> snd (zw_write zid (Some (zw_symbol c)) u (ks s)))"
  proof (cases "m c")
    case (Inl e)
    then show ?thesis
      by (simp add: mutate_zw_def n run_load_zone[OF assms(1)] mutated_def)
  next
    case (Inr p)
    obtain u x where p: "p = (u, x)" by (cases p)
    show ?thesis
    proof (cases "u = c")
      case True
      with Inr p show ?thesis
        by (simp add: mutate_zw_def n run_load_zone[OF assms(1)] mutated_def)
    next
      case False
      let ?u = "bumped c u"
      have id: "zw_zone_id ?u = zid" using assms(5) Inr p by (simp add: bumped_def)
      have at: "zone_at (ks ?s) zid c" "index_keys_ok (ks ?s)" using assms by simp_all
      have "zw_cas zid (zw_revision c) ?u (ks ?s) = zw_write zid (Some (zw_symbol c)) ?u (ks s)"
        using zw_cas_present[OF at(1)] assms(4) by simp
      then have "kstep (EVAL CAS_SAVE_LUA (fst (cas_args (zw_zone_id ?u) (zw_revision c) ?u))
          (snd (cas_args (zw_zone_id ?u) (zw_revision c) ?u))) (ks ?s) =
          (RInt 1, snd (zw_write zid (Some (zw_symbol c)) ?u (ks s)))"
        unfolding kstep_cas id using zw_write_views(1)[OF assms(2,3)] by (simp add: prod_eq_iff)
      from run_cas[OF this, where fb = fb and now = now and f = "\<lambda>saved.
           if saved then Done (?u, x) else mutate_attempts k fb now zid m"] obtain s' where
        "run exec (pbind (cas_save fb now ?u (zw_revision c)) (\<lambda>saved.
           if saved then Done (?u, x) else mutate_attempts k fb now zid m)) ?s = (Inr (?u, x), s')"
        "ks s' = snd (zw_write zid (Some (zw_symbol c)) ?u (ks s))" by auto
      with Inr p False show ?thesis
        by (simp add: mutate_zw_def n run_load_zone[OF assms(1)] mutated_def Let_def
            flip: bumped_def)
    qed
  qed
  then show "fst (run exec (mutate_zw fb now zid m) s) =
      (case m c of Inl e \<Rightarrow> Inl e | Inr (u, x) \<Rightarrow> Inr (if u = c then (c, x) else (bumped c u, x)))"
    "ks (snd (run exec (mutate_zw fb now zid m) s)) =
      (case mutated m (Some c) of None \<Rightarrow> ks s
       | Some u \<Rightarrow> snd (zw_write zid (Some (zw_symbol c)) u (ks s)))" by auto
qed

end

subsection \<open>Visits\<close>

definition presence_next :: "(string \<Rightarrow> string) \<Rightarrow> string \<Rightarrow> zone_watch \<Rightarrow> int \<times> bool \<times> bool \<times> bool \<Rightarrow> zone_watch" where
  "presence_next sha zid c = (\<lambda>(ts, ins, htf, brk).
     case presence_mutator sha ts zid ins htf brk c of Inr (u, _) \<Rightarrow> u | Inl e \<Rightarrow> c)"

fun entries :: "bool \<Rightarrow> bool list \<Rightarrow> nat" where
  "entries prev [] = 0"
| "entries prev (b # bs) = (if b \<and> \<not> prev then 1 else 0) + entries b bs"

definition zw_open :: "zone_watch \<Rightarrow> bool" where
  "zw_open c \<longleftrightarrow> zw_state c \<notin> TERMINAL_ZONE_WATCH_STATES \<union> LOCKED_ZONE_WATCH_STATES"

lemma zw_open_states [simp]:
  "WATCHING_RETEST \<notin> TERMINAL_ZONE_WATCH_STATES" "WATCHING_RETEST \<notin> LOCKED_ZONE_WATCH_STATES"
  "EVALUATING \<notin> TERMINAL_ZONE_WATCH_STATES" "EVALUATING \<notin> LOCKED_ZONE_WATCH_STATES"
  using zw_state_neq by (auto simp: TERMINAL_ZONE_WATCH_STATES_def LOCKED_ZONE_WATCH_STATES_def)

lemma presence_next_visit:
  assumes "zw_open c" "\<not> (brk \<and> \<not> htf)"
  shows "zw_open (presence_next sha zid c (ts, ins, htf, brk))"
    "zw_inside (presence_next sha zid c (ts, ins, htf, brk)) = ins"
    "zw_touch_count (presence_next sha zid c (ts, ins, htf, brk)) =
       zw_touch_count c + (if ins \<and> \<not> zw_inside c then 1 else 0)"
  using assms by (auto simp: presence_next_def presence_mutator_def zw_open_def Let_def)

lemma visits_counted:
  assumes "zw_open c" "\<forall>(ts, ins, htf, brk)\<in>set obs. \<not> (brk \<and> \<not> htf)"
  shows "zw_touch_count (foldl (presence_next sha zid) c obs) =
     zw_touch_count c + int (entries (zw_inside c) (map (\<lambda>(ts, ins, htf, brk). ins) obs))"
  using assms
proof (induction obs arbitrary: c)
  case (Cons ob obs)
  obtain ts ins htf brk where ob: "ob = (ts, ins, htf, brk)" by (cases ob)
  with Cons.prems have brk: "\<not> (brk \<and> \<not> htf)" by auto
  note v = presence_next_visit[OF Cons.prems(1) brk, of sha zid ts ins]
  from Cons.IH[OF v(1)] Cons.prems(2) show ?case by (simp add: ob v)
qed simp

lemma zw_store_ok_stored:
  assumes "zw_store_ok K" "zid_ok zid" "K (zone_watch_key zid) \<noteq> None"
  shows "\<exists>c. zone_at K zid c \<and> zw_zone_id c = zid \<and> zw_valid c"
proof -
  have "zid_ok zid \<longrightarrow> K (zone_watch_key zid) = None \<or>
      (\<exists>c. zone_at K zid c \<and> zw_zone_id c = zid \<and> zw_valid c)"
    using assms(1) unfolding zw_store_ok_def by (elim conjE) (erule spec)
  then show ?thesis
    using assms(2,3) by (elim impE disjE) simp_all
qed

lemma zw_store_okD:
  assumes "zw_store_ok K" "zid_ok zid" "zone_at K zid c"
  shows "zw_valid c" "zw_zone_id c = zid" "index_keys_ok K"
proof -
  have "K (zone_watch_key zid) \<noteq> None" using zone_at_key[OF assms(3)] by auto
  from zw_store_ok_stored[OF assms(1,2) this] have "zw_zone_id c = zid \<and> zw_valid c"
  proof (elim exE conjE)
    fix c' assume "zone_at K zid c'" "zw_zone_id c' = zid" "zw_valid c'"
    with zone_at_inject[OF assms(3)] show ?thesis by simp
  qed
  then show "zw_valid c" "zw_zone_id c = zid" by simp_all
  show "index_keys_ok K" using assms(1) by (simp add: zw_store_ok_def zw_index_ok_def)
qed

section \<open>Properties\<close>

text \<open>A discovered zone and the store that holds it, for concrete instances.\<close>

definition demo_discovery :: discovery where
  "demo_discovery =
     \<lparr>d_zone_id = ''z1'', d_symbol = ''xauusd'', d_direction = ''buy'', d_low = 2400, d_high = 2405,
      d_source_timeframe = ''m15'', d_structural_sources = [''ob''], d_confluence_tags = [''fvg''],
      d_grade = ''a'', d_score = 7, d_market_map_id = [], d_structure_signature = [],
      d_technique_tags = []\<rparr>"

definition demo_zone :: zone_watch where
  "demo_zone = (created_zone 100 demo_discovery)\<lparr>zw_state := WATCHING_RETEST\<rparr>"

definition demo_zones :: keyspace where
  "demo_zones = snd (zw_write ''z1'' None demo_zone Map.empty)"

lemma demo_zone_valid: "zw_valid demo_zone"
  by (simp add: zw_valid_def zw_normal_def demo_zone_def created_zone_def demo_discovery_def
      ZONE_WATCH_STATES_def state_sets)

lemma empty_zones_ok: "zw_store_ok Map.empty"
  by (simp add: zw_store_ok_def zw_index_ok_def index_keys_ok_def is_set_key_def zone_at_def k_text_def)

lemma z1_ok: "zid_ok ''z1''"
  by (simp add: zid_ok_def)

lemma demo_zones_facts:
  "zw_store_ok demo_zones" "zone_at demo_zones ''z1'' demo_zone" "index_keys_ok demo_zones"
  "zw_zone_id demo_zone = ''z1''" "zw_state demo_zone = WATCHING_RETEST" "zw_revision demo_zone = 0"
proof -
  have n: "zw_normal demo_zone" using demo_zone_valid by (simp add: zw_valid_def)
  have e: "zw_index_ok Map.empty" "index_keys_ok Map.empty"
    using empty_zones_ok by (simp_all add: zw_store_ok_def zw_index_ok_def)
  show id: "zw_zone_id demo_zone = ''z1''" "zw_state demo_zone = WATCHING_RETEST" "zw_revision demo_zone = 0"
    by (simp_all add: demo_zone_def created_zone_def demo_discovery_def)
  show "zone_at demo_zones ''z1'' demo_zone"
    unfolding demo_zones_def by (simp add: zw_write_at[OF z1_ok e(2) z1_ok n])
  have i: "zw_index_ok demo_zones"
    unfolding demo_zones_def by (rule zw_index_ok_write[OF e(1) z1_ok n])
  then show "index_keys_ok demo_zones" by (simp add: zw_index_ok_def)
  have "demo_zones (zone_watch_key zid) = None \<or>
      (\<exists>c. zone_at demo_zones zid c \<and> zw_zone_id c = zid \<and> zw_valid c)" if "zid_ok zid" for zid
    unfolding demo_zones_def
    using zw_write_views(4)[OF z1_ok e(2) that] zw_write_at[OF z1_ok e(2) that n] id demo_zone_valid
    by (cases "zid = ''z1''") auto
  with i show "zw_store_ok demo_zones" by (simp add: zw_store_ok_def)
qed

text \<open>Decoding is stable: whatever document \<open>from_dict\<close> accepts (missing fields, lower-case
  symbols, the legacy state \<open>exhausted\<close>), the record it returns survives \<open>to_dict\<close> and
  \<open>from_dict\<close> unchanged.\<close>

theorem zone_decode_stable:
  assumes "zw_from_dict now d = Inr r"
  shows "zw_from_dict now' (zw_to_dict r) = Inr r"
  using zw_normal_roundtrip[OF zw_from_dict_normal[OF assms]] .

lemma zone_decode_stable_witness:
  "\<exists>r. zw_from_dict 5 (JObj [(''zone_id'', JStr ''z1''), (''symbol'', JStr ''xauusd''),
       (''direction'', JStr ''buy''), (''low'', JInt 1), (''high'', JFloat 2),
       (''state'', JStr ''exhausted'')]) = Inr r \<and> zw_from_dict 9 (zw_to_dict r) = Inr r \<and>
     zw_state r = EXPIRED_zw \<and> zw_symbol r = ''XAUUSD''"
proof -
  let ?d = "JObj [(''zone_id'', JStr ''z1''), (''symbol'', JStr ''xauusd''),
       (''direction'', JStr ''buy''), (''low'', JInt 1), (''high'', JFloat 2),
       (''state'', JStr ''exhausted'')]"
  have "(case zw_from_dict 5 ?d of Inr r \<Rightarrow> zw_state r = EXPIRED_zw \<and> zw_symbol r = ''XAUUSD'' | _ \<Rightarrow> False)"
    by code_simp
  then obtain r where "zw_from_dict 5 ?d = Inr r" "zw_state r = EXPIRED_zw" "zw_symbol r = ''XAUUSD''"
    by (auto split: sum.splits)
  with zone_decode_stable[of 5 ?d r 9] show ?thesis by blast
qed

text \<open>C10. What one operation may do to a zone, whichever it is: identity, symbol and direction
  stay, the revision grows by one, the state stays or follows the transition table, the grade
  stays or falls from A to B, the touch count stays or grows by one; a terminal zone never
  leaves its state, so a detector that sees the structure again cannot resurrect it.\<close>

theorem zone_operation_laws:
  assumes "zw_valid c" "zw_task_next sha t (Some c) = Some u"
  shows "zone_step c u \<and> zw_valid u \<and>
     (zw_state c \<in> TERMINAL_ZONE_WATCH_STATES \<longrightarrow> zw_state u = zw_state c)"
proof -
  have "allowed_from_zw st = {}" if "st \<in> TERMINAL_ZONE_WATCH_STATES" for st
    using that by (auto simp: TERMINAL_ZONE_WATCH_STATES_def allowed_from_zw_simps)
  with task_next_step[OF assms(2,1)] show ?thesis by (auto simp: zone_step_def)
qed

lemma zone_operation_laws_witness:
  "\<exists>u. zw_task_next id (200, ZT_presence ''z1'' True False False) (Some demo_zone) = Some u \<and>
     zone_step demo_zone u \<and> zw_state u = EVALUATING \<and> zw_touch_count u = 1"
proof -
  have "map_option (\<lambda>u. (zw_state u, zw_touch_count u))
      (zw_task_next id (200, ZT_presence ''z1'' True False False) (Some demo_zone)) = Some (EVALUATING, 1)"
    by code_simp
  then obtain u where "zw_task_next id (200, ZT_presence ''z1'' True False False) (Some demo_zone) = Some u"
    "zw_state u = EVALUATING" "zw_touch_count u = 1" by auto
  with zone_operation_laws[OF demo_zone_valid, of id] show ?thesis by blast
qed

text \<open>One visit is one touch: over any sequence of presence observations without a decisive
  break, the touch count of an open zone grows by exactly the number of times price goes from
  outside to inside, however often presence is reported while it stays.\<close>

theorem one_touch_per_visit:
  assumes "zw_open c" "\<forall>(ts, ins, htf, brk)\<in>set obs. \<not> (brk \<and> \<not> htf)"
  shows "zw_touch_count (foldl (presence_next sha zid) c obs) =
     zw_touch_count c + int (entries (zw_inside c) (map (\<lambda>(ts, ins, htf, brk). ins) obs))"
  by (rule visits_counted[OF assms])

lemma one_touch_per_visit_witness:
  "zw_touch_count (foldl (presence_next id ''z1'') demo_zone
     [(200, True, False, False), (201, True, False, False), (202, False, False, False),
      (203, True, False, False)]) = 2"
proof -
  have o: "zw_open demo_zone" by (simp add: zw_open_def demo_zones_facts)
  have c: "zw_touch_count demo_zone = 0" "\<not> zw_inside demo_zone"
    by (simp_all add: demo_zone_def created_zone_def)
  show ?thesis
    by (subst one_touch_per_visit[OF o]) (simp_all add: c)
qed

text \<open>Alone on the server, the compare-and-swap loop \<open>_mutate\<close> succeeds at its first attempt:
  it returns what the mutator decides (or its error, with nothing written), the record it stores
  carries the next revision, and the membership indexes are rewritten in the same step.\<close>

theorem mutate_alone:
  assumes "redis exec ks" "zw_store_ok (ks s)" "zone_at (ks s) zid c" "zid_ok zid"
    "\<And>u x. m c = Inr (u, x) \<Longrightarrow> zw_zone_id u = zid"
  shows "fst (run exec (mutate_zw fb now zid m) s) =
      (case m c of Inl e \<Rightarrow> Inl e | Inr (u, x) \<Rightarrow> Inr (if u = c then (c, x) else (bumped c u, x))) \<and>
    ks (snd (run exec (mutate_zw fb now zid m) s)) =
      (case mutated m (Some c) of None \<Rightarrow> ks s
       | Some u \<Rightarrow> snd (zw_write zid (Some (zw_symbol c)) u (ks s)))"
proof -
  note ok = zw_store_okD[OF assms(2,4,3)]
  have "0 \<le> zw_revision c" using ok(1) by (simp add: zw_valid_def)
  from redis.run_mutate[OF assms(1,3,4) ok(3) this, of m fb now] assms(5) show ?thesis by simp
qed

lemma mutate_alone_witness:
  "fst (run mem_exec (mutate_zw False 200 ''z1'' (touch_mutator 200)) demo_zones) =
     Inr (bumped demo_zone (demo_zone\<lparr>zw_touch_count := 1, zw_last_touch_at := Some 200, zw_updated_at := 200\<rparr>), ())"
proof -
  have m: "touch_mutator 200 demo_zone =
      Inr (demo_zone\<lparr>zw_touch_count := 1, zw_last_touch_at := Some 200, zw_updated_at := 200\<rparr>, ())"
    using demo_zones_facts(5)
    by (simp add: touch_mutator_def Let_def grade_for_touch_count_def DOWNGRADE_AFTER_TOUCHES_def)
       (simp add: demo_zone_def created_zone_def)
  have d: "demo_zone\<lparr>zw_touch_count := 1, zw_last_touch_at := Some 200, zw_updated_at := 200\<rparr> \<noteq> demo_zone"
    by (simp add: demo_zone_def created_zone_def)
  have "\<And>u x. touch_mutator 200 demo_zone = Inr (u, x) \<Longrightarrow> zw_zone_id u = ''z1''"
    by (simp add: m) (metis demo_zones_facts(4) zone_watch.select_convs(2) zone_watch.surjective zone_watch.update_convs)
  from mutate_alone[where ks = "\<lambda>K. K", OF mem.redis_axioms demo_zones_facts(1,2) z1_ok this,
      where m = "touch_mutator 200" and fb = False and now = 200] m d
  show ?thesis by simp
qed

text \<open>C4. No lost update: in any interleaving of any number of zone tasks against a server that
  may lose requests and replies (and without keys expiring), every single command leaves the
  stored record of a zone unchanged or replaces it by exactly what one of the tasks computes
  from that very record. No write is based on a stale read.\<close>

theorem zone_writes_atomic:
  assumes "redis_any exec ks" "\<forall>t\<in>set ts. zw_task_wf t" "zw_store_ok (ks s)" "zid_ok zid"
    "sched exec xs (s, map (zw_task_prog sha) ts) = Some (s1, ps1)"
    "sched exec [i] (s1, ps1) = Some (s2, ps2)"
  shows "stored_zone (ks s2) zid = stored_zone (ks s1) zid \<or>
    (\<exists>t\<in>set ts. zw_task_zone (snd t) = zid \<and>
       stored_zone (ks s2) zid = zw_task_next sha t (stored_zone (ks s1) zid))"
proof -
  have "\<forall>p\<in>set (map (zw_task_prog sha) ts). zok sha ts p (\<lambda>_ _. True) (zones_in (ks s))"
    using assms(2) zok_task by auto
  from zl.sched_tasks[OF assms(1,5) zones_in_lin[OF assms(3)] this]
  obtain h where "zw_lin h (ks s1)" "\<forall>p\<in>set ps1. zok sha ts p (\<lambda>_ _. True) h"
    by (elim exE conjE)
  from zone_step_atomic[OF assms(1) this assms(6,4)] show ?thesis .
qed

definition race_touches :: "(int \<times> zw_task) list" where
  "race_touches = [(200, ZT_touch ''z1''), (201, ZT_touch ''z1'')]"

lemma zone_writes_atomic_witness:
  "\<exists>s1 ps1 s2 ps2. sched mem_exec [0, 1, 0, 1, 1] (demo_zones, map (zw_task_prog id) race_touches) = Some (s1, ps1) \<and>
     sched mem_exec [1] (s1, ps1) = Some (s2, ps2) \<and>
     (stored_zone s2 ''z1'' = stored_zone s1 ''z1'' \<or>
      (\<exists>t\<in>set race_touches. zw_task_zone (snd t) = ''z1'' \<and>
         stored_zone s2 ''z1'' = zw_task_next id t (stored_zone s1 ''z1''))) \<and>
     map_option zw_touch_count (stored_zone s2 ''z1'') = Some 2"
proof -
  have "map_option (\<lambda>c. (True,
        map_option (\<lambda>c'. map_option zw_touch_count (stored_zone (fst c') ''z1'')) (sched mem_exec [1] c)))
      (sched mem_exec [0, 1, 0, 1, 1] (demo_zones, map (zw_task_prog id) race_touches)) =
      Some (True, Some (Some 2))"
    by code_simp
  then obtain c1 c2 where c: "sched mem_exec [0, 1, 0, 1, 1] (demo_zones, map (zw_task_prog id) race_touches) = Some c1"
    "sched mem_exec [1] c1 = Some c2" "map_option zw_touch_count (stored_zone (fst c2) ''z1'') = Some 2"
    by (elim sched_views)
  obtain s1 ps1 s2 ps2 where p: "c1 = (s1, ps1)" "c2 = (s2, ps2)" by (meson surj_pair)
  have "\<forall>t\<in>set race_touches. zw_task_wf t" by (simp add: race_touches_def zid_ok_def)
  from zone_writes_atomic[OF mem.redis_any_axioms this demo_zones_facts(1) z1_ok c(1,2)[unfolded p]] c
  show ?thesis unfolding p by (intro exI conjI) simp_all
qed

text \<open>C5. The membership indexes stay in lockstep with the records: in any interleaving of zone
  tasks, with lost requests and with expiring keys, a stored zone is a member of the global and
  of its symbol's index exactly when it is actively watchable, and every stored record is valid. The
  tasks are the writes of zones; rebuilding and listing the indexes are not among them.\<close>

theorem zone_index_lockstep:
  assumes "redis_any exec ks" "\<forall>t\<in>set ts. zw_task_wf t" "zw_store_ok (ks s)"
    "isteps exec ks (s, map (zw_task_prog sha) ts) (s', ps')" "zid_ok zid" "zone_at (ks s') zid r"
  shows "zw_valid r \<and>
     (zid \<in> set (k_set (ks s') ZONE_WATCH_INDEX_KEY) \<longleftrightarrow> index_wants_record r) \<and>
     (zid \<in> set (k_set (ks s') (zone_watch_symbol_index_key (zw_symbol r))) \<longleftrightarrow> index_wants_record r)"
proof -
  have ok: "zw_store_ok (ks s')" by (rule zone_tasks_store_ok[OF assms(1-4)])
  with assms(5,6) zw_store_okD(1)[OF ok assms(5,6)] show ?thesis
    by (simp add: zw_store_ok_def zw_index_ok_def zw_symbol_key_def)
qed

lemma zone_index_lockstep_witness:
  "\<exists>s' ps' r. isteps mem_exec (\<lambda>K. K) (demo_zones, map (zw_task_prog id) [(200, ZT_lock ''z1'' ''p1'')]) (s', ps') \<and>
     zone_at s' ''z1'' r \<and> zw_state r = PUBLISHED_LOCKED \<and>
     ''z1'' \<notin> set (k_set s' ZONE_WATCH_INDEX_KEY)"
proof -
  let ?ts = "[(200, ZT_lock ''z1'' ''p1'')]"
  have "map_option (\<lambda>c. (k_text (fst c) (zone_watch_key ''z1'') \<noteq> None,
        map_option zw_state (stored_zone (fst c) ''z1'')))
      (sched mem_exec [0, 0] (demo_zones, map (zw_task_prog id) ?ts)) = Some (True, Some PUBLISHED_LOCKED)"
    by code_simp
  then obtain c where c: "sched mem_exec [0, 0] (demo_zones, map (zw_task_prog id) ?ts) = Some c"
    "k_text (fst c) (zone_watch_key ''z1'') \<noteq> None"
    "map_option zw_state (stored_zone (fst c) ''z1'') = Some PUBLISHED_LOCKED"
    by (auto simp del: sched.simps)
  obtain s' ps' where p: "c = (s', ps')" by (cases c)
  note st = sched_isteps[where ks = "\<lambda>K. K", OF c(1)[unfolded p]]
  have wf: "\<forall>t\<in>set ?ts. zw_task_wf t" by (simp add: zid_ok_def)
  have ok: "zw_store_ok s'" by (rule zone_tasks_store_ok[OF mem.redis_any_axioms wf demo_zones_facts(1) st])
  have "s' (zone_watch_key ''z1'') \<noteq> None" using c(2) by (auto simp: p k_text_def split: option.splits)
  from zw_store_ok_stored[OF ok z1_ok this] obtain r where r: "zone_at s' ''z1'' r"
    by (elim exE conjE)
  have "zw_state r = PUBLISHED_LOCKED" using c(3) stored_zone_at[OF r] by (simp add: p)
  then have "\<not> index_wants_record r" by (simp add: index_wants_record_def LOCKED_ZONE_WATCH_STATES_def)
  with zone_index_lockstep[where ks = "\<lambda>K. K", OF mem.redis_any_axioms wf demo_zones_facts(1) st z1_ok r] st r
    \<open>zw_state r = PUBLISHED_LOCKED\<close> show ?thesis by blast
qed

text \<open>Listing is not part of that discipline: \<open>list_active_zone_watches\<close> decides from the
  records it has read and removes the members it found inactive later, without a check. When the
  zone is rearmed in between, an active zone ends up in no index, invisible to every listing
  until it is written again.\<close>

theorem listing_race_hides_zone:
  "\<exists>list lock rearm c.
     list = pbind (list_active_zone_watches 200 None) (\<lambda>_. Done ()) \<and>
     lock = zw_task_prog id (150, ZT_lock ''z1'' ''p1'') \<and>
     rearm = zw_task_prog id (160, ZT_rearm ''z1'' ''plan_expired'' False) \<and>
     zw_store_ok demo_zones \<and>
     isteps mem_exec (\<lambda>K. K) (demo_zones, [list, lock, rearm]) c \<and>
     (\<exists>r. stored_zone (fst c) ''z1'' = Some r \<and> index_wants_record r) \<and>
     k_set (fst c) ZONE_WATCH_INDEX_KEY = []"
proof -
  let ?list = "pbind (list_active_zone_watches 200 None) (\<lambda>_. Done ())"
  let ?ps = "[?list, zw_task_prog id (150, ZT_lock ''z1'' ''p1''),
     zw_task_prog id (160, ZT_rearm ''z1'' ''plan_expired'' False)]"
  have "map_option (\<lambda>c. (map_option index_wants_record (stored_zone (fst c) ''z1''), k_set (fst c) ZONE_WATCH_INDEX_KEY))
      (sched mem_exec [0, 1, 1, 0, 2, 2, 0] (demo_zones, ?ps)) = Some (Some True, [])"
    by code_simp
  then obtain c where c: "sched mem_exec [0, 1, 1, 0, 2, 2, 0] (demo_zones, ?ps) = Some c"
    "map_option index_wants_record (stored_zone (fst c) ''z1'') = Some True"
    "k_set (fst c) ZONE_WATCH_INDEX_KEY = []"
    by (auto simp del: sched.simps)
  then have "\<exists>r. stored_zone (fst c) ''z1'' = Some r \<and> index_wants_record r" by auto
  show ?thesis
    by (intro exI[of _ ?list] exI[of _ "zw_task_prog id (150, ZT_lock ''z1'' ''p1'')"]
        exI[of _ "zw_task_prog id (160, ZT_rearm ''z1'' ''plan_expired'' False)"] exI[of _ c] conjI
        demo_zones_facts(1) sched_isteps[OF c(1)] c(3) refl) fact
qed

lemma zw_state_neqI: "zw_state a \<noteq> zw_state b \<Longrightarrow> a \<noteq> b"
  by auto

context redis
begin

lemma run_mutate_moved:
  assumes "zw_store_ok (ks s)" "zone_at (ks s) zid c" "zid_ok zid" "m c = Inr (u, x)" "u \<noteq> c" "zone_move c u"
  shows "\<exists>s'. run exec (mutate_zw fb now zid m) s = (Inr (bumped c u, x), s') \<and>
     zone_at (ks s') zid (bumped c u)"
proof -
  note ok = zw_store_okD[OF assms(1,3,2)]
  have rev: "0 \<le> zw_revision c" using ok(1) by (simp add: zw_valid_def)
  have id: "zw_zone_id w = zid" if "m c = Inr (w, y)" for w y
    using that assms(4,6) ok(2) by (simp add: zone_move_def)
  have mu: "mutated m (Some c) = Some (bumped c u)" using assms(4,5) by (simp add: mutated_def)
  have "zw_valid (bumped c u)"
    using mutated_step[OF mu _ ok(1)] assms(4,6) by auto
  then have "zone_at (snd (zw_write zid (Some (zw_symbol c)) (bumped c u) (ks s))) zid (bumped c u)"
    using zw_write_at[OF assms(3) ok(3) assms(3)] by (simp add: zw_valid_def)
  with run_mutate[OF assms(2,3) ok(3) rev, of m fb now] id mu assms(4,5) show ?thesis
    by (auto simp: prod_eq_iff)
qed

end

text \<open>Executor outcomes drive the lock: on a PUBLISHED_LOCKED zone a fill consumes it, a
  reject, expiry, cancellation or missing fill rearms it to WATCHING_RETEST keeping the last plan
  id, and any other word changes nothing; a zone in another state is returned as it is. It never
  raises.\<close>

theorem plan_outcome_table:
  assumes "redis exec ks" "zw_store_ok (ks s)" "zone_at (ks s) zid c" "zid_ok zid"
  shows "let res = run exec (apply_zone_watch_plan_outcome sha fb now zid outcome reason plan) s;
             word = str_lower (str_strip outcome) in
    (if zw_state c = PUBLISHED_LOCKED \<and> word \<in> fill_outcomes
     then \<exists>u. fst res = Inr (Some u) \<and> zone_at (ks (snd res)) zid u \<and> zw_state u = CONSUMED_zw
     else if zw_state c = PUBLISHED_LOCKED \<and> word \<in> retry_outcomes
     then \<exists>u. fst res = Inr (Some u) \<and> zone_at (ks (snd res)) zid u \<and> zw_state u = WATCHING_RETEST \<and>
           zw_last_plan_id u = zw_last_plan_id c
     else fst res = Inr (Some c) \<and> ks (snd res) = ks s)"
proof -
  let ?s = "snd (exec (GET (zone_watch_key zid)) s)"
  let ?word = "str_lower (str_strip outcome)"
  have same: "ks ?s = ks s" by (rule redis.ks_read(1)[OF assms(1)])
  have st: "zw_store_ok (ks ?s)" "zone_at (ks ?s) zid c" using assms(2,3) same by simp_all
  note load = redis.run_load_zone[OF assms(1,3)]
  note moved = redis.run_mutate_moved[OF assms(1) st assms(4)]
  have ne: "PUBLISHED_LOCKED \<noteq> CONSUMED_zw" "PUBLISHED_LOCKED \<noteq> WATCHING_RETEST"
    "fill_outcomes \<inter> retry_outcomes = {}" "CONSUMED_zw \<in> set ZONE_WATCH_STATES"
    by (simp_all add: state_sets fill_outcomes_def retry_outcomes_def ZONE_WATCH_STATES_def)
  consider (fill) "zw_state c = PUBLISHED_LOCKED" "?word \<in> fill_outcomes"
    | (retry) "zw_state c = PUBLISHED_LOCKED" "?word \<in> retry_outcomes" "?word \<notin> fill_outcomes"
    | (other) "zw_state c \<noteq> PUBLISHED_LOCKED \<or> ?word \<notin> fill_outcomes \<union> retry_outcomes"
    by blast
  then show ?thesis
  proof cases
    case fill
    let ?u = "fold apply_zw_field (consume_fields plan) (c\<lparr>zw_state := CONSUMED_zw, zw_updated_at := now\<rparr>)"
    have m: "transition_mutator now CONSUMED_zw (consume_fields plan) c = Inr (?u, True)"
      using fill(1) ne by (simp add: transition_mutator_def allowed_from_zw_simps)
    have u: "?u \<noteq> c" using fill(1) ne by (intro zw_state_neqI) simp
    have run: "run exec (apply_zone_watch_plan_outcome sha fb now zid outcome reason plan) s =
        run exec (pbind (consume_zone_watch fb now zid plan) (\<lambda>r. Done (Some r))) ?s"
      using fill by (simp add: apply_zone_watch_plan_outcome_def load Let_def)
    show ?thesis
      using moved[of "transition_mutator now CONSUMED_zw (consume_fields plan)", OF m u transition_move[OF m], of fb now] fill ne
      unfolding run consume_zone_watch_def transition_zone_watch_def consume_fields_def[symmetric]
      by (auto simp: Let_def run_pbind bumped_def)
  next
    case retry
    let ?r = "or_keep reason (''plan_outcome_'' @ ?word)"
    let ?u = "c\<lparr>zw_state := WATCHING_RETEST, zw_last_rearm_reason := Some ?r, zw_updated_at := now\<rparr>"
    have m: "rearm_mutator sha now zid ?r False c = Inr (?u, True)"
      using retry(1) ne by (simp add: rearm_mutator_def)
    have u: "?u \<noteq> c" using retry(1) ne by (intro zw_state_neqI) simp
    have r: "?r \<noteq> []" by (simp add: or_keep_def)
    have run: "run exec (apply_zone_watch_plan_outcome sha fb now zid outcome reason plan) s =
        run exec (pbind (rearm_zone_watch sha fb now zid ?r False) (\<lambda>r. Done (Some r))) ?s"
      using retry by (simp add: apply_zone_watch_plan_outcome_def load Let_def)
    show ?thesis
      using moved[of "rearm_mutator sha now zid ?r False", OF m u rearm_move[OF m], of fb now] retry ne r
      unfolding run rearm_zone_watch_def by (auto simp: Let_def run_pbind bumped_def)
  next
    case other
    then show ?thesis
      using ne by (auto simp: apply_zone_watch_plan_outcome_def load Let_def same)
  qed
qed

lemma plan_outcome_table_witness:
  "fst (run mem_exec (apply_zone_watch_plan_outcome id False 200 ''z1'' '' Filled '' [] None) demo_zones) =
     Inr (Some demo_zone)"
proof -
  have "WATCHING_RETEST \<noteq> PUBLISHED_LOCKED" by (simp add: state_sets)
  with plan_outcome_table[where ks = "\<lambda>K. K", OF mem.redis_axioms demo_zones_facts(1,2) z1_ok,
      of id False 200 "'' Filled ''" "[]" None] demo_zones_facts(5)
  show ?thesis by (simp add: Let_def)
qed
end
