(* ===== verification/StrategyNames.thy ===== *)
theory StrategyNames
  imports PyPrelude
begin

text \<open>
  The naming contract of the strategies (\<open>app/autotrade/strategy_names.py\<close>) and the exact-name
  classification built on it (\<open>app/autotrade/strategy_taxonomy.py\<close>). A \<open>frozenset\<close> of aliases
  is a list here; \<open>casefold\<close> is \<open>lower\<close> on the ASCII names of the table.
\<close>

named_theorems strategy_consts "the display names and families"

section \<open>Names and families\<close>

definition CANONICAL_FAMILY_REACTION :: string where [strategy_consts]: "CANONICAL_FAMILY_REACTION = ''reaction''"
definition CANONICAL_FAMILY_ZONE :: string where [strategy_consts]: "CANONICAL_FAMILY_ZONE = ''zone''"
definition CANONICAL_FAMILY_LIQUIDITY :: string where [strategy_consts]: "CANONICAL_FAMILY_LIQUIDITY = ''liquidity''"
definition CANONICAL_FAMILY_RANGE :: string where [strategy_consts]: "CANONICAL_FAMILY_RANGE = ''range''"
definition CANONICAL_FAMILY_SCALP :: string where [strategy_consts]: "CANONICAL_FAMILY_SCALP = ''scalp''"
definition CANONICAL_FAMILY_BREAKOUT_RETEST :: string where [strategy_consts]: "CANONICAL_FAMILY_BREAKOUT_RETEST = ''breakout_retest''"
definition CANONICAL_FAMILY_MOMENTUM :: string where [strategy_consts]: "CANONICAL_FAMILY_MOMENTUM = ''momentum_continuation''"
definition CANONICAL_FAMILY_TREND_PULLBACK :: string where [strategy_consts]: "CANONICAL_FAMILY_TREND_PULLBACK = ''trend_pullback''"
definition CANONICAL_FAMILY_UNKNOWN :: string where [strategy_consts]: "CANONICAL_FAMILY_UNKNOWN = ''unknown''"
definition KEY_LEVEL_REACTION :: string where [strategy_consts]: "KEY_LEVEL_REACTION = ''Key Level Reaction''"
definition CONFLUENCE_ZONE :: string where [strategy_consts]: "CONFLUENCE_ZONE = ''Confluence Zone''"
definition SUPPLY_DEMAND :: string where [strategy_consts]: "SUPPLY_DEMAND = ''Supply Demand''"
definition ORDER_BLOCK :: string where [strategy_consts]: "ORDER_BLOCK = ''Order Block''"
definition FVG :: string where [strategy_consts]: "FVG = ''FVG''"
definition IFVG :: string where [strategy_consts]: "IFVG = ''iFVG''"
definition CRT :: string where [strategy_consts]: "CRT = ''CRT''"
definition DEMAND_ZONE_REACTION :: string where [strategy_consts]: "DEMAND_ZONE_REACTION = ''Demand Zone Reaction''"
definition SUPPLY_ZONE_REACTION :: string where [strategy_consts]: "SUPPLY_ZONE_REACTION = ''Supply Zone Reaction''"
definition FLIP_ZONE :: string where [strategy_consts]: "FLIP_ZONE = ''Flip Zone''"
definition SESSION_LEVEL_REACTION :: string where [strategy_consts]: "SESSION_LEVEL_REACTION = ''Session Level Reaction''"
definition TRENDLINE_REACTION :: string where [strategy_consts]: "TRENDLINE_REACTION = ''Trendline Reaction''"
definition RANGE_EDGE_SCALP :: string where [strategy_consts]: "RANGE_EDGE_SCALP = ''Range Edge Scalp''"
definition BOX_BREAKOUT :: string where [strategy_consts]: "BOX_BREAKOUT = ''Box Breakout''"
definition BREAK_AND_RETEST :: string where [strategy_consts]: "BREAK_AND_RETEST = ''Break & Retest''"
definition TREND_PULLBACK :: string where [strategy_consts]: "TREND_PULLBACK = ''Trend Pullback''"
definition MOMENTUM_RIDE :: string where [strategy_consts]: "MOMENTUM_RIDE = ''Momentum Ride''"
definition SNAP_BACK :: string where [strategy_consts]: "SNAP_BACK = ''Snap-Back''"
definition FADE_SCALP :: string where [strategy_consts]: "FADE_SCALP = ''Fade Scalp''"
definition ZONE_REACTION :: string where [strategy_consts]: "ZONE_REACTION = ''Zone Reaction''"
definition DEMAND_ZONE :: string where [strategy_consts]: "DEMAND_ZONE = ''Demand Zone''"
definition SUPPLY_ZONE :: string where [strategy_consts]: "SUPPLY_ZONE = ''Supply Zone''"
definition RANGE_BOX_SCALP :: string where [strategy_consts]: "RANGE_BOX_SCALP = ''Range Box Scalp''"
definition ONE_SIDED_RANGE_REACTION :: string where [strategy_consts]: "ONE_SIDED_RANGE_REACTION = ''One-Sided Range Reaction''"
definition CHOP_ZONE_REACTION :: string where [strategy_consts]: "CHOP_ZONE_REACTION = ''Chop Zone Reaction''"
definition LIQUIDITY_SWEEP :: string where [strategy_consts]: "LIQUIDITY_SWEEP = ''Liquidity Sweep''"
definition BREAKOUT_CONTINUATION :: string where [strategy_consts]: "BREAKOUT_CONTINUATION = ''Breakout Continuation''"
definition MAPPED_ZONE_REACTION :: string where [strategy_consts]: "MAPPED_ZONE_REACTION = ''Mapped Zone Reaction''"
definition RANGE_SWEEP_SCALP :: string where [strategy_consts]: "RANGE_SWEEP_SCALP = ''Range Sweep Scalp''"
definition IMPULSE_PULLBACK_SCALP :: string where [strategy_consts]: "IMPULSE_PULLBACK_SCALP = ''Impulse Pullback Scalp''"
definition BREAKOUT_RETEST_SCALP :: string where [strategy_consts]: "BREAKOUT_RETEST_SCALP = ''Breakout Retest Scalp''"
definition MOMENTUM_CHASE_SCALP :: string where [strategy_consts]: "MOMENTUM_CHASE_SCALP = ''Momentum Chase Scalp''"
definition GOLDEN_FIBO :: string where [strategy_consts]: "GOLDEN_FIBO = ''Golden Fibo''"

section \<open>The table\<close>

record strategy_name =
  sn_canonical :: string
  sn_family :: string
  sn_detector_id :: "string option"
  sn_aliases :: "string list"
  sn_retired :: bool

definition name_entry :: "string \<Rightarrow> string \<Rightarrow> string option \<Rightarrow> string list \<Rightarrow> bool \<Rightarrow> strategy_name" where
  "name_entry canonical family detector_id aliases retired =
     \<lparr>sn_canonical = canonical, sn_family = family, sn_detector_id = detector_id,
      sn_aliases = remdups (map str_lower aliases), sn_retired = retired\<rparr>"

definition STRATEGY_NAMES :: "strategy_name list" where
  "STRATEGY_NAMES =
     [name_entry KEY_LEVEL_REACTION CANONICAL_FAMILY_REACTION (Some ''key_level_reaction'') [''key-level'', ''key level''] False,
      name_entry CONFLUENCE_ZONE CANONICAL_FAMILY_ZONE (Some ''confluence_zone_reaction'') [''confluence'', ''confulence''] False,
      name_entry SUPPLY_DEMAND CANONICAL_FAMILY_ZONE (Some ''supply_demand_technique_reaction'') [''supply demand reaction'', ''supply'', ''demand''] False,
      name_entry ORDER_BLOCK CANONICAL_FAMILY_ZONE (Some ''order_block_technique_reaction'') [''order block reaction'', ''ob''] False,
      name_entry FVG CANONICAL_FAMILY_ZONE (Some ''fvg_technique_reaction'') [''fvg reaction''] False,
      name_entry IFVG CANONICAL_FAMILY_ZONE (Some ''ifvg_technique_reaction'') [''ifvg reaction''] False,
      name_entry CRT CANONICAL_FAMILY_ZONE (Some ''crt_technique_reaction'') [''crt reaction''] False,
      name_entry DEMAND_ZONE_REACTION CANONICAL_FAMILY_ZONE None [] True,
      name_entry SUPPLY_ZONE_REACTION CANONICAL_FAMILY_ZONE None [] True,
      name_entry FLIP_ZONE CANONICAL_FAMILY_ZONE (Some ''flip_demand_zone_reaction'') [''flip-zone''] False,
      name_entry SESSION_LEVEL_REACTION CANONICAL_FAMILY_REACTION (Some ''session_level_reaction'') [''session level'', ''session-level''] False,
      name_entry TRENDLINE_REACTION CANONICAL_FAMILY_REACTION (Some ''trendline_reaction'') [''trendline''] False,
      name_entry RANGE_EDGE_SCALP CANONICAL_FAMILY_RANGE (Some ''range_edge_scalp'') [] False,
      name_entry BOX_BREAKOUT CANONICAL_FAMILY_BREAKOUT_RETEST (Some ''box_breakout'') [] False,
      name_entry BREAK_AND_RETEST CANONICAL_FAMILY_BREAKOUT_RETEST (Some ''break_retest'') [] False,
      name_entry TREND_PULLBACK CANONICAL_FAMILY_TREND_PULLBACK None [] True,
      name_entry MOMENTUM_RIDE CANONICAL_FAMILY_MOMENTUM (Some ''momentum_ride'') [] False,
      name_entry SNAP_BACK CANONICAL_FAMILY_LIQUIDITY (Some ''snap_back'') [] False,
      name_entry FADE_SCALP CANONICAL_FAMILY_RANGE (Some ''fade_scalp'') [] False,
      name_entry ZONE_REACTION CANONICAL_FAMILY_ZONE None [] True,
      name_entry DEMAND_ZONE CANONICAL_FAMILY_ZONE None [] True,
      name_entry SUPPLY_ZONE CANONICAL_FAMILY_ZONE None [] True,
      name_entry RANGE_BOX_SCALP CANONICAL_FAMILY_RANGE None [] True,
      name_entry ONE_SIDED_RANGE_REACTION CANONICAL_FAMILY_RANGE None [] True,
      name_entry CHOP_ZONE_REACTION CANONICAL_FAMILY_RANGE None [] True,
      name_entry LIQUIDITY_SWEEP CANONICAL_FAMILY_LIQUIDITY None [] True,
      name_entry BREAKOUT_CONTINUATION CANONICAL_FAMILY_MOMENTUM None [] True,
      name_entry MAPPED_ZONE_REACTION CANONICAL_FAMILY_UNKNOWN None [] True,
      name_entry RANGE_SWEEP_SCALP CANONICAL_FAMILY_SCALP None [''range sweep'', ''hfs range sweep''] False,
      name_entry IMPULSE_PULLBACK_SCALP CANONICAL_FAMILY_SCALP None [''impulse pullback'', ''hfs impulse pullback''] False,
      name_entry BREAKOUT_RETEST_SCALP CANONICAL_FAMILY_SCALP None [''breakout retest'', ''breakout-retest''] False,
      name_entry MOMENTUM_CHASE_SCALP CANONICAL_FAMILY_SCALP None [''momentum'', ''hfs momentum chase''] True,
      name_entry GOLDEN_FIBO CANONICAL_FAMILY_UNKNOWN None [''golden-fibo''] True]"

text \<open>The import-time check; the alias loop is \<open>aliases.setdefault(alias, canonical)\<close>.\<close>

fun claim_aliases ::
  "string set \<Rightarrow> (string \<times> string) list \<Rightarrow> (string \<Rightarrow> string option) \<Rightarrow> (string \<Rightarrow> string option) res" where
  "claim_aliases canonical_set [] owners = Inr owners"
| "claim_aliases canonical_set ((alias, canonical) # rest) owners =
     (if alias \<in> canonical_set then Inl (RuntimeError ''strategy alias collides with canonical'')
      else (case owners alias of
              None \<Rightarrow> claim_aliases canonical_set rest (owners(alias \<mapsto> canonical))
            | Some previous \<Rightarrow>
                if previous \<noteq> canonical then Inl (RuntimeError ''strategy alias collides'')
                else claim_aliases canonical_set rest owners))"

definition alias_pairs :: "strategy_name list \<Rightarrow> (string \<times> string) list" where
  "alias_pairs names = concat (map (\<lambda>e. map (\<lambda>a. (a, sn_canonical e)) (sn_aliases e)) names)"

definition validate_names :: "strategy_name list \<Rightarrow> unit res" where
  "validate_names names =
     (let canonicals = map (\<lambda>e. str_lower (sn_canonical e)) names;
          detector_ids = concat (map (\<lambda>e. case sn_detector_id e of None \<Rightarrow> [] | Some d \<Rightarrow> if d = [] then [] else [d]) names)
      in if \<not> distinct canonicals then Inl (RuntimeError ''strategy canonical names must be unique'')
         else if \<not> distinct detector_ids then Inl (RuntimeError ''strategy detector IDs must be unique'')
         else res_bind (claim_aliases (set canonicals) (alias_pairs names) Map.empty) (\<lambda>_. Inr ()))"

text \<open>\<open>BY_ALIAS\<close>: a dict comprehension, the last entry wins.\<close>

definition BY_ALIAS :: "strategy_name list \<Rightarrow> string \<Rightarrow> strategy_name option" where
  "BY_ALIAS names =
     foldl (\<lambda>m e. foldl (\<lambda>m a. m(a \<mapsto> e)) m (sn_aliases e)) Map.empty names"

definition BY_CANONICAL :: "strategy_name list \<Rightarrow> string \<Rightarrow> strategy_name option" where
  "BY_CANONICAL names = foldl (\<lambda>m e. m(sn_canonical e \<mapsto> e)) Map.empty names"

definition resolve_in :: "strategy_name list \<Rightarrow> string option \<Rightarrow> strategy_name option" where
  "resolve_in names raw =
     (case raw of None \<Rightarrow> None
      | Some text \<Rightarrow>
          (let key = str_lower (str_strip text) in
           if key = [] then None
           else (case find (\<lambda>e. str_lower (sn_canonical e) = key) names of
                   Some e \<Rightarrow> Some e
                 | None \<Rightarrow> BY_ALIAS names key)))"

definition resolve_strategy :: "string option \<Rightarrow> strategy_name option" where
  "resolve_strategy = resolve_in STRATEGY_NAMES"

definition names_for_family :: "string \<Rightarrow> bool \<Rightarrow> string list" where
  "names_for_family family include_retired =
     map sn_canonical (filter (\<lambda>e. sn_family e = family \<and> (include_retired \<or> \<not> sn_retired e)) STRATEGY_NAMES)"

definition legacy_canonical :: "string \<rightharpoonup> string" where
  "legacy_canonical =
     [''demand_zone_reaction'' \<mapsto> ZONE_REACTION,
      ''supply_zone_reaction'' \<mapsto> ZONE_REACTION,
      ''flip_supply_zone_reaction'' \<mapsto> FLIP_ZONE]"

definition strategy_for_detector :: "string \<Rightarrow> strategy_name option" where
  "strategy_for_detector detector_id =
     (case legacy_canonical detector_id of
        Some n \<Rightarrow> BY_CANONICAL STRATEGY_NAMES n
      | None \<Rightarrow> find (\<lambda>e. sn_detector_id e = Some detector_id) STRATEGY_NAMES)"

section \<open>Taxonomy\<close>

definition str_endswith :: "string \<Rightarrow> string \<Rightarrow> bool" where
  "str_endswith s suffix = str_startswith (rev s) (rev suffix)"

definition REACTION_STRATEGIES :: "string list" where
  "REACTION_STRATEGIES = names_for_family CANONICAL_FAMILY_REACTION True"
definition ZONE_STRATEGIES :: "string list" where
  "ZONE_STRATEGIES = names_for_family CANONICAL_FAMILY_ZONE True"
definition TECHNIQUE_STRATEGIES :: "string list" where
  "TECHNIQUE_STRATEGIES = map sn_canonical (filter (\<lambda>e. case sn_detector_id e of None \<Rightarrow> False
     | Some d \<Rightarrow> d \<noteq> [] \<and> str_endswith d ''_technique_reaction'') STRATEGY_NAMES)"
definition CONFLUENCE_STRATEGIES :: "string list" where
  "CONFLUENCE_STRATEGIES =
     map sn_canonical (filter (\<lambda>e. sn_detector_id e = Some ''confluence_zone_reaction'') STRATEGY_NAMES)"
definition LIQUIDITY_STRATEGIES :: "string list" where
  "LIQUIDITY_STRATEGIES = names_for_family CANONICAL_FAMILY_LIQUIDITY True"
definition RANGE_STRATEGIES :: "string list" where
  "RANGE_STRATEGIES = names_for_family CANONICAL_FAMILY_RANGE True"
definition M1_SCALP_STRATEGIES :: "string list" where
  "M1_SCALP_STRATEGIES = names_for_family CANONICAL_FAMILY_SCALP True"
definition BREAKOUT_RETEST_SCALP_STRATEGIES :: "string list" where
  "BREAKOUT_RETEST_SCALP_STRATEGIES = [BREAKOUT_RETEST_SCALP]"

definition SCALP_FAMILIES :: "string list" where
  "SCALP_FAMILIES = [''scalp'', ''range'', ''range_reversion'']"
definition SCALP_MODES :: "string list" where
  "SCALP_MODES = [''scalp_m1'', ''range_scalp'', ''auto_box_scalp'']"
definition M1_SCALP_MODES :: "string list" where "M1_SCALP_MODES = [''scalp_m1'']"
definition M1_SCALP_FAMILIES :: "string list" where "M1_SCALP_FAMILIES = [CANONICAL_FAMILY_SCALP]"

definition is_reaction_strategy :: "string \<Rightarrow> bool" where
  "is_reaction_strategy name \<longleftrightarrow> name \<in> set REACTION_STRATEGIES"
definition is_zone_strategy :: "string \<Rightarrow> bool" where
  "is_zone_strategy name \<longleftrightarrow> name \<in> set ZONE_STRATEGIES"
definition is_technique_strategy :: "string \<Rightarrow> bool" where
  "is_technique_strategy name \<longleftrightarrow> name \<in> set TECHNIQUE_STRATEGIES"
definition is_confluence_strategy :: "string \<Rightarrow> bool" where
  "is_confluence_strategy name \<longleftrightarrow> name \<in> set CONFLUENCE_STRATEGIES"
definition is_technique_or_confluence :: "string \<Rightarrow> bool" where
  "is_technique_or_confluence name \<longleftrightarrow> name \<in> set TECHNIQUE_STRATEGIES \<or> name \<in> set CONFLUENCE_STRATEGIES"
definition is_liquidity_strategy :: "string \<Rightarrow> bool" where
  "is_liquidity_strategy name \<longleftrightarrow> name \<in> set LIQUIDITY_STRATEGIES"
definition is_range_strategy :: "string \<Rightarrow> bool" where
  "is_range_strategy name \<longleftrightarrow> name \<in> set RANGE_STRATEGIES"
definition is_m1_scalp_strategy :: "string \<Rightarrow> bool" where
  "is_m1_scalp_strategy name \<longleftrightarrow> name \<in> set M1_SCALP_STRATEGIES"
definition is_breakout_retest_scalp_strategy :: "string \<Rightarrow> bool" where
  "is_breakout_retest_scalp_strategy name \<longleftrightarrow> name \<in> set BREAKOUT_RETEST_SCALP_STRATEGIES"

text \<open>The arguments are the attributes \<open>strategy\<close>, \<open>family\<close>, \<open>strategy_mode\<close> and
  \<open>structural_source\<close> of a match, with \<open>None\<close> read as the empty string.\<close>

definition is_m1_scalp_match :: "string \<Rightarrow> string \<Rightarrow> string \<Rightarrow> string \<Rightarrow> bool" where
  "is_m1_scalp_match strategy family strategy_mode structural_source \<longleftrightarrow>
     is_m1_scalp_strategy strategy \<or> str_lower family \<in> set M1_SCALP_FAMILIES \<or>
     str_lower strategy_mode \<in> set M1_SCALP_MODES \<or> str_lower structural_source = ''scalp''"

definition is_scalp_strategy :: "string \<Rightarrow> string \<Rightarrow> string \<Rightarrow> bool" where
  "is_scalp_strategy name family strategy_mode \<longleftrightarrow>
     is_range_strategy name \<or> is_m1_scalp_strategy name \<or>
     str_lower family \<in> set SCALP_FAMILIES \<or> str_lower strategy_mode \<in> set SCALP_MODES"

definition bypasses_opposing_structure_gates ::
  "string \<Rightarrow> rat option \<Rightarrow> string \<Rightarrow> string \<Rightarrow> bool" where
  "bypasses_opposing_structure_gates name full_take_profit_pips family strategy_mode =
     (if is_m1_scalp_strategy name then True
      else if str_lower strategy_mode \<in> set M1_SCALP_MODES then True
      else if str_lower family \<in> set M1_SCALP_FAMILIES then True
      else if \<not> is_scalp_strategy name family strategy_mode then False
      else (case full_take_profit_pips of None \<Rightarrow> False | Some p \<Rightarrow> p > 0))"

section \<open>Unambiguous resolution\<close>

lemma claim_aliases_ok:
  assumes "claim_aliases canon ps owners = Inr r"
  shows "(\<forall>(a, c)\<in>set ps. a \<notin> canon \<and> r a = Some c) \<and> (\<forall>a c. owners a = Some c \<longrightarrow> r a = Some c)"
  using assms
proof (induction canon ps owners rule: claim_aliases.induct)
  case (2 canon al canonical rest owners)
  show ?case
  proof (cases "owners al")
    case None
    with 2 have "claim_aliases canon rest (owners(al \<mapsto> canonical)) = Inr r" "al \<notin> canon"
      by (auto split: if_splits)
    with 2(1)[OF this(2) None] have ih:
      "(\<forall>(a, c)\<in>set rest. a \<notin> canon \<and> r a = Some c)"
      "\<And>a c. (owners(al \<mapsto> canonical)) a = Some c \<Longrightarrow> r a = Some c" by blast+
    have "r al = Some canonical" using ih(2)[of al canonical] by simp
    moreover have "owners a = Some c \<Longrightarrow> r a = Some c" for a c
      using ih(2)[of a c] None by (cases "a = al") auto
    ultimately show ?thesis using ih(1) \<open>al \<notin> canon\<close> by auto
  next
    case (Some p)
    with 2 show ?thesis by (auto split: if_splits)
  qed
qed simp

lemma by_alias_inner:
  "foldl (\<lambda>m a. m(a \<mapsto> e)) m xs k = (if k \<in> set xs then Some e else m k)"
  by (induction xs rule: rev_induct) auto

lemma by_alias_some:
  "BY_ALIAS names k = Some e \<Longrightarrow> e \<in> set names \<and> k \<in> set (sn_aliases e)"
  "e \<in> set names \<Longrightarrow> k \<in> set (sn_aliases e) \<Longrightarrow> BY_ALIAS names k \<noteq> None"
proof -
  show "BY_ALIAS names k = Some e \<Longrightarrow> e \<in> set names \<and> k \<in> set (sn_aliases e)"
    unfolding BY_ALIAS_def
    by (induction names rule: rev_induct) (auto simp: by_alias_inner split: if_splits)
  show "e \<in> set names \<Longrightarrow> k \<in> set (sn_aliases e) \<Longrightarrow> BY_ALIAS names k \<noteq> None"
    unfolding BY_ALIAS_def
    by (induction names rule: rev_induct) (auto simp: by_alias_inner)
qed

lemma validate_namesD:
  assumes "validate_names names = Inr ()"
  shows "distinct (map (\<lambda>e. str_lower (sn_canonical e)) names)"
    "e \<in> set names \<Longrightarrow> a \<in> set (sn_aliases e) \<Longrightarrow> a \<notin> (\<lambda>e. str_lower (sn_canonical e)) ` set names"
    "e \<in> set names \<Longrightarrow> e' \<in> set names \<Longrightarrow> a \<in> set (sn_aliases e) \<Longrightarrow> a \<in> set (sn_aliases e') \<Longrightarrow>
      sn_canonical e = sn_canonical e'"
proof -
  obtain r where d: "distinct (map (\<lambda>e. str_lower (sn_canonical e)) names)"
    and r: "claim_aliases ((\<lambda>e. str_lower (sn_canonical e)) ` set names) (alias_pairs names) Map.empty = Inr r"
    using assms by (auto simp: validate_names_def Let_def res_bind_Inr_iff split: if_splits)
  show "distinct (map (\<lambda>e. str_lower (sn_canonical e)) names)" by (rule d)
  have p: "(a, sn_canonical e) \<in> set (alias_pairs names)" if "e \<in> set names" "a \<in> set (sn_aliases e)" for a e
    using that by (auto simp: alias_pairs_def)
  note ok = claim_aliases_ok[OF r, THEN conjunct1, rule_format, OF p]
  show "e \<in> set names \<Longrightarrow> a \<in> set (sn_aliases e) \<Longrightarrow> a \<notin> (\<lambda>e. str_lower (sn_canonical e)) ` set names"
    using ok[of e a] by simp
  show "e \<in> set names \<Longrightarrow> e' \<in> set names \<Longrightarrow> a \<in> set (sn_aliases e) \<Longrightarrow> a \<in> set (sn_aliases e') \<Longrightarrow>
      sn_canonical e = sn_canonical e'"
    using ok[of e a] ok[of e' a] by simp
qed

lemma canonical_inj:
  assumes "distinct (map (\<lambda>e. str_lower (sn_canonical e)) names)" "e \<in> set names" "e' \<in> set names"
    "str_lower (sn_canonical e) = str_lower (sn_canonical e')"
  shows "e = e'"
  using assms by (metis (mono_tags, lifting) distinct_map inj_onD)

text \<open>A table that passes the import-time check resolves unambiguously: every spelling of a
  canonical name or of an alias, in any case and with surrounding blanks, resolves to the one
  entry that owns it. The shipped table passes the check.\<close>

theorem names_resolve_uniquely:
  assumes "validate_names names = Inr ()" "e \<in> set names"
    "str_lower (str_strip text) \<noteq> []"
    "str_lower (str_strip text) = str_lower (sn_canonical e) \<or> str_lower (str_strip text) \<in> set (sn_aliases e)"
  shows "resolve_in names (Some text) = Some e"
proof -
  let ?k = "str_lower (str_strip text)"
  note v = validate_namesD[OF assms(1)]
  show ?thesis
  proof (cases "?k = str_lower (sn_canonical e)")
    case True
    have "find (\<lambda>e. str_lower (sn_canonical e) = ?k) names \<noteq> None"
      using assms(2) True by (auto simp: find_None_iff)
    then obtain e' where f: "find (\<lambda>e. str_lower (sn_canonical e) = ?k) names = Some e'" by auto
    then have "e' \<in> set names" "str_lower (sn_canonical e') = ?k" by (auto simp: find_Some_iff)
    with canonical_inj[OF v(1) _ assms(2), of e'] True have "e' = e" by simp
    with f assms(3) show ?thesis by (simp add: resolve_in_def Let_def)
  next
    case False
    with assms(4) have a: "?k \<in> set (sn_aliases e)" by simp
    have f: "find (\<lambda>e. str_lower (sn_canonical e) = ?k) names = None"
      using v(2)[OF assms(2) a] by (force simp: find_None_iff image_iff)
    from by_alias_some(2)[OF assms(2) a] obtain e' where b: "BY_ALIAS names ?k = Some e'" by auto
    from by_alias_some(1)[OF b] have e': "e' \<in> set names" "?k \<in> set (sn_aliases e')" by simp_all
    with v(3)[OF assms(2) e'(1) a] canonical_inj[OF v(1) assms(2), of e'] have "e' = e" by simp
    with b f assms(3) show ?thesis by (simp add: resolve_in_def Let_def)
  qed
qed

lemma names_resolve_uniquely_witness:
  "validate_names STRATEGY_NAMES = Inr () \<and>
   map_option sn_canonical (resolve_strategy (Some '' OB '')) = Some ORDER_BLOCK"
proof -
  let ?e = "name_entry ORDER_BLOCK CANONICAL_FAMILY_ZONE (Some ''order_block_technique_reaction'')
    [''order block reaction'', ''ob''] False"
  have v: "validate_names STRATEGY_NAMES = Inr ()" by code_simp
  have m: "?e \<in> set STRATEGY_NAMES" by (simp add: STRATEGY_NAMES_def)
  have k: "str_lower (str_strip '' OB '') = ''ob''" by code_simp
  have a: "''ob'' \<in> set (sn_aliases ?e)" by code_simp
  have "resolve_in STRATEGY_NAMES (Some '' OB '') = Some ?e"
    by (rule names_resolve_uniquely[OF v m]) (simp_all add: k a)
  with v show ?thesis by (simp add: resolve_strategy_def name_entry_def)
qed

end
