(* ===== verification/StrategyRegistry.thy ===== *)
theory StrategyRegistry
  imports StrategyNames
begin

text \<open>
  The table of strategies (\<open>app/autotrade/strategy_registry.py\<close>): the families, archetypes and enable switch of each, and
  the lookup by any name. The configuration is a tree of attributes; the detectors of the analysis package are a list of
  names.
\<close>

section \<open>Archetypes and families\<close>

definition ARCHETYPE_REVERSAL :: string where "ARCHETYPE_REVERSAL = ''reversal''"
definition ARCHETYPE_RANGE_REVERSION :: string where "ARCHETYPE_RANGE_REVERSION = ''range_reversion''"
definition ARCHETYPE_TREND_PULLBACK :: string where "ARCHETYPE_TREND_PULLBACK = ''trend_pullback''"
definition ARCHETYPE_BREAKOUT_RETEST :: string where "ARCHETYPE_BREAKOUT_RETEST = ''breakout_retest''"
definition ARCHETYPE_MOMENTUM :: string where "ARCHETYPE_MOMENTUM = ''momentum''"
definition ARCHETYPE_UNKNOWN :: string where "ARCHETYPE_UNKNOWN = ''unknown''"
definition ACTIVATION_REACTION :: string where "ACTIVATION_REACTION = ''reaction_reversal''"
definition ACTIVATION_BREAKOUT_RETEST :: string where "ACTIVATION_BREAKOUT_RETEST = ''breakout_retest''"
definition ACTIVATION_TREND_PULLBACK :: string where "ACTIVATION_TREND_PULLBACK = ''trend_pullback''"
definition ACTIVATION_MOMENTUM :: string where "ACTIVATION_MOMENTUM = ''momentum_continuation''"
definition ACTIVATION_UNKNOWN :: string where "ACTIVATION_UNKNOWN = ''unknown''"
definition FAMILY_EXEC_RANGE_REVERSION :: string where "FAMILY_EXEC_RANGE_REVERSION = ''range_reversion''"
definition FAMILY_EXEC_TREND_PULLBACK :: string where "FAMILY_EXEC_TREND_PULLBACK = ''trend_pullback''"
definition FAMILY_EXEC_BREAKOUT_RETEST :: string where "FAMILY_EXEC_BREAKOUT_RETEST = ''breakout_retest''"
definition FAMILY_EXEC_MOMENTUM_CONTINUATION :: string where "FAMILY_EXEC_MOMENTUM_CONTINUATION = ''momentum_continuation''"
definition FAMILY_EXEC_LIQUIDITY_REVERSAL :: string where "FAMILY_EXEC_LIQUIDITY_REVERSAL = ''liquidity_reversal''"
definition FAMILY_EXEC_MAPPED_ZONE_REACTION :: string where "FAMILY_EXEC_MAPPED_ZONE_REACTION = ''mapped_zone_reaction''"
definition FAMILY_EXEC_KEY_LEVEL :: string where "FAMILY_EXEC_KEY_LEVEL = ''key_level''"
definition FAMILY_EXEC_SUPPLY_DEMAND :: string where "FAMILY_EXEC_SUPPLY_DEMAND = ''supply_demand''"
definition FAMILY_EXEC_SESSION_LEVEL :: string where "FAMILY_EXEC_SESSION_LEVEL = ''session_level''"
definition FAMILY_EXEC_TRENDLINE :: string where "FAMILY_EXEC_TRENDLINE = ''trendline''"
definition FAMILY_UNKNOWN :: string where "FAMILY_UNKNOWN = ''unknown''"
definition FAMILY_DETECTOR_KEY_LEVEL :: string where "FAMILY_DETECTOR_KEY_LEVEL = ''key_level''"
definition FAMILY_DETECTOR_SUPPLY_DEMAND :: string where "FAMILY_DETECTOR_SUPPLY_DEMAND = ''supply_demand''"
definition FAMILY_DETECTOR_SESSION_LEVEL :: string where "FAMILY_DETECTOR_SESSION_LEVEL = ''session_level''"
definition FAMILY_DETECTOR_TRENDLINE :: string where "FAMILY_DETECTOR_TRENDLINE = ''trendline''"
definition FAMILY_DETECTOR_RANGE_REVERSION :: string where "FAMILY_DETECTOR_RANGE_REVERSION = ''range_reversion''"
definition FAMILY_DETECTOR_BREAKOUT_RETEST :: string where "FAMILY_DETECTOR_BREAKOUT_RETEST = ''breakout_retest''"
definition FAMILY_DETECTOR_TREND_PULLBACK :: string where "FAMILY_DETECTOR_TREND_PULLBACK = ''trend_pullback''"
definition FAMILY_DETECTOR_MOMENTUM_CONTINUATION :: string where
  "FAMILY_DETECTOR_MOMENTUM_CONTINUATION = ''momentum_continuation''"
definition FAMILY_DETECTOR_LIQUIDITY_REVERSAL :: string where "FAMILY_DETECTOR_LIQUIDITY_REVERSAL = ''liquidity_reversal''"

lemmas registry_consts =
  ARCHETYPE_REVERSAL_def ARCHETYPE_RANGE_REVERSION_def ARCHETYPE_TREND_PULLBACK_def
  ARCHETYPE_BREAKOUT_RETEST_def ARCHETYPE_MOMENTUM_def ARCHETYPE_UNKNOWN_def
  ACTIVATION_REACTION_def ACTIVATION_BREAKOUT_RETEST_def ACTIVATION_TREND_PULLBACK_def
  ACTIVATION_MOMENTUM_def ACTIVATION_UNKNOWN_def FAMILY_EXEC_RANGE_REVERSION_def
  FAMILY_EXEC_TREND_PULLBACK_def FAMILY_EXEC_BREAKOUT_RETEST_def FAMILY_EXEC_MOMENTUM_CONTINUATION_def
  FAMILY_EXEC_LIQUIDITY_REVERSAL_def FAMILY_EXEC_MAPPED_ZONE_REACTION_def FAMILY_EXEC_KEY_LEVEL_def
  FAMILY_EXEC_SUPPLY_DEMAND_def FAMILY_EXEC_SESSION_LEVEL_def FAMILY_EXEC_TRENDLINE_def
  FAMILY_UNKNOWN_def FAMILY_DETECTOR_KEY_LEVEL_def FAMILY_DETECTOR_SUPPLY_DEMAND_def
  FAMILY_DETECTOR_SESSION_LEVEL_def FAMILY_DETECTOR_TRENDLINE_def FAMILY_DETECTOR_RANGE_REVERSION_def
  FAMILY_DETECTOR_BREAKOUT_RETEST_def FAMILY_DETECTOR_TREND_PULLBACK_def FAMILY_DETECTOR_MOMENTUM_CONTINUATION_def
  FAMILY_DETECTOR_LIQUIDITY_REVERSAL_def

definition SCALPING_MODE_SETTING :: string where "SCALPING_MODE_SETTING = ''strategies.scalping.mode''"
definition DEFAULT_ENABLE :: string where "DEFAULT_ENABLE = ''runtime.auto_trade.strategy_match_enabled''"
definition RANGE_ENABLED :: string where "RANGE_ENABLED = ''strategies.range_reversion.enabled''"

section \<open>The table\<close>

record strategy_row =
  rw_name :: string
  rw_detector_family :: string
  rw_execution_family :: string
  rw_canonical_family :: string
  rw_location_archetype :: string
  rw_activation_archetype :: string
  rw_enable_setting :: string
  rw_m5_authoritative :: bool
  rw_is_scalp :: bool
  rw_is_technique :: bool
  rw_detector_key :: "string option"
  rw_enable_requires_live_mode :: bool

definition reaction_row :: "string \<Rightarrow> string option \<Rightarrow> string \<Rightarrow> string \<Rightarrow> string \<Rightarrow> strategy_row" where
  "reaction_row name key detector_family execution_family enable =
     \<lparr>rw_name = name, rw_detector_family = detector_family, rw_execution_family = execution_family,
      rw_canonical_family = CANONICAL_FAMILY_REACTION, rw_location_archetype = ARCHETYPE_REVERSAL,
      rw_activation_archetype = ACTIVATION_REACTION, rw_enable_setting = enable, rw_m5_authoritative = True,
      rw_is_scalp = False, rw_is_technique = False, rw_detector_key = key, rw_enable_requires_live_mode = False\<rparr>"

definition zone_row :: "string \<Rightarrow> string option \<Rightarrow> string \<Rightarrow> bool \<Rightarrow> strategy_row" where
  "zone_row name key enable technique =
     \<lparr>rw_name = name, rw_detector_family = FAMILY_DETECTOR_SUPPLY_DEMAND, rw_execution_family = FAMILY_EXEC_SUPPLY_DEMAND,
      rw_canonical_family = CANONICAL_FAMILY_ZONE, rw_location_archetype = ARCHETYPE_REVERSAL,
      rw_activation_archetype = ACTIVATION_REACTION, rw_enable_setting = enable, rw_m5_authoritative = True,
      rw_is_scalp = False, rw_is_technique = technique, rw_detector_key = key, rw_enable_requires_live_mode = False\<rparr>"

definition range_row :: "string \<Rightarrow> string option \<Rightarrow> string \<Rightarrow> strategy_row" where
  "range_row name key enable =
     \<lparr>rw_name = name, rw_detector_family = FAMILY_DETECTOR_RANGE_REVERSION,
      rw_execution_family = FAMILY_EXEC_RANGE_REVERSION, rw_canonical_family = CANONICAL_FAMILY_RANGE,
      rw_location_archetype = ARCHETYPE_RANGE_REVERSION, rw_activation_archetype = ACTIVATION_REACTION,
      rw_enable_setting = enable, rw_m5_authoritative = False, rw_is_scalp = True, rw_is_technique = False,
      rw_detector_key = key, rw_enable_requires_live_mode = False\<rparr>"

definition m1_scalp_row :: "string \<Rightarrow> strategy_row" where
  "m1_scalp_row name =
     \<lparr>rw_name = name, rw_detector_family = FAMILY_DETECTOR_RANGE_REVERSION,
      rw_execution_family = FAMILY_EXEC_RANGE_REVERSION, rw_canonical_family = CANONICAL_FAMILY_SCALP,
      rw_location_archetype = ARCHETYPE_RANGE_REVERSION, rw_activation_archetype = ACTIVATION_REACTION,
      rw_enable_setting = SCALPING_MODE_SETTING, rw_m5_authoritative = False, rw_is_scalp = True, rw_is_technique = False,
      rw_detector_key = None, rw_enable_requires_live_mode = True\<rparr>"

text \<open>A row written out in the table, neither a scalp nor a technique.\<close>

definition plain_row ::
  "string \<Rightarrow> string option \<Rightarrow> string \<Rightarrow> string \<Rightarrow> string \<Rightarrow> string \<Rightarrow> string \<Rightarrow> string \<Rightarrow> bool \<Rightarrow> strategy_row" where
  "plain_row name key detector_family execution_family family location activation enable m5 =
     \<lparr>rw_name = name, rw_detector_family = detector_family, rw_execution_family = execution_family,
      rw_canonical_family = family, rw_location_archetype = location, rw_activation_archetype = activation,
      rw_enable_setting = enable, rw_m5_authoritative = m5, rw_is_scalp = False, rw_is_technique = False,
      rw_detector_key = key, rw_enable_requires_live_mode = False\<rparr>"

definition STRATEGY_ROWS :: "strategy_row list" where
  "STRATEGY_ROWS =
     [reaction_row ''Key Level Reaction'' (Some ''key_level_reaction'')
         FAMILY_DETECTOR_KEY_LEVEL FAMILY_EXEC_KEY_LEVEL ''strategies.reaction.key_level.enabled'',
      zone_row ''Confluence Zone'' (Some ''confluence_zone_reaction'') ''strategies.technique.confluence.enabled'' True,
      zone_row ''Supply Demand'' (Some ''supply_demand_technique_reaction'') ''strategies.technique.sd.enabled'' True,
      zone_row ''Order Block'' (Some ''order_block_technique_reaction'') ''strategies.technique.ob.enabled'' True,
      zone_row ''FVG'' (Some ''fvg_technique_reaction'') ''strategies.technique.fvg.enabled'' True,
      zone_row ''iFVG'' (Some ''ifvg_technique_reaction'') ''strategies.technique.ifvg.enabled'' True,
      zone_row ''CRT'' (Some ''crt_technique_reaction'') ''strategies.technique.crt.enabled'' True,
      zone_row ''Demand Zone Reaction'' (Some ''demand_zone_reaction'') ''strategies.reaction.demand.enabled'' False,
      zone_row ''Supply Zone Reaction'' (Some ''supply_zone_reaction'') ''strategies.reaction.supply.enabled'' False,
      zone_row ''Flip Zone'' (Some ''flip_demand_zone_reaction'') ''strategies.zone.flip.enabled'' False,
      reaction_row ''Session Level Reaction'' (Some ''session_level_reaction'')
         FAMILY_DETECTOR_SESSION_LEVEL FAMILY_EXEC_SESSION_LEVEL ''strategies.reaction.session_level.enabled'',
      reaction_row ''Trendline Reaction'' (Some ''trendline_reaction'')
         FAMILY_DETECTOR_TRENDLINE FAMILY_EXEC_TRENDLINE ''strategies.reaction.trendline.enabled'',
      range_row ''Range Edge Scalp'' (Some ''range_edge_scalp'') ''strategies.range_reversion.range_edge.enabled'',
      plain_row ''Box Breakout'' (Some ''box_breakout'')
         FAMILY_DETECTOR_BREAKOUT_RETEST FAMILY_EXEC_BREAKOUT_RETEST CANONICAL_FAMILY_BREAKOUT_RETEST
         ARCHETYPE_BREAKOUT_RETEST ACTIVATION_BREAKOUT_RETEST ''strategies.selection.box_breakout_enabled''
         False,
      plain_row ''Break & Retest'' (Some ''break_retest'')
         FAMILY_DETECTOR_BREAKOUT_RETEST FAMILY_EXEC_BREAKOUT_RETEST CANONICAL_FAMILY_BREAKOUT_RETEST
         ARCHETYPE_BREAKOUT_RETEST ACTIVATION_BREAKOUT_RETEST ''strategies.breakout.break_retest_enabled''
         False,
      plain_row ''Trend Pullback'' None
         FAMILY_DETECTOR_TREND_PULLBACK FAMILY_EXEC_TREND_PULLBACK CANONICAL_FAMILY_TREND_PULLBACK
         ARCHETYPE_TREND_PULLBACK ACTIVATION_TREND_PULLBACK ''strategies.trend.enabled'' False,
      plain_row ''Momentum Ride'' (Some ''momentum_ride'')
         FAMILY_DETECTOR_MOMENTUM_CONTINUATION FAMILY_EXEC_MOMENTUM_CONTINUATION CANONICAL_FAMILY_MOMENTUM
         ARCHETYPE_MOMENTUM ACTIVATION_MOMENTUM ''strategies.selection.momentum_ride_enabled'' True,
      plain_row ''Snap-Back'' (Some ''snap_back'')
         FAMILY_DETECTOR_LIQUIDITY_REVERSAL FAMILY_EXEC_LIQUIDITY_REVERSAL CANONICAL_FAMILY_LIQUIDITY
         ARCHETYPE_REVERSAL ACTIVATION_REACTION ''strategies.selection.snap_back_enabled'' False,
      range_row ''Fade Scalp'' (Some ''fade_scalp'') ''strategies.scalp.fade_scalp_enabled'',
      zone_row ''Zone Reaction'' None ''strategies.reaction.enabled'' False,
      zone_row ''Demand Zone'' None ''strategies.zone.demand.enabled'' False,
      zone_row ''Supply Zone'' None ''strategies.zone.supply.enabled'' False,
      range_row ''Range Box Scalp'' None RANGE_ENABLED,
      range_row ''One-Sided Range Reaction'' None RANGE_ENABLED,
      range_row ''Chop Zone Reaction'' None RANGE_ENABLED,
      plain_row ''Liquidity Sweep'' None
         FAMILY_DETECTOR_LIQUIDITY_REVERSAL FAMILY_EXEC_LIQUIDITY_REVERSAL CANONICAL_FAMILY_LIQUIDITY
         ARCHETYPE_REVERSAL ACTIVATION_REACTION ''strategies.reaction.liquidity_reversal.enabled'' False,
      plain_row ''Breakout Continuation'' None
         FAMILY_DETECTOR_MOMENTUM_CONTINUATION FAMILY_EXEC_MOMENTUM_CONTINUATION CANONICAL_FAMILY_UNKNOWN
         ARCHETYPE_MOMENTUM ACTIVATION_MOMENTUM ''strategies.selection.momentum_ride_enabled'' True,
      plain_row ''Mapped Zone Reaction'' None
         FAMILY_DETECTOR_SUPPLY_DEMAND FAMILY_EXEC_MAPPED_ZONE_REACTION CANONICAL_FAMILY_ZONE
         ARCHETYPE_REVERSAL ACTIVATION_REACTION ''strategies.mapped_zone.enabled'' True,
      m1_scalp_row ''Range Sweep Scalp'',
      m1_scalp_row ''Impulse Pullback Scalp'',
      m1_scalp_row ''Breakout Retest Scalp'',
      m1_scalp_row ''Momentum Chase Scalp'']"

text \<open>\<open>setdefault\<close>: the first row of a name stays.\<close>

definition STRATEGY_BY_NAME :: "string \<Rightarrow> strategy_row option" where
  "STRATEGY_BY_NAME name = find (\<lambda>r. rw_name r = name) STRATEGY_ROWS"

text \<open>Later rows overwrite earlier ones; the second flip detector shares the row of the first.\<close>

definition STRATEGY_BY_DETECTOR_KEY :: "string \<Rightarrow> strategy_row option" where
  "STRATEGY_BY_DETECTOR_KEY key =
     (if key = ''flip_supply_zone_reaction'' then STRATEGY_BY_NAME ''Flip Zone''
      else if key = [] then None
      else find (\<lambda>r. rw_detector_key r = Some key) (rev STRATEGY_ROWS))"

section \<open>Lookup\<close>

definition lookup_row :: "string \<Rightarrow> strategy_row option" where
  "lookup_row strategy =
     (let key = str_strip strategy in
      if key = [] then None
      else STRATEGY_BY_NAME (case resolve_strategy (Some key) of Some e \<Rightarrow> sn_canonical e | None \<Rightarrow> key))"

definition strategy_family :: "string \<Rightarrow> string" where
  "strategy_family strategy = (case lookup_row strategy of Some row \<Rightarrow> rw_execution_family row | None \<Rightarrow> FAMILY_UNKNOWN)"

definition canonical_family :: "string \<Rightarrow> string" where
  "canonical_family name =
     (case lookup_row name of Some row \<Rightarrow> rw_canonical_family row | None \<Rightarrow> CANONICAL_FAMILY_UNKNOWN)"

definition location_archetype :: "string \<Rightarrow> string" where
  "location_archetype strategy =
     (case lookup_row strategy of Some row \<Rightarrow> rw_location_archetype row | None \<Rightarrow> ARCHETYPE_UNKNOWN)"

definition activation_archetype :: "string \<Rightarrow> string" where
  "activation_archetype strategy =
     (case lookup_row strategy of Some row \<Rightarrow> rw_activation_archetype row | None \<Rightarrow> ACTIVATION_UNKNOWN)"

section \<open>Enable switches\<close>

datatype cfg_node = CfgValue json | CfgSection "(string \<times> cfg_node) list"

fun resolve_parts :: "cfg_node \<Rightarrow> string list \<Rightarrow> cfg_node res" where
  "resolve_parts obj [] = Inr obj"
| "resolve_parts (CfgSection attrs) (part # parts) =
     (case map_of attrs part of None \<Rightarrow> Inl AttributeError | Some v \<Rightarrow> resolve_parts v parts)"
| "resolve_parts (CfgValue v) (part # parts) = Inl AttributeError"

definition resolve_enable_setting :: "string \<Rightarrow> cfg_node \<Rightarrow> cfg_node res" where
  "resolve_enable_setting path cfg = resolve_parts cfg (str_split CHR ''.'' path)"

fun node_truthy :: "cfg_node \<Rightarrow> bool" where
  "node_truthy (CfgValue v) = py_truthy v"
| "node_truthy (CfgSection attrs) = True"

text \<open>\<open>str(value or "").casefold() == "live"\<close>: only a text can be.\<close>

fun is_live :: "cfg_node \<Rightarrow> bool" where
  "is_live (CfgValue (JStr s)) = (str_lower s = ''live'')"
| "is_live _ = False"

definition resolve_strategy_enabled :: "strategy_row \<Rightarrow> cfg_node \<Rightarrow> bool res" where
  "resolve_strategy_enabled row cfg =
     res_bind (resolve_enable_setting (rw_enable_setting row) cfg) (\<lambda>v.
     Inr (if rw_enable_requires_live_mode row then is_live v else node_truthy v))"

definition strategy_mode_enabled :: "string \<Rightarrow> cfg_node \<Rightarrow> bool res" where
  "strategy_mode_enabled strategy cfg =
     (case lookup_row strategy of
        None \<Rightarrow> res_bind (resolve_enable_setting DEFAULT_ENABLE cfg) (\<lambda>v. Inr (node_truthy v))
      | Some row \<Rightarrow> resolve_strategy_enabled row cfg)"

text \<open>The import-time check, for the detectors the analysis package registers.\<close>

definition assert_registry_complete :: "string list \<Rightarrow> cfg_node \<Rightarrow> unit res" where
  "assert_registry_complete detectors cfg =
     (if filter (\<lambda>name. STRATEGY_BY_DETECTOR_KEY name = None) detectors \<noteq> []
      then Inl (RuntimeError ''LIVE_DETECTOR_REGISTRY entries missing strategy_registry rows'')
      else res_bind (res_map_list (\<lambda>row. resolve_enable_setting (rw_enable_setting row) cfg) STRATEGY_ROWS)
        (\<lambda>_. Inr ()))"

section \<open>The table against the names\<close>

text \<open>A row and the entry of its name: they agree on the family but for two names, and on what is a scalp and
  what is a technique.\<close>

definition row_matches :: "strategy_row \<Rightarrow> strategy_name \<Rightarrow> bool" where
  "row_matches r e \<longleftrightarrow>
     rw_name r = sn_canonical e \<and>
     (rw_canonical_family r = sn_family e \<longleftrightarrow> rw_name r \<notin> {''Breakout Continuation'', ''Mapped Zone Reaction''}) \<and>
     rw_is_scalp r = is_scalp_strategy (sn_canonical e) [] [] \<and> rw_is_technique r = is_technique_or_confluence (sn_canonical e)"

lemma scalp_lists:
  "RANGE_STRATEGIES = [''Range Edge Scalp'', ''Fade Scalp'', ''Range Box Scalp'', ''One-Sided Range Reaction'',
     ''Chop Zone Reaction'']"
  "M1_SCALP_STRATEGIES = [''Range Sweep Scalp'', ''Impulse Pullback Scalp'', ''Breakout Retest Scalp'',
     ''Momentum Chase Scalp'']"
  "TECHNIQUE_STRATEGIES = [''Supply Demand'', ''Order Block'', ''FVG'', ''iFVG'', ''CRT'']"
  "CONFLUENCE_STRATEGIES = [''Confluence Zone'']"
  by code_simp+

lemma row_defs:
  "rw_name (reaction_row n k d x s) = n" "rw_name (zone_row n k s t) = n" "rw_name (range_row n k s) = n"
  "rw_name (m1_scalp_row n) = n" "rw_name (plain_row n k d x f l a s m) = n"
  "rw_canonical_family (reaction_row n k d x s) = CANONICAL_FAMILY_REACTION"
  "rw_canonical_family (zone_row n k s t) = CANONICAL_FAMILY_ZONE"
  "rw_canonical_family (range_row n k s) = CANONICAL_FAMILY_RANGE"
  "rw_canonical_family (m1_scalp_row n) = CANONICAL_FAMILY_SCALP"
  "rw_canonical_family (plain_row n k d x f l a s m) = f"
  "rw_is_scalp (reaction_row n k d x s) = False" "rw_is_scalp (zone_row n k s t) = False"
  "rw_is_scalp (range_row n k s) = True" "rw_is_scalp (m1_scalp_row n) = True"
  "rw_is_scalp (plain_row n k d x f l a s m) = False"
  "rw_is_technique (reaction_row n k d x s) = False" "rw_is_technique (zone_row n k s t) = t"
  "rw_is_technique (range_row n k s) = False" "rw_is_technique (m1_scalp_row n) = False"
  "rw_is_technique (plain_row n k d x f l a s m) = False"
  by (simp_all add: reaction_row_def zone_row_def range_row_def m1_scalp_row_def plain_row_def)

lemma entry_defs:
  "sn_canonical (name_entry c f d a r) = c" "sn_family (name_entry c f d a r) = f"
  by (simp_all add: name_entry_def)

lemma rows_match: "list_all2 row_matches STRATEGY_ROWS (butlast STRATEGY_NAMES)"
  unfolding STRATEGY_ROWS_def STRATEGY_NAMES_def butlast.simps
  by (simp add: row_matches_def row_defs entry_defs strategy_consts is_scalp_strategy_def is_range_strategy_def
      is_m1_scalp_strategy_def is_technique_or_confluence_def scalp_lists SCALP_FAMILIES_def SCALP_MODES_def str_lower_def)

lemma last_name: "STRATEGY_NAMES = butlast STRATEGY_NAMES @ [name_entry GOLDEN_FIBO CANONICAL_FAMILY_UNKNOWN None [''golden-fibo''] True]"
  by (simp add: STRATEGY_NAMES_def)

lemma row_names: "map rw_name STRATEGY_ROWS = map sn_canonical (butlast STRATEGY_NAMES)"
proof -
  have "map rw_name rs = map sn_canonical es" if "list_all2 row_matches rs es" for rs es
    using that by (induction rule: list_all2_induct) (simp_all add: row_matches_def)
  then show ?thesis using rows_match .
qed

lemma names_distinct: "distinct (map sn_canonical STRATEGY_NAMES)"
  unfolding STRATEGY_NAMES_def by (simp add: entry_defs strategy_consts)

lemma find_by_name:
  assumes "distinct (map f xs)" "x \<in> set xs"
  shows "find (\<lambda>y. f y = f x) xs = Some x"
  using assms by (induction xs) auto

lemma find_no_name: "n \<notin> f ` set xs \<Longrightarrow> find (\<lambda>y. f y = n) xs = None"
  by (induction xs) auto

lemma list_all2_member: "list_all2 P xs ys \<Longrightarrow> y \<in> set ys \<Longrightarrow> \<exists>x \<in> set xs. P x y"
  by (induction rule: list_all2_induct) auto

lemma row_of_name:
  assumes "e \<in> set (butlast STRATEGY_NAMES)"
  shows "\<exists>r. STRATEGY_BY_NAME (sn_canonical e) = Some r \<and> row_matches r e"
proof -
  from list_all2_member [OF rows_match assms] obtain r where r: "r \<in> set STRATEGY_ROWS" "row_matches r e" by blast
  have "distinct (map sn_canonical (butlast STRATEGY_NAMES))"
    using names_distinct by (simp add: map_butlast distinct_butlast)
  then have "STRATEGY_BY_NAME (rw_name r) = Some r"
    unfolding STRATEGY_BY_NAME_def by (intro find_by_name) (simp_all add: row_names r)
  with r show ?thesis by (auto simp: row_matches_def)
qed

lemma row_name_known: "STRATEGY_BY_NAME n = Some r \<Longrightarrow> n \<in> sn_canonical ` set (butlast STRATEGY_NAMES)"
proof -
  assume "STRATEGY_BY_NAME n = Some r"
  then have "n \<in> set (map rw_name STRATEGY_ROWS)" by (auto simp: STRATEGY_BY_NAME_def find_Some_iff)
  then show ?thesis unfolding row_names by simp
qed

lemma resolve_member: "resolve_in names t = Some e \<Longrightarrow> e \<in> set names"
proof -
  have a: "foldl (\<lambda>m e. foldl (\<lambda>m a. m(a \<mapsto> e)) m (sn_aliases e)) m ns k = Some e \<Longrightarrow> m k = Some e \<or> e \<in> set ns"
    for m ns k
  proof (induction ns arbitrary: m)
    case (Cons n ns)
    have inner: "foldl (\<lambda>m a. m(a \<mapsto> n)) m as k = Some e \<Longrightarrow> m k = Some e \<or> e = n" for m as
    proof (induction as arbitrary: m)
      case (Cons a as)
      from Cons.prems have "foldl (\<lambda>m a. m(a \<mapsto> n)) (m(a \<mapsto> n)) as k = Some e" by (simp only: foldl.simps)
      from Cons.IH [OF this] have "(m(a \<mapsto> n)) k = Some e \<or> e = n" .
      then show ?case by (auto split: if_splits)
    qed simp
    from Cons.prems have "foldl (\<lambda>m e. foldl (\<lambda>m a. m(a \<mapsto> e)) m (sn_aliases e))
        (foldl (\<lambda>m a. m(a \<mapsto> n)) m (sn_aliases n)) ns k = Some e" by (simp only: foldl.simps)
    from Cons.IH [OF this] inner [of m "sn_aliases n"] show ?case by auto
  qed simp
  assume "resolve_in names t = Some e"
  then show ?thesis
    using a [of Map.empty names] by (auto simp: resolve_in_def BY_ALIAS_def Let_def find_Some_iff
        split: option.splits if_splits)
qed

lemma resolve_strip: "resolve_in names (Some (str_strip t)) = resolve_in names (Some t)"
  by (simp add: resolve_in_def strip_strip)

lemma resolve_blank: "str_strip t = [] \<Longrightarrow> resolve_in names (Some t) = None"
  by (simp add: resolve_in_def str_lower_def)

section \<open>Properties\<close>

text \<open>The registry follows the names: a text has a row exactly when it resolves to a strategy other than the retired
  Golden Fibo, and the row is that strategy's, whatever alias, case or blanks the text uses. The row agrees with the
  table of names on what is a scalp and what is a technique, and on the family for every strategy but two: Breakout
  Continuation is unknown here and momentum there, Mapped Zone Reaction is zone here and unknown there.\<close>

theorem registry_lookup_exact:
  "lookup_row strategy =
     (case resolve_strategy (Some strategy) of
        None \<Rightarrow> None
      | Some e \<Rightarrow> if sn_canonical e = GOLDEN_FIBO then None else STRATEGY_BY_NAME (sn_canonical e)) \<and>
   (\<forall>e. resolve_strategy (Some strategy) = Some e \<and> sn_canonical e \<noteq> GOLDEN_FIBO \<longrightarrow>
     (\<exists>r. lookup_row strategy = Some r \<and> rw_name r = sn_canonical e \<and>
        (rw_canonical_family r = sn_family e \<longleftrightarrow> rw_name r \<notin> {''Breakout Continuation'', ''Mapped Zone Reaction''}) \<and>
        rw_is_scalp r = is_scalp_strategy (sn_canonical e) [] [] \<and>
        rw_is_technique r = is_technique_or_confluence (sn_canonical e)))"
proof (cases "resolve_strategy (Some strategy)")
  case None
  let ?key = "str_strip strategy"
  have key: "resolve_strategy (Some ?key) = None" using None by (simp add: resolve_strategy_def resolve_strip)
  have "STRATEGY_BY_NAME ?key = None" if "?key \<noteq> []"
  proof (rule ccontr)
    assume "STRATEGY_BY_NAME ?key \<noteq> None"
    then obtain e where e': "e \<in> set (butlast STRATEGY_NAMES)" "sn_canonical e = ?key"
      using row_name_known [of ?key] by auto
    note e = in_set_butlastD [OF e'(1)] e'(2)
    then have "find (\<lambda>e. str_lower (sn_canonical e) = str_lower ?key) STRATEGY_NAMES \<noteq> None"
      by (auto simp: find_None_iff)
    moreover have "str_lower ?key \<noteq> []" using that by (simp add: str_lower_def)
    ultimately show False
      using key by (auto simp: resolve_strategy_def resolve_in_def strip_strip Let_def split: option.splits)
  qed
  then show ?thesis using None key by (auto simp: lookup_row_def Let_def)
next
  case (Some e)
  let ?key = "str_strip strategy"
  have key: "resolve_strategy (Some ?key) = Some e" using Some by (simp add: resolve_strategy_def resolve_strip)
  have ne: "?key \<noteq> []" using Some resolve_blank by (auto simp: resolve_strategy_def)
  have e: "e \<in> set STRATEGY_NAMES" using key resolve_member unfolding resolve_strategy_def by blast
  have row: "lookup_row strategy = STRATEGY_BY_NAME (sn_canonical e)" using ne by (simp add: lookup_row_def key)
  show ?thesis
  proof (cases "sn_canonical e = GOLDEN_FIBO")
    case True
    have "GOLDEN_FIBO \<notin> sn_canonical ` set (butlast STRATEGY_NAMES)"
      using names_distinct by (subst (asm) last_name) (auto simp: entry_defs)
    then have "STRATEGY_BY_NAME GOLDEN_FIBO = None" using row_name_known by (cases "STRATEGY_BY_NAME GOLDEN_FIBO") auto
    with True Some row show ?thesis by simp
  next
    case False
    then have "e \<in> set (butlast STRATEGY_NAMES)" using e by (subst (asm) last_name) (auto simp: entry_defs)
    from row_of_name [OF this] False Some row show ?thesis unfolding row_matches_def by auto
  qed
qed

theorem registry_lookup_exact_witness:
  "map_option rw_name (lookup_row '' HFS range sweep '') = Some ''Range Sweep Scalp''"
proof -
  have "map_option sn_canonical (resolve_strategy (Some '' HFS range sweep '')) = Some ''Range Sweep Scalp''" by code_simp
  then obtain e where e: "resolve_strategy (Some '' HFS range sweep '') = Some e" "sn_canonical e = ''Range Sweep Scalp''"
    by (cases "resolve_strategy (Some '' HFS range sweep '')") auto
  then have "sn_canonical e \<noteq> GOLDEN_FIBO" by (simp add: GOLDEN_FIBO_def)
  with e registry_lookup_exact [of "'' HFS range sweep ''"] obtain r where
    "lookup_row '' HFS range sweep '' = Some r" "rw_name r = sn_canonical e" by blast
  with e show ?thesis by simp
qed

end
