(* ===== verification/LifecycleEvents.thy ===== *)
theory LifecycleEvents
  imports RedisRuns
begin

text \<open>
  Candidate lifecycle events and metrics (\<open>app/autotrade/lifecycle.py\<close>). One emission reads the
  previous state and sends one pipeline. The clock is a \<open>lifecycle_clock\<close> (epoch second, ISO text,
  UTC hour), the random id is the argument \<open>uuid\<close>, the configuration a \<open>lifecycle_config\<close>; the
  approximate length bound of a stream is not modelled.
\<close>

section \<open>States\<close>

definition LIFECYCLE_STATES :: "string list" where
  "LIFECYCLE_STATES =
     [''detected'', ''analysis_only'', ''auto_ready'', ''tracked'', ''setup_status'', ''waiting_for_price'',
      ''candidate_published'', ''executor_received'', ''routing_selected'', ''order_planned'',
      ''order_submitted'', ''order_accepted'', ''order_filled'', ''managing'', ''partially_closed'',
      ''closed'', ''rejected'', ''expired'', ''invalidated'', ''cancelled'', ''error'']"

text \<open>
  \<open>parse_lifecycle_state\<close>. The text of a JSON object starts with a brace; that of another document
  is returned as it is, which is outside the model.
\<close>

definition parse_lifecycle_state :: "rtext option \<Rightarrow> string option res" where
  "parse_lifecycle_state raw =
     (case raw of
        None \<Rightarrow> Inr None
      | Some (Txt t) \<Rightarrow> Inr (if str_strip t = [] then None else Some (str_strip t))
      | Some (Doc (JObj kv)) \<Rightarrow>
          (case map_of kv ''state'' of
             None \<Rightarrow> Inr None | Some JNull \<Rightarrow> Inr None
           | Some v \<Rightarrow> res_bind (py_str v) (\<lambda>s. Inr (Some s)))
      | Some (Doc _) \<Rightarrow> Inl OutOfModel)"

definition lifecycle_key :: "string \<Rightarrow> string" where
  "lifecycle_key candidate_id = ''auto_trade:lifecycle:'' @ candidate_id"

definition lifecycle_state_key :: "string \<Rightarrow> string" where
  "lifecycle_state_key candidate = ''auto_trade:lifecycle_state:'' @ candidate"

definition last_lifecycle_key :: "string \<Rightarrow> string" where
  "last_lifecycle_key symbol = ''auto_trade:last_lifecycle:'' @ symbol"

definition evaluation_key :: "string \<Rightarrow> string \<Rightarrow> string" where
  "evaluation_key symbol name = ''auto_trade:evaluation:'' @ symbol @ '':'' @ name"

section \<open>Emission\<close>

record lifecycle_args =
  la_symbol :: string
  la_candidate_id :: "string option"
  la_correlation_id :: "string option"
  la_match_id :: "string option"
  la_range_id :: "string option"
  la_group_id :: "string option"
  la_strategy :: "string option"
  la_strategy_family :: "string option"
  la_direction :: "string option"
  la_timeframe :: "string option"
  la_entry_zone :: json
  la_current_price :: "rat option"
  la_target_plan :: json
  la_stop_plan :: json
  la_position_ids :: "int list"
  la_pending_order_ids :: "int list"
  la_reason_code :: "string option"
  la_message :: string
  la_measured :: json
  la_account_type :: "string option"
  la_broker :: "string option"
  la_publish_status :: bool

record lifecycle_clock =
  ck_ts :: int
  ck_iso :: string
  ck_hour :: int

record lifecycle_config =
  lc_profile :: string
  lc_storage_ttl_seconds :: int
  lc_events :: string

text \<open>\<open>a or b\<close> on optional texts.\<close>

definition opt_or :: "string option \<Rightarrow> string option \<Rightarrow> string option" where
  "opt_or a b = (if a \<in> {None, Some []} then b else a)"

definition candidate_of :: "lifecycle_args \<Rightarrow> string" where
  "candidate_of x =
     (case opt_or (la_candidate_id x) (opt_or (la_match_id x) (opt_or (la_correlation_id x) None)) of
        Some c \<Rightarrow> c | None \<Rightarrow> ''service'')"

definition lifecycle_event ::
  "lifecycle_config \<Rightarrow> string \<Rightarrow> lifecycle_clock \<Rightarrow> string \<Rightarrow> lifecycle_args \<Rightarrow> string option \<Rightarrow>
   (string \<times> json) list" where
  "lifecycle_event cfg uuid now state x previous =
     [(''lifecycle_id'', JStr uuid),
      (''correlation_id'', j_opt_str (opt_or (la_correlation_id x) (Some (candidate_of x)))),
      (''candidate_id'', j_opt_str (la_candidate_id x)),
      (''match_id'', j_opt_str (la_match_id x)),
      (''range_id'', j_opt_str (la_range_id x)),
      (''group_id'', j_opt_str (la_group_id x)),
      (''symbol'', JStr (str_upper (la_symbol x))),
      (''strategy'', j_opt_str (la_strategy x)),
      (''strategy_family'', j_opt_str (la_strategy_family x)),
      (''direction'', j_opt_str (map_option str_upper (la_direction x))),
      (''timeframe'', j_opt_str (la_timeframe x)),
      (''entry_zone'', la_entry_zone x),
      (''current_price'', j_opt_float (la_current_price x)),
      (''target_plan'', la_target_plan x),
      (''stop_plan'', la_stop_plan x),
      (''position_ids'', JList (map JInt (la_position_ids x))),
      (''pending_order_ids'', JList (map JInt (la_pending_order_ids x))),
      (''timestamp'', JInt (ck_ts now)),
      (''timestamp_iso'', JStr (ck_iso now)),
      (''state'', JStr state),
      (''previous_state'', j_opt_str previous),
      (''reason_code'', j_opt_str (la_reason_code x)),
      (''message'', JStr (la_message x)),
      (''configuration_profile'', JStr (lc_profile cfg)),
      (''account_type'', j_opt_str (la_account_type x)),
      (''broker'', j_opt_str (la_broker x)),
      (''measured'', py_or (la_measured x) (JObj []))]"

definition two_digits :: "int \<Rightarrow> string" where
  "two_digits h = (if h < 10 then ''0'' else []) @ str_int h"

definition session_utc :: "int \<Rightarrow> string" where
  "session_utc hour =
     (if hour < 7 then ''asia'' else if hour < 13 then ''london'' else if hour < 21 then ''new_york'' else ''rollover'')"

definition lifecycle_dimensions ::
  "lifecycle_clock \<Rightarrow> string \<Rightarrow> lifecycle_args \<Rightarrow> (string \<times> string option) list" where
  "lifecycle_dimensions now state x =
     [(''strategy'', la_strategy x),
      (''strategy_family'', la_strategy_family x),
      (''direction'', la_direction x),
      (''range_side'', if la_range_id x \<notin> {None, Some []} then la_direction x else None),
      (''detector'', if la_match_id x \<notin> {None, Some []} then la_strategy x else None),
      (''execution_route'', Some state),
      (''rejection_reason'', la_reason_code x),
      (''hour_utc'', Some (two_digits (ck_hour now))),
      (''session_utc'', Some (session_utc (ck_hour now)))]"

definition lifecycle_pipe ::
  "lifecycle_config \<Rightarrow> lifecycle_clock \<Rightarrow> string \<Rightarrow> lifecycle_args \<Rightarrow> (string \<times> json) list \<Rightarrow> redis_cmd list" where
  "lifecycle_pipe cfg now state x event =
     (let candidate = candidate_of x; encoded = Doc (JObj event);
          ttl = max 86400 (lc_storage_ttl_seconds cfg)
      in [RPUSH (lifecycle_key candidate) encoded,
          LTRIM_LAST (lifecycle_key candidate) 100,
          EXPIRE (lifecycle_key candidate) ttl,
          SET (lifecycle_state_key candidate) (Txt state) (Some ttl) False,
          SET (last_lifecycle_key (str_upper (la_symbol x))) encoded None False,
          XADD ''auto_trade:lifecycle_events'' encoded] @
         concat (map (\<lambda>(name, value).
             case value of
               Some (c # v) \<Rightarrow>
                 [HINCRBY (evaluation_key (str_upper (la_symbol x)) name) (state @ '':'' @ (c # v)) 1]
             | _ \<Rightarrow> [])
           (lifecycle_dimensions now state x)) @
         (if la_publish_status x
          then [XADD (lc_events cfg) (Doc (JObj ((''type'', JStr state) # event)))] else []))"

definition emit_lifecycle ::
  "lifecycle_config \<Rightarrow> string \<Rightarrow> lifecycle_clock \<Rightarrow> string \<Rightarrow> lifecycle_args \<Rightarrow> json prog" where
  "emit_lifecycle cfg uuid now state x =
     (if state \<notin> set LIFECYCLE_STATES then Raise ValueError
      else
        pbind (rget (lifecycle_state_key (candidate_of x))) (\<lambda>raw.
        pbind (of_res (parse_lifecycle_state raw)) (\<lambda>previous.
        let event = lifecycle_event cfg uuid now state x previous in
        pbind (rcall (PIPE (lifecycle_pipe cfg now state x event))) (\<lambda>_. Done (JObj event)))))"

section \<open>Metrics\<close>

fun str_join :: "string \<Rightarrow> string list \<Rightarrow> string" where
  "str_join sep [] = []"
| "str_join sep [x] = x"
| "str_join sep (x # xs) = x @ sep @ str_join sep xs"

definition metrics_key :: "string \<Rightarrow> string" where
  "metrics_key symbol = ''auto_trade:metrics:'' @ str_upper symbol"

definition increment_metric :: "string \<Rightarrow> string \<Rightarrow> (string \<times> string) list \<Rightarrow> unit prog" where
  "increment_metric name symbol dims =
     (let key = metrics_key symbol in
      pbind (run_cmd (HINCRBY key name 1)) (\<lambda>_.
      if dims = [] then Done ()
      else (let suffix = str_join '':''
                (map (\<lambda>(k, v). k @ ''='' @ v) (filter (\<lambda>(k, v). v \<noteq> []) (sort dims)))
            in if suffix = [] then Done () else run_cmd (HINCRBY (key @ '':'' @ name) suffix 1))))"

section \<open>Effect of a pipeline\<close>

lemma keff_pipe: "keff (PIPE cs) K = foldl (\<lambda>K c. keff c K) K cs"
proof (induction cs arbitrary: K)
  case (Cons c cs)
  then show ?case by (cases cs) (simp_all add: keff_def Let_def)
qed (simp add: keff_def)

lemma foldl_frame:
  "(\<And>c K. c \<in> set cs \<Longrightarrow> keff c K k = K k) \<Longrightarrow> foldl (\<lambda>K c. keff c K) K cs k = K k"
  by (induction cs arbitrary: K) auto

lemma keff_other:
  "k \<noteq> key \<Longrightarrow> keff (RPUSH key t) K k = K k" "k \<noteq> key \<Longrightarrow> keff (LTRIM_LAST key n) K k = K k"
  "k \<noteq> key \<Longrightarrow> keff (EXPIRE key n') K k = K k" "k \<noteq> key \<Longrightarrow> keff (SET key t e nx) K k = K k"
  "k \<noteq> key \<Longrightarrow> keff (XADD key t) K k = K k" "k \<noteq> key \<Longrightarrow> keff (HINCRBY key f i) K k = K k"
  by (auto simp: keff_def Let_def split: option.splits rvalue.splits)

definition list_key :: "keyspace \<Rightarrow> string \<Rightarrow> bool" where
  "list_key K k \<longleftrightarrow> (case K k of None \<Rightarrow> True | Some (VList l) \<Rightarrow> True | _ \<Rightarrow> False)"

definition last_n :: "nat \<Rightarrow> 'a list \<Rightarrow> 'a list" where
  "last_n n xs = drop (length xs - n) xs"

lemma push_trim:
  "list_key K key \<Longrightarrow>
   keff (EXPIRE key e) (keff (LTRIM_LAST key n) (keff (RPUSH key t) K)) key = Some (VList (last_n n (k_list K key @ [t])))"
  by (auto simp: list_key_def k_list_def keff_def last_n_def split: option.splits rvalue.splits)

lemma keff_set: "keff (SET key t e False) K key = Some (VStr t e)"
  by (simp add: keff_def)

lemma lifecycle_keys [simp]:
  "lifecycle_key c \<noteq> lifecycle_state_key d" "lifecycle_key c \<noteq> last_lifecycle_key s"
  "lifecycle_state_key d \<noteq> last_lifecycle_key s" "lifecycle_key c \<noteq> evaluation_key s n"
  "lifecycle_state_key c \<noteq> evaluation_key s n" "lifecycle_key c \<noteq> ''auto_trade:lifecycle_events''"
  "lifecycle_state_key c \<noteq> ''auto_trade:lifecycle_events''"
  by (simp_all add: lifecycle_key_def lifecycle_state_key_def last_lifecycle_key_def evaluation_key_def)

text \<open>The configured event stream is none of the per-candidate keys.\<close>

definition events_ok :: "lifecycle_config \<Rightarrow> bool" where
  "events_ok cfg \<longleftrightarrow> (\<forall>c. lc_events cfg \<noteq> lifecycle_key c \<and> lc_events cfg \<noteq> lifecycle_state_key c)"

lemma pipe_effect:
  assumes "events_ok cfg" "list_key K (lifecycle_key (candidate_of x))"
  shows "keff (PIPE (lifecycle_pipe cfg now state x event)) K (lifecycle_key (candidate_of x)) =
      Some (VList (last_n 100 (k_list K (lifecycle_key (candidate_of x)) @ [Doc (JObj event)])))"
    "keff (PIPE (lifecycle_pipe cfg now state x event)) K (lifecycle_state_key (candidate_of x)) =
      Some (VStr (Txt state) (Some (max 86400 (lc_storage_ttl_seconds cfg))))"
    "c \<noteq> candidate_of x \<Longrightarrow>
      keff (PIPE (lifecycle_pipe cfg now state x event)) K (lifecycle_state_key c) = K (lifecycle_state_key c) \<and>
      keff (PIPE (lifecycle_pipe cfg now state x event)) K (lifecycle_key c) = K (lifecycle_key c)"
proof -
  let ?hs = "concat (map (\<lambda>(name, value). case value of
        Some (c # v) \<Rightarrow> [HINCRBY (evaluation_key (str_upper (la_symbol x)) name) (state @ '':'' @ (c # v)) 1] | _ \<Rightarrow> [])
      (lifecycle_dimensions now state x)) @
    (if la_publish_status x then [XADD (lc_events cfg) (Doc (JObj ((''type'', JStr state) # event)))] else [])"
  have ev: "lifecycle_key d \<noteq> lc_events cfg" "lifecycle_state_key d \<noteq> lc_events cfg" for d
    using assms(1) unfolding events_ok_def by metis+
  have h: "keff c K k = K k"
    if "c \<in> set ?hs" "k = lifecycle_key d \<or> k = lifecycle_state_key d" for c K k d
    using that by (auto simp: keff_other ev split: option.splits list.splits if_splits prod.splits)
  have f: "foldl (\<lambda>K c. keff c K) K' ?hs k = K' k" if "k = lifecycle_key d \<or> k = lifecycle_state_key d" for K' k d
    using h that by (intro foldl_frame) blast
  note P = keff_pipe lifecycle_pipe_def Let_def
  show "keff (PIPE (lifecycle_pipe cfg now state x event)) K (lifecycle_key (candidate_of x)) =
      Some (VList (last_n 100 (k_list K (lifecycle_key (candidate_of x)) @ [Doc (JObj event)])))"
    unfolding P foldl_append[where ys = ?hs] by (subst f, blast) (simp add: keff_other push_trim[OF assms(2)])
  show "keff (PIPE (lifecycle_pipe cfg now state x event)) K (lifecycle_state_key (candidate_of x)) =
      Some (VStr (Txt state) (Some (max 86400 (lc_storage_ttl_seconds cfg))))"
    unfolding P foldl_append[where ys = ?hs] by (subst f, blast) (simp add: keff_other keff_set)
  have ne: "lifecycle_key c \<noteq> lifecycle_key (candidate_of x)" "lifecycle_state_key c \<noteq> lifecycle_state_key (candidate_of x)"
    if "c \<noteq> candidate_of x" using that by (simp_all add: lifecycle_key_def lifecycle_state_key_def)
  show "keff (PIPE (lifecycle_pipe cfg now state x event)) K (lifecycle_state_key c) = K (lifecycle_state_key c) \<and>
      keff (PIPE (lifecycle_pipe cfg now state x event)) K (lifecycle_key c) = K (lifecycle_key c)"
    if "c \<noteq> candidate_of x"
    unfolding P foldl_append[where ys = ?hs]
    by (subst f, blast, subst f, blast) (simp add: keff_other ne[OF that] not_sym)
qed

context redis
begin

lemma run_emit:
  assumes "str_key (ks s) (lifecycle_state_key (candidate_of x))"
    "parse_lifecycle_state (k_text (ks s) (lifecycle_state_key (candidate_of x))) = Inr previous"
    "state \<in> set LIFECYCLE_STATES"
    "event = lifecycle_event cfg uuid now state x previous"
  shows "ks (snd (run exec (emit_lifecycle cfg uuid now state x) s)) =
      keff (PIPE (lifecycle_pipe cfg now state x event)) (ks s)"
    "fst (run exec (emit_lifecycle cfg uuid now state x) s) \<in> {Inr (JObj event), Inl RedisError}"
  using assms(3) ks_read(1)[of "lifecycle_state_key (candidate_of x)" s]
  by (simp_all add: emit_lifecycle_def run_get[OF assms(1)] assms(2,4) Let_def rcall_def eff)

end

section \<open>Properties\<close>

text \<open>One emission: an unknown state is refused before anything is written. Otherwise the event
  carries the new state and the previous one as parsed from the server, it is appended to the
  candidate's history of which the last hundred events are kept, the state key holds the new state
  (the next event's previous one), and no other candidate's history or state changes; all of this
  whether or not a counter of the pipeline fails and the call raises.\<close>

theorem emission_chains_states:
  assumes "redis exec ks" "events_ok cfg" "candidate_of x = c" "list_key (ks s) (lifecycle_key c)"
    "str_key (ks s) (lifecycle_state_key c)"
    "parse_lifecycle_state (k_text (ks s) (lifecycle_state_key c)) = Inr previous"
  shows "(state \<notin> set LIFECYCLE_STATES \<longrightarrow> run exec (emit_lifecycle cfg uuid now state x) s = (Inl ValueError, s)) \<and>
    (state \<in> set LIFECYCLE_STATES \<longrightarrow>
      (\<exists>event r s'. run exec (emit_lifecycle cfg uuid now state x) s = (r, s') \<and>
         r \<in> {Inr (JObj event), Inl RedisError} \<and>
         map_of event ''state'' = Some (JStr state) \<and> map_of event ''previous_state'' = Some (j_opt_str previous) \<and>
         k_list (ks s') (lifecycle_key c) = last_n 100 (k_list (ks s) (lifecycle_key c) @ [Doc (JObj event)]) \<and>
         parse_lifecycle_state (k_text (ks s') (lifecycle_state_key c)) = Inr (Some state) \<and>
         (\<forall>d. d \<noteq> c \<longrightarrow> ks s' (lifecycle_key d) = ks s (lifecycle_key d) \<and>
            ks s' (lifecycle_state_key d) = ks s (lifecycle_state_key d))))"
proof (intro conjI impI)
  show "state \<notin> set LIFECYCLE_STATES \<Longrightarrow> run exec (emit_lifecycle cfg uuid now state x) s = (Inl ValueError, s)"
    by (simp add: emit_lifecycle_def)
  assume st: "state \<in> set LIFECYCLE_STATES"
  define event where "event = lifecycle_event cfg uuid now state x previous"
  obtain r s' where run: "run exec (emit_lifecycle cfg uuid now state x) s = (r, s')" by (meson surj_pair)
  note eff = redis.run_emit[OF assms(1), where s = s and x = x and cfg = cfg and uuid = uuid and now = now, unfolded assms(3),
      OF assms(5,6) st event_def, unfolded run fst_conv snd_conv]
  note pe = pipe_effect[OF assms(2), where K = "ks s" and x = x and now = now and state = state and event = event, unfolded assms(3), OF assms(4), folded eff(1)]
  have "list_all (\<lambda>st. str_strip st = st \<and> st \<noteq> []) LIFECYCLE_STATES" by code_simp
  with st have "str_strip state = state" "state \<noteq> []" by (auto simp: list_all_iff)
  then have "parse_lifecycle_state (k_text (ks s') (lifecycle_state_key c)) = Inr (Some state)"
    by (simp add: k_text_def pe(2) parse_lifecycle_state_def)
  moreover have "map_of event ''state'' = Some (JStr state)" "map_of event ''previous_state'' = Some (j_opt_str previous)"
    by (simp_all add: event_def lifecycle_event_def)
  moreover have "k_list (ks s') (lifecycle_key c) = last_n 100 (k_list (ks s) (lifecycle_key c) @ [Doc (JObj event)])"
    by (subst k_list_def) (simp add: pe(1))
  ultimately show "\<exists>event r s'. run exec (emit_lifecycle cfg uuid now state x) s = (r, s') \<and>
         r \<in> {Inr (JObj event), Inl RedisError} \<and>
         map_of event ''state'' = Some (JStr state) \<and> map_of event ''previous_state'' = Some (j_opt_str previous) \<and>
         k_list (ks s') (lifecycle_key c) = last_n 100 (k_list (ks s) (lifecycle_key c) @ [Doc (JObj event)]) \<and>
         parse_lifecycle_state (k_text (ks s') (lifecycle_state_key c)) = Inr (Some state) \<and>
         (\<forall>d. d \<noteq> c \<longrightarrow> ks s' (lifecycle_key d) = ks s (lifecycle_key d) \<and>
            ks s' (lifecycle_state_key d) = ks s (lifecycle_state_key d))"
    using run eff(2) pe(3) by blast
qed

definition demo_lifecycle_args :: lifecycle_args where
  "demo_lifecycle_args = \<lparr>la_symbol = ''xau'', la_candidate_id = None, la_correlation_id = Some ''s1'',
     la_match_id = Some ''s1'', la_range_id = None, la_group_id = None, la_strategy = None,
     la_strategy_family = None, la_direction = Some ''buy'', la_timeframe = None, la_entry_zone = JNull,
     la_current_price = None, la_target_plan = JNull, la_stop_plan = JNull, la_position_ids = [],
     la_pending_order_ids = [], la_reason_code = Some ''structure_broke'', la_message = [],
     la_measured = JNull, la_account_type = None, la_broker = None, la_publish_status = True\<rparr>"

definition demo_lifecycle_clock :: lifecycle_clock where
  "demo_lifecycle_clock = \<lparr>ck_ts = 1000, ck_iso = ''1970-01-01T00:16:40+00:00'', ck_hour = 0\<rparr>"

definition demo_lifecycle_config :: lifecycle_config where
  "demo_lifecycle_config = \<lparr>lc_profile = ''demo'', lc_storage_ttl_seconds = 600, lc_events = ''auto_trade:events''\<rparr>"

lemma demo_events_ok: "events_ok demo_lifecycle_config"
  by (simp add: events_ok_def demo_lifecycle_config_def lifecycle_key_def lifecycle_state_key_def)

lemma emission_chains_states_witness:
  "\<exists>event r K. run mem_exec (emit_lifecycle demo_lifecycle_config ''u1'' demo_lifecycle_clock ''invalidated''
       demo_lifecycle_args) [lifecycle_state_key ''s1'' \<mapsto> VStr (Txt ''tracked'') None] = (r, K) \<and>
     k_list K (lifecycle_key ''s1'') = [Doc (JObj event)] \<and>
     map_of event ''previous_state'' = Some (JStr ''tracked'') \<and>
     parse_lifecycle_state (k_text K (lifecycle_state_key ''s1'')) = Inr (Some ''invalidated'')"
proof -
  let ?K = "[lifecycle_state_key ''s1'' \<mapsto> VStr (Txt ''tracked'') None]"
  have h: "candidate_of demo_lifecycle_args = ''s1''" "list_key ?K (lifecycle_key ''s1'')"
    "str_key ?K (lifecycle_state_key ''s1'')"
    "parse_lifecycle_state (k_text ?K (lifecycle_state_key ''s1'')) = Inr (Some ''tracked'')"
    by code_simp+
  have st: "''invalidated'' \<in> set LIFECYCLE_STATES" by code_simp
  have l: "k_list ?K (lifecycle_key ''s1'') = []" "last_n 100 [e] = [e]" "j_opt_str (Some ''tracked'') = JStr ''tracked''" for e :: rtext
    by (simp_all add: k_list_def last_n_def j_opt_str_def)
  from emission_chains_states[where ks = "\<lambda>K. K" and uuid = "''u1''" and now = demo_lifecycle_clock
      and state = "''invalidated''", OF mem.redis_axioms demo_events_ok h] st
  show ?thesis unfolding l append_Nil by blast
qed

end
