(* ===== verification/StrategyMatch.thy ===== *)
theory StrategyMatch
  imports StrategyNames LifecycleEvents
begin

text \<open>
  The match a detector hands to the worker (\<open>app/autotrade/strategy_match.py\<close>), with the eligibility it carries
  (\<open>app/analysis/execution_eligibility.py\<close>) and the tokens of its identity (\<open>app/runtime/price_identity.py\<close>). The
  SHA-256 digest and the digits of an instrument are parameters. A number written as text in a float field is outside the
  model.
\<close>

section \<open>Access to a document\<close>

definition opt_member :: "(json \<Rightarrow> 'a res) \<Rightarrow> json \<Rightarrow> string \<Rightarrow> 'a option res" where
  "opt_member f payload k = res_bind (jget payload k) (opt_via f)"

text \<open>\<open>str(payload[k]).upper()\<close> and \<open>str(payload.get(k) or "")\<close>.\<close>

definition upper_field :: "json \<Rightarrow> string \<Rightarrow> string res" where
  "upper_field payload k = res_bind (jindex payload k) (\<lambda>v. res_bind (py_str v) (\<lambda>s. Inr (str_upper s)))"

definition text_member :: "json \<Rightarrow> string \<Rightarrow> string res" where
  "text_member payload k = res_bind (jget payload k) text_or_empty"

text \<open>\<open>tuple(str(item) for item in payload.get(k, []))\<close>.\<close>

definition str_list_member :: "json \<Rightarrow> string \<Rightarrow> string list res" where
  "str_list_member payload k =
     res_bind (jget_default payload k (JList [])) (\<lambda>v. res_bind (py_iter v) (res_map_list py_str))"

lemmas member_defs = opt_member_def upper_field_def text_member_def str_list_member_def text_or_empty_def

section \<open>Eligibility\<close>

definition EXECUTION_ELIGIBILITY_VERSION :: int where "EXECUTION_ELIGIBILITY_VERSION = 1"
definition STATIC_ELIGIBLE :: string where "STATIC_ELIGIBLE = ''static_eligible''"
definition ANALYSIS_ONLY :: string where "ANALYSIS_ONLY = ''analysis_only''"

record execution_eligibility =
  ee_version :: int
  ee_allowed :: bool
  ee_state :: string
  ee_reason_code :: string
  ee_message :: string
  ee_hard_block :: bool
  ee_direction :: string
  ee_entry_low :: rat
  ee_entry_high :: rat
  ee_planned_entry_price :: rat
  ee_fitted_targets_pips :: "int list"
  ee_effective_target_pips :: "rat option"
  ee_reward_risk :: "rat option"
  ee_minimum_reward_risk :: "rat option"
  ee_opposing_entry :: "(string \<times> json) list option"
  ee_opposing_room_pips :: "rat option"
  ee_key_level_role :: "string option"
  ee_bias_relationship :: "string option"
  ee_market_map_id :: string
  ee_calculated_at :: int
  ee_measured :: "(string \<times> json) list"

definition eligibility_to_dict :: "execution_eligibility \<Rightarrow> json" where
  "eligibility_to_dict e = JObj
     [(''version'', JInt (ee_version e)), (''allowed'', JBool (ee_allowed e)), (''state'', JStr (ee_state e)),
      (''reason_code'', JStr (ee_reason_code e)), (''message'', JStr (ee_message e)),
      (''hard_block'', JBool (ee_hard_block e)), (''direction'', JStr (ee_direction e)),
      (''entry_low'', JFloat (ee_entry_low e)), (''entry_high'', JFloat (ee_entry_high e)),
      (''planned_entry_price'', JFloat (ee_planned_entry_price e)),
      (''fitted_targets_pips'', JList (map JInt (ee_fitted_targets_pips e))),
      (''effective_target_pips'', j_opt_float (ee_effective_target_pips e)),
      (''reward_risk'', j_opt_float (ee_reward_risk e)), (''minimum_reward_risk'', j_opt_float (ee_minimum_reward_risk e)),
      (''opposing_entry'', case ee_opposing_entry e of None \<Rightarrow> JNull | Some d \<Rightarrow> JObj d),
      (''opposing_room_pips'', j_opt_float (ee_opposing_room_pips e)),
      (''key_level_role'', j_opt_str (ee_key_level_role e)), (''bias_relationship'', j_opt_str (ee_bias_relationship e)),
      (''market_map_id'', JStr (ee_market_map_id e)), (''calculated_at'', JInt (ee_calculated_at e)),
      (''measured'', JObj (ee_measured e))]"

text \<open>\<open>_optional_text\<close>: trimmed, and \<open>None\<close> when nothing is left.\<close>

definition optional_text :: "json \<Rightarrow> string option res" where
  "optional_text v =
     (if v = JNull then Inr None
      else res_bind (py_str v) (\<lambda>s. Inr (if str_strip s = [] then None else Some (str_strip s))))"

definition eligible_fields :: "execution_eligibility \<Rightarrow> bool" where
  "eligible_fields e \<longleftrightarrow>
     ee_version e = EXECUTION_ELIGIBILITY_VERSION \<and> ee_direction e \<in> {''BUY'', ''SELL''} \<and>
     ee_entry_low e > 0 \<and> ee_entry_high e > 0 \<and> ee_planned_entry_price e > 0 \<and> ee_entry_low e < ee_entry_high e \<and>
     ee_state e \<in> {STATIC_ELIGIBLE, ANALYSIS_ONLY} \<and> ee_allowed e \<noteq> ee_hard_block e \<and>
     ee_allowed e = (ee_state e = STATIC_ELIGIBLE)"

definition parse_eligibility :: "json \<Rightarrow> execution_eligibility res" where
  "parse_eligibility payload =
     res_bind (res_bind (jindex payload ''version'') py_int) (\<lambda>version.
     res_bind (jindex payload ''allowed'') (\<lambda>allowed.
     res_bind (res_bind (jindex payload ''state'') py_str) (\<lambda>state.
     res_bind (text_member payload ''reason_code'') (\<lambda>reason_code.
     res_bind (text_member payload ''message'') (\<lambda>message.
     res_bind (jget payload ''hard_block'') (\<lambda>hard_block.
     res_bind (upper_field payload ''direction'') (\<lambda>direction.
     res_bind (res_bind (jindex payload ''entry_low'') py_float) (\<lambda>entry_low.
     res_bind (res_bind (jindex payload ''entry_high'') py_float) (\<lambda>entry_high.
     res_bind (res_bind (jindex payload ''planned_entry_price'') py_float) (\<lambda>planned.
     res_bind (res_bind (jget_default payload ''fitted_targets_pips'' (JList []))
       (\<lambda>v. res_bind (py_iter v) (res_map_list py_int))) (\<lambda>targets.
     res_bind (opt_member py_float payload ''effective_target_pips'') (\<lambda>effective.
     res_bind (opt_member py_float payload ''reward_risk'') (\<lambda>reward_risk.
     res_bind (opt_member py_float payload ''minimum_reward_risk'') (\<lambda>minimum.
     res_bind (jget payload ''opposing_entry'') (\<lambda>opposing.
     res_bind (opt_member py_float payload ''opposing_room_pips'') (\<lambda>room.
     res_bind (res_bind (jget payload ''key_level_role'') optional_text) (\<lambda>role.
     res_bind (res_bind (jget payload ''bias_relationship'') optional_text) (\<lambda>bias.
     res_bind (text_member payload ''market_map_id'') (\<lambda>map_id.
     res_bind (res_bind (jget payload ''calculated_at'') (\<lambda>v. py_int (py_or v (JInt 0)))) (\<lambda>calculated_at.
     res_bind (res_bind (jget payload ''measured'') (\<lambda>v. py_dict (py_or v (JObj [])))) (\<lambda>measured.
     Inr \<lparr>ee_version = version, ee_allowed = py_truthy allowed, ee_state = state, ee_reason_code = reason_code,
       ee_message = message, ee_hard_block = py_truthy hard_block, ee_direction = direction, ee_entry_low = entry_low,
       ee_entry_high = entry_high, ee_planned_entry_price = planned, ee_fitted_targets_pips = targets,
       ee_effective_target_pips = effective, ee_reward_risk = reward_risk, ee_minimum_reward_risk = minimum,
       ee_opposing_entry = (case opposing of JObj d \<Rightarrow> Some d | _ \<Rightarrow> None), ee_opposing_room_pips = room,
       ee_key_level_role = role, ee_bias_relationship = bias, ee_market_map_id = map_id, ee_calculated_at = calculated_at,
       ee_measured = measured\<rparr>)))))))))))))))))))))"

text \<open>The exceptions a parser turns into \<open>None\<close>.\<close>

definition parse_error :: "exn \<Rightarrow> bool" where
  "parse_error e \<longleftrightarrow> e \<in> {KeyError, TypeError, ValueError}"

definition eligibility_from_dict :: "json \<Rightarrow> execution_eligibility option res" where
  "eligibility_from_dict payload =
     (case payload of
        JObj kv \<Rightarrow>
          (case parse_eligibility payload of
             Inl e \<Rightarrow> if parse_error e then Inr None else Inl e
           | Inr e \<Rightarrow> Inr (if eligible_fields e then Some e else None))
      | _ \<Rightarrow> Inr None)"

section \<open>The match\<close>

definition STRATEGY_MATCH_VERSION :: int where "STRATEGY_MATCH_VERSION = 1"
definition STRATEGY_MATCH_KEY_PREFIX :: string where "STRATEGY_MATCH_KEY_PREFIX = ''auto_trade:strategy_match''"

record strategy_match =
  sm_version :: int
  sm_match_id :: string
  sm_symbol :: string
  sm_source_tf :: string
  sm_event_ts :: string
  sm_issued_at :: int
  sm_expires_at :: int
  sm_strategy :: string
  sm_strategy_mode :: string
  sm_direction :: string
  sm_key_level :: rat
  sm_entry_low :: rat
  sm_entry_high :: rat
  sm_current_price :: rat
  sm_confluence :: int
  sm_reasons :: "string list"
  sm_atr :: rat
  sm_structure_swing :: rat
  sm_targets_pips :: "int list"
  sm_range_id :: "string option"
  sm_range_low :: "rat option"
  sm_range_high :: "rat option"
  sm_full_take_profit_pips :: "int option"
  sm_tags :: "string list"
  sm_target_price :: "rat option"
  sm_tier :: string
  sm_risk_multiplier :: rat
  sm_family :: string
  sm_range_state :: "string option"
  sm_routing_hint :: "string option"
  sm_structural_source :: string
  sm_zone_id :: "string option"
  sm_confluence_zone_id :: "string option"
  sm_level_id :: "string option"
  sm_reaction_id :: "string option"
  sm_thesis_id :: "string option"
  sm_structural_zone_id :: "string option"
  sm_structural_zone_low :: "rat option"
  sm_structural_zone_high :: "rat option"
  sm_touch_bar_ts :: "string option"
  sm_confirmation_bar_ts :: "string option"
  sm_reaction_type :: "string option"
  sm_m5_confirmation_bar_ts :: "string option"
  sm_m5_reaction_type :: "string option"
  sm_target_model :: string
  sm_target_reference_price :: string
  sm_absolute_target_price :: "rat option"
  sm_structural_kind :: "string option"
  sm_structural_timeframe :: "string option"
  sm_htf_bias :: string
  sm_regime_kind :: string
  sm_bias_relationship :: "string option"
  sm_execution_eligibility :: "execution_eligibility option"
  sm_entry_location_source :: "string option"
  sm_entry_location_position :: "rat option"
  sm_entry_location_reason :: "string option"
  sm_entry_activation_trigger :: "string option"
  sm_entry_activation_trigger_ts :: "string option"
  sm_math_fib_ratio :: "rat option"
  sm_math_velocity :: "rat option"
  sm_math_acceleration :: "rat option"
  sm_math_pd :: "rat option"
  sm_confluence_v1 :: "int option"
  sm_confluence_v2 :: "int option"
  sm_confluence_v2_raw :: "rat option"
  sm_confluence_scoring_version :: "string option"

definition match_kv :: "strategy_match \<Rightarrow> (string \<times> json) list" where
  "match_kv m =
     [(''version'', JInt (sm_version m)), (''match_id'', JStr (sm_match_id m)), (''symbol'', JStr (sm_symbol m)),
      (''source_tf'', JStr (sm_source_tf m)), (''event_ts'', JStr (sm_event_ts m)),
      (''issued_at'', JInt (sm_issued_at m)), (''expires_at'', JInt (sm_expires_at m)),
      (''strategy'', JStr (sm_strategy m)), (''strategy_mode'', JStr (sm_strategy_mode m)),
      (''direction'', JStr (sm_direction m)), (''key_level'', JFloat (sm_key_level m)),
      (''entry_low'', JFloat (sm_entry_low m)), (''entry_high'', JFloat (sm_entry_high m)),
      (''current_price'', JFloat (sm_current_price m)), (''confluence'', JInt (sm_confluence m)),
      (''reasons'', JList (map JStr (sm_reasons m))), (''atr'', JFloat (sm_atr m)),
      (''structure_swing'', JFloat (sm_structure_swing m)), (''targets_pips'', JList (map JInt (sm_targets_pips m))),
      (''range_id'', j_opt_str (sm_range_id m)), (''range_low'', j_opt_float (sm_range_low m)),
      (''range_high'', j_opt_float (sm_range_high m)),
      (''full_take_profit_pips'', j_opt_int (sm_full_take_profit_pips m)), (''tags'', JList (map JStr (sm_tags m))),
      (''target_price'', j_opt_float (sm_target_price m)), (''tier'', JStr (sm_tier m)),
      (''risk_multiplier'', JFloat (sm_risk_multiplier m)), (''family'', JStr (sm_family m)),
      (''range_state'', j_opt_str (sm_range_state m)), (''routing_hint'', j_opt_str (sm_routing_hint m)),
      (''structural_source'', JStr (sm_structural_source m)), (''zone_id'', j_opt_str (sm_zone_id m)),
      (''confluence_zone_id'', j_opt_str (sm_confluence_zone_id m)), (''level_id'', j_opt_str (sm_level_id m)),
      (''reaction_id'', j_opt_str (sm_reaction_id m)), (''thesis_id'', j_opt_str (sm_thesis_id m)),
      (''structural_zone_id'', j_opt_str (sm_structural_zone_id m)),
      (''structural_zone_low'', j_opt_float (sm_structural_zone_low m)),
      (''structural_zone_high'', j_opt_float (sm_structural_zone_high m)),
      (''touch_bar_ts'', j_opt_str (sm_touch_bar_ts m)), (''confirmation_bar_ts'', j_opt_str (sm_confirmation_bar_ts m)),
      (''reaction_type'', j_opt_str (sm_reaction_type m)),
      (''m5_confirmation_bar_ts'', j_opt_str (sm_m5_confirmation_bar_ts m)),
      (''m5_reaction_type'', j_opt_str (sm_m5_reaction_type m)), (''target_model'', JStr (sm_target_model m)),
      (''target_reference_price'', JStr (sm_target_reference_price m)),
      (''absolute_target_price'', j_opt_float (sm_absolute_target_price m)),
      (''structural_kind'', j_opt_str (sm_structural_kind m)),
      (''structural_timeframe'', j_opt_str (sm_structural_timeframe m)), (''htf_bias'', JStr (sm_htf_bias m)),
      (''regime_kind'', JStr (sm_regime_kind m)), (''bias_relationship'', j_opt_str (sm_bias_relationship m)),
      (''execution_eligibility'', case sm_execution_eligibility m of None \<Rightarrow> JNull | Some e \<Rightarrow> eligibility_to_dict e),
      (''entry_location_source'', j_opt_str (sm_entry_location_source m)),
      (''entry_location_position'', j_opt_float (sm_entry_location_position m)),
      (''entry_location_reason'', j_opt_str (sm_entry_location_reason m)),
      (''entry_activation_trigger'', j_opt_str (sm_entry_activation_trigger m)),
      (''entry_activation_trigger_ts'', j_opt_str (sm_entry_activation_trigger_ts m)),
      (''math_fib_ratio'', j_opt_float (sm_math_fib_ratio m)), (''math_velocity'', j_opt_float (sm_math_velocity m)),
      (''math_acceleration'', j_opt_float (sm_math_acceleration m)), (''math_pd'', j_opt_float (sm_math_pd m)),
      (''confluence_v1'', j_opt_int (sm_confluence_v1 m)), (''confluence_v2'', j_opt_int (sm_confluence_v2 m)),
      (''confluence_v2_raw'', j_opt_float (sm_confluence_v2_raw m)),
      (''confluence_scoring_version'', j_opt_str (sm_confluence_scoring_version m))]"

definition match_to_json :: "strategy_match \<Rightarrow> json" where
  "match_to_json m = JObj (match_kv m)"

text \<open>The fields of older documents that have no entry of their own.\<close>

definition structural_source_of :: "json \<Rightarrow> string res" where
  "structural_source_of payload =
     res_bind (jget payload ''structural_source'') (\<lambda>source.
     res_bind (jget payload ''strategy'') (\<lambda>strategy.
     py_str (py_or source (py_or strategy (JStr [])))))"

definition target_model_of :: "json \<Rightarrow> string res" where
  "target_model_of payload =
     res_bind (jget payload ''target_model'') (\<lambda>model.
     res_bind (jget payload ''target_price'') (\<lambda>price.
     res_bind (jget payload ''targets_pips'') (\<lambda>targets.
     res_bind (py_str (py_or model (JStr (if price \<noteq> JNull \<and> py_truthy targets then ''hybrid''
       else if price \<noteq> JNull then ''absolute'' else ''fill_relative'')))) (\<lambda>s. Inr (str_lower s)))))"

definition target_reference_of :: "json \<Rightarrow> string res" where
  "target_reference_of payload =
     res_bind (jget payload ''target_reference_price'') (\<lambda>reference.
     res_bind (jget payload ''target_price'') (\<lambda>price.
     res_bind (py_str (py_or reference (JStr (if price \<noteq> JNull then ''planned_entry'' else ''broker_fill''))))
       (\<lambda>s. Inr (str_lower s))))"

definition absolute_target_of :: "json \<Rightarrow> rat option res" where
  "absolute_target_of payload =
     res_bind (jget payload ''absolute_target_price'') (\<lambda>absolute.
     res_bind (jget payload ''target_price'') (\<lambda>price.
     if absolute \<noteq> JNull then res_bind (py_float absolute) (\<lambda>q. Inr (Some q)) else opt_via py_float price))"

lemmas fallback_fields = structural_source_of_def target_model_of_def target_reference_of_def absolute_target_of_def

definition parse_match :: "json \<Rightarrow> strategy_match res" where
  "parse_match payload =
     res_bind (res_bind (jindex payload ''version'') py_int) (\<lambda>x_version.
     res_bind (res_bind (jindex payload ''match_id'') py_str) (\<lambda>x_match_id.
     res_bind (upper_field payload ''symbol'') (\<lambda>x_symbol.
     res_bind (upper_field payload ''source_tf'') (\<lambda>x_source_tf.
     res_bind (res_bind (jindex payload ''event_ts'') py_str) (\<lambda>x_event_ts.
     res_bind (res_bind (jindex payload ''issued_at'') py_int) (\<lambda>x_issued_at.
     res_bind (res_bind (jindex payload ''expires_at'') py_int) (\<lambda>x_expires_at.
     res_bind (res_bind (jindex payload ''strategy'') py_str) (\<lambda>x_strategy.
     res_bind (res_bind (jindex payload ''strategy_mode'') py_str) (\<lambda>x_strategy_mode.
     res_bind (upper_field payload ''direction'') (\<lambda>x_direction.
     res_bind (res_bind (jindex payload ''key_level'') py_float) (\<lambda>x_key_level.
     res_bind (res_bind (jindex payload ''entry_low'') py_float) (\<lambda>x_entry_low.
     res_bind (res_bind (jindex payload ''entry_high'') py_float) (\<lambda>x_entry_high.
     res_bind (res_bind (jindex payload ''current_price'') py_float) (\<lambda>x_current_price.
     res_bind (res_bind (jindex payload ''confluence'') py_int) (\<lambda>x_confluence.
     res_bind (str_list_member payload ''reasons'') (\<lambda>x_reasons.
     res_bind (res_bind (jindex payload ''atr'') py_float) (\<lambda>x_atr.
     res_bind (res_bind (jindex payload ''structure_swing'') py_float) (\<lambda>x_structure_swing.
     res_bind (res_bind (jindex payload ''targets_pips'') (\<lambda>v. res_bind (py_iter v) (res_map_list py_int))) (\<lambda>x_targets_pips.
     res_bind (opt_member py_str payload ''range_id'') (\<lambda>x_range_id.
     res_bind (opt_member py_float payload ''range_low'') (\<lambda>x_range_low.
     res_bind (opt_member py_float payload ''range_high'') (\<lambda>x_range_high.
     res_bind (opt_member py_int payload ''full_take_profit_pips'') (\<lambda>x_full_take_profit_pips.
     res_bind (str_list_member payload ''tags'') (\<lambda>x_tags.
     res_bind (opt_member py_float payload ''target_price'') (\<lambda>x_target_price.
     res_bind (res_bind (jget payload ''tier'') (\<lambda>v. res_bind (py_str (py_or v (JStr ''A''))) (\<lambda>s. Inr (str_upper s)))) (\<lambda>x_tier.
     res_bind (res_bind (jget payload ''risk_multiplier'') (\<lambda>v. py_float (py_or v (JFloat 1)))) (\<lambda>x_risk_multiplier.
     res_bind (text_member payload ''family'') (\<lambda>x_family.
     res_bind (opt_member py_str payload ''range_state'') (\<lambda>x_range_state.
     res_bind (opt_member py_str payload ''routing_hint'') (\<lambda>x_routing_hint.
     res_bind (structural_source_of payload) (\<lambda>x_structural_source.
     res_bind (opt_member py_str payload ''zone_id'') (\<lambda>x_zone_id.
     res_bind (opt_member py_str payload ''confluence_zone_id'') (\<lambda>x_confluence_zone_id.
     res_bind (opt_member py_str payload ''level_id'') (\<lambda>x_level_id.
     res_bind (opt_member py_str payload ''reaction_id'') (\<lambda>x_reaction_id.
     res_bind (opt_member py_str payload ''thesis_id'') (\<lambda>x_thesis_id.
     res_bind (opt_member py_str payload ''structural_zone_id'') (\<lambda>x_structural_zone_id.
     res_bind (opt_member py_float payload ''structural_zone_low'') (\<lambda>x_structural_zone_low.
     res_bind (opt_member py_float payload ''structural_zone_high'') (\<lambda>x_structural_zone_high.
     res_bind (opt_member py_str payload ''touch_bar_ts'') (\<lambda>x_touch_bar_ts.
     res_bind (opt_member py_str payload ''confirmation_bar_ts'') (\<lambda>x_confirmation_bar_ts.
     res_bind (opt_member py_str payload ''reaction_type'') (\<lambda>x_reaction_type.
     res_bind (opt_member py_str payload ''m5_confirmation_bar_ts'') (\<lambda>x_m5_confirmation_bar_ts.
     res_bind (opt_member py_str payload ''m5_reaction_type'') (\<lambda>x_m5_reaction_type.
     res_bind (target_model_of payload) (\<lambda>x_target_model.
     res_bind (target_reference_of payload) (\<lambda>x_target_reference_price.
     res_bind (absolute_target_of payload) (\<lambda>x_absolute_target_price.
     res_bind (opt_member py_str payload ''structural_kind'') (\<lambda>x_structural_kind.
     res_bind (opt_member py_str payload ''structural_timeframe'') (\<lambda>x_structural_timeframe.
     res_bind (text_member payload ''htf_bias'') (\<lambda>x_htf_bias.
     res_bind (text_member payload ''regime_kind'') (\<lambda>x_regime_kind.
     res_bind (opt_member py_str payload ''bias_relationship'') (\<lambda>x_bias_relationship.
     res_bind (res_bind (jget payload ''execution_eligibility'') eligibility_from_dict) (\<lambda>x_execution_eligibility.
     res_bind (opt_member py_str payload ''entry_location_source'') (\<lambda>x_entry_location_source.
     res_bind (opt_member py_float payload ''entry_location_position'') (\<lambda>x_entry_location_position.
     res_bind (opt_member py_str payload ''entry_location_reason'') (\<lambda>x_entry_location_reason.
     res_bind (opt_member py_str payload ''entry_activation_trigger'') (\<lambda>x_entry_activation_trigger.
     res_bind (opt_member py_str payload ''entry_activation_trigger_ts'') (\<lambda>x_entry_activation_trigger_ts.
     res_bind (opt_member py_float payload ''math_fib_ratio'') (\<lambda>x_math_fib_ratio.
     res_bind (opt_member py_float payload ''math_velocity'') (\<lambda>x_math_velocity.
     res_bind (opt_member py_float payload ''math_acceleration'') (\<lambda>x_math_acceleration.
     res_bind (opt_member py_float payload ''math_pd'') (\<lambda>x_math_pd.
     res_bind (opt_member py_int payload ''confluence_v1'') (\<lambda>x_confluence_v1.
     res_bind (opt_member py_int payload ''confluence_v2'') (\<lambda>x_confluence_v2.
     res_bind (opt_member py_float payload ''confluence_v2_raw'') (\<lambda>x_confluence_v2_raw.
     res_bind (opt_member py_str payload ''confluence_scoring_version'') (\<lambda>x_confluence_scoring_version.
     Inr \<lparr>sm_version = x_version, sm_match_id = x_match_id, sm_symbol = x_symbol, sm_source_tf = x_source_tf,
       sm_event_ts = x_event_ts, sm_issued_at = x_issued_at, sm_expires_at = x_expires_at, sm_strategy = x_strategy,
       sm_strategy_mode = x_strategy_mode, sm_direction = x_direction, sm_key_level = x_key_level,
       sm_entry_low = x_entry_low, sm_entry_high = x_entry_high, sm_current_price = x_current_price,
       sm_confluence = x_confluence, sm_reasons = x_reasons, sm_atr = x_atr, sm_structure_swing = x_structure_swing,
       sm_targets_pips = x_targets_pips, sm_range_id = x_range_id, sm_range_low = x_range_low,
       sm_range_high = x_range_high, sm_full_take_profit_pips = x_full_take_profit_pips, sm_tags = x_tags,
       sm_target_price = x_target_price, sm_tier = x_tier, sm_risk_multiplier = x_risk_multiplier,
       sm_family = x_family, sm_range_state = x_range_state, sm_routing_hint = x_routing_hint,
       sm_structural_source = x_structural_source, sm_zone_id = x_zone_id,
       sm_confluence_zone_id = x_confluence_zone_id, sm_level_id = x_level_id, sm_reaction_id = x_reaction_id,
       sm_thesis_id = x_thesis_id, sm_structural_zone_id = x_structural_zone_id,
       sm_structural_zone_low = x_structural_zone_low, sm_structural_zone_high = x_structural_zone_high,
       sm_touch_bar_ts = x_touch_bar_ts, sm_confirmation_bar_ts = x_confirmation_bar_ts,
       sm_reaction_type = x_reaction_type, sm_m5_confirmation_bar_ts = x_m5_confirmation_bar_ts,
       sm_m5_reaction_type = x_m5_reaction_type, sm_target_model = x_target_model,
       sm_target_reference_price = x_target_reference_price, sm_absolute_target_price = x_absolute_target_price,
       sm_structural_kind = x_structural_kind, sm_structural_timeframe = x_structural_timeframe,
       sm_htf_bias = x_htf_bias, sm_regime_kind = x_regime_kind, sm_bias_relationship = x_bias_relationship,
       sm_execution_eligibility = x_execution_eligibility, sm_entry_location_source = x_entry_location_source,
       sm_entry_location_position = x_entry_location_position, sm_entry_location_reason = x_entry_location_reason,
       sm_entry_activation_trigger = x_entry_activation_trigger,
       sm_entry_activation_trigger_ts = x_entry_activation_trigger_ts, sm_math_fib_ratio = x_math_fib_ratio,
       sm_math_velocity = x_math_velocity, sm_math_acceleration = x_math_acceleration, sm_math_pd = x_math_pd,
       sm_confluence_v1 = x_confluence_v1, sm_confluence_v2 = x_confluence_v2,
       sm_confluence_v2_raw = x_confluence_v2_raw, sm_confluence_scoring_version = x_confluence_scoring_version\<rparr>))))))))))))))))))))))))))))))))))))))))))))))))))))))))))))))))))"

section \<open>Identity\<close>

text \<open>\<open>f"{number:.{digits}f}"\<close>.\<close>

definition fixed_str :: "nat \<Rightarrow> rat \<Rightarrow> string" where
  "fixed_str digits q =
     (let n = nat (round_half_even_int (\<bar>q\<bar> * 10 ^ digits)); ds = str_nat n;
          ds = replicate (Suc digits - length ds) CHR ''0'' @ ds; whole = length ds - digits in
      (if q < 0 then ''-'' else []) @ take whole ds @ (if digits = 0 then [] else CHR ''.'' # drop whole ds))"

text \<open>The hexadecimal SHA-256 digest of a text, and the digits of an instrument, which raises for an unknown one.\<close>

record identity_env =
  ie_sha :: "string \<Rightarrow> string"
  ie_digits :: "string \<Rightarrow> nat option"

definition digits_for :: "identity_env \<Rightarrow> string \<Rightarrow> nat res" where
  "digits_for env symbol = (case ie_digits env symbol of None \<Rightarrow> Inl KeyError | Some d \<Rightarrow> Inr d)"

definition strategy_match_key :: "string \<Rightarrow> string" where
  "strategy_match_key symbol = STRATEGY_MATCH_KEY_PREFIX @ '':'' @ str_upper symbol"

definition strategy_match_id :: "identity_env \<Rightarrow> string \<Rightarrow> string \<Rightarrow> string \<Rightarrow> string \<Rightarrow> string \<Rightarrow> rat \<Rightarrow> rat \<Rightarrow> string res" where
  "strategy_match_id env symbol source_tf event_ts strategy direction low high =
     res_bind (digits_for env symbol) (\<lambda>digits.
     Inr (ie_sha env (''v'' @ str_int STRATEGY_MATCH_VERSION @ ''|'' @ str_upper symbol @ ''|'' @ str_upper source_tf @ ''|'' @
       event_ts @ ''|'' @ strategy @ ''|'' @ str_upper direction @ ''|'' @ fixed_str digits low @ ''|'' @ fixed_str digits high)))"

definition strategy_range_id :: "identity_env \<Rightarrow> string \<Rightarrow> rat \<Rightarrow> rat \<Rightarrow> string res" where
  "strategy_range_id env symbol lower upper =
     res_bind (digits_for env symbol) (\<lambda>digits.
     Inr (str_lower symbol @ ''-strategy-range-'' @ fixed_str digits lower @ ''-'' @ fixed_str digits upper))"

definition confluence_setup_id :: "identity_env \<Rightarrow> string \<Rightarrow> string \<Rightarrow> string" where
  "confluence_setup_id env zone_id direction =
     take 32 (ie_sha env (''confluence-setup|'' @ zone_id @ ''|'' @ str_upper direction))"

definition ZONE_REACTION_ALIASES :: "string list" where
  "ZONE_REACTION_ALIASES = [''Demand Zone Reaction'', ''Supply Zone Reaction'', ''Zone Reaction'']"

definition canonical_structural_setup :: "string \<Rightarrow> string" where
  "canonical_structural_setup setup' = (if setup' \<in> set ZONE_REACTION_ALIASES then ''Zone Reaction'' else setup')"

definition structural_hash :: "identity_env \<Rightarrow> string list \<Rightarrow> string" where
  "structural_hash env parts = take 32 (ie_sha env (str_join ''|'' parts))"

definition structural_thesis_id ::
  "identity_env \<Rightarrow> string \<Rightarrow> string \<Rightarrow> string \<Rightarrow> string \<Rightarrow> string \<Rightarrow> string \<Rightarrow> string \<Rightarrow> string" where
  "structural_thesis_id env symbol strategy direction source structural_id touch_bar_ts confirmation_bar_ts =
     structural_hash env [''v1'', str_upper symbol, canonical_structural_setup strategy, str_upper direction, source,
       structural_id, touch_bar_ts, confirmation_bar_ts]"

text \<open>\<open>a or b\<close> on optional texts.\<close>

definition or_text :: "string option \<Rightarrow> string option \<Rightarrow> string option" where
  "or_text a b = (if a \<in> {None, Some []} then b else a)"

definition identity_ok :: "identity_env \<Rightarrow> strategy_match \<Rightarrow> bool res" where
  "identity_ok env m =
     (let plain = res_bind (strategy_match_id env (sm_symbol m) (sm_source_tf m) (sm_event_ts m) (sm_strategy m) (sm_direction m)
            (sm_entry_low m) (sm_entry_high m)) (\<lambda>i. Inr (sm_match_id m = i));
          structural_id = or_text (sm_structural_zone_id m) (or_text (sm_zone_id m) (sm_level_id m)) in
      case or_text (sm_reaction_id m) None of
        Some reaction_id \<Rightarrow> Inr (sm_match_id m = reaction_id)
      | None \<Rightarrow>
          (case or_text (sm_confluence_zone_id m) None of
             Some zone \<Rightarrow> Inr (sm_match_id m = confluence_setup_id env zone (sm_direction m))
           | None \<Rightarrow>
               (case or_text structural_id None of
                  None \<Rightarrow> plain
                | Some sid \<Rightarrow>
                    if sm_structural_source m \<noteq> [] \<and>
                       sm_match_id m = structural_thesis_id env (sm_symbol m) (sm_strategy m) (sm_direction m)
                         (sm_structural_source m) sid (case sm_touch_bar_ts m of None \<Rightarrow> [] | Some t \<Rightarrow> t)
                         (case sm_confirmation_bar_ts m of None \<Rightarrow> [] | Some t \<Rightarrow> t)
                    then Inr True else plain)))"

section \<open>Validity\<close>

definition is_range_edge :: "strategy_match \<Rightarrow> bool" where
  "is_range_edge m \<longleftrightarrow>
     sm_strategy m \<in> {''Range Edge Scalp'', ''One-Sided Range Reaction''} \<and>
     sm_strategy_mode m \<in> {''range_scalp'', ''one_sided_range''} \<and> sm_range_id m \<noteq> None \<and> sm_range_low m \<noteq> None \<and>
     sm_range_high m \<noteq> None \<and> (case sm_full_take_profit_pips m of None \<Rightarrow> False | Some p \<Rightarrow> p > 0)"

definition valid_range :: "strategy_match \<Rightarrow> bool" where
  "valid_range m \<longleftrightarrow>
     (let full = (case sm_full_take_profit_pips m of None \<Rightarrow> False | Some p \<Rightarrow> p > 0);
          scalp_fitted = (full \<and> is_m1_scalp_match (sm_strategy m) (sm_family m) (sm_strategy_mode m) (sm_structural_source m)) in
      sm_range_low m = None \<and> sm_range_high m = None \<and> sm_range_id m = None \<and>
        (sm_full_take_profit_pips m = None \<or> scalp_fitted) \<or>
      (case (sm_range_low m, sm_range_high m) of
         (Some low, Some high) \<Rightarrow> sm_range_id m \<noteq> None \<and> low < high \<and> full
       | _ \<Rightarrow> False))"

definition valid_match :: "identity_env \<Rightarrow> strategy_match \<Rightarrow> bool res" where
  "valid_match env m =
     res_bind (identity_ok env m) (\<lambda>identity.
     Inr (sm_version m = STRATEGY_MATCH_VERSION \<and> sm_match_id m \<noteq> [] \<and> sm_symbol m \<noteq> [] \<and> sm_source_tf m \<noteq> [] \<and>
       sm_strategy m \<noteq> [] \<and> sm_direction m \<in> {''BUY'', ''SELL''} \<and> sm_issued_at m \<le> sm_expires_at m \<and>
       sm_entry_low m \<le> sm_entry_high m \<and> sm_confluence m \<ge> 1 \<and> sm_atr m > 0 \<and> sm_targets_pips m \<noteq> [] \<and>
       list_all (\<lambda>v. v > 0) (sm_targets_pips m) \<and> sort (remdups (sm_targets_pips m)) = sm_targets_pips m \<and>
       sm_target_model m \<in> {''absolute'', ''fill_relative'', ''hybrid''} \<and>
       sm_target_reference_price m \<in> {''detection'', ''planned_entry'', ''broker_fill'', ''structural_level''} \<and>
       sm_tier m \<in> {''A'', ''B'', ''C''} \<and> sm_risk_multiplier m \<ge> 0 \<and> valid_range m \<and> identity))"

definition match_from_json :: "identity_env \<Rightarrow> rtext \<Rightarrow> strategy_match option res" where
  "match_from_json env raw =
     (case res_bind (json_loads raw) parse_match of
        Inl e \<Rightarrow> if parse_error e then Inr None else Inl e
      | Inr m \<Rightarrow> res_bind (valid_match env m) (\<lambda>ok. Inr (if ok then Some m else None)))"

section \<open>A match is read back\<close>

text \<open>What reading an eligibility back changes, and when it is dropped.\<close>

definition trimmed_text :: "string option \<Rightarrow> string option" where
  "trimmed_text t = (case t of None \<Rightarrow> None | Some s \<Rightarrow> if str_strip s = [] then None else Some (str_strip s))"

definition read_eligibility :: "execution_eligibility \<Rightarrow> execution_eligibility" where
  "read_eligibility e = e\<lparr>ee_direction := str_upper (ee_direction e), ee_key_level_role := trimmed_text (ee_key_level_role e),
     ee_bias_relationship := trimmed_text (ee_bias_relationship e)\<rparr>"

lemma ints_back: "res_map_list py_int (map JInt is) = Inr is" by (induction "is") auto
lemma strs_back: "res_map_list py_str (map JStr ss) = Inr ss" by (induction ss) auto

lemma text_back: "py_str (py_or (JStr s) (JStr [])) = Inr s"
  by (cases s) (simp_all add: py_or_def)

lemma opt_back:
  "opt_via py_str (j_opt_str x) = Inr x" "opt_via py_float (j_opt_float y) = Inr y" "opt_via py_int (j_opt_int z) = Inr z"
  by (simp_all add: opt_via_def j_opt_str_def j_opt_float_def j_opt_int_def split: option.split)

lemma optional_text_back: "optional_text (j_opt_str x) = Inr (trimmed_text x)"
  by (simp add: optional_text_def trimmed_text_def j_opt_str_def split: option.split)

lemma ints_or_back: "py_int (py_or (JInt i) (JInt 0)) = Inr i"
  by (simp add: py_or_def)

lemma dict_back: "py_dict (py_or (JObj d) (JObj [])) = Inr d"
  by (cases d) (simp_all add: py_or_def)

lemma opposing_back:
  "(case (case x of None \<Rightarrow> JNull | Some d \<Rightarrow> JObj d) of JObj d \<Rightarrow> Some d | _ \<Rightarrow> None) = x"
  by (cases x) simp_all

lemmas backs = ints_back strs_back text_back opt_back optional_text_back ints_or_back dict_back opposing_back

lemma eligibility_back: "parse_eligibility (eligibility_to_dict e) = Inr (read_eligibility e)"
  unfolding parse_eligibility_def eligibility_to_dict_def
  by (simp add: member_defs backs read_eligibility_def)

lemma eligibility_read:
  "eligibility_from_dict (case x of None \<Rightarrow> JNull | Some e \<Rightarrow> eligibility_to_dict e) =
     Inr (case x of None \<Rightarrow> None | Some e \<Rightarrow> if eligible_fields (read_eligibility e) then Some (read_eligibility e) else None)"
proof (cases x)
  case (Some e)
  obtain kv where kv: "eligibility_to_dict e = JObj kv" by (simp add: eligibility_to_dict_def)
  have "parse_eligibility (JObj kv) = Inr (read_eligibility e)" using eligibility_back [of e] by (simp add: kv)
  then show ?thesis by (simp add: Some kv eligibility_from_dict_def)
qed (simp add: eligibility_from_dict_def)

text \<open>What reading a match back changes.\<close>

definition read_match :: "strategy_match \<Rightarrow> strategy_match" where
  "read_match m =
     m\<lparr>sm_symbol := str_upper (sm_symbol m), sm_source_tf := str_upper (sm_source_tf m),
       sm_direction := str_upper (sm_direction m),
       sm_tier := str_upper (if sm_tier m = [] then ''A'' else sm_tier m),
       sm_risk_multiplier := (if sm_risk_multiplier m = 0 then 1 else sm_risk_multiplier m),
       sm_structural_source := (if sm_structural_source m = [] then sm_strategy m else sm_structural_source m),
       sm_target_model := str_lower (if sm_target_model m \<noteq> [] then sm_target_model m
         else if sm_target_price m \<noteq> None \<and> sm_targets_pips m \<noteq> [] then ''hybrid''
         else if sm_target_price m \<noteq> None then ''absolute'' else ''fill_relative''),
       sm_target_reference_price := str_lower (if sm_target_reference_price m \<noteq> [] then sm_target_reference_price m
         else if sm_target_price m \<noteq> None then ''planned_entry'' else ''broker_fill''),
       sm_absolute_target_price := (if sm_absolute_target_price m = None then sm_target_price m else sm_absolute_target_price m),
       sm_execution_eligibility := (case sm_execution_eligibility m of None \<Rightarrow> None
         | Some e \<Rightarrow> if eligible_fields (read_eligibility e) then Some (read_eligibility e) else None)\<rparr>"

definition match_keys :: "string list" where
  "match_keys =
     [''version'', ''match_id'', ''symbol'', ''source_tf'', ''event_ts'', ''issued_at'', ''expires_at'',
      ''strategy'', ''strategy_mode'', ''direction'', ''key_level'', ''entry_low'', ''entry_high'',
      ''current_price'', ''confluence'', ''reasons'', ''atr'', ''structure_swing'', ''targets_pips'',
      ''range_id'', ''range_low'', ''range_high'', ''full_take_profit_pips'', ''tags'', ''target_price'',
      ''tier'', ''risk_multiplier'', ''family'', ''range_state'', ''routing_hint'', ''structural_source'',
      ''zone_id'', ''confluence_zone_id'', ''level_id'', ''reaction_id'', ''thesis_id'',
      ''structural_zone_id'', ''structural_zone_low'', ''structural_zone_high'', ''touch_bar_ts'',
      ''confirmation_bar_ts'', ''reaction_type'', ''m5_confirmation_bar_ts'', ''m5_reaction_type'',
      ''target_model'', ''target_reference_price'', ''absolute_target_price'', ''structural_kind'',
      ''structural_timeframe'', ''htf_bias'', ''regime_kind'', ''bias_relationship'',
      ''execution_eligibility'', ''entry_location_source'', ''entry_location_position'',
      ''entry_location_reason'', ''entry_activation_trigger'', ''entry_activation_trigger_ts'',
      ''math_fib_ratio'', ''math_velocity'', ''math_acceleration'', ''math_pd'', ''confluence_v1'',
      ''confluence_v2'', ''confluence_v2_raw'', ''confluence_scoring_version'']"

lemma match_keys_distinct: "distinct match_keys" by code_simp

lemma match_kv_keys: "map fst (match_kv m) = match_keys"
  by (simp add: match_kv_def match_keys_def)

lemma match_nth:
  assumes "match_kv m ! i = (k, v)" "i < 66"
  shows "map_of (match_kv m) k = Some v"
proof -
  have "length (match_kv m) = 66" by (simp add: match_kv_def)
  then have "(k, v) \<in> set (match_kv m)" using assms nth_mem [of i "match_kv m"] by simp
  then show ?thesis by (intro map_of_is_SomeI) (simp_all add: match_kv_keys match_keys_distinct)
qed

lemma match_at_1:
  "match_kv m ! 0 = (''version'', JInt (sm_version m))"
  "match_kv m ! 1 = (''match_id'', JStr (sm_match_id m))"
  "match_kv m ! 2 = (''symbol'', JStr (sm_symbol m))"
  "match_kv m ! 3 = (''source_tf'', JStr (sm_source_tf m))"
  "match_kv m ! 4 = (''event_ts'', JStr (sm_event_ts m))"
  "match_kv m ! 5 = (''issued_at'', JInt (sm_issued_at m))"
  "match_kv m ! 6 = (''expires_at'', JInt (sm_expires_at m))"
  "match_kv m ! 7 = (''strategy'', JStr (sm_strategy m))"
  "match_kv m ! 8 = (''strategy_mode'', JStr (sm_strategy_mode m))"
  "match_kv m ! 9 = (''direction'', JStr (sm_direction m))"
  "match_kv m ! 10 = (''key_level'', JFloat (sm_key_level m))"
  by (simp_all add: match_kv_def)

lemma match_at_2:
  "match_kv m ! 11 = (''entry_low'', JFloat (sm_entry_low m))"
  "match_kv m ! 12 = (''entry_high'', JFloat (sm_entry_high m))"
  "match_kv m ! 13 = (''current_price'', JFloat (sm_current_price m))"
  "match_kv m ! 14 = (''confluence'', JInt (sm_confluence m))"
  "match_kv m ! 15 = (''reasons'', JList (map JStr (sm_reasons m)))"
  "match_kv m ! 16 = (''atr'', JFloat (sm_atr m))"
  "match_kv m ! 17 = (''structure_swing'', JFloat (sm_structure_swing m))"
  "match_kv m ! 18 = (''targets_pips'', JList (map JInt (sm_targets_pips m)))"
  "match_kv m ! 19 = (''range_id'', j_opt_str (sm_range_id m))"
  "match_kv m ! 20 = (''range_low'', j_opt_float (sm_range_low m))"
  "match_kv m ! 21 = (''range_high'', j_opt_float (sm_range_high m))"
  by (simp_all add: match_kv_def)

lemma match_at_3:
  "match_kv m ! 22 = (''full_take_profit_pips'', j_opt_int (sm_full_take_profit_pips m))"
  "match_kv m ! 23 = (''tags'', JList (map JStr (sm_tags m)))"
  "match_kv m ! 24 = (''target_price'', j_opt_float (sm_target_price m))"
  "match_kv m ! 25 = (''tier'', JStr (sm_tier m))"
  "match_kv m ! 26 = (''risk_multiplier'', JFloat (sm_risk_multiplier m))"
  "match_kv m ! 27 = (''family'', JStr (sm_family m))"
  "match_kv m ! 28 = (''range_state'', j_opt_str (sm_range_state m))"
  "match_kv m ! 29 = (''routing_hint'', j_opt_str (sm_routing_hint m))"
  "match_kv m ! 30 = (''structural_source'', JStr (sm_structural_source m))"
  "match_kv m ! 31 = (''zone_id'', j_opt_str (sm_zone_id m))"
  "match_kv m ! 32 = (''confluence_zone_id'', j_opt_str (sm_confluence_zone_id m))"
  by (simp_all add: match_kv_def)

lemma match_at_4:
  "match_kv m ! 33 = (''level_id'', j_opt_str (sm_level_id m))"
  "match_kv m ! 34 = (''reaction_id'', j_opt_str (sm_reaction_id m))"
  "match_kv m ! 35 = (''thesis_id'', j_opt_str (sm_thesis_id m))"
  "match_kv m ! 36 = (''structural_zone_id'', j_opt_str (sm_structural_zone_id m))"
  "match_kv m ! 37 = (''structural_zone_low'', j_opt_float (sm_structural_zone_low m))"
  "match_kv m ! 38 = (''structural_zone_high'', j_opt_float (sm_structural_zone_high m))"
  "match_kv m ! 39 = (''touch_bar_ts'', j_opt_str (sm_touch_bar_ts m))"
  "match_kv m ! 40 = (''confirmation_bar_ts'', j_opt_str (sm_confirmation_bar_ts m))"
  "match_kv m ! 41 = (''reaction_type'', j_opt_str (sm_reaction_type m))"
  "match_kv m ! 42 = (''m5_confirmation_bar_ts'', j_opt_str (sm_m5_confirmation_bar_ts m))"
  "match_kv m ! 43 = (''m5_reaction_type'', j_opt_str (sm_m5_reaction_type m))"
  by (simp_all add: match_kv_def)

lemma match_at_5:
  "match_kv m ! 44 = (''target_model'', JStr (sm_target_model m))"
  "match_kv m ! 45 = (''target_reference_price'', JStr (sm_target_reference_price m))"
  "match_kv m ! 46 = (''absolute_target_price'', j_opt_float (sm_absolute_target_price m))"
  "match_kv m ! 47 = (''structural_kind'', j_opt_str (sm_structural_kind m))"
  "match_kv m ! 48 = (''structural_timeframe'', j_opt_str (sm_structural_timeframe m))"
  "match_kv m ! 49 = (''htf_bias'', JStr (sm_htf_bias m))"
  "match_kv m ! 50 = (''regime_kind'', JStr (sm_regime_kind m))"
  "match_kv m ! 51 = (''bias_relationship'', j_opt_str (sm_bias_relationship m))"
  "match_kv m ! 52 = (''execution_eligibility'', case sm_execution_eligibility m of None \<Rightarrow> JNull | Some e \<Rightarrow> eligibility_to_dict e)"
  "match_kv m ! 53 = (''entry_location_source'', j_opt_str (sm_entry_location_source m))"
  "match_kv m ! 54 = (''entry_location_position'', j_opt_float (sm_entry_location_position m))"
  by (simp_all add: match_kv_def)

lemma match_at_6:
  "match_kv m ! 55 = (''entry_location_reason'', j_opt_str (sm_entry_location_reason m))"
  "match_kv m ! 56 = (''entry_activation_trigger'', j_opt_str (sm_entry_activation_trigger m))"
  "match_kv m ! 57 = (''entry_activation_trigger_ts'', j_opt_str (sm_entry_activation_trigger_ts m))"
  "match_kv m ! 58 = (''math_fib_ratio'', j_opt_float (sm_math_fib_ratio m))"
  "match_kv m ! 59 = (''math_velocity'', j_opt_float (sm_math_velocity m))"
  "match_kv m ! 60 = (''math_acceleration'', j_opt_float (sm_math_acceleration m))"
  "match_kv m ! 61 = (''math_pd'', j_opt_float (sm_math_pd m))"
  "match_kv m ! 62 = (''confluence_v1'', j_opt_int (sm_confluence_v1 m))"
  "match_kv m ! 63 = (''confluence_v2'', j_opt_int (sm_confluence_v2 m))"
  "match_kv m ! 64 = (''confluence_v2_raw'', j_opt_float (sm_confluence_v2_raw m))"
  "match_kv m ! 65 = (''confluence_scoring_version'', j_opt_str (sm_confluence_scoring_version m))"
  by (simp_all add: match_kv_def)

lemmas match_members =
  match_at_1(1) [THEN match_nth] match_at_1(2) [THEN match_nth] match_at_1(3) [THEN match_nth] match_at_1(4)
  [THEN match_nth] match_at_1(5) [THEN match_nth] match_at_1(6) [THEN match_nth] match_at_1(7) [THEN
  match_nth] match_at_1(8) [THEN match_nth] match_at_1(9) [THEN match_nth] match_at_1(10) [THEN match_nth]
  match_at_1(11) [THEN match_nth] match_at_2(1) [THEN match_nth] match_at_2(2) [THEN match_nth]
  match_at_2(3) [THEN match_nth] match_at_2(4) [THEN match_nth] match_at_2(5) [THEN match_nth] match_at_2(6)
  [THEN match_nth] match_at_2(7) [THEN match_nth] match_at_2(8) [THEN match_nth] match_at_2(9) [THEN
  match_nth] match_at_2(10) [THEN match_nth] match_at_2(11) [THEN match_nth] match_at_3(1) [THEN match_nth]
  match_at_3(2) [THEN match_nth] match_at_3(3) [THEN match_nth] match_at_3(4) [THEN match_nth] match_at_3(5)
  [THEN match_nth] match_at_3(6) [THEN match_nth] match_at_3(7) [THEN match_nth] match_at_3(8) [THEN
  match_nth] match_at_3(9) [THEN match_nth] match_at_3(10) [THEN match_nth] match_at_3(11) [THEN match_nth]
  match_at_4(1) [THEN match_nth] match_at_4(2) [THEN match_nth] match_at_4(3) [THEN match_nth] match_at_4(4)
  [THEN match_nth] match_at_4(5) [THEN match_nth] match_at_4(6) [THEN match_nth] match_at_4(7) [THEN
  match_nth] match_at_4(8) [THEN match_nth] match_at_4(9) [THEN match_nth] match_at_4(10) [THEN match_nth]
  match_at_4(11) [THEN match_nth] match_at_5(1) [THEN match_nth] match_at_5(2) [THEN match_nth]
  match_at_5(3) [THEN match_nth] match_at_5(4) [THEN match_nth] match_at_5(5) [THEN match_nth] match_at_5(6)
  [THEN match_nth] match_at_5(7) [THEN match_nth] match_at_5(8) [THEN match_nth] match_at_5(9) [THEN
  match_nth] match_at_5(10) [THEN match_nth] match_at_5(11) [THEN match_nth] match_at_6(1) [THEN match_nth]
  match_at_6(2) [THEN match_nth] match_at_6(3) [THEN match_nth] match_at_6(4) [THEN match_nth] match_at_6(5)
  [THEN match_nth] match_at_6(6) [THEN match_nth] match_at_6(7) [THEN match_nth] match_at_6(8) [THEN
  match_nth] match_at_6(9) [THEN match_nth] match_at_6(10) [THEN match_nth] match_at_6(11) [THEN match_nth]

lemma float_or_back: "py_float (py_or (JFloat q) (JFloat 1)) = Inr (if q = 0 then 1 else q)"
  by (simp add: py_or_def)

lemma str_or_back: "py_str (py_or (JStr s) (JStr d)) = Inr (if s = [] then d else s)"
  by (cases s) (simp_all add: py_or_def)

lemma source_back: "py_str (py_or (JStr s) (py_or (JStr t) (JStr []))) = Inr (if s = [] then t else s)"
  by (cases s; cases t) (simp_all add: py_or_def)

lemma null_back: "j_opt_float x = JNull \<longleftrightarrow> x = None"
  by (simp add: j_opt_float_def split: option.split)

lemma absolute_back:
  "(if j_opt_float x \<noteq> JNull then res_bind (py_float (j_opt_float x)) (\<lambda>q. Inr (Some q)) else opt_via py_float (j_opt_float y))
    = Inr (if x = None then y else x)"
  by (cases x) (simp_all add: j_opt_float_def opt_via_def split: option.split)

lemma truthy_list: "py_truthy (JList (map f xs)) \<longleftrightarrow> xs \<noteq> []"
  by (cases xs) simp_all

lemma fallback_back:
  "structural_source_of (match_to_json m) = Inr (if sm_structural_source m = [] then sm_strategy m else sm_structural_source m)"
  "target_model_of (match_to_json m) = Inr (str_lower (if sm_target_model m \<noteq> [] then sm_target_model m
         else if sm_target_price m \<noteq> None \<and> sm_targets_pips m \<noteq> [] then ''hybrid''
         else if sm_target_price m \<noteq> None then ''absolute'' else ''fill_relative''))"
  "target_reference_of (match_to_json m) = Inr (str_lower (if sm_target_reference_price m \<noteq> [] then sm_target_reference_price m
         else if sm_target_price m \<noteq> None then ''planned_entry'' else ''broker_fill''))"
  "absolute_target_of (match_to_json m) =
     Inr (if sm_absolute_target_price m = None then sm_target_price m else sm_absolute_target_price m)"
proof -
  have get: "jget (match_to_json m) ''structural_source'' = Inr (JStr (sm_structural_source m))"
    "jget (match_to_json m) ''strategy'' = Inr (JStr (sm_strategy m))"
    "jget (match_to_json m) ''target_model'' = Inr (JStr (sm_target_model m))"
    "jget (match_to_json m) ''target_price'' = Inr (j_opt_float (sm_target_price m))"
    "jget (match_to_json m) ''targets_pips'' = Inr (JList (map JInt (sm_targets_pips m)))"
    "jget (match_to_json m) ''target_reference_price'' = Inr (JStr (sm_target_reference_price m))"
    "jget (match_to_json m) ''absolute_target_price'' = Inr (j_opt_float (sm_absolute_target_price m))"
    by (simp_all add: match_to_json_def match_members)
  show "structural_source_of (match_to_json m) = Inr (if sm_structural_source m = [] then sm_strategy m else sm_structural_source m)"
    unfolding structural_source_of_def get res_bind.simps source_back ..
  show "target_model_of (match_to_json m) = Inr (str_lower (if sm_target_model m \<noteq> [] then sm_target_model m
         else if sm_target_price m \<noteq> None \<and> sm_targets_pips m \<noteq> [] then ''hybrid''
         else if sm_target_price m \<noteq> None then ''absolute'' else ''fill_relative''))"
    unfolding target_model_of_def get res_bind.simps str_or_back null_back truthy_list by simp
  show "target_reference_of (match_to_json m) = Inr (str_lower (if sm_target_reference_price m \<noteq> [] then sm_target_reference_price m
         else if sm_target_price m \<noteq> None then ''planned_entry'' else ''broker_fill''))"
    unfolding target_reference_of_def get res_bind.simps str_or_back null_back by simp
  show "absolute_target_of (match_to_json m) =
     Inr (if sm_absolute_target_price m = None then sm_target_price m else sm_absolute_target_price m)"
    unfolding absolute_target_of_def get res_bind.simps absolute_back ..
qed

lemma match_fields_1:
  "res_bind (jindex (match_to_json m) ''version'') py_int = Inr (sm_version m)"
  "res_bind (jindex (match_to_json m) ''match_id'') py_str = Inr (sm_match_id m)"
  "upper_field (match_to_json m) ''symbol'' = Inr (str_upper (sm_symbol m))"
  "upper_field (match_to_json m) ''source_tf'' = Inr (str_upper (sm_source_tf m))"
  "res_bind (jindex (match_to_json m) ''event_ts'') py_str = Inr (sm_event_ts m)"
  "res_bind (jindex (match_to_json m) ''issued_at'') py_int = Inr (sm_issued_at m)"
  "res_bind (jindex (match_to_json m) ''expires_at'') py_int = Inr (sm_expires_at m)"
  "res_bind (jindex (match_to_json m) ''strategy'') py_str = Inr (sm_strategy m)"
  "res_bind (jindex (match_to_json m) ''strategy_mode'') py_str = Inr (sm_strategy_mode m)"
  "upper_field (match_to_json m) ''direction'' = Inr (str_upper (sm_direction m))"
  "res_bind (jindex (match_to_json m) ''key_level'') py_float = Inr (sm_key_level m)"
  "res_bind (jindex (match_to_json m) ''entry_low'') py_float = Inr (sm_entry_low m)"
  "res_bind (jindex (match_to_json m) ''entry_high'') py_float = Inr (sm_entry_high m)"
  "res_bind (jindex (match_to_json m) ''current_price'') py_float = Inr (sm_current_price m)"
  "res_bind (jindex (match_to_json m) ''confluence'') py_int = Inr (sm_confluence m)"
  "str_list_member (match_to_json m) ''reasons'' = Inr (sm_reasons m)"
  by (simp_all add: match_to_json_def match_members member_defs backs float_or_back str_or_back eligibility_read)

lemma match_fields_2:
  "res_bind (jindex (match_to_json m) ''atr'') py_float = Inr (sm_atr m)"
  "res_bind (jindex (match_to_json m) ''structure_swing'') py_float = Inr (sm_structure_swing m)"
  "res_bind (jindex (match_to_json m) ''targets_pips'') (\<lambda>v. res_bind (py_iter v) (res_map_list py_int)) = Inr (sm_targets_pips m)"
  "opt_member py_str (match_to_json m) ''range_id'' = Inr (sm_range_id m)"
  "opt_member py_float (match_to_json m) ''range_low'' = Inr (sm_range_low m)"
  "opt_member py_float (match_to_json m) ''range_high'' = Inr (sm_range_high m)"
  "opt_member py_int (match_to_json m) ''full_take_profit_pips'' = Inr (sm_full_take_profit_pips m)"
  "str_list_member (match_to_json m) ''tags'' = Inr (sm_tags m)"
  "opt_member py_float (match_to_json m) ''target_price'' = Inr (sm_target_price m)"
  "res_bind (jget (match_to_json m) ''tier'') (\<lambda>v. res_bind (py_str (py_or v (JStr ''A''))) (\<lambda>s. Inr (str_upper s))) = Inr (str_upper (if sm_tier m = [] then ''A'' else sm_tier m))"
  "res_bind (jget (match_to_json m) ''risk_multiplier'') (\<lambda>v. py_float (py_or v (JFloat 1))) = Inr (if sm_risk_multiplier m = 0 then 1 else sm_risk_multiplier m)"
  "text_member (match_to_json m) ''family'' = Inr (sm_family m)"
  "opt_member py_str (match_to_json m) ''range_state'' = Inr (sm_range_state m)"
  "opt_member py_str (match_to_json m) ''routing_hint'' = Inr (sm_routing_hint m)"
  "opt_member py_str (match_to_json m) ''zone_id'' = Inr (sm_zone_id m)"
  "opt_member py_str (match_to_json m) ''confluence_zone_id'' = Inr (sm_confluence_zone_id m)"
  by (simp_all add: match_to_json_def match_members member_defs backs float_or_back str_or_back eligibility_read)

lemma match_fields_3:
  "opt_member py_str (match_to_json m) ''level_id'' = Inr (sm_level_id m)"
  "opt_member py_str (match_to_json m) ''reaction_id'' = Inr (sm_reaction_id m)"
  "opt_member py_str (match_to_json m) ''thesis_id'' = Inr (sm_thesis_id m)"
  "opt_member py_str (match_to_json m) ''structural_zone_id'' = Inr (sm_structural_zone_id m)"
  "opt_member py_float (match_to_json m) ''structural_zone_low'' = Inr (sm_structural_zone_low m)"
  "opt_member py_float (match_to_json m) ''structural_zone_high'' = Inr (sm_structural_zone_high m)"
  "opt_member py_str (match_to_json m) ''touch_bar_ts'' = Inr (sm_touch_bar_ts m)"
  "opt_member py_str (match_to_json m) ''confirmation_bar_ts'' = Inr (sm_confirmation_bar_ts m)"
  "opt_member py_str (match_to_json m) ''reaction_type'' = Inr (sm_reaction_type m)"
  "opt_member py_str (match_to_json m) ''m5_confirmation_bar_ts'' = Inr (sm_m5_confirmation_bar_ts m)"
  "opt_member py_str (match_to_json m) ''m5_reaction_type'' = Inr (sm_m5_reaction_type m)"
  "opt_member py_str (match_to_json m) ''structural_kind'' = Inr (sm_structural_kind m)"
  "opt_member py_str (match_to_json m) ''structural_timeframe'' = Inr (sm_structural_timeframe m)"
  "text_member (match_to_json m) ''htf_bias'' = Inr (sm_htf_bias m)"
  "text_member (match_to_json m) ''regime_kind'' = Inr (sm_regime_kind m)"
  "opt_member py_str (match_to_json m) ''bias_relationship'' = Inr (sm_bias_relationship m)"
  by (simp_all add: match_to_json_def match_members member_defs backs float_or_back str_or_back eligibility_read)

lemma match_fields_4:
  "res_bind (jget (match_to_json m) ''execution_eligibility'') eligibility_from_dict = Inr (case sm_execution_eligibility m of None \<Rightarrow> None | Some e \<Rightarrow> if eligible_fields (read_eligibility e) then Some (read_eligibility e) else None)"
  "opt_member py_str (match_to_json m) ''entry_location_source'' = Inr (sm_entry_location_source m)"
  "opt_member py_float (match_to_json m) ''entry_location_position'' = Inr (sm_entry_location_position m)"
  "opt_member py_str (match_to_json m) ''entry_location_reason'' = Inr (sm_entry_location_reason m)"
  "opt_member py_str (match_to_json m) ''entry_activation_trigger'' = Inr (sm_entry_activation_trigger m)"
  "opt_member py_str (match_to_json m) ''entry_activation_trigger_ts'' = Inr (sm_entry_activation_trigger_ts m)"
  "opt_member py_float (match_to_json m) ''math_fib_ratio'' = Inr (sm_math_fib_ratio m)"
  "opt_member py_float (match_to_json m) ''math_velocity'' = Inr (sm_math_velocity m)"
  "opt_member py_float (match_to_json m) ''math_acceleration'' = Inr (sm_math_acceleration m)"
  "opt_member py_float (match_to_json m) ''math_pd'' = Inr (sm_math_pd m)"
  "opt_member py_int (match_to_json m) ''confluence_v1'' = Inr (sm_confluence_v1 m)"
  "opt_member py_int (match_to_json m) ''confluence_v2'' = Inr (sm_confluence_v2 m)"
  "opt_member py_float (match_to_json m) ''confluence_v2_raw'' = Inr (sm_confluence_v2_raw m)"
  "opt_member py_str (match_to_json m) ''confluence_scoring_version'' = Inr (sm_confluence_scoring_version m)"
  by (simp_all add: match_to_json_def match_members member_defs backs float_or_back str_or_back eligibility_read)

lemmas match_fields = match_fields_1 match_fields_2 match_fields_3 match_fields_4

lemma match_back: "parse_match (match_to_json m) = Inr (read_match m)"
  unfolding parse_match_def match_fields fallback_back res_bind.simps by (simp add: read_match_def)

lemma match_from_json_back:
  "match_from_json env (Doc (match_to_json m)) =
     res_bind (valid_match env (read_match m)) (\<lambda>ok. Inr (if ok then Some (read_match m) else None))"
  by (simp add: match_from_json_def match_back)

text \<open>What is read back unchanged: texts in upper case, a risk multiplier other than zero, a source of the structure, an
  absolute target where there is a target price, and an eligibility that is valid itself.\<close>

definition match_canonical :: "strategy_match \<Rightarrow> bool" where
  "match_canonical m \<longleftrightarrow>
     str_upper (sm_symbol m) = sm_symbol m \<and> str_upper (sm_source_tf m) = sm_source_tf m \<and> sm_risk_multiplier m \<noteq> 0 \<and>
     sm_structural_source m \<noteq> [] \<and> (sm_target_price m \<noteq> None \<longrightarrow> sm_absolute_target_price m \<noteq> None) \<and>
     pred_option (\<lambda>e. read_eligibility e = e \<and> eligible_fields e) (sm_execution_eligibility m)"

lemma read_match_fixed:
  "read_match m = m \<longleftrightarrow>
     str_upper (sm_symbol m) = sm_symbol m \<and> str_upper (sm_source_tf m) = sm_source_tf m \<and>
     str_upper (sm_direction m) = sm_direction m \<and> str_upper (if sm_tier m = [] then ''A'' else sm_tier m) = sm_tier m \<and>
     sm_risk_multiplier m \<noteq> 0 \<and> (sm_structural_source m = [] \<longrightarrow> sm_strategy m = []) \<and>
     sm_target_model (read_match m) = sm_target_model m \<and>
     sm_target_reference_price (read_match m) = sm_target_reference_price m \<and>
     (sm_target_price m \<noteq> None \<longrightarrow> sm_absolute_target_price m \<noteq> None) \<and>
     pred_option (\<lambda>e. read_eligibility e = e \<and> eligible_fields e) (sm_execution_eligibility m)"
proof -
  have e: "(case x of None \<Rightarrow> None | Some e \<Rightarrow> if eligible_fields (read_eligibility e) then Some (read_eligibility e) else None) = x
      \<longleftrightarrow> pred_option (\<lambda>e. read_eligibility e = e \<and> eligible_fields e) x" for x
    by (cases x) auto
  show ?thesis
    by (cases m) (auto simp: read_match_def e)
qed

lemma upper_fixed: "str_upper s = s" if "s \<in> {''BUY'', ''SELL'', ''A'', ''B'', ''C''}"
  using that by (auto simp: str_upper_def char_upper_def)

lemma lower_fixed:
  "str_lower s = s"
  if "s \<in> {''absolute'', ''fill_relative'', ''hybrid'', ''detection'', ''planned_entry'', ''broker_fill'', ''structural_level''}"
  using that by (auto simp: str_lower_def char_lower_def)

lemma valid_matchD:
  assumes "valid_match env m = Inr True"
  shows "sm_direction m \<in> {''BUY'', ''SELL''}" "sm_tier m \<in> {''A'', ''B'', ''C''}" "sm_strategy m \<noteq> []"
    "sm_target_model m \<in> {''absolute'', ''fill_relative'', ''hybrid''}"
    "sm_target_reference_price m \<in> {''detection'', ''planned_entry'', ''broker_fill'', ''structural_level''}"
  using assms by (auto simp: valid_match_def res_bind_Inr_iff)

lemma valid_read_fixed:
  assumes v: "valid_match env m = Inr True"
  shows "read_match m = m \<longleftrightarrow> match_canonical m"
proof -
  note d = valid_matchD [OF v]
  have up: "str_upper (sm_direction m) = sm_direction m" "str_upper (sm_tier m) = sm_tier m" "sm_tier m \<noteq> []"
    using d(1,2) by (auto intro!: upper_fixed)
  have "str_lower (sm_target_model m) = sm_target_model m" "sm_target_model m \<noteq> []"
    "str_lower (sm_target_reference_price m) = sm_target_reference_price m" "sm_target_reference_price m \<noteq> []"
    using d(4,5) by (auto intro!: lower_fixed)
  then have "sm_target_model (read_match m) = sm_target_model m" "sm_target_reference_price (read_match m) = sm_target_reference_price m"
    by (simp_all add: read_match_def)
  then show ?thesis unfolding read_match_fixed match_canonical_def using up d(3) by simp
qed

text \<open>C14. A match is stored and read back as it was exactly when it is valid and canonical. A valid match whose only fault is a
  risk multiplier of zero, which the validity check accepts, is read back with the multiplier one.\<close>

theorem match_read_back:
  "(match_from_json env (Doc (match_to_json m)) = Inr (Some m) \<longleftrightarrow> valid_match env m = Inr True \<and> match_canonical m) \<and>
   (valid_match env m = Inr True \<and> sm_risk_multiplier m = 0 \<and> match_canonical (m\<lparr>sm_risk_multiplier := 1\<rparr>) \<longrightarrow>
     match_from_json env (Doc (match_to_json m)) = Inr (Some (m\<lparr>sm_risk_multiplier := 1\<rparr>)))"
proof (intro conjI impI)
  have id: "read_match m = m \<Longrightarrow> valid_match env (read_match m) = valid_match env m" by simp
  show "match_from_json env (Doc (match_to_json m)) = Inr (Some m) \<longleftrightarrow> valid_match env m = Inr True \<and> match_canonical m"
  proof
    assume "match_from_json env (Doc (match_to_json m)) = Inr (Some m)"
    then have "read_match m = m" "valid_match env (read_match m) = Inr True"
      unfolding match_from_json_back by (auto simp: res_bind_Inr_iff split: if_split_asm)
    then show "valid_match env m = Inr True \<and> match_canonical m" using valid_read_fixed [of env m] by simp
  next
    assume a: "valid_match env m = Inr True \<and> match_canonical m"
    then have "read_match m = m" using valid_read_fixed by blast
    then show "match_from_json env (Doc (match_to_json m)) = Inr (Some m)" using a unfolding match_from_json_back by simp
  qed
  assume zero: "valid_match env m = Inr True \<and> sm_risk_multiplier m = 0 \<and> match_canonical (m\<lparr>sm_risk_multiplier := 1\<rparr>)"
  let ?m = "m\<lparr>sm_risk_multiplier := 1\<rparr>"
  have v: "valid_match env ?m = Inr True"
  proof -
    have "identity_ok env ?m = identity_ok env m" "valid_range ?m = valid_range m"
      by (simp_all add: identity_ok_def valid_range_def Let_def cong: option.case_cong if_cong)
    then show ?thesis using zero by (auto simp: valid_match_def res_bind_Inr_iff)
  qed
  moreover have "read_match m = read_match ?m" using zero by (simp add: read_match_def)
  moreover have "read_match ?m = ?m" using valid_read_fixed [OF v] zero by blast
  ultimately show "match_from_json env (Doc (match_to_json m)) = Inr (Some ?m)" unfolding match_from_json_back by simp
qed

definition demo_match_document :: strategy_match where
  "demo_match_document =
     \<lparr>sm_version = 1, sm_match_id = ''r1'', sm_symbol = ''XAU'', sm_source_tf = ''M5'', sm_event_ts = ''1000'',
      sm_issued_at = 1000, sm_expires_at = 1900, sm_strategy = ''Key Level Reaction'',
      sm_strategy_mode = ''with_bias'', sm_direction = ''BUY'', sm_key_level = 4000, sm_entry_low = 3999,
      sm_entry_high = 4001, sm_current_price = 4000, sm_confluence = 3, sm_reasons = [''touch''], sm_atr = 2,
      sm_structure_swing = 3996, sm_targets_pips = [30, 60], sm_range_id = None, sm_range_low = None,
      sm_range_high = None, sm_full_take_profit_pips = None, sm_tags = [], sm_target_price = None, sm_tier = ''A'',
      sm_risk_multiplier = 1, sm_family = ''reaction'', sm_range_state = None, sm_routing_hint = None,
      sm_structural_source = ''key_level'', sm_zone_id = None, sm_confluence_zone_id = None, sm_level_id = None,
      sm_reaction_id = Some ''r1'', sm_thesis_id = None, sm_structural_zone_id = Some ''z1'',
      sm_structural_zone_low = None, sm_structural_zone_high = None, sm_touch_bar_ts = None,
      sm_confirmation_bar_ts = None, sm_reaction_type = None, sm_m5_confirmation_bar_ts = None,
      sm_m5_reaction_type = None, sm_target_model = ''fill_relative'', sm_target_reference_price = ''broker_fill'',
      sm_absolute_target_price = None, sm_structural_kind = Some ''key_level'', sm_structural_timeframe = None,
      sm_htf_bias = ''up'', sm_regime_kind = ''trend'', sm_bias_relationship = None, sm_execution_eligibility = None,
      sm_entry_location_source = None, sm_entry_location_position = None, sm_entry_location_reason = None,
      sm_entry_activation_trigger = None, sm_entry_activation_trigger_ts = None, sm_math_fib_ratio = None,
      sm_math_velocity = None, sm_math_acceleration = None, sm_math_pd = None, sm_confluence_v1 = None,
      sm_confluence_v2 = None, sm_confluence_v2_raw = None, sm_confluence_scoring_version = None\<rparr>"

text \<open>The digest of a text cannot be evaluated here; the match is named after its reaction.\<close>

definition demo_env :: identity_env where
  "demo_env = \<lparr>ie_sha = \<lambda>s. s, ie_digits = \<lambda>s. Some 2\<rparr>"

lemma demo_match_valid:
  "valid_match demo_env (demo_match_document\<lparr>sm_risk_multiplier := q\<rparr>) = Inr (0 \<le> q)" "match_canonical demo_match_document"
proof -
  have i: "identity_ok demo_env (demo_match_document\<lparr>sm_risk_multiplier := q\<rparr>) = Inr True"
    by (simp add: identity_ok_def demo_match_document_def or_text_def)
  have r: "valid_range (demo_match_document\<lparr>sm_risk_multiplier := q\<rparr>)"
    by (simp add: valid_range_def demo_match_document_def)
  show "valid_match demo_env (demo_match_document\<lparr>sm_risk_multiplier := q\<rparr>) = Inr (0 \<le> q)"
    unfolding valid_match_def i res_bind.simps using r by (simp add: demo_match_document_def STRATEGY_MATCH_VERSION_def)
  show "match_canonical demo_match_document"
    by (simp add: match_canonical_def demo_match_document_def str_upper_def char_upper_def)
qed

theorem match_read_back_witness:
  "match_from_json demo_env (Doc (match_to_json demo_match_document)) = Inr (Some demo_match_document) \<and>
   match_from_json demo_env (Doc (match_to_json (demo_match_document\<lparr>sm_risk_multiplier := 0\<rparr>))) =
     Inr (Some demo_match_document)"
proof
  have one: "demo_match_document\<lparr>sm_risk_multiplier := 0, sm_risk_multiplier := 1\<rparr> = demo_match_document"
    "demo_match_document\<lparr>sm_risk_multiplier := 1\<rparr> = demo_match_document"
    by (simp_all add: demo_match_document_def)
  show "match_from_json demo_env (Doc (match_to_json demo_match_document)) = Inr (Some demo_match_document)"
    using match_read_back [of demo_env demo_match_document] demo_match_valid(1) [of 1] demo_match_valid(2) by (simp add: one)
  show "match_from_json demo_env (Doc (match_to_json (demo_match_document\<lparr>sm_risk_multiplier := 0\<rparr>))) =
     Inr (Some demo_match_document)"
    using match_read_back [of demo_env "demo_match_document\<lparr>sm_risk_multiplier := 0\<rparr>"] demo_match_valid(1) [of 0]
      demo_match_valid(2) by (simp add: one)
qed

end
