(* ===== verification/Killzone.thy ===== *)
theory Killzone
  imports RedisModel
begin

text \<open>
  The session gates of the technique pack (\<open>app/autotrade/killzone.py\<close>): the killzone of an hour, the
  publish windows written as text, and the switches that enforce them. A field that is \<open>None\<close> is an attribute the
  configuration lacks; the hour of a time stamp is taken in UTC.
\<close>

section \<open>Configuration\<close>

record technique_config =
  tq_enforce :: "bool option"
  tq_require_sweep_body :: "bool option"
  tq_reaction_require_killzone :: "bool option"
  tq_reaction_require_publish_window :: "bool option"
  tq_include_late_ny :: "bool option"
  tq_london_window_hours :: "int option"
  tq_ny_window_hours :: "int option"
  tq_reaction_publish_windows :: "string option"

record key_level_config =
  kl_require_killzone :: "bool option"
  kl_min_grade :: "string option"

record killzone_config =
  kz_technique :: "technique_config option"
  kz_key_level :: "key_level_config option"
  kz_london_start :: "int option"
  kz_ny_start :: "int option"
  kz_asia_start :: "int option"
  kz_daily_rollover_utc_hour :: "int option"

text \<open>\<open>bool(getattr(section, name, default))\<close>.\<close>

definition flag :: "bool option \<Rightarrow> bool \<Rightarrow> bool" where
  "flag v d = (case v of None \<Rightarrow> d | Some b \<Rightarrow> b)"

definition technique_enforce :: "killzone_config \<Rightarrow> bool" where
  "technique_enforce cfg = (case kz_technique cfg of None \<Rightarrow> False | Some t \<Rightarrow> flag (tq_enforce t) True)"

definition technique_require_sweep_body :: "killzone_config \<Rightarrow> bool" where
  "technique_require_sweep_body cfg =
     (if \<not> technique_enforce cfg then False
      else (case kz_technique cfg of None \<Rightarrow> True | Some t \<Rightarrow> flag (tq_require_sweep_body t) True))"

definition reaction_require_killzone :: "killzone_config \<Rightarrow> string option \<Rightarrow> bool" where
  "reaction_require_killzone cfg strategy =
     (let require = (case kz_technique cfg of None \<Rightarrow> True | Some t \<Rightarrow> flag (tq_reaction_require_killzone t) True)
      in if strategy = Some ''Key Level Reaction'' \<and>
            (case kz_key_level cfg of None \<Rightarrow> False | Some k \<Rightarrow> flag (kl_require_killzone k) False)
         then True else require)"

definition reaction_require_publish_window :: "killzone_config \<Rightarrow> bool" where
  "reaction_require_publish_window cfg =
     (case kz_technique cfg of None \<Rightarrow> False | Some t \<Rightarrow> flag (tq_reaction_require_publish_window t) False)"

definition key_level_min_grade :: "killzone_config \<Rightarrow> string" where
  "key_level_min_grade cfg =
     (let raw = (case kz_key_level cfg of None \<Rightarrow> ''B''
                 | Some k \<Rightarrow> (case kl_min_grade k of None \<Rightarrow> ''B'' | Some g \<Rightarrow> if g = [] then ''B'' else g));
          grade = str_upper (str_strip raw)
      in if grade \<in> {''A'', ''B''} then grade else ''B'')"

definition session_hours :: "killzone_config \<Rightarrow> int \<times> int \<times> int \<times> int" where
  "session_hours cfg =
     (or_default (kz_london_start cfg) 7, or_default (kz_ny_start cfg) 13, or_default (kz_asia_start cfg) 22,
      or_default (kz_daily_rollover_utc_hour cfg) 21)"

definition include_late_ny :: "killzone_config \<Rightarrow> bool" where
  "include_late_ny cfg = (case kz_technique cfg of None \<Rightarrow> True | Some t \<Rightarrow> flag (tq_include_late_ny t) True)"

definition london_hours :: "killzone_config \<Rightarrow> int" where
  "london_hours cfg = max 1 (or_default (Option.bind (kz_technique cfg) tq_london_window_hours) 3)"

definition ny_hours :: "killzone_config \<Rightarrow> int" where
  "ny_hours cfg = max 1 (or_default (Option.bind (kz_technique cfg) tq_ny_window_hours) 3)"

section \<open>Killzones\<close>

record killzone_decision =
  kd_allowed :: bool
  kd_reason_code :: string
  kd_killzone_name :: string
  kd_utc_hour :: int
  kd_measured :: "(string \<times> json) list"

definition KILLZONE_LONDON :: string where "KILLZONE_LONDON = ''london''"
definition KILLZONE_NY :: string where "KILLZONE_NY = ''london_ny''"
definition KILLZONE_LATE_NY :: string where "KILLZONE_LATE_NY = ''late_ny''"
definition KILLZONE_NONE :: string where "KILLZONE_NONE = ''outside''"

text \<open>The hour given, or that of the time stamp given, or that of now.\<close>

definition utc_hour :: "int \<Rightarrow> int option \<Rightarrow> int option \<Rightarrow> int" where
  "utc_hour now ts hour =
     (case hour of Some h \<Rightarrow> h | None \<Rightarrow> ((case ts of Some t \<Rightarrow> t | None \<Rightarrow> now) div 3600) mod 24) mod 24"

definition in_window :: "int \<Rightarrow> int \<Rightarrow> int \<Rightarrow> bool" where
  "in_window start hours hour =
     (let end_hour = (start + hours) mod 24
      in if end_hour > start then start \<le> hour \<and> hour < end_hour else hour \<ge> start \<or> hour < end_hour)"

definition killzone_measured :: "killzone_config \<Rightarrow> int \<Rightarrow> (string \<times> json) list" where
  "killzone_measured cfg hour =
     (let (london, ny, asia, rollover) = session_hours cfg in
      [(''utc_hour'', JInt hour), (''london_start'', JInt london), (''ny_start'', JInt ny),
       (''rollover_utc_hour'', JInt rollover), (''london_window_hours'', JInt (london_hours cfg)),
       (''ny_window_hours'', JInt (ny_hours cfg)), (''include_late_ny'', JBool (include_late_ny cfg))])"

definition classify_killzone :: "int \<Rightarrow> int option \<Rightarrow> int option \<Rightarrow> killzone_config \<Rightarrow> killzone_decision" where
  "classify_killzone now ts given cfg =
     (let hour = utc_hour now ts given;
          (london, ny, asia, rollover) = session_hours cfg;
          measured = killzone_measured cfg hour;
          decide = (\<lambda>allowed reason name m. \<lparr>kd_allowed = allowed, kd_reason_code = reason, kd_killzone_name = name,
                      kd_utc_hour = hour, kd_measured = m\<rparr>) in
      if include_late_ny cfg \<and> hour \<in> {22, 23} then decide True ''killzone_late_ny'' KILLZONE_LATE_NY measured
      else if hour \<in> {(rollover - 1) mod 24, rollover mod 24, (rollover + 1) mod 24}
      then decide False ''outside_killzone'' KILLZONE_NONE (measured @ [(''block'', JStr ''rollover'')])
      else if in_window london (london_hours cfg) hour then decide True ''killzone_london'' KILLZONE_LONDON measured
      else if in_window ny (ny_hours cfg) hour then decide True ''killzone_london_ny'' KILLZONE_NY measured
      else decide False ''outside_killzone'' KILLZONE_NONE (measured @ [(''block'', JStr ''outside_windows'')]))"

definition is_killzone_utc :: "int \<Rightarrow> killzone_config \<Rightarrow> bool" where
  "is_killzone_utc hour cfg = kd_allowed (classify_killzone 0 None (Some hour) cfg)"

definition evaluate_killzone_gate ::
  "int \<Rightarrow> int option \<Rightarrow> int option \<Rightarrow> killzone_config \<Rightarrow> bool \<Rightarrow> killzone_decision" where
  "evaluate_killzone_gate now ts hour cfg require =
     (let decision = classify_killzone now ts hour cfg in
      if \<not> require \<or> \<not> technique_enforce cfg
      then decision\<lparr>kd_allowed := True,
             kd_reason_code := (if kd_allowed decision then kd_reason_code decision else ''outside_killzone_not_enforced''),
             kd_measured := kd_measured decision @
               [(''require'', JBool require), (''technique_enforce'', JBool (technique_enforce cfg)),
                (''would_block'', JBool (\<not> kd_allowed decision))]\<rparr>
      else decision)"

section \<open>Publish windows\<close>

definition parse_window :: "string \<Rightarrow> (int \<times> int) option" where
  "parse_window part =
     (let tok = str_strip part in
      if tok = [] \<or> CHR ''-'' \<notin> set tok then None
      else (let (left, right) = str_partition CHR ''-'' tok in
        case (parse_int left, parse_int right) of
          (Some l, Some end_hour) \<Rightarrow>
            (let start = l mod 24
             in if end_hour \<le> start then None
                else Some (start, if end_hour \<ge> 24 then end_hour mod 24 else end_hour))
        | _ \<Rightarrow> None))"

definition parse_reaction_publish_windows :: "killzone_config \<Rightarrow> (int \<times> int) list" where
  "parse_reaction_publish_windows cfg =
     (let raw = (case Option.bind (kz_technique cfg) tq_reaction_publish_windows of
                   None \<Rightarrow> ''7-11,13-16'' | Some w \<Rightarrow> if w = [] then ''7-11,13-16'' else w);
          windows = List.map_filter parse_window (str_split CHR '','' raw)
      in if windows \<noteq> [] then windows else [(7, 11), (13, 16)])"

definition hour_in_reaction_publish_windows :: "int \<Rightarrow> killzone_config \<Rightarrow> bool" where
  "hour_in_reaction_publish_windows given cfg =
     (let hour = given mod 24
      in list_ex (\<lambda>(start, end_hour). start \<le> hour \<and> hour < end_hour) (parse_reaction_publish_windows cfg))"

definition evaluate_reaction_publish_window ::
  "int \<Rightarrow> int option \<Rightarrow> int option \<Rightarrow> killzone_config \<Rightarrow> bool \<Rightarrow> killzone_decision" where
  "evaluate_reaction_publish_window now ts given cfg require =
     (let hour = utc_hour now ts given;
          inside = hour_in_reaction_publish_windows hour cfg;
          measured = [(''utc_hour'', JInt hour),
             (''reaction_publish_windows'', JList (map (\<lambda>(a, b). JList [JInt a, JInt b]) (parse_reaction_publish_windows cfg))),
             (''require'', JBool require), (''technique_enforce'', JBool (technique_enforce cfg))];
          decide = (\<lambda>allowed reason m. \<lparr>kd_allowed = allowed, kd_reason_code = reason, kd_killzone_name = KILLZONE_NONE,
                      kd_utc_hour = hour, kd_measured = m\<rparr>) in
      if \<not> require \<or> \<not> technique_enforce cfg
      then decide True (if inside then ''reaction_publish_window'' else ''outside_reaction_publish_window_not_enforced'')
             (measured @ [(''would_block'', JBool (\<not> inside))])
      else if inside then decide True ''reaction_publish_window'' measured
      else decide False ''outside_reaction_publish_window'' measured)"

definition SWEEP_BODY_TRIGGERS :: "string list" where
  "SWEEP_BODY_TRIGGERS =
     [''sweep_reclaim'', ''strong_reclaim'', ''body_close'', ''strong_close'', ''engulfing'', ''rejection_choch'',
      ''wick_rejection'']"

definition confirmation_is_sweep_body :: "string option \<Rightarrow> bool" where
  "confirmation_is_sweep_body pattern \<longleftrightarrow>
     str_lower (str_strip (case pattern of None \<Rightarrow> [] | Some p \<Rightarrow> p)) \<in> set SWEEP_BODY_TRIGGERS"

section \<open>Windows on the clock\<close>

text \<open>The window of \<open>hours\<close> hours from \<open>start\<close> on the 24-hour clock, which may pass midnight.\<close>

definition clock_window :: "int \<Rightarrow> int \<Rightarrow> int \<Rightarrow> bool" where
  "clock_window start hours hour \<longleftrightarrow> (hour - start) mod 24 < hours"

lemma clock_distance:
  fixes start hour :: int
  assumes "0 \<le> start" "start < 24" "0 \<le> hour" "hour < 24"
  shows "(hour - start) mod 24 = (if start \<le> hour then hour - start else hour - start + 24)"
proof (cases "start \<le> hour")
  case False
  have "(hour - start) mod 24 = (hour - start + 24) mod 24" by simp
  also have "\<dots> = hour - start + 24" using False assms by (intro mod_pos_pos_trivial) auto
  finally show ?thesis using False by simp
qed (use assms in simp)

lemma in_window_clock:
  assumes "0 \<le> start" "start < 24" "1 \<le> hours" "hours \<le> 24" "0 \<le> hour" "hour < 24"
  shows "in_window start hours hour = clock_window start hours hour"
proof -
  have e: "(start + hours) mod 24 = (if start + hours < 24 then start + hours else start + hours - 24)"
  proof (cases "start + hours < 24")
    case False
    have "(start + hours) mod 24 = (start + hours - 24) mod 24" by simp
    also have "\<dots> = start + hours - 24" using False assms by (intro mod_pos_pos_trivial) auto
    finally show ?thesis using False by simp
  qed (use assms in simp)
  show ?thesis unfolding in_window_def clock_window_def Let_def e clock_distance [OF assms(1,2,5,6)]
    using assms by auto
qed

lemma clock_shift:
  fixes s k hour :: int
  assumes "0 \<le> hour" "hour < 24" "0 \<le> k" "k < 24"
  shows "hour = (s + k) mod 24 \<longleftrightarrow> (hour - s) mod 24 = k"
proof
  assume "hour = (s + k) mod 24"
  then have "(hour - s) mod 24 = ((s + k) - s) mod 24" by (metis mod_diff_left_eq)
  then show "(hour - s) mod 24 = k" using assms by simp
next
  assume "(hour - s) mod 24 = k"
  then have "(s + k) mod 24 = (s + (hour - s)) mod 24" by (metis mod_add_right_eq)
  then show "hour = (s + k) mod 24" using assms by simp
qed

lemma rollover_clock:
  fixes rollover hour :: int
  assumes "0 \<le> hour" "hour < 24"
  shows "hour \<in> {(rollover - 1) mod 24, rollover mod 24, (rollover + 1) mod 24} \<longleftrightarrow> clock_window (rollover - 1) 3 hour"
proof -
  have "d < 3 \<longleftrightarrow> d = 0 \<or> d = 1 \<or> d = 2" if "0 \<le> d" for d :: int using that by auto
  then have "clock_window (rollover - 1) 3 hour \<longleftrightarrow> (hour - (rollover - 1)) mod 24 \<in> {0, 1, 2}"
    unfolding clock_window_def by simp
  then show ?thesis
    using clock_shift [OF assms, of 0 "rollover - 1"] clock_shift [OF assms, of 1 "rollover - 1"]
      clock_shift [OF assms, of 2 "rollover - 1"]
    by (simp add: add.commute)
qed

lemma utc_hour_range: "0 \<le> utc_hour now ts h" "utc_hour now ts h < 24"
  by (simp_all add: utc_hour_def)

lemma window_hours_positive: "1 \<le> london_hours cfg" "1 \<le> ny_hours cfg"
  by (simp_all add: london_hours_def ny_hours_def)

lemma classify_killzone_clock:
  assumes "session_hours cfg = (london, ny, asia, rollover)"
    and "0 \<le> london" "london < 24" "0 \<le> ny" "ny < 24" "london_hours cfg \<le> 24" "ny_hours cfg \<le> 24"
    and "hour = utc_hour now ts given"
  shows "kd_allowed (classify_killzone now ts given cfg) \<longleftrightarrow>
    include_late_ny cfg \<and> hour \<in> {22, 23} \<or>
    \<not> clock_window (rollover - 1) 3 hour \<and>
    (clock_window london (london_hours cfg) hour \<or> clock_window ny (ny_hours cfg) hour)"
proof -
  have h: "0 \<le> hour" "hour < 24" using assms(8) utc_hour_range by simp_all
  show ?thesis
    unfolding classify_killzone_def Let_def assms(1) prod.case assms(8) [symmetric] rollover_clock [OF h]
      in_window_clock [OF assms(2,3) window_hours_positive(1) assms(6) h]
      in_window_clock [OF assms(4,5) window_hours_positive(2) assms(7) h]
    by simp
qed

section \<open>Publish windows as text\<close>

fun print_windows :: "(int \<times> int) list \<Rightarrow> string" where
  "print_windows [] = []"
| "print_windows [(a, b)] = str_int a @ CHR ''-'' # str_int b"
| "print_windows ((a, b) # w # ws) = (str_int a @ CHR ''-'' # str_int b) @ CHR '','' # print_windows (w # ws)"

lemma str_nat_chars: "c \<in> set (str_nat n) \<Longrightarrow> c \<noteq> CHR '','' \<and> c \<noteq> CHR ''-'' \<and> \<not> char_space c"
proof -
  assume "c \<in> set (str_nat n)"
  then obtain d where d: "d < 10" "c = digit_char d"
    using str_nat_digits[of n] by (auto simp: list_all_iff)
  have "\<not> is_digit CHR '',''" by (simp add: is_digit_def)
  then show ?thesis using digit_char_props [OF d(1)] unfolding d(2) by metis
qed

lemma window_text_chars:
  assumes "0 \<le> a" "0 \<le> b"
  shows "CHR '','' \<notin> set (str_int a @ CHR ''-'' # str_int b)"
    and "str_strip (str_int a @ CHR ''-'' # str_int b) = str_int a @ CHR ''-'' # str_int b"
    and "str_partition CHR ''-'' (str_int a @ CHR ''-'' # str_int b) = (str_int a, str_int b)"
proof -
  have p: "CHR ''-'' \<notin> set s \<Longrightarrow> str_partition CHR ''-'' (s @ CHR ''-'' # t) = (s, t)" for s t
    by (induction s) auto
  show "CHR '','' \<notin> set (str_int a @ CHR ''-'' # str_int b)"
    using assms str_nat_chars by (auto simp: str_int_def)
  show "str_strip (str_int a @ CHR ''-'' # str_int b) = str_int a @ CHR ''-'' # str_int b"
    using assms str_nat_chars
    by (intro strip_nospace) (auto simp: str_int_def list_all_iff char_space_def)
  show "str_partition CHR ''-'' (str_int a @ CHR ''-'' # str_int b) = (str_int a, str_int b)"
    using assms str_nat_chars by (intro p) (auto simp: str_int_def)
qed

lemma parse_window_text:
  assumes "0 \<le> a" "a < b" "a < 24" "b \<le> 24"
  shows "parse_window (str_int a @ CHR ''-'' # str_int b) = Some (a, if b = 24 then 0 else b)"
  using assms by (simp add: parse_window_def window_text_chars parse_int_str_int)

lemma str_split_plain: "c \<notin> set s \<Longrightarrow> str_split c s = [s]"
  by (induction s) auto

lemma str_split_sep: "c \<notin> set s \<Longrightarrow> str_split c (s @ c # t) = s # str_split c t"
  by (induction s) auto

lemma split_windows:
  assumes "ws \<noteq> []" "\<forall>(a, b) \<in> set ws. 0 \<le> a \<and> 0 \<le> b"
  shows "str_split CHR '','' (print_windows ws) = map (\<lambda>(a, b). str_int a @ CHR ''-'' # str_int b) ws"
  using assms
proof (induction ws rule: print_windows.induct)
  case (2 a b)
  then show ?case using window_text_chars(1)[of a b] by (simp only: print_windows.simps) (simp add: str_split_plain)
next
  case (3 a b w ws)
  have "CHR '','' \<notin> set (str_int a @ CHR ''-'' # str_int b)" using 3(3) by (intro window_text_chars) auto
  then have "str_split CHR '','' (print_windows ((a, b) # w # ws)) =
      (str_int a @ CHR ''-'' # str_int b) # str_split CHR '','' (print_windows (w # ws))"
    unfolding print_windows.simps by (rule str_split_sep)
  also have "str_split CHR '','' (print_windows (w # ws)) = map (\<lambda>(a, b). str_int a @ CHR ''-'' # str_int b) (w # ws)"
    using 3 by simp
  finally show ?case by simp
qed simp

lemma print_windows_nonempty: "ws \<noteq> [] \<Longrightarrow> print_windows ws \<noteq> []"
  by (cases ws rule: print_windows.cases) auto

lemma map_filter_some: "\<forall>x \<in> set xs. f x = Some (g x) \<Longrightarrow> List.map_filter f xs = map g xs"
  by (induction xs) (auto simp: List.map_filter_simps)

section \<open>Properties\<close>

definition demo_killzone :: killzone_config where
  "demo_killzone =
     \<lparr>kz_technique = Some \<lparr>tq_enforce = None, tq_require_sweep_body = None, tq_reaction_require_killzone = None,
        tq_reaction_require_publish_window = Some True, tq_include_late_ny = Some False, tq_london_window_hours = None,
        tq_ny_window_hours = Some 12, tq_reaction_publish_windows = Some ''7-11,20-24''\<rparr>,
      kz_key_level = None, kz_london_start = None, kz_ny_start = None, kz_asia_start = None,
      kz_daily_rollover_utc_hour = None\<rparr>"

text \<open>The killzone gate, exactly: with start hours on the clock and windows of at most a day, the gate lets a
  time through exactly when it is not enforced (the caller does not require it or the technique pack is off), when the
  late New York hours are on and it is 22 or 23, or when its hour is outside the three hours around the daily rollover
  and inside the London or the New York window, taken on the 24-hour clock, past midnight included. A gate that is not
  enforced still reports whether it would have blocked.\<close>

theorem killzone_gate_exact:
  assumes "session_hours cfg = (london, ny, asia, rollover)"
    and "0 \<le> london" "london < 24" "0 \<le> ny" "ny < 24" "london_hours cfg \<le> 24" "ny_hours cfg \<le> 24"
    and "hour = utc_hour now ts given"
  shows "(kd_allowed (evaluate_killzone_gate now ts given cfg require) \<longleftrightarrow>
      \<not> (require \<and> technique_enforce cfg) \<or> include_late_ny cfg \<and> hour \<in> {22, 23} \<or>
      \<not> clock_window (rollover - 1) 3 hour \<and>
      (clock_window london (london_hours cfg) hour \<or> clock_window ny (ny_hours cfg) hour)) \<and>
    map_of (kd_measured (evaluate_killzone_gate now ts given cfg require)) ''would_block'' =
      (if require \<and> technique_enforce cfg then None
       else Some (JBool (\<not> kd_allowed (classify_killzone now ts given cfg))))"
proof
  show "kd_allowed (evaluate_killzone_gate now ts given cfg require) \<longleftrightarrow>
      \<not> (require \<and> technique_enforce cfg) \<or> include_late_ny cfg \<and> hour \<in> {22, 23} \<or>
      \<not> clock_window (rollover - 1) 3 hour \<and>
      (clock_window london (london_hours cfg) hour \<or> clock_window ny (ny_hours cfg) hour)"
    using classify_killzone_clock [OF assms] unfolding evaluate_killzone_gate_def Let_def
    by (cases "require \<and> technique_enforce cfg") simp_all
  have "map_of (kd_measured (classify_killzone now ts given cfg)) ''would_block'' = None"
    unfolding classify_killzone_def killzone_measured_def Let_def assms(1) prod.case by simp
  then show "map_of (kd_measured (evaluate_killzone_gate now ts given cfg require)) ''would_block'' =
      (if require \<and> technique_enforce cfg then None
       else Some (JBool (\<not> kd_allowed (classify_killzone now ts given cfg))))"
    unfolding evaluate_killzone_gate_def Let_def
    by (cases "require \<and> technique_enforce cfg") (simp_all add: map_add_def)
qed

theorem killzone_gate_exact_witness:
  "kd_allowed (evaluate_killzone_gate 0 None (Some 0) demo_killzone True) \<and>
   \<not> kd_allowed (evaluate_killzone_gate 0 None (Some 21) demo_killzone True)"
proof -
  have s: "session_hours demo_killzone = (7, 13, 22, 21)"
    by (simp add: session_hours_def demo_killzone_def or_default_def)
  have l: "london_hours demo_killzone \<le> 24" "ny_hours demo_killzone \<le> 24"
    by (simp_all add: london_hours_def ny_hours_def demo_killzone_def or_default_def)
  have v: "ny_hours demo_killzone = 12" "london_hours demo_killzone = 3" "\<not> include_late_ny demo_killzone"
    "technique_enforce demo_killzone" "utc_hour 0 None (Some 0) = 0" "utc_hour 0 None (Some 21) = 21"
    by (simp_all add: london_hours_def ny_hours_def include_late_ny_def technique_enforce_def flag_def utc_hour_def
        demo_killzone_def or_default_def)
  show ?thesis
    using killzone_gate_exact [THEN conjunct1, OF s _ _ _ _ l refl, of 0 None "Some 0" True]
      killzone_gate_exact [THEN conjunct1, OF s _ _ _ _ l refl, of 0 None "Some 21" True]
    by (simp add: v clock_window_def)
qed

text \<open>Publish windows as text: the windows printed as \<open>a-b\<close> with commas between are read back one by one, in
  order, except that a window that ends at midnight is kept with the end 0. An hour is then inside a publish window
  exactly when a printed window that does not end at midnight holds it: a window that ends at midnight never opens, for
  any of its hours.\<close>

theorem publish_windows_roundtrip:
  assumes "ws \<noteq> []" and "\<forall>(a, b) \<in> set ws. 0 \<le> a \<and> a < b \<and> a < 24 \<and> b \<le> 24"
    and "kz_technique cfg = Some t" and "tq_reaction_publish_windows t = Some (print_windows ws)"
  shows "parse_reaction_publish_windows cfg = map (\<lambda>(a, b). (a, if b = 24 then 0 else b)) ws \<and>
    (hour_in_reaction_publish_windows h cfg \<longleftrightarrow>
      (\<exists>(a, b) \<in> set ws. b \<noteq> 24 \<and> a \<le> h mod 24 \<and> h mod 24 < b))"
proof
  have "List.map_filter parse_window (map (\<lambda>(a, b). str_int a @ CHR ''-'' # str_int b) ws) =
      map (\<lambda>(a, b). (a, if b = 24 then 0 else b)) ws"
    using assms(2) by (induction ws) (auto simp: List.map_filter_simps parse_window_text)
  moreover have "str_split CHR '','' (print_windows ws) = map (\<lambda>(a, b). str_int a @ CHR ''-'' # str_int b) ws"
    using assms(1,2) by (intro split_windows) auto
  ultimately show p: "parse_reaction_publish_windows cfg = map (\<lambda>(a, b). (a, if b = 24 then 0 else b)) ws"
    using assms(1,3,4) print_windows_nonempty [OF assms(1)] by (simp add: parse_reaction_publish_windows_def)
  have "list_ex (\<lambda>(start, end_hour). start \<le> x \<and> x < end_hour) (map (\<lambda>(a, b). (a, if b = 24 then 0 else b)) ws) \<longleftrightarrow>
      (\<exists>(a, b) \<in> set ws. b \<noteq> 24 \<and> a \<le> x \<and> x < b)" if "0 \<le> x" for x :: int
    using that by (induction ws) (auto split: if_splits)
  from this [of "h mod 24"] show "hour_in_reaction_publish_windows h cfg \<longleftrightarrow>
      (\<exists>(a, b) \<in> set ws. b \<noteq> 24 \<and> a \<le> h mod 24 \<and> h mod 24 < b)"
    by (simp add: hour_in_reaction_publish_windows_def p Let_def)
qed

theorem publish_windows_roundtrip_witness:
  "parse_reaction_publish_windows demo_killzone = [(7, 11), (20, 0)] \<and>
   \<not> hour_in_reaction_publish_windows 21 demo_killzone \<and> hour_in_reaction_publish_windows 34 demo_killzone"
proof -
  have t: "kz_technique demo_killzone = Some (the (kz_technique demo_killzone))"
    "tq_reaction_publish_windows (the (kz_technique demo_killzone)) = Some (print_windows [(7, 11), (20, 24)])"
    by (simp add: demo_killzone_def) code_simp
  show ?thesis
    using publish_windows_roundtrip [THEN conjunct1, OF _ _ t] publish_windows_roundtrip [THEN conjunct2, OF _ _ t, of 21]
      publish_windows_roundtrip [THEN conjunct2, OF _ _ t, of 34]
    by simp
qed

end
