(* ===== verification/EntryLocation.thy ===== *)
theory EntryLocation
  imports Killzone StrategyRegistry LifecycleEvents
begin

text \<open>
  Where in its dealing range an entry may be taken (\<open>app/analysis/entry_location.py\<close>): the choice of the range, the
  position of the price in it, and the decision for each archetype of strategy. Prices and positions are rationals.
\<close>

section \<open>Configuration\<close>

definition MODE_OFF :: string where "MODE_OFF = ''off''"
definition MODE_SHADOW :: string where "MODE_SHADOW = ''shadow''"
definition MODE_ENFORCE :: string where "MODE_ENFORCE = ''enforce''"

definition VALID_STRICT_PD_ARCHETYPES :: "string list" where
  "VALID_STRICT_PD_ARCHETYPES =
     [ARCHETYPE_REVERSAL, ARCHETYPE_RANGE_REVERSION, ARCHETYPE_TREND_PULLBACK, ARCHETYPE_BREAKOUT_RETEST, ARCHETYPE_MOMENTUM,
      ARCHETYPE_UNKNOWN]"

lemmas mode_names = MODE_OFF_def MODE_SHADOW_def MODE_ENFORCE_def
lemmas archetype_names =
  ARCHETYPE_REVERSAL_def ARCHETYPE_RANGE_REVERSION_def ARCHETYPE_TREND_PULLBACK_def ARCHETYPE_BREAKOUT_RETEST_def
  ARCHETYPE_MOMENTUM_def ARCHETYPE_UNKNOWN_def

text \<open>A limit that is \<open>None\<close> is an attribute that is missing or holds no number.\<close>

record location_limits =
  ll_buy_maximum_position :: "rat option"
  ll_sell_minimum_position :: "rat option"
  ll_equilibrium_exclusion_width :: "rat option"
  ll_momentum_buy_minimum_position :: "rat option"
  ll_momentum_sell_maximum_position :: "rat option"
  ll_extreme_buy_block_position :: "rat option"
  ll_extreme_sell_block_position :: "rat option"

record location_section =
  lo_mode :: "string option"
  lo_missing_context_policy :: "string option"
  lo_range_reversion :: "location_limits option"
  lo_trend_pullback :: "location_limits option"
  lo_momentum :: "location_limits option"
  lo_reversal :: "location_limits option"

record location_config =
  lf_section :: "location_section option"
  lf_technique :: killzone_config
  lf_strict_premium_discount :: "bool option"
  lf_strict_premium_discount_archetypes :: "string option"

definition mode_of :: "string option \<Rightarrow> string" where
  "mode_of raw =
     (let mode = str_lower (str_strip (case raw of None \<Rightarrow> MODE_OFF | Some m \<Rightarrow> if m = [] then MODE_OFF else m))
      in if mode \<in> {MODE_OFF, MODE_SHADOW, MODE_ENFORCE} then mode else MODE_OFF)"

definition location_mode :: "location_config \<Rightarrow> string" where
  "location_mode cfg = (case lf_section cfg of None \<Rightarrow> MODE_OFF | Some s \<Rightarrow> mode_of (lo_mode s))"

definition float_cfg :: "location_limits option \<Rightarrow> (location_limits \<Rightarrow> rat option) \<Rightarrow> rat \<Rightarrow> rat" where
  "float_cfg limits field d =
     (case limits of None \<Rightarrow> d | Some l \<Rightarrow> (case field l of None \<Rightarrow> d | Some q \<Rightarrow> q))"

definition parse_strict_pd_archetypes :: "string \<Rightarrow> string list res" where
  "parse_strict_pd_archetypes raw =
     (let text = str_strip raw in
      if text = [] then Inr []
      else (let tokens = map (\<lambda>part. str_lower (str_strip part)) (filter (\<lambda>part. str_strip part \<noteq> []) (str_split CHR '','' text)) in
        if \<not> set tokens \<subseteq> set VALID_STRICT_PD_ARCHETYPES then Inl ValueError
        else Inr (sort (remdups tokens))))"

section \<open>Ranges and positions\<close>

definition range_position :: "rat \<Rightarrow> rat \<Rightarrow> rat \<Rightarrow> rat option" where
  "range_position price low high = (let span' = high - low in if span' \<le> 0 then None else Some ((price - low) / span'))"

definition clamped_position :: "rat option \<Rightarrow> rat option" where
  "clamped_position raw = (case raw of None \<Rightarrow> None | Some r \<Rightarrow> Some (min 1 (max 0 r)))"

definition valid_bounds :: "rat option \<Rightarrow> rat option \<Rightarrow> bool" where
  "valid_bounds low high = (case (low, high) of (Some l, Some h) \<Rightarrow> h > l | _ \<Rightarrow> False)"

definition brackets :: "rat \<Rightarrow> rat \<Rightarrow> rat \<Rightarrow> bool" where
  "brackets price low high \<longleftrightarrow> low \<le> price \<and> price \<le> high"

text \<open>The valid ranges among the sources, in their order.\<close>

fun range_candidates :: "(string \<times> rat option \<times> rat option) list \<Rightarrow> (string \<times> rat \<times> rat) list" where
  "range_candidates [] = []"
| "range_candidates ((source, Some low, Some high) # rest) =
     (if valid_bounds (Some low) (Some high) then (source, low, high) # range_candidates rest else range_candidates rest)"
| "range_candidates (_ # rest) = range_candidates rest"

definition select_effective_range ::
  "rat \<Rightarrow> rat option \<Rightarrow> rat option \<Rightarrow> rat option \<Rightarrow> rat option \<Rightarrow> rat option \<Rightarrow> rat option \<Rightarrow> bool \<Rightarrow>
   (string \<times> rat \<times> rat) option" where
  "select_effective_range price h1_low h1_high m15_low m15_high m5_low m5_high htf_only =
     (let sources = (if htf_only then [(''M15'', m15_low, m15_high), (''H1'', h1_low, h1_high)]
                     else [(''M15'', m15_low, m15_high), (''H1'', h1_low, h1_high), (''M5'', m5_low, m5_high)]);
          candidates = range_candidates sources in
      if candidates = [] then None
      else (case find (\<lambda>(source, low, high). brackets price low high) candidates of
              Some c \<Rightarrow> Some c | None \<Rightarrow> Some (hd candidates)))"

record entry_location_context =
  lc_execution_price :: rat
  lc_h1_range_low :: "rat option"
  lc_h1_range_high :: "rat option"
  lc_h1_range_position :: "rat option"
  lc_m15_range_low :: "rat option"
  lc_m15_range_high :: "rat option"
  lc_m15_range_position :: "rat option"
  lc_m5_range_low :: "rat option"
  lc_m5_range_high :: "rat option"
  lc_m5_range_position :: "rat option"
  lc_effective_range_low :: "rat option"
  lc_effective_range_high :: "rat option"
  lc_effective_range_position :: "rat option"
  lc_effective_range_position_raw :: "rat option"
  lc_effective_range_source :: "string option"
  lc_zone_position :: "rat option"
  lc_range_available :: bool

text \<open>\<open>_pos\<close>: the position in a range that is valid.\<close>

definition position_in :: "rat \<Rightarrow> rat option \<Rightarrow> rat option \<Rightarrow> rat option" where
  "position_in price low high =
     (case (low, high) of (Some l, Some h) \<Rightarrow> if valid_bounds low high then range_position price l h else None | _ \<Rightarrow> None)"

text \<open>A BUY is filled at the ask, a SELL at the bid.\<close>

definition quoted_price :: "rat \<Rightarrow> string \<Rightarrow> rat option \<Rightarrow> rat option \<Rightarrow> rat" where
  "quoted_price execution_price direction ask bid =
     (let side = str_upper direction in
      case (side = ''BUY'', ask) of
        (True, Some a) \<Rightarrow> a
      | _ \<Rightarrow> (case (side = ''SELL'', bid) of (True, Some b) \<Rightarrow> b | _ \<Rightarrow> execution_price))"

definition build_entry_location_context ::
  "rat \<Rightarrow> string \<Rightarrow> rat option \<Rightarrow> rat option \<Rightarrow> rat option \<Rightarrow> rat option \<Rightarrow> rat option \<Rightarrow> rat option \<Rightarrow> rat option \<Rightarrow>
   rat option \<Rightarrow> rat option \<Rightarrow> rat option \<Rightarrow> entry_location_context" where
  "build_entry_location_context execution_price direction ask bid h1_low h1_high m15_low m15_high m5_low m5_high
     zone_low zone_high =
     (let price = quoted_price execution_price direction ask bid;
          chosen = select_effective_range price h1_low h1_high m15_low m15_high m5_low m5_high False;
          raw = (case chosen of None \<Rightarrow> None | Some (source, low, high) \<Rightarrow> range_position price low high) in
      \<lparr>lc_execution_price = price,
       lc_h1_range_low = h1_low, lc_h1_range_high = h1_high, lc_h1_range_position = position_in price h1_low h1_high,
       lc_m15_range_low = m15_low, lc_m15_range_high = m15_high, lc_m15_range_position = position_in price m15_low m15_high,
       lc_m5_range_low = m5_low, lc_m5_range_high = m5_high, lc_m5_range_position = position_in price m5_low m5_high,
       lc_effective_range_low = map_option (\<lambda>(source, low, high). low) chosen,
       lc_effective_range_high = map_option (\<lambda>(source, low, high). high) chosen,
       lc_effective_range_position = clamped_position raw,
       lc_effective_range_position_raw = raw,
       lc_effective_range_source = map_option fst chosen,
       lc_zone_position = position_in price zone_low zone_high,
       lc_range_available = (chosen \<noteq> None \<and> raw \<noteq> None)\<rparr>)"

section \<open>Decision\<close>

record entry_location_decision =
  ld_allowed :: bool
  ld_reason_code :: string
  ld_hard_block :: bool
  ld_archetype :: string
  ld_would_block :: bool
  ld_measured :: "(string \<times> json) list"

definition has_accepted_breakout_evidence :: "(string \<times> json) list option \<Rightarrow> bool" where
  "has_accepted_breakout_evidence evidence =
     (case evidence of None \<Rightarrow> False
      | Some e \<Rightarrow> e \<noteq> [] \<and>
          list_all (\<lambda>k. py_truthy (dict_get e k))
            [''accepted_break'', ''correct_key_level_role'', ''retest_of_broken_level'', ''directionally_valid_close'',
             ''target_room_beyond_breakout''])"

text \<open>The reason that speaks against the position, for each archetype; none when it is allowed.\<close>

definition range_reversion_block :: "location_limits option \<Rightarrow> string \<Rightarrow> rat \<Rightarrow> string option" where
  "range_reversion_block limits side pos =
     (let buy_max = float_cfg limits ll_buy_maximum_position (2 / 5);
          sell_min = float_cfg limits ll_sell_minimum_position (3 / 5);
          eq_width = float_cfg limits ll_equilibrium_exclusion_width (1 / 5);
          half = max 0 eq_width / 2
      in if \<bar>pos - 1 / 2\<bar> \<le> half then Some ''range_entry_near_equilibrium''
         else if side = ''BUY'' \<and> pos > buy_max then Some ''range_buy_not_at_discount_edge''
         else if side = ''SELL'' \<and> pos < sell_min then Some ''range_sell_not_at_premium_edge''
         else None)"

definition trend_pullback_block :: "location_limits option \<Rightarrow> string \<Rightarrow> rat \<Rightarrow> string option" where
  "trend_pullback_block limits side pos =
     (if side = ''BUY'' \<and> pos > float_cfg limits ll_buy_maximum_position (7 / 10) then Some ''buy_at_range_extreme''
      else if side = ''SELL'' \<and> pos < float_cfg limits ll_sell_minimum_position (3 / 10) then Some ''sell_at_range_extreme''
      else None)"

definition momentum_block :: "location_limits option \<Rightarrow> string \<Rightarrow> rat \<Rightarrow> string option" where
  "momentum_block limits side pos =
     (if side = ''BUY'' \<and> pos \<le> float_cfg limits ll_momentum_buy_minimum_position (3 / 20)
      then Some ''momentum_buy_at_range_low''
      else if side = ''SELL'' \<and> pos \<ge> float_cfg limits ll_momentum_sell_maximum_position (17 / 20)
      then Some ''momentum_sell_at_range_high''
      else None)"

definition reversal_block :: "location_limits option \<Rightarrow> bool \<Rightarrow> bool \<Rightarrow> string \<Rightarrow> rat \<Rightarrow> string option" where
  "reversal_block limits htf_pd skip_extremes side pos =
     (let buy_max = float_cfg limits ll_buy_maximum_position (1 / 2);
          sell_min = float_cfg limits ll_sell_minimum_position (1 / 2);
          extreme_buy = float_cfg limits ll_extreme_buy_block_position (13 / 20);
          extreme_sell = float_cfg limits ll_extreme_sell_block_position (7 / 20)
      in if htf_pd
         then (if side = ''BUY'' \<and> pos > buy_max then Some ''buy_in_premium''
               else if side = ''SELL'' \<and> pos < sell_min then Some ''sell_in_discount'' else None)
         else if side = ''BUY''
         then (if pos \<ge> extreme_buy then (if skip_extremes then None else Some ''buy_at_range_extreme'')
               else if pos > buy_max then Some ''buy_in_premium'' else None)
         else if side = ''SELL''
         then (if pos \<le> extreme_sell then (if skip_extremes then None else Some ''sell_at_range_extreme'')
               else if pos < sell_min then Some ''sell_in_discount'' else None)
         else None)"

definition retest_block :: "location_limits option \<Rightarrow> string \<Rightarrow> rat \<Rightarrow> string option" where
  "retest_block limits side pos =
     (if side = ''BUY'' \<and> pos > float_cfg limits ll_buy_maximum_position (1 / 2) then Some ''buy_in_premium''
      else if side = ''SELL'' \<and> pos < float_cfg limits ll_sell_minimum_position (1 / 2) then Some ''sell_in_discount''
      else None)"

definition position_block :: "location_section option \<Rightarrow> string \<Rightarrow> string \<Rightarrow> bool \<Rightarrow> string \<Rightarrow> rat \<Rightarrow> string option" where
  "position_block sec archetype strategy htf_pd side pos =
     (if archetype = ARCHETYPE_RANGE_REVERSION then range_reversion_block (Option.bind sec lo_range_reversion) side pos
      else if archetype = ARCHETYPE_TREND_PULLBACK then trend_pullback_block (Option.bind sec lo_trend_pullback) side pos
      else if archetype = ARCHETYPE_MOMENTUM then momentum_block (Option.bind sec lo_momentum) side pos
      else if archetype \<in> {ARCHETYPE_REVERSAL, ARCHETYPE_UNKNOWN}
      then reversal_block (Option.bind sec lo_reversal) htf_pd (is_technique_or_confluence strategy \<and> \<not> htf_pd) side pos
      else if archetype = ARCHETYPE_BREAKOUT_RETEST then retest_block (Option.bind sec lo_reversal) side pos
      else None)"

definition strict_pd :: "location_config \<Rightarrow> bool" where
  "strict_pd cfg =
     (case kz_technique (lf_technique cfg) of None \<Rightarrow> True | Some t \<Rightarrow> flag (lf_strict_premium_discount cfg) True)"

definition strict_pd_archetypes :: "location_config \<Rightarrow> string list res" where
  "strict_pd_archetypes cfg =
     parse_strict_pd_archetypes
       (case kz_technique (lf_technique cfg) of None \<Rightarrow> ''reversal,range_reversion''
        | Some t \<Rightarrow> (case lf_strict_premium_discount_archetypes cfg of None \<Rightarrow> ''reversal,range_reversion'' | Some s \<Rightarrow> s))"

definition missing_context_policy :: "location_config \<Rightarrow> string" where
  "missing_context_policy cfg =
     str_lower (str_strip (case Option.bind (lf_section cfg) lo_missing_context_policy of None \<Rightarrow> ''block''
       | Some p \<Rightarrow> if p = [] then ''block'' else p))"

definition location_measured :: "string \<Rightarrow> string \<Rightarrow> entry_location_context \<Rightarrow> string \<Rightarrow> bool \<Rightarrow> string list \<Rightarrow> (string \<times> json) list" where
  "location_measured mode archetype ctx direction htf_pd archetypes =
     [(''mode'', JStr mode), (''archetype'', JStr archetype), (''execution_price'', JFloat (lc_execution_price ctx)),
      (''effective_range_source'', j_opt_str (lc_effective_range_source ctx)),
      (''effective_range_low'', j_opt_float (lc_effective_range_low ctx)),
      (''effective_range_high'', j_opt_float (lc_effective_range_high ctx)),
      (''effective_range_position'', j_opt_float (lc_effective_range_position ctx)),
      (''effective_range_position_raw'', j_opt_float (lc_effective_range_position_raw ctx)),
      (''h1_range_position'', j_opt_float (lc_h1_range_position ctx)),
      (''m15_range_position'', j_opt_float (lc_m15_range_position ctx)),
      (''m5_range_position'', j_opt_float (lc_m5_range_position ctx)),
      (''zone_position'', j_opt_float (lc_zone_position ctx)),
      (''direction'', JStr (str_upper direction)), (''htf_premium_discount'', JBool htf_pd),
      (''strict_pd_archetypes'', JList (map JStr archetypes))]"

definition location_decision ::
  "string \<Rightarrow> bool \<Rightarrow> string \<Rightarrow> bool \<Rightarrow> (string \<times> json) list \<Rightarrow> entry_location_decision" where
  "location_decision archetype allowed reason would_block measured =
     \<lparr>ld_allowed = allowed, ld_reason_code = reason, ld_hard_block = (\<not> allowed), ld_archetype = archetype,
      ld_would_block = would_block, ld_measured = measured\<rparr>"

definition evaluate_entry_location ::
  "string \<Rightarrow> string \<Rightarrow> entry_location_context \<Rightarrow> location_config \<Rightarrow> (string \<times> json) list option \<Rightarrow>
   entry_location_decision res" where
  "evaluate_entry_location strategy direction ctx cfg breakout_evidence =
     (let mode = location_mode cfg; archetype = location_archetype strategy in
      res_bind (strict_pd_archetypes cfg) (\<lambda>archetypes.
      let htf_pd = (technique_enforce (lf_technique cfg) \<and> strict_pd cfg \<and> archetype \<in> set archetypes);
          measured = location_measured mode archetype ctx direction htf_pd archetypes;
          decide = location_decision archetype in
      if mode = MODE_OFF then Inr (decide True ''entry_location_off'' False measured)
      else if archetype = ARCHETYPE_BREAKOUT_RETEST \<and> has_accepted_breakout_evidence breakout_evidence
      then Inr (decide True ''location_override_accepted_breakout_retest'' False
             (measured @ [(''location_override'', JStr ''accepted_breakout_retest'')]))
      else (case (lc_range_available ctx, lc_effective_range_position_raw ctx) of
        (True, Some pos) \<Rightarrow>
          if htf_pd \<and> archetype \<in> {ARCHETYPE_REVERSAL, ARCHETYPE_RANGE_REVERSION, ARCHETYPE_UNKNOWN} \<and>
             lc_effective_range_source ctx \<notin> {Some ''M15'', Some ''H1''}
          then Inr (decide False ''entry_location_htf_range_missing'' True measured)
          else (let blocked = position_block (lf_section cfg) archetype strategy htf_pd (str_upper direction) pos;
                    would_block = (blocked \<noteq> None);
                    reason = (case blocked of None \<Rightarrow> ''entry_location_allowed'' | Some r \<Rightarrow> r);
                    measured = measured @ [(''would_block'', JBool would_block), (''reason_code'', JStr reason)] in
            if \<not> would_block then Inr (decide True reason False measured)
            else if mode = MODE_SHADOW then Inr (decide True reason True measured)
            else Inr (decide False reason True measured))
      | _ \<Rightarrow>
          (let policy = missing_context_policy cfg;
               measured = measured @ [(''missing_context_policy'', JStr policy)] in
           if mode = MODE_SHADOW \<or> policy \<noteq> ''block''
           then Inr (decide True ''entry_location_context_missing'' True measured)
           else if archetype \<in> {ARCHETYPE_REVERSAL, ARCHETYPE_RANGE_REVERSION, ARCHETYPE_TREND_PULLBACK}
           then Inr (decide False ''entry_location_context_missing'' True measured)
           else Inr (decide True ''entry_location_context_missing'' False measured)))))"

section \<open>What the decision means\<close>

lemma range_candidates_valid: "(source, low, high) \<in> set (range_candidates sources) \<Longrightarrow> low < high"
  by (induction sources rule: range_candidates.induct) (auto simp: valid_bounds_def split: if_splits)

lemma find_in_set: "find P xs = Some x \<Longrightarrow> x \<in> set xs"
  by (induction xs) (auto split: if_splits)

lemma selected_valid:
  assumes "select_effective_range price a b c d e f htf = Some (source, low, high)"
  shows "low < high"
proof -
  have pick: "(source, low, high) \<in> set cs"
    if "(if cs = [] then None else (case find P cs of Some x \<Rightarrow> Some x | None \<Rightarrow> Some (hd cs))) = Some (source, low, high)"
    for cs :: "(string \<times> rat \<times> rat) list" and P
  proof (cases "find P cs")
    case None
    with that show ?thesis by (cases cs) auto
  next
    case (Some x)
    with that show ?thesis by (auto split: if_splits dest: find_in_set)
  qed
  show ?thesis
    using assms unfolding select_effective_range_def Let_def by (intro range_candidates_valid) (erule pick)
qed

lemma built_context:
  fixes p direction ask bid
  defines "price \<equiv> quoted_price p direction ask bid"
  assumes chosen: "select_effective_range price a b c d e f False = chosen"
  shows "lc_range_available (build_entry_location_context p direction ask bid a b c d e f zl zh) = (chosen \<noteq> None) \<and>
    lc_effective_range_source (build_entry_location_context p direction ask bid a b c d e f zl zh) = map_option fst chosen \<and>
    lc_effective_range_position_raw (build_entry_location_context p direction ask bid a b c d e f zl zh) =
      map_option (\<lambda>(source, low, high). (price - low) / (high - low)) chosen"
proof -
  have raw: "(case chosen of None \<Rightarrow> None | Some (source, low, high) \<Rightarrow> range_position price low high)
      = map_option (\<lambda>(source, low, high). (price - low) / (high - low)) chosen"
    using chosen by (cases chosen) (auto simp: range_position_def Let_def dest: selected_valid)
  then show ?thesis
    using chosen unfolding build_entry_location_context_def Let_def price_def by (cases chosen) auto
qed

text \<open>The half of the range in which each side may trade.\<close>

definition cheap_half :: "string \<Rightarrow> rat \<Rightarrow> rat \<Rightarrow> rat \<Rightarrow> bool" where
  "cheap_half side price low high \<longleftrightarrow>
     (side = ''BUY'' \<longrightarrow> 2 * price \<le> low + high) \<and> (side = ''SELL'' \<longrightarrow> low + high \<le> 2 * price)"

lemma half_position:
  fixes low :: rat assumes "low < high"
  shows "(p - low) / (high - low) \<le> 1 / 2 \<longleftrightarrow> 2 * p \<le> low + high" "1 / 2 \<le> (p - low) / (high - low) \<longleftrightarrow> low + high \<le> 2 * p"
  using assms by (simp_all add: field_simps)

lemma reversal_block_default:
  "reversal_block None htf False side pos = None \<longleftrightarrow> (side = ''BUY'' \<longrightarrow> pos \<le> 1 / 2) \<and> (side = ''SELL'' \<longrightarrow> 1 / 2 \<le> pos)"
  by (auto simp: reversal_block_def float_cfg_def Let_def)

lemma location_returns:
  assumes "strict_pd_archetypes cfg = Inr archetypes"
  shows "\<exists>d. evaluate_entry_location strategy direction ctx cfg evidence = Inr d"
  unfolding evaluate_entry_location_def Let_def assms res_bind.simps
  by (cases "lc_range_available ctx"; cases "lc_effective_range_position_raw ctx") (simp_all del: insert_iff)

text \<open>In enforce mode, with a position, two things block: a range of M5 where a higher one is demanded, and the
  limits of the archetype.\<close>

definition htf_demanded :: "location_config \<Rightarrow> string list \<Rightarrow> string \<Rightarrow> bool" where
  "htf_demanded cfg archetypes archetype \<longleftrightarrow>
     technique_enforce (lf_technique cfg) \<and> strict_pd cfg \<and> archetype \<in> set archetypes"

lemma position_decides:
  assumes mode: "location_mode cfg = MODE_ENFORCE" and parsed: "strict_pd_archetypes cfg = Inr archetypes"
    and no_override: "\<not> (location_archetype strategy = ARCHETYPE_BREAKOUT_RETEST \<and> has_accepted_breakout_evidence evidence)"
    and pos: "lc_range_available ctx" "lc_effective_range_position_raw ctx = Some pos"
    and d: "evaluate_entry_location strategy direction ctx cfg evidence = Inr d"
  shows "ld_allowed d \<longleftrightarrow>
    \<not> (htf_demanded cfg archetypes (location_archetype strategy) \<and>
       location_archetype strategy \<in> {ARCHETYPE_REVERSAL, ARCHETYPE_RANGE_REVERSION, ARCHETYPE_UNKNOWN} \<and>
       lc_effective_range_source ctx \<notin> {Some ''M15'', Some ''H1''}) \<and>
    position_block (lf_section cfg) (location_archetype strategy) strategy
      (htf_demanded cfg archetypes (location_archetype strategy)) (str_upper direction) pos = None"
proof -
  have modes: "MODE_ENFORCE \<noteq> MODE_OFF" "MODE_ENFORCE \<noteq> MODE_SHADOW" by (simp_all add: mode_names)
  have available: "lc_range_available ctx = True" using pos(1) by simp
  show ?thesis
    using d unfolding evaluate_entry_location_def Let_def mode parsed res_bind.simps if_not_P [OF no_override] available pos(2)
      if_not_P [OF modes(1)] if_not_P [OF modes(2)] htf_demanded_def [symmetric] prod.case bool.case option.case
    by (cases "position_block (lf_section cfg) (location_archetype strategy) strategy
          (htf_demanded cfg archetypes (location_archetype strategy)) (str_upper direction) pos")
       (auto simp: location_decision_def split: if_split_asm simp del: insert_iff)
qed

text \<open>C13. Under the default limits a reversal entry that is no technique is allowed, in enforce mode, exactly when a
  range could be chosen and the price at which it would be filled lies in the half of that range its side may use: a BUY at
  or below the middle, a SELL at or above. Where the technique pack asks for a range of a higher time frame, a range of M5
  does not count.\<close>

theorem reversal_location_exact:
  assumes "location_mode cfg = MODE_ENFORCE" "location_archetype strategy = ARCHETYPE_REVERSAL"
    "\<not> is_technique_or_confluence strategy" "Option.bind (lf_section cfg) lo_reversal = None"
    "missing_context_policy cfg = ''block''" "strict_pd_archetypes cfg = Inr archetypes"
    "evaluate_entry_location strategy direction
       (build_entry_location_context p direction ask bid h1l h1h m15l m15h m5l m5h zl zh) cfg evidence = Inr d"
  shows "ld_allowed d \<longleftrightarrow>
    (case select_effective_range (quoted_price p direction ask bid) h1l h1h m15l m15h m5l m5h False of
       None \<Rightarrow> False
     | Some (source, low, high) \<Rightarrow>
         cheap_half (str_upper direction) (quoted_price p direction ask bid) low high \<and>
         (htf_demanded cfg archetypes ARCHETYPE_REVERSAL \<longrightarrow> source \<in> {''M15'', ''H1''}))"
proof (cases "select_effective_range (quoted_price p direction ask bid) h1l h1h m15l m15h m5l m5h False")
  case None
  have modes: "MODE_ENFORCE \<noteq> MODE_OFF" "MODE_ENFORCE \<noteq> MODE_SHADOW" "ARCHETYPE_REVERSAL \<noteq> ARCHETYPE_BREAKOUT_RETEST"
    by (simp_all add: mode_names archetype_names)
  show ?thesis
    using assms(7) built_context [OF None, of zl zh]
    unfolding evaluate_entry_location_def Let_def assms(1,2,5,6) res_bind.simps None option.case
    by (auto simp: location_decision_def modes)
next
  case (Some c)
  obtain source low high where c: "c = (source, low, high)" by (cases c)
  note ctx = built_context [OF Some [unfolded c], of zl zh, simplified]
  have none: "\<not> (location_archetype strategy = ARCHETYPE_BREAKOUT_RETEST \<and> has_accepted_breakout_evidence evidence)"
    by (simp add: assms(2) archetype_names)
  have blocked: "position_block (lf_section cfg) ARCHETYPE_REVERSAL strategy htf side pos = reversal_block None htf False side pos"
    for htf side pos by (simp add: position_block_def assms(3,4) archetype_names)
  show ?thesis
    using position_decides [OF assms(1,6) none _ _ assms(7)] ctx selected_valid [OF Some [unfolded c]]
    by (simp add: assms(2) blocked reversal_block_default Some c cheap_half_def half_position) auto
qed


text \<open>Shadow mode is not silent: the decision is allowed except when the technique pack asks for a range of a higher time
  frame, the archetype is a reversal, a range reversion or unknown, and the range that was chosen is the one of M5. In that
  case it is a hard block, as in enforce mode.\<close>

theorem shadow_location_exact:
  assumes "location_mode cfg = MODE_SHADOW" "strict_pd_archetypes cfg = Inr archetypes"
  shows "\<exists>d. evaluate_entry_location strategy direction ctx cfg evidence = Inr d \<and> ld_hard_block d = (\<not> ld_allowed d) \<and>
    (\<not> ld_allowed d \<longleftrightarrow>
      htf_demanded cfg archetypes (location_archetype strategy) \<and>
      location_archetype strategy \<in> {ARCHETYPE_REVERSAL, ARCHETYPE_RANGE_REVERSION, ARCHETYPE_UNKNOWN} \<and>
      lc_range_available ctx \<and> lc_effective_range_position_raw ctx \<noteq> None \<and>
      lc_effective_range_source ctx \<notin> {Some ''M15'', Some ''H1''})"
proof -
  have modes: "MODE_SHADOW \<noteq> MODE_OFF" by (simp add: mode_names)
  have retest: "ARCHETYPE_BREAKOUT_RETEST \<notin> {ARCHETYPE_REVERSAL, ARCHETYPE_RANGE_REVERSION, ARCHETYPE_UNKNOWN}"
    by (simp add: archetype_names)
  show ?thesis
  proof (cases "location_archetype strategy = ARCHETYPE_BREAKOUT_RETEST \<and> has_accepted_breakout_evidence evidence")
    case True
    then show ?thesis using retest
      unfolding evaluate_entry_location_def Let_def assms res_bind.simps if_not_P [OF modes] if_P [OF True]
      by (simp add: location_decision_def)
  next
    case False
    show ?thesis
      unfolding evaluate_entry_location_def Let_def assms res_bind.simps if_not_P [OF modes] if_not_P [OF False]
        htf_demanded_def [symmetric]
      by (cases "lc_range_available ctx"; cases "lc_effective_range_position_raw ctx")
         (simp_all add: location_decision_def del: insert_iff)
  qed
qed

definition demo_location :: location_config where
  "demo_location =
     \<lparr>lf_section = Some \<lparr>lo_mode = Some ''enforce'', lo_missing_context_policy = None, lo_range_reversion = None,
        lo_trend_pullback = None, lo_momentum = None, lo_reversal = None\<rparr>,
      lf_technique = \<lparr>kz_technique = Some \<lparr>tq_enforce = Some True, tq_require_sweep_body = None,
          tq_reaction_require_killzone = None, tq_reaction_require_publish_window = None, tq_include_late_ny = None,
          tq_london_window_hours = None, tq_ny_window_hours = None, tq_reaction_publish_windows = None\<rparr>,
        kz_key_level = None, kz_london_start = None, kz_ny_start = None, kz_asia_start = None,
        kz_daily_rollover_utc_hour = None\<rparr>,
      lf_strict_premium_discount = None, lf_strict_premium_discount_archetypes = None\<rparr>"

text \<open>A key level BUY in the cheap half of the M15 range.\<close>

theorem reversal_location_exact_witness:
  "\<exists>d. evaluate_entry_location ''Key Level Reaction'' ''buy''
     (build_entry_location_context 2001 ''buy'' (Some 2002) None (Some 1990) (Some 2100) (Some 2000) (Some 2010) None None None
        None) demo_location None = Inr d \<and> ld_allowed d"
proof -
  have facts: "location_mode demo_location = MODE_ENFORCE" "location_archetype ''Key Level Reaction'' = ARCHETYPE_REVERSAL"
    "\<not> is_technique_or_confluence ''Key Level Reaction''" "Option.bind (lf_section demo_location) lo_reversal = None"
    "missing_context_policy demo_location = ''block''"
    "strict_pd_archetypes demo_location = Inr [''range_reversion'', ''reversal'']"
    by code_simp+
  have chosen: "select_effective_range 2002 (Some 1990) (Some 2100) (Some 2000) (Some 2010) None None False = Some (''M15'', 2000, 2010)"
    "str_upper ''buy'' = ''BUY''" "quoted_price 2001 ''buy'' (Some 2002) None = 2002"
    by code_simp+
  obtain d where d: "evaluate_entry_location ''Key Level Reaction'' ''buy''
     (build_entry_location_context 2001 ''buy'' (Some 2002) None (Some 1990) (Some 2100) (Some 2000) (Some 2010) None None None
        None) demo_location None = Inr d"
    using location_returns [OF facts(6)] by blast
  show ?thesis
    using d reversal_location_exact [OF facts d] by (auto simp: chosen cheap_half_def)
qed

text \<open>The same in shadow mode with a range of M5 only.\<close>

theorem shadow_location_exact_witness:
  "\<exists>d. evaluate_entry_location ''Key Level Reaction'' ''buy''
     (build_entry_location_context 2001 ''buy'' None None None None None None (Some 2000) (Some 2010) None None)
     (demo_location\<lparr>lf_section := map_option (\<lambda>s. s\<lparr>lo_mode := Some ''shadow''\<rparr>) (lf_section demo_location)\<rparr>) None = Inr d \<and>
     \<not> ld_allowed d \<and> ld_hard_block d"
proof -
  let ?cfg = "demo_location\<lparr>lf_section := map_option (\<lambda>s. s\<lparr>lo_mode := Some ''shadow''\<rparr>) (lf_section demo_location)\<rparr>"
  let ?ctx = "build_entry_location_context 2001 ''buy'' None None None None None None (Some 2000) (Some 2010) None None"
  have facts: "location_mode ?cfg = MODE_SHADOW" "strict_pd_archetypes ?cfg = Inr [''range_reversion'', ''reversal'']"
    and blocked: "htf_demanded ?cfg [''range_reversion'', ''reversal''] (location_archetype ''Key Level Reaction'') \<and>
      location_archetype ''Key Level Reaction'' = ARCHETYPE_REVERSAL \<and> lc_range_available ?ctx \<and>
      lc_effective_range_position_raw ?ctx = Some (1 / 10) \<and> lc_effective_range_source ?ctx = Some ''M5''"
    by code_simp+
  show ?thesis
    using shadow_location_exact [OF facts, of "''Key Level Reaction''" "''buy''" ?ctx None] blocked by auto
qed

end
