(* ===== verification/EntryActivation.thy ===== *)
theory EntryActivation
  imports EntryLocation
begin

text \<open>
  Whether a watched zone may be entered now (\<open>app/autotrade/entry_activation.py\<close>): evidence for each archetype of strategy,
  the M1 trigger of a reaction with its fall-back to M5, and the blocks of the technique pack. The trigger itself is found in
  the analysis package; here it is a record. A bar is a dict; a price that is written as text is no number.
\<close>

section \<open>Configuration and inputs\<close>

definition SECONDS_PER_M1_BAR :: int where "SECONDS_PER_M1_BAR = 60"
definition SECONDS_PER_M5_BAR :: int where "SECONDS_PER_M5_BAR = 300"
definition M5_FALLBACK_OFF :: string where "M5_FALLBACK_OFF = ''off''"
definition M5_FALLBACK_QUOTE_INSIDE :: string where "M5_FALLBACK_QUOTE_INSIDE = ''quote_inside''"
definition M5_FALLBACK_QUOTE_INSIDE_FRESH :: string where "M5_FALLBACK_QUOTE_INSIDE_FRESH = ''quote_inside_fresh''"

lemmas fallback_names = M5_FALLBACK_OFF_def M5_FALLBACK_QUOTE_INSIDE_def M5_FALLBACK_QUOTE_INSIDE_FRESH_def

record activation_section =
  ac_mode :: "string option"
  ac_reaction_trigger_maximum_age_bars :: "json option"
  ac_m5_authoritative_fallback :: "string option"
  ac_m5_confirmation_maximum_age_bars :: "json option"

record activation_config =
  af_section :: "activation_section option"
  af_technique :: killzone_config

record m1_trigger =
  tr_pattern :: string
  tr_direction :: string
  tr_bar_ts :: json

type_synonym m1_bar = "(string \<times> json) list"

definition activation_mode :: "activation_config \<Rightarrow> string" where
  "activation_mode cfg = (case af_section cfg of None \<Rightarrow> MODE_OFF | Some s \<Rightarrow> mode_of (ac_mode s))"

text \<open>\<open>max(1, int(value or default))\<close>, and the default when that is no number.\<close>

definition bars_or_default :: "json option \<Rightarrow> int \<Rightarrow> int" where
  "bars_or_default v d =
     (case as_int (py_or (case v of None \<Rightarrow> JInt d | Some j \<Rightarrow> j) (JInt d)) of None \<Rightarrow> d | Some i \<Rightarrow> max 1 i)"

definition max_age_bars :: "activation_config \<Rightarrow> int" where
  "max_age_bars cfg = bars_or_default (Option.bind (af_section cfg) ac_reaction_trigger_maximum_age_bars) 2"

definition m5_fallback_mode :: "activation_config \<Rightarrow> string" where
  "m5_fallback_mode cfg =
     (case af_section cfg of None \<Rightarrow> M5_FALLBACK_OFF
      | Some s \<Rightarrow>
          (let mode = str_lower (str_strip (case ac_m5_authoritative_fallback s of None \<Rightarrow> M5_FALLBACK_OFF
                 | Some m \<Rightarrow> if m = [] then M5_FALLBACK_OFF else m))
           in if mode \<in> {M5_FALLBACK_OFF, M5_FALLBACK_QUOTE_INSIDE, M5_FALLBACK_QUOTE_INSIDE_FRESH} then mode
              else M5_FALLBACK_OFF))"

definition m5_max_age_bars :: "activation_config \<Rightarrow> int" where
  "m5_max_age_bars cfg = bars_or_default (Option.bind (af_section cfg) ac_m5_confirmation_maximum_age_bars) 6"

definition parse_confirmation_ts :: "json \<Rightarrow> int option" where
  "parse_confirmation_ts value = (if value = JNull then None else as_int value)"

definition trigger_ts :: "m1_trigger option \<Rightarrow> int option" where
  "trigger_ts trigger = (case trigger of None \<Rightarrow> None | Some t \<Rightarrow> as_int (tr_bar_ts t))"

section \<open>Bars\<close>

text \<open>\<open>float(bar.get(short, bar.get(long)))\<close>.\<close>

definition bar_value :: "string \<Rightarrow> string \<Rightarrow> m1_bar \<Rightarrow> rat option" where
  "bar_value short long bar =
     (case py_float (case map_of bar short of Some v \<Rightarrow> v | None \<Rightarrow> dict_get bar long) of Inr q \<Rightarrow> Some q | Inl e \<Rightarrow> None)"

definition bar_values :: "string \<Rightarrow> string \<Rightarrow> m1_bar list \<Rightarrow> rat list option" where
  "bar_values short long bars =
     (if list_all (\<lambda>b. bar_value short long b \<noteq> None) bars then Some (List.map_filter (bar_value short long) bars) else None)"

definition last_bars :: "int \<Rightarrow> m1_bar list \<Rightarrow> m1_bar list" where
  "last_bars lookback bars = drop (length bars - nat (max 3 lookback)) bars"

text \<open>How often a close is at least (at most) the one before.\<close>

fun up_closes :: "rat list \<Rightarrow> nat" where
  "up_closes (a # b # cs) = (if b \<ge> a then 1 else 0) + up_closes (b # cs)"
| "up_closes _ = 0"

fun down_closes :: "rat list \<Rightarrow> nat" where
  "down_closes (a # b # cs) = (if b \<le> a then 1 else 0) + down_closes (b # cs)"
| "down_closes _ = 0"

definition detect_impulse_against ::
  "string \<Rightarrow> m1_bar list option \<Rightarrow> rat option \<Rightarrow> rat option \<Rightarrow> int \<Rightarrow> bool" where
  "detect_impulse_against direction bars zone_low zone_high lookback =
     (case bars of None \<Rightarrow> False
      | Some bs \<Rightarrow>
          if length bs < 3 then False
          else (let chunk = last_bars lookback bs in
            case (bar_values ''c'' ''close'' chunk, bar_values ''h'' ''high'' chunk, bar_values ''l'' ''low'' chunk) of
              (Some closes, Some highs, Some lows) \<Rightarrow>
                if str_upper direction = ''SELL''
                then (last highs > hd highs \<and> last closes > hd closes) \<and> up_closes closes \<ge> 2 \<and>
                     (case zone_low of None \<Rightarrow> True | Some low \<Rightarrow> last closes \<ge> low)
                else if str_upper direction = ''BUY''
                then (last lows < hd lows \<and> last closes < hd closes) \<and> down_closes closes \<ge> 2 \<and>
                     (case zone_high of None \<Rightarrow> True | Some high \<Rightarrow> last closes \<le> high)
                else False
            | _ \<Rightarrow> False))"

definition detect_expanding_up :: "m1_bar list option \<Rightarrow> int \<Rightarrow> bool" where
  "detect_expanding_up bars lookback =
     (case bars of None \<Rightarrow> False
      | Some bs \<Rightarrow>
          if length bs < 3 then False
          else (let chunk = last_bars lookback bs in
            case (bar_values ''c'' ''close'' chunk, bar_values ''h'' ''high'' chunk) of
              (Some closes, Some highs) \<Rightarrow>
                (last highs > hd highs \<and> last closes > hd closes) \<and> up_closes closes \<ge> 2
            | _ \<Rightarrow> False))"

definition demand_swept_and_reclaimed :: "m1_bar list option \<Rightarrow> rat option \<Rightarrow> rat option \<Rightarrow> bool" where
  "demand_swept_and_reclaimed bars zone_low zone_high =
     (case (bars, zone_low, zone_high) of
        (Some bs, Some low, Some high) \<Rightarrow>
          if bs = [] then False
          else (case (bar_values ''l'' ''low'' bs, bar_value ''c'' ''close'' (last bs)) of
            (Some lows, Some close) \<Rightarrow>
              list_ex (\<lambda>v. v \<le> low + 5 / 100) lows \<and> low \<le> close \<and> close \<le> high + 15 / 100
          | _ \<Rightarrow> False)
      | _ \<Rightarrow> False)"

definition sell_quote_is_proximal :: "rat option \<Rightarrow> rat option \<Rightarrow> rat option \<Rightarrow> bool" where
  "sell_quote_is_proximal price zone_low zone_high =
     (case (price, zone_low, zone_high) of
        (Some p, Some low, Some high) \<Rightarrow>
          if high \<le> low then True else p \<le> low + (high - low) / 2 + 2 / 100
      | _ \<Rightarrow> True)"

section \<open>Decision\<close>

record activation_decision =
  ad_allowed :: bool
  ad_reason_code :: string
  ad_hard_block :: bool
  ad_requires_trigger :: bool
  ad_trigger_type :: "string option"
  ad_would_block :: bool
  ad_measured :: "(string \<times> json) list"

record activation_request =
  aq_strategy :: string
  aq_direction :: string
  aq_zone_entered_at :: "int option"
  aq_quote_inside :: bool
  aq_decisive_break :: bool
  aq_trigger :: "m1_trigger option"
  aq_location :: entry_location_decision
  aq_now :: int
  aq_breakout_evidence :: "(string \<times> json) list option"
  aq_continuation_evidence :: "(string \<times> json) list option"
  aq_chase_pips :: "rat option"
  aq_maximum_chase_pips :: "rat option"
  aq_m5_authoritative :: bool
  aq_m5_confirmation_bar_ts :: json
  aq_impulse_bars :: "m1_bar list option"
  aq_zone_low :: "rat option"
  aq_zone_high :: "rat option"
  aq_execution_price :: "rat option"

text \<open>A range scalp may be entered a little outside its zone.\<close>

definition chase_entry :: "activation_request \<Rightarrow> bool" where
  "chase_entry q =
     (case (aq_chase_pips q, aq_maximum_chase_pips q) of
        (Some chase, Some cap) \<Rightarrow> is_range_strategy (aq_strategy q) \<and> chase > 0 \<and> chase \<le> cap + 1 / 10 ^ 9
      | _ \<Rightarrow> False)"

definition activation_measured :: "activation_request \<Rightarrow> activation_config \<Rightarrow> (string \<times> json) list" where
  "activation_measured q cfg =
     [(''mode'', JStr (activation_mode cfg)), (''archetype'', JStr (activation_archetype (aq_strategy q))),
      (''strategy'', JStr (aq_strategy q)), (''direction'', JStr (str_upper (aq_direction q))),
      (''quote_inside'', JBool (aq_quote_inside q)), (''zone_entered_at'', j_opt_int (aq_zone_entered_at q)),
      (''trigger'', j_opt_str (map_option tr_pattern (aq_trigger q))),
      (''trigger_bar_ts'', j_opt_int (trigger_ts (aq_trigger q))),
      (''location_reason'', JStr (ld_reason_code (aq_location q))),
      (''location_allowed'', JBool (ld_allowed (aq_location q))), (''now'', JInt (aq_now q)),
      (''chase_pips'', j_opt_float (aq_chase_pips q)), (''maximum_chase_pips'', j_opt_float (aq_maximum_chase_pips q)),
      (''chase_entry'', JBool (chase_entry q)), (''m5_authoritative'', JBool (aq_m5_authoritative q)),
      (''m5_confirmation_bar_ts'', aq_m5_confirmation_bar_ts q),
      (''m5_authoritative_fallback'', JStr (m5_fallback_mode cfg)), (''impulse_against'', JBool False)]"

text \<open>\<open>_result\<close>. Its flag \<open>hard\<close> has no effect: \<open>hard or True\<close>.\<close>

definition activation_result ::
  "string \<Rightarrow> bool \<Rightarrow> m1_trigger option \<Rightarrow> (string \<times> json) list \<Rightarrow> string \<Rightarrow> bool \<Rightarrow> activation_decision" where
  "activation_result mode requires_trigger trigger measured reason would_block =
     (let measured = dict_set ''would_block'' (JBool would_block) (dict_set ''reason_code'' (JStr reason) measured);
          decide = (\<lambda>allowed code hard wb. \<lparr>ad_allowed = allowed, ad_reason_code = code, ad_hard_block = hard,
                      ad_requires_trigger = requires_trigger, ad_trigger_type = map_option tr_pattern trigger,
                      ad_would_block = wb, ad_measured = measured\<rparr>) in
      if mode = MODE_OFF then decide True ''entry_activation_off'' False False
      else if mode = MODE_SHADOW \<or> \<not> would_block
      then decide True (if would_block \<or> reason \<noteq> [] then reason else ''entry_activation_allowed'') False would_block
      else decide False reason True True)"

definition evidence_of :: "(string \<times> json) list option \<Rightarrow> string \<Rightarrow> bool" where
  "evidence_of evidence k = py_truthy (case evidence of None \<Rightarrow> JNull | Some e \<Rightarrow> dict_get e k)"

section \<open>Reactions\<close>

text \<open>The blocks of the technique pack, and whether the measured flag \<open>impulse_against\<close> is raised.\<close>

definition technique_block :: "activation_request \<Rightarrow> activation_config \<Rightarrow> (string \<times> bool) option" where
  "technique_block q cfg =
     (let side = str_upper (aq_direction q); name = aq_strategy q; enforced = technique_enforce (af_technique cfg) in
      if enforced \<and> side = ''BUY'' \<and> (is_zone_strategy name \<or> str_contains name ''Demand'') \<and> \<not> is_reaction_strategy name \<and>
         (case aq_trigger q of None \<Rightarrow> [] | Some t \<Rightarrow> tr_pattern t) \<notin> {''sweep_reclaim'', ''strong_reclaim''} \<and>
         \<not> demand_swept_and_reclaimed (aq_impulse_bars q) (aq_zone_low q) (aq_zone_high q)
      then Some (''demand_requires_sweep_reclaim'', False)
      else if enforced \<and> side = ''SELL'' \<and> (is_reaction_strategy name \<or> is_technique_or_confluence name) \<and>
         \<not> sell_quote_is_proximal (aq_execution_price q) (aq_zone_low q) (aq_zone_high q)
      then Some (''sell_not_proximal'', False)
      else if enforced \<and> side = ''BUY'' \<and> is_reaction_strategy name \<and> detect_expanding_up (aq_impulse_bars q) 5
      then Some (''key_buy_into_impulse'', True)
      else if enforced \<and>
         detect_impulse_against (aq_direction q) (aq_impulse_bars q) (aq_zone_low q) (aq_zone_high q) 5
      then Some (''impulse_against_block'', True)
      else None)"

text \<open>Why the M1 trigger does not count, and what the test of its pattern measured.\<close>

definition m1_failure :: "activation_request \<Rightarrow> activation_config \<Rightarrow> string option \<times> (string \<times> json) list" where
  "m1_failure q cfg =
     (case aq_trigger q of
        None \<Rightarrow> (Some ''reaction_trigger_missing'', [])
      | Some t \<Rightarrow>
          (case trigger_ts (Some t) of
             None \<Rightarrow> (Some ''reaction_trigger_missing'', [])
           | Some bar_ts \<Rightarrow>
               if (case aq_zone_entered_at q of None \<Rightarrow> False | Some entered \<Rightarrow> bar_ts \<le> entered)
               then (Some ''reaction_trigger_before_zone_touch'', [])
               else if aq_now q - bar_ts > max_age_bars cfg * SECONDS_PER_M1_BAR
               then (Some ''reaction_trigger_stale'', [])
               else if str_upper (tr_direction t) \<noteq> str_upper (aq_direction q)
               then (Some ''reaction_trigger_wrong_direction'', [])
               else (let required = technique_require_sweep_body (af_technique cfg);
                         confirmed = confirmation_is_sweep_body (Some (tr_pattern t));
                         tested = [(''sweep_body_required'', JBool required), (''sweep_body_confirmed'', JBool confirmed)] in
                 if required \<and> \<not> confirmed then (Some ''confirmation_requires_sweep_body'', tested)
                 else if \<not> confirmed
                 then (None, tested @ [(''sweep_body_soft_miss'', JBool True), (''preference_telemetry'', JBool True),
                         (''preference_reason_code'', JStr ''confirmation_without_sweep_body'')])
                 else (None, tested))))"

text \<open>Whether the M5 confirmation stands in, and what its age test measured.\<close>

definition m5_stand_in :: "activation_request \<Rightarrow> activation_config \<Rightarrow> bool \<times> (string \<times> json) list" where
  "m5_stand_in q cfg =
     (let fallback = m5_fallback_mode cfg in
      if fallback \<noteq> M5_FALLBACK_OFF \<and> aq_m5_authoritative q \<and> aq_quote_inside q
      then (if fallback = M5_FALLBACK_QUOTE_INSIDE_FRESH
            then (case parse_confirmation_ts (aq_m5_confirmation_bar_ts q) of
                    None \<Rightarrow> (False, [])
                  | Some ts \<Rightarrow>
                      (aq_now q - ts \<le> m5_max_age_bars cfg * SECONDS_PER_M5_BAR,
                       [(''m5_confirmation_age_seconds'', JInt (aq_now q - ts)),
                        (''m5_confirmation_max_age_bars'', JInt (m5_max_age_bars cfg))]))
            else (True, []))
      else (False, []))"

text \<open>The verdict of a reaction: reason, whether it blocks, and the measured values.\<close>

definition reaction_verdict ::
  "activation_request \<Rightarrow> activation_config \<Rightarrow> (string \<times> json) list \<Rightarrow> string \<times> bool \<times> (string \<times> json) list" where
  "reaction_verdict q cfg measured =
     (case technique_block q cfg of
        Some (reason, impulse) \<Rightarrow>
          (reason, True, if impulse then dict_set ''impulse_against'' (JBool True) measured else measured)
      | None \<Rightarrow>
          (case m1_failure q cfg of
             (None, tested) \<Rightarrow> (''entry_activation_allowed'', False, dict_update measured tested)
           | (Some reason, tested) \<Rightarrow>
               (let measured = dict_set ''m5_fallback_mode'' (JStr (m5_fallback_mode cfg)) (dict_update measured tested);
                    (stands_in, aged) = m5_stand_in q cfg; measured = dict_update measured aged in
                if stands_in
                then (''reaction_m5_authoritative_in_zone'', False, dict_set ''m1_fallback_reason'' (JStr reason) measured)
                else (reason, True, measured))))"

section \<open>The gate\<close>

definition momentum_verdict :: "activation_request \<Rightarrow> string \<Rightarrow> string \<times> bool" where
  "momentum_verdict q mode =
     (if (case aq_trigger q of None \<Rightarrow> False | Some t \<Rightarrow> tr_pattern t \<in> {''wick_rejection'', ''hammer'', ''pin_bar''})
      then (''momentum_cannot_reuse_reversal_trigger'', True)
      else if mode = MODE_ENFORCE \<and> aq_continuation_evidence q \<noteq> None \<and>
              \<not> evidence_of (aq_continuation_evidence q) ''continuation''
      then (''momentum_continuation_evidence_missing'', True)
      else (''entry_activation_allowed'', False))"

definition pullback_verdict :: "activation_request \<Rightarrow> string \<Rightarrow> string \<times> bool" where
  "pullback_verdict q mode =
     (if \<not> evidence_of (aq_continuation_evidence q) ''pullback_continuation'' \<and> mode = MODE_ENFORCE \<and>
         aq_continuation_evidence q \<noteq> None
      then (''trend_pullback_evidence_missing'', True) else (''entry_activation_allowed'', False))"

definition retest_verdict :: "activation_request \<Rightarrow> string \<times> bool" where
  "retest_verdict q =
     (if evidence_of (aq_breakout_evidence q) ''accepted_break'' \<and>
         evidence_of (aq_breakout_evidence q) ''retest_of_broken_level'' \<and>
         evidence_of (aq_breakout_evidence q) ''directionally_valid_close''
      then (''entry_activation_allowed'', False) else (''breakout_retest_evidence_missing'', True))"

definition activation_verdict ::
  "activation_request \<Rightarrow> activation_config \<Rightarrow> (string \<times> json) list \<Rightarrow> string \<times> bool \<times> (string \<times> json) list" where
  "activation_verdict q cfg measured =
     (let mode = activation_mode cfg; archetype = activation_archetype (aq_strategy q);
          plain = (\<lambda>(reason, would_block). (reason, would_block, measured)) in
      if aq_decisive_break q then plain (''zone_decisively_broken'', True)
      else if \<not> ld_allowed (aq_location q)
      then plain (if ld_reason_code (aq_location q) = [] then ''entry_location_blocked'' else ld_reason_code (aq_location q), True)
      else if \<not> aq_quote_inside q \<and> \<not> chase_entry q then plain (''quote_outside_zone'', True)
      else if archetype = ACTIVATION_BREAKOUT_RETEST then plain (retest_verdict q)
      else if archetype = ACTIVATION_TREND_PULLBACK then plain (pullback_verdict q mode)
      else if archetype = ACTIVATION_MOMENTUM then plain (momentum_verdict q mode)
      else if archetype = ACTIVATION_REACTION then reaction_verdict q cfg measured
      else plain (''entry_activation_allowed'', False))"

definition evaluate_entry_activation :: "activation_request \<Rightarrow> activation_config \<Rightarrow> activation_decision" where
  "evaluate_entry_activation q cfg =
     (let (reason, would_block, measured) = activation_verdict q cfg (activation_measured q cfg) in
      activation_result (activation_mode cfg) (activation_archetype (aq_strategy q) = ACTIVATION_REACTION) (aq_trigger q)
        measured reason would_block)"

definition ACTIVATION_BLOCK_REASON_CODES :: "string list" where
  "ACTIVATION_BLOCK_REASON_CODES =
     [''zone_decisively_broken'', ''entry_location_context_missing'', ''entry_location_htf_range_missing'', ''buy_in_premium'',
      ''sell_in_discount'', ''buy_at_range_extreme'', ''sell_at_range_extreme'', ''range_entry_near_equilibrium'',
      ''range_buy_not_at_discount_edge'', ''range_sell_not_at_premium_edge'', ''quote_outside_zone'',
      ''reaction_trigger_missing'', ''reaction_trigger_before_zone_touch'', ''reaction_trigger_stale'',
      ''reaction_trigger_wrong_direction'', ''confirmation_requires_sweep_body'', ''demand_requires_sweep_reclaim'',
      ''sell_not_proximal'', ''key_buy_into_impulse'', ''impulse_against_block'', ''breakout_retest_evidence_missing'',
      ''trend_pullback_evidence_missing'', ''momentum_continuation_evidence_missing'',
      ''momentum_cannot_reuse_reversal_trigger'']"

section \<open>Metrics and the stamped match\<close>

text \<open>The decision of either gate: its reason, whether it blocks hard, and what it measured. A failure is logged only.\<close>

definition emit_activation_gate_metrics ::
  "string \<Rightarrow> string option \<Rightarrow> string option \<Rightarrow> string \<Rightarrow> bool \<Rightarrow> (string \<times> json) list \<Rightarrow> bool \<Rightarrow> unit prog" where
  "emit_activation_gate_metrics symbol strategy direction reason_code hard_block measured allowed =
     (let reason = (if reason_code = [] then ''unknown'' else reason_code);
          m1_fail = dict_get measured ''m1_fallback_reason'';
          dims = [(''strategy'', case strategy of None \<Rightarrow> [] | Some s \<Rightarrow> s),
                  (''direction'', str_upper (case direction of None \<Rightarrow> [] | Some d \<Rightarrow> d))];
          dims = (if reason = ''reaction_m5_authoritative_in_zone'' \<and> py_truthy m1_fail
                  then dims @ [(''m1_fail_reason'', case py_str m1_fail of Inr s \<Rightarrow> s | Inl e \<Rightarrow> [])] else dims) in
      pcatch
        (if allowed
         then pbind (increment_metric ''activation_allowed'' symbol dims) (\<lambda>_.
              increment_metric (''activation_allowed:'' @ reason) symbol dims)
         else if \<not> hard_block then Done ()
         else pbind (increment_metric ''activation_blocked'' symbol dims) (\<lambda>_.
              increment_metric (''activation_blocked:'' @ reason) symbol dims))
        (\<lambda>_. Done ()))"

text \<open>The fields of a match that the trigger fills.\<close>

record match_stamp =
  ms_confirmation_bar_ts :: "string option"
  ms_reaction_type :: "string option"
  ms_entry_activation_trigger :: "string option"
  ms_entry_activation_trigger_ts :: "string option"
  ms_touch_bar_ts :: "string option"

definition apply_trigger_to_match :: "match_stamp \<Rightarrow> m1_trigger option \<Rightarrow> match_stamp res" where
  "apply_trigger_to_match m trigger =
     (case trigger of
        None \<Rightarrow> Inr m
      | Some t \<Rightarrow>
          res_bind (py_int (tr_bar_ts t)) (\<lambda>ts.
          let stamp = Some (str_int ts);
              m' = m\<lparr>ms_confirmation_bar_ts := stamp, ms_reaction_type := Some (tr_pattern t),
                     ms_entry_activation_trigger := Some (tr_pattern t), ms_entry_activation_trigger_ts := stamp\<rparr> in
          Inr (if ms_touch_bar_ts m \<in> {None, Some []} then m'\<lparr>ms_touch_bar_ts := stamp\<rparr> else m')))"

section \<open>What the gate lets through\<close>

lemma result_cases:
  "ad_allowed (activation_result mode req t m reason wb) \<longleftrightarrow> mode = MODE_OFF \<or> mode = MODE_SHADOW \<or> \<not> wb"
  "ad_hard_block (activation_result mode req t m reason wb) \<longleftrightarrow> \<not> (mode = MODE_OFF \<or> mode = MODE_SHADOW \<or> \<not> wb)"
  "ad_would_block (activation_result mode req t m reason wb) \<longleftrightarrow> mode \<noteq> MODE_OFF \<and> wb"
  "\<not> (mode = MODE_OFF \<or> mode = MODE_SHADOW \<or> \<not> wb) \<Longrightarrow> ad_reason_code (activation_result mode req t m reason wb) = reason"
  by (auto simp: activation_result_def Let_def)

text \<open>The reason and the block of a verdict do not depend on what is measured.\<close>

definition verdict :: "activation_request \<Rightarrow> activation_config \<Rightarrow> string \<times> bool" where
  "verdict q cfg = (let (reason, would_block, m) = activation_verdict q cfg (activation_measured q cfg) in (reason, would_block))"

lemma evaluate_by_verdict:
  "ad_allowed (evaluate_entry_activation q cfg) \<longleftrightarrow>
     activation_mode cfg \<in> {MODE_OFF, MODE_SHADOW} \<or> \<not> snd (verdict q cfg)"
  "ad_hard_block (evaluate_entry_activation q cfg) \<longleftrightarrow>
     \<not> (activation_mode cfg \<in> {MODE_OFF, MODE_SHADOW} \<or> \<not> snd (verdict q cfg))"
  "ad_would_block (evaluate_entry_activation q cfg) \<longleftrightarrow> activation_mode cfg \<noteq> MODE_OFF \<and> snd (verdict q cfg)"
  "\<not> ad_allowed (evaluate_entry_activation q cfg) \<Longrightarrow> ad_reason_code (evaluate_entry_activation q cfg) = fst (verdict q cfg)"
  unfolding evaluate_entry_activation_def verdict_def Let_def
  by (cases "activation_verdict q cfg (activation_measured q cfg)"; auto simp: result_cases)+

definition entry_open :: "activation_request \<Rightarrow> bool" where
  "entry_open q \<longleftrightarrow> \<not> aq_decisive_break q \<and> ld_allowed (aq_location q) \<and> (aq_quote_inside q \<or> chase_entry q)"

lemma archetype_distinct:
  "ACTIVATION_REACTION \<noteq> ACTIVATION_BREAKOUT_RETEST" "ACTIVATION_REACTION \<noteq> ACTIVATION_TREND_PULLBACK"
  "ACTIVATION_REACTION \<noteq> ACTIVATION_MOMENTUM" "ACTIVATION_BREAKOUT_RETEST \<noteq> ACTIVATION_TREND_PULLBACK"
  "ACTIVATION_BREAKOUT_RETEST \<noteq> ACTIVATION_MOMENTUM" "ACTIVATION_TREND_PULLBACK \<noteq> ACTIVATION_MOMENTUM"
  by (simp_all add: ACTIVATION_REACTION_def ACTIVATION_BREAKOUT_RETEST_def ACTIVATION_TREND_PULLBACK_def ACTIVATION_MOMENTUM_def)

text \<open>The evidence a reaction needs: a trigger on M1 after the touch, or a confirmation on M5 in its place.\<close>

definition m1_evidence :: "activation_request \<Rightarrow> activation_config \<Rightarrow> bool" where
  "m1_evidence q cfg \<longleftrightarrow> fst (m1_failure q cfg) = None"

lemma reaction_verdict_block:
  "fst (snd (reaction_verdict q cfg m)) \<longleftrightarrow>
     technique_block q cfg \<noteq> None \<or> fst (m1_failure q cfg) \<noteq> None \<and> \<not> fst (m5_stand_in q cfg)"
  unfolding reaction_verdict_def Let_def by (auto split: option.split prod.split)

lemma m1_passes:
  "fst (m1_failure q cfg) = None \<longleftrightarrow>
    (\<exists>t ts. aq_trigger q = Some t \<and> as_int (tr_bar_ts t) = Some ts \<and>
       (case aq_zone_entered_at q of None \<Rightarrow> True | Some entered \<Rightarrow> entered < ts) \<and>
       aq_now q \<le> ts + 60 * max_age_bars cfg \<and> str_upper (tr_direction t) = str_upper (aq_direction q) \<and>
       (technique_require_sweep_body (af_technique cfg) \<longrightarrow> confirmation_is_sweep_body (Some (tr_pattern t))))"
proof (cases "aq_trigger q")
  case (Some t)
  show ?thesis
  proof (cases "as_int (tr_bar_ts t)")
    case ts: (Some ts)
    show ?thesis
      unfolding m1_failure_def Let_def trigger_ts_def \<open>aq_trigger q = Some t\<close> option.case ts SECONDS_PER_M1_BAR_def
      by (cases "aq_zone_entered_at q") (auto simp: not_less ts)
  qed (simp add: m1_failure_def trigger_ts_def \<open>aq_trigger q = Some t\<close>)
qed (simp add: m1_failure_def)

lemma m5_passes:
  "fst (m5_stand_in q cfg) \<longleftrightarrow>
     aq_m5_authoritative q \<and> aq_quote_inside q \<and> m5_fallback_mode cfg \<noteq> M5_FALLBACK_OFF \<and>
     (m5_fallback_mode cfg = M5_FALLBACK_QUOTE_INSIDE_FRESH \<longrightarrow>
       (\<exists>ts. parse_confirmation_ts (aq_m5_confirmation_bar_ts q) = Some ts \<and> aq_now q \<le> ts + 300 * m5_max_age_bars cfg))"
  unfolding m5_stand_in_def Let_def SECONDS_PER_M5_BAR_def
  by (cases "parse_confirmation_ts (aq_m5_confirmation_bar_ts q)") auto

lemma open_verdict:
  assumes "activation_archetype (aq_strategy q) = ACTIVATION_REACTION"
  shows "snd (verdict q cfg) \<longleftrightarrow> \<not> (entry_open q \<and> \<not> fst (snd (reaction_verdict q cfg (activation_measured q cfg))))"
  unfolding verdict_def activation_verdict_def Let_def assms entry_open_def
  by (auto simp: archetype_distinct split: prod.split)

text \<open>C11. A reaction is let through in enforce mode exactly when the zone is not broken, the location is allowed, the quote is in
  the zone (or a range scalp is chased within its cap), no rule of the technique pack speaks against it, and there is
  evidence: an M1 trigger in its direction whose bar is stamped after the moment the zone was entered (not checked where
  that moment is unknown) and is not too old, with a sweep body where one is demanded, or an M5 confirmation with the quote inside where the fall-back is on, fresh where it has to be. A trigger dated
  in the future is never too old.\<close>

theorem reaction_activation_exact:
  assumes "activation_archetype (aq_strategy q) = ACTIVATION_REACTION" "activation_mode cfg = MODE_ENFORCE"
  shows "ad_allowed (evaluate_entry_activation q cfg) \<longleftrightarrow>
    \<not> aq_decisive_break q \<and> ld_allowed (aq_location q) \<and> (aq_quote_inside q \<or> chase_entry q) \<and> technique_block q cfg = None \<and>
    ((\<exists>t ts. aq_trigger q = Some t \<and> as_int (tr_bar_ts t) = Some ts \<and>
       (case aq_zone_entered_at q of None \<Rightarrow> True | Some entered \<Rightarrow> entered < ts) \<and>
       aq_now q \<le> ts + 60 * max_age_bars cfg \<and> str_upper (tr_direction t) = str_upper (aq_direction q) \<and>
       (technique_require_sweep_body (af_technique cfg) \<longrightarrow> confirmation_is_sweep_body (Some (tr_pattern t)))) \<or>
     aq_m5_authoritative q \<and> aq_quote_inside q \<and> m5_fallback_mode cfg \<noteq> M5_FALLBACK_OFF \<and>
     (m5_fallback_mode cfg = M5_FALLBACK_QUOTE_INSIDE_FRESH \<longrightarrow>
       (\<exists>ts. parse_confirmation_ts (aq_m5_confirmation_bar_ts q) = Some ts \<and> aq_now q \<le> ts + 300 * m5_max_age_bars cfg)))"
proof -
  have "activation_mode cfg \<notin> {MODE_OFF, MODE_SHADOW}" using assms(2) by (simp add: mode_names)
  then show ?thesis
    unfolding evaluate_by_verdict open_verdict [OF assms(1)] reaction_verdict_block m1_passes [symmetric] m5_passes [symmetric]
      entry_open_def by (cases "technique_block q cfg") (auto simp del: insert_iff)
qed

text \<open>The two configurations differ in the mode only.\<close>

definition with_mode :: "string \<Rightarrow> activation_config \<Rightarrow> activation_config" where
  "with_mode m cfg = cfg\<lparr>af_section := map_option (\<lambda>s. s\<lparr>ac_mode := Some m\<rparr>) (af_section cfg)\<rparr>"

lemma with_mode_mode:
  assumes "af_section cfg = Some s"
  shows "activation_mode (with_mode MODE_SHADOW cfg) = MODE_SHADOW" "activation_mode (with_mode MODE_ENFORCE cfg) = MODE_ENFORCE"
    "activation_mode (with_mode MODE_OFF cfg) = MODE_OFF"
proof -
  have "mode_of (Some MODE_SHADOW) = MODE_SHADOW" "mode_of (Some MODE_ENFORCE) = MODE_ENFORCE" "mode_of (Some MODE_OFF) = MODE_OFF"
    by code_simp+
  then show "activation_mode (with_mode MODE_SHADOW cfg) = MODE_SHADOW" "activation_mode (with_mode MODE_ENFORCE cfg) = MODE_ENFORCE"
    "activation_mode (with_mode MODE_OFF cfg) = MODE_OFF"
    by (simp_all add: activation_mode_def with_mode_def assms)
qed

lemma with_mode_rest:
  "max_age_bars (with_mode m cfg) = max_age_bars cfg" "m5_fallback_mode (with_mode m cfg) = m5_fallback_mode cfg"
  "m5_max_age_bars (with_mode m cfg) = m5_max_age_bars cfg" "af_technique (with_mode m cfg) = af_technique cfg"
  by (cases "af_section cfg"; simp add: max_age_bars_def m5_fallback_mode_def m5_max_age_bars_def with_mode_def)+

lemma with_mode_reaction:
  "fst (snd (reaction_verdict q (with_mode m cfg) x)) = fst (snd (reaction_verdict q cfg y))"
  unfolding reaction_verdict_block m1_passes m5_passes technique_block_def Let_def with_mode_rest ..

lemma mode_independent:
  assumes "activation_archetype (aq_strategy q) \<notin> {ACTIVATION_TREND_PULLBACK, ACTIVATION_MOMENTUM}"
  shows "snd (verdict q (with_mode m cfg)) = snd (verdict q cfg)"
proof (cases "activation_archetype (aq_strategy q) = ACTIVATION_REACTION")
  case True
  show ?thesis unfolding open_verdict [OF True] with_mode_reaction [of q m cfg _ "activation_measured q cfg"] ..
next
  case False
  then show ?thesis
    using assms unfolding verdict_def activation_verdict_def Let_def by (simp split: prod.split)
qed


text \<open>The mode decides what happens to a verdict and, but for pullbacks and momentum, not what the verdict is: in shadow
  mode every entry is allowed and would_block says what enforce mode blocks; with the mode off every entry is allowed and
  nothing is reported.\<close>

theorem activation_modes:
  assumes "activation_archetype (aq_strategy q) \<notin> {ACTIVATION_TREND_PULLBACK, ACTIVATION_MOMENTUM}" "af_section cfg \<noteq> None"
  shows "ad_allowed (evaluate_entry_activation q (with_mode MODE_SHADOW cfg)) \<and>
    ad_would_block (evaluate_entry_activation q (with_mode MODE_SHADOW cfg)) =
      (\<not> ad_allowed (evaluate_entry_activation q (with_mode MODE_ENFORCE cfg))) \<and>
    ad_allowed (evaluate_entry_activation q (with_mode MODE_OFF cfg)) \<and>
    \<not> ad_would_block (evaluate_entry_activation q (with_mode MODE_OFF cfg))"
proof -
  obtain s where s: "af_section cfg = Some s" using assms(2) by auto
  have modes: "MODE_SHADOW \<noteq> MODE_OFF" "MODE_ENFORCE \<noteq> MODE_OFF" "MODE_ENFORCE \<noteq> MODE_SHADOW" by (simp_all add: mode_names)
  show ?thesis unfolding evaluate_by_verdict mode_independent [OF assms(1)] with_mode_mode [OF s] by (simp add: modes)
qed

lemma block_reasons:
  "technique_block q cfg = Some (r, i) \<Longrightarrow> r \<in> set ACTIVATION_BLOCK_REASON_CODES"
  "fst (m1_failure q cfg) = Some r \<Longrightarrow> r \<in> set ACTIVATION_BLOCK_REASON_CODES"
  "retest_verdict q = (r, True) \<Longrightarrow> r \<in> set ACTIVATION_BLOCK_REASON_CODES"
  "pullback_verdict q mode = (r, True) \<Longrightarrow> r \<in> set ACTIVATION_BLOCK_REASON_CODES"
  "momentum_verdict q mode = (r, True) \<Longrightarrow> r \<in> set ACTIVATION_BLOCK_REASON_CODES"
proof -
  show "technique_block q cfg = Some (r, i) \<Longrightarrow> r \<in> set ACTIVATION_BLOCK_REASON_CODES"
    unfolding technique_block_def Let_def ACTIVATION_BLOCK_REASON_CODES_def by (auto split: if_split_asm)
  show "fst (m1_failure q cfg) = Some r \<Longrightarrow> r \<in> set ACTIVATION_BLOCK_REASON_CODES"
    unfolding m1_failure_def Let_def ACTIVATION_BLOCK_REASON_CODES_def
    by (auto split: if_split_asm option.split_asm)
  show "retest_verdict q = (r, True) \<Longrightarrow> r \<in> set ACTIVATION_BLOCK_REASON_CODES"
    unfolding retest_verdict_def ACTIVATION_BLOCK_REASON_CODES_def by (auto split: if_split_asm)
  show "pullback_verdict q mode = (r, True) \<Longrightarrow> r \<in> set ACTIVATION_BLOCK_REASON_CODES"
    unfolding pullback_verdict_def ACTIVATION_BLOCK_REASON_CODES_def by (auto split: if_split_asm)
  show "momentum_verdict q mode = (r, True) \<Longrightarrow> r \<in> set ACTIVATION_BLOCK_REASON_CODES"
    unfolding momentum_verdict_def ACTIVATION_BLOCK_REASON_CODES_def by (auto split: if_split_asm)
qed

lemma reaction_reason:
  assumes "reaction_verdict q cfg m = (r, True, m')"
  shows "r \<in> set ACTIVATION_BLOCK_REASON_CODES"
  using assms unfolding reaction_verdict_def Let_def
  by (auto split: option.split_asm prod.split_asm if_split_asm intro: block_reasons(1,2) simp: block_reasons(2) [of q cfg])


lemma activation_mode_range: "activation_mode cfg \<in> {MODE_OFF, MODE_SHADOW, MODE_ENFORCE}"
  by (cases "af_section cfg") (auto simp: activation_mode_def mode_of_def Let_def)

definition location_reason :: "activation_request \<Rightarrow> string" where
  "location_reason q =
     (if ld_reason_code (aq_location q) = [] then ''entry_location_blocked'' else ld_reason_code (aq_location q))"

lemma verdict_reason:
  assumes "snd (verdict q cfg)"
  shows "fst (verdict q cfg) \<in> set ACTIVATION_BLOCK_REASON_CODES \<or>
    \<not> ld_allowed (aq_location q) \<and> fst (verdict q cfg) = location_reason q"
proof -
  have early: "''zone_decisively_broken'' \<in> set ACTIVATION_BLOCK_REASON_CODES" "''quote_outside_zone'' \<in> set ACTIVATION_BLOCK_REASON_CODES"
    by (simp_all add: ACTIVATION_BLOCK_REASON_CODES_def)
  obtain r m where r: "activation_verdict q cfg (activation_measured q cfg) = (r, True, m)" and fst: "fst (verdict q cfg) = r"
    using assms unfolding verdict_def Let_def
    by (cases "activation_verdict q cfg (activation_measured q cfg)") auto
  then show ?thesis
    using early block_reasons(3-5) reaction_reason unfolding activation_verdict_def Let_def location_reason_def fst
    by (auto split: if_split_asm prod.split_asm)
qed

text \<open>C12. Every decision is well formed: it blocks hard exactly when it does not allow, it asks for a trigger exactly for
  reactions, and a decision that does not allow is taken in enforce mode, says that it would block, and has a reason that is
  in the published list of codes or is the reason of the location gate that refused the entry.\<close>

theorem activation_decision_sound:
  "ad_hard_block (evaluate_entry_activation q cfg) = (\<not> ad_allowed (evaluate_entry_activation q cfg)) \<and>
   ad_requires_trigger (evaluate_entry_activation q cfg) = (activation_archetype (aq_strategy q) = ACTIVATION_REACTION) \<and>
   (\<not> ad_allowed (evaluate_entry_activation q cfg) \<longrightarrow>
      activation_mode cfg = MODE_ENFORCE \<and> ad_would_block (evaluate_entry_activation q cfg) \<and>
      (ad_reason_code (evaluate_entry_activation q cfg) \<in> set ACTIVATION_BLOCK_REASON_CODES \<or>
       \<not> ld_allowed (aq_location q) \<and> ad_reason_code (evaluate_entry_activation q cfg) = location_reason q))"
proof (intro conjI impI)
  show "ad_hard_block (evaluate_entry_activation q cfg) = (\<not> ad_allowed (evaluate_entry_activation q cfg))"
    unfolding evaluate_by_verdict ..
  show "ad_requires_trigger (evaluate_entry_activation q cfg) = (activation_archetype (aq_strategy q) = ACTIVATION_REACTION)"
    unfolding evaluate_entry_activation_def activation_result_def Let_def by (simp split: prod.split)
  assume blocked: "\<not> ad_allowed (evaluate_entry_activation q cfg)"
  then have v: "activation_mode cfg \<noteq> MODE_OFF" "activation_mode cfg \<noteq> MODE_SHADOW" "snd (verdict q cfg)"
    unfolding evaluate_by_verdict by auto
  show "activation_mode cfg = MODE_ENFORCE" using v activation_mode_range by blast
  show "ad_would_block (evaluate_entry_activation q cfg)" using v unfolding evaluate_by_verdict by simp
  show "ad_reason_code (evaluate_entry_activation q cfg) \<in> set ACTIVATION_BLOCK_REASON_CODES \<or>
     \<not> ld_allowed (aq_location q) \<and> ad_reason_code (evaluate_entry_activation q cfg) = location_reason q"
    using verdict_reason [OF v(3)] unfolding evaluate_by_verdict(4) [OF blocked] .
qed

definition demo_activation :: activation_config where
  "demo_activation =
     \<lparr>af_section = Some \<lparr>ac_mode = Some ''Enforce'', ac_reaction_trigger_maximum_age_bars = Some (JInt 2),
        ac_m5_authoritative_fallback = None, ac_m5_confirmation_maximum_age_bars = None\<rparr>,
      af_technique = lf_technique demo_location\<rparr>"

definition demo_request :: activation_request where
  "demo_request =
     \<lparr>aq_strategy = ''Key Level Reaction'', aq_direction = ''buy'', aq_zone_entered_at = Some 1000, aq_quote_inside = True,
      aq_decisive_break = False,
      aq_trigger = Some \<lparr>tr_pattern = ''engulfing'', tr_direction = ''BUY'', tr_bar_ts = JInt 1060\<rparr>,
      aq_location = \<lparr>ld_allowed = True, ld_reason_code = ''entry_location_allowed'', ld_hard_block = False,
        ld_archetype = ''reversal'', ld_would_block = False, ld_measured = []\<rparr>,
      aq_now = 1120, aq_breakout_evidence = None, aq_continuation_evidence = None, aq_chase_pips = None,
      aq_maximum_chase_pips = None, aq_m5_authoritative = False, aq_m5_confirmation_bar_ts = JNull, aq_impulse_bars = None,
      aq_zone_low = None, aq_zone_high = None, aq_execution_price = None\<rparr>"

lemma demo_reaction:
  "activation_archetype (aq_strategy demo_request) = ACTIVATION_REACTION" "activation_mode demo_activation = MODE_ENFORCE"
  by code_simp+

theorem reaction_activation_exact_witness: "ad_allowed (evaluate_entry_activation demo_request demo_activation)"
proof -
  have tech: "technique_block demo_request demo_activation = None" "max_age_bars demo_activation = 2"
    "confirmation_is_sweep_body (Some ''engulfing'')" "str_upper ''buy'' = str_upper ''BUY''"
    by code_simp+
  show ?thesis
    unfolding reaction_activation_exact [OF demo_reaction] tech
    by (intro conjI disjI1 exI [of _ "\<lparr>tr_pattern = ''engulfing'', tr_direction = ''BUY'', tr_bar_ts = JInt 1060\<rparr>"]
          exI [of _ 1060])
       (simp_all add: demo_request_def as_int_def tech)
qed

theorem activation_modes_witness:
  "ad_would_block (evaluate_entry_activation demo_request (with_mode MODE_SHADOW demo_activation)) =
     (\<not> ad_allowed (evaluate_entry_activation demo_request (with_mode MODE_ENFORCE demo_activation)))"
proof -
  have "activation_archetype (aq_strategy demo_request) \<notin> {ACTIVATION_TREND_PULLBACK, ACTIVATION_MOMENTUM}"
    unfolding demo_reaction using archetype_distinct by simp
  from activation_modes [OF this, of demo_activation] show ?thesis by (simp add: demo_activation_def)
qed

theorem activation_decision_sound_witness:
  "ad_hard_block (evaluate_entry_activation (demo_request\<lparr>aq_now := 1181\<rparr>) demo_activation) \<and>
   ad_reason_code (evaluate_entry_activation (demo_request\<lparr>aq_now := 1181\<rparr>) demo_activation) \<in> set ACTIVATION_BLOCK_REASON_CODES"
proof -
  have blocked: "\<not> ad_allowed (evaluate_entry_activation (demo_request\<lparr>aq_now := 1181\<rparr>) demo_activation)" by code_simp
  have "ld_allowed (aq_location (demo_request\<lparr>aq_now := 1181\<rparr>))" by (simp add: demo_request_def)
  then show ?thesis
    using activation_decision_sound [of "demo_request\<lparr>aq_now := 1181\<rparr>" demo_activation] blocked by auto
qed

end
