(* ===== verification/ExecutionConfirmation.thy ===== *)
theory ExecutionConfirmation
  imports RedisRuns StrategyNames
begin

text \<open>
  The execution handoff of a confirmed setup (\<open>app/autotrade/execution_confirmation.py\<close>): the
  persisted confirmation state, the policy chosen for a match, and the quote-in-zone and chase
  evidence. A number argument of type \<open>Any\<close> is an optional rational: \<open>None\<close> stands for every
  value \<open>_finite_float\<close> rejects (missing, not a number, infinite). The text of a timestamp is
  read by the standard library (\<open>float\<close>, \<open>datetime.fromisoformat\<close>); that reading is the
  parameter \<open>iso_ts\<close>. The policy reads the attributes of a match collected in \<open>conf_match\<close>, with a
  missing string attribute as the empty string.
\<close>

section \<open>Phases\<close>

definition IMMEDIATE_CONFIRMATION :: string where "IMMEDIATE_CONFIRMATION = ''immediate_confirmation''"
definition WAITING_RETEST :: string where "WAITING_RETEST = ''waiting_retest''"
definition IN_ZONE_WAITING_M1 :: string where "IN_ZONE_WAITING_M1 = ''in_zone_waiting_m1''"
definition TRIGGER_READY :: string where "TRIGGER_READY = ''trigger_ready''"
definition TRIGGER_PRICE_LEFT_ZONE :: string where "TRIGGER_PRICE_LEFT_ZONE = ''trigger_price_left_zone''"
definition PUBLISHED_ec :: string where "PUBLISHED_ec = ''published''"
definition EXPIRED_ec :: string where "EXPIRED_ec = ''expired''"
definition INVALIDATED_ec :: string where "INVALIDATED_ec = ''invalidated''"

definition EXECUTION_CONFIRMATION_PHASES :: "string list" where
  "EXECUTION_CONFIRMATION_PHASES =
     [IMMEDIATE_CONFIRMATION, WAITING_RETEST, IN_ZONE_WAITING_M1, TRIGGER_READY,
      TRIGGER_PRICE_LEFT_ZONE, PUBLISHED_ec, EXPIRED_ec, INVALIDATED_ec]"

definition REACTION_STRATEGIES_ec :: "string list" where
  "REACTION_STRATEGIES_ec =
     [''Key Level Reaction'', ''Session Level Reaction'', ''Trendline Reaction'',
      ''Mapped Zone Reaction'', ''Liquidity Sweep'', ''Snap-Back'', ''Fade Scalp'']"

definition CONTINUATION_STRATEGIES :: "string list" where
  "CONTINUATION_STRATEGIES = [''Momentum Ride'', ''Breakout Continuation'']"

definition M1_SCALP_TRIGGERS :: "string list" where
  "M1_SCALP_TRIGGERS = [''sweep_reclaim'', ''impulse_pullback'', ''breakout_retest'', ''range_sweep'']"

definition M5_AUTHORITATIVE_REACTION_FAMILIES :: "string list" where
  "M5_AUTHORITATIVE_REACTION_FAMILIES =
     [''key_level'', ''session_level'', ''trendline'', ''mapped_zone_reaction'',
      ''liquidity_reversal'', ''trend_pullback'']"

definition ZONE_CONFIRMATION_FAMILIES :: "string list" where
  "ZONE_CONFIRMATION_FAMILIES = [''supply_demand'']"

definition M5_AUTHORITATIVE_FAMILIES :: "string list" where
  "M5_AUTHORITATIVE_FAMILIES = M5_AUTHORITATIVE_REACTION_FAMILIES @ ZONE_CONFIRMATION_FAMILIES"

definition AUTHORITATIVE_REACTIONS :: "string list" where
  "AUTHORITATIVE_REACTIONS =
     [''rejection_choch'', ''sweep_reclaim'', ''strong_reclaim'', ''wick_rejection'', ''rejection'',
      ''reclaim'', ''engulfing'', ''body_close'', ''strong_close'', ''pin_bar'', ''hammer'']"

section \<open>Persisted state\<close>

record confirmation_state =
  ec_setup_id :: string
  ec_phase :: string
  ec_episode_id :: "string option"
  ec_zone_entered_at :: "int option"
  ec_zone_exited_at :: "int option"
  ec_last_inside_at :: "int option"
  ec_last_evaluated_m1_ts :: "int option"
  ec_trigger_bar_ts :: "int option"
  ec_trigger_pattern :: "string option"
  ec_trigger_source :: "string option"
  ec_trigger_consumed :: bool
  ec_updated_at :: int

definition ec_to_json :: "confirmation_state \<Rightarrow> json" where
  "ec_to_json r = JObj
     [(''setup_id'', JStr (ec_setup_id r)),
      (''phase'', JStr (ec_phase r)),
      (''episode_id'', j_opt_str (ec_episode_id r)),
      (''zone_entered_at'', j_opt_int (ec_zone_entered_at r)),
      (''zone_exited_at'', j_opt_int (ec_zone_exited_at r)),
      (''last_inside_at'', j_opt_int (ec_last_inside_at r)),
      (''last_evaluated_m1_ts'', j_opt_int (ec_last_evaluated_m1_ts r)),
      (''trigger_bar_ts'', j_opt_int (ec_trigger_bar_ts r)),
      (''trigger_pattern'', j_opt_str (ec_trigger_pattern r)),
      (''trigger_source'', j_opt_str (ec_trigger_source r)),
      (''trigger_consumed'', JBool (ec_trigger_consumed r)),
      (''updated_at'', JInt (ec_updated_at r))]"

definition ec_parse :: "json \<Rightarrow> confirmation_state res" where
  "ec_parse data =
     res_bind (res_bind (jindex data ''setup_id'') py_str) (\<lambda>setup_id.
     res_bind (res_bind (jindex data ''phase'') py_str) (\<lambda>phase.
     res_bind (res_bind (jget data ''episode_id'') (opt_via py_str)) (\<lambda>episode_id.
     res_bind (res_bind (jget data ''zone_entered_at'') (opt_via py_int)) (\<lambda>zone_entered_at.
     res_bind (res_bind (jget data ''zone_exited_at'') (opt_via py_int)) (\<lambda>zone_exited_at.
     res_bind (res_bind (jget data ''last_inside_at'') (opt_via py_int)) (\<lambda>last_inside_at.
     res_bind (res_bind (jget data ''last_evaluated_m1_ts'') (opt_via py_int)) (\<lambda>last_evaluated_m1_ts.
     res_bind (res_bind (jget data ''trigger_bar_ts'') (opt_via py_int)) (\<lambda>trigger_bar_ts.
     res_bind (res_bind (jget data ''trigger_pattern'') (opt_via py_str)) (\<lambda>trigger_pattern.
     res_bind (res_bind (jget data ''trigger_source'') (opt_via py_str)) (\<lambda>trigger_source.
     res_bind (jget_default data ''trigger_consumed'' (JBool False)) (\<lambda>trigger_consumed.
     res_bind (res_bind (jindex data ''updated_at'') py_int) (\<lambda>updated_at.
     Inr \<lparr>ec_setup_id = setup_id, ec_phase = phase, ec_episode_id = episode_id,
          ec_zone_entered_at = zone_entered_at, ec_zone_exited_at = zone_exited_at,
          ec_last_inside_at = last_inside_at, ec_last_evaluated_m1_ts = last_evaluated_m1_ts,
          ec_trigger_bar_ts = trigger_bar_ts, ec_trigger_pattern = trigger_pattern,
          ec_trigger_source = trigger_source, ec_trigger_consumed = py_truthy trigger_consumed,
          ec_updated_at = updated_at\<rparr>))))))))))))"

definition ec_from_json :: "rtext option \<Rightarrow> confirmation_state option res" where
  "ec_from_json raw =
     (case raw of
        None \<Rightarrow> Inr None
      | Some t \<Rightarrow>
          (case res_bind (json_loads t) ec_parse of
             Inl e \<Rightarrow> if e \<in> {KeyError, TypeError, ValueError} then Inr None else Inl e
           | Inr st \<Rightarrow> Inr (if ec_phase st \<in> set EXECUTION_CONFIRMATION_PHASES then Some st else None)))"

definition execution_confirmation_key :: "string \<Rightarrow> string" where
  "execution_confirmation_key setup_id = ''auto_trade:execution_confirmation:'' @ setup_id"

definition load_execution_confirmation :: "string \<Rightarrow> confirmation_state option prog" where
  "load_execution_confirmation setup_id =
     pbind (rget (execution_confirmation_key setup_id)) (\<lambda>raw. of_res (ec_from_json raw))"

definition save_execution_confirmation :: "int \<Rightarrow> confirmation_state \<Rightarrow> int option \<Rightarrow> unit prog" where
  "save_execution_confirmation now st expires_at =
     run_cmd (SET (execution_confirmation_key (ec_setup_id st)) (Doc (ec_to_json st))
       (Some (max 86400 (case expires_at of None \<Rightarrow> 0 | Some e \<Rightarrow> e - now))) False)"

definition new_state ::
  "string \<Rightarrow> string \<Rightarrow> int \<Rightarrow> string option \<Rightarrow> int option \<Rightarrow> int option \<Rightarrow> int option \<Rightarrow>
   int option \<Rightarrow> int option \<Rightarrow> string option \<Rightarrow> string option \<Rightarrow> bool \<Rightarrow> confirmation_state res" where
  "new_state setup_id phase now episode_id zone_entered_at zone_exited_at last_inside_at
     last_evaluated_m1_ts trigger_bar_ts trigger_pattern trigger_source trigger_consumed =
     (if phase \<notin> set EXECUTION_CONFIRMATION_PHASES then Inl ValueError
      else Inr \<lparr>ec_setup_id = setup_id, ec_phase = phase, ec_episode_id = episode_id,
          ec_zone_entered_at = zone_entered_at, ec_zone_exited_at = zone_exited_at,
          ec_last_inside_at = last_inside_at, ec_last_evaluated_m1_ts = last_evaluated_m1_ts,
          ec_trigger_bar_ts = trigger_bar_ts, ec_trigger_pattern = trigger_pattern,
          ec_trigger_source = trigger_source, ec_trigger_consumed = trigger_consumed,
          ec_updated_at = now\<rparr>)"

section \<open>Policy\<close>

datatype bar_time = BNone | BNum rat | BText string

definition trunc :: "rat \<Rightarrow> int" where
  "trunc q = (if q < 0 then \<lceil>q\<rceil> else \<lfloor>q\<rfloor>)"

text \<open>Nanoseconds, microseconds and milliseconds are recognised by magnitude.\<close>

definition parse_bar_timestamp :: "(string \<Rightarrow> int option) \<Rightarrow> bar_time \<Rightarrow> int option" where
  "parse_bar_timestamp iso_ts v =
     (case v of
        BNone \<Rightarrow> None
      | BNum q \<Rightarrow> Some (trunc (if \<bar>q\<bar> \<ge> 10 ^ 18 then q / 10 ^ 9
                             else if \<bar>q\<bar> \<ge> 10 ^ 15 then q / 10 ^ 6
                             else if \<bar>q\<bar> \<ge> 10 ^ 12 then q / 10 ^ 3 else q))
      | BText s \<Rightarrow> iso_ts s)"

definition bar_truthy :: "bar_time \<Rightarrow> bool" where
  "bar_truthy v = (case v of BNone \<Rightarrow> False | BNum q \<Rightarrow> q \<noteq> 0 | BText s \<Rightarrow> s \<noteq> [])"

record conf_match =
  cm_strategy :: string
  cm_family :: string
  cm_strategy_mode :: string
  cm_structural_source :: string
  cm_m5_reaction_type :: string
  cm_reaction_type :: string
  cm_touch_bar_ts :: bar_time
  cm_m5_confirmation_bar_ts :: bar_time
  cm_confirmation_bar_ts :: bar_time
  cm_structural_zone_id :: string
  cm_entry_low :: "rat option"
  cm_entry_high :: "rat option"

definition m5_reaction_type :: "conf_match \<Rightarrow> string" where
  "m5_reaction_type m =
     str_lower (if cm_m5_reaction_type m \<noteq> [] then cm_m5_reaction_type m else cm_reaction_type m)"

definition m5_confirmation_bar_ts :: "conf_match \<Rightarrow> bar_time" where
  "m5_confirmation_bar_ts m =
     (if bar_truthy (cm_m5_confirmation_bar_ts m) then cm_m5_confirmation_bar_ts m
      else cm_confirmation_bar_ts m)"

record confirmation_policy =
  cp_m5_authoritative :: bool
  cp_m1_required_on_retest :: bool
  cp_allow_same_cycle_publish :: bool
  cp_require_quote_inside_zone :: bool
  cp_reaction_family :: bool
  cp_zone_family :: bool
  cp_metadata_valid :: bool
  cp_reason_code :: string

definition m5_authoritative_contract :: "confirmation_policy \<Rightarrow> bool" where
  "m5_authoritative_contract p \<longleftrightarrow> cp_reaction_family p \<or> cp_zone_family p"

text \<open>The conjunction both branches evaluate, over the reaction types they accept.\<close>

definition confirmation_metadata :: "(string \<Rightarrow> int option) \<Rightarrow> string list \<Rightarrow> conf_match \<Rightarrow> bool" where
  "confirmation_metadata iso_ts types m \<longleftrightarrow>
     m5_reaction_type m \<in> set types \<and>
     parse_bar_timestamp iso_ts (cm_touch_bar_ts m) \<noteq> None \<and>
     parse_bar_timestamp iso_ts (m5_confirmation_bar_ts m) \<noteq> None \<and>
     str_strip (cm_structural_zone_id m) \<noteq> [] \<and>
     (case (cm_entry_low m, cm_entry_high m) of (Some l, Some h) \<Rightarrow> l < h | _ \<Rightarrow> False)"

definition confirmation_policy_for :: "(string \<Rightarrow> int option) \<Rightarrow> conf_match \<Rightarrow> confirmation_policy" where
  "confirmation_policy_for iso_ts m =
     (let strategy = cm_strategy m; family = str_lower (cm_family m) in
      if is_m1_scalp_match (cm_strategy m) (cm_family m) (cm_strategy_mode m) (cm_structural_source m)
      then (let metadata_valid = confirmation_metadata iso_ts (M1_SCALP_TRIGGERS @ AUTHORITATIVE_REACTIONS) m in
            \<lparr>cp_m5_authoritative = metadata_valid, cp_m1_required_on_retest = False,
             cp_allow_same_cycle_publish = metadata_valid, cp_require_quote_inside_zone = True,
             cp_reaction_family = False, cp_zone_family = False, cp_metadata_valid = metadata_valid,
             cp_reason_code = (if metadata_valid then ''m1_scalp_authoritative''
                               else ''confirmation_metadata_missing'')\<rparr>)
      else if strategy \<in> set CONTINUATION_STRATEGIES \<or> family = ''momentum_continuation''
      then \<lparr>cp_m5_authoritative = True, cp_m1_required_on_retest = False,
            cp_allow_same_cycle_publish = True, cp_require_quote_inside_zone = False,
            cp_reaction_family = False, cp_zone_family = False, cp_metadata_valid = True,
            cp_reason_code = ''momentum_continuation''\<rparr>
      else (let zone_family = family \<in> set ZONE_CONFIRMATION_FAMILIES;
                reaction_family = (\<not> zone_family \<and>
                  (strategy \<in> set REACTION_STRATEGIES_ec \<or> family \<in> set M5_AUTHORITATIVE_REACTION_FAMILIES));
                m5_authoritative_family = (zone_family \<or> reaction_family \<or>
                  (strategy \<in> set REACTION_STRATEGIES_ec \<or> family \<in> set M5_AUTHORITATIVE_FAMILIES)) in
            if \<not> m5_authoritative_family
            then \<lparr>cp_m5_authoritative = False, cp_m1_required_on_retest = False,
                  cp_allow_same_cycle_publish = False, cp_require_quote_inside_zone = False,
                  cp_reaction_family = False, cp_zone_family = False, cp_metadata_valid = True,
                  cp_reason_code = ''non_reaction_m1_required''\<rparr>
            else (let metadata_valid = confirmation_metadata iso_ts AUTHORITATIVE_REACTIONS m in
                  \<lparr>cp_m5_authoritative = metadata_valid, cp_m1_required_on_retest = False,
                   cp_allow_same_cycle_publish = metadata_valid, cp_require_quote_inside_zone = True,
                   cp_reaction_family = reaction_family, cp_zone_family = zone_family,
                   cp_metadata_valid = metadata_valid,
                   cp_reason_code = (if metadata_valid then ''m5_authoritative''
                                     else ''confirmation_metadata_missing'')\<rparr>)))"

section \<open>Quote and zone\<close>

record zone_evidence =
  ze_executable_quote :: "rat option"
  ze_quote_side :: string
  ze_inside :: bool
  ze_distance_to_zone :: "rat option"
  ze_distance_pips :: "rat option"
  ze_tolerance_price :: rat

definition executable_quote_in_zone ::
  "string \<Rightarrow> rat option \<Rightarrow> rat option \<Rightarrow> rat \<Rightarrow> rat \<Rightarrow> rat \<Rightarrow> rat \<Rightarrow> zone_evidence" where
  "executable_quote_in_zone direction bid ask zone_low zone_high tolerance pip_size =
     (let side = str_upper direction;
          quote_side = (if side = ''BUY'' then ''ask'' else ''bid'');
          quote = (if side = ''BUY'' then ask else bid);
          tolerance_price = max 0 tolerance in
      case quote of
        None \<Rightarrow> \<lparr>ze_executable_quote = None, ze_quote_side = quote_side, ze_inside = False,
                 ze_distance_to_zone = None, ze_distance_pips = None, ze_tolerance_price = tolerance_price\<rparr>
      | Some q \<Rightarrow>
          if side \<notin> {''BUY'', ''SELL''} \<or> zone_low \<ge> zone_high
          then \<lparr>ze_executable_quote = Some q, ze_quote_side = quote_side, ze_inside = False,
                ze_distance_to_zone = None, ze_distance_pips = None, ze_tolerance_price = tolerance_price\<rparr>
          else (let distance = (if q < zone_low then zone_low - q
                                else if q > zone_high then q - zone_high else 0) in
                \<lparr>ze_executable_quote = Some q, ze_quote_side = quote_side,
                 ze_inside = (zone_low - tolerance_price \<le> q \<and> q \<le> zone_high + tolerance_price),
                 ze_distance_to_zone = Some distance,
                 ze_distance_pips = (if pip_size > 0 then Some (distance / pip_size) else None),
                 ze_tolerance_price = tolerance_price\<rparr>))"

record scalp_access =
  sa_evidence :: zone_evidence
  sa_status :: string
  sa_chase_pips :: "rat option"
  sa_maximum_chase_pips :: rat

definition sa_executable :: "scalp_access \<Rightarrow> bool" where
  "sa_executable a \<longleftrightarrow> sa_status a \<in> {''inside'', ''chase''}"

definition ZONE_ACCESS_MOMENTUM_CHASE :: string where "ZONE_ACCESS_MOMENTUM_CHASE = ''momentum_chase''"
definition ZONE_ACCESS_RETEST_ONLY :: string where "ZONE_ACCESS_RETEST_ONLY = ''retest_only''"

text \<open>
  \<open>float(getattr(act, name, default) or default)\<close>, then \<open>max(0.0, value)\<close>; \<open>None\<close> is a missing
  section or attribute or a value that \<open>float\<close> rejects.
\<close>

definition configured_or :: "rat \<Rightarrow> rat option \<Rightarrow> rat" where
  "configured_or d v = max 0 (case v of None \<Rightarrow> d | Some q \<Rightarrow> if q = 0 then d else q)"

definition scalp_maximum_chase_pips :: "rat option \<Rightarrow> rat" where
  "scalp_maximum_chase_pips configured = configured_or 100 configured"

definition scalp_maximum_chase_stop_fraction :: "rat option \<Rightarrow> rat" where
  "scalp_maximum_chase_stop_fraction configured = configured_or (15 / 100) configured"

definition scalp_effective_chase_pips :: "rat option \<Rightarrow> rat option \<Rightarrow> rat option \<Rightarrow> rat" where
  "scalp_effective_chase_pips configured_pips configured_fraction stop_pips =
     (let flat = scalp_maximum_chase_pips configured_pips in
      case stop_pips of
        None \<Rightarrow> flat
      | Some stop \<Rightarrow> if stop \<le> 0 then flat
                    else min flat (stop * scalp_maximum_chase_stop_fraction configured_fraction))"

definition scalp_zone_access ::
  "string \<Rightarrow> rat option \<Rightarrow> rat option \<Rightarrow> rat \<Rightarrow> rat \<Rightarrow> rat \<Rightarrow> rat \<Rightarrow> rat \<Rightarrow> string \<Rightarrow> scalp_access" where
  "scalp_zone_access direction bid ask zone_low zone_high tolerance pip_size chase_cap zone_access_mode =
     (let evidence = executable_quote_in_zone direction bid ask zone_low zone_high tolerance pip_size;
          access = (\<lambda>status chase. \<lparr>sa_evidence = evidence, sa_status = status, sa_chase_pips = chase,
                                   sa_maximum_chase_pips = chase_cap\<rparr>) in
      if ze_inside evidence then access ''inside'' (Some 0)
      else (case ze_executable_quote evidence of
        None \<Rightarrow> access ''invalid'' None
      | Some quote \<Rightarrow>
        if pip_size \<le> 0 then access ''invalid'' None
        else (let side = str_upper direction in
          if zone_access_mode = ZONE_ACCESS_RETEST_ONLY
          then (let low = min zone_low zone_high; high = max zone_low zone_high in
                access ''approach_wait''
                  (Some (if quote < low then (low - quote) / pip_size
                         else if quote > high then (quote - high) / pip_size else 0)))
          else if side \<notin> {''BUY'', ''SELL''} then access ''invalid'' None
          else (let past = (if side = ''BUY'' then quote - zone_high else zone_low - quote);
                    past_pips = past / pip_size in
                if past_pips > chase_cap + 1 / 10 ^ 9 then access ''chase_missed'' (Some past_pips)
                else if past_pips > 0 then access ''chase'' (Some past_pips)
                else access ''approach_wait'' (Some past_pips)))))"

section \<open>Lemmas and properties\<close>

lemma ec_json_roundtrip: "ec_parse (ec_to_json r) = Inr r"
  by (simp add: ec_to_json_def ec_parse_def)

text \<open>A saved confirmation state is read back as it was written, and its time-to-live is at
  least a day and covers the setup's expiry.\<close>

theorem confirmation_persists:
  assumes "redis exec ks" "ec_phase st \<in> set EXECUTION_CONFIRMATION_PHASES"
  shows "fst (run exec (pbind (save_execution_confirmation now st expires_at)
           (\<lambda>_. load_execution_confirmation (ec_setup_id st))) s) = Inr (Some st)"
  using assms(2)
  by (simp add: save_execution_confirmation_def load_execution_confirmation_def redis.run_set[OF assms(1)]
      redis.run_get[OF assms(1)] redis.ks_write[OF assms(1)] k_text_upd ec_from_json_def
      ec_json_roundtrip)

definition demo_confirmation :: confirmation_state where
  "demo_confirmation =
     \<lparr>ec_setup_id = ''s1'', ec_phase = WAITING_RETEST, ec_episode_id = None, ec_zone_entered_at = Some 5,
      ec_zone_exited_at = None, ec_last_inside_at = None, ec_last_evaluated_m1_ts = None,
      ec_trigger_bar_ts = None, ec_trigger_pattern = Some ''hammer'', ec_trigger_source = None,
      ec_trigger_consumed = False, ec_updated_at = 7\<rparr>"

lemma confirmation_persists_witness:
  "fst (run mem_exec (pbind (save_execution_confirmation 7 demo_confirmation None)
           (\<lambda>_. load_execution_confirmation ''s1'')) Map.empty) = Inr (Some demo_confirmation)"
proof -
  have "ec_phase demo_confirmation \<in> set EXECUTION_CONFIRMATION_PHASES"
    by (simp add: demo_confirmation_def EXECUTION_CONFIRMATION_PHASES_def)
  from confirmation_persists[OF mem.redis_axioms this, of 7 None Map.empty] show ?thesis
    by (simp add: demo_confirmation_def)
qed

text \<open>Publishing in the confirming cycle is allowed only with the evidence the policy names:
  outside the momentum family a match must carry an accepted reaction, a touch and a confirmation
  time, a structural zone and an ordered entry zone, and the quote must be inside the zone; no
  policy ever requires M1 evidence on a retest.\<close>

theorem same_cycle_needs_evidence:
  assumes "cp_allow_same_cycle_publish (confirmation_policy_for iso_ts m)"
  shows "cp_reason_code (confirmation_policy_for iso_ts m) = ''momentum_continuation'' \<or>
     cp_require_quote_inside_zone (confirmation_policy_for iso_ts m) \<and>
     m5_reaction_type m \<in> set (M1_SCALP_TRIGGERS @ AUTHORITATIVE_REACTIONS) \<and>
     parse_bar_timestamp iso_ts (cm_touch_bar_ts m) \<noteq> None \<and>
     parse_bar_timestamp iso_ts (m5_confirmation_bar_ts m) \<noteq> None \<and>
     str_strip (cm_structural_zone_id m) \<noteq> [] \<and>
     (\<exists>l h. cm_entry_low m = Some l \<and> cm_entry_high m = Some h \<and> l < h)"
  using assms
  by (auto simp: confirmation_policy_for_def Let_def confirmation_metadata_def
      split: if_splits option.splits)

definition demo_match :: conf_match where
  "demo_match =
     \<lparr>cm_strategy = ''Key Level Reaction'', cm_family = ''key_level'', cm_strategy_mode = [],
      cm_structural_source = [], cm_m5_reaction_type = [], cm_reaction_type = ''Engulfing'',
      cm_touch_bar_ts = BNum 100, cm_m5_confirmation_bar_ts = BNone, cm_confirmation_bar_ts = BNum 200,
      cm_structural_zone_id = ''z1'', cm_entry_low = Some 1, cm_entry_high = Some 2\<rparr>"

lemma same_cycle_needs_evidence_witness:
  "cp_reason_code (confirmation_policy_for Map.empty demo_match) = ''m5_authoritative'' \<and>
   m5_reaction_type demo_match \<in> set (M1_SCALP_TRIGGERS @ AUTHORITATIVE_REACTIONS)"
proof -
  have r: "cp_reason_code (confirmation_policy_for Map.empty demo_match) = ''m5_authoritative''"
    by code_simp
  have "cp_allow_same_cycle_publish (confirmation_policy_for Map.empty demo_match)" by code_simp
  from same_cycle_needs_evidence[OF this] r show ?thesis by simp
qed

text \<open>What makes a scalp entry executable, for every input: a quote on the trade side and
  either an ordered zone whose band, widened by the tolerance, holds the quote, or (unless only a
  retest may enter) a quote past the far edge in the trade direction by at most the chase budget.
  The second case does not look at the order of the bounds: an inverted zone, which the evidence
  rejects, can still be chased.\<close>

theorem scalp_executable_iff:
  assumes "0 < pip" "side = ''BUY'' \<and> quote = ask \<or> side = ''SELL'' \<and> quote = bid"
  shows "sa_executable (scalp_zone_access side bid ask low high tol pip cap mode) \<longleftrightarrow>
    (\<exists>q. quote = Some q \<and>
      (low < high \<and> low - max 0 tol \<le> q \<and> q \<le> high + max 0 tol \<or>
       mode \<noteq> ZONE_ACCESS_RETEST_ONLY \<and>
       (let past = (if side = ''BUY'' then q - high else low - q)
        in 0 < past \<and> past \<le> (cap + 1 / 10 ^ 9) * pip)))"
proof -
  have up: "str_upper ''BUY'' = ''BUY''" "str_upper ''SELL'' = ''SELL''" by code_simp+
  have div: "x / pip > c \<longleftrightarrow> x > c * pip" "x / pip > 0 \<longleftrightarrow> x > 0" for x c
    using assms(1) by (simp_all add: less_divide_eq zero_less_divide_iff)
  from assms(2) show ?thesis
  proof (elim disjE conjE)
    assume "side = ''BUY''" "quote = ask"
    then show ?thesis
      using assms(1)
      by (cases ask) (auto simp: scalp_zone_access_def executable_quote_in_zone_def Let_def up div
          sa_executable_def not_less)
  next
    assume "side = ''SELL''" "quote = bid"
    then show ?thesis
      using assms(1)
      by (cases bid) (auto simp: scalp_zone_access_def executable_quote_in_zone_def Let_def up div
          sa_executable_def not_less)
  qed
qed

lemma scalp_executable_iff_witness:
  "sa_executable (scalp_zone_access ''BUY'' None (Some 2401) 2405 2400 0 (1 / 10) 100 ZONE_ACCESS_MOMENTUM_CHASE)"
  by (subst scalp_executable_iff[where quote = "Some 2401"])
     (simp_all add: ZONE_ACCESS_MOMENTUM_CHASE_def ZONE_ACCESS_RETEST_ONLY_def)

end
