(* ===== verification/TradePlanStream.thy ===== *)
theory TradePlanStream
  imports RedisRuns
begin

text \<open>
  Publication of trade plans (\<open>app/autotrade/trade_plan_stream.py\<close>). A plan enters as its id,
  its \<open>to_dict()\<close> document and its two times; \<open>stream_config\<close> holds the three configured values
  the function reads. The script itself is in \<open>RedisModel\<close>.
\<close>

section \<open>Keys\<close>

definition plan_key :: "string \<Rightarrow> string" where "plan_key plan_id = ''execution:plan:'' @ plan_id"
definition plan_owner_key :: "string \<Rightarrow> string" where
  "plan_owner_key plan_id = ''execution:plan_owner:'' @ plan_id"
definition plan_state_key :: "string \<Rightarrow> string" where
  "plan_state_key plan_id = ''execution:plan_state:'' @ plan_id"
definition plan_event_key :: "string \<Rightarrow> string" where
  "plan_event_key plan_id = ''execution:plan_event:'' @ plan_id"
definition plan_dedup_key :: "string \<Rightarrow> string" where
  "plan_dedup_key plan_id = ''execution:plan_dedup:'' @ plan_id"
definition plan_recovery_key :: "string \<Rightarrow> string" where
  "plan_recovery_key plan_id = ''execution:plan_recovery:'' @ plan_id"

section \<open>Publication\<close>

record stream_config =
  sc_storage_ttl_seconds :: int
  sc_trade_plans :: string
  sc_candidate_maximum_length :: int

record published_plan =
  pp_plan_id :: string
  pp_payload :: json
  pp_created_at :: int
  pp_expires_at :: int

definition plan_ttl :: "published_plan \<Rightarrow> int" where
  "plan_ttl plan = max 60 (pp_expires_at plan - pp_created_at plan)"

definition dedup_ttl :: "stream_config \<Rightarrow> int" where
  "dedup_ttl cfg = max 86400 (sc_storage_ttl_seconds cfg)"

text \<open>The read-then-pipeline path under a test client.\<close>

definition publish_fallback :: "stream_config \<Rightarrow> published_plan \<Rightarrow> string prog" where
  "publish_fallback cfg plan =
     (let key = plan_key (pp_plan_id plan); state_key = plan_state_key (pp_plan_id plan);
          dedup_key = plan_dedup_key (pp_plan_id plan) in
      pbind (rcall (EXISTS dedup_key)) (\<lambda>d.
      pbind (if d \<noteq> RInt 0 then Done True else pbind (rcall (EXISTS key)) (\<lambda>k. Done (k \<noteq> RInt 0))) (\<lambda>present.
      if present
      then pbind (rcall (EXISTS dedup_key)) (\<lambda>d2.
           pbind (if d2 = RInt 0 then run_cmd (SET dedup_key (Txt ''1'') (Some (dedup_ttl cfg)) False)
                  else Done ()) (\<lambda>_. Done ''existing''))
      else pbind (rcall (PIPE
             [SET dedup_key (Txt ''1'') (Some (dedup_ttl cfg)) False,
              SET key (Doc (pp_payload plan)) (Some (plan_ttl plan)) False,
              SET state_key (Txt ''published'') (Some (plan_ttl plan)) False,
              XADD (sc_trade_plans cfg) (Doc (pp_payload plan))])) (\<lambda>r.
           case r of RBulk (Txt i) \<Rightarrow> Done i | _ \<Rightarrow> Raise OutOfModel))))"

definition publish_trade_plan :: "bool \<Rightarrow> stream_config \<Rightarrow> published_plan \<Rightarrow> string prog" where
  "publish_trade_plan fallback cfg plan =
     pcatch
       (pbind (rcall (EVAL PUBLISH_PLAN_LUA
            [plan_key (pp_plan_id plan), plan_state_key (pp_plan_id plan), sc_trade_plans cfg,
             plan_dedup_key (pp_plan_id plan)]
            [ADoc (pp_payload plan), AInt (plan_ttl plan),
             AInt (max 100 (sc_candidate_maximum_length cfg)), AInt (dedup_ttl cfg)])) (\<lambda>r.
        case r of RBulk (Txt i) \<Rightarrow> Done i | _ \<Rightarrow> Raise OutOfModel))
       (\<lambda>e. if \<not> fallback then Raise e else publish_fallback cfg plan)"

section \<open>Reading\<close>

text \<open>\<open>decode\<close> is \<open>TradePlan.from_dict\<close>.\<close>

definition read_trade_plan :: "(json \<Rightarrow> 'p res) \<Rightarrow> string \<Rightarrow> 'p option prog" where
  "read_trade_plan decode plan_id =
     pbind (rget (plan_key plan_id)) (\<lambda>raw.
     pbind (case raw of None \<Rightarrow> rget (plan_recovery_key plan_id) | Some t \<Rightarrow> Done (Some t)) (\<lambda>raw2.
     case raw2 of None \<Rightarrow> Done None
     | Some t \<Rightarrow> pbind (of_res (res_bind (json_loads t) decode)) (\<lambda>p. Done (Some p))))"

definition read_plan_state :: "string \<Rightarrow> rtext option prog" where
  "read_plan_state plan_id = rget (plan_state_key plan_id)"

section \<open>At most one publication\<close>

definition names_plan :: "string \<Rightarrow> rtext \<Rightarrow> bool" where
  "names_plan p t = (case t of Doc (JObj kv) \<Rightarrow> map_of kv ''plan_id'' = Some (JStr p) | _ \<Rightarrow> False)"

definition times_published :: "stream_config \<Rightarrow> keyspace \<Rightarrow> string \<Rightarrow> nat" where
  "times_published cfg K p = length (filter (names_plan p) (k_stream K (sc_trade_plans cfg)))"

text \<open>The configured stream is not one of the per-plan keys, and a plan's document carries its id.\<close>

definition stream_ok :: "stream_config \<Rightarrow> bool" where
  "stream_ok cfg \<longleftrightarrow> (\<forall>p. sc_trade_plans cfg \<noteq> plan_key p \<and> sc_trade_plans cfg \<noteq> plan_state_key p \<and>
     sc_trade_plans cfg \<noteq> plan_dedup_key p)"

definition plan_wf :: "published_plan \<Rightarrow> bool" where
  "plan_wf plan \<longleftrightarrow> (\<exists>kv. pp_payload plan = JObj kv \<and> map_of kv ''plan_id'' = Some (JStr (pp_plan_id plan)))"

definition published_once :: "stream_config \<Rightarrow> keyspace \<Rightarrow> bool" where
  "published_once cfg K \<longleftrightarrow> (\<forall>p. times_published cfg K p \<le> 1 \<and>
     (times_published cfg K p = 1 \<longrightarrow> K (plan_dedup_key p) \<noteq> None))"

fun publish_cmd :: "stream_config \<Rightarrow> redis_cmd \<Rightarrow> bool" where
  "publish_cmd cfg (EVAL sc keys args) =
     (sc = PUBLISH_PLAN_LUA \<and> (\<exists>plan ttl n d. plan_wf plan \<and>
        keys = [plan_key (pp_plan_id plan), plan_state_key (pp_plan_id plan), sc_trade_plans cfg,
                plan_dedup_key (pp_plan_id plan)] \<and>
        args = [ADoc (pp_payload plan), AInt ttl, AInt n, AInt d]))"
| "publish_cmd cfg _ = False"

lemma plan_keys_distinct [simp]:
  "plan_dedup_key p \<noteq> plan_key q" "plan_dedup_key p \<noteq> plan_state_key q" "plan_key q \<noteq> plan_dedup_key p"
  "plan_state_key q \<noteq> plan_dedup_key p" "plan_dedup_key p = plan_dedup_key q \<longleftrightarrow> p = q"
  by (auto simp: plan_key_def plan_state_key_def plan_dedup_key_def)

lemma k_stream_upd:
  "k_stream (K(k := v)) k' = (if k' = k then (case v of Some (VStream l) \<Rightarrow> l | _ \<Rightarrow> []) else k_stream K k')"
  by (simp add: k_stream_def)

lemma publish_script_once:
  assumes "published_once cfg K" "stream_ok cfg" "plan_wf plan"
  shows "published_once cfg (snd (lua_publish_plan (plan_key (pp_plan_id plan)) (plan_state_key (pp_plan_id plan))
    (sc_trade_plans cfg) (plan_dedup_key (pp_plan_id plan)) (pp_payload plan) ttl d K))" (is "published_once cfg ?K")
proof -
  let ?p = "pp_plan_id plan" and ?s = "sc_trade_plans cfg"
  have ne: "?s \<noteq> plan_key q" "?s \<noteq> plan_state_key q" "?s \<noteq> plan_dedup_key q" for q
    using assms(2) by (auto simp: stream_ok_def)
  have nm: "names_plan q (Doc (pp_payload plan)) \<longleftrightarrow> q = ?p" for q
    using assms(3) by (auto simp: names_plan_def plan_wf_def)
  show ?thesis
  proof (cases "K (plan_dedup_key ?p) = None \<and> K (plan_key ?p) = None")
    case False
    then have "times_published cfg ?K q = times_published cfg K q" "K (plan_dedup_key q) \<noteq> None \<longrightarrow> ?K (plan_dedup_key q) \<noteq> None" for q
      using ne by (auto simp: lua_publish_plan_def times_published_def k_stream_upd)
    with assms(1) show ?thesis by (auto simp: published_once_def)
  next
    case True
    have dedup: "K (plan_dedup_key ?p) = None" "K (plan_key ?p) = None" using True by auto
    have zero: "times_published cfg K ?p = 0"
      using assms(1) dedup(1) unfolding published_once_def by (metis less_one order_le_less)
    have other: "times_published cfg ?K q = times_published cfg K q" if "q \<noteq> ?p" for q
      using that dedup ne nm
      by (simp add: lua_publish_plan_def times_published_def k_stream_upd k_stream_def Let_def split: option.split rvalue.split)
    have this_one: "times_published cfg ?K ?p \<le> Suc (times_published cfg K ?p)"
      using dedup ne nm
      by (simp add: lua_publish_plan_def times_published_def k_stream_upd k_stream_def Let_def split: option.split rvalue.split)
    have kept: "?K (plan_dedup_key q) \<noteq> None" if "K (plan_dedup_key q) \<noteq> None" for q
      using that dedup ne
      by (simp add: lua_publish_plan_def k_stream_def Let_def split: option.split rvalue.split)
    have mark: "?K (plan_dedup_key ?p) \<noteq> None \<or> times_published cfg ?K ?p = times_published cfg K ?p"
      using dedup ne nm
      by (simp add: lua_publish_plan_def times_published_def k_stream_upd k_stream_def Let_def split: option.split rvalue.split)
    show ?thesis unfolding published_once_def
    proof
      fix q
      show "times_published cfg ?K q \<le> 1 \<and> (times_published cfg ?K q = 1 \<longrightarrow> ?K (plan_dedup_key q) \<noteq> None)"
      proof (cases "q = ?p")
        case True
        with this_one zero mark show ?thesis by auto
      next
        case False
        with assms(1) other[OF False] kept[of q] show ?thesis by (simp add: published_once_def)
      qed
    qed
  qed
qed

lemma publish_cmd_once: "publish_cmd cfg c \<Longrightarrow> stream_ok cfg \<Longrightarrow> published_once cfg K \<Longrightarrow> published_once cfg (keff c K)"
  using publish_script_once by (cases c) (auto simp: keff_def lua_eval_def)

lemma all_calls_publish:
  "plan_wf plan \<Longrightarrow> all_calls (publish_cmd cfg) (publish_trade_plan False cfg plan)"
  unfolding publish_trade_plan_def
  by (intro all_calls_pcatch all_calls_pbind) (auto split: redis_reply.splits rtext.splits)

text \<open>The keyspace after a first publication.\<close>

definition published_ks :: "stream_config \<Rightarrow> published_plan \<Rightarrow> keyspace \<Rightarrow> keyspace" where
  "published_ks cfg plan K = K(plan_dedup_key (pp_plan_id plan) \<mapsto> VStr (Txt ''1'') (Some (dedup_ttl cfg)),
     plan_key (pp_plan_id plan) \<mapsto> VStr (Doc (pp_payload plan)) (Some (plan_ttl plan)),
     plan_state_key (pp_plan_id plan) \<mapsto> VStr (Txt ''published'') (Some (plan_ttl plan)),
     sc_trade_plans cfg \<mapsto> VStream (k_stream K (sc_trade_plans cfg) @ [Doc (pp_payload plan)]))"

lemma published_ks_lookup:
  assumes "stream_ok cfg"
  shows "published_ks cfg plan K (plan_dedup_key (pp_plan_id plan)) = Some (VStr (Txt ''1'') (Some (dedup_ttl cfg)))"
    "published_ks cfg plan K (plan_key (pp_plan_id plan)) = Some (VStr (Doc (pp_payload plan)) (Some (plan_ttl plan)))"
    "published_ks cfg plan K (plan_state_key (pp_plan_id plan)) = Some (VStr (Txt ''published'') (Some (plan_ttl plan)))"
    "published_ks cfg plan K (sc_trade_plans cfg) = Some (VStream (k_stream K (sc_trade_plans cfg) @ [Doc (pp_payload plan)]))"
proof -
  have "plan_key q \<noteq> plan_state_key q" for q by (simp add: plan_key_def plan_state_key_def)
  moreover have "sc_trade_plans cfg \<noteq> plan_key q" "sc_trade_plans cfg \<noteq> plan_state_key q" "sc_trade_plans cfg \<noteq> plan_dedup_key q" for q
    using assms by (simp_all add: stream_ok_def)
  note this[symmetric]
  ultimately show "published_ks cfg plan K (plan_dedup_key (pp_plan_id plan)) = Some (VStr (Txt ''1'') (Some (dedup_ttl cfg)))"
    "published_ks cfg plan K (plan_key (pp_plan_id plan)) = Some (VStr (Doc (pp_payload plan)) (Some (plan_ttl plan)))"
    "published_ks cfg plan K (plan_state_key (pp_plan_id plan)) = Some (VStr (Txt ''published'') (Some (plan_ttl plan)))"
    "published_ks cfg plan K (sc_trade_plans cfg) = Some (VStream (k_stream K (sc_trade_plans cfg) @ [Doc (pp_payload plan)]))"
    by (simp_all add: published_ks_def)
qed

context redis
begin

lemma run_publish_new:
  assumes "ks s (plan_dedup_key (pp_plan_id plan)) = None" "ks s (plan_key (pp_plan_id plan)) = None"
    "stream_key (ks s) (sc_trade_plans cfg)" "stream_ok cfg"
  shows "\<exists>i s'. run exec (publish_trade_plan fb cfg plan) s = (Inr i, s') \<and> i \<noteq> ''existing'' \<and>
     ks s' = published_ks cfg plan (ks s)"
proof -
  let ?c = "EVAL PUBLISH_PLAN_LUA [plan_key (pp_plan_id plan), plan_state_key (pp_plan_id plan), sc_trade_plans cfg,
      plan_dedup_key (pp_plan_id plan)] [ADoc (pp_payload plan), AInt (plan_ttl plan),
      AInt (max 100 (sc_candidate_maximum_length cfg)), AInt (dedup_ttl cfg)]"
  have "sc_trade_plans cfg \<noteq> plan_key q" "sc_trade_plans cfg \<noteq> plan_state_key q" "sc_trade_plans cfg \<noteq> plan_dedup_key q" for q
    using assms(4) by (simp_all add: stream_ok_def)
  with assms(1-3) have k: "kstep ?c (ks s) = (RId, published_ks cfg plan (ks s))"
    by (auto simp: lua_eval_def lua_publish_plan_def published_ks_def stream_key_def k_stream_def
        split: option.splits rvalue.splits)
  have r: "\<exists>i. fst (exec ?c s) = RBulk (Txt i) \<and> i \<noteq> ''existing''"
    using reply[of ?c s] by (simp only: reply_ok_def k fst_conv redis_reply.case prod.case)
  moreover have "ks (snd (exec ?c s)) = published_ks cfg plan (ks s)"
    by (simp only: eff keff_def k snd_conv)
  ultimately show ?thesis
    by (cases "exec ?c s") (auto simp: publish_trade_plan_def rcall_def)
qed

lemma run_publish_existing:
  assumes "ks s (plan_dedup_key (pp_plan_id plan)) \<noteq> None"
  shows "\<exists>s'. run exec (publish_trade_plan fb cfg plan) s = (Inr ''existing'', s') \<and> ks s' = ks s"
proof -
  let ?c = "EVAL PUBLISH_PLAN_LUA [plan_key (pp_plan_id plan), plan_state_key (pp_plan_id plan), sc_trade_plans cfg,
      plan_dedup_key (pp_plan_id plan)] [ADoc (pp_payload plan), AInt (plan_ttl plan),
      AInt (max 100 (sc_candidate_maximum_length cfg)), AInt (dedup_ttl cfg)]"
  have k: "kstep ?c (ks s) = (RBulk (Txt ''existing''), ks s)"
    using assms by (simp add: lua_eval_def lua_publish_plan_def)
  have r: "fst (exec ?c s) = RBulk (Txt ''existing'')"
    using reply[of ?c s] by (simp only: reply_ok_def k fst_conv redis_reply.case prod.case)
  have "ks (snd (exec ?c s)) = ks s"
    by (simp only: eff keff_def k snd_conv)
  with r show ?thesis
    by (cases "exec ?c s") (auto simp: publish_trade_plan_def rcall_def)
qed

end

section \<open>Properties\<close>

text \<open>C9. At most one publication: whatever the interleaving of any number of publishers, with
  requests or replies lost, a plan id never occurs twice on the trade-plan stream while its
  de-duplication key lives.\<close>

theorem published_at_most_once:
  assumes "redis_any exec ks" "stream_ok cfg" "published_once cfg (ks s)" "\<forall>plan\<in>set plans. plan_wf plan"
    "sched exec xs (s, map (publish_trade_plan False cfg) plans) = Some (s', ps')"
  shows "times_published cfg (ks s') p \<le> 1"
proof -
  have "\<forall>q\<in>set (map (publish_trade_plan False cfg) plans). all_calls (publish_cmd cfg) q"
    using assms(4) all_calls_publish by auto
  from redis_any.sched_invariant[OF assms(1,5) this, of "published_once cfg"] assms(2,3) publish_cmd_once
  have "published_once cfg (ks s')" by blast
  then show ?thesis by (simp add: published_once_def)
qed

definition demo_stream_config :: stream_config where
  "demo_stream_config = \<lparr>sc_storage_ttl_seconds = 90000, sc_trade_plans = ''execution:trade_plans'',
     sc_candidate_maximum_length = 1000\<rparr>"

definition demo_plan :: "int \<Rightarrow> published_plan" where
  "demo_plan t = \<lparr>pp_plan_id = ''v8:s1'', pp_payload = JObj [(''plan_id'', JStr ''v8:s1''), (''created_at'', JInt t)],
     pp_created_at = t, pp_expires_at = t + 900\<rparr>"

lemma demo_plan_wf: "plan_wf (demo_plan t)"
  by (simp add: plan_wf_def demo_plan_def)

lemma demo_stream_ok: "stream_ok demo_stream_config"
  by (simp add: stream_ok_def demo_stream_config_def plan_key_def plan_state_key_def plan_dedup_key_def)

lemma published_at_most_once_witness:
  "map_option (\<lambda>c. times_published demo_stream_config (fst c) ''v8:s1'')
     (sched mem_exec [1, 0] (Map.empty, map (publish_trade_plan False demo_stream_config) [demo_plan 100, demo_plan 101])) =
   Some 1"
proof -
  let ?c = "(Map.empty, map (publish_trade_plan False demo_stream_config) [demo_plan 100, demo_plan 101])"
  have ran: "map_option (\<lambda>c. times_published demo_stream_config (fst c) ''v8:s1'' = 0) (sched mem_exec [1, 0] ?c) = Some False"
    by code_simp
  then obtain s' ps' where s: "sched mem_exec [1, 0] ?c = Some (s', ps')"
    "times_published demo_stream_config s' ''v8:s1'' \<noteq> 0" by auto
  have "published_once demo_stream_config Map.empty"
    by (simp add: published_once_def times_published_def k_stream_def)
  from published_at_most_once[where ks = "\<lambda>K. K", OF mem.redis_any_axioms demo_stream_ok this _ s(1), of "''v8:s1''"]
  have "times_published demo_stream_config s' ''v8:s1'' \<le> 1" by (simp add: demo_plan_wf)
  with s show ?thesis by simp
qed

text \<open>Publishing a plan that is not on the server appends its document to the stream, marks it
  published and makes it readable again as the plan it was; publishing the same id once more
  answers \<open>existing\<close> and writes nothing.\<close>

theorem publish_then_read:
  assumes "redis exec ks" "stream_ok cfg" "ks s (plan_dedup_key (pp_plan_id plan)) = None"
    "ks s (plan_key (pp_plan_id plan)) = None" "stream_key (ks s) (sc_trade_plans cfg)"
  shows "\<exists>i s'. run exec (publish_trade_plan fb cfg plan) s = (Inr i, s') \<and> i \<noteq> ''existing'' \<and>
     k_stream (ks s') (sc_trade_plans cfg) = k_stream (ks s) (sc_trade_plans cfg) @ [Doc (pp_payload plan)] \<and>
     fst (run exec (read_plan_state (pp_plan_id plan)) s') = Inr (Some (Txt ''published'')) \<and>
     fst (run exec (read_trade_plan decode (pp_plan_id plan)) s') =
       res_bind (decode (pp_payload plan)) (\<lambda>p. Inr (Some p)) \<and>
     (\<forall>plan2. pp_plan_id plan2 = pp_plan_id plan \<longrightarrow>
        (\<exists>s''. run exec (publish_trade_plan fb cfg plan2) s' = (Inr ''existing'', s'') \<and> ks s'' = ks s'))"
proof -
  obtain i s' where pub: "run exec (publish_trade_plan fb cfg plan) s = (Inr i, s')" "i \<noteq> ''existing''"
    "ks s' = published_ks cfg plan (ks s)"
    using redis.run_publish_new[OF assms(1,3-5,2)] by blast
  note pk = published_ks_lookup[OF assms(2), of plan "ks s"]
  have st: "str_key (ks s') (plan_state_key (pp_plan_id plan))" "str_key (ks s') (plan_key (pp_plan_id plan))"
    by (simp_all add: pub(3) pk str_key_def)
  have again: "\<exists>s''. run exec (publish_trade_plan fb cfg plan2) s' = (Inr ''existing'', s'') \<and> ks s'' = ks s'"
    if "pp_plan_id plan2 = pp_plan_id plan" for plan2
    using redis.run_publish_existing[OF assms(1), of s' plan2] that by (simp add: pub(3) pk)
  have "fst (run exec (read_plan_state (pp_plan_id plan)) s') = Inr (Some (Txt ''published''))"
    using redis.run_get_last[OF assms(1) st(1)] by (simp add: read_plan_state_def pub(3) pk k_text_def)
  moreover have "fst (run exec (read_trade_plan decode (pp_plan_id plan)) s') =
       res_bind (decode (pp_payload plan)) (\<lambda>p. Inr (Some p))"
    by (cases "decode (pp_payload plan)")
       (simp_all add: read_trade_plan_def redis.run_get[OF assms(1) st(2)] pub(3) pk k_text_def)
  moreover have "k_stream (ks s') (sc_trade_plans cfg) = k_stream (ks s) (sc_trade_plans cfg) @ [Doc (pp_payload plan)]"
    by (simp add: pub(3) pk k_stream_def)
  ultimately show ?thesis using pub(1,2) again by blast
qed

definition demo_decode :: "json \<Rightarrow> int res" where
  "demo_decode j = res_bind (jindex j ''created_at'') py_int"

lemma publish_then_read_witness:
  "\<exists>i s'. run mem_exec (publish_trade_plan False demo_stream_config (demo_plan 100)) Map.empty = (Inr i, s') \<and>
     fst (run mem_exec (read_trade_plan demo_decode ''v8:s1'') s') = Inr (Some 100)"
proof -
  have id: "pp_plan_id (demo_plan 100) = ''v8:s1''" "demo_decode (pp_payload (demo_plan 100)) = Inr 100"
    by (simp_all add: demo_plan_def demo_decode_def)
  show ?thesis
    using publish_then_read[where ks = "\<lambda>K. K" and s = Map.empty and decode = demo_decode and fb = False,
        OF mem.redis_axioms demo_stream_ok, of "demo_plan 100"]
    by (auto simp: id stream_key_def)
qed

end
