(* ===== verification/PyDecimal.thy ===== *)
theory PyDecimal
  imports PyPrelude
begin

text \<open>
  The part of Python's \<open>decimal\<close> module the trade plans use: finite decimals with their sign, digits and exponent,
  \<open>Decimal(text)\<close>, \<open>str(decimal)\<close>, exact comparison, and sums, products and reciprocals in the default context of
  28 digits, rounding half to even. The limits of the exponent (about a trillion of trillions) are not modelled; a text that denotes no finite
  number has no value here.
\<close>

section \<open>Decimals and their value\<close>

datatype decimal = Dec (dec_neg: bool) (dec_coeff: nat) (dec_exp: int)

definition ten_pow :: "int \<Rightarrow> rat" where
  "ten_pow e = (if e \<ge> 0 then 10 ^ nat e else 1 / 10 ^ nat (- e))"

definition dec_signed :: "decimal \<Rightarrow> int" where
  "dec_signed d = (if dec_neg d then - int (dec_coeff d) else int (dec_coeff d))"

definition dec_value :: "decimal \<Rightarrow> rat" where
  "dec_value d = of_int (dec_signed d) * ten_pow (dec_exp d)"

section \<open>Text\<close>

text \<open>\<open>str(d)\<close>: plain notation while the exponent is not positive and at most five zeros follow the point,
  scientific notation otherwise.\<close>

definition decimal_str :: "decimal \<Rightarrow> string" where
  "decimal_str d =
     (let ds = str_nat (dec_coeff d); n = int (length ds); left = dec_exp d + n;
          dot = (if dec_exp d \<le> 0 \<and> left > - 6 then left else 1);
          body = (if dot \<le> 0 then ''0.'' @ replicate (nat (- dot)) CHR ''0'' @ ds
                  else if dot \<ge> n then ds @ replicate (nat (dot - n)) CHR ''0''
                  else take (nat dot) ds @ CHR ''.'' # drop (nat dot) ds);
          expo = (if left = dot then []
                  else ''E'' @ (if left - dot \<ge> 0 then ''+'' else []) @ str_int (left - dot))
      in (if dec_neg d then ''-'' else []) @ body @ expo)"

definition parse_exponent :: "string \<Rightarrow> int option" where
  "parse_exponent s =
     (case s of [] \<Rightarrow> None
      | c # t \<Rightarrow> if c = CHR ''-'' then map_option (\<lambda>n. - int n) (parse_nat t)
                 else if c = CHR ''+'' then map_option int (parse_nat t)
                 else map_option int (parse_nat s))"

definition is_exponent_mark :: "char \<Rightarrow> bool" where
  "is_exponent_mark c \<longleftrightarrow> c = CHR ''E'' \<or> c = CHR ''e''"

definition parse_unsigned :: "bool \<Rightarrow> string \<Rightarrow> decimal option" where
  "parse_unsigned neg s =
     (let mantissa = takeWhile (\<lambda>c. \<not> is_exponent_mark c) s;
          after = dropWhile (\<lambda>c. \<not> is_exponent_mark c) s;
          int_digits = takeWhile (\<lambda>c. c \<noteq> CHR ''.'') mantissa;
          frac_digits = drop 1 (dropWhile (\<lambda>c. c \<noteq> CHR ''.'') mantissa)
      in case (parse_nat (int_digits @ frac_digits), if after = [] then Some 0 else parse_exponent (tl after)) of
           (Some c, Some e) \<Rightarrow> Some (Dec neg c (e - int (length frac_digits)))
         | _ \<Rightarrow> None)"

text \<open>\<open>Decimal(text)\<close>: blanks around are dropped and underscores ignored.\<close>

definition parse_decimal :: "string \<Rightarrow> decimal option" where
  "parse_decimal s =
     (case filter (\<lambda>c. c \<noteq> CHR ''_'') (str_strip s) of
        [] \<Rightarrow> None
      | c # t \<Rightarrow> if c = CHR ''-'' then parse_unsigned True t
                 else if c = CHR ''+'' then parse_unsigned False t
                 else parse_unsigned False (c # t))"

section \<open>Arithmetic in the default context\<close>

definition PRECISION :: nat where "PRECISION = 28"

definition round_half_even :: "nat \<Rightarrow> nat \<Rightarrow> nat" where
  "round_half_even c k =
     (let q = c div 10 ^ k; r = c mod 10 ^ k
      in if 2 * r > 10 ^ k \<or> 2 * r = 10 ^ k \<and> odd q then q + 1 else q)"

definition dec_round :: "decimal \<Rightarrow> decimal" where
  "dec_round d =
     (let n = length (str_nat (dec_coeff d))
      in if n \<le> PRECISION then d
         else Dec (dec_neg d) (round_half_even (dec_coeff d) (n - PRECISION)) (dec_exp d + int (n - PRECISION)))"

definition dec_add :: "decimal \<Rightarrow> decimal \<Rightarrow> decimal" where
  "dec_add a b =
     (let e = min (dec_exp a) (dec_exp b);
          c = dec_signed a * 10 ^ nat (dec_exp a - e) + dec_signed b * 10 ^ nat (dec_exp b - e)
      in dec_round (Dec (c < 0) (nat \<bar>c\<bar>) e))"

definition dec_minus :: "decimal \<Rightarrow> decimal" where
  "dec_minus d = Dec (\<not> dec_neg d) (dec_coeff d) (dec_exp d)"

text \<open>\<open>sum(xs)\<close> starts from the integer 0.\<close>

definition dec_sum :: "decimal list \<Rightarrow> decimal" where
  "dec_sum xs = foldl dec_add (Dec False 0 0) xs"

definition dec_of_int :: "int \<Rightarrow> decimal" where
  "dec_of_int i = Dec (i < 0) (nat \<bar>i\<bar>) 0"

definition dec_mul :: "decimal \<Rightarrow> decimal \<Rightarrow> decimal" where
  "dec_mul a b = dec_round (Dec (dec_neg a \<noteq> dec_neg b) (dec_coeff a * dec_coeff b) (dec_exp a + dec_exp b))"

text \<open>\<open>Decimal("1") / n\<close>: one digit more than the precision, which records whether something was cut off, and then
  rounded; an exact quotient loses its trailing zeros down to the exponent zero.\<close>

fun strip_zeros :: "nat \<Rightarrow> nat \<Rightarrow> int \<Rightarrow> nat \<times> int" where
  "strip_zeros 0 c e = (c, e)"
| "strip_zeros (Suc k) c e = (if e < 0 \<and> c mod 10 = 0 then strip_zeros k (c div 10) (e + 1) else (c, e))"

definition dec_recip :: "nat \<Rightarrow> decimal" where
  "dec_recip n =
     (let shift = length (str_nat n) + PRECISION; c = 10 ^ shift div n; r = 10 ^ shift mod n in
      if r \<noteq> 0 then dec_round (Dec False (if c mod 5 = 0 then c + 1 else c) (- int shift))
      else (let (c', e) = strip_zeros shift c (- int shift) in dec_round (Dec False c' e)))"

text \<open>\<open>d.quantize(Decimal("0.0001"), rounding=ROUND_HALF_UP)\<close> of a number that fits.\<close>

definition round_half_up :: "nat \<Rightarrow> nat \<Rightarrow> nat" where
  "round_half_up c k = (let q = c div 10 ^ k; r = c mod 10 ^ k in if 2 * r \<ge> 10 ^ k then q + 1 else q)"

definition quantize4 :: "decimal \<Rightarrow> decimal" where
  "quantize4 d =
     (if dec_exp d \<ge> - 4 then Dec (dec_neg d) (dec_coeff d * 10 ^ nat (dec_exp d + 4)) (- 4)
      else Dec (dec_neg d) (round_half_up (dec_coeff d) (nat (- 4 - dec_exp d))) (- 4))"

section \<open>The text of a decimal denotes it\<close>

lemma parse_nat_zeros: "parse_nat (replicate k CHR ''0'' @ str_nat c) = Some c"
proof -
  have "foldl (\<lambda>a c. 10 * a + (of_char c - 48)) 0 (replicate k CHR ''0'') = (0 :: nat)" by (induction k) simp_all
  moreover have "is_digit CHR ''0''" by (simp add: is_digit_def)
  then have "list_all is_digit (replicate k CHR ''0'')" by (simp add: list_all_iff)
  ultimately show ?thesis
    using parse_nat_str_nat [of c] by (auto simp: parse_nat_def split: if_splits)
qed

definition plain_char :: "char \<Rightarrow> bool" where
  "plain_char c \<longleftrightarrow> \<not> is_exponent_mark c \<and> c \<notin> {CHR ''.'', CHR ''_'', CHR ''-'', CHR ''+''} \<and> \<not> char_space c"

lemma str_nat_plain: "list_all plain_char (str_nat n)"
proof -
  have plain: "plain_char (digit_char d)" if "d < 10" for d
  proof -
    have "is_digit a \<Longrightarrow> \<not> is_digit b \<Longrightarrow> a \<noteq> b" for a b by blast
    note other = this [OF digit_char_props(1) [OF that]]
    have "digit_char d \<noteq> CHR ''E''" "digit_char d \<noteq> CHR ''e''" "digit_char d \<noteq> CHR ''.''" "digit_char d \<noteq> CHR ''_''"
      by (rule other; simp add: is_digit_def)+
    then show ?thesis using digit_char_props(3-5) [OF that] by (simp add: is_exponent_mark_def plain_char_def)
  qed
  show ?thesis by (rule list.pred_mono_strong [OF str_nat_digits]) (elim exE conjE, simp only: plain)
qed

definition text_char :: "char \<Rightarrow> bool" where
  "text_char c \<longleftrightarrow> \<not> char_space c \<and> c \<noteq> CHR ''_''"

lemma text_chars: "text_char CHR ''-''" "text_char CHR ''+''" "text_char CHR ''.''" "text_char CHR ''E''"
  by (simp_all add: text_char_def char_space_def)

lemma mark_chars: "is_exponent_mark CHR ''E''" "\<not> is_exponent_mark CHR ''.''"
  by (simp_all add: is_exponent_mark_def)

lemma plain_classes:
  assumes "list_all plain_char s"
  shows "list_all (\<lambda>c. \<not> is_exponent_mark c) s" "list_all text_char s" "list_all (\<lambda>c. c \<noteq> CHR ''.'') s"
  using assms by (induction s) (simp_all add: plain_char_def text_char_def)

lemma takeWhile_stop:
  assumes "list_all P xs" "ys = [] \<or> \<not> P (hd ys)"
  shows "takeWhile P (xs @ ys) = xs" "dropWhile P (xs @ ys) = ys"
  using assms by (induction xs) (cases ys; simp)+

lemma plain_zero: "plain_char CHR ''0''"
  by (simp add: plain_char_def is_exponent_mark_def char_space_def)

lemma parse_exponent_text: "parse_exponent ((if x \<ge> 0 then ''+'' else []) @ str_int x) = Some x"
  by (simp add: parse_exponent_def str_int_def parse_nat_str_nat)

lemma parse_unsigned_text:
  assumes plain: "list_all plain_char (i @ f)" and c: "parse_nat (i @ f) = Some c"
    and m: "m = i \<and> f = [] \<or> m = i @ CHR ''.'' # f"
    and e: "expo = [] \<and> x = 0 \<or> (\<exists>t. expo = CHR ''E'' # t \<and> parse_exponent t = Some x)"
  shows "parse_unsigned neg (m @ expo) = Some (Dec neg c (x - int (length f)))"
proof -
  have "list_all (\<lambda>c. \<not> is_exponent_mark c) m"
    using plain_classes(1) [OF plain] m mark_chars by auto
  moreover have "expo = [] \<or> \<not> \<not> is_exponent_mark (hd expo)" using e mark_chars by auto
  ultimately have 1: "takeWhile (\<lambda>c. \<not> is_exponent_mark c) (m @ expo) = m"
    "dropWhile (\<lambda>c. \<not> is_exponent_mark c) (m @ expo) = expo"
    by (rule takeWhile_stop)+
  have i: "list_all (\<lambda>c. c \<noteq> CHR ''.'') i" using plain_classes(3) [OF plain] by simp
  obtain r where r: "m = i @ r" "r = [] \<or> \<not> hd r \<noteq> CHR ''.''" "drop 1 r = f" using m by auto
  have 2: "takeWhile (\<lambda>c. c \<noteq> CHR ''.'') m = i" "drop 1 (dropWhile (\<lambda>c. c \<noteq> CHR ''.'') m) = f"
    using takeWhile_stop [OF i r(2)] r(3) unfolding r(1) by simp_all
  have 3: "(if expo = [] then Some 0 else parse_exponent (tl expo)) = Some x" using e by auto
  show ?thesis unfolding parse_unsigned_def Let_def 1 2 3 c by simp
qed

definition body_of :: "nat \<Rightarrow> int \<Rightarrow> string" where
  "body_of c dot =
     (let ds = str_nat c; n = int (length ds)
      in if dot \<le> 0 then ''0.'' @ replicate (nat (- dot)) CHR ''0'' @ ds
         else if dot \<ge> n then ds @ replicate (nat (dot - n)) CHR ''0''
         else take (nat dot) ds @ CHR ''.'' # drop (nat dot) ds)"

lemma body_parts:
  assumes "dot \<le> int (length (str_nat c))"
  shows "\<exists>i f. list_all plain_char (i @ f) \<and> parse_nat (i @ f) = Some c \<and>
     (body_of c dot = i \<and> f = [] \<or> body_of c dot = i @ CHR ''.'' # f) \<and>
     int (length f) = int (length (str_nat c)) - dot \<and> i \<noteq> []"
proof -
  let ?ds = "str_nat c"
  consider "dot \<le> 0" | "dot > 0" "dot = int (length ?ds)" | "dot > 0" "dot < int (length ?ds)" using assms by linarith
  then show ?thesis
  proof cases
    case 1
    have "parse_nat (''0'' @ replicate (nat (- dot)) CHR ''0'' @ ?ds) = Some c"
      using parse_nat_zeros [of "Suc (nat (- dot))" c] by simp
    with 1 str_nat_plain [of c] plain_zero show ?thesis
      by (intro exI [of _ "''0''"] exI [of _ "replicate (nat (- dot)) CHR ''0'' @ ?ds"])
        (auto simp: body_of_def list_all_iff)
  next
    case 2
    with str_nat_plain [of c] show ?thesis
      by (intro exI [of _ "?ds"] exI [of _ "[]"]) (simp add: body_of_def parse_nat_str_nat str_nat_nonempty)
  next
    case 3
    with str_nat_plain [of c] show ?thesis
      by (intro exI [of _ "take (nat dot) ?ds"] exI [of _ "drop (nat dot) ?ds"])
        (auto simp: body_of_def parse_nat_str_nat str_nat_nonempty Let_def)
  qed
qed

lemma decimal_str_body:
  "decimal_str d = (if dec_neg d then ''-'' else []) @
     (let left = dec_exp d + int (length (str_nat (dec_coeff d)));
          dot = (if dec_exp d \<le> 0 \<and> left > - 6 then left else 1)
      in body_of (dec_coeff d) dot @
         (if left = dot then [] else ''E'' @ (if left - dot \<ge> 0 then ''+'' else []) @ str_int (left - dot)))"
  by (simp add: decimal_str_def body_of_def Let_def)

theorem parse_decimal_str: "parse_decimal (decimal_str d) = Some d"
proof -
  obtain neg c e where d: "d = Dec neg c e" by (cases d)
  define n where "n = int (length (str_nat c))"
  define left where "left = e + n"
  define dot where "dot = (if e \<le> 0 \<and> left > - 6 then left else 1)"
  define expo where "expo = (if left = dot then []
    else ''E'' @ (if left - dot \<ge> 0 then ''+'' else []) @ str_int (left - dot))"
  have "1 \<le> n" using str_nat_nonempty [of c] by (cases "str_nat c") (auto simp: n_def)
  then have "dot \<le> int (length (str_nat c))" by (auto simp: dot_def left_def n_def)
  from body_parts [OF this] obtain i f where b: "list_all plain_char (i @ f)" "parse_nat (i @ f) = Some c"
    "body_of c dot = i \<and> f = [] \<or> body_of c dot = i @ CHR ''.'' # f" "int (length f) = n - dot" "i \<noteq> []"
    unfolding n_def by blast
  have x: "expo = [] \<and> left - dot = 0 \<or> (\<exists>t. expo = CHR ''E'' # t \<and> parse_exponent t = Some (left - dot))"
    using parse_exponent_text [of "left - dot"] by (auto simp: expo_def)
  have u: "parse_unsigned neg (body_of c dot @ expo) = Some d"
    using parse_unsigned_text [OF b(1,2,3) x, of neg] b(4) by (simp add: d left_def)
  have t: "decimal_str d = (if neg then ''-'' else []) @ body_of c dot @ expo"
    by (simp add: decimal_str_body d left_def dot_def n_def expo_def Let_def)
  have digits: "list_all text_char (str_nat k)" for k by (rule plain_classes(2) [OF str_nat_plain])
  have "list_all text_char (body_of c dot)" using plain_classes(2) [OF b(1)] b(3) text_chars by auto
  then have chars: "list_all text_char (decimal_str d)"
    using digits text_chars by (simp add: t expo_def str_int_def)
  have "str_strip (decimal_str d) = decimal_str d"
    using chars by (intro strip_nospace) (simp add: list_all_iff text_char_def)
  moreover have "filter (\<lambda>c. c \<noteq> CHR ''_'') (decimal_str d) = decimal_str d"
    using chars by (intro filter_id_when) (simp add: list_all_iff text_char_def)
  moreover have "\<exists>a r. body_of c dot @ expo = a # r \<and> plain_char a"
    using b(1,3,5) by (cases i) auto
  then obtain a r where a: "body_of c dot @ expo = a # r" "a \<noteq> CHR ''-''" "a \<noteq> CHR ''+''"
    unfolding plain_char_def by blast
  ultimately show ?thesis using u unfolding parse_decimal_def t by (cases neg) simp_all
qed

end
