(* ===== verification/TradePlan.thy ===== *)
theory TradePlan
  imports TradePlanStream PyDecimal "HOL-Library.Multiset"
begin

text \<open>
  The trade plan, version 8 (\<open>app/autotrade/trade_plan.py\<close>): the document Python publishes and the C# executor
  consumes, its parser, and the execution-safety checks. A field with a declared type that \<open>data.get\<close> takes over
  unchecked keeps that type here; another value is outside the model. The text of an error is reduced to its constant
  part.
\<close>

section \<open>Constants and field access\<close>

definition TRADE_PLAN_VERSION :: int where "TRADE_PLAN_VERSION = 8"
definition TRADE_PLAN_SUPPORTED_VERSIONS :: "int list" where "TRADE_PLAN_SUPPORTED_VERSIONS = [8]"

definition ENTRY_TYPE_MARKET_WATCH :: string where "ENTRY_TYPE_MARKET_WATCH = ''market_watch''"
definition ENTRY_TYPE_MARKET :: string where "ENTRY_TYPE_MARKET = ''market''"
definition ENTRY_TYPE_SINGLE_LIMIT :: string where "ENTRY_TYPE_SINGLE_LIMIT = ''single_limit''"
definition ENTRY_TYPE_LIMIT_LADDER :: string where "ENTRY_TYPE_LIMIT_LADDER = ''limit_ladder''"
definition ENTRY_TYPE_MARKET_WITH_LIMIT_SCALE :: string where
  "ENTRY_TYPE_MARKET_WITH_LIMIT_SCALE = ''market_with_limit_scale''"

lemmas entry_types =
  ENTRY_TYPE_MARKET_WATCH_def ENTRY_TYPE_MARKET_def ENTRY_TYPE_SINGLE_LIMIT_def ENTRY_TYPE_LIMIT_LADDER_def
  ENTRY_TYPE_MARKET_WITH_LIMIT_SCALE_def

definition ENTRY_TYPES :: "string list" where
  "ENTRY_TYPES = [ENTRY_TYPE_MARKET_WATCH, ENTRY_TYPE_MARKET, ENTRY_TYPE_SINGLE_LIMIT, ENTRY_TYPE_LIMIT_LADDER,
     ENTRY_TYPE_MARKET_WITH_LIMIT_SCALE]"

definition ORDER_TYPE_MARKET :: string where "ORDER_TYPE_MARKET = ''market''"
definition ORDER_TYPE_LIMIT :: string where "ORDER_TYPE_LIMIT = ''limit''"
definition ORDER_TYPES :: "string list" where "ORDER_TYPES = [ORDER_TYPE_MARKET, ORDER_TYPE_LIMIT]"
definition DIRECTIONS :: "string list" where "DIRECTIONS = [''BUY'', ''SELL'']"

text \<open>\<open>name not in data or data[name] is None\<close>, also for a document that is no dict.\<close>

definition missing :: "string \<Rightarrow> 'a res" where
  "missing name = Inl (TradePlanError (name @ '' is required''))"

fun require_field :: "json \<Rightarrow> string \<Rightarrow> json res" where
  "require_field (JObj kv) name =
     (case map_of kv name of None \<Rightarrow> missing name | Some v \<Rightarrow> if v = JNull then missing name else Inr v)"
| "require_field (JList xs) name = (if JStr name \<in> set xs then Inl TypeError else missing name)"
| "require_field (JStr s) name = (if str_contains s name then Inl TypeError else missing name)"
| "require_field _ name = Inl TypeError"

definition req_str :: "json \<Rightarrow> string \<Rightarrow> string res" where
  "req_str data name = res_bind (require_field data name) py_str"

definition req_int :: "json \<Rightarrow> string \<Rightarrow> int res" where
  "req_int data name = res_bind (require_field data name) py_int"

text \<open>\<open>Decimal(str(value))\<close>. The text of a list or dict, of a bool and of \<open>None\<close> is no number.\<close>

fun decimal_field :: "string \<Rightarrow> json \<Rightarrow> decimal res" where
  "decimal_field name (JStr s) =
     (case parse_decimal s of Some d \<Rightarrow> Inr d | None \<Rightarrow> Inl (TradePlanError (name @ '' is not a valid number'')))"
| "decimal_field name (JInt i) = Inr (Dec (i < 0) (nat \<bar>i\<bar>) 0)"
| "decimal_field name (JFloat q) = Inl OutOfModel"
| "decimal_field name _ = Inl (TradePlanError (name @ '' is not a valid number''))"

definition req_decimal :: "json \<Rightarrow> string \<Rightarrow> string \<Rightarrow> decimal res" where
  "req_decimal data key name = res_bind (require_field data key) (decimal_field name)"

definition direction_field :: "json \<Rightarrow> string \<Rightarrow> string res" where
  "direction_field data name =
     res_bind (req_str data name) (\<lambda>v. if v \<notin> set DIRECTIONS then Inl (TradePlanError (name @ '' must be one of''))
       else Inr v)"

text \<open>\<open>tuple(data.get(k) or ())\<close> of a field declared as a tuple of strings.\<close>

fun json_text :: "json \<Rightarrow> string res" where
  "json_text (JStr s) = Inr s"
| "json_text _ = Inl OutOfModel"

definition tuple_field :: "json \<Rightarrow> string \<Rightarrow> string list res" where
  "tuple_field data name =
     res_bind (jget data name) (\<lambda>v. res_bind (py_iter_or_empty v) (res_map_list json_text))"

definition opt_field :: "(json \<Rightarrow> 'a res) \<Rightarrow> json \<Rightarrow> string \<Rightarrow> 'a option res" where
  "opt_field f data name = res_bind (jget data name) (opt_via f)"

definition bool_field :: "json \<Rightarrow> string \<Rightarrow> bool \<Rightarrow> bool res" where
  "bool_field data name d = res_bind (jget_default data name (JBool d)) (\<lambda>v. Inr (py_truthy v))"

definition j_decimal :: "decimal \<Rightarrow> json" where "j_decimal d = JStr (decimal_str d)"
definition j_opt_decimal :: "decimal option \<Rightarrow> json" where
  "j_opt_decimal d = (case d of None \<Rightarrow> JNull | Some x \<Rightarrow> j_decimal x)"

definition raise_if :: "bool \<Rightarrow> string \<Rightarrow> unit res" where
  "raise_if b message = (if b then Inl (TradePlanError message) else Inr ())"

section \<open>Analysis\<close>

record plan_analysis =
  an_strategy :: string
  an_strategy_family :: string
  an_direction :: string
  an_context_timeframes :: "string list"
  an_formation_timeframe :: string
  an_confirmation_timeframe :: string
  an_formation_bar_ts :: int
  an_confirmation_bar_ts :: int
  an_score :: rat
  an_confluence :: int
  an_bias :: string
  an_regime :: string
  an_reasons :: "string list"
  an_tags :: "string list"
  an_confluence_v1 :: "int option"
  an_confluence_v2 :: "int option"
  an_confluence_v2_raw :: "rat option"
  an_confluence_scoring_version :: "string option"

definition analysis_to_dict :: "plan_analysis \<Rightarrow> json" where
  "analysis_to_dict a = JObj
     [(''strategy'', JStr (an_strategy a)),
      (''strategy_family'', JStr (an_strategy_family a)),
      (''direction'', JStr (an_direction a)),
      (''context_timeframes'', JList (map JStr (an_context_timeframes a))),
      (''formation_timeframe'', JStr (an_formation_timeframe a)),
      (''confirmation_timeframe'', JStr (an_confirmation_timeframe a)),
      (''formation_bar_ts'', JInt (an_formation_bar_ts a)),
      (''confirmation_bar_ts'', JInt (an_confirmation_bar_ts a)),
      (''score'', JFloat (an_score a)),
      (''confluence'', JInt (an_confluence a)),
      (''bias'', JStr (an_bias a)),
      (''regime'', JStr (an_regime a)),
      (''reasons'', JList (map JStr (an_reasons a))),
      (''tags'', JList (map JStr (an_tags a))),
      (''confluence_v1'', j_opt_int (an_confluence_v1 a)),
      (''confluence_v2'', j_opt_int (an_confluence_v2 a)),
      (''confluence_v2_raw'', j_opt_float (an_confluence_v2_raw a)),
      (''confluence_scoring_version'', j_opt_str (an_confluence_scoring_version a))]"

definition analysis_from_dict :: "json \<Rightarrow> plan_analysis res" where
  "analysis_from_dict data =
     res_bind (req_str data ''strategy'') (\<lambda>strategy.
     res_bind (req_str data ''strategy_family'') (\<lambda>strategy_family.
     res_bind (direction_field data ''direction'') (\<lambda>direction.
     res_bind (tuple_field data ''context_timeframes'') (\<lambda>context_timeframes.
     res_bind (req_str data ''formation_timeframe'') (\<lambda>formation_timeframe.
     res_bind (req_str data ''confirmation_timeframe'') (\<lambda>confirmation_timeframe.
     res_bind (req_int data ''formation_bar_ts'') (\<lambda>formation_bar_ts.
     res_bind (req_int data ''confirmation_bar_ts'') (\<lambda>confirmation_bar_ts.
     res_bind (res_bind (jget_default data ''score'' (JFloat 0)) py_float) (\<lambda>score.
     res_bind (res_bind (jget_default data ''confluence'' (JInt 0)) py_int) (\<lambda>confluence.
     res_bind (req_str data ''bias'') (\<lambda>bias.
     res_bind (req_str data ''regime'') (\<lambda>regime.
     res_bind (tuple_field data ''reasons'') (\<lambda>reasons.
     res_bind (tuple_field data ''tags'') (\<lambda>tags.
     res_bind (opt_field py_int data ''confluence_v1'') (\<lambda>confluence_v1.
     res_bind (opt_field py_int data ''confluence_v2'') (\<lambda>confluence_v2.
     res_bind (opt_field py_float data ''confluence_v2_raw'') (\<lambda>confluence_v2_raw.
     res_bind (opt_field py_str data ''confluence_scoring_version'') (\<lambda>confluence_scoring_version.
     Inr \<lparr>an_strategy = strategy, an_strategy_family = strategy_family, an_direction = direction,
       an_context_timeframes = context_timeframes, an_formation_timeframe = formation_timeframe,
       an_confirmation_timeframe = confirmation_timeframe, an_formation_bar_ts = formation_bar_ts,
       an_confirmation_bar_ts = confirmation_bar_ts, an_score = score, an_confluence = confluence, an_bias = bias,
       an_regime = regime, an_reasons = reasons, an_tags = tags, an_confluence_v1 = confluence_v1,
       an_confluence_v2 = confluence_v2, an_confluence_v2_raw = confluence_v2_raw,
       an_confluence_scoring_version = confluence_scoring_version\<rparr>))))))))))))))))))"

section \<open>Structure, entry and stop\<close>

record plan_structure =
  ps_structure_id :: string
  ps_kind :: string
  ps_timeframe :: string
  ps_low :: decimal
  ps_high :: decimal
  ps_invalidation_price :: decimal

definition structure_to_dict :: "plan_structure \<Rightarrow> json" where
  "structure_to_dict s = JObj
     [(''structure_id'', JStr (ps_structure_id s)),
      (''kind'', JStr (ps_kind s)),
      (''timeframe'', JStr (ps_timeframe s)),
      (''low'', j_decimal (ps_low s)),
      (''high'', j_decimal (ps_high s)),
      (''invalidation_price'', j_decimal (ps_invalidation_price s))]"

definition structure_from_dict :: "json \<Rightarrow> plan_structure res" where
  "structure_from_dict data =
     res_bind (req_decimal data ''low'' ''source_structure.low'') (\<lambda>low.
     res_bind (req_decimal data ''high'' ''source_structure.high'') (\<lambda>high.
     res_bind (raise_if (dec_value low \<ge> dec_value high) ''source_structure.low must be below source_structure.high'') (\<lambda>_.
     res_bind (req_str data ''structure_id'') (\<lambda>structure_id.
     res_bind (req_str data ''kind'') (\<lambda>kind.
     res_bind (req_str data ''timeframe'') (\<lambda>timeframe.
     res_bind (req_decimal data ''invalidation_price'' ''source_structure.invalidation_price'') (\<lambda>invalidation_price.
     Inr \<lparr>ps_structure_id = structure_id, ps_kind = kind, ps_timeframe = timeframe, ps_low = low, ps_high = high,
       ps_invalidation_price = invalidation_price\<rparr>)))))))"

record entry_leg =
  el_leg_id :: string
  el_price :: decimal
  el_volume_ratio :: decimal
  el_order_type :: "string option"

definition leg_to_dict :: "entry_leg \<Rightarrow> json" where
  "leg_to_dict l = JObj
     ([(''leg_id'', JStr (el_leg_id l)),
       (''price'', j_decimal (el_price l)),
       (''volume_ratio'', j_decimal (el_volume_ratio l))] @
      (case el_order_type l of None \<Rightarrow> [] | Some t \<Rightarrow> [(''order_type'', JStr t)]))"

definition leg_from_dict :: "json \<Rightarrow> entry_leg res" where
  "leg_from_dict data =
     res_bind (req_decimal data ''volume_ratio'' ''entry.legs[].volume_ratio'') (\<lambda>ratio.
     res_bind (raise_if (dec_value ratio \<le> 0) ''entry.legs[].volume_ratio must be positive'') (\<lambda>_.
     res_bind (opt_field py_str data ''order_type'') (\<lambda>order_type.
     res_bind (raise_if (order_type \<noteq> None \<and> the order_type \<notin> set ORDER_TYPES) ''entry.legs[].order_type must be one of'')
       (\<lambda>_.
     res_bind (req_str data ''leg_id'') (\<lambda>leg_id.
     res_bind (req_decimal data ''price'' ''entry.legs[].price'') (\<lambda>price.
     Inr \<lparr>el_leg_id = leg_id, el_price = price, el_volume_ratio = ratio, el_order_type = order_type\<rparr>))))))"

record plan_entry =
  en_type :: string
  en_expires_at :: int
  en_zone_low :: "decimal option"
  en_zone_high :: "decimal option"
  en_activation :: "string option"
  en_price_side :: "string option"
  en_max_spread_ticks :: "int option"
  en_max_slippage_ticks :: "int option"
  en_order_price :: "decimal option"
  en_legs :: "entry_leg list"

definition entry_to_dict :: "plan_entry \<Rightarrow> json" where
  "entry_to_dict e = JObj
     [(''type'', JStr (en_type e)),
      (''zone_low'', j_opt_decimal (en_zone_low e)),
      (''zone_high'', j_opt_decimal (en_zone_high e)),
      (''activation'', j_opt_str (en_activation e)),
      (''price_side'', j_opt_str (en_price_side e)),
      (''max_spread_ticks'', j_opt_int (en_max_spread_ticks e)),
      (''max_slippage_ticks'', j_opt_int (en_max_slippage_ticks e)),
      (''order_price'', j_opt_decimal (en_order_price e)),
      (''expires_at'', JInt (en_expires_at e)),
      (''legs'', JList (map leg_to_dict (en_legs e)))]"

text \<open>\<open>abs(total_ratio - Decimal("1")) > Decimal("0.0001")\<close>.\<close>

definition ratios_off :: "entry_leg list \<Rightarrow> bool" where
  "ratios_off legs \<longleftrightarrow>
     \<bar>dec_value (dec_add (dec_sum (map el_volume_ratio legs)) (dec_minus (Dec False 1 0)))\<bar> > 1 / 10000"

text \<open>\<open>leg.order_type or default\<close>.\<close>

definition leg_type_or :: "entry_leg \<Rightarrow> string \<Rightarrow> string" where
  "leg_type_or l d = (case el_order_type l of None \<Rightarrow> d | Some t \<Rightarrow> if t = [] then d else t)"

text \<open>What each entry type requires; the fields \<open>activation\<close> and \<open>price_side\<close> are read from the document.\<close>

definition check_entry_type ::
  "json \<Rightarrow> string \<Rightarrow> decimal option \<Rightarrow> decimal option \<Rightarrow> decimal option \<Rightarrow> entry_leg list \<Rightarrow> unit res" where
  "check_entry_type data entry_type zone_low zone_high order_price legs =
     (if entry_type = ENTRY_TYPE_MARKET_WATCH
      then res_bind (raise_if (zone_low = None \<or> zone_high = None) ''market_watch entry requires zone_low and zone_high'') (\<lambda>_.
           res_bind (require_field data ''activation'') (\<lambda>activation.
           res_bind (raise_if (\<not> py_truthy activation) ''market_watch entry requires activation'') (\<lambda>_.
           res_bind (req_str data ''price_side'') (\<lambda>price_side.
           raise_if (price_side \<notin> {''bid'', ''ask''}) ''market_watch entry.price_side must be bid or ask''))))
      else if entry_type = ENTRY_TYPE_MARKET then raise_if (order_price = None) ''market entry requires order_price''
      else if entry_type = ENTRY_TYPE_SINGLE_LIMIT
      then raise_if (order_price = None) ''single_limit entry requires order_price''
      else if entry_type = ENTRY_TYPE_LIMIT_LADDER
      then res_bind (raise_if (legs = []) ''limit_ladder entry requires at least one leg'') (\<lambda>_.
           raise_if (ratios_off legs) ''limit_ladder entry.legs volume_ratio must sum to 1.0'')
      else if entry_type = ENTRY_TYPE_MARKET_WITH_LIMIT_SCALE
      then res_bind (raise_if (length legs < 2) ''market_with_limit_scale entry requires at least two legs'') (\<lambda>_.
           res_bind (raise_if (ratios_off legs) ''market_with_limit_scale entry.legs volume_ratio must sum to 1.0'') (\<lambda>_.
           res_bind (raise_if (leg_type_or (legs ! 0) ORDER_TYPE_MARKET \<noteq> ORDER_TYPE_MARKET)
             ''market_with_limit_scale L1 order_type must be market'') (\<lambda>_.
           raise_if (leg_type_or (legs ! 1) ORDER_TYPE_LIMIT \<noteq> ORDER_TYPE_LIMIT)
             ''market_with_limit_scale L2 order_type must be limit'')))
      else Inr ())"

definition entry_from_dict :: "json \<Rightarrow> plan_entry res" where
  "entry_from_dict data =
     res_bind (req_str data ''type'') (\<lambda>entry_type.
     res_bind (raise_if (entry_type \<notin> set ENTRY_TYPES) ''entry.type must be one of'') (\<lambda>_.
     res_bind (opt_field (decimal_field ''entry.zone_low'') data ''zone_low'') (\<lambda>zone_low.
     res_bind (opt_field (decimal_field ''entry.zone_high'') data ''zone_high'') (\<lambda>zone_high.
     res_bind (raise_if (zone_low \<noteq> None \<and> zone_high \<noteq> None \<and> dec_value (the zone_low) \<ge> dec_value (the zone_high))
       ''entry.zone_low must be below entry.zone_high'') (\<lambda>_.
     res_bind (opt_field (decimal_field ''entry.order_price'') data ''order_price'') (\<lambda>order_price.
     res_bind (res_bind (jget data ''legs'') (\<lambda>v. res_bind (py_iter_or_empty v) (res_map_list leg_from_dict))) (\<lambda>legs.
     res_bind (check_entry_type data entry_type zone_low zone_high order_price legs) (\<lambda>_.
     res_bind (res_bind (jget data ''activation'') field_opt_str) (\<lambda>activation.
     res_bind (res_bind (jget data ''price_side'') field_opt_str) (\<lambda>price_side.
     res_bind (res_bind (jget data ''max_spread_ticks'') field_opt_int) (\<lambda>max_spread_ticks.
     res_bind (res_bind (jget data ''max_slippage_ticks'') field_opt_int) (\<lambda>max_slippage_ticks.
     res_bind (req_int data ''expires_at'') (\<lambda>expires_at.
     Inr \<lparr>en_type = entry_type, en_expires_at = expires_at, en_zone_low = zone_low, en_zone_high = zone_high,
       en_activation = activation, en_price_side = price_side, en_max_spread_ticks = max_spread_ticks,
       en_max_slippage_ticks = max_slippage_ticks, en_order_price = order_price, en_legs = legs\<rparr>)))))))))))))"

text \<open>Every price at which the entry could fill. The \<open>assert\<close> statements hold for every parsed entry.\<close>

definition entry_prices :: "plan_entry \<Rightarrow> decimal list" where
  "entry_prices e =
     (if en_type e = ENTRY_TYPE_MARKET_WATCH then [the (en_zone_low e), the (en_zone_high e)]
      else if en_type e \<in> {ENTRY_TYPE_MARKET, ENTRY_TYPE_SINGLE_LIMIT} then [the (en_order_price e)]
      else map el_price (en_legs e))"

record plan_stop =
  st_type :: string
  st_price :: decimal
  st_source :: string
  st_structure_id :: "string option"
  st_reason :: string

definition stop_to_dict :: "plan_stop \<Rightarrow> json" where
  "stop_to_dict s = JObj
     [(''type'', JStr (st_type s)),
      (''price'', j_decimal (st_price s)),
      (''source'', JStr (st_source s)),
      (''structure_id'', j_opt_str (st_structure_id s)),
      (''reason'', JStr (st_reason s))]"

definition stop_from_dict :: "json \<Rightarrow> plan_stop res" where
  "stop_from_dict data =
     res_bind (req_str data ''type'') (\<lambda>stop_type.
     res_bind (raise_if (stop_type \<noteq> ''absolute'') ''stop.type must be absolute'') (\<lambda>_.
     res_bind (req_decimal data ''price'' ''stop.price'') (\<lambda>price.
     res_bind (raise_if (dec_value price \<le> 0) ''stop.price must be positive'') (\<lambda>_.
     res_bind (req_str data ''source'') (\<lambda>source.
     res_bind (res_bind (jget data ''structure_id'') field_opt_str) (\<lambda>structure_id.
     res_bind (res_bind (jget_default data ''reason'' (JStr [])) py_str) (\<lambda>reason.
     Inr \<lparr>st_type = stop_type, st_price = price, st_source = source, st_structure_id = structure_id,
       st_reason = reason\<rparr>)))))))"

section \<open>Targets, risk and sizing\<close>

record plan_target =
  tg_target_id :: string
  tg_type :: string
  tg_price :: decimal
  tg_close_ratio :: decimal

definition target_to_dict :: "plan_target \<Rightarrow> json" where
  "target_to_dict t = JObj
     [(''target_id'', JStr (tg_target_id t)),
      (''type'', JStr (tg_type t)),
      (''price'', j_decimal (tg_price t)),
      (''close_ratio'', j_decimal (tg_close_ratio t))]"

definition target_from_dict :: "json \<Rightarrow> plan_target res" where
  "target_from_dict data =
     res_bind (req_str data ''type'') (\<lambda>target_type.
     res_bind (raise_if (target_type \<noteq> ''absolute'') ''target.type must be absolute'') (\<lambda>_.
     res_bind (req_decimal data ''close_ratio'' ''target.close_ratio'') (\<lambda>ratio.
     res_bind (raise_if (dec_value ratio \<le> 0 \<or> dec_value ratio > 1) ''target.close_ratio must be in (0, 1]'') (\<lambda>_.
     res_bind (req_str data ''target_id'') (\<lambda>target_id.
     res_bind (req_decimal data ''price'' ''target.price'') (\<lambda>price.
     Inr \<lparr>tg_target_id = target_id, tg_type = target_type, tg_price = price, tg_close_ratio = ratio\<rparr>))))))"

record plan_risk =
  ri_risk_percent :: decimal
  ri_risk_multiplier :: decimal
  ri_max_volume :: int
  ri_max_group_risk_percent :: decimal

definition risk_to_dict :: "plan_risk \<Rightarrow> json" where
  "risk_to_dict r = JObj
     [(''risk_percent'', j_decimal (ri_risk_percent r)),
      (''risk_multiplier'', j_decimal (ri_risk_multiplier r)),
      (''max_volume'', JInt (ri_max_volume r)),
      (''max_group_risk_percent'', j_decimal (ri_max_group_risk_percent r))]"

definition risk_from_dict :: "json \<Rightarrow> plan_risk res" where
  "risk_from_dict data =
     res_bind (req_decimal data ''risk_percent'' ''risk.risk_percent'') (\<lambda>risk_percent.
     res_bind (raise_if (dec_value risk_percent \<le> 0) ''risk.risk_percent must be positive'') (\<lambda>_.
     res_bind (res_bind (jget_default data ''risk_multiplier'' (JStr ''1.0'')) (decimal_field ''risk.risk_multiplier''))
       (\<lambda>risk_multiplier.
     res_bind (req_int data ''max_volume'') (\<lambda>max_volume.
     res_bind (req_decimal data ''max_group_risk_percent'' ''risk.max_group_risk_percent'') (\<lambda>max_group_risk_percent.
     Inr \<lparr>ri_risk_percent = risk_percent, ri_risk_multiplier = risk_multiplier, ri_max_volume = max_volume,
       ri_max_group_risk_percent = max_group_risk_percent\<rparr>)))))"

record plan_sizing =
  sz_mode :: string
  sz_table_version :: string
  sz_entry_distribution :: string
  sz_leg_ratios :: "decimal list"

definition sizing_to_dict :: "plan_sizing \<Rightarrow> json" where
  "sizing_to_dict s = JObj
     [(''mode'', JStr (sz_mode s)),
      (''table_version'', JStr (sz_table_version s)),
      (''entry_distribution'', JStr (sz_entry_distribution s)),
      (''leg_ratios'', JList (map j_decimal (sz_leg_ratios s)))]"

definition sizing_from_dict :: "json \<Rightarrow> plan_sizing res" where
  "sizing_from_dict data =
     res_bind (req_str data ''mode'') (\<lambda>mode.
     res_bind (res_bind (jget data ''leg_ratios'')
       (\<lambda>v. res_bind (py_iter_or_empty v) (res_map_list (decimal_field ''sizing.leg_ratios[]'')))) (\<lambda>ratios.
     res_bind (req_str data ''table_version'') (\<lambda>table_version.
     res_bind (req_str data ''entry_distribution'') (\<lambda>entry_distribution.
     Inr \<lparr>sz_mode = mode, sz_table_version = table_version, sz_entry_distribution = entry_distribution,
       sz_leg_ratios = ratios\<rparr>))))"

section \<open>Management, policy and provenance\<close>

record plan_management =
  mg_be_after_target_id :: "string option"
  mg_be_buffer_ticks :: int
  mg_never_worsen_stop :: bool
  mg_trail_after_target_id :: "string option"
  mg_trail_to_target_id :: "string option"

definition management_to_dict :: "plan_management \<Rightarrow> json" where
  "management_to_dict m = JObj
     [(''be_after_target_id'', j_opt_str (mg_be_after_target_id m)),
      (''be_buffer_ticks'', JInt (mg_be_buffer_ticks m)),
      (''never_worsen_stop'', JBool (mg_never_worsen_stop m)),
      (''trail_after_target_id'', j_opt_str (mg_trail_after_target_id m)),
      (''trail_to_target_id'', j_opt_str (mg_trail_to_target_id m))]"

definition management_from_dict :: "json \<Rightarrow> plan_management res" where
  "management_from_dict data =
     res_bind (res_bind (jget data ''be_after_target_id'') field_opt_str) (\<lambda>be_after.
     res_bind (res_bind (jget_default data ''be_buffer_ticks'' (JInt 0)) py_int) (\<lambda>be_buffer.
     res_bind (bool_field data ''never_worsen_stop'' True) (\<lambda>never_worsen.
     res_bind (res_bind (jget data ''trail_after_target_id'') field_opt_str) (\<lambda>trail_after.
     res_bind (res_bind (jget data ''trail_to_target_id'') field_opt_str) (\<lambda>trail_to.
     Inr \<lparr>mg_be_after_target_id = be_after, mg_be_buffer_ticks = be_buffer, mg_never_worsen_stop = never_worsen,
       mg_trail_after_target_id = trail_after, mg_trail_to_target_id = trail_to\<rparr>)))))"

record plan_policy =
  po_allow_market :: bool
  po_allow_limit :: bool
  po_allow_partial_fill :: bool
  po_cancel_on_expiry :: bool

definition policy_to_dict :: "plan_policy \<Rightarrow> json" where
  "policy_to_dict p = JObj
     [(''allow_market'', JBool (po_allow_market p)),
      (''allow_limit'', JBool (po_allow_limit p)),
      (''allow_partial_fill'', JBool (po_allow_partial_fill p)),
      (''cancel_on_expiry'', JBool (po_cancel_on_expiry p))]"

definition policy_from_dict :: "json \<Rightarrow> plan_policy res" where
  "policy_from_dict data =
     res_bind (bool_field data ''allow_market'' True) (\<lambda>market.
     res_bind (bool_field data ''allow_limit'' True) (\<lambda>limit.
     res_bind (bool_field data ''allow_partial_fill'' True) (\<lambda>partial.
     res_bind (bool_field data ''cancel_on_expiry'' True) (\<lambda>cancel.
     Inr \<lparr>po_allow_market = market, po_allow_limit = limit, po_allow_partial_fill = partial,
       po_cancel_on_expiry = cancel\<rparr>))))"

record plan_provenance =
  pv_analysis_engine_version :: string
  pv_market_map_id :: string
  pv_config_fingerprint :: string
  pv_confirmation_source :: string
  pv_confirmation_bar_ts :: "int option"
  pv_zone_episode_id :: "string option"

definition provenance_to_dict :: "plan_provenance \<Rightarrow> json" where
  "provenance_to_dict p = JObj
     [(''analysis_engine_version'', JStr (pv_analysis_engine_version p)),
      (''market_map_id'', JStr (pv_market_map_id p)),
      (''config_fingerprint'', JStr (pv_config_fingerprint p)),
      (''confirmation_source'', JStr (pv_confirmation_source p)),
      (''confirmation_bar_ts'', j_opt_int (pv_confirmation_bar_ts p)),
      (''zone_episode_id'', j_opt_str (pv_zone_episode_id p))]"

definition provenance_from_dict :: "json \<Rightarrow> plan_provenance res" where
  "provenance_from_dict data =
     res_bind (res_bind (jget_default data ''analysis_engine_version'' (JStr [])) py_str) (\<lambda>engine.
     res_bind (res_bind (jget_default data ''market_map_id'' (JStr [])) py_str) (\<lambda>map_id.
     res_bind (res_bind (jget_default data ''config_fingerprint'' (JStr [])) py_str) (\<lambda>fingerprint.
     res_bind (res_bind (jget_default data ''confirmation_source'' (JStr [])) py_str) (\<lambda>source.
     res_bind (opt_field py_int data ''confirmation_bar_ts'') (\<lambda>bar_ts.
     res_bind (opt_field py_str data ''zone_episode_id'') (\<lambda>episode.
     Inr \<lparr>pv_analysis_engine_version = engine, pv_market_map_id = map_id, pv_config_fingerprint = fingerprint,
       pv_confirmation_source = source, pv_confirmation_bar_ts = bar_ts, pv_zone_episode_id = episode\<rparr>))))))"

section \<open>The plan\<close>

record trade_plan =
  tp_version :: int
  tp_plan_id :: string
  tp_thesis_id :: string
  tp_setup_id :: string
  tp_symbol :: string
  tp_created_at :: int
  tp_expires_at :: int
  tp_analysis :: plan_analysis
  tp_source_structure :: plan_structure
  tp_entry :: plan_entry
  tp_stop :: plan_stop
  tp_targets :: "plan_target list"
  tp_risk :: plan_risk
  tp_management :: plan_management
  tp_execution_policy :: plan_policy
  tp_provenance :: plan_provenance
  tp_sizing :: "plan_sizing option"

definition plan_to_dict :: "trade_plan \<Rightarrow> json" where
  "plan_to_dict p = JObj
     ([(''version'', JInt (tp_version p)),
       (''plan_id'', JStr (tp_plan_id p)),
       (''thesis_id'', JStr (tp_thesis_id p)),
       (''setup_id'', JStr (tp_setup_id p)),
       (''symbol'', JStr (tp_symbol p)),
       (''created_at'', JInt (tp_created_at p)),
       (''expires_at'', JInt (tp_expires_at p)),
       (''analysis'', analysis_to_dict (tp_analysis p)),
       (''source_structure'', structure_to_dict (tp_source_structure p)),
       (''entry'', entry_to_dict (tp_entry p)),
       (''stop'', stop_to_dict (tp_stop p)),
       (''targets'', JList (map target_to_dict (tp_targets p))),
       (''risk'', risk_to_dict (tp_risk p)),
       (''management'', management_to_dict (tp_management p)),
       (''execution_policy'', policy_to_dict (tp_execution_policy p)),
       (''provenance'', provenance_to_dict (tp_provenance p))] @
      (case tp_sizing p of None \<Rightarrow> [] | Some s \<Rightarrow> [(''sizing'', sizing_to_dict s)]))"

text \<open>\<open>list.index\<close>, for an element of the list.\<close>

fun index_of :: "'a \<Rightarrow> 'a list \<Rightarrow> nat" where
  "index_of x [] = 0"
| "index_of x (y # ys) = (if x = y then 0 else Suc (index_of x ys))"

definition validate_targets :: "string \<Rightarrow> decimal list \<Rightarrow> plan_target list \<Rightarrow> unit res" where
  "validate_targets direction entries targets =
     (let prices = map (\<lambda>t. dec_value (tg_price t)) targets; entry_values = map dec_value entries in
      if direction = ''BUY''
      then res_bind (raise_if (list_ex (\<lambda>price. price \<le> Max (set entry_values)) prices)
             ''BUY targets must all be above the entry zone'') (\<lambda>_.
           raise_if (prices \<noteq> sort prices) ''BUY targets must be ordered TP1 < TP2 < TP3 ...'')
      else res_bind (raise_if (list_ex (\<lambda>price. price \<ge> Min (set entry_values)) prices)
             ''SELL targets must all be below the entry zone'') (\<lambda>_.
           raise_if (prices \<noteq> rev (sort prices)) ''SELL targets must be ordered TP1 > TP2 > TP3 ...''))"

definition validate_management :: "plan_management \<Rightarrow> plan_target list \<Rightarrow> unit res" where
  "validate_management m targets =
     (let ids = map tg_target_id targets in
      res_bind (raise_if (mg_be_after_target_id m \<noteq> None \<and> the (mg_be_after_target_id m) \<notin> set ids)
        ''management.be_after_target_id is not one of the declared targets'') (\<lambda>_.
      res_bind (raise_if ((mg_trail_after_target_id m = None) \<noteq> (mg_trail_to_target_id m = None))
        ''management.trail_after_target_id and trail_to_target_id must be set together'') (\<lambda>_.
      case (mg_trail_after_target_id m, mg_trail_to_target_id m) of
        (Some after, Some to) \<Rightarrow>
          res_bind (raise_if (after \<notin> set ids) ''management.trail_after_target_id is not one of the declared targets'') (\<lambda>_.
          res_bind (raise_if (to \<notin> set ids) ''management.trail_to_target_id is not one of the declared targets'') (\<lambda>_.
          res_bind (raise_if (index_of to ids \<ge> index_of after ids)
            ''management.trail_to_target_id must precede trail_after_target_id'') (\<lambda>_.
          raise_if (int (index_of after ids) \<ge> int (length ids) - 1)
            ''management.trail_after_target_id must precede the final target'')))
      | _ \<Rightarrow> Inr ())))"

definition validate_plan :: "trade_plan \<Rightarrow> unit res" where
  "validate_plan p =
     (let direction = an_direction (tp_analysis p); entries = entry_prices (tp_entry p);
          stop = dec_value (st_price (tp_stop p)) in
      res_bind (raise_if (entries = []) ''entry has no resolvable prices'') (\<lambda>_.
      res_bind (if direction = ''BUY''
         then raise_if (list_ex (\<lambda>price. stop \<ge> dec_value price) entries) ''BUY stop.price must be below every entry price''
         else raise_if (list_ex (\<lambda>price. stop \<le> dec_value price) entries) ''SELL stop.price must be above every entry price'') (\<lambda>_.
      res_bind (raise_if (tp_targets p = []) ''plan must declare at least one target'') (\<lambda>_.
      res_bind (validate_targets direction entries (tp_targets p)) (\<lambda>_.
      res_bind (raise_if (dec_value (dec_sum (map tg_close_ratio (tp_targets p))) > 10001 / 10000)
        ''target close_ratio total exceeds 1.0'') (\<lambda>_.
      validate_management (tp_management p) (tp_targets p)))))))"

text \<open>\<open>for target in _require(data, "targets")\<close> and \<open>data.get(k) or {}\<close>.\<close>

definition or_empty_dict :: "json \<Rightarrow> string \<Rightarrow> json res" where
  "or_empty_dict data name = res_bind (jget data name) (\<lambda>v. Inr (py_or v (JObj [])))"

definition plan_from_dict :: "json \<Rightarrow> trade_plan res" where
  "plan_from_dict data =
     res_bind (req_int data ''version'') (\<lambda>version.
     res_bind (raise_if (version \<notin> set TRADE_PLAN_SUPPORTED_VERSIONS) ''unsupported TradePlan version'') (\<lambda>_.
     res_bind (jget data ''sizing'') (\<lambda>sizing_data.
     res_bind (req_str data ''plan_id'') (\<lambda>plan_id.
     res_bind (req_str data ''thesis_id'') (\<lambda>thesis_id.
     res_bind (req_str data ''setup_id'') (\<lambda>setup_id.
     res_bind (req_str data ''symbol'') (\<lambda>symbol.
     res_bind (req_int data ''created_at'') (\<lambda>created_at.
     res_bind (req_int data ''expires_at'') (\<lambda>expires_at.
     res_bind (res_bind (require_field data ''analysis'') analysis_from_dict) (\<lambda>analysis.
     res_bind (res_bind (require_field data ''source_structure'') structure_from_dict) (\<lambda>source_structure.
     res_bind (res_bind (require_field data ''entry'') entry_from_dict) (\<lambda>entry.
     res_bind (res_bind (require_field data ''stop'') stop_from_dict) (\<lambda>stop.
     res_bind (res_bind (require_field data ''targets'')
       (\<lambda>v. res_bind (py_iter v) (res_map_list target_from_dict))) (\<lambda>targets.
     res_bind (res_bind (require_field data ''risk'') risk_from_dict) (\<lambda>risk.
     res_bind (res_bind (or_empty_dict data ''management'') management_from_dict) (\<lambda>management.
     res_bind (res_bind (or_empty_dict data ''execution_policy'') policy_from_dict) (\<lambda>policy.
     res_bind (res_bind (or_empty_dict data ''provenance'') provenance_from_dict) (\<lambda>provenance.
     res_bind (opt_via sizing_from_dict sizing_data) (\<lambda>sizing.
     let plan = \<lparr>tp_version = version, tp_plan_id = plan_id, tp_thesis_id = thesis_id, tp_setup_id = setup_id,
       tp_symbol = symbol, tp_created_at = created_at, tp_expires_at = expires_at, tp_analysis = analysis,
       tp_source_structure = source_structure, tp_entry = entry, tp_stop = stop, tp_targets = targets, tp_risk = risk,
       tp_management = management, tp_execution_policy = policy, tp_provenance = provenance, tp_sizing = sizing\<rparr>
     in res_bind (validate_plan plan) (\<lambda>_. Inr plan))))))))))))))))))))"

section \<open>Parsers as relations\<close>

lemma raise_if_Inr [simp]: "raise_if b m = Inr u \<longleftrightarrow> \<not> b"
  by (simp add: raise_if_def)

lemma raise_if_False [simp]: "raise_if False m = Inr ()"
  by (simp add: raise_if_def)

lemma decimal_roundtrip [simp]:
  "decimal_field n (j_decimal d) = Inr d" "opt_via (decimal_field n) (j_opt_decimal x) = Inr x"
  by (simp_all add: j_decimal_def j_opt_decimal_def parse_decimal_str opt_via_def split: option.split)

lemma json_texts [simp]: "res_bind (py_iter_or_empty (JList (map JStr xs))) (res_map_list json_text) = Inr xs"
proof -
  have "res_map_list json_text (map JStr xs) = Inr xs" by (induction xs) auto
  then show ?thesis by (cases xs) (simp_all add: py_iter_or_empty_def)
qed

lemma list_via [simp]:
  assumes "\<And>x. x \<in> set xs \<Longrightarrow> g (f x) = Inr x"
  shows "res_bind (py_iter_or_empty (JList (map f xs))) (res_map_list g) = Inr xs"
    and "res_map_list g (map f xs) = Inr xs"
proof -
  show m: "res_map_list g (map f xs) = Inr xs" using assms by (induction xs) auto
  then show "res_bind (py_iter_or_empty (JList (map f xs))) (res_map_list g) = Inr xs"
    by (cases xs) (simp_all add: py_iter_or_empty_def)
qed

lemmas field_defs =
  req_str_def req_int_def req_decimal_def tuple_field_def opt_field_def bool_field_def or_empty_dict_def

lemma j_simps [simp]:
  "j_decimal d \<noteq> JNull" "analysis_to_dict a \<noteq> JNull" "structure_to_dict s \<noteq> JNull" "entry_to_dict e \<noteq> JNull"
  "stop_to_dict st \<noteq> JNull" "risk_to_dict r \<noteq> JNull" "sizing_to_dict z \<noteq> JNull"
  by (simp_all add: j_decimal_def analysis_to_dict_def structure_to_dict_def entry_to_dict_def stop_to_dict_def
      risk_to_dict_def sizing_to_dict_def)

lemma analysis_roundtrip [simp]:
  "an_direction a \<in> set DIRECTIONS \<Longrightarrow> analysis_from_dict (analysis_to_dict a) = Inr a"
  unfolding analysis_from_dict_def analysis_to_dict_def
  by (simp add: field_defs direction_field_def)

section \<open>Well-formed parts\<close>

definition leg_ok :: "entry_leg \<Rightarrow> bool" where
  "leg_ok l \<longleftrightarrow> 0 < dec_value (el_volume_ratio l) \<and> pred_option (\<lambda>t. t \<in> set ORDER_TYPES) (el_order_type l)"

definition entry_shape :: "plan_entry \<Rightarrow> bool" where
  "entry_shape e \<longleftrightarrow>
     (if en_type e = ENTRY_TYPE_MARKET_WATCH
      then en_zone_low e \<noteq> None \<and> en_zone_high e \<noteq> None \<and> en_activation e \<notin> {None, Some []} \<and>
        en_price_side e \<in> {Some ''bid'', Some ''ask''}
      else if en_type e \<in> {ENTRY_TYPE_MARKET, ENTRY_TYPE_SINGLE_LIMIT} then en_order_price e \<noteq> None
      else if en_type e = ENTRY_TYPE_LIMIT_LADDER then en_legs e \<noteq> [] \<and> \<not> ratios_off (en_legs e)
      else 2 \<le> length (en_legs e) \<and> \<not> ratios_off (en_legs e) \<and>
        leg_type_or (en_legs e ! 0) ORDER_TYPE_MARKET = ORDER_TYPE_MARKET \<and>
        leg_type_or (en_legs e ! 1) ORDER_TYPE_LIMIT = ORDER_TYPE_LIMIT)"

definition entry_ok :: "plan_entry \<Rightarrow> bool" where
  "entry_ok e \<longleftrightarrow> en_type e \<in> set ENTRY_TYPES \<and> entry_shape e \<and> (\<forall>l \<in> set (en_legs e). leg_ok l) \<and>
     (en_zone_low e \<noteq> None \<longrightarrow> en_zone_high e \<noteq> None \<longrightarrow> dec_value (the (en_zone_low e)) < dec_value (the (en_zone_high e)))"

definition target_ok :: "plan_target \<Rightarrow> bool" where
  "target_ok t \<longleftrightarrow> tg_type t = ''absolute'' \<and> 0 < dec_value (tg_close_ratio t) \<and> dec_value (tg_close_ratio t) \<le> 1"

definition parts_ok :: "trade_plan \<Rightarrow> bool" where
  "parts_ok p \<longleftrightarrow> tp_version p = TRADE_PLAN_VERSION \<and> an_direction (tp_analysis p) \<in> set DIRECTIONS \<and>
     dec_value (ps_low (tp_source_structure p)) < dec_value (ps_high (tp_source_structure p)) \<and>
     entry_ok (tp_entry p) \<and> st_type (tp_stop p) = ''absolute'' \<and> 0 < dec_value (st_price (tp_stop p)) \<and>
     (\<forall>t \<in> set (tp_targets p). target_ok t) \<and> 0 < dec_value (ri_risk_percent (tp_risk p))"

subsection \<open>Well-formed parts are read back\<close>

lemma structure_roundtrip [simp]:
  "dec_value (ps_low s) < dec_value (ps_high s) \<Longrightarrow> structure_from_dict (structure_to_dict s) = Inr s"
  unfolding structure_from_dict_def structure_to_dict_def by (simp add: field_defs)

lemma leg_roundtrip [simp]: "leg_ok l \<Longrightarrow> leg_from_dict (leg_to_dict l) = Inr l"
  unfolding leg_from_dict_def leg_to_dict_def
  by (cases "el_order_type l") (simp_all add: field_defs leg_ok_def opt_via_def)

lemma check_entry_shape:
  assumes "en_type e \<in> set ENTRY_TYPES"
  shows "check_entry_type (entry_to_dict e) (en_type e) (en_zone_low e) (en_zone_high e) (en_order_price e) (en_legs e) =
     Inr () \<longleftrightarrow> entry_shape e"
proof -
  have a: "require_field (entry_to_dict e) ''activation'' =
      (case en_activation e of None \<Rightarrow> missing ''activation'' | Some s \<Rightarrow> Inr (JStr s))"
    and p: "req_str (entry_to_dict e) ''price_side'' =
      (case en_price_side e of None \<Rightarrow> missing ''price_side'' | Some s \<Rightarrow> Inr s)"
    by (simp_all add: entry_to_dict_def req_str_def j_opt_str_def missing_def split: option.split)
  show ?thesis
    using assms unfolding check_entry_type_def entry_shape_def ENTRY_TYPES_def
    by (auto simp: a p missing_def res_bind_Inr_iff entry_types split: option.splits)
qed

lemma entry_fields:
  "req_str (entry_to_dict e) ''type'' = Inr (en_type e)"
  "opt_field (decimal_field n) (entry_to_dict e) ''zone_low'' = Inr (en_zone_low e)"
  "opt_field (decimal_field n) (entry_to_dict e) ''zone_high'' = Inr (en_zone_high e)"
  "opt_field (decimal_field n) (entry_to_dict e) ''order_price'' = Inr (en_order_price e)"
  "res_bind (jget (entry_to_dict e) ''activation'') field_opt_str = Inr (en_activation e)"
  "res_bind (jget (entry_to_dict e) ''price_side'') field_opt_str = Inr (en_price_side e)"
  "res_bind (jget (entry_to_dict e) ''max_spread_ticks'') field_opt_int = Inr (en_max_spread_ticks e)"
  "res_bind (jget (entry_to_dict e) ''max_slippage_ticks'') field_opt_int = Inr (en_max_slippage_ticks e)"
  "req_int (entry_to_dict e) ''expires_at'' = Inr (en_expires_at e)"
  "jget (entry_to_dict e) ''legs'' = Inr (JList (map leg_to_dict (en_legs e)))"
  by (simp_all add: entry_to_dict_def field_defs)

lemma entry_roundtrip [simp]:
  assumes e: "entry_ok e"
  shows "entry_from_dict (entry_to_dict e) = Inr e"
proof -
  have t: "en_type e \<in> set ENTRY_TYPES" using e by (simp add: entry_ok_def)
  have c: "check_entry_type (entry_to_dict e) (en_type e) (en_zone_low e) (en_zone_high e) (en_order_price e)
      (en_legs e) = Inr ()"
    using e by (simp add: entry_ok_def check_entry_shape)
  have l: "res_bind (py_iter_or_empty (JList (map leg_to_dict (en_legs e)))) (res_map_list leg_from_dict) = Inr (en_legs e)"
    using e by (intro list_via) (simp add: entry_ok_def)
  have z: "raise_if (en_zone_low e \<noteq> None \<and> en_zone_high e \<noteq> None \<and>
      dec_value (the (en_zone_low e)) \<ge> dec_value (the (en_zone_high e))) m = Inr ()" for m
    using e by (auto simp: entry_ok_def)
  show ?thesis unfolding entry_from_dict_def entry_fields res_bind.simps z c l using t by simp
qed

lemma stop_roundtrip [simp]:
  "st_type s = ''absolute'' \<Longrightarrow> 0 < dec_value (st_price s) \<Longrightarrow> stop_from_dict (stop_to_dict s) = Inr s"
  unfolding stop_from_dict_def stop_to_dict_def by (simp add: field_defs)

lemma target_roundtrip [simp]: "target_ok t \<Longrightarrow> target_from_dict (target_to_dict t) = Inr t"
  unfolding target_from_dict_def target_to_dict_def by (simp add: field_defs target_ok_def)

lemma risk_roundtrip [simp]: "0 < dec_value (ri_risk_percent r) \<Longrightarrow> risk_from_dict (risk_to_dict r) = Inr r"
  unfolding risk_from_dict_def risk_to_dict_def by (simp add: field_defs)

lemma sizing_roundtrip [simp]: "sizing_from_dict (sizing_to_dict s) = Inr s"
  unfolding sizing_from_dict_def sizing_to_dict_def by (simp add: field_defs)

lemma management_roundtrip [simp]: "management_from_dict (management_to_dict m) = Inr m"
  unfolding management_from_dict_def management_to_dict_def by (simp add: field_defs)

lemma policy_roundtrip [simp]: "policy_from_dict (policy_to_dict p) = Inr p"
  unfolding policy_from_dict_def policy_to_dict_def by (simp add: field_defs)

lemma provenance_roundtrip [simp]: "provenance_from_dict (provenance_to_dict p) = Inr p"
  unfolding provenance_from_dict_def provenance_to_dict_def by (simp add: field_defs)

lemma or_dicts [simp]:
  "py_or (management_to_dict m) d = management_to_dict m" "py_or (policy_to_dict p) d = policy_to_dict p"
  "py_or (provenance_to_dict v) d = provenance_to_dict v"
  by (simp_all add: py_or_def management_to_dict_def policy_to_dict_def provenance_to_dict_def)

lemma plan_roundtrip_ok:
  assumes "parts_ok p" "validate_plan p = Inr ()"
  shows "plan_from_dict (plan_to_dict p) = Inr p"
proof -
  have "res_map_list target_from_dict (map target_to_dict (tp_targets p)) = Inr (tp_targets p)"
    using assms(1) by (intro list_via) (simp add: parts_ok_def)
  then show ?thesis
    using assms unfolding plan_from_dict_def plan_to_dict_def
    by (cases p; cases "tp_sizing p")
      (simp_all add: field_defs parts_ok_def TRADE_PLAN_SUPPORTED_VERSIONS_def TRADE_PLAN_VERSION_def opt_via_def)
qed

subsection \<open>Accepted documents have well-formed parts\<close>

lemma res_map_list_all:
  "res_map_list f xs = Inr ys \<Longrightarrow> (\<And>x y. f x = Inr y \<Longrightarrow> P y) \<Longrightarrow> \<forall>y \<in> set ys. P y"
  by (induction xs arbitrary: ys) (auto simp: res_bind_Inr_iff)

lemma analysis_accepted: "analysis_from_dict j = Inr a \<Longrightarrow> an_direction a \<in> set DIRECTIONS"
  unfolding analysis_from_dict_def direction_field_def by (auto simp: res_bind_Inr_iff split: if_splits)

lemma structure_accepted: "structure_from_dict j = Inr s \<Longrightarrow> dec_value (ps_low s) < dec_value (ps_high s)"
  unfolding structure_from_dict_def by (auto simp: res_bind_Inr_iff)

lemma leg_accepted: "leg_from_dict j = Inr l \<Longrightarrow> leg_ok l"
  unfolding leg_from_dict_def leg_ok_def by (auto simp: res_bind_Inr_iff option.pred_set)

lemma stop_accepted: "stop_from_dict j = Inr s \<Longrightarrow> st_type s = ''absolute'' \<and> 0 < dec_value (st_price s)"
  unfolding stop_from_dict_def by (auto simp: res_bind_Inr_iff)

lemma target_accepted: "target_from_dict j = Inr t \<Longrightarrow> target_ok t"
  unfolding target_from_dict_def target_ok_def by (auto simp: res_bind_Inr_iff)

lemma risk_accepted: "risk_from_dict j = Inr r \<Longrightarrow> 0 < dec_value (ri_risk_percent r)"
  unfolding risk_from_dict_def by (auto simp: res_bind_Inr_iff)

lemma field_opt_str_present:
  "require_field j k = Inr v \<Longrightarrow> jget j k = Inr w \<Longrightarrow> v = w \<and> v \<noteq> JNull"
  by (cases j) (auto simp: missing_def split: option.splits if_splits)

lemma entry_accepted: "entry_from_dict j = Inr e \<Longrightarrow> entry_ok e"
proof -
  assume "entry_from_dict j = Inr e"
  then obtain raw a s where
    t: "en_type e \<in> set ENTRY_TYPES" and
    z: "\<not> (en_zone_low e \<noteq> None \<and> en_zone_high e \<noteq> None \<and>
      dec_value (the (en_zone_low e)) \<ge> dec_value (the (en_zone_high e)))" and
    l: "res_map_list leg_from_dict raw = Inr (en_legs e)" and
    c: "check_entry_type j (en_type e) (en_zone_low e) (en_zone_high e) (en_order_price e) (en_legs e) = Inr ()" and
    a: "jget j ''activation'' = Inr a" "field_opt_str a = Inr (en_activation e)" and
    s: "jget j ''price_side'' = Inr s" "field_opt_str s = Inr (en_price_side e)"
    unfolding entry_from_dict_def by (auto simp: res_bind_Inr_iff)
  have legs: "\<forall>l \<in> set (en_legs e). leg_ok l" using res_map_list_all [OF l] leg_accepted by blast
  have "entry_shape e"
  proof (cases "en_type e = ENTRY_TYPE_MARKET_WATCH")
    case True
    with c obtain v w where v: "require_field j ''activation'' = Inr v" "py_truthy v"
      and w: "require_field j ''price_side'' = Inr w" "py_str w \<in> {Inr ''bid'', Inr ''ask''}"
      and zs: "en_zone_low e \<noteq> None" "en_zone_high e \<noteq> None"
      by (auto simp: check_entry_type_def res_bind_Inr_iff req_str_def)
    have "v = a" "w = s" using field_opt_str_present v(1) w(1) a(1) s(1) by blast+
    have "en_activation e \<notin> {None, Some []}"
      using a(2) v(2) \<open>v = a\<close> by (cases a; cases "en_activation e") auto
    moreover have "en_price_side e \<in> {Some ''bid'', Some ''ask''}"
      using s(2) w \<open>w = s\<close> field_opt_str_present [OF w(1) s(1)]
      by (cases s; cases "en_price_side e") auto
    ultimately show ?thesis using True zs by (simp add: entry_shape_def)
  next
    case False
    with c t show ?thesis
      by (auto simp: check_entry_type_def entry_shape_def ENTRY_TYPES_def res_bind_Inr_iff split: if_splits)
  qed
  with t z legs show ?thesis by (auto simp: entry_ok_def)
qed

lemma plan_accepted:
  assumes "plan_from_dict j = Inr p"
  shows "parts_ok p" "validate_plan p = Inr ()"
proof -
  from assms obtain ja js je jt jl jr targets where
    "tp_version p \<in> set TRADE_PLAN_SUPPORTED_VERSIONS" "analysis_from_dict ja = Inr (tp_analysis p)"
    "structure_from_dict js = Inr (tp_source_structure p)" "entry_from_dict je = Inr (tp_entry p)"
    "stop_from_dict jt = Inr (tp_stop p)" "res_map_list target_from_dict jl = Inr (tp_targets p)"
    "risk_from_dict jr = Inr (tp_risk p)" "validate_plan p = Inr ()"
    unfolding plan_from_dict_def by (auto simp: res_bind_Inr_iff Let_def)
  note parts = this
  have "\<forall>t \<in> set (tp_targets p). target_ok t" using res_map_list_all [OF parts(6)] target_accepted by blast
  with parts show "parts_ok p" "validate_plan p = Inr ()"
    by (simp_all add: parts_ok_def analysis_accepted structure_accepted entry_accepted stop_accepted risk_accepted
        TRADE_PLAN_SUPPORTED_VERSIONS_def TRADE_PLAN_VERSION_def)
qed

section \<open>What a safe plan is\<close>

text \<open>The stop is on the losing side of every price at which the entry can fill, every target on the winning side of
  all of them, the targets lead away from the entry, and break-even and trailing refer to declared targets, the trailing
  stop to one before the target it trails from, which is not the last.\<close>

definition on_sides :: "string \<Rightarrow> rat \<Rightarrow> rat list \<Rightarrow> rat list \<Rightarrow> bool" where
  "on_sides direction stop entries targets \<longleftrightarrow>
     (if direction = ''BUY''
      then (\<forall>e \<in> set entries. stop < e \<and> (\<forall>t \<in> set targets. e < t)) \<and> sorted targets
      else (\<forall>e \<in> set entries. e < stop \<and> (\<forall>t \<in> set targets. t < e)) \<and> sorted (rev targets))"

definition management_safe :: "plan_management \<Rightarrow> string list \<Rightarrow> bool" where
  "management_safe m ids \<longleftrightarrow>
     pred_option (\<lambda>i. i \<in> set ids) (mg_be_after_target_id m) \<and>
     (case (mg_trail_after_target_id m, mg_trail_to_target_id m) of
        (None, None) \<Rightarrow> True
      | (Some after, Some to) \<Rightarrow> to \<in> set ids \<and> index_of to ids < index_of after ids \<and> index_of after ids + 1 < length ids
      | _ \<Rightarrow> False)"

definition plan_safe :: "trade_plan \<Rightarrow> bool" where
  "plan_safe p \<longleftrightarrow>
     entry_prices (tp_entry p) \<noteq> [] \<and> tp_targets p \<noteq> [] \<and>
     on_sides (an_direction (tp_analysis p)) (dec_value (st_price (tp_stop p))) (map dec_value (entry_prices (tp_entry p)))
       (map (\<lambda>t. dec_value (tg_price t)) (tp_targets p)) \<and>
     dec_value (dec_sum (map tg_close_ratio (tp_targets p))) \<le> 10001 / 10000 \<and>
     management_safe (tp_management p) (map tg_target_id (tp_targets p))"

lemma index_of_le: "index_of x xs \<le> length xs" "index_of x xs < length xs \<longleftrightarrow> x \<in> set xs"
  by (induction xs) auto

lemma validate_management_exact:
  "validate_management m targets = Inr () \<longleftrightarrow> management_safe m (map tg_target_id targets)"
proof -
  let ?ids = "map tg_target_id targets"
  have "validate_management m targets = Inr () \<longleftrightarrow>
      (\<forall>i. mg_be_after_target_id m = Some i \<longrightarrow> i \<in> set ?ids) \<and>
      ((mg_trail_after_target_id m = None) = (mg_trail_to_target_id m = None)) \<and>
      (\<forall>after to. mg_trail_after_target_id m = Some after \<longrightarrow> mg_trail_to_target_id m = Some to \<longrightarrow>
         after \<in> set ?ids \<and> to \<in> set ?ids \<and> index_of to ?ids < index_of after ?ids \<and>
         index_of after ?ids + 1 < length ?ids)"
    unfolding validate_management_def Let_def
    by (cases "mg_be_after_target_id m"; cases "mg_trail_after_target_id m"; cases "mg_trail_to_target_id m")
      (auto simp: res_bind_Inr_iff not_le)
  moreover have "index_of after ?ids + 1 < length ?ids \<Longrightarrow> after \<in> set ?ids" for after
    using index_of_le(2) [of after ?ids] by simp
  ultimately show ?thesis
    unfolding management_safe_def
    by (cases "mg_be_after_target_id m"; cases "mg_trail_after_target_id m"; cases "mg_trail_to_target_id m") auto
qed

lemma sort_fixed: "xs = sort xs \<longleftrightarrow> sorted xs" for xs :: "rat list"
  using sorted_sort [of xs] by (metis sorted_sort_id)

lemma rev_sort_fixed: "xs = rev (sort xs) \<longleftrightarrow> sorted (rev xs)" for xs :: "rat list"
proof
  assume "sorted (rev xs)"
  then have "sort xs = rev xs" by (intro properties_for_sort) simp_all
  then show "xs = rev (sort xs)" by simp
next
  assume "xs = rev (sort xs)"
  then have "rev xs = sort xs" by (metis rev_swap)
  then show "sorted (rev xs)" by simp
qed

lemma validate_plan_exact:
  assumes "an_direction (tp_analysis p) \<in> set DIRECTIONS"
  shows "validate_plan p = Inr () \<longleftrightarrow> plan_safe p"
proof -
  let ?e = "map dec_value (entry_prices (tp_entry p))" and ?t = "map (\<lambda>t. dec_value (tg_price t)) (tp_targets p)"
  let ?d = "an_direction (tp_analysis p)" and ?s = "dec_value (st_price (tp_stop p))"
  have sides: "((if ?d = ''BUY'' then \<not> list_ex (\<lambda>price. ?s \<ge> dec_value price) (entry_prices (tp_entry p))
      else \<not> list_ex (\<lambda>price. ?s \<le> dec_value price) (entry_prices (tp_entry p))) \<and>
      validate_targets ?d (entry_prices (tp_entry p)) (tp_targets p) = Inr ()) \<longleftrightarrow> on_sides ?d ?s ?e ?t"
    if ne: "entry_prices (tp_entry p) \<noteq> []"
  proof -
    have m: "x \<le> Max (set ?e) \<longleftrightarrow> (\<exists>e \<in> set ?e. x \<le> e)" "Min (set ?e) \<le> x \<longleftrightarrow> (\<exists>e \<in> set ?e. e \<le> x)" for x
      using ne by (simp_all add: Max_ge_iff Min_le_iff)
    show ?thesis
      unfolding validate_targets_def on_sides_def Let_def
      by (simp add: res_bind_Inr_iff m sort_fixed rev_sort_fixed list_ex_iff del: set_map) (auto simp: not_le)
  qed
  show ?thesis
    unfolding validate_plan_def plan_safe_def Let_def
    by (cases "entry_prices (tp_entry p) = []")
      (auto simp: res_bind_Inr_iff validate_management_exact not_le simp flip: sides split: if_splits)
qed

lemma accepted_safe: "plan_from_dict j = Inr p \<Longrightarrow> parts_ok p \<and> plan_safe p"
  using plan_accepted [of j p] validate_plan_exact [of p] by (simp add: parts_ok_def)

lemma plan_exact: "plan_from_dict (plan_to_dict p) = Inr p \<longleftrightarrow> parts_ok p \<and> plan_safe p"
proof
  assume s: "parts_ok p \<and> plan_safe p"
  then have "validate_plan p = Inr ()" using validate_plan_exact [of p] by (simp add: parts_ok_def)
  with s show "plan_from_dict (plan_to_dict p) = Inr p" by (intro plan_roundtrip_ok) simp_all
qed (rule accepted_safe)

text \<open>The plan as the publication takes it.\<close>

definition published_of :: "trade_plan \<Rightarrow> published_plan" where
  "published_of p = \<lparr>pp_plan_id = tp_plan_id p, pp_payload = plan_to_dict p, pp_created_at = tp_created_at p,
     pp_expires_at = tp_expires_at p\<rparr>"

definition demo_trade_plan :: trade_plan where
  "demo_trade_plan =
     \<lparr>tp_version = 8, tp_plan_id = ''v8:s1'', tp_thesis_id = ''t1'', tp_setup_id = ''s1'', tp_symbol = ''XAU'',
      tp_created_at = 100, tp_expires_at = 1000,
      tp_analysis = \<lparr>an_strategy = ''Key Level Reaction'', an_strategy_family = ''reaction'', an_direction = ''BUY'',
        an_context_timeframes = [''H1''], an_formation_timeframe = ''M15'', an_confirmation_timeframe = ''M5'',
        an_formation_bar_ts = 60, an_confirmation_bar_ts = 90, an_score = 3 / 2, an_confluence = 4, an_bias = ''up'',
        an_regime = ''trend'', an_reasons = [], an_tags = [''a''], an_confluence_v1 = None, an_confluence_v2 = Some 3,
        an_confluence_v2_raw = None, an_confluence_scoring_version = None\<rparr>,
      tp_source_structure = \<lparr>ps_structure_id = ''z1'', ps_kind = ''support'', ps_timeframe = ''M15'',
        ps_low = Dec False 400000 (- 2), ps_high = Dec False 400300 (- 2), ps_invalidation_price = Dec False 3998 0\<rparr>,
      tp_entry = \<lparr>en_type = ''limit_ladder'', en_expires_at = 900, en_zone_low = None, en_zone_high = None,
        en_activation = None, en_price_side = None, en_max_spread_ticks = Some 5, en_max_slippage_ticks = None,
        en_order_price = None,
        en_legs = [\<lparr>el_leg_id = ''L1'', el_price = Dec False 40030 (- 1), el_volume_ratio = Dec False 6 (- 1),
            el_order_type = None\<rparr>,
          \<lparr>el_leg_id = ''L2'', el_price = Dec False 40005 (- 1), el_volume_ratio = Dec False 4 (- 1),
            el_order_type = Some ''limit''\<rparr>]\<rparr>,
      tp_stop = \<lparr>st_type = ''absolute'', st_price = Dec False 39975 (- 1), st_source = ''structure'',
        st_structure_id = None, st_reason = []\<rparr>,
      tp_targets = [\<lparr>tg_target_id = ''TP1'', tg_type = ''absolute'', tg_price = Dec False 4010 0,
          tg_close_ratio = Dec False 5 (- 1)\<rparr>,
        \<lparr>tg_target_id = ''TP2'', tg_type = ''absolute'', tg_price = Dec False 401000 (- 2),
          tg_close_ratio = Dec False 3 (- 1)\<rparr>,
        \<lparr>tg_target_id = ''TP3'', tg_type = ''absolute'', tg_price = Dec False 4020 0,
          tg_close_ratio = Dec False 2 (- 1)\<rparr>],
      tp_risk = \<lparr>ri_risk_percent = Dec False 5 (- 1), ri_risk_multiplier = Dec False 1 0, ri_max_volume = 100,
        ri_max_group_risk_percent = Dec False 2 0\<rparr>,
      tp_management = \<lparr>mg_be_after_target_id = Some ''TP1'', mg_be_buffer_ticks = 2, mg_never_worsen_stop = True,
        mg_trail_after_target_id = Some ''TP2'', mg_trail_to_target_id = Some ''TP1''\<rparr>,
      tp_execution_policy = \<lparr>po_allow_market = True, po_allow_limit = True, po_allow_partial_fill = True,
        po_cancel_on_expiry = True\<rparr>,
      tp_provenance = \<lparr>pv_analysis_engine_version = ''e'', pv_market_map_id = ''m'', pv_config_fingerprint = ''c'',
        pv_confirmation_source = [], pv_confirmation_bar_ts = None, pv_zone_episode_id = Some ''e1''\<rparr>,
      tp_sizing = None\<rparr>"

lemma demo_trade_plan_ok: "parts_ok demo_trade_plan" "plan_safe demo_trade_plan"
proof -
  have v: "dec_value (Dec n c e) = (if n then - 1 else 1) * of_nat c * ten_pow e" for n c e
    by (simp add: dec_value_def dec_signed_def)
  have l: "dec_sum [Dec False 6 (- 1), Dec False 4 (- 1)] = Dec False 10 (- 1)"
    "dec_sum [Dec False 5 (- 1), Dec False 3 (- 1), Dec False 2 (- 1)] = Dec False 10 (- 1)"
    "dec_add (Dec False 10 (- 1)) (dec_minus (Dec False 1 0)) = Dec False 0 (- 1)"
    by code_simp+
  show "parts_ok demo_trade_plan"
    by (simp add: demo_trade_plan_def parts_ok_def TRADE_PLAN_VERSION_def DIRECTIONS_def v entry_ok_def ten_pow_def
       entry_types entry_shape_def ENTRY_TYPES_def leg_ok_def target_ok_def ORDER_TYPES_def ORDER_TYPE_LIMIT_def
       ratios_off_def l del: One_nat_def)
  show "plan_safe demo_trade_plan"
    by (simp add: demo_trade_plan_def plan_safe_def v ten_pow_def entry_types entry_prices_def on_sides_def
       management_safe_def l)
qed

section \<open>Properties\<close>

text \<open>C3. Exactly the safe plans are accepted: the document of a plan is read back as the plan it was, decimals to the
  last digit, if and only if its parts are well formed (version 8, a direction, proper zones, positive ratios that add
  up to one, an absolute positive stop) and it is safe to execute: the stop is on the losing side of every price at which
  the entry can fill, every target on the winning side of all of them, in order (equal prices are accepted), the close
  ratios total at most 1.0001, and break-even and trailing refer to declared targets in the right order. Whatever
  document is accepted yields such a plan, and re-serialising that plan changes nothing.\<close>

theorem accepted_plans_exact:
  "(plan_from_dict (plan_to_dict p) = Inr p \<longleftrightarrow> parts_ok p \<and> plan_safe p) \<and>
   (plan_from_dict document = Inr q \<longrightarrow> parts_ok q \<and> plan_safe q \<and> plan_from_dict (plan_to_dict q) = Inr q)"
  using plan_exact accepted_safe by blast

theorem accepted_plans_exact_witness:
  "plan_from_dict (plan_to_dict demo_trade_plan) = Inr demo_trade_plan \<and>
   on_sides ''BUY'' 3997.5 [4003, 4000.5] [4010, 4010, 4020]"
proof -
  have "plan_from_dict (plan_to_dict demo_trade_plan) = Inr demo_trade_plan"
    using accepted_plans_exact [of demo_trade_plan] demo_trade_plan_ok by blast
  moreover from this have "parts_ok demo_trade_plan"
    using accepted_plans_exact [of demo_trade_plan "plan_to_dict demo_trade_plan" demo_trade_plan] by blast
  ultimately show ?thesis by (simp add: on_sides_def)
qed

text \<open>C29. A published plan is the plan read: publishing a plan under an id the server does not know appends its
  document to the stream, and a later read by that id answers the very plan if and only if it is well formed and safe;
  the publication itself checks nothing. Publishing the id once more answers \<open>existing\<close> and writes nothing.\<close>

theorem published_plan_read_back:
  assumes "redis exec ks" "stream_ok cfg" "ks s (plan_dedup_key (tp_plan_id p)) = None"
    "ks s (plan_key (tp_plan_id p)) = None" "stream_key (ks s) (sc_trade_plans cfg)"
  shows "\<exists>i s'. run exec (publish_trade_plan fb cfg (published_of p)) s = (Inr i, s') \<and> i \<noteq> ''existing'' \<and>
     k_stream (ks s') (sc_trade_plans cfg) = k_stream (ks s) (sc_trade_plans cfg) @ [Doc (plan_to_dict p)] \<and>
     fst (run exec (read_plan_state (tp_plan_id p)) s') = Inr (Some (Txt ''published'')) \<and>
     (fst (run exec (read_trade_plan plan_from_dict (tp_plan_id p)) s') = Inr (Some p) \<longleftrightarrow> parts_ok p \<and> plan_safe p) \<and>
     (\<forall>q. tp_plan_id q = tp_plan_id p \<longrightarrow>
        (\<exists>s''. run exec (publish_trade_plan fb cfg (published_of q)) s' = (Inr ''existing'', s'') \<and> ks s'' = ks s'))"
proof -
  have f: "pp_plan_id (published_of q) = tp_plan_id q" "pp_payload (published_of q) = plan_to_dict q" for q
    by (simp_all add: published_of_def)
  have r: "res_bind m (\<lambda>p. Inr (Some p)) = Inr (Some p) \<longleftrightarrow> m = Inr p" for m :: "trade_plan res"
    by (cases m) auto
  obtain i s' where b: "run exec (publish_trade_plan fb cfg (published_of p)) s = (Inr i, s')" "i \<noteq> ''existing''"
    "k_stream (ks s') (sc_trade_plans cfg) = k_stream (ks s) (sc_trade_plans cfg) @ [Doc (plan_to_dict p)]"
    "fst (run exec (read_plan_state (tp_plan_id p)) s') = Inr (Some (Txt ''published''))"
    "fst (run exec (read_trade_plan plan_from_dict (tp_plan_id p)) s') =
       res_bind (plan_from_dict (plan_to_dict p)) (\<lambda>p. Inr (Some p))"
    "\<forall>plan2. pp_plan_id plan2 = tp_plan_id p \<longrightarrow>
        (\<exists>s''. run exec (publish_trade_plan fb cfg plan2) s' = (Inr ''existing'', s'') \<and> ks s'' = ks s')"
    using publish_then_read [OF assms(1,2), where s = s and plan = "published_of p" and fb = fb and decode = plan_from_dict]
      assms(3-5) unfolding f by blast
  have "fst (run exec (read_trade_plan plan_from_dict (tp_plan_id p)) s') = Inr (Some p) \<longleftrightarrow> parts_ok p \<and> plan_safe p"
    unfolding b(5) r plan_exact by (rule refl)
  moreover have "\<forall>q. tp_plan_id q = tp_plan_id p \<longrightarrow>
        (\<exists>s''. run exec (publish_trade_plan fb cfg (published_of q)) s' = (Inr ''existing'', s'') \<and> ks s'' = ks s')"
    using b(6) f(1) by simp
  ultimately show ?thesis using b(1-4) by (intro exI [of _ i] exI [of _ s'] conjI)
qed

theorem published_plan_read_back_witness:
  "\<exists>i s'. run mem_exec (publish_trade_plan False demo_stream_config (published_of demo_trade_plan)) Map.empty = (Inr i, s') \<and>
     fst (run mem_exec (read_trade_plan plan_from_dict ''v8:s1'') s') = Inr (Some demo_trade_plan)"
proof -
  have id: "tp_plan_id demo_trade_plan = ''v8:s1''" by (simp add: demo_trade_plan_def)
  show ?thesis
    using published_plan_read_back [where ks = "\<lambda>K. K" and s = Map.empty and fb = False,
        OF mem.redis_axioms demo_stream_ok, of demo_trade_plan] demo_trade_plan_ok
    by (auto simp: id stream_key_def)
qed

end
