(* ===== verification/ActiveExposure.thy ===== *)
theory ActiveExposure
  imports RedisRuns
begin

text \<open>
  Open exposure as a gate for new plans (\<open>app/autotrade/active_exposure.py\<close>): what the two executor books hold, read
  from Redis, and whether a candidate may be added to it. The text of a decision's message is left out; a number written
  as a string in a price field is outside the model. The loader's \<open>mget\<close> is used when the client has it.
\<close>

section \<open>Constants\<close>

definition SAME_DIRECTION_UNLOCK_BOOKED_TARGET_INDEX :: int where
  "SAME_DIRECTION_UNLOCK_BOOKED_TARGET_INDEX = 1"

definition SYMBOL_ALIASES :: "(string \<times> string) list" where
  "SYMBOL_ALIASES = [(''XAUUSD'', ''XAU''), (''GOLD'', ''XAU'')]"

definition OPEN_TRADE_PLAN_STAGES :: "string list" where
  "OPEN_TRADE_PLAN_STAGES = [''PartiallyOpen'', ''FullyOpen'', ''Open'', ''partially_open'', ''fully_open'', ''managing'',
     ''partially_closed'']"
definition OPEN_TRADE_PLAN_GROUP_STAGES :: "string list" where
  "OPEN_TRADE_PLAN_GROUP_STAGES = [''partially_open'', ''fully_open'', ''managing'', ''partially_closed'']"
definition PENDING_TRADE_PLAN_STAGES :: "string list" where
  "PENDING_TRADE_PLAN_STAGES = [''Received'', ''Submitting'', ''Submitted'', ''received'', ''submitting'', ''submitted'']"
definition PENDING_TRADE_PLAN_GROUP_STAGES :: "string list" where
  "PENDING_TRADE_PLAN_GROUP_STAGES = [''received'', ''submitting'', ''submitted'']"
definition NON_LIVE_TRADE_PLAN_GROUP_STAGES :: "string list" where
  "NON_LIVE_TRADE_PLAN_GROUP_STAGES = [''recovery_required'', ''closed'', ''cancelled'', ''expired'', ''failed'']"
definition NON_LIVE_TERMINAL_REASONS :: "string list" where
  "NON_LIVE_TERMINAL_REASONS = [''unknown_leg_close'']"

lemmas exposure_stages =
  OPEN_TRADE_PLAN_STAGES_def OPEN_TRADE_PLAN_GROUP_STAGES_def PENDING_TRADE_PLAN_STAGES_def
  PENDING_TRADE_PLAN_GROUP_STAGES_def NON_LIVE_TRADE_PLAN_GROUP_STAGES_def NON_LIVE_TERMINAL_REASONS_def

section \<open>Exposure and decision\<close>

record active_exposure =
  ax_direction :: string
  ax_entry_price :: rat
  ax_source :: string
  ax_symbol :: "string option"
  ax_group_id :: "string option"
  ax_plan_id :: "string option"
  ax_position_id :: "int option"
  ax_remaining_volume :: "rat option"
  ax_highest_booked_target_index :: "int option"

record exposure_decision =
  ed_block :: bool
  ed_reason_code :: "string option"
  ed_same_direction_stack :: bool
  ed_measured :: "(string \<times> json) list option"

definition normalize_stage_token :: "string \<Rightarrow> string" where
  "normalize_stage_token v = str_lower (str_strip v)"

definition is_non_live_trade_plan :: "string \<Rightarrow> string \<Rightarrow> string \<Rightarrow> bool" where
  "is_non_live_trade_plan stage group_stage terminal_reason \<longleftrightarrow>
     normalize_stage_token group_stage \<in> set NON_LIVE_TRADE_PLAN_GROUP_STAGES \<or>
     normalize_stage_token terminal_reason \<in> set NON_LIVE_TERMINAL_REASONS \<and>
     normalize_stage_token stage \<in> {''fullyopen'', ''fully_open'', ''open''}"

text \<open>A value that is \<open>None\<close> or text; from a document through \<open>str(value or "")\<close>.\<close>

definition normalize_symbol :: "string option \<Rightarrow> string option" where
  "normalize_symbol value =
     (let text = str_upper (str_strip (case value of None \<Rightarrow> [] | Some s \<Rightarrow> s))
      in if text = [] then None
         else Some (case map_of SYMBOL_ALIASES text of Some a \<Rightarrow> a | None \<Rightarrow> text))"

definition same_instrument :: "string option \<Rightarrow> string option \<Rightarrow> bool" where
  "same_instrument left right \<longleftrightarrow> normalize_symbol left \<noteq> None \<and> normalize_symbol left = normalize_symbol right"

definition direction_text :: "string \<Rightarrow> string option" where
  "direction_text s =
     (let text = str_upper (str_strip s)
      in if text \<in> {''BUY'', ''B'', ''0''} then Some ''BUY''
         else if text \<in> {''SELL'', ''S'', ''1''} then Some ''SELL'' else None)"

text \<open>A bool is an int. The text of a float, a list or a dict names no direction.\<close>

fun normalize_direction :: "json \<Rightarrow> string option" where
  "normalize_direction (JInt i) = (if i = 0 then Some ''BUY'' else if i = 1 then Some ''SELL'' else None)"
| "normalize_direction (JBool b) = (if b then Some ''SELL'' else Some ''BUY'')"
| "normalize_direction (JStr s) = direction_text s"
| "normalize_direction _ = None"

fun as_float :: "json \<Rightarrow> rat option res" where
  "as_float (JStr s) = Inl OutOfModel"
| "as_float v = (case py_float v of Inr q \<Rightarrow> Inr (Some q) | Inl e \<Rightarrow> Inr None)"

definition same_direction_tp2_booked :: "active_exposure \<Rightarrow> bool" where
  "same_direction_tp2_booked x =
     (case ax_highest_booked_target_index x of None \<Rightarrow> False
      | Some booked \<Rightarrow> booked \<ge> SAME_DIRECTION_UNLOCK_BOOKED_TARGET_INDEX)"

definition same_direction_stack_unlocked :: "active_exposure list \<Rightarrow> bool" where
  "same_direction_stack_unlocked exposures = (if exposures = [] then True else list_all same_direction_tp2_booked exposures)"

section \<open>Reading a document of either book\<close>

fun payload_get :: "(string \<times> json) list \<Rightarrow> string list \<Rightarrow> json" where
  "payload_get payload [] = JNull"
| "payload_get payload (key # keys) =
     (case map_of payload key of None \<Rightarrow> payload_get payload keys
      | Some v \<Rightarrow> if v = JNull then payload_get payload keys else v)"

definition payload_symbol :: "(string \<times> json) list \<Rightarrow> string option res" where
  "payload_symbol payload =
     res_bind (text_or_empty (payload_get payload [''symbol'', ''Symbol''])) (\<lambda>s. Inr (normalize_symbol (Some s)))"

fun first_price :: "(string \<times> json) list \<Rightarrow> string list \<Rightarrow> rat option res" where
  "first_price payload [] = Inr None"
| "first_price payload (key # keys) =
     res_bind (as_float (case map_of payload key of None \<Rightarrow> JNull | Some v \<Rightarrow> v)) (\<lambda>price.
     case price of Some p \<Rightarrow> if p > 0 then Inr (Some p) else first_price payload keys
     | None \<Rightarrow> first_price payload keys)"

fun first_leg_price :: "json list \<Rightarrow> rat option res" where
  "first_leg_price [] = Inr None"
| "first_leg_price (JObj leg # legs) =
     res_bind (as_float (payload_get leg [''intended_price'', ''IntendedPrice''])) (\<lambda>price.
     case price of Some p \<Rightarrow> if p > 0 then Inr (Some p) else first_leg_price legs
     | None \<Rightarrow> first_leg_price legs)"
| "first_leg_price (_ # legs) = first_leg_price legs"

definition payload_entry_price :: "(string \<times> json) list \<Rightarrow> rat option res" where
  "payload_entry_price payload =
     res_bind (first_price payload [''entry_price'', ''EntryPrice'', ''group_weighted_fill_price'',
       ''GroupWeightedFillPrice'', ''entry_fill_price'', ''EntryFillPrice'', ''intended_entry_price'',
       ''IntendedEntryPrice'']) (\<lambda>price.
     case price of Some p \<Rightarrow> Inr (Some p)
     | None \<Rightarrow> (case payload_get payload [''legs'', ''Legs''] of JList legs \<Rightarrow> first_leg_price legs | _ \<Rightarrow> Inr None))"

fun first_float :: "(string \<times> json) list \<Rightarrow> string list \<Rightarrow> rat option res" where
  "first_float payload [] = Inr None"
| "first_float payload (key # keys) =
     (case map_of payload key of None \<Rightarrow> first_float payload keys
      | Some v \<Rightarrow> res_bind (as_float v) (\<lambda>q. case q of Some x \<Rightarrow> Inr (Some x) | None \<Rightarrow> first_float payload keys))"

definition payload_remaining :: "(string \<times> json) list \<Rightarrow> rat option res" where
  "payload_remaining payload =
     first_float payload [''remaining_volume'', ''RemainingVolume'', ''total_filled_volume'', ''TotalFilledVolume'']"

definition is_scale_in_child :: "(string \<times> json) list \<Rightarrow> bool res" where
  "is_scale_in_child payload =
     res_bind (text_or_empty (payload_get payload [''parent_group_id'', ''ParentGroupId''])) (\<lambda>s.
     Inr (str_strip s \<noteq> []))"

text \<open>\<open>str(value or "") or None\<close>.\<close>

definition text_or_none :: "json \<Rightarrow> string option res" where
  "text_or_none v = res_bind (text_or_empty v) (\<lambda>s. Inr (if s = [] then None else Some s))"

section \<open>The two books\<close>

text \<open>The dict a stored text holds, if it is one.\<close>

definition payload_of :: "rtext option \<Rightarrow> (string \<times> json) list option" where
  "payload_of raw =
     (case raw of None \<Rightarrow> None
      | Some t \<Rightarrow> (case json_loads t of Inr (JObj kv) \<Rightarrow> Some kv | _ \<Rightarrow> None))"

definition position_exposure :: "int \<Rightarrow> (string \<times> json) list \<Rightarrow> active_exposure option res" where
  "position_exposure position_id payload =
     res_bind (is_scale_in_child payload) (\<lambda>child.
     if child then Inr None
     else res_bind (payload_remaining payload) (\<lambda>remaining.
     if remaining \<noteq> None \<and> the remaining \<le> 0 then Inr None
     else res_bind (payload_entry_price payload) (\<lambda>entry.
     case (normalize_direction (payload_get payload [''direction'', ''Direction'']), entry) of
       (Some direction, Some price) \<Rightarrow>
         res_bind (payload_symbol payload) (\<lambda>symbol.
         res_bind (text_or_none (payload_get payload [''group_id'', ''GroupId''])) (\<lambda>group_id.
         Inr (Some \<lparr>ax_direction = direction, ax_entry_price = price, ax_source = ''v6_position'', ax_symbol = symbol,
           ax_group_id = group_id, ax_plan_id = None, ax_position_id = Some position_id,
           ax_remaining_volume = remaining, ax_highest_booked_target_index = None\<rparr>)))
     | _ \<Rightarrow> Inr None)))"

definition is_pending_plan :: "string \<Rightarrow> string \<Rightarrow> bool" where
  "is_pending_plan stage group_stage \<longleftrightarrow>
     stage \<in> set PENDING_TRADE_PLAN_STAGES \<or> group_stage \<in> set PENDING_TRADE_PLAN_GROUP_STAGES"

definition is_open_plan :: "string \<Rightarrow> string \<Rightarrow> bool" where
  "is_open_plan stage group_stage \<longleftrightarrow>
     stage \<in> set OPEN_TRADE_PLAN_STAGES \<or> group_stage \<in> set OPEN_TRADE_PLAN_GROUP_STAGES"

text \<open>The row of a plan that occupies its symbol.\<close>

definition plan_row :: "string \<Rightarrow> (string \<times> json) list \<Rightarrow> rat option \<Rightarrow> rat \<Rightarrow> active_exposure option res" where
  "plan_row plan_id payload remaining filled =
     res_bind (payload_entry_price payload) (\<lambda>entry.
     case (normalize_direction (payload_get payload [''direction'', ''Direction'']), entry) of
       (Some direction, Some price) \<Rightarrow>
         if price \<le> 0 then Inr None
         else let booked = as_int (payload_get payload [''highest_booked_target_index'', ''HighestBookedTargetIndex'']) in
           res_bind (payload_symbol payload) (\<lambda>symbol.
           res_bind (py_str (py_or (payload_get payload [''plan_id'', ''PlanId'']) (JStr plan_id))) (\<lambda>id.
           res_bind (text_or_none (payload_get payload [''setup_id'', ''SetupId''])) (\<lambda>group_id.
           Inr (Some \<lparr>ax_direction = direction, ax_entry_price = price, ax_source = ''v8_plan'', ax_symbol = symbol,
             ax_group_id = group_id, ax_plan_id = Some id, ax_position_id = None,
             ax_remaining_volume = Some (case remaining of Some x \<Rightarrow> x | None \<Rightarrow> filled),
             ax_highest_booked_target_index = (case booked of Some b \<Rightarrow> if b < 0 then None else Some b | None \<Rightarrow> None)\<rparr>))))
     | _ \<Rightarrow> Inr None)"

definition plan_exposure :: "string \<Rightarrow> (string \<times> json) list \<Rightarrow> active_exposure option res" where
  "plan_exposure plan_id payload =
     res_bind (text_or_empty (payload_get payload [''stage'', ''Stage''])) (\<lambda>stage.
     res_bind (text_or_empty (payload_get payload [''group_stage'', ''GroupStage''])) (\<lambda>group_stage.
     res_bind (text_or_empty (payload_get payload [''terminal_reason'', ''TerminalReason''])) (\<lambda>terminal_reason.
     if is_non_live_trade_plan stage group_stage terminal_reason then Inr None
     else let is_pending = is_pending_plan stage group_stage in
       if \<not> is_pending \<and> \<not> is_open_plan stage group_stage then Inr None
       else res_bind (payload_remaining payload) (\<lambda>remaining.
         res_bind (as_float (payload_get payload [''total_filled_volume'', ''TotalFilledVolume''])) (\<lambda>total.
         let filled = (case total of Some x \<Rightarrow> x | None \<Rightarrow> 0) in
         if \<not> is_pending \<and> (remaining \<noteq> None \<and> the remaining \<le> 0) then Inr None
         else if \<not> is_pending \<and> (filled \<le> 0 \<and> (remaining = None \<or> the remaining \<le> 0)) then Inr None
         else plan_row plan_id payload remaining filled)))))"

text \<open>One row for each id whose stored text is a dict that counts, in the order of the ids.\<close>

definition collect_rows :: "('i \<Rightarrow> (string \<times> json) list \<Rightarrow> active_exposure option res) \<Rightarrow> ('i \<times> rtext option) list \<Rightarrow>
    active_exposure list res" where
  "collect_rows row pairs =
     res_bind (res_map_list (\<lambda>(i, raw). case payload_of raw of None \<Rightarrow> Inr None | Some kv \<Rightarrow> row i kv) pairs) (\<lambda>rows.
     Inr (List.map_filter id rows))"

primrec get_each :: "string list \<Rightarrow> rtext option list prog" where
  "get_each [] = Done []"
| "get_each (k # ks) = pbind (rget k) (\<lambda>v. pbind (get_each ks) (\<lambda>vs. Done (v # vs)))"

definition mget_or_get :: "bool \<Rightarrow> string list \<Rightarrow> rtext option list prog" where
  "mget_or_get has_mget keys = (if keys = [] then Done [] else if has_mget then rmget keys else get_each keys)"

definition V6_POSITIONS :: string where "V6_POSITIONS = ''auto_trade:positions''"
definition position_key :: "int \<Rightarrow> string" where "position_key i = ''auto_trade:position:'' @ str_int i"
definition RUNTIME_IDS :: string where "RUNTIME_IDS = ''execution:trade_plan_runtime_ids''"
definition plan_runtime_key :: "string \<Rightarrow> string" where "plan_runtime_key i = ''execution:plan_runtime:'' @ i"

definition load_v6_position_exposures :: "bool \<Rightarrow> active_exposure list prog" where
  "load_v6_position_exposures has_mget =
     pbind (rmembers V6_POSITIONS) (\<lambda>raw_ids.
     if raw_ids = [] then Done []
     else let position_ids = List.map_filter parse_int raw_ids in
       pbind (mget_or_get has_mget (map position_key position_ids)) (\<lambda>raws.
       of_res (collect_rows position_exposure (zip position_ids raws))))"

text \<open>The ids are written with commas between; a text that is a JSON document is outside the model.\<close>

definition runtime_plan_ids :: "rtext option \<Rightarrow> string list res" where
  "runtime_plan_ids raw =
     (case raw of None \<Rightarrow> Inr []
      | Some (Txt text) \<Rightarrow> Inr (filter (\<lambda>item. str_strip item \<noteq> []) (str_split CHR '','' text))
      | Some (Doc j) \<Rightarrow> Inl OutOfModel)"

definition load_trade_plan_exposures :: "bool \<Rightarrow> active_exposure list prog" where
  "load_trade_plan_exposures has_mget =
     pbind (rget RUNTIME_IDS) (\<lambda>raw.
     pbind (of_res (runtime_plan_ids raw)) (\<lambda>plan_ids.
     pbind (mget_or_get has_mget (map plan_runtime_key plan_ids)) (\<lambda>raws.
     of_res (collect_rows plan_exposure (zip plan_ids raws)))))"

definition filter_exposures_for_symbol :: "active_exposure list \<Rightarrow> string option \<Rightarrow> active_exposure list" where
  "filter_exposures_for_symbol exposures symbol =
     (case normalize_symbol symbol of None \<Rightarrow> exposures
      | Some wanted \<Rightarrow> filter (\<lambda>x. normalize_symbol (ax_symbol x) = Some wanted) exposures)"

definition load_active_exposures :: "bool \<Rightarrow> string option \<Rightarrow> active_exposure list prog" where
  "load_active_exposures has_mget symbol =
     pbind (load_v6_position_exposures has_mget) (\<lambda>v6.
     pbind (load_trade_plan_exposures has_mget) (\<lambda>v8.
     Done (filter_exposures_for_symbol (v6 @ v8) symbol)))"

section \<open>The decision\<close>

definition no_exposure :: exposure_decision where
  "no_exposure = \<lparr>ed_block = False, ed_reason_code = None, ed_same_direction_stack = False, ed_measured = None\<rparr>"

definition opposite_of :: "string \<Rightarrow> string" where
  "opposite_of wanted = (if wanted = ''BUY'' then ''SELL'' else ''BUY'')"

definition opposing_measured :: "rat \<Rightarrow> string option \<Rightarrow> rat \<Rightarrow> active_exposure \<Rightarrow> (string \<times> json) list" where
  "opposing_measured entry_price candidate_symbol separation x =
     [(''active_direction'', JStr (ax_direction x)),
      (''active_entry_price'', JFloat (ax_entry_price x)),
      (''active_symbol'', j_opt_str (ax_symbol x)),
      (''candidate_entry_price'', JFloat entry_price),
      (''candidate_symbol'', j_opt_str (normalize_symbol candidate_symbol)),
      (''price_distance'', JFloat \<bar>entry_price - ax_entry_price x\<bar>),
      (''min_price_separation'', JFloat separation),
      (''active_source'', JStr (ax_source x)),
      (''active_plan_id'', j_opt_str (ax_plan_id x)),
      (''active_group_id'', j_opt_str (ax_group_id x)),
      (''active_position_id'', j_opt_int (ax_position_id x))]"

definition stack_measured ::
  "string option \<Rightarrow> rat \<Rightarrow> string option \<Rightarrow> bool \<Rightarrow> active_exposure \<Rightarrow> active_exposure list \<Rightarrow> (string \<times> json) list" where
  "stack_measured candidate_symbol fraction tier allow_stack primary same =
     [(''active_direction'', JStr (ax_direction primary)),
      (''active_entry_price'', JFloat (ax_entry_price primary)),
      (''active_symbol'', j_opt_str (ax_symbol primary)),
      (''candidate_symbol'', j_opt_str (normalize_symbol candidate_symbol)),
      (''same_direction_size_fraction'', JFloat fraction),
      (''active_source'', JStr (ax_source primary)),
      (''active_plan_id'', j_opt_str (ax_plan_id primary)),
      (''active_group_id'', j_opt_str (ax_group_id primary)),
      (''active_position_id'', j_opt_int (ax_position_id primary)),
      (''same_direction_count'', JInt (int (length same))),
      (''same_direction_tp2_booked'', JBool (same_direction_stack_unlocked same)),
      (''unlock_booked_target_index'', JInt SAME_DIRECTION_UNLOCK_BOOKED_TARGET_INDEX),
      (''active_highest_booked_target_indexes'', JList (map (\<lambda>x. j_opt_int (ax_highest_booked_target_index x)) same)),
      (''candidate_tier'', j_opt_str tier),
      (''same_direction_requires_tier_a'', JBool (\<not> allow_stack))]"

definition candidate_tier_of :: "string option \<Rightarrow> string option" where
  "candidate_tier_of t =
     (let tier = str_upper (str_strip (case t of None \<Rightarrow> [] | Some s \<Rightarrow> s)) in if tier = [] then None else Some tier)"

text \<open>The first opposing exposure closer than the separation.\<close>

definition first_opposing :: "string \<Rightarrow> rat \<Rightarrow> rat \<Rightarrow> active_exposure list \<Rightarrow> active_exposure option" where
  "first_opposing opposite entry_price separation exposures =
     find (\<lambda>x. ax_direction x = opposite \<and> \<bar>entry_price - ax_entry_price x\<bar> < separation) exposures"

definition same_direction_decision ::
  "string \<Rightarrow> rat \<Rightarrow> bool \<Rightarrow> string option \<Rightarrow> string option \<Rightarrow> active_exposure list \<Rightarrow> exposure_decision" where
  "same_direction_decision wanted size_fraction allow_stack tier candidate_symbol exposures =
     (case filter (\<lambda>x. ax_direction x = wanted) exposures of
        [] \<Rightarrow> no_exposure
      | primary # rest \<Rightarrow>
          (let same = primary # rest; fraction = max (1 / 100) (min 1 size_fraction);
               measured = Some (stack_measured candidate_symbol fraction tier allow_stack primary same) in
           if allow_stack
           then \<lparr>ed_block = False, ed_reason_code = Some ''same_direction_stack'', ed_same_direction_stack = True,
                 ed_measured = measured\<rparr>
           else if \<not> same_direction_stack_unlocked same
           then \<lparr>ed_block = True, ed_reason_code = Some ''same_direction_active_before_tp2'', ed_same_direction_stack = False,
                 ed_measured = measured\<rparr>
           else if tier \<noteq> Some ''A''
           then \<lparr>ed_block = True, ed_reason_code = Some ''same_direction_stack_requires_tier_a'',
                 ed_same_direction_stack = False, ed_measured = measured\<rparr>
           else \<lparr>ed_block = False, ed_reason_code = Some ''same_direction_stack'', ed_same_direction_stack = True,
                 ed_measured = measured\<rparr>))"

definition evaluate_entry_against_exposure ::
  "string \<Rightarrow> rat \<Rightarrow> active_exposure list \<Rightarrow> rat \<Rightarrow> rat \<Rightarrow> bool \<Rightarrow> bool \<Rightarrow> string option \<Rightarrow> string option \<Rightarrow>
   exposure_decision" where
  "evaluate_entry_against_exposure direction entry_price exposures min_price_separation size_fraction ignore_opposing
     allow_stack candidate_tier candidate_symbol =
     (case direction_text direction of None \<Rightarrow> no_exposure
      | Some wanted \<Rightarrow>
          if entry_price \<le> 0 then no_exposure
          else (let separation = max 0 min_price_separation; tier = candidate_tier_of candidate_tier;
                    relevant = filter_exposures_for_symbol exposures candidate_symbol in
            case first_opposing (opposite_of wanted) entry_price separation relevant of
              Some x \<Rightarrow>
                (let measured = opposing_measured entry_price candidate_symbol separation x in
                 if ignore_opposing
                 then \<lparr>ed_block = False, ed_reason_code = Some ''opposing_active_too_close_ignored_scalp'',
                       ed_same_direction_stack = False,
                       ed_measured = Some (measured @
                         [(''ignore_opposing_active'', JBool True), (''preference_telemetry'', JBool True)])\<rparr>
                 else \<lparr>ed_block = True, ed_reason_code = Some ''opposing_active_too_close'',
                       ed_same_direction_stack = False, ed_measured = Some measured\<rparr>)
            | None \<Rightarrow> same_direction_decision wanted size_fraction allow_stack tier candidate_symbol relevant))"

section \<open>Sizing of an addition\<close>

definition round6 :: "rat \<Rightarrow> rat" where
  "round6 q = py_round 6 q"

definition COLLAPSED_ROUTES :: "string list" where
  "COLLAPSED_ROUTES = [''limit_ladder'', ''market_with_limit_scale'', ''zone_scale'', ''reaction_scale'', ''market'']"

definition apply_same_direction_stack_sizing :: "(string \<times> json) list \<Rightarrow> rat \<Rightarrow> (string \<times> json) list res" where
  "apply_same_direction_stack_sizing measured size_fraction =
     (let fraction = max (1 / 100) (min 1 size_fraction) in
      res_bind (py_float (py_or (dict_get measured ''effective_risk_multiplier'') (JFloat 1))) (\<lambda>current.
      let out = dict_set ''same_direction_size_fraction'' (JFloat fraction)
            (dict_set ''same_direction_stack'' (JBool True)
            (dict_set ''entry_distribution'' (JStr ''single'')
            (dict_set ''effective_risk_multiplier'' (JFloat (round6 (current * fraction))) measured)));
          entry = dict_get out ''planned_entry_price'' in
      res_bind (text_or_empty (dict_get out ''planned_execution_route'')) (\<lambda>raw_route.
      let route = str_lower (str_strip raw_route);
          routed = (if route \<in> set COLLAPSED_ROUTES
                    then dict_set ''planned_market_immediate'' (JBool False)
                           (dict_set ''planned_execution_route'' (JStr ''single_limit'') out)
                    else out)
      in Inr (if entry = JNull then routed
              else dict_set ''planned_leg_volume_ratios'' (JList [JFloat 1])
                     (dict_set ''planned_leg_entry_prices'' (JList [entry]) routed)))))"

section \<open>Lemmas\<close>

lemma find_Some_iff: "(\<exists>y. find P xs = Some y) \<longleftrightarrow> (\<exists>x \<in> set xs. P x)"
  by (induction xs) auto

lemma filter_Cons_iff: "(\<exists>x ys. filter P xs = x # ys) \<longleftrightarrow> (\<exists>x \<in> set xs. P x)"
  by (metis filter_empty_conv neq_Nil_conv)

lemma no_symbol: "filter_exposures_for_symbol xs None = xs"
  by (simp add: filter_exposures_for_symbol_def normalize_symbol_def str_strip_def str_upper_def)

text \<open>The exposures a candidate is compared with: those of its instrument, or all when it names none.\<close>

definition competes :: "string option \<Rightarrow> active_exposure \<Rightarrow> bool" where
  "competes candidate_symbol x \<longleftrightarrow>
     normalize_symbol candidate_symbol = None \<or> same_instrument candidate_symbol (ax_symbol x)"

lemma relevant_set:
  "set (filter_exposures_for_symbol xs symbol) = {x \<in> set xs. competes symbol x}"
  by (auto simp: filter_exposures_for_symbol_def competes_def same_instrument_def split: option.splits)

lemma unlocked_iff: "same_direction_stack_unlocked xs \<longleftrightarrow> (\<forall>x \<in> set xs. same_direction_tp2_booked x)"
  by (simp add: same_direction_stack_unlocked_def list_all_iff)

lemma same_direction_decision_exact:
  fixes exposures wanted allow tier
  defines "same \<equiv> filter (\<lambda>x. ax_direction x = wanted) exposures"
  defines "d f symbol \<equiv> same_direction_decision wanted f allow tier symbol exposures"
  shows "ed_block (d f symbol) \<longleftrightarrow> same \<noteq> [] \<and> \<not> allow \<and> \<not> (same_direction_stack_unlocked same \<and> tier = Some ''A'')"
    and "ed_same_direction_stack (d f symbol) \<longleftrightarrow>
      same \<noteq> [] \<and> (allow \<or> same_direction_stack_unlocked same \<and> tier = Some ''A'')"
  unfolding d_def same_direction_decision_def same_def [symmetric]
  by (cases same; simp add: no_exposure_def Let_def)+

lemma collect_rows_member:
  assumes "collect_rows row pairs = Inr rows" "(i, raw) \<in> set pairs" "payload_of raw = Some kv" "row i kv = Inr (Some x)"
  shows "x \<in> set rows"
proof -
  let ?f = "\<lambda>(i, raw). case payload_of raw of None \<Rightarrow> Inr None | Some kv \<Rightarrow> row i kv"
  from assms(1) obtain out where out: "res_map_list ?f pairs = Inr out" "rows = List.map_filter id out"
    by (auto simp: collect_rows_def res_bind_Inr_iff)
  have "res_map_list ?f ps = Inr os \<Longrightarrow> (i, raw) \<in> set ps \<Longrightarrow> Some x \<in> set os" for ps os
    using assms(3,4) by (induction ps arbitrary: os) (auto simp: res_bind_Inr_iff)
  with out assms(2) show ?thesis by (force simp: List.map_filter_def)
qed

text \<open>Reading a row raises nothing: \<open>OutOfModel\<close> only marks a value the model leaves out, a number written as a string or a
  text written as a float, list or dict.\<close>

definition only_out_of_model :: "'a res \<Rightarrow> bool" where
  "only_out_of_model r \<longleftrightarrow> (\<forall>e. r = Inl e \<longrightarrow> e = OutOfModel)"

lemma only_out_basic [intro, simp]:
  "only_out_of_model (Inr x)" "only_out_of_model (Inl OutOfModel)"
  by (simp_all add: only_out_of_model_def)

lemma only_out_bind [intro]:
  "only_out_of_model r \<Longrightarrow> (\<And>x. r = Inr x \<Longrightarrow> only_out_of_model (f x)) \<Longrightarrow> only_out_of_model (res_bind r f)"
  by (cases r) (auto simp: only_out_of_model_def)

lemma only_out_readers [intro, simp]:
  "only_out_of_model (as_float v)" "only_out_of_model (py_str v)" "only_out_of_model (text_or_empty v)"
  "only_out_of_model (text_or_none v)" "only_out_of_model (payload_symbol kv)" "only_out_of_model (is_scale_in_child kv)"
proof -
  have t: "only_out_of_model (py_str v)" for v by (cases v) simp_all
  then show "only_out_of_model (py_str v)" .
  show "only_out_of_model (as_float v)" by (cases v) (simp_all split: sum.split)
  show e: "only_out_of_model (text_or_empty v)" for v by (simp add: text_or_empty_def t)
  show "only_out_of_model (text_or_none v)" "only_out_of_model (payload_symbol kv)" "only_out_of_model (is_scale_in_child kv)"
    unfolding text_or_none_def payload_symbol_def is_scale_in_child_def by (blast intro: e)+
qed

lemma only_out_prices [intro, simp]:
  "only_out_of_model (first_price kv keys)" "only_out_of_model (first_leg_price legs)" "only_out_of_model (first_float kv keys)"
proof -
  show "only_out_of_model (first_price kv keys)" by (induction keys) (auto split: option.split)
  show "only_out_of_model (first_leg_price legs)" by (induction legs rule: first_leg_price.induct) (auto split: option.split)
  show "only_out_of_model (first_float kv keys)" by (induction keys) (auto split: option.split)
qed

lemma only_out_branches:
  "only_out_of_model r \<Longrightarrow> only_out_of_model r' \<Longrightarrow> only_out_of_model (if b then r else r')"
  "only_out_of_model r \<Longrightarrow> (\<And>x. only_out_of_model (f x)) \<Longrightarrow> only_out_of_model (case v of None \<Rightarrow> r | Some x \<Rightarrow> f x)"
  by (simp_all split: option.split)

lemma only_out_entry [intro, simp]: "only_out_of_model (payload_entry_price kv)" "only_out_of_model (payload_remaining kv)"
proof -
  have "only_out_of_model (case v of JList legs \<Rightarrow> first_leg_price legs | _ \<Rightarrow> Inr None)" for v
    by (cases v) simp_all
  then show "only_out_of_model (payload_entry_price kv)"
    unfolding payload_entry_price_def by (intro only_out_bind only_out_branches only_out_basic only_out_prices)
  show "only_out_of_model (payload_remaining kv)" unfolding payload_remaining_def by (rule only_out_prices)
qed

lemma only_out_rows: "only_out_of_model (position_exposure i kv)" "only_out_of_model (plan_exposure p kv)"
proof -
  show "only_out_of_model (position_exposure i kv)"
    unfolding position_exposure_def prod.case
    by (intro only_out_bind only_out_branches only_out_basic only_out_readers only_out_entry)
  have "only_out_of_model (plan_row p kv remaining filled)" for remaining filled
    unfolding plan_row_def Let_def prod.case
    by (intro only_out_bind only_out_branches only_out_basic only_out_readers only_out_entry)
  then show "only_out_of_model (plan_exposure p kv)"
    unfolding plan_exposure_def Let_def
    by (intro only_out_bind only_out_branches only_out_basic only_out_readers only_out_entry)
qed

lemma collect_rows_answers:
  assumes "\<And>i raw kv. (i, raw) \<in> set pairs \<Longrightarrow> payload_of raw = Some kv \<Longrightarrow> row i kv \<noteq> Inl OutOfModel"
    and "\<And>i kv. only_out_of_model (row i kv)"
  shows "\<exists>rows. collect_rows row pairs = Inr rows"
proof -
  let ?f = "\<lambda>(i, raw). case payload_of raw of None \<Rightarrow> Inr None | Some kv \<Rightarrow> row i kv"
  have "\<exists>out. res_map_list ?f pairs = Inr out"
    using assms(1)
  proof (induction pairs)
    case (Cons p ps)
    obtain i raw where p: "p = (i, raw)" by fastforce
    have "\<exists>y. ?f p = Inr y"
    proof (cases "payload_of raw")
      case (Some kv)
      have "row i kv \<noteq> Inl OutOfModel" by (rule Cons.prems [of i raw]) (simp_all add: p Some)
      moreover have "only_out_of_model (row i kv)" by (rule assms(2))
      ultimately have "\<exists>y. row i kv = Inr y" by (cases "row i kv") (simp_all add: only_out_of_model_def)
      then show ?thesis by (simp add: p Some)
    qed (simp add: p)
    moreover have "\<exists>out. res_map_list ?f ps = Inr out" by (rule Cons.IH) (rule Cons.prems, simp_all)
    ultimately show ?case by auto
  qed simp
  then obtain out where "res_map_list ?f pairs = Inr out" by blast
  then show ?thesis by (simp add: collect_rows_def)
qed

text \<open>No document of the two books has a value of a kind the model leaves out.\<close>

definition books_in_model :: "keyspace \<Rightarrow> bool" where
  "books_in_model K \<longleftrightarrow>
     (\<forall>i kv. payload_of (k_text K (position_key i)) = Some kv \<longrightarrow> position_exposure i kv \<noteq> Inl OutOfModel) \<and>
     (\<forall>p kv. payload_of (k_text K (plan_runtime_key p)) = Some kv \<longrightarrow> plan_exposure p kv \<noteq> Inl OutOfModel)"

definition position_rows :: "keyspace \<Rightarrow> string list \<Rightarrow> active_exposure list res" where
  "position_rows K ids =
     (let p = List.map_filter parse_int ids
      in collect_rows position_exposure (zip p (map (\<lambda>i. k_text K (position_key i)) p)))"

definition plan_rows :: "keyspace \<Rightarrow> active_exposure list res" where
  "plan_rows K =
     res_bind (runtime_plan_ids (k_text K RUNTIME_IDS)) (\<lambda>plans.
     collect_rows plan_exposure (zip plans (map (\<lambda>i. k_text K (plan_runtime_key i)) plans)))"

lemma books_answer:
  assumes "books_in_model K"
  shows "\<exists>rows. position_rows K ids = Inr rows"
    "k_text K RUNTIME_IDS = Some (Txt text) \<Longrightarrow> \<exists>rows. plan_rows K = Inr rows"
proof -
  let ?p = "List.map_filter parse_int ids"
  have "\<exists>rows. collect_rows position_exposure (zip ?p (map (\<lambda>i. k_text K (position_key i)) ?p)) = Inr rows"
    by (rule collect_rows_answers) (use assms in \<open>auto simp: books_in_model_def zip_map2 zip_same_conv_map intro: only_out_rows\<close>)
  then show "\<exists>rows. position_rows K ids = Inr rows" by (simp add: position_rows_def Let_def)
  let ?q = "filter (\<lambda>item. str_strip item \<noteq> []) (str_split CHR '','' text)"
  have "\<exists>rows. collect_rows plan_exposure (zip ?q (map (\<lambda>i. k_text K (plan_runtime_key i)) ?q)) = Inr rows"
    by (rule collect_rows_answers) (use assms in \<open>auto simp: books_in_model_def zip_map2 zip_same_conv_map intro: only_out_rows\<close>)
  then show "\<exists>rows. plan_rows K = Inr rows" if "k_text K RUNTIME_IDS = Some (Txt text)"
    using that by (simp add: plan_rows_def runtime_plan_ids_def)
qed

context redis
begin

lemma run_mget_or_get:
  assumes "has_mget \<or> (\<forall>k \<in> set keys. str_key (ks s) k)"
  shows "\<exists>s'. ks s' = ks s \<and> run exec (mget_or_get has_mget keys) s = (Inr (map (k_text (ks s)) keys), s')"
proof (cases "has_mget \<or> keys = []")
  case True
  then show ?thesis by (auto simp: mget_or_get_def run_last)
next
  case False
  have "\<exists>s'. ks s' = ks s \<and> run exec (get_each keys) s = (Inr (map (k_text (ks s)) keys), s')"
    if "\<forall>k \<in> set keys. str_key (ks s) k" for keys s
    using that
  proof (induction keys arbitrary: s)
    case (Cons k keys)
    let ?s = "snd (exec (GET k) s)"
    have "ks ?s = ks s" by simp
    with Cons obtain s' where "ks s' = ks s" "run exec (get_each keys) ?s = (Inr (map (k_text (ks s)) keys), s')"
      by (metis list.set_intros(2))
    with Cons(2) show ?case
      by (intro exI [of _ s']) (simp add: run_get run_pbind [of exec "get_each keys"])
  qed auto
  with False assms show ?thesis by (simp add: mget_or_get_def)
qed

lemma run_of_res: "run exec (of_res r) s = (r, s)"
  by (cases r) simp_all

lemma run_load_v6:
  assumes "set_key (ks s) V6_POSITIONS" "has_mget \<or> (\<forall>k. str_key (ks s) (position_key k))"
  shows "\<exists>ids s'. set ids = set (k_set (ks s) V6_POSITIONS) \<and> ks s' = ks s \<and>
    run exec (load_v6_position_exposures has_mget) s = (position_rows (ks s) ids, s')"
proof -
  let ?s = "snd (exec (SMEMBERS V6_POSITIONS) s)"
  obtain ids where ids: "set ids = set (k_set (ks s) V6_POSITIONS)"
    "run exec (load_v6_position_exposures has_mget) s =
       run exec (if ids = [] then Done []
         else let p = List.map_filter parse_int ids in
           pbind (mget_or_get has_mget (map position_key p)) (\<lambda>raws. of_res (collect_rows position_exposure (zip p raws)))) ?s"
    using run_members [OF assms(1), of "\<lambda>raw_ids. if raw_ids = [] then Done []
         else let p = List.map_filter parse_int raw_ids in
           pbind (mget_or_get has_mget (map position_key p)) (\<lambda>raws. of_res (collect_rows position_exposure (zip p raws)))"]
    unfolding load_v6_position_exposures_def by blast
  have same: "ks ?s = ks s" by simp
  let ?p = "List.map_filter parse_int ids"
  obtain s' where s': "ks s' = ks s"
    "run exec (mget_or_get has_mget (map position_key ?p)) ?s = (Inr (map (k_text (ks s)) (map position_key ?p)), s')"
    using run_mget_or_get [of has_mget "map position_key ?p" ?s] assms(2) unfolding same by auto
  show ?thesis
  proof (cases "ids = []")
    case True
    with ids same show ?thesis
      by (intro exI [of _ ids] exI [of _ ?s]) (simp add: position_rows_def collect_rows_def List.map_filter_simps)
  next
    case False
    with ids s' show ?thesis
      by (intro exI [of _ ids] exI [of _ s'])
        (simp add: Let_def run_pbind [of exec "mget_or_get has_mget (map position_key ?p)"] run_of_res position_rows_def comp_def)
  qed
qed

lemma run_load_plans:
  assumes "str_key (ks s) RUNTIME_IDS" "has_mget \<or> (\<forall>k. str_key (ks s) (plan_runtime_key k))"
  shows "\<exists>s'. ks s' = ks s \<and> run exec (load_trade_plan_exposures has_mget) s = (plan_rows (ks s), s')"
proof -
  let ?s = "snd (exec (GET RUNTIME_IDS) s)"
  have same: "ks ?s = ks s" by simp
  show ?thesis
  proof (cases "runtime_plan_ids (k_text (ks s) RUNTIME_IDS)")
    case (Inl e)
    with same show ?thesis
      by (intro exI [of _ ?s]) (simp add: load_trade_plan_exposures_def run_get assms(1) plan_rows_def)
  next
    case (Inr plans)
    obtain s' where s': "ks s' = ks s"
      "run exec (mget_or_get has_mget (map plan_runtime_key plans)) ?s =
         (Inr (map (k_text (ks s)) (map plan_runtime_key plans)), s')"
      using run_mget_or_get [of has_mget "map plan_runtime_key plans" ?s] assms(2) unfolding same by auto
    with Inr show ?thesis
      by (intro exI [of _ s'])
        (simp add: load_trade_plan_exposures_def run_get assms(1) plan_rows_def
          run_pbind [of exec "mget_or_get has_mget (map plan_runtime_key plans)"] run_of_res comp_def)
  qed
qed

text \<open>What the loader answers: the rows of both books, restricted to the symbol.\<close>

lemma run_load_exposures:
  assumes "set_key (ks s) V6_POSITIONS" "str_key (ks s) RUNTIME_IDS"
    and "has_mget \<or> (\<forall>k. str_key (ks s) (position_key k)) \<and> (\<forall>k. str_key (ks s) (plan_runtime_key k))"
  shows "\<exists>ids. set ids = set (k_set (ks s) V6_POSITIONS) \<and>
    fst (run exec (load_active_exposures has_mget symbol) s) =
      res_bind (position_rows (ks s) ids) (\<lambda>v6. res_bind (plan_rows (ks s)) (\<lambda>v8.
      Inr (filter_exposures_for_symbol (v6 @ v8) symbol)))"
proof -
  have c: "has_mget \<or> (\<forall>k. str_key (ks s) (position_key k))" "has_mget \<or> (\<forall>k. str_key (ks s) (plan_runtime_key k))"
    using assms(3) by auto
  from run_load_v6 [OF assms(1) c(1)] obtain ids s1 where v6: "set ids = set (k_set (ks s) V6_POSITIONS)" "ks s1 = ks s"
    "run exec (load_v6_position_exposures has_mget) s = (position_rows (ks s) ids, s1)"
    by blast
  have "str_key (ks s1) RUNTIME_IDS" "has_mget \<or> (\<forall>k. str_key (ks s1) (plan_runtime_key k))"
    using assms(2) c(2) by (simp_all add: v6(2))
  from run_load_plans [OF this] obtain s2 where
    v8: "run exec (load_trade_plan_exposures has_mget) s1 = (plan_rows (ks s), s2)"
    unfolding v6(2) by blast
  have "fst (run exec (load_active_exposures has_mget symbol) s) =
      res_bind (position_rows (ks s) ids) (\<lambda>v6. res_bind (plan_rows (ks s)) (\<lambda>v8.
      Inr (filter_exposures_for_symbol (v6 @ v8) symbol)))"
    unfolding load_active_exposures_def run_pbind [of exec "load_v6_position_exposures has_mget"] v6(3)
    by (cases "position_rows (ks s) ids"; cases "plan_rows (ks s)")
      (simp_all add: run_pbind [of exec "load_trade_plan_exposures has_mget"] v8)
  with v6(1) show ?thesis by blast
qed

end

lemma evaluate_cases:
  fixes exposures symbol direction entry sep fraction ignore allow tier
  assumes "direction_text direction = Some wanted" "0 < entry"
  defines "relevant \<equiv> filter_exposures_for_symbol exposures symbol"
  defines "D \<equiv> evaluate_entry_against_exposure direction entry exposures sep fraction ignore allow tier symbol"
  shows "(\<exists>x \<in> set relevant. ax_direction x = opposite_of wanted \<and> \<bar>entry - ax_entry_price x\<bar> < max 0 sep) \<Longrightarrow>
      ed_block D = (\<not> ignore) \<and> \<not> ed_same_direction_stack D \<and>
      ed_reason_code D = Some (if ignore then ''opposing_active_too_close_ignored_scalp'' else ''opposing_active_too_close'')"
    and "\<not> (\<exists>x \<in> set relevant. ax_direction x = opposite_of wanted \<and> \<bar>entry - ax_entry_price x\<bar> < max 0 sep) \<Longrightarrow>
      D = same_direction_decision wanted fraction allow (candidate_tier_of tier) symbol relevant"
proof -
  have D: "D = (case first_opposing (opposite_of wanted) entry (max 0 sep) relevant of
      Some x \<Rightarrow>
        (let measured = opposing_measured entry symbol (max 0 sep) x in
         if ignore
         then \<lparr>ed_block = False, ed_reason_code = Some ''opposing_active_too_close_ignored_scalp'',
               ed_same_direction_stack = False,
               ed_measured = Some (measured @
                 [(''ignore_opposing_active'', JBool True), (''preference_telemetry'', JBool True)])\<rparr>
         else \<lparr>ed_block = True, ed_reason_code = Some ''opposing_active_too_close'',
               ed_same_direction_stack = False, ed_measured = Some measured\<rparr>)
    | None \<Rightarrow> same_direction_decision wanted fraction allow (candidate_tier_of tier) symbol relevant)"
    unfolding D_def evaluate_entry_against_exposure_def relevant_def assms(1) option.case Let_def using assms(2) by simp
  note f = find_Some_iff [of "\<lambda>x. ax_direction x = opposite_of wanted \<and> \<bar>entry - ax_entry_price x\<bar> < max 0 sep" relevant]
  show "(\<exists>x \<in> set relevant. ax_direction x = opposite_of wanted \<and> \<bar>entry - ax_entry_price x\<bar> < max 0 sep) \<Longrightarrow>
      ed_block D = (\<not> ignore) \<and> \<not> ed_same_direction_stack D \<and>
      ed_reason_code D = Some (if ignore then ''opposing_active_too_close_ignored_scalp'' else ''opposing_active_too_close'')"
    unfolding f [symmetric] D first_opposing_def by (elim exE) (simp add: Let_def)
  show "\<not> (\<exists>x \<in> set relevant. ax_direction x = opposite_of wanted \<and> \<bar>entry - ax_entry_price x\<bar> < max 0 sep) \<Longrightarrow>
      D = same_direction_decision wanted fraction allow (candidate_tier_of tier) symbol relevant"
    unfolding f [symmetric] D first_opposing_def by (cases "find (\<lambda>x. ax_direction x = opposite_of wanted \<and>
      \<bar>entry - ax_entry_price x\<bar> < max 0 sep) relevant") simp_all
qed

lemma opposing_found:
  assumes "direction_text direction = Some wanted" "0 < entry" "x \<in> set exposures" "competes symbol x"
    "ax_direction x = opposite_of wanted" "\<bar>entry - ax_entry_price x\<bar> < sep"
  shows "ed_block (evaluate_entry_against_exposure direction entry exposures sep fraction ignore allow tier symbol) =
      (\<not> ignore)"
    "ed_reason_code (evaluate_entry_against_exposure direction entry exposures sep fraction ignore allow tier symbol) =
      Some (if ignore then ''opposing_active_too_close_ignored_scalp'' else ''opposing_active_too_close'')"
proof -
  have "\<exists>x \<in> set (filter_exposures_for_symbol exposures symbol).
      ax_direction x = opposite_of wanted \<and> \<bar>entry - ax_entry_price x\<bar> < max 0 sep"
    using assms(3-6) unfolding relevant_set by auto
  note d = evaluate_cases(1) [OF assms(1,2) this, of fraction ignore allow tier]
  show "ed_block (evaluate_entry_against_exposure direction entry exposures sep fraction ignore allow tier symbol) =
      (\<not> ignore)"
    "ed_reason_code (evaluate_entry_against_exposure direction entry exposures sep fraction ignore allow tier symbol) =
      Some (if ignore then ''opposing_active_too_close_ignored_scalp'' else ''opposing_active_too_close'')"
    using d by blast+
qed

section \<open>Properties\<close>

text \<open>C6. The exposure gate, exactly: for a usable candidate only the exposures of its instrument count, the aliases of
  gold being one instrument (all count when it names none). It is blocked when an opposing exposure is closer than the
  separation and the caller does not ignore such, or when none is and some exposure has its direction, it is no scalp,
  and not both every such exposure has booked its second target and the candidate is of tier A. It is sized down as an
  addition exactly when no opposing exposure is close, some exposure has its direction and it is a scalp or both
  conditions hold. So an opposing exposure that is close and ignored also switches the rules for the same direction off.\<close>

theorem exposure_gate_exact:
  assumes "direction_text direction = Some wanted" "0 < entry"
    and "D = evaluate_entry_against_exposure direction entry exposures sep fraction ignore allow tier symbol"
    and "close \<longleftrightarrow> (\<exists>x \<in> set exposures. competes symbol x \<and> ax_direction x = opposite_of wanted \<and>
      \<bar>entry - ax_entry_price x\<bar> < max 0 sep)"
    and "same = {x \<in> set exposures. competes symbol x \<and> ax_direction x = wanted}"
    and "earned \<longleftrightarrow> (\<forall>x \<in> same. same_direction_tp2_booked x) \<and> candidate_tier_of tier = Some ''A''"
  shows "(ed_block D \<longleftrightarrow> (if close then \<not> ignore else same \<noteq> {} \<and> \<not> allow \<and> \<not> earned)) \<and>
    (ed_same_direction_stack D \<longleftrightarrow> \<not> close \<and> same \<noteq> {} \<and> (allow \<or> earned))"
proof -
  let ?r = "filter_exposures_for_symbol exposures symbol"
  let ?s = "filter (\<lambda>x. ax_direction x = wanted) ?r"
  have close: "close \<longleftrightarrow> (\<exists>x \<in> set ?r. ax_direction x = opposite_of wanted \<and> \<bar>entry - ax_entry_price x\<bar> < max 0 sep)"
    unfolding assms(4) relevant_set by blast
  have same: "set ?s = same" unfolding set_filter relevant_set assms(5) by blast
  then have ne: "?s \<noteq> [] \<longleftrightarrow> same \<noteq> {}" by (metis set_empty)
  have earned: "same_direction_stack_unlocked ?s \<and> candidate_tier_of tier = Some ''A'' \<longleftrightarrow> earned"
    unfolding unlocked_iff same assms(6) by (rule refl)
  note d = evaluate_cases [OF assms(1,2), where exposures = exposures and symbol = symbol and sep = sep and ignore = ignore
      and fraction = fraction and allow = allow and tier = tier, folded assms(3) close]
  note e = same_direction_decision_exact [where exposures = ?r and wanted = wanted and allow = allow and
      tier = "candidate_tier_of tier" and f = fraction and symbol = symbol, unfolded ne earned]
  show ?thesis using d e by (cases close) simp_all
qed

definition demo_exposure :: "string \<Rightarrow> rat \<Rightarrow> active_exposure" where
  "demo_exposure direction price =
     \<lparr>ax_direction = direction, ax_entry_price = price, ax_source = ''v8_plan'', ax_symbol = Some ''XAU'',
      ax_group_id = None, ax_plan_id = Some ''p1'', ax_position_id = None, ax_remaining_volume = Some 1,
      ax_highest_booked_target_index = None\<rparr>"

theorem exposure_gate_exact_witness:
  "\<not> ed_block (evaluate_entry_against_exposure ''buy'' 4050 [demo_exposure ''SELL'' 4063, demo_exposure ''BUY'' 4040]
      15 (6 / 10) True False None (Some ''xauusd'')) \<and>
   ed_block (evaluate_entry_against_exposure ''buy'' 4080 [demo_exposure ''SELL'' 4063, demo_exposure ''BUY'' 4040]
      15 (6 / 10) True False None (Some ''xauusd''))"
proof -
  have n: "direction_text ''buy'' = Some ''BUY''" "normalize_symbol (Some ''xauusd'') = Some ''XAU''"
    "normalize_symbol (Some ''XAU'') = Some ''XAU''"
    by code_simp+
  have e: "competes (Some ''xauusd'') (demo_exposure d p)" "ax_direction (demo_exposure d p) = d"
    "ax_entry_price (demo_exposure d p) = p" "\<not> same_direction_tp2_booked (demo_exposure d p)" for d p
    by (simp_all add: demo_exposure_def competes_def same_instrument_def n same_direction_tp2_booked_def)
  let ?x = "[demo_exposure ''SELL'' 4063, demo_exposure ''BUY'' 4040]"
  have same: "{x \<in> set ?x. competes (Some ''xauusd'') x \<and> ax_direction x = ''BUY''} = {demo_exposure ''BUY'' 4040}"
    using e by auto
  have close: "(\<exists>x \<in> set ?x. competes (Some ''xauusd'') x \<and> ax_direction x = opposite_of ''BUY'' \<and>
      \<bar>y - ax_entry_price x\<bar> < max 0 15) \<longleftrightarrow> \<bar>y - 4063\<bar> < 15" for y
    by (simp add: e opposite_of_def)
  show ?thesis
    using exposure_gate_exact [THEN conjunct1, OF n(1) _ refl close [symmetric] same [symmetric] refl, of 4050 "6 / 10" True False None]
      exposure_gate_exact [THEN conjunct1, OF n(1) _ refl close [symmetric] same [symmetric] refl, of 4080 "6 / 10" True False None]
    by (simp add: e)
qed

text \<open>C7. A live plan guards its price. When the server lists a plan whose runtime document counts as exposure, the loader
  answers, and answers that exposure among others, whatever else the two books hold: other ids that are no numbers, records that
  are missing, no JSON or no dict, and documents that do not count are skipped and none of them makes it raise. The only
  exception is what the model does not read, marked \<open>OutOfModel\<close>: a number written as a string, a text written as a float, list
  or dict. A candidate of the opposite direction on the same instrument, closer than the separation, is then not let through
  unless the caller ignores opposing exposure, whether or not the loader was restricted to the instrument.\<close>

theorem live_plan_blocks_opposite:
  assumes "redis exec ks" "set_key (ks s) V6_POSITIONS" "str_key (ks s) RUNTIME_IDS"
    and "has_mget \<or> (\<forall>k. str_key (ks s) (position_key k)) \<and> (\<forall>k. str_key (ks s) (plan_runtime_key k))"
    and "books_in_model (ks s)" "restricted = None \<or> restricted = symbol"
    and "k_text (ks s) RUNTIME_IDS = Some (Txt ids)" "plan_id \<in> set (str_split CHR '','' ids)" "str_strip plan_id \<noteq> []"
    and "k_text (ks s) (plan_runtime_key plan_id) = Some (Doc (JObj payload))"
    and "plan_exposure plan_id payload = Inr (Some x)"
    and "direction_text direction = Some wanted" "0 < entry" "ax_direction x = opposite_of wanted"
      "\<bar>entry - ax_entry_price x\<bar> < sep" "same_instrument symbol (ax_symbol x)"
  shows "\<exists>exposures. fst (run exec (load_active_exposures has_mget restricted) s) = Inr exposures \<and> x \<in> set exposures \<and>
    ed_block (evaluate_entry_against_exposure direction entry exposures sep fraction ignore allow tier symbol) =
      (\<not> ignore)"
proof -
  obtain members where members: "fst (run exec (load_active_exposures has_mget restricted) s) =
      res_bind (position_rows (ks s) members) (\<lambda>v6. res_bind (plan_rows (ks s)) (\<lambda>v8.
      Inr (filter_exposures_for_symbol (v6 @ v8) restricted)))"
    using redis.run_load_exposures [OF assms(1-4), of restricted] by blast
  obtain v6 v8 where rows: "position_rows (ks s) members = Inr v6" "plan_rows (ks s) = Inr v8"
    using books_answer(1) [OF assms(5)] books_answer(2) [OF assms(5,7)] by blast
  have run: "fst (run exec (load_active_exposures has_mget restricted) s) = Inr (filter_exposures_for_symbol (v6 @ v8) restricted)"
    unfolding members rows by simp
  let ?plans = "filter (\<lambda>item. str_strip item \<noteq> []) (str_split CHR '','' ids)"
  have "collect_rows plan_exposure (zip ?plans (map (\<lambda>i. k_text (ks s) (plan_runtime_key i)) ?plans)) = Inr v8"
    using rows(2) assms(7) by (simp add: plan_rows_def runtime_plan_ids_def)
  moreover have "plan_id \<in> set ?plans" using assms(8,9) by simp
  then have "(plan_id, k_text (ks s) (plan_runtime_key plan_id)) \<in>
      set (zip ?plans (map (\<lambda>i. k_text (ks s) (plan_runtime_key i)) ?plans))"
    by (simp add: zip_map2 zip_same_conv_map)
  moreover have "payload_of (k_text (ks s) (plan_runtime_key plan_id)) = Some payload"
    using assms(10) by (simp add: payload_of_def)
  ultimately have "x \<in> set v8" using assms(11) by (rule collect_rows_member)
  moreover have "normalize_symbol symbol = normalize_symbol (ax_symbol x)" using assms(16) by (auto simp: same_instrument_def)
  ultimately have x: "x \<in> set (filter_exposures_for_symbol (v6 @ v8) restricted)"
    using assms(6) by (cases "restricted = None") (auto simp: no_symbol, auto simp: filter_exposures_for_symbol_def split: option.splits)
  have "competes symbol x" using assms(16) by (simp add: competes_def)
  from opposing_found(1) [OF assms(12,13) x this assms(14,15)] x run show ?thesis by blast
qed

definition demo_runtime :: "(string \<times> json) list" where
  "demo_runtime = [(''PlanId'', JStr ''p1''), (''Symbol'', JStr ''GOLD''), (''Direction'', JStr ''Sell''),
     (''Stage'', JStr ''Submitted''), (''Legs'', JList [JObj [(''IntendedPrice'', JFloat 4063)]]),
     (''HighestBookedTargetIndex'', JInt (- 1))]"

definition demo_exposure_store :: keyspace where
  "demo_exposure_store = Map.empty(RUNTIME_IDS \<mapsto> VStr (Txt ''p0,p1'') None,
     plan_runtime_key ''p1'' \<mapsto> VStr (Doc (JObj demo_runtime)) None)"

definition demo_gold :: active_exposure where
  "demo_gold = \<lparr>ax_direction = ''SELL'', ax_entry_price = 4063, ax_source = ''v8_plan'', ax_symbol = Some ''XAU'',
     ax_group_id = None, ax_plan_id = Some ''p1'', ax_position_id = None, ax_remaining_volume = Some 0,
     ax_highest_booked_target_index = None\<rparr>"

text \<open>The store lists a plan \<open>p0\<close> without a record before \<open>p1\<close>.\<close>

theorem live_plan_blocks_opposite_witness:
  "\<exists>exposures. fst (run mem_exec (load_active_exposures True None) demo_exposure_store) = Inr exposures \<and>
     ed_block (evaluate_entry_against_exposure ''buy'' 4050 exposures 15 (6 / 10) False False None (Some ''xauusd''))"
proof -
  have d: "demo_exposure_store V6_POSITIONS = None" "demo_exposure_store RUNTIME_IDS = Some (VStr (Txt ''p0,p1'') None)"
    "demo_exposure_store (plan_runtime_key ''p1'') = Some (VStr (Doc (JObj demo_runtime)) None)"
    by (simp_all add: demo_exposure_store_def RUNTIME_IDS_def V6_POSITIONS_def plan_runtime_key_def)
  then have k: "set_key demo_exposure_store V6_POSITIONS" "str_key demo_exposure_store RUNTIME_IDS"
    "k_text demo_exposure_store RUNTIME_IDS = Some (Txt ''p0,p1'')"
    "k_text demo_exposure_store (plan_runtime_key ''p1'') = Some (Doc (JObj demo_runtime))"
    by (simp_all add: set_key_def str_key_def k_text_def)
  have p: "plan_exposure ''p1'' demo_runtime = Inr (Some demo_gold)" by code_simp
  have none: "k_text demo_exposure_store (position_key j) = None"
    "r \<noteq> ''p1'' \<Longrightarrow> k_text demo_exposure_store (plan_runtime_key r) = None" for j r
    by (simp_all add: demo_exposure_store_def k_text_def position_key_def plan_runtime_key_def RUNTIME_IDS_def)
  have books: "books_in_model demo_exposure_store"
    unfolding books_in_model_def
  proof (intro conjI allI impI)
    show "position_exposure j kv \<noteq> Inl OutOfModel" if "payload_of (k_text demo_exposure_store (position_key j)) = Some kv" for j kv
      using that by (simp add: none payload_of_def)
    show "plan_exposure r kv \<noteq> Inl OutOfModel" if "payload_of (k_text demo_exposure_store (plan_runtime_key r)) = Some kv" for r kv
    proof (cases "r = ''p1''")
      case True
      then have "kv = demo_runtime" using that unfolding True k(4) by (simp add: payload_of_def)
      then show ?thesis unfolding True using p by simp
    next
      case False
      then show ?thesis using that by (simp add: none payload_of_def)
    qed
  qed
  have i: "''p1'' \<in> set (str_split CHR '','' ''p0,p1'')" "str_strip ''p1'' \<noteq> []"
    "direction_text ''buy'' = Some ''BUY''" "same_instrument (Some ''xauusd'') (ax_symbol demo_gold)"
    by code_simp+
  have g: "ax_direction demo_gold = opposite_of ''BUY''" "\<bar>4050 - ax_entry_price demo_gold\<bar> < 15"
    by (simp_all add: demo_gold_def opposite_of_def)
  have m: "True \<or> (\<forall>k. str_key demo_exposure_store (position_key k)) \<and> (\<forall>k. str_key demo_exposure_store (plan_runtime_key k))" by simp
  have r: "(None :: string option) = None \<or> None = Some ''xauusd''" by simp
  show ?thesis
    using live_plan_blocks_opposite [where ks = "\<lambda>K. K", OF mem.redis_axioms k(1,2) m books r k(3) i(1,2) k(4) p i(3) _ g i(4),
        of "6 / 10" False False None]
    by auto
qed

end
