(* ===== verification/TradePlanBuilder.thy ===== *)
theory TradePlanBuilder
  imports TradePlan StrategyMatch ActiveExposure
begin

text \<open>
  From a confirmed match to a trade plan (\<open>app/autotrade/trade_plan_builder.py\<close>). What the execution policy measured is an
  input: the approved decision of the worker, or the result of evaluating the policy again. The decimal of the text of a
  float is a parameter.
\<close>

section \<open>Inputs\<close>

text \<open>The configuration the builder reads; \<open>None\<close> is an attribute that is missing.\<close>

record builder_config =
  bc_max_spread_pips :: "rat option"
  bc_units_price_digits :: "int option"
  bc_contract_price_digits :: "int option"
  bc_scalp_risk_percent :: "rat option"
  bc_scalp_sizing_mode :: "string option"
  bc_market_fraction :: rat
  bc_first_leg_fraction :: rat

record build_request =
  bq_plan_id :: string
  bq_setup_id :: string
  bq_thesis_id :: string
  bq_pip_size :: decimal
  bq_regime :: "string option"
  bq_max_volume :: int
  bq_max_spread_ticks :: "int option"
  bq_max_slippage_ticks :: int
  bq_be_after_target_index :: "int option"
  bq_be_buffer_ticks :: int
  bq_max_group_risk_percent :: decimal
  bq_close_ratios :: "decimal list option"
  bq_analysis_engine_version :: string
  bq_market_map_id :: string
  bq_config_fingerprint :: string
  bq_confirmation_source :: string
  bq_execution_confirmation_bar_ts :: "int option"
  bq_zone_episode_id :: "string option"
  bq_trigger_wick :: bool
  bq_now_ts :: "int option"
  bq_approved_measured :: "(string \<times> json) list option"
  bq_policy_measured :: "(string \<times> json) list"
  bq_same_direction_stack :: bool
  bq_same_direction_size_fraction :: rat

definition rejected :: "string \<Rightarrow> 'a res" where
  "rejected reason = Inl (TradePlanBuildRejected reason)"

definition reject_if :: "bool \<Rightarrow> string \<Rightarrow> unit res" where
  "reject_if b reason = (if b then rejected reason else Inr ())"

definition parse_bar_ts :: "string \<Rightarrow> int \<Rightarrow> int" where
  "parse_bar_ts event_ts fallback = (case parse_int event_ts of Some i \<Rightarrow> i | None \<Rightarrow> fallback)"

definition resolve_max_spread_ticks :: "rat \<Rightarrow> decimal \<Rightarrow> int \<Rightarrow> int" where
  "resolve_max_spread_ticks max_spread_pips pip_size price_digits =
     (let pip = dec_value pip_size; digits = nat (max 0 price_digits); tick = 1 / 10 ^ digits in
      if pip \<le> 0 then 8 else max 1 \<lceil>max_spread_pips * pip / tick\<rceil>)"

text \<open>\<open>ratios[-1] += Decimal("1") - x\<close>.\<close>

definition add_to_last :: "decimal list \<Rightarrow> decimal \<Rightarrow> decimal list" where
  "add_to_last ratios x = butlast ratios @ [dec_add (last ratios) (dec_add (dec_of_int 1) (dec_minus x))]"

text \<open>\<open>[ratio] * n\<close> with \<open>ratio\<close> the rounded share, the rest going to the last.\<close>

definition equal_ratios :: "nat \<Rightarrow> decimal list" where
  "equal_ratios n =
     (let base = quantize4 (dec_recip n)
      in add_to_last (replicate n base) (dec_mul base (dec_of_int (int n))))"

definition equal_close_ratios :: "nat \<Rightarrow> decimal list" where
  "equal_close_ratios n = (if n = 0 then [] else equal_ratios n)"

definition is_approved_policy_measured :: "(string \<times> json) list \<Rightarrow> bool" where
  "is_approved_policy_measured measured \<longleftrightarrow>
     measured \<noteq> [] \<and> \<not> py_truthy (dict_get measured ''planned_stop_error'') \<and>
     dict_get measured ''planned_stop_price'' \<noteq> JNull \<and>
     (py_truthy (dict_get measured ''planned_execution_route'') \<or> dict_get measured ''planned_entry_price'' \<noteq> JNull)"

text \<open>\<open>Decimal(str(value))\<close>, for the decimal \<open>fdec q\<close> of the text of a float \<open>q\<close>.\<close>

fun decimal_of :: "(rat \<Rightarrow> decimal) \<Rightarrow> json \<Rightarrow> decimal res" where
  "decimal_of fdec (JFloat q) = Inr (fdec q)"
| "decimal_of fdec (JInt i) = Inr (dec_of_int i)"
| "decimal_of fdec (JStr s) = (case parse_decimal s of Some d \<Rightarrow> Inr d | None \<Rightarrow> Inl InvalidOperation)"
| "decimal_of fdec _ = Inl InvalidOperation"

text \<open>\<open>measured.get(k) or []\<close> and \<open>measured[k]\<close>.\<close>

definition measured_list :: "(string \<times> json) list \<Rightarrow> string \<Rightarrow> json list res" where
  "measured_list measured k = py_iter_or_empty (dict_get measured k)"

definition measured_item :: "(string \<times> json) list \<Rightarrow> string \<Rightarrow> json res" where
  "measured_item measured k = (case map_of measured k of None \<Rightarrow> Inl KeyError | Some v \<Rightarrow> Inr v)"

section \<open>The entry\<close>

text \<open>The shares of the legs: those of the policy where they fit, the last one completed to one.\<close>

definition leg_shares :: "(rat \<Rightarrow> decimal) \<Rightarrow> json list \<Rightarrow> nat \<Rightarrow> decimal list \<Rightarrow> decimal list res" where
  "leg_shares fdec custom n standard =
     (if custom \<noteq> [] \<and> length custom = n
      then res_bind (res_map_list (decimal_of fdec) custom) (\<lambda>ratios. Inr (add_to_last ratios (dec_sum ratios)))
      else Inr standard)"

definition make_legs :: "(nat \<Rightarrow> string option) \<Rightarrow> decimal list \<Rightarrow> decimal list \<Rightarrow> entry_leg list" where
  "make_legs order_type prices ratios =
     map (\<lambda>(i, price, ratio). \<lparr>el_leg_id = ''L'' @ str_nat (i + 1), el_price = price, el_volume_ratio = ratio,
            el_order_type = order_type i\<rparr>)
       (zip [0..<length (zip prices ratios)] (zip prices ratios))"

definition plain_entry :: "string \<Rightarrow> int \<Rightarrow> int \<Rightarrow> int \<Rightarrow> plan_entry" where
  "plain_entry kind expires_at spread slippage =
     \<lparr>en_type = kind, en_expires_at = expires_at, en_zone_low = None, en_zone_high = None, en_activation = None,
      en_price_side = None, en_max_spread_ticks = Some spread, en_max_slippage_ticks = Some slippage,
      en_order_price = None, en_legs = []\<rparr>"

definition build_entry ::
  "(rat \<Rightarrow> decimal) \<Rightarrow> string \<Rightarrow> string \<Rightarrow> strategy_match \<Rightarrow> (string \<times> json) list \<Rightarrow> int \<Rightarrow> int \<Rightarrow> int \<Rightarrow> plan_entry res" where
  "build_entry fdec route direction m measured expires_at max_spread max_slippage =
     (let zone_low = Some (fdec (sm_entry_low m)); zone_high = Some (fdec (sm_entry_high m));
          entry = (\<lambda>kind. plain_entry kind expires_at max_spread max_slippage) in
      if route = ''market''
      then (if py_truthy (dict_get measured ''planned_market_immediate'')
            then res_bind (res_bind (measured_item measured ''planned_entry_price'') (decimal_of fdec)) (\<lambda>price.
                 Inr ((entry ENTRY_TYPE_MARKET)\<lparr>en_order_price := Some price,
                        en_max_slippage_ticks := Some (max max_slippage 100)\<rparr>))
            else Inr ((entry ENTRY_TYPE_MARKET_WATCH)\<lparr>en_zone_low := zone_low, en_zone_high := zone_high,
                        en_activation := Some ''quote_inside_zone'',
                        en_price_side := Some (if direction = ''BUY'' then ''ask'' else ''bid'')\<rparr>))
      else if route = ''single_limit''
      then res_bind (res_bind (measured_item measured ''planned_entry_price'') (decimal_of fdec)) (\<lambda>price.
           Inr ((entry ENTRY_TYPE_SINGLE_LIMIT)\<lparr>en_order_price := Some price\<rparr>))
      else if route = ''market_with_limit_scale''
      then res_bind (measured_list measured ''planned_leg_entry_prices'') (\<lambda>leg_prices.
           res_bind (reject_if (length leg_prices < 2) ''empty_reaction_scale_legs'') (\<lambda>_.
           res_bind (measured_list measured ''planned_leg_volume_ratios'') (\<lambda>custom.
           res_bind (leg_shares fdec custom (length leg_prices)
             (if length leg_prices \<noteq> 2 then equal_ratios (length leg_prices)
              else [Dec False 80 (- 2), Dec False 20 (- 2)])) (\<lambda>ratios.
           res_bind (res_map_list (decimal_of fdec) leg_prices) (\<lambda>prices.
           Inr ((entry ENTRY_TYPE_MARKET_WITH_LIMIT_SCALE)\<lparr>en_zone_low := zone_low, en_zone_high := zone_high,
                  en_legs := make_legs (\<lambda>i. Some (if i = 0 then ORDER_TYPE_MARKET else ORDER_TYPE_LIMIT)) prices ratios\<rparr>))))))
      else if route = ''zone_split''
      then res_bind (measured_list measured ''planned_leg_entry_prices'') (\<lambda>leg_prices.
           res_bind (reject_if (leg_prices = []) ''empty_ladder_legs'') (\<lambda>_.
           res_bind (measured_list measured ''planned_leg_volume_ratios'') (\<lambda>custom.
           res_bind (leg_shares fdec custom (length leg_prices) (equal_ratios (length leg_prices))) (\<lambda>ratios.
           res_bind (res_map_list (decimal_of fdec) leg_prices) (\<lambda>prices.
           Inr ((entry ENTRY_TYPE_LIMIT_LADDER)\<lparr>en_legs := make_legs (\<lambda>i. None) prices ratios\<rparr>))))))
      else rejected ''unresolved_execution_route'')"

section \<open>Stop, targets and management\<close>

definition KNOWN_STOP_ERRORS :: "string list" where
  "KNOWN_STOP_ERRORS =
     [''stop_exceeds_envelope_after_wick'', ''stop_exceeds_max_envelope'', ''stop_exceeds_envelope_furthest_leg'',
      ''stop_inside_opposing_zone'', ''stop_inside_entry_zone'', ''stop_not_beyond_planned_entries'']"

definition check_geometry :: "(string \<times> json) list \<Rightarrow> unit res" where
  "check_geometry measured =
     (let stop_error = dict_get measured ''planned_stop_error'' in
      if py_truthy stop_error
      then res_bind (py_str stop_error) (\<lambda>s.
           rejected (if s \<in> set KNOWN_STOP_ERRORS then s else ''protective_stop_unavailable''))
      else res_bind (reject_if (map_of measured ''planned_stop_price'' = None) ''protective_stop_unavailable'') (\<lambda>_.
           reject_if (\<not> py_truthy (dict_get measured ''planned_execution_route'')) ''execution_route_unresolved''))"

definition is_fixed_rr :: "(string \<times> json) list \<Rightarrow> bool" where
  "is_fixed_rr measured \<longleftrightarrow> dict_get measured ''target_policy_mode'' = JStr ''fixed_rr''"

text \<open>Ratios and prices of the targets.\<close>

definition build_target_values ::
  "(rat \<Rightarrow> decimal) \<Rightarrow> strategy_match \<Rightarrow> build_request \<Rightarrow> (string \<times> json) list \<Rightarrow> (decimal list \<times> decimal list) res" where
  "build_target_values fdec m q measured =
     res_bind (measured_list measured ''planned_target_prices'') (\<lambda>raw_prices.
     res_bind (res_map_list (decimal_of fdec) raw_prices) (\<lambda>prices.
     res_bind (measured_list measured ''planned_target_close_ratios'') (\<lambda>raw_ratios.
     res_bind (res_map_list (decimal_of fdec) raw_ratios) (\<lambda>close.
     if is_fixed_rr measured
     then res_bind (reject_if (prices = [] \<or> length prices \<noteq> length close \<or> list_ex (\<lambda>r. dec_value r \<le> 0) close \<or>
            dec_value (dec_sum close) \<noteq> 1) ''invalid_fixed_rr_target'') (\<lambda>_. Inr (close, prices))
     else res_bind (res_bind (measured_item measured ''planned_entry_price'') (decimal_of fdec)) (\<lambda>reference.
          let sign = dec_of_int (if sm_direction m = ''BUY'' then 1 else - 1);
              values = map (\<lambda>pips. dec_add reference (dec_mul sign (dec_mul (dec_of_int pips) (bq_pip_size q)))) (sm_targets_pips m) in
          Inr (case bq_close_ratios q of Some rs \<Rightarrow> rs | None \<Rightarrow> equal_close_ratios (length (sm_targets_pips m)), values))))))"

definition make_targets :: "decimal list \<Rightarrow> decimal list \<Rightarrow> plan_target list" where
  "make_targets values ratios =
     map (\<lambda>(i, price, ratio). \<lparr>tg_target_id = ''TP'' @ str_nat (i + 1), tg_type = ''absolute'', tg_price = price,
            tg_close_ratio = ratio\<rparr>)
       (zip [0..<length (zip values ratios)] (zip values ratios))"

text \<open>\<open>next((index for ... if abs(value - be_r) <= 1e-9), None)\<close>.\<close>

fun first_near :: "rat \<Rightarrow> rat list \<Rightarrow> nat \<Rightarrow> nat option" where
  "first_near r [] i = None"
| "first_near r (v # vs) i = (if \<bar>v - r\<bar> \<le> 1 / 10 ^ 9 then Some i else first_near r vs (Suc i))"

text \<open>\<open>xs[i]\<close>, from the end for a negative index.\<close>

definition list_item :: "'a list \<Rightarrow> int \<Rightarrow> 'a res" where
  "list_item xs i =
     (if 0 \<le> i \<and> i < int (length xs) then Inr (xs ! nat i)
      else if i < 0 \<and> - i \<le> int (length xs) then Inr (xs ! nat (int (length xs) + i))
      else Inl IndexError)"

definition be_target_id :: "build_request \<Rightarrow> (string \<times> json) list \<Rightarrow> plan_target list \<Rightarrow> string option res" where
  "be_target_id q measured targets =
     (let closes_at_first = (length targets = 1 \<and> dec_value (tg_close_ratio (hd targets)) = 1) in
      if is_fixed_rr measured
      then (let raw = dict_get measured ''breakeven_after_r'' in
            if raw = JNull \<or> targets = [] \<or> closes_at_first then Inr None
            else res_bind (py_float raw) (\<lambda>be_r.
                 res_bind (measured_list measured ''planned_target_r_multiples'') (\<lambda>raw_multiples.
                 res_bind (res_map_list py_float raw_multiples) (\<lambda>multiples.
                 Inr (case first_near be_r multiples 0 of
                        None \<Rightarrow> None
                      | Some i \<Rightarrow> if i < length targets then Some (tg_target_id (targets ! i)) else None)))))
      else (case bq_be_after_target_index q of
              None \<Rightarrow> Inr None
            | Some i \<Rightarrow> if targets = [] \<or> closes_at_first then Inr None
                        else res_bind (list_item targets i) (\<lambda>t. Inr (Some (tg_target_id t)))))"

definition trail_id :: "(string \<times> json) list \<Rightarrow> string \<Rightarrow> string option res" where
  "trail_id measured k =
     (if is_fixed_rr measured \<and> py_truthy (dict_get measured k)
      then res_bind (py_str (dict_get measured k)) (\<lambda>s. Inr (Some s)) else Inr None)"

definition build_management :: "build_request \<Rightarrow> (string \<times> json) list \<Rightarrow> plan_target list \<Rightarrow> plan_management res" where
  "build_management q measured targets =
     res_bind (be_target_id q measured targets) (\<lambda>be.
     res_bind (trail_id measured ''planned_trail_after_target_id'') (\<lambda>after.
     res_bind (trail_id measured ''planned_trail_to_target_id'') (\<lambda>to.
     Inr \<lparr>mg_be_after_target_id = be, mg_be_buffer_ticks = bq_be_buffer_ticks q, mg_never_worsen_stop = True,
          mg_trail_after_target_id = after, mg_trail_to_target_id = to\<rparr>)))"

section \<open>The plan\<close>

text \<open>The identity and context a match must carry.\<close>

definition check_match :: "strategy_match \<Rightarrow> unit res" where
  "check_match m =
     res_bind (reject_if (sm_targets_pips m = []) ''empty_target_config'') (\<lambda>_.
     res_bind (reject_if (sm_structural_zone_id m \<in> {None, Some []}) ''missing_stable_thesis_id'') (\<lambda>_.
     res_bind (reject_if (sm_structural_kind m \<in> {None, Some []}) ''missing_structural_kind'') (\<lambda>_.
     reject_if (sm_htf_bias m = []) ''missing_htf_bias'')))"

text \<open>The approved decision where it is complete, else the evaluation of the policy.\<close>

definition chosen_measured :: "build_request \<Rightarrow> (string \<times> json) list res" where
  "chosen_measured q =
     (let measured = (case bq_approved_measured q of None \<Rightarrow> bq_policy_measured q
                      | Some a \<Rightarrow> if is_approved_policy_measured a then a else bq_policy_measured q) in
      if bq_same_direction_stack q
      then apply_same_direction_stack_sizing measured (bq_same_direction_size_fraction q) else Inr measured)"

definition published_expires_at :: "strategy_match \<Rightarrow> int option \<Rightarrow> int" where
  "published_expires_at m now_ts =
     (let ttl_seconds = max 60 (sm_expires_at m - sm_issued_at m) in
      case now_ts of None \<Rightarrow> sm_expires_at m | Some now \<Rightarrow> now + ttl_seconds)"

text \<open>\<open>a or b\<close> of an optional text and a text.\<close>

definition text_or :: "string option \<Rightarrow> string \<Rightarrow> string" where
  "text_or a b = (case a of None \<Rightarrow> b | Some s \<Rightarrow> if s = [] then b else s)"

definition build_analysis :: "strategy_match \<Rightarrow> string option \<Rightarrow> plan_analysis" where
  "build_analysis m regime =
     \<lparr>an_strategy = sm_strategy m, an_strategy_family = text_or (Some (sm_family m)) (sm_strategy_mode m),
      an_direction = sm_direction m, an_context_timeframes = [sm_source_tf m],
      an_formation_timeframe = text_or (sm_structural_timeframe m) (sm_source_tf m),
      an_confirmation_timeframe = sm_source_tf m,
      an_formation_bar_ts = parse_bar_ts (text_or (sm_touch_bar_ts m) (sm_event_ts m)) (sm_issued_at m),
      an_confirmation_bar_ts = parse_bar_ts (text_or (sm_confirmation_bar_ts m) (sm_event_ts m)) (sm_issued_at m),
      an_score = of_int (sm_confluence m), an_confluence = sm_confluence m, an_bias = sm_htf_bias m,
      an_regime = text_or (Some (sm_regime_kind m)) (text_or regime ''unknown''), an_reasons = sm_reasons m,
      an_tags = sm_tags m, an_confluence_v1 = sm_confluence_v1 m, an_confluence_v2 = sm_confluence_v2 m,
      an_confluence_v2_raw = sm_confluence_v2_raw m, an_confluence_scoring_version = sm_confluence_scoring_version m\<rparr>"

definition build_structure :: "(rat \<Rightarrow> decimal) \<Rightarrow> strategy_match \<Rightarrow> plan_structure" where
  "build_structure fdec m =
     \<lparr>ps_structure_id = text_or (sm_structural_zone_id m) [], ps_kind = text_or (sm_structural_kind m) [],
      ps_timeframe = text_or (sm_structural_timeframe m) (sm_source_tf m),
      ps_low = fdec (or_default (sm_structural_zone_low m) (sm_entry_low m)),
      ps_high = fdec (or_default (sm_structural_zone_high m) (sm_entry_high m)),
      ps_invalidation_price = fdec (sm_structure_swing m)\<rparr>"

definition spread_ticks :: "build_request \<Rightarrow> builder_config \<Rightarrow> int" where
  "spread_ticks q cfg =
     (case bq_max_spread_ticks q of
        Some t \<Rightarrow> t
      | None \<Rightarrow>
          (let digits = (case bc_units_price_digits cfg of Some d \<Rightarrow> d
                         | None \<Rightarrow> (case bc_contract_price_digits cfg of Some d \<Rightarrow> d | None \<Rightarrow> 2))
           in resolve_max_spread_ticks (or_default (bc_max_spread_pips cfg) 5) (bq_pip_size q) (if digits = 0 then 2 else digits)))"

definition build_stop :: "(rat \<Rightarrow> decimal) \<Rightarrow> strategy_match \<Rightarrow> build_request \<Rightarrow> (string \<times> json) list \<Rightarrow> plan_stop res" where
  "build_stop fdec m q measured =
     res_bind (res_bind (measured_item measured ''planned_stop_price'') (decimal_of fdec)) (\<lambda>price.
     res_bind (if bq_trigger_wick q then Inr ''m1_trigger_wick''
       else if bq_confirmation_source q = ''m5_authoritative'' then Inr ''m5_structure''
       else py_str (case map_of measured ''stop_source'' of None \<Rightarrow> JStr ''protective_stop_plan'' | Some v \<Rightarrow> v)) (\<lambda>source.
     Inr \<lparr>st_type = ''absolute'', st_price = price, st_source = source,
       st_structure_id = sm_structural_zone_id m,
       st_reason = ''execution confirmation='' @ text_or (Some (bq_confirmation_source q)) ''legacy_m1'' @
         ''; app.autotrade.execution_policy.evaluate_execution_policy -> '' @
         ''app.autotrade.protective_stop.plan_protective_stop''\<rparr>))"

definition is_scalp_plan :: "strategy_match \<Rightarrow> bool" where
  "is_scalp_plan m \<longleftrightarrow> str_lower (sm_family m) = ''scalp'' \<or> str_lower (sm_strategy_mode m) = ''scalp_m1''"

definition build_risk ::
  "(rat \<Rightarrow> decimal) \<Rightarrow> strategy_match \<Rightarrow> build_request \<Rightarrow> builder_config \<Rightarrow> (string \<times> json) list \<Rightarrow> plan_risk res" where
  "build_risk fdec m q cfg measured =
     res_bind (decimal_of fdec (case map_of measured ''effective_risk_multiplier'' of None \<Rightarrow> JFloat (sm_risk_multiplier m)
       | Some v \<Rightarrow> v)) (\<lambda>multiplier.
     Inr \<lparr>ri_risk_percent = (if is_scalp_plan m then fdec (or_default (bc_scalp_risk_percent cfg) (1 / 2)) else Dec False 10 (- 1)),
       ri_risk_multiplier = multiplier, ri_max_volume = bq_max_volume q,
       ri_max_group_risk_percent = bq_max_group_risk_percent q\<rparr>)"

definition build_sizing ::
  "(rat \<Rightarrow> decimal) \<Rightarrow> strategy_match \<Rightarrow> builder_config \<Rightarrow> (string \<times> json) list \<Rightarrow> plan_entry \<Rightarrow> plan_sizing res" where
  "build_sizing fdec m cfg measured entry =
     (let first = fdec (if bc_market_fraction cfg \<noteq> 0 then bc_market_fraction cfg
                        else if bc_first_leg_fraction cfg \<noteq> 0 then bc_first_leg_fraction cfg else 4 / 5) in
      res_bind (py_str (py_or (dict_get measured ''entry_distribution'') (JStr ''zone_scale''))) (\<lambda>distribution.
      Inr \<lparr>sz_mode = (if is_scalp_plan m then text_or (bc_scalp_sizing_mode cfg) ''risk'' else ''equity_table''),
        sz_table_version = ''owner_equity_v1'', sz_entry_distribution = distribution,
        sz_leg_ratios = (if en_legs entry \<noteq> [] then map el_volume_ratio (en_legs entry)
          else [first, dec_add (dec_of_int 1) (dec_minus first)])\<rparr>))"

definition build_policy :: "plan_entry \<Rightarrow> plan_policy" where
  "build_policy entry =
     \<lparr>po_allow_market = (en_type entry \<in> {ENTRY_TYPE_MARKET, ENTRY_TYPE_MARKET_WATCH, ENTRY_TYPE_MARKET_WITH_LIMIT_SCALE}),
      po_allow_limit = (en_type entry \<in> {ENTRY_TYPE_SINGLE_LIMIT, ENTRY_TYPE_LIMIT_LADDER, ENTRY_TYPE_MARKET_WITH_LIMIT_SCALE}),
      po_allow_partial_fill = True, po_cancel_on_expiry = True\<rparr>"

text \<open>A failed check of the plan becomes a rejection, so that the publish path releases its claims.\<close>

definition checked_plan :: "trade_plan \<Rightarrow> trade_plan res" where
  "checked_plan plan =
     (case validate_plan plan of
        Inl (TradePlanError e) \<Rightarrow> rejected ''trade_plan_invalid''
      | Inl e \<Rightarrow> Inl e
      | Inr _ \<Rightarrow> Inr plan)"

definition build_trade_plan_from_strategy_match ::
  "(rat \<Rightarrow> decimal) \<Rightarrow> strategy_match \<Rightarrow> build_request \<Rightarrow> builder_config \<Rightarrow> trade_plan res" where
  "build_trade_plan_from_strategy_match fdec m q cfg =
     res_bind (check_match m) (\<lambda>_.
     res_bind (chosen_measured q) (\<lambda>measured.
     res_bind (check_geometry measured) (\<lambda>_.
     res_bind (build_target_values fdec m q measured) (\<lambda>(ratios, target_values).
     res_bind (reject_if (length ratios \<noteq> length target_values) ''target_ratio_mismatch'') (\<lambda>_.
     let targets = make_targets target_values ratios; expires_at = published_expires_at m (bq_now_ts q) in
     res_bind (py_str (dict_get measured ''planned_execution_route'')) (\<lambda>route.
     res_bind (build_entry fdec route (sm_direction m) m measured expires_at (spread_ticks q cfg) (bq_max_slippage_ticks q)) (\<lambda>entry.
     res_bind (build_stop fdec m q measured) (\<lambda>stop.
     res_bind (build_management q measured targets) (\<lambda>management.
     res_bind (build_risk fdec m q cfg measured) (\<lambda>risk.
     res_bind (build_sizing fdec m cfg measured entry) (\<lambda>sizing.
     checked_plan \<lparr>tp_version = TRADE_PLAN_VERSION, tp_plan_id = bq_plan_id q, tp_thesis_id = bq_thesis_id q,
       tp_setup_id = bq_setup_id q, tp_symbol = sm_symbol m, tp_created_at = sm_issued_at m, tp_expires_at = expires_at,
       tp_analysis = build_analysis m (bq_regime q), tp_source_structure = build_structure fdec m, tp_entry = entry,
       tp_stop = stop, tp_targets = targets, tp_risk = risk, tp_management = management,
       tp_execution_policy = build_policy entry,
       tp_provenance = \<lparr>pv_analysis_engine_version = bq_analysis_engine_version q, pv_market_map_id = bq_market_map_id q,
         pv_config_fingerprint = bq_config_fingerprint q, pv_confirmation_source = bq_confirmation_source q,
         pv_confirmation_bar_ts = bq_execution_confirmation_bar_ts q, pv_zone_episode_id = bq_zone_episode_id q\<rparr>,
       tp_sizing = Some sizing\<rparr>)))))))))))"

section \<open>What a built plan guarantees\<close>

lemma reject_if_Inr [simp]: "reject_if b r = Inr u \<longleftrightarrow> \<not> b"
  by (simp add: reject_if_def rejected_def)

lemma rejected_not [simp]: "rejected r \<noteq> Inr x" "Inr x \<noteq> rejected r"
  by (simp_all add: rejected_def)

lemma res_map_list_length: "res_map_list f xs = Inr ys \<Longrightarrow> length ys = length xs"
  by (induction xs arbitrary: ys) (auto simp: res_bind_Inr_iff)

lemma add_to_last_length: "rs \<noteq> [] \<Longrightarrow> length (add_to_last rs x) = length rs"
  by (simp add: add_to_last_def)

lemma equal_ratios_length: "0 < n \<Longrightarrow> length (equal_ratios n) = n"
  by (simp add: equal_ratios_def Let_def add_to_last_length)

lemma leg_shares_length:
  assumes "leg_shares fdec custom n standard = Inr rs" "length standard = n" "0 < n"
  shows "length rs = n"
  using assms unfolding leg_shares_def
  by (auto split: if_splits simp: res_bind_Inr_iff dest!: res_map_list_length) (subst add_to_last_length; auto)+

lemma make_legs_length: "length (make_legs ot ps rs) = min (length ps) (length rs)"
  by (simp add: make_legs_def)

lemma make_legs_nth:
  "i < min (length ps) (length rs) \<Longrightarrow>
     make_legs ot ps rs ! i = \<lparr>el_leg_id = ''L'' @ str_nat (i + 1), el_price = ps ! i, el_volume_ratio = rs ! i,
       el_order_type = ot i\<rparr>"
  by (simp add: make_legs_def)

lemma make_legs_types: "l \<in> set (make_legs ot ps rs) \<Longrightarrow> \<exists>i. el_order_type l = ot i"
  by (auto simp: make_legs_def)

text \<open>What a reader still has to check in an entry that was built.\<close>

definition entry_readable :: "plan_entry \<Rightarrow> bool" where
  "entry_readable e \<longleftrightarrow>
     (\<forall>l \<in> set (en_legs e). 0 < dec_value (el_volume_ratio l)) \<and> (en_legs e \<noteq> [] \<longrightarrow> \<not> ratios_off (en_legs e)) \<and>
     (case (en_zone_low e, en_zone_high e) of (Some low, Some high) \<Rightarrow> dec_value low < dec_value high | _ \<Rightarrow> True)"

lemma built_routes:
  "build_entry fdec ''market'' direction m measured expires spread slippage =
     (if py_truthy (dict_get measured ''planned_market_immediate'')
      then res_bind (res_bind (measured_item measured ''planned_entry_price'') (decimal_of fdec)) (\<lambda>price.
           Inr ((plain_entry ENTRY_TYPE_MARKET expires spread slippage)\<lparr>en_order_price := Some price,
                  en_max_slippage_ticks := Some (max slippage 100)\<rparr>))
      else Inr ((plain_entry ENTRY_TYPE_MARKET_WATCH expires spread slippage)
          \<lparr>en_zone_low := Some (fdec (sm_entry_low m)), en_zone_high := Some (fdec (sm_entry_high m)),
           en_activation := Some ''quote_inside_zone'',
           en_price_side := Some (if direction = ''BUY'' then ''ask'' else ''bid'')\<rparr>))"
  "build_entry fdec ''single_limit'' direction m measured expires spread slippage =
     res_bind (res_bind (measured_item measured ''planned_entry_price'') (decimal_of fdec)) (\<lambda>price.
     Inr ((plain_entry ENTRY_TYPE_SINGLE_LIMIT expires spread slippage)\<lparr>en_order_price := Some price\<rparr>))"
  "build_entry fdec ''market_with_limit_scale'' direction m measured expires spread slippage =
     res_bind (measured_list measured ''planned_leg_entry_prices'') (\<lambda>leg_prices.
     res_bind (reject_if (length leg_prices < 2) ''empty_reaction_scale_legs'') (\<lambda>_.
     res_bind (measured_list measured ''planned_leg_volume_ratios'') (\<lambda>custom.
     res_bind (leg_shares fdec custom (length leg_prices)
       (if length leg_prices \<noteq> 2 then equal_ratios (length leg_prices)
        else [Dec False 80 (- 2), Dec False 20 (- 2)])) (\<lambda>ratios.
     res_bind (res_map_list (decimal_of fdec) leg_prices) (\<lambda>prices.
     Inr ((plain_entry ENTRY_TYPE_MARKET_WITH_LIMIT_SCALE expires spread slippage)
         \<lparr>en_zone_low := Some (fdec (sm_entry_low m)), en_zone_high := Some (fdec (sm_entry_high m)),
          en_legs := make_legs (\<lambda>i. Some (if i = 0 then ORDER_TYPE_MARKET else ORDER_TYPE_LIMIT)) prices ratios\<rparr>))))))"
  "build_entry fdec ''zone_split'' direction m measured expires spread slippage =
     res_bind (measured_list measured ''planned_leg_entry_prices'') (\<lambda>leg_prices.
     res_bind (reject_if (leg_prices = []) ''empty_ladder_legs'') (\<lambda>_.
     res_bind (measured_list measured ''planned_leg_volume_ratios'') (\<lambda>custom.
     res_bind (leg_shares fdec custom (length leg_prices) (equal_ratios (length leg_prices))) (\<lambda>ratios.
     res_bind (res_map_list (decimal_of fdec) leg_prices) (\<lambda>prices.
     Inr ((plain_entry ENTRY_TYPE_LIMIT_LADDER expires spread slippage)
         \<lparr>en_legs := make_legs (\<lambda>i. None) prices ratios\<rparr>))))))"
  unfolding build_entry_def Let_def by simp_all

lemma built_entry:
  assumes "build_entry fdec route direction m measured expires spread slippage = Inr e"
  shows "en_expires_at e = expires \<and> en_type e \<in> set ENTRY_TYPES \<and> (entry_ok e \<longleftrightarrow> entry_readable e)"
proof -
  have "route \<in> {''market'', ''single_limit'', ''market_with_limit_scale'', ''zone_split''}"
  proof (rule ccontr)
    assume "route \<notin> {''market'', ''single_limit'', ''market_with_limit_scale'', ''zone_split''}"
    then have "build_entry fdec route direction m measured expires spread slippage = rejected ''unresolved_execution_route''"
      unfolding build_entry_def Let_def by simp
    with assms show False by simp
  qed
  then consider "route = ''market''" | "route = ''single_limit''" | "route = ''market_with_limit_scale''" | "route = ''zone_split''"
    by blast
  then show ?thesis
  proof cases
    case 1
    show ?thesis
    proof (cases "py_truthy (dict_get measured ''planned_market_immediate'')")
      case True
      then obtain price where "e = (plain_entry ENTRY_TYPE_MARKET expires spread slippage)
          \<lparr>en_order_price := Some price, en_max_slippage_ticks := Some (max slippage 100)\<rparr>"
        using assms 1 by (auto simp: built_routes res_bind_Inr_iff)
      then show ?thesis by (simp add: entry_ok_def entry_shape_def entry_readable_def plain_entry_def ENTRY_TYPES_def entry_types)
    next
      case False
      then have "e = (plain_entry ENTRY_TYPE_MARKET_WATCH expires spread slippage)
          \<lparr>en_zone_low := Some (fdec (sm_entry_low m)), en_zone_high := Some (fdec (sm_entry_high m)),
           en_activation := Some ''quote_inside_zone'',
           en_price_side := Some (if direction = ''BUY'' then ''ask'' else ''bid'')\<rparr>"
        using assms 1 by (simp add: built_routes)
      then show ?thesis by (simp add: entry_ok_def entry_shape_def entry_readable_def plain_entry_def ENTRY_TYPES_def entry_types)
    qed
  next
    case 2
    then obtain price where "e = (plain_entry ENTRY_TYPE_SINGLE_LIMIT expires spread slippage)\<lparr>en_order_price := Some price\<rparr>"
      using assms by (auto simp: built_routes res_bind_Inr_iff)
    then show ?thesis by (simp add: entry_ok_def entry_shape_def entry_readable_def plain_entry_def ENTRY_TYPES_def entry_types)
  next
    case 3
    let ?ot = "\<lambda>i. Some (if i = 0 then ORDER_TYPE_MARKET else ORDER_TYPE_LIMIT)"
    obtain leg_prices custom rs ps where l: "2 \<le> length leg_prices"
      "leg_shares fdec custom (length leg_prices) (if length leg_prices \<noteq> 2 then equal_ratios (length leg_prices)
              else [Dec False 80 (- 2), Dec False 20 (- 2)]) = Inr rs"
      "res_map_list (decimal_of fdec) leg_prices = Inr ps"
      and e: "e = (plain_entry ENTRY_TYPE_MARKET_WITH_LIMIT_SCALE expires spread slippage)
        \<lparr>en_zone_low := Some (fdec (sm_entry_low m)), en_zone_high := Some (fdec (sm_entry_high m)),
         en_legs := make_legs ?ot ps rs\<rparr>"
      using assms 3 by (auto simp: built_routes res_bind_Inr_iff not_less)
    have pos: "0 < length leg_prices" using l(1) by linarith
    have "length (if length leg_prices \<noteq> 2 then equal_ratios (length leg_prices)
        else [Dec False 80 (- 2), Dec False 20 (- 2)]) = length leg_prices"
      using equal_ratios_length [OF pos] by simp
    from leg_shares_length [OF l(2) this pos] have len: "length ps = length leg_prices" "length rs = length leg_prices"
      using res_map_list_length [OF l(3)] by auto
    have legs: "2 \<le> length (make_legs ?ot ps rs)" "make_legs ?ot ps rs \<noteq> []" using l(1) len by (auto simp: make_legs_length)
      (metis length_0_conv make_legs_length min.idem not_numeral_le_zero)
    have types: "leg_type_or (make_legs ?ot ps rs ! 0) ORDER_TYPE_MARKET = ORDER_TYPE_MARKET"
      "leg_type_or (make_legs ?ot ps rs ! 1) ORDER_TYPE_LIMIT = ORDER_TYPE_LIMIT"
      using make_legs_nth [of 0 ps rs ?ot] make_legs_nth [of 1 ps rs ?ot] l(1) len pos
      by (simp_all add: leg_type_or_def ORDER_TYPE_MARKET_def ORDER_TYPE_LIMIT_def)
    have ok: "leg_ok x \<longleftrightarrow> 0 < dec_value (el_volume_ratio x)" if "x \<in> set (make_legs ?ot ps rs)" for x
      using make_legs_types [OF that] by (auto simp: leg_ok_def ORDER_TYPES_def)
    show ?thesis
      using legs types ok unfolding e entry_ok_def entry_shape_def entry_readable_def
      by (auto simp: plain_entry_def ENTRY_TYPES_def entry_types)
  next
    case 4
    obtain leg_prices custom rs ps where l: "leg_prices \<noteq> []"
      "leg_shares fdec custom (length leg_prices) (equal_ratios (length leg_prices)) = Inr rs"
      "res_map_list (decimal_of fdec) leg_prices = Inr ps"
      and e: "e = (plain_entry ENTRY_TYPE_LIMIT_LADDER expires spread slippage)\<lparr>en_legs := make_legs (\<lambda>i. None) ps rs\<rparr>"
      using assms 4 by (auto simp: built_routes res_bind_Inr_iff)
    have len: "length ps = length leg_prices" "length rs = length leg_prices"
      using res_map_list_length [OF l(3)] leg_shares_length [OF l(2)] l(1) equal_ratios_length [of "length leg_prices"] by auto
    have legs: "make_legs (\<lambda>i. None) ps rs \<noteq> []"
      using l(1) len make_legs_length [of "\<lambda>i. None" ps rs] by (metis length_0_conv min.idem)
    have ok: "leg_ok x \<longleftrightarrow> 0 < dec_value (el_volume_ratio x)" if "x \<in> set (make_legs (\<lambda>i. None) ps rs)" for x
      using make_legs_types [OF that] by (auto simp: leg_ok_def)
    show ?thesis
      using legs ok unfolding e entry_ok_def entry_shape_def entry_readable_def
      by (auto simp: plain_entry_def ENTRY_TYPES_def entry_types)
  qed
qed

lemma checked_plan_Inr: "checked_plan p = Inr q \<longleftrightarrow> validate_plan p = Inr () \<and> q = p"
proof (cases "validate_plan p")
  case (Inl e)
  then show ?thesis by (cases e) (simp_all add: checked_plan_def)
qed (auto simp: checked_plan_def)

lemma built_plan:
  assumes "build_trade_plan_from_strategy_match fdec m q cfg = Inr p"
  obtains measured route spread slippage ratios prices
  where "build_entry fdec route (sm_direction m) m measured (published_expires_at m (bq_now_ts q)) spread slippage = Inr (tp_entry p)"
    "build_stop fdec m q measured = Inr (tp_stop p)" "tp_targets p = make_targets prices ratios"
    "tp_version p = TRADE_PLAN_VERSION" "tp_expires_at p = published_expires_at m (bq_now_ts q)"
    "tp_analysis p = build_analysis m (bq_regime q)" "tp_source_structure p = build_structure fdec m"
    "tp_execution_policy p = build_policy (tp_entry p)" "validate_plan p = Inr ()"
    "tp_thesis_id p = bq_thesis_id q" "build_risk fdec m q cfg measured = Inr (tp_risk p)"
proof -
  show thesis
    using assms unfolding build_trade_plan_from_strategy_match_def Let_def
    by (auto simp: res_bind_Inr_iff checked_plan_Inr intro: that)
qed

lemma built_stop_absolute: "build_stop fdec m q measured = Inr s \<Longrightarrow> st_type s = ''absolute''"
  by (auto simp: build_stop_def res_bind_Inr_iff)

lemma built_types:
  assumes "build_trade_plan_from_strategy_match fdec m q cfg = Inr p"
  shows "st_type (tp_stop p) = ''absolute''" "\<forall>t \<in> set (tp_targets p). tg_type t = ''absolute''"
proof -
  obtain measured route spread slippage ratios prices where b: "build_stop fdec m q measured = Inr (tp_stop p)"
    "tp_targets p = make_targets prices ratios"
    using assms by (elim built_plan)
  show "st_type (tp_stop p) = ''absolute''" using b(1) by (rule built_stop_absolute)
  show "\<forall>t \<in> set (tp_targets p). tg_type t = ''absolute''" unfolding b(2) by (auto simp: make_targets_def)
qed

text \<open>C15. Whatever the policy measured, a plan that is built is safe to execute: stop, entries and targets are on their
  sides, the close ratios total at most 1.0001, break-even and trailing refer to declared targets. It expires with its entry;
  a publication time restarts its life, of which at least a minute is left; market and limit orders are permitted as its
  entry type needs them.\<close>

theorem built_plan_safe:
  assumes "build_trade_plan_from_strategy_match fdec m q cfg = Inr p" "sm_direction m \<in> {''BUY'', ''SELL''}"
  shows "plan_safe p \<and> tp_expires_at p = en_expires_at (tp_entry p) \<and>
    (case bq_now_ts q of None \<Rightarrow> tp_expires_at p = sm_expires_at m
     | Some now \<Rightarrow> tp_expires_at p = now + max 60 (sm_expires_at m - sm_issued_at m)) \<and>
    po_allow_market (tp_execution_policy p) =
      (en_type (tp_entry p) \<in> {ENTRY_TYPE_MARKET, ENTRY_TYPE_MARKET_WATCH, ENTRY_TYPE_MARKET_WITH_LIMIT_SCALE}) \<and>
    po_allow_limit (tp_execution_policy p) = (en_type (tp_entry p) \<notin> {ENTRY_TYPE_MARKET, ENTRY_TYPE_MARKET_WATCH})"
proof -
  obtain measured route spread slippage where b:
    "build_entry fdec route (sm_direction m) m measured (published_expires_at m (bq_now_ts q)) spread slippage = Inr (tp_entry p)"
    "tp_expires_at p = published_expires_at m (bq_now_ts q)" "tp_analysis p = build_analysis m (bq_regime q)"
    "tp_execution_policy p = build_policy (tp_entry p)" "validate_plan p = Inr ()"
    using assms(1) by (elim built_plan)
  note e = built_entry [OF b(1)]
  have "an_direction (tp_analysis p) \<in> set DIRECTIONS" using assms(2) by (simp add: b(3) build_analysis_def DIRECTIONS_def)
  then have "plan_safe p" using validate_plan_exact b(5) by blast
  moreover have "tp_expires_at p = en_expires_at (tp_entry p)" using e b(2) by simp
  moreover have "case bq_now_ts q of None \<Rightarrow> tp_expires_at p = sm_expires_at m
     | Some now \<Rightarrow> tp_expires_at p = now + max 60 (sm_expires_at m - sm_issued_at m)"
    by (cases "bq_now_ts q") (simp_all add: b(2) published_expires_at_def)
  moreover have "en_type (tp_entry p) \<in> set ENTRY_TYPES" using e by simp
  then have "po_allow_limit (tp_execution_policy p) = (en_type (tp_entry p) \<notin> {ENTRY_TYPE_MARKET, ENTRY_TYPE_MARKET_WATCH})"
    unfolding b(4) build_policy_def by (auto simp: ENTRY_TYPES_def entry_types)
  moreover have "po_allow_market (tp_execution_policy p) =
      (en_type (tp_entry p) \<in> {ENTRY_TYPE_MARKET, ENTRY_TYPE_MARKET_WATCH, ENTRY_TYPE_MARKET_WITH_LIMIT_SCALE})"
    unfolding b(4) build_policy_def by simp
  ultimately show ?thesis by blast
qed

text \<open>C16. Safe is not yet readable: the document of a built plan is accepted by its reader exactly when the zone of the
  structure is not empty, the entry zone is not empty where the entry has one, the shares of the legs are positive and
  total one, the stop is positive, each target takes a share above zero and at most one, and the risk is positive. The
  builder checks none of this.\<close>

theorem built_plan_readable:
  assumes "build_trade_plan_from_strategy_match fdec m q cfg = Inr p" "sm_direction m \<in> {''BUY'', ''SELL''}"
  shows "plan_from_dict (plan_to_dict p) = Inr p \<longleftrightarrow>
    dec_value (ps_low (build_structure fdec m)) < dec_value (ps_high (build_structure fdec m)) \<and>
    entry_readable (tp_entry p) \<and> 0 < dec_value (st_price (tp_stop p)) \<and>
    (\<forall>t \<in> set (tp_targets p). 0 < dec_value (tg_close_ratio t) \<and> dec_value (tg_close_ratio t) \<le> 1) \<and>
    0 < dec_value (ri_risk_percent (tp_risk p))"
proof -
  obtain measured route spread slippage where b:
    "build_entry fdec route (sm_direction m) m measured (published_expires_at m (bq_now_ts q)) spread slippage = Inr (tp_entry p)"
    "tp_version p = TRADE_PLAN_VERSION" "tp_analysis p = build_analysis m (bq_regime q)"
    "tp_source_structure p = build_structure fdec m" "validate_plan p = Inr ()"
    using assms(1) by (elim built_plan)
  have d: "an_direction (tp_analysis p) \<in> set DIRECTIONS" using assms(2) by (simp add: b(3) build_analysis_def DIRECTIONS_def)
  then have "plan_safe p" using validate_plan_exact b(5) by blast
  then show ?thesis
    unfolding plan_exact parts_ok_def target_ok_def
    using d built_entry [OF b(1)] built_types [OF assms(1)] b(2,4) by auto
qed

section \<open>Equal shares\<close>

lemma str_nat_length: "c < 10 ^ length (str_nat c)"
proof (induction c rule: str_nat.induct)
  case (1 n)
  show ?case
  proof (cases "n < 10")
    case False
    have "length (str_nat n) = Suc (length (str_nat (n div 10)))" using False by (subst str_nat.simps) simp
    moreover have "n < 10 * (n div 10 + 1)"
      by presburger
    moreover have "n div 10 + 1 \<le> 10 ^ length (str_nat (n div 10))" using 1 [OF False] by linarith
    ultimately show ?thesis by simp
  qed (subst str_nat.simps, simp)
qed

lemma str_nat_length_le: "c < 10 ^ k \<Longrightarrow> 0 < k \<Longrightarrow> length (str_nat c) \<le> k"
proof (induction c arbitrary: k rule: str_nat.induct)
  case (1 n)
  show ?case
  proof (cases "n < 10")
    case True
    then show ?thesis using 1(3) by (subst str_nat.simps) simp
  next
    case False
    have "k \<noteq> 1" using False 1(2) by auto
    then obtain j where j: "k = Suc j" "0 < j" using 1(3) by (cases k) auto
    have "n div 10 < 10 ^ j" using 1(2) j by (simp add: less_mult_imp_div_less mult.commute)
    from 1(1) [OF False this j(2)] show ?thesis using False j by (subst str_nat.simps) simp
  qed
qed

lemma round_error:
  fixes c k :: nat
  shows "\<bar>of_nat (round_half_even c k) * 10 ^ k - (of_nat c :: rat)\<bar> \<le> 10 ^ k / 2"
    "\<bar>of_nat (round_half_up c k) * 10 ^ k - (of_nat c :: rat)\<bar> \<le> 10 ^ k / 2"
proof -
  define q r where "q = c div 10 ^ k" "r = c mod 10 ^ k"
  have c: "c = q * 10 ^ k + r" "r < 10 ^ k" by (simp_all only: q_r_def div_mult_mod_eq) simp
  have cr: "(of_nat c :: rat) = of_nat q * 10 ^ k + of_nat r" by (subst c(1)) simp
  have rk: "(of_nat r :: rat) < 10 ^ k" using c(2) by (metis of_nat_less_iff of_nat_numeral of_nat_power)
  have up: "2 * r \<ge> 10 ^ k \<Longrightarrow> 2 * (of_nat r :: rat) \<ge> 10 ^ k"
    by (metis of_nat_le_iff of_nat_mult of_nat_numeral of_nat_power)
  have down: "2 * r \<le> 10 ^ k \<Longrightarrow> 2 * (of_nat r :: rat) \<le> 10 ^ k"
    by (metis of_nat_le_iff of_nat_mult of_nat_numeral of_nat_power)
  show "\<bar>of_nat (round_half_even c k) * 10 ^ k - (of_nat c :: rat)\<bar> \<le> 10 ^ k / 2"
    unfolding round_half_even_def Let_def q_r_def [symmetric] using cr rk up down by (auto simp: algebra_simps abs_if)
  show "\<bar>of_nat (round_half_up c k) * 10 ^ k - (of_nat c :: rat)\<bar> \<le> 10 ^ k / 2"
    unfolding round_half_up_def Let_def q_r_def [symmetric] using cr rk up down by (auto simp: algebra_simps abs_if)
qed

lemma dec_round_exact: "dec_coeff d < 10 ^ PRECISION \<Longrightarrow> dec_round d = d"
  using str_nat_length_le [of "dec_coeff d" PRECISION] by (simp add: dec_round_def PRECISION_def Let_def)

lemma ten_pow_neg: "ten_pow (- int k) = 1 / 10 ^ k"
  by (simp add: ten_pow_def)


lemma unsigned_value: "dec_value (Dec False c (- int k)) = of_nat c / 10 ^ k"
  by (simp add: dec_value_def dec_signed_def ten_pow_neg)

text \<open>Rounding to 28 digits of a number below one keeps it within a unit of the 27th decimal.\<close>

lemma dec_round_close:
  assumes "c \<le> 10 ^ k + 1" "28 \<le> k"
  shows "\<exists>c' k'. dec_round (Dec False c (- int k)) = Dec False c' (- int k') \<and>
     \<bar>of_nat c' / 10 ^ k' - (of_nat c :: rat) / 10 ^ k\<bar> \<le> 1 / 10 ^ 26"
proof (cases "length (str_nat c) \<le> 28")
  case True
  then show ?thesis
    by (intro exI [of _ c] exI [of _ k]) (simp add: dec_round_def PRECISION_def Let_def)
next
  case False
  define j where "j = length (str_nat c) - 28"
  have "1 \<le> (10 :: nat) ^ k" by simp
  then have "(10 :: nat) ^ k + 1 < 10 ^ (k + 1)" unfolding power_add power_one_right by linarith
  then have "length (str_nat c) \<le> k + 1" using assms by (intro str_nat_length_le) linarith+
  then have j: "j \<le> k - 27" "j \<le> k" using assms(2) by (simp_all add: j_def)
  have r: "dec_round (Dec False c (- int k)) = Dec False (round_half_even c j) (- int (k - j))"
    using False j by (simp add: dec_round_def PRECISION_def Let_def j_def)
  have k: "(10 :: rat) ^ k = 10 ^ (k - j) * 10 ^ j" using j(2) by (simp flip: power_add)
  have "of_nat (round_half_even c j) / 10 ^ (k - j) - (of_nat c :: rat) / 10 ^ k =
      (of_nat (round_half_even c j) * 10 ^ j - of_nat c) / 10 ^ k"
    unfolding k by (simp add: field_simps)
  then have "\<bar>of_nat (round_half_even c j) / 10 ^ (k - j) - (of_nat c :: rat) / 10 ^ k\<bar> =
      \<bar>of_nat (round_half_even c j) * 10 ^ j - of_nat c\<bar> / 10 ^ k" by simp
  also have "\<dots> \<le> (10 ^ j / 2) / 10 ^ k" using round_error(1) [of c j] by (intro divide_right_mono) simp_all
  also have "\<dots> = 1 / (2 * 10 ^ (k - j))" unfolding k by simp
  also have "\<dots> \<le> 1 / 10 ^ 26"
  proof -
    have "(10 :: rat) ^ 26 \<le> 10 ^ (k - j)" using j assms(2) by (intro power_increasing) auto
    then show ?thesis by (simp add: frac_le)
  qed
  finally show ?thesis unfolding r by blast
qed

lemma strip_zeros_value:
  "strip_zeros i c (- int k) = (c', e) \<Longrightarrow> i \<le> k \<Longrightarrow>
     \<exists>k'. e = - int k' \<and> (of_nat c' :: rat) / 10 ^ k' = of_nat c / 10 ^ k \<and> k' \<le> k \<and> c' \<le> c"
proof (induction i arbitrary: c k)
  case (Suc i)
  show ?case
  proof (cases "c mod 10 = 0")
    case True
    obtain j where j: "k = Suc j" using Suc.prems(2) by (cases k) auto
    obtain b where b: "c = 10 * b" using True by (auto simp: mod_eq_0_iff_dvd)
    have "strip_zeros i (c div 10) (- int j) = (c', e)" using Suc.prems(1) True j by simp
    from Suc.IH [OF this] Suc.prems(2) j show ?thesis by (auto simp: b)
  next
    case False
    with Suc.prems show ?thesis by auto
  qed
qed auto

lemma dec_recip_close:
  assumes "0 < n"
  shows "\<exists>c k. dec_recip n = Dec False c (- int k) \<and> \<bar>of_nat c / 10 ^ k - 1 / (of_nat n :: rat)\<bar> \<le> 1 / 10 ^ 25"
proof -
  define s where "s = length (str_nat n) + PRECISION"
  define c where "c = 10 ^ s div n"
  define c1 where "c1 = (if 10 ^ s mod n \<noteq> 0 \<and> c mod 5 = 0 then c + 1 else c)"
  have s: "28 \<le> s" by (simp add: s_def PRECISION_def)
  have "c \<le> 10 ^ s" by (simp add: c_def)
  then have c1: "c1 \<le> 10 ^ s + 1" by (simp add: c1_def)
  have "c * n \<le> 10 ^ s" "10 ^ s < (c + 1) * n"
    using assms dividend_less_div_times [of n "10 ^ s"] by (simp_all add: c_def)
  then have "of_nat (c * n) \<le> (of_nat (10 ^ s) :: rat)" "of_nat (10 ^ s) < (of_nat ((c + 1) * n) :: rat)"
    by (simp_all only: of_nat_le_iff of_nat_less_iff)
  then have q: "of_nat c \<le> (10 :: rat) ^ s / of_nat n" "(10 :: rat) ^ s / of_nat n \<le> of_nat c + 1"
    using assms by (simp_all add: field_simps)
  then have "\<bar>of_nat c1 - (10 :: rat) ^ s / of_nat n\<bar> \<le> 1" by (auto simp: c1_def abs_if)
  then have "\<bar>of_nat c1 - (10 :: rat) ^ s / of_nat n\<bar> / 10 ^ s \<le> 1 / 10 ^ s" by (intro divide_right_mono) simp_all
  moreover have "\<bar>of_nat c1 / 10 ^ s - 1 / (of_nat n :: rat)\<bar> = \<bar>of_nat c1 - (10 :: rat) ^ s / of_nat n\<bar> / 10 ^ s"
  proof -
    have "of_nat c1 / 10 ^ s - 1 / (of_nat n :: rat) = (of_nat c1 - (10 :: rat) ^ s / of_nat n) / 10 ^ s"
      using assms by (simp add: field_simps)
    then show ?thesis by simp
  qed
  moreover have "(1 :: rat) / 10 ^ s \<le> 1 / 10 ^ 26" using power_increasing [OF s, of "10 :: rat"]
    by (intro divide_left_mono) simp_all
  ultimately have near: "\<bar>of_nat c1 / 10 ^ s - 1 / (of_nat n :: rat)\<bar> \<le> 1 / 10 ^ 26" by linarith
  have step: "\<exists>c k. dec_round (Dec False x (- int j)) = Dec False c (- int k) \<and> \<bar>of_nat c / 10 ^ k - 1 / (of_nat n :: rat)\<bar> \<le> 1 / 10 ^ 25"
    if x: "(of_nat x :: rat) / 10 ^ j = of_nat c1 / 10 ^ s" "28 \<le> j \<and> x \<le> 10 ^ j + 1 \<or> x < 10 ^ 28" for x j
  proof -
    obtain c' k' where c': "dec_round (Dec False x (- int j)) = Dec False c' (- int k')"
      "\<bar>of_nat c' / 10 ^ k' - (of_nat x :: rat) / 10 ^ j\<bar> \<le> 1 / 10 ^ 26"
      using x(2)
    proof
      assume "28 \<le> j \<and> x \<le> 10 ^ j + 1"
      with dec_round_close [of x j] that show ?thesis by blast
    next
      assume "x < 10 ^ 28"
      then have "dec_round (Dec False x (- int j)) = Dec False x (- int j)" by (intro dec_round_exact) (simp add: PRECISION_def)
      with that show ?thesis by simp
    qed
    have "\<bar>of_nat c' / 10 ^ k' - 1 / (of_nat n :: rat)\<bar> \<le> 1 / 10 ^ 26 + 1 / 10 ^ 26"
      using c'(2) near x(1) by linarith
    also have "\<dots> \<le> (1 / 10 ^ 25 :: rat)" by simp
    finally show ?thesis using c'(1) by blast
  qed
  show ?thesis
  proof (cases "10 ^ s mod n = 0")
    case False
    then have "dec_recip n = dec_round (Dec False c1 (- int s))"
      by (simp add: dec_recip_def Let_def c1_def c_def s_def)
    then show ?thesis using step [of c1 s] s c1 by simp
  next
    case True
    obtain c' e where e: "strip_zeros s c (- int s) = (c', e)" by fastforce
    from strip_zeros_value [OF e] obtain k' where k': "e = - int k'" "(of_nat c' :: rat) / 10 ^ k' = of_nat c / 10 ^ s"
      "k' \<le> s" by auto
    have "dec_recip n = dec_round (Dec False c' (- int k'))"
      using True e k'(1) by (simp add: dec_recip_def Let_def c_def s_def)
    moreover have "(of_nat c' :: rat) / 10 ^ k' \<le> 1"
    proof -
      have "(of_nat c :: rat) \<le> of_nat (10 ^ s)" using \<open>c \<le> 10 ^ s\<close> by (simp only: of_nat_le_iff)
      then show ?thesis unfolding k'(2) by simp
    qed
    then have "(of_nat c' :: rat) \<le> of_nat (10 ^ k')" by simp
    then have "c' \<le> 10 ^ k'" by (simp only: of_nat_le_iff)
    moreover have "28 \<le> k' \<and> c' \<le> 10 ^ k' + 1 \<or> c' < 10 ^ 28"
    proof (cases "k' < 28")
      case small: True
      show ?thesis using \<open>c' \<le> 10 ^ k'\<close> power_strict_increasing [OF small, of "10 :: nat"] by linarith
    qed (use \<open>c' \<le> 10 ^ k'\<close> in linarith)
    moreover have "(of_nat c' :: rat) / 10 ^ k' = of_nat c1 / 10 ^ s" using k'(2) True by (simp add: c1_def)
    ultimately show ?thesis using step [of c' k'] by presburger
  qed
qed


lemma quantize4_close:
  "\<exists>q. quantize4 (Dec False c (- int k)) = Dec False q (- 4) \<and> \<bar>of_nat q / 10 ^ 4 - (of_nat c :: rat) / 10 ^ k\<bar> \<le> 1 / 20000"
proof (cases "k \<le> 4")
  case True
  have ten: "(10 :: rat) ^ 4 = 10 ^ k * 10 ^ (4 - k)" using True by (simp flip: power_add)
  have "of_nat (c * 10 ^ (4 - k)) / 10 ^ 4 = (of_nat c :: rat) / 10 ^ k" unfolding ten by simp
  moreover have "nat (4 - int k) = 4 - k" using True by simp
  then have "quantize4 (Dec False c (- int k)) = Dec False (c * 10 ^ (4 - k)) (- 4)" using True by (simp add: quantize4_def)
  ultimately show ?thesis by (intro exI [of _ "c * 10 ^ (4 - k)"]) simp
next
  case False
  define q where "q = round_half_up c (k - 4)"
  have k: "(10 :: rat) ^ k = 10 ^ 4 * 10 ^ (k - 4)" using False power_add [of "10 :: rat" 4 "k - 4"] by simp
  have "of_nat q / 10 ^ 4 - (of_nat c :: rat) / 10 ^ k = (of_nat q * 10 ^ (k - 4) - of_nat c) / 10 ^ k"
    unfolding k by (simp add: field_simps)
  then have "\<bar>of_nat q / 10 ^ 4 - (of_nat c :: rat) / 10 ^ k\<bar> = \<bar>of_nat q * 10 ^ (k - 4) - of_nat c\<bar> / 10 ^ k" by simp
  also have "\<dots> \<le> (10 ^ (k - 4) / 2) / 10 ^ k"
    using round_error(2) [of c "k - 4"] unfolding q_def by (intro divide_right_mono) simp_all
  also have "\<dots> = 1 / 20000" unfolding k by simp
  finally have "\<bar>of_nat q / 10 ^ 4 - (of_nat c :: rat) / 10 ^ k\<bar> \<le> 1 / 20000" .
  moreover have "nat (int k - 4) = k - 4" by simp
  then have "quantize4 (Dec False c (- int k)) = Dec False q (- 4)" using False by (simp add: quantize4_def q_def)
  ultimately show ?thesis by blast
qed

text \<open>The rounded share, in hundredths of a percent.\<close>

lemma equal_share:
  assumes "0 < n"
  shows "\<exists>q. quantize4 (dec_recip n) = Dec False q (- 4) \<and> \<bar>of_nat q - 10000 / (of_nat n :: rat)\<bar> \<le> 501 / 1000"
proof -
  obtain c k where c: "dec_recip n = Dec False c (- int k)" "\<bar>of_nat c / 10 ^ k - 1 / (of_nat n :: rat)\<bar> \<le> 1 / 10 ^ 25"
    using dec_recip_close [OF assms] by blast
  obtain q where q: "quantize4 (Dec False c (- int k)) = Dec False q (- 4)"
    "\<bar>of_nat q / 10 ^ 4 - (of_nat c :: rat) / 10 ^ k\<bar> \<le> 1 / 20000"
    using quantize4_close by blast
  have "(1 :: rat) / 10 ^ 25 \<le> 1 / 10000000" by simp
  moreover have ten_thousand: "(10 :: rat) ^ 4 = 10000" by simp
  ultimately have "\<bar>of_nat q / 10000 - 1 / (of_nat n :: rat)\<bar> \<le> 1 / 20000 + 1 / 10000000"
    using c(2) q(2) [unfolded ten_thousand] by linarith
  then have "\<bar>of_nat q - 10000 / (of_nat n :: rat)\<bar> \<le> 501 / 1000" by (simp add: abs_le_iff field_simps)
  then show ?thesis using c(1) q(1) by auto
qed


lemma small_decimal: "c < 10 ^ 28 \<Longrightarrow> dec_round (Dec b c e) = Dec b c e"
  by (intro dec_round_exact) (simp add: PRECISION_def)

text \<open>The remainder that goes to the last share.\<close>

lemma last_share:
  assumes "q * n < 10 ^ 20" "0 < n"
  shows "dec_value (dec_add (Dec False q (- 4)) (dec_add (dec_of_int 1) (dec_minus (dec_mul (Dec False q (- 4)) (dec_of_int (int n)))))) =
    (of_nat q + 10000 - of_nat q * of_nat n) / 10000"
proof -
  have "q \<le> q * n" using assms(2) by simp
  then have q: "q < 10 ^ 20" using assms(1) by linarith
  have mul: "dec_mul (Dec False q (- 4)) (dec_of_int (int n)) = Dec False (q * n) (- 4)"
    using assms by (simp add: dec_mul_def dec_of_int_def small_decimal)
  define d where "d = 10000 - int (q * n)"
  have bound: "\<bar>10000 - a\<bar> < 10 ^ 28 \<and> \<bar>b + (10000 - a)\<bar> < 10 ^ 28" if "a < 10 ^ 20" "0 \<le> a" "b < 10 ^ 20" "0 \<le> b" for a b :: int
    using that by (simp add: abs_less_iff)
  have "int (q * n) < int (10 ^ 20)" "int q < int (10 ^ 20)" using assms(1) q by (simp_all only: of_nat_less_iff)
  then have "int (q * n) < 10 ^ 20" "int q < 10 ^ 20" by simp_all
  then have "\<bar>d\<bar> < 10 ^ 28" "\<bar>int q + d\<bar> < 10 ^ 28"
    using bound [of "int (q * n)" "int q"] unfolding d_def by simp_all
  then have d: "nat \<bar>d\<bar> < 10 ^ 28" "nat \<bar>int q + d\<bar> < 10 ^ 28" by (simp_all add: nat_less_iff)
  have one: "dec_add (dec_of_int 1) (dec_minus (Dec False (q * n) (- 4))) = Dec (d < 0) (nat \<bar>d\<bar>) (- 4)"
    using d(1) by (simp add: dec_add_def dec_of_int_def dec_minus_def dec_signed_def Let_def small_decimal d_def)
  have signed: "dec_signed (Dec (d < 0) (nat \<bar>d\<bar>) (- 4)) = d" by (simp add: dec_signed_def)
  have "dec_add (Dec False q (- 4)) (Dec (d < 0) (nat \<bar>d\<bar>) (- 4)) = Dec (int q + d < 0) (nat \<bar>int q + d\<bar>) (- 4)"
    unfolding dec_add_def signed using d(2) by (simp add: dec_signed_def Let_def small_decimal)
  moreover have "dec_value (Dec (int q + d < 0) (nat \<bar>int q + d\<bar>) (- 4)) = of_int (int q + d) / 10000"
    by (simp add: dec_value_def dec_signed_def ten_pow_def)
  ultimately show ?thesis unfolding mul one by (simp add: d_def)
qed

text \<open>The close ratios the builder gives to equal targets are a partition: for up to 141 targets each is positive, they
  total exactly one, and all but the last are the equal share to within a hundredth of a percent.\<close>

theorem equal_shares_partition:
  assumes "0 < n" "n \<le> 141"
  shows "length (equal_close_ratios n) = n \<and> sum_list (map dec_value (equal_close_ratios n)) = 1 \<and>
    (\<forall>r \<in> set (equal_close_ratios n). 0 < dec_value r) \<and>
    (\<forall>r \<in> set (butlast (equal_close_ratios n)). \<bar>dec_value r - 1 / of_nat n\<bar> \<le> 1 / 10000)"
proof -
  obtain q where q: "quantize4 (dec_recip n) = Dec False q (- 4)" "\<bar>of_nat q - 10000 / (of_nat n :: rat)\<bar> \<le> 501 / 1000"
    using equal_share [OF assms(1)] by blast
  define base where "base = Dec False q (- 4)"
  define rest where "rest = dec_add base (dec_add (dec_of_int 1) (dec_minus (dec_mul base (dec_of_int (int n)))))"
  have ratios: "equal_close_ratios n = replicate (n - 1) base @ [rest]"
  proof -
    have "replicate n base = replicate (n - 1) base @ [base]" using assms(1) by (cases n) (simp_all add: replicate_append_same)
    then have "butlast (replicate n base) = replicate (n - 1) base" "last (replicate n base) = base" by simp_all
    then show ?thesis
      using assms(1) q(1) by (simp add: equal_close_ratios_def equal_ratios_def add_to_last_def base_def [symmetric] rest_def Let_def)
  qed
  have n: "1 \<le> (of_nat n :: rat)" "(of_nat n :: rat) \<le> 141" 
    using of_nat_mono [of 1 n, where 'a = rat] of_nat_mono [of n 141, where 'a = rat] assms by simp_all
  then have share: "10000 / (of_nat n :: rat) \<le> 10000" "10000 / 141 \<le> 10000 / (of_nat n :: rat)"
    by (simp_all add: field_simps)
  then have bounds: "(of_nat q :: rat) \<le> 10001" "70 \<le> (of_nat q :: rat)" using q(2) by linarith+
  have "q \<le> 10001" using bounds(1) by (metis of_nat_le_iff of_nat_numeral)
  then have "q * n \<le> 10001 * 141" using assms(2) by (rule mult_le_mono)
  then have small: "q * n < 10 ^ 20" by simp
  have b: "dec_value base = of_nat q / 10000" by (simp add: base_def dec_value_def dec_signed_def ten_pow_def)
  have r: "dec_value rest = (of_nat q + 10000 - of_nat q * of_nat n) / 10000"
    unfolding rest_def base_def by (rule last_share [OF small assms(1)])
  have qn: "of_nat q * (of_nat n - 1) < (10000 :: rat)"
  proof -
    have "of_nat q \<le> 10000 / (of_nat n :: rat) + 501 / 1000" using q(2) by linarith
    then have "of_nat q * (of_nat n - 1) \<le> (10000 / (of_nat n :: rat) + 501 / 1000) * (of_nat n - 1)"
      using n by (intro mult_right_mono) simp_all
    also have "\<dots> = 10000 - 10000 / of_nat n + 501 / 1000 * (of_nat n - 1)" using n by (simp add: field_simps)
    also have "\<dots> < 10000"
    proof -
      have "501 / 1000 * (of_nat n - 1) \<le> (501 / 1000 * 140 :: rat)" using n by simp
      also have "\<dots> < 10000 / 141" by simp
      also have "\<dots> \<le> 10000 / (of_nat n :: rat)" by (rule share(2))
      finally show ?thesis by simp
    qed
    finally show ?thesis .
  qed
  have "sum_list (map dec_value (equal_close_ratios n)) = of_nat (n - 1) * (of_nat q / 10000) + dec_value rest"
    unfolding ratios by (simp add: b sum_list_replicate)
  also have "\<dots> = 1" using assms(1) unfolding r by (simp add: of_nat_diff field_simps)
  finally have sum: "sum_list (map dec_value (equal_close_ratios n)) = 1" .
  have close: "\<bar>dec_value base - 1 / of_nat n\<bar> \<le> 1 / 10000"
  proof -
    have "dec_value base - 1 / of_nat n = (of_nat q - 10000 / of_nat n) / 10000" unfolding b by (simp add: field_simps)
    then have "\<bar>dec_value base - 1 / of_nat n\<bar> = \<bar>of_nat q - 10000 / of_nat n\<bar> / 10000"
      by (simp only: abs_divide abs_numeral)
    also have "\<dots> \<le> 501 / 1000 / 10000" using q(2) by (rule divide_right_mono) simp
    also have "\<dots> \<le> (1 / 10000 :: rat)" by simp
    finally show ?thesis .
  qed
  have "0 < dec_value base" "0 < dec_value rest" using bounds qn unfolding b r by (simp_all add: algebra_simps)
  then show ?thesis using sum close assms(1) unfolding ratios by auto
qed

theorem equal_shares_partition_witness:
  "length (equal_close_ratios 3) = 3 \<and> sum_list (map dec_value (equal_close_ratios 3)) = 1 \<and>
   list_all (\<lambda>r. 0 < dec_value r) (equal_close_ratios 3)"
  using equal_shares_partition [of 3] by (simp add: list_all_iff)

definition demo_decimal :: "rat \<Rightarrow> decimal" where
  "demo_decimal q = Dec (q < 0) (nat \<lfloor>\<bar>q\<bar> * 100\<rfloor>) (- 2)"

definition demo_build_config :: builder_config where
  "demo_build_config = \<lparr>bc_max_spread_pips = Some 5, bc_units_price_digits = Some 2, bc_contract_price_digits = None,
     bc_scalp_risk_percent = None, bc_scalp_sizing_mode = None, bc_market_fraction = 4 / 5, bc_first_leg_fraction = 0\<rparr>"

definition demo_build_request :: build_request where
  "demo_build_request =
     \<lparr>bq_plan_id = ''v8:s1'', bq_setup_id = ''s1'', bq_thesis_id = ''t1'', bq_pip_size = Dec False 1 (- 1), bq_regime = None,
      bq_max_volume = 100, bq_max_spread_ticks = Some 50, bq_max_slippage_ticks = 10, bq_be_after_target_index = Some 0,
      bq_be_buffer_ticks = 6, bq_max_group_risk_percent = Dec False 20 (- 1),
      bq_close_ratios = Some [Dec False 5 (- 1), Dec False 5 (- 1)],
      bq_analysis_engine_version = [], bq_market_map_id = [], bq_config_fingerprint = [], bq_confirmation_source = [],
      bq_execution_confirmation_bar_ts = None, bq_zone_episode_id = None, bq_trigger_wick = False, bq_now_ts = Some 1800,
      bq_approved_measured = None,
      bq_policy_measured = [(''planned_stop_price'', JStr ''3996''), (''planned_execution_route'', JStr ''market''),
        (''planned_entry_price'', JStr ''4000'')],
      bq_same_direction_stack = False, bq_same_direction_size_fraction = 3 / 5\<rparr>"

lemma reject_if_False [simp]: "reject_if False r = Inr ()"
  by (simp add: reject_if_def)

lemma demo_build_steps:
  "check_match demo_match_document = Inr ()"
  "chosen_measured demo_build_request = Inr (bq_policy_measured demo_build_request)"
  "check_geometry (bq_policy_measured demo_build_request) = Inr ()"
  by (simp_all add: check_match_def demo_match_document_def chosen_measured_def check_geometry_def demo_build_request_def dict_get_def)

lemma demo_numbers:
  "parse_decimal ''4000'' = Some (Dec False 4000 0)" "parse_decimal ''3996'' = Some (Dec False 3996 0)"
  "str_nat 1 = ''1''" "str_nat 2 = ''2''"
  by code_simp+

lemma demo_targets_values:
  "dec_add (Dec False 4000 0) (dec_mul (dec_of_int 1) (dec_mul (dec_of_int 30) (Dec False 1 (- 1)))) = Dec False 40030 (- 1)"
  "dec_add (Dec False 4000 0) (dec_mul (dec_of_int 1) (dec_mul (dec_of_int 60) (Dec False 1 (- 1)))) = Dec False 40060 (- 1)"
  by (simp_all add: dec_mul_def dec_add_def dec_of_int_def dec_signed_def small_decimal Let_def del: One_nat_def)

lemma demo_targets: "make_targets [Dec False 40030 (- 1), Dec False 40060 (- 1)] [Dec False 5 (- 1), Dec False 5 (- 1)] =
    [\<lparr>tg_target_id = ''TP1'', tg_type = ''absolute'', tg_price = Dec False 40030 (- 1), tg_close_ratio = Dec False 5 (- 1)\<rparr>,
     \<lparr>tg_target_id = ''TP2'', tg_type = ''absolute'', tg_price = Dec False 40060 (- 1), tg_close_ratio = Dec False 5 (- 1)\<rparr>]"
proof -
  have "[0..<2] = [0, 1 :: nat]" by (simp add: upt_rec)
  then show ?thesis using demo_numbers(3,4) by (simp add: make_targets_def numeral_2_eq_2)
qed

definition demo_narrow :: "rat \<Rightarrow> rat \<Rightarrow> strategy_match" where
  "demo_narrow low high = demo_match_document\<lparr>sm_entry_low := low, sm_entry_high := high\<rparr>"

lemma demo_narrow_fields:
  "sm_direction (demo_narrow low high) = ''BUY''" "sm_entry_low (demo_narrow low high) = low" "sm_entry_high (demo_narrow low high) = high"
  "sm_structural_zone_id (demo_narrow low high) = Some ''z1''" "sm_risk_multiplier (demo_narrow low high) = 1"
  "sm_expires_at (demo_narrow low high) = 1900" "sm_issued_at (demo_narrow low high) = 1000"
  "sm_family (demo_narrow low high) = ''reaction''" "sm_strategy_mode (demo_narrow low high) = ''with_bias''"
  "sm_structural_zone_low (demo_narrow low high) = None" "sm_structural_zone_high (demo_narrow low high) = None"
  "sm_targets_pips (demo_narrow low high) = [30, 60]"
  by (simp_all add: demo_narrow_def demo_match_document_def)

lemma demo_request_fields:
  "dict_get (bq_policy_measured demo_build_request) ''planned_execution_route'' = JStr ''market''"
  "dict_get (bq_policy_measured demo_build_request) ''planned_market_immediate'' = JNull"
  "measured_item (bq_policy_measured demo_build_request) ''planned_stop_price'' = Inr (JStr ''3996'')"
  "map_of (bq_policy_measured demo_build_request) ''stop_source'' = None"
  "map_of (bq_policy_measured demo_build_request) ''effective_risk_multiplier'' = None"
  "dict_get (bq_policy_measured demo_build_request) ''entry_distribution'' = JNull"
  "\<not> is_fixed_rr (bq_policy_measured demo_build_request)"
  "bq_be_after_target_index demo_build_request = Some 0" "bq_be_buffer_ticks demo_build_request = 6"
  "bq_now_ts demo_build_request = Some 1800" "\<not> bq_trigger_wick demo_build_request"
  "bq_confirmation_source demo_build_request = []"
  by (simp_all add: demo_build_request_def dict_get_def is_fixed_rr_def measured_item_def)

lemma demo_narrow_steps:
  "check_match (demo_narrow low high) = Inr ()"
  "build_target_values fdec (demo_narrow low high) demo_build_request (bq_policy_measured demo_build_request) =
     Inr ([Dec False 5 (- 1), Dec False 5 (- 1)], [Dec False 40030 (- 1), Dec False 40060 (- 1)])"
proof -
  show "check_match (demo_narrow low high) = Inr ()"
    using demo_build_steps(1) by (simp add: check_match_def demo_narrow_def)
  show "build_target_values fdec (demo_narrow low high) demo_build_request (bq_policy_measured demo_build_request) =
     Inr ([Dec False 5 (- 1), Dec False 5 (- 1)], [Dec False 40030 (- 1), Dec False 40060 (- 1)])"
    using demo_narrow_fields(1,12) by (simp add: build_target_values_def demo_build_request_def measured_list_def dict_get_def py_iter_or_empty_def is_fixed_rr_def
      measured_item_def demo_numbers demo_targets_values Let_def del: One_nat_def)
qed

lemma demo_stop: "\<exists>stop. build_stop fdec (demo_narrow low high) demo_build_request (bq_policy_measured demo_build_request) = Inr stop \<and>
    st_price stop = Dec False 3996 0"
  by (simp add: build_stop_def demo_request_fields demo_numbers)

lemma demo_risk: "\<exists>risk. build_risk fdec (demo_narrow low high) demo_build_request demo_build_config
    (bq_policy_measured demo_build_request) = Inr risk \<and> 0 < dec_value (ri_risk_percent risk)"
proof -
  have "\<not> is_scalp_plan (demo_narrow low high)"
    by (simp add: is_scalp_plan_def demo_narrow_fields str_lower_def char_lower_def)
  then show ?thesis by (simp add: build_risk_def demo_request_fields dec_value_def dec_signed_def ten_pow_def)
qed

lemma demo_sizing: "\<exists>sizing. build_sizing fdec (demo_narrow low high) demo_build_config (bq_policy_measured demo_build_request) e =
    Inr sizing"
  by (simp add: build_sizing_def Let_def demo_request_fields py_or_def)

lemma demo_management:
  "build_management demo_build_request (bq_policy_measured demo_build_request)
     (make_targets [Dec False 40030 (- 1), Dec False 40060 (- 1)] [Dec False 5 (- 1), Dec False 5 (- 1)]) =
   Inr \<lparr>mg_be_after_target_id = Some ''TP1'', mg_be_buffer_ticks = 6, mg_never_worsen_stop = True,
     mg_trail_after_target_id = None, mg_trail_to_target_id = None\<rparr>"
  by (simp add: build_management_def demo_targets be_target_id_def list_item_def trail_id_def demo_request_fields)

lemma make_targets_lengths: "length (make_targets prices ratios) = min (length prices) (length ratios)"
  by (simp add: make_targets_def)

text \<open>A plan of the demonstration watches the zone of its match.\<close>

lemma demo_built:
  assumes "3996 < dec_value (fdec low)" "3996 < dec_value (fdec high)" "dec_value (fdec low) < 4003" "dec_value (fdec high) < 4003"
  shows "\<exists>p. build_trade_plan_from_strategy_match fdec (demo_narrow low high) demo_build_request demo_build_config = Inr p \<and>
    en_zone_low (tp_entry p) = Some (fdec low) \<and> en_zone_high (tp_entry p) = Some (fdec high) \<and> en_legs (tp_entry p) = [] \<and>
    st_price (tp_stop p) = Dec False 3996 0 \<and> 0 < dec_value (ri_risk_percent (tp_risk p)) \<and>
    tp_targets p = make_targets [Dec False 40030 (- 1), Dec False 40060 (- 1)] [Dec False 5 (- 1), Dec False 5 (- 1)]"
proof -
  let ?q = demo_build_request and ?m = "demo_narrow low high" and ?M = "bq_policy_measured demo_build_request"
  let ?t = "make_targets [Dec False 40030 (- 1), Dec False 40060 (- 1)] [Dec False 5 (- 1), Dec False 5 (- 1)]"
  let ?e = "(plain_entry ENTRY_TYPE_MARKET_WATCH (published_expires_at ?m (Some 1800)) (spread_ticks ?q demo_build_config)
      (bq_max_slippage_ticks ?q))
    \<lparr>en_zone_low := Some (fdec low), en_zone_high := Some (fdec high),
     en_activation := Some ''quote_inside_zone'', en_price_side := Some ''ask''\<rparr>"
  have e: "build_entry fdec ''market'' ''BUY'' ?m ?M (published_expires_at ?m (Some 1800)) (spread_ticks ?q demo_build_config)
      (bq_max_slippage_ticks ?q) = Inr ?e"
    by (simp add: built_routes demo_request_fields demo_narrow_fields)
  obtain stop where stop: "build_stop fdec ?m ?q ?M = Inr stop" "st_price stop = Dec False 3996 0" using demo_stop by blast
  obtain risk where risk: "build_risk fdec ?m ?q demo_build_config ?M = Inr risk" "0 < dec_value (ri_risk_percent risk)"
    using demo_risk by blast
  obtain sizing where sizing: "build_sizing fdec ?m demo_build_config ?M ?e = Inr sizing" using demo_sizing by blast
  obtain p where p: "build_trade_plan_from_strategy_match fdec ?m ?q demo_build_config = checked_plan p"
    "tp_entry p = ?e" "tp_stop p = stop" "tp_targets p = ?t" "tp_risk p = risk" "an_direction (tp_analysis p) = ''BUY''"
    "tp_management p = \<lparr>mg_be_after_target_id = Some ''TP1'', mg_be_buffer_ticks = 6, mg_never_worsen_stop = True,
       mg_trail_after_target_id = None, mg_trail_to_target_id = None\<rparr>"
    unfolding build_trade_plan_from_strategy_match_def
    by (simp add: Let_def demo_narrow_steps demo_build_steps(2,3) make_targets_lengths demo_request_fields(1,10) demo_narrow_fields(1) e stop(1) risk(1) sizing demo_management build_analysis_def)
  have d: "dec_sum [Dec False 5 (- 1), Dec False 5 (- 1)] = Dec False 10 (- 1)" by code_simp
  have v: "dec_value (Dec n c x) = (if n then - 1 else 1) * of_nat c * ten_pow x" for n c x
    by (simp add: dec_value_def dec_signed_def)
  have "plan_safe p"
    using assms by (simp add: plan_safe_def p(2-7) stop(2) demo_targets entry_prices_def entry_types plain_entry_def on_sides_def
        management_safe_def d v ten_pow_def)
  then have "validate_plan p = Inr ()" using validate_plan_exact [of p] by (simp add: p(6) DIRECTIONS_def)
  then show ?thesis using p stop(2) risk(2) by (intro exI [of _ p]) (simp add: checked_plan_def plain_entry_def)
qed

lemma demo_decimal_values: "dec_value (demo_decimal 3999) = 3999" "dec_value (demo_decimal 4000) = 4000"
    "dec_value (demo_decimal 4001) = 4001"
  by (simp_all add: demo_decimal_def dec_value_def dec_signed_def ten_pow_def)

theorem built_plan_safe_witness:
  "\<exists>p. build_trade_plan_from_strategy_match demo_decimal (demo_narrow 3999 4001) demo_build_request demo_build_config = Inr p \<and>
     plan_safe p \<and> tp_expires_at p = 2700"
proof -
  obtain p where p: "build_trade_plan_from_strategy_match demo_decimal (demo_narrow 3999 4001) demo_build_request demo_build_config = Inr p"
    using demo_built [of demo_decimal 3999 4001] demo_decimal_values by auto
  then show ?thesis
    using built_plan_safe [of demo_decimal "demo_narrow 3999 4001" demo_build_request demo_build_config p]
    by (simp add: demo_narrow_fields demo_request_fields)
qed

lemma demo_narrow_valid: "valid_match demo_env (demo_narrow 4000 4000) = Inr True"
proof -
  have i: "identity_ok demo_env (demo_narrow 4000 4000) = Inr True"
    by (simp add: identity_ok_def demo_match_document_def demo_narrow_def or_text_def)
  have r: "valid_range (demo_narrow 4000 4000)"
    by (simp add: valid_range_def demo_match_document_def demo_narrow_def)
  show ?thesis
    unfolding valid_match_def i res_bind.simps using r by (simp add: demo_narrow_def demo_match_document_def STRATEGY_MATCH_VERSION_def)
qed

text \<open>The zone of the match is one price: the match is valid, the plan is built, its reader rejects it.\<close>

theorem built_plan_readable_witness:
  "(\<exists>p. build_trade_plan_from_strategy_match demo_decimal (demo_narrow 3999 4001) demo_build_request demo_build_config = Inr p \<and>
     plan_from_dict (plan_to_dict p) = Inr p) \<and>
   valid_match demo_env (demo_narrow 4000 4000) = Inr True \<and>
   (\<exists>p. build_trade_plan_from_strategy_match demo_decimal (demo_narrow 4000 4000) demo_build_request demo_build_config = Inr p \<and>
     plan_from_dict (plan_to_dict p) \<noteq> Inr p)"
proof -
  have v: "dec_value (Dec n c x) = (if n then - 1 else 1) * of_nat c * ten_pow x" for n c x
    by (simp add: dec_value_def dec_signed_def)
  have low: "ps_low (build_structure fdec (demo_narrow low high)) = fdec low" "ps_high (build_structure fdec (demo_narrow low high)) = fdec high"
    for fdec low high by (simp_all add: build_structure_def demo_narrow_fields or_default_def)
  obtain p where p: "build_trade_plan_from_strategy_match demo_decimal (demo_narrow 3999 4001) demo_build_request demo_build_config = Inr p"
    "en_zone_low (tp_entry p) = Some (demo_decimal 3999)" "en_zone_high (tp_entry p) = Some (demo_decimal 4001)"
    "en_legs (tp_entry p) = []" "st_price (tp_stop p) = Dec False 3996 0" "0 < dec_value (ri_risk_percent (tp_risk p))"
    "tp_targets p = make_targets [Dec False 40030 (- 1), Dec False 40060 (- 1)] [Dec False 5 (- 1), Dec False 5 (- 1)]"
    using demo_built [of demo_decimal 3999 4001] demo_decimal_values by auto
  have 1: "plan_from_dict (plan_to_dict p) = Inr p"
    using built_plan_readable [OF p(1)] p(2-7)
    by (simp add: demo_narrow_fields low entry_readable_def demo_decimal_values demo_targets v ten_pow_def)
  obtain p' where p': "build_trade_plan_from_strategy_match demo_decimal (demo_narrow 4000 4000) demo_build_request demo_build_config = Inr p'"
    using demo_built [of demo_decimal 4000 4000] demo_decimal_values by auto
  have 2: "plan_from_dict (plan_to_dict p') \<noteq> Inr p'"
    using built_plan_readable [OF p'] by (simp add: demo_narrow_fields low)
  have "valid_match demo_env (demo_narrow 4000 4000) = Inr True"
    using demo_narrow_valid .
  then show ?thesis using p(1) 1 p' 2 by blast
qed

end
