(* ===== verification/ExecutionRoute.thy ===== *)
theory ExecutionRoute
  imports TradePlanBuilder StrategyNames
begin

text \<open>
  How a zone is entered (\<open>app/autotrade/execution_route.py\<close>): at the market, by one resting limit, by a ladder of limits, or by
  a market part with a deeper limit. Prices are rationals; the decimal text of a price denotes the price.
\<close>

section \<open>Rounding, ladders and grids\<close>

definition ROUTE_MARKET :: string where "ROUTE_MARKET = ''market''"
definition ROUTE_SINGLE_LIMIT :: string where "ROUTE_SINGLE_LIMIT = ''single_limit''"
definition ROUTE_ZONE_SPLIT :: string where "ROUTE_ZONE_SPLIT = ''zone_split''"
definition ROUTE_MARKET_WITH_LIMIT_SCALE :: string where "ROUTE_MARKET_WITH_LIMIT_SCALE = ''market_with_limit_scale''"
definition ROUTE_EITHER :: string where "ROUTE_EITHER = ''either''"

lemmas route_names = ROUTE_MARKET_def ROUTE_SINGLE_LIMIT_def ROUTE_ZONE_SPLIT_def ROUTE_MARKET_WITH_LIMIT_SCALE_def ROUTE_EITHER_def

definition SCALP_MICRO_CLIPS :: int where "SCALP_MICRO_CLIPS = 5"

definition REACTION_MARKET_SCALE_FAMILIES :: "string list" where
  "REACTION_MARKET_SCALE_FAMILIES = [''key_level'', ''session_level'', ''trendline'']"

text \<open>An absent strategy or family is the empty text.\<close>

definition reaction_market_scale_eligible :: "string \<Rightarrow> string \<Rightarrow> bool" where
  "reaction_market_scale_eligible strategy family \<longleftrightarrow>
     strategy \<noteq> [] \<and> is_reaction_strategy strategy \<or> family \<noteq> [] \<and> family \<in> set REACTION_MARKET_SCALE_FAMILIES"

record route_plan =
  er_route :: string
  er_planned_entry_price :: rat
  er_planned_leg_entry_prices :: "rat list"
  er_entry_geometry :: string
  er_routing_reason :: string
  er_valid :: bool
  er_reject_reason :: "string option"
  er_planned_leg_volume_ratios :: "rat list"
  er_immediate_market :: bool

definition round_price :: "rat \<Rightarrow> int \<Rightarrow> rat" where
  "round_price value digits = quantize_half_up (nat (max 0 digits)) value"

definition zone_split_qualifies :: "rat \<Rightarrow> rat \<Rightarrow> rat \<Rightarrow> bool \<Rightarrow> rat \<Rightarrow> bool" where
  "zone_split_qualifies zone_low zone_high atr zone_fill_enabled zone_fill_min_atr \<longleftrightarrow>
     zone_fill_enabled \<and> 0 < atr \<and> max 0 zone_fill_min_atr * atr \<le> \<bar>zone_high - zone_low\<bar>"

definition scale_ladder_legs :: "string \<Rightarrow> rat \<Rightarrow> rat \<Rightarrow> rat \<Rightarrow> rat \<Rightarrow> rat \<Rightarrow> int \<Rightarrow> rat \<times> rat" where
  "scale_ladder_legs side low high proximal atr scale_step_atr digits =
     (let far = (if side = ''BUY'' then low else high); step_price = max 0 scale_step_atr * max 0 atr;
          second_leg = (if side = ''BUY'' then max far (proximal - step_price) else min far (proximal + step_price)) in
      (round_price proximal digits, round_price second_leg digits))"

fun unique_prices :: "rat list \<Rightarrow> rat list" where
  "unique_prices (p # q # ps) = (if p = q then unique_prices (q # ps) else p # unique_prices (q # ps))"
| "unique_prices ps = ps"

definition scalp_micro_grid_legs :: "string \<Rightarrow> rat \<Rightarrow> rat \<Rightarrow> rat \<Rightarrow> int \<Rightarrow> int \<Rightarrow> rat list" where
  "scalp_micro_grid_legs side low high quote digits clips =
     (let n = nat (max 2 clips) in
      if side = ''BUY''
      then let start = (if quote \<le> high then min quote high else high); far = low in
        if start \<le> far then []
        else let step = (start - far) / of_nat (n - 1) in
          unique_prices (map (\<lambda>i. round_price (start - step * of_nat i) digits) [0..<n])
      else let start = (if quote \<ge> low then max quote low else low); far = high in
        if start \<ge> far then []
        else let step = (far - start) / of_nat (n - 1) in
          unique_prices (map (\<lambda>i. round_price (start + step * of_nat i) digits) [0..<n]))"

definition equal_clip_ratios :: "int \<Rightarrow> rat list" where
  "equal_clip_ratios n =
     (if n \<le> 0 then []
      else let base = py_round 6 (1 / of_int n) in
        replicate (nat n - 1) base @ [py_round 6 (1 - base * of_int (n - 1))])"

section \<open>The route\<close>

record route_request =
  rq_direction :: string
  rq_order_type_preference :: string
  rq_entry_distribution :: string
  rq_executable_quote :: rat
  rq_zone_low :: rat
  rq_zone_high :: rat
  rq_atr :: rat
  rq_zone_fill_enabled :: bool
  rq_zone_fill_min_atr :: rat
  rq_inside_zone_market_entry_enabled :: bool
  rq_zone_fill_fallback_enabled :: bool
  rq_digits :: int
  rq_allow_either :: bool
  rq_scale_first_leg_fraction :: rat
  rq_scale_step_atr :: rat
  rq_reaction_scale_enabled :: bool
  rq_reaction_market_fraction :: rat
  rq_reaction_scale_fraction :: rat
  rq_reaction_scale_step_atr :: "rat option"
  rq_reaction_scale_invalid_policy :: string
  rq_strategy :: string
  rq_strategy_family :: string

definition rq_low :: "route_request \<Rightarrow> rat" where "rq_low q = min (rq_zone_low q) (rq_zone_high q)"
definition rq_high :: "route_request \<Rightarrow> rat" where "rq_high q = max (rq_zone_low q) (rq_zone_high q)"
definition rq_side :: "route_request \<Rightarrow> string" where "rq_side q = str_upper (str_strip (rq_direction q))"
definition rq_preference :: "route_request \<Rightarrow> string" where
  "rq_preference q = str_lower (str_strip (rq_order_type_preference q))"
definition rq_distribution :: "route_request \<Rightarrow> string" where
  "rq_distribution q = str_lower (str_strip (rq_entry_distribution q))"

definition rq_geometry :: "route_request \<Rightarrow> string" where
  "rq_geometry q =
     (if rq_low q \<le> rq_executable_quote q \<and> rq_executable_quote q \<le> rq_high q then ''inside''
      else if rq_executable_quote q < rq_low q then ''below'' else ''above'')"

definition rq_proximal :: "route_request \<Rightarrow> rat" where
  "rq_proximal q = (if rq_side q = ''BUY'' then rq_high q else rq_low q)"

definition rq_split_ok :: "route_request \<Rightarrow> bool" where
  "rq_split_ok q \<longleftrightarrow>
     zone_split_qualifies (rq_low q) (rq_high q) (rq_atr q) (rq_zone_fill_enabled q) (rq_zone_fill_min_atr q)"

text \<open>The anchor of a ladder: the near edge, or the quote once it has passed that edge.\<close>

definition scale_entry_anchor :: "route_request \<Rightarrow> rat" where
  "scale_entry_anchor q =
     (if rq_inside_zone_market_entry_enabled q
      then (if rq_side q = ''BUY''
            then (if rq_geometry q \<noteq> ''above'' then min (rq_executable_quote q) (rq_high q) else rq_proximal q)
            else (if rq_geometry q \<noteq> ''below'' then max (rq_executable_quote q) (rq_low q) else rq_proximal q))
      else rq_proximal q)"

definition unit_fraction :: "rat \<Rightarrow> rat" where
  "unit_fraction f = min 1 (max 0 f)"

definition scale_leg_ratios :: "route_request \<Rightarrow> rat list" where
  "scale_leg_ratios q = (let first = unit_fraction (rq_scale_first_leg_fraction q) in [first, py_round 6 (1 - first)])"

definition reaction_ratios :: "route_request \<Rightarrow> rat list" where
  "reaction_ratios q =
     (let market = unit_fraction (rq_reaction_market_fraction q); scale = unit_fraction (rq_reaction_scale_fraction q) in
      [market, if \<bar>market + scale - 1\<bar> > 1 / 10 ^ 6 then py_round 6 (1 - market) else scale])"

definition reaction_scale_ok :: "route_request \<Rightarrow> bool" where
  "reaction_scale_ok q \<longleftrightarrow>
     rq_reaction_scale_enabled q \<and> reaction_market_scale_eligible (rq_strategy q) (rq_strategy_family q) \<and>
     rq_distribution q \<in> {''zone_scale'', ''reaction_scale'', ''either'', []}"

definition route :: "route_request \<Rightarrow> string \<Rightarrow> rat \<Rightarrow> rat list \<Rightarrow> string \<Rightarrow> route_plan" where
  "route q kind price legs reason =
     \<lparr>er_route = kind, er_planned_entry_price = price, er_planned_leg_entry_prices = legs,
      er_entry_geometry = rq_geometry q, er_routing_reason = reason, er_valid = True, er_reject_reason = None,
      er_planned_leg_volume_ratios = [], er_immediate_market = False\<rparr>"

definition market_route :: "route_request \<Rightarrow> string \<Rightarrow> route_plan" where
  "market_route q reason = route q ROUTE_MARKET (round_price (rq_executable_quote q) (rq_digits q)) [] reason"

definition refused_route :: "route_request \<Rightarrow> string \<Rightarrow> string \<Rightarrow> string \<Rightarrow> route_plan" where
  "refused_route q kind reason reject =
     (route q kind (rq_executable_quote q) [] reason)\<lparr>er_valid := False, er_reject_reason := Some reject\<rparr>"

definition market_with_limit_scale_plan :: "route_request \<Rightarrow> route_plan option" where
  "market_with_limit_scale_plan q =
     (let policy = str_lower (str_strip (if rq_reaction_scale_invalid_policy q = [] then ''single_market''
                                         else rq_reaction_scale_invalid_policy q)) in
      if \<not> reaction_scale_ok q then None
      else if \<not> rq_split_ok q
      then if policy = ''single_market'' \<or> rq_zone_fill_fallback_enabled q
        then Some (market_route q ''reaction scale unqualified; single market fallback'')
        else Some (refused_route q ROUTE_MARKET_WITH_LIMIT_SCALE ''reaction scale required but unqualified''
                    ''execution policy requires unavailable market_with_limit_scale'')
      else let anchor = (if rq_geometry q = ''inside'' then scale_entry_anchor q else rq_proximal q);
               step = (case rq_reaction_scale_step_atr q of None \<Rightarrow> rq_scale_step_atr q | Some s \<Rightarrow> s);
               l1_price = round_price (rq_executable_quote q) (rq_digits q);
               l2_price = snd (scale_ladder_legs (rq_side q) (rq_low q) (rq_high q) anchor (rq_atr q) step (rq_digits q)) in
      if l1_price = l2_price \<and> policy = ''single_market''
      then Some (route q ROUTE_MARKET l1_price [] ''reaction scale L2 coincides with L1; single market fallback'')
      else Some ((route q ROUTE_MARKET_WITH_LIMIT_SCALE l1_price [l1_price, l2_price]
                   ''execution policy: reaction market_with_limit_scale'')
                 \<lparr>er_planned_leg_volume_ratios := reaction_ratios q\<rparr>))"

text \<open>Scalps and techniques take the market; only a breakout retest waits for the quote outside its band.\<close>

definition is_single_market :: "route_request \<Rightarrow> bool" where
  "is_single_market q \<longleftrightarrow> is_scalp_strategy (rq_strategy q) (rq_strategy_family q) [] \<or> is_technique_or_confluence (rq_strategy q)"

definition single_market_route :: "route_request \<Rightarrow> route_plan" where
  "single_market_route q =
     (if is_breakout_retest_scalp_strategy (rq_strategy q) \<and> rq_geometry q \<noteq> ''inside''
      then market_route q ''breakout retest: market_watch until quote inside retest band''
      else let chase_away = (rq_side q = ''SELL'' \<and> rq_geometry q = ''below'' \<or> rq_side q = ''BUY'' \<and> rq_geometry q = ''above'');
        reason = (if chase_away then ''scalp chase: full market (micro-grid would rest into abandoned zone)''
                  else if is_scalp_strategy (rq_strategy q) (rq_strategy_family q) []
                  then ''scalp: single-leg market (no micro-grid)''
                  else ''technique: single-leg market (no micro-grid)'') in
      (market_route q reason)\<lparr>er_immediate_market := True\<rparr>)"

definition zone_scale_route :: "route_request \<Rightarrow> string \<Rightarrow> route_plan" where
  "zone_scale_route q reason =
     (let (first, second) = scale_ladder_legs (rq_side q) (rq_low q) (rq_high q) (scale_entry_anchor q) (rq_atr q)
            (rq_scale_step_atr q) (rq_digits q) in
      (route q ROUTE_ZONE_SPLIT first [first, second] reason)\<lparr>er_planned_leg_volume_ratios := scale_leg_ratios q\<rparr>)"

definition zone_split_route :: "route_request \<Rightarrow> string \<Rightarrow> route_plan" where
  "zone_split_route q reason =
     (let first = round_price (rq_proximal q) (rq_digits q);
          midpoint = round_price ((rq_low q + rq_high q) / 2) (rq_digits q) in
      route q ROUTE_ZONE_SPLIT first [first, midpoint] reason)"

definition single_limit_route :: "route_request \<Rightarrow> route_plan" where
  "single_limit_route q =
     (let quote = rq_executable_quote q; low = rq_low q; high = rq_high q;
          limit = (if rq_side q = ''BUY''
            then (if quote > high \<and> \<not> rq_inside_zone_market_entry_enabled q then high
                  else if rq_geometry q \<noteq> ''above'' then min quote high else rq_proximal q)
            else (if quote < low \<and> \<not> rq_inside_zone_market_entry_enabled q then low
                  else if rq_geometry q \<noteq> ''below'' then max quote low else rq_proximal q));
          price = round_price limit (rq_digits q) in
      route q ROUTE_SINGLE_LIMIT price [price] ''execution policy: single limit'')"

text \<open>\<open>if reaction_scale_ok and geometry == "inside"\<close>, and the plan it gives.\<close>

definition inside_scale_plan :: "route_request \<Rightarrow> route_plan option" where
  "inside_scale_plan q =
     (if reaction_scale_ok q \<and> rq_geometry q = ''inside'' then market_with_limit_scale_plan q else None)"

definition market_preference_route :: "route_request \<Rightarrow> route_plan" where
  "market_preference_route q =
     (let d = rq_distribution q in
      case inside_scale_plan q of
        Some plan \<Rightarrow> plan
      | None \<Rightarrow>
          if d \<in> {''zone_split'', ''zone_scale''}
          then refused_route q ROUTE_ZONE_SPLIT (''market cannot use '' @ d) (''market order cannot use '' @ d @ '' entry distribution'')
          else market_route q ''execution policy: market'')"

definition limit_preference_route :: "route_request \<Rightarrow> route_plan" where
  "limit_preference_route q =
     (let d = rq_distribution q in
      case inside_scale_plan q of
        Some plan \<Rightarrow> plan
      | None \<Rightarrow>
          if d \<in> {''zone_split'', ''zone_scale''} \<or> d = ''either'' \<and> rq_split_ok q
          then if \<not> rq_split_ok q
            then if rq_zone_fill_fallback_enabled q then market_route q ''zone-fill unavailable; single-entry fallback''
              else refused_route q ROUTE_ZONE_SPLIT ''zone_split required but unqualified''
                     ''execution policy requires unavailable zone_split limit capability''
            else if d = ''zone_scale'' then zone_scale_route q ''execution policy: DCA zone scale''
            else zone_split_route q ''execution policy: zone split''
          else single_limit_route q)"

definition resolved_either :: "string \<Rightarrow> string" where
  "resolved_either target = ''resolved either '' @ [CHR 0xE2, CHR 0x86, CHR 0x92] @ '' '' @ target"

definition either_preference_route :: "route_request \<Rightarrow> route_plan" where
  "either_preference_route q =
     (let d = rq_distribution q in
      if rq_allow_either q
      then route q ROUTE_EITHER (round_price (rq_executable_quote q) (rq_digits q)) [] ''legacy uncommitted either''
      else case inside_scale_plan q of
        Some plan \<Rightarrow> plan
      | None \<Rightarrow>
          if rq_split_ok q \<and> d \<in> {''zone_split'', ''zone_scale'', ''either'', []}
          then if d = ''zone_scale'' then zone_scale_route q (resolved_either ''DCA zone scale'')
            else (zone_split_route q (resolved_either ''zone split''))\<lparr>er_planned_leg_volume_ratios := scale_leg_ratios q\<rparr>
          else market_route q (resolved_either ''market''))"

definition resolve_execution_route_plan :: "route_request \<Rightarrow> route_plan" where
  "resolve_execution_route_plan q =
     (if is_single_market q then single_market_route q
      else if rq_preference q = ''market'' then market_preference_route q
      else if rq_preference q = ''limit'' then limit_preference_route q
      else either_preference_route q)"

section \<open>What the policy publishes of a route\<close>

definition published_legs :: "route_plan \<Rightarrow> string \<Rightarrow> rat \<Rightarrow> rat \<Rightarrow> rat list" where
  "published_legs p direction low high =
     (if er_planned_leg_entry_prices p \<noteq> [] then map (py_round 6) (er_planned_leg_entry_prices p)
      else if er_route p = ''single_limit'' then [py_round 6 (er_planned_entry_price p)]
      else if er_route p = ''zone_split''
      then [py_round 6 (if direction = ''BUY'' then high else low), py_round 6 ((low + high) / 2)]
      else [])"

definition measured_route :: "route_plan \<Rightarrow> string \<Rightarrow> rat \<Rightarrow> rat \<Rightarrow> (string \<times> json) list" where
  "measured_route p direction low high =
     [(''planned_execution_route'', JStr (er_route p)),
      (''planned_market_immediate'', JBool (er_immediate_market p)),
      (''planned_leg_entry_prices'', JList (map JFloat (published_legs p direction low high))),
      (''planned_leg_volume_ratios'', JList (map (\<lambda>r. JFloat (py_round 6 r)) (er_planned_leg_volume_ratios p))),
      (''planned_entry_price'', JFloat (py_round 6 (er_planned_entry_price p)))]"


section \<open>The shape of a route\<close>

definition route_shape :: "route_plan \<Rightarrow> bool" where
  "route_shape p \<longleftrightarrow>
     (er_route p = ROUTE_MARKET \<and> er_planned_leg_entry_prices p = [] \<or>
      er_route p = ROUTE_SINGLE_LIMIT \<and> er_planned_leg_entry_prices p = [er_planned_entry_price p] \<and> \<not> er_immediate_market p \<or>
      er_route p \<in> {ROUTE_ZONE_SPLIT, ROUTE_MARKET_WITH_LIMIT_SCALE} \<and> length (er_planned_leg_entry_prices p) = 2 \<and>
        \<not> er_immediate_market p \<and> length (er_planned_leg_volume_ratios p) \<in> {0, 2})"

lemma market_route_shape [simp]: "route_shape (market_route q reason)" "er_valid (market_route q reason)"
  by (simp_all add: route_shape_def market_route_def route_def)

lemma zone_route_shape [simp]:
  "route_shape (zone_scale_route q reason)" "route_shape (zone_split_route q reason)"
  "route_shape ((zone_split_route q reason)\<lparr>er_planned_leg_volume_ratios := scale_leg_ratios q\<rparr>)"
  by (simp_all add: route_shape_def zone_scale_route_def zone_split_route_def route_def scale_leg_ratios_def Let_def split: prod.splits)

lemma single_route_shape [simp]: "route_shape (single_limit_route q)" "route_shape (single_market_route q)"
  by (simp_all add: route_shape_def single_limit_route_def single_market_route_def market_route_def route_def Let_def)

lemma refused_not_valid [simp]: "\<not> er_valid (refused_route q kind reason reject)"
  by (simp add: refused_route_def)

lemma reaction_ratios_length [simp]: "length (reaction_ratios q) = 2"
  by (simp add: reaction_ratios_def Let_def)

text \<open>A valid plan of the scale: the market alone, or the market with one deeper limit.\<close>

definition scale_second :: "route_request \<Rightarrow> rat" where
  "scale_second q =
     snd (scale_ladder_legs (rq_side q) (rq_low q) (rq_high q)
       (if rq_geometry q = ''inside'' then scale_entry_anchor q else rq_proximal q) (rq_atr q)
       (case rq_reaction_scale_step_atr q of None \<Rightarrow> rq_scale_step_atr q | Some s \<Rightarrow> s) (rq_digits q))"

definition scaled_route :: "route_request \<Rightarrow> route_plan" where
  "scaled_route q =
     (let l1 = round_price (rq_executable_quote q) (rq_digits q) in
      (route q ROUTE_MARKET_WITH_LIMIT_SCALE l1 [l1, scale_second q] ''execution policy: reaction market_with_limit_scale'')
      \<lparr>er_planned_leg_volume_ratios := reaction_ratios q\<rparr>)"

lemma scale_plan_cases:
  assumes "market_with_limit_scale_plan q = Some p" "er_valid p"
  shows "(\<exists>reason. p = market_route q reason) \<or> p = scaled_route q"
  using assms unfolding market_with_limit_scale_plan_def Let_def scale_second_def [symmetric] scaled_route_def
  by (auto simp: market_route_def split: if_split_asm)

lemma scale_plan_shape: "inside_scale_plan q = Some p \<Longrightarrow> er_valid p \<Longrightarrow> route_shape p"
  unfolding inside_scale_plan_def using scale_plan_cases [of q p]
  by (auto split: if_split_asm simp: scaled_route_def route_shape_def route_def Let_def market_route_def)

lemma resolved_shape:
  assumes "er_valid (resolve_execution_route_plan q)" "\<not> rq_allow_either q"
  shows "route_shape (resolve_execution_route_plan q)"
  using assms scale_plan_shape [of q]
  unfolding resolve_execution_route_plan_def market_preference_route_def limit_preference_route_def either_preference_route_def Let_def
  by (auto split: option.splits if_splits)

lemma float_decimals: "res_map_list (decimal_of fdec) (map JFloat qs) = Inr (map fdec qs)"
  by (induction qs) simp_all

lemma make_legs_prices: "length rs = length ps \<Longrightarrow> map el_price (make_legs ot ps rs) = ps"
  by (intro nth_equalityI) (simp_all add: make_legs_length make_legs_nth)

lemma measured_route_items:
  fixes p direction low high
  defines "M \<equiv> measured_route p direction low high"
  shows "dict_get M ''planned_execution_route'' = JStr (er_route p)"
    "dict_get M ''planned_market_immediate'' = JBool (er_immediate_market p)"
    "measured_list M ''planned_leg_entry_prices'' = Inr (map JFloat (published_legs p direction low high))"
    "measured_list M ''planned_leg_volume_ratios'' = Inr (map (\<lambda>r. JFloat (py_round 6 r)) (er_planned_leg_volume_ratios p))"
    "measured_item M ''planned_entry_price'' = Inr (JFloat (py_round 6 (er_planned_entry_price p)))"
proof -
  have list: "py_iter_or_empty (JList xs) = Inr xs" for xs by (cases xs) (simp_all add: py_iter_or_empty_def)
  show "dict_get M ''planned_execution_route'' = JStr (er_route p)"
    "dict_get M ''planned_market_immediate'' = JBool (er_immediate_market p)"
    "measured_list M ''planned_leg_entry_prices'' = Inr (map JFloat (published_legs p direction low high))"
    "measured_list M ''planned_leg_volume_ratios'' = Inr (map (\<lambda>r. JFloat (py_round 6 r)) (er_planned_leg_volume_ratios p))"
    "measured_item M ''planned_entry_price'' = Inr (JFloat (py_round 6 (er_planned_entry_price p)))"
    by (simp_all add: M_def measured_route_def dict_get_def measured_list_def measured_item_def list)
qed

lemma leg_shares_two:
  assumes "length ratios \<in> {0, 2}" "length standard = 2"
  shows "\<exists>rs. leg_shares fdec (map (\<lambda>r. JFloat (py_round 6 r)) ratios) 2 standard = Inr rs \<and> length rs = 2"
proof -
  have "map (\<lambda>r. JFloat (py_round 6 r)) ratios = map JFloat (map (py_round 6) ratios)" by simp
  then show ?thesis
    using assms add_to_last_length [of "map fdec (map (py_round 6) ratios)"]
    by (auto simp: leg_shares_def float_decimals simp del: map_map)
qed

lemma shape_builds:
  assumes "route_shape p"
  shows "\<exists>e. build_entry fdec (er_route p) direction m
       (measured_route p direction low high) expires spread slippage = Inr e \<and>
     en_type e = (if er_route p = ROUTE_MARKET
       then (if er_immediate_market p then ENTRY_TYPE_MARKET else ENTRY_TYPE_MARKET_WATCH)
       else if er_route p = ROUTE_SINGLE_LIMIT then ENTRY_TYPE_SINGLE_LIMIT
       else if er_route p = ROUTE_ZONE_SPLIT then ENTRY_TYPE_LIMIT_LADDER
       else ENTRY_TYPE_MARKET_WITH_LIMIT_SCALE) \<and>
     map el_price (en_legs e) = (if length (er_planned_leg_entry_prices p) = 2
       then map (\<lambda>x. fdec (py_round 6 x)) (er_planned_leg_entry_prices p) else [])"
proof -
  define M where "M = measured_route p direction low high"
  note items = measured_route_items [of p direction low high, folded M_def]
  consider "er_route p = ''market''" "er_planned_leg_entry_prices p = []"
    | x where "er_route p = ''single_limit''" "er_planned_leg_entry_prices p = [x]" "\<not> er_immediate_market p"
    | x y where "er_route p = ''zone_split''" "er_planned_leg_entry_prices p = [x, y]" "length (er_planned_leg_volume_ratios p) \<in> {0, 2}"
    | x y where "er_route p = ''market_with_limit_scale''" "er_planned_leg_entry_prices p = [x, y]"
      "length (er_planned_leg_volume_ratios p) \<in> {0, 2}"
    using assms unfolding route_shape_def route_names by (auto simp: numeral_2_eq_2 length_Suc_conv)
  then show ?thesis
  proof cases
    case 1
    then show ?thesis by (simp add: built_routes M_def [symmetric] items plain_entry_def route_names entry_types)
  next
    case 2
    then show ?thesis by (simp add: built_routes M_def [symmetric] items plain_entry_def route_names entry_types)
  next
    case (3 x y)
    obtain rs where rs: "leg_shares fdec (map (\<lambda>r. JFloat (py_round 6 r)) (er_planned_leg_volume_ratios p)) 2 (equal_ratios 2) = Inr rs"
      "length rs = 2" using leg_shares_two [OF 3(3) equal_ratios_length [of 2]] by auto
    have l: "published_legs p direction low high = [py_round 6 x, py_round 6 y]" by (simp add: published_legs_def 3)
    show ?thesis using rs make_legs_prices [of rs "[fdec (py_round 6 x), fdec (py_round 6 y)]" "\<lambda>i. None"]
      by (simp add: 3 built_routes M_def [symmetric] items l plain_entry_def route_names entry_types flip: numeral_2_eq_2)
  next
    case (4 x y)
    obtain rs where rs: "leg_shares fdec (map (\<lambda>r. JFloat (py_round 6 r)) (er_planned_leg_volume_ratios p)) 2
        [Dec False 80 (- 2), Dec False 20 (- 2)] = Inr rs"
      "length rs = 2" using leg_shares_two [OF 4(3), of "[Dec False 80 (- 2), Dec False 20 (- 2)]"] by auto
    have l: "published_legs p direction low high = [py_round 6 x, py_round 6 y]" by (simp add: published_legs_def 4)
    show ?thesis using rs make_legs_prices [of rs "[fdec (py_round 6 x), fdec (py_round 6 y)]"
        "\<lambda>i. Some (if i = 0 then ORDER_TYPE_MARKET else ORDER_TYPE_LIMIT)"]
      by (simp add: 4 built_routes M_def [symmetric] items l plain_entry_def route_names entry_types flip: numeral_2_eq_2)
  qed
qed

text \<open>C17. Whatever route is resolved as valid, the plan builder takes it: from what the policy publishes of the route it
  builds an entry, of the type of the route, with the two legs at the prices of the route for a ladder or a scaled entry and
  without legs otherwise.\<close>

theorem resolved_route_builds:
  assumes "er_valid (resolve_execution_route_plan q)" "\<not> rq_allow_either q"
  shows "\<exists>e. build_entry fdec (er_route (resolve_execution_route_plan q)) direction m
       (measured_route (resolve_execution_route_plan q) direction low high) expires spread slippage = Inr e \<and>
     en_type e = (if er_route (resolve_execution_route_plan q) = ROUTE_MARKET
       then (if er_immediate_market (resolve_execution_route_plan q) then ENTRY_TYPE_MARKET else ENTRY_TYPE_MARKET_WATCH)
       else if er_route (resolve_execution_route_plan q) = ROUTE_SINGLE_LIMIT then ENTRY_TYPE_SINGLE_LIMIT
       else if er_route (resolve_execution_route_plan q) = ROUTE_ZONE_SPLIT then ENTRY_TYPE_LIMIT_LADDER
       else ENTRY_TYPE_MARKET_WITH_LIMIT_SCALE) \<and>
     map el_price (en_legs e) = (if length (er_planned_leg_entry_prices (resolve_execution_route_plan q)) = 2
       then map (\<lambda>x. fdec (py_round 6 x)) (er_planned_leg_entry_prices (resolve_execution_route_plan q)) else [])"
  using shape_builds [OF resolved_shape [OF assms]] by simp

section \<open>Where the limits rest\<close>

text \<open>Not beyond the price, seen from the side of the order: a limit to buy rests below the market, a limit to sell above.\<close>

definition better_price :: "string \<Rightarrow> rat \<Rightarrow> rat \<Rightarrow> bool" where
  "better_price side x y = (if side = ''BUY'' then x \<le> y else y \<le> x)"


definition far_edge :: "route_request \<Rightarrow> rat" where
  "far_edge q = (if rq_side q = ''BUY'' then rq_low q else rq_high q)"

lemma zone_routes:
  "er_planned_leg_entry_prices (zone_split_route q reason) =
     [round_price (rq_proximal q) (rq_digits q), round_price ((rq_low q + rq_high q) / 2) (rq_digits q)]"
  "er_planned_leg_entry_prices (zone_scale_route q reason) =
     [round_price (scale_entry_anchor q) (rq_digits q),
      snd (scale_ladder_legs (rq_side q) (rq_low q) (rq_high q) (scale_entry_anchor q) (rq_atr q) (rq_scale_step_atr q) (rq_digits q))]"
  "er_route (zone_split_route q reason) = ROUTE_ZONE_SPLIT" "er_route (zone_scale_route q reason) = ROUTE_ZONE_SPLIT"
  by (simp_all add: zone_split_route_def zone_scale_route_def route_def Let_def scale_ladder_legs_def)








lemma ladder_second:
  obtains s where "0 \<le> s" "snd (scale_ladder_legs side low high anchor atr step digits) =
    round_price (if side = ''BUY'' then max low (anchor - s) else min high (anchor + s)) digits"
proof -
  have "0 \<le> max 0 step * max 0 atr" by simp
  then show thesis by (rule that) (simp add: scale_ladder_legs_def Let_def)
qed

text \<open>The second leg: the far edge at most, and never shallower than an anchor in the zone.\<close>

lemma second_leg:
  assumes "rq_low q \<le> anchor" "anchor \<le> rq_high q"
  shows "\<exists>x. snd (scale_ladder_legs (rq_side q) (rq_low q) (rq_high q) anchor (rq_atr q) step (rq_digits q)) = round_price x (rq_digits q) \<and>
     rq_low q \<le> x \<and> x \<le> rq_high q \<and> better_price (rq_side q) x anchor"
proof -
  obtain s where s: "0 \<le> s" "snd (scale_ladder_legs (rq_side q) (rq_low q) (rq_high q) anchor (rq_atr q) step (rq_digits q)) =
      round_price (if rq_side q = ''BUY'' then max (rq_low q) (anchor - s) else min (rq_high q) (anchor + s)) (rq_digits q)"
    by (rule ladder_second)
  show ?thesis
    unfolding s(2) using assms s(1)
    by (intro exI [of _ "if rq_side q = ''BUY'' then max (rq_low q) (anchor - s) else min (rq_high q) (anchor + s)"])
      (simp add: better_price_def max_def min_def)
qed













definition demo_route_request :: "string \<Rightarrow> rat \<Rightarrow> route_request" where
  "demo_route_request distribution quote =
     \<lparr>rq_direction = ''buy'', rq_order_type_preference = ''limit'', rq_entry_distribution = distribution,
      rq_executable_quote = quote, rq_zone_low = 3999, rq_zone_high = 4001, rq_atr = 2, rq_zone_fill_enabled = True,
      rq_zone_fill_min_atr = 1 / 2, rq_inside_zone_market_entry_enabled = True, rq_zone_fill_fallback_enabled = True,
      rq_digits = 2, rq_allow_either = False, rq_scale_first_leg_fraction = 4 / 5, rq_scale_step_atr = 1 / 2,
      rq_reaction_scale_enabled = False, rq_reaction_market_fraction = 4 / 5, rq_reaction_scale_fraction = 1 / 5,
      rq_reaction_scale_step_atr = None, rq_reaction_scale_invalid_policy = [], rq_strategy = [], rq_strategy_family = []\<rparr>"

lemma demo_route_fields:
  "rq_side (demo_route_request d x) = ''BUY''" "rq_preference (demo_route_request d x) = ''limit''"
  "rq_low (demo_route_request d x) = 3999" "rq_high (demo_route_request d x) = 4001"
  "rq_executable_quote (demo_route_request d x) = x" "rq_digits (demo_route_request d x) = 2"
  "rq_split_ok (demo_route_request d x)" "inside_scale_plan (demo_route_request d x) = None"
  "rq_inside_zone_market_entry_enabled (demo_route_request d x)" "far_edge (demo_route_request d x) = 3999"
  "rq_proximal (demo_route_request d x) = 4001" "\<not> rq_allow_either (demo_route_request d x)"
proof -
  have "str_upper (str_strip ''buy'') = ''BUY''" "str_lower (str_strip ''limit'') = ''limit''" by code_simp+
  then show "rq_side (demo_route_request d x) = ''BUY''" "rq_preference (demo_route_request d x) = ''limit''"
    by (simp_all add: rq_side_def rq_preference_def demo_route_request_def)
  then show "rq_low (demo_route_request d x) = 3999" "rq_high (demo_route_request d x) = 4001"
    "rq_executable_quote (demo_route_request d x) = x" "rq_digits (demo_route_request d x) = 2"
    "rq_split_ok (demo_route_request d x)" "inside_scale_plan (demo_route_request d x) = None"
    "rq_inside_zone_market_entry_enabled (demo_route_request d x)" "far_edge (demo_route_request d x) = 3999"
    "rq_proximal (demo_route_request d x) = 4001" "\<not> rq_allow_either (demo_route_request d x)"
    by (simp_all add: demo_route_request_def rq_low_def rq_high_def rq_split_ok_def zone_split_qualifies_def inside_scale_plan_def
        reaction_scale_ok_def far_edge_def rq_proximal_def)
qed

lemma demo_route_names: "\<not> is_single_market (demo_route_request d x)"
proof -
  have "\<not> is_scalp_strategy [] [] []" "\<not> is_technique_or_confluence []" by code_simp+
  then show ?thesis by (simp add: is_single_market_def demo_route_request_def)
qed

lemma demo_distributions:
  "rq_distribution (demo_route_request ''zone_scale'' x) = ''zone_scale''"
  "rq_distribution (demo_route_request ''zone_split'' x) = ''zone_split''"
proof -
  have "str_lower (str_strip ''zone_scale'') = ''zone_scale''" "str_lower (str_strip ''zone_split'') = ''zone_split''" by code_simp+
  then show "rq_distribution (demo_route_request ''zone_scale'' x) = ''zone_scale''"
    "rq_distribution (demo_route_request ''zone_split'' x) = ''zone_split''"
    by (simp_all add: rq_distribution_def demo_route_request_def)
qed

lemma demo_routes:
  "\<exists>reason. resolve_execution_route_plan (demo_route_request ''zone_scale'' x) = zone_scale_route (demo_route_request ''zone_scale'' x) reason"
  "\<exists>reason. resolve_execution_route_plan (demo_route_request ''zone_split'' x) = zone_split_route (demo_route_request ''zone_split'' x) reason"
  by (simp_all add: resolve_execution_route_plan_def demo_route_names demo_route_fields demo_distributions limit_preference_route_def) blast+

lemma zone_routes_valid: "er_valid (zone_scale_route q reason)" "er_valid (zone_split_route q reason)"
  by (simp_all add: zone_scale_route_def zone_split_route_def route_def Let_def split: prod.split)

lemma demo_valid:
  "er_valid (resolve_execution_route_plan (demo_route_request ''zone_scale'' x))"
  "er_route (resolve_execution_route_plan (demo_route_request ''zone_scale'' x)) = ROUTE_ZONE_SPLIT"
  "er_valid (resolve_execution_route_plan (demo_route_request ''zone_split'' x))"
  "er_route (resolve_execution_route_plan (demo_route_request ''zone_split'' x)) = ROUTE_ZONE_SPLIT"
  using demo_routes [of x] by (auto simp: zone_routes zone_routes_valid)




theorem resolved_route_builds_witness:
  "\<exists>e. build_entry demo_decimal ''zone_split'' ''BUY'' demo_match_document
     (measured_route (resolve_execution_route_plan (demo_route_request ''zone_split'' 4000)) ''BUY'' 3999 4001) 1900 8 10 = Inr e \<and>
     en_type e = ENTRY_TYPE_LIMIT_LADDER \<and> map el_price (en_legs e) = [demo_decimal (py_round 6 4001), demo_decimal (py_round 6 4000)]"
proof -
  have r: "round_price 4001 2 = 4001" "round_price 4000 2 = 4000" by (simp_all add: round_price_def quantize_half_up_def Let_def floor_eq_iff)
  have l: "er_planned_leg_entry_prices (resolve_execution_route_plan (demo_route_request ''zone_split'' 4000)) = [4001, 4000]"
    using demo_routes(2) [of 4000] by (auto simp: zone_routes demo_route_fields r)
  from resolved_route_builds [OF demo_valid(3) [of 4000] demo_route_fields(12), where fdec = demo_decimal and direction = "''BUY''"
    and m = demo_match_document and low = 3999 and high = 4001 and expires = 1900 and spread = 8 and slippage = 10]
  show ?thesis unfolding demo_valid(4) l by (simp add: route_names)
qed

end
