(* ===== verification/ZoneGeometry.thy ===== *)
theory ZoneGeometry
  imports StrategyMatch "HOL-Library.While_Combinator" "HOL-Library.Multiset"
begin

text \<open>
  Price zones and their life on the chart (\<open>app/analysis/zones.py\<close> with the records of \<open>app/analysis/types.py\<close> and
  the bar arithmetic of \<open>app/analysis/math_utils.py\<close>): legs of displacement, supply and demand bases, order blocks,
  breakers, flips and gaps, touches, the merge of overlapping zones of one side, their score, and the reconciliation
  of overlapping zones of opposite sides.

  A data frame is the list of its bars, a series the list of its values; a missing value does not occur. The counters
  a caller may ask for with \<open>metric_sink\<close> and the log lines are left out. \<open>reconcile_opposing\<close> is a loop of
  \<open>while_option\<close>, so \<open>None\<close> means that it does not return.
\<close>

section \<open>Bars\<close>

record ohlc =
  oh_open :: rat
  oh_high :: rat
  oh_low :: rat
  oh_close :: rat
  oh_ts :: int

definition true_range_from :: "rat \<Rightarrow> ohlc \<Rightarrow> rat" where
  "true_range_from prev_close b =
     max (oh_high b - oh_low b) (max \<bar>oh_high b - prev_close\<bar> \<bar>oh_low b - prev_close\<bar>)"

fun true_range :: "ohlc list \<Rightarrow> rat list" where
  "true_range [] = []"
| "true_range (b # bs) = (oh_high b - oh_low b) # map (\<lambda>(p, c). true_range_from (oh_close p) c) (zip (b # bs) bs)"

definition mean :: "rat list \<Rightarrow> rat" where
  "mean xs = sum_list xs / of_nat (length xs)"

text \<open>\<open>tr.rolling(length, min_periods=1).mean()\<close>.\<close>

definition atr_series :: "nat \<Rightarrow> ohlc list \<Rightarrow> rat list" where
  "atr_series n df = (let tr = true_range df in map (\<lambda>i. mean (drop (Suc i - n) (take (Suc i) tr))) [0..<length tr])"

definition positive_or :: "rat \<Rightarrow> rat \<Rightarrow> rat" where
  "positive_or v fallback = (if v \<le> 0 then fallback else v)"

definition atr_at :: "rat list \<Rightarrow> int \<Rightarrow> rat \<Rightarrow> rat" where
  "atr_at atr index fallback =
     positive_or (if atr = [] then fallback else atr ! nat (max 0 (min index (int (length atr) - 1)))) fallback"

definition candle_direction :: "ohlc \<Rightarrow> string option" where
  "candle_direction b =
     (if oh_open b < oh_close b then Some ''up'' else if oh_close b < oh_open b then Some ''down'' else None)"

definition body_fraction :: "ohlc \<Rightarrow> rat" where
  "body_fraction b =
     (if oh_high b - oh_low b \<le> 0 then 0 else \<bar>oh_close b - oh_open b\<bar> / (oh_high b - oh_low b))"

text \<open>\<open>df.iloc[i]\<close> for \<open>0 \<le> i\<close>.\<close>

definition bar_at :: "ohlc list \<Rightarrow> int \<Rightarrow> ohlc res" where
  "bar_at df i = (if i < int (length df) then Inr (df ! nat i) else Inl IndexError)"

section \<open>Records\<close>

record leg =
  lg_start :: int
  lg_end :: int
  lg_direction :: string
  lg_size :: rat

record market_break =
  mb_kind :: string
  mb_direction :: string
  mb_level :: rat
  mb_index :: int
  mb_ts :: "int option"

record level =
  lv_price :: rat
  lv_kind :: string
  lv_touches :: int
  lv_band :: rat
  lv_strength :: rat

record session_level =
  sv_name :: string
  sv_price :: rat
  sv_ts :: int
  sv_swept :: bool
  sv_swept_ts :: "int option"

record dealing_span =
  dr_high :: rat
  dr_low :: rat
  dr_eq :: rat
  dr_position :: rat
  dr_zone :: string
  dr_fib_zone :: string

record pool =
  po_side :: string
  po_level :: rat
  po_band :: rat
  po_touches :: int

record grab =
  gr_pool :: pool
  gr_index :: int
  gr_direction :: string
  gr_ts :: "int option"
  gr_grade :: string
  gr_displacement :: bool
  gr_inducement :: bool

record trendline =
  tn_kind :: string
  tn_point_idx :: "int list"
  tn_slope :: rat
  tn_intercept :: rat
  tn_touches :: int
  tn_broken :: bool
  tn_break_index :: "int option"
  tn_fit_error_atr :: rat
  tn_violations :: int
  tn_bars_since_last_touch :: int
  tn_span_bars :: int
  tn_exhausted :: bool

record zone =
  zo_bottom :: rat
  zo_top :: rat
  zo_side :: string
  zo_origin :: int
  zo_created :: "int option"
  zo_touches :: int
  zo_mitigated :: bool
  zo_source :: string
  zo_sources :: "string list"
  zo_score :: rat
  zo_reasons :: "string list"
  zo_break_kind :: "string option"
  zo_break_index :: "int option"

text \<open>\<open>Zone.__post_init__\<close>, which \<open>replace\<close> runs too.\<close>

definition zone_init :: "zone \<Rightarrow> zone" where
  "zone_init z =
     (let z = (if zo_top z < zo_bottom z then z\<lparr>zo_bottom := zo_top z, zo_top := zo_bottom z\<rparr> else z) in
      if zo_sources z = [] \<and> zo_source z \<noteq> [] then z\<lparr>zo_sources := [zo_source z]\<rparr> else z)"

definition new_zone :: "rat \<Rightarrow> rat \<Rightarrow> string \<Rightarrow> int \<Rightarrow> int option \<Rightarrow> string \<Rightarrow> string option \<Rightarrow> int option \<Rightarrow> zone" where
  "new_zone low high side origin created source break_kind break_index =
     zone_init \<lparr>zo_bottom = low, zo_top = high, zo_side = side, zo_origin = origin, zo_created = created,
       zo_touches = 0, zo_mitigated = False, zo_source = source, zo_sources = [], zo_score = 0, zo_reasons = [],
       zo_break_kind = break_kind, zo_break_index = break_index\<rparr>"

section \<open>Displacement\<close>

definition append_leg ::
  "ohlc list \<Rightarrow> rat list \<Rightarrow> rat \<Rightarrow> rat \<Rightarrow> leg list \<Rightarrow> (nat \<times> string) option \<Rightarrow> nat \<Rightarrow> leg list" where
  "append_leg df atr k body_frac legs streak past =
     (case streak of
        None \<Rightarrow> legs
      | Some (start, direction) \<Rightarrow>
          if past \<le> start then legs
          else
            let opened = oh_open (df ! start); closed = oh_close (df ! (past - 1));
                size = (if direction = ''up'' then closed - opened else opened - closed);
                bars = drop start (take past df);
                strong = length (filter (\<lambda>b. body_frac \<le> body_fraction b) bars) in
            if size < atr_at atr (int past - 1) 1 * k then legs
            else if strong < max 1 (length bars div 2) then legs
            else legs @ [\<lparr>lg_start = int start, lg_end = int past - 1, lg_direction = direction, lg_size = size\<rparr>])"

fun scan_legs ::
  "ohlc list \<Rightarrow> rat list \<Rightarrow> rat \<Rightarrow> rat \<Rightarrow> nat \<Rightarrow> ohlc list \<Rightarrow> leg list \<Rightarrow> (nat \<times> string) option \<Rightarrow> leg list" where
  "scan_legs df atr k bf i [] legs streak = append_leg df atr k bf legs streak i"
| "scan_legs df atr k bf i (b # bs) legs streak =
     (case candle_direction b of
        None \<Rightarrow> scan_legs df atr k bf (Suc i) bs (append_leg df atr k bf legs streak i) None
      | Some current \<Rightarrow>
          (case streak of
             None \<Rightarrow> scan_legs df atr k bf (Suc i) bs legs (Some (i, current))
           | Some (start, direction) \<Rightarrow>
               if current \<noteq> direction
               then scan_legs df atr k bf (Suc i) bs (append_leg df atr k bf legs streak i) (Some (i, current))
               else scan_legs df atr k bf (Suc i) bs legs streak))"

definition displacement :: "ohlc list \<Rightarrow> rat list option \<Rightarrow> rat \<Rightarrow> rat \<Rightarrow> leg list" where
  "displacement df atr k body_frac =
     (if df = [] then []
      else scan_legs df (case atr of None \<Rightarrow> atr_series 14 df | Some a \<Rightarrow> a) k body_frac 0 df [] None)"

section \<open>Where zones come from\<close>

definition side_of_direction :: "string \<Rightarrow> string" where
  "side_of_direction direction = (if direction = ''up'' then ''demand'' else ''supply'')"

definition list_min :: "rat list \<Rightarrow> rat" where
  "list_min xs = fold min (tl xs) (List.hd xs)"

definition list_max :: "rat list \<Rightarrow> rat" where
  "list_max xs = fold max (tl xs) (List.hd xs)"

definition base_zone :: "ohlc list \<Rightarrow> leg \<Rightarrow> zone list res" where
  "base_zone df l =
     (if lg_start l \<le> 0 then Inr []
      else
        let base = drop (nat (max 0 (lg_start l - 3))) (take (nat (lg_start l)) df) in
        if base = [] then Inr []
        else res_bind (bar_at df (lg_start l - 1)) (\<lambda>origin.
          Inr [new_zone (list_min (map oh_low base)) (list_max (map oh_high base)) (side_of_direction (lg_direction l))
            (lg_start l - 1) (Some (oh_ts origin)) ''supply_demand'' None None]))"

definition supply_demand :: "ohlc list \<Rightarrow> leg list \<Rightarrow> zone list res" where
  "supply_demand df legs = res_bind (res_map_list (base_zone df) legs) (\<lambda>zs. Inr (concat zs))"

definition causing_bos :: "leg \<Rightarrow> market_break list \<Rightarrow> market_break option" where
  "causing_bos l breaks =
     List.find (\<lambda>b. mb_kind b = ''BOS'' \<and> mb_direction b = lg_direction l \<and> lg_start l \<le> mb_index b \<and> mb_index b \<le> lg_end l)
       breaks"

fun last_opposite_before :: "ohlc list \<Rightarrow> string \<Rightarrow> nat \<Rightarrow> nat option res" where
  "last_opposite_before df opposite 0 = Inr None"
| "last_opposite_before df opposite (Suc i) =
     res_bind (bar_at df (int i)) (\<lambda>b.
       if candle_direction b = Some opposite then Inr (Some i) else last_opposite_before df opposite i)"

definition last_opposite_candle :: "ohlc list \<Rightarrow> leg \<Rightarrow> nat option res" where
  "last_opposite_candle df l =
     last_opposite_before df (if lg_direction l = ''up'' then ''down'' else ''up'') (nat (lg_start l))"

definition zone_band :: "ohlc \<Rightarrow> string \<Rightarrow> rat \<times> rat" where
  "zone_band b zone_width =
     (if zone_width = ''range'' then (oh_low b, oh_high b)
      else (min (oh_open b) (oh_close b), max (oh_open b) (oh_close b)))"

definition order_block :: "ohlc list \<Rightarrow> market_break list \<Rightarrow> string \<Rightarrow> leg \<Rightarrow> zone list res" where
  "order_block df breaks zone_width l =
     (case causing_bos l breaks of
        None \<Rightarrow> Inr []
      | Some bos \<Rightarrow>
          res_bind (last_opposite_candle df l) (\<lambda>found.
          case found of
            None \<Rightarrow> Inr []
          | Some origin \<Rightarrow>
              let b = df ! origin; (low, high) = zone_band b zone_width in
              Inr [new_zone low high (side_of_direction (lg_direction l)) (int origin) (Some (oh_ts b)) ''order_block''
                (Some (mb_kind bos)) (Some (mb_index bos))]))"

definition order_blocks :: "ohlc list \<Rightarrow> leg list \<Rightarrow> market_break list \<Rightarrow> string \<Rightarrow> zone list res" where
  "order_blocks df legs breaks zone_width =
     res_bind (res_map_list (order_block df breaks zone_width) legs) (\<lambda>zs. Inr (concat zs))"

definition violates :: "zone \<Rightarrow> ohlc \<Rightarrow> bool" where
  "violates z b \<longleftrightarrow>
     zo_side z = ''demand'' \<and> oh_close b < zo_bottom z \<or> zo_side z = ''supply'' \<and> zo_top z < oh_close b"

definition breaker_violation :: "zone \<Rightarrow> ohlc list \<Rightarrow> nat option" where
  "breaker_violation z df = List.find (\<lambda>i. violates z (df ! i)) [nat (max 0 (zo_origin z + 1))..<length df]"

definition breaker_block :: "ohlc list \<Rightarrow> zone \<Rightarrow> zone list" where
  "breaker_block df z =
     (case breaker_violation z df of
        None \<Rightarrow> [z]
      | Some violation \<Rightarrow>
          [zone_init (z\<lparr>zo_touches := max (zo_touches z) 1, zo_mitigated := True\<rparr>),
           new_zone (zo_bottom z) (zo_top z) (if zo_side z = ''demand'' then ''supply'' else ''demand'') (int violation)
             (Some (oh_ts (df ! violation))) ''breaker'' (Some ''breaker'') (Some (int violation))])"

definition breaker_blocks :: "zone list \<Rightarrow> ohlc list \<Rightarrow> zone list" where
  "breaker_blocks blocks df = concat (map (breaker_block df) blocks)"

definition accepted_break :: "nat \<Rightarrow> rat list \<Rightarrow> market_break \<Rightarrow> bool" where
  "accepted_break required closes b =
     (0 \<le> mb_index b \<and> mb_index b + int required \<le> int (length closes) \<and>
      list_all (\<lambda>offset.
        let close = closes ! (nat (mb_index b) + offset) in
        \<not> (mb_direction b = ''up'' \<and> \<not> mb_level b < close) \<and> \<not> (mb_direction b = ''down'' \<and> \<not> close < mb_level b))
        [0..<required])"

definition FLIP_EPS :: rat where "FLIP_EPS = 1 / 10 ^ 9"

definition flip_zone :: "ohlc list \<Rightarrow> rat \<Rightarrow> market_break \<Rightarrow> level \<Rightarrow> zone" where
  "flip_zone df band_body_fraction item lv =
     (let up = (mb_direction item = ''up''); band = max (lv_band lv) 0;
          low = (if up then lv_price lv else lv_price lv - band);
          high = (if up then lv_price lv + band else lv_price lv);
          b = df ! nat (mb_index item);
          width = max (high - low) (\<bar>oh_close b - oh_open b\<bar> * band_body_fraction) in
      new_zone (if up then low else high - width) (if up then low + width else high) (side_of_direction (mb_direction item))
        (mb_index item) (mb_ts item) ''flip_zone'' (Some (mb_kind item)) (Some (mb_index item)))"

definition invalid_anchor :: "level \<Rightarrow> zone \<Rightarrow> bool" where
  "invalid_anchor lv z \<longleftrightarrow>
     zo_side z = ''demand'' \<and> zo_bottom z < lv_price lv - FLIP_EPS \<or>
     zo_side z = ''supply'' \<and> lv_price lv + FLIP_EPS < zo_top z \<or> zo_top z - zo_bottom z \<le> 0"

definition flip_level ::
  "ohlc list \<Rightarrow> rat \<Rightarrow> market_break \<Rightarrow> level \<Rightarrow> (rat \<times> string) list \<times> zone list \<Rightarrow> (rat \<times> string) list \<times> zone list" where
  "flip_level df band_body_fraction item lv acc =
     (let (seen, zones) = acc; key = (py_round 6 (lv_price lv), side_of_direction (mb_direction item));
          z = flip_zone df band_body_fraction item lv in
      if max (lv_band lv) 0 < \<bar>mb_level item - lv_price lv\<bar> then acc
      else if key \<in> set seen then acc
      else if invalid_anchor lv z then acc
      else (key # seen, zones @ [z]))"

definition flip_zones :: "level list \<Rightarrow> market_break list \<Rightarrow> ohlc list \<Rightarrow> int \<Rightarrow> int option \<Rightarrow> rat \<Rightarrow> zone list" where
  "flip_zones levels breaks df accept_bars max_break_age_bars band_body_fraction =
     (let closes = map oh_close df; required = nat (max 1 accept_bars) in
      snd (fold (\<lambda>item acc.
        if (case max_break_age_bars of None \<Rightarrow> False | Some age \<Rightarrow> age < int (length closes) - 1 - mb_index item) then acc
        else if \<not> accepted_break required closes item then acc
        else fold (flip_level df band_body_fraction item) levels acc) breaks ([], [])))"

definition gap_at :: "ohlc list \<Rightarrow> nat \<Rightarrow> zone list" where
  "gap_at df i =
     (let older = df ! (i - 2); cur = df ! i in
      (if oh_high older < oh_low cur
       then [new_zone (oh_high older) (oh_low cur) ''demand'' (int i) (Some (oh_ts cur)) ''bullish_fvg'' None None] else []) @
      (if oh_high cur < oh_low older
       then [new_zone (oh_high cur) (oh_low older) ''supply'' (int i) (Some (oh_ts cur)) ''bearish_fvg'' None None] else []))"

definition fvg :: "ohlc list \<Rightarrow> zone list" where
  "fvg df = concat (map (gap_at df) [2..<length df])"

section \<open>Touches\<close>

definition touched_by :: "zone \<Rightarrow> ohlc \<Rightarrow> bool" where
  "touched_by z b \<longleftrightarrow> oh_low b \<le> zo_top z \<and> zo_bottom z \<le> oh_high b"

definition first_touchable :: "zone \<Rightarrow> int" where
  "first_touchable z = max 0 ((case zo_break_index z of Some i \<Rightarrow> i | None \<Rightarrow> zo_origin z) + 1)"

fun count_touches :: "zone \<Rightarrow> bool \<Rightarrow> ohlc list \<Rightarrow> int" where
  "count_touches z in_touch [] = 0"
| "count_touches z in_touch (b # bs) =
     (if touched_by z b \<and> \<not> in_touch then 1 else 0) + count_touches z (touched_by z b) bs"

definition stamp_zone :: "ohlc list \<Rightarrow> nat \<Rightarrow> zone \<Rightarrow> zone" where
  "stamp_zone df past z =
     (let touches = count_touches z False (drop (nat (first_touchable z)) (take past df));
          final = max touches (zo_touches z) in
      zone_init (z\<lparr>zo_touches := final, zo_mitigated := zo_mitigated z \<or> 0 < final\<rparr>))"

definition mark_mitigation :: "zone list \<Rightarrow> ohlc list \<Rightarrow> int option \<Rightarrow> zone list" where
  "mark_mitigation zones df cutoff =
     (let past = (case cutoff of None \<Rightarrow> int (length df) | Some c \<Rightarrow> max 0 (min c (int (length df)))) in
      map (stamp_zone df (nat past)) zones)"

section \<open>Merging zones of one side\<close>

definition overlap_ratio :: "zone \<Rightarrow> zone \<Rightarrow> rat" where
  "overlap_ratio a b =
     (let overlap = min (zo_top a) (zo_top b) - max (zo_bottom a) (zo_bottom b);
          smaller = min (zo_top a - zo_bottom a) (zo_top b - zo_bottom b) in
      if overlap \<le> 0 then 0
      else if smaller \<le> 0 then (if zo_bottom a \<le> zo_top b \<and> zo_bottom b \<le> zo_top a then 1 else 0)
      else overlap / smaller)"

definition merged_width :: "zone list \<Rightarrow> rat" where
  "merged_width zs = list_max (map zo_top zs) - list_min (map zo_bottom zs)"

definition zone_sources :: "zone \<Rightarrow> string list" where
  "zone_sources z = (if zo_sources z \<noteq> [] then zo_sources z else if zo_source z \<noteq> [] then [zo_source z] else [])"

definition unique_sources :: "zone list \<Rightarrow> string list" where
  "unique_sources zs =
     fold (\<lambda>source result. if source \<noteq> [] \<and> source \<notin> set result then result @ [source] else result)
       (concat (map zone_sources zs)) []"

definition SOURCE_SCORES :: "(string \<times> rat) list" where
  "SOURCE_SCORES =
     [(''order_block'', 3), (''breaker'', 2), (''flip_zone'', 2), (''supply_demand'', 3 / 2), (''bullish_fvg'', 1),
      (''bearish_fvg'', 1), (''box_breakout'', 5)]"

definition SOURCE_SCORE_CAP :: rat where "SOURCE_SCORE_CAP = 5"

definition source_reason :: "string \<Rightarrow> string" where
  "source_reason source =
     (if source = ''order_block'' then ''OB'' else if source = ''breaker'' then ''breaker''
      else if source = ''flip_zone'' then ''flip'' else if source = ''supply_demand'' then ''S/D''
      else if str_endswith source ''_fvg'' then ''FVG'' else if source = ''box_breakout'' then ''box breakout''
      else source)"

definition source_value :: "zone \<Rightarrow> string \<Rightarrow> rat" where
  "source_value z source =
     (if source = ''order_block'' \<and> zo_break_kind z = None then 0
      else case map_of SOURCE_SCORES source of None \<Rightarrow> 0 | Some v \<Rightarrow> v)"

definition source_score :: "zone \<Rightarrow> rat \<times> string list" where
  "source_score z =
     (let counted = filter (\<lambda>s. 0 < source_value z s) (zone_sources z) in
      (min (sum_list (map (source_value z) counted)) SOURCE_SCORE_CAP, map source_reason counted))"

text \<open>\<open>max(members, key=...)\<close> and \<open>min(members, key=...)\<close>: the first of the best.\<close>

fun first_max :: "('a \<Rightarrow> 'b :: linorder) \<Rightarrow> 'a \<Rightarrow> 'a list \<Rightarrow> 'a" where
  "first_max f best [] = best"
| "first_max f best (x # xs) = first_max f (if f best < f x then x else best) xs"

fun first_min :: "('a \<Rightarrow> 'b :: linorder) \<Rightarrow> 'a \<Rightarrow> 'a list \<Rightarrow> 'a" where
  "first_min f best [] = best"
| "first_min f best (x # xs) = first_min f (if f x < f best then x else best) xs"

text \<open>A group is never empty.\<close>

definition composite_zone :: "zone list \<Rightarrow> zone" where
  "composite_zone members =
     (let z = List.hd members; rest = tl members in
      if rest = [] then zone_init (z\<lparr>zo_sources := unique_sources [z]\<rparr>)
      else
        let best = first_max (\<lambda>m. fst (source_score m)) z rest; earliest = first_min zo_origin z rest;
            touches = fold min (map zo_touches rest) (zo_touches z) in
        zone_init \<lparr>zo_bottom = list_min (map zo_bottom members), zo_top = list_max (map zo_top members), zo_side = zo_side z,
          zo_origin = zo_origin earliest, zo_created = zo_created earliest, zo_touches = touches,
          zo_mitigated = (0 < touches), zo_source = zo_source best, zo_sources = unique_sources members, zo_score = 0,
          zo_reasons = [], zo_break_kind = zo_break_kind best, zo_break_index = zo_break_index best\<rparr>)"

definition joins_group :: "rat \<Rightarrow> rat option \<Rightarrow> zone \<Rightarrow> zone list \<Rightarrow> bool" where
  "joins_group min_overlap max_width z members =
     (zo_side (List.hd members) = zo_side z \<and> list_ex (\<lambda>m. min_overlap \<le> overlap_ratio z m) members \<and>
      \<not> (case max_width of None \<Rightarrow> False | Some w \<Rightarrow> w < merged_width (members @ [z])))"

fun place_zone :: "rat \<Rightarrow> rat option \<Rightarrow> zone \<Rightarrow> zone list list \<Rightarrow> zone list list" where
  "place_zone min_overlap max_width z [] = [[z]]"
| "place_zone min_overlap max_width z (g # gs) =
     (if joins_group min_overlap max_width z g then (g @ [z]) # gs else g # place_zone min_overlap max_width z gs)"

definition zone_order :: "zone \<Rightarrow> string \<times> rat \<times> rat" where
  "zone_order z = (zo_side z, zo_bottom z, zo_top z)"

definition merge_groups :: "zone list \<Rightarrow> rat \<Rightarrow> rat option \<Rightarrow> zone list list" where
  "merge_groups zones min_overlap max_width = fold (place_zone min_overlap max_width) (sort_key zone_order zones) []"

definition merge_zones :: "zone list \<Rightarrow> rat \<Rightarrow> rat option \<Rightarrow> zone list" where
  "merge_zones zones min_overlap max_width = map composite_zone (merge_groups zones min_overlap max_width)"

section \<open>Score\<close>

definition zone_overlaps_level :: "zone \<Rightarrow> level \<Rightarrow> bool" where
  "zone_overlaps_level z lv =
     (let band = max (lv_band lv) 0 in
      if band = 0 then zo_bottom z \<le> lv_price lv \<and> lv_price lv \<le> zo_top z
      else zo_bottom z \<le> lv_price lv + band \<and> lv_price lv - band \<le> zo_top z)"

definition round_number_inside :: "zone \<Rightarrow> rat \<Rightarrow> rat option" where
  "round_number_inside z round_step =
     (if round_step \<le> 0 then None
      else let n = of_int \<lceil>zo_bottom z / round_step\<rceil> * round_step in if n \<le> zo_top z then Some n else None)"

definition has_liquidity_confluence :: "zone \<Rightarrow> pool list \<Rightarrow> rat \<Rightarrow> bool" where
  "has_liquidity_confluence z pools pip_size =
     (let width = max (zo_top z - zo_bottom z) 0 in
      list_ex (\<lambda>p.
        let tolerance = max (po_band p) (max width pip_size) in
        zo_side z = ''demand'' \<and> po_side p = ''sell'' \<and> zo_bottom z - tolerance \<le> po_level p \<and> po_level p \<le> zo_bottom z \<or>
        zo_side z = ''supply'' \<and> po_side p = ''buy'' \<and> zo_top z \<le> po_level p \<and> po_level p \<le> zo_top z + tolerance) pools)"

definition is_low_session_level :: "string \<Rightarrow> bool" where
  "is_low_session_level name \<longleftrightarrow> str_endswith name ''_L'' \<or> name \<in> {''PDL'', ''PWL''}"

definition is_high_session_level :: "string \<Rightarrow> bool" where
  "is_high_session_level name \<longleftrightarrow> str_endswith name ''_H'' \<or> name \<in> {''PDH'', ''PWH''}"

definition session_confluence :: "zone \<Rightarrow> rat \<Rightarrow> session_level \<Rightarrow> string list \<Rightarrow> string list" where
  "session_confluence z tolerance lv result =
     (let p = sv_price lv; inside = (zo_bottom z \<le> p \<and> p \<le> zo_top z) in
      if sv_swept lv \<or> sv_name lv \<in> set result then result
      else result @
        (if zo_side z = ''demand'' \<and> is_low_session_level (sv_name lv) \<and>
            (inside \<or> zo_bottom z - tolerance \<le> p \<and> p \<le> zo_bottom z) then [sv_name lv] else []) @
        (if zo_side z = ''supply'' \<and> is_high_session_level (sv_name lv) \<and>
            (inside \<or> zo_top z \<le> p \<and> p \<le> zo_top z + tolerance) then [sv_name lv] else []))"

definition session_level_confluences :: "zone \<Rightarrow> session_level list \<Rightarrow> rat \<Rightarrow> string list" where
  "session_level_confluences z levels pip_size =
     fold (session_confluence z (max (max (zo_top z - zo_bottom z) 0) pip_size)) levels []"

definition pd_position_reason :: "zone \<Rightarrow> dealing_span option \<Rightarrow> string option" where
  "pd_position_reason z dealing =
     (case dealing of
        None \<Rightarrow> None
      | Some r \<Rightarrow>
          if zo_side z = ''demand'' \<and> zo_top z \<le> dr_eq r then Some ''discount''
          else if zo_side z = ''supply'' \<and> dr_eq r \<le> zo_bottom z then Some ''premium'' else None)"

definition pool_points_into_zone :: "zone \<Rightarrow> pool \<Rightarrow> rat \<Rightarrow> bool" where
  "pool_points_into_zone z p pip_size =
     (let tolerance = max (po_band p) (max (max (zo_top z - zo_bottom z) 0) pip_size) in
      if zo_side z = ''demand'' \<and> po_side p = ''sell'' then zo_bottom z - tolerance \<le> po_level p \<and> po_level p \<le> zo_top z
      else if zo_side z = ''supply'' \<and> po_side p = ''buy'' then zo_bottom z \<le> po_level p \<and> po_level p \<le> zo_top z + tolerance
      else False)"

definition has_grade_a_grab :: "zone \<Rightarrow> grab list \<Rightarrow> rat \<Rightarrow> bool" where
  "has_grade_a_grab z grabs pip_size =
     list_ex (\<lambda>g. gr_grade g = ''A'' \<and>
       (zo_side z = ''demand'' \<and> gr_direction g = ''bull'' \<or> zo_side z = ''supply'' \<and> gr_direction g = ''bear'') \<and>
       pool_points_into_zone z (gr_pool g) pip_size) grabs"

definition inside_htf_zone :: "zone \<Rightarrow> zone \<Rightarrow> bool" where
  "inside_htf_zone z htf \<longleftrightarrow> zo_side z = zo_side htf \<and> zo_bottom htf \<le> zo_bottom z \<and> zo_top z \<le> zo_top htf"

definition value_at :: "trendline \<Rightarrow> int \<Rightarrow> rat" where
  "value_at line bar_index = tn_slope line * of_int bar_index + tn_intercept line"

definition has_trendline_confluence :: "zone \<Rightarrow> trendline list \<Rightarrow> int option \<Rightarrow> bool" where
  "has_trendline_confluence z lines bar_index =
     (case bar_index of
        None \<Rightarrow> False
      | Some i \<Rightarrow> list_ex (\<lambda>line. \<not> tn_broken line \<and> zo_bottom z \<le> value_at line i \<and> value_at line i \<le> zo_top z) lines)"

text \<open>\<open>text.rstrip("0").rstrip(".")\<close> on a price with a fraction.\<close>

definition number_text :: "rat \<Rightarrow> nat \<Rightarrow> string" where
  "number_text q digits =
     (let text = fixed_str digits q;
          strip = (\<lambda>c s. rev (dropWhile (\<lambda>x. x = c) (rev s))) in
      if CHR ''.'' \<in> set text then strip CHR ''.'' (strip CHR ''0'' text) else text)"

text \<open>What the chart offers for a score; \<open>sx_digits\<close> are the digits of \<open>pip_price_digits\<close>.\<close>

record score_context =
  sx_levels :: "level list"
  sx_pools :: "pool list"
  sx_round_step :: rat
  sx_htf :: "zone list"
  sx_sessions :: "session_level list"
  sx_dealing :: "dealing_span option"
  sx_grabs :: "grab list"
  sx_lines :: "trendline list"
  sx_bar_index :: "int option"
  sx_pip_size :: rat
  sx_digits :: nat

definition score_parts :: "score_context \<Rightarrow> zone \<Rightarrow> (rat \<times> string list) list" where
  "score_parts x z =
     [(if zo_touches z = 0 then (3, [''fresh'']) else if zo_touches z = 1 then (1, [''1 touch'']) else (0, [])),
      source_score z,
      (if list_ex (zone_overlaps_level z) (sx_levels x) then (2, [''key level'']) else (0, [])),
      (case round_number_inside z (sx_round_step x) of
         Some n \<Rightarrow> (1, [''round '' @ number_text n (sx_digits x)]) | None \<Rightarrow> (0, [])),
      (if has_liquidity_confluence z (sx_pools x) (sx_pip_size x) then (2, [''liquidity pool'']) else (0, [])),
      (let names = session_level_confluences z (sx_sessions x) (sx_pip_size x) in (2 * of_nat (length names), names)),
      (case pd_position_reason z (sx_dealing x) of Some r \<Rightarrow> (2, [r]) | None \<Rightarrow> (0, [])),
      (if has_grade_a_grab z (sx_grabs x) (sx_pip_size x) then (2, [''sweep A'']) else (0, [])),
      (if list_ex (inside_htf_zone z) (sx_htf x) then (3, [''HTF zone'']) else (0, [])),
      (if has_trendline_confluence z (sx_lines x) (sx_bar_index x) then (3 / 2, [''TL confluence'']) else (0, []))]"

definition score_zone :: "score_context \<Rightarrow> zone \<Rightarrow> zone" where
  "score_zone x z =
     zone_init (z\<lparr>zo_score := sum_list (map fst (score_parts x z)), zo_reasons := concat (map snd (score_parts x z))\<rparr>)"

text \<open>\<open>sorted(..., reverse=True)\<close> keeps the order of equal keys.\<close>

definition sorted_reverse :: "('a \<Rightarrow> 'b :: linorder) \<Rightarrow> 'a list \<Rightarrow> 'a list" where
  "sorted_reverse f xs = rev (sort_key f (rev xs))"

definition score_order :: "zone \<Rightarrow> rat \<times> int \<times> rat" where
  "score_order z = (zo_score z, - zo_touches z, - zo_bottom z)"

definition score_zones :: "score_context \<Rightarrow> zone list \<Rightarrow> zone list" where
  "score_zones x zones = sorted_reverse score_order (map (score_zone x) zones)"

section \<open>Reconciling zones of opposite sides\<close>

definition reconcile_sort_key :: "zone \<Rightarrow> rat \<times> rat \<times> int" where
  "reconcile_sort_key z = (zo_bottom z, zo_top z, zo_origin z)"

definition reconcile_rank :: "zone \<Rightarrow> rat \<times> rat \<times> int \<times> string" where
  "reconcile_rank z = (zo_score z, zo_top z - zo_bottom z, - zo_origin z, zo_side z)"

definition trim_remainder :: "zone \<Rightarrow> zone \<Rightarrow> (rat \<times> rat) option" where
  "trim_remainder trim keep =
     (let covers_low = zo_bottom keep \<le> zo_bottom trim; covers_high = zo_top trim \<le> zo_top keep in
      if covers_low \<and> covers_high then None
      else if covers_low then Some (zo_top keep, zo_top trim)
      else if covers_high then Some (zo_bottom trim, zo_bottom keep)
      else if zo_top trim - zo_top keep \<le> zo_bottom keep - zo_bottom trim then Some (zo_bottom trim, zo_bottom keep)
      else Some (zo_top keep, zo_top trim))"

definition reconciled_reason :: "zone \<Rightarrow> string" where
  "reconciled_reason keep =
     ''reconciled vs '' @ zo_side keep @ '' '' @ fixed_str 2 (zo_bottom keep) @ ''-'' @ fixed_str 2 (zo_top keep)"

definition trim_outside :: "zone \<Rightarrow> zone \<Rightarrow> rat \<Rightarrow> zone option" where
  "trim_outside trim keep min_width =
     (case trim_remainder trim keep of
        None \<Rightarrow> None
      | Some (low, high) \<Rightarrow>
          if high - low < min_width then None
          else Some (zone_init (trim\<lparr>zo_bottom := low, zo_top := high,
                 zo_reasons := zo_reasons trim @ [reconciled_reason keep]\<rparr>)))"

record reconcile_state =
  rs_supply :: "zone option list"
  rs_demand :: "zone option list"
  rs_exhausted :: "(string \<times> int) list"
  rs_trimmed :: nat
  rs_dropped :: nat
  rs_changed :: bool

definition supply_is_target :: "zone \<Rightarrow> zone \<Rightarrow> bool" where
  "supply_is_target s d \<longleftrightarrow> reconcile_rank s \<le> reconcile_rank d"

definition target_key :: "zone \<Rightarrow> zone \<Rightarrow> string \<times> int" where
  "target_key s d = (if supply_is_target s d then (''supply'', zo_origin s) else (''demand'', zo_origin d))"

definition open_conflict :: "rat \<Rightarrow> (string \<times> int) list \<Rightarrow> zone option \<Rightarrow> zone option \<Rightarrow> bool" where
  "open_conflict min_overlap exhausted a b =
     (case (a, b) of
        (Some s, Some d) \<Rightarrow> min_overlap \<le> overlap_ratio s d \<and> target_key s d \<notin> set exhausted
      | _ \<Rightarrow> False)"

text \<open>The pair at which both \<open>for\<close> loops are left.\<close>

definition first_conflict :: "rat \<Rightarrow> reconcile_state \<Rightarrow> (nat \<times> nat) option" where
  "first_conflict min_overlap st =
     List.find (\<lambda>(i, j). open_conflict min_overlap (rs_exhausted st) (rs_supply st ! i) (rs_demand st ! j))
       (List.product [0..<length (rs_supply st)] [0..<length (rs_demand st)])"

definition count_result :: "zone option \<Rightarrow> reconcile_state \<Rightarrow> reconcile_state" where
  "count_result r st =
     (case r of None \<Rightarrow> st\<lparr>rs_dropped := Suc (rs_dropped st)\<rparr> | Some z \<Rightarrow> st\<lparr>rs_trimmed := Suc (rs_trimmed st)\<rparr>)"

definition settle :: "rat \<Rightarrow> nat \<Rightarrow> nat \<Rightarrow> zone \<Rightarrow> zone \<Rightarrow> reconcile_state \<Rightarrow> reconcile_state" where
  "settle min_width i j s d st =
     (let st = st\<lparr>rs_exhausted := target_key s d # rs_exhausted st, rs_changed := True\<rparr> in
      if supply_is_target s d
      then let r = trim_outside s d min_width in count_result r (st\<lparr>rs_supply := (rs_supply st)[i := r]\<rparr>)
      else let r = trim_outside d s min_width in count_result r (st\<lparr>rs_demand := (rs_demand st)[j := r]\<rparr>))"

definition reconcile_round :: "rat \<Rightarrow> rat \<Rightarrow> reconcile_state \<Rightarrow> reconcile_state" where
  "reconcile_round min_width min_overlap st =
     (case first_conflict min_overlap st of
        None \<Rightarrow> st\<lparr>rs_changed := False\<rparr>
      | Some (i, j) \<Rightarrow>
          (case (rs_supply st ! i, rs_demand st ! j) of
             (Some s, Some d) \<Rightarrow> settle min_width i j s d st
           | _ \<Rightarrow> st\<lparr>rs_changed := False\<rparr>))"

definition side_zones :: "string \<Rightarrow> zone list \<Rightarrow> zone option list" where
  "side_zones side zones = map Some (sort_key reconcile_sort_key (filter (\<lambda>z. zo_side z = side) zones))"

definition reconcile_start :: "zone list \<Rightarrow> reconcile_state" where
  "reconcile_start zones =
     \<lparr>rs_supply = side_zones ''supply'' zones, rs_demand = side_zones ''demand'' zones, rs_exhausted = [], rs_trimmed = 0,
      rs_dropped = 0, rs_changed = True\<rparr>"

definition reconcile_loop :: "rat \<Rightarrow> rat \<Rightarrow> zone list \<Rightarrow> reconcile_state option" where
  "reconcile_loop min_width min_overlap zones =
     while_option rs_changed (reconcile_round min_width min_overlap) (reconcile_start zones)"

definition ZONE_RECONCILE_MIN_SAMPLE :: nat where "ZONE_RECONCILE_MIN_SAMPLE = 5"

definition live_zones :: "zone option list \<Rightarrow> zone list" where
  "live_zones zs = List.map_filter id zs"

record reconcile_stats =
  rt_input :: nat
  rt_trimmed :: nat
  rt_dropped :: nat
  rt_output :: nat
  rt_aborted :: bool

definition reconcile_finish :: "zone list \<Rightarrow> rat \<Rightarrow> reconcile_state \<Rightarrow> zone list \<times> reconcile_stats" where
  "reconcile_finish zones max_fraction st =
     (let n = length (rs_supply st) + length (rs_demand st); affected = rs_trimmed st + rs_dropped st in
      if ZONE_RECONCILE_MIN_SAMPLE \<le> n \<and> max_fraction < of_nat affected / of_nat n
      then (zones, \<lparr>rt_input = n, rt_trimmed = 0, rt_dropped = 0, rt_output = n, rt_aborted = True\<rparr>)
      else (live_zones (rs_supply st) @ live_zones (rs_demand st) @
              filter (\<lambda>z. zo_side z \<notin> {''supply'', ''demand''}) zones,
            \<lparr>rt_input = n, rt_trimmed = rs_trimmed st, rt_dropped = rs_dropped st, rt_output = n - rs_dropped st,
             rt_aborted = False\<rparr>))"

definition reconcile_opposing :: "zone list \<Rightarrow> rat \<Rightarrow> rat \<Rightarrow> rat \<Rightarrow> (zone list \<times> reconcile_stats) option" where
  "reconcile_opposing zones min_width min_overlap max_fraction =
     map_option (reconcile_finish zones max_fraction) (reconcile_loop min_width min_overlap zones)"

section \<open>Reconciliation: every round settles one target\<close>

text \<open>A slot of the working lists holds its zone as it came, or is the settled target \<open>(side, origin)\<close>: dropped, or
  replaced by a zone related to it by \<open>R\<close>. With \<open>once\<close> a settled slot never holds its zone as it came.\<close>

definition slot_ok :: "(zone \<Rightarrow> zone \<Rightarrow> bool) \<Rightarrow> bool \<Rightarrow> string \<Rightarrow> (string \<times> int) list \<Rightarrow> zone option \<Rightarrow> zone option \<Rightarrow> bool" where
  "slot_ok R once side ex a b \<longleftrightarrow> (\<exists>z. a = Some z \<and> zo_side z = side \<and>
     (b = a \<and> (once \<longrightarrow> (side, zo_origin z) \<notin> set ex) \<or>
      (side, zo_origin z) \<in> set ex \<and> (b = None \<or> (\<exists>z'. b = Some z' \<and> R z z'))))"

definition slots_ok where
  "slots_ok R once side ex xs ys = list_all2 (slot_ok R once side ex) xs ys"

definition slot_keys :: "string \<Rightarrow> zone option list \<Rightarrow> (string \<times> int) list" where
  "slot_keys side xs = map (\<lambda>z. (side, zo_origin (the z))) xs"

lemma slots_other:
  "slots_ok R once side ex xs ys \<Longrightarrow> fst k \<noteq> side \<Longrightarrow> slots_ok R once side (k # ex) xs ys"
  unfolding slots_ok_def by (erule list_all2_mono) (auto simp: slot_ok_def)

lemma slots_get:
  assumes "slots_ok R once side ex xs ys" "j < length ys" "ys ! j = Some y"
  obtains z where "xs ! j = Some z" "zo_side z = side" "j < length xs"
    "y = z \<and> (once \<longrightarrow> (side, zo_origin z) \<notin> set ex) \<or> (side, zo_origin z) \<in> set ex \<and> R z y"
proof -
  have j: "j < length xs" using assms(1,2) by (simp add: slots_ok_def list_all2_lengthD)
  have "slot_ok R once side ex (xs ! j) (ys ! j)" using assms(1) j by (simp add: slots_ok_def list_all2_nthD)
  then show ?thesis using j assms(3) that unfolding slot_ok_def by auto
qed

lemma slots_settle:
  assumes ok: "slots_ok R once side ex xs ys" and j: "j < length ys" "ys ! j = Some y"
    and fresh: "(side, zo_origin y) \<notin> set ex"
    and origin: "\<And>z z'. R z z' \<Longrightarrow> zo_origin z' = zo_origin z"
    and r: "\<And>z'. r = Some z' \<Longrightarrow> R y z'" and once: "once \<Longrightarrow> distinct (slot_keys side xs)"
  shows "slots_ok R once side ((side, zo_origin y) # ex) xs (ys[j := r])"
    and "(side, zo_origin y) \<in> set (slot_keys side xs)"
proof -
  obtain z where z: "xs ! j = Some z" "zo_side z = side" "j < length xs"
    "y = z \<and> (once \<longrightarrow> (side, zo_origin z) \<notin> set ex) \<or> (side, zo_origin z) \<in> set ex \<and> R z y"
    using slots_get [OF ok j] .
  have y: "y = z" using z(4) fresh origin by auto
  show "(side, zo_origin y) \<in> set (slot_keys side xs)"
    using z(1,3) unfolding slot_keys_def y by (metis (no_types, lifting) image_eqI list.set_map nth_mem option.sel)
  have len: "length ys = length xs" using ok by (simp add: slots_ok_def list_all2_lengthD)
  show "slots_ok R once side ((side, zo_origin y) # ex) xs (ys[j := r])"
    unfolding slots_ok_def
  proof (rule list_all2_all_nthI)
    show "length xs = length (ys[j := r])" by (simp add: len)
    fix i assume i: "i < length xs"
    have old: "slot_ok R once side ex (xs ! i) (ys ! i)" using ok i by (simp add: slots_ok_def list_all2_nthD)
    show "slot_ok R once side ((side, zo_origin y) # ex) (xs ! i) (ys[j := r] ! i)"
    proof (cases "i = j")
      case True
      then show ?thesis using z y j r by (cases r) (auto simp: slot_ok_def)
    next
      case False
      have "zo_origin x \<noteq> zo_origin y" if "xs ! i = Some x" once for x
      proof -
        have "slot_keys side xs ! i \<noteq> slot_keys side xs ! j"
          using nth_eq_iff_index_eq [OF once [OF that(2)], of i j] i z(3) False by (simp add: slot_keys_def)
        then show ?thesis using i z(1,3) y that(1) by (simp add: slot_keys_def)
      qed
      then show ?thesis using old False by (auto simp: slot_ok_def)
    qed
  qed
qed

lemma first_conflict_Some:
  assumes "first_conflict mo st = Some (i, j)"
  obtains s d where "i < length (rs_supply st)" "j < length (rs_demand st)" "rs_supply st ! i = Some s"
    "rs_demand st ! j = Some d" "mo \<le> overlap_ratio s d" "target_key s d \<notin> set (rs_exhausted st)"
proof -
  obtain n where n: "n < length (List.product [0..<length (rs_supply st)] [0..<length (rs_demand st)])"
    "List.product [0..<length (rs_supply st)] [0..<length (rs_demand st)] ! n = (i, j)"
    "open_conflict mo (rs_exhausted st) (rs_supply st ! i) (rs_demand st ! j)"
    using assms unfolding first_conflict_def find_Some_iff by fastforce
  have "(i, j) \<in> set (List.product [0..<length (rs_supply st)] [0..<length (rs_demand st)])"
    using nth_mem [OF n(1)] n(2) by simp
  with n(3) show ?thesis using that by (auto simp: open_conflict_def split: option.splits)
qed

lemma first_conflict_None:
  assumes "first_conflict mo st = None" "Some s \<in> set (rs_supply st)" "Some d \<in> set (rs_demand st)" "mo \<le> overlap_ratio s d"
  shows "target_key s d \<in> set (rs_exhausted st)"
proof -
  obtain i j where ij: "i < length (rs_supply st)" "rs_supply st ! i = Some s" "j < length (rs_demand st)" "rs_demand st ! j = Some d"
    using assms(2,3) by (auto simp: in_set_conv_nth)
  have "\<not> open_conflict mo (rs_exhausted st) (rs_supply st ! i) (rs_demand st ! j)"
    using assms(1) ij(1,3) unfolding first_conflict_def find_None_iff by force
  then show ?thesis using ij assms(4) by (simp add: open_conflict_def)
qed

definition reconcile_inv ::
  "(zone \<Rightarrow> zone \<Rightarrow> bool) \<Rightarrow> bool \<Rightarrow> rat \<Rightarrow> zone option list \<Rightarrow> zone option list \<Rightarrow> reconcile_state \<Rightarrow> bool" where
  "reconcile_inv R once mo S D st \<longleftrightarrow>
     slots_ok R once ''supply'' (rs_exhausted st) S (rs_supply st) \<and> slots_ok R once ''demand'' (rs_exhausted st) D (rs_demand st) \<and>
     distinct (rs_exhausted st) \<and> set (rs_exhausted st) \<subseteq> set (slot_keys ''supply'' S @ slot_keys ''demand'' D) \<and>
     rs_trimmed st + rs_dropped st = length (rs_exhausted st) \<and>
     rs_dropped st = length (filter Option.is_none (rs_supply st)) + length (filter Option.is_none (rs_demand st)) \<and>
     (\<not> rs_changed st \<longrightarrow> first_conflict mo st = None)"

lemma none_count_update:
  assumes "j < length ys" "ys ! j = Some y"
  shows "length (filter Option.is_none (ys[j := r])) = length (filter Option.is_none ys) + (if r = None then 1 else 0)"
  using assms
proof (induction ys arbitrary: j)
  case (Cons x xs)
  then show ?case by (cases j) (auto simp: Option.is_none_def)
qed simp

lemma count_result_simps [simp]:
  "rs_supply (count_result r st) = rs_supply st" "rs_demand (count_result r st) = rs_demand st"
  "rs_exhausted (count_result r st) = rs_exhausted st" "rs_changed (count_result r st) = rs_changed st"
  "rs_dropped (count_result r st) = rs_dropped st + (if r = None then 1 else 0)"
  "rs_trimmed (count_result r st) = rs_trimmed st + (if r = None then 0 else 1)"
  by (cases r; simp add: count_result_def)+

lemma settle_inv:
  assumes inv: "reconcile_inv R once mo S D st"
    and pair: "i < length (rs_supply st)" "j < length (rs_demand st)" "rs_supply st ! i = Some s" "rs_demand st ! j = Some d"
      "target_key s d \<notin> set (rs_exhausted st)"
    and origin: "\<And>z z'. R z z' \<Longrightarrow> zo_origin z' = zo_origin z"
    and trims: "\<And>r. trim_outside s d w = Some r \<Longrightarrow> R s r" "\<And>r. trim_outside d s w = Some r \<Longrightarrow> R d r"
    and once: "once \<Longrightarrow> distinct (slot_keys ''supply'' S) \<and> distinct (slot_keys ''demand'' D)"
  shows "reconcile_inv R once mo S D (settle w i j s d st)"
    "rs_changed (settle w i j s d st)" "rs_exhausted (settle w i j s d st) = target_key s d # rs_exhausted st"
proof -
  note i = inv [unfolded reconcile_inv_def]
  show "rs_changed (settle w i j s d st)" "rs_exhausted (settle w i j s d st) = target_key s d # rs_exhausted st"
    by (simp_all add: settle_def Let_def)
  show "reconcile_inv R once mo S D (settle w i j s d st)"
  proof (cases "supply_is_target s d")
    case True
    have k: "target_key s d = (''supply'', zo_origin s)" using True by (simp add: target_key_def)
    have fresh: "(''supply'', zo_origin s) \<notin> set (rs_exhausted st)" using pair(5) k by simp
    note st = slots_settle [of R once "''supply''" "rs_exhausted st" S "rs_supply st" i s "trim_outside s d w",
        OF conjunct1 [OF i] pair(1,3) fresh origin trims(1) conjunct1 [OF once]]
    show ?thesis
      using i st(1) st(2) k fresh True none_count_update [OF pair(1,3), of "trim_outside s d w"]
        slots_other [of R once "''demand''" "rs_exhausted st" D "rs_demand st" "(''supply'', zo_origin s)"]
      unfolding reconcile_inv_def settle_def Let_def by simp
  next
    case False
    have k: "target_key s d = (''demand'', zo_origin d)" using False by (simp add: target_key_def)
    have fresh: "(''demand'', zo_origin d) \<notin> set (rs_exhausted st)" using pair(5) k by simp
    note st = slots_settle [of R once "''demand''" "rs_exhausted st" D "rs_demand st" j d "trim_outside d s w",
        OF conjunct1 [OF conjunct2 [OF i]] pair(2,4) fresh origin trims(2) conjunct2 [OF once]]
    show ?thesis
      using i st(1) st(2) k fresh False none_count_update [OF pair(2,4), of "trim_outside d s w"]
        slots_other [of R once "''supply''" "rs_exhausted st" S "rs_supply st" "(''demand'', zo_origin d)"]
      unfolding reconcile_inv_def settle_def Let_def by simp
  qed
qed

lemma first_conflict_changed: "first_conflict mo (st\<lparr>rs_changed := c\<rparr>) = first_conflict mo st"
  by (simp add: first_conflict_def)

lemma reconcile_round_cases:
  obtains "first_conflict mo st = None" "reconcile_round w mo st = st\<lparr>rs_changed := False\<rparr>"
  | i j s d where "i < length (rs_supply st)" "j < length (rs_demand st)" "rs_supply st ! i = Some s" "rs_demand st ! j = Some d"
      "mo \<le> overlap_ratio s d" "target_key s d \<notin> set (rs_exhausted st)" "reconcile_round w mo st = settle w i j s d st"
proof (cases "first_conflict mo st")
  case None
  then show ?thesis using that(1) by (simp add: reconcile_round_def)
next
  case (Some p)
  obtain i j where p: "p = (i, j)" by (cases p)
  obtain s d where "i < length (rs_supply st)" "j < length (rs_demand st)" "rs_supply st ! i = Some s"
    "rs_demand st ! j = Some d" "mo \<le> overlap_ratio s d" "target_key s d \<notin> set (rs_exhausted st)"
    using first_conflict_Some [OF Some [unfolded p]] .
  then show ?thesis using that(2) Some p by (simp add: reconcile_round_def)
qed

lemma reconcile_round_inv:
  assumes inv: "reconcile_inv R once mo S D st"
    and origin: "\<And>z z'. R z z' \<Longrightarrow> zo_origin z' = zo_origin z"
    and trims: "\<And>s d r. mo \<le> overlap_ratio s d \<Longrightarrow> trim_outside s d w = Some r \<Longrightarrow> R s r"
      "\<And>s d r. mo \<le> overlap_ratio s d \<Longrightarrow> trim_outside d s w = Some r \<Longrightarrow> R d r"
    and once: "once \<Longrightarrow> distinct (slot_keys ''supply'' S) \<and> distinct (slot_keys ''demand'' D)"
  shows "reconcile_inv R once mo S D (reconcile_round w mo st)"
    "rs_changed (reconcile_round w mo st) \<Longrightarrow>
       length (rs_exhausted (reconcile_round w mo st)) = Suc (length (rs_exhausted st))"
    "\<not> rs_changed (reconcile_round w mo st) \<Longrightarrow> rs_exhausted (reconcile_round w mo st) = rs_exhausted st"
proof (atomize (full), cases rule: reconcile_round_cases [of mo st w])
  case 1
  then show "reconcile_inv R once mo S D (reconcile_round w mo st) \<and>
    (rs_changed (reconcile_round w mo st) \<longrightarrow> length (rs_exhausted (reconcile_round w mo st)) = Suc (length (rs_exhausted st))) \<and>
    (\<not> rs_changed (reconcile_round w mo st) \<longrightarrow> rs_exhausted (reconcile_round w mo st) = rs_exhausted st)"
    using inv by (simp add: reconcile_inv_def first_conflict_changed)
next
  case (2 i j s d)
  note set = settle_inv [OF inv 2(1,2,3,4,6) origin trims(1) [OF 2(5)] trims(2) [OF 2(5)] once]
  show "reconcile_inv R once mo S D (reconcile_round w mo st) \<and>
    (rs_changed (reconcile_round w mo st) \<longrightarrow> length (rs_exhausted (reconcile_round w mo st)) = Suc (length (rs_exhausted st))) \<and>
    (\<not> rs_changed (reconcile_round w mo st) \<longrightarrow> rs_exhausted (reconcile_round w mo st) = rs_exhausted st)"
    using set by (simp add: 2(7))
qed

lemma side_zones_set: "set (side_zones side zones) = Some ` {z \<in> set zones. zo_side z = side}"
  by (auto simp: side_zones_def)

lemma side_zones_length: "length (side_zones side zones) = length (filter (\<lambda>z. zo_side z = side) zones)"
  by (simp add: side_zones_def)

lemma slots_start: "slots_ok R once side [] (side_zones side zones) (side_zones side zones)"
  unfolding slots_ok_def by (rule list.rel_refl_strong) (auto simp: slot_ok_def side_zones_set)

lemma is_none_filter_some [simp]: "filter Option.is_none (map Some xs) = []"
  by (induction xs) auto

lemma reconcile_start_inv:
  "reconcile_inv R once mo (side_zones ''supply'' zones) (side_zones ''demand'' zones) (reconcile_start zones)"
  unfolding reconcile_inv_def by (simp add: reconcile_start_def slots_start) (simp add: side_zones_def)

lemma reconcile_inv_keys:
  assumes "reconcile_inv R once mo S D st"
  shows "length (rs_exhausted st) \<le> card (set (slot_keys ''supply'' S @ slot_keys ''demand'' D))"
  using assms unfolding reconcile_inv_def by (metis List.finite_set card_mono distinct_card)

definition same_key :: "zone \<Rightarrow> zone \<Rightarrow> bool" where
  "same_key z z' \<longleftrightarrow> zo_side z' = zo_side z \<and> zo_origin z' = zo_origin z"

lemma zone_init_keeps [simp]:
  "zo_side (zone_init z) = zo_side z" "zo_origin (zone_init z) = zo_origin z" "zo_score (zone_init z) = zo_score z"
  "zo_reasons (zone_init z) = zo_reasons z" "zo_touches (zone_init z) = zo_touches z"
  "zo_mitigated (zone_init z) = zo_mitigated z" "zo_break_kind (zone_init z) = zo_break_kind z"
  "zo_break_index (zone_init z) = zo_break_index z" "zo_created (zone_init z) = zo_created z" "zo_source (zone_init z) = zo_source z"
  by (simp_all add: zone_init_def Let_def)

lemma zone_init_bounds:
  "zo_bottom (zone_init z) = min (zo_bottom z) (zo_top z)" "zo_top (zone_init z) = max (zo_bottom z) (zo_top z)"
  by (auto simp: zone_init_def Let_def min_def max_def)

lemma trim_same_key: "trim_outside t k w = Some r \<Longrightarrow> same_key t r"
  by (auto simp: trim_outside_def same_key_def split: option.splits prod.splits if_splits)

text \<open>The loop ends: a round either finds nothing to do or exhausts one more of the finitely many targets.\<close>

lemma reconcile_loop_ends:
  "\<exists>st. reconcile_loop w mo zones = Some st"
proof -
  define S where "S = side_zones ''supply'' zones"
  define D where "D = side_zones ''demand'' zones"
  define n where "n = card (set (slot_keys ''supply'' S @ slot_keys ''demand'' D))"
  define m where "m = (\<lambda>st :: reconcile_state. (n - length (rs_exhausted st)) + (if rs_changed st then 1 else 0))"
  let ?P = "reconcile_inv same_key False mo S D"
  have origin: "same_key z z' \<Longrightarrow> zo_origin z' = zo_origin z" for z z' by (simp add: same_key_def)
  have step: "?P (reconcile_round w mo st) \<and> m (reconcile_round w mo st) < m st" if P: "?P st" and c: "rs_changed st" for st
  proof -
    note r = reconcile_round_inv [where R = same_key and once = False, OF P origin trim_same_key trim_same_key, simplified]
    have bound: "length (rs_exhausted (reconcile_round w mo st)) \<le> n"
      using reconcile_inv_keys [OF r(1)] by (simp add: n_def)
    show ?thesis using r bound c by (cases "rs_changed (reconcile_round w mo st)") (auto simp: m_def)
  qed
  show ?thesis
    unfolding reconcile_loop_def
    by (rule measure_while_option_Some [where P = ?P and f = m, OF step]) (simp_all add: S_def D_def reconcile_start_inv)
qed

lemma reconcile_loop_inv:
  assumes "reconcile_loop w mo zones = Some st"
    and "\<And>z z'. R z z' \<Longrightarrow> zo_origin z' = zo_origin z"
    and "\<And>s d r. mo \<le> overlap_ratio s d \<Longrightarrow> trim_outside s d w = Some r \<Longrightarrow> R s r"
      "\<And>s d r. mo \<le> overlap_ratio s d \<Longrightarrow> trim_outside d s w = Some r \<Longrightarrow> R d r"
    and "once \<Longrightarrow> distinct (slot_keys ''supply'' (side_zones ''supply'' zones)) \<and> distinct (slot_keys ''demand'' (side_zones ''demand'' zones))"
  shows "reconcile_inv R once mo (side_zones ''supply'' zones) (side_zones ''demand'' zones) st" "\<not> rs_changed st"
proof -
  show "\<not> rs_changed st" using while_option_stop assms(1) unfolding reconcile_loop_def by fast
  show "reconcile_inv R once mo (side_zones ''supply'' zones) (side_zones ''demand'' zones) st"
    by (rule while_option_rule [OF _ assms(1) [unfolded reconcile_loop_def]])
      (auto intro: reconcile_round_inv(1) reconcile_start_inv assms(2,3,4) simp: assms(5))
qed

section \<open>What the reconciliation promises\<close>

definition two_sided :: "zone list \<Rightarrow> zone list" where
  "two_sided zones = filter (\<lambda>z. zo_side z \<in> {''supply'', ''demand''}) zones"

definition reconcile_key :: "zone \<Rightarrow> string \<times> int" where
  "reconcile_key z = (zo_side z, zo_origin z)"

definition conflict_target :: "zone \<Rightarrow> zone \<Rightarrow> zone" where
  "conflict_target s d = (if supply_is_target s d then s else d)"

text \<open>\<open>z'\<close> is what one trim leaves of \<open>z\<close>: a part of it beside the zone that stays, wide enough, with one mark.\<close>

definition trimmed_from :: "rat \<Rightarrow> zone \<Rightarrow> zone \<Rightarrow> bool" where
  "trimmed_from w z z' \<longleftrightarrow>
     same_key z z' \<and> zo_score z' = zo_score z \<and> zo_bottom z \<le> zo_bottom z' \<and> zo_top z' \<le> zo_top z \<and>
     w \<le> zo_top z' - zo_bottom z' \<and>
     (\<exists>keep. zo_reasons z' = zo_reasons z @ [reconciled_reason keep] \<and> (zo_top z' \<le> zo_bottom keep \<or> zo_top keep \<le> zo_bottom z'))"

lemma overlap_positive:
  assumes "0 < mo" "mo \<le> overlap_ratio a b"
  shows "zo_bottom a < zo_top b" "zo_bottom b < zo_top a" "zo_bottom a < zo_top a" "zo_bottom b < zo_top b"
proof -
  have "0 < min (zo_top a) (zo_top b) - max (zo_bottom a) (zo_bottom b)"
    using assms by (auto simp: overlap_ratio_def Let_def not_le split: if_split_asm)
  then have "max (zo_bottom a) (zo_bottom b) < min (zo_top a) (zo_top b)" by linarith
  then show "zo_bottom a < zo_top b" "zo_bottom b < zo_top a" "zo_bottom a < zo_top a" "zo_bottom b < zo_top b"
    by simp_all
qed

lemma trim_trimmed:
  assumes "trim_outside t k w = Some r" "zo_bottom t < zo_top k" "zo_bottom k < zo_top t"
  shows "trimmed_from w t r"
proof -
  obtain low high where rem: "trim_remainder t k = Some (low, high)" "w \<le> high - low"
    and r: "r = zone_init (t\<lparr>zo_bottom := low, zo_top := high, zo_reasons := zo_reasons t @ [reconciled_reason k]\<rparr>)"
    using assms(1) by (auto simp: trim_outside_def split: option.splits prod.splits if_splits)
  have b: "zo_bottom t \<le> low" "high \<le> zo_top t" "low \<le> high" "high \<le> zo_bottom k \<or> zo_top k \<le> low"
    using rem(1) assms(2,3) by (auto simp: trim_remainder_def Let_def split: if_splits)
  have "zo_bottom r = low" "zo_top r = high" using b(3) by (simp_all add: r zone_init_bounds)
  then show ?thesis using b rem(2) by (auto simp: trimmed_from_def same_key_def r)
qed

lemma slot_keys_set:
  "set (slot_keys ''supply'' (side_zones ''supply'' zones) @ slot_keys ''demand'' (side_zones ''demand'' zones)) =
     reconcile_key ` set (two_sided zones)"
  proof -
  have one: "set (slot_keys side (side_zones side zones)) = reconcile_key ` {z \<in> set zones. zo_side z = side}" for side
    by (force simp: slot_keys_def side_zones_def reconcile_key_def image_iff)
  show ?thesis unfolding set_append one two_sided_def by auto
qed

lemma slot_keys_distinct:
  assumes "distinct (map reconcile_key (two_sided zones))" "side \<in> {''supply'', ''demand''}"
  shows "distinct (slot_keys side (side_zones side zones))"
proof -
  have "filter (\<lambda>z. zo_side z = side) zones = filter (\<lambda>z. zo_side z = side) (two_sided zones)"
    using assms(2) by (auto simp: two_sided_def intro!: filter_cong)
  then have "distinct (map reconcile_key (filter (\<lambda>z. zo_side z = side) zones))"
    using assms(1) by (simp add: distinct_map_filter)
  then have "distinct (map reconcile_key (sort_key reconcile_sort_key (filter (\<lambda>z. zo_side z = side) zones)))"
    by (simp add: distinct_map)
  moreover have "slot_keys side (side_zones side zones) =
      map reconcile_key (sort_key reconcile_sort_key (filter (\<lambda>z. zo_side z = side) zones))"
    by (simp add: slot_keys_def side_zones_def reconcile_key_def)
  ultimately show ?thesis by simp
qed

lemma two_sided_length:
  "length (side_zones ''supply'' zones) + length (side_zones ''demand'' zones) = length (two_sided zones)"
  by (induction zones) (auto simp: two_sided_def side_zones_length)

lemma live_zones_length: "length (live_zones ys) + length (filter Option.is_none ys) = length ys"
  by (induction ys) (auto simp: live_zones_def List.map_filter_def Option.is_none_def split: option.split)

lemma live_zones_set: "z \<in> set (live_zones ys) \<longleftrightarrow> Some z \<in> set ys"
  by (force simp: live_zones_def List.map_filter_def image_iff)

lemma slots_live:
  assumes "slots_ok R once side ex (side_zones side zones) ys" "Some y \<in> set ys"
  obtains z where "z \<in> set zones" "zo_side z = side"
    "y = z \<and> (once \<longrightarrow> (side, zo_origin z) \<notin> set ex) \<or> (side, zo_origin z) \<in> set ex \<and> R z y"
proof -
  obtain j where j: "j < length ys" "ys ! j = Some y" using assms(2) by (auto simp: in_set_conv_nth)
  obtain z where z: "side_zones side zones ! j = Some z" "zo_side z = side" "j < length (side_zones side zones)"
    "y = z \<and> (once \<longrightarrow> (side, zo_origin z) \<notin> set ex) \<or> (side, zo_origin z) \<in> set ex \<and> R z y"
    using slots_get [OF assms(1) j] .
  have "z \<in> set zones" using nth_mem [OF z(3)] z(1) by (auto simp: side_zones_set)
  then show ?thesis using z that by blast
qed

lemma two_sided_complement:
  "length (two_sided zones) + length (filter (\<lambda>z. zo_side z \<notin> {''supply'', ''demand''}) zones) = length zones"
  by (simp only: two_sided_def sum_length_filter_compl)

text \<open>C22. The reconciliation of opposing zones always returns: the number of zones it trims or drops is at most the number of
  different targets \<open>(side, origin)\<close> among its zones. It returns the zones as they came when there are five or more of them
  and more than the given fraction was affected; otherwise every zone that was not dropped is in the result.\<close>

theorem reconcile_ends:
  "\<exists>out st. reconcile_opposing zones w mo mf = Some (out, st) \<and> rt_input st = length (two_sided zones) \<and>
     rt_trimmed st + rt_dropped st \<le> card (reconcile_key ` set (two_sided zones)) \<and>
     (if rt_aborted st then out = zones \<and> 5 \<le> rt_input st
      else length out + rt_dropped st = length zones \<and>
        (rt_input st < 5 \<or> of_nat (rt_trimmed st + rt_dropped st) / of_nat (rt_input st) \<le> mf))"
proof -
  obtain st where loop: "reconcile_loop w mo zones = Some st" using reconcile_loop_ends by blast
  have origin: "same_key z z' \<Longrightarrow> zo_origin z' = zo_origin z" for z z' by (simp add: same_key_def)
  have inv: "reconcile_inv same_key False mo (side_zones ''supply'' zones) (side_zones ''demand'' zones) st"
    by (rule reconcile_loop_inv(1) [OF loop]) (auto intro: origin trim_same_key)
  note i = inv [unfolded reconcile_inv_def slots_ok_def]
  have len: "length (rs_supply st) = length (side_zones ''supply'' zones)"
    "length (rs_demand st) = length (side_zones ''demand'' zones)"
    using list_all2_lengthD [OF conjunct1 [OF i]] list_all2_lengthD [OF conjunct1 [OF conjunct2 [OF i]]] by simp_all
  have n: "length (rs_supply st) + length (rs_demand st) = length (two_sided zones)" using len two_sided_length by simp
  have affected: "rs_trimmed st + rs_dropped st \<le> card (reconcile_key ` set (two_sided zones))"
    using reconcile_inv_keys [OF inv] i unfolding slot_keys_set by simp
  have live: "length (live_zones (rs_supply st)) + length (live_zones (rs_demand st)) + rs_dropped st = length (two_sided zones)"
    using live_zones_length [of "rs_supply st"] live_zones_length [of "rs_demand st"] n i by linarith
  have drop: "rs_dropped st \<le> length (two_sided zones)" using live by linarith
  show ?thesis
  proof (cases "5 \<le> length (two_sided zones) \<and> mf < of_nat (rs_trimmed st + rs_dropped st) / of_nat (length (two_sided zones))")
    case True
    then have "reconcile_opposing zones w mo mf = Some (zones, \<lparr>rt_input = length (two_sided zones), rt_trimmed = 0, rt_dropped = 0,
        rt_output = length (two_sided zones), rt_aborted = True\<rparr>)"
      by (simp only: reconcile_opposing_def loop option.map reconcile_finish_def ZONE_RECONCILE_MIN_SAMPLE_def Let_def n simp_thms if_True)
    then show ?thesis using True by simp
  next
    case False
    then have "reconcile_opposing zones w mo mf = Some (live_zones (rs_supply st) @ live_zones (rs_demand st) @
        filter (\<lambda>z. zo_side z \<notin> {''supply'', ''demand''}) zones,
        \<lparr>rt_input = length (two_sided zones), rt_trimmed = rs_trimmed st, rt_dropped = rs_dropped st,
         rt_output = length (two_sided zones) - rs_dropped st, rt_aborted = False\<rparr>)"
      by (simp only: reconcile_opposing_def loop option.map reconcile_finish_def ZONE_RECONCILE_MIN_SAMPLE_def Let_def n if_False)
    then show ?thesis using False affected live two_sided_complement [of zones] by (simp only: length_append) (simp add: not_less not_le)
  qed
qed

text \<open>C23. With a positive threshold the reconciliation only narrows: every zone of its result is a zone of the input, or what a
  single trim left of one, beside the zone that stayed and not narrower than the minimum width. When no two zones of a side
  share their origin, every overlapping pair that remains is one whose weaker zone was trimmed already.\<close>

theorem reconcile_sound:
  assumes "0 < mo" "reconcile_opposing zones w mo mf = Some (out, st)" "\<not> rt_aborted st"
  shows "(\<forall>z' \<in> set out. z' \<in> set zones \<or> (\<exists>z \<in> set zones. trimmed_from w z z')) \<and>
    filter (\<lambda>z. zo_side z \<notin> {''supply'', ''demand''}) out = filter (\<lambda>z. zo_side z \<notin> {''supply'', ''demand''}) zones \<and>
    (distinct (map reconcile_key (two_sided zones)) \<longrightarrow>
      (\<forall>s \<in> set out. \<forall>d \<in> set out. zo_side s = ''supply'' \<longrightarrow> zo_side d = ''demand'' \<longrightarrow> mo \<le> overlap_ratio s d \<longrightarrow>
        (\<exists>z \<in> set zones. trimmed_from w z (conflict_target s d))))"
proof -
  obtain rs where loop: "reconcile_loop w mo zones = Some rs" and fin: "reconcile_finish zones mf rs = (out, st)"
    using assms(2) by (auto simp: reconcile_opposing_def)
  have out: "out = live_zones (rs_supply rs) @ live_zones (rs_demand rs) @ filter (\<lambda>z. zo_side z \<notin> {''supply'', ''demand''}) zones"
    using fin assms(3) by (auto simp: reconcile_finish_def Let_def split: if_split_asm)
  have origin: "trimmed_from w z z' \<Longrightarrow> zo_origin z' = zo_origin z" for z z' by (simp add: trimmed_from_def same_key_def)
  have side: "trimmed_from w z z' \<Longrightarrow> zo_side z' = zo_side z" for z z' by (simp add: trimmed_from_def same_key_def)
  have trims: "trimmed_from w s r" if "mo \<le> overlap_ratio s d" "trim_outside s d w = Some r" for s d r
    using trim_trimmed [OF that(2)] overlap_positive [OF assms(1) that(1)] by simp
  have trims': "trimmed_from w d r" if "mo \<le> overlap_ratio s d" "trim_outside d s w = Some r" for s d r
    using trim_trimmed [OF that(2)] overlap_positive [OF assms(1) that(1)] by simp
  let ?once = "distinct (map reconcile_key (two_sided zones))"
  note inv = reconcile_loop_inv [where R = "trimmed_from w" and once = ?once, OF loop origin trims trims']
  have i: "reconcile_inv (trimmed_from w) ?once mo (side_zones ''supply'' zones) (side_zones ''demand'' zones) rs" "\<not> rs_changed rs"
    using inv slot_keys_distinct by simp_all
  note j = i(1) [unfolded reconcile_inv_def]
  have ok: "slots_ok (trimmed_from w) ?once ''supply'' (rs_exhausted rs) (side_zones ''supply'' zones) (rs_supply rs)"
    "slots_ok (trimmed_from w) ?once ''demand'' (rs_exhausted rs) (side_zones ''demand'' zones) (rs_demand rs)" using j by simp_all
  have fsup: "\<exists>z \<in> set zones. zo_side z = ''supply'' \<and> zo_side y = ''supply'' \<and> (y = z \<or> trimmed_from w z y) \<and>
      (?once \<and> (''supply'', zo_origin y) \<in> set (rs_exhausted rs) \<longrightarrow> trimmed_from w z y)" if "Some y \<in> set (rs_supply rs)" for y
    using slots_live [OF ok(1) that] origin side by metis
  have fdem: "\<exists>z \<in> set zones. zo_side z = ''demand'' \<and> zo_side y = ''demand'' \<and> (y = z \<or> trimmed_from w z y) \<and>
      (?once \<and> (''demand'', zo_origin y) \<in> set (rs_exhausted rs) \<longrightarrow> trimmed_from w z y)" if "Some y \<in> set (rs_demand rs)" for y
    using slots_live [OF ok(2) that] origin side by metis
  have a: "\<forall>z' \<in> set out. z' \<in> set zones \<or> (\<exists>z \<in> set zones. trimmed_from w z z')"
    using fsup fdem unfolding out by (auto simp: live_zones_set) blast+
  have b: "filter (\<lambda>z. zo_side z \<notin> {''supply'', ''demand''}) out = filter (\<lambda>z. zo_side z \<notin> {''supply'', ''demand''}) zones"
    using fsup fdem unfolding out by (auto simp: filter_empty_conv live_zones_set) fastforce+
  have c: "\<exists>z \<in> set zones. trimmed_from w z (conflict_target s d)"
    if "?once" "s \<in> set out" "d \<in> set out" "zo_side s = ''supply''" "zo_side d = ''demand''" "mo \<le> overlap_ratio s d" for s d
  proof -
    have s: "Some s \<in> set (rs_supply rs)" using that(2,4) fdem unfolding out by (auto simp: live_zones_set) fastforce+
    have d: "Some d \<in> set (rs_demand rs)" using that(3,5) fsup unfolding out by (auto simp: live_zones_set) fastforce+
    have "first_conflict mo rs = None" using j i(2) by simp
    from first_conflict_None [OF this s d that(6)] have "target_key s d \<in> set (rs_exhausted rs)" .
    then show ?thesis using fsup [OF s] fdem [OF d] that(1) by (auto simp: target_key_def conflict_target_def split: if_splits)
  qed
  show ?thesis using a b c by blast
qed

definition demo_band :: "rat \<Rightarrow> rat \<Rightarrow> string \<Rightarrow> int \<Rightarrow> rat \<Rightarrow> zone" where
  "demo_band low high side origin score = (new_zone low high side origin None ''supply_demand'' None None)\<lparr>zo_score := score\<rparr>"

definition demo_pair :: "zone list" where
  "demo_pair = [demo_band 8 12 ''demand'' 3 2, demo_band 10 14 ''supply'' 5 5]"

text \<open>Two demand zones of one origin: the trim of the one exhausts the other.\<close>

definition demo_twins :: "zone list" where
  "demo_twins = demo_band 9 13 ''demand'' 3 1 # demo_pair"

theorem reconcile_sound_witness:
  "map_option (\<lambda>(out, st). (map zo_bottom out, map zo_top out, rt_trimmed st, rt_aborted st))
     (reconcile_opposing demo_twins 1 (1 / 2) (1 / 5)) = Some ([10, 8, 9], [14, 10, 13], 1, False) \<and>
   (\<exists>out st. reconcile_opposing demo_twins 1 (1 / 2) (1 / 5) = Some (out, st) \<and>
      list_all (\<lambda>z'. z' \<in> set demo_twins \<or> list_ex (\<lambda>z. trimmed_from 1 z z') demo_twins) out)"
proof -
  have e: "map_option (\<lambda>(out, st). (map zo_bottom out, map zo_top out, rt_trimmed st, rt_aborted st))
     (reconcile_opposing demo_twins 1 (1 / 2) (1 / 5)) = Some ([10, 8, 9], [14, 10, 13], 1, False)"
    by code_simp
  then obtain out st where r: "reconcile_opposing demo_twins 1 (1 / 2) (1 / 5) = Some (out, st)" "\<not> rt_aborted st"
    by (cases "reconcile_opposing demo_twins 1 (1 / 2) (1 / 5)") auto
  show ?thesis
    using e r(1) conjunct1 [OF reconcile_sound [OF _ r]] by (auto simp: list_all_iff list_ex_iff)
qed

section \<open>What the merge promises\<close>

definition group_ok :: "rat \<Rightarrow> rat option \<Rightarrow> zone list \<Rightarrow> bool" where
  "group_ok mo mw g \<longleftrightarrow>
     g \<noteq> [] \<and> (\<forall>z \<in> set g. zo_side z = zo_side (List.hd g)) \<and>
     (\<forall>i. Suc i < length g \<longrightarrow> (\<exists>j \<le> i. mo \<le> overlap_ratio (g ! Suc i) (g ! j))) \<and>
     (1 < length g \<longrightarrow> (case mw of None \<Rightarrow> True | Some w \<Rightarrow> merged_width g \<le> w))"

lemma group_ok_single [simp]: "group_ok mo mw [z]"
  by (simp add: group_ok_def)

lemma group_ok_join:
  assumes "group_ok mo mw g" "joins_group mo mw z g"
  shows "group_ok mo mw (g @ [z])"
proof -
  obtain j where j: "j < length g" "mo \<le> overlap_ratio z (g ! j)"
    using assms(2) by (auto simp: joins_group_def list_ex_iff in_set_conv_nth)
  have "\<exists>k \<le> i. mo \<le> overlap_ratio ((g @ [z]) ! Suc i) ((g @ [z]) ! k)" if "Suc i < length (g @ [z])" for i
  proof (cases "Suc i < length g")
    case True
    then obtain k where "k \<le> i" "mo \<le> overlap_ratio (g ! Suc i) (g ! k)" using assms(1) by (auto simp: group_ok_def)
    then show ?thesis using True by (intro exI [of _ k]) (simp add: nth_append)
  next
    case False
    then have i: "Suc i = length g" using that by simp
    then show ?thesis using j by (intro exI [of _ j]) (auto simp: nth_append)
  qed
  moreover have "\<forall>x \<in> set (g @ [z]). zo_side x = zo_side (List.hd (g @ [z]))"
    using assms by (cases g) (auto simp: group_ok_def joins_group_def)
  moreover have "case mw of None \<Rightarrow> True | Some w \<Rightarrow> merged_width (g @ [z]) \<le> w"
    using assms(2) by (simp add: joins_group_def not_less split: option.splits)
  ultimately show ?thesis unfolding group_ok_def by blast
qed

lemma place_zone_ok:
  assumes "list_all (group_ok mo mw) gs"
  shows "list_all (group_ok mo mw) (place_zone mo mw z gs)"
    "mset (concat (place_zone mo mw z gs)) = add_mset z (mset (concat gs))"
  using assms by (induction gs) (auto simp: group_ok_join)

lemma merge_groups_ok:
  "list_all (group_ok mo mw) (merge_groups zones mo mw) \<and> mset (concat (merge_groups zones mo mw)) = mset zones"
proof -
  have "list_all (group_ok mo mw) (fold (place_zone mo mw) zs gs) \<and>
      mset (concat (fold (place_zone mo mw) zs gs)) = mset zs + mset (concat gs)" if "list_all (group_ok mo mw) gs" for zs gs
    using that
  proof (induction zs arbitrary: gs)
    case (Cons z zs)
    show ?case using Cons.IH [OF place_zone_ok(1) [OF Cons.prems]] place_zone_ok(2) [OF Cons.prems] by simp
  qed simp
  from this [of "[]" "sort_key zone_order zones"] show ?thesis by (simp add: merge_groups_def)
qed

lemma list_min_le: "x \<in> set xs \<Longrightarrow> list_min xs \<le> x" "xs \<noteq> [] \<Longrightarrow> list_min xs \<in> set xs"
proof -
  have f: "fold min ys a \<le> a \<and> (\<forall>y \<in> set ys. fold min ys a \<le> y) \<and> fold min ys a \<in> insert a (set ys)" for ys and a :: rat
  proof (induction ys arbitrary: a)
    case (Cons y ys)
    show ?case using Cons [of "min y a"] by (auto simp: min_def split: if_splits)
  qed simp
  show "x \<in> set xs \<Longrightarrow> list_min xs \<le> x" using f [where a = "List.hd xs" and ys = "tl xs"] by (cases xs) (auto simp: list_min_def)
  show "xs \<noteq> [] \<Longrightarrow> list_min xs \<in> set xs" using f [where a = "List.hd xs" and ys = "tl xs"] by (cases xs) (auto simp: list_min_def)
qed

lemma list_max_ge: "x \<in> set xs \<Longrightarrow> x \<le> list_max xs" "xs \<noteq> [] \<Longrightarrow> list_max xs \<in> set xs"
proof -
  have f: "a \<le> fold max ys a \<and> (\<forall>y \<in> set ys. y \<le> fold max ys a) \<and> fold max ys a \<in> insert a (set ys)" for ys and a :: rat
  proof (induction ys arbitrary: a)
    case (Cons y ys)
    show ?case using Cons [of "max y a"] by (auto simp: max_def split: if_splits)
  qed simp
  show "x \<in> set xs \<Longrightarrow> x \<le> list_max xs" using f [where a = "List.hd xs" and ys = "tl xs"] by (cases xs) (auto simp: list_max_def)
  show "xs \<noteq> [] \<Longrightarrow> list_max xs \<in> set xs" using f [where a = "List.hd xs" and ys = "tl xs"] by (cases xs) (auto simp: list_max_def)
qed


lemma first_min_least:
  "f (first_min f a xs) \<le> f a \<and> (\<forall>x \<in> set xs. f (first_min f a xs) \<le> f x) \<and> first_min f a xs \<in> insert a (set xs)"
proof (induction xs arbitrary: a)
  case (Cons x xs)
  show ?case using Cons [of "if f x < f a then x else a"] by (auto split: if_splits)
qed simp

lemma fold_min_least:
  "fold min xs a \<le> a \<and> (\<forall>x \<in> set xs. fold min xs a \<le> x) \<and> fold min xs a \<in> insert a (set xs)" for a :: int
proof (induction xs arbitrary: a)
  case (Cons x xs)
  show ?case using Cons [of "min x a"] by (auto simp: min_def split: if_splits)
qed simp

text \<open>\<open>c\<close> stands for the members of a group: the hull of their bands, the fewest touches, the earliest origin.\<close>

definition stands_for :: "zone \<Rightarrow> zone list \<Rightarrow> bool" where
  "stands_for c g \<longleftrightarrow>
     (\<forall>z \<in> set g. zo_side z = zo_side c \<and> zo_bottom c \<le> zo_bottom z \<and> zo_top z \<le> zo_top c \<and> zo_touches c \<le> zo_touches z \<and>
        zo_origin c \<le> zo_origin z) \<and>
     zo_bottom c \<in> zo_bottom ` set g \<and> zo_top c \<in> zo_top ` set g \<and> zo_touches c \<in> zo_touches ` set g \<and>
     zo_origin c \<in> zo_origin ` set g"

definition zone_ok :: "zone \<Rightarrow> bool" where
  "zone_ok z \<longleftrightarrow> zo_bottom z \<le> zo_top z"

lemma composite_stands_for:
  assumes "g \<noteq> []" "\<forall>z \<in> set g. zo_side z = zo_side (List.hd g)" "\<forall>z \<in> set g. zone_ok z"
  shows "stands_for (composite_zone g) g" "1 < length g \<Longrightarrow> zo_top (composite_zone g) - zo_bottom (composite_zone g) = merged_width g"
proof -
  obtain z rest where g: "g = z # rest" using assms(1) by (cases g) auto
  have bounds: "list_min (map zo_bottom g) \<le> list_max (map zo_top g)"
    using list_min_le(1) [of "zo_bottom z" "map zo_bottom g"] list_max_ge(1) [of "zo_top z" "map zo_top g"] assms(3)
    by (auto simp: g zone_ok_def intro: order_trans)
  have "stands_for (composite_zone g) g \<and> (1 < length g \<longrightarrow> zo_top (composite_zone g) - zo_bottom (composite_zone g) = merged_width g)"
  proof (cases "rest = []")
    case True
    then show ?thesis
      using assms(3) by (simp add: g stands_for_def composite_zone_def Let_def zone_init_bounds zone_ok_def min_def max_def)
  next
    case False
    have c: "zo_bottom (composite_zone g) = list_min (map zo_bottom g)" "zo_top (composite_zone g) = list_max (map zo_top g)"
      "zo_side (composite_zone g) = zo_side z" "zo_touches (composite_zone g) = fold min (map zo_touches rest) (zo_touches z)"
      "zo_origin (composite_zone g) = zo_origin (first_min zo_origin z rest)"
      using False bounds by (simp_all add: g composite_zone_def Let_def zone_init_bounds)
    have t: "fold min (map zo_touches rest) (zo_touches z) \<in> zo_touches ` set g"
      "\<forall>x \<in> set g. fold min (map zo_touches rest) (zo_touches z) \<le> zo_touches x"
      using fold_min_least [of "map zo_touches rest" "zo_touches z"] by (auto simp: g)
    have o: "zo_origin (first_min zo_origin z rest) \<in> zo_origin ` set g" "\<forall>x \<in> set g. zo_origin (first_min zo_origin z rest) \<le> zo_origin x"
      using first_min_least [of zo_origin z rest] by (auto simp: g)
    have l: "list_min (map zo_bottom g) \<in> zo_bottom ` set g" "\<forall>x \<in> set g. list_min (map zo_bottom g) \<le> zo_bottom x"
      "list_max (map zo_top g) \<in> zo_top ` set g" "\<forall>x \<in> set g. zo_top x \<le> list_max (map zo_top g)"
      using list_min_le(2) [of "map zo_bottom g"] list_max_ge(2) [of "map zo_top g"] assms(1)
      by (auto intro: list_min_le(1) list_max_ge(1))
    have s: "\<forall>x \<in> set g. zo_side x = zo_side z" using assms(2) by (simp add: g)
    show ?thesis unfolding stands_for_def c merged_width_def using t o l s by blast
  qed
  then show "stands_for (composite_zone g) g" "1 < length g \<Longrightarrow> zo_top (composite_zone g) - zo_bottom (composite_zone g) = merged_width g"
    by simp_all
qed

text \<open>C24. The merge partitions the zones into groups of one side and replaces each by its hull: in a group every zone after the
  first overlaps an earlier one by the required ratio, and a group of several zones is not wider than the maximum. The
  composite has the fewest touches and the earliest origin of its group, so a zone counts as fresh when one of its parts is.\<close>

theorem merge_partition:
  assumes "list_all zone_ok zones"
  shows "\<exists>groups. merge_zones zones mo mw = map composite_zone groups \<and> mset (concat groups) = mset zones \<and>
    list_all (\<lambda>g. group_ok mo mw g \<and> stands_for (composite_zone g) g \<and>
      (1 < length g \<longrightarrow> (case mw of None \<Rightarrow> True | Some w \<Rightarrow> zo_top (composite_zone g) - zo_bottom (composite_zone g) \<le> w))) groups"
proof (intro exI [of _ "merge_groups zones mo mw"] conjI)
  have ok: "group_ok mo mw g" "\<forall>z \<in> set g. zone_ok z" if "g \<in> set (merge_groups zones mo mw)" for g
  proof -
    show "group_ok mo mw g" using merge_groups_ok [of mo mw zones] that by (simp add: list_all_iff)
    have "set (concat (merge_groups zones mo mw)) = set zones" using merge_groups_ok [of mo mw zones] by (metis set_mset_mset)
    then show "\<forall>z \<in> set g. zone_ok z" using assms that by (auto simp: list_all_iff)
  qed
  show "list_all (\<lambda>g. group_ok mo mw g \<and> stands_for (composite_zone g) g \<and>
      (1 < length g \<longrightarrow> (case mw of None \<Rightarrow> True | Some w \<Rightarrow> zo_top (composite_zone g) - zo_bottom (composite_zone g) \<le> w)))
      (merge_groups zones mo mw)"
    unfolding list_all_iff
  proof
    fix g assume "g \<in> set (merge_groups zones mo mw)"
    note k = ok [OF this]
    have n: "g \<noteq> []" "\<forall>z \<in> set g. zo_side z = zo_side (List.hd g)" using k(1) unfolding group_ok_def by blast+
    show "group_ok mo mw g \<and> stands_for (composite_zone g) g \<and>
        (1 < length g \<longrightarrow> (case mw of None \<Rightarrow> True | Some w \<Rightarrow> zo_top (composite_zone g) - zo_bottom (composite_zone g) \<le> w))"
    proof (intro conjI impI)
      assume long: "1 < length g"
      have "case mw of None \<Rightarrow> True | Some w \<Rightarrow> merged_width g \<le> w" using k(1) long unfolding group_ok_def by blast
      then show "case mw of None \<Rightarrow> True | Some w \<Rightarrow> zo_top (composite_zone g) - zo_bottom (composite_zone g) \<le> w"
        unfolding composite_stands_for(2) [OF n k(2) long] .
    qed (use k(1) composite_stands_for(1) [OF n k(2)] in blast)+
  qed
qed (simp_all add: merge_zones_def merge_groups_ok)


theorem merge_partition_witness:
  "list_all zone_ok demo_twins \<and> map (\<lambda>z. (zo_bottom z, zo_top z)) (merge_zones demo_twins (1 / 2) (Some 5)) = [(8, 13), (10, 14)] \<and>
   map (\<lambda>z. (zo_bottom z, zo_top z)) (merge_zones demo_twins (1 / 2) (Some 4)) = [(8, 12), (9, 13), (10, 14)] \<and>
   (\<exists>groups. merge_zones demo_twins (1 / 2) (Some 5) = map composite_zone groups \<and> mset (concat groups) = mset demo_twins)"
proof (intro conjI)
  show ok: "list_all zone_ok demo_twins" by code_simp
  show "\<exists>groups. merge_zones demo_twins (1 / 2) (Some 5) = map composite_zone groups \<and> mset (concat groups) = mset demo_twins"
    using merge_partition [OF ok, of "1 / 2" "Some 5"] by blast
  show "map (\<lambda>z. (zo_bottom z, zo_top z)) (merge_zones demo_twins (1 / 2) (Some 5)) = [(8, 13), (10, 14)]"
    "map (\<lambda>z. (zo_bottom z, zo_top z)) (merge_zones demo_twins (1 / 2) (Some 4)) = [(8, 12), (9, 13), (10, 14)]"
    by code_simp+
qed


section \<open>Touches as of a bar\<close>

definition touch_starts :: "zone \<Rightarrow> bool \<Rightarrow> ohlc list \<Rightarrow> nat \<Rightarrow> bool" where
  "touch_starts z in_touch bs i \<longleftrightarrow>
     touched_by z (bs ! i) \<and> \<not> (if i = 0 then in_touch else touched_by z (bs ! (i - 1)))"

lemma count_touches_card: "count_touches z f bs = int (card {i. i < length bs \<and> touch_starts z f bs i})"
proof (induction bs arbitrary: f)
  case (Cons b bs)
  have "{i. i < length (b # bs) \<and> touch_starts z f (b # bs) i} =
      {i. i = 0 \<and> touched_by z b \<and> \<not> f} \<union> Suc ` {i. i < length bs \<and> touch_starts z (touched_by z b) bs i}" (is "?L = ?A \<union> Suc ` ?B")
  proof (rule set_eqI)
    fix i
    show "i \<in> ?L \<longleftrightarrow> i \<in> ?A \<union> Suc ` ?B"
      by (cases i) (auto simp: touch_starts_def nth_Cons' image_iff)
  qed
  moreover have "card (?A \<union> Suc ` ?B) = card ?A + card ?B"
    by (subst card_Un_disjoint) (auto simp: card_image)
  moreover have "card ?A = (if touched_by z b \<and> \<not> f then 1 else 0)" by simp
  ultimately show ?case using Cons [of "touched_by z b"] by simp
qed simp

text \<open>The bars of a zone that count: after its origin or its break, before \<open>cutoff\<close>.\<close>

definition visits :: "ohlc list \<Rightarrow> int \<Rightarrow> zone \<Rightarrow> nat set" where
  "visits df cutoff z =
     {i. first_touchable z \<le> int i \<and> int i < cutoff \<and> i < length df \<and> touched_by z (df ! i) \<and>
        (int i = first_touchable z \<or> \<not> touched_by z (df ! (i - 1)))}"

lemma count_touches_visits:
  "count_touches z False (drop (nat (first_touchable z)) (take n df)) = int (card (visits df (int n) z))"
proof -
  define a where "a = nat (first_touchable z)"
  have a: "int a = first_touchable z" by (simp add: a_def first_touchable_def)
  have nth: "drop a (take n df) ! j = df ! (j + a)" if "j < length (drop a (take n df))" for j
  proof -
    have le: "a \<le> length (take n df)" using that unfolding length_drop by linarith
    show ?thesis using that nth_drop [OF le, of j] by (simp add: add.commute)
  qed
  have "visits df (int n) z = (\<lambda>i. i + a) ` {i. i < length (drop a (take n df)) \<and> touch_starts z False (drop a (take n df)) i}" (is "_ = ?f ` ?S")
  proof (rule set_eqI)
    fix k
    show "k \<in> visits df (int n) z \<longleftrightarrow> k \<in> ?f ` ?S"
    proof (cases "a \<le> k")
      case True
      then obtain i where k: "k = i + a" by (metis add.commute le_Suc_ex)
      show ?thesis unfolding k by (cases i) (auto simp: visits_def touch_starts_def a [symmetric] nth image_iff add.commute [of a])
    next
      case False
      then show ?thesis using a by (auto simp: visits_def)
    qed
  qed
  moreover have "inj_on ?f ?S" by (simp add: inj_on_def)
  ultimately show ?thesis by (simp add: count_touches_card card_image a_def)
qed

text \<open>C25. Touches are counted as of the cutoff: the zone is stamped with the number of visits, maximal runs of bars that overlap
  its band between its origin (or break) and the cutoff, unless it carried more; bars from the cutoff on do not matter, so the
  zone that the current bar reaches for the first time is still fresh.\<close>

theorem touches_as_of:
  assumes "0 \<le> cutoff"
  shows "mark_mitigation zones df (Some cutoff) = mark_mitigation zones (take (nat cutoff) df) None \<and>
    map zo_touches (mark_mitigation zones df (Some cutoff)) =
      map (\<lambda>z. max (int (card (visits df cutoff z))) (zo_touches z)) zones \<and>
    map zo_mitigated (mark_mitigation zones df (Some cutoff)) =
      map (\<lambda>z. zo_mitigated z \<or> visits df cutoff z \<noteq> {} \<or> 0 < zo_touches z) zones"
proof -
  define n where "n = nat (max 0 (min cutoff (int (length df))))"
  have t: "take n df = take (nat cutoff) df"
    using assms by (cases "cutoff \<le> int (length df)") (simp_all add: n_def)
  have v: "visits df (int n) z = visits df cutoff z" for z using assms by (auto simp: visits_def n_def)
  have fin: "finite (visits df cutoff z)" for z by (rule finite_subset [of _ "{..<length df}"]) (auto simp: visits_def)
  have c: "count_touches z False (drop (nat (first_touchable z)) (take n df)) = int (card (visits df cutoff z))" for z
    using count_touches_visits [of z n df] by (simp add: v)
  have "stamp_zone df n z = stamp_zone (take (nat cutoff) df) (length (take (nat cutoff) df)) z" for z
    by (simp only: stamp_zone_def t take_all order_refl)
  then have a: "mark_mitigation zones df (Some cutoff) = mark_mitigation zones (take (nat cutoff) df) None"
    by (simp add: mark_mitigation_def n_def [symmetric])
  have b: "map zo_touches (mark_mitigation zones df (Some cutoff)) = map (\<lambda>z. max (int (card (visits df cutoff z))) (zo_touches z)) zones"
    by (simp add: mark_mitigation_def n_def [symmetric] stamp_zone_def Let_def c)
  have "0 < max (int (card (visits df cutoff z))) (zo_touches z) \<longleftrightarrow> visits df cutoff z \<noteq> {} \<or> 0 < zo_touches z" for z
    using fin [of z] by (auto simp: less_max_iff_disj card_gt_0_iff)
  then have "map zo_mitigated (mark_mitigation zones df (Some cutoff)) = map (\<lambda>z. zo_mitigated z \<or> visits df cutoff z \<noteq> {} \<or> 0 < zo_touches z) zones"
    by (simp add: mark_mitigation_def n_def [symmetric] stamp_zone_def Let_def c)
  with a b show ?thesis by simp
qed

definition demo_bars :: "ohlc list" where
  "demo_bars = map (\<lambda>(l, h). \<lparr>oh_open = l, oh_high = h, oh_low = l, oh_close = h, oh_ts = 0\<rparr>)
     [(15, 16), (9, 14), (14, 15), (11, 13), (9, 10), (7, 9)]"

theorem touches_as_of_witness:
  "map zo_touches (mark_mitigation [demo_band 8 12 ''demand'' 0 2] demo_bars (Some 5)) = [2] \<and>
   map zo_touches (mark_mitigation [demo_band 8 12 ''demand'' 0 2] (take 5 demo_bars) None) = [2] \<and>
   map zo_mitigated (mark_mitigation [demo_band 8 12 ''demand'' 0 2] demo_bars (Some 1)) = [False]"
proof -
  have a: "mark_mitigation [demo_band 8 12 ''demand'' 0 2] demo_bars (Some 5) =
      mark_mitigation [demo_band 8 12 ''demand'' 0 2] (take 5 demo_bars) None"
    using touches_as_of [of 5 "[demo_band 8 12 ''demand'' 0 2]" demo_bars] by simp
  have b: "map zo_touches (mark_mitigation [demo_band 8 12 ''demand'' 0 2] demo_bars (Some 5)) = [2]" by code_simp
  have c: "map zo_mitigated (mark_mitigation [demo_band 8 12 ''demand'' 0 2] demo_bars (Some 1)) = [False]" by code_simp
  show ?thesis using b b [unfolded a] c by blast
qed

section \<open>Which legs are found\<close>

definition max_run :: "ohlc list \<Rightarrow> nat \<Rightarrow> nat \<Rightarrow> string \<Rightarrow> bool" where
  "max_run df s e d \<longleftrightarrow>
     s < e \<and> e \<le> length df \<and> (\<forall>i. s \<le> i \<and> i < e \<longrightarrow> candle_direction (df ! i) = Some d) \<and>
     (s = 0 \<or> candle_direction (df ! (s - 1)) \<noteq> Some d) \<and> (e = length df \<or> candle_direction (df ! e) \<noteq> Some d)"

definition leg_size :: "ohlc list \<Rightarrow> nat \<Rightarrow> nat \<Rightarrow> string \<Rightarrow> rat" where
  "leg_size df s e d =
     (if d = ''up'' then oh_close (df ! (e - 1)) - oh_open (df ! s) else oh_open (df ! s) - oh_close (df ! (e - 1)))"

definition strong_run :: "ohlc list \<Rightarrow> rat list \<Rightarrow> rat \<Rightarrow> rat \<Rightarrow> nat \<Rightarrow> nat \<Rightarrow> string \<Rightarrow> bool" where
  "strong_run df atr k bf s e d \<longleftrightarrow>
     atr_at atr (int e - 1) 1 * k \<le> leg_size df s e d \<and>
     max 1 ((e - s) div 2) \<le> card {i. s \<le> i \<and> i < e \<and> bf \<le> body_fraction (df ! i)}"

definition leg_of :: "ohlc list \<Rightarrow> nat \<Rightarrow> nat \<Rightarrow> string \<Rightarrow> leg" where
  "leg_of df s e d = \<lparr>lg_start = int s, lg_end = int e - 1, lg_direction = d, lg_size = leg_size df s e d\<rparr>"

lemma filter_slice_card:
  assumes "s \<le> e" "e \<le> length df"
  shows "length (filter P (drop s (take e df))) = card {i. s \<le> i \<and> i < e \<and> P (df ! i)}"
proof -
  have "length (filter P (drop s (take e df))) = card {j. j < e - s \<and> P (df ! (s + j))}"
    using assms by (simp add: length_filter_conv_card) (rule arg_cong [where f = card], auto)
  also have "\<dots> = card ((\<lambda>j. s + j) ` {j. j < e - s \<and> P (df ! (s + j))})" by (simp add: card_image)
  also have "(\<lambda>j. s + j) ` {j. j < e - s \<and> P (df ! (s + j))} = {i. s \<le> i \<and> i < e \<and> P (df ! i)}"
  proof (rule set_eqI)
    fix i
    show "i \<in> (\<lambda>j. s + j) ` {j. j < e - s \<and> P (df ! (s + j))} \<longleftrightarrow> i \<in> {i. s \<le> i \<and> i < e \<and> P (df ! i)}"
      by (cases "s \<le> i") (auto simp: image_iff intro!: exI [of _ "i - s"])
  qed
  finally show ?thesis .
qed

lemma append_leg_run:
  assumes "s < e" "e \<le> length df"
  shows "append_leg df atr k bf legs (Some (s, d)) e = (if strong_run df atr k bf s e d then legs @ [leg_of df s e d] else legs)"
proof -
  have l: "length (drop s (take e df)) = e - s" using assms by simp
  have n: "\<not> e \<le> s" using assms by simp
  have e: "int e - 1 = int (e - 1)" using assms by simp
  show ?thesis
    unfolding append_leg_def strong_run_def leg_of_def leg_size_def Let_def option.case prod.case l
      filter_slice_card [OF less_imp_le [OF assms(1)] assms(2)] not_less [symmetric]
    using n by auto
qed

text \<open>The streak at bar \<open>i\<close>: the run of equal direction that ends there.\<close>

definition streak_ok :: "ohlc list \<Rightarrow> nat \<Rightarrow> (nat \<times> string) option \<Rightarrow> bool" where
  "streak_ok df i streak \<longleftrightarrow>
     (case streak of
        None \<Rightarrow> i = 0 \<or> candle_direction (df ! (i - 1)) = None
      | Some (s, d) \<Rightarrow> s < i \<and> (\<forall>j. s \<le> j \<and> j < i \<longrightarrow> candle_direction (df ! j) = Some d) \<and>
          (s = 0 \<or> candle_direction (df ! (s - 1)) \<noteq> Some d))"

definition runs_from :: "ohlc list \<Rightarrow> rat list \<Rightarrow> rat \<Rightarrow> rat \<Rightarrow> nat \<Rightarrow> leg set" where
  "runs_from df atr k bf i = {leg_of df s e d | s e d. max_run df s e d \<and> strong_run df atr k bf s e d \<and> i \<le> e}"

lemma max_run_at:
  assumes "max_run df s e d"
  shows "s \<le> i \<Longrightarrow> i < e \<Longrightarrow> candle_direction (df ! i) = Some d" "candle_direction (df ! (e - 1)) = Some d" "s < e"
proof -
  have m: "s < e" "\<And>i. s \<le> i \<Longrightarrow> i < e \<Longrightarrow> candle_direction (df ! i) = Some d" using assms by (simp_all add: max_run_def)
  then show "s \<le> i \<Longrightarrow> i < e \<Longrightarrow> candle_direction (df ! i) = Some d" "candle_direction (df ! (e - 1)) = Some d" "s < e" by simp_all
qed

lemma runs_from_next:
  assumes "\<And>s d. \<not> max_run df s i d"
  shows "runs_from df atr k bf i = runs_from df atr k bf (Suc i)"
proof -
  have "i \<le> e \<longleftrightarrow> Suc i \<le> e" if "max_run df s e d" for s e d
    using assms that by (cases "e = i") auto
  then show ?thesis unfolding runs_from_def by blast
qed

lemma max_run_unique:
  assumes "max_run df s e d" "max_run df s' e d'"
  shows "s' = s \<and> d' = d"
proof -
  have e: "candle_direction (df ! (e - 1)) = Some d" "candle_direction (df ! (e - 1)) = Some d'"
    using max_run_at(2) assms by blast+
  then have d: "d' = d" by simp
  have "\<not> s < s'"
  proof
    assume "s < s'"
    then have "candle_direction (df ! (s' - 1)) = Some d" using max_run_at(3) [OF assms(2)] by (intro max_run_at(1) [OF assms(1)]) simp_all
    then show False using assms(2) \<open>s < s'\<close> d unfolding max_run_def by simp
  qed
  moreover have "\<not> s' < s"
  proof
    assume "s' < s"
    then have "candle_direction (df ! (s - 1)) = Some d'" using max_run_at(3) [OF assms(1)] by (intro max_run_at(1) [OF assms(2)]) simp_all
    then show False using assms(1) \<open>s' < s\<close> d unfolding max_run_def by simp
  qed
  ultimately show ?thesis using d by simp
qed

lemma runs_from_close:
  assumes "max_run df s i d"
  shows "runs_from df atr k bf i = (if strong_run df atr k bf s i d then {leg_of df s i d} else {}) \<union> runs_from df atr k bf (Suc i)"
proof (rule set_eqI)
  fix l
  have "l \<in> runs_from df atr k bf i \<longleftrightarrow>
      (\<exists>s' e d'. l = leg_of df s' e d' \<and> max_run df s' e d' \<and> strong_run df atr k bf s' e d' \<and> (e = i \<or> Suc i \<le> e))"
    unfolding runs_from_def le_eq_less_or_eq [of i] less_eq_Suc_le [symmetric] Suc_le_eq by blast
  also have "\<dots> \<longleftrightarrow> (l = leg_of df s i d \<and> strong_run df atr k bf s i d) \<or> l \<in> runs_from df atr k bf (Suc i)"
    using max_run_unique [OF assms] assms unfolding runs_from_def by blast
  finally show "l \<in> runs_from df atr k bf i \<longleftrightarrow>
      l \<in> (if strong_run df atr k bf s i d then {leg_of df s i d} else {}) \<union> runs_from df atr k bf (Suc i)" by auto
qed

lemma no_run_ends:
  assumes "streak_ok df i None"
  shows "\<not> max_run df s i d"
proof
  assume r: "max_run df s i d"
  from max_run_at(2,3) [OF this] show False using assms by (simp add: streak_ok_def)
qed

lemma no_run_goes_on:
  assumes "streak_ok df i (Some (s, d))" "i < length df" "candle_direction (df ! i) = Some d"
  shows "\<not> max_run df s' i d'"
proof
  assume r: "max_run df s' i d'"
  then have "candle_direction (df ! (i - 1)) = Some d'" by (rule max_run_at(2))
  moreover have "candle_direction (df ! (i - 1)) = Some d" using assms(1) by (auto simp: streak_ok_def)
  ultimately show False using r assms(2,3) by (auto simp: max_run_def)
qed

lemma streak_max_run:
  assumes "streak_ok df i (Some (s, d))" "i \<le> length df" "i < length df \<Longrightarrow> candle_direction (df ! i) \<noteq> Some d"
  shows "max_run df s i d"
  using assms by (auto simp: streak_ok_def max_run_def)

lemma append_leg_set:
  assumes "streak_ok df i (Some (s, d))" "i \<le> length df" "i < length df \<Longrightarrow> candle_direction (df ! i) \<noteq> Some d"
  shows "set (append_leg df atr k bf legs (Some (s, d)) i) \<union> runs_from df atr k bf (Suc i) = set legs \<union> runs_from df atr k bf i"
proof -
  have r: "max_run df s i d" using streak_max_run [OF assms] .
  have "s < i" using r by (simp add: max_run_def)
  show ?thesis using append_leg_run [OF \<open>s < i\<close> assms(2)] runs_from_close [OF r] by auto
qed

lemma scan_legs_set:
  assumes "streak_ok df i streak" "i \<le> length df" "bs = drop i df"
  shows "set (scan_legs df atr k bf i bs legs streak) = set legs \<union> runs_from df atr k bf i"
  using assms
proof (induction df atr k bf i bs legs streak rule: scan_legs.induct)
  case (1 df atr k bf i legs streak)
  have i: "i = length df" using 1 by simp
  have none: "runs_from df atr k bf (Suc i) = {}" unfolding runs_from_def i by (auto simp: max_run_def)
  show ?case
  proof (cases streak)
    case None
    then show ?thesis using none runs_from_next [of df i atr k bf] no_run_ends 1 by (simp add: append_leg_def)
  next
    case (Some p)
    then show ?thesis using append_leg_set [of df i "fst p" "snd p" atr k bf legs] 1 i none by simp
  qed
next
  case (2 df atr k bf i b bs legs streak)
  have i: "i < length df" "df ! i = b" "bs = drop (Suc i) df"
  proof -
    show "i < length df" using 2(5,6,7) by (metis drop_all linorder_not_le list.distinct(1))
    then have "drop i df = df ! i # drop (Suc i) df" by (rule Cons_nth_drop_Suc [symmetric])
    then show "df ! i = b" "bs = drop (Suc i) df" using 2(7) by simp_all
  qed
  show ?case
  proof (cases "candle_direction b")
    case None
    have s: "streak_ok df (Suc i) None" using None i by (simp add: streak_ok_def)
    show ?thesis
    proof (cases streak)
      case n: None
      show ?thesis
        using 2(1) [OF None s _ i(3)] i(1) None n runs_from_next [of df i atr k bf] no_run_ends 2(5) by (simp add: append_leg_def)
    next
      case (Some p)
      show ?thesis
        using 2(1) [OF None s _ i(3)] i None Some append_leg_set [of df i "fst p" "snd p" atr k bf legs] 2(5) by simp
    qed
  next
    case cur: (Some c)
    show ?thesis
    proof (cases streak)
      case None
      have s: "streak_ok df (Suc i) (Some (i, c))" using cur i 2(5) None by (auto simp: streak_ok_def le_Suc_eq less_Suc_eq)
      show ?thesis
        using 2(2) [OF cur None s _ i(3)] i(1) cur None runs_from_next [of df i atr k bf] no_run_ends 2(5) by simp
    next
      case (Some p)
      obtain st d where p: "p = (st, d)" by (cases p)
      show ?thesis
      proof (cases "c = d")
        case True
        have s: "streak_ok df (Suc i) streak" using True cur i 2(5) Some p by (auto simp: streak_ok_def less_Suc_eq)
        show ?thesis
          using 2(4) [OF cur Some p [symmetric] _ s _ i(3)] True i cur Some p runs_from_next [of df i atr k bf]
            no_run_goes_on [of df i st d] 2(5) by simp
      next
        case False
        have "candle_direction (df ! (i - 1)) = Some d" "0 < i" using 2(5) Some p by (auto simp: streak_ok_def)
        then have s: "streak_ok df (Suc i) (Some (i, c))" using cur i False by (auto simp: streak_ok_def le_Suc_eq less_Suc_eq)
        show ?thesis
          using 2(3) [OF cur Some p [symmetric] False s _ i(3)] False i cur Some p append_leg_set [of df i st d atr k bf legs] 2(5) by simp
      qed
    qed
  qed
qed

text \<open>The legs of displacement are exactly the maximal runs of candles of one direction that are long enough for the volatility
  at their end and of which at least half (and at least one) of the candles have a full body.\<close>

theorem displacement_exact:
  "l \<in> set (displacement df atr k bf) \<longleftrightarrow>
     (\<exists>s e d. l = leg_of df s e d \<and> max_run df s e d \<and>
        strong_run df (case atr of None \<Rightarrow> atr_series 14 df | Some a \<Rightarrow> a) k bf s e d)"
proof -
  have "runs_from df a k bf 0 = {leg_of df s e d | s e d. max_run df s e d \<and> strong_run df a k bf s e d}" for a
    by (simp add: runs_from_def)
  moreover have "streak_ok df 0 None" by (simp add: streak_ok_def)
  moreover have "\<not> max_run [] s e d" for s e d by (simp add: max_run_def)
  ultimately show ?thesis
    using scan_legs_set [of df 0 None df "case atr of None \<Rightarrow> atr_series 14 df | Some a \<Rightarrow> a" k bf "[]"]
    by (auto simp: displacement_def)
qed


section \<open>What a score can be\<close>

lemma fold_session_bound:
  "length (fold (session_confluence z t) lvs acc) \<le> length acc + length lvs"
proof (induction lvs arbitrary: acc)
  case (Cons lv lvs)
  have "length (session_confluence z t lv acc) \<le> Suc (length acc)"
    by (auto simp: session_confluence_def Let_def)
  then show ?case using Cons [of "session_confluence z t lv acc"] by simp
qed simp

lemma source_value_nonneg: "0 \<le> source_value z s"
  by (auto simp: source_value_def SOURCE_SCORES_def split: option.splits if_splits)

lemma source_score_bounds:
  "0 \<le> fst (source_score z)" "fst (source_score z) \<le> 5" "fst (source_score z) = 0 \<longleftrightarrow> snd (source_score z) = []"
proof -
  define c where "c = filter (\<lambda>s. 0 < source_value z s) (zone_sources z)"
  have e: "source_score z = (min (sum_list (map (source_value z) c)) 5, map source_reason c)"
    by (simp add: source_score_def Let_def c_def SOURCE_SCORE_CAP_def)
  have n: "0 \<le> sum_list (map (source_value z) xs)" for xs by (induction xs) (simp_all add: source_value_nonneg)
  have p: "0 < sum_list (map (source_value z) c)" if "c \<noteq> []"
  proof -
    obtain s xs where s: "c = s # xs" using \<open>c \<noteq> []\<close> by (cases c) auto
    have "s \<in> set c" using s by simp
    then have "0 < source_value z s" by (simp add: c_def)
    then show ?thesis using n [of xs] s by simp
  qed
  show "0 \<le> fst (source_score z)" "fst (source_score z) \<le> 5" using n [of c] by (simp_all add: e)
  show "fst (source_score z) = 0 \<longleftrightarrow> snd (source_score z) = []" using p by (cases "c = []") (auto simp: e)
qed

lemma score_parts_each:
  assumes "p \<in> set (score_parts x z)"
  shows "0 \<le> fst p" "fst p = 0 \<longleftrightarrow> snd p = []"
proof -
  have "list_all (\<lambda>p. 0 \<le> fst p \<and> (fst p = 0 \<longleftrightarrow> snd p = [])) (score_parts x z)"
    unfolding score_parts_def Let_def list.pred_inject
    by (intro conjI; insert source_score_bounds(1,3) [of z]; simp split: option.split)
  then show "0 \<le> fst p" "fst p = 0 \<longleftrightarrow> snd p = []" using assms by (auto simp: list_all_iff)
qed

lemma sum_list_zero_iff: "(\<And>x. x \<in> set xs \<Longrightarrow> 0 \<le> f x) \<Longrightarrow> sum_list (map f xs) = 0 \<longleftrightarrow> (\<forall>x \<in> set xs. f x = (0 :: rat))"
proof (induction xs)
  case (Cons x xs)
  have "0 \<le> sum_list (map f xs)" using Cons.prems by (intro sum_list_nonneg) auto
  then show ?case using Cons by (auto simp: add_nonneg_eq_0_iff)
qed simp

lemma score_zone_bounds:
  "0 \<le> zo_score (score_zone x z)" "zo_score (score_zone x z) \<le> 43 / 2 + 2 * of_nat (length (sx_sessions x))"
  "zo_score (score_zone x z) = 0 \<longleftrightarrow> zo_reasons (score_zone x z) = []"
proof -
  have s: "zo_score (score_zone x z) = sum_list (map fst (score_parts x z))" "zo_reasons (score_zone x z) = concat (map snd (score_parts x z))"
    by (simp_all add: score_zone_def)
  show "0 \<le> zo_score (score_zone x z)" unfolding s using score_parts_each(1) by (intro sum_list_nonneg) auto
  show "zo_score (score_zone x z) = 0 \<longleftrightarrow> zo_reasons (score_zone x z) = []"
    unfolding s using sum_list_zero_iff [of "score_parts x z" fst] score_parts_each [of _ x z] by auto
  have l: "of_nat (length (session_level_confluences z (sx_sessions x) (sx_pip_size x))) \<le> (of_nat (length (sx_sessions x)) :: rat)"
    using fold_session_bound [of z _ "sx_sessions x" "[]"] by (simp add: session_level_confluences_def)
  have i: "fst (if c then (q, r) else (0, [])) \<le> q" if "0 \<le> q" for c and q :: rat and r :: "string list" using that by simp
  have "fst (if zo_touches z = 0 then (3 :: rat, [''fresh'']) else if zo_touches z = 1 then (1, [''1 touch'']) else (0, [])) \<le> 3" by simp
  moreover have "fst (case round_number_inside z (sx_round_step x) of
      Some n \<Rightarrow> (1 :: rat, [''round '' @ number_text n (sx_digits x)]) | None \<Rightarrow> (0, [])) \<le> 1" by (simp split: option.split)
  moreover have "fst (case pd_position_reason z (sx_dealing x) of Some r \<Rightarrow> (2 :: rat, [r]) | None \<Rightarrow> (0, [])) \<le> 2"
    by (simp split: option.split)
  moreover note i [of 2 "list_ex (zone_overlaps_level z) (sx_levels x)" "[''key level'']"]
    i [of 2 "has_liquidity_confluence z (sx_pools x) (sx_pip_size x)" "[''liquidity pool'']"]
    i [of 2 "has_grade_a_grab z (sx_grabs x) (sx_pip_size x)" "[''sweep A'']"]
    i [of 3 "list_ex (inside_htf_zone z) (sx_htf x)" "[''HTF zone'']"]
    i [of "3 / 2" "has_trendline_confluence z (sx_lines x) (sx_bar_index x)" "[''TL confluence'']"]
  ultimately show "zo_score (score_zone x z) \<le> 43 / 2 + 2 * of_nat (length (sx_sessions x))"
    using l source_score_bounds(2) [of z]
    unfolding s score_parts_def list.map sum_list.Cons sum_list.Nil Let_def fst_conv by linarith
qed

end
