(* ===== verification/TargetRoom.thy ===== *)
theory TargetRoom
  imports ZoneGeometry
begin

text \<open>
  The room between a planned entry and the nearest structure of the opposite side
  (\<open>app/autotrade/structural_target_room.py\<close> on the map entries of \<open>app/analysis/market_map.py\<close>): which map entries count
  (displaced ones, shared walls and overlaps are dropped), which of them is nearest, and whether it blocks the setup.

  Prices are finite, so the tests for infinities of the source are always passed. A tuple in the measured values is a list. The
  log lines are left out. \<open>Inl\<close> is an exception on a caller's state of an unexpected type.
\<close>

section \<open>Map entries and the filters\<close>

record map_entry =
  me_side :: string
  me_lo :: rat
  me_hi :: rat
  me_label_lo :: rat
  me_label_hi :: rat
  me_tier :: string
  me_tags :: "string list"
  me_score :: rat
  me_contains_price :: bool

record room_decision =
  rm_allowed :: bool
  rm_reason_code :: string
  rm_message :: string
  rm_hard_block :: bool
  rm_measured :: "(string \<times> json) list"
  rm_opposing_entry :: "map_entry option"
  rm_fitted_targets_pips :: "int list"
  rm_effective_target_pips :: "rat option"

definition opposing_side :: "string \<Rightarrow> string" where
  "opposing_side side = (if side = ''BUY'' then ''sell'' else ''buy'')"

definition opposes_side :: "string \<Rightarrow> map_entry \<Rightarrow> bool" where
  "opposes_side side e \<longleftrightarrow> str_lower (me_side e) = opposing_side side"

definition band_overlap :: "rat \<Rightarrow> rat \<Rightarrow> rat \<Rightarrow> rat \<Rightarrow> rat \<times> rat" where
  "band_overlap first_low first_high second_low second_high =
     (let overlap = max 0 (min first_high second_high - max first_low second_low);
          width = max 0 (first_high - first_low);
          ratio = (if 0 < width then overlap / width else if 0 < overlap then 1 else 0) in
      (overlap, ratio))"

definition displaced_by :: "string \<Rightarrow> rat list \<Rightarrow> map_entry \<Rightarrow> bool" where
  "displaced_by side closes e \<longleftrightarrow>
     list_ex (\<lambda>c. side = ''BUY'' \<and> me_hi e < c \<or> side = ''SELL'' \<and> c < me_lo e) closes"

definition filter_displaced_opposing_entries :: "map_entry list \<Rightarrow> string \<Rightarrow> rat list \<Rightarrow> map_entry list" where
  "filter_displaced_opposing_entries entries direction recent_closes =
     (let side = str_upper direction in
      filter (\<lambda>e. \<not> (opposes_side side e \<and> displaced_by side recent_closes e)) entries)"

definition shared_boundary_epsilon :: "rat \<Rightarrow> rat \<Rightarrow> rat" where
  "shared_boundary_epsilon pip_size atr = max (max 0 pip_size) (5 / 100 * max 0 atr)"

definition glued_to_ref :: "string \<Rightarrow> rat \<Rightarrow> rat \<Rightarrow> rat \<Rightarrow> rat \<Rightarrow> bool" where
  "glued_to_ref side entry_low entry_high ref epsilon \<longleftrightarrow>
     (if side = ''SELL'' then \<bar>entry_high - ref\<bar> \<le> epsilon \<and> entry_high \<le> ref + epsilon
      else \<bar>entry_low - ref\<bar> \<le> epsilon \<and> ref - epsilon \<le> entry_low)"

definition bounds_json :: "map_entry list \<Rightarrow> json" where
  "bounds_json es = JList (map (\<lambda>e. JList [JFloat (py_round 6 (me_lo e)), JFloat (py_round 6 (me_hi e))]) es)"

definition boundary_refs :: "string \<Rightarrow> rat \<Rightarrow> rat \<Rightarrow> rat option \<Rightarrow> rat list" where
  "boundary_refs side low high planned =
     [if side = ''SELL'' then low else high] @ (case planned of None \<Rightarrow> [] | Some p \<Rightarrow> [p])"

definition glued_entry :: "string \<Rightarrow> rat list \<Rightarrow> rat \<Rightarrow> map_entry \<Rightarrow> bool" where
  "glued_entry side refs epsilon e \<longleftrightarrow>
     opposes_side side e \<and> list_ex (\<lambda>ref. glued_to_ref side (me_lo e) (me_hi e) ref epsilon) refs"

definition filter_shared_boundary_opposing_entries ::
  "map_entry list \<Rightarrow> string \<Rightarrow> rat \<Rightarrow> rat \<Rightarrow> rat \<Rightarrow> rat \<Rightarrow> rat option \<Rightarrow> map_entry list \<times> (string \<times> json) list" where
  "filter_shared_boundary_opposing_entries entries direction entry_low entry_high pip_size atr planned_entry =
     (let side = str_upper direction; low = min entry_low entry_high; high = max entry_low entry_high;
          epsilon = shared_boundary_epsilon pip_size atr in
      if side \<notin> {''BUY'', ''SELL''}
      then (entries, [(''applied'', JBool False), (''reason'', JStr ''invalid_shared_boundary_geometry''),
        (''epsilon'', JFloat epsilon)])
      else
        let refs = boundary_refs side low high planned_entry;
            kept = filter (\<lambda>e. \<not> glued_entry side refs epsilon e) entries;
            dropped = filter (glued_entry side refs epsilon) entries in
        (kept,
         [(''applied'', JBool True), (''contract'', JStr ''v8''), (''epsilon'', JFloat (py_round 6 epsilon)),
          (''entries_before'', JInt (int (length kept + length dropped))), (''entries_after'', JInt (int (length kept))),
          (''shared_boundary_excluded'', JInt (int (length dropped))), (''dropped_bounds'', bounds_json dropped)]))"

definition overlap_exclusion_threshold :: "rat \<Rightarrow> rat \<Rightarrow> rat" where
  "overlap_exclusion_threshold pip_size atr = max (2 * max 0 pip_size) (1 / 10 * max 0 atr)"

definition overlapping_entry :: "string \<Rightarrow> rat \<Rightarrow> rat \<Rightarrow> rat \<Rightarrow> map_entry \<Rightarrow> bool" where
  "overlapping_entry side low high threshold e \<longleftrightarrow>
     opposes_side side e \<and> threshold \<le> fst (band_overlap low high (me_lo e) (me_hi e))"

definition filter_overlapping_opposing_entries ::
  "map_entry list \<Rightarrow> string \<Rightarrow> rat \<Rightarrow> rat \<Rightarrow> rat \<Rightarrow> rat \<Rightarrow> map_entry list \<times> (string \<times> json) list" where
  "filter_overlapping_opposing_entries entries direction entry_low entry_high pip_size atr =
     (let side = str_upper direction; low = min entry_low entry_high; high = max entry_low entry_high;
          threshold = overlap_exclusion_threshold pip_size atr in
      if side \<notin> {''BUY'', ''SELL''}
      then (entries, [(''applied'', JBool False), (''reason'', JStr ''invalid_overlap_geometry''),
        (''threshold'', JFloat threshold)])
      else
        let kept = filter (\<lambda>e. \<not> overlapping_entry side low high threshold e) entries;
            dropped = filter (overlapping_entry side low high threshold) entries in
        (kept,
         [(''applied'', JBool True), (''contract'', JStr ''v8_overlap''), (''threshold'', JFloat (py_round 6 threshold)),
          (''entries_before'', JInt (int (length kept + length dropped))), (''entries_after'', JInt (int (length kept))),
          (''overlap_excluded'', JInt (int (length dropped))), (''dropped_bounds'', bounds_json dropped)]))"

definition zone_proximal_room_reference ::
  "string \<Rightarrow> rat \<Rightarrow> rat \<Rightarrow> rat \<Rightarrow> rat \<Rightarrow> rat \<Rightarrow> rat \<times> string" where
  "zone_proximal_room_reference direction spot_price entry_low entry_high pip_size atr =
     (let side = str_upper direction; low = min entry_low entry_high; high = max entry_low entry_high;
          epsilon = shared_boundary_epsilon pip_size atr;
          in_or_near = (low - epsilon \<le> spot_price \<and> spot_price \<le> high + epsilon) in
      if side = ''SELL'' \<and> in_or_near then (low, ''v8_zone_proximal'')
      else if side = ''BUY'' \<and> in_or_near then (high, ''v8_zone_proximal'')
      else (spot_price, ''executable_spot''))"

section \<open>The nearest opposing entry\<close>

definition raw_room :: "string \<Rightarrow> rat \<Rightarrow> map_entry \<Rightarrow> rat" where
  "raw_room side planned e = (if side = ''BUY'' then me_lo e - planned else planned - me_hi e)"

definition contains_planned :: "rat \<Rightarrow> map_entry \<Rightarrow> bool" where
  "contains_planned planned e \<longleftrightarrow> me_lo e \<le> planned \<and> planned \<le> me_hi e"

definition overlaps_candidate :: "rat \<Rightarrow> rat \<Rightarrow> map_entry \<Rightarrow> bool" where
  "overlaps_candidate low high e \<longleftrightarrow> max low (me_lo e) < min high (me_hi e)"

definition relevant_opposing :: "string \<Rightarrow> rat \<Rightarrow> rat \<Rightarrow> rat \<Rightarrow> map_entry \<Rightarrow> bool" where
  "relevant_opposing side planned low high e \<longleftrightarrow>
     opposes_side side e \<and>
     ((if side = ''BUY'' then planned \<le> me_hi e else me_lo e \<le> planned) \<or> overlaps_candidate low high e)"

definition tier_rank :: "string \<Rightarrow> int" where
  "tier_rank tier =
     (let t = str_lower tier in if t = ''major'' then 0 else if t = ''zone'' then 1 else if t = ''level'' then 2 else 3)"

definition opposing_key :: "string \<Rightarrow> rat \<Rightarrow> rat \<Rightarrow> rat \<Rightarrow> map_entry \<Rightarrow> rat \<times> int \<times> rat \<times> rat" where
  "opposing_key side planned low high e =
     (if contains_planned planned e \<or> overlaps_candidate low high e then 0 else max 0 (raw_room side planned e),
      tier_rank (me_tier e), \<bar>raw_room side planned e\<bar>, me_lo e)"

definition nearest_opposing :: "string \<Rightarrow> rat \<Rightarrow> rat \<Rightarrow> rat \<Rightarrow> map_entry list \<Rightarrow> map_entry option" where
  "nearest_opposing side planned low high entries =
     (case filter (relevant_opposing side planned low high) entries of
        [] \<Rightarrow> None
      | e # es \<Rightarrow> Some (first_min (opposing_key side planned low high) e es))"

section \<open>The decision\<close>

record room_request =
  rr_direction :: string
  rr_planned_entry_price :: rat
  rr_entry_low :: rat
  rr_entry_high :: rat
  rr_configured_target_pips :: "int list"
  rr_actionable_entries :: "map_entry list"
  rr_atr :: rat
  rr_pip_size :: rat
  rr_barrier_buffer_atr :: rat
  rr_min_capped_target_pips :: rat
  rr_execution_cost_pips :: rat
  rr_displacement_state :: "(string \<times> json) list option"
  rr_room_reference_source :: "string option"
  rr_executable_entry_price :: "rat option"
  rr_shared_boundary_state :: "(string \<times> json) list option"
  rr_allow_same_wall_overlap :: bool

text \<open>The planned entry and the band of the request, with the bounds in order.\<close>

definition room_side :: "room_request \<Rightarrow> string" where "room_side q = str_upper (rr_direction q)"
definition room_low :: "room_request \<Rightarrow> rat" where "room_low q = min (rr_entry_low q) (rr_entry_high q)"
definition room_high :: "room_request \<Rightarrow> rat" where "room_high q = max (rr_entry_low q) (rr_entry_high q)"
definition room_cost :: "room_request \<Rightarrow> rat" where "room_cost q = max 0 (rr_execution_cost_pips q)"

definition room_targets :: "room_request \<Rightarrow> int list" where
  "room_targets q = sort (remdups (filter (\<lambda>v. 0 < v) (rr_configured_target_pips q)))"

definition room_effective :: "room_request \<Rightarrow> rat option" where
  "room_effective q = (if room_targets q = [] then None else Some (of_int (List.last (room_targets q))))"

text \<open>The state dicts of the two filters are merged into the caller's one.\<close>

definition merge_shared_state :: "(string \<times> json) list \<Rightarrow> (string \<times> json) list \<Rightarrow> (string \<times> json) list res" where
  "merge_shared_state prior internal =
     res_bind (py_int (py_or (dict_get prior ''shared_boundary_excluded'') (JInt 0))) (\<lambda>before.
     res_bind (py_int (py_or (dict_get internal ''shared_boundary_excluded'') (JInt 0))) (\<lambda>now.
     res_bind (py_iter_or_empty (dict_get prior ''dropped_bounds'')) (\<lambda>bounds.
     res_bind (py_iter_or_empty (dict_get internal ''dropped_bounds'')) (\<lambda>extra.
     Inr (dict_set ''dropped_bounds'' (JList (bounds @ extra))
       (dict_set ''shared_boundary_excluded'' (JInt (before + now)) (dict_update prior internal)))))))"

definition merge_overlap_state :: "(string \<times> json) list \<Rightarrow> (string \<times> json) list \<Rightarrow> (string \<times> json) list res" where
  "merge_overlap_state prior internal =
     res_bind (py_iter_or_empty (dict_get internal ''dropped_bounds'')) (\<lambda>extra.
     res_bind (py_int (py_or (dict_get internal ''overlap_excluded'') (JInt 0))) (\<lambda>excluded.
     res_bind (py_iter_or_empty (dict_get prior ''dropped_bounds'')) (\<lambda>bounds.
     Inr (dict_set ''dropped_bounds'' (JList (bounds @ extra))
       (dict_set ''overlap_excluded'' (JInt excluded) (dict_set ''overlap_state'' (JObj internal) prior))))))"

text \<open>The entries left by both filters, with the merged state.\<close>

definition shared_filter :: "room_request \<Rightarrow> map_entry list \<times> (string \<times> json) list" where
  "shared_filter q = filter_shared_boundary_opposing_entries (rr_actionable_entries q) (room_side q) (room_low q) (room_high q)
     (rr_pip_size q) (rr_atr q) (Some (rr_planned_entry_price q))"

definition overlap_filter :: "room_request \<Rightarrow> map_entry list \<Rightarrow> map_entry list \<times> (string \<times> json) list" where
  "overlap_filter q entries =
     (if rr_allow_same_wall_overlap q
      then filter_overlapping_opposing_entries entries (room_side q) (room_low q) (room_high q) (rr_pip_size q) (rr_atr q)
      else (entries, [(''applied'', JBool False), (''reason'', JStr ''same_wall_overlap_not_allowed'')]))"

definition room_entries :: "room_request \<Rightarrow> map_entry list" where
  "room_entries q = fst (overlap_filter q (fst (shared_filter q)))"

definition room_state :: "room_request \<Rightarrow> (string \<times> json) list option res" where
  "room_state q =
     (let shared = snd (shared_filter q); overlap = snd (overlap_filter q (fst (shared_filter q))) in
      res_bind
        (if py_truthy (dict_get shared ''applied'')
         then res_bind (merge_shared_state (case rr_shared_boundary_state q of None \<Rightarrow> [] | Some d \<Rightarrow> d) shared)
           (\<lambda>d. Inr (Some d))
         else Inr (rr_shared_boundary_state q))
        (\<lambda>state.
          if py_truthy (dict_get overlap ''applied'')
          then res_bind (merge_overlap_state (case state of None \<Rightarrow> [] | Some d \<Rightarrow> d) overlap) (\<lambda>d. Inr (Some d))
          else Inr state))"

definition base_measured :: "room_request \<Rightarrow> (string \<times> json) list option \<Rightarrow> (string \<times> json) list" where
  "base_measured q state =
     [(''planned_entry_price'', JFloat (rr_planned_entry_price q)), (''candidate_entry_low'', JFloat (room_low q)),
      (''candidate_entry_high'', JFloat (room_high q)), (''configured_target_pips'', JList (map JInt (room_targets q))),
      (''execution_cost_pips'', JFloat (room_cost q)), (''min_capped_target_pips'', JFloat (max 0 (rr_min_capped_target_pips q)))]
     @ (case rr_room_reference_source q of
          None \<Rightarrow> []
        | Some s \<Rightarrow> if s = [] then [] else [(''room_reference_source'', JStr s), (''room_reference_price'', JFloat (rr_planned_entry_price q))])
     @ (case rr_executable_entry_price q of None \<Rightarrow> [] | Some p \<Rightarrow> [(''executable_entry_price'', JFloat p)])
     @ (case rr_displacement_state q of None \<Rightarrow> [] | Some d \<Rightarrow> if d = [] then [] else [(''displacement_state'', JObj d)])
     @ (case state of None \<Rightarrow> [] | Some d \<Rightarrow> if d = [] then [] else [(''shared_boundary_state'', JObj d)])"

definition room_pips :: "room_request \<Rightarrow> map_entry \<Rightarrow> rat" where
  "room_pips q b =
     (raw_room (room_side q) (rr_planned_entry_price q) b - max 0 (rr_barrier_buffer_atr q) * max 0 (rr_atr q)) / rr_pip_size q"

definition barrier_measured :: "room_request \<Rightarrow> map_entry \<Rightarrow> (string \<times> json) list" where
  "barrier_measured q b =
     (let (overlap, ratio) = band_overlap (room_low q) (room_high q) (me_lo b) (me_hi b);
          raw = raw_room (room_side q) (rr_planned_entry_price q) b;
          buffer = max 0 (rr_barrier_buffer_atr q) * max 0 (rr_atr q);
          buffered = raw - buffer in
      [(''opposing_low'', JFloat (me_lo b)), (''opposing_high'', JFloat (me_hi b)), (''opposing_tier'', JStr (me_tier b)),
       (''opposing_tags'', JList (map JStr (me_tags b))),
       (''planned_entry_contained'', JBool (contains_planned (rr_planned_entry_price q) b)),
       (''market_price_contained'', JBool (me_contains_price b)), (''opposing_contains_price'', JBool (me_contains_price b)),
       (''entry_overlap_price'', JFloat (py_round 6 overlap)), (''entry_overlap_ratio'', JFloat (py_round 6 ratio)),
       (''raw_room_price'', JFloat (py_round 6 raw)), (''raw_room_pips'', JFloat (py_round 3 (raw / rr_pip_size q))),
       (''barrier_buffer_price'', JFloat (py_round 6 buffer)), (''buffered_room_price'', JFloat (py_round 6 buffered)),
       (''room_pips'', JFloat (py_round 3 (room_pips q b))),
       (''room_atr'', JFloat (py_round 4 (if 0 < rr_atr q then buffered / rr_atr q else 0)))])"

definition weak_flags :: "string \<Rightarrow> (string \<times> json) list" where
  "weak_flags reason = [(''weak_opposing_level_ignored'', JBool True), (''weak_opposing_level_reason'', JStr reason)]"

definition blocked_room :: "string \<Rightarrow> string \<Rightarrow> (string \<times> json) list \<Rightarrow> map_entry \<Rightarrow> room_decision" where
  "blocked_room reason message measured b =
     \<lparr>rm_allowed = False, rm_reason_code = reason, rm_message = message, rm_hard_block = True, rm_measured = measured,
      rm_opposing_entry = Some b, rm_fitted_targets_pips = [], rm_effective_target_pips = None\<rparr>"

definition open_room :: "room_request \<Rightarrow> string \<Rightarrow> string \<Rightarrow> (string \<times> json) list \<Rightarrow> map_entry option \<Rightarrow> room_decision" where
  "open_room q reason message measured b =
     \<lparr>rm_allowed = True, rm_reason_code = reason, rm_message = message, rm_hard_block = False, rm_measured = measured,
      rm_opposing_entry = b, rm_fitted_targets_pips = room_targets q, rm_effective_target_pips = room_effective q\<rparr>"

definition containment_reason :: "room_request \<Rightarrow> map_entry \<Rightarrow> string" where
  "containment_reason q b =
     (if 0 < fst (band_overlap (room_low q) (room_high q) (me_lo b) (me_hi b)) \<and>
         max (room_low q) (me_lo b) \<le> rr_planned_entry_price q \<and> rr_planned_entry_price q \<le> min (room_high q) (me_hi b)
      then ''opposing_entry_overlap'' else ''opposing_entry_contained'')"

definition no_room_reason :: "map_entry \<Rightarrow> string" where
  "no_room_reason b = (if str_lower (me_tier b) = ''major'' then ''opposing_major_no_room'' else ''opposing_barrier_no_target'')"

definition weak_room :: "room_request \<Rightarrow> (string \<times> json) list \<Rightarrow> string \<Rightarrow> map_entry \<Rightarrow> room_decision" where
  "weak_room q measured reason b =
     open_room q ''weak_opposing_level_ignored'' ''weak map level opposing ignored; analysis continues''
       (measured @ weak_flags reason @
        [(''usable_room_pips'', JFloat (py_round 3 (max 0 (room_pips q b)))),
         (''effective_target_pips'', j_opt_float (room_effective q)), (''preference_telemetry'', JBool True)])
       (Some b)"

text \<open>The rest of the function: the planned entry is clear of the barrier, with raw room before it.\<close>

definition clear_room :: "room_request \<Rightarrow> (string \<times> json) list \<Rightarrow> map_entry \<Rightarrow> room_decision" where
  "clear_room q measured0 b =
     (let measured = measured0 @
            (if 0 < fst (band_overlap (room_low q) (room_high q) (me_lo b) (me_hi b))
             then [(''band_overlap_without_planned_containment'', JBool True)] else []);
          usable = max 0 (room_pips q b); targets = room_targets q;
          would_fit = filter (\<lambda>t. of_int t \<le> usable) targets;
          would_cap = (targets \<noteq> [] \<and> length would_fit < length targets) in
      if usable < room_cost q
      then blocked_room ''opposing_barrier_room_below_cost''
        ''buffered target room sits below execution-cost floor; opposing barrier leaves no tradable TP room''
        (measured @ [(''usable_room_pips'', JFloat (py_round 3 usable)), (''effective_target_pips'', JNull),
          (''barrier_would_cap_ladder'', JBool would_cap), (''barrier_usable_room_below_cost'', JBool True)]) b
      else
        let (reason, message) =
          (if targets = [] then (''opposing_barrier_no_configured_targets'',
             ''opposing structure present but no configured targets to publish'')
           else if would_cap then (''opposing_barrier_room_ignored_full_ladder'',
             ''opposing structure would have truncated the ladder; configured partial ladder published unchanged'')
           else (''opposing_barrier_full_ladder_fits'',
             ''opposing structure present but configured ladder fits within buffered room'')) in
        open_room q reason message
          (measured @ [(''usable_room_pips'', JFloat (py_round 3 usable)), (''effective_target_pips'', j_opt_float (room_effective q)),
            (''barrier_would_cap_ladder'', JBool would_cap), (''barrier_usable_room_below_cost'', JBool False),
            (''preference_telemetry'', JBool True)]) (Some b))"

definition barrier_decision :: "room_request \<Rightarrow> (string \<times> json) list \<Rightarrow> map_entry \<Rightarrow> room_decision" where
  "barrier_decision q base b =
     (let measured = base @ barrier_measured q b; weak = (str_lower (me_tier b) = ''level'') in
      if contains_planned (rr_planned_entry_price q) b
      then
        let reason = containment_reason q b in
        if weak then weak_room q measured reason b
        else blocked_room reason
          (if reason = ''opposing_entry_overlap'' then ''planned entry sits inside an opposing-structure overlap''
           else ''planned entry is inside an opposing actionable structure'') measured b
      else if raw_room (room_side q) (rr_planned_entry_price q) b \<le> 0
      then
        let reason = no_room_reason b in
        if weak then weak_room q measured reason b
        else blocked_room reason
          (if reason = ''opposing_major_no_room'' then ''opposing major structure leaves no raw target room''
           else ''opposing structure leaves no positive raw target room'') measured b
      else clear_room q measured b)"

definition valid_request :: "room_request \<Rightarrow> bool" where
  "valid_request q \<longleftrightarrow> room_side q \<in> {''BUY'', ''SELL''} \<and> 0 < rr_pip_size q"

definition evaluate_structural_target_room :: "room_request \<Rightarrow> room_decision res" where
  "evaluate_structural_target_room q =
     (if \<not> valid_request q
      then Inr \<lparr>rm_allowed = False, rm_reason_code = ''invalid_target_room_geometry'',
        rm_message = ''candidate target-room geometry is invalid'', rm_hard_block = True,
        rm_measured = [(''planned_entry_price'', JFloat (rr_planned_entry_price q)), (''candidate_entry_low'', JFloat (room_low q)),
          (''candidate_entry_high'', JFloat (room_high q))],
        rm_opposing_entry = None, rm_fitted_targets_pips = [], rm_effective_target_pips = None\<rparr>
      else res_bind (room_state q) (\<lambda>state.
        let base = base_measured q state in
        case nearest_opposing (room_side q) (rr_planned_entry_price q) (room_low q) (room_high q) (room_entries q) of
          None \<Rightarrow> Inr (open_room q ''no_opposing_barrier'' ''no opposing actionable structure ahead''
            (base @ [(''effective_target_pips'', j_opt_float (room_effective q))]) None)
        | Some b \<Rightarrow> Inr (barrier_decision q base b)))"

section \<open>What the decision is\<close>

text \<open>The entries a request is judged against: the actionable ones without walls the candidate shares and bands it sits in.\<close>

definition own_wall :: "room_request \<Rightarrow> map_entry \<Rightarrow> bool" where
  "own_wall q e \<longleftrightarrow>
     glued_entry (room_side q) (boundary_refs (room_side q) (room_low q) (room_high q) (Some (rr_planned_entry_price q)))
       (shared_boundary_epsilon (rr_pip_size q) (rr_atr q)) e \<or>
     rr_allow_same_wall_overlap q \<and>
       overlapping_entry (room_side q) (room_low q) (room_high q) (overlap_exclusion_threshold (rr_pip_size q) (rr_atr q)) e"

lemma upper_side [simp]: "str_upper (room_side q) = room_side q"
  by (simp add: room_side_def str_upper_def)

lemma room_bounds [simp]: "min (room_low q) (room_high q) = room_low q" "max (room_low q) (room_high q) = room_high q"
  by (auto simp: room_low_def room_high_def)

lemma room_entries_iff:
  assumes "valid_request q"
  shows "e \<in> set (room_entries q) \<longleftrightarrow> e \<in> set (rr_actionable_entries q) \<and> \<not> own_wall q e"
  using assms
  by (auto simp: room_entries_def shared_filter_def overlap_filter_def filter_shared_boundary_opposing_entries_def
      filter_overlapping_opposing_entries_def own_wall_def valid_request_def Let_def)

text \<open>An entry that blocks when it is the nearest one.\<close>

definition room_blocks :: "room_request \<Rightarrow> map_entry \<Rightarrow> bool" where
  "room_blocks q b \<longleftrightarrow>
     (if contains_planned (rr_planned_entry_price q) b \<or> raw_room (room_side q) (rr_planned_entry_price q) b \<le> 0
      then str_lower (me_tier b) \<noteq> ''level''
      else max 0 (room_pips q b) < room_cost q)"

abbreviation room_relevant :: "room_request \<Rightarrow> map_entry \<Rightarrow> bool" where
  "room_relevant q \<equiv> relevant_opposing (room_side q) (rr_planned_entry_price q) (room_low q) (room_high q)"

abbreviation room_key :: "room_request \<Rightarrow> map_entry \<Rightarrow> rat \<times> int \<times> rat \<times> rat" where
  "room_key q \<equiv> opposing_key (room_side q) (rr_planned_entry_price q) (room_low q) (room_high q)"

lemma nearest_None: "nearest_opposing side planned low high es = None \<longleftrightarrow> list_all (\<lambda>e. \<not> relevant_opposing side planned low high e) es"
  by (cases "filter (relevant_opposing side planned low high) es") (auto simp: nearest_opposing_def list_all_iff filter_empty_conv filter_eq_Cons_iff)

lemma nearest_Some:
  assumes "nearest_opposing side planned low high es = Some b"
  shows "b \<in> set es" "relevant_opposing side planned low high b"
    "e \<in> set es \<Longrightarrow> relevant_opposing side planned low high e \<Longrightarrow> opposing_key side planned low high b \<le> opposing_key side planned low high e"
proof -
  obtain x xs where f: "filter (relevant_opposing side planned low high) es = x # xs"
    and b: "b = first_min (opposing_key side planned low high) x xs"
    using assms by (auto simp: nearest_opposing_def split: list.splits)
  have s: "set (x # xs) = {e \<in> set es. relevant_opposing side planned low high e}" unfolding f [symmetric] by auto
  have m: "b \<in> set (x # xs)" "\<forall>e \<in> set (x # xs). opposing_key side planned low high b \<le> opposing_key side planned low high e"
    using first_min_least [of "opposing_key side planned low high" x xs] unfolding b by auto
  show "b \<in> set es" "relevant_opposing side planned low high b" using m(1) s by auto
  show "e \<in> set es \<Longrightarrow> relevant_opposing side planned low high e \<Longrightarrow> opposing_key side planned low high b \<le> opposing_key side planned low high e"
    using m(2) s by auto
qed

lemma barrier_decision_fields:
  "rm_allowed (barrier_decision q base b) = (\<not> room_blocks q b)"
  "rm_hard_block (barrier_decision q base b) = room_blocks q b"
  "rm_opposing_entry (barrier_decision q base b) = Some b"
  "rm_fitted_targets_pips (barrier_decision q base b) = (if room_blocks q b then [] else room_targets q)"
  "rm_effective_target_pips (barrier_decision q base b) = (if room_blocks q b then None else room_effective q)"
  by (auto simp: barrier_decision_def room_blocks_def blocked_room_def open_room_def weak_room_def clear_room_def Let_def split: prod.splits)

lemma evaluate_room_cases:
  assumes "evaluate_structural_target_room q = Inr d" "valid_request q"
  obtains base where "nearest_opposing (room_side q) (rr_planned_entry_price q) (room_low q) (room_high q) (room_entries q) = None"
      "d = open_room q ''no_opposing_barrier'' ''no opposing actionable structure ahead''
         (base @ [(''effective_target_pips'', j_opt_float (room_effective q))]) None"
  | base b where "nearest_opposing (room_side q) (rr_planned_entry_price q) (room_low q) (room_high q) (room_entries q) = Some b"
      "d = barrier_decision q base b"
proof -
  obtain state where d: "(case nearest_opposing (room_side q) (rr_planned_entry_price q) (room_low q) (room_high q) (room_entries q) of
      None \<Rightarrow> Inr (open_room q ''no_opposing_barrier'' ''no opposing actionable structure ahead''
        (base_measured q state @ [(''effective_target_pips'', j_opt_float (room_effective q))]) None)
    | Some b \<Rightarrow> Inr (barrier_decision q (base_measured q state) b)) = (Inr d :: room_decision res)"
    using assms by (auto simp: evaluate_structural_target_room_def res_bind_Inr_iff Let_def)
  show thesis
    using that d by (cases "nearest_opposing (room_side q) (rr_planned_entry_price q) (room_low q) (room_high q) (room_entries q)") auto
qed

lemma room_decided:
  assumes "evaluate_structural_target_room q = Inr d" "valid_request q"
  shows "(case rm_opposing_entry d of
            None \<Rightarrow> rm_allowed d \<and> list_all (\<lambda>e. \<not> room_relevant q e) (room_entries q)
          | Some b \<Rightarrow> b \<in> set (room_entries q) \<and> room_relevant q b \<and>
              list_all (\<lambda>e. room_relevant q e \<longrightarrow> room_key q b \<le> room_key q e) (room_entries q) \<and>
              rm_allowed d = (\<not> room_blocks q b))"
    "rm_hard_block d = (\<not> rm_allowed d)"
    "rm_fitted_targets_pips d = (if rm_allowed d then room_targets q else [])"
    "rm_effective_target_pips d = (if rm_allowed d then room_effective q else None)"
  using assms
  by (cases rule: evaluate_room_cases;
      auto simp: barrier_decision_fields open_room_def nearest_None list_all_iff dest: nearest_Some)+

text \<open>C26. What the target-room check decides. Of the opposing entries left by the filters it ranks those not wholly behind
  the planned price, and those behind it that overlap the candidate's band. It is judged on the least (distance zero for
  entries around the price or overlapping the band, then tier, then distance); without one the setup is allowed. It blocks if
  the entry contains the price or leaves no raw room, unless it is of tier level, and otherwise if the buffered room is below
  the execution cost. Two of these blocks contradict the docstring: the one below the cost, and the one of an entry
  behind the price that only overlaps the band. An allowed setup keeps the whole configured ladder, sorted and without
  doubles; a blocked one is blocked hard and has no targets.\<close>

theorem target_room_exact:
  assumes "evaluate_structural_target_room q = Inr d" "valid_request q"
  shows "((case rm_opposing_entry d of
            None \<Rightarrow> rm_allowed d \<and> list_all (\<lambda>e. \<not> room_relevant q e) (room_entries q)
          | Some b \<Rightarrow> b \<in> set (room_entries q) \<and> room_relevant q b \<and>
              list_all (\<lambda>e. room_relevant q e \<longrightarrow> room_key q b \<le> room_key q e) (room_entries q) \<and>
              rm_allowed d = (\<not> room_blocks q b))) \<and>
    (rm_hard_block d = (\<not> rm_allowed d)) \<and>
    (rm_fitted_targets_pips d = (if rm_allowed d then room_targets q else [])) \<and>
    (rm_effective_target_pips d = (if rm_allowed d then room_effective q else None))"
  by (intro conjI room_decided [OF assms])

text \<open>What lies on the far side of the planned entry contains it or overlaps the band.\<close>

lemma relevant_cases:
  assumes "relevant_opposing side planned low high e" "side \<in> {''BUY'', ''SELL''}" "raw_room side planned e \<le> 0"
  shows "contains_planned planned e \<or> overlaps_candidate low high e"
  using assms by (auto simp: relevant_opposing_def raw_room_def contains_planned_def)

text \<open>An opposing entry the ranking leaves out lies wholly behind the planned price.\<close>

definition wholly_behind :: "string \<Rightarrow> rat \<Rightarrow> map_entry \<Rightarrow> bool" where
  "wholly_behind side planned e \<longleftrightarrow> (if side = ''BUY'' then me_hi e < planned else planned < me_lo e)"

lemma not_relevant:
  assumes "opposes_side side e" "\<not> relevant_opposing side planned low high e"
  shows "wholly_behind side planned e \<and> \<not> contains_planned planned e \<and> \<not> overlaps_candidate low high e"
  using assms by (auto simp: relevant_opposing_def wholly_behind_def contains_planned_def split: if_splits)

lemma room_clear:
  assumes "evaluate_structural_target_room q = Inr d" "valid_request q" "rm_allowed d"
    "list_all (\<lambda>b. \<not> contains_planned (rr_planned_entry_price q) b \<and> \<not> overlaps_candidate (room_low q) (room_high q) b)
       (case rm_opposing_entry d of None \<Rightarrow> [] | Some b \<Rightarrow> [b])"
    "e \<in> set (rr_actionable_entries q)" "\<not> own_wall q e" "room_relevant q e"
  shows "\<not> contains_planned (rr_planned_entry_price q) e" "\<not> overlaps_candidate (room_low q) (room_high q) e"
    "0 < raw_room (room_side q) (rr_planned_entry_price q) e" "room_cost q \<le> max 0 (room_pips q e)"
proof -
  have e: "e \<in> set (room_entries q)" using assms(2,5,6) by (simp add: room_entries_iff)
  have side: "room_side q \<in> {''BUY'', ''SELL''}" and pip: "0 < rr_pip_size q" using assms(2) by (auto simp: valid_request_def)
  obtain b where b: "rm_opposing_entry d = Some b" "room_relevant q b" "room_key q b \<le> room_key q e" "\<not> room_blocks q b"
    using room_decided(1) [OF assms(1,2)] assms(3,7) e by (auto simp: list_all_iff split: option.splits)
  have clear: "\<not> contains_planned (rr_planned_entry_price q) b" "\<not> overlaps_candidate (room_low q) (room_high q) b"
    using assms(4) b(1) by auto
  have raw: "0 < raw_room (room_side q) (rr_planned_entry_price q) b" using relevant_cases [OF b(2) side] clear by fastforce
  have le: "raw_room (room_side q) (rr_planned_entry_price q) b \<le> fst (room_key q e)"
    using b(3) clear raw by (auto simp: opposing_key_def less_eq_prod_def split: if_splits)
  show no: "\<not> contains_planned (rr_planned_entry_price q) e" "\<not> overlaps_candidate (room_low q) (room_high q) e"
    using le raw by (auto simp: opposing_key_def)
  have le': "raw_room (room_side q) (rr_planned_entry_price q) b \<le> raw_room (room_side q) (rr_planned_entry_price q) e"
    using le raw no by (auto simp: opposing_key_def)
  show "0 < raw_room (room_side q) (rr_planned_entry_price q) e" using le' raw by simp
  have "room_pips q b \<le> room_pips q e" using le' pip by (simp add: room_pips_def divide_right_mono)
  then show "room_cost q \<le> max 0 (room_pips q e)" using b(4) clear raw by (auto simp: room_blocks_def)
qed

text \<open>C27. If the check allows a setup, and the entry it was judged on neither contains the planned price nor overlaps the
  band, then no opposing entry of the map does, whether or not the ranking looked at it (entries taken for the candidate's
  own wall apart): each of them lies wholly behind the planned price, or it leaves raw room ahead, and buffered room of at
  least the execution cost.\<close>

theorem allowed_room_is_clear:
  assumes "evaluate_structural_target_room q = Inr d" "valid_request q" "rm_allowed d"
    "list_all (\<lambda>b. \<not> contains_planned (rr_planned_entry_price q) b \<and> \<not> overlaps_candidate (room_low q) (room_high q) b)
       (case rm_opposing_entry d of None \<Rightarrow> [] | Some b \<Rightarrow> [b])"
    "e \<in> set (rr_actionable_entries q)" "opposes_side (room_side q) e" "\<not> own_wall q e"
  shows "(\<not> contains_planned (rr_planned_entry_price q) e) \<and>
    (\<not> overlaps_candidate (room_low q) (room_high q) e) \<and>
    (wholly_behind (room_side q) (rr_planned_entry_price q) e \<or>
     0 < raw_room (room_side q) (rr_planned_entry_price q) e \<and> room_cost q \<le> max 0 (room_pips q e))"
proof (cases "room_relevant q e")
  case True
  then show ?thesis using room_clear [OF assms(1-5,7)] by simp
qed (use not_relevant [OF assms(6)] in blast)

lemma level_hides:
  assumes "evaluate_structural_target_room q = Inr d" "valid_request q" "e \<in> set (room_entries q)"
    "opposes_side (room_side q) e" "contains_planned (rr_planned_entry_price q) e" "str_lower (me_tier e) = ''level''"
    "list_all (\<lambda>f. opposes_side (room_side q) f \<and> (contains_planned (rr_planned_entry_price q) f \<or> overlaps_candidate (room_low q) (room_high q) f) \<longrightarrow> f = e)
       (room_entries q)"
  shows "rm_allowed d" "rm_opposing_entry d = Some e" "rm_fitted_targets_pips d = room_targets q"
proof -
  have side: "room_side q \<in> {''BUY'', ''SELL''}" using assms(2) by (auto simp: valid_request_def)
  have rel: "room_relevant q e" using assms(4,5) by (auto simp: relevant_opposing_def contains_planned_def)
  obtain b where b: "rm_opposing_entry d = Some b" "b \<in> set (room_entries q)" "room_relevant q b" "room_key q b \<le> room_key q e"
    "rm_allowed d = (\<not> room_blocks q b)"
    using room_decided(1) [OF assms(1,2)] assms(3) rel by (auto simp: list_all_iff split: option.splits)
  have "fst (room_key q b) \<le> 0" using b(4) assms(5) by (auto simp: opposing_key_def less_eq_prod_def split: if_splits)
  then have "contains_planned (rr_planned_entry_price q) b \<or> overlaps_candidate (room_low q) (room_high q) b"
    using relevant_cases [OF b(3) side] by (fastforce simp: opposing_key_def split: if_splits)
  then have "b = e" using assms(7) b(2,3) by (auto simp: list_all_iff relevant_opposing_def)
  then show "rm_allowed d" "rm_opposing_entry d = Some e" using b(1,5) assms(5,6) by (auto simp: room_blocks_def)
  then show "rm_fitted_targets_pips d = room_targets q" using room_decided(3) [OF assms(1,2)] by simp
qed

text \<open>C28. A weak level around the planned price decides alone: if no other entry contains the price or overlaps the band, the
  setup is allowed with its whole ladder, however close the barriers ahead are.\<close>

theorem weak_level_hides_barriers:
  assumes "evaluate_structural_target_room q = Inr d" "valid_request q" "e \<in> set (room_entries q)"
    "opposes_side (room_side q) e" "contains_planned (rr_planned_entry_price q) e" "str_lower (me_tier e) = ''level''"
    "list_all (\<lambda>f. opposes_side (room_side q) f \<and> (contains_planned (rr_planned_entry_price q) f \<or> overlaps_candidate (room_low q) (room_high q) f) \<longrightarrow> f = e)
       (room_entries q)"
  shows "(rm_allowed d) \<and>
    (rm_opposing_entry d = Some e) \<and>
    (rm_fitted_targets_pips d = room_targets q)"
  by (intro conjI level_hides [OF assms])

text \<open>A buy at 2000 below a supply zone at 2005, and one whose barrier at 2000.5 is hidden by a level around the entry.\<close>

definition demo_entry :: "rat \<Rightarrow> rat \<Rightarrow> string \<Rightarrow> map_entry" where
  "demo_entry lo hi tier =
     \<lparr>me_side = ''sell'', me_lo = lo, me_hi = hi, me_label_lo = lo, me_label_hi = hi, me_tier = tier, me_tags = [''H1''],
      me_score = 3, me_contains_price = False\<rparr>"

definition demo_room :: "map_entry list \<Rightarrow> room_request" where
  "demo_room entries =
     \<lparr>rr_direction = ''buy'', rr_planned_entry_price = 2000, rr_entry_low = 1998, rr_entry_high = 2000,
      rr_configured_target_pips = [60, 30, 90, 30], rr_actionable_entries = entries, rr_atr = 2, rr_pip_size = 1 / 10,
      rr_barrier_buffer_atr = 1 / 10, rr_min_capped_target_pips = 15, rr_execution_cost_pips = 10, rr_displacement_state = None,
      rr_room_reference_source = Some ''v8_zone_proximal'', rr_executable_entry_price = Some 2000,
      rr_shared_boundary_state = Some [(''applied'', JBool False)], rr_allow_same_wall_overlap = False\<rparr>"

definition demo_ahead :: room_request where "demo_ahead = demo_room [demo_entry 2005 2008 ''major'']"
definition demo_hidden :: room_request where
  "demo_hidden = demo_room [demo_entry (4001 / 2) 2008 ''major'', demo_entry 1999 (8001 / 4) ''level'']"

lemma demo_rooms_valid: "valid_request demo_ahead" "valid_request demo_hidden"
  by code_simp+

lemma demo_rooms_return:
  "\<exists>d. evaluate_structural_target_room demo_ahead = Inr d \<and> rm_allowed d \<and>
     rm_opposing_entry d = Some (demo_entry 2005 2008 ''major'')"
  "\<exists>d. evaluate_structural_target_room demo_hidden = Inr d"
proof -
  have "case evaluate_structural_target_room demo_ahead of
      Inl e \<Rightarrow> False | Inr d \<Rightarrow> rm_allowed d \<and> rm_opposing_entry d = Some (demo_entry 2005 2008 ''major'')" by code_simp
  then show "\<exists>d. evaluate_structural_target_room demo_ahead = Inr d \<and> rm_allowed d \<and>
     rm_opposing_entry d = Some (demo_entry 2005 2008 ''major'')" by (auto split: sum.splits)
  have "case evaluate_structural_target_room demo_hidden of Inl e \<Rightarrow> False | Inr d \<Rightarrow> True" by code_simp
  then show "\<exists>d. evaluate_structural_target_room demo_hidden = Inr d" by (auto split: sum.splits)
qed

theorem target_room_exact_witness:
  "\<exists>d. evaluate_structural_target_room demo_ahead = Inr d \<and> rm_opposing_entry d = Some (demo_entry 2005 2008 ''major'') \<and>
     \<not> room_blocks demo_ahead (demo_entry 2005 2008 ''major'') \<and> \<not> rm_hard_block d \<and> rm_fitted_targets_pips d = [30, 60, 90]"
proof -
  obtain d where d: "evaluate_structural_target_room demo_ahead = Inr d" "rm_allowed d"
    "rm_opposing_entry d = Some (demo_entry 2005 2008 ''major'')"
    using demo_rooms_return(1) by auto
  have "room_targets demo_ahead = [30, 60, 90]" by code_simp
  then show ?thesis using target_room_exact [OF d(1) demo_rooms_valid(1)] d by (auto split: option.splits)
qed

theorem allowed_room_is_clear_witness:
  "0 < raw_room ''BUY'' 2000 (demo_entry 2005 2008 ''major'') \<and> 10 \<le> max 0 (room_pips demo_ahead (demo_entry 2005 2008 ''major''))"
proof -
  obtain d where d: "evaluate_structural_target_room demo_ahead = Inr d" "rm_allowed d"
    "rm_opposing_entry d = Some (demo_entry 2005 2008 ''major'')"
    using demo_rooms_return(1) by auto
  have c: "\<not> contains_planned (rr_planned_entry_price demo_ahead) (demo_entry 2005 2008 ''major'')"
    "\<not> overlaps_candidate (room_low demo_ahead) (room_high demo_ahead) (demo_entry 2005 2008 ''major'')"
    "opposes_side (room_side demo_ahead) (demo_entry 2005 2008 ''major'')" "\<not> own_wall demo_ahead (demo_entry 2005 2008 ''major'')"
    "\<not> wholly_behind (room_side demo_ahead) (rr_planned_entry_price demo_ahead) (demo_entry 2005 2008 ''major'')"
    by code_simp+
  have e: "demo_entry 2005 2008 ''major'' \<in> set (rr_actionable_entries demo_ahead)" by (simp add: demo_ahead_def demo_room_def)
  have v: "room_side demo_ahead = ''BUY''" "rr_planned_entry_price demo_ahead = 2000" "room_cost demo_ahead = 10" by code_simp+
  show ?thesis
    using allowed_room_is_clear [OF d(1) demo_rooms_valid(1) d(2) _ e c(3,4)] c(1,2,5) d(3) v by simp
qed

theorem weak_level_hides_barriers_witness:
  "\<exists>d. evaluate_structural_target_room demo_hidden = Inr d \<and> rm_allowed d \<and> rm_fitted_targets_pips d = [30, 60, 90] \<and>
     room_blocks demo_hidden (demo_entry (4001 / 2) 2008 ''major'')"
proof -
  obtain d where d: "evaluate_structural_target_room demo_hidden = Inr d" using demo_rooms_return(2) by auto
  let ?e = "demo_entry 1999 (8001 / 4) ''level''"
  have m: "opposes_side (room_side demo_hidden) ?e" "contains_planned (rr_planned_entry_price demo_hidden) ?e" "str_lower (me_tier ?e) = ''level''"
    "\<not> own_wall demo_hidden ?e" "room_blocks demo_hidden (demo_entry (4001 / 2) 2008 ''major'')" "room_targets demo_hidden = [30, 60, 90]"
    by code_simp+
  have e: "?e \<in> set (room_entries demo_hidden)"
    using m(4) by (simp add: room_entries_iff [OF demo_rooms_valid(2)]) (simp add: demo_hidden_def demo_room_def)
  have only: "list_all (\<lambda>f. opposes_side (room_side demo_hidden) f \<and> (contains_planned (rr_planned_entry_price demo_hidden) f \<or>
      overlaps_candidate (room_low demo_hidden) (room_high demo_hidden) f) \<longrightarrow> f = ?e) (room_entries demo_hidden)"
    by code_simp
  show ?thesis using weak_level_hides_barriers [OF d demo_rooms_valid(2) e m(1-3) only] m(5,6) d by auto
qed

end
