(* ===== verification/ProtectiveStop.thy ===== *)
theory ProtectiveStop
  imports PyPrelude StrategyNames
begin

text \<open>
  Where the stop of a trade goes (\<open>app/autotrade/protective_stop.py\<close>): one entry, the group of legs of a zone, a scalp; its
  pip envelope; and the split of a size over legs. Amounts are exact rationals: the 28 digits to which the decimal context
  rounds a quotient are not modelled. An argument that is no finite number is \<open>None\<close>. Of the diagnostics of an error
  only the detail is kept.
\<close>

section \<open>Inputs\<close>

type_synonym amount = "rat option"

definition stop_error :: "string \<Rightarrow> 'a res" where
  "stop_error message = Inl (ProtectiveStopError message [])"

definition stop_error_detail :: "string \<Rightarrow> string \<Rightarrow> 'a res" where
  "stop_error_detail message detail = Inl (ProtectiveStopError message detail)"

definition stop_check :: "bool \<Rightarrow> string \<Rightarrow> unit res" where
  "stop_check bad message = (if bad then stop_error message else Inr ())"

definition decimal_value :: "amount \<Rightarrow> string \<Rightarrow> rat res" where
  "decimal_value a name = (case a of None \<Rightarrow> stop_error (name @ '' is invalid'') | Some q \<Rightarrow> Inr q)"

record opposing_zone =
  oz_zone_id :: "string option"
  oz_low :: rat
  oz_high :: rat
  oz_execution_grade :: bool
  oz_push_beyond_zone :: bool
  oz_buffer_atr :: rat

definition STOP_PLAN_VERSION :: int where "STOP_PLAN_VERSION = 2"

record stop_plan =
  fp_entry_price :: rat
  fp_base_stop_price :: rat
  fp_base_stop_pips :: rat
  fp_final_stop_price :: rat
  fp_final_stop_distance :: rat
  fp_final_stop_pips :: rat
  fp_raw_stop_price :: rat
  fp_clamped :: bool
  fp_source :: string
  fp_adjustment :: string
  fp_adjustment_zone_id :: "string option"
  fp_adjustment_zone_low :: "rat option"
  fp_adjustment_zone_high :: "rat option"
  fp_version :: int

text \<open>The fields of the contract a plan publishes; \<open>fmt\<close> is the plain text of an amount.\<close>

definition candidate_fields :: "(rat \<Rightarrow> string) \<Rightarrow> stop_plan \<Rightarrow> rat \<Rightarrow> (string \<times> json) list" where
  "candidate_fields fmt p entry_price =
     [(''planned_stop_entry_price'', JStr (fmt entry_price)),
      (''planned_stop_price'', JStr (fmt (fp_final_stop_price p))),
      (''planned_stop_distance'', JStr (fmt (fp_final_stop_distance p))),
      (''planned_stop_pips'', JStr (fmt (fp_final_stop_pips p))),
      (''planned_stop_raw_price'', JStr (fmt (fp_raw_stop_price p))),
      (''planned_stop_clamped'', JBool (fp_clamped p \<or> fp_adjustment p = ''opposing_zone_push'')),
      (''stop_source'', JStr (fp_source p)),
      (''stop_plan_version'', JInt (fp_version p)),
      (''planned_base_stop_price'', JStr (fmt (fp_base_stop_price p))),
      (''planned_base_stop_pips'', JStr (fmt (fp_base_stop_pips p))),
      (''planned_final_stop_price'', JStr (fmt (fp_final_stop_price p))),
      (''planned_final_stop_distance'', JStr (fmt (fp_final_stop_distance p))),
      (''planned_final_stop_pips'', JStr (fmt (fp_final_stop_pips p))),
      (''stop_adjustment'', JStr (fp_adjustment p))] @
     (case fp_adjustment_zone_id p of None \<Rightarrow> [] | Some z \<Rightarrow> [(''stop_adjustment_zone_id'', JStr z)]) @
     (case fp_adjustment_zone_low p of None \<Rightarrow> [] | Some q \<Rightarrow> [(''stop_adjustment_zone_low'', JStr (fmt q))]) @
     (case fp_adjustment_zone_high p of None \<Rightarrow> [] | Some q \<Rightarrow> [(''stop_adjustment_zone_high'', JStr (fmt q))])"

text \<open>The configured values, \<open>None\<close> where unset; the resolver of an instrument has been applied. The two texts of the scalp
  envelope are the values as numbers, \<open>None\<close> where they are no number or falsy.\<close>

record stop_config =
  sc_zone_max_width_atr :: "rat option"
  sc_zone_max_width_pips :: "rat option"
  sc_stop_push_beyond_zone :: "bool option"
  sc_add_stop_buffer_atr :: "rat option"
  sc_add_min_stop_pips :: "int option"
  sc_sl_distance :: "rat option"
  sc_trend_minimum_pips :: "int option"
  sc_trend_stop_max_pips :: "int option"
  sc_reaction_stop_min_pips :: "int option"
  sc_reaction_stop_max_pips :: "int option"
  sc_reaction_room_stop_min_rr :: "rat option"
  sc_stops_reaction_room_floor_pips :: "int option"
  sc_range_min_rr :: "rat option"
  sc_range_room_stop_floor_pips :: "int option"
  sc_scalp_minimum_pips :: "rat option"
  sc_scalp_maximum_pips :: "rat option"
  sc_fixed_rr :: bool

definition opposing_zone_context_from_values ::
  "amount option \<Rightarrow> amount option \<Rightarrow> string option \<Rightarrow> amount \<Rightarrow> amount \<Rightarrow> stop_config \<Rightarrow> opposing_zone option res" where
  "opposing_zone_context_from_values zone_low zone_high zone_id atr pip_size cfg =
     (case (zone_low, zone_high) of
        (Some l, Some h) \<Rightarrow>
          res_bind (decimal_value l ''opposing_zone_low'') (\<lambda>low.
          res_bind (decimal_value h ''opposing_zone_high'') (\<lambda>high.
          if low \<le> 0 \<or> high \<le> 0 \<or> low \<ge> high then Inr None
          else res_bind (decimal_value atr ''atr'') (\<lambda>atr_value.
          res_bind (decimal_value pip_size ''pip_size'') (\<lambda>pip.
          let width = high - low;
              max_width_atr = (case sc_zone_max_width_atr cfg of Some x \<Rightarrow> x | None \<Rightarrow> 2);
              max_width_pips = (case sc_zone_max_width_pips cfg of Some x \<Rightarrow> x | None \<Rightarrow> 100) in
          Inr (Some \<lparr>oz_zone_id = zone_id, oz_low = low, oz_high = high,
            oz_execution_grade = (width > 0 \<and> (atr_value > 0 \<and> width / atr_value \<le> max_width_atr) \<and>
              (pip > 0 \<and> width / pip \<le> max_width_pips)),
            oz_push_beyond_zone = (case sc_stop_push_beyond_zone cfg of Some b \<Rightarrow> b | None \<Rightarrow> True),
            oz_buffer_atr = (case sc_add_stop_buffer_atr cfg of Some x \<Rightarrow> x | None \<Rightarrow> 3 / 10)\<rparr>)))))
      | _ \<Rightarrow> Inr None)"

section \<open>One entry\<close>

text \<open>The conditional expressions on the direction: a price \<open>d\<close> towards the loss of \<open>x\<close>, how far \<open>x\<close> is on the losing side of
  an entry, and the further of two prices.\<close>

definition beyond :: "string \<Rightarrow> rat \<Rightarrow> rat \<Rightarrow> rat" where
  "beyond direction x d = (if direction = ''BUY'' then x - d else x + d)"

definition loss :: "string \<Rightarrow> rat \<Rightarrow> rat \<Rightarrow> rat" where
  "loss direction entry x = (if direction = ''BUY'' then entry - x else x - entry)"

definition further :: "string \<Rightarrow> rat \<Rightarrow> rat \<Rightarrow> rat" where
  "further direction x y = (if direction = ''BUY'' then min x y else max x y)"

text \<open>The structural stop, or the one behind the swept wick when that is further.\<close>

definition with_wick :: "string \<Rightarrow> rat \<Rightarrow> rat \<Rightarrow> amount option \<Rightarrow> rat \<Rightarrow> rat \<Rightarrow> int \<Rightarrow> rat \<Rightarrow> (rat \<times> string) res" where
  "with_wick direction entry structural sweep_extreme wick_buffer atr maximum pip =
     (case sweep_extreme of
        None \<Rightarrow> Inr (structural, ''structure'')
      | Some s \<Rightarrow>
          res_bind (decimal_value s ''sweep_extreme'') (\<lambda>sweep.
          res_bind (stop_check (sweep \<le> 0) ''Sweep extreme is invalid'') (\<lambda>_.
          let wick = beyond direction sweep (wick_buffer * atr) in
          res_bind (stop_check (loss direction entry wick \<le> 0) ''Sweep invalidation is not on the losing side of entry'') (\<lambda>_.
          res_bind (stop_check (loss direction entry wick / pip > of_int maximum) ''stop_exceeds_envelope_after_wick'') (\<lambda>_.
          let selected = further direction structural wick in
          Inr (selected, if selected = wick \<and> selected \<noteq> structural then ''wick''
                         else if selected = wick then ''structure_and_wick'' else ''structure''))))))"

record base_stop =
  bs_price :: rat
  bs_distance :: rat
  bs_pips :: rat
  bs_raw :: rat
  bs_clamped :: bool
  bs_source :: string

definition plan_base_stop ::
  "string \<Rightarrow> rat \<Rightarrow> rat \<Rightarrow> rat \<Rightarrow> rat \<Rightarrow> amount option \<Rightarrow> rat \<Rightarrow> int \<Rightarrow> int \<Rightarrow> rat \<Rightarrow> int \<Rightarrow> base_stop res" where
  "plan_base_stop direction entry swing atr structure_buffer sweep_extreme wick_buffer minimum maximum pip digits =
     res_bind (with_wick direction entry (beyond direction swing (structure_buffer * atr)) sweep_extreme wick_buffer atr maximum pip)
       (\<lambda>(raw_stop, source).
     let raw_distance = loss direction entry raw_stop in
     res_bind (stop_check (raw_distance \<le> 0) ''Structure invalidation is not on the losing side of entry'') (\<lambda>_.
     let raw_pips = raw_distance / pip;
         stop_pips = min (max raw_pips (of_int minimum)) (of_int maximum);
         stop_price = quantize_half_up (nat digits) (beyond direction entry (stop_pips * pip));
         distance = \<bar>entry - stop_price\<bar>;
         final_pips = distance / pip in
     Inr \<lparr>bs_price = stop_price, bs_distance = distance, bs_pips = final_pips, bs_raw = raw_stop,
          bs_clamped = (final_pips \<noteq> raw_pips), bs_source = source\<rparr>))"

record zone_push =
  zp_price :: rat
  zp_distance :: rat
  zp_pips :: rat
  zp_adjustment :: string
  zp_zone :: "opposing_zone option"

text \<open>A stop that would rest inside the zone of the other side is pushed beyond it.\<close>

definition apply_opposing_zone_push ::
  "string \<Rightarrow> rat \<Rightarrow> rat \<Rightarrow> rat \<Rightarrow> opposing_zone \<Rightarrow> rat \<Rightarrow> int \<Rightarrow> rat \<Rightarrow> int \<Rightarrow> zone_push res" where
  "apply_opposing_zone_push direction entry base_price base_pips zone atr maximum pip digits =
     (if \<not> oz_execution_grade zone \<or> base_price < oz_low zone \<or> base_price > oz_high zone
      then Inr \<lparr>zp_price = base_price, zp_distance = \<bar>entry - base_price\<bar>, zp_pips = base_pips, zp_adjustment = ''none'',
                zp_zone = None\<rparr>
      else if \<not> oz_push_beyond_zone zone then stop_error_detail ''stop_inside_opposing_zone'' ''push_disabled''
      else let buffer = oz_buffer_atr zone * atr;
               pushed = beyond direction (if direction = ''BUY'' then oz_low zone else oz_high zone) buffer;
               price = quantize_half_up (nat digits) pushed; distance = \<bar>entry - price\<bar> in
      if direction = ''BUY'' \<and> price \<ge> entry \<or> direction = ''SELL'' \<and> price \<le> entry
      then stop_error_detail ''Opposing-zone push is not on the losing side of entry'' ''pushed_not_losing_side''
      else if distance / pip > of_int maximum
      then stop_error_detail ''stop_inside_opposing_zone'' ''pushed_exceeds_max_envelope''
      else Inr \<lparr>zp_price = price, zp_distance = distance, zp_pips = distance / pip, zp_adjustment = ''opposing_zone_push'',
                zp_zone = Some zone\<rparr>)"

definition final_plan :: "rat \<Rightarrow> base_stop \<Rightarrow> stop_plan" where
  "final_plan entry base =
     \<lparr>fp_entry_price = entry, fp_base_stop_price = bs_price base, fp_base_stop_pips = bs_pips base,
      fp_final_stop_price = bs_price base, fp_final_stop_distance = bs_distance base, fp_final_stop_pips = bs_pips base,
      fp_raw_stop_price = bs_raw base, fp_clamped = bs_clamped base, fp_source = bs_source base, fp_adjustment = ''none'',
      fp_adjustment_zone_id = None, fp_adjustment_zone_low = None, fp_adjustment_zone_high = None,
      fp_version = STOP_PLAN_VERSION\<rparr>"

definition pushed_plan :: "stop_plan \<Rightarrow> zone_push \<Rightarrow> stop_plan" where
  "pushed_plan p push =
     p\<lparr>fp_final_stop_price := zp_price push, fp_final_stop_distance := zp_distance push, fp_final_stop_pips := zp_pips push,
       fp_adjustment := zp_adjustment push, fp_adjustment_zone_id := (case zp_zone push of None \<Rightarrow> None | Some z \<Rightarrow> oz_zone_id z),
       fp_adjustment_zone_low := map_option oz_low (zp_zone push), fp_adjustment_zone_high := map_option oz_high (zp_zone push)\<rparr>"

record stop_request =
  sq_direction :: string
  sq_structure_swing :: amount
  sq_atr :: amount
  sq_structure_buffer_atr :: amount
  sq_sweep_extreme :: "amount option"
  sq_wick_buffer_atr :: amount
  sq_minimum_stop_pips :: int
  sq_maximum_stop_pips :: int
  sq_pip_size :: amount
  sq_digits :: int
  sq_opposing_zone :: "opposing_zone option"

definition stop_inputs_invalid :: "string \<Rightarrow> rat \<Rightarrow> rat \<Rightarrow> rat \<Rightarrow> rat \<Rightarrow> rat \<Rightarrow> rat \<Rightarrow> stop_request \<Rightarrow> bool" where
  "stop_inputs_invalid direction entry swing atr structure_buffer wick_buffer pip q \<longleftrightarrow>
     direction \<notin> {''BUY'', ''SELL''} \<or> entry \<le> 0 \<or> swing \<le> 0 \<or> atr \<le> 0 \<or> structure_buffer < 0 \<or> wick_buffer < 0 \<or>
     sq_minimum_stop_pips q \<le> 0 \<or> sq_maximum_stop_pips q < sq_minimum_stop_pips q \<or> pip \<le> 0 \<or> sq_digits q < 0"

definition plan_protective_stop :: "amount \<Rightarrow> stop_request \<Rightarrow> stop_plan res" where
  "plan_protective_stop entry_price q =
     (let direction = str_upper (sq_direction q) in
      res_bind (decimal_value entry_price ''entry_price'') (\<lambda>entry.
      res_bind (decimal_value (sq_structure_swing q) ''structure_swing'') (\<lambda>swing.
      res_bind (decimal_value (sq_atr q) ''atr'') (\<lambda>atr.
      res_bind (decimal_value (sq_structure_buffer_atr q) ''structure_buffer_atr'') (\<lambda>structure_buffer.
      res_bind (decimal_value (sq_wick_buffer_atr q) ''wick_buffer_atr'') (\<lambda>wick_buffer.
      res_bind (decimal_value (sq_pip_size q) ''pip_size'') (\<lambda>pip.
      res_bind (stop_check (stop_inputs_invalid direction entry swing atr structure_buffer wick_buffer pip q)
        ''Structure-stop inputs are invalid'') (\<lambda>_.
      res_bind (plan_base_stop direction entry swing atr structure_buffer (sq_sweep_extreme q) wick_buffer
        (sq_minimum_stop_pips q) (sq_maximum_stop_pips q) pip (sq_digits q)) (\<lambda>base.
      case sq_opposing_zone q of
        None \<Rightarrow> Inr (final_plan entry base)
      | Some zone \<Rightarrow>
          res_bind (apply_opposing_zone_push direction entry (bs_price base) (bs_pips base) zone atr (sq_maximum_stop_pips q) pip
            (sq_digits q)) (\<lambda>push. Inr (pushed_plan (final_plan entry base) push)))))))))))"

text \<open>The stop of an M1 scalp is its invalidation as it stands.\<close>

definition plan_scalp_invalidation_stop ::
  "string \<Rightarrow> amount \<Rightarrow> amount \<Rightarrow> amount \<Rightarrow> amount \<Rightarrow> amount \<Rightarrow> int \<Rightarrow> stop_plan res" where
  "plan_scalp_invalidation_stop direction entry_price structure_swing zone_low zone_high pip_size digits =
     (let side = str_upper direction in
      res_bind (decimal_value entry_price ''entry_price'') (\<lambda>entry.
      res_bind (decimal_value structure_swing ''structure_swing'') (\<lambda>swing.
      res_bind (decimal_value zone_low ''zone_low'') (\<lambda>low.
      res_bind (decimal_value zone_high ''zone_high'') (\<lambda>high.
      res_bind (decimal_value pip_size ''pip_size'') (\<lambda>pip.
      res_bind (stop_check (side \<notin> {''BUY'', ''SELL''} \<or> entry \<le> 0 \<or> swing \<le> 0 \<or> low \<le> 0 \<or> high \<le> 0 \<or> low \<ge> high \<or>
        pip \<le> 0 \<or> digits < 0) ''Scalp invalidation-stop inputs are invalid'') (\<lambda>_.
      let price = quantize_half_up (nat digits) swing; worst = (if side = ''BUY'' then high else low);
          distance = \<bar>worst - price\<bar> in
      res_bind (stop_check (distance \<le> 0) ''Scalp invalidation is not on the losing side of the entry zone'') (\<lambda>_.
      res_bind (stop_check (side = ''BUY'' \<and> \<not> price < low) ''Scalp BUY invalidation is not below the entry zone'') (\<lambda>_.
      res_bind (stop_check (side = ''SELL'' \<and> \<not> price > high) ''Scalp SELL invalidation is not above the entry zone'') (\<lambda>_.
      Inr (final_plan entry \<lparr>bs_price = price, bs_distance = distance, bs_pips = distance / pip, bs_raw = price,
        bs_clamped = False, bs_source = ''scalp_invalidation_verbatim''\<rparr>)))))))))))"

section \<open>The envelope\<close>

definition uses_reaction_room_stop :: "string \<Rightarrow> bool" where
  "uses_reaction_room_stop strategy \<longleftrightarrow> strategy \<in> set REACTION_STRATEGIES"

definition uses_scalp_room_stop :: "string \<Rightarrow> bool" where
  "uses_scalp_room_stop strategy \<longleftrightarrow> strategy \<in> set RANGE_STRATEGIES \<or> strategy \<in> set M1_SCALP_STRATEGIES"

text \<open>The largest positive target of a match, else its cap.\<close>

definition primary_tp_pips_from_match :: "int list \<Rightarrow> rat option \<Rightarrow> rat option" where
  "primary_tp_pips_from_match targets cap =
     (let positive = filter (\<lambda>t. t > 0) (map of_int targets) in
      if positive \<noteq> [] then Some (Max (set positive))
      else (case cap of Some c \<Rightarrow> if c > 0 then Some c else None | None \<Rightarrow> None))"

text \<open>\<open>int(x if x is not None else d) or e\<close>, and the envelope of a scalp.\<close>

definition int_or :: "int option \<Rightarrow> int \<Rightarrow> int \<Rightarrow> int" where
  "int_or x d e = (let i = (case x of Some v \<Rightarrow> v | None \<Rightarrow> d) in if i = 0 then e else i)"

definition truncate_rat :: "rat \<Rightarrow> int" where
  "truncate_rat q = (if q < 0 then \<lceil>q\<rceil> else \<lfloor>q\<rfloor>)"

definition scalp_envelope :: "stop_config \<Rightarrow> int \<times> int" where
  "scalp_envelope cfg =
     (let low = (case sc_scalp_minimum_pips cfg of Some x \<Rightarrow> truncate_rat x | None \<Rightarrow> 12);
          high = (case sc_scalp_maximum_pips cfg of Some x \<Rightarrow> truncate_rat x | None \<Rightarrow> 45) in
      (low, if high < low then low else high))"

definition stop_bounds_for_strategy :: "string \<Rightarrow> amount \<Rightarrow> stop_config \<Rightarrow> (int \<times> int) res" where
  "stop_bounds_for_strategy strategy pip_size cfg =
     (if strategy = ''Range Box Scalp''
      then let minimum = (case sc_add_min_stop_pips cfg of Some i \<Rightarrow> i | None \<Rightarrow> 30);
               sl_distance = (case sc_sl_distance cfg of Some q \<Rightarrow> q | None \<Rightarrow> 13 / 2) in
        res_bind (decimal_value pip_size ''pip_size'') (\<lambda>pip.
        if pip = 0 then Inl ZeroDivisionError
        else Inr (minimum, truncate_rat (sl_distance / pip)))
      else if strategy \<in> set M1_SCALP_STRATEGIES then Inr (scalp_envelope cfg)
      else Inr (case sc_trend_minimum_pips cfg of Some i \<Rightarrow> i | None \<Rightarrow> 40, case sc_trend_stop_max_pips cfg of Some i \<Rightarrow> i | None \<Rightarrow> 60))"

text \<open>Floor, cap, the reward-to-risk of the room and the source of an envelope that follows the room.\<close>

definition room_envelope :: "string \<Rightarrow> int \<times> int \<Rightarrow> stop_config \<Rightarrow> int \<times> int \<times> rat \<times> string" where
  "room_envelope strategy fallback cfg =
     (if uses_scalp_room_stop strategy
      then if strategy \<in> set M1_SCALP_STRATEGIES
        then (fst (scalp_envelope cfg), snd (scalp_envelope cfg), 1, ''scalp_stop_envelope'')
        else (int_or (sc_range_room_stop_floor_pips cfg) 15 15, if snd fallback > 0 then snd fallback else 60,
              or_default (sc_range_min_rr cfg) 1, ''scalp_room'')
      else let reaction_min = int_or (sc_reaction_stop_min_pips cfg) 40 40;
               room_floor = int_or (sc_stops_reaction_room_floor_pips cfg) reaction_min reaction_min;
               floor_pips = max reaction_min room_floor;
               reaction_max = int_or (sc_reaction_stop_max_pips cfg) 60 60;
               trend_cap = int_or (sc_trend_stop_max_pips cfg) 60 60 in
        (floor_pips, max floor_pips (min reaction_max trend_cap), or_default (sc_reaction_room_stop_min_rr cfg) 1, ''reaction_room''))"

record stop_bounds =
  sb_minimum :: int
  sb_maximum :: int
  sb_source :: string
  sb_primary :: "rat option"
  sb_desired :: "int option"

definition stop_bounds_for_reaction_room ::
  "string \<Rightarrow> rat option \<Rightarrow> amount \<Rightarrow> stop_config \<Rightarrow> bool \<Rightarrow> stop_bounds res" where
  "stop_bounds_for_reaction_room strategy primary_tp_pips pip_size cfg for_group_stop =
     res_bind (stop_bounds_for_strategy strategy pip_size cfg) (\<lambda>fallback.
     let plain = (\<lambda>source. \<lparr>sb_minimum = fst fallback, sb_maximum = snd fallback, sb_source = source,
           sb_primary = None, sb_desired = None\<rparr>) in
     if \<not> uses_reaction_room_stop strategy \<and> \<not> uses_scalp_room_stop strategy then Inr (plain ''strategy_default'')
     else let primary = or_default primary_tp_pips 0 in
     if primary \<le> 0 then Inr (plain ''legacy_envelope'')
     else let (floor_raw, cap_raw, rr, source) = room_envelope strategy fallback cfg;
              min_rr = (if rr \<le> 0 then 1 else rr);
              floor_pips = max 1 floor_raw; cap_pips = max floor_pips cap_raw;
              desired = max floor_pips \<lceil>primary / min_rr\<rceil> in
     Inr \<lparr>sb_minimum = (if for_group_stop \<or> sc_fixed_rr cfg then floor_pips else min desired cap_pips),
          sb_maximum = cap_pips, sb_source = source, sb_primary = Some (py_round 3 primary), sb_desired = Some desired\<rparr>)"

section \<open>A group of legs\<close>

definition amounts :: "string \<Rightarrow> amount list \<Rightarrow> rat list res" where
  "amounts name xs = res_map_list (\<lambda>x. decimal_value x name) xs"

text \<open>\<open>sum(price * volume) / sum(volume)\<close>.\<close>

definition volume_weighted_reference_entry :: "amount list \<Rightarrow> amount list \<Rightarrow> rat res" where
  "volume_weighted_reference_entry leg_prices leg_volumes =
     res_bind (amounts ''planned_leg_price'' leg_prices) (\<lambda>prices.
     res_bind (amounts ''resolved_leg_volume'' leg_volumes) (\<lambda>volumes.
     res_bind (stop_check (prices = [] \<or> length prices \<noteq> length volumes)
       ''weighted reference requires matching leg prices and volumes'') (\<lambda>_.
     res_bind (stop_check (list_ex (\<lambda>v. v \<le> 0) volumes) ''resolved leg volumes must be positive'') (\<lambda>_.
     Inr (sum_list (map2 (*) prices volumes) / sum_list volumes)))))"

fun split_lots :: "rat \<Rightarrow> rat list \<Rightarrow> rat list" where
  "split_lots whole [] = []"
| "split_lots whole (r # rs) = quantize_half_up 2 (whole * r) # split_lots whole rs"

definition resolve_entry_leg_lots :: "amount \<Rightarrow> amount list \<Rightarrow> amount \<Rightarrow> rat list res" where
  "resolve_entry_leg_lots total_lots ratios step_lots =
     res_bind (decimal_value total_lots ''total_lots'') (\<lambda>total.
     res_bind (decimal_value step_lots ''step_lots'') (\<lambda>step.
     res_bind (amounts ''leg_ratio'' ratios) (\<lambda>rs.
     res_bind (stop_check (total \<le> 0 \<or> step \<le> 0 \<or> rs = []) ''entry lot split inputs are invalid'') (\<lambda>_.
     res_bind (stop_check (list_ex (\<lambda>r. r \<le> 0) rs) ''entry ratios must all be positive'') (\<lambda>_.
     res_bind (stop_check (\<bar>sum_list rs - 1\<bar> > 1 / 10000) ''entry ratios must sum to 1.0'') (\<lambda>_.
     if length rs = 1 then Inr [quantize_half_up 2 total]
     else let slices = split_lots total (butlast rs); all = slices @ [total - sum_list slices] in
     res_bind (stop_check (list_ex (\<lambda>s. s < step) all) ''resolved entry legs fall below broker step'') (\<lambda>_.
     res_bind (stop_check (sum_list all \<noteq> total) ''resolved entry legs do not sum to total lots'') (\<lambda>_.
     Inr all))))))))"

definition EPSILON :: rat where "EPSILON = 1 / 1000000"

text \<open>The nearest and the furthest leg from the stop, and the distance of each leg in pips.\<close>

definition nearest_leg :: "string \<Rightarrow> rat list \<Rightarrow> rat" where
  "nearest_leg direction prices = (if direction = ''BUY'' then Min (set prices) else Max (set prices))"

definition furthest_leg :: "string \<Rightarrow> rat list \<Rightarrow> rat" where
  "furthest_leg direction prices = (if direction = ''BUY'' then Max (set prices) else Min (set prices))"

definition leg_pips :: "string \<Rightarrow> rat \<Rightarrow> rat list \<Rightarrow> rat \<Rightarrow> rat list" where
  "leg_pips direction pip prices stop = map (\<lambda>price. loss direction price stop / pip) prices"

definition tightest :: "rat list \<Rightarrow> rat" where "tightest pips = Min (set pips)"
definition widest :: "rat list \<Rightarrow> rat" where "widest pips = Max (set pips)"

text \<open>The invalidation moved outside the zone and beyond every leg.\<close>

definition group_raw_stop :: "string \<Rightarrow> rat \<Rightarrow> rat \<Rightarrow> rat list \<Rightarrow> rat \<Rightarrow> int \<Rightarrow> rat" where
  "group_raw_stop direction zone_low zone_high prices structural digits =
     (let tick = 1 / 10 ^ nat digits in
      further direction structural
        (beyond direction (if direction = ''BUY'' then min zone_low (Min (set prices)) else max zone_high (Max (set prices))) tick))"

text \<open>The floor of the nearest leg and the cap of the furthest; the cap gives way to the floor.\<close>

definition group_clamped :: "string \<Rightarrow> rat list \<Rightarrow> rat \<Rightarrow> rat \<Rightarrow> int \<Rightarrow> int \<Rightarrow> rat" where
  "group_clamped direction prices raw_stop pip minimum maximum =
     (let nearest = nearest_leg direction prices; furthest = furthest_leg direction prices;
          floor_stop = beyond direction nearest (of_int minimum * pip);
          cap_stop = beyond direction furthest (of_int maximum * pip);
          stop = further direction raw_stop floor_stop in
      if loss direction cap_stop stop > 0 \<and> loss direction nearest cap_stop / pip + EPSILON \<ge> of_int minimum
      then cap_stop else stop)"

text \<open>Rounded to a tick, and away from the legs when that broke the floor.\<close>

definition group_rounded :: "string \<Rightarrow> rat list \<Rightarrow> rat \<Rightarrow> rat \<Rightarrow> int \<Rightarrow> int \<Rightarrow> rat" where
  "group_rounded direction prices clamped pip minimum digits =
     (let price = quantize_half_up (nat digits) clamped;
          floor_stop = beyond direction (nearest_leg direction prices) (of_int minimum * pip) in
      if tightest (leg_pips direction pip prices price) + EPSILON < of_int minimum
      then (if direction = ''BUY'' then quantize_floor (nat digits) floor_stop else quantize_ceiling (nat digits) floor_stop)
      else price)"

definition inside_entry_zone :: "string \<Rightarrow> rat \<Rightarrow> rat \<Rightarrow> rat \<Rightarrow> bool" where
  "inside_entry_zone direction zone_low zone_high stop = (if direction = ''BUY'' then stop \<ge> zone_low else stop \<le> zone_high)"

definition check_group_stop :: "string \<Rightarrow> rat \<Rightarrow> rat \<Rightarrow> rat list \<Rightarrow> rat \<Rightarrow> rat \<Rightarrow> int \<Rightarrow> int \<Rightarrow> unit res" where
  "check_group_stop direction zone_low zone_high prices stop pip minimum maximum =
     (let pips = leg_pips direction pip prices stop in
      if tightest pips + EPSILON < of_int minimum then stop_error_detail ''stop_cannot_clear_leg_floor'' ''cannot_clear_leg_floor''
      else if widest pips > of_int maximum + EPSILON
      then stop_error_detail ''stop_exceeds_envelope_furthest_leg'' ''furthest_leg_over_max''
      else if inside_entry_zone direction zone_low zone_high stop then stop_error ''stop_inside_entry_zone''
      else stop_check (list_ex (\<lambda>price. loss direction price stop \<le> 0) prices) ''stop_not_beyond_planned_entries'')"

definition group_base ::
  "string \<Rightarrow> rat \<Rightarrow> rat \<Rightarrow> rat list \<Rightarrow> rat \<Rightarrow> rat \<Rightarrow> rat \<Rightarrow> stop_request \<Rightarrow> rat \<Rightarrow> rat \<Rightarrow> base_stop res" where
  "group_base direction zone_low zone_high prices reference structural0 atr q wick_buffer pip =
     res_bind (with_wick direction reference structural0 (sq_sweep_extreme q) wick_buffer atr (sq_maximum_stop_pips q) pip)
       (\<lambda>(structural, source).
     let raw_stop = group_raw_stop direction zone_low zone_high prices structural (sq_digits q);
         raw_distance = loss direction reference raw_stop in
     res_bind (stop_check (raw_distance \<le> 0) ''Structure invalidation is not on the losing side of entry'') (\<lambda>_.
     let stop = group_rounded direction prices
           (group_clamped direction prices raw_stop pip (sq_minimum_stop_pips q) (sq_maximum_stop_pips q)) pip
           (sq_minimum_stop_pips q) (sq_digits q) in
     res_bind (check_group_stop direction zone_low zone_high prices stop pip (sq_minimum_stop_pips q) (sq_maximum_stop_pips q))
       (\<lambda>_.
     let stop_pips = widest (leg_pips direction pip prices stop) in
     Inr \<lparr>bs_price = stop, bs_distance = stop_pips * pip, bs_pips = stop_pips, bs_raw = raw_stop,
          bs_clamped = (stop \<noteq> quantize_half_up (nat (sq_digits q)) raw_stop \<or> stop_pips \<noteq> raw_distance / pip),
          bs_source = source\<rparr>)))"

text \<open>The push of a group stop, checked against the legs again; the furthest leg has no cap here.\<close>

definition group_pushed ::
  "string \<Rightarrow> rat \<Rightarrow> rat \<Rightarrow> rat list \<Rightarrow> rat \<Rightarrow> rat \<Rightarrow> stop_request \<Rightarrow> rat \<Rightarrow> base_stop \<Rightarrow> opposing_zone \<Rightarrow> stop_plan res" where
  "group_pushed direction zone_low zone_high prices reference atr q pip base zone =
     res_bind (apply_opposing_zone_push direction reference (bs_price base) (bs_pips base) zone atr (sq_maximum_stop_pips q) pip
       (sq_digits q)) (\<lambda>push.
     res_bind (stop_check (inside_entry_zone direction zone_low zone_high (zp_price push)) ''stop_inside_entry_zone'') (\<lambda>_.
     let pips = leg_pips direction pip prices (zp_price push) in
     if tightest pips + EPSILON < of_int (sq_minimum_stop_pips q)
     then stop_error_detail ''stop_cannot_clear_leg_floor'' ''opposing_push_breaks_leg_floor''
     else Inr (pushed_plan (final_plan reference base) (push\<lparr>zp_distance := widest pips * pip, zp_pips := widest pips\<rparr>))))"

definition plan_group_protective_stop ::
  "amount \<Rightarrow> amount \<Rightarrow> amount list \<Rightarrow> amount list \<Rightarrow> stop_request \<Rightarrow> stop_plan res" where
  "plan_group_protective_stop entry_zone_low entry_zone_high planned_leg_prices resolved_leg_volumes q =
     (let direction = str_upper (sq_direction q) in
      res_bind (decimal_value entry_zone_low ''entry_zone_low'') (\<lambda>zone_low.
      res_bind (decimal_value entry_zone_high ''entry_zone_high'') (\<lambda>zone_high.
      res_bind (stop_check (zone_low \<le> 0 \<or> zone_high \<le> 0 \<or> zone_low \<ge> zone_high) ''entry zone geometry is invalid'') (\<lambda>_.
      res_bind (amounts ''planned_leg_price'' planned_leg_prices) (\<lambda>prices.
      res_bind (stop_check (prices = []) ''group stop requires planned leg prices'') (\<lambda>_.
      res_bind (volume_weighted_reference_entry (map Some prices) resolved_leg_volumes) (\<lambda>reference.
      res_bind (decimal_value (sq_structure_swing q) ''structure_swing'') (\<lambda>swing.
      res_bind (decimal_value (sq_atr q) ''atr'') (\<lambda>atr.
      res_bind (decimal_value (sq_structure_buffer_atr q) ''structure_buffer_atr'') (\<lambda>structure_buffer.
      res_bind (decimal_value (sq_wick_buffer_atr q) ''wick_buffer_atr'') (\<lambda>wick_buffer.
      res_bind (decimal_value (sq_pip_size q) ''pip_size'') (\<lambda>pip.
      res_bind (stop_check (stop_inputs_invalid direction reference swing atr structure_buffer wick_buffer pip q)
        ''Structure-stop inputs are invalid'') (\<lambda>_.
      res_bind (group_base direction zone_low zone_high prices reference (beyond direction swing (structure_buffer * atr)) atr q
        wick_buffer pip) (\<lambda>base.
      case sq_opposing_zone q of
        None \<Rightarrow> Inr (final_plan reference base)
      | Some zone \<Rightarrow> group_pushed direction zone_low zone_high prices reference atr q pip base zone))))))))))))))"

section \<open>Results\<close>

lemma stop_check_Inr [simp]: "stop_check b m = Inr u \<longleftrightarrow> \<not> b"
  by (simp add: stop_check_def stop_error_def)

lemma stop_errors [simp]:
  "stop_error m \<noteq> Inr x" "Inr x \<noteq> stop_error m" "stop_error_detail m d \<noteq> Inr x" "Inr x \<noteq> stop_error_detail m d"
  by (simp_all add: stop_error_def stop_error_detail_def)

lemma decimal_value_Inr [simp]: "decimal_value a name = Inr q \<longleftrightarrow> a = Some q"
  by (simp add: decimal_value_def split: option.splits)

lemma amounts_Inr: "amounts name xs = Inr qs \<longleftrightarrow> xs = map Some qs"
proof (induction xs arbitrary: qs)
  case (Cons x xs)
  then show ?case by (cases qs) (auto simp: amounts_def res_bind_Inr_iff)
qed (auto simp: amounts_def)

text \<open>A price of the grid of the instrument.\<close>

definition on_grid :: "int \<Rightarrow> rat \<Rightarrow> bool" where
  "on_grid digits q \<longleftrightarrow> q * 10 ^ nat digits \<in> \<int>"

lemma on_grid_quantized:
  "on_grid d (quantize_half_up (nat d) q)" "on_grid d (quantize_floor (nat d) q)" "on_grid d (quantize_ceiling (nat d) q)"
  by (simp_all add: on_grid_def quantize_half_up_def quantize_floor_def quantize_ceiling_def Let_def)

lemma loss_beyond [simp]: "loss direction entry (beyond direction entry d) = d"
  by (simp add: loss_def beyond_def)

section \<open>One entry\<close>

text \<open>The half tick by which rounding may move a stop.\<close>

definition half_tick :: "int \<Rightarrow> rat" where
  "half_tick digits = 1 / (2 * 10 ^ nat digits)"

lemma loss_rounded: "\<bar>loss direction entry (quantize_half_up (nat d) q) - loss direction entry q\<bar> \<le> half_tick d"
  using quantize_half_up_near [of "nat d" q] by (auto simp: loss_def half_tick_def abs_if split: if_splits)

lemma scaled_clamp:
  assumes "0 < p"
  shows "min (max (x / p) a) b * p = min (max x (a * p)) (b * p :: rat)"
proof -
  have m: "y * p \<le> z * p \<longleftrightarrow> y \<le> z" "x / p * p = x" for y z using assms by simp_all
  then have "min y z * p = min (y * p) (z * p)" "max y z * p = max (y * p) (z * p)" for y z
    by (simp_all only: min_def max_def split: if_split) blast+
  then show ?thesis using m(2) by simp
qed

lemma base_stop_facts:
  assumes "plan_base_stop direction entry swing atr sb sweep wb minimum maximum pip digits = Inr b"
    and "0 < pip" "0 < minimum" "minimum \<le> maximum" "half_tick digits < of_int minimum * pip"
  shows "0 < loss direction entry (bs_price b)" "bs_distance b = loss direction entry (bs_price b)"
    "bs_pips b * pip = bs_distance b" "on_grid digits (bs_price b)" "0 < loss direction entry (bs_raw b)"
    "\<bar>bs_distance b - min (max (loss direction entry (bs_raw b)) (of_int minimum * pip)) (of_int maximum * pip)\<bar> \<le> half_tick digits"
proof -
  obtain raw source where raw: "0 < loss direction entry raw"
    and b: "b = (let raw_pips = loss direction entry raw / pip; stop_pips = min (max raw_pips (of_int minimum)) (of_int maximum);
        stop_price = quantize_half_up (nat digits) (beyond direction entry (stop_pips * pip));
        distance = \<bar>entry - stop_price\<bar>; final_pips = distance / pip in
      \<lparr>bs_price = stop_price, bs_distance = distance, bs_pips = final_pips, bs_raw = raw,
       bs_clamped = (final_pips \<noteq> raw_pips), bs_source = source\<rparr>)"
    using assms(1) by (auto simp: plan_base_stop_def res_bind_Inr_iff Let_def)
  define clamped where "clamped = min (max (loss direction entry raw / pip) (of_int minimum)) (of_int maximum) * pip"
  define price where "price = quantize_half_up (nat digits) (beyond direction entry clamped)"
  have near: "\<bar>loss direction entry price - clamped\<bar> \<le> half_tick digits"
    using loss_rounded [of direction entry digits "beyond direction entry clamped"] by (simp add: price_def)
  have clamp: "clamped = min (max (loss direction entry raw) (of_int minimum * pip)) (of_int maximum * pip)"
    unfolding clamped_def by (rule scaled_clamp [OF assms(2)])
  have "of_int minimum * pip \<le> (of_int maximum * pip :: rat)" using assms(2,4) by simp
  then have "of_int minimum * pip \<le> clamped" unfolding clamp by simp
  then have pos: "0 < loss direction entry price" using near assms(5) by linarith
  then have dist: "\<bar>entry - price\<bar> = loss direction entry price" by (auto simp: loss_def split: if_splits)
  have fields: "bs_price b = price" "bs_distance b = \<bar>entry - price\<bar>" "bs_pips b = \<bar>entry - price\<bar> / pip" "bs_raw b = raw"
    by (simp_all add: b Let_def price_def clamped_def)
  show "0 < loss direction entry (bs_price b)" unfolding fields by (rule pos)
  show "bs_distance b = loss direction entry (bs_price b)" unfolding fields by (rule dist)
  show "bs_pips b * pip = bs_distance b" unfolding fields using assms(2) by simp
  show "on_grid digits (bs_price b)" unfolding fields price_def by (rule on_grid_quantized)
  show "0 < loss direction entry (bs_raw b)" unfolding fields by (rule raw)
  show "\<bar>bs_distance b - min (max (loss direction entry (bs_raw b)) (of_int minimum * pip)) (of_int maximum * pip)\<bar> \<le> half_tick digits"
    unfolding fields dist clamp [symmetric] by (rule near)
qed

text \<open>What is left of a base stop, or where it is pushed.\<close>

definition push_outcome :: "string \<Rightarrow> rat \<Rightarrow> rat \<Rightarrow> opposing_zone option \<Rightarrow> rat \<Rightarrow> int \<Rightarrow> rat \<Rightarrow> int \<Rightarrow> rat \<Rightarrow> string \<Rightarrow> bool" where
  "push_outcome direction entry base zone atr maximum pip digits final adjustment \<longleftrightarrow>
     (adjustment = ''none'' \<and> final = base \<and>
        (case zone of None \<Rightarrow> True
         | Some z \<Rightarrow> oz_execution_grade z \<longrightarrow> base < oz_low z \<or> oz_high z < base) \<or>
      adjustment = ''opposing_zone_push'' \<and> 0 < loss direction entry final \<and> loss direction entry final \<le> of_int maximum * pip \<and>
        on_grid digits final \<and>
        (case zone of None \<Rightarrow> False
         | Some z \<Rightarrow> oz_execution_grade z \<and> oz_push_beyond_zone z \<and> oz_low z \<le> base \<and> base \<le> oz_high z \<and>
             \<bar>loss direction (if direction = ''BUY'' then oz_low z else oz_high z) final - oz_buffer_atr z * atr\<bar> \<le> half_tick digits))"

lemma push_facts:
  assumes "apply_opposing_zone_push direction entry base base_pips zone atr maximum pip digits = Inr push"
    and "direction \<in> {''BUY'', ''SELL''}" "0 < pip"
  shows "push_outcome direction entry base (Some zone) atr maximum pip digits (zp_price push) (zp_adjustment push)"
    "zp_distance push = \<bar>entry - zp_price push\<bar>"
    "zp_adjustment push \<noteq> ''none'' \<Longrightarrow> zp_pips push = zp_distance push / pip"
    "zp_adjustment push = ''none'' \<Longrightarrow> zp_pips push = base_pips"
proof -
  let ?edge = "if direction = ''BUY'' then oz_low zone else oz_high zone"
  let ?price = "quantize_half_up (nat digits) (beyond direction ?edge (oz_buffer_atr zone * atr))"
  consider (kept) "\<not> oz_execution_grade zone \<or> base < oz_low zone \<or> base > oz_high zone"
      "push = \<lparr>zp_price = base, zp_distance = \<bar>entry - base\<bar>, zp_pips = base_pips, zp_adjustment = ''none'', zp_zone = None\<rparr>"
    | (pushed) "oz_execution_grade zone" "oz_low zone \<le> base" "base \<le> oz_high zone" "oz_push_beyond_zone zone"
      "0 < loss direction entry ?price" "\<bar>entry - ?price\<bar> / pip \<le> of_int maximum"
      "push = \<lparr>zp_price = ?price, zp_distance = \<bar>entry - ?price\<bar>, zp_pips = \<bar>entry - ?price\<bar> / pip,
        zp_adjustment = ''opposing_zone_push'', zp_zone = Some zone\<rparr>"
    using assms(1,2) unfolding apply_opposing_zone_push_def Let_def by (auto simp: loss_def not_less not_le split: if_split_asm)
  then have "push_outcome direction entry base (Some zone) atr maximum pip digits (zp_price push) (zp_adjustment push) \<and>
    zp_distance push = \<bar>entry - zp_price push\<bar> \<and>
    (zp_adjustment push \<noteq> ''none'' \<longrightarrow> zp_pips push = zp_distance push / pip) \<and>
    (zp_adjustment push = ''none'' \<longrightarrow> zp_pips push = base_pips)"
  proof cases
    case kept
    then show ?thesis by (auto simp: push_outcome_def)
  next
    case pushed
    have near: "\<bar>loss direction ?edge ?price - oz_buffer_atr zone * atr\<bar> \<le> half_tick digits"
      using loss_rounded [of direction ?edge digits "beyond direction ?edge (oz_buffer_atr zone * atr)"] by (simp only: loss_beyond)
    have "\<bar>entry - ?price\<bar> = loss direction entry ?price" using pushed(5) by (auto simp: loss_def split: if_split_asm)
    then have "loss direction entry ?price \<le> of_int maximum * pip" using pushed(6) assms(3) by (simp add: pos_divide_le_eq)
    with pushed(1-5) near show ?thesis unfolding pushed(7) push_outcome_def by (simp add: on_grid_quantized)
  qed
  then show "push_outcome direction entry base (Some zone) atr maximum pip digits (zp_price push) (zp_adjustment push)"
    "zp_distance push = \<bar>entry - zp_price push\<bar>"
    "zp_adjustment push \<noteq> ''none'' \<Longrightarrow> zp_pips push = zp_distance push / pip"
    "zp_adjustment push = ''none'' \<Longrightarrow> zp_pips push = base_pips" by blast+
qed

lemma single_stop_cases:
  assumes "plan_protective_stop (Some entry) q = Inr p" "sq_pip_size q = Some pip" "sq_atr q = Some atr"
  obtains swing sb wb base where "\<not> stop_inputs_invalid (str_upper (sq_direction q)) entry swing atr sb wb pip q"
    "plan_base_stop (str_upper (sq_direction q)) entry swing atr sb (sq_sweep_extreme q) wb (sq_minimum_stop_pips q)
      (sq_maximum_stop_pips q) pip (sq_digits q) = Inr base"
    "case sq_opposing_zone q of None \<Rightarrow> p = final_plan entry base
      | Some zone \<Rightarrow> \<exists>push. apply_opposing_zone_push (str_upper (sq_direction q)) entry (bs_price base) (bs_pips base) zone atr
          (sq_maximum_stop_pips q) pip (sq_digits q) = Inr push \<and> p = pushed_plan (final_plan entry base) push"
  using assms unfolding plan_protective_stop_def Let_def
  by (cases "sq_opposing_zone q") (auto simp: res_bind_Inr_iff intro: that)

text \<open>C20. A stop that is planned for one entry costs what the envelope allows: it lies on the losing side of the entry, on the
  grid of the instrument; before a push its distance is that of the structural (or wick) invalidation, held between the
  minimum and the maximum, to within half a tick; it stays there unless it would rest inside a zone of the other side that is
  of execution grade, and is then pushed behind that zone by the buffer, never further than the maximum. The published
  distance is the distance to the final stop.\<close>

theorem protective_stop_sound:
  assumes "plan_protective_stop (Some entry) q = Inr p" "sq_pip_size q = Some pip" "sq_atr q = Some atr"
    and "half_tick (sq_digits q) < of_int (sq_minimum_stop_pips q) * pip"
  shows "0 < loss (str_upper (sq_direction q)) entry (fp_final_stop_price p) \<and> on_grid (sq_digits q) (fp_final_stop_price p) \<and>
    fp_final_stop_distance p = loss (str_upper (sq_direction q)) entry (fp_final_stop_price p) \<and>
    fp_final_stop_pips p * pip = fp_final_stop_distance p \<and>
    \<bar>loss (str_upper (sq_direction q)) entry (fp_base_stop_price p) -
      min (max (loss (str_upper (sq_direction q)) entry (fp_raw_stop_price p)) (of_int (sq_minimum_stop_pips q) * pip))
        (of_int (sq_maximum_stop_pips q) * pip)\<bar> \<le> half_tick (sq_digits q) \<and>
    push_outcome (str_upper (sq_direction q)) entry (fp_base_stop_price p) (sq_opposing_zone q) atr (sq_maximum_stop_pips q) pip
      (sq_digits q) (fp_final_stop_price p) (fp_adjustment p)"
proof -
  define D where "D = str_upper (sq_direction q)"
  obtain swing sb wb base where valid: "\<not> stop_inputs_invalid D entry swing atr sb wb pip q"
    and base: "plan_base_stop D entry swing atr sb (sq_sweep_extreme q) wb (sq_minimum_stop_pips q) (sq_maximum_stop_pips q) pip
      (sq_digits q) = Inr base"
    and p: "case sq_opposing_zone q of None \<Rightarrow> p = final_plan entry base
      | Some zone \<Rightarrow> \<exists>push. apply_opposing_zone_push D entry (bs_price base) (bs_pips base) zone atr (sq_maximum_stop_pips q) pip
          (sq_digits q) = Inr push \<and> p = pushed_plan (final_plan entry base) push"
    unfolding D_def by (rule single_stop_cases [OF assms(1-3)])
  have v: "D \<in> {''BUY'', ''SELL''}" "0 < pip" "0 < sq_minimum_stop_pips q" "sq_minimum_stop_pips q \<le> sq_maximum_stop_pips q"
    using valid by (auto simp: stop_inputs_invalid_def)
  note b = base_stop_facts [OF base v(2-4) assms(4)]
  show ?thesis
  proof (cases "sq_opposing_zone q")
    case None
    then have p: "p = final_plan entry base" using p by simp
    show ?thesis
      using b(1,3,4,6) unfolding D_def [symmetric] p final_plan_def None push_outcome_def b(2) by simp
  next
    case (Some zone)
    obtain push where push: "apply_opposing_zone_push D entry (bs_price base) (bs_pips base) zone atr (sq_maximum_stop_pips q) pip
        (sq_digits q) = Inr push" "p = pushed_plan (final_plan entry base) push" using p Some by auto
    note f = push_facts [OF push(1) v(1,2)]
    have final: "0 < loss D entry (zp_price push)" "on_grid (sq_digits q) (zp_price push)"
      using f(1) b(1,4) by (auto simp: push_outcome_def)
    have dist: "zp_distance push = loss D entry (zp_price push)" using f(2) final(1) by (auto simp: loss_def split: if_split_asm)
    have pips: "zp_pips push * pip = zp_distance push"
    proof (cases "zp_adjustment push = ''none''")
      case True
      then have "zp_price push = bs_price base" using f(1) by (simp add: push_outcome_def)
      then show ?thesis using f(4) [OF True] b(2,3) dist by simp
    next
      case False
      then show ?thesis using f(3) v(2) by simp
    qed
    have fields: "fp_final_stop_price p = zp_price push" "fp_final_stop_distance p = zp_distance push"
      "fp_final_stop_pips p = zp_pips push" "fp_base_stop_price p = bs_price base" "fp_raw_stop_price p = bs_raw base"
      "fp_adjustment p = zp_adjustment push" by (simp_all add: push(2) pushed_plan_def final_plan_def)
    show ?thesis
      using final dist pips b(6) f(1) unfolding D_def [symmetric] fields Some b(2) by blast
  qed
qed

section \<open>Splitting a size\<close>

lemma split_lots_length: "length (split_lots whole rs) = length rs"
  by (induction rs) simp_all

lemma split_lots_near:
  assumes "i < length rs"
  shows "\<bar>split_lots whole rs ! i - whole * rs ! i\<bar> \<le> 1 / 200"
  using assms
proof (induction rs arbitrary: i)
  case (Cons r rs)
  then show ?case using quantize_half_up_near [of 2 "whole * r"] by (cases i) simp_all
qed simp

text \<open>A split of a size over two legs or more loses nothing: the legs sum to the size, each is at least a step of the
  broker and, but for the last, within half a hundredth of its share. One leg takes the size rounded to a hundredth, with no
  check against the step: a size below half a hundredth becomes zero.\<close>

theorem lots_split_exact:
  assumes "resolve_entry_leg_lots (Some whole) (map Some rs) (Some step) = Inr lots"
  shows "length lots = length rs \<and> 0 < whole \<and> 0 < step \<and> list_all (\<lambda>r. 0 < r) rs \<and>
    (length rs = 1 \<longrightarrow> lots = [quantize_half_up 2 whole]) \<and>
    (length rs \<noteq> 1 \<longrightarrow> sum_list lots = whole \<and> list_all (\<lambda>l. step \<le> l) lots \<and>
      (\<forall>i < length rs - 1. \<bar>lots ! i - whole * rs ! i\<bar> \<le> 1 / 200))"
proof -
  have rs: "amounts ''leg_ratio'' (map Some rs) = Inr rs" by (simp add: amounts_Inr)
  have checks: "0 < whole" "0 < step" "rs \<noteq> []" "list_all (\<lambda>r. 0 < r) rs"
    using assms unfolding resolve_entry_leg_lots_def by (auto simp: res_bind_Inr_iff rs not_le list_ex_iff list_all_iff)
  define slices where "slices = split_lots whole (butlast rs)"
  have len: "length slices = length rs - 1" by (simp add: slices_def split_lots_length)
  show ?thesis
  proof (cases "length rs = 1")
    case True
    then have "lots = [quantize_half_up 2 whole]"
      using assms unfolding resolve_entry_leg_lots_def by (auto simp: res_bind_Inr_iff rs)
    then show ?thesis using checks True by simp
  next
    case False
    have lots: "lots = slices @ [whole - sum_list slices]" "list_all (\<lambda>l. step \<le> l) lots" "sum_list lots = whole"
      using assms False unfolding resolve_entry_leg_lots_def Let_def
      by (auto simp: slices_def res_bind_Inr_iff rs not_less list_ex_iff list_all_iff)
    have "\<bar>lots ! i - whole * rs ! i\<bar> \<le> 1 / 200" if "i < length rs - 1" for i
      using that split_lots_near [of i "butlast rs" whole] len by (simp add: lots(1) nth_append slices_def nth_butlast)
    then show ?thesis using checks lots(2,3) False len by (simp add: lots(1))
  qed
qed

text \<open>The split of eleven hundredths at 70 to 30 of the documentation, and a size that vanishes.\<close>

theorem lots_split_exact_witness:
  "\<exists>lots. resolve_entry_leg_lots (Some (11 / 100)) [Some (7 / 10), Some (3 / 10)] (Some (1 / 100)) = Inr lots \<and>
     sum_list lots = 11 / 100 \<and> lots = [8 / 100, 3 / 100] \<and>
     resolve_entry_leg_lots (Some (4 / 1000)) [Some 1] (Some (1 / 100)) = Inr [0]"
proof -
  have q: "quantize_half_up 2 (77 / 1000) = 8 / 100" "quantize_half_up 2 (4 / 1000) = 0"
    by (simp_all add: quantize_half_up_def Let_def floor_eq_iff)
  have two: "resolve_entry_leg_lots (Some (11 / 100)) [Some (7 / 10), Some (3 / 10)] (Some (1 / 100)) = Inr [8 / 100, 3 / 100]"
    using q by (simp add: resolve_entry_leg_lots_def amounts_def decimal_value_def stop_check_def)
  have one: "resolve_entry_leg_lots (Some (4 / 1000)) [Some 1] (Some (1 / 100)) = Inr [0]"
    using q by (simp add: resolve_entry_leg_lots_def amounts_def decimal_value_def stop_check_def)
  have "sum_list [8 / 100, 3 / 100 :: rat] = 11 / 100"
    using lots_split_exact [of "11 / 100" "[7 / 10, 3 / 10]" "1 / 100" "[8 / 100, 3 / 100]"] two by simp
  then show ?thesis using two one by blast
qed

section \<open>The envelope\<close>

text \<open>An envelope that follows the room is never empty: for a strategy of reactions or scalps with a target, the minimum
  is at least one pip and at most the maximum.\<close>

lemma room_envelope_proper:
  assumes "stop_bounds_for_reaction_room strategy (Some tp) pip cfg group_stop = Inr b"
    "uses_reaction_room_stop strategy \<or> uses_scalp_room_stop strategy" "0 < tp"
  shows "1 \<le> sb_minimum b \<and> sb_minimum b \<le> sb_maximum b"
proof -
  have tp: "or_default (Some tp) 0 = tp" using assms(3) by (simp add: or_default_def)
  obtain fallback where f: "stop_bounds_for_strategy strategy pip cfg = Inr fallback"
    using assms(1) by (auto simp: stop_bounds_for_reaction_room_def res_bind_Inr_iff)
  obtain fl cap rr source where e: "room_envelope strategy fallback cfg = (fl, cap, rr, source)" by (metis prod_cases4)
  have "(1 :: int) \<le> max 1 fl" by (rule max.cobounded1)
  then have lo: "1 \<le> max (max 1 fl) x" for x by (rule order_trans) (rule max.cobounded1)
  show ?thesis
    using assms unfolding stop_bounds_for_reaction_room_def f res_bind.simps tp Let_def e by (auto simp: lo)
qed

section \<open>A group of legs\<close>

lemma loss_add: "loss direction x z = loss direction x y + loss direction y z"
  by (simp add: loss_def)

lemma leg_bounds:
  assumes "x \<in> set prices"
  shows "tightest (leg_pips direction pip prices stop) \<le> loss direction x stop / pip"
    "loss direction x stop / pip \<le> widest (leg_pips direction pip prices stop)"
  using assms by (auto simp: tightest_def widest_def leg_pips_def intro: Min_le Max_ge)

lemma leg_extremes:
  assumes "prices \<noteq> []"
  shows "\<exists>x \<in> set prices. loss direction x stop / pip = tightest (leg_pips direction pip prices stop)"
    "\<exists>x \<in> set prices. loss direction x stop / pip = widest (leg_pips direction pip prices stop)"
proof -
  let ?P = "set (leg_pips direction pip prices stop)"
  have P: "finite ?P" "?P \<noteq> {}" using assms by (simp_all add: leg_pips_def)
  have "Min ?P \<in> ?P" "Max ?P \<in> ?P" using Min_in [OF P] Max_in [OF P] by blast+
  then show "\<exists>x \<in> set prices. loss direction x stop / pip = tightest (leg_pips direction pip prices stop)"
    "\<exists>x \<in> set prices. loss direction x stop / pip = widest (leg_pips direction pip prices stop)"
    unfolding tightest_def widest_def by (auto simp: leg_pips_def)
qed

lemma nearest_leg_le:
  assumes "x \<in> set prices"
  shows "loss direction (nearest_leg direction prices) stop \<le> loss direction x stop"
    "loss direction x stop \<le> loss direction (furthest_leg direction prices) stop"
  using assms by (auto simp: nearest_leg_def furthest_leg_def loss_def intro: Min_le Max_ge)

lemma further_loss: "0 \<le> loss direction x (further direction x y)" "0 \<le> loss direction y (further direction x y)"
  by (simp_all add: loss_def further_def)

text \<open>Rounding moves a stop towards the legs by half a tick at most.\<close>

lemma group_rounded_further:
  assumes "0 < pip" "prices \<noteq> []"
  shows "- half_tick digits \<le> loss direction clamped (group_rounded direction prices clamped pip minimum digits)"
    "on_grid digits (group_rounded direction prices clamped pip minimum digits)"
proof -
  define price where "price = quantize_half_up (nat digits) clamped"
  define floor_stop where "floor_stop = beyond direction (nearest_leg direction prices) (of_int minimum * pip)"
  define away where "away = (if direction = ''BUY'' then quantize_floor (nat digits) floor_stop else quantize_ceiling (nat digits) floor_stop)"
  have r: "group_rounded direction prices clamped pip minimum digits =
      (if tightest (leg_pips direction pip prices price) + EPSILON < of_int minimum then away else price)"
    by (simp add: group_rounded_def Let_def price_def floor_stop_def away_def)
  have near: "- half_tick digits \<le> loss direction clamped price"
    using loss_rounded [of direction clamped digits clamped] by (simp add: price_def loss_def abs_le_iff)
  have "- half_tick digits \<le> loss direction clamped away"
    if short: "tightest (leg_pips direction pip prices price) + EPSILON < of_int minimum"
  proof -
    obtain x where x: "x \<in> set prices" "loss direction x price / pip = tightest (leg_pips direction pip prices price)"
      using leg_extremes(1) [OF assms(2)] by blast
    have "loss direction x price / pip < of_int minimum" using short x(2) by (simp add: EPSILON_def)
    then have "loss direction x price < of_int minimum * pip" using assms(1) by (simp add: pos_divide_less_eq)
    then have "loss direction (nearest_leg direction prices) price < of_int minimum * pip"
      using nearest_leg_le(1) [OF x(1), of direction price] by linarith
    moreover have "loss direction (nearest_leg direction prices) floor_stop = of_int minimum * pip" by (simp add: floor_stop_def)
    ultimately have "0 < loss direction price floor_stop"
      using loss_add [of direction "nearest_leg direction prices" floor_stop price] by linarith
    moreover have "0 \<le> loss direction floor_stop away"
      using quantize_directed [where q = floor_stop and n = "nat digits"] by (simp add: away_def loss_def)
    ultimately show ?thesis
      using near loss_add [of direction clamped away price] loss_add [of direction price away floor_stop] by linarith
  qed
  then show "- half_tick digits \<le> loss direction clamped (group_rounded direction prices clamped pip minimum digits)"
    using near by (simp add: r)
  show "on_grid digits (group_rounded direction prices clamped pip minimum digits)"
    by (simp add: r price_def away_def on_grid_quantized)
qed

text \<open>A stop is in front of the invalidation only when the cap of the furthest leg put it there.\<close>

lemma group_clamped_cases:
  "0 \<le> loss direction raw (group_clamped direction prices raw pip minimum maximum) \<or>
   group_clamped direction prices raw pip minimum maximum = beyond direction (furthest_leg direction prices) (of_int maximum * pip)"
  using further_loss(1) by (simp add: group_clamped_def Let_def)

definition group_stop_ok :: "string \<Rightarrow> rat \<Rightarrow> rat \<Rightarrow> rat list \<Rightarrow> rat \<Rightarrow> int \<Rightarrow> int \<Rightarrow> rat \<Rightarrow> bool" where
  "group_stop_ok direction zone_low zone_high prices pip minimum digits stop \<longleftrightarrow>
     \<not> inside_entry_zone direction zone_low zone_high stop \<and> on_grid digits stop \<and>
     list_all (\<lambda>x. 0 < loss direction x stop \<and> of_int minimum \<le> loss direction x stop / pip + EPSILON) prices"

definition capped :: "string \<Rightarrow> rat list \<Rightarrow> rat \<Rightarrow> int \<Rightarrow> rat \<Rightarrow> bool" where
  "capped direction prices pip maximum stop \<longleftrightarrow> list_all (\<lambda>x. loss direction x stop / pip \<le> of_int maximum + EPSILON) prices"

lemma group_base_facts:
  assumes "group_base direction zl zh prices reference structural0 atr q wb pip = Inr b" "0 < pip" "prices \<noteq> []"
  shows "group_stop_ok direction zl zh prices pip (sq_minimum_stop_pips q) (sq_digits q) (bs_price b)"
    "capped direction prices pip (sq_maximum_stop_pips q) (bs_price b)"
    "bs_pips b = widest (leg_pips direction pip prices (bs_price b))" "bs_distance b = bs_pips b * pip"
    "- half_tick (sq_digits q) \<le> loss direction (bs_raw b) (bs_price b) \<or>
     of_int (sq_maximum_stop_pips q) * pip - half_tick (sq_digits q) \<le> loss direction (furthest_leg direction prices) (bs_price b)"
proof -
  let ?min = "sq_minimum_stop_pips q" and ?max = "sq_maximum_stop_pips q" and ?d = "sq_digits q"
  obtain raw where check: "check_group_stop direction zl zh prices (bs_price b) pip ?min ?max = Inr ()"
    and price: "bs_price b = group_rounded direction prices (group_clamped direction prices raw pip ?min ?max) pip ?min ?d"
    and rest: "bs_raw b = raw" "bs_pips b = widest (leg_pips direction pip prices (bs_price b))" "bs_distance b = bs_pips b * pip"
    using assms(1) unfolding group_base_def Let_def by (auto simp: res_bind_Inr_iff)
  have c: "of_int ?min \<le> tightest (leg_pips direction pip prices (bs_price b)) + EPSILON"
    "widest (leg_pips direction pip prices (bs_price b)) \<le> of_int ?max + EPSILON"
    "\<not> inside_entry_zone direction zl zh (bs_price b)" "\<forall>x \<in> set prices. 0 < loss direction x (bs_price b)"
    using check by (auto simp: check_group_stop_def Let_def list_ex_iff not_less not_le split: if_split_asm)
  note r = group_rounded_further [OF assms(2,3), of ?d direction "group_clamped direction prices raw pip ?min ?max" ?min, folded price]
  show "group_stop_ok direction zl zh prices pip ?min ?d (bs_price b)"
    using c(1,3,4) r(2) leg_bounds(1) [where direction = direction and pip = pip and prices = prices and stop = "bs_price b"]
    by (auto simp: group_stop_ok_def list_all_iff intro: order_trans)
  show "capped direction prices pip ?max (bs_price b)"
    using c(2) leg_bounds(2) [where direction = direction and pip = pip and prices = prices and stop = "bs_price b"] by (auto simp: capped_def list_all_iff intro: order_trans)
  show "bs_pips b = widest (leg_pips direction pip prices (bs_price b))" "bs_distance b = bs_pips b * pip" using rest by simp_all
  show "- half_tick ?d \<le> loss direction (bs_raw b) (bs_price b) \<or>
     of_int ?max * pip - half_tick ?d \<le> loss direction (furthest_leg direction prices) (bs_price b)"
    using group_clamped_cases [of direction raw prices pip ?min ?max] r(1)
      loss_add [of direction raw "bs_price b" "group_clamped direction prices raw pip ?min ?max"]
      loss_add [of direction "furthest_leg direction prices" "bs_price b" "group_clamped direction prices raw pip ?min ?max"]
    unfolding rest(1) by auto
qed

lemma group_stop_cases:
  assumes "plan_group_protective_stop (Some zl) (Some zh) (map Some prices) volumes q = Inr p" "sq_pip_size q = Some pip"
  obtains reference atr structural0 wb base where "0 < pip" "prices \<noteq> []" "0 < sq_minimum_stop_pips q"
    "str_upper (sq_direction q) \<in> {''BUY'', ''SELL''}"
    "group_base (str_upper (sq_direction q)) zl zh prices reference structural0 atr q wb pip = Inr base"
    "case sq_opposing_zone q of None \<Rightarrow> p = final_plan reference base
     | Some zone \<Rightarrow> group_pushed (str_upper (sq_direction q)) zl zh prices reference atr q pip base zone = Inr p"
proof -
  have prices: "amounts ''planned_leg_price'' (map Some prices) = Inr prices" by (simp add: amounts_Inr)
  show thesis
    using assms unfolding plan_group_protective_stop_def Let_def prices
    by (cases "sq_opposing_zone q") (auto simp: res_bind_Inr_iff stop_inputs_invalid_def not_le intro: that)
qed

text \<open>C21. The stop of a group is safe for every leg: it lies outside the entry zone and beyond each leg by the minimum (to a
  millionth of a pip), on the grid of the instrument, and the reported distance is that of the furthest leg. Before a push
  no leg risks more than the maximum; a push behind a zone of the other side drops that cap. It is in front of the
  invalidation (by more than half a tick) only when the furthest leg is at its cap: the stop is then pulled inward.\<close>

theorem group_stop_sound:
  assumes "plan_group_protective_stop (Some zl) (Some zh) (map Some prices) volumes q = Inr p" "sq_pip_size q = Some pip"
  shows "group_stop_ok (str_upper (sq_direction q)) zl zh prices pip (sq_minimum_stop_pips q) (sq_digits q) (fp_final_stop_price p) \<and>
    fp_final_stop_pips p = widest (leg_pips (str_upper (sq_direction q)) pip prices (fp_final_stop_price p)) \<and>
    fp_final_stop_distance p = fp_final_stop_pips p * pip \<and>
    capped (str_upper (sq_direction q)) prices pip (sq_maximum_stop_pips q) (fp_base_stop_price p) \<and>
    (fp_adjustment p = ''none'' \<longrightarrow> fp_final_stop_price p = fp_base_stop_price p) \<and>
    (sq_opposing_zone q = None \<longrightarrow> fp_adjustment p = ''none'') \<and>
    (- half_tick (sq_digits q) \<le> loss (str_upper (sq_direction q)) (fp_raw_stop_price p) (fp_base_stop_price p) \<or>
     of_int (sq_maximum_stop_pips q) * pip - half_tick (sq_digits q) \<le>
       loss (str_upper (sq_direction q)) (furthest_leg (str_upper (sq_direction q)) prices) (fp_base_stop_price p))"
proof -
  define D where "D = str_upper (sq_direction q)"
  obtain reference atr structural0 wb base where c: "0 < pip" "prices \<noteq> []" "0 < sq_minimum_stop_pips q" "D \<in> {''BUY'', ''SELL''}"
    "group_base D zl zh prices reference structural0 atr q wb pip = Inr base"
    and p: "case sq_opposing_zone q of None \<Rightarrow> p = final_plan reference base
     | Some zone \<Rightarrow> group_pushed D zl zh prices reference atr q pip base zone = Inr p"
    unfolding D_def by (rule group_stop_cases [OF assms])
  note b = group_base_facts [OF c(5,1,2)]
  show ?thesis
  proof (cases "sq_opposing_zone q")
    case None
    then have p: "p = final_plan reference base" using p by simp
    show ?thesis using b unfolding D_def [symmetric] p final_plan_def by simp
  next
    case (Some zone)
    obtain push where push: "apply_opposing_zone_push D reference (bs_price base) (bs_pips base) zone atr (sq_maximum_stop_pips q)
        pip (sq_digits q) = Inr push" "\<not> inside_entry_zone D zl zh (zp_price push)"
      "of_int (sq_minimum_stop_pips q) \<le> tightest (leg_pips D pip prices (zp_price push)) + EPSILON"
      "p = pushed_plan (final_plan reference base) (push\<lparr>zp_distance := widest (leg_pips D pip prices (zp_price push)) * pip,
        zp_pips := widest (leg_pips D pip prices (zp_price push))\<rparr>)"
      using p Some unfolding group_pushed_def Let_def by (auto simp: res_bind_Inr_iff not_less split: if_split_asm)
    note f = push_facts(1) [OF push(1) c(4,1)]
    have grid: "on_grid (sq_digits q) (zp_price push)" using f b(1) by (auto simp: push_outcome_def group_stop_ok_def)
    have legs: "of_int (sq_minimum_stop_pips q) \<le> loss D x (zp_price push) / pip + EPSILON" if "x \<in> set prices" for x
      using push(3) leg_bounds(1) [OF that, of D pip "zp_price push"] by linarith
    have pos: "0 < loss D x (zp_price push)" if "x \<in> set prices" for x
    proof -
      have "(1 :: rat) \<le> of_int (sq_minimum_stop_pips q)" using c(3) by simp
      then have "0 < loss D x (zp_price push) / pip" using legs [OF that] by (simp add: EPSILON_def)
      then show ?thesis using c(1) by (simp add: zero_less_divide_iff)
    qed
    have fields: "fp_final_stop_price p = zp_price push" "fp_final_stop_pips p = widest (leg_pips D pip prices (zp_price push))"
      "fp_final_stop_distance p = widest (leg_pips D pip prices (zp_price push)) * pip" "fp_base_stop_price p = bs_price base"
      "fp_raw_stop_price p = bs_raw base" "fp_adjustment p = zp_adjustment push"
      by (simp_all add: push(4) pushed_plan_def final_plan_def)
    have kept: "zp_adjustment push = ''none'' \<Longrightarrow> zp_price push = bs_price base" using f by (auto simp: push_outcome_def)
    show ?thesis using push(2) grid legs pos kept b(2,5) Some
      unfolding D_def [symmetric] fields group_stop_ok_def by (simp add: list_all_iff)
  qed
qed

definition demo_stop_request :: "rat \<Rightarrow> opposing_zone option \<Rightarrow> stop_request" where
  "demo_stop_request swing zone =
     \<lparr>sq_direction = ''buy'', sq_structure_swing = Some swing, sq_atr = Some 2, sq_structure_buffer_atr = Some (3 / 10),
      sq_sweep_extreme = None, sq_wick_buffer_atr = Some (1 / 10), sq_minimum_stop_pips = 40, sq_maximum_stop_pips = 60,
      sq_pip_size = Some (1 / 10), sq_digits = 2, sq_opposing_zone = zone\<rparr>"

lemma demo_upper: "str_upper ''buy'' = ''BUY''" by code_simp

lemma demo_quantize:
  "quantize_half_up 2 (19977 / 5) = 19977 / 5" "quantize_half_up 2 (19972 / 5) = 19972 / 5" "quantize_half_up 2 3995 = 3995"
  by (simp_all add: quantize_half_up_def Let_def floor_eq_iff)

text \<open>A buy at 4000 with its structure at 3996; a zone of supply from 3995 to 3995.5 around the stop.\<close>

definition demo_supply :: opposing_zone where
  "demo_supply = \<lparr>oz_zone_id = Some ''s1'', oz_low = 3995, oz_high = 3995 + 1 / 2, oz_execution_grade = True,
     oz_push_beyond_zone = True, oz_buffer_atr = 3 / 10\<rparr>"

lemma demo_single:
  "\<exists>p. plan_protective_stop (Some 4000) (demo_stop_request 3996 (Some demo_supply)) = Inr p \<and> fp_final_stop_price p = 19972 / 5"
proof -
  have "\<exists>b. plan_base_stop ''BUY'' 4000 3996 2 (3 / 10) None (1 / 10) 40 60 (1 / 10) 2 = Inr b \<and> bs_price b = 19977 / 5"
    by (simp add: plan_base_stop_def with_wick_def beyond_def loss_def stop_check_def Let_def demo_quantize)
  then obtain b where b: "plan_base_stop ''BUY'' 4000 3996 2 (3 / 10) None (1 / 10) 40 60 (1 / 10) 2 = Inr b" "bs_price b = 19977 / 5"
    by blast
  have "\<exists>push. apply_opposing_zone_push ''BUY'' 4000 (bs_price b) (bs_pips b) demo_supply 2 60 (1 / 10) 2 = Inr push \<and>
      zp_price push = 19972 / 5"
    by (simp add: apply_opposing_zone_push_def demo_supply_def beyond_def Let_def demo_quantize b(2))
  then show ?thesis
    by (auto simp: plan_protective_stop_def demo_stop_request_def demo_upper decimal_value_def stop_check_def
        stop_inputs_invalid_def b(1) pushed_plan_def)
qed

theorem protective_stop_sound_witness:
  "\<exists>p. plan_protective_stop (Some 4000) (demo_stop_request 3996 (Some demo_supply)) = Inr p \<and>
     fp_final_stop_price p = 19972 / 5 \<and> fp_final_stop_distance p = 28 / 5"
proof -
  obtain p where p: "plan_protective_stop (Some 4000) (demo_stop_request 3996 (Some demo_supply)) = Inr p"
    "fp_final_stop_price p = 19972 / 5" using demo_single by blast
  have f: "sq_pip_size (demo_stop_request 3996 (Some demo_supply)) = Some (1 / 10)"
    "sq_atr (demo_stop_request 3996 (Some demo_supply)) = Some 2"
    "half_tick (sq_digits (demo_stop_request 3996 (Some demo_supply))) <
       of_int (sq_minimum_stop_pips (demo_stop_request 3996 (Some demo_supply))) * (1 / 10)"
    "str_upper (sq_direction (demo_stop_request 3996 (Some demo_supply))) = ''BUY''"
    by (simp_all add: demo_stop_request_def half_tick_def demo_upper)
  show ?thesis using protective_stop_sound [OF p(1) f(1-3)] p by (auto simp: f(4) loss_def)
qed

text \<open>Two legs at 4001 and 4000 of a zone from 3999 to 4001. With the structure at 3990 the cap pulls the stop up to 3995,
  in front of the structure; with the structure at 3996 a zone around the stop pushes it 65 pips from the first leg.\<close>

definition demo_low_supply :: opposing_zone where
  "demo_low_supply = demo_supply\<lparr>oz_buffer_atr := 1 / 4\<rparr>"

lemma demo_legs:
  "nearest_leg ''BUY'' [4001, 4000] = 4000" "furthest_leg ''BUY'' [4001, 4000] = 4001"
  "tightest (leg_pips ''BUY'' pip [4001, 4000] stop) = min ((4001 - stop) / pip) ((4000 - stop) / pip)"
  "widest (leg_pips ''BUY'' pip [4001, 4000] stop) = max ((4001 - stop) / pip) ((4000 - stop) / pip)"
  by (simp_all add: nearest_leg_def furthest_leg_def tightest_def widest_def leg_pips_def loss_def)

lemma demo_group_base:
  "\<exists>b. group_base ''BUY'' 3999 4001 [4001, 4000] (8001 / 2) (19947 / 5) 2 (demo_stop_request 3990 None) (1 / 10) (1 / 10) = Inr b \<and>
     bs_price b = 3995 \<and> bs_raw b = 19947 / 5"
  "\<exists>b. group_base ''BUY'' 3999 4001 [4001, 4000] (8001 / 2) (19977 / 5) 2 (demo_stop_request 3996 (Some demo_low_supply)) (1 / 10) (1 / 10) =
     Inr b \<and> bs_price b = 19977 / 5"
  by (simp_all add: group_base_def demo_stop_request_def with_wick_def group_raw_stop_def group_clamped_def group_rounded_def
      check_group_stop_def inside_entry_zone_def further_def beyond_def loss_def stop_check_def demo_legs demo_quantize EPSILON_def Let_def)

lemma demo_reference: "volume_weighted_reference_entry (map Some [4001, 4000]) [Some 1, Some 1] = Inr (8001 / 2)"
  by (simp add: volume_weighted_reference_entry_def amounts_def decimal_value_def stop_check_def)

lemma demo_groups:
  "\<exists>p. plan_group_protective_stop (Some 3999) (Some 4001) (map Some [4001, 4000]) [Some 1, Some 1] (demo_stop_request 3990 None) = Inr p \<and>
     fp_final_stop_price p = 3995 \<and> fp_raw_stop_price p = 19947 / 5"
  "\<exists>p. plan_group_protective_stop (Some 3999) (Some 4001) (map Some [4001, 4000]) [Some 1, Some 1]
       (demo_stop_request 3996 (Some demo_low_supply)) = Inr p \<and> fp_final_stop_price p = 7989 / 2"
proof -
  obtain b where b: "group_base ''BUY'' 3999 4001 [4001, 4000] (8001 / 2) (19947 / 5) 2 (demo_stop_request 3990 None) (1 / 10) (1 / 10) = Inr b"
    "bs_price b = 3995" "bs_raw b = 19947 / 5" using demo_group_base(1) by blast
  have valid: "\<not> stop_inputs_invalid ''BUY'' (8001 / 2) swing 2 (3 / 10) (1 / 10) (1 / 10) (demo_stop_request swing zone)"
    if "0 < swing" for swing zone using that by (simp add: stop_inputs_invalid_def demo_stop_request_def)
  have amounts: "amounts ''planned_leg_price'' (map Some [4001, 4000]) = Inr [4001, 4000]" by (rule iffD2 [OF amounts_Inr]) simp
  note group = plan_group_protective_stop_def amounts demo_reference decimal_value_def stop_check_def Let_def
  have fields: "sq_direction (demo_stop_request swing zone) = ''buy''" "sq_structure_swing (demo_stop_request swing zone) = Some swing"
    "sq_atr (demo_stop_request swing zone) = Some 2" "sq_structure_buffer_atr (demo_stop_request swing zone) = Some (3 / 10)"
    "sq_wick_buffer_atr (demo_stop_request swing zone) = Some (1 / 10)" "sq_pip_size (demo_stop_request swing zone) = Some (1 / 10)"
    "sq_opposing_zone (demo_stop_request swing zone) = zone" "sq_minimum_stop_pips (demo_stop_request swing zone) = 40"
    "sq_maximum_stop_pips (demo_stop_request swing zone) = 60" "sq_digits (demo_stop_request swing zone) = 2" for swing zone
    by (simp_all add: demo_stop_request_def)
  have structural: "beyond ''BUY'' 3990 (3 / 5) = 19947 / 5" "beyond ''BUY'' 3996 (3 / 5) = 19977 / 5"
    by (simp_all add: beyond_def)
  show "\<exists>p. plan_group_protective_stop (Some 3999) (Some 4001) (map Some [4001, 4000]) [Some 1, Some 1] (demo_stop_request 3990 None) = Inr p \<and>
     fp_final_stop_price p = 3995 \<and> fp_raw_stop_price p = 19947 / 5"
    using b(1) valid [of 3990 None] unfolding group fields demo_upper res_bind.simps
    by (simp add: structural b(2,3) final_plan_def del: list.map)
  obtain c where c: "group_base ''BUY'' 3999 4001 [4001, 4000] (8001 / 2) (19977 / 5) 2 (demo_stop_request 3996 (Some demo_low_supply))
      (1 / 10) (1 / 10) = Inr c" "bs_price c = 19977 / 5" using demo_group_base(2) by blast
  have "quantize_half_up 2 (7989 / 2) = 7989 / 2" by (simp add: quantize_half_up_def Let_def floor_eq_iff)
  then have "\<exists>push. apply_opposing_zone_push ''BUY'' (8001 / 2) (bs_price c) (bs_pips c) demo_low_supply 2 60 (1 / 10) 2 = Inr push \<and>
      zp_price push = 7989 / 2"
    by (simp add: apply_opposing_zone_push_def demo_low_supply_def demo_supply_def beyond_def Let_def c(2))
  then obtain push where push: "apply_opposing_zone_push ''BUY'' (8001 / 2) (bs_price c) (bs_pips c) demo_low_supply 2 60 (1 / 10) 2 = Inr push"
    "zp_price push = 7989 / 2" by blast
  have "\<exists>p. group_pushed ''BUY'' 3999 4001 [4001, 4000] (8001 / 2) 2 (demo_stop_request 3996 (Some demo_low_supply)) (1 / 10) c demo_low_supply =
      Inr p \<and> fp_final_stop_price p = 7989 / 2"
    unfolding group_pushed_def fields push(1) res_bind.simps
    by (simp add: push(2) inside_entry_zone_def stop_check_def demo_legs EPSILON_def pushed_plan_def Let_def)
  then show "\<exists>p. plan_group_protective_stop (Some 3999) (Some 4001) (map Some [4001, 4000]) [Some 1, Some 1]
       (demo_stop_request 3996 (Some demo_low_supply)) = Inr p \<and> fp_final_stop_price p = 7989 / 2"
    using c(1) valid [of 3996 "Some demo_low_supply"] unfolding group fields demo_upper res_bind.simps
    by (simp add: structural del: list.map)
qed

theorem group_stop_sound_witness:
  "(\<exists>p. plan_group_protective_stop (Some 3999) (Some 4001) (map Some [4001, 4000]) [Some 1, Some 1] (demo_stop_request 3990 None) = Inr p \<and>
      fp_final_stop_price p = 3995 \<and> fp_raw_stop_price p = 19947 / 5 \<and> fp_final_stop_pips p = 60) \<and>
   (\<exists>p. plan_group_protective_stop (Some 3999) (Some 4001) (map Some [4001, 4000]) [Some 1, Some 1]
       (demo_stop_request 3996 (Some demo_low_supply)) = Inr p \<and> fp_final_stop_pips p = 65)"
proof -
  have f: "str_upper (sq_direction (demo_stop_request swing zone)) = ''BUY''" "sq_pip_size (demo_stop_request swing zone) = Some (1 / 10)"
    for swing zone by (simp_all add: demo_stop_request_def demo_upper)
  have pips: "fp_final_stop_pips p = max ((4001 - fp_final_stop_price p) / (1 / 10)) ((4000 - fp_final_stop_price p) / (1 / 10))"
    if "plan_group_protective_stop (Some 3999) (Some 4001) (map Some [4001, 4000]) [Some 1, Some 1] (demo_stop_request swing zone) = Inr p"
    for swing zone p
    using group_stop_sound [OF that f(2)] unfolding f(1) demo_legs(4) by blast
  obtain p where p: "plan_group_protective_stop (Some 3999) (Some 4001) (map Some [4001, 4000]) [Some 1, Some 1]
      (demo_stop_request 3990 None) = Inr p" "fp_final_stop_price p = 3995" "fp_raw_stop_price p = 19947 / 5"
    using demo_groups(1) by blast
  obtain r where r: "plan_group_protective_stop (Some 3999) (Some 4001) (map Some [4001, 4000]) [Some 1, Some 1]
      (demo_stop_request 3996 (Some demo_low_supply)) = Inr r" "fp_final_stop_price r = 7989 / 2"
    using demo_groups(2) by blast
  have "fp_final_stop_pips p = 60" "fp_final_stop_pips r = 65" using pips [OF p(1)] pips [OF r(1)] p(2) r(2) by simp_all
  then show ?thesis using p r by blast
qed

end
