(* ===== verification/ScaleInSizing.thy ===== *)
theory ScaleInSizing
  imports PyPrelude
begin

text \<open>
  The size of an addition to an open position (\<open>app/autotrade/scale_in_sizing.py\<close>): the smallest of four caps, in whole
  steps of the broker. Amounts are rationals, volumes integers.
\<close>

record scale_in_inputs =
  si_balance :: rat
  si_risk_percent :: rat
  si_pip_value_per_lot :: rat
  si_add_risk_fraction :: rat
  si_add_stop_pips :: rat
  si_booked_pnl :: rat
  si_stop_pnl :: rat
  si_table_lots :: rat
  si_open_lots :: rat
  si_initial_tranche_lots :: "rat option"
  si_add_size_ratio :: rat
  si_lot_size :: int
  si_min_volume :: int
  si_step_volume :: int

record scale_in_decision =
  sd_allowed :: bool
  sd_lots :: rat
  sd_volume :: int
  sd_binding_term :: "string option"
  sd_reason :: string

text \<open>\<open>math.isclose(a, b)\<close> of finite numbers; \<open>None\<close> is the infinite cap, close to no finite number.\<close>

definition isclose :: "rat \<Rightarrow> rat \<Rightarrow> bool" where
  "isclose a b \<longleftrightarrow> \<bar>a - b\<bar> \<le> max \<bar>a\<bar> \<bar>b\<bar> / 10 ^ 9"

definition binding_term :: "rat \<Rightarrow> rat \<Rightarrow> rat \<Rightarrow> rat \<Rightarrow> rat option \<Rightarrow> string" where
  "binding_term chosen exposure risk cap size_ratio_cap =
     (if (case size_ratio_cap of None \<Rightarrow> False | Some c \<Rightarrow> isclose chosen c) then ''size-ratio-bound''
      else if isclose chosen exposure then ''exposure-bound''
      else if isclose chosen risk then ''risk-bound''
      else ''add-cap-bound'')"

definition volume_for_lots :: "rat \<Rightarrow> int \<Rightarrow> int \<Rightarrow> int \<Rightarrow> int res" where
  "volume_for_lots lots lot_size min_volume step =
     (if lots \<le> 0 \<or> lot_size \<le> 0 then Inr 0
      else let raw = \<lfloor>lots * of_int lot_size\<rfloor> in
      if raw < min_volume then Inr 0
      else if step = 0 then Inl ZeroDivisionError
      else let stepped = raw div step * step in
      Inr (if stepped \<ge> min_volume then stepped else 0))"

definition add_refused :: "string option \<Rightarrow> string \<Rightarrow> scale_in_decision" where
  "add_refused binding reason =
     \<lparr>sd_allowed = False, sd_lots = 0, sd_volume = 0, sd_binding_term = binding, sd_reason = reason\<rparr>"

definition add_inputs_invalid :: "scale_in_inputs \<Rightarrow> bool" where
  "add_inputs_invalid x \<longleftrightarrow>
     si_balance x \<le> 0 \<or> si_risk_percent x \<le> 0 \<or> si_pip_value_per_lot x \<le> 0 \<or> si_add_risk_fraction x \<le> 0 \<or>
     si_add_risk_fraction x > 1 \<or> si_add_stop_pips x \<le> 0 \<or> si_add_size_ratio x \<le> 0 \<or> si_add_size_ratio x > 1"

definition plan_scale_in_sizing :: "scale_in_inputs \<Rightarrow> scale_in_decision res" where
  "plan_scale_in_sizing x =
     (if add_inputs_invalid x then Inr (add_refused None ''add sizing inputs are invalid'')
      else let budget = si_balance x * si_risk_percent x / 100;
               headroom_risk = budget + (si_booked_pnl x + si_stop_pnl x) in
      if headroom_risk \<le> 0 then Inr (add_refused None ''group loss ceiling exhausted'')
      else let headroom_lots = max 0 (si_table_lots x - si_open_lots x) in
      if headroom_lots \<le> 0 then Inr (add_refused None ''exposure ceiling reached; bank a partial first'')
      else let risk_per_lot = si_add_stop_pips x * si_pip_value_per_lot x;
               risk_headroom_lots = headroom_risk / risk_per_lot;
               add_cap_lots = si_add_risk_fraction x * budget / risk_per_lot;
               size_ratio_cap_lots = map_option (\<lambda>t. t * si_add_size_ratio x) (si_initial_tranche_lots x);
               smallest = min headroom_lots (min risk_headroom_lots add_cap_lots);
               raw_lots = (case size_ratio_cap_lots of None \<Rightarrow> smallest | Some c \<Rightarrow> min smallest c);
               binding = binding_term raw_lots headroom_lots risk_headroom_lots add_cap_lots size_ratio_cap_lots in
      res_bind (volume_for_lots raw_lots (si_lot_size x) (si_min_volume x) (si_step_volume x)) (\<lambda>volume.
      if volume \<le> 0 then Inr (add_refused (Some binding) ''add sizing is below broker minimum volume'')
      else if si_lot_size x = 0 then Inl ZeroDivisionError
      else Inr \<lparr>sd_allowed = True, sd_lots = of_int volume / of_int (si_lot_size x), sd_volume = volume,
                sd_binding_term = Some binding, sd_reason = []\<rparr>))"

section \<open>The caps\<close>

text \<open>A size that keeps every promise: the exposure, the loss of the group, the risk of the addition and its share of
  the first tranche.\<close>

definition within_caps :: "scale_in_inputs \<Rightarrow> rat \<Rightarrow> bool" where
  "within_caps x lots \<longleftrightarrow>
     si_open_lots x + lots \<le> si_table_lots x \<and>
     lots * (si_add_stop_pips x * si_pip_value_per_lot x) \<le>
       si_balance x * si_risk_percent x / 100 + (si_booked_pnl x + si_stop_pnl x) \<and>
     lots * (si_add_stop_pips x * si_pip_value_per_lot x) \<le>
       si_add_risk_fraction x * (si_balance x * si_risk_percent x / 100) \<and>
     (case si_initial_tranche_lots x of None \<Rightarrow> True | Some t \<Rightarrow> lots \<le> t * si_add_size_ratio x)"

text \<open>The volumes the broker takes.\<close>

definition tradable :: "scale_in_inputs \<Rightarrow> int \<Rightarrow> bool" where
  "tradable x v \<longleftrightarrow> 0 < v \<and> si_min_volume x \<le> v \<and> si_step_volume x dvd v"

lemma volume_greatest:
  assumes "volume_for_lots lots ls minimum step = Inr v" "0 < step" "0 < ls"
  shows "(0 < v \<longrightarrow> minimum \<le> v \<and> step dvd v \<and> of_int v \<le> lots * of_int ls) \<and>
    (0 < w \<and> minimum \<le> w \<and> step dvd w \<and> of_int w \<le> lots * of_int ls \<longrightarrow> w \<le> v)"
proof -
  let ?raw = "\<lfloor>lots * of_int ls\<rfloor>"
  have below: "of_int w \<le> lots * of_int ls \<longleftrightarrow> w \<le> ?raw" for w by (simp add: le_floor_iff)
  have stepped: "?raw div step * step \<le> ?raw" "step dvd ?raw div step * step"
    using assms(2) by (simp_all add: minus_mod_eq_div_mult [symmetric])
  have greatest: "w \<le> ?raw div step * step" if dvd: "step dvd w" and le: "w \<le> ?raw" for w
  proof -
    obtain k where k: "w = step * k" using dvd by blast
    have "w div step \<le> ?raw div step" using le assms(2) by (rule zdiv_mono1)
    then have "k \<le> ?raw div step" using assms(2) by (simp add: k)
    then show ?thesis using assms(2) by (simp add: k)
  qed
  show ?thesis
  proof (cases "lots \<le> 0")
    case True
    then have "lots * of_int ls \<le> 0" using assms(3) by (simp add: mult_nonpos_nonneg)
    moreover have "v = 0" using True assms(1) by (simp add: volume_for_lots_def)
    moreover have "(of_int w :: rat) \<le> 0 \<longleftrightarrow> w \<le> 0" by simp
    ultimately show ?thesis by linarith
  next
    case False
    with assms have v: "v = (if ?raw < minimum then 0 else if ?raw div step * step \<ge> minimum then ?raw div step * step else 0)"
      by (auto simp: volume_for_lots_def Let_def split: if_splits)
    show ?thesis unfolding below using v stepped greatest [of w] by (auto split: if_splits)
  qed
qed

lemma caps_min:
  assumes "\<not> add_inputs_invalid x"
    and "raw = (case map_option (\<lambda>t. t * si_add_size_ratio x) (si_initial_tranche_lots x) of None \<Rightarrow> smallest | Some c \<Rightarrow> min smallest c)"
    and "smallest = min (si_table_lots x - si_open_lots x)
      (min ((si_balance x * si_risk_percent x / 100 + (si_booked_pnl x + si_stop_pnl x)) / (si_add_stop_pips x * si_pip_value_per_lot x))
        (si_add_risk_fraction x * (si_balance x * si_risk_percent x / 100) / (si_add_stop_pips x * si_pip_value_per_lot x)))"
  shows "within_caps x lots \<longleftrightarrow> lots \<le> raw"
proof -
  have pos: "0 < si_add_stop_pips x * si_pip_value_per_lot x" using assms(1) by (auto simp: add_inputs_invalid_def)
  have open_lots: "si_open_lots x + lots \<le> si_table_lots x \<longleftrightarrow> lots \<le> si_table_lots x - si_open_lots x" by linarith
  show ?thesis
    unfolding within_caps_def assms(2,3) open_lots
    by (cases "si_initial_tranche_lots x") (simp_all only: option.simps min.bounded_iff pos_le_divide_eq [OF pos] conj_assoc simp_thms)
qed

text \<open>C19. The addition is exactly the greatest volume the broker takes that breaks no cap: it is refused when the inputs
  are invalid or no such volume exists, otherwise its lots keep the exposure of the table, the loss of the group when
  every stop is hit, the share of the budget and the ratio to the first tranche, and every greater volume breaks one.\<close>

theorem scale_in_greatest:
  assumes "plan_scale_in_sizing x = Inr d" "0 < si_step_volume x" "0 < si_lot_size x"
  shows "(sd_allowed d \<longleftrightarrow> \<not> add_inputs_invalid x \<and> (\<exists>v. tradable x v \<and> within_caps x (of_int v / of_int (si_lot_size x)))) \<and>
    (sd_allowed d \<longrightarrow> tradable x (sd_volume d) \<and> sd_lots d = of_int (sd_volume d) / of_int (si_lot_size x) \<and>
       within_caps x (sd_lots d)) \<and>
    (\<forall>v. sd_allowed d \<and> tradable x v \<and> within_caps x (of_int v / of_int (si_lot_size x)) \<longrightarrow> v \<le> sd_volume d)"
proof (cases "add_inputs_invalid x")
  case True
  with assms(1) have "d = add_refused None ''add sizing inputs are invalid''" by (simp add: plan_scale_in_sizing_def)
  with True show ?thesis by (simp add: add_refused_def)
next
  case valid: False
  let ?size = "of_int (si_lot_size x) :: rat"
  let ?B = "si_balance x * si_risk_percent x / 100" and ?u = "si_add_stop_pips x * si_pip_value_per_lot x"
  define H where "H = ?B + (si_booked_pnl x + si_stop_pnl x)"
  define E where "E = si_table_lots x - si_open_lots x"
  have pos: "0 < ?u" "0 < ?size" using valid assms(3) by (auto simp: add_inputs_invalid_def)
  show ?thesis
  proof (cases "0 < H \<and> 0 < E")
    case False
    have none: "\<not> within_caps x (of_int v / ?size)" if "tradable x v" for v
    proof
      assume w: "within_caps x (of_int v / ?size)"
      have lots: "0 < of_int v / ?size" using that pos(2) by (simp add: tradable_def)
      then have "0 < of_int v / ?size * ?u" using pos(1) by (rule mult_pos_pos)
      then show False using False w lots unfolding within_caps_def H_def E_def by linarith
    qed
    have "\<not> sd_allowed d" using assms(1) valid False
      by (auto simp: plan_scale_in_sizing_def Let_def H_def E_def add_refused_def not_less split: if_splits)
    then show ?thesis using none by blast
  next
    case True
    define smallest where "smallest = min E (min (H / ?u) (si_add_risk_fraction x * ?B / ?u))"
    define raw where "raw = (case map_option (\<lambda>t. t * si_add_size_ratio x) (si_initial_tranche_lots x) of
      None \<Rightarrow> smallest | Some c \<Rightarrow> min smallest c)"
    have caps: "within_caps x lots \<longleftrightarrow> lots \<le> raw" for lots
      by (rule caps_min [OF valid raw_def]) (simp add: smallest_def H_def E_def)
    have m: "max 0 (si_table_lots x - si_open_lots x) = E" "\<not> H \<le> 0" "\<not> E \<le> 0" using True by (simp_all add: E_def)
    have p: "plan_scale_in_sizing x =
      res_bind (volume_for_lots raw (si_lot_size x) (si_min_volume x) (si_step_volume x)) (\<lambda>v.
        if v \<le> 0 then Inr (add_refused (Some binding) ''add sizing is below broker minimum volume'')
        else Inr \<lparr>sd_allowed = True, sd_lots = of_int v / ?size, sd_volume = v, sd_binding_term = Some binding, sd_reason = []\<rparr>)"
      if "binding = binding_term raw E (H / ?u) (si_add_risk_fraction x * ?B / ?u)
        (map_option (\<lambda>t. t * si_add_size_ratio x) (si_initial_tranche_lots x))" for binding
      unfolding that plan_scale_in_sizing_def Let_def H_def [symmetric] m(1) smallest_def [symmetric] raw_def [symmetric]
      using valid m(2,3) assms(3) by (simp only: if_False less_irrefl less_imp_neq [symmetric])
    obtain v b where v: "volume_for_lots raw (si_lot_size x) (si_min_volume x) (si_step_volume x) = Inr v"
      "d = (if v \<le> 0 then add_refused (Some b) ''add sizing is below broker minimum volume''
        else \<lparr>sd_allowed = True, sd_lots = of_int v / ?size, sd_volume = v, sd_binding_term = Some b, sd_reason = []\<rparr>)"
      using assms(1) unfolding p [OF refl] res_bind_Inr_iff by (metis (no_types, lifting) Inr_inject)
    have lots: "within_caps x (of_int w / ?size) \<longleftrightarrow> of_int w \<le> raw * ?size" for w
      unfolding caps using pos(2) by (simp add: pos_divide_le_eq)
    note g = volume_greatest [OF v(1) assms(2,3)]
    show ?thesis
    proof (cases "v \<le> 0")
      case True
      then have "\<not> sd_allowed d" by (simp add: v(2) add_refused_def)
      moreover have "\<not> (\<exists>w. tradable x w \<and> within_caps x (of_int w / ?size))" using g True unfolding lots tradable_def by fastforce
      ultimately show ?thesis by blast
    next
      case False
      then have d: "sd_allowed d" "sd_volume d = v" "sd_lots d = of_int v / ?size" by (simp_all add: v(2))
      have ok: "tradable x v \<and> within_caps x (of_int v / ?size)" using g False unfolding lots tradable_def by simp
      have most: "w \<le> v" if "tradable x w" "within_caps x (of_int w / ?size)" for w
        using volume_greatest [OF v(1) assms(2,3), of w] that unfolding lots tradable_def by blast
      show ?thesis unfolding d using valid ok most d(1) by blast
    qed
  qed
qed

text \<open>The share of the first tranche binds: half of 0.24 lots, of which the broker takes 0.12.\<close>

definition demo_addition :: scale_in_inputs where
  "demo_addition =
     \<lparr>si_balance = 10000, si_risk_percent = 2, si_pip_value_per_lot = 10, si_add_risk_fraction = 1 / 2, si_add_stop_pips = 40,
      si_booked_pnl = 20, si_stop_pnl = - 60, si_table_lots = 1, si_open_lots = 6 / 25,
      si_initial_tranche_lots = Some (1 / 4), si_add_size_ratio = 1 / 2, si_lot_size = 10000, si_min_volume = 100,
      si_step_volume = 100\<rparr>"

lemma demo_addition_runs:
  "\<exists>d. plan_scale_in_sizing demo_addition = Inr d \<and> sd_volume d = 1200 \<and> sd_allowed d"
proof -
  have "volume_for_lots (1 / 8) 10000 100 100 = Inr 1200" by (simp add: volume_for_lots_def Let_def)
  moreover have "min (19 / 25) (min (2 / 5) (1 / 4)) = (1 / 4 :: rat)" by simp
  ultimately show ?thesis by (simp add: plan_scale_in_sizing_def demo_addition_def add_inputs_invalid_def Let_def)
qed

theorem scale_in_greatest_witness:
  "\<exists>d. plan_scale_in_sizing demo_addition = Inr d \<and> sd_allowed d \<and> sd_lots d = 3 / 25 \<and> within_caps demo_addition (3 / 25)"
proof -
  obtain d where d: "plan_scale_in_sizing demo_addition = Inr d" "sd_volume d = 1200" "sd_allowed d"
    using demo_addition_runs by blast
  have steps: "0 < si_step_volume demo_addition" "0 < si_lot_size demo_addition" "(of_int (si_lot_size demo_addition) :: rat) = 10000"
    by (simp_all add: demo_addition_def)
  then have "sd_lots d = 3 / 25" "within_caps demo_addition (sd_lots d)"
    using scale_in_greatest [OF d(1) steps(1,2)] d(2,3) by simp_all
  then show ?thesis using d by metis
qed

end
