(* ===== verification/ChartStructure.thy ===== *)
theory ChartStructure
  imports ZoneGeometry
begin

text \<open>
  What the chart is made of (\<open>app/analysis/swings.py\<close>, \<open>structure.py\<close>, \<open>levels.py\<close>, \<open>liquidity.py\<close>,
  \<open>dealing_range.py\<close>, \<open>fibonacci.py\<close>, \<open>session_liquidity.py\<close>): swing points and their labels, the trend and its
  breaks with and without look-ahead, key levels, liquidity pools and grabs, the dealing range with its Fibonacci bands, and
  the levels of sessions, days and weeks.

  Bars and zones are those of the zone geometry. The index of a frame is the time in seconds, without duplicates; a fractal
  width is a natural number. An \<open>atr\<close> argument is a series or a number.
\<close>

section \<open>Swings\<close>

record swing =
  sw_index :: int
  sw_kind :: string
  sw_price :: rat
  sw_label :: string
  sw_ts :: int

definition new_swing :: "nat \<Rightarrow> string \<Rightarrow> rat \<Rightarrow> int \<Rightarrow> swing" where
  "new_swing i kind price ts = \<lparr>sw_index = int i, sw_kind = kind, sw_price = price, sw_label = '''', sw_ts = ts\<rparr>"

definition fractal_at :: "ohlc list \<Rightarrow> nat \<Rightarrow> nat \<Rightarrow> swing list" where
  "fractal_at df n i =
     (let window = drop (i - n) (take (i + n + 1) df); before = drop (i - n) (take i df); b = df ! i in
      (if oh_high b = list_max (map oh_high window) \<and> list_all (\<lambda>c. oh_high c < oh_high b) before
       then [new_swing i ''high'' (oh_high b) (oh_ts b)] else []) @
      (if oh_low b = list_min (map oh_low window) \<and> list_all (\<lambda>c. oh_low b < oh_low c) before
       then [new_swing i ''low'' (oh_low b) (oh_ts b)] else []))"

definition fractal_candidates :: "ohlc list \<Rightarrow> nat \<Rightarrow> int option \<Rightarrow> swing list" where
  "fractal_candidates df n as_of =
     sort_key (\<lambda>s. (sw_index s, sw_kind s))
       (concat (map (\<lambda>i. if (case as_of of None \<Rightarrow> False | Some a \<Rightarrow> a < int (i + n)) then [] else fractal_at df n i)
         [n..<length df - n]))"

definition more_extreme :: "swing \<Rightarrow> swing \<Rightarrow> bool" where
  "more_extreme candidate current =
     (if sw_kind candidate = ''high'' then sw_price current < sw_price candidate else sw_price candidate < sw_price current)"

definition zigzag_step :: "rat list \<Rightarrow> rat \<Rightarrow> rat \<Rightarrow> swing \<Rightarrow> swing list \<Rightarrow> swing list" where
  "zigzag_step atr pct factor candidate confirmed =
     (if confirmed = [] then [candidate]
      else
        let lst = last confirmed;
            threshold = max (\<bar>sw_price lst\<bar> * max 0 pct) (atr_at atr (sw_index candidate) 0 * max 0 factor) in
        if sw_kind candidate = sw_kind lst
        then (if more_extreme candidate lst then butlast confirmed @ [candidate] else confirmed)
        else if threshold \<le> \<bar>sw_price candidate - sw_price lst\<bar> then confirmed @ [candidate] else confirmed)"

definition zigzag_filter :: "swing list \<Rightarrow> rat list \<Rightarrow> rat \<Rightarrow> rat \<Rightarrow> swing list" where
  "zigzag_filter candidates atr pct factor = fold (zigzag_step atr pct factor) candidates []"

fun label_from :: "rat option \<Rightarrow> rat option \<Rightarrow> swing list \<Rightarrow> swing list" where
  "label_from last_high last_low [] = []"
| "label_from last_high last_low (s # ss) =
     (if sw_kind s = ''high''
      then s\<lparr>sw_label := if (case last_high of None \<Rightarrow> True | Some h \<Rightarrow> h < sw_price s) then ''HH'' else ''LH''\<rparr> #
           label_from (Some (sw_price s)) last_low ss
      else s\<lparr>sw_label := if (case last_low of None \<Rightarrow> True | Some l \<Rightarrow> l < sw_price s) then ''HL'' else ''LL''\<rparr> #
           label_from last_high (Some (sw_price s)) ss)"

definition find_swings :: "ohlc list \<Rightarrow> nat \<Rightarrow> rat \<Rightarrow> rat \<Rightarrow> rat list option \<Rightarrow> int option \<Rightarrow> swing list" where
  "find_swings df n pct factor atr as_of =
     (if length df < n * 2 + 1 then []
      else label_from None None
        (zigzag_filter (fractal_candidates df n as_of) (case atr of None \<Rightarrow> atr_series 14 df | Some a \<Rightarrow> a) pct factor))"

section \<open>Trend and breaks of structure\<close>

definition of_kind :: "string \<Rightarrow> swing list \<Rightarrow> swing list" where
  "of_kind kind items = filter (\<lambda>s. sw_kind s = kind) items"

text \<open>\<open>xs[-1]\<close> and \<open>xs[-2]\<close>.\<close>

definition last_price :: "swing list \<Rightarrow> rat" where
  "last_price items = sw_price (last items)"

definition market_structure :: "swing list \<Rightarrow> string" where
  "market_structure items =
     (let highs = of_kind ''high'' items; lows = of_kind ''low'' items;
          labels = set (map sw_label (drop (length items - 4) items));
          by_labels =
            (if {''HH'', ''HL''} \<subseteq> labels then ''up'' else if {''LH'', ''LL''} \<subseteq> labels then ''down'' else ''range'') in
      if 2 \<le> length highs \<and> 2 \<le> length lows
      then if last_price (butlast highs) < last_price highs \<and> last_price (butlast lows) < last_price lows then ''up''
           else if last_price highs < last_price (butlast highs) \<and> last_price lows < last_price (butlast lows) then ''down''
           else by_labels
      else by_labels)"

definition break_kind :: "string \<Rightarrow> string \<Rightarrow> string" where
  "break_kind trend direction =
     (if trend = ''up'' then (if direction = ''up'' then ''BOS'' else ''CHoCH'')
      else if trend = ''down'' then (if direction = ''down'' then ''BOS'' else ''CHoCH'')
      else ''BOS'')"

type_synonym break_state = "(string \<times> rat) list \<times> market_break list"

definition break_side :: "string \<Rightarrow> string \<Rightarrow> swing list \<Rightarrow> nat \<Rightarrow> ohlc \<Rightarrow> break_state \<Rightarrow> break_state" where
  "break_side trend direction extremes i b st =
     (let (broken, breaks) = st; price = last_price extremes in
      if extremes = [] then st
      else if (if direction = ''up'' then price < oh_close b else oh_close b < price) \<and> (direction, price) \<notin> set broken
      then ((direction, price) # broken,
            breaks @ [\<lparr>mb_kind = break_kind trend direction, mb_direction = direction, mb_level = price, mb_index = int i,
              mb_ts = Some (oh_ts b)\<rparr>])
      else st)"

definition break_bar :: "string \<Rightarrow> swing list \<Rightarrow> nat \<Rightarrow> ohlc \<Rightarrow> break_state \<Rightarrow> break_state" where
  "break_bar trend prior i b st =
     break_side trend ''down'' (of_kind ''low'' prior) i b (break_side trend ''up'' (of_kind ''high'' prior) i b st)"

definition before_bar :: "nat \<Rightarrow> swing list \<Rightarrow> swing list" where
  "before_bar i items = filter (\<lambda>s. sw_index s < int i) items"

definition structure_breaks_lookahead :: "swing list \<Rightarrow> ohlc list \<Rightarrow> market_break list" where
  "structure_breaks_lookahead items df =
     snd (fold (\<lambda>i. break_bar (market_structure items) (before_bar i items) i (df ! i)) [0..<length df] ([], []))"

text \<open>The \<open>while\<close> loop that moves the swings confirmed at bar \<open>i\<close> from the ordered ones to the confirmed ones.\<close>

definition confirm_until :: "nat \<Rightarrow> nat \<Rightarrow> swing list \<times> swing list \<Rightarrow> swing list \<times> swing list" where
  "confirm_until n i p =
     (let (confirmed, ordered) = p; due = (\<lambda>s. sw_index s + int n \<le> int i) in
      (confirmed @ takeWhile due ordered, dropWhile due ordered))"

definition causal_bar :: "nat \<Rightarrow> ohlc list \<Rightarrow> nat \<Rightarrow> (swing list \<times> swing list) \<times> break_state \<Rightarrow> (swing list \<times> swing list) \<times> break_state" where
  "causal_bar n df i st =
     (let (p, brk) = st; p = confirm_until n i p; prior = before_bar i (fst p) in
      (p, break_bar (market_structure prior) prior i (df ! i) brk))"

definition structure_breaks_causal :: "swing list \<Rightarrow> ohlc list \<Rightarrow> nat \<Rightarrow> market_break list" where
  "structure_breaks_causal items df n =
     snd (snd (fold (causal_bar n df) [0..<length df] (([], sort_key sw_index items), ([], []))))"

definition structure_breaks :: "swing list \<Rightarrow> ohlc list \<Rightarrow> bool \<Rightarrow> nat \<Rightarrow> market_break list" where
  "structure_breaks items df causal n =
     (if \<not> causal then structure_breaks_lookahead items df else structure_breaks_causal items df n)"

section \<open>Key levels\<close>

datatype atr_input = Atr_series "rat list" | Atr_value rat

text \<open>The median of a series.\<close>

definition median_of :: "rat list \<Rightarrow> rat" where
  "median_of xs =
     (let ys = sort xs; n = length ys in
      if odd n then ys ! (n div 2) else (ys ! (n div 2 - 1) + ys ! (n div 2)) / 2)"

fun atr_scalar :: "atr_input \<Rightarrow> rat \<Rightarrow> rat" where
  "atr_scalar (Atr_series xs) fallback = positive_or (if xs = [] then fallback else median_of xs) fallback"
| "atr_scalar (Atr_value v) fallback = positive_or v fallback"

fun atr_input_at :: "atr_input \<Rightarrow> int \<Rightarrow> rat \<Rightarrow> rat" where
  "atr_input_at (Atr_series xs) index fallback = atr_at xs index fallback"
| "atr_input_at (Atr_value v) index fallback = positive_or v fallback"

definition can_join_cluster :: "swing list \<Rightarrow> swing \<Rightarrow> rat \<Rightarrow> rat \<Rightarrow> bool" where
  "can_join_cluster cluster s tolerance max_span =
     (let prices = map sw_price cluster @ [sw_price s] in
      \<not> max_span < list_max prices - list_min prices \<and> list_all (\<lambda>item. \<bar>sw_price item - sw_price s\<bar> \<le> tolerance) cluster)"

definition join_last :: "rat \<Rightarrow> rat \<Rightarrow> swing \<Rightarrow> swing list list \<Rightarrow> swing list list" where
  "join_last tolerance max_span s clusters =
     (if clusters \<noteq> [] \<and> can_join_cluster (last clusters) s tolerance max_span
      then butlast clusters @ [last clusters @ [s]] else clusters @ [[s]])"

definition price_clusters :: "swing list \<Rightarrow> rat \<Rightarrow> rat \<Rightarrow> swing list list" where
  "price_clusters items tolerance max_cluster_span_multiple =
     fold (join_last tolerance (tolerance * max 0 max_cluster_span_multiple)) (sort_key sw_price items) []"

definition avg_price :: "swing list \<Rightarrow> rat" where
  "avg_price items = mean (map sw_price items)"

definition round_levels :: "swing list \<Rightarrow> atr_input \<Rightarrow> rat \<Rightarrow> rat \<Rightarrow> nat \<Rightarrow> level list" where
  "round_levels items atr round_step tolerance min_touches =
     (if items = [] \<or> round_step \<le> 0 then []
      else
        let prices = map sw_price items;
            low = of_int \<lfloor>list_min prices / round_step\<rfloor> * round_step;
            high = of_int \<lceil>list_max prices / round_step\<rceil> * round_step;
            steps = nat (\<lfloor>(high - low) / round_step\<rfloor> + 1);
            touched = (\<lambda>price. length (filter (\<lambda>s. \<bar>sw_price s - price\<bar> \<le> max tolerance (atr_input_at atr (sw_index s) 1 * (1 / 4))) items)) in
        concat (map (\<lambda>step.
          let price = low + of_nat step * round_step; touches = touched price in
          if min_touches \<le> touches
          then [\<lparr>lv_price = price, lv_kind = ''round'', lv_touches = int touches, lv_band = tolerance, lv_strength = of_nat touches\<rparr>]
          else []) [0..<steps]))"

definition merge_levels :: "level \<Rightarrow> level \<Rightarrow> level" where
  "merge_levels prev lv =
     \<lparr>lv_price = (lv_price prev + lv_price lv) / 2,
      lv_kind = (if lv_touches lv \<le> lv_touches prev then lv_kind prev else lv_kind lv),
      lv_touches = max (lv_touches prev) (lv_touches lv), lv_band = max (lv_band prev) (lv_band lv),
      lv_strength = max (lv_strength prev) (lv_strength lv)\<rparr>"

definition dedupe_level :: "rat \<Rightarrow> level \<Rightarrow> level list \<Rightarrow> level list" where
  "dedupe_level tolerance lv deduped =
     (if deduped \<noteq> [] \<and> \<bar>lv_price (last deduped) - lv_price lv\<bar> \<le> max (lv_band lv) tolerance
      then butlast deduped @ [merge_levels (last deduped) lv] else deduped @ [lv])"

definition cluster_level :: "rat \<Rightarrow> swing list \<Rightarrow> level" where
  "cluster_level tolerance cluster =
     \<lparr>lv_price = avg_price cluster, lv_kind = ''reaction'', lv_touches = int (length cluster), lv_band = tolerance,
      lv_strength = of_nat (length cluster)\<rparr>"

definition key_levels :: "swing list \<Rightarrow> atr_input \<Rightarrow> rat \<Rightarrow> rat \<Rightarrow> nat \<Rightarrow> rat \<Rightarrow> level list" where
  "key_levels items atr level_cluster_atr round_step min_touches max_cluster_span_multiple =
     (let tolerance = atr_scalar atr 1 * max 0 level_cluster_atr;
          clusters = price_clusters items tolerance max_cluster_span_multiple;
          levels = map (cluster_level tolerance) (filter (\<lambda>c. min_touches \<le> length c) clusters) @
            round_levels items atr round_step tolerance min_touches in
      fold (dedupe_level tolerance) (sort_key lv_price levels) [])"

section \<open>Liquidity\<close>

definition cluster_pools :: "swing list \<Rightarrow> string \<Rightarrow> rat \<Rightarrow> rat \<Rightarrow> pool list" where
  "cluster_pools items side band max_cluster_span_multiple =
     map (\<lambda>c. \<lparr>po_side = side, po_level = avg_price c, po_band = band, po_touches = int (length c)\<rparr>)
       (filter (\<lambda>c. 2 \<le> length c) (price_clusters items band max_cluster_span_multiple))"

definition append_lone_extreme :: "pool \<Rightarrow> pool list \<Rightarrow> pool list" where
  "append_lone_extreme p pools =
     (if list_ex (\<lambda>q. \<bar>po_level q - po_level p\<bar> \<le> max (po_band q) (po_band p)) pools then pools else pools @ [p])"

definition add_extreme :: "string \<Rightarrow> rat \<Rightarrow> swing list \<Rightarrow> rat \<Rightarrow> pool list \<Rightarrow> pool list" where
  "add_extreme side price items band pools =
     (if items = [] then pools
      else append_lone_extreme \<lparr>po_side = side, po_level = price, po_band = band, po_touches = 1\<rparr> pools)"

definition liquidity_pools :: "swing list \<Rightarrow> ohlc list \<Rightarrow> rat \<Rightarrow> rat list option \<Rightarrow> rat \<Rightarrow> pool list" where
  "liquidity_pools items df equal_tol_atr atr max_cluster_span_multiple =
     (if items = [] then []
      else
        let series = (case atr of None \<Rightarrow> atr_series 14 df | Some a \<Rightarrow> a);
            band = atr_scalar (Atr_series series) 1 * max 0 equal_tol_atr;
            highs = of_kind ''high'' items; lows = of_kind ''low'' items;
            pools = cluster_pools highs ''buy'' band max_cluster_span_multiple @
              cluster_pools lows ''sell'' band max_cluster_span_multiple;
            pools = add_extreme ''buy'' (list_max (map sw_price highs)) highs band pools;
            pools = add_extreme ''sell'' (list_min (map sw_price lows)) lows band pools in
        sort_key (\<lambda>p. (po_level p, po_side p)) pools)"

definition has_reaction_displacement :: "int \<Rightarrow> string \<Rightarrow> leg list \<Rightarrow> int \<Rightarrow> bool" where
  "has_reaction_displacement index direction legs react_bars =
     (let wanted = (if direction = ''bull'' then ''up'' else ''down'') in
      list_ex (\<lambda>l. lg_direction l = wanted \<and> 0 \<le> lg_start l - index \<and> lg_start l - index \<le> max 0 react_bars) legs)"

definition bar_tolerance :: "ohlc \<Rightarrow> rat" where
  "bar_tolerance b = max (oh_high b - oh_low b) 0 * (1 / 10)"

definition grab_grade :: "ohlc list \<Rightarrow> nat \<Rightarrow> rat \<Rightarrow> string \<Rightarrow> leg list \<Rightarrow> rat \<Rightarrow> int \<Rightarrow> string option" where
  "grab_grade df i price direction legs body_frac react_bars =
     (let b = df ! i;
          clean = (if direction = ''bear'' then oh_close b < price else price < oh_close b);
          marginal = (if direction = ''bear'' then oh_close b \<le> price + bar_tolerance b
                      else price - bar_tolerance b \<le> oh_close b) in
      if clean
      then Some (if body_frac \<le> body_fraction b \<and> has_reaction_displacement (int i) direction legs react_bars then ''A'' else ''B'')
      else if marginal then Some ''C'' else None)"

definition is_inducement :: "pool \<Rightarrow> zone list \<Rightarrow> rat list \<Rightarrow> rat \<Rightarrow> rat \<Rightarrow> bool" where
  "is_inducement p zones atr inducement_band_atr pip_size =
     (po_touches p = 2 \<and> po_band p \<le> atr_scalar (Atr_series atr) 1 * max 0 inducement_band_atr \<and>
      list_ex (\<lambda>z.
        let tolerance = max (max (zo_top z - zo_bottom z) 0) pip_size in
        zo_side z = ''demand'' \<and> po_side p = ''sell'' \<and> zo_bottom z - tolerance \<le> po_level p \<and> po_level p \<le> zo_top z \<or>
        zo_side z = ''supply'' \<and> po_side p = ''buy'' \<and> zo_bottom z \<le> po_level p \<and> po_level p \<le> zo_top z + tolerance) zones)"

record grab_settings =
  gs_body_frac :: rat
  gs_react_bars :: int
  gs_inducement_band_atr :: rat
  gs_pip_size :: rat

definition grab_of ::
  "ohlc list \<Rightarrow> leg list \<Rightarrow> zone list \<Rightarrow> rat list \<Rightarrow> grab_settings \<Rightarrow> nat \<Rightarrow> pool \<Rightarrow> string \<Rightarrow> grab list" where
  "grab_of df legs zones atr g i p direction =
     (case grab_grade df i (po_level p) direction legs (gs_body_frac g) (gs_react_bars g) of
        None \<Rightarrow> []
      | Some grade \<Rightarrow>
          [\<lparr>gr_pool = p, gr_index = int i, gr_direction = direction, gr_ts = Some (oh_ts (df ! i)), gr_grade = grade,
            gr_displacement = has_reaction_displacement (int i) direction legs (gs_react_bars g),
            gr_inducement = is_inducement p zones atr (gs_inducement_band_atr g) (gs_pip_size g)\<rparr>])"

definition pool_grabs :: "ohlc list \<Rightarrow> leg list \<Rightarrow> zone list \<Rightarrow> rat list \<Rightarrow> grab_settings \<Rightarrow> nat \<Rightarrow> pool \<Rightarrow> grab list" where
  "pool_grabs df legs zones atr g i p =
     (let tol = max (po_band p) 0; b = df ! i in
      (if po_side p = ''buy'' \<and> po_level p + tol < oh_high b then grab_of df legs zones atr g i p ''bear'' else []) @
      (if po_side p = ''sell'' \<and> oh_low b < po_level p - tol then grab_of df legs zones atr g i p ''bull'' else []))"

definition liquidity_grabs ::
  "ohlc list \<Rightarrow> pool list \<Rightarrow> leg list \<Rightarrow> zone list \<Rightarrow> rat list option \<Rightarrow> grab_settings \<Rightarrow> grab list" where
  "liquidity_grabs df pools legs zones atr g =
     (let series = (case atr of None \<Rightarrow> atr_series 14 df | Some a \<Rightarrow> a) in
      concat (map (\<lambda>i. concat (map (pool_grabs df legs zones series g i) pools)) [0..<length df]))"

section \<open>Dealing range and Fibonacci bands\<close>

definition band_of :: "swing \<Rightarrow> swing \<Rightarrow> rat \<times> rat" where
  "band_of a b = (min (sw_price a) (sw_price b), max (sw_price a) (sw_price b))"

text \<open>The inner loop over the earlier swings, latest first.\<close>

definition bracket_with :: "rat \<Rightarrow> swing \<Rightarrow> swing list \<Rightarrow> (rat \<times> rat) option" where
  "bracket_with price first earlier =
     List.find (\<lambda>(low, high). low \<le> price \<and> price \<le> high)
       (map (band_of first) (filter (\<lambda>s. sw_kind s \<noteq> sw_kind first) (rev earlier)))"

fun bracketing_from :: "rat \<Rightarrow> swing list \<Rightarrow> nat \<Rightarrow> (rat \<times> rat) option" where
  "bracketing_from price items 0 = None"
| "bracketing_from price items (Suc i) =
     (case bracket_with price (items ! i) (take i items) of
        Some pair \<Rightarrow> Some pair
      | None \<Rightarrow> bracketing_from price items i)"

definition bracketing_pair :: "swing list \<Rightarrow> rat \<Rightarrow> (rat \<times> rat) option" where
  "bracketing_pair items price = bracketing_from price items (length items)"

definition last_opposing_pair :: "swing list \<Rightarrow> (rat \<times> rat) option" where
  "last_opposing_pair items =
     (if length items < 2 then None
      else map_option (band_of (last items)) (List.find (\<lambda>s. sw_kind s \<noteq> sw_kind (last items)) (rev (butlast items))))"

definition swing_range_pair :: "swing list \<Rightarrow> rat \<Rightarrow> (rat \<times> rat) option" where
  "swing_range_pair items price =
     (case bracketing_pair items price of Some pair \<Rightarrow> Some pair | None \<Rightarrow> last_opposing_pair items)"

definition fib_zone_label :: "rat \<Rightarrow> rat \<Rightarrow> rat \<Rightarrow> rat \<Rightarrow> string" where
  "fib_zone_label position deep_discount deep_premium eq_half_band =
     (let pos = min 1 (max 0 position) in
      if \<bar>pos - 1 / 2\<bar> \<le> max 0 eq_half_band then ''eq''
      else if pos \<le> deep_discount then ''deep_discount''
      else if pos < 1 / 2 then ''discount''
      else if deep_premium \<le> pos then ''deep_premium'' else ''premium'')"

definition dealing_range :: "swing list \<Rightarrow> rat \<Rightarrow> rat \<Rightarrow> rat \<Rightarrow> rat \<Rightarrow> dealing_span option" where
  "dealing_range items price eq_band deep_discount deep_premium =
     (case swing_range_pair items price of
        None \<Rightarrow> None
      | Some (low, high) \<Rightarrow>
          if high \<le> low then None
          else
            let position = min 1 (max 0 ((price - low) / (high - low))); half_band = max 0 eq_band / 2 in
            Some \<lparr>dr_high = high, dr_low = low, dr_eq = (high + low) / 2, dr_position = position,
              dr_zone = (if \<bar>position - 1 / 2\<bar> \<le> half_band then ''eq'' else if position < 1 / 2 then ''discount'' else ''premium''),
              dr_fib_zone = fib_zone_label position deep_discount deep_premium half_band\<rparr>)"

record fib_level =
  fl_ratio :: rat
  fl_price :: rat
  fl_kind :: string

definition RETRACEMENT_RATIOS :: "rat list" where
  "RETRACEMENT_RATIOS = [236 / 1000, 382 / 1000, 1 / 2, 618 / 1000, 786 / 1000]"

definition EXTENSION_RATIOS :: "rat list" where
  "EXTENSION_RATIOS = [1, 1272 / 1000, 1618 / 1000]"

definition fib_ladder :: "rat \<Rightarrow> rat \<Rightarrow> bool \<Rightarrow> fib_level list" where
  "fib_ladder low high include_extensions =
     (let width = high - low in
      if width \<le> 0 then []
      else map (\<lambda>r. \<lparr>fl_ratio = r, fl_price = high - r * width, fl_kind = ''retracement''\<rparr>) RETRACEMENT_RATIOS @
        (if include_extensions
         then map (\<lambda>e. \<lparr>fl_ratio = e, fl_price = high + e * width, fl_kind = ''extension''\<rparr>) EXTENSION_RATIOS else []))"

definition fib_from_swings :: "swing list \<Rightarrow> rat \<Rightarrow> bool \<Rightarrow> fib_level list" where
  "fib_from_swings items price include_extensions =
     (case swing_range_pair items price of None \<Rightarrow> [] | Some (low, high) \<Rightarrow> fib_ladder low high include_extensions)"

definition nearer_fib :: "rat \<Rightarrow> rat \<Rightarrow> string list \<Rightarrow> fib_level \<Rightarrow> fib_level option \<Rightarrow> fib_level option" where
  "nearer_fib price band kinds lv best =
     (let dist = \<bar>fl_price lv - price\<bar> in
      if fl_kind lv \<in> set kinds \<and> dist \<le> band \<and> (case best of None \<Rightarrow> True | Some b \<Rightarrow> dist < \<bar>fl_price b - price\<bar>)
      then Some lv else best)"

definition nearest_fib :: "fib_level list \<Rightarrow> rat \<Rightarrow> rat \<Rightarrow> rat \<Rightarrow> string list \<Rightarrow> fib_level option" where
  "nearest_fib levels price atr epsilon_atr kinds =
     (if levels = [] \<or> atr \<le> 0 then None
      else let band = max 0 epsilon_atr * atr in
        if band \<le> 0 then None else fold (nearer_fib price band kinds) levels None)"

section \<open>Levels of sessions, days and weeks\<close>

text \<open>A date is the number of its day since 1970-01-01, a Thursday.\<close>

definition day_of :: "int \<Rightarrow> int" where "day_of ts = ts div 86400"
definition hour_of :: "int \<Rightarrow> int" where "hour_of ts = ts div 3600 mod 24"
definition weekday_of :: "int \<Rightarrow> int" where "weekday_of ts = (day_of ts + 3) mod 7"
definition at_hour :: "int \<Rightarrow> int \<Rightarrow> int" where "at_hour day hour = day * 86400 + hour * 3600"

record session_window =
  sn_name :: string
  sn_start :: int
  sn_end :: int

record session_config =
  se_asia :: int
  se_london :: int
  se_ny :: int
  se_rollover :: int

definition utc_sorted :: "ohlc list \<Rightarrow> ohlc list" where
  "utc_sorted df = sort_key oh_ts df"

definition is_high_level :: "string \<Rightarrow> bool" where
  "is_high_level name \<longleftrightarrow> str_endswith name ''_H'' \<or> name \<in> {''PDH'', ''PWH''}"

definition swept_ts :: "ohlc list \<Rightarrow> string \<Rightarrow> rat \<Rightarrow> int \<Rightarrow> int option" where
  "swept_ts df name price closed_at =
     map_option oh_ts (List.find (\<lambda>b. if is_high_level name then price < oh_high b else oh_low b < price)
       (filter (\<lambda>b. closed_at < oh_ts b) df))"

text \<open>\<open>idxmax\<close> and \<open>idxmin\<close> take the first extreme; the bars of a level are never empty.\<close>

definition level_from_extreme :: "ohlc list \<Rightarrow> ohlc list \<Rightarrow> string \<Rightarrow> bool \<Rightarrow> int \<Rightarrow> session_level" where
  "level_from_extreme df bars name high closed_at =
     (let b = (if high then first_max oh_high (List.hd bars) (tl bars) else first_min oh_low (List.hd bars) (tl bars));
          price = (if high then oh_high b else oh_low b); swept = swept_ts df name price closed_at in
      \<lparr>sv_name = name, sv_price = price, sv_ts = oh_ts b, sv_swept = (swept \<noteq> None), sv_swept_ts = swept\<rparr>)"

definition hour_in_window :: "int \<Rightarrow> int \<Rightarrow> int \<Rightarrow> bool" where
  "hour_in_window hour start past =
     (if start < past then start \<le> hour \<and> hour < past else start \<le> hour \<or> hour < past)"

definition session_windows :: "session_config \<Rightarrow> session_window list" where
  "session_windows c =
     [\<lparr>sn_name = ''ASIA'', sn_start = se_asia c, sn_end = se_london c\<rparr>,
      \<lparr>sn_name = ''LONDON'', sn_start = se_london c, sn_end = se_ny c\<rparr>,
      \<lparr>sn_name = ''NY'', sn_start = se_ny c, sn_end = se_asia c\<rparr>]"

definition session_date :: "int \<Rightarrow> session_window \<Rightarrow> int" where
  "session_date ts w = (if sn_end w < sn_start w \<and> hour_of ts < sn_end w then day_of ts - 1 else day_of ts)"

definition session_close_ts :: "int \<Rightarrow> session_window \<Rightarrow> int" where
  "session_close_ts day w = at_hour (if sn_end w < sn_start w then day + 1 else day) (sn_end w)"

text \<open>The keys of a grouping in descending and ascending order.\<close>

definition days_in :: "(ohlc \<Rightarrow> int) \<Rightarrow> ohlc list \<Rightarrow> int list" where
  "days_in key bars = sort (remdups (map key bars))"

definition window_levels :: "ohlc list \<Rightarrow> session_window \<Rightarrow> session_level list" where
  "window_levels df w =
     (let bars = filter (\<lambda>b. hour_in_window (hour_of (oh_ts b)) (sn_start w) (sn_end w)) df;
          key = (\<lambda>b. session_date (oh_ts b) w);
          closed = take 2 (filter (\<lambda>day. session_close_ts day w \<le> oh_ts (last df)) (rev (days_in key bars))) in
      concat (map (\<lambda>day.
        let session = filter (\<lambda>b. key b = day) bars; close = session_close_ts day w in
        [level_from_extreme df session (sn_name w @ ''_H'') True close,
         level_from_extreme df session (sn_name w @ ''_L'') False close]) closed))"

definition session_extremes :: "ohlc list \<Rightarrow> session_config \<Rightarrow> session_level list" where
  "session_extremes df c = concat (map (window_levels df) (session_windows c))"

definition session_trading_day :: "int \<Rightarrow> int \<Rightarrow> int" where
  "session_trading_day ts rollover_hour = (if rollover_hour \<le> hour_of ts then day_of ts + 1 else day_of ts)"

definition previous_day_levels :: "ohlc list \<Rightarrow> int \<Rightarrow> session_level list" where
  "previous_day_levels df rollover_hour =
     (let key = (\<lambda>b. session_trading_day (oh_ts b) rollover_hour); days = days_in key df in
      if length days < 2 then []
      else
        let previous = last (butlast days); close = at_hour previous rollover_hour; bars = filter (\<lambda>b. key b = previous) df in
        [level_from_extreme df bars ''PDH'' True close, level_from_extreme df bars ''PDL'' False close])"

definition session_levels :: "ohlc list \<Rightarrow> session_config \<Rightarrow> session_level list" where
  "session_levels df c =
     (if df = [] then []
      else let frame = utc_sorted df in
        sort_key (\<lambda>l. (sv_ts l, sv_name l, sv_price l)) (session_extremes frame c @ previous_day_levels frame (se_rollover c)))"

definition week_start :: "int \<Rightarrow> int" where
  "week_start ts = at_hour (day_of ts - weekday_of ts) 0"

definition previous_week_levels :: "ohlc list \<Rightarrow> session_level list" where
  "previous_week_levels df =
     (if df = [] then []
      else
        let frame = utc_sorted df; current = week_start (oh_ts (last frame)); previous = current - 7 * 86400;
            week = filter (\<lambda>b. previous \<le> oh_ts b \<and> oh_ts b < current) frame in
        if previous < oh_ts (List.hd frame) then []
        else if week = [] then []
        else [level_from_extreme frame week ''PWH'' True (oh_ts (last week)),
              level_from_extreme frame week ''PWL'' False (oh_ts (last week))])"

section \<open>Structure on one frame\<close>

definition swings_of :: "ohlc list \<Rightarrow> nat \<Rightarrow> nat \<Rightarrow> swing list" where
  "swings_of df left right = find_swings df (max left right) 0 0 None None"

definition key_levels_of :: "ohlc list \<Rightarrow> level list" where
  "key_levels_of df = key_levels (swings_of df 2 2) (Atr_series (atr_series 14 df)) (1 / 2) 5 1 2"

definition equal_level :: "pool \<Rightarrow> level" where
  "equal_level p =
     \<lparr>lv_price = po_level p, lv_kind = (if po_side p = ''buy'' then ''equal_high'' else ''equal_low''), lv_touches = po_touches p,
      lv_band = po_band p, lv_strength = of_int (po_touches p)\<rparr>"

definition equal_highs_lows :: "ohlc list \<Rightarrow> level list" where
  "equal_highs_lows df =
     map equal_level (filter (\<lambda>p. \<not> po_touches p < 2) (liquidity_pools (swings_of df 1 1) df (15 / 100) None 2))"

definition rolling_mean :: "nat \<Rightarrow> rat list \<Rightarrow> rat list" where
  "rolling_mean n xs = map (\<lambda>i. mean (drop (Suc i - n) (take (Suc i) xs))) [0..<length xs]"

definition legacy_block_at :: "ohlc list \<Rightarrow> nat \<Rightarrow> zone list" where
  "legacy_block_at df i =
     (let prev = df ! (i - 1); cur = df ! i; avg_range = rolling_mean 10 (map (\<lambda>b. oh_high b - oh_low b) df) in
      if \<bar>oh_close cur - oh_open cur\<bar> < avg_range ! i then []
      else
        (if oh_open cur < oh_close cur \<and> oh_close prev < oh_open prev
         then [new_zone (oh_low prev) (oh_high prev) ''demand'' (int i - 1) (Some (oh_ts prev)) ''bullish_ob'' None None] else []) @
        (if oh_close cur < oh_open cur \<and> oh_open prev < oh_close prev
         then [new_zone (oh_low prev) (oh_high prev) ''supply'' (int i - 1) (Some (oh_ts prev)) ''bearish_ob'' None None] else []))"

definition legacy_order_blocks :: "ohlc list \<Rightarrow> zone list" where
  "legacy_order_blocks df = concat (map (legacy_block_at df) [1..<length df])"

definition order_blocks_of :: "ohlc list \<Rightarrow> zone list res" where
  "order_blocks_of df =
     (let atr = atr_series 14 df; pivots = find_swings df 2 0 0 (Some atr) None;
          breaks = structure_breaks pivots df False 2; legs = displacement df (Some atr) (3 / 2) (55 / 100) in
      res_bind (order_blocks df legs breaks ''body'') (\<lambda>zones.
      Inr (if zones \<noteq> [] then mark_mitigation zones df None else legacy_order_blocks df)))"

definition frame_tolerance :: "ohlc list \<Rightarrow> rat \<Rightarrow> rat" where
  "frame_tolerance df pip_size =
     (if df = [] then 0 else max ((list_max (map oh_high df) - list_min (map oh_low df)) * (3 / 1000)) pip_size)"

text \<open>The loop with its counter \<open>streak\<close> and the last bar at which it reached the required length.\<close>

fun last_break_from :: "rat \<Rightarrow> nat \<Rightarrow> bool \<Rightarrow> nat \<Rightarrow> nat \<Rightarrow> nat option \<Rightarrow> rat list \<Rightarrow> nat option" where
  "last_break_from price required upwards i streak found [] = found"
| "last_break_from price required upwards i streak found (c # cs) =
     (if (if upwards then price < c else c < price)
      then last_break_from price required upwards (Suc i) (Suc streak) (if Suc streak = required then Some i else found) cs
      else last_break_from price required upwards (Suc i) 0 found cs)"

definition last_consecutive_break_index :: "rat list \<Rightarrow> rat \<Rightarrow> nat \<Rightarrow> bool \<Rightarrow> nat option" where
  "last_consecutive_break_index closes price required upwards = last_break_from price required upwards 0 0 None closes"

definition break_and_direction :: "nat option \<Rightarrow> nat option \<Rightarrow> (nat \<times> string) option" where
  "break_and_direction up_break down_break =
     (case (up_break, down_break) of
        (Some u, None) \<Rightarrow> Some (u, ''buy'')
      | (Some u, Some d) \<Rightarrow> Some (if d < u then (u, ''buy'') else (d, ''sell''))
      | (None, Some d) \<Rightarrow> Some (d, ''sell'')
      | (None, None) \<Rightarrow> None)"

definition retests :: "rat \<Rightarrow> rat \<Rightarrow> string \<Rightarrow> ohlc \<Rightarrow> bool" where
  "retests price tolerance direction b =
     (oh_low b - tolerance \<le> price \<and> price \<le> oh_high b + tolerance \<and>
      (direction = ''buy'' \<and> price \<le> oh_close b \<or> direction = ''sell'' \<and> oh_close b \<le> price))"

definition find_retest :: "ohlc list \<Rightarrow> rat \<Rightarrow> int \<Rightarrow> rat \<Rightarrow> zone option" where
  "find_retest df price min_consecutive_closes pip_size =
     (if length df < 3 then None
      else
        let tolerance = frame_tolerance df pip_size; closes = map oh_close df; required = nat (max 1 min_consecutive_closes) in
        case break_and_direction (last_consecutive_break_index closes price required True)
            (last_consecutive_break_index closes price required False) of
          None \<Rightarrow> None
        | Some (break_idx, direction) \<Rightarrow>
            map_option (\<lambda>i. new_zone (price - tolerance) (price + tolerance)
                (if direction = ''buy'' then ''demand'' else ''supply'') (int i) (Some (oh_ts (df ! i)))
                (if direction = ''buy'' then ''retest_support'' else ''retest_resistance'') None None)
              (List.find (\<lambda>i. retests price tolerance direction (df ! i)) [Suc break_idx..<length df]))"

definition retest_zones :: "ohlc list \<Rightarrow> zone list" where
  "retest_zones df = List.map_filter (\<lambda>lv. find_retest df (lv_price lv) 1 (1 / 10)) (key_levels_of df)"

definition liquidity_sweep :: "ohlc list \<Rightarrow> rat \<Rightarrow> string option" where
  "liquidity_sweep df price =
     (if df = [] then None
      else let b = last df in
        if price < oh_high b \<and> oh_close b < price then Some ''sell''
        else if oh_low b < price \<and> price < oh_close b then Some ''buy'' else None)"

definition is_break :: "ohlc list \<Rightarrow> rat \<Rightarrow> string option" where
  "is_break df price =
     (if length df < 2 then None
      else let prev_close = oh_close (last (butlast df)); close = oh_close (last df) in
        if prev_close \<le> price \<and> price < close then Some ''up''
        else if price \<le> prev_close \<and> close < price then Some ''down'' else None)"

definition entry_zone :: "ohlc list \<Rightarrow> rat \<Rightarrow> string \<Rightarrow> rat \<Rightarrow> zone res" where
  "entry_zone df price direction pip_size =
     (let tolerance = frame_tolerance df pip_size in
      res_bind (order_blocks_of df) (\<lambda>blocks.
      Inr (case List.find (\<lambda>z. zo_bottom z - tolerance \<le> price \<and> price \<le> zo_top z + tolerance)
             (rev (blocks @ retest_zones df @ fvg df)) of
        Some z \<Rightarrow> z
      | None \<Rightarrow>
          let side = (if str_upper direction = ''BUY'' then ''demand'' else ''supply'') in
          new_zone (price - tolerance) (price + tolerance) side (-1) None side None None)))"

section \<open>Swings do not look ahead\<close>

lemma true_range_take: "true_range (take m df) = take m (true_range df)"
proof (cases df)
  case (Cons b bs)
  show ?thesis
  proof (cases m)
    case (Suc k)
    have "zip (b # take k bs) (take k bs) = take k (zip (b # bs) bs)"
      by (rule nth_equalityI) (auto simp: nth_Cons')
    then show ?thesis by (simp add: Cons Suc take_map)
  qed simp
qed simp

lemma true_range_length [simp]: "length (true_range df) = length df"
  by (cases df) simp_all

lemma atr_series_length [simp]: "length (atr_series n df) = length df"
  by (simp add: atr_series_def Let_def)

lemma atr_series_take: "atr_series n (take m df) = take m (atr_series n df)"
proof (rule nth_equalityI)
  fix i assume "i < length (atr_series n (take m df))"
  then have i: "i < m" "i < length df" by simp_all
  have "drop (Suc i - n) (take (Suc i) (take m (true_range df))) = drop (Suc i - n) (take (Suc i) (true_range df))"
    using i by (simp add: min_def)
  then show "atr_series n (take m df) ! i = take m (atr_series n df) ! i"
    using i by (simp add: atr_series_def Let_def true_range_take)
qed simp

lemma atr_at_take: "0 \<le> i \<Longrightarrow> i < int m \<Longrightarrow> i < int (length xs) \<Longrightarrow> atr_at (take m xs) i d = atr_at xs i d"
  by (auto simp: atr_at_def min_def max_def)

lemma fractal_at_take:
  assumes "i + n < m"
  shows "fractal_at (take m df) n i = fractal_at df n i"
proof -
  have "take (i + n + 1) (take m df) = take (i + n + 1) df" "take i (take m df) = take i df" "take m df ! i = df ! i"
    using assms by (simp_all add: min_def)
  then show ?thesis by (simp add: fractal_at_def)
qed

lemma fractal_at_index: "s \<in> set (fractal_at df n i) \<Longrightarrow> sw_index s = int i"
  by (auto simp: fractal_at_def Let_def new_swing_def split: if_splits)

lemma fractal_candidates_take:
  assumes "0 \<le> a"
  shows "fractal_candidates df n (Some a) = fractal_candidates (take (nat a + 1) df) n None"
proof -
  let ?f = "\<lambda>i. if a < int (i + n) then [] else fractal_at df n i" and ?m = "min (length df) (nat a + 1)"
  have e: "concat (map ?f [n..<length df - n]) = concat (map (fractal_at (take (nat a + 1) df) n) [n..<?m - n])"
  proof -
    have le: "?m - n \<le> length df - n" by simp
    have "[n..<length df - n] = [n..<?m - n] @ [max n (?m - n)..<length df - n]"
    proof (cases "n \<le> ?m - n")
      case True
      have "[n..<(?m - n) + ((length df - n) - (?m - n))] = [n..<?m - n] @ [?m - n..<(?m - n) + ((length df - n) - (?m - n))]"
        using True by (rule upt_add_eq_append)
      then show ?thesis using True le by (simp only: le_add_diff_inverse max_absorb2)
    next
      case False
      then show ?thesis by (simp only: max_absorb1 not_le less_imp_le upt_conv_Nil append_Nil)
    qed
    moreover have "concat (map ?f [max n (?m - n)..<length df - n]) = []"
      using assms by (auto simp: min_def max_def split: if_splits)
    moreover have "map ?f [n..<?m - n] = map (fractal_at (take (nat a + 1) df) n) [n..<?m - n]"
      using assms by (auto simp: fractal_at_take min_def split: if_splits)
    ultimately show ?thesis by (simp only: map_append concat_append append_Nil2)
  qed
  show ?thesis unfolding fractal_candidates_def using e by (simp add: min.commute)
qed

lemma fractal_candidates_index:
  "s \<in> set (fractal_candidates df n as_of) \<Longrightarrow> 0 \<le> sw_index s \<and> sw_index s + int n < int (length df)"
  by (auto simp: fractal_candidates_def split: if_splits dest!: fractal_at_index)

lemma zigzag_filter_cong:
  assumes "\<And>s. s \<in> set cs \<Longrightarrow> atr_at atr (sw_index s) 0 = atr_at atr' (sw_index s) 0"
  shows "zigzag_filter cs atr p f = zigzag_filter cs atr' p f"
proof -
  have "fold (zigzag_step atr p f) cs acc = fold (zigzag_step atr' p f) cs acc" for acc
    using assms by (intro fold_cong) (auto simp: zigzag_step_def)
  then show ?thesis by (simp add: zigzag_filter_def)
qed

text \<open>C34. The swings as of a bar are those of the frame that ends with it: bars behind the cutoff change neither the candidates
  nor the volatility they are measured by, so a signal at bar \<open>a\<close> sees no bar that had not closed.\<close>

theorem swings_as_of:
  assumes "0 \<le> a"
  shows "find_swings df n pct factor None (Some a) = find_swings (take (nat a + 1) df) n pct factor None None"
proof -
  let ?p = "take (nat a + 1) df"
  have c: "fractal_candidates df n (Some a) = fractal_candidates ?p n None" using fractal_candidates_take [OF assms] .
  have z: "zigzag_filter (fractal_candidates ?p n None) (atr_series 14 df) pct factor =
      zigzag_filter (fractal_candidates ?p n None) (atr_series 14 ?p) pct factor"
  proof (rule zigzag_filter_cong)
    fix s assume "s \<in> set (fractal_candidates ?p n None)"
    from fractal_candidates_index [OF this] have "0 \<le> sw_index s" "sw_index s < int (nat a + 1)" "sw_index s < int (length df)"
      by auto
    then show "atr_at (atr_series 14 df) (sw_index s) 0 = atr_at (atr_series 14 ?p) (sw_index s) 0"
      unfolding atr_series_take by (subst atr_at_take) simp_all
  qed
  have none: "fractal_candidates ?p n None = []" if "length ?p < n * 2 + 1"
    using that by (auto simp: fractal_candidates_def)
  show ?thesis using z none by (auto simp: find_swings_def c zigzag_filter_def)
qed


theorem swings_as_of_witness:
  "find_swings demo_bars 1 0 0 None (Some 3) = find_swings (take 4 demo_bars) 1 0 0 None None \<and>
   map (\<lambda>s. (sw_index s, sw_label s)) (find_swings demo_bars 1 0 0 None (Some 3)) = [(1, ''HL''), (2, ''HH'')]"
proof -
  have e: "map (\<lambda>s. (sw_index s, sw_label s)) (find_swings demo_bars 1 0 0 None (Some 3)) = [(1, ''HL''), (2, ''HH'')]" by code_simp
  then show ?thesis using swings_as_of [of 3 demo_bars 1 0 0] by simp
qed

section \<open>Causal breaks do not look ahead\<close>

definition confirmed_before :: "nat \<Rightarrow> swing list \<Rightarrow> nat \<Rightarrow> swing list" where
  "confirmed_before n items i = before_bar i (filter (\<lambda>s. sw_index s + int n \<le> int i) (sort_key sw_index items))"

definition breaks_step :: "nat \<Rightarrow> swing list \<Rightarrow> ohlc list \<Rightarrow> nat \<Rightarrow> break_state \<Rightarrow> break_state" where
  "breaks_step n items df i =
     break_bar (market_structure (confirmed_before n items i)) (confirmed_before n items i) i (df ! i)"

lemma takeWhile_more:
  "(\<And>x. P x \<Longrightarrow> Q x) \<Longrightarrow> takeWhile P xs @ takeWhile Q (dropWhile P xs) = takeWhile Q xs \<and>
     dropWhile Q (dropWhile P xs) = dropWhile Q xs"
  by (induction xs) auto

lemma takeWhile_sorted:
  "sorted (map sw_index xs) \<Longrightarrow> takeWhile (\<lambda>s. sw_index s + k \<le> i) xs = filter (\<lambda>s. sw_index s + k \<le> i) xs"
proof (induction xs)
  case (Cons x xs)
  show ?case
  proof (cases "sw_index x + k \<le> i")
    case False
    then have "\<forall>s \<in> set xs. \<not> sw_index s + k \<le> i" using Cons.prems by auto
    then show ?thesis using False by (simp add: filter_empty_conv)
  qed (use Cons in simp)
qed simp

lemma causal_fold:
  fixes items :: "swing list" and n :: nat
  defines "due \<equiv> \<lambda>i s. sw_index s + int n \<le> int i"
  shows "fold (causal_bar n df) [0..<k] (([], sort_key sw_index items), ([], [])) =
     (if k = 0 then ([], sort_key sw_index items)
      else (takeWhile (due (k - 1)) (sort_key sw_index items), dropWhile (due (k - 1)) (sort_key sw_index items)),
      fold (breaks_step n items df) [0..<k] ([], []))"
proof (induction k)
  case (Suc k)
  let ?o = "sort_key sw_index items"
  have c: "confirm_until n k (if k = 0 then ([], ?o) else (takeWhile (due (k - 1)) ?o, dropWhile (due (k - 1)) ?o)) =
      (takeWhile (due k) ?o, dropWhile (due k) ?o)"
  proof (cases "k = 0")
    case False
    have "due (k - 1) x \<Longrightarrow> due k x" for x using False by (simp add: due_def)
    from takeWhile_more [of "due (k - 1)" "due k" ?o, OF this] show ?thesis using False by (simp add: confirm_until_def due_def Let_def)
  qed (simp add: confirm_until_def due_def Let_def)
  have "takeWhile (due k) ?o = filter (due k) ?o" unfolding due_def by (rule takeWhile_sorted) simp
  then have p: "before_bar k (takeWhile (due k) ?o) = confirmed_before n items k" by (simp add: confirmed_before_def due_def)
  have "fold (causal_bar n df) [0..<Suc k] (([], ?o), ([], [])) =
      causal_bar n df k (fold (causal_bar n df) [0..<k] (([], ?o), ([], [])))" by simp
  also have "\<dots> = ((takeWhile (due k) ?o, dropWhile (due k) ?o), breaks_step n items df k (fold (breaks_step n items df) [0..<k] ([], [])))"
    unfolding Suc.IH causal_bar_def Let_def prod.case c fst_conv p breaks_step_def ..
  finally show ?case by simp
qed simp

lemma structure_breaks_causal_fold:
  "structure_breaks_causal items df n = snd (fold (breaks_step n items df) [0..<length df] ([], []))"
  unfolding structure_breaks_causal_def causal_fold by simp

lemma break_side_appends:
  "\<exists>xs. snd (break_side trend d ex i b st) = snd st @ xs \<and> (\<forall>x \<in> set xs. mb_index x = int i)"
  by (auto simp: break_side_def Let_def split: prod.splits)

lemma breaks_step_appends:
  "\<exists>xs. snd (breaks_step n items df i st) = snd st @ xs \<and> (\<forall>x \<in> set xs. mb_index x = int i)"
proof -
  let ?c = "confirmed_before n items i"
  obtain xs where xs: "snd (break_side (market_structure ?c) ''up'' (of_kind ''high'' ?c) i (df ! i) st) = snd st @ xs"
    "\<forall>x \<in> set xs. mb_index x = int i" using break_side_appends by blast
  obtain ys where ys: "snd (break_side (market_structure ?c) ''down'' (of_kind ''low'' ?c) i (df ! i)
      (break_side (market_structure ?c) ''up'' (of_kind ''high'' ?c) i (df ! i) st)) =
      snd (break_side (market_structure ?c) ''up'' (of_kind ''high'' ?c) i (df ! i) st) @ ys"
    "\<forall>x \<in> set ys. mb_index x = int i" using break_side_appends by blast
  show ?thesis using xs ys by (intro exI [of _ "xs @ ys"]) (auto simp: breaks_step_def break_bar_def)
qed

lemma breaks_fold_appends:
  "\<exists>xs. snd (fold (breaks_step n items df) [a..<b] st) = snd st @ xs \<and> (\<forall>x \<in> set xs. int a \<le> mb_index x \<and> mb_index x < int b)"
proof (induction b)
  case (Suc b)
  show ?case
  proof (cases "a \<le> b")
    case True
    obtain xs where xs: "snd (fold (breaks_step n items df) [a..<b] st) = snd st @ xs" "\<forall>x \<in> set xs. int a \<le> mb_index x \<and> mb_index x < int b"
      using Suc by blast
    obtain ys where ys: "snd (breaks_step n items df b (fold (breaks_step n items df) [a..<b] st)) =
        snd (fold (breaks_step n items df) [a..<b] st) @ ys" "\<forall>x \<in> set ys. mb_index x = int b"
      using breaks_step_appends by blast
    show ?thesis using xs ys True by (intro exI [of _ "xs @ ys"]) auto
  qed simp
qed simp

text \<open>C35. Causal breaks of structure do not look ahead: the breaks before bar \<open>m\<close> are those that the first \<open>m\<close> bars give with
  the swings that were confirmed before bar \<open>m\<close>; later bars and swings that were not yet confirmed change neither which
  breaks there are nor whether they continue or change the trend.\<close>

theorem breaks_causal:
  "filter (\<lambda>b. mb_index b < int m) (structure_breaks items df True n) =
     structure_breaks (filter (\<lambda>s. sw_index s + int n < int m) items) (take m df) True n"
proof -
  let ?P = "\<lambda>s. sw_index s + int n < int m" and ?k = "min (length df) m"
  have same: "confirmed_before n (filter ?P items) i = confirmed_before n items i" if "i < m" for i
  proof -
    have "filter (\<lambda>s. sw_index s + int n \<le> int i) (filter ?P (sort_key sw_index items)) =
        filter (\<lambda>s. sw_index s + int n \<le> int i) (sort_key sw_index items)"
      using that by (auto intro!: filter_cong)
    then show ?thesis by (simp add: confirmed_before_def filter_sort)
  qed
  have pre: "fold (breaks_step n (filter ?P items) (take m df)) [0..<?k] st = fold (breaks_step n items df) [0..<?k] st" for st
    by (intro fold_cong) (auto simp: breaks_step_def same)
  have split: "[0..<length df] = [0..<?k] @ [?k..<length df]"
    using upt_add_eq_append [of 0 ?k "length df - ?k"] by simp
  obtain xs where xs: "snd (fold (breaks_step n items df) [0..<?k] ([], [])) = xs" "\<forall>x \<in> set xs. mb_index x < int ?k"
    using breaks_fold_appends [of n items df 0 ?k "([], [])"] by auto
  obtain ys where ys: "snd (fold (breaks_step n items df) [?k..<length df] (fold (breaks_step n items df) [0..<?k] ([], []))) = xs @ ys"
    "\<forall>x \<in> set ys. int ?k \<le> mb_index x \<and> mb_index x < int (length df)"
    using breaks_fold_appends [of n items df ?k "length df" "fold (breaks_step n items df) [0..<?k] ([], [])"] xs(1) by auto
  have l: "structure_breaks items df True n = xs @ ys"
    by (simp add: structure_breaks_def structure_breaks_causal_fold split ys(1))
  have r: "structure_breaks (filter ?P items) (take m df) True n = xs"
    using pre xs(1) by (simp add: structure_breaks_def structure_breaks_causal_fold)
  have "filter (\<lambda>b. mb_index b < int m) xs = xs" using xs(2) by (auto intro!: filter_True)
  moreover have "filter (\<lambda>b. mb_index b < int m) ys = []" using ys(2) by (auto simp: filter_empty_conv)
  ultimately show ?thesis by (simp add: l r)
qed

section \<open>Key levels lie apart\<close>

definition levels_apart :: "rat \<Rightarrow> level list \<Rightarrow> bool" where
  "levels_apart tolerance levels \<longleftrightarrow> sorted_wrt (\<lambda>a b. lv_price a + tolerance < lv_price b) levels"

lemma levels_apart_snoc:
  assumes "levels_apart t (xs @ [y])" "lv_price y \<le> lv_price z"
  shows "levels_apart t (xs @ [z])"
  using assms by (auto simp: levels_apart_def sorted_wrt_append)

lemma dedupe_fold:
  assumes "sorted (map lv_price ls)" "\<forall>l \<in> set ls. P l \<and> lv_band l = t" "0 \<le> t"
    and merge: "\<And>a b. P a \<Longrightarrow> P b \<Longrightarrow> lv_price a \<le> lv_price b \<Longrightarrow> P (merge_levels a b)"
    and acc: "levels_apart t acc" "\<forall>l \<in> set acc. P l \<and> lv_band l = t" "\<forall>a \<in> set acc. \<forall>l \<in> set ls. lv_price a \<le> lv_price l"
  shows "levels_apart t (fold (dedupe_level t) ls acc) \<and> (\<forall>l \<in> set (fold (dedupe_level t) ls acc). P l \<and> lv_band l = t)"
  using assms(1,2) acc
proof (induction ls arbitrary: acc)
  case (Cons l ls)
  have l: "P l" "lv_band l = t" "sorted (map lv_price ls)" "\<forall>x \<in> set ls. lv_price l \<le> lv_price x"
    using Cons.prems(1,2) by simp_all
  have rest: "\<forall>x \<in> set ls. P x \<and> lv_band x = t" using Cons.prems(2) by simp
  have le: "\<forall>a \<in> set acc. lv_price a \<le> lv_price l" using Cons.prems(5) by (meson list.set_intros(1))
  show ?case
  proof (cases acc rule: rev_exhaust)
    case Nil
    have "levels_apart t [l]" by (simp add: levels_apart_def)
    moreover have "\<forall>x \<in> set [l]. P x \<and> lv_band x = t" "\<forall>a \<in> set [l]. \<forall>x \<in> set ls. lv_price a \<le> lv_price x"
      using l(1,2,4) by simp_all
    ultimately have "levels_apart t (fold (dedupe_level t) ls [l]) \<and> (\<forall>x \<in> set (fold (dedupe_level t) ls [l]). P x \<and> lv_band x = t)"
      using Cons.IH [OF l(3) rest] by blast
    moreover have "dedupe_level t l [] = [l]" by (simp add: dedupe_level_def)
    ultimately show ?thesis by (simp add: Nil)
  next
    case (snoc as p)
    have p: "P p" "lv_band p = t" "lv_price p \<le> lv_price l" using Cons.prems(4) le by (simp_all add: snoc)
    show ?thesis
    proof (cases "\<bar>lv_price p - lv_price l\<bar> \<le> max (lv_band l) t")
      case True
      let ?m = "merge_levels p l"
      have m: "lv_price p \<le> lv_price ?m" "lv_price ?m \<le> lv_price l" "lv_band ?m = t" "P ?m"
        using p(2,3) l(2) merge [OF p(1) l(1) p(3)] by (simp_all add: merge_levels_def [of p l] field_simps)
      have "levels_apart t (as @ [?m])" using levels_apart_snoc [OF _ m(1)] Cons.prems(3) by (simp add: snoc)
      moreover have "\<forall>a \<in> set (as @ [?m]). \<forall>x \<in> set ls. lv_price a \<le> lv_price x"
        using Cons.prems(5) m(2) l(4) by (auto simp: snoc intro: order_trans)
      moreover have "\<forall>x \<in> set (as @ [?m]). P x \<and> lv_band x = t" using Cons.prems(4) m by (auto simp: snoc)
      ultimately have "levels_apart t (fold (dedupe_level t) ls (as @ [?m])) \<and>
          (\<forall>x \<in> set (fold (dedupe_level t) ls (as @ [?m])). P x \<and> lv_band x = t)"
        using Cons.IH [OF l(3) rest] by blast
      moreover have "dedupe_level t l acc = as @ [?m]" using True by (simp add: snoc dedupe_level_def)
      ultimately show ?thesis by simp
    next
      case False
      have gap: "lv_price p + t < lv_price l" using False p(3) l(2) by simp
      have "levels_apart t (as @ [p])" using Cons.prems(3) by (simp add: snoc)
      then have "\<forall>a \<in> set (as @ [p]). lv_price a + t < lv_price l"
        using gap assms(3) by (auto simp: levels_apart_def sorted_wrt_append)
      then have "levels_apart t ((as @ [p]) @ [l])" using Cons.prems(3) by (simp add: snoc levels_apart_def sorted_wrt_append)
      moreover have "\<forall>a \<in> set ((as @ [p]) @ [l]). \<forall>x \<in> set ls. lv_price a \<le> lv_price x"
        using Cons.prems(5) l(4) by (auto simp: snoc)
      moreover have "\<forall>x \<in> set ((as @ [p]) @ [l]). P x \<and> lv_band x = t" using Cons.prems(4) l(1,2) by (auto simp: snoc)
      ultimately have "levels_apart t (fold (dedupe_level t) ls ((as @ [p]) @ [l])) \<and>
          (\<forall>x \<in> set (fold (dedupe_level t) ls ((as @ [p]) @ [l])). P x \<and> lv_band x = t)"
        using Cons.IH [OF l(3) rest] by blast
      moreover have "dedupe_level t l acc = (as @ [p]) @ [l]" using False by (simp add: snoc dedupe_level_def)
      ultimately show ?thesis by simp
    qed
  qed
qed simp

lemma fold_join_last:
  assumes "\<forall>c \<in> set acc. c \<noteq> []"
  shows "mset (concat (fold (join_last t m) ss acc)) = mset ss + mset (concat acc)"
    "\<forall>c \<in> set (fold (join_last t m) ss acc). c \<noteq> []"
proof -
  have "mset (concat (fold (join_last t m) ss acc)) = mset ss + mset (concat acc) \<and> (\<forall>c \<in> set (fold (join_last t m) ss acc). c \<noteq> [])"
    using assms
  proof (induction ss arbitrary: acc)
    case (Cons s ss)
    have j: "mset (concat (join_last t m s acc)) = add_mset s (mset (concat acc))" "\<forall>c \<in> set (join_last t m s acc). c \<noteq> []"
      using Cons.prems by (cases acc rule: rev_exhaust; auto simp: join_last_def)+
    show ?case using Cons.IH [OF j(2)] j(1) by simp
  qed simp
  then show "mset (concat (fold (join_last t m) ss acc)) = mset ss + mset (concat acc)"
    "\<forall>c \<in> set (fold (join_last t m) ss acc). c \<noteq> []" by simp_all
qed

lemma price_clusters_partition:
  "mset (concat (price_clusters items t m)) = mset items" "c \<in> set (price_clusters items t m) \<Longrightarrow> c \<noteq> []"
  using fold_join_last [of "[]"] by (simp_all add: price_clusters_def)

text \<open>C36. Key levels lie apart: they are sorted and any two differ by more than the tolerance, every one of them was touched at
  least the required number of times and has the tolerance as its band; so a price lies in the bands of at most two levels.\<close>

theorem key_levels_apart:
  assumes "0 \<le> factor"
  shows "levels_apart (atr_scalar atr 1 * factor) (key_levels items atr factor round_step min_touches span_multiple) \<and>
    list_all (\<lambda>l. int min_touches \<le> lv_touches l \<and> lv_band l = atr_scalar atr 1 * factor)
      (key_levels items atr factor round_step min_touches span_multiple)"
proof -
  define t where "t = atr_scalar atr 1 * max 0 factor"
  have pos: "0 \<le> atr_scalar atr 1" by (cases atr) (simp_all add: positive_or_def)
  have t: "t = atr_scalar atr 1 * factor" "0 \<le> t" using assms pos by (simp_all add: t_def)
  define ls where "ls = map (cluster_level t) (filter (\<lambda>c. min_touches \<le> length c) (price_clusters items t span_multiple)) @
      round_levels items atr round_step t min_touches"
  have each: "\<forall>l \<in> set ls. int min_touches \<le> lv_touches l \<and> lv_band l = t"
    by (auto simp: ls_def cluster_level_def round_levels_def Let_def split: if_splits)
  have k: "key_levels items atr factor round_step min_touches span_multiple = fold (dedupe_level t) (sort_key lv_price ls) []"
    by (simp add: key_levels_def Let_def t_def ls_def)
  have "levels_apart t (fold (dedupe_level t) (sort_key lv_price ls) []) \<and>
      (\<forall>l \<in> set (fold (dedupe_level t) (sort_key lv_price ls) []). int min_touches \<le> lv_touches l \<and> lv_band l = t)"
    by (rule dedupe_fold) (use each t(2) in \<open>auto simp: merge_levels_def levels_apart_def\<close>)
  then show ?thesis by (simp add: k list_all_iff flip: t(1))
qed

definition demo_swings :: "swing list" where
  "demo_swings = map (\<lambda>(i, kind, price). new_swing i kind price 0)
     [(0, ''high'', 100), (1, ''low'', 90), (2, ''high'', 101), (3, ''low'', 91), (4, ''high'', 110)]"

theorem key_levels_apart_witness:
  "map lv_price (key_levels demo_swings (Atr_value 4) (1 / 2) 5 2 2) = [361 / 4, 401 / 4] \<and>
   levels_apart 2 (key_levels demo_swings (Atr_value 4) (1 / 2) 5 2 2)"
proof -
  have e: "map lv_price (key_levels demo_swings (Atr_value 4) (1 / 2) 5 2 2) = [361 / 4, 401 / 4]" by code_simp
  have "levels_apart (atr_scalar (Atr_value 4) 1 * (1 / 2)) (key_levels demo_swings (Atr_value 4) (1 / 2) 5 2 2)"
    using key_levels_apart [of "1 / 2" "Atr_value 4" demo_swings 5 2 2] by simp
  then show ?thesis using e by (simp add: positive_or_def)
qed

section \<open>The dealing range\<close>

definition opposing_band :: "swing list \<Rightarrow> rat \<Rightarrow> rat \<Rightarrow> bool" where
  "opposing_band items low high \<longleftrightarrow>
     (\<exists>i j. j < i \<and> i < length items \<and> sw_kind (items ! j) \<noteq> sw_kind (items ! i) \<and> (low, high) = band_of (items ! i) (items ! j))"

lemma find_in: "List.find P xs = Some x \<Longrightarrow> x \<in> set xs \<and> P x"
  by (auto simp: find_Some_iff)

lemma bracket_with_iff:
  "bracket_with price s earlier = Some (low, high) \<Longrightarrow>
     (\<exists>t \<in> set earlier. sw_kind t \<noteq> sw_kind s \<and> (low, high) = band_of s t) \<and> low \<le> price \<and> price \<le> high"
  "bracket_with price s earlier = None \<Longrightarrow> t \<in> set earlier \<Longrightarrow> sw_kind t \<noteq> sw_kind s \<Longrightarrow>
     band_of s t = (low, high) \<Longrightarrow> \<not> (low \<le> price \<and> price \<le> high)"
proof -
  let ?l = "map (band_of s) (filter (\<lambda>t. sw_kind t \<noteq> sw_kind s) (rev earlier))"
  show "(\<exists>t \<in> set earlier. sw_kind t \<noteq> sw_kind s \<and> (low, high) = band_of s t) \<and> low \<le> price \<and> price \<le> high"
    if "bracket_with price s earlier = Some (low, high)"
  proof -
    have "(low, high) \<in> set ?l \<and> (case (low, high) of (l, h) \<Rightarrow> l \<le> price \<and> price \<le> h)"
      by (rule find_in) (use that in \<open>simp add: bracket_with_def\<close>)
    then show ?thesis by auto
  qed
  show "\<not> (low \<le> price \<and> price \<le> high)"
    if n: "bracket_with price s earlier = None" and t: "t \<in> set earlier" "sw_kind t \<noteq> sw_kind s" "band_of s t = (low, high)"
  proof -
    have "band_of s t \<in> set ?l" unfolding set_map using t(1,2) by (intro imageI) simp
    moreover have "\<not> (\<exists>x. x \<in> set ?l \<and> (case x of (l, h) \<Rightarrow> l \<le> price \<and> price \<le> h))"
      using n unfolding bracket_with_def find_None_iff .
    ultimately show ?thesis using t(3) by auto
  qed
qed

lemma bracketing_from_iff:
  "n \<le> length items \<Longrightarrow> bracketing_from price items n = Some (low, high) \<Longrightarrow>
     opposing_band items low high \<and> low \<le> price \<and> price \<le> high"
  "bracketing_from price items n = None \<Longrightarrow> i < n \<Longrightarrow> j < i \<Longrightarrow> n \<le> length items \<Longrightarrow>
     sw_kind (items ! j) \<noteq> sw_kind (items ! i) \<Longrightarrow> band_of (items ! i) (items ! j) = (low, high) \<Longrightarrow> \<not> (low \<le> price \<and> price \<le> high)"
proof (induction n)
  case (Suc n)
  {
    case 1
    show ?case
    proof (cases "bracket_with price (items ! n) (take n items)")
      case None
      then show ?thesis using Suc(1) 1 by simp
    next
      case (Some p)
      then have p: "bracket_with price (items ! n) (take n items) = Some (low, high)" using 1 by simp
      obtain t where t: "t \<in> set (take n items)" "sw_kind t \<noteq> sw_kind (items ! n)" "(low, high) = band_of (items ! n) t"
        "low \<le> price \<and> price \<le> high" using bracket_with_iff(1) [OF p] by blast
      then obtain j where "j < n" "t = items ! j" by (auto simp: in_set_conv_nth)
      then have "j < n \<and> n < length items \<and> sw_kind (items ! j) \<noteq> sw_kind (items ! n) \<and> (low, high) = band_of (items ! n) (items ! j)"
        using t 1(1) by simp
      then show ?thesis using t(4) unfolding opposing_band_def by blast
    qed
  next
    case 2
    have n: "bracket_with price (items ! n) (take n items) = None" "bracketing_from price items n = None"
      using 2(1) by (auto split: option.splits)
    show ?case
    proof (cases "i = n")
      case True
      have "items ! j \<in> set (take n items)" using 2(3,4) True by (auto simp: in_set_conv_nth)
      then show ?thesis using bracket_with_iff(2) [OF n(1) _ _] 2(5,6) True by blast
    next
      case False
      then show ?thesis using Suc(2) [OF n(2)] 2 by simp
    qed
  }
qed simp_all

lemma last_opposing_band:
  assumes "last_opposing_pair items = Some (low, high)"
  shows "opposing_band items low high"
proof -
  obtain t where t: "List.find (\<lambda>s. sw_kind s \<noteq> sw_kind (last items)) (rev (butlast items)) = Some t" "(low, high) = band_of (last items) t"
    "2 \<le> length items"
    using assms by (auto simp: last_opposing_pair_def not_less split: if_splits)
  have k: "sw_kind t \<noteq> sw_kind (last items)" "t \<in> set (butlast items)"
    using find_in [OF t(1)] by simp_all
  obtain j where j: "j < length (butlast items)" "t = butlast items ! j" using k(2) by (auto simp: in_set_conv_nth)
  have "items \<noteq> []" using t(3) by auto
  then have e: "last items = items ! (length items - 1)" "t = items ! j" "j < length items - 1"
    using j by (simp_all add: last_conv_nth nth_butlast)
  then show ?thesis using t(2,3) k(1) unfolding opposing_band_def
    by (intro exI [of _ "length items - 1"] exI [of _ j]) simp
qed

lemma swing_range_pair_band:
  assumes "swing_range_pair items price = Some (low, high)"
  shows "opposing_band items low high"
    "opposing_band items l h \<Longrightarrow> l \<le> price \<Longrightarrow> price \<le> h \<Longrightarrow> low \<le> price \<and> price \<le> high"
proof -
  have "opposing_band items low high \<and> (opposing_band items l h \<longrightarrow> l \<le> price \<longrightarrow> price \<le> h \<longrightarrow> low \<le> price \<and> price \<le> high)" for l h
  proof (cases "bracketing_pair items price")
    case None
    have "\<not> (l \<le> price \<and> price \<le> h)" if band: "opposing_band items l h"
    proof -
      obtain i j where ij: "j < i" "i < length items" "sw_kind (items ! j) \<noteq> sw_kind (items ! i)" "band_of (items ! i) (items ! j) = (l, h)"
        using band unfolding opposing_band_def by metis
      show ?thesis using bracketing_from_iff(2) [OF None [unfolded bracketing_pair_def] ij(2,1) order_refl ij(3,4)] .
    qed
    then show ?thesis using last_opposing_band assms None by (auto simp: swing_range_pair_def)
  next
    case (Some p)
    then show ?thesis using assms bracketing_from_iff(1) [of "length items" items price low high]
      by (simp add: swing_range_pair_def bracketing_pair_def)
  qed
  then show "opposing_band items low high"
    "opposing_band items l h \<Longrightarrow> l \<le> price \<Longrightarrow> price \<le> h \<Longrightarrow> low \<le> price \<and> price \<le> high" by blast+
qed

text \<open>A dealing range spans two swings of opposite kind; it contains the price whenever the band of some such pair does. The
  position is where the price lies in the range, held between 0 and 1, and both labels agree with it: the coarse and the
  fine label name the equilibrium together, a discount lies below the middle of the range and a premium above.\<close>

theorem dealing_range_sound:
  assumes "dealing_range items price eq_band deep_discount deep_premium = Some r"
  shows "opposing_band items (dr_low r) (dr_high r) \<and> dr_low r < dr_high r \<and> 0 \<le> dr_position r \<and> dr_position r \<le> 1 \<and>
    dr_eq r = (dr_low r + dr_high r) / 2 \<and>
    ((\<exists>low high. opposing_band items low high \<and> low \<le> price \<and> price \<le> high) \<longrightarrow> dr_low r \<le> price \<and> price \<le> dr_high r) \<and>
    (dr_low r \<le> price \<and> price \<le> dr_high r \<longrightarrow> price = dr_low r + dr_position r * (dr_high r - dr_low r)) \<and>
    (dr_zone r = ''eq'' \<longleftrightarrow> dr_fib_zone r = ''eq'') \<and>
    (dr_zone r = ''discount'' \<longrightarrow> price < dr_eq r) \<and> (dr_zone r = ''premium'' \<longrightarrow> dr_eq r < price)"
proof -
  obtain low high where pair: "swing_range_pair items price = Some (low, high)" "low < high"
    using assms by (auto simp: dealing_range_def split: option.splits prod.splits if_splits)
  define pos where "pos = min 1 (max 0 ((price - low) / (high - low)))"
  have r: "r = \<lparr>dr_high = high, dr_low = low, dr_eq = (high + low) / 2, dr_position = pos,
      dr_zone = (if \<bar>pos - 1 / 2\<bar> \<le> max 0 eq_band / 2 then ''eq'' else if pos < 1 / 2 then ''discount'' else ''premium''),
      dr_fib_zone = fib_zone_label pos deep_discount deep_premium (max 0 eq_band / 2)\<rparr>"
  proof -
    have "\<not> high \<le> low" using pair(2) by simp
    then show ?thesis
      using assms unfolding dealing_range_def pair(1) option.case prod.case Let_def pos_def [symmetric] by simp
  qed
  have p: "0 \<le> pos" "pos \<le> 1" by (simp_all add: pos_def)
  have exact: "price = low + pos * (high - low)" if "low \<le> price" "price \<le> high"
  proof -
    have "0 \<le> (price - low) / (high - low)" "(price - low) / (high - low) \<le> 1" using that pair(2) by simp_all
    then have "pos = (price - low) / (high - low)" by (simp add: pos_def)
    then show ?thesis using pair(2) by simp
  qed
  have half: "price < (high + low) / 2" if "pos < 1 / 2"
  proof -
    have "(price - low) / (high - low) \<le> max 0 ((price - low) / (high - low))" "max 0 ((price - low) / (high - low)) < 1 / 2"
      using that unfolding pos_def min_less_iff_disj by simp_all
    then have "(price - low) / (high - low) < 1 / 2" by (rule le_less_trans)
    then show ?thesis using pair(2) by (simp add: divide_less_eq)
  qed
  have half': "(high + low) / 2 < price" if "1 / 2 < pos"
  proof -
    have "1 / 2 < (price - low) / (high - low)" using that unfolding pos_def min_less_iff_conj less_max_iff_disj by simp
    then show ?thesis using pair(2) by (simp add: less_divide_eq)
  qed
  have zone: "dr_zone r = ''discount'' \<Longrightarrow> pos < 1 / 2" "dr_zone r = ''premium'' \<Longrightarrow> 1 / 2 < pos"
    by (auto simp: r split: if_splits)
  have fib: "dr_zone r = ''eq'' \<longleftrightarrow> dr_fib_zone r = ''eq''" using p by (simp add: r fib_zone_label_def Let_def)
  have sel: "dr_low r = low" "dr_high r = high" "dr_position r = pos" by (simp_all add: r)
  have eq: "dr_eq r = (low + high) / 2" by (simp add: r)
  show ?thesis unfolding sel
  proof (intro conjI impI)
    show "low \<le> price" "price \<le> high" if "\<exists>low high. opposing_band items low high \<and> low \<le> price \<and> price \<le> high"
      using that swing_range_pair_band(2) [OF pair(1)] by blast+
    show "price < dr_eq r" if "dr_zone r = ''discount''" using half zone(1) that by (simp add: eq add.commute)
    show "dr_eq r < price" if "dr_zone r = ''premium''" using half' zone(2) that by (simp add: eq add.commute)
  qed (use swing_range_pair_band(1) [OF pair(1)] pair(2) p exact fib eq in blast)+
qed

theorem dealing_range_sound_witness:
  "map_option (\<lambda>r. (dr_low r, dr_high r, dr_position r, dr_zone r)) (dealing_range demo_swings 95 (1 / 10) (382 / 1000) (618 / 1000)) =
     Some (91, 110, 4 / 19, ''discount'') \<and>
   (\<exists>r. dealing_range demo_swings 95 (1 / 10) (382 / 1000) (618 / 1000) = Some r \<and> 95 < dr_eq r) \<and>
   dealing_range (map (\<lambda>(kind, price). new_swing 0 kind price 0) [(''low'', 90), (''high'', 110), (''low'', 100), (''high'', 100)])
     100 (1 / 10) (382 / 1000) (618 / 1000) = None"
proof -
  have e: "map_option (\<lambda>r. (dr_low r, dr_high r, dr_position r, dr_zone r)) (dealing_range demo_swings 95 (1 / 10) (382 / 1000) (618 / 1000)) =
     Some (91, 110, 4 / 19, ''discount'')" by code_simp
  then obtain r where r: "dealing_range demo_swings 95 (1 / 10) (382 / 1000) (618 / 1000) = Some r" "dr_zone r = ''discount''" by auto
  have n: "dealing_range (map (\<lambda>(kind, price). new_swing 0 kind price 0) [(''low'', 90), (''high'', 110), (''low'', 100), (''high'', 100)])
     100 (1 / 10) (382 / 1000) (618 / 1000) = None" by code_simp
  show ?thesis using e n r dealing_range_sound [OF r(1)] by blast
qed

section \<open>Breaks and retests of a level\<close>

definition beyond_level :: "bool \<Rightarrow> rat \<Rightarrow> rat \<Rightarrow> bool" where
  "beyond_level upwards price c = (if upwards then price < c else c < price)"

text \<open>A break is complete at the bar where the run of closes beyond the level reaches the required length.\<close>

definition completes_break :: "rat list \<Rightarrow> rat \<Rightarrow> nat \<Rightarrow> bool \<Rightarrow> nat \<Rightarrow> bool" where
  "completes_break closes price required upwards i \<longleftrightarrow>
     i < length closes \<and> required \<le> Suc i \<and> (\<forall>j. Suc i - required \<le> j \<and> j \<le> i \<longrightarrow> beyond_level upwards price (closes ! j)) \<and>
     (required = Suc i \<or> \<not> beyond_level upwards price (closes ! (i - required)))"

definition run_before :: "rat list \<Rightarrow> rat \<Rightarrow> bool \<Rightarrow> nat \<Rightarrow> nat \<Rightarrow> bool" where
  "run_before closes price upwards i k \<longleftrightarrow>
     k \<le> i \<and> (\<forall>j. i - k \<le> j \<and> j < i \<longrightarrow> beyond_level upwards price (closes ! j)) \<and>
     (k = i \<or> \<not> beyond_level upwards price (closes ! (i - Suc k)))"

lemma run_before_unique:
  assumes "run_before closes price upwards i k" "run_before closes price upwards i k'"
  shows "k' = k"
proof -
  have "\<not> a < b" if a: "run_before closes price upwards i a" and b: "run_before closes price upwards i b" for a b
  proof
    assume "a < b"
    then have "i - b \<le> i - Suc a" "i - Suc a < i" "a \<noteq> i" using b unfolding run_before_def by auto
    then have "beyond_level upwards price (closes ! (i - Suc a))" using b unfolding run_before_def by blast
    then show False using a \<open>a \<noteq> i\<close> unfolding run_before_def by blast
  qed
  from this [OF assms] this [OF assms(2,1)] show ?thesis by simp
qed

lemma completes_break_iff:
  assumes "run_before closes price upwards i k" "i < length closes" "0 < required"
  shows "completes_break closes price required upwards i \<longleftrightarrow> beyond_level upwards price (closes ! i) \<and> Suc k = required"
proof
  assume c: "completes_break closes price required upwards i"
  then have now: "beyond_level upwards price (closes ! i)" "required \<le> Suc i" using assms(3) unfolding completes_break_def by auto
  have "run_before closes price upwards i (required - 1)"
  proof -
    have "Suc i - required = i - (required - 1)" "i - Suc (required - 1) = i - required" using assms(3) by simp_all
    then show ?thesis using c now(2) assms(3) unfolding completes_break_def run_before_def by auto
  qed
  from run_before_unique [OF this assms(1)] show "beyond_level upwards price (closes ! i) \<and> Suc k = required" using now(1) assms(3) by simp
next
  assume r: "beyond_level upwards price (closes ! i) \<and> Suc k = required"
  have "beyond_level upwards price (closes ! j)" if "i - k \<le> j" "j \<le> i" for j
    using r assms(1) that unfolding run_before_def by (cases "j = i") auto
  then show "completes_break closes price required upwards i"
    using r assms(1,2) unfolding completes_break_def run_before_def by auto
qed

definition latest_upto :: "(nat \<Rightarrow> bool) \<Rightarrow> nat \<Rightarrow> nat option \<Rightarrow> bool" where
  "latest_upto P n found \<longleftrightarrow>
     (case found of None \<Rightarrow> \<forall>k < n. \<not> P k | Some b \<Rightarrow> b < n \<and> P b \<and> (\<forall>k. b < k \<and> k < n \<longrightarrow> \<not> P k))"

lemma last_break_from_latest:
  assumes "cs = drop i closes" "i \<le> length closes" "0 < required" "run_before closes price upwards i k"
    and "latest_upto (completes_break closes price required upwards) i found"
  shows "latest_upto (completes_break closes price required upwards) (length closes)
      (last_break_from price required upwards i k found cs)"
  using assms
proof (induction cs arbitrary: i k found)
  case (Cons c cs)
  let ?C = "completes_break closes price required upwards"
  have i: "i < length closes" using Cons.prems(1,2) by (metis drop_all linorder_not_le list.distinct(1))
  then have c: "closes ! i = c" "cs = drop (Suc i) closes"
    using Cons.prems(1) [symmetric] Cons_nth_drop_Suc [OF i] by (metis list.inject)+
  note iff = completes_break_iff [OF Cons.prems(4) i assms(3)]
  show ?case
  proof (cases "beyond_level upwards price c")
    case True
    have "run_before closes price upwards (Suc i) (Suc k)"
      using Cons.prems(4) True c(1) unfolding run_before_def by (auto simp: less_Suc_eq)
    moreover have "latest_upto ?C (Suc i) (if Suc k = required then Some i else found)"
      using Cons.prems(5) iff True c(1) by (auto simp: latest_upto_def less_Suc_eq split: option.splits)
    ultimately show ?thesis
      using Cons.IH [OF c(2) _ assms(3)] i True by (simp add: beyond_level_def)
  next
    case False
    have "run_before closes price upwards (Suc i) 0" using False c(1) unfolding run_before_def by auto
    moreover have "latest_upto ?C (Suc i) found"
      using Cons.prems(5) iff False c(1) by (auto simp: latest_upto_def less_Suc_eq split: option.splits)
    ultimately show ?thesis
      using Cons.IH [OF c(2) _ assms(3)] i False by (simp add: beyond_level_def)
  qed
qed (simp add: drop_eq_Nil)

lemma last_break_latest:
  assumes "0 < required"
  shows "latest_upto (completes_break closes price required upwards) (length closes)
      (last_consecutive_break_index closes price required upwards)"
  unfolding last_consecutive_break_index_def
  by (rule last_break_from_latest) (simp_all add: assms run_before_def latest_upto_def)

text \<open>The level was broken at \<open>b\<close> and neither direction has completed a break since.\<close>

definition latest_break :: "rat list \<Rightarrow> rat \<Rightarrow> nat \<Rightarrow> string \<Rightarrow> nat \<Rightarrow> bool" where
  "latest_break closes price required direction b \<longleftrightarrow>
     direction \<in> {''buy'', ''sell''} \<and> completes_break closes price required (direction = ''buy'') b \<and>
     (\<forall>k. b < k \<longrightarrow> \<not> completes_break closes price required True k \<and> \<not> completes_break closes price required False k)"

lemma completes_within: "completes_break closes price required upwards k \<Longrightarrow> k < length closes"
  by (simp add: completes_break_def)

lemma completes_one_side:
  "0 < required \<Longrightarrow> completes_break closes price required True k \<Longrightarrow> \<not> completes_break closes price required False k"
  unfolding completes_break_def beyond_level_def by (auto dest!: spec [of _ k])

lemma break_and_direction_latest:
  assumes "0 < required"
  shows "break_and_direction (last_consecutive_break_index closes price required True)
      (last_consecutive_break_index closes price required False) = Some (b, direction) \<longleftrightarrow> latest_break closes price required direction b"
proof -
  let ?u = "completes_break closes price required True" and ?d = "completes_break closes price required False"
  have range: "?u k \<Longrightarrow> k < length closes" "?d k \<Longrightarrow> k < length closes" for k by (simp_all add: completes_within)
  have one: "?u k \<Longrightarrow> \<not> ?d k" for k using completes_one_side [OF assms] .
  have latest: "(latest_upto P (length closes) None \<longrightarrow> (\<forall>k. \<not> P k)) \<and>
      (\<forall>x. latest_upto P (length closes) (Some x) \<longrightarrow> P x \<and> (\<forall>k. x < k \<longrightarrow> \<not> P k))"
    if "\<And>k. P k \<Longrightarrow> k < length closes" for P using that unfolding latest_upto_def by auto
  note u = last_break_latest [OF assms, of closes price True] and d = last_break_latest [OF assms, of closes price False]
  show ?thesis
  proof (cases "last_consecutive_break_index closes price required True")
    case None
    then have nu: "\<forall>k. \<not> ?u k" using u latest [of ?u] range(1) by simp
    show ?thesis
    proof (cases "last_consecutive_break_index closes price required False")
      case None
      then have "\<forall>k. \<not> ?d k" using d latest [of ?d] range(2) by simp
      then show ?thesis using nu \<open>last_consecutive_break_index closes price required True = None\<close> None
        by (auto simp: break_and_direction_def latest_break_def)
    next
      case (Some y)
      then have y: "?d y" "\<forall>k. y < k \<longrightarrow> \<not> ?d k" using d latest [of ?d] range(2) by simp_all
      then have "latest_break closes price required direction b \<longleftrightarrow> b = y \<and> direction = ''sell''"
        using nu by (auto simp: latest_break_def) (meson linorder_neqE_nat)
      then show ?thesis using \<open>last_consecutive_break_index closes price required True = None\<close> Some
        by (auto simp: break_and_direction_def)
    qed
  next
    case (Some x)
    then have x: "?u x" "\<forall>k. x < k \<longrightarrow> \<not> ?u k" using u latest [of ?u] range(1) by simp_all
    show ?thesis
    proof (cases "last_consecutive_break_index closes price required False")
      case None
      then have nd: "\<forall>k. \<not> ?d k" using d latest [of ?d] range(2) by simp
      then have "latest_break closes price required direction b \<longleftrightarrow> b = x \<and> direction = ''buy''"
        using x by (auto simp: latest_break_def) (meson linorder_neqE_nat)
      then show ?thesis using Some None by (auto simp: break_and_direction_def)
    next
      case (Some y)
      then have y: "?d y" "\<forall>k. y < k \<longrightarrow> \<not> ?d k" using d latest [of ?d] range(2) by simp_all
      have xy: "x \<noteq> y" using x(1) y(1) one by blast
      have "latest_break closes price required direction b \<longleftrightarrow> (b, direction) = (if y < x then (x, ''buy'') else (y, ''sell''))"
        using x y xy by (auto simp: latest_break_def) (metis linorder_neqE_nat)+
      then show ?thesis using \<open>last_consecutive_break_index closes price required True = Some x\<close> Some
        by (auto simp: break_and_direction_def)
    qed
  qed
qed

text \<open>C37. A retest is found exactly when the latest completed break of the level was followed by a bar that comes back to it within
  the tolerance and closes on the side of the break, and the zone is stamped with the first such bar. A break is complete
  with the given number of consecutive closes beyond the level; one close is none when more are required.\<close>

theorem retest_exact:
  defines "closes df \<equiv> map oh_close df" and "n m \<equiv> nat (max 1 m)"
  shows "find_retest df price m pip = Some z \<longleftrightarrow>
    (\<exists>b direction i. 3 \<le> length df \<and> latest_break (closes df) price (n m) direction b \<and> b < i \<and> i < length df \<and>
      retests price (frame_tolerance df pip) direction (df ! i) \<and>
      (\<forall>j. b < j \<and> j < i \<longrightarrow> \<not> retests price (frame_tolerance df pip) direction (df ! j)) \<and>
      z = new_zone (price - frame_tolerance df pip) (price + frame_tolerance df pip)
        (if direction = ''buy'' then ''demand'' else ''supply'') (int i) (Some (oh_ts (df ! i)))
        (if direction = ''buy'' then ''retest_support'' else ''retest_resistance'') None None)"
proof -
  let ?bd = "break_and_direction (last_consecutive_break_index (closes df) price (n m) True)
      (last_consecutive_break_index (closes df) price (n m) False)"
  have pos: "0 < n m" by (simp add: n_def)
  have bd: "?bd = Some (b, d) \<longleftrightarrow> latest_break (closes df) price (n m) d b" for b d
    by (rule break_and_direction_latest [OF pos])
  have first: "List.find P [Suc b..<length df] = Some i \<longleftrightarrow> b < i \<and> i < length df \<and> P i \<and> (\<forall>j. b < j \<and> j < i \<longrightarrow> \<not> P j)" for P b i
  proof -
    have "List.find P [Suc b..<length df] = Some i \<longleftrightarrow>
        (\<exists>k < length df - Suc b. P (Suc b + k) \<and> i = Suc b + k \<and> (\<forall>j < k. \<not> P (Suc b + j)))"
      by (auto simp: find_Some_iff)
    also have "\<dots> \<longleftrightarrow> b < i \<and> i < length df \<and> P i \<and> (\<forall>j. b < j \<and> j < i \<longrightarrow> \<not> P j)"
    proof
      assume "b < i \<and> i < length df \<and> P i \<and> (\<forall>j. b < j \<and> j < i \<longrightarrow> \<not> P j)"
      then show "\<exists>k < length df - Suc b. P (Suc b + k) \<and> i = Suc b + k \<and> (\<forall>j < k. \<not> P (Suc b + j))"
        by (intro exI [of _ "i - Suc b"]) auto
    next
      assume "\<exists>k < length df - Suc b. P (Suc b + k) \<and> i = Suc b + k \<and> (\<forall>j < k. \<not> P (Suc b + j))"
      then obtain k where k: "k < length df - Suc b" "P (Suc b + k)" "i = Suc b + k" "\<forall>j < k. \<not> P (Suc b + j)" by blast
      have "\<not> P j" if "b < j" "j < i" for j using k(3) k(4) [rule_format, of "j - Suc b"] that by simp
      then show "b < i \<and> i < length df \<and> P i \<and> (\<forall>j. b < j \<and> j < i \<longrightarrow> \<not> P j)" using k by auto
    qed
    finally show ?thesis .
  qed
  have e: "find_retest df price m pip = (if length df < 3 then None else case ?bd of None \<Rightarrow> None
      | Some (b, d) \<Rightarrow> map_option (\<lambda>i. new_zone (price - frame_tolerance df pip) (price + frame_tolerance df pip)
                (if d = ''buy'' then ''demand'' else ''supply'') (int i) (Some (oh_ts (df ! i)))
                (if d = ''buy'' then ''retest_support'' else ''retest_resistance'') None None)
              (List.find (\<lambda>i. retests price (frame_tolerance df pip) d (df ! i)) [Suc b..<length df]))"
    by (simp add: find_retest_def Let_def closes_def n_def)
  show ?thesis
  proof (cases ?bd)
    case None
    then show ?thesis using bd by (auto simp: e)
  next
    case (Some p)
    obtain b d where p: "p = (b, d)" by (cases p)
    have "latest_break (closes df) price (n m) d' b' \<longleftrightarrow> b' = b \<and> d' = d" for b' d' using bd [of b' d'] Some p by auto
    then show ?thesis unfolding e Some p by (auto simp: first not_less)
  qed
qed


definition demo_retest :: "ohlc list" where
  "demo_retest = map (\<lambda>(l, h, c). \<lparr>oh_open = l, oh_high = h, oh_low = l, oh_close = c, oh_ts = 0\<rparr>)
     [(98, 100, 99), (99, 102, 101), (101, 103, 102), (100, 102, 101)]"

theorem retest_exact_witness:
  "map_option (\<lambda>z. (zo_origin z, zo_side z)) (find_retest demo_retest 100 2 (1 / 10)) = Some (3, ''demand'') \<and>
   find_retest (take 2 demo_retest) 100 2 (1 / 10) = None \<and>
   (\<exists>b direction. latest_break (map oh_close demo_retest) 100 2 direction b)"
proof -
  have e: "map_option (\<lambda>z. (zo_origin z, zo_side z)) (find_retest demo_retest 100 2 (1 / 10)) = Some (3, ''demand'')" by code_simp
  have n: "find_retest (take 2 demo_retest) 100 2 (1 / 10) = None" by code_simp
  obtain z where "find_retest demo_retest 100 2 (1 / 10) = Some z" using e by auto
  then obtain b direction where "latest_break (map oh_close demo_retest) 100 (nat (max 1 2)) direction b"
    unfolding retest_exact by blast
  then show ?thesis using e n by auto
qed

text \<open>The bar stamped with the close of a session lies after it, but does not sweep its levels.\<close>

definition demo_session :: "ohlc list" where
  "demo_session = map (\<lambda>(hour, high). \<lparr>oh_open = 5, oh_high = high, oh_low = 5, oh_close = 5, oh_ts = hour * 3600\<rparr>)
     [(7, 10), (13, 20), (14, 9)]"

lemma close_bar_sweeps_nothing:
  "List.find (\<lambda>l. sv_name l = ''LONDON_H'') (session_levels demo_session \<lparr>se_asia = 22, se_london = 7, se_ny = 13, se_rollover = 21\<rparr>) =
     Some \<lparr>sv_name = ''LONDON_H'', sv_price = 10, sv_ts = 25200, sv_swept = False, sv_swept_ts = None\<rparr>"
  by code_simp

end
