(* ===== verification/Triggers.thy ===== *)
theory Triggers
  imports ChartStructure EntryActivation
begin

text \<open>
  The candle triggers (\<open>app/analysis/m1_trigger.py\<close>) and the other classifiers of closed bars: the role of a key level
  (\<open>key_level_role.py\<close>), accepted breaks of a box (\<open>regime.py\<close>) and momentum (\<open>momentum.py\<close>).

  A bar of the one-minute frame is its prices, the time its index denotes, if it denotes one, and the flag \<open>closed\<close>, if the
  frame has it. Of the configuration the values are taken that the source reads.
\<close>

section \<open>One-minute triggers\<close>

record candle =
  cn_bar :: ohlc
  cn_ts :: "int option"
  cn_closed :: "bool option"

record m1_result =
  mr_pattern :: string
  mr_direction :: string
  mr_wick_extreme :: rat
  mr_bar_ts :: "int option"
  mr_message :: string
  mr_measured :: "(string \<times> json) list option"

record bar_shape =
  bg_open :: rat
  bg_high :: rat
  bg_low :: rat
  bg_close :: rat
  bg_range :: rat
  bg_body :: rat
  bg_upper_wick :: rat
  bg_lower_wick :: rat

record m1_config =
  mc_patterns :: string
  mc_wick_fraction :: rat
  mc_strong_close_pct :: rat
  mc_price_digits :: int

record m1_zone =
  mz_low :: rat
  mz_high :: rat
  mz_key_level :: rat

definition ALL_PATTERNS :: "string list" where
  "ALL_PATTERNS = [''wick_rejection'', ''body_close'', ''strong_close'', ''pin_bar'', ''engulfing'', ''hammer'']"

definition price_text :: "m1_config \<Rightarrow> rat \<Rightarrow> string" where
  "price_text cfg v = fixed_str (nat (max 0 (mc_price_digits cfg))) v"

definition percent_text :: "rat \<Rightarrow> string" where
  "percent_text v = fixed_str 0 (v * 100) @ ''%''"

definition bar_geometry :: "ohlc \<Rightarrow> bar_shape option" where
  "bar_geometry b =
     (let r = oh_high b - oh_low b in
      if r \<le> 0 then None
      else Some \<lparr>bg_open = oh_open b, bg_high = oh_high b, bg_low = oh_low b, bg_close = oh_close b, bg_range = r,
        bg_body = \<bar>oh_close b - oh_open b\<bar>, bg_upper_wick = oh_high b - max (oh_open b) (oh_close b),
        bg_lower_wick = min (oh_open b) (oh_close b) - oh_low b\<rparr>)"

definition intersects_zone :: "bar_shape \<Rightarrow> m1_zone \<Rightarrow> bool" where
  "intersects_zone g z \<longleftrightarrow> bg_low g \<le> mz_high z \<and> mz_low z \<le> bg_high g"

definition enabled_patterns :: "m1_config \<Rightarrow> string set" where
  "enabled_patterns cfg = set (filter (\<lambda>p. p \<noteq> []) (map str_strip (str_split CHR '','' (mc_patterns cfg)))) \<inter> set ALL_PATTERNS"

text \<open>The wick that anchors the stop: the low of a buy, the high of a sell.\<close>

definition trigger_result :: "string \<Rightarrow> string \<Rightarrow> bar_shape \<Rightarrow> int option \<Rightarrow> string \<Rightarrow> m1_result" where
  "trigger_result pattern direction g ts message =
     \<lparr>mr_pattern = pattern, mr_direction = direction, mr_wick_extreme = (if direction = ''BUY'' then bg_low g else bg_high g),
      mr_bar_ts = ts, mr_message = message, mr_measured = None\<rparr>"

definition wick_rejection :: "m1_config \<Rightarrow> m1_zone \<Rightarrow> string \<Rightarrow> bar_shape \<Rightarrow> int option \<Rightarrow> m1_result option" where
  "wick_rejection cfg z direction g ts =
     (if direction = ''BUY''
      then
        if bg_close g \<le> mz_high z \<or> bg_lower_wick g / bg_range g < mc_wick_fraction cfg then None
        else Some (trigger_result ''wick_rejection'' direction g ts
          (''wicked to '' @ price_text cfg (bg_low g) @ '' into zone, closed '' @ price_text cfg (bg_close g) @ '' back above''))
      else
        if mz_low z \<le> bg_close g \<or> bg_upper_wick g / bg_range g < mc_wick_fraction cfg then None
        else Some (trigger_result ''wick_rejection'' direction g ts
          (''wicked to '' @ price_text cfg (bg_high g) @ '' into zone, closed '' @ price_text cfg (bg_close g) @ '' back below'')))"

definition body_close :: "m1_config \<Rightarrow> m1_zone \<Rightarrow> string \<Rightarrow> bar_shape \<Rightarrow> int option \<Rightarrow> m1_result option" where
  "body_close cfg z direction g ts =
     (if (if direction = ''BUY'' then bg_close g \<le> mz_key_level z else mz_key_level z \<le> bg_close g) then None
      else Some (trigger_result ''body_close'' direction g ts
        (''closed '' @ price_text cfg (bg_close g) @ '' beyond key level '' @ price_text cfg (mz_key_level z))))"

definition zone_mid :: "m1_zone \<Rightarrow> rat" where
  "zone_mid z = (mz_low z + mz_high z) / 2"

definition strong_measured :: "m1_zone \<Rightarrow> bar_shape \<Rightarrow> bool \<Rightarrow> (string \<times> json) list" where
  "strong_measured z g closed_away =
     [(''bar_open'', JFloat (bg_open g)), (''bar_high'', JFloat (bg_high g)), (''bar_low'', JFloat (bg_low g)),
      (''bar_close'', JFloat (bg_close g)), (''zone_low'', JFloat (mz_low z)), (''zone_high'', JFloat (mz_high z)),
      (''zone_mid'', JFloat (zone_mid z)),
      (''close_relative_to_zone'', JFloat ((bg_close g - mz_low z) / max (mz_high z - mz_low z) (1 / 10 ^ 9))),
      (''closed_away_from_zone'', JBool closed_away)]"

definition strong_close :: "m1_config \<Rightarrow> m1_zone \<Rightarrow> string \<Rightarrow> bar_shape \<Rightarrow> int option \<Rightarrow> m1_result option" where
  "strong_close cfg z direction g ts =
     (if direction = ''BUY''
      then
        if mc_strong_close_pct cfg < (bg_high g - bg_close g) / bg_range g then None
        else if bg_close g \<le> bg_open g then None
        else if bg_close g < zone_mid z then None
        else if bg_close g < mz_low z then None
        else let away = mz_high z \<le> bg_close g in
          Some ((trigger_result ''strong_close'' direction g ts
            (''closed '' @ price_text cfg (bg_close g) @ '' in top '' @ percent_text (mc_strong_close_pct cfg) @
             '' of range and toward/above zone mid '' @ price_text cfg (zone_mid z) @
             (if away then ''; reclaim above proximal'' else '''')))\<lparr>mr_measured := Some (strong_measured z g away)\<rparr>)
      else
        if mc_strong_close_pct cfg < (bg_close g - bg_low g) / bg_range g then None
        else if bg_open g \<le> bg_close g then None
        else if zone_mid z < bg_close g then None
        else if mz_high z < bg_close g then None
        else let away = bg_close g \<le> mz_low z in
          Some ((trigger_result ''strong_close'' direction g ts
            (''closed '' @ price_text cfg (bg_close g) @ '' in bottom '' @ percent_text (mc_strong_close_pct cfg) @
             '' of range and toward/below zone mid '' @ price_text cfg (zone_mid z) @
             (if away then ''; reclaim below proximal'' else '''')))\<lparr>mr_measured := Some (strong_measured z g away)\<rparr>))"

definition pin_bar :: "string \<Rightarrow> bar_shape \<Rightarrow> int option \<Rightarrow> m1_result option" where
  "pin_bar direction g ts =
     (if 2 / 10 < bg_body g / bg_range g then None
      else if direction = ''BUY''
      then
        if bg_lower_wick g / bg_range g < 66 / 100 \<or> 15 / 100 < bg_upper_wick g / bg_range g then None
        else Some (trigger_result ''pin_bar'' direction g ts ''long lower wick, small body - bullish pin bar'')
      else
        if bg_upper_wick g / bg_range g < 66 / 100 \<or> 15 / 100 < bg_lower_wick g / bg_range g then None
        else Some (trigger_result ''pin_bar'' direction g ts ''long upper wick, small body - bearish pin bar''))"

definition engulfing :: "string \<Rightarrow> bar_shape \<Rightarrow> ohlc option \<Rightarrow> int option \<Rightarrow> m1_result option" where
  "engulfing direction g prior ts =
     (case prior of
        None \<Rightarrow> None
      | Some p \<Rightarrow>
          let covers = (min (bg_open g) (bg_close g) \<le> min (oh_open p) (oh_close p) \<and>
                max (oh_open p) (oh_close p) \<le> max (bg_open g) (bg_close g)) in
          if direction = ''BUY''
          then if bg_close g \<le> bg_open g then None else if \<not> covers then None
               else Some (trigger_result ''engulfing'' direction g ts ''bullish body engulfs prior bar's body'')
          else if bg_open g \<le> bg_close g then None else if \<not> covers then None
               else Some (trigger_result ''engulfing'' direction g ts ''bearish body engulfs prior bar's body''))"

definition hammer :: "string \<Rightarrow> bar_shape \<Rightarrow> int option \<Rightarrow> m1_result option" where
  "hammer direction g ts =
     (if 3 / 10 < bg_body g / bg_range g then None
      else if direction = ''BUY''
      then
        if bg_lower_wick g < 2 * max (bg_body g) (1 / 10 ^ 9) \<or> 25 / 100 < bg_upper_wick g / bg_range g then None
        else Some (trigger_result ''hammer'' direction g ts ''hammer: long lower wick, small body, at zone'')
      else
        if bg_upper_wick g < 2 * max (bg_body g) (1 / 10 ^ 9) \<or> 25 / 100 < bg_lower_wick g / bg_range g then None
        else Some (trigger_result ''hammer'' direction g ts ''shooting star: long upper wick, small body, at zone''))"

definition detect :: "m1_config \<Rightarrow> m1_zone \<Rightarrow> string \<Rightarrow> bar_shape \<Rightarrow> ohlc option \<Rightarrow> int option \<Rightarrow> string \<Rightarrow> m1_result option" where
  "detect cfg z direction g prior ts pattern =
     (if pattern = ''wick_rejection'' then wick_rejection cfg z direction g ts
      else if pattern = ''body_close'' then body_close cfg z direction g ts
      else if pattern = ''strong_close'' then strong_close cfg z direction g ts
      else if pattern = ''pin_bar'' then pin_bar direction g ts
      else if pattern = ''engulfing'' then engulfing direction g prior ts
      else hammer direction g ts)"

text \<open>The loop over the patterns in order of priority.\<close>

fun first_pattern :: "(string \<Rightarrow> m1_result option) \<Rightarrow> string list \<Rightarrow> m1_result option" where
  "first_pattern f [] = None"
| "first_pattern f (p # ps) = (case f p of Some r \<Rightarrow> Some r | None \<Rightarrow> first_pattern f ps)"

definition evaluate_bar :: "m1_config \<Rightarrow> m1_zone \<Rightarrow> string \<Rightarrow> candle \<Rightarrow> candle option \<Rightarrow> m1_result option" where
  "evaluate_bar cfg z direction c prior =
     (case bar_geometry (cn_bar c) of
        None \<Rightarrow> None
      | Some g \<Rightarrow>
          if \<not> intersects_zone g z then None
          else first_pattern (detect cfg z direction g (map_option cn_bar prior) (cn_ts c))
            (filter (\<lambda>p. p \<in> enabled_patterns cfg) ALL_PATTERNS))"

definition bar_is_closed :: "candle \<Rightarrow> bool" where
  "bar_is_closed c = (case cn_closed c of None \<Rightarrow> True | Some b \<Rightarrow> b)"

definition evaluate_m1_trigger :: "candle list \<Rightarrow> m1_zone \<Rightarrow> string \<Rightarrow> m1_config \<Rightarrow> m1_result option" where
  "evaluate_m1_trigger m1 z direction cfg =
     (let side = str_upper direction in
      if m1 = [] then None
      else if side \<notin> {''BUY'', ''SELL''} then None
      else if \<not> bar_is_closed (last m1) then None
      else
        let prior = (if 2 \<le> length m1 \<and> bar_is_closed (last (butlast m1)) then Some (last (butlast m1)) else None) in
        evaluate_bar cfg z side (last m1) prior)"

definition eligible_bar :: "int \<Rightarrow> int option \<Rightarrow> candle \<Rightarrow> bool" where
  "eligible_bar earliest after c =
     (case cn_ts c of
        None \<Rightarrow> False
      | Some ts \<Rightarrow> \<not> ts < earliest \<and> \<not> (case after of None \<Rightarrow> False | Some a \<Rightarrow> ts \<le> a) \<and> bar_is_closed c)"

definition usable_prior :: "int \<Rightarrow> candle option \<Rightarrow> candle option" where
  "usable_prior earliest prev =
     (case prev of
        None \<Rightarrow> None
      | Some p \<Rightarrow>
          if (case cn_ts p of None \<Rightarrow> False | Some ts \<Rightarrow> earliest \<le> ts) \<and> bar_is_closed p then Some p else None)"



definition latest_eligible_m1_bar_ts :: "candle list \<Rightarrow> int \<Rightarrow> int option \<Rightarrow> int option" where
  "latest_eligible_m1_bar_ts m1 earliest after =
     fold (\<lambda>c latest. if eligible_bar earliest after c then cn_ts c else latest) m1 None"

section \<open>The role of a key level\<close>

record role_decision =
  rd_role :: string
  rd_accepted_above :: nat
  rd_accepted_below :: nat
  rd_required_closes :: nat

definition accepted_count :: "rat list \<Rightarrow> (rat \<Rightarrow> bool) \<Rightarrow> nat" where
  "accepted_count closes P = length (takeWhile P (rev closes))"

definition classify_key_level_role :: "string option \<Rightarrow> rat \<Rightarrow> rat \<Rightarrow> rat list \<Rightarrow> int \<Rightarrow> role_decision" where
  "classify_key_level_role kind band_low band_high closes breakout_accept_bars =
     (let required = nat (max 1 breakout_accept_bars);
          over = accepted_count closes (\<lambda>c. band_high < c);
          under = accepted_count closes (\<lambda>c. c < band_low);
          normalized = str_lower (str_strip (case kind of None \<Rightarrow> '''' | Some k \<Rightarrow> k));
          explicit_support = (str_contains normalized ''support'' \<or> str_contains normalized ''low'');
          explicit_resistance = (str_contains normalized ''resist'' \<or> str_contains normalized ''high'');
          role =
            (if explicit_support then (if required \<le> under then ''broken_support'' else ''support'')
             else if explicit_resistance then (if required \<le> over then ''broken_resistance'' else ''resistance'')
             else if required \<le> over then ''broken_resistance''
             else if required \<le> under then ''broken_support''
             else ''ambiguous'') in
      \<lparr>rd_role = role, rd_accepted_above = over, rd_accepted_below = under, rd_required_closes = required\<rparr>)"

section \<open>Accepted breaks of a box\<close>

record box_break =
  bb_box_high :: rat
  bb_box_low :: rat
  bb_direction :: string
  bb_accept_index :: nat
  bb_coiling :: bool
  bb_acceptance :: string

record regime_box =
  rg_high :: rat
  rg_low :: rat
  rg_coiling :: bool

definition displacement_grade :: "ohlc \<Rightarrow> rat \<Rightarrow> string \<Rightarrow> bool" where
  "displacement_grade b atr direction =
     (let candle_range = oh_high b - oh_low b in
      if candle_range \<le> 0 \<or> atr \<le> 0 then False
      else (if direction = ''up'' then oh_open b < oh_close b else oh_close b < oh_open b) \<and>
        6 / 10 * candle_range \<le> \<bar>oh_close b - oh_open b\<bar> \<and> 1 * atr \<le> candle_range)"

definition break_of :: "regime_box \<Rightarrow> nat \<Rightarrow> string \<Rightarrow> string \<Rightarrow> box_break" where
  "break_of box i direction acceptance =
     \<lparr>bb_box_high = rg_high box, bb_box_low = rg_low box, bb_direction = direction, bb_accept_index = i,
      bb_coiling = rg_coiling box, bb_acceptance = acceptance\<rparr>"

definition side_break :: "regime_box \<Rightarrow> nat \<Rightarrow> nat \<Rightarrow> ohlc \<Rightarrow> rat \<Rightarrow> string \<Rightarrow> nat \<Rightarrow> box_break list" where
  "side_break box accept_bars i b atr direction holds =
     (if holds = 1 \<and> displacement_grade b atr direction then [break_of box i direction ''displacement'']
      else if holds = accept_bars then [break_of box i direction (str_nat accept_bars @ '' closes'')]
      else [])"

definition box_bar ::
  "regime_box \<Rightarrow> rat \<Rightarrow> nat \<Rightarrow> atr_input \<Rightarrow> ohlc list \<Rightarrow> nat \<Rightarrow> nat \<times> nat \<times> box_break list \<Rightarrow> nat \<times> nat \<times> box_break list" where
  "box_bar box buffer_atr accept_bars atr df i st =
     (let (up_holds, down_holds, accepted) = st; b = df ! i; atr_value = atr_input_at atr (int i) 1;
          buffer = buffer_atr * atr_value;
          up_holds = (if rg_high box + buffer < oh_close b then Suc up_holds else 0);
          down_holds = (if oh_close b < rg_low box - buffer then Suc down_holds else 0) in
      (up_holds, down_holds, accepted @ side_break box accept_bars i b atr_value ''up'' up_holds @
        side_break box accept_bars i b atr_value ''down'' down_holds))"

definition accepted_box_break ::
  "ohlc list \<Rightarrow> atr_input \<Rightarrow> regime_box option \<Rightarrow> rat \<Rightarrow> int \<Rightarrow> box_break option" where
  "accepted_box_break df atr regime buffer_atr accept_bars =
     (case regime of
        None \<Rightarrow> None
      | Some box \<Rightarrow>
          if df = [] \<or> rg_high box \<le> rg_low box then None
          else
            let accepted = snd (snd (fold (box_bar box (max 0 buffer_atr) (nat (max 1 accept_bars)) atr df) [0..<length df] (0, 0, []))) in
            if accepted = [] then None else Some (last accepted))"

section \<open>Momentum\<close>

record momentum_state =
  mo_state :: string
  mo_velocity :: rat
  mo_acceleration :: rat
  mo_lookback :: nat

text \<open>\<open>xs.tail(n)\<close>.\<close>

definition tail_of :: "nat \<Rightarrow> 'a list \<Rightarrow> 'a list" where
  "tail_of n xs = drop (length xs - n) xs"

definition rising :: "rat list \<Rightarrow> bool" where
  "rising values = (if length values < 2 then True else List.hd values \<le> last values)"

definition momentum :: "ohlc list \<Rightarrow> rat list option \<Rightarrow> int \<Rightarrow> rat \<Rightarrow> string" where
  "momentum df atr lookback body_frac =
     (if df = [] then ''neutral''
      else
        let series = (case atr of None \<Rightarrow> atr_series 14 df | Some a \<Rightarrow> a);
            window = tail_of (nat (max 1 lookback)) df;
            strong = filter (\<lambda>b. \<not> body_fraction b < body_frac) window;
            strong_up = length (filter (\<lambda>b. oh_open b < oh_close b) strong);
            strong_down = length (filter (\<lambda>b. oh_close b < oh_open b) strong);
            rising_atr = rising (tail_of (length window) series);
            threshold = max 1 (length window div 2) in
        if rising_atr \<and> threshold \<le> strong_up \<and> strong_down < strong_up then ''bull''
        else if rising_atr \<and> threshold \<le> strong_down \<and> strong_up < strong_down then ''bear''
        else ''neutral'')"

definition velocity_at :: "ohlc list \<Rightarrow> atr_input \<Rightarrow> int \<Rightarrow> nat \<Rightarrow> rat" where
  "velocity_at df atr index n =
     (if index < int n \<or> index < 0 \<or> int (length df) \<le> index then 0
      else
        let atr_value = atr_input_at atr index 0 in
        if atr_value \<le> 0 then 0
        else (oh_close (df ! nat index) - oh_close (df ! nat (index - int n))) / (of_nat n * atr_value))"

definition momentum_state_of :: "ohlc list \<Rightarrow> rat list option \<Rightarrow> int \<Rightarrow> rat \<Rightarrow> rat \<Rightarrow> momentum_state" where
  "momentum_state_of df atr lookback bull_threshold bear_threshold =
     (let n = nat (max 1 lookback) in
      if length df < 2 then \<lparr>mo_state = ''neutral'', mo_velocity = 0, mo_acceleration = 0, mo_lookback = n\<rparr>
      else
        let series = Atr_series (case atr of None \<Rightarrow> atr_series 14 df | Some a \<Rightarrow> a);
            idx = int (length df) - 1; v = velocity_at df series idx n; prev_idx = idx - int n;
            a = (if int n \<le> prev_idx then v - velocity_at df series prev_idx n else 0);
            state = (if bull_threshold \<le> v then ''bull'' else if v \<le> bear_threshold then ''bear'' else ''neutral'') in
        \<lparr>mo_state = state, mo_velocity = v, mo_acceleration = a, mo_lookback = n\<rparr>)"

section \<open>Which trigger is found\<close>

definition bar_result :: "m1_config \<Rightarrow> m1_zone \<Rightarrow> string \<Rightarrow> int \<Rightarrow> candle option \<Rightarrow> candle list \<Rightarrow> nat \<Rightarrow> m1_result option" where
  "bar_result cfg z side earliest prev cs i =
     evaluate_bar cfg z side (cs ! i) (usable_prior earliest (if i = 0 then prev else Some (cs ! (i - 1))))"


lemma bar_result_Cons [simp]:
  "bar_result cfg z side e prev (c # cs) 0 = evaluate_bar cfg z side c (usable_prior e prev)"
  "bar_result cfg z side e prev (c # cs) (Suc i) = bar_result cfg z side e (Some c) cs i"
  by (auto simp: bar_result_def nth_Cons')





lemma trigger_result_fields [simp]:
  "mr_pattern (trigger_result p d g ts m) = p" "mr_direction (trigger_result p d g ts m) = d"
  "mr_wick_extreme (trigger_result p d g ts m) = (if d = ''BUY'' then bg_low g else bg_high g)"
  by (simp_all add: trigger_result_def)











section \<open>A broken role and a break agree\<close>

lemma accepted_count_bound:
  assumes "required \<le> accepted_count closes P" "\<And>c. P c \<Longrightarrow> beyond_level upwards price c" "0 < required"
  shows "\<exists>b. completes_break closes price required upwards b \<and>
    (\<forall>k. b < k \<longrightarrow> \<not> completes_break closes price required True k \<and> \<not> completes_break closes price required False k)"
proof -
  define K where "K = length (takeWhile (beyond_level upwards price) (rev closes))"
  have "accepted_count closes P \<le> K"
  proof -
    have "takeWhile P xs = takeWhile P (takeWhile Q xs)" if "\<And>c. P c \<Longrightarrow> Q c" for Q and xs :: "rat list"
      using that by (induction xs) auto
    from this [of "beyond_level upwards price" "rev closes"] assms(2) show ?thesis
      unfolding accepted_count_def K_def by (metis length_takeWhile_le)
  qed
  then have K: "required \<le> K" "K \<le> length closes" using assms(1) length_takeWhile_le [of "beyond_level upwards price" "rev closes"] by (auto simp: K_def)
  have in_run: "beyond_level upwards price (closes ! j)" if "length closes - K \<le> j" "j < length closes" for j
  proof -
    have i: "length closes - Suc j < K" using that K by linarith
    then have "beyond_level upwards price (takeWhile (beyond_level upwards price) (rev closes) ! (length closes - Suc j))"
      by (metis K_def nth_mem set_takeWhileD)
    then have "beyond_level upwards price (rev closes ! (length closes - Suc j))" using i by (simp add: K_def takeWhile_nth)
    then show ?thesis using that by (simp add: rev_nth)
  qed
  have start: "K = length closes \<or> \<not> beyond_level upwards price (closes ! (length closes - Suc K))"
  proof (cases "K = length closes")
    case False
    then have "K < length (rev closes)" using K(2) by simp
    then have "\<not> beyond_level upwards price (rev closes ! K)" unfolding K_def by (rule nth_length_takeWhile)
    then show ?thesis using \<open>K < length (rev closes)\<close> by (simp add: rev_nth)
  qed simp
  define b where "b = length closes - K + required - 1"
  have b: "b < length closes" "Suc b - required = length closes - K" "required \<le> Suc b" using K assms(3) by (simp_all add: b_def)
  have br: "b - required = length closes - Suc K \<or> K = length closes" "K = length closes \<Longrightarrow> required = Suc b"
    using K assms(3) by (auto simp: b_def)
  have "completes_break closes price required upwards b"
    unfolding completes_break_def
  proof (intro conjI allI impI)
    show "b < length closes" "required \<le> Suc b" using b by simp_all
    show "beyond_level upwards price (closes ! j)" if "Suc b - required \<le> j \<and> j \<le> b" for j
      using that b in_run [of j] by simp
    show "required = Suc b \<or> \<not> beyond_level upwards price (closes ! (b - required))"
      using start br by auto
  qed
  moreover have "\<not> completes_break closes price required u k" if "b < k" for u k
  proof
    assume c: "completes_break closes price required u k"
    then have k: "k < length closes" "beyond_level u price (closes ! k)" "required = Suc k \<or> \<not> beyond_level u price (closes ! (k - required))"
      using assms(3) unfolding completes_break_def by auto
    have "beyond_level upwards price (closes ! k)" 
    proof (rule in_run [OF _ k(1)])
      show "length closes - K \<le> k" using that b(2) by linarith
    qed
    then have u: "u = upwards" using k(2) by (auto simp: beyond_level_def split: if_splits)
    have "length closes - K \<le> k - required" "k - required < length closes" "required \<noteq> Suc k" using that b k(1) by linarith+
    then show False using k(3) in_run u by blast
  qed
  ultimately show ?thesis by blast
qed

text \<open>C39. No key level falls between reaction and break-and-retest: when its role is a broken resistance (support), the closes that
  broke its band also complete a break of its price in the direction up (down) with the same number of closes, and it is
  the latest break, the one a retest is looked for after.\<close>

theorem broken_role_breaks:
  assumes "band_low \<le> price" "price \<le> band_high"
    and "rd_role (classify_key_level_role kind band_low band_high closes accept_bars) = (if up then ''broken_resistance'' else ''broken_support'')"
  shows "\<exists>b. latest_break closes price (nat (max 1 accept_bars)) (if up then ''buy'' else ''sell'') b"
proof (cases up)
  case True
  then have "nat (max 1 accept_bars) \<le> accepted_count closes (\<lambda>c. band_high < c)"
    using assms(3) by (auto simp: classify_key_level_role_def Let_def split: if_split_asm)
  from accepted_count_bound [OF this, of True price] show ?thesis
    using assms(2) True by (force simp: latest_break_def beyond_level_def)
next
  case False
  then have "nat (max 1 accept_bars) \<le> accepted_count closes (\<lambda>c. c < band_low)"
    using assms(3) by (auto simp: classify_key_level_role_def Let_def split: if_split_asm)
  from accepted_count_bound [OF this, of False price] show ?thesis
    using assms(1) False by (force simp: latest_break_def beyond_level_def)
qed

theorem broken_role_breaks_witness:
  "rd_role (classify_key_level_role (Some ''Resistance'') 99 101 [100, 102, 103] 2) = ''broken_resistance'' \<and>
   rd_role (classify_key_level_role (Some ''Resistance'') 99 101 [100, 102, 103] 3) = ''resistance'' \<and>
   (\<exists>b. latest_break [100, 102, 103] 100 2 ''buy'' b)"
proof -
  have e: "rd_role (classify_key_level_role (Some ''Resistance'') 99 101 [100, 102, 103] 2) = ''broken_resistance''"
    "rd_role (classify_key_level_role (Some ''Resistance'') 99 101 [100, 102, 103] 3) = ''resistance''" by code_simp+
  show ?thesis using e broken_role_breaks [of 99 100 101 "Some ''Resistance''" "[100, 102, 103]" 2 True] by simp
qed

end
