(* ===== verification/Actionability.thy ===== *)
theory Actionability
  imports TargetRoom Triggers EntryLocation
begin

text \<open>
  The boundary between what the scanner observes and what may be executed (\<open>app/analysis/actionability.py\<close>): invalid geometry,
  conflicts of opposite setups, the trim of an entry zone against an opposing barrier, the target room, the role of a key level,
  and the resolution of all observed setups into actionable and gated ones.

  Of a detection result the fields are kept that the file reads or writes. A frame is the list of its bars. Prices are finite
  numbers, so the conversions of the source do not fail. Of \<open>gated\<close> the source uses the keys only, until it is computed anew.
\<close>

section \<open>Records\<close>

record detection =
  dt_setup :: string
  dt_direction :: string
  dt_key_level :: rat
  dt_entry_zone :: zone
  dt_current_price :: rat
  dt_confluence :: int
  dt_mode :: string
  dt_structural_id :: "string option"
  dt_structural_kind :: "string option"
  dt_bias_relationship :: "string option"
  dt_key_level_role :: "string option"
  dt_planned_entry_price :: "rat option"
  dt_provisional_targets_pips :: "int list"
  dt_target_cap_pips :: "rat option"
  dt_target_room_measured :: "(string \<times> json) list option"

record action_decision =
  av_allowed :: bool
  av_reason_code :: string
  av_message :: string
  av_hard_block :: bool
  av_measured :: "(string \<times> json) list"
  av_opposing_entry :: "map_entry option"

text \<open>A dealing range or regime is its pair of bounds. A timeframe has one or both of them.\<close>

record frame_analysis =
  fa_dealing_range :: "(rat \<times> rat) option"
  fa_regime :: "(rat \<times> rat) option"

record chart_analysis =
  ca_per_tf :: "(string \<times> frame_analysis) list"
  ca_dealing_range :: "(rat \<times> rat) option"
  ca_regime :: "(rat \<times> rat) option"

record detection_context =
  dc_tf :: string
  dc_frames :: "(string \<times> ohlc list) list"
  dc_htf_bias :: string
  dc_analysis :: "chart_analysis option"
  dc_regime :: "(rat \<times> rat) option"

record action_config =
  ac_displacement_lookback :: int
  ac_accept_bars :: int
  ac_gap_atr :: rat
  ac_barrier_buffer_atr :: rat
  ac_scalp_barrier_buffer_atr :: rat
  ac_minimum_capped_target_pips :: rat
  ac_scalp_minimum_capped_target_pips :: rat
  ac_execution_cost_pips :: rat
  ac_counter_bias_allowed :: bool
  ac_gate_enabled :: bool
  ac_location :: location_config

definition STRUCTURAL_SETUPS :: "string list" where
  "STRUCTURAL_SETUPS =
     [''Key Level Reaction'', ''Zone Reaction'', ''Flip Zone'', ''Demand Zone Reaction'', ''Supply Zone Reaction'',
      ''Session Level Reaction'', ''Trendline Reaction'', ''Supply Demand'', ''Order Block'', ''FVG'', ''iFVG'', ''CRT'',
      ''Confluence Zone'']"

definition structural :: "detection \<Rightarrow> bool" where
  "structural r \<longleftrightarrow> (case dt_structural_id r of None \<Rightarrow> False | Some s \<Rightarrow> s \<noteq> []) \<or> dt_setup r \<in> set STRUCTURAL_SETUPS"

abbreviation band_low :: "detection \<Rightarrow> rat" where "band_low r \<equiv> zo_bottom (dt_entry_zone r)"
abbreviation band_high :: "detection \<Rightarrow> rat" where "band_high r \<equiv> zo_top (dt_entry_zone r)"

section \<open>Two setups\<close>

definition pair_overlap :: "detection \<Rightarrow> detection \<Rightarrow> rat" where
  "pair_overlap a b = min (band_high a) (band_high b) - max (band_low a) (band_low b)"

definition zone_overlap_ratio :: "detection \<Rightarrow> detection \<Rightarrow> rat" where
  "zone_overlap_ratio a b =
     (if pair_overlap a b \<le> 0 then 0
      else let smaller = min (band_high a - band_low a) (band_high b - band_low b) in
        if 0 < smaller then pair_overlap a b / smaller else 1)"

definition zone_gap :: "detection \<Rightarrow> detection \<Rightarrow> rat" where
  "zone_gap a b =
     (if 0 \<le> pair_overlap a b then 0
      else if band_high a < band_low b then band_low b - band_high a else band_low a - band_high b)"

definition price_in_entry_band :: "rat \<Rightarrow> detection \<Rightarrow> bool" where
  "price_in_entry_band p r \<longleftrightarrow> band_low r \<le> p \<and> p \<le> band_high r"

definition executable_quote :: "detection \<Rightarrow> rat option" where
  "executable_quote r =
     (if 0 < dt_current_price r then Some (dt_current_price r)
      else case dt_planned_entry_price r of Some p \<Rightarrow> if 0 < p then Some p else None | None \<Rightarrow> None)"

definition proposed_entry :: "detection \<Rightarrow> rat option" where
  "proposed_entry r =
     (case dt_planned_entry_price r of
        Some p \<Rightarrow> if 0 < p then Some p else if 0 < dt_current_price r then Some (dt_current_price r) else None
      | None \<Rightarrow> if 0 < dt_current_price r then Some (dt_current_price r) else None)"

definition executable_conflict :: "detection \<Rightarrow> detection \<Rightarrow> bool" where
  "executable_conflict a b \<longleftrightarrow>
     list_ex (\<lambda>q. price_in_entry_band q a \<and> price_in_entry_band q b)
       (List.map_filter executable_quote [a, b]) \<or>
     (case proposed_entry a of None \<Rightarrow> False | Some p \<Rightarrow> price_in_entry_band p b) \<or>
     (case proposed_entry b of None \<Rightarrow> False | Some p \<Rightarrow> price_in_entry_band p a)"

definition positive_overlap :: "rat \<Rightarrow> rat \<Rightarrow> rat \<Rightarrow> rat \<Rightarrow> bool" where
  "positive_overlap first_low first_high second_low second_high \<longleftrightarrow>
     0 < max 0 (min first_high second_high - max first_low second_low)"

definition detection_side :: "detection \<Rightarrow> string" where
  "detection_side r = (if str_upper (dt_direction r) = ''BUY'' then ''buy'' else ''sell'')"

definition own_entries :: "map_entry list \<Rightarrow> detection \<Rightarrow> map_entry list" where
  "own_entries entries r =
     filter (\<lambda>e. str_lower (me_side e) = detection_side r \<and> positive_overlap (band_low r) (band_high r) (me_lo e) (me_hi e)) entries"

definition map_conflict :: "detection \<Rightarrow> detection \<Rightarrow> map_entry list \<Rightarrow> bool" where
  "map_conflict a b entries \<longleftrightarrow>
     list_ex (\<lambda>e. list_ex (\<lambda>f. positive_overlap (me_lo e) (me_hi e) (me_lo f) (me_hi f)) (own_entries entries b)) (own_entries entries a)"

definition result_payload :: "detection \<Rightarrow> json" where
  "result_payload r =
     JObj [(''setup'', JStr (dt_setup r)), (''direction'', JStr (dt_direction r)), (''confluence'', JInt (dt_confluence r)),
       (''entry_low'', JFloat (band_low r)), (''entry_high'', JFloat (band_high r))]"

section \<open>Barriers of one setup\<close>

definition entries_excluding_displaced_barriers ::
  "map_entry list \<Rightarrow> detection \<Rightarrow> detection_context \<Rightarrow> action_config \<Rightarrow> map_entry list \<times> (string \<times> json) list" where
  "entries_excluding_displaced_barriers entries r ctx cfg =
     (let lookback = max 0 (ac_displacement_lookback cfg);
          frame = (if dc_tf ctx = [] then None else map_of (dc_frames ctx) (dc_tf ctx)) in
      if lookback \<le> 0 then (entries, [(''applied'', JBool False), (''lookback_bars'', JInt 0)])
      else case frame of
        None \<Rightarrow> (entries, [(''applied'', JBool False), (''lookback_bars'', JInt lookback), (''reason'', JStr ''no_closed_bars'')])
      | Some [] \<Rightarrow> (entries, [(''applied'', JBool False), (''lookback_bars'', JInt lookback), (''reason'', JStr ''no_closed_bars'')])
      | Some bars \<Rightarrow>
          let recent = map oh_close (tail_of (nat lookback) bars);
              filtered = filter_displaced_opposing_entries entries (dt_direction r) recent in
          (filtered,
           [(''applied'', JBool True), (''lookback_bars'', JInt lookback), (''recent_closes'', JList (map JFloat recent)),
            (''entries_before'', JInt (int (length entries))), (''entries_after'', JInt (int (length filtered))),
            (''dropped'', JInt (int (length entries) - int (length filtered)))]))"

definition ZONE_TRIM_EPS :: rat where "ZONE_TRIM_EPS = 1 / 10 ^ 9"

text \<open>One step of the trim: the band, and whether it was cut at all.\<close>

definition trim_step :: "string \<Rightarrow> map_entry \<Rightarrow> rat \<times> rat \<times> bool \<Rightarrow> rat \<times> rat \<times> bool" where
  "trim_step side e st =
     (let (low, high, trimmed) = st in
      if str_lower (me_side e) \<noteq> (if side = ''buy'' then ''sell'' else ''buy'') then st
      else if min high (me_hi e) - max low (me_lo e) \<le> 0 then st
      else if side = ''buy''
      then let cut = min high (me_lo e) in if cut - low \<le> ZONE_TRIM_EPS then st else (low, cut, True)
      else let cut = max low (me_hi e) in if high - cut \<le> ZONE_TRIM_EPS then st else (cut, high, True))"

definition trim_zone_against_overlapping_barrier :: "detection \<Rightarrow> map_entry list \<Rightarrow> detection" where
  "trim_zone_against_overlapping_barrier r entries =
     (let (low, high, trimmed) = fold (trim_step (detection_side r)) entries (band_low r, band_high r, False) in
      if \<not> trimmed then r
      else r\<lparr>dt_entry_zone := zone_init ((dt_entry_zone r)\<lparr>zo_bottom := low, zo_top := high\<rparr>),
        dt_planned_entry_price :=
          map_option (\<lambda>p. min (max p (low + ZONE_TRIM_EPS)) (high - ZONE_TRIM_EPS)) (dt_planned_entry_price r)\<rparr>)"

definition key_level_role :: "detection \<Rightarrow> detection_context \<Rightarrow> action_config \<Rightarrow> string option" where
  "key_level_role r ctx cfg =
     (if dt_setup r \<noteq> ''Key Level Reaction'' then None
      else if (case dt_key_level_role r of None \<Rightarrow> False | Some s \<Rightarrow> s \<noteq> []) then dt_key_level_role r
      else case map_of (dc_frames ctx) (str_upper (dc_tf ctx)) of
        None \<Rightarrow> Some ''ambiguous''
      | Some bars \<Rightarrow> Some (rd_role (classify_key_level_role (dt_structural_kind r) (band_low r) (band_high r)
          (map oh_close bars) (ac_accept_bars cfg))))"

section \<open>The resolution\<close>

definition UNIVERSAL_HARD_BLOCK_REASONS :: "string list" where
  "UNIVERSAL_HARD_BLOCK_REASONS = [''invalid_geometry'', ''invalid_target_room_geometry'']"

definition GATED_HARD_BLOCK_REASONS :: "string list" where
  "GATED_HARD_BLOCK_REASONS =
     [''invalid_geometry'', ''invalid_target_room_geometry'', ''opposing_entry_contained'', ''opposing_entry_overlap'',
      ''opposing_major_no_room'', ''opposing_barrier_no_target'', ''opposing_barrier_room_below_cost'',
      ''entry_inside_opposing_zone'', ''execution_cost_insufficient_room'']"

definition action_decision_of :: "string \<Rightarrow> string \<Rightarrow> (string \<times> json) list \<Rightarrow> bool \<Rightarrow> map_entry option \<Rightarrow> action_decision" where
  "action_decision_of reason message measured hard_block opposing =
     \<lparr>av_allowed = (\<not> hard_block), av_reason_code = reason, av_message = message, av_hard_block = hard_block,
      av_measured = measured, av_opposing_entry = opposing\<rparr>"

text \<open>The state of the function: the hard-blocked indices, the decisions, the conflicts and the processed results.\<close>

record action_state =
  as_gated :: "nat list"
  as_decisions :: "(nat \<times> action_decision list) list"
  as_conflicts :: "json list"
  as_processed :: "(nat \<times> detection) list"

definition record_decision :: "nat \<Rightarrow> action_decision \<Rightarrow> action_state \<Rightarrow> action_state" where
  "record_decision i d st =
     st\<lparr>as_decisions := dict_append i d (as_decisions st),
        as_gated := (if av_hard_block d then i # as_gated st else as_gated st)\<rparr>"

definition planned_or_current :: "detection \<Rightarrow> rat" where
  "planned_or_current r = (case dt_planned_entry_price r of Some p \<Rightarrow> p | None \<Rightarrow> dt_current_price r)"

definition geometry_values :: "detection \<Rightarrow> (string \<times> rat) list" where
  "geometry_values r =
     [(''entry_low'', band_low r), (''entry_high'', band_high r), (''planned_entry_price'', planned_or_current r),
      (''current_price'', dt_current_price r), (''key_level'', dt_key_level r)]"

definition geometry_valid :: "detection \<Rightarrow> bool" where
  "geometry_valid r \<longleftrightarrow>
     str_upper (dt_direction r) \<in> {''BUY'', ''SELL''} \<and> list_all (\<lambda>(name, v). 0 < v) (geometry_values r) \<and>
     \<not> band_high r \<le> band_low r"

definition geometry_step :: "detection list \<Rightarrow> nat \<Rightarrow> action_state \<Rightarrow> action_state" where
  "geometry_step observed i st =
     (let r = observed ! i in
      if geometry_valid r then st
      else record_decision i (action_decision_of ''invalid_geometry''
        ''setup has invalid direction or non-positive/non-finite price geometry''
        ((''direction'', JStr (dt_direction r)) # map (\<lambda>(name, v). (name, JFloat v)) (geometry_values r)) True None) st)"

definition degraded_step :: "string \<Rightarrow> detection_context \<Rightarrow> bool \<Rightarrow> detection list \<Rightarrow> nat \<Rightarrow> action_state \<Rightarrow> action_state" where
  "degraded_step symbol ctx no_map observed i st =
     (if structural (observed ! i) \<and> no_map
      then record_decision i (action_decision_of ''context_degraded'' ''current Market Map context is unavailable''
        [(''symbol'', JStr symbol), (''htf_bias'', JStr (dc_htf_bias ctx)), (''market_map_available'', JBool False),
         (''market_map_id'', JNull), (''context_degraded'', JBool True),
         (''context_degraded_reason'', JStr ''opposing_context_unavailable'')] False None) st
      else st)"

definition conflict_step :: "map_entry list \<Rightarrow> rat \<Rightarrow> detection list \<Rightarrow> nat \<times> nat \<Rightarrow> action_state \<Rightarrow> action_state" where
  "conflict_step entries gap_threshold observed ij st =
     (let (i, j) = ij; a = observed ! i; b = observed ! j in
      if i \<in> set (as_gated st) \<or> j \<in> set (as_gated st) then st
      else if str_upper (dt_direction a) = str_upper (dt_direction b) then st
      else
        let gap = zone_gap a b; conflict = executable_conflict a b;
            measured = [(''entry_overlap_ratio'', JFloat (zone_overlap_ratio a b)), (''nearest_gap'', JFloat gap),
              (''gap_threshold'', JFloat gap_threshold), (''executable_conflict'', JBool conflict),
              (''map_structure_conflict'', JBool (map_conflict a b entries))] in
        if \<not> conflict
        then if gap \<le> gap_threshold
          then let d = action_decision_of ''nearby_opposing_structure''
                 ''opposing structural bands are nearby without executable overlap'' measured False None in
            record_decision j d (record_decision i d st)
          else st
        else
          let d = action_decision_of ''contested_corridor''
                ''executable quote or proposed entry conflicts with opposing band'' measured False None;
              st = record_decision j d (record_decision i d st) in
          st\<lparr>as_conflicts := as_conflicts st @ [JObj [(''outcome'', JStr ''contested_corridor''), (''a'', result_payload a),
            (''b'', result_payload b)]]\<rparr>)"

definition set_processed :: "nat \<Rightarrow> detection \<Rightarrow> action_state \<Rightarrow> action_state" where
  "set_processed i r st = st\<lparr>as_processed := (i, r) # as_processed st\<rparr>"

definition bias_text :: "detection \<Rightarrow> string" where
  "bias_text r = (case dt_bias_relationship r of None \<Rightarrow> dt_mode r | Some s \<Rightarrow> if s = [] then dt_mode r else s)"

definition role_stage :: "detection_context \<Rightarrow> action_config \<Rightarrow> nat \<Rightarrow> detection \<Rightarrow> action_state \<Rightarrow> action_state" where
  "role_stage ctx cfg i r st =
     (let role = key_level_role r ctx cfg;
          st = (if role = Some ''ambiguous''
                then record_decision i (action_decision_of ''key_level_role_ambiguous''
                  ''generic key level has no explicit support/resistance role (direction already resolved deterministically upstream)''
                  [(''key_level_role'', j_opt_str role), (''key_level'', JFloat (dt_key_level r)),
                   (''htf_bias'', JStr (dc_htf_bias ctx))] False None) st
                else st) in
      if role \<in> {Some ''broken_support'', Some ''broken_resistance''}
      then set_processed i r (record_decision i (action_decision_of ''key_level_role_flip_requires_retest''
        ''accepted level break belongs to Break & Retest''
        [(''key_level_role'', j_opt_str role), (''key_level'', JFloat (dt_key_level r))] True None) st)
      else if role = Some ''support'' \<and> str_upper (dt_direction r) \<noteq> ''BUY'' \<or>
              role = Some ''resistance'' \<and> str_upper (dt_direction r) \<noteq> ''SELL''
      then set_processed i r (record_decision i (action_decision_of ''key_level_role_direction_mismatch''
        ''Key Level Reaction direction conflicts with the classified role''
        [(''key_level_role'', j_opt_str role), (''direction'', JStr (str_upper (dt_direction r)))] True None) st)
      else if str_lower (bias_text r) = ''counter_bias'' \<and> \<not> ac_counter_bias_allowed cfg
      then set_processed i r (record_decision i (action_decision_of ''counter_bias_disabled''
        ''counter-bias setup is disabled by policy'' [(''htf_bias'', JStr (dc_htf_bias ctx))] False None) st)
      else set_processed i r st)"

text \<open>The barriers of a setup, the price the room is measured from, the trimmed setup and the room.\<close>

definition setup_walls :: "map_entry list \<Rightarrow> detection_context \<Rightarrow> rat \<Rightarrow> rat \<Rightarrow> action_config \<Rightarrow> detection \<Rightarrow>
    map_entry list \<times> (string \<times> json) list \<times> (string \<times> json) list" where
  "setup_walls entries ctx atr pip_size cfg r =
     (let (walls, displacement) = entries_excluding_displaced_barriers entries r ctx cfg;
          (planned, source) = zone_proximal_room_reference (dt_direction r) (planned_or_current r) (band_low r) (band_high r) pip_size atr in
      if walls = [] then (walls, displacement, [(''applied'', JBool False)])
      else let (walls, shared) = filter_shared_boundary_opposing_entries walls (dt_direction r) (band_low r) (band_high r)
                 pip_size atr (Some planned) in
        (walls, displacement, shared))"

definition setup_room_request ::
  "rat \<Rightarrow> rat \<Rightarrow> action_config \<Rightarrow> detection \<Rightarrow> detection \<Rightarrow> map_entry list \<times> (string \<times> json) list \<times> (string \<times> json) list \<Rightarrow> room_request" where
  "setup_room_request atr pip_size cfg original r found =
     (let (walls, displacement, shared) = found; scalp = is_scalp_strategy (dt_setup r) [] [];
          (planned, source) = zone_proximal_room_reference (dt_direction original) (planned_or_current original)
            (band_low original) (band_high original) pip_size atr in
      \<lparr>rr_direction = dt_direction r, rr_planned_entry_price = planned, rr_entry_low = band_low r, rr_entry_high = band_high r,
       rr_configured_target_pips = dt_provisional_targets_pips original,
       rr_actionable_entries = (if scalp then [] else walls), rr_atr = atr, rr_pip_size = pip_size,
       rr_barrier_buffer_atr = (if scalp then ac_scalp_barrier_buffer_atr cfg else ac_barrier_buffer_atr cfg),
       rr_min_capped_target_pips = (if scalp then ac_scalp_minimum_capped_target_pips cfg else ac_minimum_capped_target_pips cfg),
       rr_execution_cost_pips = ac_execution_cost_pips cfg,
       rr_displacement_state = Some (if scalp then [(''skipped'', JStr ''scalp_native_room_ignores_htf_opposing'')] else displacement),
       rr_room_reference_source = Some source, rr_executable_entry_price = None,
       rr_shared_boundary_state = (if scalp then None else Some shared),
       rr_allow_same_wall_overlap = is_technique_or_confluence (dt_setup r)\<rparr>)"

definition trimmed_setup :: "map_entry list \<Rightarrow> detection_context \<Rightarrow> rat \<Rightarrow> rat \<Rightarrow> action_config \<Rightarrow> detection \<Rightarrow> detection" where
  "trimmed_setup entries ctx atr pip_size cfg r =
     trim_zone_against_overlapping_barrier r (fst (setup_walls entries ctx atr pip_size cfg r))"

definition setup_room :: "map_entry list \<Rightarrow> detection_context \<Rightarrow> rat \<Rightarrow> rat \<Rightarrow> action_config \<Rightarrow> detection \<Rightarrow> room_decision res" where
  "setup_room entries ctx atr pip_size cfg r =
     evaluate_structural_target_room (setup_room_request atr pip_size cfg r (trimmed_setup entries ctx atr pip_size cfg r)
       (setup_walls entries ctx atr pip_size cfg r))"

definition room_stage :: "detection_context \<Rightarrow> action_config \<Rightarrow> nat \<Rightarrow> detection \<Rightarrow> room_decision \<Rightarrow> action_state \<Rightarrow> action_state" where
  "room_stage ctx cfg i r room st =
     (let measured = rm_measured room @ [(''htf_bias'', JStr (dc_htf_bias ctx)), (''bias_relationship'', JStr (bias_text r))];
          decided = (\<lambda>hard. record_decision i (action_decision_of (rm_reason_code room) (rm_message room) measured hard (rm_opposing_entry room)));
          capped = (if rm_opposing_entry room = None then r
                    else r\<lparr>dt_target_cap_pips := rm_effective_target_pips room, dt_target_room_measured := Some measured\<rparr>) in
      if \<not> rm_allowed room
      then let st = set_processed i r (decided (rm_hard_block room) st) in
        if rm_hard_block room then st else role_stage ctx cfg i capped st
      else if rm_reason_code room \<notin> {[], ''no_opposing_barrier''}
      then role_stage ctx cfg i capped (decided False st)
      else role_stage ctx cfg i capped st)"

definition process_step ::
  "map_entry list \<Rightarrow> detection_context \<Rightarrow> rat \<Rightarrow> rat \<Rightarrow> action_config \<Rightarrow> detection list \<Rightarrow> nat \<Rightarrow> action_state \<Rightarrow> action_state res" where
  "process_step entries ctx atr pip_size cfg observed i st =
     (let original = observed ! i in
      if i \<in> set (as_gated st) then Inr st
      else if \<not> structural original then Inr (set_processed i original st)
      else if dt_provisional_targets_pips original = [] then Inr (role_stage ctx cfg i original st)
      else res_bind (setup_room entries ctx atr pip_size cfg original) (\<lambda>room.
        Inr (room_stage ctx cfg i (trimmed_setup entries ctx atr pip_size cfg original) room st)))"

fun fold_res :: "('a \<Rightarrow> 'b \<Rightarrow> 'b res) \<Rightarrow> 'a list \<Rightarrow> 'b \<Rightarrow> 'b res" where
  "fold_res f [] st = Inr st"
| "fold_res f (x # xs) st = res_bind (f x st) (fold_res f xs)"

section \<open>Entry locations at discovery\<close>

definition assign_range :: "(rat \<times> rat) option \<Rightarrow> (rat \<times> rat) option \<Rightarrow> (rat \<times> rat) option" where
  "assign_range bounds old =
     (case bounds of None \<Rightarrow> old | Some (low, high) \<Rightarrow> if low < high \<and> 0 < low then Some (low, high) else old)"

definition frame_range :: "(string \<times> frame_analysis) list \<Rightarrow> string \<Rightarrow> (rat \<times> rat) option" where
  "frame_range per_tf name =
     (case (case map_of per_tf name of Some a \<Rightarrow> Some a | None \<Rightarrow> map_of per_tf (str_lower name)) of
        None \<Rightarrow> None
      | Some a \<Rightarrow> (case fa_dealing_range a of Some d \<Rightarrow> assign_range (Some d) None | None \<Rightarrow> assign_range (fa_regime a) None))"

definition range_bounds_from_context ::
  "detection_context \<Rightarrow> (rat \<times> rat) option \<times> (rat \<times> rat) option \<times> (rat \<times> rat) option" where
  "range_bounds_from_context ctx =
     (let per_tf = (case dc_analysis ctx of None \<Rightarrow> [] | Some a \<Rightarrow> ca_per_tf a);
          dealing = Option.bind (dc_analysis ctx) ca_dealing_range;
          regime = (case Option.bind (dc_analysis ctx) ca_regime of Some r \<Rightarrow> Some r | None \<Rightarrow> dc_regime ctx);
          m15 = frame_range per_tf ''M15'';
          m15 = (if m15 = None then assign_range dealing None else m15);
          m15 = (if m15 = None then assign_range regime None else m15) in
      (m15, frame_range per_tf ''H1'', frame_range per_tf ''M5''))"

definition discovery_mode :: "location_config \<Rightarrow> string" where
  "discovery_mode cfg =
     str_lower (str_strip (case Option.bind (lf_section cfg) lo_mode of None \<Rightarrow> ''off'' | Some m \<Rightarrow> if m = [] then ''off'' else m))"

definition discovery_location :: "detection_context \<Rightarrow> action_config \<Rightarrow> detection \<Rightarrow> rat \<Rightarrow> entry_location_decision res" where
  "discovery_location ctx cfg r price =
     (let (m15, h1, m5) = range_bounds_from_context ctx in
      evaluate_entry_location (dt_setup r) (dt_direction r)
        (build_entry_location_context price (dt_direction r)
          (if str_upper (dt_direction r) = ''BUY'' then Some price else None)
          (if str_upper (dt_direction r) = ''SELL'' then Some price else None)
          (map_option fst h1) (map_option snd h1) (map_option fst m15) (map_option snd m15) (map_option fst m5) (map_option snd m5)
          (Some (band_low r)) (Some (band_high r)))
        (ac_location cfg) None)"

fun discovery_locations ::
  "detection_context \<Rightarrow> action_config \<Rightarrow> (nat \<times> detection) list \<Rightarrow> (nat \<times> entry_location_decision) list res" where
  "discovery_locations ctx cfg [] = Inr []"
| "discovery_locations ctx cfg ((i, r) # rest) =
     (case executable_quote r of
        None \<Rightarrow> discovery_locations ctx cfg rest
      | Some price \<Rightarrow>
          res_bind (discovery_location ctx cfg r price) (\<lambda>d.
          res_bind (discovery_locations ctx cfg rest) (\<lambda>ds. Inr ((i, d) # ds))))"

definition evaluate_discovery_entry_locations ::
  "detection list \<Rightarrow> detection_context \<Rightarrow> action_config \<Rightarrow> (nat \<times> entry_location_decision) list res" where
  "evaluate_discovery_entry_locations observed ctx cfg =
     (if discovery_mode (ac_location cfg) = ''off'' then Inr []
      else discovery_locations ctx cfg (zip [0..<length observed] observed))"

section \<open>The whole function\<close>

record action_resolution =
  ar_observed :: "detection list"
  ar_actionable :: "detection list"
  ar_gated :: "(detection \<times> action_decision) list"
  ar_decisions :: "(detection \<times> action_decision) list"
  ar_conflicts :: "json list"
  ar_entry_locations :: "(detection \<times> entry_location_decision) list"
  ar_demoted_hard :: "(detection \<times> action_decision) list"

definition demotes :: "string list \<Rightarrow> action_decision \<Rightarrow> bool" where
  "demotes hard_reasons d \<longleftrightarrow> av_hard_block d \<and> av_reason_code d \<notin> set hard_reasons"

definition demote :: "string list \<Rightarrow> action_decision \<Rightarrow> action_decision" where
  "demote hard_reasons d = (if demotes hard_reasons d then d\<lparr>av_allowed := True, av_hard_block := False\<rparr> else d)"

definition location_telemetry :: "entry_location_decision \<Rightarrow> action_decision" where
  "location_telemetry l =
     \<lparr>av_allowed = (if \<not> ld_hard_block l then True else ld_allowed l), av_reason_code = ld_reason_code l,
      av_message = ''entry location '' @ ld_reason_code l, av_hard_block = False,
      av_measured = dict_update [(''decision_domain'', JStr ''entry_location''), (''would_block'', JBool (ld_would_block l)),
        (''enforce_would_hard_block'', JBool (ld_hard_block l))] (ld_measured l),
      av_opposing_entry = None\<rparr>"

text \<open>\<open>demoted_gated\<close>: the last hard decision of each index.\<close>

definition hard_decisions :: "(nat \<times> action_decision list) list \<Rightarrow> (nat \<times> action_decision) list" where
  "hard_decisions ds =
     concat (map (\<lambda>(i, l). case rev (filter av_hard_block l) of [] \<Rightarrow> [] | d # _ \<Rightarrow> [(i, d)]) ds)"

definition observation_state ::
  "string \<Rightarrow> detection list \<Rightarrow> map_entry list option \<Rightarrow> detection_context \<Rightarrow> rat \<Rightarrow> action_config \<Rightarrow> action_state" where
  "observation_state symbol observed market_map ctx atr cfg =
     (let entries = (case market_map of None \<Rightarrow> [] | Some es \<Rightarrow> es); n = length observed;
          st = \<lparr>as_gated = [], as_decisions = [], as_conflicts = [], as_processed = []\<rparr>;
          st = fold (geometry_step observed) [0..<n] st;
          st = fold (degraded_step symbol ctx (market_map = None) observed) [0..<n] st in
      fold (conflict_step entries (max 0 (ac_gap_atr cfg) * max 0 atr) observed)
        (concat (map (\<lambda>i. map (Pair i) [Suc i..<n]) [0..<n])) st)"

definition hard_reasons :: "action_config \<Rightarrow> string list" where
  "hard_reasons cfg = (if ac_gate_enabled cfg then GATED_HARD_BLOCK_REASONS else UNIVERSAL_HARD_BLOCK_REASONS)"

definition resolution_of ::
  "detection list \<Rightarrow> action_config \<Rightarrow> (nat \<times> entry_location_decision) list \<Rightarrow> action_state \<Rightarrow> action_resolution" where
  "resolution_of observed cfg locations st =
     (let reasons = hard_reasons cfg;
          kept = map (\<lambda>(i, l). (i, map (demote reasons) l)) (as_decisions st);
          gated = hard_decisions kept;
          all_decisions = fold (\<lambda>(i, l). dict_append i (location_telemetry l)) locations kept in
      \<lparr>ar_observed = observed,
       ar_actionable = map (\<lambda>i. case map_of (as_processed st) i of Some r \<Rightarrow> r | None \<Rightarrow> observed ! i)
         (filter (\<lambda>i. i \<notin> set (map fst gated)) [0..<length observed]),
       ar_gated = map (\<lambda>(i, d). (observed ! i, d)) (sort_key fst gated),
       ar_decisions = concat (map (\<lambda>(i, l). map (Pair (observed ! i)) l) (sort_key fst all_decisions)),
       ar_conflicts = as_conflicts st,
       ar_entry_locations = map (\<lambda>(i, l). (observed ! i, l)) locations,
       ar_demoted_hard = concat (map (\<lambda>(i, l). map (Pair (observed ! i)) (filter (demotes reasons) l)) (as_decisions st))\<rparr>)"

definition resolve_actionability ::
  "string \<Rightarrow> detection list \<Rightarrow> map_entry list option \<Rightarrow> detection_context \<Rightarrow> rat \<Rightarrow> rat \<Rightarrow> action_config \<Rightarrow> action_resolution res" where
  "resolve_actionability symbol observed market_map ctx atr pip_size cfg =
     (let entries = (case market_map of None \<Rightarrow> [] | Some es \<Rightarrow> es) in
      res_bind (fold_res (process_step entries ctx atr pip_size cfg observed) [0..<length observed]
        (observation_state symbol observed market_map ctx atr cfg)) (\<lambda>st.
      res_bind (evaluate_discovery_entry_locations observed ctx cfg) (\<lambda>locations.
      Inr (resolution_of observed cfg locations st))))"

section \<open>What makes a setup actionable\<close>

text \<open>The reference: one setup is judged without the others, on its geometry and its target room.\<close>

definition block_reason :: "map_entry list \<Rightarrow> detection_context \<Rightarrow> rat \<Rightarrow> rat \<Rightarrow> action_config \<Rightarrow> detection \<Rightarrow> string option" where
  "block_reason entries ctx atr pip_size cfg r =
     (if \<not> geometry_valid r then Some ''invalid_geometry''
      else if structural r \<and> dt_provisional_targets_pips r \<noteq> []
      then case setup_room entries ctx atr pip_size cfg r of
        Inr room \<Rightarrow> if rm_hard_block room then Some (rm_reason_code room) else None | Inl e \<Rightarrow> None
      else None)"

definition setup_blocked :: "map_entry list \<Rightarrow> detection_context \<Rightarrow> rat \<Rightarrow> rat \<Rightarrow> action_config \<Rightarrow> detection \<Rightarrow> bool" where
  "setup_blocked entries ctx atr pip_size cfg r \<longleftrightarrow>
     (case block_reason entries ctx atr pip_size cfg r of None \<Rightarrow> False | Some reason \<Rightarrow> reason \<in> set (hard_reasons cfg))"

definition with_room :: "detection_context \<Rightarrow> detection \<Rightarrow> room_decision \<Rightarrow> detection" where
  "with_room ctx r room =
     (if rm_hard_block room \<or> rm_opposing_entry room = None then r
      else r\<lparr>dt_target_cap_pips := rm_effective_target_pips room,
        dt_target_room_measured := Some (rm_measured room @
          [(''htf_bias'', JStr (dc_htf_bias ctx)), (''bias_relationship'', JStr (bias_text r))])\<rparr>)"

definition resolved_setup :: "map_entry list \<Rightarrow> detection_context \<Rightarrow> rat \<Rightarrow> rat \<Rightarrow> action_config \<Rightarrow> detection \<Rightarrow> detection" where
  "resolved_setup entries ctx atr pip_size cfg r =
     (if geometry_valid r \<and> structural r \<and> dt_provisional_targets_pips r \<noteq> []
      then case setup_room entries ctx atr pip_size cfg r of
        Inr room \<Rightarrow> with_room ctx (trimmed_setup entries ctx atr pip_size cfg r) room | Inl e \<Rightarrow> r
      else r)"

subsection \<open>Loops that work on one index at a time\<close>

lemma dict_append_map_of [simp]:
  "map_of (dict_append k v d) k' = (if k' = k then Some (case map_of d k of None \<Rightarrow> [v] | Some l \<Rightarrow> l @ [v]) else map_of d k')"
  by (induction k v d rule: dict_append.induct) (auto split: option.splits)

lemma dict_append_keys: "set (map fst (dict_append k v d)) = insert k (set (map fst d))"
  by (induction k v d rule: dict_append.induct) auto

lemma dict_append_distinct [simp]: "distinct (map fst (dict_append k v d)) = distinct (map fst d)"
proof (induction k v d rule: dict_append.induct)
  case (2 k v k' vs d)
  then show ?case using dict_append_keys [of k v d] by auto
qed simp

lemma fold_res_pointwise:
  assumes "\<And>i s s'. i \<in> set xs \<Longrightarrow> f i s = Inr s' \<Longrightarrow> Q i (V s i) (V s' i) \<and> (\<forall>j. j \<noteq> i \<longrightarrow> V s' j = V s j)"
    and "fold_res f xs st = Inr st'" "distinct xs"
  shows "(j \<in> set xs \<longrightarrow> Q j (V st j) (V st' j)) \<and> (j \<notin> set xs \<longrightarrow> V st' j = V st j)"
  using assms
proof (induction xs arbitrary: st)
  case (Cons x xs)
  obtain s where s: "f x st = Inr s" "fold_res f xs s = Inr st'" using Cons.prems(2) by (auto simp: res_bind_Inr_iff)
  have step: "Q x (V st x) (V s x)" "\<forall>j. j \<noteq> x \<longrightarrow> V s j = V st j" using Cons.prems(1) [OF _ s(1)] by auto
  have "(j \<in> set xs \<longrightarrow> Q j (V s j) (V st' j)) \<and> (j \<notin> set xs \<longrightarrow> V st' j = V s j)"
    using Cons.prems by (intro Cons.IH s(2)) auto
  then show ?case using step Cons.prems(3) by (cases "j = x") auto
qed simp

lemma fold_pointwise:
  assumes "\<And>i s. i \<in> set xs \<Longrightarrow> V (f i s) i = g i (V s i) \<and> (\<forall>j. j \<noteq> i \<longrightarrow> V (f i s) j = V s j)" and "distinct xs"
  shows "V (fold f xs st) j = (if j \<in> set xs then g j (V st j) else V st j)"
  using assms
proof (induction xs arbitrary: st)
  case (Cons x xs)
  have step: "V (f x st) x = g x (V st x)" "\<forall>j. j \<noteq> x \<longrightarrow> V (f x st) j = V st j" using Cons.prems(1) by auto
  have "V (fold f xs (f x st)) j = (if j \<in> set xs then g j (V (f x st) j) else V (f x st) j)"
    using Cons.prems by (intro Cons.IH) auto
  then show ?case using step Cons.prems(2) by (cases "j = x") auto
qed simp

lemma fold_view:
  assumes "\<And>x s. V (f x s) = V s"
  shows "V (fold f xs st) = V st"
  by (induction xs arbitrary: st) (simp_all add: assms)

subsection \<open>The view of a state\<close>

text \<open>For one index: whether it is gated, the reasons of its hard decisions that stay hard, and its processed result.\<close>

definition gates :: "string list \<Rightarrow> action_decision list \<Rightarrow> string list" where
  "gates reasons l = filter (\<lambda>reason. reason \<in> set reasons) (map av_reason_code (filter av_hard_block l))"

definition decisions_at :: "action_state \<Rightarrow> nat \<Rightarrow> action_decision list" where
  "decisions_at st i = (case map_of (as_decisions st) i of None \<Rightarrow> [] | Some l \<Rightarrow> l)"

definition view :: "string list \<Rightarrow> action_state \<Rightarrow> nat \<Rightarrow> bool \<times> string list \<times> detection option" where
  "view reasons st i = (i \<in> set (as_gated st), gates reasons (decisions_at st i), map_of (as_processed st) i)"

lemma decisions_at_record [simp]:
  "decisions_at (record_decision i d st) j = (if j = i then decisions_at st i @ [d] else decisions_at st j)"
  by (auto simp: decisions_at_def record_decision_def split: option.splits)

lemma decisions_at_processed [simp]: "decisions_at (set_processed i r st) = decisions_at st"
  by (simp add: decisions_at_def set_processed_def fun_eq_iff)

lemma gates_append [simp]:
  "gates reasons (l @ [d]) = gates reasons l @ (if av_hard_block d \<and> av_reason_code d \<in> set reasons then [av_reason_code d] else [])"
  "gates reasons [] = []"
  by (simp_all add: gates_def)

lemma view_record:
  "view reasons (record_decision i d st) j =
     (if j = i then (i \<in> set (as_gated st) \<or> av_hard_block d, gates reasons (decisions_at st i) @
        (if av_hard_block d \<and> av_reason_code d \<in> set reasons then [av_reason_code d] else []), map_of (as_processed st) i)
      else view reasons st j)"
  by (auto simp: view_def record_decision_def decisions_at_def gates_def split: option.splits)

lemma view_processed:
  "view reasons (set_processed i r st) j =
     (if j = i then (i \<in> set (as_gated st), gates reasons (decisions_at st i), Some r) else view reasons st j)"
  by (auto simp: view_def set_processed_def decisions_at_def)

lemma decision_fields [simp]:
  "av_hard_block (action_decision_of reason message measured hard e) = hard"
  "av_reason_code (action_decision_of reason message measured hard e) = reason"
  by (simp_all add: action_decision_of_def)

lemma view_soft: "\<not> av_hard_block d \<Longrightarrow> view reasons (record_decision i d st) = view reasons st"
  by (rule ext) (simp add: view_record, simp add: view_def record_decision_def decisions_at_def)

lemma as_gated_record [simp]:
  "as_gated (record_decision i d st) = (if av_hard_block d then i # as_gated st else as_gated st)"
  "as_gated (set_processed i r st) = as_gated st"
  by (simp_all add: record_decision_def set_processed_def)

definition distinct_keys :: "action_state \<Rightarrow> bool" where
  "distinct_keys st \<longleftrightarrow> distinct (map fst (as_decisions st))"

lemma distinct_keys_steps [simp]:
  "distinct_keys (record_decision i d st) = distinct_keys st" "distinct_keys (set_processed i r st) = distinct_keys st"
  "distinct_keys (st\<lparr>as_conflicts := cs\<rparr>) = distinct_keys st"
  by (simp_all add: distinct_keys_def record_decision_def set_processed_def)

lemma view_conflicts [simp]: "view reasons (st\<lparr>as_conflicts := cs\<rparr>) = view reasons st"
  by (rule ext) (simp add: view_def decisions_at_def)

subsection \<open>The four loops\<close>

lemma geometry_view:
  "view reasons (geometry_step observed i st) i =
     (case view reasons st i of (g, l, p) \<Rightarrow>
        if geometry_valid (observed ! i) then (g, l, p)
        else (True, l @ (if ''invalid_geometry'' \<in> set reasons then [''invalid_geometry''] else []), p))"
  "j \<noteq> i \<Longrightarrow> view reasons (geometry_step observed i st) j = view reasons st j"
  by (simp_all add: geometry_step_def Let_def view_record) (simp add: view_def)

lemma degraded_view: "view reasons (degraded_step symbol ctx no_map observed i st) = view reasons st"
  by (simp add: degraded_step_def view_soft)

lemma conflict_view: "view reasons (conflict_step entries gap observed ij st) = view reasons st"
  by (cases ij) (simp add: conflict_step_def Let_def view_soft)

lemma observation_view:
  "view reasons (observation_state symbol observed market_map ctx atr cfg) i =
     (if i < length observed \<and> \<not> geometry_valid (observed ! i)
      then (True, if ''invalid_geometry'' \<in> set reasons then [''invalid_geometry''] else [], None) else (False, [], None))"
proof -
  let ?st = "\<lparr>as_gated = [], as_decisions = [], as_conflicts = [], as_processed = []\<rparr>"
  have a: "view reasons (fold (geometry_step observed) [0..<length observed] ?st) i =
      (if i \<in> set [0..<length observed] then
        (case view reasons ?st i of (g, l, p) \<Rightarrow>
          if geometry_valid (observed ! i) then (g, l, p)
          else (True, l @ (if ''invalid_geometry'' \<in> set reasons then [''invalid_geometry''] else []), p))
       else view reasons ?st i)"
    by (rule fold_pointwise) (simp_all add: geometry_view)
  have v: "view reasons ?st i = (False, [], None)" by (simp add: view_def decisions_at_def)
  show ?thesis
    unfolding observation_state_def Let_def
    by (subst fold_view [where V = "view reasons"], rule conflict_view, subst fold_view [where V = "view reasons"], rule degraded_view)
      (simp add: a v)
qed

lemma observation_keys: "distinct_keys (observation_state symbol observed market_map ctx atr cfg)"
proof -
  have "distinct_keys (fold f xs st)" if "\<And>x s. distinct_keys s \<Longrightarrow> distinct_keys (f x s)" "distinct_keys st" for f :: "'x \<Rightarrow> action_state \<Rightarrow> action_state" and xs st
    using that(2) by (induction xs arbitrary: st) (auto intro: that(1))
  note fold_keys = this
  have c: "distinct_keys (conflict_step entries gap observed ij s)" if "distinct_keys s" for entries gap ij s
    using that by (cases ij) (simp add: conflict_step_def Let_def)
  have d: "distinct_keys (degraded_step symbol ctx b observed i s)" if "distinct_keys s" for b i s
    using that by (simp add: degraded_step_def)
  have g: "distinct_keys (geometry_step observed i s)" if "distinct_keys s" for i s
    using that by (simp add: geometry_step_def Let_def)
  show ?thesis
    unfolding observation_state_def Let_def
    by (intro fold_keys c d g) (auto simp: distinct_keys_def)
qed

text \<open>Neither the role of a level nor the bias of a setup is a reason that stays hard.\<close>

lemma soft_reasons:
  "''key_level_role_flip_requires_retest'' \<notin> set (hard_reasons cfg)" "''key_level_role_direction_mismatch'' \<notin> set (hard_reasons cfg)"
  "''invalid_geometry'' \<in> set (hard_reasons cfg)"
  by (simp_all add: hard_reasons_def GATED_HARD_BLOCK_REASONS_def UNIVERSAL_HARD_BLOCK_REASONS_def)

lemma role_stage_view:
  "snd (view (hard_reasons cfg) (role_stage ctx cfg i r st) i) = (gates (hard_reasons cfg) (decisions_at st i), Some r)"
  "j \<noteq> i \<Longrightarrow> view (hard_reasons cfg) (role_stage ctx cfg i r st) j = view (hard_reasons cfg) st j"
  by (simp_all add: role_stage_def Let_def view_processed view_record soft_reasons)

lemma room_stage_view:
  assumes "rm_hard_block room \<longleftrightarrow> \<not> rm_allowed room"
  shows "snd (view (hard_reasons cfg) (room_stage ctx cfg i r room st) i) =
      (gates (hard_reasons cfg) (decisions_at st i) @
         (if rm_hard_block room \<and> rm_reason_code room \<in> set (hard_reasons cfg) then [rm_reason_code room] else []),
       Some (with_room ctx r room))"
    "j \<noteq> i \<Longrightarrow> view (hard_reasons cfg) (room_stage ctx cfg i r room st) j = view (hard_reasons cfg) st j"
proof -
  show "snd (view (hard_reasons cfg) (room_stage ctx cfg i r room st) i) =
      (gates (hard_reasons cfg) (decisions_at st i) @
         (if rm_hard_block room \<and> rm_reason_code room \<in> set (hard_reasons cfg) then [rm_reason_code room] else []),
       Some (with_room ctx r room))"
  proof (cases "rm_hard_block room")
    case True
    then show ?thesis using assms by (simp add: room_stage_def Let_def view_processed with_room_def)
  next
    case False
    then show ?thesis using assms by (simp add: room_stage_def Let_def role_stage_view with_room_def)
  qed
  show "view (hard_reasons cfg) (room_stage ctx cfg i r room st) j = view (hard_reasons cfg) st j" if "j \<noteq> i"
  proof (cases "rm_hard_block room")
    case True
    then show ?thesis using assms that by (simp add: room_stage_def Let_def view_processed view_record)
  next
    case False
    then show ?thesis using assms that by (simp add: room_stage_def Let_def role_stage_view view_record)
  qed
qed

lemma setup_room_decided:
  assumes "setup_room entries ctx atr pip_size cfg r = Inr room"
  shows "rm_hard_block room \<longleftrightarrow> \<not> rm_allowed room"
proof (cases "valid_request (setup_room_request atr pip_size cfg r (trimmed_setup entries ctx atr pip_size cfg r) (setup_walls entries ctx atr pip_size cfg r))")
  case True
  then show ?thesis using room_decided(2) [OF _ True] assms by (simp add: setup_room_def)
next
  case False
  then show ?thesis using assms by (auto simp: setup_room_def evaluate_structural_target_room_def)
qed

text \<open>The hard reason of a setup that stays hard, as a list.\<close>

definition lasting_reason :: "map_entry list \<Rightarrow> detection_context \<Rightarrow> rat \<Rightarrow> rat \<Rightarrow> action_config \<Rightarrow> detection \<Rightarrow> string list" where
  "lasting_reason entries ctx atr pip_size cfg r =
     (case block_reason entries ctx atr pip_size cfg r of None \<Rightarrow> []
      | Some reason \<Rightarrow> if reason \<in> set (hard_reasons cfg) then [reason] else [])"

lemma process_view:
  assumes "process_step entries ctx atr pip_size cfg observed i st = Inr st'"
  shows "i \<in> set (as_gated st) \<Longrightarrow> st' = st"
    "i \<notin> set (as_gated st) \<Longrightarrow> geometry_valid (observed ! i) \<Longrightarrow>
       snd (view (hard_reasons cfg) st' i) =
         (gates (hard_reasons cfg) (decisions_at st i) @ lasting_reason entries ctx atr pip_size cfg (observed ! i),
          Some (resolved_setup entries ctx atr pip_size cfg (observed ! i)))"
    "j \<noteq> i \<Longrightarrow> view (hard_reasons cfg) st' j = view (hard_reasons cfg) st j"
proof -
  let ?r = "observed ! i"
  show "st' = st" if "i \<in> set (as_gated st)" using assms that by (simp add: process_step_def Let_def)
  show "snd (view (hard_reasons cfg) st' i) =
         (gates (hard_reasons cfg) (decisions_at st i) @ lasting_reason entries ctx atr pip_size cfg ?r,
          Some (resolved_setup entries ctx atr pip_size cfg ?r))" if i: "i \<notin> set (as_gated st)" and g: "geometry_valid ?r"
  proof (cases "structural ?r \<and> dt_provisional_targets_pips ?r \<noteq> []")
    case True
    then obtain room where room: "setup_room entries ctx atr pip_size cfg ?r = Inr room"
      and st': "st' = room_stage ctx cfg i (trimmed_setup entries ctx atr pip_size cfg ?r) room st"
      using assms i by (auto simp: process_step_def Let_def res_bind_Inr_iff)
    show ?thesis unfolding st' room_stage_view(1) [OF setup_room_decided [OF room]]
      using True room g by (simp add: lasting_reason_def block_reason_def resolved_setup_def)
  next
    case False
    have n: "lasting_reason entries ctx atr pip_size cfg ?r = []" "resolved_setup entries ctx atr pip_size cfg ?r = ?r"
      using False g by (auto simp: lasting_reason_def block_reason_def resolved_setup_def)
    show ?thesis
    proof (cases "structural ?r")
      case True
      then have "st' = role_stage ctx cfg i ?r st" using assms i False by (simp add: process_step_def Let_def)
      then show ?thesis using role_stage_view(1) [of cfg ctx i ?r st] n by simp
    next
      case s: False
      then have "st' = set_processed i ?r st" using assms i by (simp add: process_step_def Let_def)
      then show ?thesis using n by (simp add: view_processed)
    qed
  qed
  show "view (hard_reasons cfg) st' j = view (hard_reasons cfg) st j" if j: "j \<noteq> i"
  proof (cases "i \<in> set (as_gated st) \<or> \<not> structural ?r \<or> dt_provisional_targets_pips ?r = []")
    case True
    then show ?thesis
      using assms j by (auto simp: process_step_def Let_def view_processed role_stage_view(2) split: if_splits)
  next
    case False
    then obtain room where room: "setup_room entries ctx atr pip_size cfg ?r = Inr room"
      and st': "st' = room_stage ctx cfg i (trimmed_setup entries ctx atr pip_size cfg ?r) room st"
      using assms by (auto simp: process_step_def Let_def res_bind_Inr_iff)
    show ?thesis unfolding st' by (rule room_stage_view(2) [OF setup_room_decided [OF room] j])
  qed
qed

lemma stage_keys [simp]:
  "distinct_keys (role_stage ctx cfg i r st) = distinct_keys st" "distinct_keys (room_stage ctx cfg i r room st) = distinct_keys st"
proof -
  have role: "distinct_keys (role_stage ctx cfg i r st) = distinct_keys st" for r st by (simp add: role_stage_def Let_def)
  then show "distinct_keys (role_stage ctx cfg i r st) = distinct_keys st" .
  show "distinct_keys (room_stage ctx cfg i r room st) = distinct_keys st" by (simp add: room_stage_def Let_def role)
qed

lemma process_keys:
  assumes "process_step entries ctx atr pip_size cfg observed i st = Inr st'" "distinct_keys st"
  shows "distinct_keys st'"
  using assms by (auto simp: process_step_def Let_def res_bind_Inr_iff split: if_splits)

lemma fold_res_keys:
  assumes "fold_res (process_step entries ctx atr pip_size cfg observed) xs st = Inr st'" "distinct_keys st"
  shows "distinct_keys st'"
  using assms by (induction xs arbitrary: st) (auto simp: res_bind_Inr_iff dest: process_keys)

text \<open>The state the loops end in, for every index.\<close>

lemma final_view:
  fixes cfg :: action_config
  assumes "fold_res (process_step entries ctx atr pip_size cfg observed) [0..<length observed]
      (observation_state symbol observed market_map ctx atr cfg) = Inr st"
  shows "distinct_keys st"
    "i < length observed \<Longrightarrow> gates (hard_reasons cfg) (decisions_at st i) = lasting_reason entries ctx atr pip_size cfg (observed ! i)"
    "i < length observed \<Longrightarrow> geometry_valid (observed ! i) \<Longrightarrow>
       map_of (as_processed st) i = Some (resolved_setup entries ctx atr pip_size cfg (observed ! i))"
    "\<not> i < length observed \<Longrightarrow> gates (hard_reasons cfg) (decisions_at st i) = []"
proof -
  let ?R = "hard_reasons cfg" and ?s = "observation_state symbol observed market_map ctx atr cfg"
  let ?V = "view ?R"
  let ?Q = "\<lambda>i v v'. if fst v then v' = v
    else geometry_valid (observed ! i) \<longrightarrow> snd v' = (fst (snd v) @ lasting_reason entries ctx atr pip_size cfg (observed ! i),
      Some (resolved_setup entries ctx atr pip_size cfg (observed ! i)))"
  have step: "?Q i (?V s i) (?V s' i) \<and> (\<forall>j. j \<noteq> i \<longrightarrow> ?V s' j = ?V s j)"
    if "process_step entries ctx atr pip_size cfg observed i s = Inr s'" for i s s'
    using process_view [OF that] by (auto simp: view_def)
  have fin: "(i \<in> set [0..<length observed] \<longrightarrow> ?Q i (?V ?s i) (?V st i)) \<and> (i \<notin> set [0..<length observed] \<longrightarrow> ?V st i = ?V ?s i)" for i
    by (rule fold_res_pointwise [where f = "process_step entries ctx atr pip_size cfg observed" and xs = "[0..<length observed]"])
      (use step assms in auto)
  show "distinct_keys st" using fold_res_keys [OF assms observation_keys] .
  have inv: "lasting_reason entries ctx atr pip_size cfg r = [''invalid_geometry'']" if "\<not> geometry_valid r" for r
    using that by (simp add: lasting_reason_def block_reason_def soft_reasons)
  have obs: "i \<in> set (as_gated ?s) \<longleftrightarrow> i < length observed \<and> \<not> geometry_valid (observed ! i)"
    "gates ?R (decisions_at ?s i) = (if i < length observed \<and> \<not> geometry_valid (observed ! i) then [''invalid_geometry''] else [])" for i
    using observation_view [of ?R symbol observed market_map ctx atr cfg i] soft_reasons(3) [of cfg] by (auto simp: view_def split: if_splits)
  have fin': "i < length observed \<Longrightarrow> ?Q i (?V ?s i) (?V st i)" "\<not> i < length observed \<Longrightarrow> ?V st i = ?V ?s i" for i using fin [of i] by auto
  show "gates ?R (decisions_at st i) = lasting_reason entries ctx atr pip_size cfg (observed ! i)" if i: "i < length observed"
  proof (cases "geometry_valid (observed ! i)")
    case True
    then show ?thesis using fin'(1) [OF i] i by (simp add: view_def obs)
  next
    case False
    then show ?thesis using fin'(1) [OF i] i inv [OF False] by (simp add: view_def obs)
  qed
  show "map_of (as_processed st) i = Some (resolved_setup entries ctx atr pip_size cfg (observed ! i))"
    if "i < length observed" "geometry_valid (observed ! i)"
    using fin'(1) [OF that(1)] that by (simp add: view_def obs)
  show "gates ?R (decisions_at st i) = []" if "\<not> i < length observed"
    using fin'(2) [OF that] that by (simp add: view_def obs)
qed

subsection \<open>The resolution\<close>

lemma hard_decisions_set:
  "(i, d) \<in> set (hard_decisions ds) \<longleftrightarrow> (\<exists>l. (i, l) \<in> set ds \<and> filter av_hard_block l \<noteq> [] \<and> d = List.last (filter av_hard_block l))"
proof -
  have "(case rev ys of [] \<Rightarrow> [] | d # _ \<Rightarrow> [(i, d)]) = (if ys = [] then [] else [(i, List.last ys)])" for ys :: "action_decision list" and i :: nat
    by (cases ys rule: rev_cases) auto
  then show ?thesis by (auto simp: hard_decisions_def split: if_splits)
qed

lemma hard_decisions_keys: "map fst (hard_decisions ds) = map fst (filter (\<lambda>(i, l). filter av_hard_block l \<noteq> []) ds)"
proof -
  have "map fst (case rev ys of [] \<Rightarrow> [] | d # _ \<Rightarrow> [(i, d)]) = (if ys = [] then [] else [i])" for ys :: "action_decision list" and i :: nat
    by (cases ys rule: rev_cases) auto
  then show ?thesis by (induction ds) (auto simp: hard_decisions_def split: prod.splits)
qed

lemma gates_demoted:
  "map av_reason_code (filter av_hard_block (map (demote reasons) l)) = gates reasons l"
  by (induction l) (auto simp: gates_def demote_def demotes_def)

lemma gated_keys:
  fixes D :: "(nat \<times> action_decision list) list" and reasons :: "string list"
  assumes "distinct (map fst D)"
  defines "kept \<equiv> map (\<lambda>(i, l). (i, map (demote reasons) l)) D"
  shows "distinct (map fst (hard_decisions kept))"
    "i \<in> set (map fst (hard_decisions kept)) \<longleftrightarrow> gates reasons (case map_of D i of None \<Rightarrow> [] | Some l \<Rightarrow> l) \<noteq> []"
    "(i, d) \<in> set (hard_decisions kept) \<Longrightarrow>
       av_reason_code d = List.last (gates reasons (case map_of D i of None \<Rightarrow> [] | Some l \<Rightarrow> l))"
proof -
  have "map fst kept = map fst D" by (simp add: kept_def case_prod_beta)
  then show "distinct (map fst (hard_decisions kept))"
    using assms(1) unfolding hard_decisions_keys by (simp add: distinct_map_filter)
  have k: "(i, d) \<in> set (hard_decisions kept) \<longleftrightarrow>
      (\<exists>l. map_of D i = Some l \<and> gates reasons l \<noteq> [] \<and> d = List.last (filter av_hard_block (map (demote reasons) l)))" for i d
  proof -
    have m: "(i, l) \<in> set D \<longleftrightarrow> map_of D i = Some l" for l using map_of_eq_Some_iff [OF assms(1)] by blast
    have "(i, d) \<in> set (hard_decisions kept) \<longleftrightarrow>
        (\<exists>l. (i, l) \<in> set D \<and> filter av_hard_block (map (demote reasons) l) \<noteq> [] \<and>
          d = List.last (filter av_hard_block (map (demote reasons) l)))"
      unfolding hard_decisions_set kept_def by auto
    then show ?thesis unfolding m gates_demoted [symmetric] by simp
  qed
  show "i \<in> set (map fst (hard_decisions kept)) \<longleftrightarrow> gates reasons (case map_of D i of None \<Rightarrow> [] | Some l \<Rightarrow> l) \<noteq> []"
  proof -
    have "i \<in> set (map fst (hard_decisions kept)) \<longleftrightarrow> (\<exists>d. (i, d) \<in> set (hard_decisions kept))" by force
    then show ?thesis unfolding k by (cases "map_of D i") simp_all
  qed
  show "av_reason_code d = List.last (gates reasons (case map_of D i of None \<Rightarrow> [] | Some l \<Rightarrow> l))"
    if "(i, d) \<in> set (hard_decisions kept)"
    using that unfolding k by (auto simp: gates_demoted [symmetric] last_map)
qed

lemma indexed_filter: "map (\<lambda>i. g (xs ! i)) (filter (\<lambda>i. P (xs ! i)) [0..<length xs]) = map g (filter P xs)"
proof -
  have "filter P xs = filter P (map ((!) xs) [0..<length xs])" by (simp add: map_nth)
  then show ?thesis by (simp add: filter_map o_def)
qed

lemma setup_blocked_iff:
  "setup_blocked entries ctx atr pip_size cfg r \<longleftrightarrow> lasting_reason entries ctx atr pip_size cfg r \<noteq> []"
  "setup_blocked entries ctx atr pip_size cfg r \<Longrightarrow>
     block_reason entries ctx atr pip_size cfg r = Some (List.last (lasting_reason entries ctx atr pip_size cfg r))"
  by (auto simp: setup_blocked_def lasting_reason_def split: option.splits if_splits)

lemma resolution_pointwise:
  fixes cfg :: action_config
  assumes "fold_res (process_step entries ctx atr pip_size cfg observed) [0..<length observed]
      (observation_state symbol observed market_map ctx atr cfg) = Inr st"
  shows "ar_actionable (resolution_of observed cfg locations st) =
      map (resolved_setup entries ctx atr pip_size cfg) (filter (\<lambda>r. \<not> setup_blocked entries ctx atr pip_size cfg r) observed)"
    "map (\<lambda>(r, d). (r, Some (av_reason_code d))) (ar_gated (resolution_of observed cfg locations st)) =
      map (\<lambda>r. (r, block_reason entries ctx atr pip_size cfg r)) (filter (setup_blocked entries ctx atr pip_size cfg) observed)"
proof -
  note fv = final_view [OF assms]
  let ?kept = "map (\<lambda>(i, l). (i, map (demote (hard_reasons cfg)) l)) (as_decisions st)"
  let ?gated = "hard_decisions ?kept" and ?blocked = "setup_blocked entries ctx atr pip_size cfg"
  note gk = gated_keys [OF fv(1) [unfolded distinct_keys_def], where reasons = "hard_reasons cfg", folded decisions_at_def]
  have key: "i \<in> set (map fst ?gated) \<longleftrightarrow> i < length observed \<and> ?blocked (observed ! i)" for i
  proof (cases "i < length observed")
    case True
    show ?thesis unfolding gk(2) [of i] fv(2) [OF True] setup_blocked_iff(1) using True by simp
  next
    case False
    show ?thesis unfolding gk(2) [of i] fv(4) [OF False] using False by simp
  qed
  have valid: "geometry_valid r" if "\<not> ?blocked r" for r
    using that by (auto simp: setup_blocked_def block_reason_def soft_reasons split: if_splits)
  have "ar_actionable (resolution_of observed cfg locations st) =
      map (\<lambda>i. case map_of (as_processed st) i of Some r \<Rightarrow> r | None \<Rightarrow> observed ! i)
        (filter (\<lambda>i. i \<notin> set (map fst ?gated)) [0..<length observed])"
    by (simp add: resolution_of_def Let_def)
  also have "\<dots> = map (\<lambda>i. resolved_setup entries ctx atr pip_size cfg (observed ! i)) (filter (\<lambda>i. \<not> ?blocked (observed ! i)) [0..<length observed])"
  proof (rule map_cong)
    show "filter (\<lambda>i. i \<notin> set (map fst ?gated)) [0..<length observed] = filter (\<lambda>i. \<not> ?blocked (observed ! i)) [0..<length observed]"
      by (rule filter_cong [OF refl]) (use key in auto)
    show "(case map_of (as_processed st) i of Some r \<Rightarrow> r | None \<Rightarrow> observed ! i) = resolved_setup entries ctx atr pip_size cfg (observed ! i)"
      if "i \<in> set (filter (\<lambda>i. \<not> ?blocked (observed ! i)) [0..<length observed])" for i
      using that fv(3) [of i] valid by auto
  qed
  also have "\<dots> = map (resolved_setup entries ctx atr pip_size cfg) (filter (\<lambda>r. \<not> ?blocked r) observed)"
    by (rule indexed_filter)
  finally show "ar_actionable (resolution_of observed cfg locations st) =
      map (resolved_setup entries ctx atr pip_size cfg) (filter (\<lambda>r. \<not> ?blocked r) observed)" .
  have sorted: "map fst (sort_key fst ?gated) = filter (\<lambda>i. ?blocked (observed ! i)) [0..<length observed]"
  proof (rule sorted_distinct_set_unique)
    show "sorted (map fst (sort_key fst ?gated))" by simp
    show "distinct (map fst (sort_key fst ?gated))" using gk(1) by (simp add: distinct_map)
    show "set (map fst (sort_key fst ?gated)) = set (filter (\<lambda>i. ?blocked (observed ! i)) [0..<length observed])"
      using key by auto
  qed (simp_all add: sorted_filter [of id, simplified])
  have reason: "Some (av_reason_code d) = block_reason entries ctx atr pip_size cfg (observed ! i)"
    if "(i, d) \<in> set (sort_key fst ?gated)" for i d
  proof -
    have g: "(i, d) \<in> set ?gated" using that by simp
    then have i: "i < length observed" "?blocked (observed ! i)" using key [of i] by force+
    show ?thesis using gk(3) [OF g] fv(2) [OF i(1)] setup_blocked_iff(2) [OF i(2)] by simp
  qed
  have "map (\<lambda>(r, d). (r, Some (av_reason_code d))) (ar_gated (resolution_of observed cfg locations st)) =
      map (\<lambda>(i, d). (observed ! i, Some (av_reason_code d))) (sort_key fst ?gated)"
    by (simp add: resolution_of_def Let_def case_prod_beta)
  also have "\<dots> = map (\<lambda>i. (observed ! i, block_reason entries ctx atr pip_size cfg (observed ! i))) (map fst (sort_key fst ?gated))"
    using reason by auto
  also have "\<dots> = map (\<lambda>r. (r, block_reason entries ctx atr pip_size cfg r)) (filter ?blocked observed)"
    unfolding sorted by (rule indexed_filter)
  finally show "map (\<lambda>(r, d). (r, Some (av_reason_code d))) (ar_gated (resolution_of observed cfg locations st)) =
      map (\<lambda>r. (r, block_reason entries ctx atr pip_size cfg r)) (filter ?blocked observed)" .
qed

section \<open>Properties\<close>

text \<open>What the resolution lets through. Though setups are compared with one another, no setup is dropped because of another one:
  the actionable results are, in the order of the observed ones, exactly those that are not blocked on their own, each trimmed
  and capped by its own target room, and the gated ones are exactly the blocked ones, each with the reason of its block. A setup
  is blocked for its geometry or by the hard block of its target room, the latter only while the actionability gate is on
  (unless the request itself is invalid). Neither a contested corridor nor a broken or mismatched key-level role gates anything.\<close>

theorem actionable_exact:
  assumes "resolve_actionability symbol observed market_map ctx atr pip_size cfg = Inr res"
    "entries = (case market_map of None \<Rightarrow> [] | Some es \<Rightarrow> es)"
  shows "ar_actionable res =
      map (resolved_setup entries ctx atr pip_size cfg) (filter (\<lambda>r. \<not> setup_blocked entries ctx atr pip_size cfg r) observed) \<and>
    map (\<lambda>(r, d). (r, Some (av_reason_code d))) (ar_gated res) =
      map (\<lambda>r. (r, block_reason entries ctx atr pip_size cfg r)) (filter (setup_blocked entries ctx atr pip_size cfg) observed)"
proof -
  obtain st locations where st: "fold_res (process_step entries ctx atr pip_size cfg observed) [0..<length observed]
      (observation_state symbol observed market_map ctx atr cfg) = Inr st" "res = resolution_of observed cfg locations st"
    using assms by (auto simp: resolve_actionability_def Let_def res_bind_Inr_iff)
  show ?thesis unfolding st(2) by (intro conjI resolution_pointwise [OF st(1)])
qed

text \<open>A buy zone with a supply zone half a dollar above it, and a sell far above: the room of the buy is below the cost.\<close>

definition demo_detection :: "string \<Rightarrow> rat \<Rightarrow> rat \<Rightarrow> rat \<Rightarrow> detection" where
  "demo_detection direction lo hi price =
     \<lparr>dt_setup = ''Zone Reaction'', dt_direction = direction, dt_key_level = lo,
      dt_entry_zone = new_zone lo hi (if direction = ''BUY'' then ''demand'' else ''supply'') 3 None ''zone'' None None,
      dt_current_price = price, dt_confluence = 3, dt_mode = ''with_trend'', dt_structural_id = None, dt_structural_kind = None,
      dt_bias_relationship = None, dt_key_level_role = None, dt_planned_entry_price = None,
      dt_provisional_targets_pips = [30, 60], dt_target_cap_pips = None, dt_target_room_measured = None\<rparr>"

definition demo_observed :: "detection list" where
  "demo_observed = [demo_detection ''BUY'' 1990 2000 1995, demo_detection ''SELL'' 2050 2060 2040]"

definition demo_context :: detection_context where
  "demo_context = \<lparr>dc_tf = ''M5'', dc_frames = [], dc_htf_bias = ''neutral'', dc_analysis = None, dc_regime = None\<rparr>"

definition demo_action_config :: action_config where
  "demo_action_config =
     \<lparr>ac_displacement_lookback = 0, ac_accept_bars = 2, ac_gap_atr = 1, ac_barrier_buffer_atr = 1 / 10,
      ac_scalp_barrier_buffer_atr = 1 / 10, ac_minimum_capped_target_pips = 15, ac_scalp_minimum_capped_target_pips = 5,
      ac_execution_cost_pips = 10, ac_counter_bias_allowed = True, ac_gate_enabled = True,
      ac_location = demo_location\<lparr>lf_section := None\<rparr>\<rparr>"

definition demo_walls :: "map_entry list" where "demo_walls = [demo_entry (4001 / 2) 2010 ''zone'']"

theorem actionable_exact_witness:
  "\<exists>res. resolve_actionability ''XAU'' demo_observed (Some demo_walls) demo_context 2 (1 / 10) demo_action_config = Inr res \<and>
     map dt_direction (ar_actionable res) = [''SELL''] \<and>
     map (\<lambda>(r, d). (dt_direction r, av_reason_code d)) (ar_gated res) = [(''BUY'', ''opposing_barrier_room_below_cost'')]"
proof -
  have "case resolve_actionability ''XAU'' demo_observed (Some demo_walls) demo_context 2 (1 / 10) demo_action_config of
      Inl e \<Rightarrow> False | Inr res \<Rightarrow> True" by code_simp
  then obtain res where r: "resolve_actionability ''XAU'' demo_observed (Some demo_walls) demo_context 2 (1 / 10) demo_action_config = Inr res"
    by (auto split: sum.splits)
  have d: "filter (setup_blocked demo_walls demo_context 2 (1 / 10) demo_action_config) demo_observed = [demo_detection ''BUY'' 1990 2000 1995]"
    "map dt_direction (map (resolved_setup demo_walls demo_context 2 (1 / 10) demo_action_config)
       (filter (\<lambda>r. \<not> setup_blocked demo_walls demo_context 2 (1 / 10) demo_action_config r) demo_observed)) = [''SELL'']"
    "block_reason demo_walls demo_context 2 (1 / 10) demo_action_config (demo_detection ''BUY'' 1990 2000 1995) = Some ''opposing_barrier_room_below_cost''"
    "dt_direction (demo_detection ''BUY'' 1990 2000 1995) = ''BUY''"
    by code_simp+
  have x: "ar_actionable res = map (resolved_setup demo_walls demo_context 2 (1 / 10) demo_action_config)
       (filter (\<lambda>r. \<not> setup_blocked demo_walls demo_context 2 (1 / 10) demo_action_config r) demo_observed)"
    "map (\<lambda>(r, d). (r, Some (av_reason_code d))) (ar_gated res) =
       [(demo_detection ''BUY'' 1990 2000 1995, Some ''opposing_barrier_room_below_cost'')]"
    using actionable_exact [OF r refl] unfolding d(1) option.case by (simp_all add: d(3))
  obtain g h where "ar_gated res = [(g, h)]" "g = demo_detection ''BUY'' 1990 2000 1995" "av_reason_code h = ''opposing_barrier_room_below_cost''"
    using x(2) by (auto simp: map_eq_Cons_conv)
  then show ?thesis using r d(2,4) unfolding x(1) [symmetric] by (intro exI [of _ res]) simp
qed

end
