(* ===== verification/SetupAggregate.thy ===== *)
theory SetupAggregate
  imports SetupLifecycle ExecutionConfirmation TradePlanStream
begin

text \<open>
  The one read across setup, confirmation and plan state
  (\<open>app/autotrade/setup_execution_aggregate.py\<close>). The status lines carry an emoji and a middle
  dot; they are written as their UTF-8 bytes.
\<close>

section \<open>Plan ids\<close>

definition v8_plan_id :: "string \<Rightarrow> string" where
  "v8_plan_id setup_id = ''v8:'' @ setup_id"

definition plan_id_candidates :: "string \<Rightarrow> string list" where
  "plan_id_candidates sid = (if str_startswith sid ''v8:'' then [sid] else [''v8:'' @ sid])"

definition strip_plan_prefix :: "string option \<Rightarrow> string option" where
  "strip_plan_prefix value =
     (case value of None \<Rightarrow> None
      | Some text \<Rightarrow> Some (if str_startswith text ''v8:'' then drop 3 text else text))"

section \<open>Tables\<close>

definition PHASE_TO_PROJECTION_STATE :: "string \<rightharpoonup> string" where
  "PHASE_TO_PROJECTION_STATE = map_of
     [(''immediate_confirmation'', ''preflight''),
      (''waiting_retest'', ''waiting_retest''),
      (''in_zone_waiting_m1'', ''trigger_ready''),
      (''trigger_ready'', ''trigger_ready''),
      (''trigger_price_left_zone'', ''waiting_retest''),
      (''published'', ''plan_published''),
      (''expired'', ''terminal''),
      (''invalidated'', ''terminal'')]"

definition SETUP_STATE_TO_PROJECTION_STATE :: "string \<rightharpoonup> string" where
  "SETUP_STATE_TO_PROJECTION_STATE = map_of
     [(''discovered'', ''analysis_only''),
      (''watching'', ''analysis_only''),
      (''touched'', ''analysis_only''),
      (''forming'', ''analysis_only''),
      (''confirmed'', ''queued''),
      (''ready_event_enqueued'', ''queued''),
      (''worker_acknowledged'', ''queued''),
      (''armed_waiting_trigger'', ''preflight''),
      (''plan_built'', ''plan_published''),
      (''plan_published'', ''plan_published''),
      (''armed'', ''executor_armed''),
      (''cancelled'', ''terminal''),
      (''invalidated'', ''terminal''),
      (''expired'', ''terminal''),
      (''consumed'', ''terminal'')]"

definition emoji_circle :: "char \<Rightarrow> string" where
  "emoji_circle c = [CHR 0xF0, CHR 0x9F, CHR 0x9F, c]"

definition middle_dot :: string where
  "middle_dot = [CHR 0xC2, CHR 0xB7]"

definition STATUS_LINE_BY_PROJECTION_STATE :: "string \<rightharpoonup> string option" where
  "STATUS_LINE_BY_PROJECTION_STATE = map_of
     [(''analysis_only'', None),
      (''queued'', Some (emoji_circle (CHR 0xA1) @ '' <b>QUEUED</b> '' @ middle_dot @
         '' worker acknowledgement pending'')),
      (''preflight'', Some (emoji_circle (CHR 0xA1) @ '' <b>PREFLIGHT</b> '' @ middle_dot @
         '' dynamic execution checks in progress'')),
      (''waiting_retest'', Some (emoji_circle (CHR 0xA0) @ '' <b>WAITING RETEST</b> '' @ middle_dot @
         '' executable quote is outside the confirmed entry zone'')),
      (''trigger_ready'', Some (emoji_circle (CHR 0xA2) @ '' <b>TRIGGER READY</b> '' @ middle_dot @
         '' waiting for the M1 trigger candle'')),
      (''plan_published'', None),
      (''executor_armed'', Some (emoji_circle (CHR 0xA2) @ '' <b>EXECUTOR ARMED</b> '' @ middle_dot @
         '' waiting for mechanical entry activation'')),
      (''terminal'', None)]"

section \<open>The aggregate\<close>

record setup_aggregate =
  sx_setup_id :: string
  sx_setup_state :: "string option"
  sx_execution_phase :: "string option"
  sx_plan_id :: string
  sx_plan_state :: "rtext option"
  sx_expires_at :: "int option"
  sx_terminal :: bool
  sx_effective_projection_state :: string
  sx_effective_reason_code :: string
  sx_status_line :: "string option"

definition resolve_projection_state ::
  "string option \<Rightarrow> string option \<Rightarrow> rtext option \<Rightarrow> bool \<Rightarrow> string" where
  "resolve_projection_state setup_state execution_phase plan_state terminal =
     (if plan_state = Some (Txt ''published'') then ''plan_published''
      else if plan_state \<in> {Some (Txt ''armed''), Some (Txt ''consumed'')} then ''executor_armed''
      else if terminal then ''terminal''
      else (case Option.bind execution_phase PHASE_TO_PROJECTION_STATE of
              Some mapped \<Rightarrow> mapped
            | None \<Rightarrow>
                (case Option.bind setup_state SETUP_STATE_TO_PROJECTION_STATE of
                   Some mapped \<Rightarrow> mapped
                 | None \<Rightarrow> ''analysis_only'')))"

definition resolve_reason_code :: "string option \<Rightarrow> string option \<Rightarrow> string \<Rightarrow> string" where
  "resolve_reason_code setup_state execution_phase projection =
     (if projection = ''terminal'' then
        (if setup_state = Some ''expired'' then ''setup_expired_before_execution''
         else if setup_state = Some ''invalidated'' then ''structure_broke''
         else if setup_state = Some ''cancelled'' then ''setup_cancelled''
         else ''setup_terminal'')
      else if execution_phase = Some ''waiting_retest'' then ''waiting_retest_entry_zone''
      else if execution_phase = Some ''trigger_price_left_zone'' then ''trigger_price_left_zone''
      else if projection = ''plan_published'' then ''candidate_published''
      else if projection = ''executor_armed'' then ''executor_armed''
      else if projection = ''queued'' then ''worker_acknowledgement_pending''
      else (case execution_phase of
              Some (c # p) \<Rightarrow> c # p
            | _ \<Rightarrow> (case setup_state of Some (c # p) \<Rightarrow> c # p | _ \<Rightarrow> ''unknown'')))"

definition resolve_setup_execution_aggregate :: "int \<Rightarrow> string \<Rightarrow> setup_aggregate prog" where
  "resolve_setup_execution_aggregate now setup_id =
     pbind (load_setup now setup_id) (\<lambda>setup.
     let setup_state = map_option sr_state setup;
         expires_at = (case setup of None \<Rightarrow> None | Some r \<Rightarrow> sr_expires_at r);
         terminal = (case setup_state of None \<Rightarrow> False | Some st \<Rightarrow> st \<in> TERMINAL_STATES) in
     pbind (load_execution_confirmation setup_id) (\<lambda>confirmation.
     let execution_phase = map_option ec_phase confirmation; plan_id = v8_plan_id setup_id in
     pbind (read_plan_state plan_id) (\<lambda>plan_state.
     let projection = resolve_projection_state setup_state execution_phase plan_state terminal in
     Done \<lparr>sx_setup_id = setup_id, sx_setup_state = setup_state, sx_execution_phase = execution_phase,
           sx_plan_id = plan_id, sx_plan_state = plan_state, sx_expires_at = expires_at,
           sx_terminal = terminal, sx_effective_projection_state = projection,
           sx_effective_reason_code = resolve_reason_code setup_state execution_phase projection,
           sx_status_line = Option.bind (STATUS_LINE_BY_PROJECTION_STATE projection) id\<rparr>)))"

section \<open>Lemmas\<close>

lemma plan_id_strip: "strip_plan_prefix (Some (v8_plan_id sid)) = Some sid"
  by (simp add: strip_plan_prefix_def v8_plan_id_def)

lemma phase_projection_terminal:
  "PHASE_TO_PROJECTION_STATE p = Some ''terminal'' \<longleftrightarrow> p \<in> {EXPIRED_ec, INVALIDATED_ec}"
  by (auto simp: PHASE_TO_PROJECTION_STATE_def EXPIRED_ec_def INVALIDATED_ec_def split: if_splits)

lemma state_projection_terminal:
  "SETUP_STATE_TO_PROJECTION_STATE st = Some ''terminal'' \<longleftrightarrow> st \<in> TERMINAL_STATES"
  by (auto simp: SETUP_STATE_TO_PROJECTION_STATE_def state_sets split: if_splits)

lemma phases_mapped: "p \<in> set EXECUTION_CONFIRMATION_PHASES \<Longrightarrow> PHASE_TO_PROJECTION_STATE p \<noteq> None"
  by (auto simp: EXECUTION_CONFIRMATION_PHASES_def PHASE_TO_PROJECTION_STATE_def
      IMMEDIATE_CONFIRMATION_def WAITING_RETEST_def IN_ZONE_WAITING_M1_def TRIGGER_READY_def
      TRIGGER_PRICE_LEFT_ZONE_def PUBLISHED_ec_def EXPIRED_ec_def INVALIDATED_ec_def)

lemma projection_terminal_iff:
  assumes "\<And>st. setup_state = Some st \<Longrightarrow> terminal \<longleftrightarrow> st \<in> TERMINAL_STATES" "setup_state = None \<Longrightarrow> \<not> terminal"
  shows "resolve_projection_state setup_state phase plan_state terminal = ''terminal'' \<longleftrightarrow>
     plan_state \<notin> {Some (Txt ''published''), Some (Txt ''armed''), Some (Txt ''consumed'')} \<and>
     (terminal \<or> (\<exists>p\<in>{EXPIRED_ec, INVALIDATED_ec}. phase = Some p))"
proof -
  note T = phase_projection_terminal state_projection_terminal
  have E: "PHASE_TO_PROJECTION_STATE EXPIRED_ec = Some ''terminal''"
    "PHASE_TO_PROJECTION_STATE INVALIDATED_ec = Some ''terminal''" by (simp_all add: T)
  show ?thesis
    using assms
    by (cases phase; cases setup_state)
       (auto simp: resolve_projection_state_def E dest!: T[THEN iffD1] split: option.splits)
qed

lemma ec_from_json_phase: "ec_from_json raw = Inr (Some c) \<Longrightarrow> ec_phase c \<in> set EXECUTION_CONFIRMATION_PHASES"
  by (auto simp: ec_from_json_def split: option.splits sum.splits if_splits)

text \<open>What a load finds under a setup's key.\<close>

definition stored_setup :: "int \<Rightarrow> keyspace \<Rightarrow> string \<Rightarrow> setup_record option res" where
  "stored_setup now K sid =
     (case k_text K (setup_key sid) of None \<Rightarrow> Inr None
      | Some t \<Rightarrow> res_bind (res_bind (json_loads t) (setup_from_dict now)) (\<lambda>r. Inr (Some r)))"

context redis
begin

lemma run_load_stored:
  assumes "str_key (ks s) (setup_key sid)" "stored_setup now (ks s) sid = Inr x"
  shows "run exec (pbind (load_setup now sid) f) s = run exec (f x) (snd (exec (GET (setup_key sid)) s))"
  using assms(2)
  by (auto simp: load_setup_def run_get[OF assms(1)] stored_setup_def res_bind_Inr_iff split: option.splits)

lemma run_load_confirmation:
  assumes "str_key (ks s) (execution_confirmation_key sid)"
    "ec_from_json (k_text (ks s) (execution_confirmation_key sid)) = Inr x"
  shows "run exec (pbind (load_execution_confirmation sid) f) s =
    run exec (f x) (snd (exec (GET (execution_confirmation_key sid)) s))"
  by (simp add: load_execution_confirmation_def run_get[OF assms(1)] assms(2))

end

section \<open>Properties\<close>

text \<open>The aggregate read: for any decodable stored records it returns an answer and writes
  nothing; a published (armed or consumed) plan wins over any setup state or phase and never reads
  as terminal, which is shown exactly when no plan won and the setup is in a terminal state or the
  confirmation phase is expired or invalidated; the plan id is the setup id with its prefix.\<close>

theorem aggregate_precedence:
  assumes "redis exec ks" "str_key (ks s) (setup_key sid)" "str_key (ks s) (execution_confirmation_key sid)"
    "str_key (ks s) (plan_state_key (v8_plan_id sid))" "stored_setup now (ks s) sid = Inr loaded"
    "ec_from_json (k_text (ks s) (execution_confirmation_key sid)) = Inr conf"
  shows "\<exists>a s'. run exec (resolve_setup_execution_aggregate now sid) s = (Inr a, s') \<and> ks s' = ks s \<and>
     strip_plan_prefix (Some (sx_plan_id a)) = Some sid \<and>
     (sx_plan_state a = Some (Txt ''published'') \<longrightarrow> sx_effective_projection_state a = ''plan_published'') \<and>
     (sx_plan_state a \<in> {Some (Txt ''armed''), Some (Txt ''consumed'')} \<longrightarrow>
        sx_effective_projection_state a = ''executor_armed'') \<and>
     (sx_effective_projection_state a = ''terminal'' \<longleftrightarrow>
        sx_plan_state a \<notin> {Some (Txt ''published''), Some (Txt ''armed''), Some (Txt ''consumed'')} \<and>
        ((\<exists>r. loaded = Some r \<and> sr_state r \<in> TERMINAL_STATES) \<or>
         (\<exists>c. conf = Some c \<and> ec_phase c \<in> {EXPIRED_ec, INVALIDATED_ec})))"
proof -
  let ?ps = "k_text (ks s) (plan_state_key (v8_plan_id sid))"
  let ?dead = "case map_option sr_state loaded of None \<Rightarrow> False | Some st \<Rightarrow> st \<in> TERMINAL_STATES"
  obtain a s' where a: "run exec (resolve_setup_execution_aggregate now sid) s = (Inr a, s')" "ks s' = ks s"
    "sx_plan_id a = v8_plan_id sid" "sx_plan_state a = ?ps"
    "sx_effective_projection_state a =
       resolve_projection_state (map_option sr_state loaded) (map_option ec_phase conf) ?ps ?dead"
    by (simp add: resolve_setup_execution_aggregate_def read_plan_state_def Let_def
        redis.run_load_stored[OF assms(1)] redis.run_load_confirmation[OF assms(1)] redis.run_get[OF assms(1)]
        redis.ks_read[OF assms(1)] assms(2-6))
  have term_iff: "?dead \<longleftrightarrow> (\<exists>r. loaded = Some r \<and> sr_state r \<in> TERMINAL_STATES)" by (cases loaded) auto
  have ph: "(\<exists>p\<in>{EXPIRED_ec, INVALIDATED_ec}. map_option ec_phase conf = Some p) \<longleftrightarrow>
      (\<exists>c. conf = Some c \<and> ec_phase c \<in> {EXPIRED_ec, INVALIDATED_ec})" by (cases conf) auto
  have "sx_effective_projection_state a = ''terminal'' \<longleftrightarrow>
      ?ps \<notin> {Some (Txt ''published''), Some (Txt ''armed''), Some (Txt ''consumed'')} \<and>
      (?dead \<or> (\<exists>p\<in>{EXPIRED_ec, INVALIDATED_ec}. map_option ec_phase conf = Some p))"
    unfolding a(5) by (rule projection_terminal_iff) auto
  note T = this[unfolded term_iff ph, folded a(4)]
  have "sx_plan_state a = Some (Txt ''published'') \<longrightarrow> sx_effective_projection_state a = ''plan_published''"
    "sx_plan_state a \<in> {Some (Txt ''armed''), Some (Txt ''consumed'')} \<longrightarrow>
       sx_effective_projection_state a = ''executor_armed''"
    unfolding a(4,5) by (simp_all add: resolve_projection_state_def)
  moreover have "strip_plan_prefix (Some (sx_plan_id a)) = Some sid" by (simp add: a(3) plan_id_strip)
  ultimately show ?thesis using a(1,2) T by blast
qed

text \<open>A plan is on the stream while the setup expired and its confirmation still waits for a retest.\<close>

definition demo_lagging :: keyspace where
  "demo_lagging = [
     setup_key ''s1'' \<mapsto> VStr (Doc (setup_to_dict (demo_setup\<lparr>sr_state := EXPIRED\<rparr>))) None,
     execution_confirmation_key ''s1'' \<mapsto> VStr (Doc (ec_to_json (demo_confirmation\<lparr>ec_phase := WAITING_RETEST\<rparr>))) None,
     plan_state_key ''v8:s1'' \<mapsto> VStr (Txt ''published'') (Some 900)]"

lemma demo_lagging_run:
  "map_sum id (\<lambda>a. (sx_effective_projection_state a, sx_effective_reason_code a))
     (fst (run mem_exec (resolve_setup_execution_aggregate 1000 ''s1'') demo_lagging)) =
   Inr (''plan_published'', ''waiting_retest_entry_zone'')"
  by code_simp

lemma aggregate_precedence_witness:
  "\<exists>a s'. run mem_exec (resolve_setup_execution_aggregate 1000 ''s1'') demo_lagging = (Inr a, s') \<and>
     sx_effective_projection_state a \<noteq> ''terminal''"
proof -
  have k: "str_key demo_lagging (setup_key ''s1'')" "str_key demo_lagging (execution_confirmation_key ''s1'')"
    "str_key demo_lagging (plan_state_key (v8_plan_id ''s1''))"
    "stored_setup 1000 demo_lagging ''s1'' = Inr (Some (demo_setup\<lparr>sr_state := EXPIRED\<rparr>))"
    "ec_from_json (k_text demo_lagging (execution_confirmation_key ''s1'')) =
       Inr (Some (demo_confirmation\<lparr>ec_phase := WAITING_RETEST\<rparr>))"
    "k_text demo_lagging (plan_state_key (v8_plan_id ''s1'')) = Some (Txt ''published'')"
    by code_simp+
  from aggregate_precedence[where ks = "\<lambda>K. K", OF mem.redis_axioms k(1-5)]
  obtain a s' where a: "run mem_exec (resolve_setup_execution_aggregate 1000 ''s1'') demo_lagging = (Inr a, s')"
    "sx_plan_state a = Some (Txt ''published'') \<longrightarrow> sx_effective_projection_state a = ''plan_published''"
    "sx_effective_projection_state a = ''terminal'' \<longrightarrow> sx_plan_state a \<noteq> Some (Txt ''published'')" by blast
  moreover have "map_sum id (\<lambda>a. sx_plan_state a)
     (fst (run mem_exec (resolve_setup_execution_aggregate 1000 ''s1'') demo_lagging)) = Inr (Some (Txt ''published''))"
    by code_simp
  ultimately show ?thesis by simp
qed

text \<open>The reason code does not follow the publication: with the plan published and a confirmation
  phase lagging at \<open>waiting_retest\<close> the aggregate says \<open>plan_published\<close> for the reason
  \<open>waiting_retest_entry_zone\<close>, although a published plan has the reason \<open>candidate_published\<close> with
  every other phase but \<open>trigger_price_left_zone\<close>.\<close>

theorem published_reason_lags:
  "map_sum id (\<lambda>a. (sx_effective_projection_state a, sx_effective_reason_code a))
     (fst (run mem_exec (resolve_setup_execution_aggregate 1000 ''s1'') demo_lagging)) =
   Inr (''plan_published'', ''waiting_retest_entry_zone'') \<and>
   (resolve_reason_code st ph ''plan_published'' = ''candidate_published'' \<longleftrightarrow>
      ph \<notin> {Some WAITING_RETEST, Some TRIGGER_PRICE_LEFT_ZONE})"
  by (simp add: demo_lagging_run) (simp add: resolve_reason_code_def WAITING_RETEST_def TRIGGER_PRICE_LEFT_ZONE_def)

end
