(* ===== verification/CandidateExecution.thy ===== *)
theory CandidateExecution
  imports RedisModel
begin

text \<open>
  Candidate execution records (\<open>app/autotrade/candidate_execution_state.py\<close>): the structured
  record and its JSON form, the legacy plain markers, and what a worker concludes from one. A
  stored text is a JSON document (\<open>Doc\<close>) or any other text (\<open>Txt\<close>); a document's own text is no
  plain marker and has no marker before its first colon. \<open>sort_keys\<close> orders the serialized keys.
\<close>

section \<open>States\<close>

definition STATE_PUBLISHED :: string where "STATE_PUBLISHED = ''published''"
definition STATE_PROCESSING :: string where "STATE_PROCESSING = ''processing''"
definition STATE_BROKER_SUBMITTING :: string where "STATE_BROKER_SUBMITTING = ''broker_submitting''"
definition STATE_ORDERED :: string where "STATE_ORDERED = ''ordered''"
definition STATE_COMPLETED :: string where "STATE_COMPLETED = ''completed''"
definition STATE_REJECTED :: string where "STATE_REJECTED = ''rejected''"
definition STATE_RETRYABLE_ERROR :: string where "STATE_RETRYABLE_ERROR = ''retryable_error''"
definition STATE_BROKER_OUTCOME_UNKNOWN :: string where
  "STATE_BROKER_OUTCOME_UNKNOWN = ''broker_outcome_unknown''"
definition STATE_BROKER_RECONCILING :: string where "STATE_BROKER_RECONCILING = ''broker_reconciling''"
definition STATE_DRY_RUN :: string where "STATE_DRY_RUN = ''dry_run''"
definition STATE_FLIP_PENDING :: string where "STATE_FLIP_PENDING = ''flip_pending''"
definition STATE_INTEGRITY_ERROR :: string where "STATE_INTEGRITY_ERROR = ''integrity_error''"

lemmas candidate_states =
  STATE_PUBLISHED_def STATE_PROCESSING_def STATE_BROKER_SUBMITTING_def STATE_ORDERED_def
  STATE_COMPLETED_def STATE_REJECTED_def STATE_RETRYABLE_ERROR_def STATE_BROKER_OUTCOME_UNKNOWN_def
  STATE_BROKER_RECONCILING_def STATE_DRY_RUN_def STATE_FLIP_PENDING_def STATE_INTEGRITY_ERROR_def

definition EXECUTOR_COMPATIBLE_STATES :: "string list" where
  "EXECUTOR_COMPATIBLE_STATES =
     [STATE_PUBLISHED, STATE_PROCESSING, STATE_BROKER_SUBMITTING, STATE_ORDERED, STATE_COMPLETED,
      STATE_REJECTED, STATE_RETRYABLE_ERROR, STATE_BROKER_OUTCOME_UNKNOWN, STATE_BROKER_RECONCILING,
      STATE_DRY_RUN, STATE_FLIP_PENDING, STATE_INTEGRITY_ERROR]"

definition RETRYABLE_STATES :: "string list" where
  "RETRYABLE_STATES = [STATE_PUBLISHED, STATE_RETRYABLE_ERROR]"

definition RECOVERY_REQUIRED_STATES :: "string list" where
  "RECOVERY_REQUIRED_STATES = [STATE_BROKER_OUTCOME_UNKNOWN, STATE_BROKER_RECONCILING]"

definition TERMINAL_STATES_ce :: "string list" where
  "TERMINAL_STATES_ce =
     [STATE_ORDERED, STATE_COMPLETED, STATE_REJECTED, STATE_DRY_RUN, STATE_FLIP_PENDING, STATE_INTEGRITY_ERROR]"

definition LEGACY_PLAIN_STATES :: "string list" where
  "LEGACY_PLAIN_STATES = [STATE_PUBLISHED, STATE_PROCESSING, ''dry_run'']"

definition RECORD_VERSION :: int where "RECORD_VERSION = 1"

section \<open>Records\<close>

record candidate_record =
  ce_candidate_id :: string
  ce_stream_event_id :: "string option"
  ce_state :: string
  ce_lease_token :: "string option"
  ce_lease_expires_at :: "int option"
  ce_outcome :: "string option"
  ce_updated_at :: int
  ce_version :: int
  ce_attempt :: int
  ce_last_error :: "string option"
  ce_is_legacy :: bool

definition legacy_status :: "candidate_record \<Rightarrow> string" where
  "legacy_status r = (case ce_outcome r of Some (c # x) \<Rightarrow> c # x | _ \<Rightarrow> ce_state r)"

definition is_terminal_ce :: "candidate_record \<Rightarrow> bool" where
  "is_terminal_ce r \<longleftrightarrow> ce_state r \<in> set TERMINAL_STATES_ce"

definition is_retryable :: "candidate_record \<Rightarrow> bool" where
  "is_retryable r \<longleftrightarrow> ce_state r \<in> set RETRYABLE_STATES"

definition requires_recovery :: "candidate_record \<Rightarrow> bool" where
  "requires_recovery r \<longleftrightarrow> ce_state r \<in> set RECOVERY_REQUIRED_STATES"

definition has_exact_identity :: "candidate_record \<Rightarrow> bool" where
  "has_exact_identity r \<longleftrightarrow> ce_candidate_id r \<noteq> [] \<and> ce_stream_event_id r \<notin> {None, Some []}"

definition coerce_optional_str :: "json \<Rightarrow> string option res" where
  "coerce_optional_str v =
     (if v = JNull then Inr None
      else res_bind (py_str v) (\<lambda>s. let text = str_strip s in Inr (if text = [] then None else Some text)))"

definition coerce_optional_int :: "json \<Rightarrow> int option res" where
  "coerce_optional_int v =
     (if v = JNull \<or> v = JStr [] then Inr None else res_bind (py_int v) (\<lambda>i. Inr (Some i)))"

definition legacy_record :: "string \<Rightarrow> string option \<Rightarrow> candidate_record" where
  "legacy_record state outcome =
     \<lparr>ce_candidate_id = [], ce_stream_event_id = None, ce_state = state, ce_lease_token = None,
      ce_lease_expires_at = None, ce_outcome = outcome, ce_updated_at = 0, ce_version = RECORD_VERSION,
      ce_attempt = 0, ce_last_error = None, ce_is_legacy = True\<rparr>"

text \<open>The structured branch: \<open>parsed[k]\<close> of a dict in which the four required keys exist.\<close>

definition required_keys :: "string list" where
  "required_keys = [''version'', ''candidate_id'', ''stream_event_id'', ''state'']"

fun identity_field :: "json \<Rightarrow> json res" where
  "identity_field JNull = Inr JNull"
| "identity_field (JStr s) = Inr (JStr s)"
| "identity_field _ = Inl ValueError"

text \<open>The record built once version, identity and state have been validated.\<close>

definition structured_fields :: "json \<Rightarrow> int \<Rightarrow> json \<Rightarrow> json \<Rightarrow> string \<Rightarrow> candidate_record res" where
  "structured_fields parsed version raw_candidate_id raw_stream_event_id state =
     res_bind (py_str (py_or raw_candidate_id (JStr []))) (\<lambda>candidate_id.
     res_bind (coerce_optional_str raw_stream_event_id) (\<lambda>stream_event_id.
     res_bind (res_bind (jget parsed ''lease_token'') coerce_optional_str) (\<lambda>lease_token.
     res_bind (res_bind (jget parsed ''lease_expires_at'') coerce_optional_int) (\<lambda>lease_expires_at.
     res_bind (res_bind (jget parsed ''outcome'') coerce_optional_str) (\<lambda>outcome.
     res_bind (res_bind (jget parsed ''updated_at'') (\<lambda>v. py_int (py_or v (JInt 0)))) (\<lambda>updated_at.
     res_bind (res_bind (jget parsed ''attempt'') (\<lambda>v. py_int (py_or v (JInt 0)))) (\<lambda>attempt.
     res_bind (res_bind (jget parsed ''last_error'') coerce_optional_str) (\<lambda>last_error.
     Inr \<lparr>ce_candidate_id = candidate_id, ce_stream_event_id = stream_event_id,
          ce_state = state, ce_lease_token = lease_token,
          ce_lease_expires_at = lease_expires_at, ce_outcome = outcome,
          ce_updated_at = updated_at, ce_version = version, ce_attempt = attempt,
          ce_last_error = last_error, ce_is_legacy = False\<rparr>))))))))"

fun version_field :: "json \<Rightarrow> int res" where
  "version_field (JInt version) = (if version \<noteq> RECORD_VERSION then Inl ValueError else Inr version)"
| "version_field _ = Inl ValueError"

fun state_field :: "json \<Rightarrow> string res" where
  "state_field (JStr state) =
     (if str_strip state = [] then Inl ValueError
      else if state \<notin> set EXECUTOR_COMPATIBLE_STATES then Inl ValueError else Inr state)"
| "state_field _ = Inl ValueError"

fun parse_structured :: "json \<Rightarrow> candidate_record res" where
  "parse_structured (JObj kv) =
     (if \<exists>k\<in>set required_keys. map_of kv k = None then Inl ValueError
      else
        res_bind (res_bind (jindex (JObj kv) ''version'') version_field) (\<lambda>version.
        res_bind (res_bind (jindex (JObj kv) ''candidate_id'') identity_field) (\<lambda>raw_candidate_id.
        res_bind (res_bind (jindex (JObj kv) ''stream_event_id'') identity_field) (\<lambda>raw_stream_event_id.
        res_bind (res_bind (jindex (JObj kv) ''state'') state_field) (\<lambda>state.
        structured_fields (JObj kv) version raw_candidate_id raw_stream_event_id state)))))"
| "parse_structured _ = Inl ValueError"

definition parse_candidate_execution_record :: "rtext option \<Rightarrow> candidate_record res" where
  "parse_candidate_execution_record raw =
     (case raw of
        None \<Rightarrow> Inl ValueError
      | Some (Doc j) \<Rightarrow> parse_structured j
      | Some (Txt text) \<Rightarrow>
          if text = [] then Inl ValueError
          else if text \<in> set LEGACY_PLAIN_STATES then Inr (legacy_record text None)
          else if CHR '':'' \<in> set text then
            (let (prefix, remainder) = str_partition (CHR '':'') text in
             if prefix \<in> {STATE_ORDERED, STATE_REJECTED} \<or> prefix = ''flip_pending'' then
               Inr (legacy_record
                 (if prefix = ''flip_pending'' then STATE_COMPLETED
                  else if prefix = STATE_ORDERED then STATE_ORDERED else STATE_REJECTED) (Some text))
             else if prefix \<in> set EXECUTOR_COMPATIBLE_STATES then
               Inr (legacy_record prefix (if remainder \<noteq> [] then Some text else None))
             else Inl ValueError)
          else Inl ValueError)"

text \<open>\<open>updated_at\<close> is the argument or else the clock.\<close>

definition serialize_candidate_execution_record ::
  "int \<Rightarrow> string \<Rightarrow> string option \<Rightarrow> string \<Rightarrow> string option \<Rightarrow> int option \<Rightarrow> string option \<Rightarrow>
   int option \<Rightarrow> int \<Rightarrow> int \<Rightarrow> string option \<Rightarrow> rtext" where
  "serialize_candidate_execution_record now candidate_id stream_event_id state lease_token lease_expires_at
     outcome updated_at version attempt last_error =
     Doc (JObj
       [(''attempt'', JInt attempt),
        (''candidate_id'', JStr candidate_id),
        (''last_error'', j_opt_str last_error),
        (''lease_expires_at'', j_opt_int lease_expires_at),
        (''lease_token'', j_opt_str lease_token),
        (''outcome'', j_opt_str outcome),
        (''state'', JStr state),
        (''stream_event_id'', j_opt_str stream_event_id),
        (''updated_at'', JInt (case updated_at of None \<Rightarrow> now | Some t \<Rightarrow> t)),
        (''version'', JInt version)])"

definition published_candidate_record :: "int \<Rightarrow> string \<Rightarrow> string \<Rightarrow> int option \<Rightarrow> rtext" where
  "published_candidate_record now candidate_id stream_event_id updated_at =
     serialize_candidate_execution_record now candidate_id (Some stream_event_id) STATE_PUBLISHED None None
       None updated_at RECORD_VERSION 0 None"

section \<open>Conclusions drawn from a record\<close>

definition outcome_decided :: "candidate_record \<Rightarrow> bool" where
  "outcome_decided r \<longleftrightarrow>
     (case ce_outcome r of None \<Rightarrow> False
      | Some x \<Rightarrow> str_startswith x ''ordered:'' \<or> str_startswith x ''rejected:'' \<or> str_startswith x ''flip_pending:'')"

definition candidate_record_compatible :: "candidate_record \<Rightarrow> string \<Rightarrow> string \<Rightarrow> bool" where
  "candidate_record_compatible r candidate_id stream_event_id =
     (if ce_is_legacy r then
        (if ce_state r \<in> set LEGACY_PLAIN_STATES then True
         else if outcome_decided r then True
         else ce_state r \<in> set EXECUTOR_COMPATIBLE_STATES)
      else if ce_version r < 1 \<or> ce_version r > RECORD_VERSION then False
      else if ce_candidate_id r = [] \<or> ce_stream_event_id r \<in> {None, Some []} then False
      else if ce_candidate_id r \<noteq> candidate_id then False
      else if ce_stream_event_id r \<noteq> Some ''pending'' \<and> ce_stream_event_id r \<noteq> Some stream_event_id then False
      else if outcome_decided r then True
      else ce_state r \<in> set EXECUTOR_COMPATIBLE_STATES)"

definition candidate_record_is_progressed :: "candidate_record \<Rightarrow> bool" where
  "candidate_record_is_progressed r =
     (if ce_state r \<noteq> STATE_PUBLISHED \<and> ce_state r \<in> set EXECUTOR_COMPATIBLE_STATES
      then ce_state r \<noteq> STATE_PUBLISHED
      else if ce_outcome r \<notin> {None, Some []} then True
      else ce_state r \<in> {STATE_PROCESSING, ''dry_run''})"

section \<open>Lemmas\<close>

text \<open>Fields the parser returns as they were written.\<close>

definition trimmed :: "string option \<Rightarrow> bool" where
  "trimmed x \<longleftrightarrow> (case x of None \<Rightarrow> True | Some s \<Rightarrow> s \<noteq> [] \<and> str_strip s = s)"

definition record_wf :: "candidate_record \<Rightarrow> bool" where
  "record_wf r \<longleftrightarrow> \<not> ce_is_legacy r \<and> ce_version r = RECORD_VERSION \<and>
     ce_state r \<in> set EXECUTOR_COMPATIBLE_STATES \<and>
     trimmed (ce_stream_event_id r) \<and> trimmed (ce_lease_token r) \<and> trimmed (ce_outcome r) \<and> trimmed (ce_last_error r)"

lemma coerce_trimmed [simp]: "trimmed x \<Longrightarrow> coerce_optional_str (j_opt_str x) = Inr x"
  by (cases x) (simp_all add: coerce_optional_str_def trimmed_def j_opt_str_def)

lemma coerce_str_nonempty: "coerce_optional_str v = Inr (Some s) \<Longrightarrow> s \<noteq> []"
  by (auto simp: coerce_optional_str_def res_bind_Inr_iff Let_def split: if_splits)

lemma coerce_int_opt [simp]: "coerce_optional_int (j_opt_int x) = Inr x"
  by (cases x) (simp_all add: coerce_optional_int_def j_opt_int_def)

lemma opt_str_json: "identity_field (j_opt_str x) = Inr (j_opt_str x)"
  by (cases x) (simp_all add: j_opt_str_def)

lemma compatible_state_text: "st \<in> set EXECUTOR_COMPATIBLE_STATES \<Longrightarrow> str_strip st \<noteq> []"
proof -
  have "list_all (\<lambda>st. str_strip st \<noteq> []) EXECUTOR_COMPATIBLE_STATES" by code_simp
  then show "st \<in> set EXECUTOR_COMPATIBLE_STATES \<Longrightarrow> str_strip st \<noteq> []" by (simp add: list_all_iff)
qed

lemma version_field_Inr: "version_field v = Inr n \<Longrightarrow> n = RECORD_VERSION"
  by (cases v) (auto split: if_splits)

lemma state_field_Inr: "state_field v = Inr st \<Longrightarrow> st \<in> set EXECUTOR_COMPATIBLE_STATES"
  by (cases v) (auto split: if_splits)

lemma structured_fields_facts:
  assumes "structured_fields j v rc rs st = Inr r"
  shows "\<not> ce_is_legacy r" "ce_version r = v" "ce_state r = st" "ce_stream_event_id r \<noteq> Some []"
    "ce_outcome r \<noteq> Some []"
  using assms by (auto simp: structured_fields_def res_bind_Inr_iff dest: coerce_str_nonempty)

lemma parse_structured_facts:
  assumes "parse_structured j = Inr r"
  shows "\<not> ce_is_legacy r" "ce_version r = RECORD_VERSION" "ce_state r \<in> set EXECUTOR_COMPATIBLE_STATES"
    "ce_stream_event_id r \<noteq> Some []" "ce_outcome r \<noteq> Some []"
proof -
  obtain v rc rs st where f: "structured_fields j v rc rs st = Inr r" "v = RECORD_VERSION"
    "st \<in> set EXECUTOR_COMPATIBLE_STATES"
    using assms by (cases j) (auto simp: res_bind_Inr_iff dest!: version_field_Inr state_field_Inr split: if_splits)
  from structured_fields_facts[OF f(1)] f(2,3) show "\<not> ce_is_legacy r" "ce_version r = RECORD_VERSION"
    "ce_state r \<in> set EXECUTOR_COMPATIBLE_STATES" "ce_stream_event_id r \<noteq> Some []" "ce_outcome r \<noteq> Some []"
    by simp_all
qed

lemma legacy_states_compatible:
  "st \<in> set LEGACY_PLAIN_STATES \<Longrightarrow> st \<in> set EXECUTOR_COMPATIBLE_STATES"
  "STATE_COMPLETED \<in> set EXECUTOR_COMPATIBLE_STATES" "STATE_ORDERED \<in> set EXECUTOR_COMPATIBLE_STATES"
  "STATE_REJECTED \<in> set EXECUTOR_COMPATIBLE_STATES"
  by (auto simp: LEGACY_PLAIN_STATES_def EXECUTOR_COMPATIBLE_STATES_def STATE_DRY_RUN_def)

lemma legacy_record_simps [simp]:
  "ce_is_legacy (legacy_record st x)" "ce_state (legacy_record st x) = st" "ce_outcome (legacy_record st x) = x"
  by (simp_all add: legacy_record_def)

lemma parse_text_facts:
  assumes "parse_candidate_execution_record (Some (Txt t)) = Inr r"
  shows "ce_is_legacy r \<and> ce_state r \<in> set EXECUTOR_COMPATIBLE_STATES \<and> ce_outcome r \<in> {None, Some t} \<and> t \<noteq> []"
proof -
  obtain p q where pq: "str_partition (CHR '':'') t = (p, q)" by (meson surj_pair)
  from assms show ?thesis
    unfolding parse_candidate_execution_record_def option.case rtext.case pq Let_def prod.case
    by (auto simp: legacy_states_compatible simp del: str_partition.simps split: if_split_asm)
qed

section \<open>Properties\<close>

text \<open>Round trip: what \<open>serialize_candidate_execution_record\<close> writes for a structured record in
  a known state, its texts trimmed, parses to that record.\<close>

theorem candidate_roundtrip:
  assumes "record_wf r"
  shows "parse_candidate_execution_record (Some (serialize_candidate_execution_record now (ce_candidate_id r)
     (ce_stream_event_id r) (ce_state r) (ce_lease_token r) (ce_lease_expires_at r) (ce_outcome r)
     (Some (ce_updated_at r)) (ce_version r) (ce_attempt r) (ce_last_error r))) = Inr r"
proof -
  have st: "state_field (JStr (ce_state r)) = Inr (ce_state r)"
    using assms compatible_state_text by (simp add: record_wf_def)
  have or: "py_str (py_or (JStr x) (JStr [])) = Inr x" "py_int (py_or (JInt i) (JInt 0)) = Inr i" for x i
    by (simp_all add: py_or_def)
  show ?thesis
    using assms st
    by (simp add: parse_candidate_execution_record_def serialize_candidate_execution_record_def required_keys_def
        structured_fields_def opt_str_json record_wf_def or del: state_field.simps)
qed

definition demo_record :: candidate_record where
  "demo_record = \<lparr>ce_candidate_id = ''v8:s1'', ce_stream_event_id = Some ''1-0'', ce_state = STATE_PROCESSING,
     ce_lease_token = Some ''w1'', ce_lease_expires_at = Some 60, ce_outcome = None, ce_updated_at = 30,
     ce_version = RECORD_VERSION, ce_attempt = 1, ce_last_error = None, ce_is_legacy = False\<rparr>"

lemma candidate_roundtrip_demo:
  "parse_candidate_execution_record (Some (Doc (JObj [(''version'', JInt 1), (''candidate_id'', JStr ''v8:s1''),
     (''stream_event_id'', JStr ''1-0''), (''state'', JStr ''processing''), (''lease_token'', JStr ''w1''),
     (''lease_expires_at'', JInt 60), (''updated_at'', JInt 30), (''attempt'', JInt 1)]))) = Inr demo_record"
  by code_simp

lemma candidate_roundtrip_witness:
  "parse_candidate_execution_record (Some (serialize_candidate_execution_record 99 ''v8:s1'' (Some ''1-0'')
     STATE_PROCESSING (Some ''w1'') (Some 60) None (Some 30) RECORD_VERSION 1 None)) = Inr demo_record"
proof -
  have "record_wf demo_record" by code_simp
  from candidate_roundtrip[OF this, of 99] show ?thesis by (simp add: demo_record_def)
qed

lemma state_classes:
  "\<forall>st\<in>set EXECUTOR_COMPATIBLE_STATES.
     length (filter (\<lambda>C. st \<in> set C) [RETRYABLE_STATES, RECOVERY_REQUIRED_STATES, TERMINAL_STATES_ce,
       [STATE_PROCESSING, STATE_BROKER_SUBMITTING]]) = 1"
proof -
  have "list_all (\<lambda>st. length (filter (\<lambda>C. st \<in> set C) [RETRYABLE_STATES, RECOVERY_REQUIRED_STATES,
      TERMINAL_STATES_ce, [STATE_PROCESSING, STATE_BROKER_SUBMITTING]]) = 1) EXECUTOR_COMPATIBLE_STATES"
    by code_simp
  then show ?thesis by (simp only: list_all_iff)
qed

lemma parsed_state:
  assumes "parse_candidate_execution_record (Some raw) = Inr r"
  shows "ce_state r \<in> set EXECUTOR_COMPATIBLE_STATES"
proof (cases raw)
  case (Txt t)
  with parse_text_facts[of t r] assms show ?thesis by simp
next
  case (Doc j)
  with assms have "parse_structured j = Inr r" by (simp add: parse_candidate_execution_record_def)
  from parse_structured_facts(3)[OF this] show ?thesis .
qed

text \<open>What a stored record lets a worker conclude: a structured record is compatible with exactly
  the candidate id it names and the stream event it names (or its \<open>pending\<close> placeholder), while every
  legacy marker that parses is compatible with any identity; a record counts as progressed unless it is
  in state \<open>published\<close> without an outcome; its state is in exactly one of the classes retryable,
  recovery required, terminal, and in flight (\<open>processing\<close>, \<open>broker_submitting\<close>).\<close>

theorem parsed_record_conclusions:
  assumes "parse_candidate_execution_record (Some raw) = Inr r"
  shows "(candidate_record_compatible r cid sid \<longleftrightarrow>
      (\<exists>t. raw = Txt t) \<or>
      (ce_candidate_id r = cid \<and> cid \<noteq> [] \<and> ce_stream_event_id r \<in> {Some ''pending'', Some sid})) \<and>
    (candidate_record_is_progressed r \<longleftrightarrow> ce_state r \<noteq> STATE_PUBLISHED \<or> ce_outcome r \<noteq> None) \<and>
    length (filter (\<lambda>C. ce_state r \<in> set C) [RETRYABLE_STATES, RECOVERY_REQUIRED_STATES, TERMINAL_STATES_ce,
       [STATE_PROCESSING, STATE_BROKER_SUBMITTING]]) = 1"
proof -
  note st = parsed_state[OF assms]
  have "candidate_record_compatible r cid sid \<longleftrightarrow> (\<exists>t. raw = Txt t) \<or>
      (ce_candidate_id r = cid \<and> cid \<noteq> [] \<and> ce_stream_event_id r \<in> {Some ''pending'', Some sid})"
  proof (cases raw)
    case (Txt t)
    with parse_text_facts[of t r] assms show ?thesis by (simp add: candidate_record_compatible_def)
  next
    case (Doc j)
    with assms have "parse_structured j = Inr r" by (simp add: parse_candidate_execution_record_def)
    note f = parse_structured_facts[OF this]
    have "RECORD_VERSION = 1" by (simp add: RECORD_VERSION_def)
    with f Doc st show ?thesis by (auto simp: candidate_record_compatible_def)
  qed
  moreover have "candidate_record_is_progressed r \<longleftrightarrow> ce_state r \<noteq> STATE_PUBLISHED \<or> ce_outcome r \<noteq> None"
  proof -
    have "ce_outcome r \<noteq> Some []"
    proof (cases raw)
      case (Txt t)
      with parse_text_facts[of t r] assms show ?thesis by auto
    next
      case (Doc j)
      with assms have "parse_structured j = Inr r" by (simp add: parse_candidate_execution_record_def)
      from parse_structured_facts(5)[OF this] show ?thesis .
    qed
    moreover have "STATE_PUBLISHED \<notin> {STATE_PROCESSING, ''dry_run''}" by (simp add: candidate_states)
    ultimately show ?thesis using st by (auto simp: candidate_record_is_progressed_def)
  qed
  ultimately show ?thesis using state_classes st by blast
qed

lemma parsed_record_conclusions_witness:
  "candidate_record_compatible (legacy_record STATE_REJECTED (Some ''rejected:spread'')) ''any'' ''9-9'' \<and>
   \<not> candidate_record_compatible demo_record ''v8:s1'' ''2-0''"
proof -
  have p: "parse_candidate_execution_record (Some (Txt ''rejected:spread'')) =
      Inr (legacy_record STATE_REJECTED (Some ''rejected:spread''))" by code_simp
  have q: "\<exists>j. parse_candidate_execution_record (Some (Doc j)) = Inr demo_record"
    using candidate_roundtrip_demo by blast
  show ?thesis
    using parsed_record_conclusions[OF p, of "''any''" "''9-9''"] q parsed_record_conclusions
    by (auto simp: demo_record_def)
qed

end
