(* ===== verification/Arbitration.thy ===== *)
theory Arbitration
  imports PyPrelude "HOL-Library.Product_Lexorder" "HOL-Library.Multiset"
begin

text \<open>
  Arbitration between the execution intents of one cycle (\<open>app/autotrade/arbitration.py\<close>).
  \<open>sorted(key=...)\<close> is the stable \<open>sort_key\<close>, tuples compare lexicographically and strings by code
  point.
\<close>

section \<open>Publication results\<close>

record publication_result =
  pr_candidate_id :: "string option"
  pr_status :: string
  pr_terminal :: bool
  pr_blocks_lower_ranked_intents :: bool
  pr_reason_code :: "string option"

definition pub_published :: "string \<Rightarrow> publication_result" where
  "pub_published candidate_id =
     \<lparr>pr_candidate_id = Some candidate_id, pr_status = ''published'', pr_terminal = False,
      pr_blocks_lower_ranked_intents = True, pr_reason_code = Some ''candidate_published''\<rparr>"

definition pub_terminal_reject :: "string \<Rightarrow> publication_result" where
  "pub_terminal_reject reason_code =
     \<lparr>pr_candidate_id = None, pr_status = ''terminal_reject'', pr_terminal = True,
      pr_blocks_lower_ranked_intents = False, pr_reason_code = Some reason_code\<rparr>"

definition pub_blocked :: "string \<Rightarrow> string option \<Rightarrow> publication_result" where
  "pub_blocked status reason_code =
     \<lparr>pr_candidate_id = None, pr_status = status, pr_terminal = False,
      pr_blocks_lower_ranked_intents = True,
      pr_reason_code = Some (case reason_code of Some (c # r) \<Rightarrow> c # r | _ \<Rightarrow> status)\<rparr>"

section \<open>Intents\<close>

record execution_intent =
  ei_intent_id :: string
  ei_source :: string
  ei_strategy :: string
  ei_direction :: string
  ei_confluence :: int
  ei_tier :: string
  ei_freshness :: rat
  ei_distance_pips :: rat
  ei_symbol :: string
  ei_timeframe :: string
  ei_family :: string
  ei_entry_low :: rat
  ei_entry_high :: rat
  ei_structural_id :: string
  ei_match_id :: "string option"
  ei_reaction_id :: "string option"
  ei_thesis_id :: "string option"
  ei_current_price :: "rat option"
  ei_target_model :: string
  ei_targets_pips :: "int list"
  ei_absolute_target_price :: "rat option"
  ei_target_reference_price :: string
  ei_proposed_group_id :: "string option"
  ei_is_initial :: bool
  ei_cycle_id :: "string option"

record arbitration_result =
  ar_ordered :: "execution_intent list"
  ar_suppressed :: "execution_intent list"
  ar_reason_code :: string

definition SOURCE_PRIORITY :: "string \<rightharpoonup> int" where
  "SOURCE_PRIORITY = map_of
     [(''scanner_strategy_match'', 0), (''market_map_strategy'', 1), (''private_trend'', 2), (''private_range'', 3)]"

type_synonym intent_rank = "int \<times> int \<times> rat \<times> rat \<times> int \<times> string"

definition rank_intent :: "execution_intent \<Rightarrow> intent_rank" where
  "rank_intent intent =
     (if str_upper (ei_tier intent) = ''A'' then 0 else 1,
      - ei_confluence intent,
      - ei_freshness intent,
      ei_distance_pips intent,
      (case SOURCE_PRIORITY (ei_source intent) of Some p \<Rightarrow> p | None \<Rightarrow> 9),
      ei_intent_id intent)"

definition arbitrate_execution_intents :: "execution_intent list \<Rightarrow> rat \<Rightarrow> arbitration_result" where
  "arbitrate_execution_intents intents conflict_margin =
     (if intents = [] then \<lparr>ar_ordered = [], ar_suppressed = [], ar_reason_code = ''no_intent''\<rparr>
      else
        (let ordered = sort_key rank_intent intents;
             leader = List.hd ordered;
             opposing = filter (\<lambda>x. ei_direction x \<noteq> ei_direction leader) ordered;
             conflict =
               (opposing \<noteq> [] \<and>
                (let strongest = List.hd opposing;
                     same_tier = (str_upper (ei_tier strongest) = str_upper (ei_tier leader))
                 in \<not> (\<not> same_tier \<or>
                       of_int (ei_confluence leader - ei_confluence strongest) \<ge> max 1 conflict_margin)))
         in if conflict
            then \<lparr>ar_ordered = [], ar_suppressed = ordered, ar_reason_code = ''opposite_direction_conflict''\<rparr>
            else \<lparr>ar_ordered = filter (\<lambda>x. ei_direction x = ei_direction leader) ordered,
                  ar_suppressed = filter (\<lambda>x. ei_direction x \<noteq> ei_direction leader) ordered,
                  ar_reason_code = ''ranked_single_direction''\<rparr>))"

section \<open>Lemmas\<close>

lemma rank_inject: "rank_intent a = rank_intent b \<Longrightarrow> ei_intent_id a = ei_intent_id b"
  by (simp add: rank_intent_def)

lemma hd_sort_least:
  assumes "xs \<noteq> []" "x \<in> set xs"
  shows "List.hd (sort_key f xs) \<in> set xs" "f (List.hd (sort_key f xs)) \<le> f x"
proof -
  have ne: "sort_key f xs \<noteq> []" using assms(1) by (metis length_0_conv length_sort)
  then show "List.hd (sort_key f xs) \<in> set xs" by (metis list.set_sel(1) set_sort)
  obtain y ys where y: "sort_key f xs = y # ys" using ne by (cases "sort_key f xs") auto
  have "sorted (map f (y # ys))" using sorted_sort_key[of f xs] y by simp
  moreover have "x \<in> set (y # ys)" using assms(2) y by (metis set_sort)
  ultimately show "f (List.hd (sort_key f xs)) \<le> f x" using y by auto
qed

text \<open>Sorting by a key that distinguishes the elements does not depend on their order.\<close>

lemma sort_key_perm:
  assumes "mset xs = mset ys" "distinct (map f xs)"
  shows "sort_key f xs = sort_key f ys"
proof (rule map_sorted_distinct_set_unique[of f])
  have d: "distinct (map f ys)" using assms by (metis mset_eq_imp_distinct_iff mset_map)
  have s: "set xs = set ys" using assms(1) by (metis set_mset_mset)
  show "inj_on f (set (sort_key f xs) \<union> set (sort_key f ys))"
    using assms(2) s by (simp add: distinct_map)
  show "sorted (map f (sort_key f xs))" "sorted (map f (sort_key f ys))" by simp_all
  show "distinct (map f (sort_key f xs))" "distinct (map f (sort_key f ys))"
    using assms(2) d by (simp_all add: distinct_map)
  show "set (sort_key f xs) = set (sort_key f ys)" using s by simp
qed

definition best_of :: "(execution_intent \<Rightarrow> bool) \<Rightarrow> execution_intent list \<Rightarrow> execution_intent \<Rightarrow> bool" where
  "best_of P xs x \<longleftrightarrow> x \<in> set xs \<and> P x \<and> (\<forall>y\<in>set xs. P y \<longrightarrow> rank_intent x \<le> rank_intent y)"

lemma best_of_filter:
  assumes "filter P (sort_key rank_intent xs) \<noteq> []"
  shows "best_of P xs (List.hd (filter P (sort_key rank_intent xs)))"
proof -
  have eq: "filter P (sort_key rank_intent xs) = sort_key rank_intent (filter P xs)" by (simp add: filter_sort)
  with assms have ne: "filter P xs \<noteq> []" by auto
  show ?thesis
    unfolding best_of_def eq
    using hd_sort_least[OF ne, of _ rank_intent] ne by (auto simp: filter_empty_conv)
qed

definition opposes :: "execution_intent \<Rightarrow> execution_intent \<Rightarrow> bool" where
  "opposes leader x \<longleftrightarrow> ei_direction x \<noteq> ei_direction leader"

definition decisive :: "rat \<Rightarrow> execution_intent \<Rightarrow> execution_intent \<Rightarrow> bool" where
  "decisive margin leader x \<longleftrightarrow> str_upper (ei_tier x) \<noteq> str_upper (ei_tier leader) \<or>
     of_int (ei_confluence leader - ei_confluence x) \<ge> max 1 margin"

lemma arbitrate_unfold:
  assumes "intents \<noteq> []" "leader = List.hd (sort_key rank_intent intents)"
    "opposing = filter (opposes leader) (sort_key rank_intent intents)"
  shows "arbitrate_execution_intents intents margin =
     (if opposing \<noteq> [] \<and> \<not> decisive margin leader (List.hd opposing)
      then \<lparr>ar_ordered = [], ar_suppressed = sort_key rank_intent intents, ar_reason_code = ''opposite_direction_conflict''\<rparr>
      else \<lparr>ar_ordered = filter (\<lambda>x. \<not> opposes leader x) (sort_key rank_intent intents),
            ar_suppressed = opposing, ar_reason_code = ''ranked_single_direction''\<rparr>)"
  using assms(1) by (simp add: arbitrate_execution_intents_def assms(2,3) opposes_def[abs_def] decisive_def Let_def)

section \<open>Properties\<close>

text \<open>The outcome of arbitration is a split of the intents: nothing is lost or invented, both
  sides are ranked, and a best-ranked intent decides. The executable side is every intent in its
  direction, led by it, unless a best-ranked opposing intent has its tier and trails by less than the
  margin (at least one point): then nothing is executable.\<close>

theorem arbitration_splits:
  assumes "intents \<noteq> []" "r = arbitrate_execution_intents intents margin"
  shows "mset (ar_ordered r) + mset (ar_suppressed r) = mset intents \<and>
     sorted (map rank_intent (ar_ordered r)) \<and> sorted (map rank_intent (ar_suppressed r)) \<and>
     (\<exists>leader. best_of (\<lambda>x. True) intents leader \<and>
        ((ar_reason_code r = ''ranked_single_direction'' \<and> List.hd (ar_ordered r) = leader \<and>
          set (ar_ordered r) = {x \<in> set intents. ei_direction x = ei_direction leader} \<and>
          ((\<forall>x\<in>set intents. \<not> opposes leader x) \<or>
           (\<exists>x. best_of (opposes leader) intents x \<and> decisive margin leader x))) \<or>
         (ar_reason_code r = ''opposite_direction_conflict'' \<and> ar_ordered r = [] \<and>
          (\<exists>x. best_of (opposes leader) intents x \<and> \<not> decisive margin leader x))))"
proof -
  define ordered where "ordered = sort_key rank_intent intents"
  define leader where "leader = List.hd ordered"
  define opposing where "opposing = filter (opposes leader) ordered"
  note r = arbitrate_unfold[OF assms(1) leader_def[unfolded ordered_def] opposing_def[unfolded ordered_def],
      of margin, folded ordered_def assms(2)]
  have srt: "sorted (map rank_intent ordered)" by (simp add: ordered_def)
  have ms: "mset ordered = mset intents" "set ordered = set intents" by (simp_all add: ordered_def)
  have ne: "ordered \<noteq> []" using assms(1) ms(1) by auto
  have best: "best_of (\<lambda>x. True) intents leader"
    using best_of_filter[of "\<lambda>x. True" intents] ne by (simp add: leader_def ordered_def)
  have "mset (ar_ordered r) + mset (ar_suppressed r) = mset intents"
    using ms(1) by (simp add: r opposing_def add.commute)
  moreover have "sorted (map rank_intent (ar_ordered r)) \<and> sorted (map rank_intent (ar_suppressed r))"
    using srt by (simp add: r opposing_def sorted_filter)
  moreover have "(ar_reason_code r = ''ranked_single_direction'' \<and> List.hd (ar_ordered r) = leader \<and>
          set (ar_ordered r) = {x \<in> set intents. ei_direction x = ei_direction leader} \<and>
          ((\<forall>x\<in>set intents. \<not> opposes leader x) \<or>
           (\<exists>x. best_of (opposes leader) intents x \<and> decisive margin leader x))) \<or>
         (ar_reason_code r = ''opposite_direction_conflict'' \<and> ar_ordered r = [] \<and>
          (\<exists>x. best_of (opposes leader) intents x \<and> \<not> decisive margin leader x))"
  proof (cases "opposing \<noteq> [] \<and> \<not> decisive margin leader (List.hd opposing)")
    case True
    then have "best_of (opposes leader) intents (List.hd opposing)"
      unfolding opposing_def ordered_def by (intro best_of_filter) simp
    with True show ?thesis by (auto simp: r)
  next
    case False
    have h: "List.hd (filter (\<lambda>x. \<not> opposes leader x) ordered) = leader"
      using ne by (cases ordered) (simp_all add: leader_def opposes_def)
    have "(\<forall>x\<in>set intents. \<not> opposes leader x) \<or> (\<exists>x. best_of (opposes leader) intents x \<and> decisive margin leader x)"
    proof (cases "opposing = []")
      case True
      then show ?thesis using ms(2) by (auto simp: opposing_def filter_empty_conv)
    next
      case ne: False
      then have "best_of (opposes leader) intents (List.hd opposing)"
        unfolding opposing_def ordered_def by (intro best_of_filter) simp
      with False ne show ?thesis by blast
    qed
    with False h show ?thesis using ms(2) by (auto simp: r opposes_def)
  qed
  ultimately show ?thesis using best by blast
qed

definition demo_intent :: "string \<Rightarrow> string \<Rightarrow> int \<Rightarrow> execution_intent" where
  "demo_intent i d c = \<lparr>ei_intent_id = i, ei_source = ''private_trend'', ei_strategy = ''Momentum Ride'',
     ei_direction = d, ei_confluence = c, ei_tier = ''a'', ei_freshness = 1, ei_distance_pips = 0,
     ei_symbol = ''XAU'', ei_timeframe = ''M1'', ei_family = [], ei_entry_low = 0, ei_entry_high = 0,
     ei_structural_id = [], ei_match_id = None, ei_reaction_id = None, ei_thesis_id = None,
     ei_current_price = None, ei_target_model = ''fill_relative'', ei_targets_pips = [],
     ei_absolute_target_price = None, ei_target_reference_price = ''broker_fill'',
     ei_proposed_group_id = None, ei_is_initial = True, ei_cycle_id = None\<rparr>"

lemma arbitration_splits_witness:
  "(let r = arbitrate_execution_intents [demo_intent ''s'' ''SELL'' 4, demo_intent ''b'' ''BUY'' 5] 2
    in mset (ar_suppressed r) = mset [demo_intent ''s'' ''SELL'' 4, demo_intent ''b'' ''BUY'' 5] \<and>
       ar_reason_code r = ''opposite_direction_conflict'')"
proof -
  let ?xs = "[demo_intent ''s'' ''SELL'' 4, demo_intent ''b'' ''BUY'' 5]"
  define r where "r = arbitrate_execution_intents ?xs 2"
  have c: "ar_reason_code r = ''opposite_direction_conflict''" unfolding r_def by code_simp
  have "''opposite_direction_conflict'' \<noteq> ''ranked_single_direction''" by simp
  with arbitration_splits[of ?xs r 2, OF _ r_def] c
  have "ar_ordered r = []" "mset (ar_ordered r) + mset (ar_suppressed r) = mset ?xs" by (auto simp only: list.simps)
  with c show ?thesis by (simp add: r_def[symmetric] Let_def)
qed

text \<open>With distinct intent ids arbitration does not depend on the order in which the engines
  hand in their intents.\<close>

theorem arbitration_order_independent:
  assumes "mset xs = mset ys" "distinct (map ei_intent_id xs)"
  shows "arbitrate_execution_intents xs margin = arbitrate_execution_intents ys margin"
proof -
  have "distinct (map rank_intent xs)"
    unfolding distinct_map
  proof
    show "distinct xs" using assms(2) by (simp only: distinct_map)
    have "inj_on ei_intent_id (set xs)" using assms(2) by (simp only: distinct_map)
    then show "inj_on rank_intent (set xs)"
      by (intro inj_onI) (drule rank_inject, erule (3) inj_onD)
  qed
  from sort_key_perm[OF assms(1) this] have "sort_key rank_intent xs = sort_key rank_intent ys" .
  moreover have "xs = [] \<longleftrightarrow> ys = []" using assms(1) by (metis mset_zero_iff)
  ultimately show ?thesis by (simp add: arbitrate_execution_intents_def)
qed

lemma arbitration_order_independent_witness:
  "arbitrate_execution_intents [demo_intent ''s'' ''SELL'' 2, demo_intent ''b'' ''BUY'' 5] 1 =
   arbitrate_execution_intents [demo_intent ''b'' ''BUY'' 5, demo_intent ''s'' ''SELL'' 2] 1"
  by (rule arbitration_order_independent) (simp_all add: demo_intent_def)

end
