(* ===== verification/RouteOutcome.thy ===== *)
theory RouteOutcome
  imports LifecycleEvents
begin

text \<open>
  The execution-route outcome of a strategy match (\<open>app/autotrade/route_outcome.py\<close>). A match is the
  list of its attributes; a dictionary is the list of its items in insertion order. The text of a
  stored outcome that is JSON but not an object makes \<open>previous.get\<close> raise \<open>AttributeError\<close>.
\<close>

section \<open>Python values\<close>

text \<open>
  \<open>a == b\<close> on decoded documents: numbers compare by value whatever their type, dictionaries without
  regard to order.
\<close>

fun py_norm :: "json \<Rightarrow> json" where
  "py_norm (JBool b) = JFloat (if b then 1 else 0)"
| "py_norm (JInt i) = JFloat (of_int i)"
| "py_norm (JList xs) = JList (map py_norm xs)"
| "py_norm (JObj kv) = JObj (sort_key fst (map (\<lambda>p. (fst p, py_norm (snd p))) kv))"
| "py_norm v = v"

definition py_eq :: "json \<Rightarrow> json \<Rightarrow> bool" where
  "py_eq a b \<longleftrightarrow> py_norm a = py_norm b"

text \<open>\<open>float(v)\<close> when \<open>isinstance(v, (int, float))\<close>; a bool is an int.\<close>

fun number_of :: "json \<Rightarrow> rat option" where
  "number_of (JBool b) = Some (if b then 1 else 0)"
| "number_of (JInt i) = Some (of_int i)"
| "number_of (JFloat q) = Some q"
| "number_of _ = None"

definition attr :: "(string \<times> json) list \<Rightarrow> string \<Rightarrow> json \<Rightarrow> json" where
  "attr m k d = (case map_of m k of None \<Rightarrow> d | Some v \<Rightarrow> v)"

definition setdefault :: "string \<Rightarrow> json \<Rightarrow> (string \<times> json) list \<Rightarrow> (string \<times> json) list" where
  "setdefault k v d = (if map_of d k = None then d @ [(k, v)] else d)"

definition truthy_text :: "rtext option \<Rightarrow> bool" where
  "truthy_text raw \<longleftrightarrow> raw \<notin> {None, Some (Txt [])}"

section \<open>Outcomes\<close>

record route_outcome =
  ro_version :: int
  ro_symbol :: string
  ro_match_id :: string
  ro_strategy :: string
  ro_strategy_family :: string
  ro_direction :: string
  ro_structural_source :: string
  ro_structural_id :: string
  ro_stage :: string
  ro_status :: string
  ro_reason_code :: string
  ro_message :: string
  ro_measured :: "(string \<times> json) list"
  ro_detected_at :: int
  ro_checked_at :: int
  ro_expires_at :: int
  ro_candidate_id :: json
  ro_group_id :: json
  ro_executor_event_id :: json
  ro_preflight_reason_code :: json
  ro_arbitration_reason_code :: json
  ro_publication_reason_code :: json
  ro_terminal_reason_code :: json
  ro_current_stage :: string
  ro_retained :: "bool option"
  ro_winner_intent_id :: json
  ro_signal_source :: json

definition route_asdict :: "route_outcome \<Rightarrow> (string \<times> json) list" where
  "route_asdict o1 =
     [(''version'', JInt (ro_version o1)),
      (''symbol'', JStr (ro_symbol o1)),
      (''match_id'', JStr (ro_match_id o1)),
      (''strategy'', JStr (ro_strategy o1)),
      (''strategy_family'', JStr (ro_strategy_family o1)),
      (''direction'', JStr (ro_direction o1)),
      (''structural_source'', JStr (ro_structural_source o1)),
      (''structural_id'', JStr (ro_structural_id o1)),
      (''stage'', JStr (ro_stage o1)),
      (''status'', JStr (ro_status o1)),
      (''reason_code'', JStr (ro_reason_code o1)),
      (''message'', JStr (ro_message o1)),
      (''measured'', JObj (ro_measured o1)),
      (''detected_at'', JInt (ro_detected_at o1)),
      (''checked_at'', JInt (ro_checked_at o1)),
      (''expires_at'', JInt (ro_expires_at o1)),
      (''candidate_id'', ro_candidate_id o1),
      (''group_id'', ro_group_id o1),
      (''executor_event_id'', ro_executor_event_id o1),
      (''preflight_reason_code'', ro_preflight_reason_code o1),
      (''arbitration_reason_code'', ro_arbitration_reason_code o1),
      (''publication_reason_code'', ro_publication_reason_code o1),
      (''terminal_reason_code'', ro_terminal_reason_code o1),
      (''current_stage'', JStr (ro_current_stage o1)),
      (''retained'', case ro_retained o1 of None \<Rightarrow> JNull | Some b \<Rightarrow> JBool b),
      (''winner_intent_id'', ro_winner_intent_id o1),
      (''signal_source'', ro_signal_source o1)]"

definition route_to_json :: "route_outcome \<Rightarrow> rtext" where
  "route_to_json o1 = Doc (JObj (route_asdict o1))"

definition route_outcome_key :: "string \<Rightarrow> string \<Rightarrow> string" where
  "route_outcome_key symbol match_id = ''auto_trade:route_outcome:'' @ str_upper symbol @ '':'' @ match_id"

definition last_route_outcome_key :: "string \<Rightarrow> string" where
  "last_route_outcome_key symbol = ''auto_trade:last_route_outcome:'' @ str_upper symbol"

definition route_history_key :: "string \<Rightarrow> string" where
  "route_history_key symbol = ''auto_trade:route_history:'' @ str_upper symbol"

definition ready_last_key :: "string \<Rightarrow> string" where
  "ready_last_key setup_id = ''auto_trade:strategy_match_ready:last:'' @ setup_id"

definition route_metric_key :: "string \<Rightarrow> string \<Rightarrow> string \<Rightarrow> string" where
  "route_metric_key symbol match_id status =
     ''auto_trade:route_metric:'' @ symbol @ '':'' @ match_id @ '':'' @ status"

definition material_threshold :: "string \<Rightarrow> rat" where
  "material_threshold key =
     (if str_contains key ''pips'' \<or> str_contains key ''room'' \<or> str_contains key ''distance'' then 1
      else if str_contains key ''price'' then 1 / 10 else 1 / 100)"

definition material_at :: "json \<Rightarrow> json \<Rightarrow> string \<Rightarrow> bool" where
  "material_at left right key \<longleftrightarrow>
     \<not> py_eq left right \<and>
     (case (number_of left, number_of right) of
        (Some a, Some b) \<Rightarrow> \<not> \<bar>a - b\<bar> < material_threshold key
      | _ \<Rightarrow> True)"

definition material_measurement_changed :: "(string \<times> json) list \<Rightarrow> (string \<times> json) list \<Rightarrow> bool" where
  "material_measurement_changed previous current \<longleftrightarrow>
     list_ex (\<lambda>key. material_at (attr previous key JNull) (attr current key JNull) key)
       (map fst previous @ map fst current)"

section \<open>Recording\<close>

record route_args =
  ra_stage :: string
  ra_status :: string
  ra_reason_code :: string
  ra_message :: string
  ra_measured :: "(string \<times> json) list"
  ra_candidate_id :: "string option"
  ra_group_id :: "string option"
  ra_executor_event_id :: "string option"
  ra_retained :: "bool option"
  ra_preflight_reason_code :: "string option"
  ra_arbitration_reason_code :: "string option"
  ra_publication_reason_code :: "string option"
  ra_terminal_reason_code :: "string option"
  ra_winner_intent_id :: "string option"
  ra_signal_source :: "string option"
  ra_publish_status :: bool

definition ready_names :: "string list" where
  "ready_names =
     [''event_id'', ''setup_id'', ''match_id'', ''scanner_event_ts'', ''ready_event_ts'',
      ''worker_received_ts'', ''market_map_id'', ''recovery'']"

text \<open>A ready document that is not an object leaves the details as they are: \<open>ready[name]\<close> raises.\<close>

definition ready_details :: "rtext option \<Rightarrow> (string \<times> json) list \<Rightarrow> (string \<times> json) list" where
  "ready_details ready_raw details =
     (case ready_raw of
        Some (Doc (JObj ready)) \<Rightarrow>
          foldl (\<lambda>d name. case map_of ready name of None \<Rightarrow> d | Some v \<Rightarrow> setdefault name v d) details ready_names
      | _ \<Rightarrow> details)"

definition route_details ::
  "rtext option \<Rightarrow> (string \<times> json) list \<Rightarrow> route_args \<Rightarrow> (string \<times> json) list" where
  "route_details ready_raw m x =
     (let d1 = ready_details ready_raw (ra_measured x);
          d2 = (case ra_retained x of None \<Rightarrow> d1 | Some b \<Rightarrow> assoc_put ''match_retained'' (JBool b) d1)
      in setdefault ''entry_high'' (attr m ''entry_high'' JNull)
           (setdefault ''entry_low'' (attr m ''entry_low'' JNull)
             (setdefault ''spot_price'' (attr m ''current_price'' JNull) d2)))"

definition previous_outcome :: "rtext option \<Rightarrow> json" where
  "previous_outcome raw =
     (case raw of Some t \<Rightarrow> (case json_loads t of Inr j \<Rightarrow> j | Inl _ \<Rightarrow> JObj []) | None \<Rightarrow> JObj [])"

definition preflight_stages :: "string list" where
  "preflight_stages =
     [''mode_check'', ''policy'', ''spot_check'', ''counter_bias'', ''opposing_barrier'', ''overlap'',
      ''cooldown'', ''entry_invalidation'', ''entry_drift'', ''news'', ''range_context'', ''preflight'']"

definition active_statuses :: "string list" where
  "active_statuses =
     [''checking'', ''waiting'', ''candidate_published'', ''executor_received'', ''order_submitted'', ''order_filled'']"

text \<open>A reason argument, or the previous one as replaced by \<open>f\<close>.\<close>

definition reason_field :: "string option \<Rightarrow> json \<Rightarrow> string \<Rightarrow> (json \<Rightarrow> json) \<Rightarrow> json res" where
  "reason_field given previous name f =
     (case given of Some r \<Rightarrow> Inr (JStr r) | None \<Rightarrow> res_bind (jget previous name) (\<lambda>v. Inr (f v)))"

definition or_previous :: "string option \<Rightarrow> json \<Rightarrow> string \<Rightarrow> json res" where
  "or_previous given previous name =
     (case given of Some (c # r) \<Rightarrow> Inr (JStr (c # r)) | _ \<Rightarrow> jget previous name)"

definition terminal_reason :: "string \<Rightarrow> string \<Rightarrow> json \<Rightarrow> json" where
  "terminal_reason status reason_code v =
     (if status \<in> {''blocked'', ''expired'', ''executor_rejected''} then JStr reason_code
      else if status \<in> set active_statuses then JNull else v)"

definition build_outcome ::
  "int \<Rightarrow> (string \<times> json) list \<Rightarrow> route_args \<Rightarrow> (string \<times> json) list \<Rightarrow> json \<Rightarrow> route_outcome res" where
  "build_outcome now m x details previous =
     res_bind (reason_field (ra_preflight_reason_code x) previous ''preflight_reason_code''
       (\<lambda>v. if ra_stage x \<in> set preflight_stages then JStr (ra_reason_code x) else v)) (\<lambda>preflight.
     res_bind (reason_field (ra_arbitration_reason_code x) previous ''arbitration_reason_code''
       (\<lambda>v. if ra_stage x = ''arbitration'' then JStr (ra_reason_code x) else v)) (\<lambda>arbitration.
     res_bind (reason_field (ra_publication_reason_code x) previous ''publication_reason_code''
       (\<lambda>v. if ra_stage x \<in> {''candidate_claim'', ''stream_publish''} then JStr (ra_reason_code x) else v)) (\<lambda>publication.
     res_bind (reason_field (ra_terminal_reason_code x) previous ''terminal_reason_code''
       (terminal_reason (ra_status x) (ra_reason_code x))) (\<lambda>terminal.
     res_bind (py_str (attr m ''symbol'' (JStr []))) (\<lambda>symbol.
     res_bind (py_str (attr m ''match_id'' (JStr []))) (\<lambda>match_id.
     res_bind (py_str (attr m ''strategy'' (JStr []))) (\<lambda>strategy.
     res_bind (py_str (py_or (attr m ''family'' (JStr [])) (JStr ''scanner''))) (\<lambda>family.
     res_bind (py_str (attr m ''direction'' (JStr []))) (\<lambda>direction.
     res_bind (py_str (py_or (attr m ''structural_source'' (JStr [])) (attr m ''strategy'' (JStr [])))) (\<lambda>source.
     res_bind (py_str (py_or (attr m ''structural_zone_id'' (JStr []))
       (py_or (attr m ''zone_id'' (JStr [])) (attr m ''level_id'' (JStr []))))) (\<lambda>structural_id.
     res_bind (py_int (py_or (attr m ''issued_at'' (JInt 0)) (JInt now))) (\<lambda>detected_at.
     res_bind (py_int (py_or (attr m ''expires_at'' (JInt 0)) (JInt now))) (\<lambda>expires_at.
     res_bind (or_previous (ra_candidate_id x) previous ''candidate_id'') (\<lambda>candidate_id.
     res_bind (or_previous (ra_group_id x) previous ''group_id'') (\<lambda>group_id.
     res_bind (or_previous (ra_executor_event_id x) previous ''executor_event_id'') (\<lambda>executor_event_id.
     res_bind (or_previous (ra_winner_intent_id x) previous ''winner_intent_id'') (\<lambda>winner_intent_id.
     res_bind (or_previous (ra_signal_source x) previous ''signal_source'') (\<lambda>signal_source.
     Inr \<lparr>ro_version = 2, ro_symbol = str_upper symbol, ro_match_id = match_id, ro_strategy = strategy,
          ro_strategy_family = family, ro_direction = str_upper direction, ro_structural_source = source,
          ro_structural_id = structural_id, ro_stage = ra_stage x, ro_status = ra_status x,
          ro_reason_code = ra_reason_code x, ro_message = ra_message x, ro_measured = details,
          ro_detected_at = detected_at, ro_checked_at = now, ro_expires_at = expires_at,
          ro_candidate_id = candidate_id, ro_group_id = group_id, ro_executor_event_id = executor_event_id,
          ro_preflight_reason_code = preflight, ro_arbitration_reason_code = arbitration,
          ro_publication_reason_code = publication, ro_terminal_reason_code = terminal,
          ro_current_stage = ra_stage x, ro_retained = ra_retained x,
          ro_winner_intent_id = winner_intent_id, ro_signal_source = signal_source\<rparr>))))))))))))))))))"

text \<open>\<open>dict(value)\<close>: the caught errors are \<open>None\<close>; a list of pairs is outside the model.\<close>

fun dict_of :: "json \<Rightarrow> (string \<times> json) list option res" where
  "dict_of (JObj kv) = Inr (Some kv)"
| "dict_of (JList xs) = (if xs = [] then Inr (Some []) else Inl OutOfModel)"
| "dict_of (JStr s) = (if s = [] then Inr (Some []) else Inr None)"
| "dict_of _ = Inr None"

text \<open>\<open>(transition_changed, material_changed, publish_status)\<close>.\<close>

definition route_changes ::
  "rtext option \<Rightarrow> json \<Rightarrow> route_outcome \<Rightarrow> bool \<Rightarrow> (bool \<times> bool \<times> bool) res" where
  "route_changes previous_raw previous o1 publish_status =
     (if \<not> truthy_text previous_raw then Inr (previous_raw = None, False, publish_status)
      else
        res_bind (jget previous ''status'') (\<lambda>st.
        res_bind (jget previous ''reason_code'') (\<lambda>rc.
        res_bind (jget previous ''current_stage'') (\<lambda>cs.
        if \<not> (st = JStr (ro_status o1) \<and> rc = JStr (ro_reason_code o1) \<and> cs = JStr (ro_current_stage o1))
        then Inr (True, False, publish_status)
        else
          res_bind (jget previous ''measured'') (\<lambda>pm.
          res_bind (dict_of (py_or pm (JObj []))) (\<lambda>d.
          case d of
            None \<Rightarrow> Inr (False, False, publish_status)
          | Some kv \<Rightarrow>
              (let material = material_measurement_changed kv (ro_measured o1)
               in Inr (False, material, if material then publish_status else False))))))))"

definition announced_statuses :: "string list" where
  "announced_statuses = [''waiting'', ''blocked'', ''candidate_published'', ''executor_rejected'']"

definition write_outcome :: "int \<Rightarrow> string \<Rightarrow> route_outcome \<Rightarrow> bool \<Rightarrow> bool \<Rightarrow> unit prog" where
  "write_outcome now key o1 changed publish_status =
     (let encoded = route_to_json o1; ttl = max 300 (max (ro_expires_at o1 - now) 86400) in
      pbind (run_cmd (SET key encoded (Some ttl) False)) (\<lambda>_.
      pbind (run_cmd (SET (last_route_outcome_key (ro_symbol o1)) encoded (Some ttl) False)) (\<lambda>_.
      pbind (if changed then run_cmd (XADD (route_history_key (ro_symbol o1)) encoded) else Done ()) (\<lambda>_.
      pbind (rset_nx (route_metric_key (ro_symbol o1) (ro_match_id o1) (ro_status o1)) (Txt ''1'') ttl) (\<lambda>claimed.
      pbind (if claimed
             then run_cmd (HINCRBY (''auto_trade:metrics:'' @ ro_symbol o1) (''strategy_match_'' @ ro_status o1) 1)
             else Done ()) (\<lambda>_.
      if publish_status \<and> ro_status o1 \<in> set announced_statuses
      then run_cmd (XADD ''auto_trade:events'' (Doc (JObj ((''type'', JStr ''strategy_route'') # route_asdict o1))))
      else Done ()))))))"

definition record_route_outcome :: "int \<Rightarrow> (string \<times> json) list \<Rightarrow> route_args \<Rightarrow> route_outcome prog" where
  "record_route_outcome now m x =
     pbind (of_res (py_str (attr m ''match_id'' (JStr [])))) (\<lambda>setup_id.
     pbind (rget (ready_last_key setup_id)) (\<lambda>ready_raw.
     let details = route_details ready_raw m x in
     pbind (of_res (py_str (attr m ''symbol'' (JStr [])))) (\<lambda>symbol.
     let key = route_outcome_key (str_upper symbol) setup_id in
     pbind (rget key) (\<lambda>previous_raw.
     let previous = previous_outcome previous_raw in
     pbind (of_res (build_outcome now m x details previous)) (\<lambda>o1.
     pbind (of_res (route_changes previous_raw previous o1 (ra_publish_status x))) (\<lambda>(trans, material, publish_status).
     pbind (write_outcome now key o1 (trans \<or> material) publish_status) (\<lambda>_. Done o1)))))))"

section \<open>Lemmas\<close>

lemma py_eq_refl [simp]: "py_eq v v"
  by (simp add: py_eq_def)

lemma no_material_change [simp]: "\<not> material_measurement_changed d d"
  by (simp add: material_measurement_changed_def material_at_def list_ex_iff)

definition outcome_ttl :: "int \<Rightarrow> route_outcome \<Rightarrow> int" where
  "outcome_ttl now o1 = max 300 (max (ro_expires_at o1 - now) 86400)"

definition metric_key_of :: "route_outcome \<Rightarrow> string" where
  "metric_key_of o1 = route_metric_key (ro_symbol o1) (ro_match_id o1) (ro_status o1)"

definition route_metrics :: "string \<Rightarrow> string" where
  "route_metrics symbol = ''auto_trade:metrics:'' @ symbol"

lemma route_keys [simp]:
  "route_outcome_key a b \<noteq> last_route_outcome_key c" "route_outcome_key a b \<noteq> route_history_key c"
  "route_outcome_key a b \<noteq> route_metric_key c d e" "route_outcome_key a b \<noteq> route_metrics c"
  "route_outcome_key a b \<noteq> ''auto_trade:events''" "route_outcome_key a b \<noteq> ready_last_key c"
  "last_route_outcome_key a \<noteq> route_history_key c" "last_route_outcome_key a \<noteq> route_metric_key c d e"
  "last_route_outcome_key a \<noteq> route_metrics c" "last_route_outcome_key a \<noteq> ''auto_trade:events''"
  "last_route_outcome_key a \<noteq> ready_last_key c" "route_history_key a \<noteq> route_metric_key c d e"
  "route_history_key a \<noteq> route_metrics c" "route_history_key a \<noteq> ''auto_trade:events''"
  "route_history_key a \<noteq> ready_last_key c" "route_metric_key c d e \<noteq> route_metrics a"
  "route_metric_key c d e \<noteq> ''auto_trade:events''" "route_metric_key c d e \<noteq> ready_last_key a"
  "route_metrics a \<noteq> ''auto_trade:events''" "route_metrics a \<noteq> ready_last_key c"
  "ready_last_key c \<noteq> ''auto_trade:events''"
  by (simp_all add: route_outcome_key_def last_route_outcome_key_def route_history_key_def route_metric_key_def
      route_metrics_def ready_last_key_def)

lemmas route_keys_sym [simp] = route_keys[symmetric]

text \<open>The keys a recording writes have the types it uses.\<close>

definition route_types :: "keyspace \<Rightarrow> string \<Rightarrow> bool" where
  "route_types K symbol \<longleftrightarrow> stream_key K (route_history_key symbol) \<and>
     hash_key K (route_metrics symbol) \<and> stream_key K ''auto_trade:events''"

context redis
begin

lemma run_maybe:
  assumes "run exec (run_cmd c) s = (Inr (), snd (exec c s))"
  shows "run exec (pbind (if b then run_cmd c else Done ()) f) s = run exec (f ()) (if b then snd (exec c s) else s)"
  by (simp add: run_pbind assms)

lemma run_write_outcome:
  assumes "route_types (ks s) (ro_symbol o1)" "key = route_outcome_key sy mid"
  shows "\<exists>s'. run exec (write_outcome now key o1 changed pub) s = (Inr (), s') \<and>
     ks s' key = Some (VStr (route_to_json o1) (Some (outcome_ttl now o1))) \<and>
     ks s' (route_history_key (ro_symbol o1)) =
       (if changed then Some (VStream (k_stream (ks s) (route_history_key (ro_symbol o1)) @ [route_to_json o1]))
        else ks s (route_history_key (ro_symbol o1))) \<and>
     ks s' ''auto_trade:events'' =
       (if pub \<and> ro_status o1 \<in> set announced_statuses
        then Some (VStream (k_stream (ks s) ''auto_trade:events'' @
               [Doc (JObj ((''type'', JStr ''strategy_route'') # route_asdict o1))]))
        else ks s ''auto_trade:events'') \<and>
     ks s' (metric_key_of o1) \<noteq> None \<and> route_types (ks s') (ro_symbol o1) \<and>
     (\<forall>c. ks s' (ready_last_key c) = ks s (ready_last_key c)) \<and>
     (ks s (metric_key_of o1) \<noteq> None \<and> \<not> changed \<and> \<not> pub \<longrightarrow>
       (\<forall>k. k \<notin> {key, last_route_outcome_key (ro_symbol o1)} \<longrightarrow> ks s' k = ks s k))"
proof -
  let ?h = "route_history_key (ro_symbol o1)" and ?l = "last_route_outcome_key (ro_symbol o1)"
  let ?enc = "route_to_json o1" and ?ttl = "outcome_ttl now o1" and ?m = "metric_key_of o1"
  have t: "stream_key (ks s) ?h" "hash_key (ks s) (route_metrics (ro_symbol o1))" "stream_key (ks s) ''auto_trade:events''"
    using assms(1) by (simp_all add: route_types_def)
  define s2 where "s2 = snd (exec (SET ?l ?enc (Some ?ttl) False) (snd (exec (SET key ?enc (Some ?ttl) False) s)))"
  have k2: "ks s2 = (ks s)(key \<mapsto> VStr ?enc (Some ?ttl), ?l \<mapsto> VStr ?enc (Some ?ttl))"
    by (simp add: s2_def ks_write)
  define s3 where "s3 = (if changed then snd (exec (XADD ?h ?enc) s2) else s2)"
  have k3: "ks s3 = (if changed then (ks s2)(?h \<mapsto> VStream (k_stream (ks s) ?h @ [?enc])) else ks s2)"
    using t(1) by (simp add: s3_def ks_xadd k2 assms(2) k_stream_def)
  define s4 where "s4 = snd (exec (SET ?m (Txt ''1'') (Some ?ttl) True) s3)"
  have m3: "ks s3 ?m = ks s ?m" by (simp add: k3 k2 assms(2) metric_key_of_def)
  have k4: "ks s4 = (if ks s ?m \<noteq> None then ks s3 else (ks s3)(?m \<mapsto> VStr (Txt ''1'') (Some ?ttl)))"
    by (simp add: s4_def ks_write m3)
  define s5 where "s5 = (if ks s ?m = None then snd (exec (HINCRBY (route_metrics (ro_symbol o1)) (''strategy_match_'' @ ro_status o1) 1) s4) else s4)"
  have k5: "k \<noteq> route_metrics (ro_symbol o1) \<Longrightarrow> ks s5 k = ks s4 k" "ks s ?m \<noteq> None \<Longrightarrow> s5 = s4" for k
    by (auto simp: s5_def ks_hincrby_other)
  define s6 where "s6 = (if pub \<and> ro_status o1 \<in> set announced_statuses
      then snd (exec (XADD ''auto_trade:events'' (Doc (JObj ((''type'', JStr ''strategy_route'') # route_asdict o1)))) s5) else s5)"
  have t4: "hash_key (ks s4) (route_metrics (ro_symbol o1))"
    using t(2) by (simp add: k4 k3 k2 assms(2) metric_key_of_def)
  have e5: "ks s5 ''auto_trade:events'' = ks s ''auto_trade:events''"
    by (simp add: k5 k4 k3 k2 assms(2) metric_key_of_def)
  then have t5: "stream_key (ks s5) ''auto_trade:events''" using t(3) by (simp add: stream_key_def)
  have k6: "ks s6 = (if pub \<and> ro_status o1 \<in> set announced_statuses
      then (ks s5)(''auto_trade:events'' \<mapsto> VStream (k_stream (ks s) ''auto_trade:events'' @
        [Doc (JObj ((''type'', JStr ''strategy_route'') # route_asdict o1))])) else ks s5)"
    by (simp add: s6_def ks_xadd[OF t5] k_stream_def e5)
  have t6: "route_types (ks s6) (ro_symbol o1)"
  proof -
    have "hash_key (ks s5) (route_metrics (ro_symbol o1))" using t4 by (simp add: s5_def ks_hincrby_type)
    then have "hash_key (ks s6) (route_metrics (ro_symbol o1))" by (simp add: k6)
    moreover have "stream_key (ks s6) ?h" using t(1) by (simp add: k6 k5 k4 k3 k2 assms(2) metric_key_of_def stream_key_def)
    moreover have "stream_key (ks s6) ''auto_trade:events''" using t5 by (simp add: k6 stream_key_def)
    ultimately show ?thesis by (simp add: route_types_def)
  qed
  have h2: "stream_key (ks s2) ?h" using t(1) by (simp add: k2 assms(2))
  note c3 = run_maybe[where b = changed and c = "XADD ?h ?enc" and s = s2, OF run_counters_last(1)[OF h2], folded s3_def]
  note c5 = run_maybe[where b = "ks s ?m = None" and s = s4, OF run_counters_last(2)[OF t4]]
  have c6: "run exec (if pub \<and> ro_status o1 \<in> set announced_statuses
      then run_cmd (XADD ''auto_trade:events'' (Doc (JObj ((''type'', JStr ''strategy_route'') # route_asdict o1))))
      else Done ()) s5 = (Inr (), s6)"
    by (simp add: s6_def run_counters_last(1)[OF t5])
  have run: "run exec (write_outcome now key o1 changed pub) s = (Inr (), s6)"
    unfolding write_outcome_def Let_def outcome_ttl_def[symmetric] metric_key_of_def[symmetric] route_metrics_def[symmetric]
    by (simp only: run_set s2_def[symmetric] c3 run_set_nx m3 s4_def[symmetric] c5)
       (simp only: s5_def[symmetric] c6)
  show ?thesis
    using t6
    by (intro exI[of _ s6] conjI, intro run)
       (assumption | simp add: k6 k5 k4 k3 k2 assms(2) metric_key_of_def)+
qed

end

lemma asdict_get:
  "jget (JObj (route_asdict p)) ''status'' = Inr (JStr (ro_status p))"
  "jget (JObj (route_asdict p)) ''reason_code'' = Inr (JStr (ro_reason_code p))"
  "jget (JObj (route_asdict p)) ''current_stage'' = Inr (JStr (ro_current_stage p))"
  "jget (JObj (route_asdict p)) ''measured'' = Inr (JObj (ro_measured p))"
  "jget (JObj (route_asdict p)) ''candidate_id'' = Inr (ro_candidate_id p)"
  "jget (JObj (route_asdict p)) ''group_id'' = Inr (ro_group_id p)"
  "jget (JObj (route_asdict p)) ''executor_event_id'' = Inr (ro_executor_event_id p)"
  "jget (JObj (route_asdict p)) ''winner_intent_id'' = Inr (ro_winner_intent_id p)"
  "jget (JObj (route_asdict p)) ''signal_source'' = Inr (ro_signal_source p)"
  "jget (JObj (route_asdict p)) ''preflight_reason_code'' = Inr (ro_preflight_reason_code p)"
  "jget (JObj (route_asdict p)) ''arbitration_reason_code'' = Inr (ro_arbitration_reason_code p)"
  "jget (JObj (route_asdict p)) ''publication_reason_code'' = Inr (ro_publication_reason_code p)"
  "jget (JObj (route_asdict p)) ''terminal_reason_code'' = Inr (ro_terminal_reason_code p)"
  by (simp_all add: route_asdict_def)

text \<open>What counts as a change of a stored outcome.\<close>

definition outcome_changed :: "route_outcome option \<Rightarrow> route_outcome \<Rightarrow> bool" where
  "outcome_changed previous o1 \<longleftrightarrow>
     (case previous of
        None \<Rightarrow> True
      | Some p \<Rightarrow>
          ro_status p \<noteq> ro_status o1 \<or> ro_reason_code p \<noteq> ro_reason_code o1 \<or>
          ro_current_stage p \<noteq> ro_current_stage o1 \<or>
          material_measurement_changed (ro_measured p) (ro_measured o1))"

lemma changes_of_stored:
  "\<exists>t mt pub. route_changes (map_option route_to_json prev)
      (previous_outcome (map_option route_to_json prev)) o1 publish = Inr (t, mt, pub) \<and>
     (t \<or> mt \<longleftrightarrow> outcome_changed prev o1) \<and> (pub \<longleftrightarrow> publish \<and> outcome_changed prev o1)"
proof (cases prev)
  case None
  then show ?thesis by (auto simp: route_changes_def truthy_text_def outcome_changed_def)
next
  case (Some p)
  have d: "dict_of (py_or (JObj kv) (JObj [])) = Inr (Some kv)" for kv
    by (cases kv) (simp_all add: py_or_def)
  have "route_changes (map_option route_to_json prev) (previous_outcome (map_option route_to_json prev)) o1 publish =
      Inr (if ro_status p = ro_status o1 \<and> ro_reason_code p = ro_reason_code o1 \<and> ro_current_stage p = ro_current_stage o1
           then (let mt = material_measurement_changed (ro_measured p) (ro_measured o1) in (False, mt, mt \<and> publish))
           else (True, False, publish))"
    by (simp add: Some route_changes_def truthy_text_def route_to_json_def previous_outcome_def asdict_get d Let_def
        del: jget.simps)
  then show ?thesis by (auto simp: Some outcome_changed_def Let_def)
qed

lemma build_outcome_facts:
  assumes "build_outcome now m x details previous = Inr o1"
    "py_str (attr m ''match_id'' (JStr [])) = Inr mid" "py_str (attr m ''symbol'' (JStr [])) = Inr sy"
  shows "ro_symbol o1 = str_upper sy" "ro_match_id o1 = mid" "ro_status o1 = ra_status x"
    "ro_reason_code o1 = ra_reason_code x" "ro_current_stage o1 = ra_stage x" "ro_measured o1 = details"
  using assms by (auto simp: build_outcome_def res_bind_Inr_iff)

context redis
begin

lemma run_record:
  assumes "py_str (attr m ''match_id'' (JStr [])) = Inr mid" "py_str (attr m ''symbol'' (JStr [])) = Inr sy"
    "str_key (ks s) (ready_last_key mid)" "str_key (ks s) (route_outcome_key (str_upper sy) mid)"
    "route_types (ks s) (str_upper sy)"
    "k_text (ks s) (route_outcome_key (str_upper sy) mid) = map_option route_to_json prev"
    "build_outcome now m x (route_details (k_text (ks s) (ready_last_key mid)) m x)
       (previous_outcome (map_option route_to_json prev)) = Inr o1"
  obtains s0 pub where "ks s0 = ks s" "pub \<longleftrightarrow> ra_publish_status x \<and> outcome_changed prev o1"
    "run exec (record_route_outcome now m x) s = run exec (pbind
       (write_outcome now (route_outcome_key (str_upper sy) mid) o1 (outcome_changed prev o1) pub) (\<lambda>_. Done o1)) s0"
proof -
  let ?key = "route_outcome_key (str_upper sy) mid"
  define s0 where "s0 = snd (exec (GET ?key) (snd (exec (GET (ready_last_key mid)) s)))"
  obtain t mt pub where c: "route_changes (map_option route_to_json prev)
      (previous_outcome (map_option route_to_json prev)) o1 (ra_publish_status x) = Inr (t, mt, pub)"
    "t \<or> mt \<longleftrightarrow> outcome_changed prev o1" "pub \<longleftrightarrow> ra_publish_status x \<and> outcome_changed prev o1"
    using changes_of_stored by blast
  have "run exec (record_route_outcome now m x) s = run exec (pbind
       (write_outcome now ?key o1 (t \<or> mt) pub) (\<lambda>_. Done o1)) s0"
    unfolding record_route_outcome_def Let_def
    by (simp add: assms(1,2,6,7) run_get assms(3,4) c(1) s0_def)
  with c(2) have "run exec (record_route_outcome now m x) s = run exec (pbind
       (write_outcome now ?key o1 (outcome_changed prev o1) pub) (\<lambda>_. Done o1)) s0" by simp
  with that[of s0 pub] c(3) show thesis by (simp add: s0_def)
qed

end

lemma map_res_Inr: "map_sum id f r = Inr b \<longleftrightarrow> (\<exists>a. r = Inr a \<and> b = f a)"
  by (cases r) auto

lemma build_outcome_iff:
  "build_outcome now m x details previous = Inr o1 \<longleftrightarrow>
     reason_field (ra_preflight_reason_code x) previous ''preflight_reason_code''
       (\<lambda>v. if ra_stage x \<in> set preflight_stages then JStr (ra_reason_code x) else v) = Inr (ro_preflight_reason_code o1) \<and>
     reason_field (ra_arbitration_reason_code x) previous ''arbitration_reason_code''
       (\<lambda>v. if ra_stage x = ''arbitration'' then JStr (ra_reason_code x) else v) = Inr (ro_arbitration_reason_code o1) \<and>
     reason_field (ra_publication_reason_code x) previous ''publication_reason_code''
       (\<lambda>v. if ra_stage x \<in> {''candidate_claim'', ''stream_publish''} then JStr (ra_reason_code x) else v) =
         Inr (ro_publication_reason_code o1) \<and>
     reason_field (ra_terminal_reason_code x) previous ''terminal_reason_code''
       (terminal_reason (ra_status x) (ra_reason_code x)) = Inr (ro_terminal_reason_code o1) \<and>
     map_sum id str_upper (py_str (attr m ''symbol'' (JStr []))) = Inr (ro_symbol o1) \<and>
     py_str (attr m ''match_id'' (JStr [])) = Inr (ro_match_id o1) \<and>
     py_str (attr m ''strategy'' (JStr [])) = Inr (ro_strategy o1) \<and>
     py_str (py_or (attr m ''family'' (JStr [])) (JStr ''scanner'')) = Inr (ro_strategy_family o1) \<and>
     map_sum id str_upper (py_str (attr m ''direction'' (JStr []))) = Inr (ro_direction o1) \<and>
     py_str (py_or (attr m ''structural_source'' (JStr [])) (attr m ''strategy'' (JStr []))) = Inr (ro_structural_source o1) \<and>
     py_str (py_or (attr m ''structural_zone_id'' (JStr []))
       (py_or (attr m ''zone_id'' (JStr [])) (attr m ''level_id'' (JStr [])))) = Inr (ro_structural_id o1) \<and>
     py_int (py_or (attr m ''issued_at'' (JInt 0)) (JInt now)) = Inr (ro_detected_at o1) \<and>
     py_int (py_or (attr m ''expires_at'' (JInt 0)) (JInt now)) = Inr (ro_expires_at o1) \<and>
     or_previous (ra_candidate_id x) previous ''candidate_id'' = Inr (ro_candidate_id o1) \<and>
     or_previous (ra_group_id x) previous ''group_id'' = Inr (ro_group_id o1) \<and>
     or_previous (ra_executor_event_id x) previous ''executor_event_id'' = Inr (ro_executor_event_id o1) \<and>
     or_previous (ra_winner_intent_id x) previous ''winner_intent_id'' = Inr (ro_winner_intent_id o1) \<and>
     or_previous (ra_signal_source x) previous ''signal_source'' = Inr (ro_signal_source o1) \<and>
     ro_version o1 = 2 \<and> ro_stage o1 = ra_stage x \<and> ro_status o1 = ra_status x \<and>
     ro_reason_code o1 = ra_reason_code x \<and> ro_message o1 = ra_message x \<and> ro_measured o1 = details \<and>
     ro_checked_at o1 = now \<and> ro_current_stage o1 = ra_stage x \<and> ro_retained o1 = ra_retained x"
  (is "?L \<longleftrightarrow> ?R")
proof
  show "?L \<Longrightarrow> ?R" by (clarsimp simp: build_outcome_def res_bind_Inr_iff)
  assume R: ?R
  then obtain sy di where "py_str (attr m ''symbol'' (JStr [])) = Inr sy" "ro_symbol o1 = str_upper sy"
    "py_str (attr m ''direction'' (JStr [])) = Inr di" "ro_direction o1 = str_upper di"
    unfolding map_res_Inr by blast
  note f = this
  show ?L
    unfolding build_outcome_def
    using R by (simp add: f)
qed

lemma rebuild_same:
  assumes "build_outcome now m x details previous = Inr o1"
  shows "\<exists>o2. build_outcome now2 m x details (previous_outcome (Some (route_to_json o1))) = Inr o2 \<and>
     o2\<lparr>ro_detected_at := ro_detected_at o1, ro_checked_at := now, ro_expires_at := ro_expires_at o1\<rparr> = o1"
proof -
  let ?p = "JObj (route_asdict o1)"
  have prev: "previous_outcome (Some (route_to_json o1)) = ?p" by (simp add: previous_outcome_def route_to_json_def)
  have again: "reason_field g ?p n f = Inr v"
    if "reason_field g previous n f = Inr v" "jget ?p n = Inr v" "\<And>w. f (f w) = f w" for g n f v
    using that by (cases g) (auto simp: reason_field_def res_bind_Inr_iff simp del: jget.simps)
  have again': "or_previous g ?p n = Inr v" if "or_previous g previous n = Inr v" "jget ?p n = Inr v" for g n v
    using that by (auto simp: or_previous_def split: option.splits list.splits simp del: jget.simps)
  have num: "\<exists>w. py_int (py_or a (JInt n2)) = Inr w" if "py_int (py_or a (JInt n)) = Inr v" for a n n2 v
    using that by (auto simp: py_or_def)
  have idem: "terminal_reason st rc (terminal_reason st rc w) = terminal_reason st rc w" for st rc w
    by (simp add: terminal_reason_def)
  note b = assms[unfolded build_outcome_iff]
  obtain d e where de: "py_int (py_or (attr m ''issued_at'' (JInt 0)) (JInt now2)) = Inr d"
    "py_int (py_or (attr m ''expires_at'' (JInt 0)) (JInt now2)) = Inr e"
    using b num by meson
  have "build_outcome now2 m x details ?p = Inr (o1\<lparr>ro_detected_at := d, ro_checked_at := now2, ro_expires_at := e\<rparr>)"
    unfolding build_outcome_iff
    using b by (simp add: de again again' asdict_get idem del: jget.simps)
  moreover have "o1\<lparr>ro_detected_at := d, ro_checked_at := now2, ro_expires_at := e\<rparr>
      \<lparr>ro_detected_at := ro_detected_at o1, ro_checked_at := now, ro_expires_at := ro_expires_at o1\<rparr> = o1"
    using b by simp
  ultimately show ?thesis unfolding prev by blast
qed

section \<open>Properties\<close>

definition demo_route_match :: "(string \<times> json) list" where
  "demo_route_match = [(''match_id'', JStr ''s1''), (''symbol'', JStr ''xau''), (''strategy'', JStr ''FVG''),
     (''issued_at'', JInt 900), (''expires_at'', JInt 1200)]"

definition demo_route_args :: "string \<Rightarrow> route_args" where
  "demo_route_args status = \<lparr>ra_stage = ''spot_check'', ra_status = status, ra_reason_code = ''spread'', ra_message = [],
     ra_measured = [(''spread_pips'', JInt 3)], ra_candidate_id = None, ra_group_id = None,
     ra_executor_event_id = None, ra_retained = Some True, ra_preflight_reason_code = None,
     ra_arbitration_reason_code = None, ra_publication_reason_code = None, ra_terminal_reason_code = None,
     ra_winner_intent_id = None, ra_signal_source = None, ra_publish_status = True\<rparr>"

lemma demo_route_facts:
  "py_str (attr demo_route_match ''match_id'' (JStr [])) = Inr ''s1''"
  "py_str (attr demo_route_match ''symbol'' (JStr [])) = Inr ''xau''"
  "str_key Map.empty (ready_last_key ''s1'')"
  "str_key Map.empty (route_outcome_key (str_upper ''xau'') ''s1'')"
  "route_types Map.empty (str_upper ''xau'')"
  "k_text Map.empty (route_outcome_key (str_upper ''xau'') ''s1'') = map_option route_to_json None"
  by (simp_all add: attr_def demo_route_match_def route_types_def key_types k_text_def)

lemma demo_route_built:
  "\<exists>o1. build_outcome 1000 demo_route_match (demo_route_args ''blocked'')
      (route_details (k_text Map.empty (ready_last_key ''s1'')) demo_route_match (demo_route_args ''blocked''))
      (previous_outcome (map_option route_to_json None)) = Inr o1"
proof -
  have "(case build_outcome 1000 demo_route_match (demo_route_args ''blocked'')
      (route_details (k_text Map.empty (ready_last_key ''s1'')) demo_route_match (demo_route_args ''blocked''))
      (previous_outcome (map_option route_to_json None)) of Inr o1 \<Rightarrow> True | Inl e \<Rightarrow> False)"
    by code_simp
  then show ?thesis by (simp split: sum.splits)
qed

text \<open>Recording an outcome over a match whose last outcome (if any) is stored: the new outcome is
  stored under the match's key; the history of the symbol gets it exactly when there was none, its
  status, reason or stage differ, or a measurement moved materially; it is announced exactly when, in
  addition, publication was asked for and the status is one of the announced ones; the terminal reason
  is the given one, or else the reason of a blocking status, empty for a status that is still active,
  and otherwise the previous one.\<close>

theorem route_history_exact:
  assumes "redis exec ks" "py_str (attr m ''match_id'' (JStr [])) = Inr mid" "py_str (attr m ''symbol'' (JStr [])) = Inr sy"
    "str_key (ks s) (ready_last_key mid)" "str_key (ks s) (route_outcome_key (str_upper sy) mid)"
    "route_types (ks s) (str_upper sy)"
    "k_text (ks s) (route_outcome_key (str_upper sy) mid) = map_option route_to_json prev"
    "build_outcome now m x (route_details (k_text (ks s) (ready_last_key mid)) m x)
       (previous_outcome (map_option route_to_json prev)) = Inr o1"
  shows "\<exists>s'. run exec (record_route_outcome now m x) s = (Inr o1, s') \<and>
     k_text (ks s') (route_outcome_key (str_upper sy) mid) = Some (route_to_json o1) \<and>
     k_stream (ks s') (route_history_key (str_upper sy)) =
       k_stream (ks s) (route_history_key (str_upper sy)) @ (if outcome_changed prev o1 then [route_to_json o1] else []) \<and>
     k_stream (ks s') ''auto_trade:events'' = k_stream (ks s) ''auto_trade:events'' @
       (if outcome_changed prev o1 \<and> ra_publish_status x \<and> ra_status x \<in> set announced_statuses
        then [Doc (JObj ((''type'', JStr ''strategy_route'') # route_asdict o1))] else []) \<and>
     ro_terminal_reason_code o1 =
       (case ra_terminal_reason_code x of Some r \<Rightarrow> JStr r
        | None \<Rightarrow> terminal_reason (ra_status x) (ra_reason_code x)
                    (case prev of None \<Rightarrow> JNull | Some p \<Rightarrow> ro_terminal_reason_code p))"
proof -
  obtain s0 pub where r: "ks s0 = ks s" "pub \<longleftrightarrow> ra_publish_status x \<and> outcome_changed prev o1"
    "run exec (record_route_outcome now m x) s = run exec (pbind
       (write_outcome now (route_outcome_key (str_upper sy) mid) o1 (outcome_changed prev o1) pub) (\<lambda>_. Done o1)) s0"
    by (rule redis.run_record[OF assms(1-8)])
  note o = build_outcome_facts[OF assms(8,2,3)]
  have "route_types (ks s0) (ro_symbol o1)" by (simp add: r(1) o(1) assms(6))
  from redis.run_write_outcome[OF assms(1) this refl, where sy = "str_upper sy" and mid = mid and now = now and changed = "outcome_changed prev o1" and pub = pub]
  obtain s' where w: "run exec (write_outcome now (route_outcome_key (str_upper sy) mid) o1 (outcome_changed prev o1) pub) s0 = (Inr (), s')"
    "ks s' (route_outcome_key (str_upper sy) mid) = Some (VStr (route_to_json o1) (Some (outcome_ttl now o1)))"
    "ks s' (route_history_key (ro_symbol o1)) =
       (if outcome_changed prev o1 then Some (VStream (k_stream (ks s0) (route_history_key (ro_symbol o1)) @ [route_to_json o1]))
        else ks s0 (route_history_key (ro_symbol o1)))"
    "ks s' ''auto_trade:events'' =
       (if pub \<and> ro_status o1 \<in> set announced_statuses
        then Some (VStream (k_stream (ks s0) ''auto_trade:events'' @
               [Doc (JObj ((''type'', JStr ''strategy_route'') # route_asdict o1))]))
        else ks s0 ''auto_trade:events'')" by blast
  have "reason_field (ra_terminal_reason_code x) (previous_outcome (map_option route_to_json prev)) ''terminal_reason_code''
      (terminal_reason (ra_status x) (ra_reason_code x)) = Inr (ro_terminal_reason_code o1)"
    using assms(8) by (simp only: build_outcome_iff)
  then have t: "ro_terminal_reason_code o1 =
       (case ra_terminal_reason_code x of Some r \<Rightarrow> JStr r
        | None \<Rightarrow> terminal_reason (ra_status x) (ra_reason_code x)
                    (case prev of None \<Rightarrow> JNull | Some p \<Rightarrow> ro_terminal_reason_code p))"
    by (cases prev; cases "ra_terminal_reason_code x")
       (simp_all add: reason_field_def previous_outcome_def route_to_json_def asdict_get(13) del: jget.simps(1)
         add: jget.simps(1)[of "[]"])
  have run: "run exec (record_route_outcome now m x) s = (Inr o1, s')" by (simp add: r(3) run_pbind w(1))
  show ?thesis
    by (rule exI[of _ s'], intro conjI, rule run)
       (use w(2-4) r(1,2) o(1,3) t in \<open>auto simp: k_text_def k_stream_def\<close>)
qed

lemma route_history_exact_witness:
  "\<exists>o1 K. run mem_exec (record_route_outcome 1000 demo_route_match (demo_route_args ''blocked'')) Map.empty = (Inr o1, K) \<and>
     k_stream K (route_history_key (str_upper ''xau'')) = [route_to_json o1] \<and>
     length (k_stream K ''auto_trade:events'') = 1 \<and> ro_terminal_reason_code o1 = JStr ''spread''"
proof -
  obtain o1 where b: "build_outcome 1000 demo_route_match (demo_route_args ''blocked'')
      (route_details (k_text Map.empty (ready_last_key ''s1'')) demo_route_match (demo_route_args ''blocked''))
      (previous_outcome (map_option route_to_json None)) = Inr o1" using demo_route_built by blast
  have "''blocked'' \<in> set announced_statuses" by code_simp
  then show ?thesis
    using route_history_exact[where ks = "\<lambda>K. K" and s = Map.empty, OF mem.redis_axioms demo_route_facts b]
    by (auto simp: demo_route_args_def outcome_changed_def terminal_reason_def k_stream_def)
qed

text \<open>Recording the same outcome again, at any later time, is silent: it returns an outcome that
  differs from the stored one in its three times only and writes nothing but the two snapshot keys - no
  history entry, no announcement, no second count of the metric.\<close>

theorem route_repeat_silent:
  assumes "redis exec ks" "py_str (attr m ''match_id'' (JStr [])) = Inr mid" "py_str (attr m ''symbol'' (JStr [])) = Inr sy"
    "str_key (ks s) (ready_last_key mid)" "str_key (ks s) (route_outcome_key (str_upper sy) mid)"
    "route_types (ks s) (str_upper sy)"
    "k_text (ks s) (route_outcome_key (str_upper sy) mid) = map_option route_to_json prev"
    "build_outcome now m x (route_details (k_text (ks s) (ready_last_key mid)) m x)
       (previous_outcome (map_option route_to_json prev)) = Inr o1"
  shows "\<exists>o2 s2. run exec (record_route_outcome now2 m x) (snd (run exec (record_route_outcome now m x) s)) = (Inr o2, s2) \<and>
     o2\<lparr>ro_detected_at := ro_detected_at o1, ro_checked_at := now, ro_expires_at := ro_expires_at o1\<rparr> = o1 \<and>
     (\<forall>k. k \<notin> {route_outcome_key (str_upper sy) mid, last_route_outcome_key (str_upper sy)} \<longrightarrow>
        ks s2 k = ks (snd (run exec (record_route_outcome now m x) s)) k)"
proof -
  let ?key = "route_outcome_key (str_upper sy) mid" and ?s1 = "snd (run exec (record_route_outcome now m x) s)"
  obtain s0 pub where r: "ks s0 = ks s" "pub \<longleftrightarrow> ra_publish_status x \<and> outcome_changed prev o1"
    "run exec (record_route_outcome now m x) s = run exec (pbind
       (write_outcome now ?key o1 (outcome_changed prev o1) pub) (\<lambda>_. Done o1)) s0"
    by (rule redis.run_record[OF assms(1-8)])
  note o = build_outcome_facts[OF assms(8,2,3)]
  have "route_types (ks s0) (ro_symbol o1)" by (simp add: r(1) o(1) assms(6))
  from redis.run_write_outcome[OF assms(1) this refl, where sy = "str_upper sy" and mid = mid and now = now and changed = "outcome_changed prev o1" and pub = pub]
  obtain s1 where w: "run exec (write_outcome now ?key o1 (outcome_changed prev o1) pub) s0 = (Inr (), s1)"
    "ks s1 ?key = Some (VStr (route_to_json o1) (Some (outcome_ttl now o1)))"
    "ks s1 (metric_key_of o1) \<noteq> None" "route_types (ks s1) (ro_symbol o1)" "ks s1 (ready_last_key mid) = ks s0 (ready_last_key mid)" by blast
  have s1: "?s1 = s1" by (simp add: r(3) run_pbind w(1))
  obtain o2 where o2: "build_outcome now2 m x (route_details (k_text (ks s) (ready_last_key mid)) m x)
      (previous_outcome (Some (route_to_json o1))) = Inr o2"
    "o2\<lparr>ro_detected_at := ro_detected_at o1, ro_checked_at := now, ro_expires_at := ro_expires_at o1\<rparr> = o1"
    using rebuild_same[OF assms(8), of now2] by blast
  note o' = build_outcome_facts[OF o2(1) assms(2,3)]
  have ready: "k_text (ks s1) (ready_last_key mid) = k_text (ks s) (ready_last_key mid)"
    "str_key (ks s1) (ready_last_key mid)" "str_key (ks s1) ?key" "k_text (ks s1) ?key = map_option route_to_json (Some o1)"
    using w(2,5) r(1) assms(4) by (simp_all add: k_text_def str_key_def)
  have same: "\<not> outcome_changed (Some o1) o2" using o o' by (simp add: outcome_changed_def)
  obtain s2 pub2 where r2: "ks s2 = ks s1" "pub2 \<longleftrightarrow> ra_publish_status x \<and> outcome_changed (Some o1) o2"
    "run exec (record_route_outcome now2 m x) s1 = run exec (pbind
       (write_outcome now2 ?key o2 (outcome_changed (Some o1) o2) pub2) (\<lambda>_. Done o2)) s2"
    by (rule redis.run_record[OF assms(1-3) ready(2,3) _ ready(4), of now2 x o2])
       (use w(4) o(1) o2(1) ready(1) in simp_all)
  have types2: "route_types (ks s2) (ro_symbol o2)" using w(4) by (simp add: r2(1) o(1) o'(1))
  have metric: "ks s2 (metric_key_of o2) \<noteq> None" using w(3) by (simp add: r2(1) metric_key_of_def o o')
  from redis.run_write_outcome[OF assms(1) types2 refl, where sy = "str_upper sy" and mid = mid and now = now2 and changed = False and pub = False] metric
  obtain s3 where "run exec (write_outcome now2 ?key o2 False False) s2 = (Inr (), s3)"
    "\<forall>k. k \<notin> {?key, last_route_outcome_key (ro_symbol o2)} \<longrightarrow> ks s3 k = ks s2 k" by blast
  with o2(2) r2 same show ?thesis
    by (intro exI[of _ o2] exI[of _ s3]) (simp add: s1 run_pbind o'(1))
qed

lemma route_repeat_silent_witness:
  "\<exists>o2 K2. run mem_exec (record_route_outcome 1060 demo_route_match (demo_route_args ''blocked''))
       (snd (run mem_exec (record_route_outcome 1000 demo_route_match (demo_route_args ''blocked'')) Map.empty)) = (Inr o2, K2) \<and>
     K2 (route_history_key ''XAU'') =
       snd (run mem_exec (record_route_outcome 1000 demo_route_match (demo_route_args ''blocked'')) Map.empty)
         (route_history_key ''XAU'')"
proof -
  obtain o1 where b: "build_outcome 1000 demo_route_match (demo_route_args ''blocked'')
      (route_details (k_text Map.empty (ready_last_key ''s1'')) demo_route_match (demo_route_args ''blocked''))
      (previous_outcome (map_option route_to_json None)) = Inr o1" using demo_route_built by blast
  from route_repeat_silent[where ks = "\<lambda>K. K" and s = Map.empty, OF mem.redis_axioms demo_route_facts b, of 1060]
  obtain o2 K2 where r: "run mem_exec (record_route_outcome 1060 demo_route_match (demo_route_args ''blocked''))
       (snd (run mem_exec (record_route_outcome 1000 demo_route_match (demo_route_args ''blocked'')) Map.empty)) = (Inr o2, K2)"
    "\<forall>k. k \<notin> {route_outcome_key (str_upper ''xau'') ''s1'', last_route_outcome_key (str_upper ''xau'')} \<longrightarrow>
       K2 k = snd (run mem_exec (record_route_outcome 1000 demo_route_match (demo_route_args ''blocked'')) Map.empty) k"
    by blast
  moreover have "route_history_key ''XAU'' \<notin> {route_outcome_key (str_upper ''xau'') ''s1'', last_route_outcome_key (str_upper ''xau'')}"
    by simp
  ultimately show ?thesis by blast
qed

end
