(* ===== verification/ScalpLifecycle.thy ===== *)
theory ScalpLifecycle
  imports RedisRuns "HOL-Library.Sublist"
begin

text \<open>
  The lifecycle of an M1 scalp opportunity (\<open>app/scalping/lifecycle.py\<close>, its record in
  \<open>app/scalping/models.py\<close>): transition rule, storage with the set of active ids, and the pruning of
  stale armed records.
\<close>

section \<open>States\<close>

definition SC_DISCOVERED :: string where "SC_DISCOVERED = ''discovered''"
definition SC_ARMED :: string where "SC_ARMED = ''armed''"
definition SC_TOUCHED :: string where "SC_TOUCHED = ''touched''"
definition SC_TRIGGERED :: string where "SC_TRIGGERED = ''triggered''"
definition SC_RETEST_WAIT :: string where "SC_RETEST_WAIT = ''retest_wait''"
definition SC_EXECUTABLE :: string where "SC_EXECUTABLE = ''executable''"
definition SC_PUBLISHED :: string where "SC_PUBLISHED = ''published''"
definition SC_INVALIDATED :: string where "SC_INVALIDATED = ''invalidated''"
definition SC_EXPIRED :: string where "SC_EXPIRED = ''expired''"
definition SC_MISSED :: string where "SC_MISSED = ''missed''"
definition SC_CANCELLED :: string where "SC_CANCELLED = ''cancelled''"
definition SC_COMPLETED :: string where "SC_COMPLETED = ''completed''"

lemmas scalp_states =
  SC_DISCOVERED_def SC_ARMED_def SC_TOUCHED_def SC_TRIGGERED_def SC_RETEST_WAIT_def SC_EXECUTABLE_def
  SC_PUBLISHED_def SC_INVALIDATED_def SC_EXPIRED_def SC_MISSED_def SC_CANCELLED_def SC_COMPLETED_def

definition ACTIVE_STATES :: "string list" where
  "ACTIVE_STATES =
     [SC_DISCOVERED, SC_ARMED, SC_TOUCHED, SC_TRIGGERED, SC_RETEST_WAIT, SC_EXECUTABLE, SC_PUBLISHED]"

definition TERMINAL_STATES_sc :: "string list" where
  "TERMINAL_STATES_sc = [SC_INVALIDATED, SC_EXPIRED, SC_MISSED, SC_CANCELLED, SC_COMPLETED]"

definition ALLOWED_sc :: "string \<rightharpoonup> string list" where
  "ALLOWED_sc = map_of
     [(SC_DISCOVERED, [SC_ARMED, SC_INVALIDATED, SC_EXPIRED, SC_CANCELLED]),
      (SC_ARMED, [SC_TOUCHED, SC_INVALIDATED, SC_EXPIRED, SC_CANCELLED, SC_MISSED]),
      (SC_TOUCHED, [SC_TRIGGERED, SC_RETEST_WAIT, SC_INVALIDATED, SC_EXPIRED, SC_MISSED, SC_CANCELLED]),
      (SC_TRIGGERED, [SC_EXECUTABLE, SC_RETEST_WAIT, SC_INVALIDATED, SC_EXPIRED, SC_MISSED, SC_CANCELLED]),
      (SC_RETEST_WAIT, [SC_TRIGGERED, SC_EXECUTABLE, SC_INVALIDATED, SC_EXPIRED, SC_MISSED, SC_CANCELLED]),
      (SC_EXECUTABLE, [SC_PUBLISHED, SC_INVALIDATED, SC_EXPIRED, SC_MISSED, SC_CANCELLED]),
      (SC_PUBLISHED, [SC_COMPLETED, SC_INVALIDATED, SC_CANCELLED])]"

section \<open>Records\<close>

record scalp_record =
  sl_opportunity_id :: string
  sl_episode_id :: string
  sl_state :: string
  sl_context_id :: string
  sl_updated_at :: int
  sl_reason_code :: string
  sl_measured :: "(string \<times> json) list"

definition sl_to_json :: "scalp_record \<Rightarrow> json" where
  "sl_to_json r = JObj
     [(''context_id'', JStr (sl_context_id r)),
      (''episode_id'', JStr (sl_episode_id r)),
      (''measured'', JObj (sl_measured r)),
      (''opportunity_id'', JStr (sl_opportunity_id r)),
      (''reason_code'', JStr (sl_reason_code r)),
      (''state'', JStr (sl_state r)),
      (''updated_at'', JInt (sl_updated_at r))]"

definition sl_from_json :: "json \<Rightarrow> scalp_record res" where
  "sl_from_json data =
     res_bind (res_bind (jindex data ''opportunity_id'') py_str) (\<lambda>opportunity_id.
     res_bind (res_bind (jget data ''episode_id'') (\<lambda>v. py_str (py_or v (JStr [])))) (\<lambda>episode_id.
     res_bind (res_bind (jindex data ''state'') py_str) (\<lambda>state.
     res_bind (res_bind (jget data ''context_id'') (\<lambda>v. py_str (py_or v (JStr [])))) (\<lambda>context_id.
     res_bind (res_bind (jindex data ''updated_at'') py_int) (\<lambda>updated_at.
     res_bind (res_bind (jget data ''reason_code'') (\<lambda>v. py_str (py_or v (JStr [])))) (\<lambda>reason_code.
     res_bind (res_bind (jget data ''measured'') (\<lambda>v. py_dict (py_or v (JObj [])))) (\<lambda>measured.
     Inr \<lparr>sl_opportunity_id = opportunity_id, sl_episode_id = episode_id, sl_state = state,
          sl_context_id = context_id, sl_updated_at = updated_at, sl_reason_code = reason_code,
          sl_measured = measured\<rparr>)))))))"

section \<open>Transition\<close>

definition transition_sc :: "scalp_record \<Rightarrow> string \<Rightarrow> string \<Rightarrow> int \<Rightarrow> scalp_record" where
  "transition_sc r new_state reason now =
     (let current = sl_state r in
      if current \<in> set TERMINAL_STATES_sc then r
      else (let allowed = (case ALLOWED_sc current of Some xs \<Rightarrow> xs | None \<Rightarrow> []) in
        if new_state \<notin> set allowed \<and> new_state \<notin> set TERMINAL_STATES_sc
        then r\<lparr>sl_updated_at := now, sl_reason_code := ''invalid_transition'',
               sl_measured := assoc_put ''from'' (JStr current)
                 (assoc_put ''attempted'' (JStr new_state) (sl_measured r))\<rparr>
        else r\<lparr>sl_state := new_state, sl_updated_at := now, sl_reason_code := reason\<rparr>))"

definition requires_rearm :: "rat \<Rightarrow> rat \<Rightarrow> rat \<Rightarrow> rat \<Rightarrow> bool" where
  "requires_rearm last_zone_mid price atr rearm_distance_atr =
     (if atr \<le> 0 then \<bar>price - last_zone_mid\<bar> > 0
      else \<bar>price - last_zone_mid\<bar> \<ge> rearm_distance_atr * atr)"

section \<open>Storage\<close>

definition lifecycle_key_sc :: "string \<Rightarrow> string \<Rightarrow> string" where
  "lifecycle_key_sc symbol opportunity_id = ''scalp:lifecycle:'' @ str_upper symbol @ '':'' @ opportunity_id"

definition active_key :: "string \<Rightarrow> string" where
  "active_key symbol = ''scalp:active:'' @ str_upper symbol"

definition save_lifecycle :: "string \<Rightarrow> scalp_record \<Rightarrow> unit prog" where
  "save_lifecycle symbol r =
     pbind (run_cmd (SET (lifecycle_key_sc symbol (sl_opportunity_id r)) (Doc (sl_to_json r)) None False)) (\<lambda>_.
     if sl_state r \<in> set ACTIVE_STATES
     then run_cmd (SADD (active_key symbol) [sl_opportunity_id r])
     else run_cmd (SREM (active_key symbol) [sl_opportunity_id r]))"

definition load_lifecycle :: "string \<Rightarrow> string \<Rightarrow> scalp_record option prog" where
  "load_lifecycle symbol opportunity_id =
     pbind (rget (lifecycle_key_sc symbol opportunity_id)) (\<lambda>raw.
     case raw of
       None \<Rightarrow> Done None
     | Some t \<Rightarrow> pbind (of_res (res_bind (json_loads t) sl_from_json)) (\<lambda>r. Done (Some r)))"

definition STALE_ARMED_STATES :: "string list" where
  "STALE_ARMED_STATES = [SC_DISCOVERED, SC_ARMED]"

definition DEFAULT_STALE_ARMED_SEC :: int where "DEFAULT_STALE_ARMED_SEC = 15 * 60"

definition prune_member :: "string \<Rightarrow> int \<Rightarrow> int \<Rightarrow> string \<Rightarrow> int \<Rightarrow> int prog" where
  "prune_member symbol now max_age_sec oid pruned =
     pbind (load_lifecycle symbol oid) (\<lambda>loaded.
     case loaded of
       None \<Rightarrow> pbind (run_cmd (SREM (active_key symbol) [oid])) (\<lambda>_. Done (pruned + 1))
     | Some r \<Rightarrow>
         if sl_state r \<notin> set STALE_ARMED_STATES then Done pruned
         else if now - sl_updated_at r < max_age_sec then Done pruned
         else pbind (save_lifecycle symbol (transition_sc r SC_EXPIRED ''stale_armed_expired'' now))
                (\<lambda>_. Done (pruned + 1)))"

definition prune_stale_active :: "string \<Rightarrow> int \<Rightarrow> int \<Rightarrow> int prog" where
  "prune_stale_active symbol now max_age_sec =
     pbind (rmembers (active_key symbol)) (\<lambda>raw_ids.
     if raw_ids = [] then Done 0
     else pfor raw_ids (prune_member symbol now max_age_sec) 0)"

section \<open>Lemmas\<close>

lemma sl_json_roundtrip: "sl_from_json (sl_to_json r) = Inr r"
proof -
  have "py_str (py_or (JStr x) (JStr [])) = Inr x" "py_dict (py_or (JObj kv) (JObj [])) = Inr kv" for x kv
    by (cases kv; simp add: py_or_def)+
  then show ?thesis by (simp add: sl_from_json_def sl_to_json_def)
qed

lemma scalp_keys [simp]:
  "lifecycle_key_sc s i \<noteq> active_key t" "active_key t \<noteq> lifecycle_key_sc s i"
  "lifecycle_key_sc s i = lifecycle_key_sc s j \<longleftrightarrow> i = j"
  by (auto simp: lifecycle_key_sc_def active_key_def)

lemma scalp_disjoint: "st \<in> set ACTIVE_STATES \<Longrightarrow> st \<notin> set TERMINAL_STATES_sc"
proof -
  have "list_all (\<lambda>st. st \<notin> set TERMINAL_STATES_sc) ACTIVE_STATES" by code_simp
  then show "st \<in> set ACTIVE_STATES \<Longrightarrow> st \<notin> set TERMINAL_STATES_sc" by (simp add: list_all_iff)
qed

lemma stale_active: "st \<in> set STALE_ARMED_STATES \<Longrightarrow> st \<notin> set TERMINAL_STATES_sc"
  by (rule scalp_disjoint) (auto simp: STALE_ARMED_STATES_def ACTIVE_STATES_def)

lemma expired_terminal: "SC_EXPIRED \<in> set TERMINAL_STATES_sc" "SC_EXPIRED \<notin> set ACTIVE_STATES"
proof -
  show t: "SC_EXPIRED \<in> set TERMINAL_STATES_sc" by (simp add: TERMINAL_STATES_sc_def)
  with scalp_disjoint show "SC_EXPIRED \<notin> set ACTIVE_STATES" by blast
qed

text \<open>The records of a symbol as the keyspace holds them.\<close>

definition scalp_at :: "keyspace \<Rightarrow> string \<Rightarrow> string \<Rightarrow> scalp_record option \<Rightarrow> bool" where
  "scalp_at K symbol oid x \<longleftrightarrow>
     (case x of
        None \<Rightarrow> K (lifecycle_key_sc symbol oid) = None
      | Some r \<Rightarrow> sl_opportunity_id r = oid \<and> (\<exists>e. K (lifecycle_key_sc symbol oid) = Some (VStr (Doc (sl_to_json r)) e)))"

definition scalp_view :: "keyspace \<Rightarrow> string \<Rightarrow> (string \<Rightarrow> scalp_record option) \<Rightarrow> bool" where
  "scalp_view K symbol recs \<longleftrightarrow> set_key K (active_key symbol) \<and> (\<forall>oid. scalp_at K symbol oid (recs oid))"

context redis
begin

lemma run_load_scalp:
  assumes "scalp_at (ks s) symbol oid x"
  shows "run exec (pbind (load_lifecycle symbol oid) f) s =
    run exec (f x) (snd (exec (GET (lifecycle_key_sc symbol oid)) s))"
proof -
  have k: "str_key (ks s) (lifecycle_key_sc symbol oid)"
    "k_text (ks s) (lifecycle_key_sc symbol oid) = map_option (\<lambda>r. Doc (sl_to_json r)) x"
    using assms by (auto simp: scalp_at_def str_key_def k_text_def split: option.splits)
  show ?thesis
    by (cases x) (simp_all add: load_lifecycle_def run_get[OF k(1)] k(2) sl_json_roundtrip)
qed

lemma run_save_scalp:
  assumes "scalp_view (ks s) symbol recs"
  shows "\<exists>s'. run exec (save_lifecycle symbol r) s = (Inr (), s') \<and>
     scalp_view (ks s') symbol (recs(sl_opportunity_id r \<mapsto> r)) \<and>
     set (k_set (ks s') (active_key symbol)) =
       (if sl_state r \<in> set ACTIVE_STATES then insert (sl_opportunity_id r) else (\<lambda>A. A - {sl_opportunity_id r}))
         (set (k_set (ks s) (active_key symbol)))"
proof -
  let ?k = "lifecycle_key_sc symbol (sl_opportunity_id r)" and ?a = "active_key symbol"
  define s1 where "s1 = snd (exec (SET ?k (Doc (sl_to_json r)) None False) s)"
  have k1: "ks s1 = (ks s)(?k \<mapsto> VStr (Doc (sl_to_json r)) None)" by (simp add: s1_def ks_write)
  have a1: "set_key (ks s1) ?a" "k_set (ks s1) ?a = k_set (ks s) ?a"
    using assms by (simp_all add: k1 scalp_view_def k_set_upd)
  define c where "c = (if sl_state r \<in> set ACTIVE_STATES then SADD ?a [sl_opportunity_id r] else SREM ?a [sl_opportunity_id r])"
  define s2 where "s2 = snd (exec c s1)"
  have k2: "ks s2 = put_set (ks s1) ?a ((if sl_state r \<in> set ACTIVE_STATES then add_member else del_member)
      (k_set (ks s) ?a) (sl_opportunity_id r))"
    using a1 by (simp add: s2_def c_def ks_write ks_srem)
  have "run exec (save_lifecycle symbol r) s = (Inr (), s2)"
    using a1(1) by (simp add: save_lifecycle_def run_set s1_def[symmetric] s2_def c_def run_sset_last)
  moreover have "scalp_view (ks s2) symbol (recs(sl_opportunity_id r \<mapsto> r))"
    unfolding scalp_view_def
  proof (intro conjI allI)
    show "set_key (ks s2) ?a" by (simp add: k2)
    fix oid
    have "scalp_at (ks s) symbol oid (recs oid)" using assms by (simp add: scalp_view_def)
    then show "scalp_at (ks s2) symbol oid ((recs(sl_opportunity_id r \<mapsto> r)) oid)"
      by (cases "oid = sl_opportunity_id r"; cases "recs oid") (simp_all add: scalp_at_def k2 k1)
  qed
  moreover have "set (k_set (ks s2) ?a) =
      (if sl_state r \<in> set ACTIVE_STATES then insert (sl_opportunity_id r) else (\<lambda>A. A - {sl_opportunity_id r}))
         (set (k_set (ks s) ?a))"
    by (simp add: k2 k_put_set set_add_member set_del_member)
  ultimately show ?thesis by blast
qed

end

subsection \<open>Sweeping the active set\<close>

text \<open>The body both sweeps share: a member without a record is dropped, one that is dead is replaced.\<close>

definition sweep_body ::
  "string \<Rightarrow> (scalp_record \<Rightarrow> bool) \<Rightarrow> (scalp_record \<Rightarrow> scalp_record) \<Rightarrow> string \<Rightarrow> int \<Rightarrow> int prog" where
  "sweep_body symbol dead upd oid n =
     pbind (load_lifecycle symbol oid) (\<lambda>loaded.
     case loaded of
       None \<Rightarrow> pbind (run_cmd (SREM (active_key symbol) [oid])) (\<lambda>_. Done (n + 1))
     | Some r \<Rightarrow> if \<not> dead r then Done n else pbind (save_lifecycle symbol (upd r)) (\<lambda>_. Done (n + 1)))"

definition gone :: "(scalp_record \<Rightarrow> bool) \<Rightarrow> (string \<Rightarrow> scalp_record option) \<Rightarrow> string \<Rightarrow> bool" where
  "gone dead recs oid \<longleftrightarrow> (case recs oid of None \<Rightarrow> True | Some r \<Rightarrow> dead r)"

definition swept ::
  "(scalp_record \<Rightarrow> bool) \<Rightarrow> (scalp_record \<Rightarrow> scalp_record) \<Rightarrow> string set \<Rightarrow>
   (string \<Rightarrow> scalp_record option) \<Rightarrow> string \<Rightarrow> scalp_record option" where
  "swept dead upd ids recs oid =
     (case recs oid of None \<Rightarrow> None | Some r \<Rightarrow> Some (if oid \<in> ids \<and> dead r then upd r else r))"

context redis
begin

lemma run_sweep_body:
  assumes "scalp_view (ks s) symbol recs"
    "\<And>r. dead r \<Longrightarrow> sl_opportunity_id (upd r) = sl_opportunity_id r \<and> sl_state (upd r) \<notin> set ACTIVE_STATES"
  shows "\<exists>s'. run exec (sweep_body symbol dead upd oid n) s =
        (Inr (if gone dead recs oid then n + 1 else n), s') \<and>
     scalp_view (ks s') symbol (swept dead upd {oid} recs) \<and>
     set (k_set (ks s') (active_key symbol)) =
       (if gone dead recs oid then set (k_set (ks s) (active_key symbol)) - {oid} else set (k_set (ks s) (active_key symbol)))"
proof -
  define s1 where "s1 = snd (exec (GET (lifecycle_key_sc symbol oid)) s)"
  have k1: "ks s1 = ks s" by (simp add: s1_def)
  have at: "scalp_at (ks s) symbol oid (recs oid)" using assms(1) by (simp add: scalp_view_def)
  note load = run_load_scalp[OF at, folded s1_def]
  consider (none) "recs oid = None" | (live) r where "recs oid = Some r" "\<not> dead r" | (dead) r where "recs oid = Some r" "dead r"
    by (cases "recs oid") auto
  then show ?thesis
  proof cases
    case none
    have sk: "set_key (ks s1) (active_key symbol)" using assms(1) by (simp add: k1 scalp_view_def)
    define s2 where "s2 = snd (exec (SREM (active_key symbol) [oid]) s1)"
    have k2: "ks s2 = put_set (ks s) (active_key symbol) (del_member (k_set (ks s) (active_key symbol)) oid)"
      using ks_srem[OF sk, of "[oid]"] by (simp add: s2_def k1)
    have sw: "swept dead upd {oid} recs = recs" using none by (auto simp: swept_def fun_eq_iff split: option.splits)
    have "scalp_view (ks s2) symbol recs"
      using assms(1) by (simp add: scalp_view_def scalp_at_def k2 cong: option.case_cong)
    with none sw show ?thesis
      by (intro exI[of _ s2]) (simp add: sweep_body_def load run_srem[OF sk] s2_def[symmetric] gone_def k2)
  next
    case live
    then have "swept dead upd {oid} recs = recs" by (auto simp: swept_def fun_eq_iff split: option.splits)
    with live show ?thesis
      using assms(1) by (intro exI[of _ s1]) (simp add: sweep_body_def load gone_def k1)
  next
    case dead
    have oid: "sl_opportunity_id (upd r) = oid" "sl_state (upd r) \<notin> set ACTIVE_STATES"
      using at dead assms(2)[OF dead(2)] by (simp_all add: scalp_at_def)
    have "scalp_view (ks s1) symbol recs" using assms(1) by (simp add: k1)
    from run_save_scalp[OF this, of "upd r"] oid obtain s2 where s2:
      "run exec (save_lifecycle symbol (upd r)) s1 = (Inr (), s2)"
      "scalp_view (ks s2) symbol (recs(oid \<mapsto> upd r))"
      "set (k_set (ks s2) (active_key symbol)) = set (k_set (ks s1) (active_key symbol)) - {oid}" by auto
    have "swept dead upd {oid} recs = recs(oid \<mapsto> upd r)"
      using dead by (auto simp: swept_def fun_eq_iff split: option.splits)
    with dead s2 show ?thesis
      using load[where f = Done] by (intro exI[of _ s2]) (simp add: sweep_body_def run_pbind gone_def k1)
  qed
qed

lemma run_sweep:
  assumes "scalp_view (ks s) symbol recs" "distinct ids"
    "\<And>r. dead r \<Longrightarrow> sl_opportunity_id (upd r) = sl_opportunity_id r \<and> sl_state (upd r) \<notin> set ACTIVE_STATES"
  shows "\<exists>s'. run exec (pfor ids (sweep_body symbol dead upd) n) s =
        (Inr (n + int (length (filter (gone dead recs) ids))), s') \<and>
     scalp_view (ks s') symbol (swept dead upd (set ids) recs) \<and>
     set (k_set (ks s') (active_key symbol)) =
       set (k_set (ks s) (active_key symbol)) - {oid \<in> set ids. gone dead recs oid}"
  using assms(1,2)
proof (induction ids arbitrary: s recs n)
  case Nil
  have "swept dead upd {} recs = recs" by (auto simp: swept_def fun_eq_iff split: option.splits)
  with Nil show ?case by simp
next
  case (Cons oid ids)
  from run_sweep_body[OF Cons.prems(1) assms(3), where n = n and oid = oid] obtain s1 where s1:
    "run exec (sweep_body symbol dead upd oid n) s = (Inr (if gone dead recs oid then n + 1 else n), s1)"
    "scalp_view (ks s1) symbol (swept dead upd {oid} recs)"
    "set (k_set (ks s1) (active_key symbol)) =
       (if gone dead recs oid then set (k_set (ks s) (active_key symbol)) - {oid} else set (k_set (ks s) (active_key symbol)))"
    by blast
  have other: "gone dead (swept dead upd {oid} recs) x = gone dead recs x" if "x \<in> set ids" for x
    using that Cons.prems(2) by (auto simp: gone_def swept_def split: option.splits)
  have comp: "swept dead upd (set ids) (swept dead upd {oid} recs) = swept dead upd (set (oid # ids)) recs"
    using Cons.prems(2) by (auto simp: swept_def fun_eq_iff split: option.splits)
  have len: "filter (gone dead (swept dead upd {oid} recs)) ids = filter (gone dead recs) ids"
    using other by (rule filter_cong[OF refl])
  have dist: "distinct ids" using Cons.prems(2) by simp
  from Cons.IH[OF s1(2) dist, of "if gone dead recs oid then n + 1 else n"] obtain s2 where s2:
    "run exec (pfor ids (sweep_body symbol dead upd) (if gone dead recs oid then n + 1 else n)) s1 =
       (Inr ((if gone dead recs oid then n + 1 else n) + int (length (filter (gone dead recs) ids))), s2)"
    "scalp_view (ks s2) symbol (swept dead upd (set (oid # ids)) recs)"
    "set (k_set (ks s2) (active_key symbol)) = set (k_set (ks s1) (active_key symbol)) -
       {x \<in> set ids. gone dead (swept dead upd {oid} recs) x}"
    unfolding len comp by blast
  show ?case
    using s2(2,3) other s1(3) by (intro exI[of _ s2]) (auto simp: run_pbind s1(1) s2(1))
qed

end

section \<open>The pruning of stale armed records\<close>

text \<open>Old enough in a state that waits for its entry.\<close>

definition stale :: "int \<Rightarrow> int \<Rightarrow> scalp_record \<Rightarrow> bool" where
  "stale now max_age_sec r \<longleftrightarrow>
     sl_state r \<in> set STALE_ARMED_STATES \<and> now - sl_updated_at r \<ge> max_age_sec"

definition expired_record :: "int \<Rightarrow> scalp_record \<Rightarrow> scalp_record" where
  "expired_record now r =
     r\<lparr>sl_state := SC_EXPIRED, sl_updated_at := now, sl_reason_code := ''stale_armed_expired''\<rparr>"

lemma transition_expired:
  "sl_state r \<in> set STALE_ARMED_STATES \<Longrightarrow>
   transition_sc r SC_EXPIRED ''stale_armed_expired'' now = expired_record now r"
  using stale_active expired_terminal by (simp add: transition_sc_def expired_record_def Let_def)

lemma prune_member_sweep:
  "prune_member symbol now age = sweep_body symbol (stale now age) (expired_record now)"
proof -
  have "(case x of None \<Rightarrow> p | Some r \<Rightarrow>
           if sl_state r \<notin> set STALE_ARMED_STATES then Done n
           else if now - sl_updated_at r < age then Done n
           else pbind (save_lifecycle symbol (transition_sc r SC_EXPIRED ''stale_armed_expired'' now)) (\<lambda>_. Done (n + 1))) =
        (case x of None \<Rightarrow> p | Some r \<Rightarrow>
           if \<not> stale now age r then Done n else pbind (save_lifecycle symbol (expired_record now r)) (\<lambda>_. Done (n + 1)))"
    for x n and p :: "int prog"
    by (cases x) (auto simp: stale_def transition_expired)
  then show ?thesis by (simp add: prune_member_def sweep_body_def fun_eq_iff)
qed

context redis
begin

lemma run_prune:
  assumes "scalp_view (ks s) symbol recs"
  shows "\<exists>s'. run exec (prune_stale_active symbol now age) s =
      (Inr (int (card {oid \<in> set (k_set (ks s) (active_key symbol)). gone (stale now age) recs oid})), s') \<and>
    scalp_view (ks s') symbol
      (swept (stale now age) (expired_record now) (set (k_set (ks s) (active_key symbol))) recs) \<and>
    set (k_set (ks s') (active_key symbol)) =
      {oid \<in> set (k_set (ks s) (active_key symbol)). \<not> gone (stale now age) recs oid}"
proof -
  let ?A = "set (k_set (ks s) (active_key symbol))" and ?s1 = "snd (exec (SMEMBERS (active_key symbol)) s)"
  have "set_key (ks s) (active_key symbol)" using assms by (simp add: scalp_view_def)
  from run_members[OF this, where f = "\<lambda>ids. if ids = [] then Done 0 else pfor ids (prune_member symbol now age) 0"]
  obtain ids where ids: "distinct ids" "set ids = ?A"
    "run exec (prune_stale_active symbol now age) s =
       run exec (if ids = [] then Done 0 else pfor ids (prune_member symbol now age) 0) ?s1"
    unfolding prune_stale_active_def by blast
  have body: "(if ids = [] then Done 0 else pfor ids (prune_member symbol now age) 0) =
      pfor ids (sweep_body symbol (stale now age) (expired_record now)) 0"
    by (simp add: prune_member_sweep)
  have upd: "sl_opportunity_id (expired_record now r) = sl_opportunity_id r \<and>
      sl_state (expired_record now r) \<notin> set ACTIVE_STATES" for r
    using expired_terminal by (simp add: expired_record_def)
  have "scalp_view (ks ?s1) symbol recs" using assms by simp
  from run_sweep[OF this ids(1) upd, where dead = "stale now age" and n = 0] obtain s' where s':
    "run exec (pfor ids (sweep_body symbol (stale now age) (expired_record now)) 0) ?s1 =
       (Inr (int (length (filter (gone (stale now age) recs) ids))), s')"
    "scalp_view (ks s') symbol (swept (stale now age) (expired_record now) ?A recs)"
    "set (k_set (ks s') (active_key symbol)) = ?A - {oid \<in> ?A. gone (stale now age) recs oid}"
    by (auto simp: ids(2))
  have "length (filter (gone (stale now age) recs) ids) = card {oid \<in> ?A. gone (stale now age) recs oid}"
    using distinct_card[OF distinct_filter[OF ids(1), of "gone (stale now age) recs"]] by (simp add: ids(2))
  with s' show ?thesis by (intro exI[of _ s']) (auto simp: ids(3) body)
qed

end

text \<open>Pruning the active opportunities of a symbol: the sweep returns the number of active ids whose
  record is missing or stale, replaces exactly the stale records of active ids by their expired form,
  leaves every other record as it is, and removes exactly the counted ids from the active set.\<close>

theorem prune_exact:
  assumes "redis exec ks" "scalp_view (ks s) symbol recs"
  shows "\<exists>s'. run exec (prune_stale_active symbol now age) s =
      (Inr (int (card {oid \<in> set (k_set (ks s) (active_key symbol)). gone (stale now age) recs oid})), s') \<and>
    scalp_view (ks s') symbol
      (swept (stale now age) (expired_record now) (set (k_set (ks s) (active_key symbol))) recs) \<and>
    set (k_set (ks s') (active_key symbol)) =
      {oid \<in> set (k_set (ks s) (active_key symbol)). \<not> gone (stale now age) recs oid}"
  using assms by (rule redis.run_prune)

definition demo_scalp :: scalp_record where
  "demo_scalp = \<lparr>sl_opportunity_id = ''o1'', sl_episode_id = ''e1'', sl_state = SC_ARMED, sl_context_id = ''c1'',
     sl_updated_at = 100, sl_reason_code = [], sl_measured = []\<rparr>"

definition demo_scalp_keys :: keyspace where
  "demo_scalp_keys = [lifecycle_key_sc ''XAU'' ''o1'' \<mapsto> VStr (Doc (sl_to_json demo_scalp)) None,
     active_key ''XAU'' \<mapsto> VSet [''o1'', ''o2'']]"

lemma prune_exact_witness:
  "\<exists>K. run mem_exec (prune_stale_active ''XAU'' 1000 900) demo_scalp_keys = (Inr 2, K) \<and>
     k_set K (active_key ''XAU'') = []"
proof -
  have view: "scalp_view demo_scalp_keys ''XAU'' [''o1'' \<mapsto> demo_scalp]"
    by (auto simp: scalp_view_def scalp_at_def demo_scalp_keys_def set_key_def demo_scalp_def)
  have set: "k_set demo_scalp_keys (active_key ''XAU'') = [''o1'', ''o2'']"
    by (simp add: demo_scalp_keys_def k_set_def)
  have "stale 1000 900 demo_scalp" by (simp add: stale_def demo_scalp_def STALE_ARMED_STATES_def)
  then have g: "{oid \<in> set [''o1'', ''o2'']. gone (stale 1000 900) [''o1'' \<mapsto> demo_scalp] oid} = {''o1'', ''o2''}"
    "{oid \<in> set [''o1'', ''o2'']. \<not> gone (stale 1000 900) [''o1'' \<mapsto> demo_scalp] oid} = {}"
    by (auto simp: gone_def)
  show ?thesis
    using prune_exact[where ks = "\<lambda>K. K", OF mem.redis_axioms view, of 1000 900]
    unfolding set g by auto
qed

section \<open>Runs of transitions\<close>

text \<open>The states an opportunity shows while transitions are requested one after the other.\<close>

primrec scalp_states_of :: "scalp_record \<Rightarrow> (string \<times> string \<times> int) list \<Rightarrow> string list" where
  "scalp_states_of r [] = [sl_state r]"
| "scalp_states_of r (q # qs) =
     sl_state r # scalp_states_of (transition_sc r (fst q) (fst (snd q)) (snd (snd q))) qs"

text \<open>The stages that must have been passed before a state is shown.\<close>

definition stages :: "string \<Rightarrow> string list" where
  "stages st =
     (if st = SC_DISCOVERED then [SC_DISCOVERED]
      else if st = SC_ARMED then [SC_DISCOVERED, SC_ARMED]
      else if st = SC_TOUCHED \<or> st = SC_TRIGGERED \<or> st = SC_RETEST_WAIT then [SC_DISCOVERED, SC_ARMED, SC_TOUCHED]
      else if st = SC_EXECUTABLE then [SC_DISCOVERED, SC_ARMED, SC_TOUCHED, SC_EXECUTABLE]
      else if st = SC_PUBLISHED then [SC_DISCOVERED, SC_ARMED, SC_TOUCHED, SC_EXECUTABLE, SC_PUBLISHED]
      else [])"

lemma stages_edges:
  assumes "ALLOWED_sc c = Some xs" "n \<in> set xs"
  shows "stages n = [] \<or> stages n = stages c \<or> stages n = stages c @ [n]"
proof -
  have all: "list_all (\<lambda>c. case ALLOWED_sc c of None \<Rightarrow> True | Some xs \<Rightarrow>
      list_all (\<lambda>n. stages n = [] \<or> stages n = stages c \<or> stages n = stages c @ [n]) xs) ACTIVE_STATES"
    by code_simp
  have "c \<in> set ACTIVE_STATES"
    using assms(1) by (auto simp: ALLOWED_sc_def ACTIVE_STATES_def split: if_splits)
  with all have "case ALLOWED_sc c of None \<Rightarrow> True | Some xs \<Rightarrow>
      list_all (\<lambda>n. stages n = [] \<or> stages n = stages c \<or> stages n = stages c @ [n]) xs"
    unfolding list_all_iff by blast
  with assms show ?thesis by (auto simp: list_all_iff)
qed

lemma stages_terminal: "n \<in> set TERMINAL_STATES_sc \<Longrightarrow> stages n = []"
proof -
  have "list_all (\<lambda>n. stages n = []) TERMINAL_STATES_sc" by code_simp
  then show "n \<in> set TERMINAL_STATES_sc \<Longrightarrow> stages n = []" by (simp add: list_all_iff)
qed

lemma stages_step:
  fixes r n reason now
  defines "t \<equiv> sl_state (transition_sc r n reason now)"
  shows "stages t = [] \<or> stages t = stages (sl_state r) \<or> stages t = stages (sl_state r) @ [t]"
proof (cases "t = sl_state r")
  case False
  then have "t = n" and n: "n \<in> set TERMINAL_STATES_sc \<or> (\<exists>xs. ALLOWED_sc (sl_state r) = Some xs \<and> n \<in> set xs)"
    by (auto simp: t_def transition_sc_def Let_def split: if_splits option.splits)
  then show ?thesis using stages_edges stages_terminal by blast
qed simp

lemma stages_passed:
  assumes "subseq (stages (sl_state r)) (pre @ [sl_state r])"
  shows "subseq (stages (last (scalp_states_of r qs))) (pre @ scalp_states_of r qs)"
  using assms
proof (induction qs arbitrary: r pre)
  case (Cons q qs)
  let ?r = "transition_sc r (fst q) (fst (snd q)) (snd (snd q))"
  have "subseq (stages (sl_state ?r)) ((pre @ [sl_state r]) @ [sl_state ?r])"
  proof -
    have sub: "subseq (stages (sl_state r)) (pre @ [sl_state r])" by (rule Cons.prems)
    consider "stages (sl_state ?r) = []" | "stages (sl_state ?r) = stages (sl_state r)"
      | "stages (sl_state ?r) = stages (sl_state r) @ [sl_state ?r]"
      using stages_step[of r "fst q" "fst (snd q)" "snd (snd q)"] by blast
    then show ?thesis
    proof cases
      case 2
      show ?thesis unfolding 2
        using list_emb_append_mono[OF sub, of "[]" "[sl_state ?r]"] by simp
    next
      case 3
      show ?thesis unfolding 3 by (rule list_emb_append_mono[OF sub subseq_order.order_refl])
    qed simp
  qed
  from Cons.IH[OF this] show ?case by (cases qs) auto
qed simp

text \<open>An opportunity that starts as discovered and is shown as published has been shown as armed,
  as touched and as executable before, in this order, whatever transitions were requested.\<close>

theorem published_passed_every_stage:
  assumes "sl_state r = SC_DISCOVERED" "last (scalp_states_of r qs) = SC_PUBLISHED"
  shows "subseq [SC_DISCOVERED, SC_ARMED, SC_TOUCHED, SC_EXECUTABLE, SC_PUBLISHED] (scalp_states_of r qs)"
proof -
  have "stages SC_PUBLISHED = [SC_DISCOVERED, SC_ARMED, SC_TOUCHED, SC_EXECUTABLE, SC_PUBLISHED]"
    "stages SC_DISCOVERED = [SC_DISCOVERED]" by code_simp+
  then show ?thesis using stages_passed[of r "[]" qs] assms by simp
qed

definition demo_requests :: "(string \<times> string \<times> int) list" where
  "demo_requests = [(SC_ARMED, [], 1), (SC_PUBLISHED, [], 2), (SC_TOUCHED, [], 3), (SC_TRIGGERED, [], 4),
     (SC_EXECUTABLE, [], 5), (SC_PUBLISHED, [], 6)]"

lemma published_passed_every_stage_witness:
  "subseq [SC_DISCOVERED, SC_ARMED, SC_TOUCHED, SC_EXECUTABLE, SC_PUBLISHED]
     (scalp_states_of (demo_scalp\<lparr>sl_state := SC_DISCOVERED\<rparr>) demo_requests)"
proof -
  have "last (scalp_states_of (demo_scalp\<lparr>sl_state := SC_DISCOVERED\<rparr>) demo_requests) = SC_PUBLISHED" by code_simp
  then show ?thesis by (intro published_passed_every_stage) simp_all
qed

text \<open>A terminal target is accepted in every state, also where the table does not list it.\<close>

lemma completed_without_entry:
  "sl_state (transition_sc (demo_scalp\<lparr>sl_state := SC_DISCOVERED\<rparr>) SC_COMPLETED [] 1) = SC_COMPLETED"
  "ALLOWED_sc SC_DISCOVERED = Some [SC_ARMED, SC_INVALIDATED, SC_EXPIRED, SC_CANCELLED]"
  by code_simp+

end
