(* ===== verification/FormingCard.thy ===== *)
theory FormingCard
  imports SetupLifecycle
begin

text \<open>
  The Telegram card of a setup as Redis remembers it (the storage part of \<open>app/autotrade/setup_card.py\<close>):
  its address and text, the status it shows with a priority, the marker of a status that waits for
  its card, and the closing of a card. Telegram is the parameter \<open>telegram\<close>: what an edit and a deletion answer. The
  texts that \<open>apply_forming_card_status\<close> writes on the disabled deletion path are its field \<open>tg_terminal_text\<close>.
\<close>

section \<open>Statuses\<close>

definition CARD_STATUS_PRIORITY :: "string \<rightharpoonup> int" where
  "CARD_STATUS_PRIORITY = map_of
     [(''analysis_only'', 0), (''queued'', 10), (''preflight'', 20), (''waiting_retest'', 30),
      (''trigger_ready'', 40), (''plan_published'', 100), (''executor_armed'', 120), (''order_filled'', 150),
      (''sl_moved'', 155), (''tp_booked'', 160), (''plan_expired'', 200), (''plan_cancelled'', 200),
      (''plan_rejected'', 200), (''terminal'', 200)]"

definition card_status_priority :: "string \<Rightarrow> int \<Rightarrow> int" where
  "card_status_priority state d = (case CARD_STATUS_PRIORITY state of Some p \<Rightarrow> p | None \<Rightarrow> d)"

definition infer_status_state :: "string \<Rightarrow> string" where
  "infer_status_state status_line =
     (let u = str_upper status_line in
      if str_contains u ''ORDER ACTIVATED'' \<or> str_contains u ''POSITION ACTIVATED'' \<or> str_contains u ''ORDER FILLED''
      then ''order_filled''
      else if str_contains u ''EXECUTOR ARMED'' then ''executor_armed''
      else if str_contains u ''PLAN EXPIRED'' then ''plan_expired''
      else if str_contains u ''PLAN CANCELLED'' then ''plan_cancelled''
      else if str_contains u ''PLAN REJECTED'' then ''plan_rejected''
      else if str_contains u ''PLAN PUBLISHED'' then ''plan_published''
      else if str_contains u ''TRIGGER READY'' then ''trigger_ready''
      else if str_contains u ''WAITING RETEST'' then ''waiting_retest''
      else if str_contains u ''PREFLIGHT'' then ''preflight''
      else if str_contains u ''QUEUED'' then ''queued''
      else if str_contains u ''ANALYSIS ONLY'' then ''analysis_only''
      else if str_contains u ''CLOSED'' \<or> str_contains u ''TERMINAL'' then ''terminal''
      else ''analysis_only'')"

definition stop_tokens :: "string list" where
  "stop_tokens =
     [''ORDER ACTIVATED'', ''POSITION ACTIVATED'', ''ORDER FILLED'', ''TERMINAL'', ''CLOSED'', ''TP BOOKED'',
      ''GROUP STOP'', ''STOP LOSS'', ''SL HIT'', ''PLAN EXPIRED'', ''PLAN REJECTED'', ''PLAN CANCELLED'']"

definition should_stop_forming_price_track :: "string \<Rightarrow> string option \<Rightarrow> bool" where
  "should_stop_forming_price_track t status_state \<longleftrightarrow>
     list_ex (\<lambda>tok. str_contains (str_upper t) tok) stop_tokens \<or>
     card_status_priority (case status_state of None \<Rightarrow> [] | Some st \<Rightarrow> st) (-1) \<ge> 150"

definition FORMING_ACTIVE_INDEX_KEY :: string where
  "FORMING_ACTIVE_INDEX_KEY = ''auto_trade:forming_active''"

definition forming_message_key :: "string \<Rightarrow> string" where
  "forming_message_key setup_id = ''auto_trade:forming_message:'' @ setup_id"

definition telegram_root_message_key :: "string \<Rightarrow> string" where
  "telegram_root_message_key setup_id = ''auto_trade:telegram_root:'' @ setup_id"

definition forming_status_key :: "string \<Rightarrow> string" where
  "forming_status_key setup_id = ''auto_trade:forming_status:'' @ setup_id"

definition forming_reconcile_pending_key :: "string \<Rightarrow> string" where
  "forming_reconcile_pending_key setup_id = ''auto_trade:forming_reconcile_pending:'' @ setup_id"

definition should_delete_root_on_terminal :: bool where
  "should_delete_root_on_terminal = False"

record card_config =
  cc_storage_ttl_seconds :: int
  cc_telegram_owner_id :: int

text \<open>\<open>ttl or max(86400, storage_ttl_seconds)\<close>.\<close>

definition card_ttl :: "card_config \<Rightarrow> int option \<Rightarrow> int" where
  "card_ttl cfg ttl = (case ttl of Some t \<Rightarrow> if t = 0 then max 86400 (cc_storage_ttl_seconds cfg) else t
     | None \<Rightarrow> max 86400 (cc_storage_ttl_seconds cfg))"

section \<open>The waiting marker\<close>

definition pending_created_at :: "int \<Rightarrow> rtext option \<Rightarrow> int" where
  "pending_created_at now raw =
     (case raw of
        Some (Doc (JObj existing)) \<Rightarrow>
          (case map_of existing ''created_at'' of
             Some v \<Rightarrow> if py_truthy v then (case py_int v of Inr i \<Rightarrow> i | Inl _ \<Rightarrow> now) else now
           | None \<Rightarrow> now)
      | _ \<Rightarrow> now)"

definition save_forming_reconcile_pending ::
  "int \<Rightarrow> string \<Rightarrow> string \<Rightarrow> int \<Rightarrow> string \<Rightarrow> string option \<Rightarrow> unit prog" where
  "save_forming_reconcile_pending now setup_id status_line priority reason_code event_id =
     pbind (rget (forming_reconcile_pending_key setup_id)) (\<lambda>raw.
     run_cmd (SET (forming_reconcile_pending_key setup_id)
       (Doc (JObj [(''version'', JInt 1), (''setup_id'', JStr setup_id),
          (''requested_state'', JStr (infer_status_state status_line)), (''status_line'', JStr status_line),
          (''priority'', JInt priority), (''reason_code'', JStr reason_code), (''event_id'', j_opt_str event_id),
          (''created_at'', JInt (pending_created_at now raw)), (''updated_at'', JInt now)]))
       (Some 900) False))"

definition load_forming_reconcile_pending :: "string \<Rightarrow> (string \<times> json) list option prog" where
  "load_forming_reconcile_pending setup_id =
     pbind (rget (forming_reconcile_pending_key setup_id)) (\<lambda>raw.
     Done (case raw of Some (Doc (JObj kv)) \<Rightarrow> Some kv | _ \<Rightarrow> None))"

definition clear_forming_reconcile_pending :: "string \<Rightarrow> unit prog" where
  "clear_forming_reconcile_pending setup_id = run_cmd (DEL (forming_reconcile_pending_key setup_id))"

section \<open>The status\<close>

record forming_card_status =
  fs_state :: string
  fs_status_line :: string
  fs_priority :: int

definition inferred_status :: "string \<Rightarrow> forming_card_status" where
  "inferred_status t = (let state = infer_status_state t in
     \<lparr>fs_state = state, fs_status_line = t, fs_priority = card_status_priority state 0\<rparr>)"

text \<open>A document without a status line is classified by its JSON text, which is outside the model.\<close>

definition parse_status_snapshot :: "rtext option \<Rightarrow> forming_card_status option res" where
  "parse_status_snapshot raw =
     (case raw of
        None \<Rightarrow> Inr None
      | Some (Txt t) \<Rightarrow> Inr (if t = [] then None else Some (inferred_status t))
      | Some (Doc data) \<Rightarrow>
          (case jget data ''status_line'' of
             Inr line \<Rightarrow>
               if py_truthy line
               then res_bind (py_str line) (\<lambda>line.
                    res_bind (jget data ''state'') (\<lambda>st.
                    res_bind (if py_truthy st then py_str st else Inr (infer_status_state line)) (\<lambda>state.
                    res_bind (res_bind (jget_default data ''priority'' (JInt (card_status_priority state 0))) py_int) (\<lambda>priority.
                    Inr (Some \<lparr>fs_state = state, fs_status_line = line, fs_priority = priority\<rparr>)))))
               else Inl OutOfModel
           | Inl _ \<Rightarrow> Inl OutOfModel))"

definition load_forming_card_status_snapshot :: "string \<Rightarrow> forming_card_status option prog" where
  "load_forming_card_status_snapshot setup_id =
     pbind (rget (forming_status_key setup_id)) (\<lambda>raw. of_res (parse_status_snapshot raw))"

definition load_forming_card_status :: "string \<Rightarrow> string option prog" where
  "load_forming_card_status setup_id =
     pbind (load_forming_card_status_snapshot setup_id) (\<lambda>snapshot. Done (map_option fs_status_line snapshot))"

definition status_payload :: "string \<Rightarrow> string \<Rightarrow> int \<Rightarrow> json" where
  "status_payload state status_line priority =
     JObj [(''state'', JStr state), (''status_line'', JStr status_line), (''priority'', JInt priority)]"

text \<open>The path without the script, for test clients.\<close>

definition save_status_fallback :: "string \<Rightarrow> string \<Rightarrow> json \<Rightarrow> int \<Rightarrow> int \<Rightarrow> bool prog" where
  "save_status_fallback setup_id status_line payload priority ttl =
     pbind (load_forming_card_status_snapshot setup_id) (\<lambda>current.
     if (case current of None \<Rightarrow> False | Some c \<Rightarrow>
           fs_priority c > priority \<or> fs_priority c = priority \<and> fs_status_line c = status_line)
     then Done False
     else pbind (run_cmd (SET (forming_status_key setup_id) (Doc payload) (Some ttl) False)) (\<lambda>_. Done True))"

definition save_forming_card_status ::
  "card_config \<Rightarrow> bool \<Rightarrow> string \<Rightarrow> string \<Rightarrow> string option \<Rightarrow> int option \<Rightarrow> bool prog" where
  "save_forming_card_status cfg fallback setup_id status_line given ttl =
     (let state = (case given of Some (c # st) \<Rightarrow> c # st | _ \<Rightarrow> infer_status_state status_line);
          priority = card_status_priority state 0;
          payload = status_payload state status_line priority
      in pcatch
           (pbind (rcall (EVAL SAVE_STATUS_LUA [forming_status_key setup_id]
                [ADoc payload, AInt priority, AStr status_line, AInt (card_ttl cfg ttl)]))
              (\<lambda>result. Done (result = RInt 1)))
           (\<lambda>e. if \<not> fallback then Raise e
                else save_status_fallback setup_id status_line payload priority (card_ttl cfg ttl)))"

section \<open>The card\<close>

record forming_card =
  fc_chat_id :: json
  fc_message_id :: int
  fc_text :: "string option"

text \<open>A bare message id is the older format; the chat is then the owner's.\<close>

definition legacy_card :: "card_config \<Rightarrow> int option \<Rightarrow> forming_card option" where
  "legacy_card cfg message_id = map_option (\<lambda>i.
     \<lparr>fc_chat_id = JInt (cc_telegram_owner_id cfg), fc_message_id = i, fc_text = None\<rparr>) message_id"

definition parse_card :: "card_config \<Rightarrow> rtext option \<Rightarrow> forming_card option res" where
  "parse_card cfg raw =
     (case raw of
        None \<Rightarrow> Inr None
      | Some (Txt t) \<Rightarrow> Inr (legacy_card cfg (parse_int t))
      | Some (Doc (JInt i)) \<Rightarrow> Inr (legacy_card cfg (Some i))
      | Some (Doc (JObj data)) \<Rightarrow>
          (case map_of data ''message_id'' of
             None \<Rightarrow> Inr None
           | Some JNull \<Rightarrow> Inr None
           | Some v \<Rightarrow>
               (case py_int v of
                  Inl _ \<Rightarrow> Inr None
                | Inr i \<Rightarrow>
                    res_bind (jget (JObj data) ''text'') (\<lambda>t.
                    res_bind (py_str (py_or t (JStr []))) (\<lambda>t.
                    res_bind (jget (JObj data) ''chat_id'') (\<lambda>chat.
                    Inr (Some \<lparr>fc_chat_id = py_or chat (JInt (cc_telegram_owner_id cfg)), fc_message_id = i,
                               fc_text = Some t\<rparr>))))))
      | Some (Doc _) \<Rightarrow> Inr None)"

definition load_forming_card :: "card_config \<Rightarrow> string \<Rightarrow> forming_card option prog" where
  "load_forming_card cfg setup_id =
     pbind (rget (forming_message_key setup_id)) (\<lambda>raw. of_res (parse_card cfg raw))"

definition save_forming_card ::
  "card_config \<Rightarrow> int \<Rightarrow> string \<Rightarrow> int \<Rightarrow> int \<Rightarrow> string \<Rightarrow> int option \<Rightarrow> unit prog" where
  "save_forming_card cfg now setup_id chat_id message_id t ttl =
     pbind (run_cmd (SET (forming_message_key setup_id)
       (Doc (JObj [(''chat_id'', JInt chat_id), (''message_id'', JInt message_id), (''text'', JStr t)]))
       (Some (card_ttl cfg ttl)) False)) (\<lambda>_.
     if message_id \<le> 0 then run_cmd (SREM FORMING_ACTIVE_INDEX_KEY [setup_id])
     else
       pbind (if should_stop_forming_price_track t None then run_cmd (SREM FORMING_ACTIVE_INDEX_KEY [setup_id])
              else pbind (run_cmd (SADD FORMING_ACTIVE_INDEX_KEY [setup_id])) (\<lambda>_.
                   run_cmd (EXPIRE FORMING_ACTIVE_INDEX_KEY (card_ttl cfg ttl)))) (\<lambda>_.
       run_cmd (SET (telegram_root_message_key setup_id)
         (Doc (JObj [(''chat_id'', JInt chat_id), (''root_message_id'', JInt message_id), (''updated_at'', JInt now)]))
         (Some (card_ttl cfg ttl)) False)))"

text \<open>\<open>int(json.loads(text)["root_message_id"])\<close>, and \<open>int(text)\<close> when that fails.\<close>

definition parse_root_id :: "rtext \<Rightarrow> int option" where
  "parse_root_id t =
     (case t of
        Txt u \<Rightarrow> parse_int u
      | Doc (JInt i) \<Rightarrow> Some i
      | Doc data \<Rightarrow> (case res_bind (jindex data ''root_message_id'') py_int of Inr i \<Rightarrow> Some i | Inl _ \<Rightarrow> None))"

definition load_telegram_root_message_id :: "card_config \<Rightarrow> string \<Rightarrow> int option prog" where
  "load_telegram_root_message_id cfg setup_id =
     pbind (rget (telegram_root_message_key setup_id)) (\<lambda>raw.
     case raw of
       None \<Rightarrow> pbind (load_forming_card cfg setup_id) (\<lambda>msg. Done (map_option fc_message_id msg))
     | Some t \<Rightarrow> Done (parse_root_id t))"

definition clear_forming_card :: "string \<Rightarrow> unit prog" where
  "clear_forming_card setup_id =
     pbind (run_cmd (DELS [forming_message_key setup_id, forming_status_key setup_id,
       forming_reconcile_pending_key setup_id, telegram_root_message_key setup_id])) (\<lambda>_.
     run_cmd (SREM FORMING_ACTIVE_INDEX_KEY [setup_id]))"

definition is_setup_terminal :: "int \<Rightarrow> string \<Rightarrow> bool prog" where
  "is_setup_terminal now setup_id =
     pbind (load_setup now setup_id) (\<lambda>record.
     Done (case record of None \<Rightarrow> False | Some r \<Rightarrow> sr_state r \<in> TERMINAL_STATES))"

section \<open>Closing a card\<close>

text \<open>A bad request is the error the code catches; any other one passes through.\<close>

datatype tg_answer = Tg_ok | Tg_bad_request | Tg_error exn

record telegram =
  tg_edit :: "json \<Rightarrow> int \<Rightarrow> string \<Rightarrow> tg_answer"
  tg_delete :: "json \<Rightarrow> int \<Rightarrow> tg_answer"
  tg_terminal_text :: "string \<Rightarrow> string \<Rightarrow> string"

definition live_marker :: string where "live_marker = ''<i>(live)</i>''"

function strip_live_price_marker :: "string \<Rightarrow> string" where
  "strip_live_price_marker [] = []"
| "strip_live_price_marker (c # s) =
     (let t = dropWhile char_space (c # s) in
      if str_startswith (str_lower t) live_marker then strip_live_price_marker (drop (length live_marker) t)
      else c # strip_live_price_marker s)"
  by pat_completeness auto
termination
proof (relation "measure length")
  fix c s t
  assume t: "t = dropWhile char_space (c # s)"
  have "length t \<le> length (c # s)" unfolding t by (rule length_dropWhile_le)
  then show "(drop (length live_marker) t, c # s) \<in> measure length"
    by (simp add: live_marker_def)
qed simp_all

definition tg_catch :: "tg_answer \<Rightarrow> (bool \<Rightarrow> 'a prog) \<Rightarrow> 'a prog" where
  "tg_catch x f = (case x of Tg_ok \<Rightarrow> f True | Tg_bad_request \<Rightarrow> f False | Tg_error e \<Rightarrow> Raise e)"

definition kill_setup_card ::
  "card_config \<Rightarrow> telegram \<Rightarrow> int \<Rightarrow> string \<Rightarrow> string \<Rightarrow> unit prog" where
  "kill_setup_card cfg tg now setup_id reason_code =
     pbind (run_cmd (SREM FORMING_ACTIVE_INDEX_KEY [setup_id])) (\<lambda>_.
     pbind (load_forming_card cfg setup_id) (\<lambda>loaded.
     case loaded of
       None \<Rightarrow> clear_forming_card setup_id
     | Some msg \<Rightarrow>
         (let existing_text = (case fc_text msg of None \<Rightarrow> [] | Some t \<Rightarrow> t);
              intact = strip_live_price_marker existing_text in
          if \<not> should_delete_root_on_terminal then
            pbind (if intact \<noteq> [] \<and> intact \<noteq> existing_text
                   then tg_catch (tg_edit tg (fc_chat_id msg) (fc_message_id msg) intact) (\<lambda>_. Done ())
                   else Done ()) (\<lambda>_.
            pbind (of_res (py_int (fc_chat_id msg))) (\<lambda>chat_id.
            pbind (save_forming_card cfg now setup_id chat_id (fc_message_id msg)
                     (if intact \<noteq> [] then intact else existing_text) None) (\<lambda>_.
            pbind (run_cmd (SREM FORMING_ACTIVE_INDEX_KEY [setup_id])) (\<lambda>_.
            run_cmd (DELS [forming_status_key setup_id, forming_reconcile_pending_key setup_id])))))
          else
            pbind (tg_catch (tg_delete tg (fc_chat_id msg) (fc_message_id msg)) (\<lambda>deleted.
                   if deleted then Done ()
                   else tg_catch (tg_edit tg (fc_chat_id msg) (fc_message_id msg)
                          (tg_terminal_text tg reason_code existing_text)) (\<lambda>_. Done ()))) (\<lambda>_.
            clear_forming_card setup_id))))"

section \<open>Lemmas\<close>

lemma card_keys [simp]:
  "forming_message_key a \<noteq> forming_status_key b" "forming_message_key a \<noteq> forming_reconcile_pending_key b"
  "forming_message_key a \<noteq> telegram_root_message_key b" "forming_status_key a \<noteq> forming_reconcile_pending_key b"
  "forming_status_key a \<noteq> telegram_root_message_key b" "forming_reconcile_pending_key a \<noteq> telegram_root_message_key b"
  "forming_message_key a \<noteq> FORMING_ACTIVE_INDEX_KEY" "forming_status_key a \<noteq> FORMING_ACTIVE_INDEX_KEY"
  "forming_reconcile_pending_key a \<noteq> FORMING_ACTIVE_INDEX_KEY" "telegram_root_message_key a \<noteq> FORMING_ACTIVE_INDEX_KEY"
  "forming_status_key a = forming_status_key b \<longleftrightarrow> a = b"
  by (simp_all add: forming_message_key_def forming_status_key_def forming_reconcile_pending_key_def
      telegram_root_message_key_def FORMING_ACTIVE_INDEX_KEY_def)

lemmas card_keys' [simp] = card_keys(1-10)[THEN not_sym]

subsection \<open>The priority of a status\<close>

record status_save =
  ss_setup_id :: string
  ss_line :: string
  ss_state :: "string option"
  ss_ttl :: "int option"

definition saved_priority :: "status_save \<Rightarrow> int" where
  "saved_priority x = card_status_priority
     (case ss_state x of Some (c # st) \<Rightarrow> c # st | _ \<Rightarrow> infer_status_state (ss_line x)) 0"

definition save_prog :: "card_config \<Rightarrow> status_save \<Rightarrow> bool prog" where
  "save_prog cfg x = save_forming_card_status cfg False (ss_setup_id x) (ss_line x) (ss_state x) (ss_ttl x)"

definition stored_priority :: "keyspace \<Rightarrow> string \<Rightarrow> rat option" where
  "stored_priority K sid =
     (case K (forming_status_key sid) of Some (VStr t e) \<Rightarrow> Some (fst (lua_status_of t)) | _ \<Rightarrow> None)"

definition save_status_cmd :: "card_config \<Rightarrow> status_save \<Rightarrow> redis_cmd" where
  "save_status_cmd cfg x =
     EVAL SAVE_STATUS_LUA [forming_status_key (ss_setup_id x)]
       [ADoc (status_payload (case ss_state x of Some (c # st) \<Rightarrow> c # st | _ \<Rightarrow> infer_status_state (ss_line x))
           (ss_line x) (saved_priority x)),
        AInt (saved_priority x), AStr (ss_line x), AInt (card_ttl cfg (ss_ttl x))]"

lemma save_prog_call:
  "save_prog cfg x = Call (save_status_cmd cfg x) (\<lambda>r. if r = RExc then Raise RedisError else Done (r = RInt 1))"
  by (auto simp: save_prog_def save_forming_card_status_def save_status_cmd_def saved_priority_def Let_def rcall_def)

lemma saved_priority_nonneg: "0 \<le> saved_priority x"
proof -
  have "list_all (\<lambda>p. 0 \<le> snd p) [(''analysis_only'', 0 :: int), (''queued'', 10), (''preflight'', 20),
      (''waiting_retest'', 30), (''trigger_ready'', 40), (''plan_published'', 100), (''executor_armed'', 120),
      (''order_filled'', 150), (''sl_moved'', 155), (''tp_booked'', 160), (''plan_expired'', 200),
      (''plan_cancelled'', 200), (''plan_rejected'', 200), (''terminal'', 200)]" by simp
  then have "CARD_STATUS_PRIORITY st = Some p \<Longrightarrow> 0 \<le> p" for st p
    unfolding CARD_STATUS_PRIORITY_def unfolding list_all_iff by (metis map_of_SomeD snd_conv)
  then show ?thesis by (simp add: saved_priority_def card_status_priority_def split: option.split)
qed

lemma status_payload_priority: "fst (lua_status_of (Doc (status_payload st line p))) = of_int p"
  by (simp add: status_payload_def lua_priority_def)

lemma save_status_step:
  assumes "str_key K (forming_status_key (ss_setup_id x))"
  shows "stored_priority (keff (save_status_cmd cfg x) K) sid =
    (if sid = ss_setup_id x
     then Some (case stored_priority K sid of None \<Rightarrow> of_int (saved_priority x) | Some p \<Rightarrow> max (of_int (saved_priority x)) p)
     else stored_priority K sid)"
    "str_key (keff (save_status_cmd cfg x) K) k = str_key K k"
    "\<exists>n. fst (kstep (save_status_cmd cfg x) K) = RInt n"
proof -
  define key where "key = forming_status_key (ss_setup_id x)"
  define pay where "pay = status_payload (case ss_state x of Some (c # st) \<Rightarrow> c # st | _ \<Rightarrow> infer_status_state (ss_line x))
      (ss_line x) (saved_priority x)"
  have step: "kstep (save_status_cmd cfg x) K = lua_save_status key pay (saved_priority x) (ss_line x) (card_ttl cfg (ss_ttl x)) K"
    by (simp add: save_status_cmd_def lua_eval_def key_def pay_def)
  have nn: "(0 :: rat) \<le> of_int (saved_priority x)" using saved_priority_nonneg by simp
  have pp: "fst (lua_status_of (Doc pay)) = of_int (saved_priority x)" unfolding pay_def by (rule status_payload_priority)
  note new = lua_save_status_def stored_priority_def keff_def step
  consider (none) "K key = None" | (str) t e where "K key = Some (VStr t e)"
    using assms by (auto simp: str_key_def key_def[symmetric] split: option.splits rvalue.splits)
  then have "stored_priority (keff (save_status_cmd cfg x) K) sid =
    (if forming_status_key sid = key
     then Some (case stored_priority K sid of None \<Rightarrow> of_int (saved_priority x) | Some p \<Rightarrow> max (of_int (saved_priority x)) p)
     else stored_priority K sid) \<and> str_key (keff (save_status_cmd cfg x) K) k = str_key K k \<and>
     (\<exists>n. fst (kstep (save_status_cmd cfg x) K) = RInt n)"
  proof cases
    case none
    with nn pp show ?thesis by (auto simp: new str_key_def)
  next
    case str
    obtain q line where q: "lua_status_of t = (q, line)" by (metis surj_pair)
    show ?thesis using str nn pp q by (auto simp: new str_key_def max_def)
  qed
  then show "stored_priority (keff (save_status_cmd cfg x) K) sid =
    (if sid = ss_setup_id x
     then Some (case stored_priority K sid of None \<Rightarrow> of_int (saved_priority x) | Some p \<Rightarrow> max (of_int (saved_priority x)) p)
     else stored_priority K sid)"
    "str_key (keff (save_status_cmd cfg x) K) k = str_key K k"
    "\<exists>n. fst (kstep (save_status_cmd cfg x) K) = RInt n"
    by (simp_all add: key_def)
qed

text \<open>The stored priority and those of the saves that are done.\<close>

definition priorities :: "keyspace \<Rightarrow> status_save list \<Rightarrow> nat set \<Rightarrow> string \<Rightarrow> rat set" where
  "priorities K ts F sid = set_option (stored_priority K sid) \<union>
     (\<lambda>i. of_int (saved_priority (ts ! i))) ` {i \<in> F. ss_setup_id (ts ! i) = sid}"

definition greatest :: "rat set \<Rightarrow> rat option" where
  "greatest S = (if S = {} then None else Some (Max S))"

definition saves_done ::
  "card_config \<Rightarrow> keyspace \<Rightarrow> status_save list \<Rightarrow> nat set \<Rightarrow> bool prog list \<Rightarrow> keyspace \<Rightarrow> bool" where
  "saves_done cfg K0 ts F ps K \<longleftrightarrow> length ps = length ts \<and> F \<subseteq> {..<length ts} \<and>
     (\<forall>i<length ts. if i \<in> F then \<exists>b. ps ! i = Done b else ps ! i = save_prog cfg (ts ! i)) \<and>
     (\<forall>x\<in>set ts. str_key K (forming_status_key (ss_setup_id x))) \<and>
     (\<forall>sid. stored_priority K sid = greatest (priorities K0 ts F sid))"

lemma finite_priorities: "F \<subseteq> {..<length ts} \<Longrightarrow> finite (priorities K ts F sid)"
  by (auto simp: priorities_def intro!: finite_imageI dest: finite_subset[OF _ finite_lessThan])

lemma greatest_insert: "finite S \<Longrightarrow>
   greatest (insert p S) = Some (case greatest S of None \<Rightarrow> p | Some q \<Rightarrow> max p q)"
  by (simp add: greatest_def)

lemma priorities_insert:
  "priorities K ts (insert i F) sid = (if ss_setup_id (ts ! i) = sid then insert (of_int (saved_priority (ts ! i))) else id)
     (priorities K ts F sid)"
  by (auto simp: priorities_def)

context redis
begin

lemma saves_done_step:
  assumes "saves_done cfg K0 ts F ps (ks s)" "i < length ps" "ps ! i = Call c k"
  shows "saves_done cfg K0 ts (insert i F) (ps[i := k (fst (exec c s))]) (ks (snd (exec c s)))"
proof -
  have i: "i < length ts" "i \<notin> F" using assms by (auto simp: saves_done_def split: if_splits)
  then have "Call c k = save_prog cfg (ts ! i)" using assms by (auto simp: saves_done_def split: if_splits)
  then have c: "c = save_status_cmd cfg (ts ! i)" "k = (\<lambda>r. if r = RExc then Raise RedisError else Done (r = RInt 1))"
    by (simp_all add: save_prog_call)
  have sk: "str_key (ks s) (forming_status_key (ss_setup_id (ts ! i)))"
    using assms(1) i(1) by (simp add: saves_done_def)
  note st = save_status_step[OF sk, of cfg]
  from st(3) obtain n where "fst (kstep c (ks s)) = RInt n" unfolding c by blast
  then have "fst (exec c s) = RInt n" by (rule reply_det) simp_all
  then have "\<exists>b. k (fst (exec c s)) = Done b" by (simp add: c)
  moreover have "stored_priority (ks (snd (exec c s))) sid = greatest (priorities K0 ts (insert i F) sid)" for sid
  proof -
    have "finite (priorities K0 ts F sid)" using assms(1) by (intro finite_priorities) (simp add: saves_done_def)
    moreover have "stored_priority (ks s) sid = greatest (priorities K0 ts F sid)" using assms(1) by (simp add: saves_done_def)
    ultimately show ?thesis
      by (cases "sid = ss_setup_id (ts ! i)") (simp_all add: eff c st(1) priorities_insert greatest_insert)
  qed
  ultimately show ?thesis
    using assms(1,2) i(1) by (auto simp: saves_done_def eff c st(2) nth_list_update)
qed

lemma saves_done_sched:
  "sched exec xs (s, ps) = Some (s', ps') \<Longrightarrow> saves_done cfg K0 ts F ps (ks s) \<Longrightarrow>
   \<exists>F'. saves_done cfg K0 ts F' ps' (ks s')"
proof (induction xs arbitrary: s ps F)
  case (Cons i xs)
  then obtain c k where ik: "i < length ps" "ps ! i = Call c k"
    "sched exec xs (snd (exec c s), ps[i := k (fst (exec c s))]) = Some (s', ps')"
    by (auto split: if_splits prog.splits)
  from Cons.IH[OF ik(3) saves_done_step[OF Cons.prems(2) ik(1,2)]] show ?case .
qed auto

end

subsection \<open>Closing\<close>

definition card_doc :: "int \<Rightarrow> int \<Rightarrow> string \<Rightarrow> rtext" where
  "card_doc chat_id message_id t =
     Doc (JObj [(''chat_id'', JInt chat_id), (''message_id'', JInt message_id), (''text'', JStr t)])"

definition root_doc :: "int \<Rightarrow> int \<Rightarrow> int \<Rightarrow> rtext" where
  "root_doc now chat_id message_id =
     Doc (JObj [(''chat_id'', JInt chat_id), (''root_message_id'', JInt message_id), (''updated_at'', JInt now)])"

definition card_text :: "forming_card \<Rightarrow> string" where
  "card_text c = (case fc_text c of None \<Rightarrow> [] | Some t \<Rightarrow> t)"

definition closed_text :: "forming_card \<Rightarrow> string" where
  "closed_text c = (let t = strip_live_price_marker (card_text c) in if t \<noteq> [] then t else card_text c)"

definition edit_refused :: "telegram \<Rightarrow> forming_card \<Rightarrow> exn option" where
  "edit_refused tg c =
     (let t = strip_live_price_marker (card_text c) in
      if t \<noteq> [] \<and> t \<noteq> card_text c
      then (case tg_edit tg (fc_chat_id c) (fc_message_id c) t of Tg_error e \<Rightarrow> Some e | _ \<Rightarrow> None) else None)"

text \<open>What is left of a card after it was closed.\<close>

definition drop_active :: "string \<Rightarrow> keyspace \<Rightarrow> keyspace" where
  "drop_active sid K = put_set K FORMING_ACTIVE_INDEX_KEY (del_member (k_set K FORMING_ACTIVE_INDEX_KEY) sid)"

definition without_card :: "string \<Rightarrow> keyspace \<Rightarrow> keyspace" where
  "without_card sid K = (drop_active sid K)(forming_message_key sid := None, forming_status_key sid := None,
     forming_reconcile_pending_key sid := None, telegram_root_message_key sid := None)"

definition closed_card :: "card_config \<Rightarrow> int \<Rightarrow> string \<Rightarrow> int \<Rightarrow> forming_card \<Rightarrow> keyspace \<Rightarrow> keyspace" where
  "closed_card cfg now sid chat c K =
     (let K1 = (drop_active sid K)(forming_message_key sid \<mapsto>
           VStr (card_doc chat (fc_message_id c) (closed_text c)) (Some (card_ttl cfg None)),
         forming_status_key sid := None, forming_reconcile_pending_key sid := None)
      in if fc_message_id c \<le> 0 then K1
         else K1(telegram_root_message_key sid \<mapsto> VStr (root_doc now chat (fc_message_id c)) (Some (card_ttl cfg None))))"

lemma del_del [simp]: "del_member (del_member l m) m = del_member l m"
  by (simp add: del_member_def)

lemma del_add [simp]: "del_member (add_member l m) m = del_member l m"
  by (simp add: del_member_def add_member_def)

lemma drop_upd [simp]: "k \<noteq> FORMING_ACTIVE_INDEX_KEY \<Longrightarrow> drop_active sid (K(k := v)) = (drop_active sid K)(k := v)"
  by (auto simp: drop_active_def put_set_def k_set_upd fun_upd_twist)

lemma drop_drop [simp]: "drop_active sid (drop_active sid K) = drop_active sid K"
  by (simp add: drop_active_def) (simp add: put_set_def)

lemma drop_add [simp]:
  "drop_active sid (put_set K FORMING_ACTIVE_INDEX_KEY (add_member (k_set K FORMING_ACTIVE_INDEX_KEY) sid)) = drop_active sid K"
  by (simp add: drop_active_def) (simp add: put_set_def)

lemma drop_set_key [simp]: "set_key (drop_active sid K) FORMING_ACTIVE_INDEX_KEY"
  by (simp add: drop_active_def)

lemma drop_other [simp]: "k \<noteq> FORMING_ACTIVE_INDEX_KEY \<Longrightarrow> drop_active sid K k = K k"
  by (simp add: drop_active_def)

lemma dels_upd:
  "(\<lambda>k. if k \<in> set [a, b] then None else K k) = K(a := None, b := None)"
  "(\<lambda>k. if k \<in> set [a, b, c, d] then None else K k) = K(a := None, b := None, c := None, d := None)"
  by (auto simp: fun_eq_iff)

context redis
begin

lemma ks_srem_active:
  "set_key (ks s) FORMING_ACTIVE_INDEX_KEY \<Longrightarrow>
   ks (snd (exec (SREM FORMING_ACTIVE_INDEX_KEY [sid]) s)) = drop_active sid (ks s)"
  by (simp add: ks_srem drop_active_def)

lemma run_save_card:
  assumes "set_key (ks s) FORMING_ACTIVE_INDEX_KEY"
  shows "\<exists>s'. run exec (save_forming_card cfg now sid chat mid t None) s = (Inr (), s') \<and>
     set_key (ks s') FORMING_ACTIVE_INDEX_KEY \<and>
     drop_active sid (ks s') =
       (let K1 = (drop_active sid (ks s))(forming_message_key sid \<mapsto> VStr (card_doc chat mid t) (Some (card_ttl cfg None)))
        in if mid \<le> 0 then K1
           else K1(telegram_root_message_key sid \<mapsto> VStr (root_doc now chat mid) (Some (card_ttl cfg None))))"
proof -
  let ?I = FORMING_ACTIVE_INDEX_KEY
  define s1 where "s1 = snd (exec (SET (forming_message_key sid) (card_doc chat mid t) (Some (card_ttl cfg None)) False) s)"
  have k1: "ks s1 = (ks s)(forming_message_key sid \<mapsto> VStr (card_doc chat mid t) (Some (card_ttl cfg None)))"
    by (simp add: s1_def ks_write)
  have t1: "set_key (ks s1) ?I" using assms by (simp add: k1)
  define root where "root s2 = snd (exec (SET (telegram_root_message_key sid) (root_doc now chat mid) (Some (card_ttl cfg None)) False) s2)" for s2
  have kr: "ks (root s2) = (ks s2)(telegram_root_message_key sid \<mapsto> VStr (root_doc now chat mid) (Some (card_ttl cfg None)))" for s2
    by (simp add: root_def ks_write)
  note docs = card_doc_def[symmetric] root_doc_def[symmetric] s1_def[symmetric]
  consider (pending) "mid \<le> 0" | (stop) "\<not> mid \<le> 0" "should_stop_forming_price_track t None"
    | (active) "\<not> mid \<le> 0" "\<not> should_stop_forming_price_track t None" by blast
  then show ?thesis
  proof cases
    case pending
    then show ?thesis
      by (simp add: save_forming_card_def docs run_set run_sset_last[OF t1] ks_srem_active[OF t1]) (simp add: k1)
  next
    case stop
    then show ?thesis
      by (simp add: save_forming_card_def docs run_set run_srem[OF t1] run_last root_def[symmetric] kr ks_srem_active[OF t1])
        (simp add: k1)
  next
    case active
    define s2 where "s2 = snd (exec (SADD ?I [sid]) s1)"
    have k2: "ks s2 = put_set (ks s1) ?I (add_member (k_set (ks s1) ?I) sid)"
      using t1 by (simp add: s2_def ks_write)
    have t2: "set_key (ks s2) ?I" by (simp add: k2)
    define s3 where "s3 = snd (exec (EXPIRE ?I (card_ttl cfg None)) s2)"
    have k3: "ks s3 = ks s2" unfolding s3_def by (rule run_expire_set(2)[OF t2])
    have "run exec (save_forming_card cfg now sid chat mid t None) s = (Inr (), root s3)"
      using active by (simp add: save_forming_card_def docs run_set run_sadd[OF t1] s2_def[symmetric]
          run_expire_set(1)[OF t2] s3_def[symmetric] run_last root_def)
    then show ?thesis using active(1) t2 by (simp add: kr k3 k2) (simp add: k1)
  qed
qed

lemma run_clear:
  assumes "set_key (ks s) FORMING_ACTIVE_INDEX_KEY"
  shows "\<exists>s'. run exec (clear_forming_card sid) s = (Inr (), s') \<and> ks s' = without_card sid (ks s)"
proof -
  let ?ks = "[forming_message_key sid, forming_status_key sid, forming_reconcile_pending_key sid, telegram_root_message_key sid]"
  have k: "ks (snd (exec (DELS ?ks) s)) = (ks s)(forming_message_key sid := None, forming_status_key sid := None,
      forming_reconcile_pending_key sid := None, telegram_root_message_key sid := None)"
    unfolding ks_dels dels_upd ..
  have t: "set_key (ks (snd (exec (DELS ?ks) s))) FORMING_ACTIVE_INDEX_KEY" unfolding k using assms by simp
  show ?thesis
    by (simp add: clear_forming_card_def run_dels run_sset_last[OF t] ks_srem_active[OF t] without_card_def)
      (simp add: k)
qed

lemma run_kill:
  assumes "set_key (ks s) FORMING_ACTIVE_INDEX_KEY" "str_key (ks s) (forming_message_key sid)"
    "parse_card cfg (k_text (ks s) (forming_message_key sid)) = Inr x"
  shows "\<exists>s'. run exec (kill_setup_card cfg tg now sid reason) s =
       (case x of None \<Rightarrow> Inr ()
        | Some c \<Rightarrow> (case (edit_refused tg c, py_int (fc_chat_id c)) of
            (None, Inr chat) \<Rightarrow> Inr () | (Some e, _) \<Rightarrow> Inl e | (_, Inl e) \<Rightarrow> Inl e), s') \<and>
     ks s' = (case x of None \<Rightarrow> without_card sid (ks s)
       | Some c \<Rightarrow> (case (edit_refused tg c, py_int (fc_chat_id c)) of
            (None, Inr chat) \<Rightarrow> closed_card cfg now sid chat c (ks s)
          | _ \<Rightarrow> drop_active sid (ks s)))"
proof -
  let ?I = FORMING_ACTIVE_INDEX_KEY
  define s1 where "s1 = snd (exec (SREM ?I [sid]) s)"
  have k1: "ks s1 = drop_active sid (ks s)" unfolding s1_def by (rule ks_srem_active[OF assms(1)])
  define s2 where "s2 = snd (exec (GET (forming_message_key sid)) s1)"
  have k2: "ks s2 = drop_active sid (ks s)" by (simp add: s2_def k1)
  have str: "str_key (ks s1) (forming_message_key sid)"
    using assms(2) by (simp add: k1 str_key_def)
  have tx: "k_text (ks s1) (forming_message_key sid) = k_text (ks s) (forming_message_key sid)"
    by (simp add: k1 k_text_def)
  have start: "run exec (kill_setup_card cfg tg now sid reason) s = run exec (case x of
       None \<Rightarrow> clear_forming_card sid
     | Some c \<Rightarrow>
        pbind (if strip_live_price_marker (card_text c) \<noteq> [] \<and> strip_live_price_marker (card_text c) \<noteq> card_text c
               then tg_catch (tg_edit tg (fc_chat_id c) (fc_message_id c) (strip_live_price_marker (card_text c))) (\<lambda>_. Done ())
               else Done ()) (\<lambda>_.
        pbind (of_res (py_int (fc_chat_id c))) (\<lambda>chat.
        pbind (save_forming_card cfg now sid chat (fc_message_id c) (closed_text c) None) (\<lambda>_.
        pbind (run_cmd (SREM ?I [sid])) (\<lambda>_.
        run_cmd (DELS [forming_status_key sid, forming_reconcile_pending_key sid])))))) s2"
    by (simp add: kill_setup_card_def run_srem[OF assms(1)] s1_def[symmetric] load_forming_card_def run_get[OF str]
        tx assms(3) s2_def[symmetric] should_delete_root_on_terminal_def card_text_def[symmetric] Let_def
        closed_text_def cong: option.case_cong)
  show ?thesis
  proof (cases x)
    case None
    have "set_key (ks s2) ?I" by (simp add: k2)
    from run_clear[OF this] obtain s' where "run exec (clear_forming_card sid) s2 = (Inr (), s')" "ks s' = without_card sid (ks s2)"
      by blast
    then show ?thesis by (simp add: start None k2 without_card_def)
  next
    case (Some c)
    let ?t = "strip_live_price_marker (card_text c)"
    have edit: "run exec (pbind (if ?t \<noteq> [] \<and> ?t \<noteq> card_text c
               then tg_catch (tg_edit tg (fc_chat_id c) (fc_message_id c) ?t) (\<lambda>_. Done ()) else Done ()) f) s2 =
        (case edit_refused tg c of Some e \<Rightarrow> (Inl e, s2) | None \<Rightarrow> run exec (f ()) s2)" for f :: "unit \<Rightarrow> unit prog"
      by (auto simp: edit_refused_def Let_def tg_catch_def split: tg_answer.split)
    show ?thesis
    proof (cases "edit_refused tg c")
      case (Some e)
      then show ?thesis by (simp add: start \<open>x = Some c\<close> edit k2)
    next
      case None
      show ?thesis
      proof (cases "py_int (fc_chat_id c)")
        case (Inl e)
        then show ?thesis by (simp add: start \<open>x = Some c\<close> edit None k2)
      next
        case (Inr chat)
        have "set_key (ks s2) ?I" by (simp add: k2)
        from run_save_card[OF this, of cfg now sid chat "fc_message_id c" "closed_text c"] obtain s3 where s3:
          "run exec (save_forming_card cfg now sid chat (fc_message_id c) (closed_text c) None) s2 = (Inr (), s3)"
          "set_key (ks s3) ?I"
          "drop_active sid (ks s3) = (let K1 = (drop_active sid (ks s))(forming_message_key sid \<mapsto>
               VStr (card_doc chat (fc_message_id c) (closed_text c)) (Some (card_ttl cfg None)))
             in if fc_message_id c \<le> 0 then K1
                else K1(telegram_root_message_key sid \<mapsto> VStr (root_doc now chat (fc_message_id c)) (Some (card_ttl cfg None))))"
          by (auto simp: k2)
        define s4 where "s4 = snd (exec (SREM ?I [sid]) s3)"
        have k4: "ks s4 = drop_active sid (ks s3)" unfolding s4_def by (rule ks_srem_active[OF s3(2)])
        let ?ks = "[forming_status_key sid, forming_reconcile_pending_key sid]"
        have "run exec (kill_setup_card cfg tg now sid reason) s = run exec (pbind
            (save_forming_card cfg now sid chat (fc_message_id c) (closed_text c) None) (\<lambda>_.
            pbind (run_cmd (SREM ?I [sid])) (\<lambda>_. run_cmd (DELS ?ks)))) s2"
          by (simp add: start \<open>x = Some c\<close> edit None Inr)
        then have "run exec (kill_setup_card cfg tg now sid reason) s = (Inr (), snd (exec (DELS ?ks) s4))"
          by (simp add: run_pbind s3(1) run_sset_last[OF s3(2)] s4_def[symmetric] run_dels_last)
        moreover have "ks (snd (exec (DELS ?ks) s4)) = closed_card cfg now sid chat c (ks s)"
          unfolding ks_dels dels_upd k4 s3(3) closed_card_def Let_def by (simp add: fun_upd_twist)
        ultimately show ?thesis by (simp add: \<open>x = Some c\<close> None Inr)
      qed
    qed
  qed
qed

end

section \<open>Properties\<close>

text \<open>C30. However the status writes of several coroutines interleave, once all of them are done the stored
  status of each setup has the highest priority among the one stored before and those written: a late
  write of an earlier stage never hides a later stage.\<close>

theorem highest_status_wins:
  assumes "redis exec ks" "sched exec xs (s, map (save_prog cfg) ts) = Some (s', ps')"
    "\<forall>p\<in>set ps'. \<exists>b. p = Done b" "\<forall>x\<in>set ts. str_key (ks s) (forming_status_key (ss_setup_id x))"
  shows "stored_priority (ks s') sid = greatest (set_option (stored_priority (ks s) sid) \<union>
     {of_int (saved_priority x) | x. x \<in> set ts \<and> ss_setup_id x = sid})"
proof -
  have "stored_priority (ks s) sid' = greatest (set_option (stored_priority (ks s) sid'))" for sid'
    by (cases "stored_priority (ks s) sid'") (simp_all add: greatest_def)
  then have "saves_done cfg (ks s) ts {} (map (save_prog cfg) ts) (ks s)"
    using assms(4) by (simp add: saves_done_def priorities_def)
  from redis.saves_done_sched[OF assms(1,2) this] obtain F where F: "saves_done cfg (ks s) ts F ps' (ks s')" by blast
  have "i \<in> F" if "i < length ts" for i
  proof (rule ccontr)
    assume "i \<notin> F"
    with F that have "ps' ! i = save_prog cfg (ts ! i)" "i < length ps'" by (auto simp: saves_done_def)
    with assms(3) show False by (metis nth_mem save_prog_call prog.distinct(3))
  qed
  then have "F = {..<length ts}" using F by (auto simp: saves_done_def)
  then have "priorities (ks s) ts F sid = set_option (stored_priority (ks s) sid) \<union>
     {of_int (saved_priority x) | x. x \<in> set ts \<and> ss_setup_id x = sid}"
    by (fastforce simp: priorities_def in_set_conv_nth)
  with F show ?thesis by (simp add: saves_done_def)
qed

definition demo_saves :: "status_save list" where
  "demo_saves = [\<lparr>ss_setup_id = ''s1'', ss_line = ''ORDER FILLED'', ss_state = None, ss_ttl = None\<rparr>,
     \<lparr>ss_setup_id = ''s1'', ss_line = ''WAITING RETEST'', ss_state = None, ss_ttl = None\<rparr>]"

definition demo_card_config :: card_config where
  "demo_card_config = \<lparr>cc_storage_ttl_seconds = 0, cc_telegram_owner_id = 7\<rparr>"

lemma done_view: "(case p of Done b \<Rightarrow> Some b | _ \<Rightarrow> None) = Some b \<longleftrightarrow> p = Done b"
  by (cases p) auto

lemma highest_status_wins_witness:
  "\<exists>K ps. sched mem_exec [0, 1] (Map.empty, map (save_prog demo_card_config) demo_saves) = Some (K, ps) \<and>
     stored_priority K ''s1'' = Some 150"
proof -
  have "map_option (\<lambda>c. map (\<lambda>p. case p of Done b \<Rightarrow> Some b | _ \<Rightarrow> None) (snd c))
      (sched mem_exec [0, 1] (Map.empty, map (save_prog demo_card_config) demo_saves)) = Some [Some True, Some False]"
    by code_simp
  then obtain K ps where Kps: "sched mem_exec [0, 1] (Map.empty, map (save_prog demo_card_config) demo_saves) = Some (K, ps)"
    "map (\<lambda>p. case p of Done b \<Rightarrow> Some b | _ \<Rightarrow> None) ps = [Some True, Some False]" by auto
  from Kps(2) have ps: "ps = [Done True, Done False]" by (auto simp: map_eq_Cons_conv done_view)
  note K = Kps(1)[unfolded ps]
  have p: "{of_int (saved_priority x) | x. x \<in> set demo_saves \<and> ss_setup_id x = ''s1''} = {150, 30 :: rat}"
  proof -
    have "map (\<lambda>x. (ss_setup_id x, saved_priority x)) demo_saves = [(''s1'', 150), (''s1'', 30)]" by code_simp
    then show ?thesis by (auto simp: demo_saves_def)
  qed
  have sk: "\<forall>x\<in>set demo_saves. str_key Map.empty (forming_status_key (ss_setup_id x))" by (simp add: str_key_def)
  have s0: "stored_priority Map.empty ''s1'' = None" by (simp add: stored_priority_def)
  have "\<forall>p\<in>set [Done True, Done False]. \<exists>b. p = Done b" by (simp add: ex_bool_eq)
  from highest_status_wins[where ks = "\<lambda>K. K", OF mem.redis_axioms K this sk, of "''s1''"] K show ?thesis
    unfolding p s0 by (simp add: greatest_def)
qed

text \<open>Closing a card: whatever Telegram answers, the setup leaves the set of active cards. Without a card
  every key of it goes. With one the card stays with the live marker taken out of its text and the reply
  mapping is renewed, its status and waiting marker go, and nothing else changes; a refused edit does not matter, while any other
  error of the edit is passed on after the first step.\<close>

theorem card_closed_exactly:
  assumes "redis exec ks" "set_key (ks s) FORMING_ACTIVE_INDEX_KEY" "str_key (ks s) (forming_message_key sid)"
    "parse_card cfg (k_text (ks s) (forming_message_key sid)) = Inr x"
  shows "\<exists>s'. run exec (kill_setup_card cfg tg now sid reason) s =
       (case x of None \<Rightarrow> Inr ()
        | Some c \<Rightarrow> (case (edit_refused tg c, py_int (fc_chat_id c)) of
            (None, Inr chat) \<Rightarrow> Inr () | (Some e, _) \<Rightarrow> Inl e | (_, Inl e) \<Rightarrow> Inl e), s') \<and>
     ks s' = (case x of None \<Rightarrow> without_card sid (ks s)
       | Some c \<Rightarrow> (case (edit_refused tg c, py_int (fc_chat_id c)) of
            (None, Inr chat) \<Rightarrow> closed_card cfg now sid chat c (ks s)
          | _ \<Rightarrow> drop_active sid (ks s)))"
  using assms by (rule redis.run_kill)

definition demo_telegram :: telegram where
  "demo_telegram = \<lparr>tg_edit = (\<lambda>_ _ _. Tg_bad_request), tg_delete = (\<lambda>_ _. Tg_ok), tg_terminal_text = (\<lambda>_ t. t)\<rparr>"

definition demo_card_keys :: keyspace where
  "demo_card_keys = [forming_message_key ''s1'' \<mapsto> VStr (card_doc 7 9 ''SETUP <i>(live)</i>'') None,
     FORMING_ACTIVE_INDEX_KEY \<mapsto> VSet [''s1'', ''s2'']]"

lemma card_closed_exactly_witness:
  "\<exists>K. run mem_exec (kill_setup_card demo_card_config demo_telegram 100 ''s1'' ''expired'') demo_card_keys = (Inr (), K) \<and>
     k_text K (forming_message_key ''s1'') = Some (card_doc 7 9 ''SETUP'') \<and>
     k_set K FORMING_ACTIVE_INDEX_KEY = [''s2'']"
proof -
  let ?c = "\<lparr>fc_chat_id = JInt 7, fc_message_id = 9, fc_text = Some ''SETUP <i>(live)</i>''\<rparr>"
  have h: "set_key demo_card_keys FORMING_ACTIVE_INDEX_KEY" "str_key demo_card_keys (forming_message_key ''s1'')"
    "k_text demo_card_keys (forming_message_key ''s1'') = Some (card_doc 7 9 ''SETUP <i>(live)</i>'')"
    by (simp_all add: demo_card_keys_def set_key_def str_key_def k_text_def)
  have p: "parse_card demo_card_config (k_text demo_card_keys (forming_message_key ''s1'')) = Inr (Some ?c)"
    unfolding h(3) by (simp add: parse_card_def card_doc_def py_or_def)
  have t: "closed_text ?c = ''SETUP''" "edit_refused demo_telegram ?c = None"
    by code_simp (simp add: edit_refused_def Let_def demo_telegram_def)
  from card_closed_exactly[where ks = "\<lambda>K. K" and tg = demo_telegram and now = 100 and reason = "''expired''",
      OF mem.redis_axioms h(1,2) p] show ?thesis
    by (auto simp: t closed_card_def Let_def drop_active_def k_text_def demo_card_keys_def del_member_def k_set_def put_set_def)
qed

end
