(* ===== verification/TerminalCleanup.thy ===== *)
theory TerminalCleanup
  imports FormingCard RouteOutcome LifecycleEvents ExecutionConfirmation
begin

text \<open>
  What follows a terminal transition (\<open>app/autotrade/terminal_cleanup.py\<close>): the card is closed, the
  confirmation and the place in the expiry index go, the claim of the thesis is released, the outcome and
  the event are recorded. The environment gives Telegram, the configuration, the clock and the random id.
\<close>

section \<open>Tables\<close>

definition LIFECYCLE_STATE_BY_TERMINAL_STATE :: "string \<rightharpoonup> string" where
  "LIFECYCLE_STATE_BY_TERMINAL_STATE = map_of
     [(''expired'', ''expired''), (''invalidated'', ''invalidated''), (''cancelled'', ''cancelled''),
      (''consumed'', ''closed'')]"

definition ROUTE_STATUS_BY_TERMINAL_STATE :: "string \<rightharpoonup> string" where
  "ROUTE_STATUS_BY_TERMINAL_STATE = map_of
     [(''expired'', ''expired''), (''invalidated'', ''blocked''), (''cancelled'', ''blocked''),
      (''consumed'', ''order_filled'')]"

section \<open>The coordinator\<close>

record cleanup_env =
  ce_card :: card_config
  ce_telegram :: telegram
  ce_lifecycle :: lifecycle_config
  ce_uuid :: string
  ce_clock :: lifecycle_clock

definition cleanup_shim :: "string \<Rightarrow> setup_record \<Rightarrow> (string \<times> json) list" where
  "cleanup_shim setup_id record =
     [(''match_id'', JStr setup_id), (''symbol'', JStr (sr_symbol record)),
      (''issued_at'', JInt (sr_created_at record)),
      (''expires_at'', JInt (case sr_expires_at record of None \<Rightarrow> 0 | Some e \<Rightarrow> e))]"

definition cleanup_route_args :: "setup_record \<Rightarrow> string \<Rightarrow> string \<Rightarrow> route_args" where
  "cleanup_route_args record reason_code source =
     \<lparr>ra_stage = (if sr_state record = ''expired'' then ''scanner'' else ''entry_invalidation''),
      ra_status = (case ROUTE_STATUS_BY_TERMINAL_STATE (sr_state record) of None \<Rightarrow> ''blocked'' | Some st \<Rightarrow> st),
      ra_reason_code = reason_code, ra_message = ''setup '' @ sr_state record @ '' source='' @ source,
      ra_measured = [], ra_candidate_id = None, ra_group_id = None, ra_executor_event_id = None,
      ra_retained = None, ra_preflight_reason_code = None, ra_arbitration_reason_code = None,
      ra_publication_reason_code = None, ra_terminal_reason_code = None, ra_winner_intent_id = None,
      ra_signal_source = None, ra_publish_status = False\<rparr>"

definition cleanup_event_args :: "string \<Rightarrow> setup_record \<Rightarrow> string \<Rightarrow> string \<Rightarrow> lifecycle_args" where
  "cleanup_event_args setup_id record reason_code source =
     \<lparr>la_symbol = sr_symbol record, la_candidate_id = None, la_correlation_id = Some setup_id,
      la_match_id = Some setup_id, la_range_id = None, la_group_id = None, la_strategy = None,
      la_strategy_family = None, la_direction = None, la_timeframe = None, la_entry_zone = JNull,
      la_current_price = None, la_target_plan = JNull, la_stop_plan = JNull, la_position_ids = [],
      la_pending_order_ids = [], la_reason_code = Some reason_code,
      la_message = ''setup finalized terminal_state='' @ sr_state record @ '' source='' @ source,
      la_measured = JObj [(''expires_at'', j_opt_int (sr_expires_at record))],
      la_account_type = None, la_broker = None, la_publish_status = True\<rparr>"

definition cleanup_events :: "cleanup_env \<Rightarrow> string \<Rightarrow> setup_record \<Rightarrow> string \<Rightarrow> string \<Rightarrow> unit prog" where
  "cleanup_events env setup_id record reason_code source =
     pbind (pcatch (pbind (record_route_outcome (ck_ts (ce_clock env)) (cleanup_shim setup_id record)
                             (cleanup_route_args record reason_code source)) (\<lambda>_. Done ()))
              (\<lambda>_. Done ())) (\<lambda>_.
     case LIFECYCLE_STATE_BY_TERMINAL_STATE (sr_state record) of
       None \<Rightarrow> Done ()
     | Some st \<Rightarrow> pbind (emit_lifecycle (ce_lifecycle env) (ce_uuid env) (ce_clock env) st
                          (cleanup_event_args setup_id record reason_code source)) (\<lambda>_. Done ()))"

definition finalize_terminal_setup :: "cleanup_env \<Rightarrow> string \<Rightarrow> string \<Rightarrow> string \<Rightarrow> unit prog" where
  "finalize_terminal_setup env setup_id reason_code source =
     pbind (load_setup (ck_ts (ce_clock env)) setup_id) (\<lambda>loaded.
     case loaded of
       None \<Rightarrow> Done ()
     | Some record \<Rightarrow>
         if sr_state record \<notin> TERMINAL_STATES then Done ()
         else
           pbind (kill_setup_card (ce_card env) (ce_telegram env) (ck_ts (ce_clock env)) setup_id reason_code) (\<lambda>_.
           pbind (run_cmd (DEL (execution_confirmation_key setup_id))) (\<lambda>_.
           pbind (run_cmd (ZREM setup_expiry_index_key setup_id)) (\<lambda>_.
           pbind (release_active_thesis (sr_symbol record) (sr_thesis_id record) setup_id) (\<lambda>_.
           cleanup_events env setup_id record reason_code source)))))"

section \<open>Lemmas\<close>

subsection \<open>The keys of outcomes and events\<close>

definition telemetry :: "lifecycle_config \<Rightarrow> string \<Rightarrow> bool" where
  "telemetry cfg x \<longleftrightarrow> x = lc_events cfg \<or>
     list_ex (str_startswith x) [''auto_trade:route_'', ''auto_trade:last_'', ''auto_trade:metrics:'', ''auto_trade:events'',
       ''auto_trade:lifecycle'', ''auto_trade:evaluation:'']"

definition counts_only :: "string \<Rightarrow> redis_cmd \<Rightarrow> bool" where
  "counts_only x c \<longleftrightarrow> (may_write c x \<longrightarrow> (\<exists>f n. c = HINCRBY x f n) \<and> str_startswith x ''auto_trade:metrics:'')"

definition quiet :: "lifecycle_config \<Rightarrow> string \<Rightarrow> bool" where
  "quiet cfg x \<longleftrightarrow> x \<noteq> lc_events cfg \<and> (telemetry cfg x \<longrightarrow> str_startswith x ''auto_trade:metrics:'')"

lemma quietD:
  assumes "quiet cfg x"
  shows "x \<noteq> lc_events cfg" "x \<noteq> route_outcome_key a b" "x \<noteq> last_route_outcome_key a" "x \<noteq> route_history_key a"
    "x \<noteq> route_metric_key a b c" "x \<noteq> ''auto_trade:events''" "x \<noteq> lifecycle_key a" "x \<noteq> lifecycle_state_key a"
    "x \<noteq> last_lifecycle_key a" "x \<noteq> ''auto_trade:lifecycle_events''" "x \<noteq> evaluation_key a b"
proof -
  have "\<not> quiet cfg (lc_events cfg)" "\<not> quiet cfg (route_outcome_key a b)" "\<not> quiet cfg (last_route_outcome_key a)"
    "\<not> quiet cfg (route_history_key a)" "\<not> quiet cfg (route_metric_key a b c)" "\<not> quiet cfg ''auto_trade:events''"
    "\<not> quiet cfg (lifecycle_key a)" "\<not> quiet cfg (lifecycle_state_key a)" "\<not> quiet cfg (last_lifecycle_key a)"
    "\<not> quiet cfg ''auto_trade:lifecycle_events''" "\<not> quiet cfg (evaluation_key a b)"
    by (simp_all add: quiet_def telemetry_def route_outcome_key_def last_route_outcome_key_def route_history_key_def
        route_metric_key_def lifecycle_key_def lifecycle_state_key_def last_lifecycle_key_def evaluation_key_def)
  with assms show "x \<noteq> lc_events cfg" "x \<noteq> route_outcome_key a b" "x \<noteq> last_route_outcome_key a" "x \<noteq> route_history_key a"
    "x \<noteq> route_metric_key a b c" "x \<noteq> ''auto_trade:events''" "x \<noteq> lifecycle_key a" "x \<noteq> lifecycle_state_key a"
    "x \<noteq> last_lifecycle_key a" "x \<noteq> ''auto_trade:lifecycle_events''" "x \<noteq> evaluation_key a b" by metis+
qed

lemma counts_only_route:
  assumes "quiet cfg x"
  shows "all_calls (counts_only x) (record_route_outcome now m a)"
proof -
  note n = quietD[OF assms]
  have h: "counts_only x (HINCRBY (route_metrics sy) f k)" for sy f k
    by (auto simp: counts_only_def route_metrics_def)
  have s: "counts_only x (SET (route_outcome_key a b) t e nx)" "counts_only x (SET (last_route_outcome_key a) t e nx)"
    "counts_only x (SET (route_metric_key a b c) t e nx)" "counts_only x (XADD (route_history_key a) t)"
    "counts_only x (XADD ''auto_trade:events'' t)" "counts_only x (GET k)" for a b c t e nx k
    using n by (simp_all add: counts_only_def)
  have w: "all_calls (counts_only x) (write_outcome now (route_outcome_key b d) o1 ch pub)" for b d o1 ch pub
    unfolding write_outcome_def Let_def route_metrics_def[symmetric]
    by (auto intro!: all_calls_pbind all_calls_basic s h)
  show ?thesis
    unfolding record_route_outcome_def Let_def
    by (auto intro!: all_calls_pbind all_calls_basic s w split: prod.splits)
qed

lemma counts_only_emit:
  assumes "quiet cfg x"
  shows "all_calls (counts_only x) (emit_lifecycle cfg uuid now st a)"
proof -
  note n = quietD[OF assms]
  have "\<not> may_write (PIPE (lifecycle_pipe cfg now st a ev)) x" for ev
    using n by (auto simp: lifecycle_pipe_def Let_def list_ex_iff split: option.splits list.splits if_splits)
  then have "counts_only x (PIPE (lifecycle_pipe cfg now st a ev))" for ev by (simp add: counts_only_def)
  then show ?thesis
    unfolding emit_lifecycle_def Let_def
    by (auto intro!: all_calls_pbind all_calls_basic simp: counts_only_def)
qed

lemma counts_only_events:
  assumes "quiet (ce_lifecycle env) x"
  shows "all_calls (counts_only x) (cleanup_events env sid r reason source)"
  unfolding cleanup_events_def
  by (auto intro!: all_calls_pbind all_calls_pcatch counts_only_route[OF assms] counts_only_emit[OF assms] split: option.splits)

context redis_any
begin

lemma events_frame:
  assumes "quiet (ce_lifecycle env) x" "\<not> str_startswith x ''auto_trade:metrics:''"
  shows "ks (snd (run exec (cleanup_events env sid r reason source) s)) x = ks s x"
proof (rule run_frame)
  show "all_calls (\<lambda>c. \<not> may_write c x) (cleanup_events env sid r reason source)"
    by (rule all_calls_mono[OF counts_only_events[OF assms(1)]]) (use assms(2) in \<open>auto simp: counts_only_def\<close>)
qed

end

subsection \<open>The coordinator\<close>

text \<open>The configured event stream is none of the keys below.\<close>

definition events_apart :: "lifecycle_config \<Rightarrow> bool" where
  "events_apart cfg \<longleftrightarrow>
     \<not> list_ex (str_startswith (lc_events cfg))
         [''analysis:'', ''auto_trade:forming_'', ''auto_trade:execution_confirmation:'', ''auto_trade:metrics:'']"

lemma quiet_keys:
  assumes "events_apart cfg"
  shows "quiet cfg (setup_key a)" "quiet cfg setup_expiry_index_key" "quiet cfg (active_thesis_key a b)"
    "quiet cfg FORMING_ACTIVE_INDEX_KEY" "quiet cfg (forming_message_key a)" "quiet cfg (forming_status_key a)"
    "quiet cfg (forming_reconcile_pending_key a)" "quiet cfg (execution_confirmation_key a)" "quiet cfg (metrics_key a)"
proof -
  have n: "\<not> str_startswith (lc_events cfg) ''analysis:''" "\<not> str_startswith (lc_events cfg) ''auto_trade:forming_''"
    "\<not> str_startswith (lc_events cfg) ''auto_trade:execution_confirmation:''"
    "\<not> str_startswith (lc_events cfg) ''auto_trade:metrics:''"
    using assms by (simp_all add: events_apart_def)
  have sw: "str_startswith (setup_key a) ''analysis:''" "str_startswith setup_expiry_index_key ''analysis:''"
    "str_startswith (active_thesis_key a b) ''analysis:''" "str_startswith FORMING_ACTIVE_INDEX_KEY ''auto_trade:forming_''"
    "str_startswith (forming_message_key a) ''auto_trade:forming_''" "str_startswith (forming_status_key a) ''auto_trade:forming_''"
    "str_startswith (forming_reconcile_pending_key a) ''auto_trade:forming_''"
    "str_startswith (execution_confirmation_key a) ''auto_trade:execution_confirmation:''"
    "str_startswith (metrics_key a) ''auto_trade:metrics:''"
    by (simp_all add: setup_key_def setup_expiry_index_key_def active_thesis_key_def FORMING_ACTIVE_INDEX_KEY_def
        forming_message_key_def forming_status_key_def forming_reconcile_pending_key_def execution_confirmation_key_def
        metrics_key_def)
  from n sw have "setup_key a \<noteq> lc_events cfg" "setup_expiry_index_key \<noteq> lc_events cfg" "active_thesis_key a b \<noteq> lc_events cfg"
    "FORMING_ACTIVE_INDEX_KEY \<noteq> lc_events cfg" "forming_message_key a \<noteq> lc_events cfg" "forming_status_key a \<noteq> lc_events cfg"
    "forming_reconcile_pending_key a \<noteq> lc_events cfg" "execution_confirmation_key a \<noteq> lc_events cfg" "metrics_key a \<noteq> lc_events cfg"
    by metis+
  then show "quiet cfg (setup_key a)" "quiet cfg setup_expiry_index_key" "quiet cfg (active_thesis_key a b)"
    "quiet cfg FORMING_ACTIVE_INDEX_KEY" "quiet cfg (forming_message_key a)" "quiet cfg (forming_status_key a)"
    "quiet cfg (forming_reconcile_pending_key a)" "quiet cfg (execution_confirmation_key a)" "quiet cfg (metrics_key a)"
    by (simp_all add: quiet_def telemetry_def setup_key_def setup_expiry_index_key_def active_thesis_key_def
        FORMING_ACTIVE_INDEX_KEY_def forming_message_key_def forming_status_key_def forming_reconcile_pending_key_def
        execution_confirmation_key_def metrics_key_def)
qed

lemma no_metrics_keys [simp]:
  "\<not> str_startswith (setup_key a) ''auto_trade:metrics:''" "\<not> str_startswith setup_expiry_index_key ''auto_trade:metrics:''"
  "\<not> str_startswith (active_thesis_key a b) ''auto_trade:metrics:''"
  "\<not> str_startswith FORMING_ACTIVE_INDEX_KEY ''auto_trade:metrics:''"
  "\<not> str_startswith (forming_message_key a) ''auto_trade:metrics:''"
  "\<not> str_startswith (forming_status_key a) ''auto_trade:metrics:''"
  "\<not> str_startswith (forming_reconcile_pending_key a) ''auto_trade:metrics:''"
  "\<not> str_startswith (execution_confirmation_key a) ''auto_trade:metrics:''"
  by (simp_all add: setup_key_def setup_expiry_index_key_def active_thesis_key_def FORMING_ACTIVE_INDEX_KEY_def
        forming_message_key_def forming_status_key_def forming_reconcile_pending_key_def execution_confirmation_key_def)

text \<open>The keys of a setup and those of its card are apart.\<close>

lemma cleanup_keys [simp]:
  "setup_key a \<noteq> FORMING_ACTIVE_INDEX_KEY" "setup_key a \<noteq> forming_message_key b" "setup_key a \<noteq> forming_status_key b"
  "setup_key a \<noteq> forming_reconcile_pending_key b" "setup_key a \<noteq> telegram_root_message_key b"
  "setup_key a \<noteq> execution_confirmation_key b"
  "active_thesis_key c d \<noteq> FORMING_ACTIVE_INDEX_KEY" "active_thesis_key c d \<noteq> forming_message_key b"
  "active_thesis_key c d \<noteq> forming_status_key b" "active_thesis_key c d \<noteq> forming_reconcile_pending_key b"
  "active_thesis_key c d \<noteq> telegram_root_message_key b" "active_thesis_key c d \<noteq> execution_confirmation_key b"
  "setup_expiry_index_key \<noteq> FORMING_ACTIVE_INDEX_KEY" "setup_expiry_index_key \<noteq> forming_message_key b"
  "setup_expiry_index_key \<noteq> forming_status_key b" "setup_expiry_index_key \<noteq> forming_reconcile_pending_key b"
  "setup_expiry_index_key \<noteq> telegram_root_message_key b" "setup_expiry_index_key \<noteq> execution_confirmation_key b"
  "execution_confirmation_key a \<noteq> FORMING_ACTIVE_INDEX_KEY" "execution_confirmation_key a \<noteq> forming_message_key b"
  "execution_confirmation_key a \<noteq> forming_status_key b" "execution_confirmation_key a \<noteq> forming_reconcile_pending_key b"
  "execution_confirmation_key a \<noteq> telegram_root_message_key b"
  by (simp_all add: setup_key_def setup_expiry_index_key_def active_thesis_key_def FORMING_ACTIVE_INDEX_KEY_def
        forming_message_key_def forming_status_key_def forming_reconcile_pending_key_def telegram_root_message_key_def
        execution_confirmation_key_def)

lemmas cleanup_keys' [simp] = cleanup_keys[THEN not_sym]

text \<open>The keyspace after a card was closed without an error of Telegram.\<close>

definition card_closed_to :: "cleanup_env \<Rightarrow> string \<Rightarrow> forming_card option \<Rightarrow> keyspace \<Rightarrow> keyspace" where
  "card_closed_to env sid x K =
     (case x of None \<Rightarrow> without_card sid K
      | Some c \<Rightarrow> (case py_int (fc_chat_id c) of
            Inr chat \<Rightarrow> closed_card (ce_card env) (ck_ts (ce_clock env)) sid chat c K | Inl _ \<Rightarrow> K))"

definition cleaned :: "cleanup_env \<Rightarrow> string \<Rightarrow> setup_record \<Rightarrow> forming_card option \<Rightarrow> keyspace \<Rightarrow> keyspace" where
  "cleaned env sid r x K =
     (let K2 = (card_closed_to env sid x K)(execution_confirmation_key sid := None);
          K3 = put_zset K2 setup_expiry_index_key (assoc_del sid (k_zset K2 setup_expiry_index_key));
          claim = active_thesis_key (sr_symbol r) (sr_thesis_id r)
      in if k_text K3 claim = Some (Txt sid) then K3(claim := None) else K3)"

definition closable :: "cleanup_env \<Rightarrow> forming_card option \<Rightarrow> bool" where
  "closable env x \<longleftrightarrow> (case x of None \<Rightarrow> True
     | Some c \<Rightarrow> edit_refused (ce_telegram env) c = None \<and> (\<exists>chat. py_int (fc_chat_id c) = Inr chat))"

lemma card_closed_other:
  "k \<noteq> FORMING_ACTIVE_INDEX_KEY \<Longrightarrow> k \<noteq> forming_message_key sid \<Longrightarrow> k \<noteq> forming_status_key sid \<Longrightarrow>
   k \<noteq> forming_reconcile_pending_key sid \<Longrightarrow> k \<noteq> telegram_root_message_key sid \<Longrightarrow> card_closed_to env sid x K k = K k"
  by (simp add: card_closed_to_def without_card_def closed_card_def Let_def split: option.split sum.split)

lemma card_closed_keys:
  assumes "closable env x"
  shows "card_closed_to env sid x K FORMING_ACTIVE_INDEX_KEY = drop_active sid K FORMING_ACTIVE_INDEX_KEY"
    "card_closed_to env sid x K (forming_status_key sid) = None"
  using assms
  by (auto simp: closable_def card_closed_to_def without_card_def closed_card_def Let_def split: option.splits)

lemma cleaned_keys:
  assumes "closable env x"
  shows "cleaned env sid r x K FORMING_ACTIVE_INDEX_KEY = drop_active sid K FORMING_ACTIVE_INDEX_KEY"
    "cleaned env sid r x K (forming_status_key sid) = None"
    "cleaned env sid r x K (execution_confirmation_key sid) = None"
    "cleaned env sid r x K setup_expiry_index_key =
       put_zset K setup_expiry_index_key (assoc_del sid (k_zset K setup_expiry_index_key)) setup_expiry_index_key"
    "cleaned env sid r x K (active_thesis_key (sr_symbol r) (sr_thesis_id r)) =
       (if k_text K (active_thesis_key (sr_symbol r) (sr_thesis_id r)) = Some (Txt sid) then None
        else K (active_thesis_key (sr_symbol r) (sr_thesis_id r)))"
    "cleaned env sid r x K (setup_key sid') = K (setup_key sid')"
proof -
  have k: "k_text (card_closed_to env sid x K) (active_thesis_key a b) = k_text K (active_thesis_key a b)"
    "k_zset (card_closed_to env sid x K) setup_expiry_index_key = k_zset K setup_expiry_index_key" for a b
    by (simp_all add: k_text_def k_zset_def card_closed_other)
  have p: "k_text (put_zset L setup_expiry_index_key z) (active_thesis_key a b) = k_text L (active_thesis_key a b)" for L z a b
    by (simp add: k_text_def)
  have q: "put_zset L setup_expiry_index_key z setup_expiry_index_key = put_zset L' setup_expiry_index_key z setup_expiry_index_key" for L L' z
    by (simp add: put_zset_def)
  show "cleaned env sid r x K FORMING_ACTIVE_INDEX_KEY = drop_active sid K FORMING_ACTIVE_INDEX_KEY"
    "cleaned env sid r x K (forming_status_key sid) = None"
    "cleaned env sid r x K (execution_confirmation_key sid) = None"
    "cleaned env sid r x K (active_thesis_key (sr_symbol r) (sr_thesis_id r)) =
       (if k_text K (active_thesis_key (sr_symbol r) (sr_thesis_id r)) = Some (Txt sid) then None
        else K (active_thesis_key (sr_symbol r) (sr_thesis_id r)))"
    "cleaned env sid r x K (setup_key sid') = K (setup_key sid')"
    using card_closed_keys[OF assms] by (simp_all add: cleaned_def Let_def p k k_text_upd k_zset_upd card_closed_other)
  show "cleaned env sid r x K setup_expiry_index_key =
       put_zset K setup_expiry_index_key (assoc_del sid (k_zset K setup_expiry_index_key)) setup_expiry_index_key"
    by (simp add: cleaned_def Let_def k k_zset_upd) (rule q)
qed

text \<open>What holds of the keys of a setup that is closed.\<close>

definition card_store_ok :: "cleanup_env \<Rightarrow> keyspace \<Rightarrow> string \<Rightarrow> forming_card option \<Rightarrow> bool" where
  "card_store_ok env K sid x \<longleftrightarrow> set_key K FORMING_ACTIVE_INDEX_KEY \<and> str_key K (forming_message_key sid) \<and>
     parse_card (ce_card env) (k_text K (forming_message_key sid)) = Inr x"

context redis
begin

lemma cleanup_events_frame:
  "quiet (ce_lifecycle env) x \<Longrightarrow> \<not> str_startswith x ''auto_trade:metrics:'' \<Longrightarrow>
   ks (snd (run exec (cleanup_events env sid r reason source) s)) x = ks s x"
  by (rule events_frame)

lemma run_finalize:
  assumes "setup_at (ks s) sid r" "sr_state r \<in> TERMINAL_STATES" "card_store_ok env (ks s) sid x" "closable env x"
    "zset_key (ks s) setup_expiry_index_key" "str_key (ks s) (active_thesis_key (sr_symbol r) (sr_thesis_id r))"
  shows "\<exists>s'. ks s' = cleaned env sid r x (ks s) \<and>
     run exec (finalize_terminal_setup env sid reason source) s = run exec (cleanup_events env sid r reason source) s'"
proof -
  let ?c = "active_thesis_key (sr_symbol r) (sr_thesis_id r)"
  define s0 where "s0 = snd (exec (GET (setup_key sid)) s)"
  have k0: "ks s0 = ks s" by (simp add: s0_def)
  note card = assms(3)[unfolded card_store_ok_def, folded k0]
  from run_kill[of s0 sid "ce_card env" x "ce_telegram env" "ck_ts (ce_clock env)" reason] card assms(4)
  obtain s1 where s1: "run exec (kill_setup_card (ce_card env) (ce_telegram env) (ck_ts (ce_clock env)) sid reason) s0 = (Inr (), s1)"
    "ks s1 = card_closed_to env sid x (ks s)"
    by (auto simp: closable_def card_closed_to_def k0 split: option.splits)
  define s2 where "s2 = snd (exec (DEL (execution_confirmation_key sid)) s1)"
  have k2: "ks s2 = (card_closed_to env sid x (ks s))(execution_confirmation_key sid := None)" by (simp add: s2_def ks_write s1(2))
  have z2: "zset_key (ks s2) setup_expiry_index_key"
    using assms(5) by (simp add: k2 zset_key_def card_closed_other)
  define s3 where "s3 = snd (exec (ZREM setup_expiry_index_key sid) s2)"
  have k3: "ks s3 = put_zset (ks s2) setup_expiry_index_key (assoc_del sid (k_zset (ks s2) setup_expiry_index_key))"
    using z2 by (simp add: s3_def ks_write)
  have t3: "str_key (ks s3) ?c"
    using assms(6) by (simp add: k3 k2 str_key_def card_closed_other)
  have "\<exists>s4. ks s4 = (if k_text (ks s3) ?c = Some (Txt sid) then (ks s3)(?c := None) else ks s3) \<and>
     run exec (pbind (release_active_thesis (sr_symbol r) (sr_thesis_id r) sid) f) s3 = run exec (f ()) s4" for f :: "unit \<Rightarrow> unit prog"
  proof (cases "k_text (ks s3) ?c = Some (Txt sid)")
    case True
    then show ?thesis
      by (intro exI[of _ "snd (exec (DEL ?c) (snd (exec (GET ?c) s3)))"])
        (simp add: release_active_thesis_def Let_def run_get[OF t3] run_del ks_write)
  next
    case False
    then show ?thesis
      by (intro exI[of _ "snd (exec (GET ?c) s3)"]) (simp add: release_active_thesis_def Let_def run_get[OF t3])
  qed
  then obtain s4 where s4: "ks s4 = (if k_text (ks s3) ?c = Some (Txt sid) then (ks s3)(?c := None) else ks s3)"
    "run exec (pbind (release_active_thesis (sr_symbol r) (sr_thesis_id r) sid) (\<lambda>_. cleanup_events env sid r reason source)) s3 =
     run exec (cleanup_events env sid r reason source) s4" by blast
  have "run exec (finalize_terminal_setup env sid reason source) s = run exec (cleanup_events env sid r reason source) s4"
    by (simp add: finalize_terminal_setup_def run_load_setup[OF assms(1)] s0_def[symmetric] assms(2) run_pbind[of exec "kill_setup_card _ _ _ _ _"] s1(1)
        run_del s2_def[symmetric] run_zrem[OF z2] s3_def[symmetric] s4(2))
  then show ?thesis using s4(1) by (intro exI[of _ s4]) (simp add: cleaned_def Let_def k3 k2)
qed

end

section \<open>Properties\<close>

text \<open>The cleanup of a terminal setup is complete, whether or not the outcome and the event can be
  recorded afterwards: its card is no longer active and shows no status, its confirmation is gone, it has left
  the expiry index in which nothing else moves, the thesis is free if the setup held it and untouched otherwise,
  and the record itself stays. A setup that is missing or not terminal is left alone.\<close>

theorem cleanup_complete:
  assumes "redis exec ks" "events_apart (ce_lifecycle env)" "setup_at (ks s) sid r" "card_store_ok env (ks s) sid x"
    "closable env x" "zset_key (ks s) setup_expiry_index_key" "str_key (ks s) (active_thesis_key (sr_symbol r) (sr_thesis_id r))"
  shows "let claim = active_thesis_key (sr_symbol r) (sr_thesis_id r);
      (res, s') = run exec (finalize_terminal_setup env sid reason source) s; K = ks s; K' = ks s' in
    if sr_state r \<in> TERMINAL_STATES then
      sid \<notin> set (k_set K' FORMING_ACTIVE_INDEX_KEY) \<and> K' (forming_status_key sid) = None \<and>
      K' (execution_confirmation_key sid) = None \<and>
      map_of (k_zset K' setup_expiry_index_key) = (map_of (k_zset K setup_expiry_index_key))(sid := None) \<and>
      K' claim = (if k_text K claim = Some (Txt sid) then None else K claim) \<and> setup_at K' sid r
    else res = Inr () \<and> K' = K"
proof (cases "sr_state r \<in> TERMINAL_STATES")
  case False
  then show ?thesis
    by (simp add: finalize_terminal_setup_def redis.run_load_setup[OF assms(1,3)] redis.ks_read[OF assms(1)])
next
  case True
  let ?claim = "active_thesis_key (sr_symbol r) (sr_thesis_id r)"
  from redis.run_finalize[OF assms(1,3) True assms(4-7), of reason source] obtain s1 where s1:
    "ks s1 = cleaned env sid r x (ks s)"
    "run exec (finalize_terminal_setup env sid reason source) s = run exec (cleanup_events env sid r reason source) s1"
    by blast
  define K' where "K' = ks (snd (run exec (finalize_terminal_setup env sid reason source) s))"
  have q: "K' k = cleaned env sid r x (ks s) k" if "quiet (ce_lifecycle env) k" "\<not> str_startswith k ''auto_trade:metrics:''" for k
    using redis.cleanup_events_frame[OF assms(1) that] by (simp add: K'_def s1)
  note keys = quiet_keys[OF assms(2)]
  note ck = cleaned_keys[OF assms(5)]
  have parts: "K' FORMING_ACTIVE_INDEX_KEY = drop_active sid (ks s) FORMING_ACTIVE_INDEX_KEY"
    "K' (forming_status_key sid) = None" "K' (execution_confirmation_key sid) = None"
    "K' setup_expiry_index_key = put_zset (ks s) setup_expiry_index_key (assoc_del sid (k_zset (ks s) setup_expiry_index_key)) setup_expiry_index_key"
    "K' ?claim = (if k_text (ks s) ?claim = Some (Txt sid) then None else ks s ?claim)" "K' (setup_key sid) = ks s (setup_key sid)"
    by (simp_all only: q[OF keys(4)] q[OF keys(6)] q[OF keys(8)] q[OF keys(2)] q[OF keys(3)] q[OF keys(1)] no_metrics_keys not_False_eq_True ck)
  have "sid \<notin> set (k_set K' FORMING_ACTIVE_INDEX_KEY)"
    by (simp add: k_set_def parts(1) drop_active_def put_set_def del_member_def split: option.split)
  moreover have "map_of (k_zset K' setup_expiry_index_key) = (map_of (k_zset (ks s) setup_expiry_index_key))(sid := None)"
  proof -
    have "k_zset K' setup_expiry_index_key = k_zset (put_zset (ks s) setup_expiry_index_key
        (assoc_del sid (k_zset (ks s) setup_expiry_index_key))) setup_expiry_index_key"
      by (subst (1 2) k_zset_def) (simp only: parts(4))
    then show ?thesis by simp
  qed
  moreover have "setup_at K' sid r" using assms(3) parts(6) by (simp add: setup_at_def k_text_def)
  ultimately show ?thesis
    using True parts(2,3,5) by (simp add: K'_def Let_def case_prod_unfold)
qed

definition demo_cleanup_env :: cleanup_env where
  "demo_cleanup_env = \<lparr>ce_card = demo_card_config, ce_telegram = demo_telegram, ce_lifecycle = demo_lifecycle_config,
     ce_uuid = ''u1'', ce_clock = demo_lifecycle_clock\<rparr>"

definition demo_expired_setup :: setup_record where
  "demo_expired_setup = replace_setup demo_setup EXPIRED 1000 []"

definition demo_claim :: string where
  "demo_claim = active_thesis_key (sr_symbol demo_expired_setup) (sr_thesis_id demo_expired_setup)"

definition demo_expired_store :: keyspace where
  "demo_expired_store = [setup_key ''s1'' \<mapsto> VStr (Doc (setup_to_dict demo_expired_setup)) None,
     demo_claim \<mapsto> VStr (Txt ''s1'') None, FORMING_ACTIVE_INDEX_KEY \<mapsto> VSet [''s1'']]"

lemma demo_expired_facts:
  "setup_at demo_expired_store ''s1'' demo_expired_setup" "card_store_ok demo_cleanup_env demo_expired_store ''s1'' None"
  "zset_key demo_expired_store setup_expiry_index_key" "k_text demo_expired_store demo_claim = Some (Txt ''s1'')"
  "sr_state demo_expired_setup \<in> TERMINAL_STATES" "events_apart (ce_lifecycle demo_cleanup_env)" "closable demo_cleanup_env None"
proof -
  have n: "demo_claim \<noteq> setup_key a" "demo_claim \<noteq> FORMING_ACTIVE_INDEX_KEY" "demo_claim \<noteq> forming_message_key a"
    "demo_claim \<noteq> setup_expiry_index_key" for a
    by (simp_all add: demo_claim_def)
  note n' = n[THEN not_sym]
  show "setup_at demo_expired_store ''s1'' demo_expired_setup"
    by (simp add: demo_expired_store_def setup_at_def k_text_def n n')
  show "card_store_ok demo_cleanup_env demo_expired_store ''s1'' None"
    by (simp add: demo_expired_store_def card_store_ok_def set_key_def str_key_def k_text_def parse_card_def n n')
  show "zset_key demo_expired_store setup_expiry_index_key"
    by (simp add: demo_expired_store_def zset_key_def n n')
  show "k_text demo_expired_store demo_claim = Some (Txt ''s1'')"
    by (simp add: demo_expired_store_def k_text_def n n')
  show "sr_state demo_expired_setup \<in> TERMINAL_STATES" by (simp add: demo_expired_setup_def TERMINAL_STATES_def)
  show "events_apart (ce_lifecycle demo_cleanup_env)"
    by (simp add: events_apart_def demo_cleanup_env_def demo_lifecycle_config_def)
  show "closable demo_cleanup_env None" by (simp add: closable_def)
qed

lemma cleanup_complete_witness:
  "\<exists>res K. run mem_exec (finalize_terminal_setup demo_cleanup_env ''s1'' ''setup_expired'' ''sweeper'') demo_expired_store = (res, K) \<and>
     ''s1'' \<notin> set (k_set K FORMING_ACTIVE_INDEX_KEY) \<and> K demo_claim = None"
proof -
  have "str_key demo_expired_store demo_claim"
    using demo_expired_facts(4) by (auto simp: str_key_def k_text_def split: option.splits rvalue.splits)
  then have c: "str_key demo_expired_store (active_thesis_key (sr_symbol demo_expired_setup) (sr_thesis_id demo_expired_setup))"
    by (simp add: demo_claim_def)
  from cleanup_complete[where ks = "\<lambda>K. K" and reason = "''setup_expired''" and source = "''sweeper''",
      OF mem.redis_axioms demo_expired_facts(6,1,2,7,3) c] demo_expired_facts(4,5)
  show ?thesis by (auto simp: Let_def case_prod_unfold demo_claim_def prod_eq_iff)
qed

text \<open>C32. An error of Telegram other than a bad request, on the way to take the live marker out of
  a card, ends the cleanup there: the error reaches the caller and nothing but the set of active cards has
  changed - the confirmation, the index entry and the claim of the thesis stay.\<close>

theorem telegram_error_stops_cleanup:
  assumes "redis exec ks" "setup_at (ks s) sid r" "sr_state r \<in> TERMINAL_STATES" "card_store_ok env (ks s) sid (Some c)"
    "edit_refused (ce_telegram env) c = Some e"
  shows "\<exists>s'. run exec (finalize_terminal_setup env sid reason source) s = (Inl e, s') \<and> ks s' = drop_active sid (ks s)"
proof -
  define s0 where "s0 = snd (exec (GET (setup_key sid)) s)"
  have k0: "ks s0 = ks s" by (simp add: s0_def redis.ks_read[OF assms(1)])
  from redis.run_kill[OF assms(1), of s0 sid "ce_card env" "Some c" "ce_telegram env" "ck_ts (ce_clock env)" reason]
    assms(4,5) obtain s1 where
    "run exec (kill_setup_card (ce_card env) (ce_telegram env) (ck_ts (ce_clock env)) sid reason) s0 = (Inl e, s1)"
    "ks s1 = drop_active sid (ks s)"
    by (auto simp: card_store_ok_def k0)
  then show ?thesis
    by (simp add: finalize_terminal_setup_def redis.run_load_setup[OF assms(1,2)] s0_def[symmetric] assms(3)
        run_pbind[of exec "kill_setup_card _ _ _ _ _"])
qed

lemma telegram_error_stops_cleanup_witness:
  "\<exists>K. run mem_exec (finalize_terminal_setup
      (demo_cleanup_env\<lparr>ce_telegram := demo_telegram\<lparr>tg_edit := (\<lambda>_ _ _. Tg_error (RuntimeError ''flood''))\<rparr>\<rparr>)
      ''s1'' ''setup_expired'' ''sweeper'') (demo_expired_store(forming_message_key ''s1'' \<mapsto>
        VStr (card_doc 7 9 ''SETUP <i>(live)</i>'') None)) = (Inl (RuntimeError ''flood''), K) \<and>
     k_text K demo_claim = Some (Txt ''s1'')"
proof -
  let ?env = "demo_cleanup_env\<lparr>ce_telegram := demo_telegram\<lparr>tg_edit := (\<lambda>_ _ _. Tg_error (RuntimeError ''flood''))\<rparr>\<rparr>"
  let ?K = "demo_expired_store(forming_message_key ''s1'' \<mapsto> VStr (card_doc 7 9 ''SETUP <i>(live)</i>'') None)"
  let ?c = "\<lparr>fc_chat_id = JInt 7, fc_message_id = 9, fc_text = Some ''SETUP <i>(live)</i>''\<rparr>"
  have a: "setup_at ?K ''s1'' demo_expired_setup"
    using demo_expired_facts(1) by (simp add: setup_at_def k_text_def)
  have b: "card_store_ok ?env ?K ''s1'' (Some ?c)"
    using demo_expired_facts(2)
    by (simp add: card_store_ok_def k_text_def str_key_def parse_card_def card_doc_def py_or_def)
  have t: "strip_live_price_marker (card_text ?c) = ''SETUP''" by code_simp
  have e: "edit_refused (ce_telegram ?env) ?c = Some (RuntimeError ''flood'')"
    by (simp add: edit_refused_def Let_def t) (simp add: card_text_def)
  have k: "drop_active ''s1'' ?K demo_claim = demo_expired_store demo_claim" by (simp add: demo_claim_def)
  from telegram_error_stops_cleanup[where ks = "\<lambda>K. K" and reason = "''setup_expired''" and source = "''sweeper''",
      OF mem.redis_axioms a demo_expired_facts(5) b e] demo_expired_facts(4)
  show ?thesis using k by (auto simp: k_text_def)
qed

end
