(* ===== verification/ExpirySweeper.thy ===== *)
theory ExpirySweeper
  imports TerminalCleanup ScalpLifecycle
begin

text \<open>
  The sweeps that retire what nobody touches again (\<open>app/autotrade/setup_expiry_sweeper.py\<close>): one batch
  of setups whose expiry has passed, the armed scalp opportunities that went idle, and the loop around them. The loop
  has no end; the model runs as many of its rounds as there are clock readings given to it, and says of each whether it
  sleeps before the next one.
\<close>

section \<open>Setups\<close>

definition BATCH_SIZE :: nat where "BATCH_SIZE = 200"

text \<open>\<open>zrangebyscore(key, "-inf", now, start=0, num=n)\<close>.\<close>

definition rzrange :: "string \<Rightarrow> int \<Rightarrow> nat \<Rightarrow> string list prog" where
  "rzrange k hi n = pbind (rcall (ZRANGEBYSCORE k hi n)) (\<lambda>r. case r of RStrs xs \<Rightarrow> Done xs | _ \<Rightarrow> Done [])"

definition sweep_member :: "cleanup_env \<Rightarrow> bool \<Rightarrow> string \<Rightarrow> unit \<Rightarrow> unit prog" where
  "sweep_member env fallback setup_id u =
     pbind (pcatch (pbind (expire_setup fallback (ck_ts (ce_clock env)) setup_id) (\<lambda>r. Done (Some (snd r))))
              (\<lambda>_. Done None)) (\<lambda>res.
     case res of
       None \<Rightarrow> Done ()
     | Some outcome \<Rightarrow>
         if outcome = ''missing'' then
           pbind (run_cmd (ZREM setup_expiry_index_key setup_id)) (\<lambda>_.
           increment_metric ''setup_expiry_orphan_index_member'' ''XAU'' [])
         else if outcome = ''already_terminal'' then
           pbind (run_cmd (ZREM setup_expiry_index_key setup_id)) (\<lambda>_.
           increment_metric ''setup_expiry_already_terminal'' ''XAU'' [])
         else if outcome = ''publication_won'' then run_cmd (ZREM setup_expiry_index_key setup_id)
         else
           pbind (increment_metric ''setup_expiry_transitioned'' ''XAU'' []) (\<lambda>_.
           pcatch (finalize_terminal_setup env setup_id ''setup_expired_before_execution'' ''expiry_sweeper'')
             (\<lambda>_. Done ())))"

definition sweep_expired_setups_once :: "cleanup_env \<Rightarrow> bool \<Rightarrow> int \<Rightarrow> nat prog" where
  "sweep_expired_setups_once env fallback now =
     pbind (rzrange setup_expiry_index_key now BATCH_SIZE) (\<lambda>expired.
     if expired = [] then Done 0
     else pbind (pfor expired (sweep_member env fallback) ()) (\<lambda>_. Done (length expired)))"

section \<open>Scalp opportunities\<close>

definition SCALP_ARMED_MAX_AGE_SECONDS :: int where "SCALP_ARMED_MAX_AGE_SECONDS = 3600"

definition SCALP_ACTIVE_SYMBOLS :: "string list" where "SCALP_ACTIVE_SYMBOLS = [''XAU'']"

definition armed_member :: "string \<Rightarrow> int \<Rightarrow> int \<Rightarrow> string \<Rightarrow> int \<Rightarrow> int prog" where
  "armed_member symbol now max_age opportunity_id count =
     pbind (load_lifecycle symbol opportunity_id) (\<lambda>loaded.
     case loaded of
       None \<Rightarrow> pbind (run_cmd (SREM (active_key symbol) [opportunity_id])) (\<lambda>_. Done (count + 1))
     | Some r \<Rightarrow>
         if sl_state r = SC_ARMED \<and> now - sl_updated_at r \<ge> max_age
         then pbind (save_lifecycle symbol (transition_sc r SC_EXPIRED ''stale_armed_cleanup'' now)) (\<lambda>_. Done (count + 1))
         else Done count)"

definition sweep_stale_scalp_armed_once :: "int \<Rightarrow> int \<Rightarrow> int prog" where
  "sweep_stale_scalp_armed_once now max_age =
     pfor SCALP_ACTIVE_SYMBOLS (\<lambda>symbol count.
       pbind (rmembers (active_key symbol)) (\<lambda>members.
       if members = [] then Done count else pfor members (armed_member symbol now max_age) count)) 0"

section \<open>The loop\<close>

text \<open>One turn of \<open>while True\<close>: what finalising a setup uses and reads of the clock, and the times at which the two
  sweeps begin. True when the turn ends in \<open>asyncio.sleep\<close>, False when it ends in \<open>continue\<close>.\<close>

type_synonym sweep_turn = "cleanup_env \<times> int \<times> int"

fun sweeper_turn :: "bool \<Rightarrow> sweep_turn \<Rightarrow> bool prog" where
  "sweeper_turn fallback (env, now, scalp_now) =
     pcatch
       (pbind (sweep_expired_setups_once env fallback now) (\<lambda>processed.
        pbind (sweep_stale_scalp_armed_once scalp_now SCALP_ARMED_MAX_AGE_SECONDS) (\<lambda>_.
        Done (\<not> processed \<ge> BATCH_SIZE))))
       (\<lambda>_. Done True)"

definition setup_expiry_sweeper_loop :: "bool \<Rightarrow> bool \<Rightarrow> sweep_turn list \<Rightarrow> bool list prog" where
  "setup_expiry_sweeper_loop enabled fallback turns =
     (if \<not> enabled then Done []
      else pfor turns (\<lambda>turn sleeps. pbind (sweeper_turn fallback turn) (\<lambda>b. Done (sleeps @ [b]))) [])"

section \<open>Lemmas\<close>

subsection \<open>What the cleanup may write\<close>

definition metrics_xau :: string where "metrics_xau = metrics_key ''XAU''"

definition cleanup_cmd :: "string \<Rightarrow> redis_cmd \<Rightarrow> bool" where
  "cleanup_cmd sid c \<longleftrightarrow> (\<forall>a. \<not> may_write c (setup_key a)) \<and>
     (may_write c setup_expiry_index_key \<longrightarrow> c = ZREM setup_expiry_index_key sid) \<and> counts_only metrics_xau c"

lemma metrics_keys [simp]:
  "metrics_xau \<noteq> setup_key a" "metrics_xau \<noteq> setup_expiry_index_key" "metrics_xau \<noteq> active_thesis_key b c"
  "metrics_xau \<noteq> FORMING_ACTIVE_INDEX_KEY" "metrics_xau \<noteq> forming_message_key a" "metrics_xau \<noteq> forming_status_key a"
  "metrics_xau \<noteq> forming_reconcile_pending_key a" "metrics_xau \<noteq> telegram_root_message_key a"
  "metrics_xau \<noteq> execution_confirmation_key a"
  by (simp_all add: metrics_xau_def metrics_key_def setup_key_def setup_expiry_index_key_def active_thesis_key_def
      FORMING_ACTIVE_INDEX_KEY_def forming_message_key_def forming_status_key_def forming_reconcile_pending_key_def
      telegram_root_message_key_def execution_confirmation_key_def)

lemmas metrics_keys' [simp] = metrics_keys[THEN not_sym]

lemma cleanup_cmd_basic [simp]:
  "cleanup_cmd sid (GET k)" "cleanup_cmd sid (SREM FORMING_ACTIVE_INDEX_KEY l)" "cleanup_cmd sid (SADD FORMING_ACTIVE_INDEX_KEY l)"
  "cleanup_cmd sid (EXPIRE FORMING_ACTIVE_INDEX_KEY n)" "cleanup_cmd sid (SET (forming_message_key a) t e nx)"
  "cleanup_cmd sid (SET (telegram_root_message_key a) t e nx)"
  "cleanup_cmd sid (DELS [forming_message_key a, forming_status_key a, forming_reconcile_pending_key a, telegram_root_message_key a])"
  "cleanup_cmd sid (DELS [forming_status_key a, forming_reconcile_pending_key a])"
  "cleanup_cmd sid (DEL (execution_confirmation_key a))" "cleanup_cmd sid (DEL (active_thesis_key b c))"
  "cleanup_cmd sid (ZREM setup_expiry_index_key sid)"
  by (simp_all add: cleanup_cmd_def counts_only_def)

lemma cleanup_cmd_kill: "all_calls (cleanup_cmd sid) (kill_setup_card cfg tg now sid reason)"
proof -
  have s: "all_calls (cleanup_cmd sid) (save_forming_card cfg now sid chat mid t ttl)" for chat mid t ttl
    unfolding save_forming_card_def by (auto intro!: all_calls_pbind all_calls_basic)
  have c: "all_calls (cleanup_cmd sid) (clear_forming_card sid)"
    unfolding clear_forming_card_def by (intro all_calls_pbind all_calls_basic) simp_all
  have t: "all_calls (cleanup_cmd sid) (f b) \<Longrightarrow> all_calls (cleanup_cmd sid) (f (\<not> b)) \<Longrightarrow> all_calls (cleanup_cmd sid) (tg_catch x f)"
    for x b and f :: "bool \<Rightarrow> unit prog"
    by (cases x; cases b) (auto simp: tg_catch_def)
  show ?thesis
    unfolding kill_setup_card_def load_forming_card_def should_delete_root_on_terminal_def Let_def
    by (auto intro!: all_calls_pbind all_calls_basic s c t split: option.splits)
qed

lemma cleanup_cmd_finalize:
  assumes "events_apart (ce_lifecycle env)"
  shows "all_calls (cleanup_cmd sid) (finalize_terminal_setup env sid reason source)"
proof -
  have "all_calls (cleanup_cmd sid) (cleanup_events env sid r reason source)" for r
  proof -
    have q: "all_calls (counts_only x) (cleanup_events env sid r reason source)"
      if "quiet (ce_lifecycle env) x" for x by (rule counts_only_events[OF that])
    have conj: "all_calls P p \<Longrightarrow> all_calls Q p \<Longrightarrow> all_calls (\<lambda>c. P c \<and> Q c) p" for P Q and p :: "unit prog"
      by (induction p) auto
    have al: "(\<And>a. all_calls (R a) p) \<Longrightarrow> all_calls (\<lambda>c. \<forall>a. R a c) p" for R :: "string \<Rightarrow> redis_cmd \<Rightarrow> bool" and p :: "unit prog"
      by (induction p) auto
    have "all_calls (\<lambda>c. (\<forall>a. counts_only (setup_key a) c) \<and> counts_only setup_expiry_index_key c \<and> counts_only metrics_xau c)
        (cleanup_events env sid r reason source)"
      unfolding metrics_xau_def by (intro conj al q quiet_keys[OF assms])
    then show ?thesis
      by (rule all_calls_mono) (auto simp: cleanup_cmd_def counts_only_def)
  qed
  moreover have "all_calls (cleanup_cmd sid) (load_setup now sid)" for now
    unfolding load_setup_def by (auto intro!: all_calls_pbind all_calls_basic split: option.splits)
  moreover have "all_calls (cleanup_cmd sid) (release_active_thesis a b sid)" for a b
    unfolding release_active_thesis_def Let_def by (auto intro!: all_calls_pbind all_calls_basic)
  ultimately show ?thesis
    unfolding finalize_terminal_setup_def
    by (auto intro!: all_calls_pbind all_calls_basic cleanup_cmd_kill split: option.splits)
qed

subsection \<open>One batch\<close>

text \<open>What a sweep makes of a setup that is due.\<close>

definition swept_setup :: "int \<Rightarrow> setup_record \<Rightarrow> setup_record" where
  "swept_setup now r =
     (if sr_state r \<in> TERMINAL_STATES \<union> PUBLICATION_WON_STATES then r else replace_setup r EXPIRED now [])"

definition expirable :: "keyspace \<Rightarrow> string \<Rightarrow> bool" where
  "expirable K sid \<longleftrightarrow> K (setup_key sid) = None \<or>
     (\<exists>r. setup_at K sid r \<and> sr_setup_id r = sid \<and> sr_state r \<in> SETUP_STATES \<union> LEGACY_PRE_PLAN_STATES)"

text \<open>The store after the members \<open>D\<close> of a batch.\<close>

definition batch_done :: "int \<Rightarrow> keyspace \<Rightarrow> string set \<Rightarrow> keyspace \<Rightarrow> bool" where
  "batch_done now K0 D K \<longleftrightarrow>
     zset_key K setup_expiry_index_key \<and> hash_key K metrics_xau \<and>
     (\<forall>m. map_of (k_zset K setup_expiry_index_key) m = (if m \<in> D then None else map_of (k_zset K0 setup_expiry_index_key) m)) \<and>
     (\<forall>m. m \<notin> D \<longrightarrow> K (setup_key m) = K0 (setup_key m)) \<and>
     (\<forall>m. K0 (setup_key m) = None \<longrightarrow> K (setup_key m) = None) \<and>
     (\<forall>m r. m \<in> D \<longrightarrow> setup_at K0 m r \<longrightarrow> setup_at K m (swept_setup now r))"

lemma setup_at_cong: "K (setup_key m) = K' (setup_key m) \<Longrightarrow> setup_at K m r = setup_at K' m r"
  by (simp add: setup_at_def k_text_def)

lemma batch_done_add:
  assumes "batch_done now K0 D K" "zset_key K' setup_expiry_index_key" "hash_key K' metrics_xau"
    "map_of (k_zset K' setup_expiry_index_key) = (map_of (k_zset K setup_expiry_index_key))(sid := None)"
    "\<And>m. m \<noteq> sid \<Longrightarrow> K' (setup_key m) = K (setup_key m)"
    "K0 (setup_key sid) = None \<Longrightarrow> K' (setup_key sid) = None"
    "\<And>r. setup_at K0 sid r \<Longrightarrow> setup_at K' sid (swept_setup now r)"
  shows "batch_done now K0 (insert sid D) K'"
  using assms(1-3) unfolding batch_done_def
proof (elim conjE, intro conjI)
  assume z: "\<forall>m. map_of (k_zset K setup_expiry_index_key) m = (if m \<in> D then None else map_of (k_zset K0 setup_expiry_index_key) m)"
  show "\<forall>m. map_of (k_zset K' setup_expiry_index_key) m = (if m \<in> insert sid D then None else map_of (k_zset K0 setup_expiry_index_key) m)"
    using z by (simp add: assms(4))
next
  assume o: "\<forall>m. m \<notin> D \<longrightarrow> K (setup_key m) = K0 (setup_key m)"
  show "\<forall>m. m \<notin> insert sid D \<longrightarrow> K' (setup_key m) = K0 (setup_key m)" using o assms(5) by simp
next
  assume n: "\<forall>m. K0 (setup_key m) = None \<longrightarrow> K (setup_key m) = None"
  show "\<forall>m. K0 (setup_key m) = None \<longrightarrow> K' (setup_key m) = None" using n assms(5,6) by metis
next
  assume d: "\<forall>m r. m \<in> D \<longrightarrow> setup_at K0 m r \<longrightarrow> setup_at K m (swept_setup now r)"
  show "\<forall>m r. m \<in> insert sid D \<longrightarrow> setup_at K0 m r \<longrightarrow> setup_at K' m (swept_setup now r)"
    using d assms(5,7) setup_at_cong by (metis insertE)
qed

lemma expirable_allowed:
  "st \<in> SETUP_STATES \<union> LEGACY_PRE_PLAN_STATES \<Longrightarrow> st \<notin> TERMINAL_STATES \<union> PUBLICATION_WON_STATES \<Longrightarrow>
   EXPIRED \<in> allowed_from st"
  by (auto simp: allowed_from_eval SETUP_STATES_def TERMINAL_STATES_def PUBLICATION_WON_STATES_def)

text \<open>What every step after the transition of a member keeps.\<close>

definition after_member :: "keyspace \<Rightarrow> string \<Rightarrow> keyspace \<Rightarrow> bool" where
  "after_member K1 sid K \<longleftrightarrow> zset_key K setup_expiry_index_key \<and> hash_key K metrics_xau \<and>
     map_of (k_zset K setup_expiry_index_key) = (map_of (k_zset K1 setup_expiry_index_key))(sid := None) \<and>
     (\<forall>m. K (setup_key m) = K1 (setup_key m))"

lemma keff_hincrby_hash: "hash_key K k \<Longrightarrow> hash_key (keff (HINCRBY k f n) K) k"
  by (auto simp: keff_def Let_def hash_key_def split: option.splits rvalue.splits)

lemma after_member_cmd:
  assumes "cleanup_cmd sid c" "after_member K1 sid K"
  shows "after_member K1 sid (keff c K)"
  unfolding after_member_def
proof (intro conjI allI)
  show "keff c K (setup_key m) = K1 (setup_key m)" for m
    using assms keff_frame[of c "setup_key m" K] by (simp add: cleanup_cmd_def after_member_def)
  have same: "keff c K setup_expiry_index_key = K setup_expiry_index_key" if "\<not> may_write c setup_expiry_index_key"
    using that by (rule keff_frame)
  show "zset_key (keff c K) setup_expiry_index_key"
    "map_of (k_zset (keff c K) setup_expiry_index_key) = (map_of (k_zset K1 setup_expiry_index_key))(sid := None)"
  proof -
    have "zset_key (keff c K) setup_expiry_index_key \<and>
      map_of (k_zset (keff c K) setup_expiry_index_key) = (map_of (k_zset K1 setup_expiry_index_key))(sid := None)"
    proof (cases "may_write c setup_expiry_index_key")
      case True
      then have c: "c = ZREM setup_expiry_index_key sid" using assms(1) by (simp add: cleanup_cmd_def)
      have "zset_key K setup_expiry_index_key" using assms(2) by (simp add: after_member_def)
      then have "keff c K = put_zset K setup_expiry_index_key (assoc_del sid (k_zset K setup_expiry_index_key))"
        using mem.ks_write(4)[of K setup_expiry_index_key sid] by (simp add: c mem.eff)
      then show ?thesis using assms(2) by (simp add: after_member_def)
    next
      case False
      from same[OF this] show ?thesis using assms(2) by (simp add: after_member_def zset_key_def k_zset_def)
    qed
    then show "zset_key (keff c K) setup_expiry_index_key"
      "map_of (k_zset (keff c K) setup_expiry_index_key) = (map_of (k_zset K1 setup_expiry_index_key))(sid := None)" by simp_all
  qed
  show "hash_key (keff c K) metrics_xau"
  proof (cases "may_write c metrics_xau")
    case True
    then obtain f n where "c = HINCRBY metrics_xau f n" using assms(1) by (auto simp: cleanup_cmd_def counts_only_def)
    then show ?thesis using assms(2) keff_hincrby_hash by (simp add: after_member_def)
  next
    case False
    from keff_frame[OF this] show ?thesis using assms(2) by (simp add: after_member_def hash_key_def)
  qed
qed

context redis
begin

lemma run_keeps_after:
  "all_calls (cleanup_cmd sid) p \<Longrightarrow> after_member K1 sid (ks s) \<Longrightarrow> after_member K1 sid (ks (snd (run exec p s)))"
  by (rule run_keeps[where P = "cleanup_cmd sid"]) (auto intro: after_member_cmd)

lemma run_metric:
  assumes "hash_key (ks s) metrics_xau"
  shows "run exec (pbind (increment_metric name ''XAU'' []) f) s = run exec (f ()) (snd (exec (HINCRBY metrics_xau name 1) s))"
  using assms by (simp add: increment_metric_def Let_def run_hincrby metrics_xau_def)

lemma metric_after:
  assumes "after_member K1 sid (ks s)"
  shows "after_member K1 sid (ks (snd (exec (HINCRBY metrics_xau name 1) s)))"
proof -
  have "cleanup_cmd sid (HINCRBY metrics_xau name 1)"
    by (simp add: cleanup_cmd_def counts_only_def) (simp add: metrics_xau_def metrics_key_def)
  from after_member_cmd[OF this assms] show ?thesis by (simp add: eff)
qed

lemma zrem_after:
  assumes "zset_key (ks s) setup_expiry_index_key" "hash_key (ks s) metrics_xau"
  shows "after_member (ks s) sid (ks (snd (exec (ZREM setup_expiry_index_key sid) s)))"
  using assms by (simp add: ks_write after_member_def) (simp add: hash_key_def)

lemma sweep_member_missing:
  assumes "events_apart (ce_lifecycle env)" "batch_done (ck_ts (ce_clock env)) K0 D (ks s)"
    "run exec (expire_setup fb (ck_ts (ce_clock env)) sid) s = (Inr (y, outcome), s1)" "ks s1 = ks s"
    "outcome \<in> {''missing'', ''already_terminal'', ''publication_won''}"
    "\<And>r. setup_at K0 sid r \<Longrightarrow> setup_at (ks s) sid (swept_setup (ck_ts (ce_clock env)) r)"
  shows "\<exists>s'. run exec (sweep_member env fb sid ()) s = (Inr (), s') \<and>
     batch_done (ck_ts (ce_clock env)) K0 (insert sid D) (ks s')"
proof -
  have z: "zset_key (ks s1) setup_expiry_index_key" and h: "hash_key (ks s1) metrics_xau"
    using assms(2) by (auto simp: batch_done_def assms(4))
  define s2 where "s2 = snd (exec (ZREM setup_expiry_index_key sid) s1)"
  have a2: "after_member (ks s) sid (ks s2)" using zrem_after[OF z h, of sid] by (simp add: s2_def assms(4))
  have h2: "hash_key (ks s2) metrics_xau" using a2 by (simp add: after_member_def)
  have add: "batch_done (ck_ts (ce_clock env)) K0 (insert sid D) K'" if "after_member (ks s) sid K'" for K'
  proof (rule batch_done_add[OF assms(2)])
    show "setup_at K' sid (swept_setup (ck_ts (ce_clock env)) r)" if "setup_at K0 sid r" for r
      using assms(6)[OF that] \<open>after_member (ks s) sid K'\<close> setup_at_cong[of K' sid "ks s"] by (simp add: after_member_def)
    show "K' (setup_key sid) = None" if "K0 (setup_key sid) = None"
      using that \<open>after_member (ks s) sid K'\<close> assms(2) by (simp add: after_member_def batch_done_def)
  qed (use that in \<open>auto simp: after_member_def\<close>)
  have start: "run exec (sweep_member env fb sid ()) s = run exec (if outcome = ''missing'' then
           pbind (run_cmd (ZREM setup_expiry_index_key sid)) (\<lambda>_. increment_metric ''setup_expiry_orphan_index_member'' ''XAU'' [])
         else if outcome = ''already_terminal'' then
           pbind (run_cmd (ZREM setup_expiry_index_key sid)) (\<lambda>_. increment_metric ''setup_expiry_already_terminal'' ''XAU'' [])
         else run_cmd (ZREM setup_expiry_index_key sid)) s1"
    using assms(5) by (auto simp: sweep_member_def run_pbind[of exec "pcatch _ _"] run_pcatch run_pbind[of exec "expire_setup _ _ _"] assms(3))
  have m: "run exec (increment_metric name ''XAU'' []) s2 = (Inr (), snd (exec (HINCRBY metrics_xau name 1) s2))" for name
    using run_metric[OF h2, of name Done] by simp
  show ?thesis
    using add[OF a2] add[OF metric_after[OF a2]] assms(5)
    by (auto simp: start run_zrem[OF z] run_zset_last(2)[OF z] s2_def[symmetric] m)
qed

lemma sweep_member_expired:
  assumes "events_apart (ce_lifecycle env)" "batch_done (ck_ts (ce_clock env)) K0 D (ks s)"
    "setup_at (ks s) sid r" "sr_setup_id r = sid" "\<And>r'. setup_at K0 sid r' \<Longrightarrow> r' = r"
    "sr_state r \<notin> TERMINAL_STATES \<union> PUBLICATION_WON_STATES" "EXPIRED \<in> allowed_from (sr_state r)" "K0 (setup_key sid) \<noteq> None"
  shows "\<exists>s'. run exec (sweep_member env fb sid ()) s = (Inr (), s') \<and>
     batch_done (ck_ts (ce_clock env)) K0 (insert sid D) (ks s')"
proof -
  let ?now = "ck_ts (ce_clock env)"
  define u where "u = replace_setup r EXPIRED ?now []"
  have z: "zset_key (ks s) setup_expiry_index_key" and h: "hash_key (ks s) metrics_xau"
    using assms(2) by (auto simp: batch_done_def)
  obtain s1 where e: "run exec (expire_setup fb ?now sid) s = (Inr (Some u, ''transitioned''), s1)"
    "ks s1 = store_setup ?now sid u (ks s)"
    using run_expire[OF assms(3) z, of fb ?now] assms(6,7)
    by (cases "run exec (expire_setup fb ?now sid) s") (auto simp: u_def)
  have du: "due u = None" by (simp add: due_def u_def TERMINAL_STATES_def)
  have id: "sr_setup_id u = sid" by (simp add: u_def assms(4))
  note views = store_setup_views[where now = ?now and sid = sid and r = u and K = "ks s", folded e(2), unfolded id du]
  have a1: "after_member (ks s1) sid (ks s1)"
    using views(2,5) h views(3)[of metrics_xau] by (simp add: after_member_def hash_key_def)
  define s2 where "s2 = snd (exec (HINCRBY metrics_xau ''setup_expiry_transitioned'' 1) s1)"
  have h1: "hash_key (ks s1) metrics_xau" using a1 by (simp add: after_member_def)
  let ?F = "finalize_terminal_setup env sid ''setup_expired_before_execution'' ''expiry_sweeper''"
  have "after_member (ks s1) sid (ks (snd (run exec ?F s2)))"
    by (rule run_keeps_after[OF cleanup_cmd_finalize[OF assms(1)]]) (simp add: s2_def metric_after[OF a1])
  moreover obtain y s3 where f: "run exec ?F s2 = (y, s3)" by (meson surj_pair)
  ultimately have a3: "after_member (ks s1) sid (ks s3)" by simp
  have "run exec (sweep_member env fb sid ()) s = (Inr (), s3)"
    by (cases y) (simp_all add: sweep_member_def run_pbind[of exec "pcatch _ _"] run_pcatch run_pbind[of exec "expire_setup _ _ _"]
        e(1) run_metric[OF h1] s2_def[symmetric] f)
  moreover have "batch_done ?now K0 (insert sid D) (ks s3)"
  proof (rule batch_done_add[OF assms(2)])
    show "zset_key (ks s3) setup_expiry_index_key" "hash_key (ks s3) metrics_xau" using a3 by (simp_all add: after_member_def)
    show "map_of (k_zset (ks s3) setup_expiry_index_key) = (map_of (k_zset (ks s) setup_expiry_index_key))(sid := None)"
      using a3 views(2) by (simp add: after_member_def)
    show "ks s3 (setup_key m) = ks s (setup_key m)" if "m \<noteq> sid" for m
      using a3 that views(3)[of "setup_key m"] by (simp add: after_member_def)
    show "ks s3 (setup_key sid) = None" if "K0 (setup_key sid) = None" using that assms(8) by simp
    show "setup_at (ks s3) sid (swept_setup ?now r')" if "setup_at K0 sid r'" for r'
    proof -
      have "setup_at (ks s1) sid u" by (simp add: views(1))
      then have "setup_at (ks s3) sid u" using a3 setup_at_cong[of "ks s3" sid "ks s1"] by (simp add: after_member_def)
      then show ?thesis using assms(5)[OF that] assms(6) by (simp add: swept_setup_def u_def)
    qed
  qed
  ultimately show ?thesis by blast
qed

lemma run_sweep_member:
  assumes "events_apart (ce_lifecycle env)" "batch_done (ck_ts (ce_clock env)) K0 D (ks s)" "sid \<notin> D" "expirable K0 sid"
  shows "\<exists>s'. run exec (sweep_member env fb sid ()) s = (Inr (), s') \<and>
     batch_done (ck_ts (ce_clock env)) K0 (insert sid D) (ks s')"
proof -
  let ?now = "ck_ts (ce_clock env)"
  have z: "zset_key (ks s) setup_expiry_index_key" and same: "ks s (setup_key sid) = K0 (setup_key sid)"
    using assms(2,3) by (auto simp: batch_done_def)
  obtain x s1 where e: "run exec (expire_setup fb ?now sid) s = (x, s1)" by (meson surj_pair)
  note sa = setup_at_cong[of "ks s" sid K0, OF same]
  note left = sweep_member_missing[OF assms(1,2), where fb = fb and sid = sid]
  from assms(4) consider (none) "K0 (setup_key sid) = None"
    | (some) r where "setup_at K0 sid r" "sr_setup_id r = sid" "sr_state r \<in> SETUP_STATES \<union> LEGACY_PRE_PLAN_STATES"
    by (auto simp: expirable_def)
  then show ?thesis
  proof cases
    case none
    then have "ks s (setup_key sid) = None" by (simp add: same)
    note m = run_expire_missing[OF this, of fb ?now]
    have "\<not> setup_at K0 sid r" for r using none by (simp add: setup_at_def k_text_def)
    with m e show ?thesis by (intro left[of None "''missing''" s1]) auto
  next
    case some
    have at: "setup_at (ks s) sid r" using some(1) sa by simp
    note m = run_expire[OF at z, of fb ?now]
    have only: "r' = r" if "setup_at K0 sid r'" for r' using setup_at_inject[OF that some(1)] .
    consider (closed) "sr_state r \<in> TERMINAL_STATES" | (won) "sr_state r \<notin> TERMINAL_STATES" "sr_state r \<in> PUBLICATION_WON_STATES"
      | (live) "sr_state r \<notin> TERMINAL_STATES \<union> PUBLICATION_WON_STATES" by blast
    then show ?thesis
    proof cases
      case closed
      with m e at only show ?thesis
        by (intro left[of "Some r" "''already_terminal''" s1]) (auto simp: swept_setup_def)
    next
      case won
      with m e at only show ?thesis
        by (intro left[of "Some r" "''publication_won''" s1]) (auto simp: swept_setup_def)
    next
      case live
      have k0: "K0 (setup_key sid) \<noteq> None" using some(1) by (auto simp: setup_at_def k_text_def split: option.splits)
      show ?thesis
        by (rule sweep_member_expired[OF assms(1,2) at some(2) only live expirable_allowed[OF some(3) live] k0])
    qed
  qed
qed

lemma run_sweep_batch:
  assumes "events_apart (ce_lifecycle env)" "batch_done (ck_ts (ce_clock env)) K0 D (ks s)" "distinct ids" "set ids \<inter> D = {}"
    "\<forall>sid\<in>set ids. expirable K0 sid"
  shows "\<exists>s'. run exec (pfor ids (sweep_member env fb) ()) s = (Inr (), s') \<and>
     batch_done (ck_ts (ce_clock env)) K0 (set ids \<union> D) (ks s')"
  using assms(2-5)
proof (induction ids arbitrary: s D)
  case (Cons sid ids)
  have "sid \<notin> D" "expirable K0 sid" using Cons.prems by auto
  from run_sweep_member[OF assms(1) Cons.prems(1) this, of fb] obtain s1 where s1:
    "run exec (sweep_member env fb sid ()) s = (Inr (), s1)" "batch_done (ck_ts (ce_clock env)) K0 (insert sid D) (ks s1)" by blast
  have "set ids \<inter> insert sid D = {}" "distinct ids" "\<forall>sid\<in>set ids. expirable K0 sid" using Cons.prems by auto
  from Cons.IH[OF s1(2) this(2,1,3)] show ?case by (simp add: run_pbind s1(1))
qed simp

lemma run_zrange:
  assumes "zset_key (ks s) k"
  shows "run exec (pbind (rzrange k hi n) f) s =
     run exec (f (zrange_upto (k_zset (ks s) k) hi n)) (snd (exec (ZRANGEBYSCORE k hi n) s))"
proof -
  have "fst (kstep (ZRANGEBYSCORE k hi n) (ks s)) = RStrs (zrange_upto (k_zset (ks s) k) hi n)"
    using assms by (auto simp: zset_key_def k_zset_def zrange_upto_def split: option.splits rvalue.splits)
  then show ?thesis by (simp add: rzrange_def run_rcall_strs)
qed

lemma run_sweep_once:
  assumes "events_apart (ce_lifecycle env)" "zset_key (ks s) setup_expiry_index_key" "hash_key (ks s) metrics_xau"
    "distinct (map fst (k_zset (ks s) setup_expiry_index_key))"
    "ids = zrange_upto (k_zset (ks s) setup_expiry_index_key) now BATCH_SIZE" "\<forall>sid\<in>set ids. expirable (ks s) sid"
  shows "\<exists>s'. run exec (sweep_expired_setups_once env fb now) s = (Inr (length ids), s') \<and>
     batch_done (ck_ts (ce_clock env)) (ks s) (set ids) (ks s')"
proof -
  let ?s1 = "snd (exec (ZRANGEBYSCORE setup_expiry_index_key now BATCH_SIZE) s)"
  have k1: "ks ?s1 = ks s" by simp
  have b: "batch_done (ck_ts (ce_clock env)) (ks s) {} (ks ?s1)"
    using assms(2,3) unfolding k1 by (simp add: batch_done_def)
  have d: "distinct ids"
    unfolding assms(5) zrange_upto_def
    by (intro distinct_take) (simp add: distinct_map assms(4)[unfolded distinct_map] inj_on_subset[OF assms(4)[unfolded distinct_map, THEN conjunct2]])
  have start: "run exec (sweep_expired_setups_once env fb now) s = run exec (if ids = [] then Done 0
     else pbind (pfor ids (sweep_member env fb) ()) (\<lambda>_. Done (length ids))) ?s1"
    by (simp add: sweep_expired_setups_once_def run_zrange[OF assms(2)] assms(5)[symmetric])
  from run_sweep_batch[OF assms(1) b d _ assms(6), of fb] show ?thesis
    unfolding start using b by (cases "ids = []") (auto simp: run_pbind)
qed

end

subsection \<open>The loop\<close>

text \<open>A stored text that no clock reading makes a setup of.\<close>

definition unreadable :: "rtext \<Rightarrow> bool" where
  "unreadable t \<longleftrightarrow> (\<forall>now. \<exists>err. res_bind (json_loads t) (setup_from_dict now) = Inl err)"

text \<open>The keys of the setups and of their expiry index, which the scalp sweep never writes.\<close>

definition quiet_key :: "string \<Rightarrow> bool" where
  "quiet_key k \<longleftrightarrow> k = setup_expiry_index_key \<or> (\<exists>sid. k = setup_key sid)"

lemma quiet_keys_simps [simp]: "quiet_key setup_expiry_index_key" "quiet_key (setup_key sid)"
  by (auto simp: quiet_key_def)

lemma quiet_key_scalp: "quiet_key k \<Longrightarrow> k \<noteq> active_key s \<and> k \<noteq> lifecycle_key_sc s oid"
  by (auto simp: quiet_key_def setup_key_def setup_expiry_index_key_def active_key_def lifecycle_key_sc_def)

lemma scalp_not_setup_keys [simp]:
  "active_key s \<noteq> setup_expiry_index_key" "active_key s \<noteq> setup_key sid"
  "lifecycle_key_sc s oid \<noteq> setup_expiry_index_key" "lifecycle_key_sc s oid \<noteq> setup_key sid"
  using quiet_key_scalp[of setup_expiry_index_key s oid] quiet_key_scalp[of "setup_key sid" s oid] by auto

lemma all_calls_armed_sweep:
  "quiet_key k \<Longrightarrow> all_calls (\<lambda>c. \<not> may_write c k) (sweep_stale_scalp_armed_once now age)"
  using quiet_key_scalp[of k]
  by (auto simp: sweep_stale_scalp_armed_once_def armed_member_def load_lifecycle_def save_lifecycle_def
      intro!: all_calls_pbind all_calls_basic all_calls_pfor split: option.splits)

text \<open>The armed sweep is the body of \<open>sweep_body\<close> with its own notion of dead.\<close>

definition armed_dead :: "int \<Rightarrow> int \<Rightarrow> scalp_record \<Rightarrow> bool" where
  "armed_dead now age r \<longleftrightarrow> sl_state r = SC_ARMED \<and> now - sl_updated_at r \<ge> age"

lemma armed_member_sweep:
  "armed_member symbol now age =
     sweep_body symbol (armed_dead now age) (\<lambda>r. transition_sc r SC_EXPIRED ''stale_armed_cleanup'' now)"
  by (auto simp: armed_member_def sweep_body_def armed_dead_def fun_eq_iff
      intro!: arg_cong[where f = "pbind _"] split: option.splits)

lemma armed_expired:
  assumes "armed_dead now age r"
  shows "sl_opportunity_id (transition_sc r SC_EXPIRED reason now') = sl_opportunity_id r \<and>
     sl_state (transition_sc r SC_EXPIRED reason now') \<notin> set ACTIVE_STATES"
proof -
  have "sl_state r \<notin> set TERMINAL_STATES_sc"
    using assms by (intro stale_active) (simp add: armed_dead_def STALE_ARMED_STATES_def)
  then show ?thesis using expired_terminal by (simp add: transition_sc_def Let_def)
qed

text \<open>A full batch stays the batch at every later time.\<close>

lemma filter_takeWhile_sorted:
  assumes "sorted (map f xs)" "\<And>x y. f x \<le> f y \<Longrightarrow> P y \<Longrightarrow> P x"
  shows "filter P xs = takeWhile P xs"
  using assms(1)
proof (induction xs)
  case (Cons a xs)
  have "filter P xs = []" if "\<not> P a" using Cons.prems assms(2) that by (auto simp: filter_empty_conv)
  then show ?case using Cons by (cases "P a") auto
qed simp

lemma zrange_upto_later:
  assumes "hi \<le> hi'" "length (zrange_upto z hi n) = n"
  shows "zrange_upto z hi' n = zrange_upto z hi n"
proof -
  let ?f = "\<lambda>(m, s). (s :: int, m :: string)" and ?P = "\<lambda>h (m :: string, s). s \<le> (h :: int)"
  define xs where "xs = sort_key ?f (filter (?P hi') z)"
  have "filter (?P hi) (filter (?P hi') z) = filter (?P hi) z" using assms(1) by (auto simp: intro!: filter_cong)
  then have "sort_key ?f (filter (?P hi) z) = filter (?P hi) xs" by (simp add: xs_def filter_sort)
  also have "\<dots> = takeWhile (?P hi) xs"
    by (rule filter_takeWhile_sorted[of ?f]) (auto simp: xs_def less_eq_prod_def split: prod.splits)
  finally have w: "zrange_upto z hi n = take n (map fst (takeWhile (?P hi) xs))" by (simp add: zrange_upto_def)
  then have len: "n \<le> length (takeWhile (?P hi) xs)" using assms(2) by simp
  have "take n xs = take n (takeWhile (?P hi) xs @ dropWhile (?P hi) xs)" by simp
  also have "\<dots> = take n (takeWhile (?P hi) xs)" using len by (simp del: takeWhile_dropWhile_id)
  finally show ?thesis unfolding w by (simp add: zrange_upto_def xs_def[symmetric] take_map)
qed

context redis
begin

lemma run_unreadable_batch:
  assumes "\<forall>sid\<in>set ids. \<exists>t e. ks s (setup_key sid) = Some (VStr t e) \<and> unreadable t"
  shows "\<exists>s'. run exec (pfor ids (sweep_member env fb) ()) s = (Inr (), s') \<and> ks s' = ks s"
  using assms
proof (induction ids arbitrary: s)
  case (Cons sid ids)
  then obtain t e where "ks s (setup_key sid) = Some (VStr t e)" "unreadable t" by auto
  then obtain err where t: "ks s (setup_key sid) = Some (VStr t e)"
    "res_bind (json_loads t) (setup_from_dict (ck_ts (ce_clock env))) = Inl err" unfolding unreadable_def by blast
  define s1 where "s1 = snd (exec (GET (setup_key sid)) s)"
  have "str_key (ks s) (setup_key sid)" "k_text (ks s) (setup_key sid) = Some t" using t(1) by (simp_all add: str_key_def k_text_def)
  then have e: "run exec (expire_setup fb (ck_ts (ce_clock env)) sid) s = (Inl err, s1)"
    by (simp add: expire_setup_def load_setup_def run_get t(2) s1_def)
  have "run exec (sweep_member env fb sid ()) s = (Inr (), s1)"
    by (simp add: sweep_member_def run_pbind[of exec "pcatch _ _"] run_pcatch run_pbind[of exec "expire_setup _ _ _"] e)
  moreover have "ks s1 = ks s" by (simp add: s1_def)
  moreover have "\<exists>s'. run exec (pfor ids (sweep_member env fb) ()) s1 = (Inr (), s') \<and> ks s' = ks s1"
    using Cons.prems \<open>ks s1 = ks s\<close> by (intro Cons.IH) simp
  ultimately show ?case by (auto simp: run_pbind)
qed simp

lemma run_unreadable_once:
  assumes "zset_key (ks s) setup_expiry_index_key" "ids = zrange_upto (k_zset (ks s) setup_expiry_index_key) now BATCH_SIZE"
    "\<forall>sid\<in>set ids. \<exists>t e. ks s (setup_key sid) = Some (VStr t e) \<and> unreadable t"
  shows "\<exists>s'. run exec (sweep_expired_setups_once env fb now) s = (Inr (length ids), s') \<and> ks s' = ks s"
proof -
  let ?s1 = "snd (exec (ZRANGEBYSCORE setup_expiry_index_key now BATCH_SIZE) s)"
  from run_unreadable_batch[of ids ?s1 env fb] assms(3) obtain s2 where
    "run exec (pfor ids (sweep_member env fb) ()) ?s1 = (Inr (), s2)" "ks s2 = ks s" by auto
  moreover have "run exec (sweep_expired_setups_once env fb now) s = run exec (if ids = [] then Done 0
     else pbind (pfor ids (sweep_member env fb) ()) (\<lambda>_. Done (length ids))) ?s1"
    by (simp add: sweep_expired_setups_once_def run_zrange[OF assms(1)] assms(2)[symmetric])
  ultimately show ?thesis by (cases "ids = []") (auto simp: run_pbind)
qed

lemma run_armed_sweep:
  assumes "scalp_view (ks s) ''XAU'' recs"
  shows "\<exists>s' n recs'. run exec (sweep_stale_scalp_armed_once now age) s = (Inr n, s') \<and> scalp_view (ks s') ''XAU'' recs'"
proof -
  have one: "sweep_stale_scalp_armed_once now age = pbind (rmembers (active_key ''XAU''))
      (\<lambda>members. if members = [] then Done 0 else pfor members (armed_member ''XAU'' now age) 0)"
    by (simp add: sweep_stale_scalp_armed_once_def SCALP_ACTIVE_SYMBOLS_def)
  have "set_key (ks s) (active_key ''XAU'')" using assms by (simp add: scalp_view_def)
  from run_members[OF this, where f = "\<lambda>members. if members = [] then Done 0 else pfor members (armed_member ''XAU'' now age) 0"]
  obtain ids where ids: "distinct ids"
    "run exec (sweep_stale_scalp_armed_once now age) s = run exec (if ids = [] then Done 0 else pfor ids (armed_member ''XAU'' now age) 0) (snd (exec (SMEMBERS (active_key ''XAU'')) s))"
    unfolding one by blast
  have upd: "\<And>r. armed_dead now age r \<Longrightarrow> sl_opportunity_id (transition_sc r SC_EXPIRED ''stale_armed_cleanup'' now) = sl_opportunity_id r \<and>
      sl_state (transition_sc r SC_EXPIRED ''stale_armed_cleanup'' now) \<notin> set ACTIVE_STATES" by (rule armed_expired)
  have all: "(if ids = [] then Done 0 else pfor ids (armed_member ''XAU'' now age) 0) = pfor ids (armed_member ''XAU'' now age) 0" by simp
  have "scalp_view (ks (snd (exec (SMEMBERS (active_key ''XAU'')) s))) ''XAU'' recs" using assms by simp
  from run_sweep[OF this ids(1) upd, where n = 0] obtain s' n recs' where
    "run exec (pfor ids (armed_member ''XAU'' now age) 0) (snd (exec (SMEMBERS (active_key ''XAU'')) s)) = (Inr n, s')"
    "scalp_view (ks s') ''XAU'' recs'"
    unfolding armed_member_sweep by blast
  then show ?thesis unfolding ids(2) all by (intro exI conjI)
qed

lemma armed_sweep_frame:
  "quiet_key k \<Longrightarrow> ks (snd (run exec (sweep_stale_scalp_armed_once now age) s)) k = ks s k"
  by (rule run_keeps[where P = "\<lambda>c. \<not> may_write c k" and I = "\<lambda>K. K k = ks s k"])
     (simp_all add: keff_frame all_calls_armed_sweep)

lemma run_sweeper_turn:
  assumes "zset_key (ks s) setup_expiry_index_key" "scalp_view (ks s) ''XAU'' recs" "now0 \<le> now"
    "ids = zrange_upto (k_zset (ks s) setup_expiry_index_key) now0 BATCH_SIZE" "length ids = BATCH_SIZE"
    "\<forall>sid\<in>set ids. \<exists>t e. ks s (setup_key sid) = Some (VStr t e) \<and> unreadable t"
  shows "\<exists>s' recs'. run exec (sweeper_turn fb (env, now, scalp_now)) s = (Inr False, s') \<and>
     scalp_view (ks s') ''XAU'' recs' \<and> (\<forall>k. quiet_key k \<longrightarrow> ks s' k = ks s k)"
proof -
  have "zrange_upto (k_zset (ks s) setup_expiry_index_key) now BATCH_SIZE = ids"
    using zrange_upto_later[OF assms(3)] assms(4,5) by simp
  from run_unreadable_once[OF assms(1) this[symmetric] assms(6)] obtain s1 where s1:
    "run exec (sweep_expired_setups_once env fb now) s = (Inr BATCH_SIZE, s1)" "ks s1 = ks s" using assms(5) by metis
  from run_armed_sweep[of s1 recs scalp_now SCALP_ARMED_MAX_AGE_SECONDS] assms(2) s1(2) obtain s2 n recs' where s2:
    "run exec (sweep_stale_scalp_armed_once scalp_now SCALP_ARMED_MAX_AGE_SECONDS) s1 = (Inr n, s2)"
    "scalp_view (ks s2) ''XAU'' recs'" by auto
  have "ks s2 k = ks s k" if "quiet_key k" for k
    using armed_sweep_frame[OF that, of scalp_now SCALP_ARMED_MAX_AGE_SECONDS s1] by (simp add: s2(1) s1(2))
  with s2(2) show ?thesis
    by (intro exI[of _ s2] exI[of _ recs']) (simp add: run_pcatch run_pbind s1(1) s2(1))
qed

lemma run_sweeper_turns:
  assumes "zset_key (ks s) setup_expiry_index_key" "scalp_view (ks s) ''XAU'' recs"
    "\<forall>turn\<in>set turns. now0 \<le> fst (snd turn)"
    "ids = zrange_upto (k_zset (ks s) setup_expiry_index_key) now0 BATCH_SIZE" "length ids = BATCH_SIZE"
    "\<forall>sid\<in>set ids. \<exists>t e. ks s (setup_key sid) = Some (VStr t e) \<and> unreadable t"
  shows "\<exists>s'. run exec (pfor turns (\<lambda>turn sleeps. pbind (sweeper_turn fb turn) (\<lambda>b. Done (sleeps @ [b]))) acc) s =
       (Inr (acc @ replicate (length turns) False), s') \<and> (\<forall>k. quiet_key k \<longrightarrow> ks s' k = ks s k)"
  using assms
proof (induction turns arbitrary: s recs acc)
  case (Cons turn turns)
  obtain env now scalp_now where turn: "turn = (env, now, scalp_now)" by (cases turn) auto
  with Cons.prems(3) have "now0 \<le> now" by simp
  from run_sweeper_turn[OF Cons.prems(1,2) this Cons.prems(4-6), of fb env scalp_now] obtain s1 recs1 where s1:
    "run exec (sweeper_turn fb turn) s = (Inr False, s1)" "scalp_view (ks s1) ''XAU'' recs1"
    "\<forall>k. quiet_key k \<longrightarrow> ks s1 k = ks s k" unfolding turn by blast
  have same: "ks s1 setup_expiry_index_key = ks s setup_expiry_index_key" "ks s1 (setup_key sid) = ks s (setup_key sid)" for sid
    using s1(3) by simp_all
  have z: "k_zset (ks s1) setup_expiry_index_key = k_zset (ks s) setup_expiry_index_key" "zset_key (ks s1) setup_expiry_index_key"
    using Cons.prems(1) by (simp_all add: k_zset_def zset_key_def same(1))
  have "\<exists>s'. run exec (pfor turns (\<lambda>turn sleeps. pbind (sweeper_turn fb turn) (\<lambda>b. Done (sleeps @ [b]))) (acc @ [False])) s1 =
       (Inr ((acc @ [False]) @ replicate (length turns) False), s') \<and> (\<forall>k. quiet_key k \<longrightarrow> ks s' k = ks s1 k)"
    using Cons.prems(3-6) by (intro Cons.IH[OF z(2) s1(2)]) (simp_all add: z(1) same(2))
  then show ?case using s1(3) by (auto simp: run_pbind s1(1))
qed simp

end

section \<open>Properties\<close>

text \<open>One batch, over any state of Telegram and of the cards: it returns the number of members that were due (two
  hundred at most, the earliest first); each of them leaves the expiry index and no other member moves; a due setup that
  still waits becomes EXPIRED, one that is terminal or whose plan won stays as it is, and no setup outside the
  batch changes.\<close>

theorem sweep_exact:
  assumes "redis exec ks" "events_apart (ce_lifecycle env)" "zset_key (ks s) setup_expiry_index_key"
    "hash_key (ks s) metrics_xau" "distinct (map fst (k_zset (ks s) setup_expiry_index_key))"
    "ids = zrange_upto (k_zset (ks s) setup_expiry_index_key) now BATCH_SIZE" "\<forall>sid\<in>set ids. expirable (ks s) sid"
  shows "\<exists>s'. run exec (sweep_expired_setups_once env fb now) s = (Inr (length ids), s') \<and>
     (\<forall>m. map_of (k_zset (ks s') setup_expiry_index_key) m =
        (if m \<in> set ids then None else map_of (k_zset (ks s) setup_expiry_index_key) m)) \<and>
     (\<forall>m r. setup_at (ks s) m r \<longrightarrow>
        setup_at (ks s') m (if m \<in> set ids then swept_setup (ck_ts (ce_clock env)) r else r))"
proof -
  from redis.run_sweep_once[OF assms(1-5) assms(6,7), of fb] obtain s' where s':
    "run exec (sweep_expired_setups_once env fb now) s = (Inr (length ids), s')"
    "batch_done (ck_ts (ce_clock env)) (ks s) (set ids) (ks s')" by blast
  have "setup_at (ks s') m (if m \<in> set ids then swept_setup (ck_ts (ce_clock env)) r else r)" if "setup_at (ks s) m r" for m r
    using s'(2) that setup_at_cong[of "ks s'" m "ks s" r] by (simp add: batch_done_def)
  then show ?thesis using s' by (auto simp: batch_done_def)
qed

definition demo_due_store :: keyspace where
  "demo_due_store = [setup_key ''s1'' \<mapsto> VStr (Doc (setup_to_dict demo_setup)) None,
     setup_expiry_index_key \<mapsto> VZSet [(''s1'', 900), (''s9'', 950), (''s2'', 2000)]]"

lemma sweep_exact_witness:
  "\<exists>K. run mem_exec (sweep_expired_setups_once demo_cleanup_env False 1000) demo_due_store = (Inr 2, K) \<and>
     setup_at K ''s1'' (replace_setup demo_setup EXPIRED 1000 []) \<and> map_of (k_zset K setup_expiry_index_key) ''s2'' = Some 2000"
proof -
  have z: "k_zset demo_due_store setup_expiry_index_key = [(''s1'', 900), (''s9'', 950), (''s2'', 2000)]"
    "zset_key demo_due_store setup_expiry_index_key"
    by (simp_all add: demo_due_store_def k_zset_def zset_key_def)
  have h: "hash_key demo_due_store metrics_xau" by (simp add: demo_due_store_def hash_key_def)
  have ids: "[''s1'', ''s9''] = zrange_upto (k_zset demo_due_store setup_expiry_index_key) 1000 BATCH_SIZE"
    unfolding z(1) by code_simp
  have at: "setup_at demo_due_store ''s1'' demo_setup" by (simp add: demo_due_store_def setup_at_def k_text_def)
  have st: "sr_state demo_setup \<in> SETUP_STATES \<union> LEGACY_PRE_PLAN_STATES" "sr_state demo_setup \<notin> TERMINAL_STATES \<union> PUBLICATION_WON_STATES"
    "sr_setup_id demo_setup = ''s1''"
    by (simp_all add: demo_setup_def new_setup_def) (simp_all add: state_sets)
  have "setup_key ''s9'' \<noteq> setup_key ''s1''" by (simp add: setup_key_def)
  then have ex: "\<forall>sid\<in>set [''s1'', ''s9'']. expirable demo_due_store sid"
    using at st(1,3) by (auto simp: expirable_def demo_due_store_def)
  have d: "distinct (map fst (k_zset demo_due_store setup_expiry_index_key))" unfolding z(1) by simp
  have ck: "ck_ts (ce_clock demo_cleanup_env) = 1000" by (simp add: demo_cleanup_env_def demo_lifecycle_clock_def)
  have sw: "swept_setup 1000 demo_setup = replace_setup demo_setup EXPIRED 1000 []"
    using st(2) by (simp only: swept_setup_def if_False)
  from sweep_exact[where ks = "\<lambda>K. K" and fb = False, OF mem.redis_axioms demo_expired_facts(6) z(2) h d ids ex]
  obtain K where K: "run mem_exec (sweep_expired_setups_once demo_cleanup_env False 1000) demo_due_store = (Inr (length [''s1'', ''s9'']), K)"
    "map_of (k_zset K setup_expiry_index_key) ''s2'' =
       (if ''s2'' \<in> set [''s1'', ''s9''] then None else map_of (k_zset demo_due_store setup_expiry_index_key) ''s2'')"
    "setup_at demo_due_store ''s1'' demo_setup \<longrightarrow> setup_at K ''s1'' (if ''s1'' \<in> set [''s1'', ''s9''] then
       swept_setup (ck_ts (ce_clock demo_cleanup_env)) demo_setup else demo_setup)" by blast
  show ?thesis
    using K at sw unfolding ck z(1) by (intro exI[of _ K]) (simp add: numeral_2_eq_2)
qed

text \<open>C33. Setups that cannot be read stall the sweeper. Suppose the index holds at least two hundred due setups, of the
  two hundred that come first none has a record that parses, and the records of the scalp opportunities do parse (else the
  turn fails and sleeps). Then whatever number of turns the loop makes after that time, every one of them ends in
  \<open>continue\<close>: the sweeper never sleeps, the index and the setup records stay as they are, and no setup that comes later in
  the index is expired. This lasts as long as those two hundred records are stored (the server of the theorem drops no key):
  where a record has an expiry time, it ends when the record vanishes and its index member is removed as an orphan.\<close>

theorem unreadable_batch_stalls:
  assumes "redis exec ks" "zset_key (ks s) setup_expiry_index_key" "scalp_view (ks s) ''XAU'' recs"
    "ids = zrange_upto (k_zset (ks s) setup_expiry_index_key) now0 BATCH_SIZE" "length ids = BATCH_SIZE"
    "\<forall>sid\<in>set ids. \<exists>t e. ks s (setup_key sid) = Some (VStr t e) \<and> unreadable t"
    "\<forall>turn\<in>set turns. now0 \<le> fst (snd turn)"
  shows "\<exists>s'. run exec (setup_expiry_sweeper_loop True fb turns) s = (Inr (replicate (length turns) False), s') \<and>
     ks s' setup_expiry_index_key = ks s setup_expiry_index_key \<and> (\<forall>sid. ks s' (setup_key sid) = ks s (setup_key sid))"
proof -
  from redis.run_sweeper_turns[OF assms(1-3,7,4-6), of fb "[]"] obtain s' where
    "run exec (setup_expiry_sweeper_loop True fb turns) s = (Inr (replicate (length turns) False), s')"
    "\<forall>k. quiet_key k \<longrightarrow> ks s' k = ks s k" by (auto simp: setup_expiry_sweeper_loop_def)
  then show ?thesis by auto
qed

text \<open>Two hundred members with garbage records, and one later setup that is due and whose record is sound.\<close>

definition demo_bad_id :: "nat \<Rightarrow> string" where "demo_bad_id n = replicate (Suc n) CHR ''x''"

definition demo_bad_ids :: "string list" where "demo_bad_ids = map demo_bad_id [0..<200]"

definition demo_due_index :: "(string \<times> int) list" where
  "demo_due_index = map (\<lambda>n. (demo_bad_id n, int n)) [0..<200] @ [(''s1'', 950)]"

definition demo_stall_store :: keyspace where
  "demo_stall_store = (\<lambda>k. if k = setup_expiry_index_key then Some (VZSet demo_due_index)
     else if k \<in> set (map setup_key demo_bad_ids) then Some (VStr (Txt ''garbage'') None)
     else if k = setup_key ''s1'' then Some (VStr (Doc (setup_to_dict demo_setup)) None) else None)"

lemma demo_due_batch: "zrange_upto demo_due_index 1000 BATCH_SIZE = demo_bad_ids"
proof -
  let ?f = "\<lambda>(m :: string, s :: int). (s, m)"
  have all: "filter (\<lambda>(m, s). s \<le> 1000) demo_due_index = demo_due_index" by (auto simp: demo_due_index_def filter_id_conv)
  have "sorted (map (\<lambda>n. (int n, demo_bad_id n)) [0..<200])"
    unfolding sorted_map by (rule sorted_wrt_mono_rel[OF _ sorted_wrt_upt]) (simp add: less_eq_prod_def)
  note first = this
  have "sorted (map ?f demo_due_index)"
    using first by (auto simp: demo_due_index_def sorted_append comp_def less_eq_prod_def)
  then have "sort_key ?f demo_due_index = demo_due_index" by (rule sort_key_id_if_sorted)
  with all have "zrange_upto demo_due_index 1000 BATCH_SIZE = take 200 (map fst demo_due_index)"
    by (simp add: zrange_upto_def BATCH_SIZE_def)
  then show ?thesis by (simp add: demo_due_index_def demo_bad_ids_def comp_def)
qed

lemma unreadable_batch_stalls_witness:
  "\<exists>K. run mem_exec (setup_expiry_sweeper_loop True False [(demo_cleanup_env, 1000, 1000), (demo_cleanup_env, 1003, 1003)])
      demo_stall_store = (Inr [False, False], K) \<and> K (setup_key ''s1'') = demo_stall_store (setup_key ''s1'')"
proof -
  have z: "k_zset demo_stall_store setup_expiry_index_key = demo_due_index" "zset_key demo_stall_store setup_expiry_index_key"
    by (simp_all add: demo_stall_store_def k_zset_def zset_key_def)
  have v: "scalp_view demo_stall_store ''XAU'' (\<lambda>_. None)"
    by (auto simp: scalp_view_def scalp_at_def set_key_def demo_stall_store_def)
  have ids: "zrange_upto (k_zset demo_stall_store setup_expiry_index_key) 1000 BATCH_SIZE = demo_bad_ids"
    unfolding z(1) by (rule demo_due_batch)
  have len: "length (zrange_upto (k_zset demo_stall_store setup_expiry_index_key) 1000 BATCH_SIZE) = BATCH_SIZE"
    unfolding ids by (simp add: demo_bad_ids_def BATCH_SIZE_def)
  have bad: "\<forall>sid\<in>set (zrange_upto (k_zset demo_stall_store setup_expiry_index_key) 1000 BATCH_SIZE).
      \<exists>t e. demo_stall_store (setup_key sid) = Some (VStr t e) \<and> unreadable t"
    unfolding ids by (auto simp: demo_stall_store_def unreadable_def)
  let ?turns = "[(demo_cleanup_env, 1000, 1000), (demo_cleanup_env, 1003, 1003)]"
  have now: "\<forall>turn\<in>set ?turns. (1000 :: int) \<le> fst (snd turn)" by simp
  from unreadable_batch_stalls[where ks = "\<lambda>K. K" and fb = False, OF mem.redis_axioms z(2) v refl len bad now]
  show ?thesis by (auto simp: numeral_2_eq_2)
qed

end
