(* ===== verification/ScalpRisk.thy ===== *)
theory ScalpRisk
  imports RedisRuns
begin

text \<open>
  Risk controls of the scalping engine (\<open>app/scalping/risk.py\<close>): the counters of a symbol, the caps a
  decision is taken by, and the updates on fills, closes, trading days and reconciliation. Amounts in R are
  exact rationals. An attribute that the configuration lacks is \<open>None\<close>.
\<close>

section \<open>State\<close>

record risk_state =
  rk_daily_trades :: int
  rk_session_trades :: int
  rk_consecutive_losses :: int
  rk_last_loss_ts :: "int option"
  rk_open_positions :: int
  rk_daily_r :: rat
  rk_session_r :: rat
  rk_day_key :: string
  rk_session_key :: string
  rk_measured :: "(string \<times> json) list"
  rk_open_group_ids :: "string list"

definition new_risk_state :: risk_state where
  "new_risk_state = \<lparr>rk_daily_trades = 0, rk_session_trades = 0, rk_consecutive_losses = 0,
     rk_last_loss_ts = None, rk_open_positions = 0, rk_daily_r = 0, rk_session_r = 0, rk_day_key = [],
     rk_session_key = [], rk_measured = [], rk_open_group_ids = []\<rparr>"

definition rk_to_json :: "risk_state \<Rightarrow> json" where
  "rk_to_json st = JObj
     [(''consecutive_losses'', JInt (rk_consecutive_losses st)),
      (''daily_r'', JFloat (rk_daily_r st)),
      (''daily_trades'', JInt (rk_daily_trades st)),
      (''day_key'', JStr (rk_day_key st)),
      (''last_loss_ts'', j_opt_int (rk_last_loss_ts st)),
      (''measured'', JObj (rk_measured st)),
      (''open_group_ids'', JList (map JStr (rk_open_group_ids st))),
      (''open_positions'', JInt (rk_open_positions st)),
      (''session_key'', JStr (rk_session_key st)),
      (''session_r'', JFloat (rk_session_r st)),
      (''session_trades'', JInt (rk_session_trades st))]"

text \<open>\<open>int(data.get(k) or 0)\<close>, \<open>float(data.get(k) or 0.0)\<close>, \<open>str(data.get(k) or "")\<close>.\<close>

definition int_or_zero :: "json \<Rightarrow> string \<Rightarrow> int res" where
  "int_or_zero data k = res_bind (jget data k) (\<lambda>v. py_int (py_or v (JInt 0)))"

definition float_or_zero :: "json \<Rightarrow> string \<Rightarrow> rat res" where
  "float_or_zero data k = res_bind (jget data k) (\<lambda>v. py_float (py_or v (JFloat 0)))"

definition str_or_empty :: "json \<Rightarrow> string \<Rightarrow> string res" where
  "str_or_empty data k = res_bind (jget data k) (\<lambda>v. py_str (py_or v (JStr [])))"

definition rk_from_json :: "json \<Rightarrow> risk_state res" where
  "rk_from_json data =
     res_bind (res_bind (jget data ''open_group_ids'') str_tuple) (\<lambda>items.
     res_bind (int_or_zero data ''daily_trades'') (\<lambda>daily_trades.
     res_bind (int_or_zero data ''session_trades'') (\<lambda>session_trades.
     res_bind (int_or_zero data ''consecutive_losses'') (\<lambda>consecutive_losses.
     res_bind (res_bind (jget data ''last_loss_ts'') (opt_via py_int)) (\<lambda>last_loss_ts.
     res_bind (int_or_zero data ''open_positions'') (\<lambda>open_positions.
     res_bind (float_or_zero data ''daily_r'') (\<lambda>daily_r.
     res_bind (float_or_zero data ''session_r'') (\<lambda>session_r.
     res_bind (str_or_empty data ''day_key'') (\<lambda>day_key.
     res_bind (str_or_empty data ''session_key'') (\<lambda>session_key.
     res_bind (res_bind (jget data ''measured'') (\<lambda>v. py_dict (py_or v (JObj [])))) (\<lambda>measured.
     Inr \<lparr>rk_daily_trades = daily_trades, rk_session_trades = session_trades,
          rk_consecutive_losses = consecutive_losses, rk_last_loss_ts = last_loss_ts,
          rk_open_positions = open_positions, rk_daily_r = daily_r, rk_session_r = session_r,
          rk_day_key = day_key, rk_session_key = session_key, rk_measured = measured,
          rk_open_group_ids = filter (\<lambda>g. g \<noteq> []) (map str_strip items)\<rparr>)))))))))))"

definition risk_key :: "string \<Rightarrow> string" where
  "risk_key symbol = ''scalp:risk:'' @ str_upper symbol"

section \<open>Configuration\<close>

record risk_config =
  rc_risk_fraction_per_trade :: "rat option"
  rc_maximum_concurrent_positions :: "int option"
  rc_maximum_daily_trades :: "int option"
  rc_maximum_session_trades :: "int option"
  rc_maximum_consecutive_losses :: "int option"
  rc_cooldown_after_loss_minutes :: "int option"
  rc_daily_loss_limit_r :: "rat option"
  rc_session_loss_limit_r :: "rat option"
  rc_daily_rollover_utc_hour :: "int option"

definition risk_fraction :: "risk_config \<Rightarrow> rat" where
  "risk_fraction cfg = or_default (rc_risk_fraction_per_trade cfg) (1 / 10)"

definition max_losses :: "risk_config \<Rightarrow> int" where
  "max_losses cfg = or_default (rc_maximum_consecutive_losses cfg) 3"

definition loss_cooldown :: "risk_config \<Rightarrow> int" where
  "loss_cooldown cfg = or_default (rc_cooldown_after_loss_minutes cfg) 5 * 60"

section \<open>Decision\<close>

record scalp_decision =
  sd_allowed :: bool
  sd_hard_block :: bool
  sd_reason_code :: string
  sd_score :: rat
  sd_measured :: "(string \<times> json) list"

definition risk_measured :: "risk_state \<Rightarrow> risk_config \<Rightarrow> (string \<times> json) list" where
  "risk_measured st cfg =
     [(''daily_trades'', JInt (rk_daily_trades st)),
      (''session_trades'', JInt (rk_session_trades st)),
      (''consecutive_losses'', JInt (rk_consecutive_losses st)),
      (''open_positions'', JInt (rk_open_positions st)),
      (''daily_r'', JFloat (rk_daily_r st)),
      (''session_r'', JFloat (rk_session_r st)),
      (''risk_fraction'', JFloat (risk_fraction cfg))]"

definition evaluate_risk :: "risk_state \<Rightarrow> risk_config \<Rightarrow> string \<Rightarrow> int \<Rightarrow> scalp_decision" where
  "evaluate_risk st cfg session now =
     (let measured = risk_measured st cfg;
          deny = (\<lambda>reason. \<lparr>sd_allowed = False, sd_hard_block = True, sd_reason_code = reason, sd_score = 0,
                    sd_measured = measured\<rparr>) in
      if rk_open_positions st \<ge> or_default (rc_maximum_concurrent_positions cfg) 1
      then deny ''scalp_max_concurrent_positions''
      else if rk_daily_trades st \<ge> or_default (rc_maximum_daily_trades cfg) 30 then deny ''scalp_daily_trade_cap''
      else if rk_session_trades st \<ge> or_default (rc_maximum_session_trades cfg) 12 then deny ''scalp_session_trade_cap''
      else if rk_consecutive_losses st \<ge> max_losses cfg
      then (let cooled = (case rk_last_loss_ts st of None \<Rightarrow> True | Some t \<Rightarrow> now - t \<ge> loss_cooldown cfg)
            in if \<not> cooled then deny ''scalp_loss_streak_cooldown'' else deny ''scalp_loss_streak_active'')
      else if rk_daily_r st \<le> - \<bar>or_default (rc_daily_loss_limit_r cfg) 3\<bar> then deny ''scalp_daily_loss_limit''
      else if rk_session_r st \<le> - \<bar>or_default (rc_session_loss_limit_r cfg) 2\<bar> then deny ''scalp_session_loss_limit''
      else if session = ''rollover'' then deny ''scalp_session_rollover_block''
      else \<lparr>sd_allowed = True, sd_hard_block = False, sd_reason_code = ''scalp_risk_allowed'', sd_score = 1,
            sd_measured = measured\<rparr>)"

section \<open>Trading days\<close>

text \<open>\<open>date.isoformat()\<close> of a day counted from 1970-01-01; a day before it is outside the model.\<close>

definition leap :: "nat \<Rightarrow> bool" where
  "leap y \<longleftrightarrow> y mod 4 = 0 \<and> (y mod 100 \<noteq> 0 \<or> y mod 400 = 0)"

definition year_days :: "nat \<Rightarrow> nat" where
  "year_days y = (if leap y then 366 else 365)"

definition month_days :: "nat \<Rightarrow> nat list" where
  "month_days y = [31, if leap y then 29 else 28, 31, 30, 31, 30, 31, 31, 30, 31, 30, 31]"

function year_of :: "nat \<Rightarrow> nat \<Rightarrow> nat \<times> nat" where
  "year_of y d = (if d < year_days y then (y, d) else year_of (Suc y) (d - year_days y))"
  by pat_completeness auto
termination by (relation "measure snd") (auto simp: year_days_def)

fun month_of :: "nat list \<Rightarrow> nat \<Rightarrow> nat \<Rightarrow> nat \<times> nat" where
  "month_of [] m d = (m, d)"
| "month_of (n # ns) m d = (if d < n then (m, d) else month_of ns (Suc m) (d - n))"

definition civil_date :: "nat \<Rightarrow> nat \<times> nat \<times> nat" where
  "civil_date day =
     (let (y, d) = year_of 1970 day; (m, d') = month_of (month_days y) 1 d in (y, m, Suc d'))"

definition pad2 :: "nat \<Rightarrow> string" where
  "pad2 n = (if n < 10 then ''0'' else []) @ str_nat n"

definition isoformat :: "nat \<Rightarrow> string" where
  "isoformat day = (let (y, m, d) = civil_date day in str_nat y @ ''-'' @ pad2 m @ ''-'' @ pad2 d)"

definition trading_day :: "int \<Rightarrow> risk_config \<Rightarrow> int" where
  "trading_day now cfg = (now - or_default (rc_daily_rollover_utc_hour cfg) 21 * 3600) div 86400"

definition trading_day_key :: "int \<Rightarrow> risk_config \<Rightarrow> string" where
  "trading_day_key now cfg = isoformat (nat (trading_day now cfg))"

definition apply_daily_reset :: "risk_state \<Rightarrow> risk_config \<Rightarrow> int \<Rightarrow> string \<Rightarrow> risk_state" where
  "apply_daily_reset st cfg now session =
     (let day_key = trading_day_key now cfg;
          st1 = (if rk_day_key st \<noteq> day_key
                 then st\<lparr>rk_day_key := day_key, rk_daily_trades := 0, rk_daily_r := 0\<rparr> else st);
          session_key = day_key @ '':'' @ session
      in if rk_session_key st1 \<noteq> session_key
         then st1\<lparr>rk_session_key := session_key, rk_session_trades := 0, rk_session_r := 0\<rparr> else st1)"

section \<open>Exposure\<close>

definition normalize_group_id :: "string option \<Rightarrow> string option" where
  "normalize_group_id group_id =
     (let t = str_strip (case group_id of None \<Rightarrow> [] | Some g \<Rightarrow> g) in if t = [] then None else Some t)"

text \<open>An exposure is its \<open>group_id\<close> and its \<open>plan_id\<close>.\<close>

definition exposure_tokens :: "string option \<Rightarrow> string list" where
  "exposure_tokens raw =
     (case normalize_group_id raw of
        None \<Rightarrow> []
      | Some tok \<Rightarrow> [tok, if str_startswith tok ''v8:'' then drop 3 tok else ''v8:'' @ tok])"

definition live_exposure_ids :: "(string option \<times> string option) list \<Rightarrow> string set" where
  "live_exposure_ids exposures = (\<Union>(g, p)\<in>set exposures. set (exposure_tokens g) \<union> set (exposure_tokens p))"

definition reconcile_open_positions :: "risk_state \<Rightarrow> string set \<Rightarrow> risk_state" where
  "reconcile_open_positions st live =
     (if rk_open_group_ids st \<noteq> []
      then (let gids = filter (\<lambda>g. g \<in> live) (rk_open_group_ids st)
            in st\<lparr>rk_open_group_ids := gids, rk_open_positions := int (length gids)\<rparr>)
      else if live = {} then st\<lparr>rk_open_positions := 0\<rparr>
      else if rk_open_positions st > int (card live) then st\<lparr>rk_open_positions := int (card live)\<rparr>
      else st)"

definition apply_loss_streak_cooldown_reset :: "risk_state \<Rightarrow> risk_config \<Rightarrow> int \<Rightarrow> risk_state" where
  "apply_loss_streak_cooldown_reset st cfg now =
     (if rk_consecutive_losses st < max_losses cfg then st
      else (case rk_last_loss_ts st of
              None \<Rightarrow> st
            | Some t \<Rightarrow> if now - t < loss_cooldown cfg then st
                        else st\<lparr>rk_consecutive_losses := 0, rk_last_loss_ts := None\<rparr>))"

section \<open>Fills and closes\<close>

record outcome_result =
  or_state :: risk_state
  or_accrued_r :: "rat option"
  or_skipped_no_stop :: bool

record scalp_outcome =
  so_result_pips :: rat
  so_stop_pips :: "rat option"
  so_now :: int
  so_opened :: bool
  so_closed :: bool
  so_group_id :: "string option"
  so_r_multiple :: "rat option"

definition open_fill :: "risk_state \<Rightarrow> string option \<Rightarrow> risk_state" where
  "open_fill st gid =
     (let gids = rk_open_group_ids st @ (case gid of None \<Rightarrow> [] | Some g \<Rightarrow> [g])
      in st\<lparr>rk_open_group_ids := gids,
            rk_open_positions := (if gids \<noteq> [] then int (length gids) else max 0 (rk_open_positions st + 1)),
            rk_daily_trades := rk_daily_trades st + 1,
            rk_session_trades := rk_session_trades st + 1\<rparr>)"

definition known_group :: "risk_state \<Rightarrow> string option \<Rightarrow> bool" where
  "known_group st gid \<longleftrightarrow> (case gid of None \<Rightarrow> False | Some g \<Rightarrow> g \<in> set (rk_open_group_ids st))"

definition close_fill :: "risk_state \<Rightarrow> string option \<Rightarrow> risk_state" where
  "close_fill st gid =
     (if known_group st gid
      then (let gids = filter (\<lambda>item. Some item \<noteq> gid) (rk_open_group_ids st)
            in st\<lparr>rk_open_group_ids := gids, rk_open_positions := int (length gids)\<rparr>)
      else st\<lparr>rk_open_positions := max 0 (rk_open_positions st - 1)\<rparr>)"

definition accrue :: "risk_state \<Rightarrow> rat \<Rightarrow> int \<Rightarrow> risk_state" where
  "accrue st accrued now =
     (let st1 = st\<lparr>rk_daily_r := rk_daily_r st + accrued, rk_session_r := rk_session_r st + accrued\<rparr>
      in if accrued < 0
         then st1\<lparr>rk_consecutive_losses := rk_consecutive_losses st1 + 1, rk_last_loss_ts := Some now\<rparr>
         else st1\<lparr>rk_consecutive_losses := 0, rk_last_loss_ts := None\<rparr>)"

definition record_scalp_outcome :: "risk_state \<Rightarrow> scalp_outcome \<Rightarrow> outcome_result" where
  "record_scalp_outcome st x =
     (let gid = normalize_group_id (so_group_id x) in
      if so_opened x \<and> known_group st gid
      then \<lparr>or_state = st, or_accrued_r = None, or_skipped_no_stop = False\<rparr>
      else (let st1 = (if so_opened x then open_fill st gid else st) in
        if \<not> so_closed x then \<lparr>or_state = st1, or_accrued_r = None, or_skipped_no_stop = False\<rparr>
        else (let st2 = close_fill st1 gid;
                  risk_unit = (case so_stop_pips x of Some p \<Rightarrow> p | None \<Rightarrow> 0) in
          if so_r_multiple x = None \<and> risk_unit \<le> 0
          then \<lparr>or_state = st2, or_accrued_r = None, or_skipped_no_stop = True\<rparr>
          else (let accrued = (case so_r_multiple x of Some r \<Rightarrow> r | None \<Rightarrow> so_result_pips x / risk_unit)
                in \<lparr>or_state = accrue st2 accrued (so_now x), or_accrued_r = Some accrued,
                    or_skipped_no_stop = False\<rparr>))))"

section \<open>Storage\<close>

definition load_risk :: "string \<Rightarrow> risk_state prog" where
  "load_risk symbol =
     pbind (rget (risk_key symbol)) (\<lambda>raw.
     case raw of
       None \<Rightarrow> Done new_risk_state
     | Some t \<Rightarrow> of_res (res_bind (json_loads t) rk_from_json))"

definition save_risk :: "string \<Rightarrow> risk_state \<Rightarrow> unit prog" where
  "save_risk symbol st = run_cmd (SET (risk_key symbol) (Doc (rk_to_json st)) None False)"

section \<open>Lemmas\<close>

subsection \<open>Dates\<close>

lemma year_of_sum:
  "year_of y d = (y', d') \<Longrightarrow> y \<le> y' \<and> d = (\<Sum>i\<in>{y..<y'}. year_days i) + d'"
proof (induction y d rule: year_of.induct)
  case (1 y d)
  show ?case
  proof (cases "d < year_days y")
    case True
    then show ?thesis using "1.prems" by simp
  next
    case False
    then have "year_of (Suc y) (d - year_days y) = (y', d')"
      using "1.prems" by (simp del: year_of.simps add: year_of.simps[of y d])
    from "1.IH"[OF False this] have ih: "Suc y \<le> y'" "d - year_days y = (\<Sum>i\<in>{Suc y..<y'}. year_days i) + d'" by simp_all
    from ih(1) have "{y..<y'} = insert y {Suc y..<y'}" by auto
    then show ?thesis using ih False by simp
  qed
qed

declare year_of.simps [simp del]

lemma month_of_sum: "month_of ns m d = (m', d') \<Longrightarrow> m \<le> m' \<and> d = sum_list (take (m' - m) ns) + d'"
proof (induction ns m d rule: month_of.induct)
  case (2 n ns m d)
  then show ?case by (cases "d < n") (auto simp: Suc_diff_le take_Cons' split: if_splits)
qed simp

lemma civil_date_inject: "civil_date a = civil_date b \<Longrightarrow> a = b"
proof -
  assume eq: "civil_date a = civil_date b"
  obtain y d y' d' where y: "year_of 1970 a = (y, d)" "year_of 1970 b = (y', d')" by (meson surj_pair)
  obtain m e m' e' where m: "month_of (month_days y) 1 d = (m, e)" "month_of (month_days y') 1 d' = (m', e')"
    by (meson surj_pair)
  have "y = y'" "m = m'" "e = e'" using eq by (simp_all add: civil_date_def y m[unfolded One_nat_def])
  moreover from this have "d = d'" using month_of_sum[OF m(1)] month_of_sum[OF m(2)] by simp
  ultimately show ?thesis using year_of_sum[OF y(1)] year_of_sum[OF y(2)] by simp
qed

lemma str_nat_inject: "str_nat a = str_nat b \<Longrightarrow> a = b"
  by (metis option.inject parse_nat_str_nat)

lemma str_nat_char: "c \<in> set (str_nat n) \<Longrightarrow> is_digit c"
  using str_nat_digits[of n] by (auto simp: list_all_iff digit_char_props)

lemma pad2_inject: "pad2 a = pad2 b \<Longrightarrow> a = b"
proof -
  have "parse_nat (pad2 n) = Some n" for n
  proof (cases "n < 10")
    case True
    have p: "parse_nat (str_nat n) = Some n" by (rule parse_nat_str_nat)
    have "is_digit CHR ''0''" by (simp add: is_digit_def)
    then show ?thesis using p True by (auto simp: pad2_def parse_nat_def split: if_splits)
  qed (simp add: pad2_def parse_nat_str_nat)
  then show "pad2 a = pad2 b \<Longrightarrow> a = b" by (metis option.inject)
qed

lemma pad2_char: "c \<in> set (pad2 n) \<Longrightarrow> is_digit c"
  by (auto simp: pad2_def is_digit_def dest: str_nat_char split: if_splits)

lemma not_digit: "\<not> is_digit CHR ''-''" "\<not> is_digit CHR '':''"
  by (simp_all add: is_digit_def)

lemma isoformat_inject: "isoformat a = isoformat b \<Longrightarrow> a = b"
proof -
  assume eq: "isoformat a = isoformat b"
  obtain y m d y' m' d' where c: "civil_date a = (y, m, d)" "civil_date b = (y', m', d')" by (metis prod_cases3)
  have nd: "CHR ''-'' \<notin> set (str_nat n)" "CHR ''-'' \<notin> set (pad2 n)" for n
    using str_nat_char pad2_char not_digit by blast+
  have "str_nat y = str_nat y' \<and> pad2 m = pad2 m' \<and> pad2 d = pad2 d'"
    using eq nd by (simp add: isoformat_def c sep_eq)
  then have "civil_date a = civil_date b" using c str_nat_inject pad2_inject by simp
  then show "a = b" by (rule civil_date_inject)
qed

lemma isoformat_colon: "CHR '':'' \<notin> set (isoformat a)"
  using str_nat_char pad2_char not_digit
  by (auto simp: isoformat_def split: prod.splits)

lemma day_key_eq:
  "trading_day a cfg \<ge> 0 \<Longrightarrow> trading_day b cfg \<ge> 0 \<Longrightarrow>
   trading_day_key a cfg = trading_day_key b cfg \<longleftrightarrow> trading_day a cfg = trading_day b cfg"
  by (auto simp: trading_day_key_def dest!: isoformat_inject)

lemma session_key_eq:
  "trading_day_key a cfg @ CHR '':'' # x = trading_day_key b cfg @ CHR '':'' # y \<longleftrightarrow>
   trading_day_key a cfg = trading_day_key b cfg \<and> x = y"
  using isoformat_colon by (simp add: trading_day_key_def sep_eq)

subsection \<open>The invariant\<close>

definition group_ids_ok :: "string list \<Rightarrow> bool" where
  "group_ids_ok gids \<longleftrightarrow> distinct gids \<and> list_all (\<lambda>g. g \<noteq> [] \<and> str_strip g = g) gids"

definition risk_wf :: "risk_state \<Rightarrow> bool" where
  "risk_wf st \<longleftrightarrow>
     group_ids_ok (rk_open_group_ids st) \<and> 0 \<le> rk_open_positions st \<and> 0 \<le> rk_daily_trades st \<and>
     0 \<le> rk_session_trades st \<and> 0 \<le> rk_consecutive_losses st \<and>
     (rk_consecutive_losses st > 0 \<longrightarrow> rk_last_loss_ts st \<noteq> None) \<and>
     (rk_open_group_ids st \<noteq> [] \<longrightarrow> rk_open_positions st \<le> int (length (rk_open_group_ids st)))"

datatype risk_event =
    Outcome scalp_outcome
  | Day_reset int string
  | Streak_reset int
  | Reconcile "string set"

fun risk_step :: "risk_config \<Rightarrow> risk_state \<Rightarrow> risk_event \<Rightarrow> risk_state" where
  "risk_step cfg st (Outcome x) = or_state (record_scalp_outcome st x)"
| "risk_step cfg st (Day_reset now session) = apply_daily_reset st cfg now session"
| "risk_step cfg st (Streak_reset now) = apply_loss_streak_cooldown_reset st cfg now"
| "risk_step cfg st (Reconcile live) = reconcile_open_positions st live"

lemma normalized_group: "normalize_group_id g = Some x \<Longrightarrow> x \<noteq> [] \<and> str_strip x = x"
  by (auto simp: normalize_group_id_def Let_def strip_strip split: if_splits option.splits)

lemma group_ids_filter: "group_ids_ok gids \<Longrightarrow> group_ids_ok (filter P gids)"
  by (auto simp: group_ids_ok_def list_all_iff)

lemma open_fill_wf:
  "risk_wf st \<Longrightarrow> \<not> known_group st gid \<Longrightarrow> gid = normalize_group_id g \<Longrightarrow> risk_wf (open_fill st gid)"
  using normalized_group[of g]
  by (cases "normalize_group_id g") (auto simp: risk_wf_def open_fill_def known_group_def group_ids_ok_def Let_def)

lemma close_fill_wf: "risk_wf st \<Longrightarrow> risk_wf (close_fill st gid)"
  by (auto simp: risk_wf_def close_fill_def Let_def group_ids_filter)

lemma accrue_wf: "risk_wf st \<Longrightarrow> risk_wf (accrue st r now)"
  by (simp add: risk_wf_def accrue_def Let_def)

lemma outcome_wf: "risk_wf st \<Longrightarrow> risk_wf (or_state (record_scalp_outcome st x))"
  by (simp add: record_scalp_outcome_def Let_def open_fill_wf close_fill_wf accrue_wf)

lemma risk_step_wf: "risk_wf st \<Longrightarrow> risk_wf (risk_step cfg st e)"
proof (cases e)
  case (Day_reset now session)
  then show "risk_wf st \<Longrightarrow> ?thesis" by (simp add: risk_wf_def apply_daily_reset_def Let_def)
next
  case (Streak_reset now)
  then show "risk_wf st \<Longrightarrow> ?thesis"
    by (auto simp: risk_wf_def apply_loss_streak_cooldown_reset_def split: option.splits)
next
  case (Reconcile live)
  then show "risk_wf st \<Longrightarrow> ?thesis"
    by (auto simp: risk_wf_def reconcile_open_positions_def Let_def group_ids_filter)
qed (simp add: outcome_wf)

lemma risk_run_wf: "risk_wf st \<Longrightarrow> risk_wf (foldl (risk_step cfg) st es)"
  by (induction es arbitrary: st) (simp_all add: risk_step_wf)

lemma new_risk_wf: "risk_wf new_risk_state"
  by (simp add: risk_wf_def new_risk_state_def group_ids_ok_def)

lemma rk_roundtrip: "risk_wf st \<Longrightarrow> rk_from_json (rk_to_json st) = Inr st"
proof -
  assume wf: "risk_wf st"
  have "py_str (py_or (JStr x) (JStr [])) = Inr x" "py_dict (py_or (JObj kv) (JObj [])) = Inr kv"
    "py_int (py_or (JInt i) (JInt 0)) = Inr i" "py_float (py_or (JFloat q) (JFloat 0)) = Inr q" for x kv i q
    by (cases kv; simp add: py_or_def)+
  moreover have "filter (\<lambda>g. g \<noteq> []) (map str_strip (rk_open_group_ids st)) = rk_open_group_ids st"
  proof -
    have "map str_strip (rk_open_group_ids st) = rk_open_group_ids st"
      using wf by (intro map_idI) (auto simp: risk_wf_def group_ids_ok_def list_all_iff)
    then show ?thesis using wf by (auto simp: risk_wf_def group_ids_ok_def list_all_iff intro: filter_id_when)
  qed
  ultimately show ?thesis
    by (simp add: rk_from_json_def rk_to_json_def int_or_zero_def float_or_zero_def str_or_empty_def)
qed

subsection \<open>Groups\<close>

text \<open>The groups with an open position, by their ids, and the number of fills that opened one.\<close>

definition group_of :: "scalp_outcome \<Rightarrow> string" where
  "group_of x = the (normalize_group_id (so_group_id x))"

primrec book :: "string set \<Rightarrow> scalp_outcome list \<Rightarrow> string set" where
  "book G [] = G"
| "book G (x # xs) = book (if so_opened x then insert (group_of x) G else G - {group_of x}) xs"

primrec openings :: "string set \<Rightarrow> scalp_outcome list \<Rightarrow> nat" where
  "openings G [] = 0"
| "openings G (x # xs) = (if so_opened x \<and> group_of x \<notin> G then 1 else 0) +
     openings (if so_opened x then insert (group_of x) G else G - {group_of x}) xs"

text \<open>Every event names its group, is a fill or a close, and a close is for a group that is open.\<close>

primrec grouped :: "string set \<Rightarrow> scalp_outcome list \<Rightarrow> bool" where
  "grouped G [] = True"
| "grouped G (x # xs) \<longleftrightarrow>
     normalize_group_id (so_group_id x) \<noteq> None \<and> so_opened x = (\<not> so_closed x) \<and>
     (so_closed x \<longrightarrow> group_of x \<in> G) \<and>
     grouped (if so_opened x then insert (group_of x) G else G - {group_of x}) xs"

definition counts_groups :: "risk_state \<Rightarrow> string set \<Rightarrow> bool" where
  "counts_groups st G \<longleftrightarrow> distinct (rk_open_group_ids st) \<and> set (rk_open_group_ids st) = G \<and>
     rk_open_positions st = int (length (rk_open_group_ids st))"

lemma accrue_simps [simp]:
  "rk_open_group_ids (accrue st a now) = rk_open_group_ids st" "rk_open_positions (accrue st a now) = rk_open_positions st"
  "rk_daily_trades (accrue st a now) = rk_daily_trades st"
  by (simp_all add: accrue_def Let_def)

lemma group_fill:
  assumes "counts_groups st G" "normalize_group_id (so_group_id x) = Some g" "so_opened x" "\<not> so_closed x"
  shows "counts_groups (or_state (record_scalp_outcome st x)) (insert g G)"
    "rk_daily_trades (or_state (record_scalp_outcome st x)) = rk_daily_trades st + (if g \<in> G then 0 else 1)"
  using assms by (auto simp: counts_groups_def record_scalp_outcome_def Let_def known_group_def open_fill_def insert_absorb)

lemma group_close:
  assumes "counts_groups st G" "normalize_group_id (so_group_id x) = Some g" "\<not> so_opened x" "so_closed x" "g \<in> G"
  shows "counts_groups (or_state (record_scalp_outcome st x)) (G - {g})"
    "rk_daily_trades (or_state (record_scalp_outcome st x)) = rk_daily_trades st"
proof -
  have k: "known_group st (Some g)" using assms by (simp add: known_group_def counts_groups_def)
  have c: "counts_groups (close_fill st (Some g)) (G - {g})"
    using assms(1) k by (auto simp: counts_groups_def close_fill_def Let_def)
  have t: "rk_daily_trades (close_fill st (Some g)) = rk_daily_trades st" by (simp add: close_fill_def Let_def)
  have "counts_groups (accrue s a n) H = counts_groups s H" for s a n H by (simp add: counts_groups_def)
  then show "counts_groups (or_state (record_scalp_outcome st x)) (G - {g})"
    "rk_daily_trades (or_state (record_scalp_outcome st x)) = rk_daily_trades st"
    using c t assms(2-4) by (simp_all add: record_scalp_outcome_def Let_def)
qed

lemma groups_counted:
  "counts_groups st G \<Longrightarrow> grouped G xs \<Longrightarrow>
   counts_groups (foldl (\<lambda>s x. or_state (record_scalp_outcome s x)) st xs) (book G xs) \<and>
   rk_daily_trades (foldl (\<lambda>s x. or_state (record_scalp_outcome s x)) st xs) = rk_daily_trades st + int (openings G xs)"
proof (induction xs arbitrary: st G)
  case (Cons x xs)
  obtain g where g: "normalize_group_id (so_group_id x) = Some g" "group_of x = g"
    using Cons.prems(2) by (auto simp: group_of_def)
  show ?case
  proof (cases "so_opened x")
    case True
    then have "\<not> so_closed x" using Cons.prems(2) by simp
    note f = group_fill[OF Cons.prems(1) g(1) True this]
    from Cons.IH[OF f(1)] show ?thesis using Cons.prems(2) True g(2) f(2) by simp
  next
    case False
    then have "so_closed x" "g \<in> G" using Cons.prems(2) g(2) by simp_all
    note f = group_close[OF Cons.prems(1) g(1) False this]
    from Cons.IH[OF f(1)] show ?thesis using Cons.prems(2) False g(2) f(2) by simp
  qed
qed simp

section \<open>Properties\<close>

text \<open>C31. No sequence of fills, closes, day resets, streak resets and reconciliations spoils the
  ledger: the open groups are distinct normalized ids, no counter is negative, no more positions are
  counted than groups are open while one is, and a losing streak always carries the time of its last loss,
  so that a decision after the cooldown reset is never refused as a streak that no time can end.\<close>

theorem risk_invariant:
  fixes cfg es now session
  defines "st \<equiv> foldl (risk_step cfg) new_risk_state es"
  assumes "0 < max_losses cfg"
  shows "risk_wf st \<and>
    sd_reason_code (evaluate_risk (apply_loss_streak_cooldown_reset st cfg now) cfg session now)
      \<noteq> ''scalp_loss_streak_active''"
proof -
  have wf: "risk_wf st" unfolding st_def by (rule risk_run_wf[OF new_risk_wf])
  then have "rk_consecutive_losses st \<ge> max_losses cfg \<Longrightarrow> rk_last_loss_ts st \<noteq> None"
    using assms(2) by (simp add: risk_wf_def)
  with wf show ?thesis
    using assms(2) by (cases "rk_last_loss_ts st") (auto simp: evaluate_risk_def apply_loss_streak_cooldown_reset_def Let_def)
qed

definition demo_risk_config :: risk_config where
  "demo_risk_config = \<lparr>rc_risk_fraction_per_trade = None, rc_maximum_concurrent_positions = Some 2,
     rc_maximum_daily_trades = None, rc_maximum_session_trades = None, rc_maximum_consecutive_losses = Some 2,
     rc_cooldown_after_loss_minutes = Some 5, rc_daily_loss_limit_r = None, rc_session_loss_limit_r = None,
     rc_daily_rollover_utc_hour = None\<rparr>"

definition demo_fill :: "bool \<Rightarrow> string \<Rightarrow> rat \<Rightarrow> int \<Rightarrow> scalp_outcome" where
  "demo_fill opened g r now = \<lparr>so_result_pips = r, so_stop_pips = Some 10, so_now = now, so_opened = opened,
     so_closed = (\<not> opened), so_group_id = Some g, so_r_multiple = None\<rparr>"

lemma risk_invariant_witness:
  "risk_wf (foldl (risk_step demo_risk_config) new_risk_state
     [Outcome (demo_fill True ''g1'' 0 100), Outcome (demo_fill False ''g1'' (-5) 200)])"
proof -
  have "0 < max_losses demo_risk_config" by (simp add: max_losses_def or_default_def demo_risk_config_def)
  from risk_invariant[OF this] show ?thesis by blast
qed

text \<open>The gate, over a ledger as the operations leave it: after the cooldown reset a trade is allowed
  exactly when there is room for a position, the daily and session counts and losses are inside their limits, the session is not
  the rollover, and the losing streak is below its maximum or its cooldown is over. A
  refusal is a hard block with score zero, and the risk fraction reported depends on the configuration only,
  never on losses.\<close>

theorem risk_gate_exact:
  fixes st cfg now session
  defines "d \<equiv> evaluate_risk (apply_loss_streak_cooldown_reset st cfg now) cfg session now"
  assumes "risk_wf st" "0 < max_losses cfg"
  shows "(sd_allowed d \<longleftrightarrow>
      rk_open_positions st < or_default (rc_maximum_concurrent_positions cfg) 1 \<and>
      rk_daily_trades st < or_default (rc_maximum_daily_trades cfg) 30 \<and>
      rk_session_trades st < or_default (rc_maximum_session_trades cfg) 12 \<and>
      (rk_consecutive_losses st < max_losses cfg \<or>
       (\<exists>t. rk_last_loss_ts st = Some t \<and> t + loss_cooldown cfg \<le> now)) \<and>
      rk_daily_r st > - \<bar>or_default (rc_daily_loss_limit_r cfg) 3\<bar> \<and>
      rk_session_r st > - \<bar>or_default (rc_session_loss_limit_r cfg) 2\<bar> \<and> session \<noteq> ''rollover'') \<and>
    sd_hard_block d = (\<not> sd_allowed d) \<and> sd_score d = (if sd_allowed d then 1 else 0) \<and>
    map_of (sd_measured d) ''risk_fraction'' = Some (JFloat (risk_fraction cfg))"
proof -
  have t: "rk_consecutive_losses st \<ge> max_losses cfg \<Longrightarrow> \<exists>t. rk_last_loss_ts st = Some t"
    using assms(2,3) by (auto simp: risk_wf_def)
  note defs = evaluate_risk_def apply_loss_streak_cooldown_reset_def Let_def risk_measured_def
  consider (low) "rk_consecutive_losses st < max_losses cfg"
    | (held) t where "rk_consecutive_losses st \<ge> max_losses cfg" "rk_last_loss_ts st = Some t" "now - t < loss_cooldown cfg"
    | (served) t where "rk_consecutive_losses st \<ge> max_losses cfg" "rk_last_loss_ts st = Some t" "\<not> now - t < loss_cooldown cfg"
    using t by force
  then show ?thesis
  proof cases
    case low
    then show ?thesis unfolding d_def by (simp add: defs not_le)
  next
    case held
    then show ?thesis unfolding d_def by (simp add: defs not_le)
  next
    case served
    then have "t + loss_cooldown cfg \<le> now" by simp
    with served assms(3) show ?thesis unfolding d_def by (simp add: defs not_le)
  qed
qed

lemma risk_gate_exact_witness:
  "\<not> sd_allowed (evaluate_risk (apply_loss_streak_cooldown_reset
     (new_risk_state\<lparr>rk_consecutive_losses := 2, rk_last_loss_ts := Some 100\<rparr>) demo_risk_config 399) demo_risk_config ''london'' 399) \<and>
   sd_allowed (evaluate_risk (apply_loss_streak_cooldown_reset
     (new_risk_state\<lparr>rk_consecutive_losses := 2, rk_last_loss_ts := Some 100\<rparr>) demo_risk_config 400) demo_risk_config ''london'' 400)"
proof -
  let ?st = "new_risk_state\<lparr>rk_consecutive_losses := 2, rk_last_loss_ts := Some 100\<rparr>"
  have m: "0 < max_losses demo_risk_config" by (simp add: max_losses_def or_default_def demo_risk_config_def)
  have w: "risk_wf ?st" using new_risk_wf by (simp add: risk_wf_def new_risk_state_def)
  show ?thesis
    using risk_gate_exact[OF w m, of 399 "''london''"] risk_gate_exact[OF w m, of 400 "''london''"]
    by (simp add: max_losses_def loss_cooldown_def or_default_def demo_risk_config_def new_risk_state_def)
qed

text \<open>Clips of one group count once: as long as every fill and close names its group and closes name
  an open one, the ledger holds exactly the groups that are open, counts one position for each, and
  counts one trade of the day for each fill that opened a group - however many fills and closes a group
  reports.\<close>

theorem grouped_fills_count_once:
  assumes "risk_wf st" "rk_open_group_ids st = []" "rk_open_positions st = 0" "grouped {} xs"
  shows "let st' = foldl (\<lambda>s x. or_state (record_scalp_outcome s x)) st xs in
     set (rk_open_group_ids st') = book {} xs \<and> rk_open_positions st' = int (card (book {} xs)) \<and>
     rk_daily_trades st' = rk_daily_trades st + int (openings {} xs)"
proof -
  have "counts_groups st {}" using assms by (simp add: counts_groups_def)
  from groups_counted[OF this assms(4)] show ?thesis
    using distinct_card by (fastforce simp: Let_def counts_groups_def)
qed

lemma grouped_fills_count_once_witness:
  "rk_open_positions (foldl (\<lambda>s x. or_state (record_scalp_outcome s x)) new_risk_state
     [demo_fill True ''g1'' 0 100, demo_fill True ''g1 '' 0 101, demo_fill True ''g2'' 0 102, demo_fill False ''g1'' 5 103]) = 1"
proof -
  let ?xs = "[demo_fill True ''g1'' 0 100, demo_fill True ''g1 '' 0 101, demo_fill True ''g2'' 0 102, demo_fill False ''g1'' 5 103]"
  have g: "normalize_group_id (Some ''g1'') = Some ''g1''" "normalize_group_id (Some ''g1 '') = Some ''g1''"
    "normalize_group_id (Some ''g2'') = Some ''g2''" by code_simp+
  have gr: "grouped {} ?xs" by (simp add: demo_fill_def g group_of_def)
  have b: "book {} ?xs = {''g2''}" by (auto simp: demo_fill_def g group_of_def)
  have s: "rk_open_group_ids new_risk_state = []" "rk_open_positions new_risk_state = 0"
    by (simp_all add: new_risk_state_def)
  from grouped_fills_count_once[OF new_risk_wf s gr] show ?thesis unfolding b Let_def by simp
qed

text \<open>The day reset, on a ledger it was applied to before: at a later instant of the same trading day
  (counted from the rollover hour) and the same session nothing changes; in another session of that day
  only the session's trades and R start anew; on another trading day both the day's and the session's do.
  Losing streak and open positions are never touched.\<close>

theorem daily_reset_exact:
  assumes "0 \<le> trading_day now1 cfg" "0 \<le> trading_day now2 cfg"
    "rk_day_key st = rk_day_key (apply_daily_reset st0 cfg now1 session1)"
    "rk_session_key st = rk_session_key (apply_daily_reset st0 cfg now1 session1)"
  shows "let st' = apply_daily_reset st cfg now2 session2 in
    (trading_day now1 cfg = trading_day now2 cfg \<and> session1 = session2 \<longrightarrow> st' = st) \<and>
    (trading_day now1 cfg = trading_day now2 cfg \<and> session1 \<noteq> session2 \<longrightarrow>
       rk_daily_trades st' = rk_daily_trades st \<and> rk_daily_r st' = rk_daily_r st \<and>
       rk_session_trades st' = 0 \<and> rk_session_r st' = 0) \<and>
    (trading_day now1 cfg \<noteq> trading_day now2 cfg \<longrightarrow>
       rk_daily_trades st' = 0 \<and> rk_daily_r st' = 0 \<and> rk_session_trades st' = 0 \<and> rk_session_r st' = 0) \<and>
    rk_consecutive_losses st' = rk_consecutive_losses st \<and> rk_last_loss_ts st' = rk_last_loss_ts st \<and>
    rk_open_positions st' = rk_open_positions st \<and> rk_open_group_ids st' = rk_open_group_ids st"
proof -
  have keys: "rk_day_key st = trading_day_key now1 cfg" "rk_session_key st = trading_day_key now1 cfg @ '':'' @ session1"
    using assms(3,4) by (simp_all add: apply_daily_reset_def Let_def)
  note eqs = day_key_eq[OF assms(1,2)] session_key_eq
  show ?thesis
    by (simp add: Let_def apply_daily_reset_def keys eqs)
qed

lemma daily_reset_exact_witness:
  "rk_daily_r (apply_daily_reset ((apply_daily_reset new_risk_state demo_risk_config 161999 ''ny'')\<lparr>rk_daily_r := -3\<rparr>)
     demo_risk_config 162000 ''ny'') = 0"
proof -
  let ?st = "(apply_daily_reset new_risk_state demo_risk_config 161999 ''ny'')\<lparr>rk_daily_r := -3\<rparr>"
  have d: "trading_day 161999 demo_risk_config = 0" "trading_day 162000 demo_risk_config = 1"
    by (simp_all add: trading_day_def or_default_def demo_risk_config_def)
  have k: "rk_day_key ?st = rk_day_key (apply_daily_reset new_risk_state demo_risk_config 161999 ''ny'')"
    "rk_session_key ?st = rk_session_key (apply_daily_reset new_risk_state demo_risk_config 161999 ''ny'')" by simp_all
  from daily_reset_exact[OF _ _ k, of 162000 "''ny''"] show ?thesis by (simp add: d Let_def)
qed

text \<open>The ledger is read back as it was saved, and a symbol without one starts empty.\<close>

theorem risk_persists:
  assumes "redis exec ks" "str_key (ks s) (risk_key symbol)" "risk_wf st"
  shows "fst (run exec (pbind (save_risk symbol st) (\<lambda>_. load_risk symbol)) s) = Inr st \<and>
    (ks s (risk_key symbol) = None \<longrightarrow> fst (run exec (load_risk symbol) s) = Inr new_risk_state)"
proof -
  have k: "str_key (ks (snd (exec (SET (risk_key symbol) (Doc (rk_to_json st)) None False) s))) (risk_key symbol)"
    "k_text (ks (snd (exec (SET (risk_key symbol) (Doc (rk_to_json st)) None False) s))) (risk_key symbol) = Some (Doc (rk_to_json st))"
    by (simp_all add: redis.ks_write[OF assms(1)] k_text_def)
  have n: "ks s (risk_key symbol) = None \<Longrightarrow> k_text (ks s) (risk_key symbol) = None" by (simp add: k_text_def)
  show ?thesis
    by (auto simp: load_risk_def save_risk_def redis.run_set[OF assms(1)] redis.run_get[OF assms(1) k(1)] k(2)
        redis.run_get[OF assms(1,2)] n rk_roundtrip[OF assms(3)])
qed

lemma risk_persists_witness:
  "fst (run mem_exec (pbind (save_risk ''xau'' new_risk_state) (\<lambda>_. load_risk ''xau'')) Map.empty) = Inr new_risk_state"
  using risk_persists[where ks = "\<lambda>K. K" and s = Map.empty, OF mem.redis_axioms _ new_risk_wf]
  by (simp add: str_key_def)

text \<open>A close that names no open group lowers the count below the open groups, and an anonymous fill beside
  open groups is not counted.\<close>

lemma unknown_close_undercounts:
  "let st = foldl (\<lambda>s x. or_state (record_scalp_outcome s x)) new_risk_state
      [demo_fill True ''g1'' 0 100, demo_fill True ''g2'' 0 101, demo_fill False ''g9'' 5 102] in
   rk_open_group_ids st = [''g1'', ''g2''] \<and> rk_open_positions st = 1 \<and>
   sd_allowed (evaluate_risk st demo_risk_config ''london'' 200)"
  by code_simp

end
