(* ===== verification/Spec2Isabelle.thy ===== *)
theory Spec2Isabelle
  imports SetupLifecycle ZoneWatch StrategyNames StrategyRegistry StrategyMatch EntryLocation
    EntryActivation ExecutionConfirmation TradePlanStream PyDecimal TradePlan TradePlanBuilder
    ExecutionRoute TargetRoom ProtectiveStop ScaleInSizing ZoneGeometry ChartStructure Triggers
    Actionability ActiveExposure SetupAggregate CandidateExecution Arbitration LifecycleEvents
    RouteOutcome ScalpLifecycle FormingCard TerminalCleanup ExpirySweeper ScalpRisk Killzone
begin

text \<open>
  Verification development of the algo-bot (\<open>src/algo-bot/app\<close>), a service that detects trade setups,
  follows them through their life, and publishes at most one trade plan for each to a broker executor.

  \<^bold>\<open>How the program works.\<close> Coroutines of several workers share one Redis server; what one process
  knows of another is what it reads there. A scanner creates setups (\<open>autotrade/setup_lifecycle.py\<close>)
  and watches price zones (\<open>autotrade/zone_watch.py\<close>); a worker arms a zone on a touch, confirms the
  entry (\<open>execution_confirmation.py\<close>), lets competing intents be arbitrated (\<open>arbitration.py\<close>),
  publishes the plan (\<open>trade_plan_stream.py\<close>) and records why a match did not get that far
  (\<open>route_outcome.py\<close>, \<open>lifecycle.py\<close>). \<open>setup_execution_aggregate.py\<close> combines these records into the
  one status a user sees, and the sweepers retire what nobody touches again.

  \<^bold>\<open>How it is modelled.\<close>
  \<^item> \<open>PyPrelude\<close>: the Python primitives. An exception is a value of \<open>exn\<close>, of which the text is reduced to
    a tag; a finite float is the rational it denotes; strings are ASCII in everything that is parsed.
  \<^item> \<open>RedisModel\<close>: the commands and Lua scripts the sources send, each with its effect on a
    keyspace (\<open>kstep\<close>), and coroutines as programs (\<open>prog\<close>) that issue one command after the other.
    Expiry times are stored; a key may vanish between two commands only where a theorem says so. The length
    bound of a stream is not modelled. The scripts are translated from their Lua text in the sources.
  \<^item> \<open>RedisRuns\<close>: the server is a parameter. Locale \<open>redis_any\<close> allows lost requests and
    replies, locale \<open>redis\<close> is a server without faults; \<open>mem\<close> interprets it on the keyspace itself.
    \<open>istep\<close> and \<open>sched\<close> interleave any number of coroutines command by command.

  One theory for each part, in the order of the sources:
  \<^item> \<open>SetupLifecycle\<close>: \<open>autotrade/setup_lifecycle.py\<close>. The state graph, the
    record, storage with the expiry index, and the creation, transition, expiry, re-arm and thesis-claim
    coroutines.
  \<^item> \<open>ZoneWatch\<close>: \<open>autotrade/zone_watch.py\<close>. The zone record, the
    compare-and-swap save, every mutator, discovery, index rebuild and listing.
  \<^item> \<open>StrategyNames\<close>: \<open>autotrade/strategy_names.py\<close> and
    \<open>strategy_taxonomy.py\<close>. The table of names, its validation and resolution.
  \<^item> \<open>StrategyRegistry\<close>: \<open>autotrade/strategy_registry.py\<close>. The table of
    strategies with families, archetypes and switches, and its lookups.
  \<^item> \<open>StrategyMatch\<close>: \<open>autotrade/strategy_match.py\<close> with
    \<open>analysis/execution_eligibility.py\<close>. The match of a detector, its identity and its stored
    form.
  \<^item> \<open>EntryLocation\<close>: \<open>analysis/entry_location.py\<close>. The position of an entry
    in its dealing range and what each archetype may do there.
  \<^item> \<open>EntryActivation\<close>: \<open>autotrade/entry_activation.py\<close>. The trigger gate of
    a zone entry.
  \<^item> \<open>ExecutionConfirmation\<close>: \<open>autotrade/execution_confirmation.py\<close>. The
    confirmation state, the policy, quote-in-zone and chase evidence.
  \<^item> \<open>TradePlanStream\<close>: \<open>autotrade/trade_plan_stream.py\<close>. Publication by
    script, its fallback, and reads.
  \<^item> \<open>PyDecimal\<close>: finite decimals of the \<open>decimal\<close> module: text, value, sums
    in the default context.
  \<^item> \<open>TradePlan\<close>: \<open>autotrade/trade_plan.py\<close>. The plan document, its parser
    and its safety checks, and what is read after a publication.
  \<^item> \<open>TradePlanBuilder\<close>: \<open>autotrade/trade_plan_builder.py\<close>. From a confirmed
    match and what the policy measured to the checked plan.
  \<^item> \<open>ExecutionRoute\<close>: \<open>autotrade/execution_route.py\<close>. How a zone is
    entered, and that the plan builder takes every valid route.
  \<^item> \<open>TargetRoom\<close>: \<open>autotrade/structural_target_room.py\<close>. The room between a
    planned entry and the opposing structure, and when it blocks.
  \<^item> \<open>ProtectiveStop\<close>: \<open>autotrade/protective_stop.py\<close>. Where the stop of a
    leg and the common stop of a group lie, and how lots are split.
  \<^item> \<open>ScaleInSizing\<close>: \<open>autotrade/scale_in_sizing.py\<close>. The size of an
    addition to a position.
  \<^item> \<open>ZoneGeometry\<close>: \<open>analysis/zones.py\<close>. How zones arise on the chart, are
    touched, merged, scored and reconciled.
  \<^item> \<open>ChartStructure\<close>: \<open>analysis/swings.py\<close>, \<open>structure.py\<close>,
    \<open>levels.py\<close>, \<open>liquidity.py\<close>, \<open>dealing_range.py\<close>,
    \<open>fibonacci.py\<close> and \<open>session_liquidity.py\<close>. What zones and signals are made of,
    and that it does not look ahead.
  \<^item> \<open>Triggers\<close>: \<open>analysis/m1_trigger.py\<close>, \<open>key_level_role.py\<close>,
    \<open>regime.py\<close> and \<open>momentum.py\<close>. The candles that trigger an entry, and what
    closed bars say of a level, a box and the momentum.
  \<^item> \<open>Actionability\<close>: \<open>analysis/actionability.py\<close>. Which of the observed
    setups may be executed, judged one by one and resolved together.
  \<^item> \<open>ActiveExposure\<close>: \<open>autotrade/active_exposure.py\<close>. What both executor
    books hold, and the gate for a new plan.
  \<^item> \<open>SetupAggregate\<close>: \<open>autotrade/setup_execution_aggregate.py\<close>. The
    authoritative read and its tables.
  \<^item> \<open>CandidateExecution\<close>: \<open>autotrade/candidate_execution_state.py\<close>. The
    record of a candidate, its parser for all formats in use, and compatibility.
  \<^item> \<open>Arbitration\<close>: \<open>autotrade/arbitration.py\<close>. Ranking and one-direction
    selection.
  \<^item> \<open>LifecycleEvents\<close>: \<open>autotrade/lifecycle.py\<close>. The event pipeline and the
    metrics.
  \<^item> \<open>RouteOutcome\<close>: \<open>autotrade/route_outcome.py\<close>. The outcome of an
    execution route with its history, announcement and metric.
  \<^item> \<open>ScalpLifecycle\<close>: \<open>scalping/lifecycle.py\<close>. States of an M1 opportunity,
    storage with the active set, pruning.
  \<^item> \<open>FormingCard\<close>: \<open>autotrade/setup_card.py\<close>, its storage part. The card,
    its status with a priority, the pending marker, and the closing of a card.
  \<^item> \<open>TerminalCleanup\<close>: \<open>autotrade/terminal_cleanup.py\<close>. What follows a
    terminal transition.
  \<^item> \<open>ExpirySweeper\<close>: \<open>autotrade/setup_expiry_sweeper.py\<close>. Batches of due
    setups, the sweep of armed scalps, and the loop of both.
  \<^item> \<open>ScalpRisk\<close>: \<open>scalping/risk.py\<close>. Caps and counters of the scalping
    engine.
  \<^item> \<open>Killzone\<close>: \<open>autotrade/killzone.py\<close>. Session windows.

  \<^bold>\<open>What the lemmas show.\<close> For each stored record: the JSON form is read back as written; every operation is
  refined by a short specification on the keyspace (\<open>transition_spec\<close>, \<open>store_setup\<close>, \<open>zone_step\<close>); an
  invariant links the records to their indexes and every operation keeps it; where operations of
  several workers interleave, each atomic step is a legal move of the state graph. The remaining races are
  stated as theorems too (\<open>create_race_resurrects\<close>, \<open>listing_race_hides_zone\<close>).

  \<^bold>\<open>Conventions and bounds.\<close> The wall clock is an argument \<open>now\<close>; \<open>fallback\<close> says that the client permits the
  non-atomic path of the tests; hashes and random ids are arguments. A
  mutation of a zone is tried twelve times (\<open>MAX_CAS_RETRIES\<close>), which is the bound of the code itself, a
  history keeps 100 events, a sweep takes 200 members; the sweeper's endless loop runs one turn for
  each of the clock readings it is given; no other fuel is used, every definition terminates structurally.

  \<^bold>\<open>Not modelled.\<close> The worker, delivery and scanner orchestration; the technique detectors, the market map and
  the scalp ranges, which sit on top of the modelled zone, structure and trigger functions and read data frames
  with missing values; the SQL store, configuration loading, the text of Telegram cards and Telegram itself, and
  the C# executor. The components listed as not modelled in the manifest say why.
\<close>

end
